(* ===== verification/Prelude.thy ===== *)
theory Prelude
  imports Main "HOL-Library.Sublist"
begin

text \<open>
  Shared vocabulary of the development: results as sums, the checked integer
  operations of the source's \<open>u64\<close> and of SQLite's \<open>i64\<close> columns, SQL tables as
  lists of rows with the statements the engine issues on them, and two
  interfaces that several components instantiate: a table whose rows carry a
  key that updates keep, and a machine whose steps may be refused.
\<close>

named_theorems result_simps \<open>evaluation of the result combinators\<close>
named_theorems row_simps \<open>statements on tables: what they return and what they keep\<close>

subsection \<open>Results\<close>

text \<open>
  A Rust \<open>Result<T, E>\<close> is \<open>'e + 'a\<close>, with \<open>Inl\<close> for \<open>Err\<close>. \<open>bindE\<close> is the
  question mark operator: the error leaves the function at once.
\<close>

definition bindE :: "'e + 'a \<Rightarrow> ('a \<Rightarrow> 'e + 'b) \<Rightarrow> 'e + 'b" where
  "bindE m f = (case m of Inl e \<Rightarrow> Inl e | Inr x \<Rightarrow> f x)"

definition map_err :: "('e \<Rightarrow> 'f) \<Rightarrow> 'e + 'a \<Rightarrow> 'f + 'a" where
  "map_err g m = (case m of Inl e \<Rightarrow> Inl (g e) | Inr x \<Rightarrow> Inr x)"

definition ok_or :: "'e \<Rightarrow> 'a option \<Rightarrow> 'e + 'a" where
  "ok_or e m = (case m of None \<Rightarrow> Inl e | Some x \<Rightarrow> Inr x)"

definition is_ok :: "'e + 'a \<Rightarrow> bool" where
  "is_ok m = (case m of Inl _ \<Rightarrow> False | Inr _ \<Rightarrow> True)"

lemma bindE_simps [simp, result_simps]:
  "bindE (Inl e) f = Inl e"
  "bindE (Inr x) f = f x"
  by (simp_all add: bindE_def)

lemma map_err_simps [simp, result_simps]:
  "map_err g (Inl e) = Inl (g e)"
  "map_err g (Inr x) = Inr x"
  by (simp_all add: map_err_def)

lemma ok_or_simps [simp, result_simps]:
  "ok_or e None = Inl e"
  "ok_or e (Some x) = Inr x"
  by (simp_all add: ok_or_def)

lemma is_ok_simps [simp]: "\<not> is_ok (Inl e)" "is_ok (Inr x)"
  by (simp_all add: is_ok_def)

lemma bindE_eq_Inr [simp, result_simps]:
  "bindE m f = Inr y \<longleftrightarrow> (\<exists>x. m = Inr x \<and> f x = Inr y)"
  by (cases m) auto

lemma map_err_eq_Inr [simp, result_simps]: "map_err g m = Inr y \<longleftrightarrow> m = Inr y"
  by (cases m) auto

lemma ok_or_eq_Inr [simp, result_simps]: "ok_or e m = Inr y \<longleftrightarrow> m = Some y"
  by (cases m) auto

lemma if_err_eq_Inr [simp, result_simps]:
  "(if c then Inl e else m) = Inr y \<longleftrightarrow> \<not> c \<and> m = Inr y"
  "(if c then m else Inl e) = Inr y \<longleftrightarrow> c \<and> m = Inr y"
  by auto

lemma bindE_assoc: "bindE (bindE m f) g = bindE m (\<lambda>x. bindE (f x) g)"
  by (cases m) auto

subsection \<open>Checked integers\<close>

text \<open>
  \<open>u64\<close> and \<open>u32\<close> values are naturals below the type's bound; the operations that can
  leave the range say so. \<open>to_i64_fits\<close> is the range test of the SQLite binding.
\<close>

definition u64_bound :: nat where "u64_bound = 2 ^ 64"

definition i64_bound :: nat where "i64_bound = 2 ^ 63"

definition checked_add :: "nat \<Rightarrow> nat \<Rightarrow> nat option" where
  "checked_add a b = (if a + b < u64_bound then Some (a + b) else None)"

definition saturating_sub :: "nat \<Rightarrow> nat \<Rightarrow> nat" where
  "saturating_sub a b = a - b"

lemma checked_add_Some [simp]:
  "checked_add a b = Some c \<longleftrightarrow> c = a + b \<and> a + b < u64_bound"
  by (auto simp: checked_add_def)

lemma checked_add_None: "checked_add a b = None \<longleftrightarrow> u64_bound \<le> a + b"
  by (auto simp: checked_add_def)

subsection \<open>Tables\<close>

text \<open>
  A table is the list of its rows in \<open>rowid\<close> order. \<open>sql_update\<close> is
  \<open>UPDATE .. SET .. WHERE\<close>, \<open>sql_changes\<close> the number of rows it reports,
  \<open>sql_delete\<close> is \<open>DELETE .. WHERE\<close>, \<open>sql_insert\<close> refuses a row that violates a
  primary key or a unique constraint.
\<close>

definition sql_update :: "('r \<Rightarrow> bool) \<Rightarrow> ('r \<Rightarrow> 'r) \<Rightarrow> 'r list \<Rightarrow> 'r list" where
  "sql_update P f rows = map (\<lambda>r. if P r then f r else r) rows"

definition sql_changes :: "('r \<Rightarrow> bool) \<Rightarrow> 'r list \<Rightarrow> nat" where
  "sql_changes P rows = length (filter P rows)"

definition sql_delete :: "('r \<Rightarrow> bool) \<Rightarrow> 'r list \<Rightarrow> 'r list" where
  "sql_delete P rows = filter (\<lambda>r. \<not> P r) rows"

definition sql_exists :: "('r \<Rightarrow> bool) \<Rightarrow> 'r list \<Rightarrow> bool" where
  "sql_exists P rows = list_ex P rows"

definition sql_insert :: "'e \<Rightarrow> ('r \<Rightarrow> bool) \<Rightarrow> 'r \<Rightarrow> 'r list \<Rightarrow> 'e + 'r list" where
  "sql_insert e clash r rows = (if list_ex clash rows then Inl e else Inr (rows @ [r]))"

lemma sql_exists_iff [simp, row_simps]: "sql_exists P rows \<longleftrightarrow> (\<exists>r \<in> set rows. P r)"
  by (simp add: sql_exists_def list_ex_iff)

lemma sql_insert_eq_Inr [simp, row_simps]:
  "sql_insert e clash r rows = Inr rows' \<longleftrightarrow> (\<forall>x \<in> set rows. \<not> clash x) \<and> rows' = rows @ [r]"
  by (auto simp: sql_insert_def list_ex_iff)

lemma sql_update_Nil [simp]: "sql_update P f [] = []"
  by (simp add: sql_update_def)

lemma sql_update_Cons [simp]:
  "sql_update P f (r # rows) = (if P r then f r else r) # sql_update P f rows"
  by (simp add: sql_update_def)

lemma sql_update_append [simp]:
  "sql_update P f (xs @ ys) = sql_update P f xs @ sql_update P f ys"
  by (simp add: sql_update_def)

lemma set_sql_update [row_simps]:
  "set (sql_update P f rows) = (\<lambda>r. if P r then f r else r) ` set rows"
  by (auto simp: sql_update_def)

lemma sql_update_unchanged: "\<forall>r \<in> set rows. \<not> P r \<Longrightarrow> sql_update P f rows = rows"
  by (induction rows) auto

lemma sql_update_twice:
  "(\<And>r. P (f r) = P r) \<Longrightarrow> sql_update P g (sql_update P f rows) = sql_update P (\<lambda>r. g (f r)) rows"
  by (induction rows) auto

lemma set_sql_delete [simp, row_simps]: "set (sql_delete P rows) = {r \<in> set rows. \<not> P r}"
  by (auto simp: sql_delete_def)

lemma sql_changes_zero: "sql_changes P rows = 0 \<longleftrightarrow> (\<forall>r \<in> set rows. \<not> P r)"
  by (auto simp: sql_changes_def filter_empty_conv)

lemma sql_changes_pos: "sql_changes P rows = Suc n \<Longrightarrow> \<exists>r \<in> set rows. P r"
  by (metis nat.distinct(1) sql_changes_zero)

lemma find_Some_in: "find P rows = Some r \<Longrightarrow> r \<in> set rows \<and> P r"
  by (auto simp: find_Some_iff)

lemma find_None_all: "find P rows = None \<longleftrightarrow> (\<forall>r \<in> set rows. \<not> P r)"
  by (auto simp: find_None_iff)

lemma find_append:
  "find P (xs @ ys) = (case find P xs of None \<Rightarrow> find P ys | Some x \<Rightarrow> Some x)"
  by (induction xs) auto

lemma find_map: "find P (map f xs) = map_option f (find (\<lambda>x. P (f x)) xs)"
  by (induction xs) auto

lemma find_cong: "(\<And>x. x \<in> set xs \<Longrightarrow> P x = Q x) \<Longrightarrow> find P xs = find Q xs"
  by (induction xs) auto

lemma find_delete_other:
  "(\<And>r. Q r \<Longrightarrow> \<not> P r) \<Longrightarrow> find Q (sql_delete P rows) = find Q rows"
  by (induction rows) (auto simp: sql_delete_def)

lemma find_update_key:
  assumes "\<And>r. Q (f r) = Q r"
  shows "find Q (sql_update P f rows) = map_option (\<lambda>r. if P r then f r else r) (find Q rows)"
  by (induction rows) (auto simp: assms)

subsection \<open>Interface: a keyed table\<close>

text \<open>
  Every table of the store has a key column that no \<open>UPDATE\<close> of the engine
  assigns. Under that law the keys stay distinct, a lookup by key finds the row
  exactly when its key is present, and an update of other rows is invisible to it.
\<close>

locale keyed_table =
  fixes key :: "'r \<Rightarrow> 'k"
    and upd :: "'r \<Rightarrow> 'r"
  assumes key_upd: "key (upd r) = key r"
begin

lemma keys_update: "map key (sql_update P upd rows) = map key rows"
  by (induction rows) (auto simp: key_upd)

lemma distinct_update: "distinct (map key rows) \<Longrightarrow> distinct (map key (sql_update P upd rows))"
  by (simp add: keys_update)

lemma find_update_same:
  "find (\<lambda>r. key r = k) (sql_update P upd rows) =
     map_option (\<lambda>r. if P r then upd r else r) (find (\<lambda>r. key r = k) rows)"
  by (induction rows) (auto simp: key_upd)

lemma find_update_other:
  assumes "\<And>r. key r = k \<Longrightarrow> \<not> P r"
  shows "find (\<lambda>r. key r = k) (sql_update P upd rows) = find (\<lambda>r. key r = k) rows"
proof -
  have "find (\<lambda>r. key r = k) (sql_update P upd rows)
      = map_option (\<lambda>r. if P r then upd r else r) (find (\<lambda>r. key r = k) rows)"
    by (rule find_update_same)
  also have "\<dots> = find (\<lambda>r. key r = k) rows"
  proof (cases "find (\<lambda>r. key r = k) rows")
    case (Some r)
    then have "key r = k" by (auto dest: find_Some_in)
    then have "\<not> P r" by (rule assms)
    with Some show ?thesis by simp
  qed simp
  finally show ?thesis .
qed

end

lemma distinct_insert_key:
  assumes "distinct (map key rows)" and "\<forall>x \<in> set rows. key x \<noteq> key r"
  shows "distinct (map key (rows @ [r]))"
  using assms by auto

lemma distinct_delete_key:
  "distinct (map key rows) \<Longrightarrow> distinct (map key (sql_delete P rows))"
  by (induction rows) (auto simp: sql_delete_def)

lemma find_by_key:
  assumes "distinct (map key rows)" and "r \<in> set rows"
  shows "find (\<lambda>x. key x = key r) rows = Some r"
  using assms by (induction rows) (auto simp: image_iff)

subsection \<open>Interface: a machine whose steps may be refused\<close>

text \<open>
  \<open>step s e\<close> is \<open>Inl\<close> when the event is refused; the state then stays as it was, as an
  aborted transaction or a rejected transition leaves it. The law is that an
  accepted step keeps the invariant; the conclusion is about whole runs.
\<close>

fun run_steps :: "('s \<Rightarrow> 'e \<Rightarrow> 'err + 's) \<Rightarrow> 's \<Rightarrow> 'e list \<Rightarrow> 's" where
  "run_steps step s [] = s"
| "run_steps step s (e # es) =
     run_steps step (case step s e of Inl _ \<Rightarrow> s | Inr s' \<Rightarrow> s') es"

locale guarded_machine =
  fixes step :: "'s \<Rightarrow> 'e \<Rightarrow> 'err + 's"
    and inv :: "'s \<Rightarrow> bool"
  assumes step_inv: "inv s \<Longrightarrow> step s e = Inr s' \<Longrightarrow> inv s'"
begin

lemma run_inv: "inv s \<Longrightarrow> inv (run_steps step s es)"
proof (induction es arbitrary: s)
  case (Cons e es)
  then show ?case by (cases "step s e") (auto intro: step_inv)
qed simp

end

text \<open>
  A machine with a measure of progress: accepted steps relate the old state to the
  new one by a preorder (revisions grow, ledgers advance), so runs do.
\<close>

locale monotone_machine = guarded_machine step inv
  for step :: "'s \<Rightarrow> 'e \<Rightarrow> 'err + 's" and inv :: "'s \<Rightarrow> bool" +
  fixes le :: "'s \<Rightarrow> 's \<Rightarrow> bool"
  assumes le_refl: "le s s"
    and le_trans: "le s t \<Longrightarrow> le t u \<Longrightarrow> le s u"
    and step_le: "inv s \<Longrightarrow> step s e = Inr s' \<Longrightarrow> le s s'"
begin

lemma run_le: "inv s \<Longrightarrow> le s (run_steps step s es)"
proof (induction es arbitrary: s)
  case Nil
  then show ?case by (simp add: le_refl)
next
  case (Cons e es)
  show ?case
  proof (cases "step s e")
    case (Inl err)
    with Cons show ?thesis by simp
  next
    case (Inr s')
    with Cons.prems have "inv s'" and "le s s'"
      by (auto intro: step_inv step_le)
    with Cons.IH Inr show ?thesis by (auto intro: le_trans)
  qed
qed

end

end
