(* ===== verification/Rust_Text.thy ===== *)
theory Rust_Text
  imports Prelude
begin

text \<open>
  Rust strings, JSON values and the text routines of the protocol: the redactor
  of \<open>latte-core/src/session.rs\<close>, the identifier grammar of provider calls, and
  the bounded titles and summaries that \<open>latte-engine\<close> derives from untrusted
  text. A string is the list of its Unicode scalar values; its length in the
  source's sense, the number of UTF-8 bytes, is \<open>utf8_len\<close>.
\<close>

subsection \<open>Strings\<close>

type_synonym rstr = "nat list"

definition lit :: "string \<Rightarrow> rstr" where
  "lit s = map of_char s"

lemma lit_simps [simp]: "lit [] = []" "lit (c # cs) = of_char c # lit cs"
  by (simp_all add: lit_def)

declare lit_simps(2) [simp del]

lemma lit_inj [simp]: "lit a = lit b \<longleftrightarrow> a = b"
proof
  assume "lit a = lit b"
  then show "a = b"
    by (induction a arbitrary: b) (auto simp: lit_def map_eq_Cons_conv)
qed simp

definition len_utf8 :: "nat \<Rightarrow> nat" where
  "len_utf8 c = (if c < 128 then 1 else if c < 2048 then 2 else if c < 65536 then 3 else 4)"

definition utf8_len :: "rstr \<Rightarrow> nat" where
  "utf8_len s = sum_list (map len_utf8 s)"

lemma utf8_len_simps [simp]:
  "utf8_len [] = 0"
  "utf8_len (c # cs) = len_utf8 c + utf8_len cs"
  "utf8_len (xs @ ys) = utf8_len xs + utf8_len ys"
  by (simp_all add: utf8_len_def)

lemma len_utf8_pos: "1 \<le> len_utf8 c" and len_utf8_le: "len_utf8 c \<le> 4"
  by (simp_all add: len_utf8_def)

lemma length_le_utf8_len: "length s \<le> utf8_len s"
proof (induction s)
  case (Cons c s)
  then show ?case using len_utf8_pos [of c] by simp
qed simp

text \<open>\<open>char::is_control\<close> (category Cc), \<open>char::is_whitespace\<close> (White_Space) and the ASCII classes.\<close>

definition is_control :: "nat \<Rightarrow> bool" where
  "is_control c \<longleftrightarrow> c < 32 \<or> (127 \<le> c \<and> c < 160)"

definition is_white :: "nat \<Rightarrow> bool" where
  "is_white c \<longleftrightarrow> (9 \<le> c \<and> c \<le> 13) \<or> c = 32 \<or> c = 133 \<or> c = 160 \<or> c = 5760
     \<or> (8192 \<le> c \<and> c \<le> 8202) \<or> c = 8232 \<or> c = 8233 \<or> c = 8239 \<or> c = 8287 \<or> c = 12288"

definition is_ascii_digit :: "nat \<Rightarrow> bool" where
  "is_ascii_digit c \<longleftrightarrow> 48 \<le> c \<and> c \<le> 57"

definition is_ascii_alnum :: "nat \<Rightarrow> bool" where
  "is_ascii_alnum c \<longleftrightarrow> is_ascii_digit c \<or> (65 \<le> c \<and> c \<le> 90) \<or> (97 \<le> c \<and> c \<le> 122)"

definition is_ascii_hexdigit :: "nat \<Rightarrow> bool" where
  "is_ascii_hexdigit c \<longleftrightarrow> is_ascii_digit c \<or> (65 \<le> c \<and> c \<le> 70) \<or> (97 \<le> c \<and> c \<le> 102)"

definition to_ascii_lowercase :: "rstr \<Rightarrow> rstr" where
  "to_ascii_lowercase s = map (\<lambda>c. if 65 \<le> c \<and> c \<le> 90 then c + 32 else c) s"

definition trim_start :: "rstr \<Rightarrow> rstr" where
  "trim_start s = dropWhile is_white s"

definition trim :: "rstr \<Rightarrow> rstr" where
  "trim s = rev (dropWhile is_white (rev (dropWhile is_white s)))"

fun contains :: "rstr \<Rightarrow> rstr \<Rightarrow> bool" where
  "contains needle [] \<longleftrightarrow> needle = []"
| "contains needle (c # cs) \<longleftrightarrow> take (length needle) (c # cs) = needle \<or> contains needle cs"

definition strip_prefix :: "rstr \<Rightarrow> rstr \<Rightarrow> rstr option" where
  "strip_prefix p s = (if take (length p) s = p then Some (drop (length p) s) else None)"

lemma strip_prefix_append [simp]: "strip_prefix p (p @ s) = Some s"
  by (simp add: strip_prefix_def)

text \<open>\<open>s.lines().next().unwrap_or_default()\<close>: up to the first newline, less a trailing carriage return.\<close>

definition first_line :: "rstr \<Rightarrow> rstr" where
  "first_line s = (let l = takeWhile (\<lambda>c. c \<noteq> 10) s in
     if l \<noteq> s \<and> l \<noteq> [] \<and> last l = 13 then butlast l else l)"

text \<open>\<open>split_once\<close> at the first occurrence of a character.\<close>

fun split_once :: "nat \<Rightarrow> rstr \<Rightarrow> (rstr \<times> rstr) option" where
  "split_once d [] = None"
| "split_once d (c # cs) = (if c = d then Some ([], cs)
     else map_option (\<lambda>(a, b). (c # a, b)) (split_once d cs))"

lemma split_once_append: "d \<notin> set xs \<Longrightarrow> split_once d (xs @ d # ys) = Some (xs, ys)"
  by (induction xs) auto

text \<open>Decimal \<open>Display\<close> of an unsigned integer.\<close>

fun nat_text :: "nat \<Rightarrow> rstr" where
  "nat_text n = (if n < 10 then [48 + n] else nat_text (n div 10) @ [48 + n mod 10])"

declare nat_text.simps [simp del]

lemma nat_text_digits: "\<forall>c \<in> set (nat_text n). is_ascii_digit c"
proof (induction n rule: nat_text.induct)
  case (1 n)
  then show ?case
    by (cases "n < 10") (auto simp: nat_text.simps [of n] is_ascii_digit_def)
qed

subsection \<open>JSON values\<close>

text \<open>
  \<open>serde_json::Value\<close>. Objects are \<open>BTreeMap\<close>s (the \<open>preserve_order\<close> feature is off):
  association lists sorted by key, where a later insertion of a key replaces the value.
\<close>

datatype json =
    JNull
  | JBool bool
  | JInt int
  | JFloat rstr
  | JStr rstr
  | JArr "json list"
  | JObj "(rstr \<times> json) list"

fun rstr_less :: "rstr \<Rightarrow> rstr \<Rightarrow> bool" where
  "rstr_less [] [] = False"
| "rstr_less [] (d # ds) = True"
| "rstr_less (c # cs) [] = False"
| "rstr_less (c # cs) (d # ds) = (c < d \<or> (c = d \<and> rstr_less cs ds))"

fun obj_insert :: "rstr \<Rightarrow> 'v \<Rightarrow> (rstr \<times> 'v) list \<Rightarrow> (rstr \<times> 'v) list" where
  "obj_insert k v [] = [(k, v)]"
| "obj_insert k v ((k', v') # m) =
     (if k = k' then (k, v) # m
      else if rstr_less k k' then (k, v) # (k', v') # m
      else (k', v') # obj_insert k v m)"

definition json_obj :: "(rstr \<times> json) list \<Rightarrow> json" where
  "json_obj kvs = JObj (foldl (\<lambda>m (k, v). obj_insert k v m) [] kvs)"

definition json_get :: "rstr \<Rightarrow> json \<Rightarrow> json option" where
  "json_get k j = (case j of JObj kvs \<Rightarrow> map_of kvs k | _ \<Rightarrow> None)"

definition json_as_str :: "json \<Rightarrow> rstr option" where
  "json_as_str j = (case j of JStr s \<Rightarrow> Some s | _ \<Rightarrow> None)"

definition json_as_bool :: "json \<Rightarrow> bool option" where
  "json_as_bool j = (case j of JBool b \<Rightarrow> Some b | _ \<Rightarrow> None)"

definition json_as_array :: "json \<Rightarrow> json list option" where
  "json_as_array j = (case j of JArr xs \<Rightarrow> Some xs | _ \<Rightarrow> None)"

definition json_as_u64 :: "json \<Rightarrow> nat option" where
  "json_as_u64 j = (case j of JInt i \<Rightarrow> if 0 \<le> i then Some (nat i) else None | _ \<Rightarrow> None)"

definition json_is_object :: "json \<Rightarrow> bool" where
  "json_is_object j = (case j of JObj _ \<Rightarrow> True | _ \<Rightarrow> False)"

definition json_opt :: "('a \<Rightarrow> json) \<Rightarrow> 'a option \<Rightarrow> json" where
  "json_opt f m = (case m of None \<Rightarrow> JNull | Some x \<Rightarrow> f x)"

lemma map_of_obj_insert: "map_of (obj_insert k v m) = (map_of m)(k \<mapsto> v)"
  by (induction m) (auto simp: fun_eq_iff)


subsection \<open>Provider identifiers and the transcript redactor\<close>

definition SESSION_TEXT_CAP_BYTES :: nat where "SESSION_TEXT_CAP_BYTES = 64 * 1024"

definition OPENAI_CHAT_TOOL_CALL_ID_MAX_BYTES :: nat where
  "OPENAI_CHAT_TOOL_CALL_ID_MAX_BYTES = 256"

definition valid_openai_chat_opaque_id :: "rstr \<Rightarrow> bool" where
  "valid_openai_chat_opaque_id s \<longleftrightarrow>
     s \<noteq> [] \<and> utf8_len s \<le> OPENAI_CHAT_TOOL_CALL_ID_MAX_BYTES
     \<and> list_all (\<lambda>c. is_ascii_alnum c \<or> c = 95 \<or> c = 45) s"

text \<open>
  The scanning loop of \<open>redact_session_text\<close>: an escape character is dropped together
  with the CSI sequence it opens, other controls but newline and tab are dropped, and
  the output stops at the byte cap with a marker. \<open>skip_csi\<close> is the inner
  \<open>for next in chars.by_ref()\<close>.
\<close>

definition truncation_marker :: rstr where
  "truncation_marker = 8230 # lit ''[truncated]''"

fun skip_csi :: "rstr \<Rightarrow> rstr" where
  "skip_csi [] = []"
| "skip_csi (c # cs) = (if 64 \<le> c \<and> c \<le> 126 then cs else skip_csi cs)"

lemma length_skip_csi: "length (skip_csi s) \<le> length s"
  by (induction s) auto

definition skip_escape :: "rstr \<Rightarrow> rstr" where
  "skip_escape s = (case s of [] \<Rightarrow> [] | c # cs \<Rightarrow> if c = 91 then skip_csi cs else s)"

lemma length_skip_escape: "length (skip_escape s) \<le> length s"
  by (cases s) (auto simp: skip_escape_def le_SucI length_skip_csi)

function redact_scan :: "rstr \<Rightarrow> rstr \<Rightarrow> rstr" where
  "redact_scan out [] = out"
| "redact_scan out (c # cs) =
     (if c = 27 then redact_scan out (skip_escape cs)
      else if is_control c \<and> c \<noteq> 10 \<and> c \<noteq> 9 then redact_scan out cs
      else if utf8_len out + len_utf8 c > SESSION_TEXT_CAP_BYTES then out @ truncation_marker
      else redact_scan (out @ [c]) cs)"
  by pat_completeness auto
termination
  by (relation "measure (\<lambda>(out, cs). length cs)")
    (auto simp: less_Suc_eq_le length_skip_escape)

text \<open>
  \<open>scrub\<close> stands for the three regular-expression passes of
  \<open>redact_token_like_values\<close> (the \<open>regex\<close> crate).
\<close>

definition redact_session_text :: "(rstr \<Rightarrow> rstr) \<Rightarrow> rstr \<Rightarrow> rstr" where
  "redact_session_text scrub s = scrub (redact_scan [] s)"

definition secret_needles :: "rstr list" where
  "secret_needles = map lit
     [''secret'', ''token'', ''password'', ''api_key'', ''authorization'', ''credential'']"

definition secret_key :: "rstr \<Rightarrow> bool" where
  "secret_key k \<longleftrightarrow> list_ex (\<lambda>needle. contains needle (to_ascii_lowercase k)) secret_needles"

fun redact_session_value :: "(rstr \<Rightarrow> rstr) \<Rightarrow> json \<Rightarrow> json" where
  "redact_session_value scrub (JObj kvs) =
     json_obj (map (\<lambda>(k, v). (redact_session_text scrub k,
       if secret_key k then JStr (lit ''[REDACTED]'') else redact_session_value scrub v)) kvs)"
| "redact_session_value scrub (JArr vs) = JArr (map (redact_session_value scrub) vs)"
| "redact_session_value scrub (JStr s) = JStr (redact_session_text scrub s)"
| "redact_session_value scrub other = other"

subsection \<open>Bounded titles and summaries\<close>

text \<open>
  The common loop of \<open>session_title\<close> and \<open>summary_text\<close>: controls are left out, and the
  text is cut with an ellipsis before the character that would pass the byte cap.
\<close>

fun clip_text :: "nat \<Rightarrow> rstr \<Rightarrow> rstr \<Rightarrow> rstr" where
  "clip_text cap out [] = out"
| "clip_text cap out (c # cs) =
     (if is_control c then clip_text cap out cs
      else if utf8_len out + len_utf8 c > cap then out @ [8230]
      else clip_text cap (out @ [c]) cs)"

definition SESSION_TITLE_LIMIT :: nat where "SESSION_TITLE_LIMIT = 120"

definition session_title :: "(rstr \<Rightarrow> rstr) \<Rightarrow> rstr \<Rightarrow> rstr" where
  "session_title scrub prompt =
     (let line = trim (first_line (redact_session_text scrub prompt));
          title = clip_text SESSION_TITLE_LIMIT [] line
      in if title = [] then lit ''Untitled session'' else title)"

definition PERMISSION_SUMMARY_CAP :: nat where "PERMISSION_SUMMARY_CAP = 360"

definition summary_text :: "(rstr \<Rightarrow> rstr) \<Rightarrow> rstr \<Rightarrow> rstr" where
  "summary_text scrub v =
     (let out = clip_text PERMISSION_SUMMARY_CAP [] (redact_session_text scrub v)
      in if out = [] then lit ''[unspecified]'' else out)"

subsection \<open>What the text routines guarantee\<close>

text \<open>Text that a terminal can show: no control character other than newline and tab.\<close>

definition display_char :: "nat \<Rightarrow> bool" where
  "display_char c \<longleftrightarrow> \<not> is_control c \<or> c = 10 \<or> c = 9"

definition display_safe :: "rstr \<Rightarrow> bool" where
  "display_safe s \<longleftrightarrow> list_all display_char s"

lemma escape_not_display [simp]: "\<not> display_char 27"
  by (simp add: display_char_def is_control_def)

lemma truncation_marker_safe: "list_all display_char truncation_marker"
  by (simp add: truncation_marker_def lit_def display_char_def is_control_def)

lemma truncation_marker_len: "utf8_len truncation_marker = 14"
  by (simp add: truncation_marker_def lit_def len_utf8_def)

lemma redact_scan_safe:
  "list_all display_char out \<Longrightarrow> list_all display_char (redact_scan out s)"
proof (induction out s rule: redact_scan.induct)
  case (2 out c cs)
  have "display_char c" if "\<not> (is_control c \<and> c \<noteq> 10 \<and> c \<noteq> 9)"
    using that by (auto simp: display_char_def)
  with 2 show ?case
    by (cases "c = 27") (auto simp: truncation_marker_safe)
qed simp

lemma redact_scan_bounded:
  "utf8_len out \<le> SESSION_TEXT_CAP_BYTES \<Longrightarrow>
     utf8_len (redact_scan out s) \<le> SESSION_TEXT_CAP_BYTES + 14"
proof (induction out s rule: redact_scan.induct)
  case (2 out c cs)
  then show ?case
    by (cases "c = 27") (auto simp: truncation_marker_len)
qed simp

lemma redact_scan_plain_step:
  assumes "display_char c" and "utf8_len out + len_utf8 c \<le> SESSION_TEXT_CAP_BYTES"
  shows "redact_scan out (c # cs) = redact_scan (out @ [c]) cs"
proof -
  have "c \<noteq> 27" using assms(1) by auto
  with assms show ?thesis by (auto simp: display_char_def)
qed

lemma redact_scan_plain:
  assumes "list_all display_char xs" and "utf8_len out + utf8_len xs \<le> SESSION_TEXT_CAP_BYTES"
  shows "redact_scan out (xs @ cs) = redact_scan (out @ xs) cs"
  using assms
proof (induction xs arbitrary: out)
  case (Cons x xs)
  have "display_char x" and "utf8_len out + len_utf8 x \<le> SESSION_TEXT_CAP_BYTES"
    using Cons.prems by auto
  then have "redact_scan out ((x # xs) @ cs) = redact_scan (out @ [x]) (xs @ cs)"
    by (simp only: append_Cons redact_scan_plain_step)
  also have "\<dots> = redact_scan ((out @ [x]) @ xs) cs"
    using Cons.prems by (intro Cons.IH) auto
  finally show ?case by simp
qed simp

lemma redact_scan_clean:
  assumes "list_all display_char s" and "utf8_len s \<le> SESSION_TEXT_CAP_BYTES"
  shows "redact_scan [] s = s"
  using redact_scan_plain [of s "[]" "[]"] assms by simp

lemma redact_scan_cut:
  assumes "display_char c" and "SESSION_TEXT_CAP_BYTES < utf8_len out + len_utf8 c"
  shows "redact_scan out (c # cs) = out @ truncation_marker"
proof -
  have "c \<noteq> 27" using assms(1) by auto
  with assms show ?thesis by (auto simp: display_char_def)
qed

lemma clip_text_printable:
  "list_all (\<lambda>c. \<not> is_control c) out \<Longrightarrow> list_all (\<lambda>c. \<not> is_control c) (clip_text cap out s)"
  by (induction cap out s rule: clip_text.induct) (auto simp: is_control_def)

lemma clip_text_bounded:
  "utf8_len out \<le> cap \<Longrightarrow> utf8_len (clip_text cap out s) \<le> cap + 3"
  by (induction cap out s rule: clip_text.induct) (auto simp: len_utf8_def)

lemma clip_text_short:
  "list_all (\<lambda>c. \<not> is_control c) s \<Longrightarrow> utf8_len out + utf8_len s \<le> cap \<Longrightarrow>
     clip_text cap out s = out @ s"
  by (induction cap out s rule: clip_text.induct) auto

text \<open>Every string inside a JSON value, object keys included.\<close>

fun json_strings :: "json \<Rightarrow> rstr set" where
  "json_strings (JStr s) = {s}"
| "json_strings (JArr vs) = (\<Union>v \<in> set vs. json_strings v)"
| "json_strings (JObj kvs) = (\<Union>(k, v) \<in> set kvs. insert k (json_strings v))"
| "json_strings other = {}"

lemma set_obj_insert: "set (obj_insert k v m) \<subseteq> insert (k, v) (set m)"
proof (induction m)
  case (Cons kv m)
  obtain k' v' where "kv = (k', v')" by (cases kv)
  with Cons show ?case
    by (cases "k = k'"; cases "rstr_less k k'") auto
qed simp

lemma set_json_obj:
  "set (foldl (\<lambda>m (k, v). obj_insert k v m) acc kvs) \<subseteq> set acc \<union> set kvs"
proof (induction kvs arbitrary: acc)
  case (Cons kv kvs)
  obtain k v where kv: "kv = (k, v)" by (cases kv)
  show ?case
    using Cons.IH [of "obj_insert k v acc"] set_obj_insert [of k v acc] by (auto simp: kv)
qed simp

lemma json_obj_pairs: "json_obj kvs = JObj m \<Longrightarrow> set m \<subseteq> set kvs"
  using set_json_obj [of "[]" kvs] by (auto simp: json_obj_def)

lemma json_strings_obj: "json_strings (json_obj kvs) \<subseteq> json_strings (JObj kvs)"
  using set_json_obj [of "[]" kvs] by (fastforce simp: json_obj_def)

lemma redact_session_value_strings:
  "json_strings (redact_session_value scrub j)
     \<subseteq> insert (lit ''[REDACTED]'') (range (redact_session_text scrub))"
proof (induction scrub j rule: redact_session_value.induct)
  case (1 scrub kvs)
  have "json_strings (redact_session_value scrub (JObj kvs))
     \<subseteq> json_strings (JObj (map (\<lambda>(k, v). (redact_session_text scrub k,
          if secret_key k then JStr (lit ''[REDACTED]'') else redact_session_value scrub v)) kvs))"
    by (simp only: redact_session_value.simps json_strings_obj)
  also have "\<dots> \<subseteq> insert (lit ''[REDACTED]'') (range (redact_session_text scrub))"
    using "1.IH" by (fastforce split: if_splits)
  finally show ?case .
qed auto

lemma redact_session_value_member:
  assumes "redact_session_value scrub (JObj kvs) = JObj m" and "(k', v') \<in> set m"
  shows "\<exists>k v. (k, v) \<in> set kvs \<and> k' = redact_session_text scrub k
     \<and> v' = (if secret_key k then JStr (lit ''[REDACTED]'') else redact_session_value scrub v)"
proof -
  have "set m \<subseteq> set (map (\<lambda>(k, v). (redact_session_text scrub k,
       if secret_key k then JStr (lit ''[REDACTED]'') else redact_session_value scrub v)) kvs)"
    using assms(1) by (intro json_obj_pairs) simp
  with assms(2) have "(k', v') \<in> (\<lambda>(k, v). (redact_session_text scrub k,
       if secret_key k then JStr (lit ''[REDACTED]'') else redact_session_value scrub v)) ` set kvs"
    by (simp only: set_map subset_iff)
  then show ?thesis by (rule imageE) (auto split: prod.splits)
qed

lemma session_title_printable:
  "session_title scrub p \<noteq> [] \<and> list_all (\<lambda>c. \<not> is_control c) (session_title scrub p)
     \<and> utf8_len (session_title scrub p) \<le> SESSION_TITLE_LIMIT + 3"
proof -
  have "list_all (\<lambda>c. \<not> is_control c) (lit ''Untitled session'')"
    and "utf8_len (lit ''Untitled session'') \<le> SESSION_TITLE_LIMIT + 3"
    and "lit ''Untitled session'' \<noteq> []"
    by (simp_all add: lit_def is_control_def len_utf8_def SESSION_TITLE_LIMIT_def)
  then show ?thesis
    by (auto simp: session_title_def Let_def intro!: clip_text_printable clip_text_bounded)
qed

end
