(* ===== verification/Protocol.thy ===== *)
theory Protocol
  imports Rust_Text
begin

text \<open>
  The data of the two protocols of \<open>latte-core\<close>: the v1 turn messages of
  \<open>protocol.rs\<close> and the v2 session messages of \<open>session.rs\<close>, with the checks those
  files attach to them. UUID newtypes (\<open>ids.rs\<close>) are \<open>uuid\<close>; timestamps,
  revisions and sequences are \<open>u64\<close> values.
\<close>

type_synonym uuid = nat

definition PROTOCOL_VERSION :: nat where "PROTOCOL_VERSION = 1"

definition SESSION_PROTOCOL_VERSION :: nat where "SESSION_PROTOCOL_VERSION = 2"

subsection \<open>Turn protocol (v1)\<close>

datatype turn_status =
    Queued | Running | WaitingPermission | WaitingInput
  | Cancelling | Interrupted | Failed | Completed

record pending_permission =
  pp_request_id :: rstr
  pp_operation_digest :: rstr
  pp_description :: rstr

record pending_input =
  pi_request_id :: rstr
  pi_prompt :: rstr

datatype retryability = Retryable | Terminal

datatype failure_code = Cancelled | PermissionDenied | VerificationFailed | RuntimeFailed

record turn_failure =
  tf_code :: failure_code
  tf_message :: rstr
  tf_retryability :: retryability

datatype verification_status = Passed | VFailed | NotRun

record evidence =
  ev_name :: rstr
  ev_status :: verification_status
  ev_summary :: rstr

record handoff =
  ho_summary :: rstr
  ho_files_changed :: "rstr list"
  ho_evidence :: "evidence list"

datatype permission_decision = AllowDecision | DenyDecision

datatype runtime_command =
    RcRun rstr
  | RcResume uuid nat
  | RcShow uuid
  | RcList
  | RcResolvePermission uuid rstr nat permission_decision
  | RcProvideInput uuid rstr nat rstr
  | RcCancel uuid nat
  | RcShutdown

record command_envelope =
  ce_protocol_version :: nat
  ce_command_id :: uuid
  ce_command :: runtime_command

definition command_envelope_new :: "uuid \<Rightarrow> runtime_command \<Rightarrow> command_envelope" where
  "command_envelope_new cid c =
     \<lparr>ce_protocol_version = PROTOCOL_VERSION, ce_command_id = cid, ce_command = c\<rparr>"

datatype runtime_event =
    StateChanged turn_status
  | ToolStarted rstr
  | ToolCompleted rstr bool
  | EvidenceRecorded evidence
  | HandoffProduced handoff

record event_envelope =
  ee_protocol_version :: nat
  ee_event_id :: uuid
  ee_turn_id :: uuid
  ee_revision :: nat
  ee_event :: runtime_event

subsection \<open>Session protocol (v2)\<close>

datatype session_lifecycle =
    LcReady | LcRunning | LcWaitingPermission | LcWaitingInput
  | LcInterrupted | LcFailed | LcReconciliationRequired

definition accepts_follow_up :: "session_lifecycle \<Rightarrow> bool" where
  "accepts_follow_up l \<longleftrightarrow> l = LcReady"

datatype 'a create_outcome = Created 'a | Replayed 'a

record session_provider_binding =
  pb_version :: nat
  pb_provider_name :: rstr
  pb_provider_type :: rstr
  pb_protocol :: rstr
  pb_model :: rstr
  pb_config_fingerprint :: rstr
  pb_tools_fingerprint :: rstr
  pb_aliases :: "(rstr \<times> rstr) list"
  pb_credential_ref_id :: rstr
  pb_data_scope_id :: rstr
  pb_credential_generation :: nat

definition binding_fields :: "session_provider_binding \<Rightarrow> (string \<times> rstr) list" where
  "binding_fields b =
     [(''provider_name'', pb_provider_name b),
      (''provider_type'', pb_provider_type b),
      (''protocol'', pb_protocol b),
      (''model'', pb_model b),
      (''config_fingerprint'', pb_config_fingerprint b),
      (''tools_fingerprint'', pb_tools_fingerprint b),
      (''credential_ref_id'', pb_credential_ref_id b),
      (''data_scope_id'', pb_data_scope_id b)]"

definition bad_binding_value :: "rstr \<Rightarrow> bool" where
  "bad_binding_value v \<longleftrightarrow> trim v = [] \<or> utf8_len v > 1024 \<or> list_ex is_control v"

definition bad_alias :: "rstr \<times> rstr \<Rightarrow> bool" where
  "bad_alias kv \<longleftrightarrow> fst kv = [] \<or> snd kv = [] \<or> utf8_len (fst kv) > 256 \<or> utf8_len (snd kv) > 256
     \<or> list_ex is_control (fst kv) \<or> list_ex is_control (snd kv)"

definition binding_validate :: "session_provider_binding \<Rightarrow> rstr + unit" where
  "binding_validate b =
     (case find (\<lambda>(name, v). bad_binding_value v) (binding_fields b) of
        Some (name, v) \<Rightarrow> Inl (lit ''invalid '' @ lit name)
      | None \<Rightarrow>
          if length (pb_aliases b) > 256 \<or> list_ex bad_alias (pb_aliases b)
          then Inl (lit ''invalid provider aliases'') else Inr ())"

datatype session_turn_status =
    StQueued | StRunning | StCancelling | StWaitingPermission
  | StWaitingInput | StInterrupted | StFailed | StCompleted

record session_turn_summary =
  sm_turn_id :: uuid
  sm_parent_turn_id :: "uuid option"
  sm_ordinal :: nat
  sm_status :: session_turn_status
  sm_turn_revision :: nat
  sm_completed_at_ms :: "nat option"
  sm_failure_code :: "failure_code option"

datatype transcript_kind =
    TkUser | TkAssistant | TkToolCall | TkToolResult | TkPermission | TkInput
  | TkFailure | TkCompletion | TkSystem | TkCompactSummary | TkToolResultElision

record transcript_entry =
  te_entry_id :: uuid
  te_sequence :: nat
  te_turn_id :: "uuid option"
  te_kind :: transcript_kind
  te_text :: rstr
  te_payload :: "json option"
  te_source_key :: rstr
  te_created_at_ms :: nat

record transcript_page =
  tp_entries :: "transcript_entry list"
  tp_next_after :: "nat option"
  tp_has_more :: bool

datatype session_pending_request =
    PendPermission uuid rstr rstr nat
  | PendInput uuid rstr rstr nat

record session_snapshot =
  sn_session_id :: uuid
  sn_revision :: nat
  sn_sequence :: nat
  sn_lifecycle :: session_lifecycle
  sn_binding :: session_provider_binding
  sn_latest_turn_id :: "uuid option"
  sn_active_turn_id :: "uuid option"
  sn_pending :: "session_pending_request option"
  sn_turns :: "session_turn_summary list"
  sn_transcript :: transcript_page
  sn_focus :: "rstr option"

datatype session_event =
    LifecycleChanged session_lifecycle "uuid option"
  | TranscriptAppended transcript_entry
  | TurnLinked session_turn_summary
  | BindingChanged rstr rstr
  | ReconciliationRequiredEv uuid rstr

record session_event_envelope =
  se_protocol_version :: nat
  se_event_id :: uuid
  se_session_id :: uuid
  se_revision :: nat
  se_sequence :: nat
  se_event :: session_event

subsection \<open>Properties of the checks\<close>

lemma binding_validate_Inr:
  "binding_validate b = Inr () \<longleftrightarrow>
     (\<forall>v \<in> snd ` set (binding_fields b). \<not> bad_binding_value v)
     \<and> length (pb_aliases b) \<le> 256 \<and> (\<forall>kv \<in> set (pb_aliases b). \<not> bad_alias kv)"
proof (cases "find (\<lambda>(name, v). bad_binding_value v) (binding_fields b)")
  case None
  then have "\<forall>nv \<in> set (binding_fields b). \<not> bad_binding_value (snd nv)"
    by (simp add: find_None_all case_prod_unfold)
  with None show ?thesis
    by (simp add: binding_validate_def list_ex_iff not_less)
next
  case (Some nv)
  then have "nv \<in> set (binding_fields b)" and "bad_binding_value (snd nv)"
    by (auto dest: find_Some_in)
  moreover have "binding_validate b \<noteq> Inr ()"
    using Some by (cases nv) (simp add: binding_validate_def)
  ultimately show ?thesis by blast
qed

end
