(* ===== verification/Turn_State.thy ===== *)
theory Turn_State
  imports Protocol
begin

text \<open>
  The turn state machine of \<open>latte-core/src/state.rs\<close>: \<open>TurnState::transition\<close> with
  its revision check, its guards in the order of the \<open>match\<close> arms and its errors.
\<close>

record turn_state =
  ts_turn_id :: uuid
  ts_revision :: nat
  ts_status :: turn_status
  ts_pending_permission :: "pending_permission option"
  ts_pending_input :: "pending_input option"
  ts_failure :: "turn_failure option"
  ts_handoff :: "handoff option"

definition turn_queued :: "uuid \<Rightarrow> turn_state" where
  "turn_queued t = \<lparr>ts_turn_id = t, ts_revision = 0, ts_status = Queued,
     ts_pending_permission = None, ts_pending_input = None,
     ts_failure = None, ts_handoff = None\<rparr>"

datatype completion_policy = VerificationNotRequired | VerificationRequired

datatype transition =
    Start
  | RequestPermission pending_permission
  | ResolvePermission rstr bool
  | RefreshPermission pending_permission
  | RequestInput pending_input
  | ProvideInput rstr
  | Cancel
  | Interrupt
  | Fail turn_failure
  | Resume
  | Complete handoff completion_policy

datatype transition_error =
    StaleRevision nat nat
  | Invalid turn_status
  | MismatchedRequest
  | MissingPending
  | CompletedImmutable
  | RevisionOverflow

definition verification_passed :: "completion_policy \<Rightarrow> handoff \<Rightarrow> bool" where
  "verification_passed policy h =
     (case policy of
        VerificationNotRequired \<Rightarrow> True
      | VerificationRequired \<Rightarrow>
          ho_evidence h \<noteq> [] \<and> list_all (\<lambda>e. ev_status e = Passed) (ho_evidence h))"

definition denied_failure :: turn_failure where
  "denied_failure = \<lparr>tf_code = PermissionDenied, tf_message = lit ''permission was denied'',
     tf_retryability = Terminal\<rparr>"

definition unverified_failure :: turn_failure where
  "unverified_failure = \<lparr>tf_code = VerificationFailed,
     tf_message = lit ''required verification did not pass'', tf_retryability = Terminal\<rparr>"

definition may_resume :: "turn_state \<Rightarrow> bool" where
  "may_resume s \<longleftrightarrow> ts_status s = Interrupted \<or>
     (ts_status s = Failed \<and>
       (case ts_failure s of None \<Rightarrow> False | Some f \<Rightarrow> tf_retryability f = Retryable))"

text \<open>The arms of the match, on the copy whose revision is already advanced.\<close>

definition apply_arm :: "turn_state \<Rightarrow> turn_state \<Rightarrow> transition \<Rightarrow> transition_error + turn_state" where
  "apply_arm self nxt tr =
     (case tr of
        Start \<Rightarrow>
          if ts_status self = Queued then Inr (nxt\<lparr>ts_status := Running\<rparr>)
          else Inl (Invalid (ts_status self))
      | RequestPermission req \<Rightarrow>
          if ts_status self = Running
          then Inr (nxt\<lparr>ts_status := WaitingPermission, ts_pending_permission := Some req\<rparr>)
          else Inl (Invalid (ts_status self))
      | ResolvePermission rid allowed \<Rightarrow>
          if ts_status self = WaitingPermission then
            (case ts_pending_permission self of
               None \<Rightarrow> Inl MissingPending
             | Some p \<Rightarrow>
                 if pp_request_id p \<noteq> rid then Inl MismatchedRequest
                 else if allowed
                   then Inr (nxt\<lparr>ts_pending_permission := None, ts_status := Running\<rparr>)
                   else Inr (nxt\<lparr>ts_pending_permission := None, ts_status := Failed,
                               ts_failure := Some denied_failure\<rparr>))
          else Inl (Invalid (ts_status self))
      | RefreshPermission req \<Rightarrow>
          if ts_status self = WaitingPermission
          then Inr (nxt\<lparr>ts_status := WaitingPermission, ts_pending_permission := Some req\<rparr>)
          else Inl (Invalid (ts_status self))
      | RequestInput req \<Rightarrow>
          if ts_status self = Running
          then Inr (nxt\<lparr>ts_status := WaitingInput, ts_pending_input := Some req\<rparr>)
          else Inl (Invalid (ts_status self))
      | ProvideInput rid \<Rightarrow>
          if ts_status self = WaitingInput then
            (case ts_pending_input self of
               None \<Rightarrow> Inl MissingPending
             | Some p \<Rightarrow>
                 if pi_request_id p \<noteq> rid then Inl MismatchedRequest
                 else Inr (nxt\<lparr>ts_pending_input := None, ts_status := Running\<rparr>))
          else Inl (Invalid (ts_status self))
      | Cancel \<Rightarrow>
          if ts_status self \<in> {Queued, Running, WaitingPermission, WaitingInput}
          then Inr (nxt\<lparr>ts_status := Cancelling, ts_pending_input := None,
                      ts_pending_permission := None\<rparr>)
          else Inl (Invalid (ts_status self))
      | Interrupt \<Rightarrow>
          if ts_status self \<in> {Running, Cancelling}
          then Inr (nxt\<lparr>ts_status := Interrupted\<rparr>)
          else Inl (Invalid (ts_status self))
      | Fail f \<Rightarrow>
          if ts_status self \<in> {Queued, Running, Cancelling}
          then Inr (nxt\<lparr>ts_status := Failed, ts_failure := Some f\<rparr>)
          else Inl (Invalid (ts_status self))
      | Resume \<Rightarrow>
          if may_resume self
          then Inr (nxt\<lparr>ts_status := Queued, ts_failure := None\<rparr>)
          else Inl (Invalid (ts_status self))
      | Complete h policy \<Rightarrow>
          if ts_status self = Running then
            (if verification_passed policy h
             then Inr (nxt\<lparr>ts_status := Completed, ts_handoff := Some h\<rparr>)
             else Inr (nxt\<lparr>ts_status := Failed, ts_failure := Some unverified_failure\<rparr>))
          else Inl (Invalid (ts_status self)))"

definition turn_transition ::
  "turn_state \<Rightarrow> nat \<Rightarrow> transition \<Rightarrow> transition_error + turn_state" where
  "turn_transition self expected tr =
     (if ts_revision self \<noteq> expected then Inl (StaleRevision expected (ts_revision self))
      else if ts_status self = Completed then Inl CompletedImmutable
      else bindE (ok_or RevisionOverflow (checked_add (ts_revision self) 1))
             (\<lambda>r. apply_arm self (self\<lparr>ts_revision := r\<rparr>) tr))"

subsection \<open>Exit codes of headless callers\<close>

datatype headless_outcome =
    Success | OutcomeFailed | OutcomeInterrupted | OutcomeCancelled | UsageError | InternalError

fun exit_code :: "headless_outcome \<Rightarrow> nat" where
  "exit_code Success = 0"
| "exit_code OutcomeFailed = 1"
| "exit_code UsageError = 2"
| "exit_code OutcomeInterrupted = 130"
| "exit_code OutcomeCancelled = 130"
| "exit_code InternalError = 70"

subsection \<open>Rendering of transition errors\<close>

fun status_debug :: "turn_status \<Rightarrow> rstr" where
  "status_debug Queued = lit ''Queued''"
| "status_debug Running = lit ''Running''"
| "status_debug WaitingPermission = lit ''WaitingPermission''"
| "status_debug WaitingInput = lit ''WaitingInput''"
| "status_debug Cancelling = lit ''Cancelling''"
| "status_debug Interrupted = lit ''Interrupted''"
| "status_debug Failed = lit ''Failed''"
| "status_debug Completed = lit ''Completed''"

fun transition_error_text :: "transition_error \<Rightarrow> rstr" where
  "transition_error_text (StaleRevision e a) =
     lit ''stale revision: expected '' @ nat_text e @ lit '', actual '' @ nat_text a"
| "transition_error_text (Invalid s) = lit ''transition is invalid from '' @ status_debug s"
| "transition_error_text MismatchedRequest =
     lit ''request id does not match the pending request''"
| "transition_error_text MissingPending = lit ''state is missing its pending request''"
| "transition_error_text CompletedImmutable = lit ''completed runs are immutable''"
| "transition_error_text RevisionOverflow = lit ''revision overflow''"

subsection \<open>The legal edges\<close>

text \<open>
  The status graph behind the match, as an inductive relation: an accepted
  transition always moves along one of these edges.
\<close>

inductive status_edge :: "turn_status \<Rightarrow> turn_status \<Rightarrow> bool" where
  start: "status_edge Queued Running"
| ask: "status_edge Running WaitingPermission"
| allow: "status_edge WaitingPermission Running"
| deny: "status_edge WaitingPermission Failed"
| refresh: "status_edge WaitingPermission WaitingPermission"
| query: "status_edge Running WaitingInput"
| answer: "status_edge WaitingInput Running"
| cancel: "s \<in> {Queued, Running, WaitingPermission, WaitingInput} \<Longrightarrow> status_edge s Cancelling"
| interrupt: "s \<in> {Running, Cancelling} \<Longrightarrow> status_edge s Interrupted"
| fail: "s \<in> {Queued, Running, Cancelling} \<Longrightarrow> status_edge s Failed"
| resume: "s \<in> {Interrupted, Failed} \<Longrightarrow> status_edge s Queued"
| complete: "status_edge Running Completed"

inductive_simps status_edge_waiting: "status_edge WaitingPermission t"

inductive_cases status_edge_completed: "status_edge Completed t"

text \<open>
  What a state must look like: a request is stored exactly while it is awaited, a failure
  exactly while failed, a handoff exactly once completed.
\<close>

definition turn_wf :: "turn_state \<Rightarrow> bool" where
  "turn_wf s \<longleftrightarrow>
     (ts_status s = WaitingPermission \<longleftrightarrow> ts_pending_permission s \<noteq> None)
   \<and> (ts_status s = WaitingInput \<longleftrightarrow> ts_pending_input s \<noteq> None)
   \<and> (ts_status s = Failed \<longleftrightarrow> ts_failure s \<noteq> None)
   \<and> (ts_status s = Completed \<longleftrightarrow> ts_handoff s \<noteq> None)
   \<and> ts_revision s < u64_bound"

definition turn_le :: "turn_state \<Rightarrow> turn_state \<Rightarrow> bool" where
  "turn_le s t \<longleftrightarrow> ts_turn_id t = ts_turn_id s \<and> ts_revision s \<le> ts_revision t
     \<and> (ts_status s = Completed \<longrightarrow> t = s)"

definition turn_step :: "turn_state \<Rightarrow> transition \<Rightarrow> transition_error + turn_state" where
  "turn_step s tr = turn_transition s (ts_revision s) tr"

lemma turn_transition_Inr:
  "turn_transition s n tr = Inr t \<longleftrightarrow>
     ts_revision s = n \<and> ts_status s \<noteq> Completed \<and> ts_revision s + 1 < u64_bound
     \<and> apply_arm s (s\<lparr>ts_revision := ts_revision s + 1\<rparr>) tr = Inr t"
  by (auto simp: turn_transition_def)

lemma apply_arm_frame:
  "apply_arm s nx tr = Inr t \<Longrightarrow> ts_revision t = ts_revision nx \<and> ts_turn_id t = ts_turn_id nx"
  by (cases tr) (auto simp: apply_arm_def split: if_splits option.splits)

lemma apply_arm_edge: "apply_arm s nx tr = Inr t \<Longrightarrow> status_edge (ts_status s) (ts_status t)"
  by (cases tr)
    (auto simp: apply_arm_def may_resume_def intro: status_edge.intros
      split: if_splits option.splits)

lemma turn_transition_revision:
  "turn_transition s n tr = Inr t \<Longrightarrow>
     ts_revision t = ts_revision s + 1 \<and> ts_turn_id t = ts_turn_id s \<and> n = ts_revision s"
  by (auto simp: turn_transition_Inr dest: apply_arm_frame)

lemma apply_arm_wf:
  assumes "turn_wf s" and "ts_status s \<noteq> Completed" and "r < u64_bound"
    and "apply_arm s (s\<lparr>ts_revision := r\<rparr>) tr = Inr t"
  shows "turn_wf t"
  using assms
  by (cases tr; cases "ts_status s")
    (auto simp: apply_arm_def turn_wf_def may_resume_def split: if_splits option.splits)

lemma turn_queued_wf: "turn_wf (turn_queued t)"
  by (simp add: turn_wf_def turn_queued_def u64_bound_def)

lemma turn_step_wf: "turn_wf s \<Longrightarrow> turn_step s tr = Inr t \<Longrightarrow> turn_wf t"
  by (auto simp: turn_step_def turn_transition_Inr intro: apply_arm_wf)

lemma turn_step_le: "turn_step s tr = Inr t \<Longrightarrow> turn_le s t"
  by (auto simp: turn_step_def turn_le_def turn_transition_Inr dest: apply_arm_frame)

interpretation turn_machine: monotone_machine turn_step turn_wf turn_le
  by unfold_locales (auto simp: turn_le_def intro: turn_step_wf dest: turn_step_le)

lemma turn_step_edge: "turn_step s tr = Inr t \<Longrightarrow> status_edge (ts_status s) (ts_status t)"
  by (auto simp: turn_step_def turn_transition_Inr dest: apply_arm_edge)

text \<open>Completion is reached by one transition only, and it checks the evidence.\<close>

lemma completes_only_verified:
  assumes "turn_transition s n tr = Inr t" and "ts_status t = Completed"
  shows "\<exists>h policy. tr = Complete h policy \<and> ts_status s = Running
    \<and> verification_passed policy h \<and> ts_handoff t = Some h"
  using assms
  by (cases tr) (auto simp: turn_transition_Inr apply_arm_def split: if_splits option.splits)

lemma turn_progress:
  assumes "turn_wf s" and "ts_revision s + 1 < u64_bound"
    and "ts_status s \<noteq> Completed" and "ts_status s = Failed \<longrightarrow> may_resume s"
  shows "\<exists>tr t. turn_step s tr = Inr t"
proof -
  let ?ok = "\<lambda>tr. \<exists>t. apply_arm s (s\<lparr>ts_revision := ts_revision s + 1\<rparr>) tr = Inr t"
  have "?ok (if ts_status s \<in> {Interrupted, Failed} then Resume
        else if ts_status s = Cancelling then Interrupt else Cancel)"
    using assms by (cases "ts_status s") (auto simp: apply_arm_def may_resume_def)
  with assms(2,3) show ?thesis by (auto simp: turn_step_def turn_transition_Inr)
qed

end
