(* ===== verification/Store_Schema.thy ===== *)
theory Store_Schema
  imports Turn_State
begin

text \<open>
  The vocabulary of \<open>latte-engine/src/storage.rs\<close>: its errors, the mutation requests of
  a linked child turn, the rows of the SQLite schema at version 15, and the
  validators and digests of commands. A JSON column holds the typed value the
  engine serialises into it; a numeric column holds the \<open>u64\<close> written through
  \<open>to_i64\<close>.
\<close>

subsection \<open>Code the engine links against\<close>

text \<open>
  The functions of other crates that the store calls: \<open>regex\<close> (the scrubbing passes),
  \<open>uuid\<close>, \<open>serde_json\<close> and \<open>sha2\<close>. They are parameters of the model.
\<close>

record session_effect_descriptor =
  sd_effect_id :: rstr
  sd_tool_call_id :: rstr
  sd_name :: rstr
  sd_input :: json
  sd_attempt :: nat

record verification_record =
  ver_revision :: nat
  ver_effect_epoch :: nat
  ver_effect_id :: rstr
  ver_passed :: bool
  ver_workspace_manifest_digest :: rstr
  ver_summary :: rstr

record lib =
  scrub_secrets :: "rstr \<Rightarrow> rstr"
  uuid_text :: "uuid \<Rightarrow> rstr"
  uuid_parse :: "rstr \<Rightarrow> uuid option"
  uuid_error :: "rstr \<Rightarrow> rstr"
  json_parse :: "rstr \<Rightarrow> json option"
  json_error :: "rstr \<Rightarrow> rstr"
  json_text :: "json \<Rightarrow> rstr"
  dedup_result_error :: rstr
  json_sha256 :: "json \<Rightarrow> rstr"
  descriptor_parse :: "rstr \<Rightarrow> session_effect_descriptor option"
  verification_parse :: "rstr \<Rightarrow> verification_record option"

definition redact :: "lib \<Rightarrow> rstr \<Rightarrow> rstr" where
  "redact L s = redact_session_text (scrub_secrets L) s"

definition redact_value :: "lib \<Rightarrow> json \<Rightarrow> json" where
  "redact_value L j = redact_session_value (scrub_secrets L) j"

text \<open>Documented behaviour of \<open>uuid\<close>: parsing inverts the hyphenated rendering.\<close>

definition uuid_roundtrip :: "lib \<Rightarrow> bool" where
  "uuid_roundtrip L \<longleftrightarrow> (\<forall>u. uuid_parse L (uuid_text L u) = Some u)"

lemma uuid_text_inj: "uuid_roundtrip L \<Longrightarrow> uuid_text L u = uuid_text L v \<longleftrightarrow> u = v"
  by (metis option.inject uuid_roundtrip_def)

subsection \<open>Errors\<close>

datatype sql_error =
    QueryReturnedNoRows | ConstraintViolation | InvalidColumnType | FromSqlConversionFailure nat

datatype storage_error =
    Sql sql_error
  | InvalidData rstr
  | NewerSchema int int
  | TurnNotFound uuid
  | StaleTurnRevision nat nat
  | EngineUnavailable
  | LeaseLost
  | EffectFenced
  | SessionNotFound uuid
  | StaleSessionRevision nat nat
  | LinkedTurnRequiresSessionCommit
  | SessionCommandReplayMismatch
  | SessionAlreadyExists uuid
  | SessionActiveTurnMismatch

fun is_coordinator_conflict :: "storage_error \<Rightarrow> bool" where
  "is_coordinator_conflict EngineUnavailable = True"
| "is_coordinator_conflict LeaseLost = True"
| "is_coordinator_conflict (StaleTurnRevision _ _) = True"
| "is_coordinator_conflict (StaleSessionRevision _ _) = True"
| "is_coordinator_conflict _ = False"

abbreviation invalid :: "string \<Rightarrow> storage_error" where
  "invalid msg \<equiv> InvalidData (lit msg)"

definition to_i64 :: "nat \<Rightarrow> storage_error + nat" where
  "to_i64 v = (if v < i64_bound then Inr v else Inl (invalid ''integer exceeds sqlite range''))"

lemma to_i64_eq_Inr [simp]: "to_i64 v = Inr w \<longleftrightarrow> w = v \<and> v < i64_bound"
  by (auto simp: to_i64_def)

definition parse_json :: "lib \<Rightarrow> rstr \<Rightarrow> storage_error + json" where
  "parse_json L s = ok_or (InvalidData (json_error L s)) (json_parse L s)"

definition parse_descriptor :: "lib \<Rightarrow> rstr \<Rightarrow> storage_error + session_effect_descriptor" where
  "parse_descriptor L s = ok_or (InvalidData (json_error L s)) (descriptor_parse L s)"

definition lift_transition :: "transition_error + turn_state \<Rightarrow> storage_error + turn_state" where
  "lift_transition m = map_err (\<lambda>e. InvalidData (transition_error_text e)) m"

lemma lift_transition_eq_Inr [simp]: "lift_transition m = Inr t \<longleftrightarrow> m = Inr t"
  by (simp add: lift_transition_def)

subsection \<open>Requests\<close>

datatype session_effect_policy = PolicyAllow | PolicyAsk

datatype commit_update =
    CuStart rstr
  | CuAppendTranscript rstr transcript_kind rstr "json option"
  | CuPrepareEffect rstr rstr rstr rstr rstr session_effect_policy rstr rstr
  | CuStartEffect rstr rstr rstr rstr
  | CuObserveEffect rstr rstr rstr bool rstr "json option" rstr
  | CuUnknownEffect rstr rstr rstr rstr
  | CuReconcileUnknownEffect rstr rstr rstr
  | CuRequestPermission rstr pending_permission
  | CuResolvePermission rstr rstr bool "rstr option"
  | CuRequestInput rstr pending_input
  | CuProvideInput rstr rstr rstr
  | CuComplete rstr handoff
  | CuCompleteVerified rstr rstr rstr rstr "rstr list"
  | CuFail rstr turn_failure
  | CuInterrupt rstr "rstr option"

fun source_key :: "commit_update \<Rightarrow> rstr" where
  "source_key (CuStart k) = k"
| "source_key (CuAppendTranscript k _ _ _) = k"
| "source_key (CuPrepareEffect k _ _ _ _ _ _ _) = k"
| "source_key (CuStartEffect k _ _ _) = k"
| "source_key (CuObserveEffect k _ _ _ _ _ _) = k"
| "source_key (CuUnknownEffect k _ _ _) = k"
| "source_key (CuReconcileUnknownEffect k _ _) = k"
| "source_key (CuRequestPermission k _) = k"
| "source_key (CuResolvePermission k _ _ _) = k"
| "source_key (CuRequestInput k _) = k"
| "source_key (CuProvideInput k _ _) = k"
| "source_key (CuComplete k _) = k"
| "source_key (CuCompleteVerified k _ _ _ _) = k"
| "source_key (CuFail k _) = k"
| "source_key (CuInterrupt k _) = k"

record session_commit_request =
  rq_session_id :: uuid
  rq_turn_id :: uuid
  rq_expected_session_revision :: nat
  rq_expected_turn_revision :: nat
  rq_command_id :: uuid
  rq_request_id :: "rstr option"
  rq_effect_id :: "rstr option"
  rq_update :: commit_update

record stored_event =
  sto_sequence :: nat
  sto_envelope :: event_envelope

record stored_session_event =
  ss_sequence :: nat
  ss_envelope :: session_event_envelope

record session_commit_response =
  rs_snapshot :: session_snapshot
  rs_session_event :: stored_session_event

record lease =
  ls_scope :: rstr
  ls_owner :: rstr
  ls_fencing_token :: nat
  ls_expires_at_ms :: nat

datatype lease_loss_recovery =
    LossInterrupted turn_state
  | LossFencedNoop
  | LossAlreadyTerminal turn_state

datatype session_lease_loss_recovery =
    Recovered session_commit_response
  | FencedNoop
  | AlreadyTerminal session_snapshot

datatype effect_status =
    EfDeclared | EfPrepared | EfStarted | EfObservedSuccess | EfObservedFailed | EfUnknown

record effect_authority =
  au_turn_id :: uuid
  au_expected_revision :: nat
  au_lease :: lease
  au_effect_id :: rstr
  au_digest :: rstr
  au_attempt :: nat

subsection \<open>The tables\<close>

text \<open>
  The tables of schema version 15. Identifier columns hold the identifier whose text
  the engine writes; \<open>status\<close>, \<open>lifecycle\<close> and \<open>kind\<close> columns hold the text itself, since
  the statements compare it.
\<close>

record turn_row =
  tr_turn_id :: uuid
  tr_state :: turn_state
  tr_status :: rstr
  tr_revision :: nat
  tr_last_seq :: nat
  tr_lease_token :: nat
  tr_created_at_ms :: nat
  tr_updated_at_ms :: nat
  tr_effect_epoch :: nat

record read_row =
  rm_turn_id :: uuid
  rm_revision :: nat
  rm_last_seq :: nat
  rm_state :: turn_state

record event_row =
  er_turn_id :: uuid
  er_seq :: nat
  er_event_id :: uuid
  er_revision :: nat
  er_event :: event_envelope
  er_created_at_ms :: nat

record session_row =
  sr_session_id :: uuid
  sr_revision :: nat
  sr_last_seq :: nat
  sr_lifecycle :: rstr
  sr_binding :: session_provider_binding
  sr_latest_turn_id :: "uuid option"
  sr_created_at_ms :: nat
  sr_updated_at_ms :: nat
  sr_focus :: "rstr option"
  sr_title :: rstr
  sr_workspace_root :: rstr
  sr_parent_session_id :: "uuid option"

record session_turn_row =
  st_turn_id :: uuid
  st_session_id :: uuid
  st_parent_turn_id :: "uuid option"
  st_ordinal :: nat
  st_completed_at_ms :: "nat option"
  st_tool_round_count :: nat

record active_row =
  ar_session_id :: uuid
  ar_turn_id :: uuid
  ar_lease_token :: nat

record outbox_row =
  ob_session_id :: uuid
  ob_seq :: nat
  ob_entry_id :: uuid
  ob_turn_id :: "uuid option"
  ob_kind :: rstr
  ob_source_key :: rstr
  ob_entry :: transcript_entry
  ob_created_at_ms :: nat

record sevent_row =
  sv_session_id :: uuid
  sv_seq :: nat
  sv_event_id :: uuid
  sv_revision :: nat
  sv_event :: session_event_envelope
  sv_created_at_ms :: nat

datatype dedup_result = DrCommit session_commit_response | DrSnapshot session_snapshot

record dedup_row =
  dd_command_id :: uuid
  dd_digest :: rstr
  dd_result :: dedup_result
  dd_created_at_ms :: nat

record source_row =
  cs_session_id :: uuid
  cs_source_key :: rstr
  cs_digest :: rstr
  cs_result :: session_commit_response

record effect_row =
  ef_effect_id :: rstr
  ef_turn_id :: uuid
  ef_status :: rstr
  ef_started_at_ms :: nat
  ef_observed_at_ms :: "nat option"
  ef_attempt :: nat
  ef_approval_digest :: "rstr option"
  ef_descriptor :: "rstr option"
  ef_pre_evidence :: "rstr option"
  ef_post_evidence :: "rstr option"
  ef_prepared_at_ms :: "nat option"

record canonical_row =
  ca_effect_id :: rstr
  ca_turn_id :: uuid
  ca_descriptor :: rstr

record permission_row =
  pm_effect_id :: rstr
  pm_turn_id :: uuid
  pm_turn_revision :: nat
  pm_lease_owner :: rstr
  pm_lease_token :: nat
  pm_approval_digest :: rstr
  pm_consumed_at_ms :: "nat option"

record evidence_row =
  vr_id :: rstr
  vr_turn_id :: uuid
  vr_metadata :: rstr
  vr_blob_ref :: "rstr option"

record checkpoint_row =
  ck_turn_id :: uuid
  ck_payload :: rstr
  ck_updated_at_ms :: nat

record baseline_row =
  bl_turn_id :: uuid
  bl_manifest :: "(rstr \<times> rstr) list"

record lease_row =
  lr_scope :: rstr
  lr_owner :: rstr
  lr_token :: nat
  lr_expires_at_ms :: nat

record db =
  db_turns :: "turn_row list"
  db_read_model :: "read_row list"
  db_events :: "event_row list"
  db_sessions :: "session_row list"
  db_session_turns :: "session_turn_row list"
  db_active :: "active_row list"
  db_outbox :: "outbox_row list"
  db_session_events :: "sevent_row list"
  db_dedup :: "dedup_row list"
  db_sources :: "source_row list"
  db_effects :: "effect_row list"
  db_canonical :: "canonical_row list"
  db_permissions :: "permission_row list"
  db_evidence :: "evidence_row list"
  db_checkpoints :: "checkpoint_row list"
  db_baselines :: "baseline_row list"
  db_leases :: "lease_row list"
  db_lease_epoch :: nat

definition empty_db :: db where
  "empty_db = \<lparr>db_turns = [], db_read_model = [], db_events = [], db_sessions = [],
     db_session_turns = [], db_active = [], db_outbox = [], db_session_events = [],
     db_dedup = [], db_sources = [], db_effects = [], db_canonical = [],
     db_permissions = [], db_evidence = [], db_checkpoints = [], db_baselines = [],
     db_leases = [], db_lease_epoch = 0\<rparr>"

subsection \<open>Text of the enumerations\<close>

fun status_name :: "turn_status \<Rightarrow> rstr" where
  "status_name Queued = lit ''queued''"
| "status_name Running = lit ''running''"
| "status_name WaitingPermission = lit ''waiting_permission''"
| "status_name WaitingInput = lit ''waiting_input''"
| "status_name Cancelling = lit ''cancelling''"
| "status_name Interrupted = lit ''interrupted''"
| "status_name Failed = lit ''failed''"
| "status_name Completed = lit ''completed''"

text \<open>The statuses the store tests as \<open>Completed | Failed | Interrupted\<close>.\<close>

definition terminal_status :: "turn_status \<Rightarrow> bool" where
  "terminal_status s \<longleftrightarrow> s \<in> {Completed, Failed, Interrupted}"

definition parse_lifecycle :: "rstr \<Rightarrow> storage_error + session_lifecycle" where
  "parse_lifecycle v =
     (if v = lit ''ready'' then Inr LcReady
      else if v = lit ''running'' then Inr LcRunning
      else if v = lit ''waiting_permission'' then Inr LcWaitingPermission
      else if v = lit ''waiting_input'' then Inr LcWaitingInput
      else if v = lit ''interrupted'' then Inr LcInterrupted
      else if v = lit ''failed'' then Inr LcFailed
      else if v = lit ''reconciliation_required'' then Inr LcReconciliationRequired
      else Inl (InvalidData (lit ''invalid session lifecycle '' @ v)))"

fun session_turn_status :: "turn_status \<Rightarrow> session_turn_status" where
  "session_turn_status Queued = StQueued"
| "session_turn_status Running = StRunning"
| "session_turn_status Cancelling = StCancelling"
| "session_turn_status WaitingPermission = StWaitingPermission"
| "session_turn_status WaitingInput = StWaitingInput"
| "session_turn_status Interrupted = StInterrupted"
| "session_turn_status Failed = StFailed"
| "session_turn_status Completed = StCompleted"

fun transcript_kind_name :: "transcript_kind \<Rightarrow> rstr" where
  "transcript_kind_name TkUser = lit ''user''"
| "transcript_kind_name TkAssistant = lit ''assistant''"
| "transcript_kind_name TkToolCall = lit ''tool_call''"
| "transcript_kind_name TkToolResult = lit ''tool_result''"
| "transcript_kind_name TkPermission = lit ''permission''"
| "transcript_kind_name TkInput = lit ''input''"
| "transcript_kind_name TkFailure = lit ''failure''"
| "transcript_kind_name TkCompletion = lit ''completion''"
| "transcript_kind_name TkSystem = lit ''system''"
| "transcript_kind_name TkCompactSummary = lit ''compact_summary''"
| "transcript_kind_name TkToolResultElision = lit ''tool_result_elision''"

lemma status_name_inj [simp]: "status_name a = status_name b \<longleftrightarrow> a = b"
  by (cases a; cases b) simp_all

lemma transcript_kind_name_inj [simp]:
  "transcript_kind_name a = transcript_kind_name b \<longleftrightarrow> a = b"
  by (cases a; cases b) simp_all

subsection \<open>Validators\<close>

definition validate_workspace_root :: "rstr \<Rightarrow> storage_error + rstr" where
  "validate_workspace_root v =
     (if v = [] \<or> utf8_len v > 4 * 1024 \<or> list_ex is_control v
      then Inl (invalid ''invalid canonical workspace root'') else Inr v)"

definition validate_catalog_key :: "rstr \<Rightarrow> rstr \<Rightarrow> storage_error + unit" where
  "validate_catalog_key v name =
     (if v = [] \<or> utf8_len v > 256 \<or> \<not> list_all (\<lambda>c. is_ascii_alnum c \<or> c = 45 \<or> c = 95) v
      then Inl (InvalidData (lit ''invalid '' @ name)) else Inr ())"

definition validate_session_source :: "rstr \<Rightarrow> storage_error + unit" where
  "validate_session_source s =
     (if s = [] \<or> utf8_len s > 256 \<or> list_ex is_control s
      then Inl (invalid ''invalid session source key'') else Inr ())"

definition validate_session_effect_id :: "rstr \<Rightarrow> storage_error + unit" where
  "validate_session_effect_id v =
     (if v = [] \<or> utf8_len v > 512 \<or> list_ex is_control v
      then Inl (invalid ''invalid session effect id'') else Inr ())"

definition validate_session_digest :: "rstr \<Rightarrow> storage_error + unit" where
  "validate_session_digest v =
     (if utf8_len v \<noteq> 64 \<or> \<not> list_all is_ascii_hexdigit v
      then Inl (invalid ''invalid session effect operation digest'') else Inr ())"

definition LEGACY_RUNTIME_LEASE_SCOPE :: rstr where
  "LEGACY_RUNTIME_LEASE_SCOPE = lit ''runtime''"

definition session_lease_scope :: "lib \<Rightarrow> uuid \<Rightarrow> rstr" where
  "session_lease_scope L sid = lit ''session:'' @ uuid_text L sid"

definition require_lease_scope :: "lease \<Rightarrow> rstr \<Rightarrow> storage_error + unit" where
  "require_lease_scope l expected = (if ls_scope l = expected then Inr () else Inl LeaseLost)"

definition require_legacy_runtime_lease :: "lease \<Rightarrow> storage_error + unit" where
  "require_legacy_runtime_lease l = require_lease_scope l LEGACY_RUNTIME_LEASE_SCOPE"

definition parse_session_id :: "lib \<Rightarrow> rstr \<Rightarrow> storage_error + uuid" where
  "parse_session_id L v =
     ok_or (InvalidData (lit ''invalid stored session id: '' @ uuid_error L v)) (uuid_parse L v)"

lemma require_lease_scope_Inr [simp]: "require_lease_scope l e = Inr u \<longleftrightarrow> ls_scope l = e"
  by (simp add: require_lease_scope_def)

lemma session_lease_scope_inj:
  "uuid_roundtrip L \<Longrightarrow> session_lease_scope L a = session_lease_scope L b \<longleftrightarrow> a = b"
  by (simp add: session_lease_scope_def uuid_text_inj)

lemma session_scope_not_runtime: "session_lease_scope L a \<noteq> LEGACY_RUNTIME_LEASE_SCOPE"
  by (simp add: session_lease_scope_def LEGACY_RUNTIME_LEASE_SCOPE_def lit_def)

subsection \<open>Redaction of the stored records\<close>

definition redact_permission :: "lib \<Rightarrow> pending_permission \<Rightarrow> pending_permission" where
  "redact_permission L v = \<lparr>pp_request_id = redact L (pp_request_id v),
     pp_operation_digest = redact L (pp_operation_digest v),
     pp_description = redact L (pp_description v)\<rparr>"

definition redact_input :: "lib \<Rightarrow> pending_input \<Rightarrow> pending_input" where
  "redact_input L v = \<lparr>pi_request_id = redact L (pi_request_id v),
     pi_prompt = redact L (pi_prompt v)\<rparr>"

definition redact_failure :: "lib \<Rightarrow> turn_failure \<Rightarrow> turn_failure" where
  "redact_failure L v = \<lparr>tf_code = tf_code v, tf_message = redact L (tf_message v),
     tf_retryability = tf_retryability v\<rparr>"

definition redact_handoff :: "lib \<Rightarrow> handoff \<Rightarrow> handoff" where
  "redact_handoff L v = \<lparr>ho_summary = redact L (ho_summary v),
     ho_files_changed = map (redact L) (ho_files_changed v),
     ho_evidence = map (\<lambda>e. \<lparr>ev_name = redact L (ev_name e), ev_status = ev_status e,
       ev_summary = redact L (ev_summary e)\<rparr>) (ho_evidence v)\<rparr>"

end
