(* ===== verification/Store_Leases.thy ===== *)
theory Store_Leases
  imports Store_Schema
begin

text \<open>
  Runtime authority (\<open>acquire_scoped_lease\<close>, its three callers and \<open>renew_lease\<close> of
  \<open>storage.rs\<close>). A lease is a row of \<open>runtime_lease\<close>; its fencing token is drawn from
  the global epoch, and every fenced write of the store asks \<open>lease_live\<close>.
\<close>

subsection \<open>Operations\<close>

definition holds_row :: "rstr \<Rightarrow> rstr \<Rightarrow> nat \<Rightarrow> lease_row \<Rightarrow> bool" where
  "holds_row scope owner token r \<longleftrightarrow>
     lr_scope r = scope \<and> lr_owner r = owner \<and> lr_token r = token"

definition lease_live :: "db \<Rightarrow> rstr \<Rightarrow> rstr \<Rightarrow> nat \<Rightarrow> nat \<Rightarrow> bool" where
  "lease_live d scope owner token now \<longleftrightarrow>
     sql_exists (\<lambda>r. holds_row scope owner token r \<and> lr_expires_at_ms r > now) (db_leases d)"

text \<open>\<open>INSERT .. ON CONFLICT(scope) DO UPDATE\<close>; the \<open>UNIQUE\<close> owner column still refuses a clash.\<close>

definition lease_upsert ::
  "rstr \<Rightarrow> rstr \<Rightarrow> nat \<Rightarrow> nat \<Rightarrow> lease_row list \<Rightarrow> storage_error + lease_row list" where
  "lease_upsert scope owner token expires rows =
     (if sql_exists (\<lambda>r. lr_owner r = owner \<and> lr_scope r \<noteq> scope) rows
      then Inl (Sql ConstraintViolation)
      else if sql_exists (\<lambda>r. lr_scope r = scope) rows
      then Inr (sql_update (\<lambda>r. lr_scope r = scope)
        (\<lambda>r. r\<lparr>lr_owner := owner, lr_token := token, lr_expires_at_ms := expires\<rparr>) rows)
      else Inr (rows @ [\<lparr>lr_scope = scope, lr_owner = owner, lr_token = token,
                         lr_expires_at_ms = expires\<rparr>]))"

definition lease_token_for :: "db \<Rightarrow> rstr \<Rightarrow> rstr \<Rightarrow> nat \<Rightarrow> storage_error + db \<times> nat" where
  "lease_token_for d scope owner now =
     (let fresh =
        bindE (ok_or (invalid ''fencing token overflow'') (checked_add (db_lease_epoch d) 1))
          (\<lambda>t. bindE (to_i64 t) (\<lambda>t. Inr (d\<lparr>db_lease_epoch := t\<rparr>, t)))
      in case find (\<lambda>r. lr_scope r = scope) (db_leases d) of
           None \<Rightarrow> fresh
         | Some r \<Rightarrow>
             if lr_expires_at_ms r > now then
               (if lr_owner r = owner then Inr (d, lr_token r) else Inl EngineUnavailable)
             else fresh)"

definition unlinked :: "db \<Rightarrow> turn_row \<Rightarrow> bool" where
  "unlinked d r \<longleftrightarrow>
     \<not> sql_exists (\<lambda>s. st_turn_id s = tr_turn_id r) (db_session_turns d)"

definition bind_turns_to_lease ::
  "db \<Rightarrow> rstr \<Rightarrow> uuid option \<Rightarrow> nat \<Rightarrow> storage_error + db" where
  "bind_turns_to_lease d scope turn token =
     (if scope \<noteq> lit ''runtime'' then Inr d
      else case turn of
        Some t \<Rightarrow>
          (let P = (\<lambda>r. tr_turn_id r = t \<and> unlinked d r) in
           if sql_changes P (db_turns d) \<noteq> 1
           then Inl (if sql_exists (\<lambda>r. tr_turn_id r = t) (db_turns d)
                     then LinkedTurnRequiresSessionCommit else TurnNotFound t)
           else Inr (d\<lparr>db_turns := sql_update P (\<lambda>r. r\<lparr>tr_lease_token := token\<rparr>) (db_turns d)\<rparr>))
      | None \<Rightarrow>
          Inr (d\<lparr>db_turns := sql_update (\<lambda>r. tr_status r = lit ''queued'' \<and> unlinked d r)
                   (\<lambda>r. r\<lparr>tr_lease_token := token\<rparr>) (db_turns d)\<rparr>))"

definition acquire_scoped_lease ::
  "db \<Rightarrow> rstr \<Rightarrow> rstr \<Rightarrow> uuid option \<Rightarrow> nat \<Rightarrow> nat \<Rightarrow> storage_error + db \<times> lease" where
  "acquire_scoped_lease d scope owner turn now ttl =
     bindE (lease_token_for d scope owner now) (\<lambda>(d1, token).
     bindE (ok_or (invalid ''lease expiry overflow'') (checked_add now ttl)) (\<lambda>expires.
     bindE (to_i64 token) (\<lambda>token.
     bindE (to_i64 expires) (\<lambda>expires.
     bindE (lease_upsert scope owner token expires (db_leases d1)) (\<lambda>rows.
     bindE (bind_turns_to_lease (d1\<lparr>db_leases := rows\<rparr>) scope turn token) (\<lambda>d2.
     Inr (d2, \<lparr>ls_scope = scope, ls_owner = owner, ls_fencing_token = token,
               ls_expires_at_ms = expires\<rparr>)))))))"

definition acquire_lease :: "db \<Rightarrow> rstr \<Rightarrow> nat \<Rightarrow> nat \<Rightarrow> storage_error + db \<times> lease" where
  "acquire_lease d owner now ttl = acquire_scoped_lease d (lit ''runtime'') owner None now ttl"

definition acquire_turn_lease ::
  "db \<Rightarrow> uuid \<Rightarrow> rstr \<Rightarrow> nat \<Rightarrow> nat \<Rightarrow> storage_error + db \<times> lease" where
  "acquire_turn_lease d turn owner now ttl =
     acquire_scoped_lease d (lit ''runtime'') owner (Some turn) now ttl"

definition acquire_session_lease ::
  "lib \<Rightarrow> (nat \<Rightarrow> uuid) \<Rightarrow> db \<Rightarrow> uuid \<Rightarrow> nat \<Rightarrow> nat \<Rightarrow> storage_error + db \<times> lease" where
  "acquire_session_lease L ids d sid now ttl =
     acquire_scoped_lease d (session_lease_scope L sid)
       (lit ''session-'' @ uuid_text L sid @ lit ''-'' @ uuid_text L (ids 0)) None now ttl"

definition renew_lease :: "db \<Rightarrow> lease \<Rightarrow> nat \<Rightarrow> nat \<Rightarrow> storage_error + db \<times> lease" where
  "renew_lease d l now ttl =
     bindE (ok_or (invalid ''lease expiry overflow'') (checked_add now ttl)) (\<lambda>expires.
     bindE (to_i64 expires) (\<lambda>expires.
     bindE (to_i64 (ls_fencing_token l)) (\<lambda>token.
     bindE (to_i64 now) (\<lambda>now.
       let P = (\<lambda>r. holds_row (ls_scope l) (ls_owner l) token r \<and> lr_expires_at_ms r > now) in
       if sql_changes P (db_leases d) \<noteq> 1 then Inl LeaseLost
       else Inr (d\<lparr>db_leases := sql_update P (\<lambda>r. r\<lparr>lr_expires_at_ms := expires\<rparr>) (db_leases d)\<rparr>,
                 l\<lparr>ls_expires_at_ms := expires\<rparr>)))))"

subsection \<open>The contract of the lease table\<close>

text \<open>
  One row per scope, owners unique as the schema demands, and no token beyond the
  epoch. The table evolves in one direction: a row either was there with the same
  owner and token, or carries a token the epoch had not reached.
\<close>

definition leases_ok :: "db \<Rightarrow> bool" where
  "leases_ok d \<longleftrightarrow> distinct (map lr_scope (db_leases d)) \<and> distinct (map lr_owner (db_leases d))
     \<and> (\<forall>r \<in> set (db_leases d). lr_token r \<le> db_lease_epoch d)"

definition same_holder :: "lease_row \<Rightarrow> lease_row \<Rightarrow> bool" where
  "same_holder r s \<longleftrightarrow> lr_scope r = lr_scope s \<and> lr_owner r = lr_owner s \<and> lr_token r = lr_token s"

definition lease_le :: "db \<Rightarrow> db \<Rightarrow> bool" where
  "lease_le d e \<longleftrightarrow> db_lease_epoch d \<le> db_lease_epoch e
     \<and> (\<forall>r \<in> set (db_leases e).
          (\<exists>s \<in> set (db_leases d). same_holder r s) \<or> db_lease_epoch d < lr_token r)"

lemma lease_le_refl [intro, simp]: "lease_le d d"
  by (auto simp: lease_le_def same_holder_def)

lemma lease_le_trans: "lease_le d e \<Longrightarrow> lease_le e f \<Longrightarrow> lease_le d f"
  unfolding lease_le_def same_holder_def by (metis (full_types) order.strict_trans1 order.trans)

lemma lease_le_same:
  "db_leases e = db_leases d \<Longrightarrow> db_lease_epoch e = db_lease_epoch d \<Longrightarrow> lease_le d e"
  by (auto simp: lease_le_def same_holder_def)

lemma leases_ok_same:
  "leases_ok d \<Longrightarrow> db_leases e = db_leases d \<Longrightarrow> db_lease_epoch e = db_lease_epoch d \<Longrightarrow> leases_ok e"
  by (simp add: leases_ok_def)

lemma leases_ok_scope:
  assumes "leases_ok d" and "r \<in> set (db_leases d)" and "s \<in> set (db_leases d)"
    and "lr_scope r = lr_scope s"
  shows "r = s"
proof -
  have "inj_on lr_scope (set (db_leases d))"
    using assms(1) by (simp add: leases_ok_def distinct_map)
  from inj_onD [OF this assms(4) assms(2,3)] show ?thesis .
qed

text \<open>A holder that has lost its row never gets it back: its token stays behind the epoch.\<close>

definition lease_lost :: "db \<Rightarrow> lease \<Rightarrow> bool" where
  "lease_lost d l \<longleftrightarrow> ls_fencing_token l \<le> db_lease_epoch d
     \<and> \<not> sql_exists (holds_row (ls_scope l) (ls_owner l) (ls_fencing_token l)) (db_leases d)"

lemma lease_lost_persists: "lease_lost d l \<Longrightarrow> lease_le d e \<Longrightarrow> lease_lost e l"
  by (fastforce simp: lease_lost_def lease_le_def same_holder_def holds_row_def)

lemma lease_lost_not_live: "lease_lost d l \<Longrightarrow> \<not> lease_live d (ls_scope l) (ls_owner l) (ls_fencing_token l) now"
  by (auto simp: lease_lost_def lease_live_def)

lemma lease_upsert_Inr:
  assumes "lease_upsert scope owner token expires rows = Inr rows'"
    and "distinct (map lr_scope rows)" and "distinct (map lr_owner rows)"
  shows "distinct (map lr_scope rows')" and "distinct (map lr_owner rows')"
    and "set rows' = {r \<in> set rows. lr_scope r \<noteq> scope} \<union>
      {\<lparr>lr_scope = scope, lr_owner = owner, lr_token = token, lr_expires_at_ms = expires\<rparr>}"
proof -
  let ?new = "\<lparr>lr_scope = scope, lr_owner = owner, lr_token = token, lr_expires_at_ms = expires\<rparr>"
  let ?upd = "\<lambda>r. r\<lparr>lr_owner := owner, lr_token := token, lr_expires_at_ms := expires\<rparr>"
  have upd: "?upd r = ?new" if "lr_scope r = scope" for r :: lease_row
    using that by simp
  have clash: "lr_scope r = scope" if "r \<in> set rows" "lr_owner r = owner" for r
    using assms(1) that by (auto simp: lease_upsert_def split: if_splits)
  consider (update) "\<exists>r \<in> set rows. lr_scope r = scope"
      "rows' = sql_update (\<lambda>r. lr_scope r = scope) ?upd rows"
    | (insert) "\<forall>r \<in> set rows. lr_scope r \<noteq> scope" "rows' = rows @ [?new]"
    using assms(1) by (auto simp: lease_upsert_def split: if_splits)
  then have "distinct (map lr_scope rows') \<and> distinct (map lr_owner rows')
    \<and> set rows' = {r \<in> set rows. lr_scope r \<noteq> scope} \<union> {?new}"
  proof cases
    case update
    have "map lr_scope rows' = map lr_scope rows"
      unfolding update(2) by (induction rows) auto
    then have "distinct (map lr_scope rows')" using assms(2) by simp
    moreover have "set rows' = {r \<in> set rows. lr_scope r \<noteq> scope} \<union> {?new}"
      unfolding update(2) set_sql_update using update(1) upd by (auto simp: image_iff)
    moreover have "distinct (map lr_owner rows')"
    proof -
      let ?h = "\<lambda>r. if lr_scope r = scope then owner else lr_owner r"
      have "map lr_owner rows' = map ?h rows"
        unfolding update(2) by (induction rows) auto
      moreover have "inj_on ?h (set rows)"
      proof (rule inj_onI)
        fix x y assume *: "x \<in> set rows" "y \<in> set rows" "?h x = ?h y"
        then have "lr_scope x = lr_scope y \<or> lr_owner x = lr_owner y"
          using clash [of x] clash [of y] by (auto split: if_splits)
        with * assms(2,3) show "x = y" by (auto simp: distinct_map dest: inj_onD)
      qed
      ultimately show ?thesis using assms(2) by (simp add: distinct_map)
    qed
    ultimately show ?thesis by simp
  next
    case insert
    then show ?thesis using assms(2,3) clash by auto
  qed
  then show "distinct (map lr_scope rows')" "distinct (map lr_owner rows')"
    "set rows' = {r \<in> set rows. lr_scope r \<noteq> scope} \<union> {?new}"
    by blast+
qed

lemma lease_token_for_Inr:
  assumes "lease_token_for d scope owner now = Inr (e, token)"
  shows "(e = d \<and> (\<exists>r \<in> set (db_leases d). holds_row scope owner token r
           \<and> lr_expires_at_ms r > now))
    \<or> (token = db_lease_epoch d + 1 \<and> e = d\<lparr>db_lease_epoch := token\<rparr>
        \<and> (\<forall>r. find (\<lambda>r. lr_scope r = scope) (db_leases d) = Some r \<longrightarrow> lr_expires_at_ms r \<le> now))"
  using assms unfolding lease_token_for_def holds_row_def Let_def
  by (auto split: option.splits if_splits dest!: find_Some_in)

lemma bind_turns_to_lease_frame:
  "bind_turns_to_lease d scope turn token = Inr e \<Longrightarrow>
     \<exists>ts. e = d\<lparr>db_turns := ts\<rparr> \<and> map tr_turn_id ts = map tr_turn_id (db_turns d)"
  by (auto simp: bind_turns_to_lease_def Let_def sql_update_def split: if_splits option.splits
      intro: exI [of _ "db_turns d"])


text \<open>
  What an acquisition promises: the holder is live until its expiry, with the token it
  already had or with a token no lease ever carried, and the table keeps its contract.
\<close>

lemma acquire_scoped_lease_Inr:
  assumes "acquire_scoped_lease d scope owner turn now ttl = Inr (e, l)"
  obtains d1 rows ts where
    "lease_token_for d scope owner now = Inr (d1, ls_fencing_token l)"
    "lease_upsert scope owner (ls_fencing_token l) (now + ttl) (db_leases d1) = Inr rows"
    "e = d1\<lparr>db_leases := rows, db_turns := ts\<rparr>"
    "map tr_turn_id ts = map tr_turn_id (db_turns d1)"
    "l = \<lparr>ls_scope = scope, ls_owner = owner, ls_fencing_token = ls_fencing_token l,
          ls_expires_at_ms = now + ttl\<rparr>"
  using assms that unfolding acquire_scoped_lease_def
  by (fastforce dest!: bind_turns_to_lease_frame)

lemma acquire_keeps_contract:
  assumes "leases_ok d" and "acquire_scoped_lease d scope owner turn now ttl = Inr (e, l)"
  shows "leases_ok e" and "lease_le d e"
proof -
  obtain d1 rows ts where
    tok: "lease_token_for d scope owner now = Inr (d1, ls_fencing_token l)"
    and up: "lease_upsert scope owner (ls_fencing_token l) (now + ttl) (db_leases d1) = Inr rows"
    and e: "e = d1\<lparr>db_leases := rows, db_turns := ts\<rparr>"
    using assms(2) by (rule acquire_scoped_lease_Inr)
  have rows1: "db_leases d1 = db_leases d"
    and epoch: "db_lease_epoch d \<le> db_lease_epoch d1" "ls_fencing_token l \<le> db_lease_epoch d1"
    and fresh: "(\<exists>r \<in> set (db_leases d). holds_row scope owner (ls_fencing_token l) r)
      \<or> db_lease_epoch d < ls_fencing_token l"
    using lease_token_for_Inr [OF tok] assms(1) by (auto simp: leases_ok_def holds_row_def)
  have "distinct (map lr_scope (db_leases d1))" "distinct (map lr_owner (db_leases d1))"
    using assms(1) rows1 by (simp_all add: leases_ok_def)
  note u = lease_upsert_Inr [OF up this]
  show "leases_ok e"
    using u assms(1) epoch unfolding e leases_ok_def by (auto simp: rows1)
  show "lease_le d e"
    using u(3) epoch fresh unfolding e lease_le_def
    by (auto simp: rows1 same_holder_def holds_row_def)
qed

lemma acquire_is_live:
  assumes "leases_ok d" and "acquire_scoped_lease d scope owner turn now ttl = Inr (e, l)"
    and "t < now + ttl"
  shows "lease_live e (ls_scope l) (ls_owner l) (ls_fencing_token l) t"
proof -
  obtain d1 rows ts where
    tok: "lease_token_for d scope owner now = Inr (d1, ls_fencing_token l)"
    and up: "lease_upsert scope owner (ls_fencing_token l) (now + ttl) (db_leases d1) = Inr rows"
    and e: "e = d1\<lparr>db_leases := rows, db_turns := ts\<rparr>"
    and l: "l = \<lparr>ls_scope = scope, ls_owner = owner, ls_fencing_token = ls_fencing_token l,
      ls_expires_at_ms = now + ttl\<rparr>"
    using assms(2) by (rule acquire_scoped_lease_Inr)
  have "db_leases d1 = db_leases d"
    using lease_token_for_Inr [OF tok] by auto
  then have "distinct (map lr_scope (db_leases d1))" "distinct (map lr_owner (db_leases d1))"
    using assms(1) by (simp_all add: leases_ok_def)
  note u = lease_upsert_Inr(3) [OF up this]
  have "ls_scope l = scope" "ls_owner l = owner" by (subst l, simp)+
  with u assms(3) show ?thesis unfolding e lease_live_def
    by (auto simp: holds_row_def)
qed

text \<open>Nobody else gets the scope while a holder is live.\<close>

lemma acquire_refused:
  assumes "leases_ok d" and "lease_live d scope holder token now" and "owner \<noteq> holder"
  shows "acquire_scoped_lease d scope owner turn now ttl = Inl EngineUnavailable"
proof -
  obtain r where r: "r \<in> set (db_leases d)" "holds_row scope holder token r" "lr_expires_at_ms r > now"
    using assms(2) by (auto simp: lease_live_def)
  have "distinct (map lr_scope (db_leases d))" using assms(1) by (simp add: leases_ok_def)
  from find_by_key [OF this r(1)] have "find (\<lambda>x. lr_scope x = scope) (db_leases d) = Some r"
    using r(2) by (simp add: holds_row_def)
  with r assms(3) show ?thesis
    by (simp add: acquire_scoped_lease_def lease_token_for_def Let_def holds_row_def)
qed

lemma renew_lease_Inr:
  assumes "renew_lease d l now ttl = Inr (e, l')"
  shows "lease_live d (ls_scope l) (ls_owner l) (ls_fencing_token l) now"
    and "l' = l\<lparr>ls_expires_at_ms := now + ttl\<rparr>"
    and "e = d\<lparr>db_leases := sql_update (\<lambda>r. holds_row (ls_scope l) (ls_owner l)
        (ls_fencing_token l) r \<and> lr_expires_at_ms r > now)
      (\<lambda>r. r\<lparr>lr_expires_at_ms := now + ttl\<rparr>) (db_leases d)\<rparr>"
  using assms by (auto simp: renew_lease_def lease_live_def Let_def dest: sql_changes_pos)

lemma update_expiry_contract:
  assumes "leases_ok d"
  shows "leases_ok (d\<lparr>db_leases := sql_update P (\<lambda>r. r\<lparr>lr_expires_at_ms := x\<rparr>) (db_leases d)\<rparr>)"
    and "lease_le d (d\<lparr>db_leases := sql_update P (\<lambda>r. r\<lparr>lr_expires_at_ms := x\<rparr>) (db_leases d)\<rparr>)"
proof -
  let ?rows = "sql_update P (\<lambda>r. r\<lparr>lr_expires_at_ms := x\<rparr>) (db_leases d)"
  have "map lr_scope ?rows = map lr_scope (db_leases d)" for rows
    by (simp add: sql_update_def)
  moreover have "map lr_owner ?rows = map lr_owner (db_leases d)"
    by (simp add: sql_update_def)
  ultimately show "leases_ok (d\<lparr>db_leases := ?rows\<rparr>)" "lease_le d (d\<lparr>db_leases := ?rows\<rparr>)"
    using assms by (auto simp: leases_ok_def lease_le_def same_holder_def set_sql_update)
qed

lemma delete_lease_contract:
  assumes "leases_ok d"
  shows "leases_ok (d\<lparr>db_leases := sql_delete P (db_leases d)\<rparr>)"
    and "lease_le d (d\<lparr>db_leases := sql_delete P (db_leases d)\<rparr>)"
  using assms by (auto simp: leases_ok_def lease_le_def same_holder_def distinct_delete_key)

lemma renew_keeps_contract:
  "leases_ok d \<Longrightarrow> renew_lease d l now ttl = Inr (e, l') \<Longrightarrow> leases_ok e \<and> lease_le d e"
  using update_expiry_contract by (auto dest!: renew_lease_Inr(3))

subsection \<open>Interface: a lease service\<close>

text \<open>
  What a coordinator relies on: an acquired lease is live until its expiry, and while it
  is live nobody else gets one.
\<close>

locale lease_service =
  fixes acquire :: "'s \<Rightarrow> 'o \<Rightarrow> nat \<Rightarrow> nat \<Rightarrow> 'e + 's \<times> 'l"
    and live :: "'s \<Rightarrow> 'l \<Rightarrow> nat \<Rightarrow> bool"
    and holder :: "'l \<Rightarrow> 'o"
    and busy :: 'e
    and ok :: "'s \<Rightarrow> bool"
  assumes acquired: "ok s \<Longrightarrow> acquire s owner now ttl = Inr (s', l) \<Longrightarrow> ok s' \<and> holder l = owner"
    and acquired_live: "ok s \<Longrightarrow> acquire s owner now ttl = Inr (s', l) \<Longrightarrow> later < now + ttl
      \<Longrightarrow> live s' l later"
    and exclusive: "ok s \<Longrightarrow> live s l now \<Longrightarrow> owner \<noteq> holder l \<Longrightarrow> acquire s owner now ttl = Inl busy"
begin

lemma second_owner_refused:
  assumes "ok s" and "acquire s owner now ttl = Inr (s', l)" and "other \<noteq> owner" and "later < now + ttl"
  shows "acquire s' other later ttl' = Inl busy"
  using acquired [OF assms(1,2)] acquired_live [OF assms(1,2,4)] assms(3) by (simp add: exclusive)

end

interpretation scoped_leases: lease_service "\<lambda>d owner now ttl. acquire_scoped_lease d scope owner turn now ttl"
    "\<lambda>d l now. lease_live d scope (ls_owner l) (ls_fencing_token l) now" ls_owner EngineUnavailable leases_ok
  for scope turn
proof unfold_locales
  show "leases_ok e \<and> ls_owner l = owner"
    if "leases_ok d" "acquire_scoped_lease d scope owner turn now ttl = Inr (e, l)" for d e owner now ttl l
    using acquire_keeps_contract(1) [OF that] that(2) by (auto simp: acquire_scoped_lease_def)
  show "lease_live e scope (ls_owner l) (ls_fencing_token l) later"
    if "leases_ok d" "acquire_scoped_lease d scope owner turn now ttl = Inr (e, l)" "later < now + ttl"
    for d e owner now ttl l later
  proof -
    have "ls_scope l = scope" using that(2) by (auto simp: acquire_scoped_lease_def)
    with acquire_is_live [OF that] show ?thesis by simp
  qed
qed (rule acquire_refused)

end
