(* ===== verification/Store_Snapshot.thy ===== *)
theory Store_Snapshot
  imports Store_Schema
begin

text \<open>
  Read side of the store: \<open>session_snapshot\<close>, the two transcript projections and the
  outbox reads of \<open>storage.rs\<close>, and \<open>projection_window\<close> of \<open>latte-engine/src/lib.rs\<close>,
  which computes the same window from a full conversation.
\<close>

subsection \<open>Snapshots\<close>

definition SESSION_PROJECTION_TRANSCRIPT_LIMIT :: nat where
  "SESSION_PROJECTION_TRANSCRIPT_LIMIT = 500"

definition clamp :: "nat \<Rightarrow> nat \<Rightarrow> nat \<Rightarrow> nat" where
  "clamp n lo hi = (if n < lo then lo else if hi < n then hi else n)"

text \<open>\<open>SELECT .. FROM conversation_outbox WHERE session_id .. ORDER BY seq ASC\<close>\<close>

definition session_outbox :: "db \<Rightarrow> uuid \<Rightarrow> outbox_row list" where
  "session_outbox d sid = sort_key ob_seq (filter (\<lambda>r. ob_session_id r = sid) (db_outbox d))"

definition turn_summary :: "session_turn_row \<Rightarrow> turn_row \<Rightarrow> session_turn_summary" where
  "turn_summary s r = \<lparr>sm_turn_id = st_turn_id s, sm_parent_turn_id = st_parent_turn_id s,
     sm_ordinal = st_ordinal s, sm_status = session_turn_status (ts_status (tr_state r)),
     sm_turn_revision = ts_revision (tr_state r), sm_completed_at_ms = st_completed_at_ms s,
     sm_failure_code = map_option tf_code (ts_failure (tr_state r))\<rparr>"

definition session_turn_summaries :: "db \<Rightarrow> uuid \<Rightarrow> session_turn_summary list" where
  "session_turn_summaries d sid =
     concat (map (\<lambda>s. map (turn_summary s) (filter (\<lambda>r. tr_turn_id r = st_turn_id s) (db_turns d)))
       (sort_key st_ordinal (filter (\<lambda>s. st_session_id s = sid) (db_session_turns d))))"

definition active_turn :: "db \<Rightarrow> uuid \<Rightarrow> active_row option" where
  "active_turn d sid = find (\<lambda>r. ar_session_id r = sid) (db_active d)"

definition find_session :: "db \<Rightarrow> uuid \<Rightarrow> session_row option" where
  "find_session d sid = find (\<lambda>r. sr_session_id r = sid) (db_sessions d)"

definition find_turn :: "db \<Rightarrow> uuid \<Rightarrow> turn_row option" where
  "find_turn d t = find (\<lambda>r. tr_turn_id r = t) (db_turns d)"

definition pending_request ::
  "lib \<Rightarrow> db \<Rightarrow> session_turn_summary list \<Rightarrow> uuid \<Rightarrow> session_pending_request option" where
  "pending_request L d turns active =
     (case find (\<lambda>t. sm_turn_id t = active) turns of
        None \<Rightarrow> None
      | Some summary \<Rightarrow>
          (case find_turn d active of
             None \<Rightarrow> None
           | Some r \<Rightarrow>
               (case ts_pending_permission (tr_state r) of
                  Some p \<Rightarrow> Some (PendPermission active (redact L (pp_request_id p))
                    (redact L (pp_description p)) (sm_turn_revision summary))
                | None \<Rightarrow> map_option (\<lambda>i. PendInput active (redact L (pi_request_id i))
                    (redact L (pi_prompt i)) (sm_turn_revision summary))
                    (ts_pending_input (tr_state r)))))"

definition transcript_page_of :: "nat \<Rightarrow> transcript_entry list \<Rightarrow> transcript_page" where
  "transcript_page_of bound fetched =
     (let entries = take bound fetched in
      \<lparr>tp_entries = entries,
       tp_next_after = (if entries = [] then None else Some (te_sequence (last entries))),
       tp_has_more = (length fetched > bound)\<rparr>)"

definition session_snapshot ::
  "lib \<Rightarrow> db \<Rightarrow> uuid \<Rightarrow> nat option \<Rightarrow> nat \<Rightarrow> storage_error + session_snapshot" where
  "session_snapshot L d sid after limit =
     bindE (ok_or (SessionNotFound sid) (find_session d sid)) (\<lambda>s.
     let active = map_option ar_turn_id (active_turn d sid);
         turns = session_turn_summaries d sid;
         bound = clamp limit 1 500
     in bindE (to_i64 (case after of None \<Rightarrow> 0 | Some a \<Rightarrow> a)) (\<lambda>query_after.
        let fetched = take (bound + 1) (filter (\<lambda>r. ob_seq r > query_after) (session_outbox d sid));
            pending = (case active of None \<Rightarrow> None | Some a \<Rightarrow> pending_request L d turns a)
        in bindE (parse_lifecycle (sr_lifecycle s)) (\<lambda>lifecycle.
           Inr \<lparr>sn_session_id = sid, sn_revision = sr_revision s, sn_sequence = sr_last_seq s,
                sn_lifecycle = lifecycle, sn_binding = sr_binding s,
                sn_latest_turn_id = sr_latest_turn_id s, sn_active_turn_id = active,
                sn_pending = pending, sn_turns = turns,
                sn_transcript = transcript_page_of bound (map ob_entry fetched),
                sn_focus = sr_focus s\<rparr>)))"

text \<open>
  The newest page, oldest entry first: the query reads one row more than it shows, newest
  first, and the result is truncated and reversed.
\<close>

definition session_transcript_tail :: "db \<Rightarrow> uuid \<Rightarrow> nat \<Rightarrow> transcript_page" where
  "session_transcript_tail d sid limit =
     (let bound = clamp limit 1 SESSION_PROJECTION_TRANSCRIPT_LIMIT;
          newest = map ob_entry (take (bound + 1) (rev (session_outbox d sid)));
          entries = rev (take bound newest)
      in \<lparr>tp_entries = entries,
          tp_next_after = (if entries = [] then None else Some (te_sequence (last entries))),
          tp_has_more = (length newest > bound)\<rparr>)"

definition retain_from_sequence :: "transcript_entry \<Rightarrow> nat option" where
  "retain_from_sequence e =
     (case te_payload e of
        None \<Rightarrow> None
      | Some p \<Rightarrow> (case json_get (lit ''retain_from_sequence'') p of
                    None \<Rightarrow> None
                  | Some v \<Rightarrow> json_as_u64 v))"

definition session_transcript_projection :: "db \<Rightarrow> uuid \<Rightarrow> nat \<Rightarrow> transcript_page" where
  "session_transcript_projection d sid fallback =
     (case find (\<lambda>r. ob_kind r = lit ''compact_summary'') (rev (session_outbox d sid)) of
        None \<Rightarrow> session_transcript_tail d sid fallback
      | Some marker \<Rightarrow>
          (let seq = ob_seq marker;
               retain_floor = (case retain_from_sequence (ob_entry marker) of
                  None \<Rightarrow> seq
                | Some r \<Rightarrow> min (if r < i64_bound then r else seq) seq);
               entries = map ob_entry
                 (filter (\<lambda>r. ob_seq r \<ge> retain_floor) (session_outbox d sid))
           in \<lparr>tp_entries = entries,
               tp_next_after = (if entries = [] then None else Some (te_sequence (last entries))),
               tp_has_more = False\<rparr>))"

definition current_session_snapshot ::
  "lib \<Rightarrow> db \<Rightarrow> uuid \<Rightarrow> nat \<Rightarrow> storage_error + session_snapshot" where
  "current_session_snapshot L d sid limit =
     bindE (session_snapshot L d sid None 1) (\<lambda>s.
       Inr (s\<lparr>sn_transcript := session_transcript_tail d sid limit\<rparr>))"

definition current_projection_snapshot ::
  "lib \<Rightarrow> db \<Rightarrow> uuid \<Rightarrow> nat \<Rightarrow> storage_error + session_snapshot" where
  "current_projection_snapshot L d sid fallback =
     bindE (session_snapshot L d sid None 1) (\<lambda>s.
       Inr (s\<lparr>sn_transcript := session_transcript_projection d sid fallback\<rparr>))"

text \<open>\<open>projection_window\<close>: the engine's window of a conversation kept as a list.\<close>

definition projection_window :: "transcript_entry list \<Rightarrow> nat \<Rightarrow> transcript_page" where
  "projection_window entries fallback =
     (case find (\<lambda>e. te_kind e = TkCompactSummary) (rev entries) of
        None \<Rightarrow>
          (let start = saturating_sub (length entries) (clamp fallback 1 500);
               kept = drop start entries
           in \<lparr>tp_entries = kept,
               tp_next_after = (if kept = [] then None else Some (te_sequence (last kept))),
               tp_has_more = (start > 0)\<rparr>)
      | Some marker \<Rightarrow>
          (let seq = te_sequence marker;
               retain_floor = (case retain_from_sequence marker of
                  None \<Rightarrow> seq | Some r \<Rightarrow> min r seq);
               kept = filter (\<lambda>e. te_sequence e \<ge> retain_floor) entries
           in \<lparr>tp_entries = kept,
               tp_next_after = (if kept = [] then None else Some (te_sequence (last kept))),
               tp_has_more = False\<rparr>))"

subsection \<open>Reads and the outbox\<close>

definition load_turn :: "db \<Rightarrow> uuid \<Rightarrow> storage_error + turn_state" where
  "load_turn d t = map_err id (ok_or (TurnNotFound t)
     (map_option rm_state (find (\<lambda>r. rm_turn_id r = t) (db_read_model d))))"

definition list_runs :: "db \<Rightarrow> turn_state list" where
  "list_runs d = map rm_state (db_read_model d)"

definition is_session_linked_turn :: "db \<Rightarrow> uuid \<Rightarrow> bool" where
  "is_session_linked_turn d t = sql_exists (\<lambda>r. st_turn_id r = t) (db_session_turns d)"

definition tool_round_count_for_turn :: "db \<Rightarrow> uuid \<Rightarrow> storage_error + nat" where
  "tool_round_count_for_turn d t =
     bindE (ok_or (Sql QueryReturnedNoRows)
       (find (\<lambda>r. st_turn_id r = t) (db_session_turns d))) (\<lambda>r.
     if st_tool_round_count r < 2 ^ 32 then Inr (st_tool_round_count r)
     else Inl (invalid ''tool_round_count overflow''))"

definition conversation_outbox_entries :: "db \<Rightarrow> uuid \<Rightarrow> transcript_entry list" where
  "conversation_outbox_entries d sid = map ob_entry (session_outbox d sid)"

definition acknowledge_conversation_outbox :: "db \<Rightarrow> uuid \<Rightarrow> nat \<Rightarrow> storage_error + db" where
  "acknowledge_conversation_outbox d sid through =
     bindE (to_i64 through) (\<lambda>through.
       Inr (d\<lparr>db_outbox := sql_delete (\<lambda>r. ob_session_id r = sid \<and> ob_seq r \<le> through)
                (db_outbox d)\<rparr>))"

subsection \<open>The two projections agree\<close>

lemma clamp_bounds: "lo \<le> hi \<Longrightarrow> lo \<le> clamp n lo hi \<and> clamp n lo hi \<le> hi"
  by (simp add: clamp_def)

lemma rev_take_rev: "rev (take n (rev xs)) = drop (length xs - n) xs"
  by (simp add: take_rev)

lemma session_transcript_tail_window:
  "session_transcript_tail d sid limit =
     (let all = conversation_outbox_entries d sid;
          start = length all - clamp limit 1 500
      in \<lparr>tp_entries = drop start all,
          tp_next_after = (if drop start all = [] then None
            else Some (te_sequence (last (drop start all)))),
          tp_has_more = (start > 0)\<rparr>)"
proof -
  define b where "b = clamp limit 1 500"
  define all where "all = conversation_outbox_entries d sid"
  define newest where "newest = map ob_entry (take (b + 1) (rev (session_outbox d sid)))"
  have newest: "newest = take (b + 1) (rev all)"
    by (simp add: newest_def all_def conversation_outbox_entries_def take_map rev_map)
  have entries: "rev (take b newest) = drop (length all - b) all"
    by (simp add: newest min_def rev_take_rev)
  have more: "length newest > b \<longleftrightarrow> length all - b > 0"
    by (auto simp: newest)
  show ?thesis
    unfolding session_transcript_tail_def SESSION_PROJECTION_TRANSCRIPT_LIMIT_def Let_def
      b_def [symmetric] newest_def [symmetric] entries more all_def [symmetric] ..
qed

text \<open>Every row the store writes repeats its entry's kind and sequence in the columns.\<close>

definition outbox_consistent :: "db \<Rightarrow> bool" where
  "outbox_consistent d \<longleftrightarrow> (\<forall>r \<in> set (db_outbox d).
     ob_kind r = transcript_kind_name (te_kind (ob_entry r)) \<and> ob_seq r = te_sequence (ob_entry r)
     \<and> ob_seq r < i64_bound)"

lemma set_session_outbox:
  "set (session_outbox d sid) = {r \<in> set (db_outbox d). ob_session_id r = sid}"
  by (auto simp: session_outbox_def)

lemma projection_agrees:
  assumes "outbox_consistent d"
  shows "session_transcript_projection d sid fallback =
    projection_window (conversation_outbox_entries d sid) fallback"
proof -
  let ?rows = "session_outbox d sid"
  have row: "ob_kind r = transcript_kind_name (te_kind (ob_entry r))"
    "ob_seq r = te_sequence (ob_entry r)" "ob_seq r < i64_bound" if "r \<in> set ?rows" for r
    using assms that by (auto simp: outbox_consistent_def set_session_outbox)
  have card: "find (\<lambda>r. ob_kind r = lit ''compact_summary'') (rev ?rows)
      = find (\<lambda>r. te_kind (ob_entry r) = TkCompactSummary) (rev ?rows)"
  proof (rule find_cong)
    fix r assume "r \<in> set (rev ?rows)"
    then show "(ob_kind r = lit ''compact_summary'') = (te_kind (ob_entry r) = TkCompactSummary)"
      using row(1) [of r] by (cases "te_kind (ob_entry r)") simp_all
  qed
  have keep: "map ob_entry (filter (\<lambda>r. ob_seq r \<ge> f) ?rows)
      = filter (\<lambda>e. te_sequence e \<ge> f) (map ob_entry ?rows)" for f
    using row(2) by (auto simp: filter_map comp_def intro!: arg_cong [where f = "map ob_entry"] filter_cong)
  show ?thesis
  proof (cases "find (\<lambda>r. te_kind (ob_entry r) = TkCompactSummary) (rev ?rows)")
    case None
    then show ?thesis
      by (simp add: session_transcript_projection_def card projection_window_def
          conversation_outbox_entries_def rev_map find_map session_transcript_tail_window
          saturating_sub_def Let_def)
  next
    case (Some r)
    then have r: "r \<in> set ?rows" by (auto dest: find_Some_in)
    have "(case retain_from_sequence (ob_entry r) of None \<Rightarrow> ob_seq r
        | Some k \<Rightarrow> min (if k < i64_bound then k else ob_seq r) (ob_seq r))
      = (case retain_from_sequence (ob_entry r) of None \<Rightarrow> te_sequence (ob_entry r)
        | Some k \<Rightarrow> min k (te_sequence (ob_entry r)))"
      using row(2,3) [OF r] by (auto split: option.split)
    with Some show ?thesis
      by (simp add: session_transcript_projection_def card projection_window_def
          conversation_outbox_entries_def rev_map find_map keep Let_def)
  qed
qed

subsection \<open>Reading a transcript page by page\<close>

lemma take_then_rest:
  assumes "sorted (map f xs)" and "distinct (map f xs)" and "0 < n" and "n < length xs"
  shows "filter (\<lambda>x. f x > f (xs ! (n - 1))) xs = drop n xs"
  using assms
proof (induction xs arbitrary: n)
  case (Cons x xs)
  show ?case
  proof (cases "n = 1")
    case True
    have "\<forall>y \<in> set xs. f x < f y"
      using Cons.prems(1,2) by (force simp: order.order_iff_strict)
    with True show ?thesis by (auto simp: filter_id_conv)
  next
    case False
    then have n: "0 < n - 1" "n - 1 < length xs" and nth: "(x # xs) ! (n - 1) = xs ! (n - 1 - 1)"
      using Cons.prems by (auto simp: nth_Cons')
    have "xs ! (n - 1 - 1) \<in> set xs" using n by (intro nth_mem) linarith
    then have "\<not> f x > f (xs ! (n - 1 - 1))" using Cons.prems(1) by auto
    moreover have "drop n (x # xs) = drop (n - 1) xs" using Cons.prems(3) by (cases n) auto
    ultimately show ?thesis using Cons.IH [OF _ _ n] Cons.prems(1,2) nth by simp
  qed
qed simp

text \<open>A page and what follows its cursor are together what followed the previous cursor.\<close>

lemma transcript_pages_partition:
  assumes "sorted (map te_sequence all)" and "distinct (map te_sequence all)" and "0 < bound"
    and "page = transcript_page_of bound (take (bound + 1) all)"
  shows "\<not> tp_has_more page \<Longrightarrow> tp_entries page = all"
    and "tp_has_more page \<Longrightarrow> \<exists>next. tp_next_after page = Some next
      \<and> tp_entries page @ filter (\<lambda>e. te_sequence e > next) all = all
      \<and> length (filter (\<lambda>e. te_sequence e > next) all) < length all"
proof -
  have page: "tp_entries page = take bound all" "tp_has_more page \<longleftrightarrow> bound < length all"
    using assms(4) by (auto simp: transcript_page_of_def Let_def min_def)
  show "\<not> tp_has_more page \<Longrightarrow> tp_entries page = all" using page by simp
  assume more: "tp_has_more page"
  then have len: "bound < length all" using page by simp
  have last: "last (take bound all) = all ! (bound - 1)"
    using len assms(3) last_conv_nth [of "take bound all"] by (cases "all = []") auto
  have rest: "filter (\<lambda>e. te_sequence e > te_sequence (all ! (bound - 1))) all = drop bound all"
    using assms(1-3) len by (intro take_then_rest)
  have "tp_next_after page = Some (te_sequence (all ! (bound - 1)))"
    using assms(3,4) len last by (auto simp: transcript_page_of_def Let_def min_def)
  with rest page len assms(3)
  show "\<exists>next. tp_next_after page = Some next
      \<and> tp_entries page @ filter (\<lambda>e. te_sequence e > next) all = all
      \<and> length (filter (\<lambda>e. te_sequence e > next) all) < length all"
    by simp
qed

end
