(* ===== verification/Store_Writes.thy ===== *)
theory Store_Writes
  imports Store_Leases Store_Snapshot
begin

text \<open>
  The statements that several operations of the store issue: one insertion per table
  with the keys the schema declares, the event row of a turn, and
  \<open>append_linked_turn_transition\<close>, which writes the new state of a linked child. Fresh
  identifiers (\<open>Uuid::now_v7\<close>) come from \<open>ids\<close>, one index per call site.
\<close>

subsection \<open>Insertions\<close>

definition insert_turn :: "turn_row \<Rightarrow> db \<Rightarrow> storage_error + db" where
  "insert_turn r d = bindE (sql_insert (Sql ConstraintViolation)
     (\<lambda>x. tr_turn_id x = tr_turn_id r) r (db_turns d)) (\<lambda>rows. Inr (d\<lparr>db_turns := rows\<rparr>))"

definition insert_read_model :: "read_row \<Rightarrow> db \<Rightarrow> storage_error + db" where
  "insert_read_model r d = bindE (sql_insert (Sql ConstraintViolation)
     (\<lambda>x. rm_turn_id x = rm_turn_id r) r (db_read_model d))
     (\<lambda>rows. Inr (d\<lparr>db_read_model := rows\<rparr>))"

definition insert_event :: "event_row \<Rightarrow> db \<Rightarrow> storage_error + db" where
  "insert_event r d = bindE (sql_insert (Sql ConstraintViolation)
     (\<lambda>x. (er_turn_id x = er_turn_id r \<and> er_seq x = er_seq r) \<or> er_event_id x = er_event_id r)
     r (db_events d)) (\<lambda>rows. Inr (d\<lparr>db_events := rows\<rparr>))"

definition insert_session :: "session_row \<Rightarrow> db \<Rightarrow> storage_error + db" where
  "insert_session r d = bindE (sql_insert (Sql ConstraintViolation)
     (\<lambda>x. sr_session_id x = sr_session_id r) r (db_sessions d))
     (\<lambda>rows. Inr (d\<lparr>db_sessions := rows\<rparr>))"

definition insert_session_turn :: "session_turn_row \<Rightarrow> db \<Rightarrow> storage_error + db" where
  "insert_session_turn r d = bindE (sql_insert (Sql ConstraintViolation)
     (\<lambda>x. st_turn_id x = st_turn_id r
        \<or> (st_session_id x = st_session_id r \<and> st_ordinal x = st_ordinal r))
     r (db_session_turns d)) (\<lambda>rows. Inr (d\<lparr>db_session_turns := rows\<rparr>))"

definition insert_active :: "active_row \<Rightarrow> db \<Rightarrow> storage_error + db" where
  "insert_active r d = bindE (sql_insert (Sql ConstraintViolation)
     (\<lambda>x. ar_session_id x = ar_session_id r \<or> ar_turn_id x = ar_turn_id r) r (db_active d))
     (\<lambda>rows. Inr (d\<lparr>db_active := rows\<rparr>))"

definition insert_outbox :: "outbox_row \<Rightarrow> db \<Rightarrow> storage_error + db" where
  "insert_outbox r d = bindE (sql_insert (Sql ConstraintViolation)
     (\<lambda>x. (ob_session_id x = ob_session_id r
           \<and> (ob_seq x = ob_seq r \<or> ob_source_key x = ob_source_key r))
        \<or> ob_entry_id x = ob_entry_id r)
     r (db_outbox d)) (\<lambda>rows. Inr (d\<lparr>db_outbox := rows\<rparr>))"

definition insert_session_event :: "sevent_row \<Rightarrow> db \<Rightarrow> storage_error + db" where
  "insert_session_event r d = bindE (sql_insert (Sql ConstraintViolation)
     (\<lambda>x. (sv_session_id x = sv_session_id r \<and> sv_seq x = sv_seq r)
        \<or> sv_event_id x = sv_event_id r)
     r (db_session_events d)) (\<lambda>rows. Inr (d\<lparr>db_session_events := rows\<rparr>))"

definition insert_dedup :: "dedup_row \<Rightarrow> db \<Rightarrow> storage_error + db" where
  "insert_dedup r d = bindE (sql_insert (Sql ConstraintViolation)
     (\<lambda>x. dd_command_id x = dd_command_id r) r (db_dedup d)) (\<lambda>rows. Inr (d\<lparr>db_dedup := rows\<rparr>))"

definition insert_source :: "source_row \<Rightarrow> db \<Rightarrow> storage_error + db" where
  "insert_source r d = bindE (sql_insert (Sql ConstraintViolation)
     (\<lambda>x. cs_session_id x = cs_session_id r \<and> cs_source_key x = cs_source_key r)
     r (db_sources d)) (\<lambda>rows. Inr (d\<lparr>db_sources := rows\<rparr>))"

definition insert_effect :: "effect_row \<Rightarrow> db \<Rightarrow> storage_error + db" where
  "insert_effect r d = bindE (sql_insert (Sql ConstraintViolation)
     (\<lambda>x. ef_effect_id x = ef_effect_id r) r (db_effects d))
     (\<lambda>rows. Inr (d\<lparr>db_effects := rows\<rparr>))"

definition insert_canonical :: "canonical_row \<Rightarrow> db \<Rightarrow> storage_error + db" where
  "insert_canonical r d = bindE (sql_insert (Sql ConstraintViolation)
     (\<lambda>x. ca_effect_id x = ca_effect_id r) r (db_canonical d))
     (\<lambda>rows. Inr (d\<lparr>db_canonical := rows\<rparr>))"

definition insert_permission :: "permission_row \<Rightarrow> db \<Rightarrow> storage_error + db" where
  "insert_permission r d = bindE (sql_insert (Sql ConstraintViolation)
     (\<lambda>x. pm_effect_id x = pm_effect_id r \<or> pm_approval_digest x = pm_approval_digest r)
     r (db_permissions d)) (\<lambda>rows. Inr (d\<lparr>db_permissions := rows\<rparr>))"

definition insert_baseline :: "baseline_row \<Rightarrow> db \<Rightarrow> storage_error + db" where
  "insert_baseline r d = bindE (sql_insert (Sql ConstraintViolation)
     (\<lambda>x. bl_turn_id x = bl_turn_id r) r (db_baselines d))
     (\<lambda>rows. Inr (d\<lparr>db_baselines := rows\<rparr>))"

definition upsert_checkpoint :: "uuid \<Rightarrow> rstr \<Rightarrow> nat \<Rightarrow> db \<Rightarrow> db" where
  "upsert_checkpoint t payload now d =
     (if sql_exists (\<lambda>r. ck_turn_id r = t) (db_checkpoints d)
      then d\<lparr>db_checkpoints := sql_update (\<lambda>r. ck_turn_id r = t)
             (\<lambda>r. r\<lparr>ck_payload := payload, ck_updated_at_ms := now\<rparr>) (db_checkpoints d)\<rparr>
      else d\<lparr>db_checkpoints := db_checkpoints d
             @ [\<lparr>ck_turn_id = t, ck_payload = payload, ck_updated_at_ms = now\<rparr>]\<rparr>)"

lemmas insert_defs = insert_turn_def insert_read_model_def insert_event_def insert_session_def
  insert_session_turn_def insert_active_def insert_outbox_def insert_session_event_def
  insert_dedup_def insert_source_def insert_effect_def insert_canonical_def
  insert_permission_def insert_baseline_def

subsection \<open>The events and state rows of a turn\<close>

definition turn_event :: "turn_state \<Rightarrow> runtime_event" where
  "turn_event s = (case ts_handoff s of
     Some h \<Rightarrow> HandoffProduced h | None \<Rightarrow> StateChanged (ts_status s))"

definition turn_envelope :: "uuid \<Rightarrow> turn_state \<Rightarrow> runtime_event \<Rightarrow> event_envelope" where
  "turn_envelope eid s ev = \<lparr>ee_protocol_version = PROTOCOL_VERSION, ee_event_id = eid,
     ee_turn_id = ts_turn_id s, ee_revision = ts_revision s, ee_event = ev\<rparr>"

definition turn_event_row :: "event_envelope \<Rightarrow> nat \<Rightarrow> nat \<Rightarrow> event_row" where
  "turn_event_row env seq now = \<lparr>er_turn_id = ee_turn_id env, er_seq = seq,
     er_event_id = ee_event_id env, er_revision = ee_revision env, er_event = env,
     er_created_at_ms = now\<rparr>"

definition update_read_model :: "uuid \<Rightarrow> nat \<Rightarrow> turn_state \<Rightarrow> db \<Rightarrow> db" where
  "update_read_model t seq s d =
     d\<lparr>db_read_model := sql_update (\<lambda>r. rm_turn_id r = t)
        (\<lambda>r. r\<lparr>rm_revision := ts_revision s, rm_last_seq := seq, rm_state := s\<rparr>)
        (db_read_model d)\<rparr>"

definition append_linked_state ::
  "uuid \<Rightarrow> turn_state \<Rightarrow> nat \<Rightarrow> nat \<Rightarrow> nat \<Rightarrow> db \<Rightarrow> storage_error + db" where
  "append_linked_state eid s last_seq token now d =
     bindE (ok_or (invalid ''run event sequence overflow'') (checked_add last_seq 1)) (\<lambda>seq.
     bindE (to_i64 seq) (\<lambda>seq.
     bindE (to_i64 (ts_revision s)) (\<lambda>rev.
     bindE (to_i64 now) (\<lambda>now.
     bindE (insert_event (turn_event_row (turn_envelope eid s (turn_event s)) seq now) d) (\<lambda>d.
     bindE (to_i64 token) (\<lambda>token.
     let d = d\<lparr>db_turns := sql_update (\<lambda>r. tr_turn_id r = ts_turn_id s \<and> tr_revision r < rev)
               (\<lambda>r. r\<lparr>tr_state := s, tr_status := status_name (ts_status s), tr_revision := rev,
                 tr_last_seq := seq, tr_lease_token := token, tr_updated_at_ms := now\<rparr>)
               (db_turns d)\<rparr>
     in Inr (update_read_model (ts_turn_id s) seq s d)))))))"

text \<open>
  A cancellation that ends interrupted is written as its two transitions, so that no
  reader sees a revision without its cancelling event.
\<close>

definition linked_states :: "turn_state \<Rightarrow> turn_state \<Rightarrow> storage_error + turn_state list" where
  "linked_states current nxt =
     (if ts_revision nxt = ts_revision current + 2 \<and> ts_status nxt = Interrupted
      then bindE (lift_transition (turn_transition current (ts_revision current) Cancel))
             (\<lambda>c. Inr [c, nxt])
      else Inr [nxt])"

fun append_linked_states ::
  "(nat \<Rightarrow> uuid) \<Rightarrow> nat \<Rightarrow> turn_state list \<Rightarrow> nat \<Rightarrow> nat \<Rightarrow> nat \<Rightarrow> db \<Rightarrow> storage_error + db" where
  "append_linked_states ids k [] last_seq token now d = Inr d"
| "append_linked_states ids k (s # ss) last_seq token now d =
     bindE (append_linked_state (ids k) s last_seq token now d)
       (append_linked_states ids (Suc k) ss (Suc last_seq) token now)"

definition append_linked_turn_transition ::
  "(nat \<Rightarrow> uuid) \<Rightarrow> turn_state \<Rightarrow> turn_state \<Rightarrow> nat \<Rightarrow> lease \<Rightarrow> nat \<Rightarrow> db \<Rightarrow> storage_error + db" where
  "append_linked_turn_transition ids current nxt turn_last_seq l now d =
     (if ts_revision nxt \<le> ts_revision current
      then Inl (invalid ''linked turn transition did not advance'')
      else bindE (linked_states current nxt) (\<lambda>states.
        append_linked_states ids 0 states turn_last_seq (ls_fencing_token l) now d))"

subsection \<open>Frame facts\<close>

text \<open>
  What a turn transition writes: events, the turn's row and its read model; and in
  these tables only rows of that turn.
\<close>

definition same_but_turns :: "db \<Rightarrow> db \<Rightarrow> bool" where
  "same_but_turns d e \<longleftrightarrow>
     db_sessions e = db_sessions d \<and> db_session_turns e = db_session_turns d
   \<and> db_active e = db_active d \<and> db_outbox e = db_outbox d
   \<and> db_session_events e = db_session_events d \<and> db_dedup e = db_dedup d
   \<and> db_sources e = db_sources d \<and> db_effects e = db_effects d
   \<and> db_canonical e = db_canonical d \<and> db_permissions e = db_permissions d
   \<and> db_evidence e = db_evidence d \<and> db_checkpoints e = db_checkpoints d
   \<and> db_baselines e = db_baselines d \<and> db_leases e = db_leases d
   \<and> db_lease_epoch e = db_lease_epoch d
   \<and> map tr_turn_id (db_turns e) = map tr_turn_id (db_turns d)"

lemma same_but_turns_refl [simp, intro]: "same_but_turns d d"
  by (simp add: same_but_turns_def)

lemma same_but_turns_trans: "same_but_turns d e \<Longrightarrow> same_but_turns e f \<Longrightarrow> same_but_turns d f"
  by (simp add: same_but_turns_def)

lemma append_linked_state_frame:
  "append_linked_state eid s last_seq token now d = Inr e \<Longrightarrow> same_but_turns d e"
  unfolding append_linked_state_def same_but_turns_def insert_event_def update_read_model_def
  by (auto simp: Let_def sql_update_def)

lemma append_linked_states_frame:
  "append_linked_states ids k ss last_seq token now d = Inr e \<Longrightarrow> same_but_turns d e"
proof (induction ss arbitrary: k last_seq d)
  case (Cons s ss)
  then show ?case
    by (auto dest!: append_linked_state_frame intro: same_but_turns_trans)
qed simp

lemma append_linked_frame:
  "append_linked_turn_transition ids current nxt sq l now d = Inr e \<Longrightarrow> same_but_turns d e"
  unfolding append_linked_turn_transition_def
  by (auto dest: append_linked_states_frame)

end
