(* ===== verification/Command_Digest.thy ===== *)
theory Command_Digest
  imports Store_Schema
begin

text \<open>
  The durable identities of commands (\<open>create_command_digest\<close>,
  \<open>follow_up_command_digest\<close>, their pre-rename forms and \<open>session_command_digest\<close> of
  \<open>storage.rs\<close>): the JSON value that is hashed, and the hash. A record's JSON form is
  what its derived \<open>Serialize\<close> writes.
\<close>

subsection \<open>JSON forms of the hashed records\<close>

fun verification_status_json :: "verification_status \<Rightarrow> json" where
  "verification_status_json Passed = JStr (lit ''passed'')"
| "verification_status_json VFailed = JStr (lit ''failed'')"
| "verification_status_json NotRun = JStr (lit ''not_run'')"

definition handoff_json :: "handoff \<Rightarrow> json" where
  "handoff_json h = json_obj
     [(lit ''summary'', JStr (ho_summary h)),
      (lit ''files_changed'', JArr (map JStr (ho_files_changed h))),
      (lit ''evidence'', JArr (map (\<lambda>e. json_obj
         [(lit ''name'', JStr (ev_name e)),
          (lit ''status'', verification_status_json (ev_status e)),
          (lit ''summary'', JStr (ev_summary e))]) (ho_evidence h)))]"

definition permission_json :: "pending_permission \<Rightarrow> json" where
  "permission_json p = json_obj
     [(lit ''request_id'', JStr (pp_request_id p)),
      (lit ''operation_digest'', JStr (pp_operation_digest p)),
      (lit ''description'', JStr (pp_description p))]"

definition input_json :: "pending_input \<Rightarrow> json" where
  "input_json p = json_obj
     [(lit ''request_id'', JStr (pi_request_id p)), (lit ''prompt'', JStr (pi_prompt p))]"

fun failure_code_json :: "failure_code \<Rightarrow> json" where
  "failure_code_json Cancelled = JStr (lit ''cancelled'')"
| "failure_code_json PermissionDenied = JStr (lit ''permission_denied'')"
| "failure_code_json VerificationFailed = JStr (lit ''verification_failed'')"
| "failure_code_json RuntimeFailed = JStr (lit ''runtime_failed'')"

fun retryability_json :: "retryability \<Rightarrow> json" where
  "retryability_json Retryable = JStr (lit ''retryable'')"
| "retryability_json Terminal = JStr (lit ''terminal'')"

definition failure_json :: "turn_failure \<Rightarrow> json" where
  "failure_json f = json_obj
     [(lit ''code'', failure_code_json (tf_code f)),
      (lit ''message'', JStr (tf_message f)),
      (lit ''retryability'', retryability_json (tf_retryability f))]"

definition binding_json :: "session_provider_binding \<Rightarrow> json" where
  "binding_json b = json_obj
     [(lit ''version'', JInt (int (pb_version b))),
      (lit ''provider_name'', JStr (pb_provider_name b)),
      (lit ''provider_type'', JStr (pb_provider_type b)),
      (lit ''protocol'', JStr (pb_protocol b)),
      (lit ''model'', JStr (pb_model b)),
      (lit ''config_fingerprint'', JStr (pb_config_fingerprint b)),
      (lit ''tools_fingerprint'', JStr (pb_tools_fingerprint b)),
      (lit ''aliases'', json_obj (map (\<lambda>(k, v). (k, JStr v)) (pb_aliases b))),
      (lit ''credential_ref_id'', JStr (pb_credential_ref_id b)),
      (lit ''data_scope_id'', JStr (pb_data_scope_id b)),
      (lit ''credential_generation'', JInt (int (pb_credential_generation b)))]"

fun transcript_kind_debug :: "transcript_kind \<Rightarrow> rstr" where
  "transcript_kind_debug TkUser = lit ''User''"
| "transcript_kind_debug TkAssistant = lit ''Assistant''"
| "transcript_kind_debug TkToolCall = lit ''ToolCall''"
| "transcript_kind_debug TkToolResult = lit ''ToolResult''"
| "transcript_kind_debug TkPermission = lit ''Permission''"
| "transcript_kind_debug TkInput = lit ''Input''"
| "transcript_kind_debug TkFailure = lit ''Failure''"
| "transcript_kind_debug TkCompletion = lit ''Completion''"
| "transcript_kind_debug TkSystem = lit ''System''"
| "transcript_kind_debug TkCompactSummary = lit ''CompactSummary''"
| "transcript_kind_debug TkToolResultElision = lit ''ToolResultElision''"

subsection \<open>Digests of the session commands\<close>

definition normalized_focus :: "rstr option \<Rightarrow> rstr option" where
  "normalized_focus focus =
     (case focus of None \<Rightarrow> None | Some f \<Rightarrow> if trim f = [] then None else Some (trim f))"

definition create_command_digest ::
  "lib \<Rightarrow> uuid \<Rightarrow> rstr \<Rightarrow> rstr \<Rightarrow> session_provider_binding \<Rightarrow> rstr option \<Rightarrow> rstr" where
  "create_command_digest L sid root prompt b focus = json_sha256 L (json_obj
     [(lit ''operation'', JStr (lit ''session.start'')),
      (lit ''protocol_version'', JInt (int SESSION_PROTOCOL_VERSION)),
      (lit ''workspace'', JStr root),
      (lit ''session_id'', JStr (uuid_text L sid)),
      (lit ''prompt'', JStr prompt),
      (lit ''binding'', binding_json b),
      (lit ''focus'', json_opt JStr (normalized_focus focus))])"

definition follow_up_command_digest :: "lib \<Rightarrow> uuid \<Rightarrow> nat \<Rightarrow> rstr \<Rightarrow> rstr" where
  "follow_up_command_digest L sid expected prompt = json_sha256 L (json_obj
     [(lit ''operation'', JStr (lit ''session.follow_up'')),
      (lit ''protocol_version'', JInt (int SESSION_PROTOCOL_VERSION)),
      (lit ''session_id'', JStr (uuid_text L sid)),
      (lit ''expected_session_revision'', JInt (int expected)),
      (lit ''prompt'', JStr prompt)])"

definition legacy_create_command_digest ::
  "lib \<Rightarrow> uuid \<Rightarrow> rstr \<Rightarrow> rstr \<Rightarrow> session_provider_binding \<Rightarrow> rstr option \<Rightarrow> rstr" where
  "legacy_create_command_digest L sid root prompt b focus = json_sha256 L (json_obj
     [(lit ''operation'', JStr (lit ''thread.start'')),
      (lit ''protocol_version'', JInt (int SESSION_PROTOCOL_VERSION)),
      (lit ''workspace'', JStr root),
      (lit ''thread_id'', JStr (uuid_text L sid)),
      (lit ''prompt'', JStr prompt),
      (lit ''binding'', binding_json b),
      (lit ''focus'', json_opt JStr (normalized_focus focus))])"

definition legacy_follow_up_command_digest :: "lib \<Rightarrow> uuid \<Rightarrow> nat \<Rightarrow> rstr \<Rightarrow> rstr" where
  "legacy_follow_up_command_digest L sid expected prompt = json_sha256 L (json_obj
     [(lit ''operation'', JStr (lit ''thread.follow_up'')),
      (lit ''protocol_version'', JInt (int SESSION_PROTOCOL_VERSION)),
      (lit ''thread_id'', JStr (uuid_text L sid)),
      (lit ''expected_thread_revision'', JInt (int expected)),
      (lit ''prompt'', JStr prompt)])"

text \<open>\<open>serde_json::from_str(text).ok().map(redact_session_value)\<close>\<close>

definition parsed_json :: "lib \<Rightarrow> rstr \<Rightarrow> json" where
  "parsed_json L text = json_opt (redact_value L) (json_parse L text)"

abbreviation redacted :: "lib \<Rightarrow> rstr \<Rightarrow> json" where
  "redacted L s \<equiv> JStr (redact L s)"

fun policy_name :: "session_effect_policy \<Rightarrow> rstr" where
  "policy_name PolicyAllow = lit ''allow''"
| "policy_name PolicyAsk = lit ''ask''"

fun update_json :: "lib \<Rightarrow> commit_update \<Rightarrow> json" where
  "update_json L (CuStart key) = json_obj
     [(lit ''kind'', JStr (lit ''start'')), (lit ''source_key'', redacted L key)]"
| "update_json L (CuAppendTranscript key kind text payload) = json_obj
     [(lit ''kind'', JStr (lit ''append_transcript'')), (lit ''source_key'', redacted L key),
      (lit ''card'', JStr (transcript_kind_debug kind)), (lit ''text'', redacted L text),
      (lit ''payload'', json_opt (redact_value L) payload)]"
| "update_json L (CuPrepareEffect key eid digest descriptor canonical policy description checkpoint) =
     json_obj
     [(lit ''kind'', JStr (lit ''prepare_effect'')), (lit ''source_key'', redacted L key),
      (lit ''effect_id'', redacted L eid), (lit ''operation_digest'', redacted L digest),
      (lit ''descriptor'', parsed_json L descriptor),
      (lit ''policy'', JStr (policy_name policy)),
      (lit ''description'', redacted L description),
      (lit ''checkpoint'', parsed_json L checkpoint)]"
| "update_json L (CuStartEffect key eid digest checkpoint) = json_obj
     [(lit ''kind'', JStr (lit ''start_effect'')), (lit ''source_key'', redacted L key),
      (lit ''effect_id'', redacted L eid), (lit ''operation_digest'', redacted L digest),
      (lit ''checkpoint'', parsed_json L checkpoint)]"
| "update_json L (CuObserveEffect key eid digest success result payload checkpoint) = json_obj
     [(lit ''kind'', JStr (lit ''observe_effect'')), (lit ''source_key'', redacted L key),
      (lit ''effect_id'', redacted L eid), (lit ''operation_digest'', redacted L digest),
      (lit ''success'', JBool success), (lit ''result'', redacted L result),
      (lit ''payload'', json_opt (redact_value L) payload),
      (lit ''checkpoint'', parsed_json L checkpoint)]"
| "update_json L (CuUnknownEffect key eid digest checkpoint) = json_obj
     [(lit ''kind'', JStr (lit ''unknown_effect'')), (lit ''source_key'', redacted L key),
      (lit ''effect_id'', redacted L eid), (lit ''operation_digest'', redacted L digest),
      (lit ''checkpoint'', parsed_json L checkpoint)]"
| "update_json L (CuReconcileUnknownEffect key eid checkpoint) = json_obj
     [(lit ''kind'', JStr (lit ''reconcile_unknown_effect'')), (lit ''source_key'', redacted L key),
      (lit ''effect_id'', redacted L eid), (lit ''checkpoint'', parsed_json L checkpoint)]"
| "update_json L (CuRequestPermission key req) = json_obj
     [(lit ''kind'', JStr (lit ''request_permission'')), (lit ''source_key'', redacted L key),
      (lit ''request'', permission_json (redact_permission L req))]"
| "update_json L (CuResolvePermission key rid allow rebound) = json_obj
     [(lit ''kind'', JStr (lit ''resolve_permission'')), (lit ''source_key'', redacted L key),
      (lit ''request_id'', redacted L rid), (lit ''allow'', JBool allow),
      (lit ''rebound_operation_digest'', json_opt JStr rebound)]"
| "update_json L (CuRequestInput key req) = json_obj
     [(lit ''kind'', JStr (lit ''request_input'')), (lit ''source_key'', redacted L key),
      (lit ''request'', input_json (redact_input L req))]"
| "update_json L (CuProvideInput key rid v) = json_obj
     [(lit ''kind'', JStr (lit ''provide_input'')), (lit ''source_key'', redacted L key),
      (lit ''request_id'', redacted L rid), (lit ''value'', redacted L v)]"
| "update_json L (CuComplete key h) = json_obj
     [(lit ''kind'', JStr (lit ''complete'')), (lit ''source_key'', redacted L key),
      (lit ''handoff'', handoff_json (redact_handoff L h))]"
| "update_json L (CuCompleteVerified key summary veid manifest files) = json_obj
     [(lit ''kind'', JStr (lit ''complete_verified'')), (lit ''source_key'', redacted L key),
      (lit ''summary'', redacted L summary), (lit ''verification_effect_id'', redacted L veid),
      (lit ''verified_manifest_digest'', redacted L manifest),
      (lit ''files_changed'', JArr (map (redacted L) files))]"
| "update_json L (CuFail key f) = json_obj
     [(lit ''kind'', JStr (lit ''fail'')), (lit ''source_key'', redacted L key),
      (lit ''failure'', failure_json (redact_failure L f))]"
| "update_json L (CuInterrupt key eid) = json_obj
     [(lit ''kind'', JStr (lit ''interrupt'')), (lit ''source_key'', redacted L key),
      (lit ''effect_id'', json_opt (redacted L) eid)]"

definition session_command_digest :: "lib \<Rightarrow> session_commit_request \<Rightarrow> rstr" where
  "session_command_digest L rq = json_sha256 L (json_obj
     [(lit ''session_id'', JStr (uuid_text L (rq_session_id rq))),
      (lit ''command_id'', JStr (uuid_text L (rq_command_id rq))),
      (lit ''turn_id'', JStr (uuid_text L (rq_turn_id rq))),
      (lit ''expected_session_revision'', JInt (int (rq_expected_session_revision rq))),
      (lit ''expected_turn_revision'', JInt (int (rq_expected_turn_revision rq))),
      (lit ''request_id'', json_opt (redacted L) (rq_request_id rq)),
      (lit ''effect_id'', json_opt (redacted L) (rq_effect_id rq)),
      (lit ''update'', update_json L (rq_update rq))])"

end
