(* ===== verification/Store_Commit.thy ===== *)
theory Store_Commit
  imports Store_Writes Command_Digest
begin

text \<open>
  \<open>commit_session_turn_update\<close> of \<open>storage.rs\<close>: the one transaction that changes a linked
  child turn. \<open>commit_gate\<close> is its replay, lease, revision and active-turn checks, one
  definition per arm of its \<open>match\<close> computes a \<open>draft\<close>, and \<open>commit_finish\<close> writes the
  turn, the transcript card, the session row, the event and the replay records.
\<close>

record draft =
  dr_db :: db
  dr_next :: turn_state
  dr_turn_changed :: bool
  dr_lifecycle :: rstr
  dr_card :: "(transcript_kind \<times> rstr \<times> json option \<times> rstr) option"
  dr_terminal :: bool
  dr_reconciliation :: "rstr option"
  dr_checkpoint :: "rstr option"

record commit_ctx =
  cx_request :: session_commit_request
  cx_lease :: lease
  cx_now :: nat
  cx_current :: turn_state
  cx_recovered :: bool

definition initial_draft :: "db \<Rightarrow> turn_state \<Rightarrow> rstr \<Rightarrow> draft" where
  "initial_draft d current lifecycle = \<lparr>dr_db = d, dr_next = current, dr_turn_changed = False,
     dr_lifecycle = lifecycle, dr_card = None, dr_terminal = False, dr_reconciliation = None,
     dr_checkpoint = None\<rparr>"

definition ctx_step :: "commit_ctx \<Rightarrow> transition \<Rightarrow> storage_error + turn_state" where
  "ctx_step cx tr = lift_transition
     (turn_transition (cx_current cx) (ts_revision (cx_current cx)) tr)"

definition card_key :: "rstr \<Rightarrow> rstr" where
  "card_key key = key @ lit '':card''"

abbreviation ctx_turn :: "commit_ctx \<Rightarrow> uuid" where
  "ctx_turn cx \<equiv> rq_turn_id (cx_request cx)"

subsection \<open>Effects of a turn\<close>

definition effect_of :: "rstr \<Rightarrow> uuid \<Rightarrow> rstr \<Rightarrow> effect_row \<Rightarrow> bool" where
  "effect_of eid t status r \<longleftrightarrow> ef_effect_id r = eid \<and> ef_turn_id r = t \<and> ef_status r = status"

definition observe_row :: "rstr \<Rightarrow> rstr \<Rightarrow> nat \<Rightarrow> effect_row \<Rightarrow> effect_row" where
  "observe_row status post now r =
     r\<lparr>ef_status := status, ef_post_evidence := Some post, ef_observed_at_ms := Some now\<rparr>"

definition consume_row :: "nat \<Rightarrow> permission_row \<Rightarrow> permission_row" where
  "consume_row now r = r\<lparr>pm_consumed_at_ms := Some now\<rparr>"

definition prepared_row :: "rstr \<Rightarrow> uuid \<Rightarrow> nat \<Rightarrow> nat \<Rightarrow> rstr \<Rightarrow> rstr \<Rightarrow> rstr \<Rightarrow> effect_row" where
  "prepared_row eid t now attempt descriptor digest pre =
     \<lparr>ef_effect_id = eid, ef_turn_id = t, ef_status = lit ''prepared'', ef_started_at_ms = now,
      ef_observed_at_ms = None, ef_attempt = attempt, ef_approval_digest = Some digest,
      ef_descriptor = Some descriptor, ef_pre_evidence = Some pre, ef_post_evidence = None,
      ef_prepared_at_ms = Some now\<rparr>"

definition open_permission :: "rstr \<Rightarrow> uuid \<Rightarrow> permission_row \<Rightarrow> bool" where
  "open_permission eid t r \<longleftrightarrow>
     pm_effect_id r = eid \<and> pm_turn_id r = t \<and> pm_consumed_at_ms r = None"

definition policy_marker :: "session_effect_policy \<Rightarrow> rstr" where
  "policy_marker p = (case p of
     PolicyAllow \<Rightarrow> lit ''{\"session_policy\":\"allow\"}''
   | PolicyAsk \<Rightarrow> lit ''{\"session_policy\":\"ask\"}'')"

subsection \<open>The arms of the match\<close>

definition commit_start :: "commit_ctx \<Rightarrow> draft \<Rightarrow> storage_error + draft" where
  "commit_start cx dr =
     bindE (ctx_step cx Start) (\<lambda>nxt.
     Inr (dr\<lparr>dr_next := nxt, dr_turn_changed := True, dr_lifecycle := lit ''running''\<rparr>))"

definition commit_append_transcript ::
  "lib \<Rightarrow> rstr \<Rightarrow> transcript_kind \<Rightarrow> rstr \<Rightarrow> json option \<Rightarrow> draft \<Rightarrow> storage_error + draft" where
  "commit_append_transcript L key kind text payload dr =
     Inr (dr\<lparr>dr_card := Some (kind, redact L text, map_option (redact_value L) payload, key)\<rparr>)"

definition prepare_ask ::
  "lib \<Rightarrow> commit_ctx \<Rightarrow> rstr \<Rightarrow> rstr \<Rightarrow> rstr \<Rightarrow> draft \<Rightarrow> storage_error + draft" where
  "prepare_ask L cx eid digest description dr =
     (let pending = \<lparr>pp_request_id = redact L eid, pp_operation_digest = redact L digest,
                     pp_description = redact L description\<rparr>
      in bindE (ctx_step cx (RequestPermission pending)) (\<lambda>nxt.
         bindE (ok_or (invalid ''revision overflow'')
           (checked_add (ts_revision (cx_current cx)) 2)) (\<lambda>post.
         bindE (to_i64 post) (\<lambda>post.
         bindE (insert_permission \<lparr>pm_effect_id = eid, pm_turn_id = ctx_turn cx,
             pm_turn_revision = post, pm_lease_owner = ls_owner (cx_lease cx),
             pm_lease_token = ls_fencing_token (cx_lease cx), pm_approval_digest = digest,
             pm_consumed_at_ms = None\<rparr> (dr_db dr)) (\<lambda>d.
         Inr (dr\<lparr>dr_db := d, dr_next := nxt, dr_turn_changed := True,
                 dr_lifecycle := lit ''waiting_permission''\<rparr>))))))"

definition commit_prepare_effect ::
  "lib \<Rightarrow> commit_ctx \<Rightarrow> rstr \<Rightarrow> rstr \<Rightarrow> rstr \<Rightarrow> rstr \<Rightarrow> rstr \<Rightarrow> session_effect_policy \<Rightarrow> rstr \<Rightarrow> rstr
     \<Rightarrow> draft \<Rightarrow> storage_error + draft" where
  "commit_prepare_effect L cx key eid digest descriptor canonical policy description checkpoint dr =
     bindE (validate_session_effect_id eid) (\<lambda>_.
     bindE (validate_session_digest digest) (\<lambda>_.
     bindE (parse_json L descriptor) (\<lambda>descriptor_value.
     bindE (parse_descriptor L canonical) (\<lambda>_.
     bindE (parse_json L checkpoint) (\<lambda>_.
     if ts_status (cx_current cx) \<noteq> Running
     then Inl (invalid ''only a running linked child can prepare an effect'')
     else
     bindE (insert_effect (prepared_row eid (ctx_turn cx) (cx_now cx) 1 descriptor digest
       (policy_marker policy)) (dr_db dr)) (\<lambda>d.
     bindE (insert_canonical \<lparr>ca_effect_id = eid, ca_turn_id = ctx_turn cx,
       ca_descriptor = canonical\<rparr> d) (\<lambda>d.
     bindE (if policy = PolicyAsk then prepare_ask L cx eid digest description (dr\<lparr>dr_db := d\<rparr>)
            else Inr (dr\<lparr>dr_db := d\<rparr>)) (\<lambda>dr.
     Inr (dr\<lparr>dr_card := Some (TkToolCall, redact L description,
            Some (redact_value L (json_obj [(lit ''descriptor'', descriptor_value),
              (lit ''operation_digest'', JStr digest)])), card_key key),
          dr_checkpoint := Some checkpoint\<rparr>)))))))))"

definition authorize_start ::
  "commit_ctx \<Rightarrow> rstr \<Rightarrow> rstr \<Rightarrow> db \<Rightarrow> storage_error + db" where
  "authorize_start cx eid marker d =
     (case find (\<lambda>r. pm_effect_id r = eid \<and> pm_turn_id r = ctx_turn cx) (db_permissions d) of
        Some p \<Rightarrow>
          if pm_turn_revision p \<noteq> ts_revision (cx_current cx)
             \<or> pm_lease_owner p \<noteq> ls_owner (cx_lease cx)
             \<or> pm_lease_token p \<noteq> ls_fencing_token (cx_lease cx)
             \<or> pm_consumed_at_ms p \<noteq> None
          then Inl (invalid ''prepared permission is stale, mismatched, or consumed'')
          else Inr (d\<lparr>db_permissions := sql_update
                 (\<lambda>r. pm_effect_id r = eid \<and> pm_consumed_at_ms r = None)
                 (consume_row (cx_now cx)) (db_permissions d)\<rparr>)
      | None \<Rightarrow>
          if marker \<noteq> policy_marker PolicyAllow
          then Inl (invalid ''prepared effect has no durable allow authorization'')
          else Inr d)"

definition commit_start_effect ::
  "lib \<Rightarrow> commit_ctx \<Rightarrow> rstr \<Rightarrow> rstr \<Rightarrow> rstr \<Rightarrow> rstr \<Rightarrow> draft \<Rightarrow> storage_error + draft" where
  "commit_start_effect L cx key eid digest checkpoint dr =
     bindE (validate_session_effect_id eid) (\<lambda>_.
     bindE (validate_session_digest digest) (\<lambda>_.
     bindE (parse_json L checkpoint) (\<lambda>_.
     if ts_status (cx_current cx) \<noteq> Running \<or> ts_pending_permission (cx_current cx) \<noteq> None
        \<or> ts_pending_input (cx_current cx) \<noteq> None
     then Inl (invalid ''effect start requires a running child without a pending request'')
     else (case find (effect_of eid (ctx_turn cx) (lit ''prepared'')) (db_effects (dr_db dr)) of
       None \<Rightarrow> Inl (invalid ''effect is not a prepared linked effect'')
     | Some prepared \<Rightarrow>
     bindE (ok_or (Sql InvalidColumnType) (ef_approval_digest prepared)) (\<lambda>stored.
     bindE (ok_or (Sql InvalidColumnType) (ef_pre_evidence prepared)) (\<lambda>marker.
     if stored \<noteq> digest then Inl (invalid ''effect digest mismatch'')
     else
     bindE (authorize_start cx eid marker (dr_db dr)) (\<lambda>d.
     let P = (\<lambda>r. effect_of eid (ctx_turn cx) (lit ''prepared'') r
                \<and> ef_approval_digest r = Some digest);
         d1 = d\<lparr>db_effects := sql_update P
            (\<lambda>r. r\<lparr>ef_status := lit ''started'', ef_started_at_ms := cx_now cx\<rparr>) (db_effects d)\<rparr>;
         Q = (\<lambda>r. tr_turn_id r = ctx_turn cx \<and> tr_revision r = ts_revision (cx_current cx)
                \<and> tr_lease_token r \<le> ls_fencing_token (cx_lease cx));
         d2 = d1\<lparr>db_turns := sql_update Q
            (\<lambda>r. r\<lparr>tr_effect_epoch := tr_effect_epoch r + 1,
               tr_lease_token := ls_fencing_token (cx_lease cx),
               tr_updated_at_ms := cx_now cx\<rparr>) (db_turns d1)\<rparr>
     in if sql_changes P (db_effects d) \<noteq> 1 then Inl EffectFenced
        else if sql_changes Q (db_turns d1) \<noteq> 1 then Inl LeaseLost
        else Inr (dr\<lparr>dr_db := d2,
           dr_card := Some (TkSystem, lit ''tool started'',
             Some (json_obj [(lit ''effect_id'', JStr (redact L eid)),
                             (lit ''status'', JStr (lit ''started''))]), card_key key),
           dr_checkpoint := Some checkpoint\<rparr>))))))))"

definition settle_effect ::
  "(effect_row \<Rightarrow> bool) \<Rightarrow> rstr \<Rightarrow> rstr \<Rightarrow> nat \<Rightarrow> storage_error \<Rightarrow> db \<Rightarrow> storage_error + db" where
  "settle_effect P status post now e d =
     (if sql_changes P (db_effects d) \<noteq> 1 then Inl e
      else Inr (d\<lparr>db_effects := sql_update P (observe_row status post now) (db_effects d)\<rparr>))"

definition started_effect :: "commit_ctx \<Rightarrow> rstr \<Rightarrow> rstr \<Rightarrow> effect_row \<Rightarrow> bool" where
  "started_effect cx eid digest r \<longleftrightarrow>
     effect_of eid (ctx_turn cx) (lit ''started'') r \<and> ef_approval_digest r = Some digest"

definition commit_observe_effect ::
  "lib \<Rightarrow> commit_ctx \<Rightarrow> rstr \<Rightarrow> rstr \<Rightarrow> rstr \<Rightarrow> bool \<Rightarrow> rstr \<Rightarrow> json option \<Rightarrow> rstr
     \<Rightarrow> draft \<Rightarrow> storage_error + draft" where
  "commit_observe_effect L cx key eid digest success result payload checkpoint dr =
     bindE (validate_session_effect_id eid) (\<lambda>_.
     bindE (validate_session_digest digest) (\<lambda>_.
     bindE (parse_json L checkpoint) (\<lambda>_.
     if ts_status (cx_current cx) \<noteq> Running
     then Inl (invalid ''effect observation requires a running linked child'')
     else
     bindE (settle_effect (started_effect cx eid digest)
       (if success then lit ''observed_success'' else lit ''observed_failed'')
       (json_text L (redact_value L (json_obj
          [(lit ''result'', JStr result), (lit ''payload'', json_opt id payload)])))
       (cx_now cx) EffectFenced (dr_db dr)) (\<lambda>d.
     Inr (dr\<lparr>dr_db := d,
        dr_card := Some (TkToolResult, redact L result, map_option (redact_value L) payload,
          card_key key),
        dr_checkpoint := Some checkpoint\<rparr>)))))"

definition cancel_then_interrupt :: "commit_ctx \<Rightarrow> storage_error + turn_state" where
  "cancel_then_interrupt cx =
     bindE (ctx_step cx Cancel) (\<lambda>cancelling.
       lift_transition (turn_transition cancelling (ts_revision cancelling) Interrupt))"

definition commit_unknown_effect ::
  "lib \<Rightarrow> commit_ctx \<Rightarrow> rstr \<Rightarrow> rstr \<Rightarrow> rstr \<Rightarrow> rstr \<Rightarrow> draft \<Rightarrow> storage_error + draft" where
  "commit_unknown_effect L cx key eid digest checkpoint dr =
     bindE (validate_session_effect_id eid) (\<lambda>_.
     bindE (validate_session_digest digest) (\<lambda>_.
     bindE (parse_json L checkpoint) (\<lambda>_.
     bindE (settle_effect (started_effect cx eid digest) (lit ''unknown'')
       (lit ''{\"outcome\":\"uncertain\"}'') (cx_now cx) EffectFenced (dr_db dr)) (\<lambda>d.
     bindE (cancel_then_interrupt cx) (\<lambda>nxt.
     Inr (dr\<lparr>dr_db := d, dr_next := nxt, dr_turn_changed := True, dr_terminal := True,
        dr_reconciliation := Some (redact L eid),
        dr_lifecycle := lit ''reconciliation_required'',
        dr_card := Some (TkFailure, lit ''effect outcome unknown; reconciliation required'',
          Some (json_obj [(lit ''effect_id'', JStr (redact L eid)),
                          (lit ''status'', JStr (lit ''unknown''))]), card_key key),
        dr_checkpoint := Some checkpoint\<rparr>))))))"

definition reconciled_failure :: "lib \<Rightarrow> rstr \<Rightarrow> turn_failure" where
  "reconciled_failure L eid = \<lparr>tf_code = RuntimeFailed,
     tf_message = lit ''unknown effect '' @ redact L eid @ lit '' acknowledged failed; turn aborted'',
     tf_retryability = Terminal\<rparr>"

definition reconciled_turn :: "lib \<Rightarrow> commit_ctx \<Rightarrow> rstr \<Rightarrow> storage_error + turn_state" where
  "reconciled_turn L cx eid =
     (if cx_recovered cx then
        (if ts_status (cx_current cx) \<noteq> Interrupted
         then Inl (invalid ''recovered reconciliation requires an interrupted child'')
         else bindE (ok_or (invalid ''revision overflow'')
                (checked_add (ts_revision (cx_current cx)) 1)) (\<lambda>rev.
              Inr ((cx_current cx)\<lparr>ts_status := Failed, ts_revision := rev,
                ts_failure := Some (reconciled_failure L eid), ts_pending_input := None,
                ts_pending_permission := None\<rparr>)))
      else ctx_step cx (Fail (reconciled_failure L eid)))"

definition commit_reconcile_unknown ::
  "lib \<Rightarrow> commit_ctx \<Rightarrow> rstr \<Rightarrow> rstr \<Rightarrow> rstr \<Rightarrow> draft \<Rightarrow> storage_error + draft" where
  "commit_reconcile_unknown L cx key eid checkpoint dr =
     bindE (validate_session_effect_id eid) (\<lambda>_.
     bindE (parse_json L checkpoint) (\<lambda>_.
     bindE (settle_effect (effect_of eid (ctx_turn cx) (lit ''unknown'')) (lit ''observed_failed'')
       (lit ''{\"reconciliation\":\"acknowledged_failed\"}'') (cx_now cx)
       (invalid ''unknown effect does not belong to linked child'') (dr_db dr)) (\<lambda>d.
     bindE (reconciled_turn L cx eid) (\<lambda>nxt.
     Inr (dr\<lparr>dr_db := d, dr_next := nxt, dr_turn_changed := True, dr_terminal := True,
        dr_lifecycle := lit ''failed'',
        dr_card := Some (TkFailure, lit ''unknown effect acknowledged failed; turn aborted'',
          Some (json_obj [(lit ''effect_id'', JStr (redact L eid)),
                          (lit ''status'', JStr (lit ''reconciled''))]), card_key key),
        dr_checkpoint := Some checkpoint\<rparr>)))))"

definition commit_request_permission ::
  "lib \<Rightarrow> commit_ctx \<Rightarrow> rstr \<Rightarrow> pending_permission \<Rightarrow> draft \<Rightarrow> storage_error + draft" where
  "commit_request_permission L cx key req dr =
     bindE (ctx_step cx (RequestPermission (redact_permission L req))) (\<lambda>nxt.
     Inr (dr\<lparr>dr_next := nxt, dr_turn_changed := True, dr_lifecycle := lit ''waiting_permission'',
        dr_card := Some (TkPermission,
          (case ts_pending_permission nxt of None \<Rightarrow> lit ''permission requested''
           | Some p \<Rightarrow> redact L (pp_description p)), None, card_key key)\<rparr>))"

text \<open>
  Allowing an Ask effect moves its single-use capability and its digest to the lease
  that resolves it; the \<open>UNIQUE\<close> digest column refuses a digest bound elsewhere.
\<close>

definition bound_permission ::
  "db \<Rightarrow> rstr \<Rightarrow> uuid \<Rightarrow> (permission_row \<times> effect_row) option" where
  "bound_permission d rid t =
     (case find (open_permission rid t) (db_permissions d) of
        None \<Rightarrow> None
      | Some p \<Rightarrow> map_option (Pair p) (find (effect_of rid t (lit ''prepared'')) (db_effects d)))"

definition rebind_permission ::
  "commit_ctx \<Rightarrow> rstr \<Rightarrow> rstr \<Rightarrow> rstr \<Rightarrow> nat \<Rightarrow> db \<Rightarrow> storage_error + db" where
  "rebind_permission cx rid old new turn_revision d =
     bindE (validate_session_digest new) (\<lambda>_.
     let E = (\<lambda>r. effect_of rid (ctx_turn cx) (lit ''prepared'') r
                \<and> ef_approval_digest r = Some old);
         P = (\<lambda>r. open_permission rid (ctx_turn cx) r \<and> pm_turn_revision r = turn_revision
                \<and> pm_approval_digest r = old);
         perms = sql_update P (\<lambda>r. r\<lparr>pm_lease_owner := ls_owner (cx_lease cx),
                    pm_lease_token := ls_fencing_token (cx_lease cx),
                    pm_approval_digest := new\<rparr>) (db_permissions d)
     in if sql_exists P (db_permissions d)
           \<and> sql_exists (\<lambda>r. \<not> P r \<and> pm_approval_digest r = new) (db_permissions d)
        then Inl (Sql ConstraintViolation)
        else if sql_changes E (db_effects d) \<noteq> 1 \<or> sql_changes P (db_permissions d) \<noteq> 1
        then Inl EffectFenced
        else Inr (d\<lparr>db_effects := sql_update E (\<lambda>r. r\<lparr>ef_approval_digest := Some new\<rparr>)
                      (db_effects d),
                    db_permissions := perms\<rparr>))"

definition allow_permission ::
  "commit_ctx \<Rightarrow> rstr \<Rightarrow> rstr option \<Rightarrow> nat \<Rightarrow> db \<Rightarrow> storage_error + db" where
  "allow_permission cx rid rebound turn_revision d =
     (case bound_permission d rid (ctx_turn cx) of
        None \<Rightarrow>
          if rebound \<noteq> None then Inl (invalid ''prepared permission capability is missing'')
          else Inr d
      | Some (p, e) \<Rightarrow>
          bindE (ok_or (Sql InvalidColumnType) (ef_approval_digest e)) (\<lambda>effect_digest.
          if pm_turn_revision p \<noteq> turn_revision \<or> pm_approval_digest p \<noteq> effect_digest
          then Inl (invalid ''prepared permission binding is corrupt or stale'')
          else if (pm_lease_owner p \<noteq> ls_owner (cx_lease cx)
                   \<or> pm_lease_token p \<noteq> ls_fencing_token (cx_lease cx)) \<and> rebound = None
          then Inl LeaseLost
          else (case rebound of None \<Rightarrow> Inr d
                | Some new \<Rightarrow> rebind_permission cx rid effect_digest new turn_revision d)))"

definition withdraw_permission :: "rstr \<Rightarrow> uuid \<Rightarrow> rstr \<Rightarrow> nat \<Rightarrow> db \<Rightarrow> db" where
  "withdraw_permission rid t post now d =
     d\<lparr>db_permissions := sql_update (open_permission rid t) (consume_row now) (db_permissions d),
       db_effects := sql_update (effect_of rid t (lit ''prepared''))
         (observe_row (lit ''observed_failed'') post now) (db_effects d)\<rparr>"

definition commit_resolve_permission ::
  "lib \<Rightarrow> commit_ctx \<Rightarrow> rstr \<Rightarrow> rstr \<Rightarrow> bool \<Rightarrow> rstr option \<Rightarrow> draft \<Rightarrow> storage_error + draft" where
  "commit_resolve_permission L cx key rid allow rebound dr =
     bindE (ctx_step cx (ResolvePermission (redact L rid) allow)) (\<lambda>nxt.
     bindE (if allow then allow_permission cx rid rebound (ts_revision nxt) (dr_db dr)
            else Inr (withdraw_permission rid (ctx_turn cx)
                   (lit ''{\"permission\":\"denied_before_start\"}'') (cx_now cx) (dr_db dr))) (\<lambda>d.
     Inr (dr\<lparr>dr_db := d, dr_next := nxt, dr_turn_changed := True, dr_terminal := \<not> allow,
        dr_lifecycle := (if allow then lit ''running'' else lit ''ready''),
        dr_card := Some (if allow then TkSystem else TkFailure,
          if allow then lit ''permission allowed'' else lit ''permission denied'',
          if allow then None
          else Some (json_obj [(lit ''provider_tool_round_aborted'',
                                JStr (lit ''permission_denied''))]),
          card_key key)\<rparr>)))"

definition commit_request_input ::
  "lib \<Rightarrow> commit_ctx \<Rightarrow> rstr \<Rightarrow> pending_input \<Rightarrow> draft \<Rightarrow> storage_error + draft" where
  "commit_request_input L cx key req dr =
     bindE (ctx_step cx (RequestInput (redact_input L req))) (\<lambda>nxt.
     Inr (dr\<lparr>dr_next := nxt, dr_turn_changed := True, dr_lifecycle := lit ''waiting_input'',
        dr_card := Some (TkInput,
          (case ts_pending_input nxt of None \<Rightarrow> lit ''input requested''
           | Some i \<Rightarrow> redact L (pi_prompt i)), None, card_key key)\<rparr>))"

definition commit_provide_input ::
  "lib \<Rightarrow> commit_ctx \<Rightarrow> rstr \<Rightarrow> rstr \<Rightarrow> rstr \<Rightarrow> draft \<Rightarrow> storage_error + draft" where
  "commit_provide_input L cx key rid v dr =
     bindE (ctx_step cx (ProvideInput (redact L rid))) (\<lambda>nxt.
     Inr (dr\<lparr>dr_next := nxt, dr_turn_changed := True, dr_lifecycle := lit ''running'',
        dr_card := Some (TkUser, redact L v, None, card_key key)\<rparr>))"

definition completion_card ::
  "lib \<Rightarrow> rstr \<Rightarrow> turn_state \<Rightarrow> transcript_kind \<times> rstr \<times> json option \<times> rstr" where
  "completion_card L key nxt =
     (TkCompletion,
      (case ts_handoff nxt of None \<Rightarrow> lit ''completed'' | Some h \<Rightarrow> redact L (ho_summary h)),
      map_option (\<lambda>h. json_obj [(lit ''handoff'', handoff_json (redact_handoff L h))])
        (ts_handoff nxt),
      card_key key)"

definition complete_with ::
  "lib \<Rightarrow> commit_ctx \<Rightarrow> rstr \<Rightarrow> handoff \<Rightarrow> completion_policy \<Rightarrow> draft \<Rightarrow> storage_error + draft" where
  "complete_with L cx key h policy dr =
     bindE (ctx_step cx (Complete h policy)) (\<lambda>nxt.
     Inr (dr\<lparr>dr_next := nxt, dr_turn_changed := True, dr_terminal := True,
        dr_lifecycle := lit ''ready'', dr_card := Some (completion_card L key nxt)\<rparr>))"

definition commit_complete ::
  "lib \<Rightarrow> commit_ctx \<Rightarrow> rstr \<Rightarrow> handoff \<Rightarrow> draft \<Rightarrow> storage_error + draft" where
  "commit_complete L cx key h dr =
     complete_with L cx key (redact_handoff L h) VerificationNotRequired dr"

definition latest_verification ::
  "lib \<Rightarrow> db \<Rightarrow> uuid \<Rightarrow> storage_error + verification_record option" where
  "latest_verification L d t =
     (case find (\<lambda>r. vr_turn_id r = t) (rev (db_evidence d)) of
        None \<Rightarrow> Inr None
      | Some r \<Rightarrow> (case verification_parse L (vr_metadata r) of
                    None \<Rightarrow> Inl (InvalidData (json_error L (vr_metadata r)))
                  | Some v \<Rightarrow> Inr (Some v)))"

definition verified_evidence :: "rstr \<Rightarrow> rstr \<Rightarrow> rstr \<Rightarrow> nat \<Rightarrow> evidence" where
  "verified_evidence name summary manifest now =
     \<lparr>ev_name = lit ''verification: '' @ name, ev_status = Passed,
      ev_summary = summary @ lit ''; verified_manifest_sha256='' @ manifest
        @ lit ''; verified_at_ms='' @ nat_text now @ lit ''; change_source=manifest_v1''\<rparr>"

definition verification_current ::
  "turn_state \<Rightarrow> nat \<Rightarrow> rstr \<Rightarrow> rstr \<Rightarrow> verification_record \<Rightarrow> bool" where
  "verification_current current epoch veid manifest v \<longleftrightarrow>
     ver_revision v = ts_revision current \<and> ver_effect_epoch v = epoch
     \<and> ver_effect_id v = veid \<and> ver_passed v \<and> ver_workspace_manifest_digest v = manifest"

definition commit_complete_verified ::
  "lib \<Rightarrow> commit_ctx \<Rightarrow> rstr \<Rightarrow> rstr \<Rightarrow> rstr \<Rightarrow> rstr \<Rightarrow> rstr list \<Rightarrow> draft \<Rightarrow> storage_error + draft" where
  "commit_complete_verified L cx key summary veid manifest files dr =
     bindE (ok_or (Sql QueryReturnedNoRows) (find_turn (dr_db dr) (ctx_turn cx))) (\<lambda>row.
     bindE (latest_verification L (dr_db dr) (ctx_turn cx)) (\<lambda>v.
     case v of
       None \<Rightarrow> Inl (invalid ''missing current passing verification evidence for linked child'')
     | Some v \<Rightarrow>
       if \<not> verification_current (cx_current cx) (tr_effect_epoch row) veid manifest v
       then Inl (invalid ''missing current passing verification evidence for linked child'')
       else complete_with L cx key
         \<lparr>ho_summary = redact L summary, ho_files_changed = map (redact L) files,
          ho_evidence = [verified_evidence (redact L veid) (redact L (ver_summary v))
            (redact L manifest) (cx_now cx)]\<rparr> VerificationRequired dr))"

definition commit_fail ::
  "lib \<Rightarrow> commit_ctx \<Rightarrow> rstr \<Rightarrow> turn_failure \<Rightarrow> draft \<Rightarrow> storage_error + draft" where
  "commit_fail L cx key f dr =
     bindE (ctx_step cx (Fail (redact_failure L f))) (\<lambda>nxt.
     Inr (dr\<lparr>dr_next := nxt, dr_turn_changed := True, dr_terminal := True,
        dr_lifecycle := (if tf_retryability f = Retryable then lit ''ready'' else lit ''failed''),
        dr_card := Some (TkFailure,
          (case ts_failure nxt of None \<Rightarrow> lit ''failed'' | Some g \<Rightarrow> redact L (tf_message g)),
          None, card_key key)\<rparr>))"

definition cancelled_while_waiting :: turn_failure where
  "cancelled_while_waiting = \<lparr>tf_code = Cancelled, tf_message = lit ''run cancelled while waiting'',
     tf_retryability = Terminal\<rparr>"

definition interrupt_waiting :: "commit_ctx \<Rightarrow> draft \<Rightarrow> storage_error + draft" where
  "interrupt_waiting cx dr =
     bindE (ok_or (invalid ''revision overflow'')
       (checked_add (ts_revision (cx_current cx)) 1)) (\<lambda>rev.
     Inr (dr\<lparr>dr_next := (cx_current cx)\<lparr>ts_revision := rev, ts_status := Failed,
            ts_pending_input := None, ts_pending_permission := None,
            ts_failure := Some cancelled_while_waiting\<rparr>,
          dr_reconciliation := None, dr_lifecycle := lit ''failed'',
          dr_db := (case ts_pending_permission (cx_current cx) of
              None \<Rightarrow> dr_db dr
            | Some p \<Rightarrow> withdraw_permission (pp_request_id p) (ctx_turn cx)
                (lit ''{\"cancelled\":\"before_start\"}'') (cx_now cx) (dr_db dr))\<rparr>))"

definition newest_started :: "db \<Rightarrow> uuid \<Rightarrow> rstr option" where
  "newest_started d t = map_option ef_effect_id
     (find (\<lambda>r. ef_turn_id r = t \<and> ef_status r = lit ''started'') (rev (db_effects d)))"

definition interrupt_running :: "commit_ctx \<Rightarrow> rstr option \<Rightarrow> draft \<Rightarrow> storage_error + draft" where
  "interrupt_running cx named dr =
     (let effect = (case named of None \<Rightarrow> newest_started (dr_db dr) (ctx_turn cx)
                    | Some e \<Rightarrow> Some e);
          d = (case effect of None \<Rightarrow> dr_db dr
               | Some eid \<Rightarrow> (dr_db dr)\<lparr>db_effects := sql_update
                   (effect_of eid (ctx_turn cx) (lit ''started''))
                   (observe_row (lit ''unknown'') (lit ''{\"outcome\":\"cancelled_after_start\"}'')
                     (cx_now cx)) (db_effects (dr_db dr))\<rparr>)
      in bindE (cancel_then_interrupt cx) (\<lambda>nxt.
         Inr (dr\<lparr>dr_db := d, dr_next := nxt, dr_reconciliation := effect,
            dr_lifecycle := (if effect \<noteq> None then lit ''reconciliation_required''
                             else lit ''interrupted'')\<rparr>)))"

definition commit_interrupt ::
  "lib \<Rightarrow> commit_ctx \<Rightarrow> rstr \<Rightarrow> rstr option \<Rightarrow> draft \<Rightarrow> storage_error + draft" where
  "commit_interrupt L cx key eid dr =
     bindE (if ts_status (cx_current cx) \<in> {WaitingPermission, WaitingInput}
            then interrupt_waiting cx dr
            else interrupt_running cx (map_option (redact L) eid) dr) (\<lambda>dr.
     Inr (dr\<lparr>dr_turn_changed := True, dr_terminal := True,
        dr_card := Some (TkFailure,
          (if dr_reconciliation dr \<noteq> None
           then lit ''effect outcome unknown; reconciliation required''
           else lit ''turn interrupted''), None, card_key key)\<rparr>))"

fun commit_arm :: "lib \<Rightarrow> commit_ctx \<Rightarrow> commit_update \<Rightarrow> draft \<Rightarrow> storage_error + draft" where
  "commit_arm L cx (CuStart _) dr = commit_start cx dr"
| "commit_arm L cx (CuAppendTranscript key kind text payload) dr =
     commit_append_transcript L key kind text payload dr"
| "commit_arm L cx (CuPrepareEffect key eid digest descriptor canonical policy description cp) dr =
     commit_prepare_effect L cx key eid digest descriptor canonical policy description cp dr"
| "commit_arm L cx (CuStartEffect key eid digest cp) dr =
     commit_start_effect L cx key eid digest cp dr"
| "commit_arm L cx (CuObserveEffect key eid digest success result payload cp) dr =
     commit_observe_effect L cx key eid digest success result payload cp dr"
| "commit_arm L cx (CuUnknownEffect key eid digest cp) dr =
     commit_unknown_effect L cx key eid digest cp dr"
| "commit_arm L cx (CuReconcileUnknownEffect key eid cp) dr =
     commit_reconcile_unknown L cx key eid cp dr"
| "commit_arm L cx (CuRequestPermission key req) dr = commit_request_permission L cx key req dr"
| "commit_arm L cx (CuResolvePermission key rid allow rebound) dr =
     commit_resolve_permission L cx key rid allow rebound dr"
| "commit_arm L cx (CuRequestInput key req) dr = commit_request_input L cx key req dr"
| "commit_arm L cx (CuProvideInput key rid v) dr = commit_provide_input L cx key rid v dr"
| "commit_arm L cx (CuComplete key h) dr = commit_complete L cx key h dr"
| "commit_arm L cx (CuCompleteVerified key summary veid manifest files) dr =
     commit_complete_verified L cx key summary veid manifest files dr"
| "commit_arm L cx (CuFail key f) dr = commit_fail L cx key f dr"
| "commit_arm L cx (CuInterrupt key eid) dr = commit_interrupt L cx key eid dr"

subsection \<open>The checks before the match\<close>

definition require_live_lease :: "db \<Rightarrow> rstr \<Rightarrow> lease \<Rightarrow> nat \<Rightarrow> storage_error + unit" where
  "require_live_lease d scope l now =
     bindE (to_i64 (ls_fencing_token l)) (\<lambda>token.
     bindE (to_i64 now) (\<lambda>now.
     if lease_live d scope (ls_owner l) token now then Inr () else Inl LeaseLost))"

definition recovered_reconciliation :: "session_commit_request \<Rightarrow> session_row \<Rightarrow> bool" where
  "recovered_reconciliation rq s \<longleftrightarrow>
     (case rq_update rq of CuReconcileUnknownEffect _ _ _ \<Rightarrow> True | _ \<Rightarrow> False)
     \<and> sr_lifecycle s = lit ''reconciliation_required''
     \<and> sr_latest_turn_id s = Some (rq_turn_id rq)"

definition terminal_queue_audit :: "session_commit_request \<Rightarrow> session_row \<Rightarrow> bool" where
  "terminal_queue_audit rq s \<longleftrightarrow>
     (case rq_update rq of CuAppendTranscript _ _ _ _ \<Rightarrow> True | _ \<Rightarrow> False)
     \<and> sr_lifecycle s \<in> {lit ''failed'', lit ''interrupted'', lit ''reconciliation_required''}
     \<and> sr_latest_turn_id s = Some (rq_turn_id rq)"

definition idle_compaction_append :: "session_commit_request \<Rightarrow> session_row \<Rightarrow> bool" where
  "idle_compaction_append rq s \<longleftrightarrow>
     sr_lifecycle s = lit ''ready''
     \<and> (case rq_update rq of
          CuAppendTranscript _ kind _ _ \<Rightarrow> kind \<in> {TkCompactSummary, TkToolResultElision}
        | _ \<Rightarrow> False)
     \<and> sr_latest_turn_id s = Some (rq_turn_id rq)"

text \<open>
  The active row must be the request's turn under a token no newer than the lease's;
  three kinds of update are admitted without an active row. The result says whether
  this is the reconciliation of a recovered turn.
\<close>

definition active_gate ::
  "db \<Rightarrow> session_commit_request \<Rightarrow> lease \<Rightarrow> session_row \<Rightarrow> storage_error + bool" where
  "active_gate d rq l s =
     (case active_turn d (rq_session_id rq) of
        Some a \<Rightarrow>
          if ar_turn_id a \<noteq> rq_turn_id rq \<or> ar_lease_token a > ls_fencing_token l
          then Inl SessionActiveTurnMismatch else Inr False
      | None \<Rightarrow>
          if recovered_reconciliation rq s \<or> terminal_queue_audit rq s
             \<or> idle_compaction_append rq s
          then Inr (recovered_reconciliation rq s) else Inl SessionActiveTurnMismatch)"

definition commit_gate ::
  "lib \<Rightarrow> db \<Rightarrow> session_commit_request \<Rightarrow> lease \<Rightarrow> nat
     \<Rightarrow> storage_error + session_row \<times> turn_row \<times> bool" where
  "commit_gate L d rq l now =
     bindE (require_live_lease d (session_lease_scope L (rq_session_id rq)) l now) (\<lambda>_.
     bindE (ok_or (SessionNotFound (rq_session_id rq)) (find_session d (rq_session_id rq))) (\<lambda>s.
     if sr_revision s \<noteq> rq_expected_session_revision rq
     then Inl (StaleSessionRevision (rq_expected_session_revision rq) (sr_revision s))
     else
     bindE (active_gate d rq l s) (\<lambda>recovered.
     bindE (ok_or (Sql QueryReturnedNoRows) (find_turn d (rq_turn_id rq))) (\<lambda>t.
     if tr_lease_token t > ls_fencing_token l then Inl LeaseLost
     else if ts_revision (tr_state t) \<noteq> rq_expected_turn_revision rq
     then Inl (StaleTurnRevision (rq_expected_turn_revision rq) (ts_revision (tr_state t)))
     else Inr (s, t, recovered)))))"

subsection \<open>The writes after the match\<close>

definition finish_turn ::
  "(nat \<Rightarrow> uuid) \<Rightarrow> commit_ctx \<Rightarrow> nat \<Rightarrow> draft \<Rightarrow> storage_error + db" where
  "finish_turn ids cx turn_seq dr =
     (if dr_turn_changed dr
      then append_linked_turn_transition ids (cx_current cx) (dr_next dr) turn_seq (cx_lease cx)
             (cx_now cx) (dr_db dr)
      else
        (let token = ls_fencing_token (cx_lease cx);
             P = (\<lambda>r. tr_turn_id r = ctx_turn cx \<and> tr_lease_token r \<le> token)
         in if sql_changes P (db_turns (dr_db dr)) \<noteq> 1 then Inl LeaseLost
            else Inr ((dr_db dr)\<lparr>db_turns := sql_update P
              (\<lambda>r. r\<lparr>tr_lease_token := token, tr_updated_at_ms := cx_now cx\<rparr>)
              (db_turns (dr_db dr))\<rparr>)))"

definition finish_checkpoint :: "commit_ctx \<Rightarrow> draft \<Rightarrow> db \<Rightarrow> db" where
  "finish_checkpoint cx dr d = (case dr_checkpoint dr of
     None \<Rightarrow> d | Some payload \<Rightarrow> upsert_checkpoint (ctx_turn cx) payload (cx_now cx) d)"

definition counts_as_tool_round :: "transcript_kind \<Rightarrow> json option \<Rightarrow> bool" where
  "counts_as_tool_round kind payload \<longleftrightarrow> kind = TkAssistant \<and>
     (case payload of None \<Rightarrow> False
      | Some p \<Rightarrow> (case json_get (lit ''tool_calls'') p of None \<Rightarrow> False
                   | Some v \<Rightarrow> (case json_as_array v of None \<Rightarrow> False
                                | Some calls \<Rightarrow> calls \<noteq> [])))"

definition outbox_row_of :: "uuid \<Rightarrow> transcript_entry \<Rightarrow> outbox_row" where
  "outbox_row_of sid e = \<lparr>ob_session_id = sid, ob_seq = te_sequence e, ob_entry_id = te_entry_id e,
     ob_turn_id = te_turn_id e, ob_kind = transcript_kind_name (te_kind e),
     ob_source_key = te_source_key e, ob_entry = e, ob_created_at_ms = te_created_at_ms e\<rparr>"

definition finish_card ::
  "(nat \<Rightarrow> uuid) \<Rightarrow> commit_ctx \<Rightarrow> nat \<Rightarrow> draft \<Rightarrow> db \<Rightarrow> storage_error + db \<times> transcript_entry option"
where
  "finish_card ids cx seq dr d =
     (case dr_card dr of
        None \<Rightarrow> Inr (d, None)
      | Some (kind, text, payload, key) \<Rightarrow>
          (let entry = \<lparr>te_entry_id = ids 2, te_sequence = seq, te_turn_id = Some (ctx_turn cx),
                 te_kind = kind, te_text = text, te_payload = payload, te_source_key = key,
                 te_created_at_ms = cx_now cx\<rparr>
           in bindE (to_i64 seq) (\<lambda>_.
              bindE (insert_outbox (outbox_row_of (rq_session_id (cx_request cx)) entry) d) (\<lambda>d.
              Inr (if counts_as_tool_round kind payload
                   then d\<lparr>db_session_turns := sql_update (\<lambda>r. st_turn_id r = ctx_turn cx)
                          (\<lambda>r. r\<lparr>st_tool_round_count := st_tool_round_count r + 1\<rparr>)
                          (db_session_turns d)\<rparr>
                   else d, Some entry)))))"

definition finish_terminal :: "lib \<Rightarrow> commit_ctx \<Rightarrow> db \<Rightarrow> storage_error + db" where
  "finish_terminal L cx d =
     (let sid = rq_session_id (cx_request cx);
          P = (\<lambda>r. holds_row (session_lease_scope L sid) (ls_owner (cx_lease cx))
                 (ls_fencing_token (cx_lease cx)) r \<and> lr_expires_at_ms r > cx_now cx)
      in if sql_changes P (db_leases d) \<noteq> 1 then Inl LeaseLost
         else Inr (d\<lparr>db_session_turns := sql_update (\<lambda>r. st_turn_id r = ctx_turn cx)
                       (\<lambda>r. r\<lparr>st_completed_at_ms := Some (cx_now cx)\<rparr>) (db_session_turns d),
                     db_active := sql_delete
                       (\<lambda>r. ar_session_id r = sid \<and> ar_turn_id r = ctx_turn cx) (db_active d),
                     db_leases := sql_update P (\<lambda>r. r\<lparr>lr_expires_at_ms := 0\<rparr>) (db_leases d)\<rparr>))"

definition finish_active :: "lib \<Rightarrow> commit_ctx \<Rightarrow> draft \<Rightarrow> db \<Rightarrow> storage_error + db" where
  "finish_active L cx dr d =
     (if dr_terminal dr then finish_terminal L cx d
      else Inr (d\<lparr>db_active := sql_update
        (\<lambda>r. ar_session_id r = rq_session_id (cx_request cx) \<and> ar_turn_id r = ctx_turn cx)
        (\<lambda>r. r\<lparr>ar_lease_token := ls_fencing_token (cx_lease cx)\<rparr>) (db_active d)\<rparr>))"

definition finish_session :: "commit_ctx \<Rightarrow> nat \<Rightarrow> nat \<Rightarrow> draft \<Rightarrow> db \<Rightarrow> storage_error + db" where
  "finish_session cx new_revision seq dr d =
     bindE (to_i64 new_revision) (\<lambda>new_revision.
     bindE (to_i64 seq) (\<lambda>seq.
     Inr (d\<lparr>db_sessions := sql_update (\<lambda>r. sr_session_id r = rq_session_id (cx_request cx))
        (\<lambda>r. r\<lparr>sr_revision := new_revision, sr_last_seq := seq, sr_lifecycle := dr_lifecycle dr,
           sr_latest_turn_id := Some (ctx_turn cx), sr_updated_at_ms := cx_now cx\<rparr>)
        (db_sessions d)\<rparr>)))"

definition finish_event ::
  "commit_ctx \<Rightarrow> draft \<Rightarrow> transcript_entry option \<Rightarrow> storage_error + session_event" where
  "finish_event cx dr transcript =
     (case transcript of
        Some entry \<Rightarrow> Inr (TranscriptAppended entry)
      | None \<Rightarrow>
          (case dr_reconciliation dr of
             Some eid \<Rightarrow> Inr (ReconciliationRequiredEv (ctx_turn cx) eid)
           | None \<Rightarrow> bindE (parse_lifecycle (dr_lifecycle dr)) (\<lambda>l.
                       Inr (LifecycleChanged l (Some (ctx_turn cx))))))"

definition session_envelope :: "uuid \<Rightarrow> uuid \<Rightarrow> nat \<Rightarrow> nat \<Rightarrow> session_event \<Rightarrow> session_event_envelope" where
  "session_envelope eid sid new_revision seq ev = \<lparr>se_protocol_version = SESSION_PROTOCOL_VERSION,
     se_event_id = eid, se_session_id = sid, se_revision = new_revision, se_sequence = seq,
     se_event = ev\<rparr>"

definition session_event_row :: "session_event_envelope \<Rightarrow> nat \<Rightarrow> sevent_row" where
  "session_event_row env now = \<lparr>sv_session_id = se_session_id env, sv_seq = se_sequence env,
     sv_event_id = se_event_id env, sv_revision = se_revision env, sv_event = env,
     sv_created_at_ms = now\<rparr>"

definition commit_record ::
  "lib \<Rightarrow> session_commit_request \<Rightarrow> nat \<Rightarrow> session_event_envelope \<Rightarrow> db
     \<Rightarrow> storage_error + db \<times> session_commit_response" where
  "commit_record L rq now env d =
     bindE (current_session_snapshot L d (rq_session_id rq)
       SESSION_PROJECTION_TRANSCRIPT_LIMIT) (\<lambda>snapshot.
     let response = \<lparr>rs_snapshot = snapshot,
           rs_session_event = \<lparr>ss_sequence = se_sequence env, ss_envelope = env\<rparr>\<rparr>
     in bindE (insert_dedup \<lparr>dd_command_id = rq_command_id rq,
          dd_digest = session_command_digest L rq, dd_result = DrCommit response,
          dd_created_at_ms = now\<rparr> d) (\<lambda>d.
        bindE (insert_source \<lparr>cs_session_id = rq_session_id rq,
          cs_source_key = source_key (rq_update rq), cs_digest = session_command_digest L rq,
          cs_result = response\<rparr> d) (\<lambda>d.
        Inr (d, response))))"

definition commit_finish ::
  "lib \<Rightarrow> (nat \<Rightarrow> uuid) \<Rightarrow> commit_ctx \<Rightarrow> session_row \<Rightarrow> turn_row \<Rightarrow> draft
     \<Rightarrow> storage_error + db \<times> session_commit_response" where
  "commit_finish L ids cx s t dr =
     bindE (ok_or (invalid ''session revision overflow'') (checked_add (sr_revision s) 1))
       (\<lambda>new_revision.
     bindE (ok_or (invalid ''session sequence overflow'') (checked_add (sr_last_seq s) 1)) (\<lambda>seq.
     bindE (finish_turn ids cx (tr_last_seq t) dr) (\<lambda>d.
     bindE (finish_card ids cx seq dr (finish_checkpoint cx dr d)) (\<lambda>(d, transcript).
     bindE (finish_active L cx dr d) (\<lambda>d.
     bindE (finish_session cx new_revision seq dr d) (\<lambda>d.
     bindE (finish_event cx dr transcript) (\<lambda>ev.
     let env = session_envelope (ids 3) (rq_session_id (cx_request cx)) new_revision seq ev
     in bindE (insert_session_event (session_event_row env (cx_now cx)) d)
          (commit_record L (cx_request cx) (cx_now cx) env))))))))"

definition commit_fresh ::
  "lib \<Rightarrow> (nat \<Rightarrow> uuid) \<Rightarrow> db \<Rightarrow> session_commit_request \<Rightarrow> lease \<Rightarrow> nat
     \<Rightarrow> storage_error + db \<times> session_commit_response" where
  "commit_fresh L ids d rq l now =
     bindE (commit_gate L d rq l now) (\<lambda>(s, t, recovered).
     let cx = \<lparr>cx_request = rq, cx_lease = l, cx_now = now, cx_current = tr_state t,
               cx_recovered = recovered\<rparr>
     in bindE (commit_arm L cx (rq_update rq) (initial_draft d (tr_state t) (sr_lifecycle s)))
          (commit_finish L ids cx s t))"

definition commit_replay :: "lib \<Rightarrow> dedup_result \<Rightarrow> storage_error + session_commit_response" where
  "commit_replay L r = (case r of
     DrCommit response \<Rightarrow> Inr response
   | DrSnapshot _ \<Rightarrow> Inl (InvalidData (dedup_result_error L)))"

definition commit_session_turn_update ::
  "lib \<Rightarrow> (nat \<Rightarrow> uuid) \<Rightarrow> db \<Rightarrow> session_commit_request \<Rightarrow> lease \<Rightarrow> nat
     \<Rightarrow> storage_error + db \<times> session_commit_response" where
  "commit_session_turn_update L ids d rq l now =
     bindE (require_lease_scope l (session_lease_scope L (rq_session_id rq))) (\<lambda>_.
     bindE (validate_session_source (source_key (rq_update rq))) (\<lambda>_.
     let digest = session_command_digest L rq in
     case find (\<lambda>r. dd_command_id r = rq_command_id rq) (db_dedup d) of
       Some r \<Rightarrow>
         if dd_digest r \<noteq> digest then Inl SessionCommandReplayMismatch
         else bindE (commit_replay L (dd_result r)) (\<lambda>response. Inr (d, response))
     | None \<Rightarrow>
     (case find (\<lambda>r. cs_session_id r = rq_session_id rq
                   \<and> cs_source_key r = source_key (rq_update rq)) (db_sources d) of
       Some r \<Rightarrow>
         if cs_digest r \<noteq> digest then Inl SessionCommandReplayMismatch
         else bindE (to_i64 now) (\<lambda>now.
              bindE (insert_dedup \<lparr>dd_command_id = rq_command_id rq, dd_digest = digest,
                dd_result = DrCommit (cs_result r), dd_created_at_ms = now\<rparr> d) (\<lambda>d.
              Inr (d, cs_result r)))
     | None \<Rightarrow> commit_fresh L ids d rq l now)))"

end
