(* ===== verification/Commit_Ledger.thy ===== *)
theory Commit_Ledger
  imports Store_Commit
begin

text \<open>
  What the arms of \<open>commit_session_turn_update\<close> may do: they touch the effect ledger and
  nothing else of the database (\<open>ledger_only\<close>), the ledger moves along \<open>effect_edge\<close>
  only, and the next turn state and lifecycle they propose agree (\<open>draft_ok\<close>).
\<close>

subsection \<open>The effect ledger\<close>

text \<open>
  The states an effect passes through. \<open>started\<close> is the only proof that something
  happened outside; it leads to an observation or to \<open>unknown\<close>, and \<open>unknown\<close> only to
  an acknowledged failure.
\<close>

inductive effect_edge :: "rstr \<Rightarrow> rstr \<Rightarrow> bool" where
  start_effect: "effect_edge (lit ''prepared'') (lit ''started'')"
| not_started: "effect_edge (lit ''prepared'') (lit ''observed_failed'')"
| succeeded: "effect_edge (lit ''started'') (lit ''observed_success'')"
| effect_failed: "effect_edge (lit ''started'') (lit ''observed_failed'')"
| uncertain: "effect_edge (lit ''started'') (lit ''unknown'')"
| reconciled: "effect_edge (lit ''unknown'') (lit ''observed_failed'')"

lemmas effect_edges [simp] = effect_edge.intros

inductive_cases effect_edge_from_success: "effect_edge (lit ''observed_success'') s"
inductive_cases effect_edge_from_failed: "effect_edge (lit ''observed_failed'') s"

definition effect_le :: "effect_row \<Rightarrow> effect_row \<Rightarrow> bool" where
  "effect_le r s \<longleftrightarrow> ef_effect_id s = ef_effect_id r \<and> ef_turn_id s = ef_turn_id r
     \<and> effect_edge\<^sup>*\<^sup>* (ef_status r) (ef_status s)"

definition ledger_le :: "db \<Rightarrow> db \<Rightarrow> bool" where
  "ledger_le d e \<longleftrightarrow> length (db_effects d) \<le> length (db_effects e)
     \<and> (\<forall>i < length (db_effects d). effect_le (db_effects d ! i) (db_effects e ! i))"

lemma effect_le_refl [simp, intro]: "effect_le r r"
  by (simp add: effect_le_def)

lemma effect_le_step:
  "ef_effect_id s = ef_effect_id r \<Longrightarrow> ef_turn_id s = ef_turn_id r
     \<Longrightarrow> effect_edge (ef_status r) (ef_status s) \<Longrightarrow> effect_le r s"
  by (simp add: effect_le_def r_into_rtranclp)

lemma ledger_le_refl [simp, intro]: "ledger_le d d"
  by (simp add: ledger_le_def)

lemma ledger_le_same: "db_effects e = db_effects d \<Longrightarrow> ledger_le d e"
  by (simp add: ledger_le_def)

lemma effect_le_trans: "effect_le r s \<Longrightarrow> effect_le s t \<Longrightarrow> effect_le r t"
  by (auto simp: effect_le_def)

lemma ledger_le_trans:
  assumes "ledger_le d e" and "ledger_le e f"
  shows "ledger_le d f"
  unfolding ledger_le_def
proof (intro conjI allI impI)
  show "length (db_effects d) \<le> length (db_effects f)"
    using assms by (simp add: ledger_le_def)
  fix i assume "i < length (db_effects d)"
  with assms have "effect_le (db_effects d ! i) (db_effects e ! i)"
    and "effect_le (db_effects e ! i) (db_effects f ! i)"
    by (auto simp: ledger_le_def)
  then show "effect_le (db_effects d ! i) (db_effects f ! i)" by (rule effect_le_trans)
qed

lemma ledger_le_update:
  assumes "db_effects e = sql_update P f (db_effects d)"
    and "\<And>r. r \<in> set (db_effects d) \<Longrightarrow> P r \<Longrightarrow> effect_le r (f r)"
  shows "ledger_le d e"
  using assms by (auto simp: ledger_le_def sql_update_def)

lemma ledger_le_append: "db_effects e = db_effects d @ rs \<Longrightarrow> ledger_le d e"
  by (simp add: ledger_le_def nth_append)

text \<open>What has been observed stays as it is.\<close>

lemma effect_final:
  assumes "effect_edge\<^sup>*\<^sup>* s t" and "s \<in> {lit ''observed_success'', lit ''observed_failed''}"
  shows "t = s"
  using assms
  by (induction rule: converse_rtranclp_induct) (auto elim: effect_edge.cases)

lemma ledger_final:
  assumes "ledger_le d e" and "i < length (db_effects d)"
    and "ef_status (db_effects d ! i) \<in> {lit ''observed_success'', lit ''observed_failed''}"
  shows "i < length (db_effects e) \<and> ef_status (db_effects e ! i) = ef_status (db_effects d ! i)
    \<and> ef_effect_id (db_effects e ! i) = ef_effect_id (db_effects d ! i)"
proof -
  have len: "i < length (db_effects e)" and le: "effect_le (db_effects d ! i) (db_effects e ! i)"
    using assms(1,2) by (auto simp: ledger_le_def)
  have "effect_edge\<^sup>*\<^sup>* (ef_status (db_effects d ! i)) (ef_status (db_effects e ! i))"
    using le by (simp add: effect_le_def)
  from effect_final [OF this assms(3)] le len show ?thesis by (simp add: effect_le_def)
qed

subsection \<open>The arms write the ledger only\<close>

definition turn_core :: "turn_row \<Rightarrow> uuid \<times> turn_state \<times> rstr \<times> nat \<times> nat" where
  "turn_core r = (tr_turn_id r, tr_state r, tr_status r, tr_revision r, tr_last_seq r)"

definition ledger_only :: "db \<Rightarrow> db \<Rightarrow> bool" where
  "ledger_only d e \<longleftrightarrow>
     db_sessions e = db_sessions d \<and> db_session_turns e = db_session_turns d
   \<and> db_active e = db_active d \<and> db_outbox e = db_outbox d
   \<and> db_session_events e = db_session_events d \<and> db_dedup e = db_dedup d
   \<and> db_sources e = db_sources d \<and> db_evidence e = db_evidence d
   \<and> db_checkpoints e = db_checkpoints d \<and> db_baselines e = db_baselines d
   \<and> db_leases e = db_leases d \<and> db_lease_epoch e = db_lease_epoch d
   \<and> db_read_model e = db_read_model d \<and> db_events e = db_events d
   \<and> map turn_core (db_turns e) = map turn_core (db_turns d)"

lemma ledger_only_refl [simp, intro]: "ledger_only d d"
  by (simp add: ledger_only_def)

lemma ledger_only_trans: "ledger_only d e \<Longrightarrow> ledger_only e f \<Longrightarrow> ledger_only d f"
  by (simp add: ledger_only_def)

lemma ledger_only_simps:
  "ledger_only d (d\<lparr>db_effects := x\<rparr>)" "ledger_only d (d\<lparr>db_permissions := y\<rparr>)"
  "ledger_only d (d\<lparr>db_canonical := z\<rparr>)"
  "ledger_only d (d\<lparr>db_effects := x, db_permissions := y\<rparr>)"
  "ledger_only d (d\<lparr>db_permissions := y, db_effects := x\<rparr>)"
  by (simp_all add: ledger_only_def)

definition effects_keyed :: "db \<Rightarrow> bool" where
  "effects_keyed d \<longleftrightarrow> distinct (map ef_effect_id (db_effects d))"

lemma effects_keyed_same: "db_effects e = db_effects d \<Longrightarrow> effects_keyed e = effects_keyed d"
  by (simp add: effects_keyed_def)

lemma effects_keyed_update:
  assumes "db_effects e = sql_update P f (db_effects d)"
    and "\<And>r. ef_effect_id (f r) = ef_effect_id r"
  shows "effects_keyed e = effects_keyed d"
proof -
  have "map ef_effect_id (db_effects e) = map ef_effect_id (db_effects d)"
    by (simp add: assms sql_update_def comp_def if_distrib cong: if_cong)
  then show ?thesis by (simp add: effects_keyed_def)
qed

definition ledger_move :: "db \<Rightarrow> db \<Rightarrow> bool" where
  "ledger_move d e \<longleftrightarrow> ledger_only d e \<and> ledger_le d e \<and> (effects_keyed d \<longrightarrow> effects_keyed e)"

lemma ledger_move_refl [simp, intro]: "ledger_move d d"
  by (simp add: ledger_move_def)

lemma ledger_move_trans: "ledger_move d e \<Longrightarrow> ledger_move e f \<Longrightarrow> ledger_move d f"
  unfolding ledger_move_def by (blast intro: ledger_only_trans ledger_le_trans)

lemma insert_effect_move: "insert_effect r d = Inr e \<Longrightarrow> ledger_move d e"
  by (fastforce simp: insert_effect_def ledger_move_def ledger_only_simps ledger_le_append
      effects_keyed_def)

lemma insert_canonical_move: "insert_canonical r d = Inr e \<Longrightarrow> ledger_move d e"
  by (auto simp: insert_canonical_def ledger_move_def ledger_only_simps ledger_le_same
      effects_keyed_def)

lemma insert_permission_move: "insert_permission r d = Inr e \<Longrightarrow> ledger_move d e"
  by (auto simp: insert_permission_def ledger_move_def ledger_only_simps ledger_le_same
      effects_keyed_def)

lemma observe_row_le:
  "effect_edge (ef_status r) status \<Longrightarrow> effect_le r (observe_row status post now r)"
  by (rule effect_le_step) (simp_all add: observe_row_def)

lemma update_effects_move:
  assumes "\<And>r. P r \<Longrightarrow> effect_le r (f r)" and "\<And>r. ef_effect_id (f r) = ef_effect_id r"
  shows "ledger_move d (d\<lparr>db_effects := sql_update P f (db_effects d)\<rparr>)"
  unfolding ledger_move_def
  by (intro conjI ledger_only_simps ledger_le_update [where P = P and f = f])
    (simp_all add: assms effects_keyed_update [where P = P and f = f])

lemma observe_move:
  assumes "\<And>r. P r \<Longrightarrow> effect_edge (ef_status r) status"
  shows "ledger_move d (d\<lparr>db_effects := sql_update P (observe_row status post now) (db_effects d)\<rparr>)"
  by (rule update_effects_move) (auto intro: observe_row_le assms, simp add: observe_row_def)

lemma permissions_move: "ledger_move d (d\<lparr>db_permissions := p\<rparr>)"
  by (auto simp: ledger_move_def ledger_only_simps ledger_le_same effects_keyed_def)

lemma settle_effect_move:
  assumes "settle_effect P status post now err d = Inr e"
    and "\<And>r. P r \<Longrightarrow> effect_edge (ef_status r) status"
  shows "ledger_move d e"
  using assms(1) observe_move [OF assms(2)] by (auto simp: settle_effect_def split: if_splits)

lemma authorize_start_move: "authorize_start cx eid marker d = Inr e \<Longrightarrow> ledger_move d e"
  by (auto simp: authorize_start_def permissions_move split: option.splits if_splits)

lemma withdraw_permission_move: "ledger_move d (withdraw_permission rid t post now d)"
proof -
  let ?d = "d\<lparr>db_permissions := sql_update (open_permission rid t) (consume_row now) (db_permissions d)\<rparr>"
  have "ledger_move ?d (?d\<lparr>db_effects := sql_update (effect_of rid t (lit ''prepared''))
      (observe_row (lit ''observed_failed'') post now) (db_effects ?d)\<rparr>)"
    by (rule observe_move) (simp add: effect_of_def)
  from ledger_move_trans [OF permissions_move this] show ?thesis
    by (simp add: withdraw_permission_def)
qed

lemma rebind_permission_move:
  assumes "rebind_permission cx rid old new turn_revision d = Inr e"
  shows "ledger_move d e"
proof -
  let ?P = "\<lambda>r. effect_of rid (ctx_turn cx) (lit ''prepared'') r \<and> ef_approval_digest r = Some old"
  let ?f = "\<lambda>r. r\<lparr>ef_approval_digest := Some new\<rparr>"
  obtain perms where e: "e = d\<lparr>db_effects := sql_update ?P ?f (db_effects d), db_permissions := perms\<rparr>"
    using assms by (auto simp: rebind_permission_def Let_def split: if_splits)
  have "ledger_move d (d\<lparr>db_effects := sql_update ?P ?f (db_effects d)\<rparr>)"
    by (rule update_effects_move) (auto simp: effect_le_def)
  from ledger_move_trans [OF this permissions_move] show ?thesis by (simp add: e)
qed

lemma allow_permission_move:
  "allow_permission cx rid rebound turn_revision d = Inr e \<Longrightarrow> ledger_move d e"
  by (auto simp: allow_permission_def split: option.splits if_splits prod.splits
      dest: rebind_permission_move)

lemma commit_start_effect_move:
  assumes "commit_start_effect L cx key eid digest checkpoint dr = Inr dr'"
  shows "ledger_move (dr_db dr) (dr_db dr')"
proof -
  obtain marker d1 where "authorize_start cx eid marker (dr_db dr) = Inr d1"
    and e: "dr_db dr' = d1\<lparr>db_effects := sql_update (\<lambda>r. effect_of eid (ctx_turn cx) (lit ''prepared'') r
          \<and> ef_approval_digest r = Some digest)
        (\<lambda>r. r\<lparr>ef_status := lit ''started'', ef_started_at_ms := cx_now cx\<rparr>) (db_effects d1),
      db_turns := sql_update (\<lambda>r. tr_turn_id r = ctx_turn cx
          \<and> tr_revision r = ts_revision (cx_current cx)
          \<and> tr_lease_token r \<le> ls_fencing_token (cx_lease cx))
        (\<lambda>r. r\<lparr>tr_effect_epoch := tr_effect_epoch r + 1,
          tr_lease_token := ls_fencing_token (cx_lease cx),
          tr_updated_at_ms := cx_now cx\<rparr>) (db_turns d1)\<rparr>"
    using assms unfolding commit_start_effect_def Let_def
    by (fastforce split: option.splits if_splits)
  then have "ledger_move (dr_db dr) d1" by (blast dest: authorize_start_move)
  moreover have "ledger_le d1 (dr_db dr')"
  proof (rule ledger_le_update)
    show "db_effects (dr_db dr') = sql_update
        (\<lambda>r. effect_of eid (ctx_turn cx) (lit ''prepared'') r \<and> ef_approval_digest r = Some digest)
        (\<lambda>r. r\<lparr>ef_status := lit ''started'', ef_started_at_ms := cx_now cx\<rparr>) (db_effects d1)"
      by (simp add: e)
  qed (auto simp: effect_of_def intro!: effect_le_step)
  moreover have "ledger_only d1 (dr_db dr')"
    by (simp add: e ledger_only_def turn_core_def sql_update_def)
  moreover have "effects_keyed (dr_db dr') = effects_keyed d1"
    by (subst effects_keyed_update [where d = d1 and P = "\<lambda>r. effect_of eid (ctx_turn cx) (lit ''prepared'') r
          \<and> ef_approval_digest r = Some digest"
        and f = "\<lambda>r. r\<lparr>ef_status := lit ''started'', ef_started_at_ms := cx_now cx\<rparr>"])
      (simp_all add: e)
  ultimately show ?thesis by (blast intro: ledger_move_trans ledger_move_def [THEN iffD2])
qed

lemma commit_prepare_effect_move:
  "commit_prepare_effect L cx key eid digest descriptor canonical policy description cp dr = Inr dr'
     \<Longrightarrow> ledger_move (dr_db dr) (dr_db dr')"
  unfolding commit_prepare_effect_def prepare_ask_def Let_def
  by (auto dest!: insert_effect_move insert_canonical_move insert_permission_move
      intro: ledger_move_trans split: if_splits)

lemma interrupt_waiting_move:
  "interrupt_waiting cx dr = Inr dr' \<Longrightarrow> ledger_move (dr_db dr) (dr_db dr')"
  by (auto simp: interrupt_waiting_def withdraw_permission_move split: option.splits)

lemma interrupt_running_move:
  assumes "interrupt_running cx named dr = Inr dr'"
  shows "ledger_move (dr_db dr) (dr_db dr')"
proof -
  have "ledger_move d (d\<lparr>db_effects := sql_update (effect_of e (ctx_turn cx) (lit ''started''))
      (observe_row (lit ''unknown'') post now) (db_effects d)\<rparr>)" for d e post now
    by (rule observe_move) (simp add: effect_of_def)
  with assms show ?thesis
    by (auto simp: interrupt_running_def Let_def split: option.splits)
qed

lemma commit_interrupt_move:
  "commit_interrupt L cx key eid dr = Inr dr' \<Longrightarrow> ledger_move (dr_db dr) (dr_db dr')"
  by (auto simp: commit_interrupt_def split: if_splits
      dest!: interrupt_waiting_move interrupt_running_move)

text \<open>One lemma for all arms: this is what every caller of the store relies on.\<close>

lemma commit_arm_move:
  assumes "commit_arm L cx u dr = Inr dr'"
  shows "ledger_move (dr_db dr) (dr_db dr')"
proof (cases u)
  case (CuPrepareEffect key eid digest descriptor canonical policy description cp)
  with assms show ?thesis by (simp add: commit_prepare_effect_move)
next
  case (CuStartEffect key eid digest cp)
  with assms show ?thesis by (simp add: commit_start_effect_move)
next
  case (CuObserveEffect key eid digest success result payload cp)
  with assms show ?thesis
    by (auto simp: commit_observe_effect_def started_effect_def effect_of_def split: if_splits
        elim!: settle_effect_move intro: effect_edge.intros)
next
  case (CuUnknownEffect key eid digest cp)
  with assms show ?thesis
    by (auto simp: commit_unknown_effect_def started_effect_def effect_of_def
        elim!: settle_effect_move intro: effect_edge.intros)
next
  case (CuReconcileUnknownEffect key eid cp)
  with assms show ?thesis
    by (auto simp: commit_reconcile_unknown_def effect_of_def
        elim!: settle_effect_move intro: effect_edge.intros)
next
  case (CuResolvePermission key rid allow rebound)
  with assms show ?thesis
    by (auto simp: commit_resolve_permission_def withdraw_permission_move split: if_splits
        dest: allow_permission_move)
next
  case (CuInterrupt key eid)
  with assms show ?thesis
    by (auto dest: commit_interrupt_move)
qed (use assms in \<open>auto simp: commit_start_def commit_append_transcript_def
    commit_request_permission_def commit_request_input_def commit_provide_input_def
    commit_complete_def commit_complete_verified_def complete_with_def commit_fail_def
    split: option.splits if_splits\<close>)

end
