(* ===== verification/Commit_Drafts.thy ===== *)
theory Commit_Drafts
  imports Commit_Ledger
begin

text \<open>
  The turn state and the lifecycle that an arm of \<open>commit_session_turn_update\<close> proposes:
  they agree with each other, the state is well formed and its revision has grown.
\<close>

definition idle_lifecycle :: "rstr \<Rightarrow> bool" where
  "idle_lifecycle l \<longleftrightarrow>
     l \<in> {lit ''ready'', lit ''interrupted'', lit ''failed'', lit ''reconciliation_required''}"

text \<open>The lifecycle of a session whose active turn has the given status.\<close>

definition agrees :: "rstr \<Rightarrow> turn_status \<Rightarrow> bool" where
  "agrees l s \<longleftrightarrow> (l = lit ''running'' \<and> s \<in> {Queued, Running})
     \<or> (l = lit ''waiting_permission'' \<and> s = WaitingPermission)
     \<or> (l = lit ''waiting_input'' \<and> s = WaitingInput)"

lemma agrees_not_idle: "agrees l s \<Longrightarrow> \<not> idle_lifecycle l \<and> \<not> terminal_status s"
  by (auto simp: agrees_def idle_lifecycle_def terminal_status_def)

definition draft_ok :: "turn_state \<Rightarrow> rstr \<Rightarrow> draft \<Rightarrow> bool" where
  "draft_ok current lifecycle dr \<longleftrightarrow>
     (if dr_turn_changed dr
      then ts_turn_id (dr_next dr) = ts_turn_id current \<and> turn_wf (dr_next dr)
        \<and> ts_revision current < ts_revision (dr_next dr)
        \<and> (if dr_terminal dr
           then terminal_status (ts_status (dr_next dr)) \<and> idle_lifecycle (dr_lifecycle dr)
           else agrees (dr_lifecycle dr) (ts_status (dr_next dr)))
      else dr_next dr = current \<and> dr_lifecycle dr = lifecycle \<and> \<not> dr_terminal dr)"

lemma ctx_step_Inr [simp]: "ctx_step cx tr = Inr nxt \<longleftrightarrow> turn_step (cx_current cx) tr = Inr nxt"
  by (simp add: ctx_step_def turn_step_def)

text \<open>An accepted transition, with the status it leads to.\<close>

lemma turn_step_facts:
  assumes "turn_step s tr = Inr t" and "turn_wf s"
  shows "turn_wf t" and "ts_turn_id t = ts_turn_id s" and "ts_revision t = ts_revision s + 1"
  using assms turn_step_wf turn_transition_revision unfolding turn_step_def by blast+

lemma turn_step_status:
  "turn_step s Start = Inr t \<Longrightarrow> ts_status t = Running"
  "turn_step s (RequestPermission p) = Inr t \<Longrightarrow> ts_status t = WaitingPermission"
  "turn_step s (ResolvePermission rid a) = Inr t \<Longrightarrow> ts_status t = (if a then Running else Failed)"
  "turn_step s (RequestInput i) = Inr t \<Longrightarrow> ts_status t = WaitingInput"
  "turn_step s (ProvideInput rid) = Inr t \<Longrightarrow> ts_status t = Running"
  "turn_step s (Fail f) = Inr t \<Longrightarrow> ts_status t = Failed"
  "turn_step s (Complete h pol) = Inr t \<Longrightarrow>
     ts_status t = (if verification_passed pol h then Completed else Failed)"
  "turn_step s Interrupt = Inr t \<Longrightarrow> ts_status t = Interrupted"
  by (auto simp: turn_step_def turn_transition_Inr apply_arm_def split: if_splits option.splits)

lemma cancel_then_interrupt_facts:
  assumes "cancel_then_interrupt cx = Inr nxt" and "turn_wf (cx_current cx)"
  shows "turn_wf nxt" and "ts_turn_id nxt = ts_turn_id (cx_current cx)"
    and "ts_revision nxt = ts_revision (cx_current cx) + 2" and "ts_status nxt = Interrupted"
    and "\<exists>c. turn_transition (cx_current cx) (ts_revision (cx_current cx)) Cancel = Inr c"
proof -
  obtain c where c: "turn_step (cx_current cx) Cancel = Inr c" and n: "turn_step c Interrupt = Inr nxt"
    using assms(1) by (auto simp: cancel_then_interrupt_def turn_step_def)
  note c' = turn_step_facts [OF c assms(2)]
  note n' = turn_step_facts [OF n c'(1)]
  show "turn_wf nxt" "ts_turn_id nxt = ts_turn_id (cx_current cx)"
    "ts_revision nxt = ts_revision (cx_current cx) + 2" "ts_status nxt = Interrupted"
    using c' n' turn_step_status(8) [OF n] by simp_all
  show "\<exists>c. turn_transition (cx_current cx) (ts_revision (cx_current cx)) Cancel = Inr c"
    using c by (auto simp: turn_step_def)
qed

text \<open>Both at once, for an arm that proposes the state \<open>t\<close>.\<close>

lemma turn_step_outcome:
  assumes "turn_step s tr = Inr t" and "turn_wf s"
  shows "turn_wf t \<and> ts_turn_id t = ts_turn_id s \<and> ts_revision s < ts_revision t
    \<and> (case tr of Start \<Rightarrow> ts_status t = Running
        | RequestPermission _ \<Rightarrow> ts_status t = WaitingPermission
        | ResolvePermission _ a \<Rightarrow> ts_status t = (if a then Running else Failed)
        | RequestInput _ \<Rightarrow> ts_status t = WaitingInput
        | ProvideInput _ \<Rightarrow> ts_status t = Running
        | Fail _ \<Rightarrow> ts_status t = Failed
        | Complete h pol \<Rightarrow> ts_status t = (if verification_passed pol h then Completed else Failed)
        | _ \<Rightarrow> True)"
  using turn_step_facts [OF assms] turn_step_status assms(1) by (cases tr) auto

lemmas lifecycle_defs = agrees_def idle_lifecycle_def terminal_status_def

lemma draft_ok_start: "commit_start cx dr = Inr dr' \<Longrightarrow> turn_wf (cx_current cx) \<Longrightarrow> \<not> dr_terminal dr
    \<Longrightarrow> draft_ok (cx_current cx) lc dr'"
  by (auto simp: commit_start_def lifecycle_defs draft_ok_def dest!: turn_step_outcome)

lemma draft_ok_prepare_ask:
  "prepare_ask L cx eid digest description dr = Inr dr' \<Longrightarrow> turn_wf (cx_current cx)
    \<Longrightarrow> \<not> dr_terminal dr \<Longrightarrow> draft_ok (cx_current cx) lc dr' \<and> \<not> dr_terminal dr'"
  by (auto simp: prepare_ask_def Let_def lifecycle_defs draft_ok_def dest!: turn_step_outcome)

lemma draft_ok_frame:
  "draft_ok s lc dr \<Longrightarrow> draft_ok s lc (dr\<lparr>dr_card := a, dr_checkpoint := b\<rparr>)"
  "draft_ok s lc dr \<Longrightarrow> draft_ok s lc (dr\<lparr>dr_card := a\<rparr>)"
  "draft_ok s lc dr \<Longrightarrow> draft_ok s lc (dr\<lparr>dr_db := d\<rparr>)"
  "draft_ok s lc dr \<Longrightarrow> draft_ok s lc (dr\<lparr>dr_db := d, dr_card := a, dr_checkpoint := b\<rparr>)"
  by (simp_all add: draft_ok_def)

lemma draft_ok_initial: "draft_ok s lc (initial_draft d s lc)"
  by (simp add: draft_ok_def initial_draft_def)

lemma draft_ok_resolve:
  "commit_resolve_permission L cx key rid allow rebound dr = Inr dr' \<Longrightarrow> turn_wf (cx_current cx)
     \<Longrightarrow> draft_ok (cx_current cx) lc dr'"
  by (auto simp: commit_resolve_permission_def lifecycle_defs draft_ok_def
      dest!: turn_step_outcome split: if_splits)

lemma draft_ok_complete_with:
  "complete_with L cx key h policy dr = Inr dr' \<Longrightarrow> turn_wf (cx_current cx)
     \<Longrightarrow> draft_ok (cx_current cx) lc dr'"
  by (auto simp: complete_with_def lifecycle_defs draft_ok_def dest!: turn_step_outcome)

lemma draft_ok_fail:
  "commit_fail L cx key f dr = Inr dr' \<Longrightarrow> turn_wf (cx_current cx)
     \<Longrightarrow> draft_ok (cx_current cx) lc dr'"
  by (auto simp: commit_fail_def lifecycle_defs draft_ok_def dest!: turn_step_outcome)

lemma draft_ok_unknown:
  assumes "commit_unknown_effect L cx key eid digest cp dr = Inr dr'" and "turn_wf (cx_current cx)"
  shows "draft_ok (cx_current cx) lc dr'"
proof -
  obtain nxt where n: "cancel_then_interrupt cx = Inr nxt" and "dr_next dr' = nxt"
    "dr_turn_changed dr'" "dr_terminal dr'" "dr_lifecycle dr' = lit ''reconciliation_required''"
    using assms(1) by (auto simp: commit_unknown_effect_def)
  with cancel_then_interrupt_facts [OF n assms(2)] show ?thesis
    by (simp add: draft_ok_def lifecycle_defs)
qed

lemma reconciled_turn_facts:
  assumes "reconciled_turn L cx eid = Inr nxt" and "turn_wf (cx_current cx)"
  shows "turn_wf nxt" and "ts_turn_id nxt = ts_turn_id (cx_current cx)"
    and "ts_revision nxt = ts_revision (cx_current cx) + 1" and "ts_status nxt = Failed"
proof -
  have "turn_wf nxt \<and> ts_turn_id nxt = ts_turn_id (cx_current cx)
    \<and> ts_revision nxt = ts_revision (cx_current cx) + 1 \<and> ts_status nxt = Failed"
  proof (cases "cx_recovered cx")
    case True
    with assms show ?thesis by (auto simp: reconciled_turn_def turn_wf_def split: if_splits)
  next
    case False
    then have step: "turn_step (cx_current cx) (Fail (reconciled_failure L eid)) = Inr nxt"
      using assms(1) by (simp add: reconciled_turn_def)
    from turn_step_facts [OF step assms(2)] turn_step_status(6) [OF step] show ?thesis by simp
  qed
  then show "turn_wf nxt" "ts_turn_id nxt = ts_turn_id (cx_current cx)"
    "ts_revision nxt = ts_revision (cx_current cx) + 1" "ts_status nxt = Failed" by blast+
qed

lemma draft_ok_reconcile:
  assumes "commit_reconcile_unknown L cx key eid cp dr = Inr dr'" and "turn_wf (cx_current cx)"
  shows "draft_ok (cx_current cx) lc dr'"
proof -
  obtain nxt where "reconciled_turn L cx eid = Inr nxt" and "dr_next dr' = nxt"
    "dr_turn_changed dr'" "dr_terminal dr'" "dr_lifecycle dr' = lit ''failed''"
    using assms(1) by (auto simp: commit_reconcile_unknown_def)
  with reconciled_turn_facts [OF this(1) assms(2)] show ?thesis
    by (simp add: draft_ok_def lifecycle_defs)
qed

lemma draft_ok_interrupt:
  assumes "commit_interrupt L cx key eid dr = Inr dr'" and "turn_wf (cx_current cx)"
  shows "draft_ok (cx_current cx) lc dr'"
proof (cases "ts_status (cx_current cx) \<in> {WaitingPermission, WaitingInput}")
  case True
  let ?nxt = "(cx_current cx)\<lparr>ts_revision := Suc (ts_revision (cx_current cx)), ts_status := Failed,
    ts_pending_input := None, ts_pending_permission := None,
    ts_failure := Some cancelled_while_waiting\<rparr>"
  from True have "dr_next dr' = ?nxt \<and> Suc (ts_revision (cx_current cx)) < u64_bound
    \<and> dr_turn_changed dr' \<and> dr_terminal dr' \<and> dr_lifecycle dr' = lit ''failed''"
    using assms(1) unfolding commit_interrupt_def interrupt_waiting_def by fastforce
  moreover have "ts_status (cx_current cx) \<noteq> Completed" using True by auto
  then have "ts_handoff (cx_current cx) = None"
    using assms(2) by (cases "ts_handoff (cx_current cx)") (auto simp: turn_wf_def)
  then have "turn_wf ?nxt" if "Suc (ts_revision (cx_current cx)) < u64_bound"
    using that by (simp add: turn_wf_def)
  ultimately show ?thesis by (simp add: draft_ok_def lifecycle_defs)
next
  case False
  then obtain nxt where n: "cancel_then_interrupt cx = Inr nxt" and "dr_next dr' = nxt"
    "dr_turn_changed dr'" "dr_terminal dr'"
    and l: "dr_lifecycle dr' = lit ''reconciliation_required'' \<or> dr_lifecycle dr' = lit ''interrupted''"
    using assms(1) by (auto simp: commit_interrupt_def interrupt_running_def Let_def)
  with cancel_then_interrupt_facts [OF n assms(2)] show ?thesis
    by (simp add: draft_ok_def lifecycle_defs) blast
qed

lemma draft_ok_prepare:
  assumes "commit_prepare_effect L cx key eid digest descriptor canonical policy description cp dr
      = Inr dr'"
    and "turn_wf (cx_current cx)" and "draft_ok (cx_current cx) lc dr" and "\<not> dr_terminal dr"
  shows "draft_ok (cx_current cx) lc dr'"
proof (cases policy)
  case PolicyAllow
  with assms show ?thesis
    by (auto simp: commit_prepare_effect_def split: if_splits intro: draft_ok_frame)
next
  case PolicyAsk
  with assms(1) obtain d dr1 a b where "prepare_ask L cx eid digest description (dr\<lparr>dr_db := d\<rparr>) = Inr dr1"
    and "dr' = dr1\<lparr>dr_card := a, dr_checkpoint := b\<rparr>"
    by (auto simp: commit_prepare_effect_def split: if_splits)
  with draft_ok_prepare_ask [OF _ assms(2), of L eid digest description "dr\<lparr>dr_db := d\<rparr>" dr1 lc] assms(4)
  show ?thesis by (auto intro: draft_ok_frame)
qed

lemma commit_start_effect_frame:
  "commit_start_effect L cx key eid digest cp dr = Inr dr'
     \<Longrightarrow> \<exists>d a b. dr' = dr\<lparr>dr_db := d, dr_card := a, dr_checkpoint := b\<rparr>"
  unfolding commit_start_effect_def Let_def
  by (fastforce split: option.splits if_splits)

text \<open>The proposal of any arm on the initial draft.\<close>

lemma commit_arm_draft_ok:
  assumes "commit_arm L cx u (initial_draft d (cx_current cx) lc) = Inr dr" and "turn_wf (cx_current cx)"
  shows "draft_ok (cx_current cx) lc dr"
proof -
  let ?dr0 = "initial_draft d (cx_current cx) lc"
  have init: "draft_ok (cx_current cx) lc ?dr0" "\<not> dr_terminal ?dr0"
    by (simp_all add: draft_ok_initial) (simp add: initial_draft_def)
  show ?thesis
  proof (cases u)
    case (CuPrepareEffect key eid digest descriptor canonical policy description cp)
    with assms init show ?thesis by (auto intro: draft_ok_prepare)
  next
    case (CuStartEffect key eid digest cp)
    with assms init show ?thesis
      by (auto dest!: commit_start_effect_frame intro: draft_ok_frame)
  next
    case (CuRequestPermission key req)
    with assms init show ?thesis
      by (auto simp: commit_request_permission_def lifecycle_defs draft_ok_def
          dest!: turn_step_outcome)
  next
    case (CuRequestInput key req)
    with assms init show ?thesis
      by (auto simp: commit_request_input_def lifecycle_defs draft_ok_def
          dest!: turn_step_outcome)
  next
    case (CuProvideInput key rid v)
    with assms init show ?thesis
      by (auto simp: commit_provide_input_def lifecycle_defs draft_ok_def
          dest!: turn_step_outcome)
  next
    case (CuCompleteVerified key summary veid manifest files)
    with assms show ?thesis
      by (auto simp: commit_complete_verified_def split: option.splits if_splits
          intro: draft_ok_complete_with)
  qed (use assms init in \<open>auto simp: commit_append_transcript_def commit_observe_effect_def
      commit_complete_def
      split: if_splits intro: draft_ok_start draft_ok_resolve draft_ok_complete_with draft_ok_fail
        draft_ok_unknown draft_ok_reconcile draft_ok_interrupt draft_ok_frame\<close>)
qed

end
