(* ===== verification/Commit_Effects.thy ===== *)
theory Commit_Effects
  imports Commit_Drafts
begin

text \<open>
  What an accepted \<open>commit_session_turn_update\<close> has done to each table, in one place
  (\<open>committed\<close>), so that the properties of the store need not unfold the transaction.
\<close>

subsection \<open>The row of the turn\<close>

definition row_holds :: "turn_state \<Rightarrow> turn_row \<Rightarrow> bool" where
  "row_holds s r \<longleftrightarrow> tr_turn_id r = ts_turn_id s \<and> tr_state r = s
     \<and> tr_status r = status_name (ts_status s) \<and> tr_revision r = ts_revision s"

lemma row_holds_core:
  "turn_core r = turn_core r' \<Longrightarrow> row_holds s r = row_holds s r'"
  by (simp add: turn_core_def row_holds_def)

definition turns_moved :: "uuid \<Rightarrow> nat \<Rightarrow> turn_state \<Rightarrow> turn_row list \<Rightarrow> turn_row list \<Rightarrow> bool" where
  "turns_moved t n s rows rows' \<longleftrightarrow> (\<exists>f. rows' = map f rows
     \<and> (\<forall>r. tr_turn_id (f r) = tr_turn_id r)
     \<and> (\<forall>r. tr_turn_id r \<noteq> t \<longrightarrow> turn_core (f r) = turn_core r)
     \<and> (\<forall>r. tr_turn_id r = t \<and> tr_revision r = n \<longrightarrow> row_holds s (f r)))"

lemma append_linked_state_turns:
  assumes "append_linked_state eid s last_seq token now d = Inr e"
  shows "\<exists>f. db_turns e = map f (db_turns d) \<and> (\<forall>r. tr_turn_id (f r) = tr_turn_id r)
     \<and> (\<forall>r. tr_turn_id r \<noteq> ts_turn_id s \<longrightarrow> f r = r)
     \<and> (\<forall>r. tr_turn_id r = ts_turn_id s \<and> tr_revision r < ts_revision s \<longrightarrow> row_holds s (f r))"
proof -
  have "db_turns e = map (\<lambda>r. if tr_turn_id r = ts_turn_id s \<and> tr_revision r < ts_revision s
      then r\<lparr>tr_state := s, tr_status := status_name (ts_status s), tr_revision := ts_revision s,
        tr_last_seq := Suc last_seq, tr_lease_token := token, tr_updated_at_ms := now\<rparr> else r)
      (db_turns d)"
    using assms unfolding append_linked_state_def insert_event_def update_read_model_def sql_update_def
    by (auto simp: Let_def)
  then show ?thesis by (intro exI conjI) (assumption | simp add: row_holds_def)+
qed

lemma turns_movedI:
  assumes "rows' = map f rows" and "\<And>r. tr_turn_id (f r) = tr_turn_id r"
    and "\<And>r. tr_turn_id r \<noteq> t \<Longrightarrow> f r = r"
    and "\<And>r. tr_turn_id r = t \<Longrightarrow> tr_revision r = n \<Longrightarrow> row_holds s (f r)"
  shows "turns_moved t n s rows rows'"
  unfolding turns_moved_def by (intro exI [of _ f]) (simp add: assms)

lemma append_linked_turns:
  assumes "append_linked_turn_transition ids current nxt sq l now d = Inr e"
    and "ts_turn_id nxt = ts_turn_id current"
  shows "turns_moved (ts_turn_id current) (ts_revision current) nxt (db_turns d) (db_turns e)"
proof -
  have rev: "ts_revision current < ts_revision nxt" and states: "\<exists>ss. linked_states current nxt = Inr ss
      \<and> append_linked_states ids 0 ss sq (ls_fencing_token l) now d = Inr e"
    using assms(1) by (auto simp: append_linked_turn_transition_def split: if_splits)
  then obtain ss where ss: "linked_states current nxt = Inr ss"
    and e: "append_linked_states ids 0 ss sq (ls_fencing_token l) now d = Inr e" by blast
  consider (one) "ss = [nxt]"
    | (two) c where "ss = [c, nxt]" "ts_turn_id c = ts_turn_id current"
        "ts_revision c = ts_revision current + 1" "ts_revision nxt = ts_revision current + 2"
    using ss by (auto simp: linked_states_def dest: turn_transition_revision split: if_splits)
  then show ?thesis
  proof cases
    case one
    with e have "append_linked_state (ids 0) nxt sq (ls_fencing_token l) now d = Inr e" by simp
    from append_linked_state_turns [OF this] obtain f where f: "db_turns e = map f (db_turns d)"
      "\<forall>r. tr_turn_id (f r) = tr_turn_id r" "\<forall>r. tr_turn_id r \<noteq> ts_turn_id nxt \<longrightarrow> f r = r"
      "\<forall>r. tr_turn_id r = ts_turn_id nxt \<and> tr_revision r < ts_revision nxt \<longrightarrow> row_holds nxt (f r)"
      by blast
    show ?thesis by (rule turns_movedI [OF f(1)]) (use f rev assms(2) in auto)
  next
    case two
    with e obtain d1 where d1: "append_linked_state (ids 0) c sq (ls_fencing_token l) now d = Inr d1"
      and d2: "append_linked_state (ids 1) nxt (Suc sq) (ls_fencing_token l) now d1 = Inr e"
      by auto
    obtain f where f: "db_turns d1 = map f (db_turns d)" "\<And>r. tr_turn_id (f r) = tr_turn_id r"
      "\<And>r. tr_turn_id r \<noteq> ts_turn_id current \<Longrightarrow> f r = r"
      "\<And>r. tr_turn_id r = ts_turn_id current \<Longrightarrow> tr_revision r < ts_revision c \<Longrightarrow> row_holds c (f r)"
      using append_linked_state_turns [OF d1] two(2) by auto
    obtain g where g: "db_turns e = map g (db_turns d1)" "\<And>r. tr_turn_id (g r) = tr_turn_id r"
      "\<And>r. tr_turn_id r \<noteq> ts_turn_id current \<Longrightarrow> g r = r"
      "\<And>r. tr_turn_id r = ts_turn_id current \<Longrightarrow> tr_revision r < ts_revision nxt \<Longrightarrow> row_holds nxt (g r)"
      using append_linked_state_turns [OF d2] assms(2) by auto
    have "row_holds nxt (g (f r))" if "tr_turn_id r = ts_turn_id current" "tr_revision r = ts_revision current" for r
      using f(4) [of r] g(4) [of "f r"] f(2) [of r] that two(3,4) by (simp add: row_holds_def)
    then show ?thesis
      by (intro turns_movedI [where f = "g \<circ> f"]) (simp_all add: f g)
  qed
qed

lemma turns_moved_core:
  assumes "map turn_core rows1 = map turn_core rows" and "turns_moved t n s rows1 rows'"
  shows "length rows' = length rows"
    and "\<And>i. i < length rows \<Longrightarrow> tr_turn_id (rows' ! i) = tr_turn_id (rows ! i)"
    and "\<And>i. i < length rows \<Longrightarrow> tr_turn_id (rows ! i) \<noteq> t \<Longrightarrow> turn_core (rows' ! i) = turn_core (rows ! i)"
    and "\<And>i. i < length rows \<Longrightarrow> tr_turn_id (rows ! i) = t \<Longrightarrow> tr_revision (rows ! i) = n \<Longrightarrow>
      row_holds s (rows' ! i)"
proof -
  obtain f where f: "rows' = map f rows1" "\<And>r. tr_turn_id (f r) = tr_turn_id r"
    "\<And>r. tr_turn_id r \<noteq> t \<Longrightarrow> turn_core (f r) = turn_core r"
    "\<And>r. tr_turn_id r = t \<Longrightarrow> tr_revision r = n \<Longrightarrow> row_holds s (f r)"
    using assms(2) by (auto simp: turns_moved_def)
  have len: "length rows1 = length rows" using assms(1) by (metis length_map)
  have core: "turn_core (rows1 ! i) = turn_core (rows ! i)" if "i < length rows" for i
    using assms(1) that len by (metis nth_map)
  show "length rows' = length rows" using f(1) len by simp
  fix i assume i: "i < length rows"
  show "tr_turn_id (rows' ! i) = tr_turn_id (rows ! i)"
    using core [OF i] i len f(1,2) by (simp add: turn_core_def)
  show "turn_core (rows' ! i) = turn_core (rows ! i)" if "tr_turn_id (rows ! i) \<noteq> t"
    using core [OF i] i len f(1,3) that by (simp add: turn_core_def)
  show "row_holds s (rows' ! i)" if "tr_turn_id (rows ! i) = t" "tr_revision (rows ! i) = n"
    using core [OF i] i len f(1,4) that by (simp add: turn_core_def)
qed

subsection \<open>The other tables\<close>

definition card_entry :: "uuid \<Rightarrow> nat \<Rightarrow> uuid \<Rightarrow> nat \<Rightarrow> transcript_kind \<times> rstr \<times> json option \<times> rstr
    \<Rightarrow> transcript_entry" where
  "card_entry eid seq t now c = (case c of (kind, text, payload, key) \<Rightarrow>
     \<lparr>te_entry_id = eid, te_sequence = seq, te_turn_id = Some t, te_kind = kind, te_text = text,
      te_payload = payload, te_source_key = key, te_created_at_ms = now\<rparr>)"

definition turn_link :: "session_turn_row \<Rightarrow> uuid \<times> uuid \<times> uuid option \<times> nat" where
  "turn_link r = (st_turn_id r, st_session_id r, st_parent_turn_id r, st_ordinal r)"

text \<open>The accepted commit of request \<open>rq\<close> on database \<open>d\<close>, with the draft \<open>dr\<close> of its arm.\<close>

record commit_trace =
  ct_session :: session_row
  ct_turn :: turn_row
  ct_recovered :: bool
  ct_draft :: draft
  ct_event :: session_event_envelope
  ct_card :: "outbox_row list"

definition trace_ctx :: "session_commit_request \<Rightarrow> lease \<Rightarrow> nat \<Rightarrow> commit_trace \<Rightarrow> commit_ctx" where
  "trace_ctx rq l now ct = \<lparr>cx_request = rq, cx_lease = l, cx_now = now,
     cx_current = tr_state (ct_turn ct), cx_recovered = ct_recovered ct\<rparr>"

definition passed_gate ::
  "lib \<Rightarrow> db \<Rightarrow> session_commit_request \<Rightarrow> lease \<Rightarrow> nat \<Rightarrow> commit_trace \<Rightarrow> bool" where
  "passed_gate L d rq l now ct \<longleftrightarrow>
     lease_live d (session_lease_scope L (rq_session_id rq)) (ls_owner l) (ls_fencing_token l) now
   \<and> find_session d (rq_session_id rq) = Some (ct_session ct)
   \<and> sr_revision (ct_session ct) = rq_expected_session_revision rq
   \<and> active_gate d rq l (ct_session ct) = Inr (ct_recovered ct)
   \<and> find_turn d (rq_turn_id rq) = Some (ct_turn ct)
   \<and> tr_lease_token (ct_turn ct) \<le> ls_fencing_token l
   \<and> ts_revision (tr_state (ct_turn ct)) = rq_expected_turn_revision rq
   \<and> now < i64_bound"

lemma commit_gate_Inr:
  "commit_gate L d rq l now = Inr (s, t, recovered) \<Longrightarrow>
     passed_gate L d rq l now \<lparr>ct_session = s, ct_turn = t, ct_recovered = recovered,
       ct_draft = dr, ct_event = ev, ct_card = c\<rparr>"
  by (auto simp: commit_gate_def require_live_lease_def passed_gate_def)

definition moved_session :: "session_commit_request \<Rightarrow> nat \<Rightarrow> commit_trace \<Rightarrow> session_row \<Rightarrow> session_row" where
  "moved_session rq now ct r = r\<lparr>sr_revision := sr_revision (ct_session ct) + 1,
     sr_last_seq := sr_last_seq (ct_session ct) + 1, sr_lifecycle := dr_lifecycle (ct_draft ct),
     sr_latest_turn_id := Some (rq_turn_id rq), sr_updated_at_ms := now\<rparr>"

text \<open>
  The update of the session row is an update of a keyed table: \<open>UPDATE sessions\<close> never
  assigns \<open>session_id\<close>.
\<close>

interpretation moved_rows: keyed_table sr_session_id "moved_session rq now ct" for rq now ct
  by unfold_locales (simp add: moved_session_def)

definition held_row :: "lib \<Rightarrow> session_commit_request \<Rightarrow> lease \<Rightarrow> nat \<Rightarrow> lease_row \<Rightarrow> bool" where
  "held_row L rq l now r \<longleftrightarrow> holds_row (session_lease_scope L (rq_session_id rq)) (ls_owner l)
     (ls_fencing_token l) r \<and> lr_expires_at_ms r > now"

definition own_active :: "session_commit_request \<Rightarrow> active_row \<Rightarrow> bool" where
  "own_active rq r \<longleftrightarrow> ar_session_id r = rq_session_id rq \<and> ar_turn_id r = rq_turn_id rq"

definition committed_tables ::
  "lib \<Rightarrow> db \<Rightarrow> session_commit_request \<Rightarrow> lease \<Rightarrow> nat \<Rightarrow> commit_trace \<Rightarrow> db \<Rightarrow> bool" where
  "committed_tables L d rq l now ct e \<longleftrightarrow>
     db_sessions e = sql_update (\<lambda>r. sr_session_id r = rq_session_id rq)
       (moved_session rq now ct) (db_sessions d)
   \<and> db_active e = (if dr_terminal (ct_draft ct) then sql_delete (own_active rq) (db_active d)
       else sql_update (own_active rq) (\<lambda>r. r\<lparr>ar_lease_token := ls_fencing_token l\<rparr>) (db_active d))
   \<and> db_leases e = (if dr_terminal (ct_draft ct)
       then sql_update (held_row L rq l now) (\<lambda>r. r\<lparr>lr_expires_at_ms := 0\<rparr>) (db_leases d)
       else db_leases d)
   \<and> db_lease_epoch e = db_lease_epoch d
   \<and> db_effects e = db_effects (dr_db (ct_draft ct))
   \<and> db_permissions e = db_permissions (dr_db (ct_draft ct))
   \<and> db_evidence e = db_evidence d
   \<and> db_outbox e = db_outbox d @ ct_card ct
   \<and> db_session_events e = db_session_events d @ [session_event_row (ct_event ct) now]
   \<and> (if dr_turn_changed (ct_draft ct)
      then turns_moved (rq_turn_id rq) (ts_revision (tr_state (ct_turn ct))) (dr_next (ct_draft ct))
        (db_turns (dr_db (ct_draft ct))) (db_turns e)
      else map turn_core (db_turns e) = map turn_core (db_turns d))
   \<and> map turn_link (db_session_turns e) = map turn_link (db_session_turns d)
   \<and> (dr_terminal (ct_draft ct) \<longrightarrow> (\<forall>r \<in> set (db_session_turns e).
        st_turn_id r = rq_turn_id rq \<longrightarrow> st_completed_at_ms r = Some now))"

definition committed_records ::
  "lib \<Rightarrow> db \<Rightarrow> session_commit_request \<Rightarrow> nat \<Rightarrow> db \<Rightarrow> session_commit_response \<Rightarrow> bool" where
  "committed_records L d rq now e resp \<longleftrightarrow>
     db_dedup e = db_dedup d @ [\<lparr>dd_command_id = rq_command_id rq,
        dd_digest = session_command_digest L rq, dd_result = DrCommit resp,
        dd_created_at_ms = now\<rparr>]
   \<and> db_sources e = db_sources d @ [\<lparr>cs_session_id = rq_session_id rq,
        cs_source_key = source_key (rq_update rq), cs_digest = session_command_digest L rq,
        cs_result = resp\<rparr>]"

definition committed_card :: "(nat \<Rightarrow> uuid) \<Rightarrow> session_commit_request \<Rightarrow> nat \<Rightarrow> commit_trace \<Rightarrow> bool" where
  "committed_card ids rq now ct \<longleftrightarrow> ct_card ct = (case dr_card (ct_draft ct) of
     None \<Rightarrow> []
   | Some c \<Rightarrow> [outbox_row_of (rq_session_id rq)
       (card_entry (ids 2) (sr_last_seq (ct_session ct) + 1) (rq_turn_id rq) now c)])"

definition committed_event :: "session_commit_request \<Rightarrow> commit_trace \<Rightarrow> session_commit_response \<Rightarrow> bool" where
  "committed_event rq ct resp \<longleftrightarrow>
     se_session_id (ct_event ct) = rq_session_id rq
   \<and> se_revision (ct_event ct) = sr_revision (ct_session ct) + 1
   \<and> se_sequence (ct_event ct) = sr_last_seq (ct_session ct) + 1
   \<and> se_sequence (ct_event ct) < i64_bound
   \<and> rs_session_event resp = \<lparr>ss_sequence = se_sequence (ct_event ct), ss_envelope = ct_event ct\<rparr>"

lemma finish_turn_frame:
  assumes "finish_turn ids cx n dr = Inr d1" and "ts_turn_id (dr_next dr) = ts_turn_id (cx_current cx)"
  shows "same_but_turns (dr_db dr) d1"
    and "if dr_turn_changed dr
      then turns_moved (ts_turn_id (cx_current cx)) (ts_revision (cx_current cx)) (dr_next dr)
        (db_turns (dr_db dr)) (db_turns d1)
      else map turn_core (db_turns d1) = map turn_core (db_turns (dr_db dr))"
proof -
  have "\<not> dr_turn_changed dr \<Longrightarrow> same_but_turns (dr_db dr) d1
    \<and> map turn_core (db_turns d1) = map turn_core (db_turns (dr_db dr))"
    using assms(1)
    by (auto simp: finish_turn_def Let_def same_but_turns_def sql_update_def turn_core_def
        split: if_splits)
  moreover have "dr_turn_changed dr \<Longrightarrow>
      append_linked_turn_transition ids (cx_current cx) (dr_next dr) n (cx_lease cx) (cx_now cx)
        (dr_db dr) = Inr d1"
    using assms(1) by (simp add: finish_turn_def)
  note this [THEN append_linked_frame] this [THEN append_linked_turns [OF _ assms(2)]]
  ultimately show "same_but_turns (dr_db dr) d1"
    "if dr_turn_changed dr
      then turns_moved (ts_turn_id (cx_current cx)) (ts_revision (cx_current cx)) (dr_next dr)
        (db_turns (dr_db dr)) (db_turns d1)
      else map turn_core (db_turns d1) = map turn_core (db_turns (dr_db dr))"
    by (cases "dr_turn_changed dr"; simp)+
qed

lemma finish_checkpoint_frame:
  "\<exists>c. finish_checkpoint cx dr d = d\<lparr>db_checkpoints := c\<rparr>"
  by (cases "dr_checkpoint dr")
    (auto simp: finish_checkpoint_def upsert_checkpoint_def intro: exI [of _ "db_checkpoints d"])

lemma finish_card_Inr:
  assumes "finish_card ids cx seq dr d = Inr (e, transcript)"
  shows "\<exists>sts. e = d\<lparr>db_outbox := db_outbox d @ (case dr_card dr of None \<Rightarrow> []
        | Some c \<Rightarrow> [outbox_row_of (rq_session_id (cx_request cx))
            (card_entry (ids 2) seq (ctx_turn cx) (cx_now cx) c)]), db_session_turns := sts\<rparr>
      \<and> map turn_link sts = map turn_link (db_session_turns d)"
    and "transcript = map_option (card_entry (ids 2) seq (ctx_turn cx) (cx_now cx)) (dr_card dr)"
  using assms
  by (auto simp: finish_card_def card_entry_def insert_outbox_def Let_def sql_update_def
      turn_link_def split: option.splits prod.splits if_splits
      intro: exI [of _ "db_session_turns d"])

lemma finish_active_Inr:
  assumes "finish_active L cx dr d = Inr e"
  shows "e = d\<lparr>
      db_active := (if dr_terminal dr then sql_delete (own_active (cx_request cx)) (db_active d)
        else sql_update (own_active (cx_request cx))
          (\<lambda>r. r\<lparr>ar_lease_token := ls_fencing_token (cx_lease cx)\<rparr>) (db_active d)),
      db_leases := (if dr_terminal dr
        then sql_update (held_row L (cx_request cx) (cx_lease cx) (cx_now cx))
          (\<lambda>r. r\<lparr>lr_expires_at_ms := 0\<rparr>) (db_leases d)
        else db_leases d),
      db_session_turns := db_session_turns e\<rparr>
    \<and> map turn_link (db_session_turns e) = map turn_link (db_session_turns d)
    \<and> (dr_terminal dr \<longrightarrow> (\<forall>r \<in> set (db_session_turns e). st_turn_id r = ctx_turn cx \<longrightarrow>
         st_completed_at_ms r = Some (cx_now cx)))"
  using assms
  by (auto simp: finish_active_def finish_terminal_def own_active_def [abs_def]
      held_row_def [abs_def] Let_def set_sql_update split: if_splits)
    (simp add: sql_update_def turn_link_def)

text \<open>Everything an accepted commit wrote.\<close>

lemma commit_finish_Inr:
  assumes "commit_finish L ids cx s t dr = Inr (e, resp)"
    and "ts_turn_id (dr_next dr) = ts_turn_id (cx_current cx)"
    and "ledger_only d (dr_db dr)" and "cx_current cx = tr_state t"
    and "ts_turn_id (tr_state t) = ctx_turn cx"
  obtains ev card where
    "committed_tables L d (cx_request cx) (cx_lease cx) (cx_now cx)
       \<lparr>ct_session = s, ct_turn = t, ct_recovered = r, ct_draft = dr, ct_event = ev,
        ct_card = card\<rparr> e"
    "committed_records L d (cx_request cx) (cx_now cx) e resp"
    "committed_card ids (cx_request cx) (cx_now cx)
       \<lparr>ct_session = s, ct_turn = t, ct_recovered = r, ct_draft = dr, ct_event = ev,
        ct_card = card\<rparr>"
    "committed_event (cx_request cx)
       \<lparr>ct_session = s, ct_turn = t, ct_recovered = r, ct_draft = dr, ct_event = ev,
        ct_card = card\<rparr> resp"
proof -
  let ?rq = "cx_request cx"
  let ?seq = "sr_last_seq s + 1"
  obtain d1 d2 d3 d4 d5 transcript ev0 where
    d1: "finish_turn ids cx (tr_last_seq t) dr = Inr d1"
    and d2: "finish_card ids cx ?seq dr (finish_checkpoint cx dr d1) = Inr (d2, transcript)"
    and d3: "finish_active L cx dr d2 = Inr d3"
    and d4: "finish_session cx (sr_revision s + 1) ?seq dr d3 = Inr d4"
    and d5: "insert_session_event (session_event_row (session_envelope (ids 3) (rq_session_id ?rq)
        (sr_revision s + 1) ?seq ev0) (cx_now cx)) d4 = Inr d5"
    and d6: "commit_record L ?rq (cx_now cx) (session_envelope (ids 3) (rq_session_id ?rq)
        (sr_revision s + 1) ?seq ev0) d5 = Inr (e, resp)"
    using assms(1) by (auto simp: commit_finish_def Let_def split: prod.splits)
  let ?ev = "session_envelope (ids 3) (rq_session_id ?rq) (sr_revision s + 1) ?seq ev0"
  let ?card = "case dr_card dr of None \<Rightarrow> []
      | Some c \<Rightarrow> [outbox_row_of (rq_session_id ?rq) (card_entry (ids 2) ?seq (ctx_turn cx) (cx_now cx) c)]"
  note t1 = finish_turn_frame [OF d1 assms(2)]
  obtain c where c: "finish_checkpoint cx dr d1 = d1\<lparr>db_checkpoints := c\<rparr>"
    using finish_checkpoint_frame by blast
  obtain sts where t2: "d2 = d1\<lparr>db_checkpoints := c, db_outbox := db_outbox d1 @ ?card,
      db_session_turns := sts\<rparr>" "map turn_link sts = map turn_link (db_session_turns d1)"
    using finish_card_Inr(1) [OF d2] c by auto
  obtain sts' where t3: "d3 = d2\<lparr>
      db_active := (if dr_terminal dr then sql_delete (own_active ?rq) (db_active d2)
        else sql_update (own_active ?rq)
          (\<lambda>r. r\<lparr>ar_lease_token := ls_fencing_token (cx_lease cx)\<rparr>) (db_active d2)),
      db_leases := (if dr_terminal dr
        then sql_update (held_row L ?rq (cx_lease cx) (cx_now cx))
          (\<lambda>r. r\<lparr>lr_expires_at_ms := 0\<rparr>) (db_leases d2)
        else db_leases d2),
      db_session_turns := sts'\<rparr>" "map turn_link sts' = map turn_link (db_session_turns d2)"
    and stamped: "dr_terminal dr \<longrightarrow> (\<forall>r \<in> set sts'. st_turn_id r = ctx_turn cx \<longrightarrow>
      st_completed_at_ms r = Some (cx_now cx))"
    using finish_active_Inr [OF d3] that by blast
  have seq: "?seq < i64_bound" and t4: "d4 = d3\<lparr>db_sessions := sql_update
      (\<lambda>r. sr_session_id r = rq_session_id ?rq)
      (moved_session ?rq (cx_now cx) \<lparr>ct_session = s, ct_turn = t, ct_recovered = r, ct_draft = dr,
         ct_event = ?ev, ct_card = ?card\<rparr>) (db_sessions d3)\<rparr>"
    using d4 by (auto simp: finish_session_def moved_session_def [abs_def])
  have t5: "d5 = d4\<lparr>db_session_events := db_session_events d4 @ [session_event_row ?ev (cx_now cx)]\<rparr>"
    using d5 by (auto simp: insert_session_event_def)
  have t6: "e = d5\<lparr>db_dedup := db_dedup d5 @ [\<lparr>dd_command_id = rq_command_id ?rq,
        dd_digest = session_command_digest L ?rq, dd_result = DrCommit resp,
        dd_created_at_ms = cx_now cx\<rparr>],
      db_sources := db_sources d5 @ [\<lparr>cs_session_id = rq_session_id ?rq,
        cs_source_key = source_key (rq_update ?rq), cs_digest = session_command_digest L ?rq,
        cs_result = resp\<rparr>]\<rparr>"
    and ev: "rs_session_event resp = \<lparr>ss_sequence = se_sequence ?ev, ss_envelope = ?ev\<rparr>"
    using d6 by (auto simp: commit_record_def insert_dedup_def insert_source_def Let_def)
  note base = assms(3) [unfolded ledger_only_def] t1(1) [unfolded same_but_turns_def]
  show thesis
  proof (rule that)
    show "committed_tables L d ?rq (cx_lease cx) (cx_now cx)
       \<lparr>ct_session = s, ct_turn = t, ct_recovered = r, ct_draft = dr, ct_event = ?ev,
        ct_card = ?card\<rparr> e"
      using base t1(2) t2 t3 stamped unfolding t6 t5 t4 assms(4)
      by (simp add: committed_tables_def assms(5) split: if_splits)
    show "committed_records L d ?rq (cx_now cx) e resp"
      using base unfolding t6 t5 t4 t3(1) t2(1) by (simp add: committed_records_def)
    show "committed_card ids ?rq (cx_now cx) \<lparr>ct_session = s, ct_turn = t, ct_recovered = r,
        ct_draft = dr, ct_event = ?ev, ct_card = ?card\<rparr>"
      by (simp add: committed_card_def split: option.split)
    show "committed_event ?rq \<lparr>ct_session = s, ct_turn = t, ct_recovered = r,
        ct_draft = dr, ct_event = ?ev, ct_card = ?card\<rparr> resp"
      using seq ev by (simp add: committed_event_def session_envelope_def)
  qed
qed

text \<open>The whole transaction, for a turn row that agrees with its state.\<close>

definition turn_row_ok :: "turn_row \<Rightarrow> bool" where
  "turn_row_ok r \<longleftrightarrow> row_holds (tr_state r) r \<and> turn_wf (tr_state r)"

lemma find_turn_Some:
  "find_turn d t = Some r \<Longrightarrow> r \<in> set (db_turns d) \<and> tr_turn_id r = t"
  by (auto simp: find_turn_def dest: find_Some_in)

lemma find_session_Some:
  "find_session d sid = Some r \<Longrightarrow> r \<in> set (db_sessions d) \<and> sr_session_id r = sid"
  by (auto simp: find_session_def dest: find_Some_in)

lemma commit_fresh_Inr:
  assumes "commit_fresh L ids d rq l now = Inr (e, resp)" and "\<forall>r \<in> set (db_turns d). turn_row_ok r"
  obtains ct where "passed_gate L d rq l now ct"
    "commit_arm L (trace_ctx rq l now ct) (rq_update rq)
       (initial_draft d (tr_state (ct_turn ct)) (sr_lifecycle (ct_session ct))) = Inr (ct_draft ct)"
    "draft_ok (tr_state (ct_turn ct)) (sr_lifecycle (ct_session ct)) (ct_draft ct)"
    "ledger_move d (dr_db (ct_draft ct))"
    "committed_tables L d rq l now ct e" "committed_records L d rq now e resp"
    "committed_card ids rq now ct" "committed_event rq ct resp"
proof -
  obtain s t recovered dr where
    gate: "commit_gate L d rq l now = Inr (s, t, recovered)"
    and arm: "commit_arm L \<lparr>cx_request = rq, cx_lease = l, cx_now = now, cx_current = tr_state t,
        cx_recovered = recovered\<rparr> (rq_update rq) (initial_draft d (tr_state t) (sr_lifecycle s)) = Inr dr"
    and fin: "commit_finish L ids \<lparr>cx_request = rq, cx_lease = l, cx_now = now,
        cx_current = tr_state t, cx_recovered = recovered\<rparr> s t dr = Inr (e, resp)"
    using assms(1) by (auto simp: commit_fresh_def Let_def split: prod.splits)
  let ?cx = "\<lparr>cx_request = rq, cx_lease = l, cx_now = now, cx_current = tr_state t,
      cx_recovered = recovered\<rparr>"
  have t: "find_turn d (rq_turn_id rq) = Some t"
    using commit_gate_Inr [OF gate] by (simp add: passed_gate_def)
  then have wf: "turn_wf (tr_state t)" and tid: "ts_turn_id (tr_state t) = rq_turn_id rq"
    using assms(2) by (auto dest!: find_turn_Some simp: turn_row_ok_def row_holds_def)
  have ok: "draft_ok (tr_state t) (sr_lifecycle s) dr"
    using commit_arm_draft_ok [of L ?cx "rq_update rq" d "sr_lifecycle s" dr] arm wf by simp
  have mv: "ledger_move d (dr_db dr)"
    using commit_arm_move [OF arm] by (simp add: initial_draft_def)
  have nid: "ts_turn_id (dr_next dr) = ts_turn_id (cx_current ?cx)"
    using ok by (auto simp: draft_ok_def split: if_splits)
  have lo: "ledger_only d (dr_db dr)" using mv by (simp add: ledger_move_def)
  obtain ev card where facts: "committed_tables L d (cx_request ?cx) (cx_lease ?cx) (cx_now ?cx)
       \<lparr>ct_session = s, ct_turn = t, ct_recovered = recovered, ct_draft = dr, ct_event = ev,
        ct_card = card\<rparr> e"
    "committed_records L d (cx_request ?cx) (cx_now ?cx) e resp"
    "committed_card ids (cx_request ?cx) (cx_now ?cx)
       \<lparr>ct_session = s, ct_turn = t, ct_recovered = recovered, ct_draft = dr, ct_event = ev,
        ct_card = card\<rparr>"
    "committed_event (cx_request ?cx)
       \<lparr>ct_session = s, ct_turn = t, ct_recovered = recovered, ct_draft = dr, ct_event = ev,
        ct_card = card\<rparr> resp"
    by (rule commit_finish_Inr [OF fin nid lo, where r = recovered]) (use tid in simp_all)
  show thesis
    by (rule that [of "\<lparr>ct_session = s, ct_turn = t, ct_recovered = recovered, ct_draft = dr,
        ct_event = ev, ct_card = card\<rparr>"])
      (use commit_gate_Inr [OF gate] arm ok mv facts in \<open>simp_all add: trace_ctx_def\<close>)
qed

end
