(* ===== verification/Session_Store.thy ===== *)
theory Session_Store
  imports Commit_Effects
begin

text \<open>
  The invariant of the session tables (\<open>store_ok\<close>) and its preservation by
  \<open>commit_session_turn_update\<close>: the lifecycle a client sees agrees with the state of
  the active turn, a turn belongs to one session, and sequences stay below the
  session's counter.
\<close>

subsection \<open>The invariant\<close>

definition linked :: "db \<Rightarrow> uuid \<Rightarrow> uuid \<Rightarrow> bool" where
  "linked d t sid \<longleftrightarrow> (\<exists>r \<in> set (db_session_turns d). st_turn_id r = t \<and> st_session_id r = sid)"

definition turn_state_of :: "db \<Rightarrow> uuid \<Rightarrow> turn_state option" where
  "turn_state_of d t = map_option tr_state (find_turn d t)"

text \<open>With no active turn a session is at rest; with one, its lifecycle is that turn's.\<close>

definition session_ok :: "db \<Rightarrow> session_row \<Rightarrow> bool" where
  "session_ok d s \<longleftrightarrow> (case active_turn d (sr_session_id s) of
       None \<Rightarrow> idle_lifecycle (sr_lifecycle s)
     | Some a \<Rightarrow> sr_latest_turn_id s = Some (ar_turn_id a)
         \<and> (\<exists>t. turn_state_of d (ar_turn_id a) = Some t \<and> agrees (sr_lifecycle s) (ts_status t)))
   \<and> (\<forall>t. sr_latest_turn_id s = Some t \<longrightarrow> linked d t (sr_session_id s))"

definition sequences_ok :: "db \<Rightarrow> bool" where
  "sequences_ok d \<longleftrightarrow> (\<forall>s \<in> set (db_sessions d).
     (\<forall>r \<in> set (db_outbox d). ob_session_id r = sr_session_id s \<longrightarrow> ob_seq r \<le> sr_last_seq s)
   \<and> (\<forall>r \<in> set (db_session_events d). sv_session_id r = sr_session_id s \<longrightarrow> sv_seq r \<le> sr_last_seq s))"

definition keys_ok :: "db \<Rightarrow> bool" where
  "keys_ok d \<longleftrightarrow> distinct (map sr_session_id (db_sessions d))
     \<and> distinct (map tr_turn_id (db_turns d))
     \<and> distinct (map ar_session_id (db_active d)) \<and> distinct (map ar_turn_id (db_active d))
     \<and> distinct (map st_turn_id (db_session_turns d))"

text \<open>The foreign keys of the outbox, the session events and the active rows.\<close>

definition owned_ok :: "db \<Rightarrow> bool" where
  "owned_ok d \<longleftrightarrow> (let ids = sr_session_id ` set (db_sessions d) in
     ob_session_id ` set (db_outbox d) \<subseteq> ids \<and> sv_session_id ` set (db_session_events d) \<subseteq> ids
   \<and> ar_session_id ` set (db_active d) \<subseteq> ids)"

definition store_ok :: "db \<Rightarrow> bool" where
  "store_ok d \<longleftrightarrow> keys_ok d \<and> effects_keyed d \<and> leases_ok d \<and> outbox_consistent d \<and> sequences_ok d
     \<and> owned_ok d
     \<and> (\<forall>r \<in> set (db_turns d). turn_row_ok r)
     \<and> (\<forall>s \<in> set (db_sessions d). session_ok d s)
     \<and> (\<forall>a \<in> set (db_active d). linked d (ar_turn_id a) (ar_session_id a))"

lemma store_ok_empty: "store_ok empty_db"
  by (simp add: store_ok_def empty_db_def keys_ok_def effects_keyed_def leases_ok_def
      outbox_consistent_def sequences_ok_def owned_ok_def)

subsection \<open>Turns after a commit\<close>

lemma find_core:
  "find (\<lambda>c. fst c = t) (map turn_core rows)
     = map_option turn_core (find (\<lambda>r. tr_turn_id r = t) rows)"
  by (induction rows) (auto simp: turn_core_def)

lemma same_core_find:
  assumes "map turn_core rows' = map turn_core rows"
  shows "map_option turn_core (find (\<lambda>r. tr_turn_id r = t) rows')
    = map_option turn_core (find (\<lambda>r. tr_turn_id r = t) rows)"
  using assms find_core by metis

lemma same_core_state:
  assumes "map turn_core (db_turns e) = map turn_core (db_turns d)"
  shows "turn_state_of e t = turn_state_of d t"
proof -
  have st: "turn_state_of x t = map_option (fst \<circ> snd) (map_option turn_core
      (find (\<lambda>r. tr_turn_id r = t) (db_turns x)))" for x
    by (cases "find (\<lambda>r. tr_turn_id r = t) (db_turns x)")
      (simp_all add: turn_state_of_def find_turn_def turn_core_def)
  show ?thesis unfolding st same_core_find [OF assms] ..
qed

lemma same_core_ok:
  assumes "map turn_core rows' = map turn_core rows" and "\<forall>r \<in> set rows. turn_row_ok r"
  shows "\<forall>r \<in> set rows'. turn_row_ok r"
proof
  fix r assume "r \<in> set rows'"
  then have "turn_core r \<in> set (map turn_core rows)" unfolding assms(1) [symmetric] by simp
  then obtain r0 where "r0 \<in> set rows" "turn_core r = turn_core r0" by auto
  with assms(2) row_holds_core [of r r0] show "turn_row_ok r"
    by (auto simp: turn_row_ok_def turn_core_def)
qed

lemma same_core_ids:
  "map turn_core rows' = map turn_core rows \<Longrightarrow> map tr_turn_id rows' = map tr_turn_id rows"
proof -
  assume *: "map turn_core rows' = map turn_core rows"
  have "map tr_turn_id xs = map fst (map turn_core xs)" for xs
    by (simp add: turn_core_def comp_def)
  with * show ?thesis by metis
qed

lemma turns_moved_facts:
  assumes "map turn_core rows1 = map turn_core (db_turns d)" and "turns_moved t n nxt rows1 (db_turns e)"
    and "distinct (map tr_turn_id (db_turns d))" and "\<forall>r \<in> set (db_turns d). turn_row_ok r"
    and "find_turn d t = Some r0" and "n = ts_revision (tr_state r0)"
    and "ts_turn_id nxt = t" and "turn_wf nxt"
  shows "map tr_turn_id (db_turns e) = map tr_turn_id (db_turns d)"
    and "\<forall>r \<in> set (db_turns e). turn_row_ok r"
    and "turn_state_of e u = (if u = t then Some nxt else turn_state_of d u)"
proof -
  obtain f where f: "db_turns e = map f rows1" "\<And>r. tr_turn_id (f r) = tr_turn_id r"
    "\<And>r. tr_turn_id r \<noteq> t \<Longrightarrow> turn_core (f r) = turn_core r"
    "\<And>r. tr_turn_id r = t \<Longrightarrow> tr_revision r = n \<Longrightarrow> row_holds nxt (f r)"
    using assms(2) by (auto simp: turns_moved_def)
  note ids1 = same_core_ids [OF assms(1)] and ok1 = same_core_ok [OF assms(1,4)]
  show ids: "map tr_turn_id (db_turns e) = map tr_turn_id (db_turns d)"
    unfolding f(1) ids1 [symmetric] by (simp add: f(2) comp_def)
  have core0: "map_option turn_core (find (\<lambda>r. tr_turn_id r = t) rows1) = Some (turn_core r0)"
    using same_core_find [OF assms(1), of t] assms(5) by (simp add: find_turn_def)
  then obtain r1 where r1: "find (\<lambda>r. tr_turn_id r = t) rows1 = Some r1" "turn_core r1 = turn_core r0"
    by auto
  have "tr_revision r0 = n"
    using assms(4,5,6) by (auto dest!: find_turn_Some simp: turn_row_ok_def row_holds_def)
  then have rev1: "tr_revision r1 = n" using r1(2) by (simp add: turn_core_def)
  have only: "r = r1" if "r \<in> set rows1" "tr_turn_id r = t" for r
  proof -
    have "distinct (map tr_turn_id rows1)" using assms(3) ids1 by simp
    from find_by_key [OF this that(1)] that(2) r1(1) show ?thesis by simp
  qed
  show "\<forall>r \<in> set (db_turns e). turn_row_ok r"
  proof
    fix r' assume "r' \<in> set (db_turns e)"
    then obtain r where r: "r \<in> set rows1" "r' = f r" unfolding f(1) by auto
    show "turn_row_ok r'"
    proof (cases "tr_turn_id r = t")
      case True
      with only [OF r(1)] rev1 f(4) [of r] r(2) assms(8) show ?thesis
        by (auto simp: turn_row_ok_def row_holds_def)
    next
      case False
      with f(3) [OF this] ok1 r row_holds_core [of r' r] show ?thesis
        by (auto simp: turn_row_ok_def turn_core_def)
    qed
  qed
  have find: "find_turn e u = map_option f (find (\<lambda>r. tr_turn_id r = u) rows1)"
    unfolding find_turn_def f(1) find_map by (simp add: f(2))
  show "turn_state_of e u = (if u = t then Some nxt else turn_state_of d u)"
  proof (cases "u = t")
    case True
    have "tr_turn_id r1 = t" using r1(1) by (auto dest: find_Some_in)
    with f(4) [of r1] rev1 r1(1) True find show ?thesis
      by (simp add: turn_state_of_def row_holds_def)
  next
    case False
    have "map_option turn_core (find_turn e u) = map_option turn_core (find_turn d u)"
    proof (cases "find (\<lambda>r. tr_turn_id r = u) rows1")
      case (Some r)
      then have "tr_turn_id r = u" by (auto dest: find_Some_in)
      with False f(3) [of r] Some same_core_find [OF assms(1), of u] show ?thesis
        by (simp add: find find_turn_def [of d])
    next
      case None
      with same_core_find [OF assms(1), of u] show ?thesis by (simp add: find find_turn_def [of d])
    qed
    then have "map_option (fst \<circ> snd) (map_option turn_core (find_turn e u))
        = map_option (fst \<circ> snd) (map_option turn_core (find_turn d u))" by simp
    with False show ?thesis
      by (simp add: turn_state_of_def turn_core_def option.map_comp comp_def)
  qed
qed

subsection \<open>Commits keep the invariant\<close>

lemma active_turn_delete:
  assumes "distinct (map ar_session_id (db_active d))" and "\<And>a. active_turn d sid = Some a \<Longrightarrow> P a"
  shows "find (\<lambda>r. ar_session_id r = sid) (sql_delete (\<lambda>r. ar_session_id r = sid \<and> P r) (db_active d)) = None"
proof -
  have "P r" if "r \<in> set (db_active d)" "ar_session_id r = sid" for r
    using find_by_key [OF assms(1) that(1)] that(2) assms(2) [of r] by (simp add: active_turn_def)
  then show ?thesis by (auto simp: find_None_iff)
qed

text \<open>The active row of the session of a passed gate is the request's turn.\<close>

lemma gate_active:
  assumes "passed_gate L d rq l now ct"
  shows "active_turn d (rq_session_id rq) = Some a \<Longrightarrow> ar_turn_id a = rq_turn_id rq \<and> ar_lease_token a \<le> ls_fencing_token l"
    and "active_turn d (rq_session_id rq) = None \<Longrightarrow>
      sr_latest_turn_id (ct_session ct) = Some (rq_turn_id rq)"
  using assms
  by (auto simp: passed_gate_def active_gate_def recovered_reconciliation_def
      terminal_queue_audit_def idle_compaction_append_def split: if_splits)

lemma gate_linked:
  assumes "store_ok d" and "passed_gate L d rq l now ct"
  shows "linked d (rq_turn_id rq) (rq_session_id rq)"
proof (cases "active_turn d (rq_session_id rq)")
  case None
  have "ct_session ct \<in> set (db_sessions d) \<and> sr_session_id (ct_session ct) = rq_session_id rq"
    using assms(2) by (auto simp: passed_gate_def dest: find_session_Some)
  with gate_active(2) [OF assms(2) None] assms(1) show ?thesis
    by (fastforce simp: store_ok_def session_ok_def)
next
  case (Some a)
  then have "a \<in> set (db_active d)" "ar_session_id a = rq_session_id rq"
    by (auto simp: active_turn_def dest: find_Some_in)
  with gate_active(1) [OF assms(2) Some] assms(1) show ?thesis
    by (fastforce simp: store_ok_def)
qed

lemma linked_unique:
  assumes "keys_ok d" and "linked d t sid" and "linked d t sid'"
  shows "sid = sid'"
  using assms find_by_key unfolding keys_ok_def linked_def by (metis option.inject)

lemma linked_cong:
  assumes "map turn_link (db_session_turns e) = map turn_link (db_session_turns d)"
  shows "linked e t sid = linked d t sid"
proof -
  have links: "turn_link ` set (db_session_turns e) = turn_link ` set (db_session_turns d)"
    using arg_cong [OF assms, of set] by simp
  have "linked x t sid \<longleftrightarrow> (\<exists>p o'. (t, sid, p, o') \<in> turn_link ` set (db_session_turns x))" for x
    by (auto simp: linked_def turn_link_def image_iff)
  then show ?thesis by (simp only: links)
qed

lemma link_ids:
  assumes "map turn_link (db_session_turns e) = map turn_link (db_session_turns d)"
  shows "map st_turn_id (db_session_turns e) = map st_turn_id (db_session_turns d)"
proof -
  have "map st_turn_id xs = map fst (map turn_link xs)" for xs by (simp add: turn_link_def comp_def)
  with assms show ?thesis by metis
qed

text \<open>The turns of a commit, in both cases of its draft.\<close>

lemma committed_turns:
  assumes "store_ok d" and "passed_gate L d rq l now ct"
    and "draft_ok (tr_state (ct_turn ct)) (sr_lifecycle (ct_session ct)) (ct_draft ct)"
    and "ledger_move d (dr_db (ct_draft ct))" and "committed_tables L d rq l now ct e"
  shows "map tr_turn_id (db_turns e) = map tr_turn_id (db_turns d)"
    and "\<forall>r \<in> set (db_turns e). turn_row_ok r"
    and "turn_state_of e u = (if u = rq_turn_id rq then Some (dr_next (ct_draft ct)) else turn_state_of d u)"
proof -
  have t: "find_turn d (rq_turn_id rq) = Some (ct_turn ct)" using assms(2) by (simp add: passed_gate_def)
  have oks: "\<forall>r \<in> set (db_turns d). turn_row_ok r" and ids: "distinct (map tr_turn_id (db_turns d))"
    using assms(1) by (simp_all add: store_ok_def keys_ok_def)
  have tid: "ts_turn_id (tr_state (ct_turn ct)) = rq_turn_id rq"
    using t oks by (auto dest!: find_turn_Some simp: turn_row_ok_def row_holds_def)
  have "map tr_turn_id (db_turns e) = map tr_turn_id (db_turns d)
    \<and> (\<forall>r \<in> set (db_turns e). turn_row_ok r)
    \<and> turn_state_of e u = (if u = rq_turn_id rq then Some (dr_next (ct_draft ct)) else turn_state_of d u)"
  proof (cases "dr_turn_changed (ct_draft ct)")
    case True
    have core: "map turn_core (db_turns (dr_db (ct_draft ct))) = map turn_core (db_turns d)"
      using assms(4) by (simp add: ledger_move_def ledger_only_def)
    have mv: "turns_moved (rq_turn_id rq) (ts_revision (tr_state (ct_turn ct)))
        (dr_next (ct_draft ct)) (db_turns (dr_db (ct_draft ct))) (db_turns e)"
      using assms(5) True by (simp add: committed_tables_def)
    have nxt: "ts_turn_id (dr_next (ct_draft ct)) = rq_turn_id rq" "turn_wf (dr_next (ct_draft ct))"
      using assms(3) True tid by (simp_all add: draft_ok_def)
    show ?thesis
      using turns_moved_facts [OF core mv ids oks t refl nxt] by blast
  next
    case False
    then have core: "map turn_core (db_turns e) = map turn_core (db_turns d)"
      and nxt: "dr_next (ct_draft ct) = tr_state (ct_turn ct)"
      using assms(3,5) by (simp_all add: committed_tables_def draft_ok_def)
    have "turn_state_of d (rq_turn_id rq) = Some (tr_state (ct_turn ct))"
      using t by (simp add: turn_state_of_def)
    with same_core_ids [OF core] same_core_ok [OF core oks] same_core_state [OF core, of u] nxt
    show ?thesis by simp
  qed
  then show "map tr_turn_id (db_turns e) = map tr_turn_id (db_turns d)"
    "\<forall>r \<in> set (db_turns e). turn_row_ok r"
    "turn_state_of e u = (if u = rq_turn_id rq then Some (dr_next (ct_draft ct)) else turn_state_of d u)"
    by blast+
qed

lemma active_turn_after:
  assumes "keys_ok d" and "passed_gate L d rq l now ct" and "committed_tables L d rq l now ct e"
  shows "sid \<noteq> rq_session_id rq \<Longrightarrow> active_turn e sid = active_turn d sid"
    and "dr_terminal (ct_draft ct) \<Longrightarrow> active_turn e (rq_session_id rq) = None"
    and "\<not> dr_terminal (ct_draft ct) \<Longrightarrow> map_option ar_turn_id (active_turn e (rq_session_id rq))
      = map_option ar_turn_id (active_turn d (rq_session_id rq))"
proof -
  have del: "db_active e = sql_delete (own_active rq) (db_active d)" if "dr_terminal (ct_draft ct)"
    using assms(3) that by (simp add: committed_tables_def)
  have upd: "db_active e = sql_update (own_active rq)
      (\<lambda>r. r\<lparr>ar_lease_token := ls_fencing_token l\<rparr>) (db_active d)" if "\<not> dr_terminal (ct_draft ct)"
    using assms(3) that by (simp add: committed_tables_def)
  have found: "active_turn e k = map_option (\<lambda>r. if own_active rq r
      then r\<lparr>ar_lease_token := ls_fencing_token l\<rparr> else r) (active_turn d k)"
    if "\<not> dr_terminal (ct_draft ct)" for k
    unfolding active_turn_def upd [OF that] by (rule find_update_key) simp
  show "active_turn e sid = active_turn d sid" if "sid \<noteq> rq_session_id rq"
  proof (cases "dr_terminal (ct_draft ct)")
    case True
    then show ?thesis unfolding active_turn_def del [OF True]
      by (rule_tac find_delete_other) (use that in \<open>auto simp: own_active_def\<close>)
  next
    case False
    have "\<not> own_active rq a" if "active_turn d sid = Some a" for a
      using that \<open>sid \<noteq> rq_session_id rq\<close>
      by (auto simp: active_turn_def own_active_def dest: find_Some_in)
    with found [OF False, of sid] show ?thesis by (cases "active_turn d sid") auto
  qed
  show "active_turn e (rq_session_id rq) = None" if "dr_terminal (ct_draft ct)"
    unfolding active_turn_def del [OF that] own_active_def [abs_def]
    using active_turn_delete [of d "rq_session_id rq" "\<lambda>r. ar_turn_id r = rq_turn_id rq"] assms(1)
      gate_active(1) [OF assms(2)] by (simp add: keys_ok_def)
  show "map_option ar_turn_id (active_turn e (rq_session_id rq))
      = map_option ar_turn_id (active_turn d (rq_session_id rq))" if "\<not> dr_terminal (ct_draft ct)"
    by (cases "active_turn d (rq_session_id rq)") (simp_all add: found [OF that])
qed

lemma committed_keys:
  assumes "keys_ok d" and "committed_tables L d rq l now ct e"
    and "map tr_turn_id (db_turns e) = map tr_turn_id (db_turns d)"
  shows "keys_ok e"
proof -
  have "map sr_session_id (db_sessions e) = map sr_session_id (db_sessions d)"
    using assms(2) by (simp add: committed_tables_def moved_rows.keys_update)
  moreover have "map st_turn_id (db_session_turns e) = map st_turn_id (db_session_turns d)"
    using assms(2) by (intro link_ids) (simp add: committed_tables_def)
  moreover have "distinct (map ar_session_id (db_active e)) \<and> distinct (map ar_turn_id (db_active e))"
  proof (cases "dr_terminal (ct_draft ct)")
    case True
    with assms(1,2) show ?thesis
      by (simp add: committed_tables_def keys_ok_def distinct_delete_key)
  next
    case False
    then have "map ar_session_id (db_active e) = map ar_session_id (db_active d)"
      "map ar_turn_id (db_active e) = map ar_turn_id (db_active d)"
      using assms(2) by (simp_all add: committed_tables_def sql_update_def comp_def if_distrib cong: if_cong)
    with assms(1) show ?thesis by (simp add: keys_ok_def)
  qed
  ultimately show ?thesis using assms(1,3) by (simp add: keys_ok_def)
qed

lemma committed_leases:
  assumes "leases_ok d" and "committed_tables L d rq l now ct e"
  shows "leases_ok e" and "lease_le d e"
proof -
  let ?d = "d\<lparr>db_leases := sql_update (held_row L rq l now) (\<lambda>r. r\<lparr>lr_expires_at_ms := 0\<rparr>) (db_leases d)\<rparr>"
  have "db_lease_epoch e = db_lease_epoch d"
    and rows: "db_leases e = (if dr_terminal (ct_draft ct) then db_leases ?d else db_leases d)"
    using assms(2) by (simp_all add: committed_tables_def)
  with update_expiry_contract [OF assms(1), where P = "held_row L rq l now" and x = 0] assms(1)
  show "leases_ok e" "lease_le d e"
    by (auto simp: leases_ok_def lease_le_def same_holder_def split: if_splits)
qed

lemma in_sessions_after:
  assumes "committed_tables L d rq l now ct e" and "s \<in> set (db_sessions e)"
  obtains s0 where "s0 \<in> set (db_sessions d)" and "sr_session_id s = sr_session_id s0"
    and "s = (if sr_session_id s0 = rq_session_id rq then moved_session rq now ct s0 else s0)"
proof -
  obtain s0 where "s0 \<in> set (db_sessions d)"
    and "s = (if sr_session_id s0 = rq_session_id rq then moved_session rq now ct s0 else s0)"
    using assms by (auto simp: committed_tables_def set_sql_update)
  with that [of s0] show thesis by (simp add: moved_session_def)
qed

lemma committed_sequences:
  assumes "sequences_ok d" and "keys_ok d" and "passed_gate L d rq l now ct"
    and "committed_tables L d rq l now ct e" and "committed_card ids rq now ct"
    and "committed_event rq ct resp"
  shows "sequences_ok e"
  unfolding sequences_ok_def
proof (rule ballI)
  fix s assume s: "s \<in> set (db_sessions e)"
  obtain s0 where s0: "s0 \<in> set (db_sessions d)" "sr_session_id s = sr_session_id s0"
    "s = (if sr_session_id s0 = rq_session_id rq then moved_session rq now ct s0 else s0)"
    using in_sessions_after [OF assms(4) s] by blast
  have outbox: "db_outbox e = db_outbox d @ ct_card ct"
    and events: "db_session_events e = db_session_events d @ [session_event_row (ct_event ct) now]"
    using assms(4) by (simp_all add: committed_tables_def)
  have card: "ob_session_id r = rq_session_id rq \<and> ob_seq r = sr_last_seq (ct_session ct) + 1"
    if "r \<in> set (ct_card ct)" for r
    using assms(5) that
    by (auto simp: committed_card_def outbox_row_of_def card_entry_def split: option.splits prod.splits)
  have ev: "sv_session_id (session_event_row (ct_event ct) now) = rq_session_id rq"
    "sv_seq (session_event_row (ct_event ct) now) = sr_last_seq (ct_session ct) + 1"
    using assms(6) by (simp_all add: committed_event_def session_event_row_def)
  have same: "s0 = ct_session ct" if "sr_session_id s0 = rq_session_id rq"
  proof -
    have "distinct (map sr_session_id (db_sessions d))" using assms(2) by (simp add: keys_ok_def)
    from find_by_key [OF this s0(1)] that assms(3) show ?thesis
      by (simp add: passed_gate_def find_session_def)
  qed
  have old: "\<forall>r \<in> set (db_outbox d). ob_session_id r = sr_session_id s0 \<longrightarrow> ob_seq r \<le> sr_last_seq s0"
    "\<forall>r \<in> set (db_session_events d). sv_session_id r = sr_session_id s0 \<longrightarrow> sv_seq r \<le> sr_last_seq s0"
    using assms(1) s0(1) by (auto simp: sequences_ok_def)
  show "(\<forall>r \<in> set (db_outbox e). ob_session_id r = sr_session_id s \<longrightarrow> ob_seq r \<le> sr_last_seq s)
     \<and> (\<forall>r \<in> set (db_session_events e). sv_session_id r = sr_session_id s \<longrightarrow> sv_seq r \<le> sr_last_seq s)"
  proof (cases "sr_session_id s0 = rq_session_id rq")
    case True
    with old same s0(3) card ev show ?thesis
      unfolding outbox events by (auto simp: moved_session_def le_SucI)
  next
    case False
    with old s0(3) card ev show ?thesis unfolding outbox events by auto
  qed
qed

lemma committed_outbox:
  assumes "outbox_consistent d" and "committed_tables L d rq l now ct e"
    and "committed_card ids rq now ct" and "committed_event rq ct resp"
  shows "outbox_consistent e"
proof -
  have "db_outbox e = db_outbox d @ ct_card ct" using assms(2) by (simp add: committed_tables_def)
  moreover have "sr_last_seq (ct_session ct) + 1 < i64_bound"
    using assms(4) by (simp add: committed_event_def)
  ultimately show ?thesis
    using assms(1,3)
    by (auto simp: outbox_consistent_def committed_card_def outbox_row_of_def card_entry_def
        split: option.splits)
qed

lemma committed_owned:
  assumes "owned_ok d" and "passed_gate L d rq l now ct" and "committed_tables L d rq l now ct e"
    and "committed_card ids rq now ct" and "committed_event rq ct resp"
  shows "owned_ok e"
proof -
  have ids: "sr_session_id ` set (db_sessions e) = sr_session_id ` set (db_sessions d)"
  proof -
    have "map sr_session_id (db_sessions e) = map sr_session_id (db_sessions d)"
      using assms(3) by (simp add: committed_tables_def moved_rows.keys_update)
    from arg_cong [OF this, of set] show ?thesis by simp
  qed
  have sid: "rq_session_id rq \<in> sr_session_id ` set (db_sessions d)"
    using assms(2) by (auto simp: passed_gate_def image_iff dest!: find_session_Some intro!: bexI [of _ "ct_session ct"])
  have card: "ob_session_id ` set (ct_card ct) \<subseteq> {rq_session_id rq}"
    using assms(4)
    by (auto simp: committed_card_def outbox_row_of_def split: option.splits prod.splits)
  have ev: "sv_session_id (session_event_row (ct_event ct) now) = rq_session_id rq"
    using assms(5) by (simp add: committed_event_def session_event_row_def)
  have active: "ar_session_id ` set (db_active e) \<subseteq> ar_session_id ` set (db_active d)"
    using assms(3) by (auto simp: committed_tables_def set_sql_update split: if_splits)
  have "db_outbox e = db_outbox d @ ct_card ct"
    "db_session_events e = db_session_events d @ [session_event_row (ct_event ct) now]"
    using assms(3) by (simp_all add: committed_tables_def)
  moreover have "ar_session_id ` set (db_active d) \<subseteq> sr_session_id ` set (db_sessions d)"
    using assms(1) by (simp add: owned_ok_def Let_def)
  with active have "ar_session_id ` set (db_active e) \<subseteq> sr_session_id ` set (db_sessions d)"
    by (rule subset_trans)
  moreover have "ob_session_id ` set (ct_card ct) \<subseteq> sr_session_id ` set (db_sessions d)"
    by (rule subset_trans [OF card]) (use sid in blast)
  ultimately show ?thesis
    using assms(1) sid ev unfolding owned_ok_def Let_def ids by (simp add: image_Un)
qed

text \<open>Without an active turn only a reconciliation or an append passes the gate.\<close>

lemma idle_commit:
  assumes "passed_gate L d rq l now ct" and "active_turn d (rq_session_id rq) = None"
    and "commit_arm L cx (rq_update rq) dr0 = Inr dr" and "\<not> dr_terminal dr"
    and "\<not> dr_turn_changed dr0"
  shows "\<not> dr_turn_changed dr"
  using assms
  by (cases "rq_update rq")
    (auto simp: passed_gate_def active_gate_def recovered_reconciliation_def
      terminal_queue_audit_def idle_compaction_append_def commit_append_transcript_def
      commit_reconcile_unknown_def split: if_splits)

lemma commit_fresh_keeps_store_ok:
  assumes ok: "store_ok d" and fresh: "commit_fresh L ids d rq l now = Inr (e, resp)"
  shows "store_ok e"
proof -
  have rows: "\<forall>r \<in> set (db_turns d). turn_row_ok r" and keys: "keys_ok d"
    using ok by (simp_all add: store_ok_def)
  obtain ct where gate: "passed_gate L d rq l now ct"
    and arm: "commit_arm L (trace_ctx rq l now ct) (rq_update rq)
       (initial_draft d (tr_state (ct_turn ct)) (sr_lifecycle (ct_session ct))) = Inr (ct_draft ct)"
    and dok: "draft_ok (tr_state (ct_turn ct)) (sr_lifecycle (ct_session ct)) (ct_draft ct)"
    and mv: "ledger_move d (dr_db (ct_draft ct))"
    and tables: "committed_tables L d rq l now ct e"
    and card: "committed_card ids rq now ct" and ev: "committed_event rq ct resp"
    by (rule commit_fresh_Inr [OF fresh rows])
  note turns = committed_turns [OF ok gate dok mv tables]
  note act = active_turn_after [OF keys gate tables]
  have link: "linked e t sid = linked d t sid" for t sid
    using tables by (intro linked_cong) (simp add: committed_tables_def)
  have s: "ct_session ct \<in> set (db_sessions d)" "sr_session_id (ct_session ct) = rq_session_id rq"
    using gate by (auto simp: passed_gate_def dest: find_session_Some)
  have sok: "session_ok d (ct_session ct)" using ok s(1) by (simp add: store_ok_def)
  have t: "turn_state_of d (rq_turn_id rq) = Some (tr_state (ct_turn ct))"
    using gate by (simp add: passed_gate_def turn_state_of_def)
  have sessions: "session_ok e x" if x: "x \<in> set (db_sessions e)" for x
  proof -
    obtain s0 where s0: "s0 \<in> set (db_sessions d)" "sr_session_id x = sr_session_id s0"
      "x = (if sr_session_id s0 = rq_session_id rq then moved_session rq now ct s0 else s0)"
      using in_sessions_after [OF tables x] by blast
    show ?thesis
    proof (cases "sr_session_id s0 = rq_session_id rq")
      case False
      then have x: "x = s0" and same: "active_turn e (sr_session_id s0) = active_turn d (sr_session_id s0)"
        using s0(3) act(1) by auto
      have "turn_state_of e (ar_turn_id a) = turn_state_of d (ar_turn_id a)"
        if a: "active_turn d (sr_session_id s0) = Some a" for a
      proof -
        have "a \<in> set (db_active d)" "ar_session_id a = sr_session_id s0"
          using a by (auto simp: active_turn_def dest: find_Some_in)
        then have "linked d (ar_turn_id a) (sr_session_id s0)" using ok by (auto simp: store_ok_def)
        with linked_unique [OF keys _ gate_linked [OF ok gate]] False turns(3) show ?thesis by metis
      qed
      moreover have "session_ok d s0" using ok s0(1) by (simp add: store_ok_def)
      ultimately show ?thesis by (auto simp: session_ok_def x same link split: option.splits)
    next
      case True
      then have x: "sr_lifecycle x = dr_lifecycle (ct_draft ct)"
        "sr_latest_turn_id x = Some (rq_turn_id rq)" "sr_session_id x = rq_session_id rq"
        using s0(3) by (simp_all add: moved_session_def)
      have nxt: "turn_state_of e (rq_turn_id rq) = Some (dr_next (ct_draft ct))" using turns(3) by simp
      note lnk = gate_linked [OF ok gate]
      consider (terminal) "dr_terminal (ct_draft ct)"
        | (idle) "\<not> dr_terminal (ct_draft ct)" "active_turn d (rq_session_id rq) = None"
        | (active) a where "\<not> dr_terminal (ct_draft ct)" "active_turn d (rq_session_id rq) = Some a"
        by (cases "active_turn d (rq_session_id rq)") auto
      then show ?thesis
      proof cases
        case terminal
        with act(2) dok x lnk show ?thesis
          by (auto simp: session_ok_def link draft_ok_def split: if_splits)
      next
        case idle
        have "active_turn e (rq_session_id rq) = None" using act(3) [OF idle(1)] idle(2) by simp
        moreover have "\<not> dr_turn_changed (ct_draft ct)"
          by (rule idle_commit [OF gate idle(2) arm idle(1)]) (simp add: initial_draft_def)
        ultimately show ?thesis using dok sok idle(2) x s(2) lnk
          by (simp add: session_ok_def link draft_ok_def)
      next
        case active
        have a: "ar_turn_id a = rq_turn_id rq" using gate_active(1) [OF gate active(2)] by simp
        with act(3) [OF active(1)] active(2) obtain a' where
          a': "active_turn e (rq_session_id rq) = Some a'" "ar_turn_id a' = rq_turn_id rq" by auto
        have "agrees (dr_lifecycle (ct_draft ct)) (ts_status (dr_next (ct_draft ct)))"
          using dok sok active t a s(2) by (auto simp: draft_ok_def session_ok_def split: if_splits)
        with a' x nxt lnk show ?thesis by (simp add: session_ok_def link)
      qed
    qed
  qed
  have actives: "linked e (ar_turn_id a) (ar_session_id a)" if "a \<in> set (db_active e)" for a
  proof -
    have "\<exists>a0 \<in> set (db_active d). ar_turn_id a0 = ar_turn_id a \<and> ar_session_id a0 = ar_session_id a"
      using tables that by (auto simp: committed_tables_def set_sql_update split: if_splits)
    then show ?thesis using ok by (auto simp: store_ok_def link)
  qed
  have keyed: "effects_keyed e"
    using ok mv tables effects_keyed_same [of e "dr_db (ct_draft ct)"]
    by (simp add: committed_tables_def ledger_move_def store_ok_def)
  have seqs: "sequences_ok d" and out: "outbox_consistent d" and lok: "leases_ok d"
    and own: "owned_ok d"
    using ok by (simp_all add: store_ok_def)
  show ?thesis
    unfolding store_ok_def
    using committed_keys [OF keys tables turns(1)] committed_leases(1) [OF lok tables]
      committed_outbox [OF out tables card ev]
      committed_sequences [OF seqs keys gate tables card ev] turns(2) sessions actives keyed
      committed_owned [OF own gate tables card ev]
    by blast
qed

text \<open>The invariant reads seven tables, the lease epoch and the keys of the ledger.\<close>

lemma store_ok_frame:
  assumes "store_ok d" and "db_sessions e = db_sessions d" and "db_turns e = db_turns d"
    and "db_active e = db_active d" and "db_session_turns e = db_session_turns d"
    and "db_outbox e = db_outbox d" and "db_session_events e = db_session_events d"
    and "db_leases e = db_leases d" and "db_lease_epoch e = db_lease_epoch d"
    and "effects_keyed e"
  shows "store_ok e"
  using assms(1,10)
  unfolding store_ok_def keys_ok_def leases_ok_def outbox_consistent_def sequences_ok_def owned_ok_def
    session_ok_def turn_state_of_def find_turn_def active_turn_def linked_def assms(2-9)
  by (elim conjE) (intro conjI; assumption)

lemma insert_dedup_ok:
  assumes "store_ok d" and "insert_dedup r d = Inr e"
  shows "store_ok e"
proof -
  have e: "e = d\<lparr>db_dedup := db_dedup d @ [r]\<rparr>" using assms(2) by (simp add: insert_dedup_def)
  have "effects_keyed e" using assms(1) by (simp add: e store_ok_def effects_keyed_def)
  then show ?thesis by (intro store_ok_frame [OF assms(1)]) (simp_all add: e)
qed

lemma commit_cases:
  assumes "commit_session_turn_update L ids d rq l now = Inr (e, resp)"
  obtains (replay) r where "e = d" "find (\<lambda>r. dd_command_id r = rq_command_id rq) (db_dedup d) = Some r"
      "dd_digest r = session_command_digest L rq" "dd_result r = DrCommit resp"
  | (source) r where "find (\<lambda>r. dd_command_id r = rq_command_id rq) (db_dedup d) = None"
      "find (\<lambda>r. cs_session_id r = rq_session_id rq
         \<and> cs_source_key r = source_key (rq_update rq)) (db_sources d) = Some r"
      "cs_digest r = session_command_digest L rq" "cs_result r = resp"
      "insert_dedup \<lparr>dd_command_id = rq_command_id rq, dd_digest = session_command_digest L rq,
         dd_result = DrCommit resp, dd_created_at_ms = now\<rparr> d = Inr e"
  | (fresh) "find (\<lambda>r. dd_command_id r = rq_command_id rq) (db_dedup d) = None"
      "find (\<lambda>r. cs_session_id r = rq_session_id rq
         \<and> cs_source_key r = source_key (rq_update rq)) (db_sources d) = None"
      "commit_fresh L ids d rq l now = Inr (e, resp)"
  using assms unfolding commit_session_turn_update_def
  by (auto simp: Let_def commit_replay_def split: option.splits if_splits dedup_result.splits)

lemma commit_keeps_store_ok:
  assumes "store_ok d" and "commit_session_turn_update L ids d rq l now = Inr (e, resp)"
  shows "store_ok e"
  using assms(2)
proof (cases rule: commit_cases)
  case replay
  with assms(1) show ?thesis by simp
next
  case source
  with insert_dedup_ok assms(1) show ?thesis by blast
next
  case fresh
  with commit_fresh_keeps_store_ok [OF assms(1)] show ?thesis by blast
qed

end
