(* ===== verification/Store_Create.thy ===== *)
theory Store_Create
  imports Store_Commit
begin

text \<open>
  The operations of \<open>storage.rs\<close> that make sessions and turns: \<open>create_session_v2_inner\<close>
  and its two callers, \<open>create_session_follow_up_v2_inner\<close>, the replay lookups before
  them, \<open>switch_session_binding_v2\<close>, \<open>create_session_fork\<close>, \<open>rename_session\<close> and
  \<open>create_run_with_baseline\<close>.
\<close>

type_synonym manifest = "(rstr \<times> rstr) list"

subsection \<open>Replay of accepted commands\<close>

definition snapshot_replay :: "lib \<Rightarrow> dedup_result \<Rightarrow> storage_error + session_snapshot" where
  "snapshot_replay L r = (case r of
     DrSnapshot s \<Rightarrow> Inr s | DrCommit _ \<Rightarrow> Inl (InvalidData (dedup_result_error L)))"

definition command_replay ::
  "lib \<Rightarrow> db \<Rightarrow> uuid \<Rightarrow> rstr \<Rightarrow> rstr \<Rightarrow> storage_error + session_snapshot option" where
  "command_replay L d cid digest legacy =
     (case find (\<lambda>r. dd_command_id r = cid) (db_dedup d) of
        None \<Rightarrow> Inr None
      | Some r \<Rightarrow>
          if dd_digest r \<noteq> digest \<and> dd_digest r \<noteq> legacy then Inl SessionCommandReplayMismatch
          else bindE (snapshot_replay L (dd_result r)) (\<lambda>s. Inr (Some s)))"

definition lookup_create_replay ::
  "lib \<Rightarrow> db \<Rightarrow> uuid \<Rightarrow> uuid \<Rightarrow> rstr \<Rightarrow> rstr \<Rightarrow> session_provider_binding \<Rightarrow> rstr option
     \<Rightarrow> storage_error + session_snapshot option" where
  "lookup_create_replay L d cid sid root prompt b focus =
     bindE (validate_workspace_root root) (\<lambda>root.
       command_replay L d cid (create_command_digest L sid root prompt b focus)
         (legacy_create_command_digest L sid root prompt b focus))"

definition lookup_follow_up_replay ::
  "lib \<Rightarrow> db \<Rightarrow> uuid \<Rightarrow> uuid \<Rightarrow> nat \<Rightarrow> rstr \<Rightarrow> storage_error + session_snapshot option" where
  "lookup_follow_up_replay L d cid sid expected prompt =
     command_replay L d cid (follow_up_command_digest L sid expected prompt)
       (legacy_follow_up_command_digest L sid expected prompt)"

subsection \<open>What both creations write\<close>

text \<open>With a lease the child is started in the same transaction, without one it is queued.\<close>

definition first_state :: "uuid \<Rightarrow> lease option \<Rightarrow> storage_error + turn_state" where
  "first_state t lease = (case lease of
     None \<Rightarrow> Inr (turn_queued t)
   | Some _ \<Rightarrow> lift_transition (turn_transition (turn_queued t) 0 Start))"

definition lease_count :: "lease option \<Rightarrow> nat" where
  "lease_count lease = (case lease of None \<Rightarrow> 0 | Some _ \<Rightarrow> 1)"

definition lease_number :: "lease option \<Rightarrow> nat" where
  "lease_number lease = (case lease of None \<Rightarrow> 0 | Some l \<Rightarrow> ls_fencing_token l)"

definition require_initial_lease ::
  "lib \<Rightarrow> db \<Rightarrow> uuid \<Rightarrow> lease option \<Rightarrow> nat \<Rightarrow> storage_error + unit" where
  "require_initial_lease L d sid lease now = (case lease of
     None \<Rightarrow> Inr ()
   | Some l \<Rightarrow> bindE (require_lease_scope l (session_lease_scope L sid)) (\<lambda>_.
       require_live_lease d (session_lease_scope L sid) l now))"

definition child_row :: "turn_state \<Rightarrow> nat \<Rightarrow> nat \<Rightarrow> nat \<Rightarrow> turn_row" where
  "child_row s seq token now = \<lparr>tr_turn_id = ts_turn_id s, tr_state = s,
     tr_status = status_name (ts_status s), tr_revision = ts_revision s, tr_last_seq = seq,
     tr_lease_token = token, tr_created_at_ms = now, tr_updated_at_ms = now, tr_effect_epoch = 0\<rparr>"

definition insert_child ::
  "turn_state \<Rightarrow> nat \<Rightarrow> nat \<Rightarrow> manifest option \<Rightarrow> nat \<Rightarrow> db \<Rightarrow> storage_error + db" where
  "insert_child s seq token baseline now d =
     bindE (to_i64 token) (\<lambda>token.
     bindE (to_i64 now) (\<lambda>now.
     bindE (insert_turn (child_row s seq token now) d) (\<lambda>d.
     bindE (insert_read_model \<lparr>rm_turn_id = ts_turn_id s, rm_revision = ts_revision s,
       rm_last_seq = seq, rm_state = s\<rparr> d) (\<lambda>d.
     case baseline of None \<Rightarrow> Inr d
     | Some m \<Rightarrow> insert_baseline \<lparr>bl_turn_id = ts_turn_id s, bl_manifest = m\<rparr> d))))"

definition user_entry :: "uuid \<Rightarrow> nat \<Rightarrow> uuid \<Rightarrow> rstr \<Rightarrow> rstr \<Rightarrow> nat \<Rightarrow> transcript_entry" where
  "user_entry eid seq t text key now = \<lparr>te_entry_id = eid, te_sequence = seq, te_turn_id = Some t,
     te_kind = TkUser, te_text = text, te_payload = None, te_source_key = key,
     te_created_at_ms = now\<rparr>"

definition started_events ::
  "uuid \<Rightarrow> uuid \<Rightarrow> uuid \<Rightarrow> turn_state \<Rightarrow> nat \<Rightarrow> nat \<Rightarrow> nat \<Rightarrow> db
     \<Rightarrow> storage_error + db \<times> stored_session_event" where
  "started_events tev sev sid s revision seq now d =
     bindE (insert_event (turn_event_row (turn_envelope tev s (StateChanged Running)) 1 now) d) (\<lambda>d.
     bindE (to_i64 seq) (\<lambda>seq.
     bindE (to_i64 revision) (\<lambda>revision.
     let env = session_envelope sev sid revision seq
           (LifecycleChanged LcRunning (Some (ts_turn_id s)))
     in bindE (insert_session_event (session_event_row env now) d) (\<lambda>d.
        Inr (d, \<lparr>ss_sequence = seq, ss_envelope = env\<rparr>)))))"

text \<open>\<open>if initial_lease.is_some() { .. } else { None }\<close>\<close>

definition when_leased ::
  "lease option \<Rightarrow> (db \<Rightarrow> storage_error + db \<times> stored_session_event) \<Rightarrow> db
     \<Rightarrow> storage_error + db \<times> stored_session_event option" where
  "when_leased lease f d = (case lease of
     None \<Rightarrow> Inr (d, None)
   | Some _ \<Rightarrow> bindE (f d) (\<lambda>(d, ev). Inr (d, Some ev)))"

definition record_snapshot ::
  "uuid option \<Rightarrow> rstr \<Rightarrow> session_snapshot \<Rightarrow> nat \<Rightarrow> db \<Rightarrow> storage_error + db" where
  "record_snapshot cid digest snapshot now d = (case cid of
     None \<Rightarrow> Inr d
   | Some c \<Rightarrow> insert_dedup \<lparr>dd_command_id = c, dd_digest = digest,
       dd_result = DrSnapshot snapshot, dd_created_at_ms = now\<rparr> d)"

type_synonym created =
  "session_snapshot create_outcome \<times> stored_session_event option"

subsection \<open>Creating a session\<close>

definition new_session_row ::
  "uuid \<Rightarrow> lease option \<Rightarrow> uuid \<Rightarrow> session_provider_binding \<Rightarrow> rstr \<Rightarrow> rstr \<Rightarrow> rstr option \<Rightarrow> nat
     \<Rightarrow> session_row" where
  "new_session_row sid lease t b title root focus now = \<lparr>sr_session_id = sid,
     sr_revision = lease_count lease, sr_last_seq = (if lease \<noteq> None then 2 else 1),
     sr_lifecycle = lit ''running'', sr_binding = b, sr_latest_turn_id = Some t,
     sr_created_at_ms = now, sr_updated_at_ms = now, sr_focus = focus, sr_title = title,
     sr_workspace_root = root, sr_parent_session_id = None\<rparr>"

definition create_session_writes ::
  "lib \<Rightarrow> (nat \<Rightarrow> uuid) \<Rightarrow> uuid option \<Rightarrow> uuid \<Rightarrow> uuid \<Rightarrow> session_provider_binding \<Rightarrow> rstr \<Rightarrow> rstr
     \<Rightarrow> rstr \<Rightarrow> rstr \<Rightarrow> manifest \<Rightarrow> lease option \<Rightarrow> nat \<Rightarrow> rstr option \<Rightarrow> db \<Rightarrow> storage_error + db \<times> created"
where
  "create_session_writes L ids cid sid t b root prompt title digest baseline lease now focus d =
     bindE (first_state t lease) (\<lambda>s.
     bindE (insert_child s (lease_count lease) (lease_number lease) (Some baseline) now d) (\<lambda>d.
     bindE (insert_session (new_session_row sid lease t b title root focus now) d) (\<lambda>d.
     bindE (insert_session_turn \<lparr>st_turn_id = t, st_session_id = sid, st_parent_turn_id = None,
       st_ordinal = 0, st_completed_at_ms = None, st_tool_round_count = 0\<rparr> d) (\<lambda>d.
     bindE (insert_active \<lparr>ar_session_id = sid, ar_turn_id = t,
       ar_lease_token = lease_number lease\<rparr> d) (\<lambda>d.
     bindE (insert_outbox (outbox_row_of sid
       (user_entry (ids 0) 1 t prompt (lit ''session:create:user'') now)) d) (\<lambda>d.
     bindE (when_leased lease (started_events (ids 1) (ids 2) sid s (lease_count lease) 2 now) d)
       (\<lambda>(d, event).
     bindE (current_session_snapshot L d sid SESSION_PROJECTION_TRANSCRIPT_LIMIT) (\<lambda>snapshot.
     bindE (record_snapshot cid digest snapshot now d) (\<lambda>d.
     Inr (d, Created snapshot, event))))))))))"

definition session_exists :: "db \<Rightarrow> uuid \<Rightarrow> bool" where
  "session_exists d sid \<longleftrightarrow> sql_exists (\<lambda>r. sr_session_id r = sid) (db_sessions d)"

text \<open>Some snapshot answers a command that was accepted before.\<close>

definition create_dedup ::
  "lib \<Rightarrow> uuid option \<Rightarrow> uuid \<Rightarrow> rstr \<Rightarrow> rstr \<Rightarrow> db \<Rightarrow> storage_error + session_snapshot option" where
  "create_dedup L cid sid digest legacy d = (case cid of
     Some c \<Rightarrow>
       bindE (command_replay L d c digest legacy) (\<lambda>previous.
       case previous of Some s \<Rightarrow> Inr (Some s)
       | None \<Rightarrow> if session_exists d sid then Inl (SessionAlreadyExists sid) else Inr None)
   | None \<Rightarrow>
       if session_exists d sid
       then bindE (current_session_snapshot L d sid SESSION_PROJECTION_TRANSCRIPT_LIMIT)
              (\<lambda>s. Inr (Some s))
       else Inr None)"

definition create_session_v2_inner ::
  "lib \<Rightarrow> (nat \<Rightarrow> uuid) \<Rightarrow> db \<Rightarrow> uuid option \<Rightarrow> uuid \<Rightarrow> uuid \<Rightarrow> session_provider_binding \<Rightarrow> rstr
     \<Rightarrow> rstr \<Rightarrow> manifest \<Rightarrow> lease option \<Rightarrow> nat \<Rightarrow> rstr option \<Rightarrow> storage_error + db \<times> created" where
  "create_session_v2_inner L ids d cid sid t b root prompt baseline lease now focus =
     bindE (map_err InvalidData (binding_validate b)) (\<lambda>_.
     bindE (validate_workspace_root root) (\<lambda>root.
     let digest = create_command_digest L sid root prompt b focus;
         legacy = legacy_create_command_digest L sid root prompt b focus;
         text = redact L prompt
     in if trim text = [] then Inl (invalid ''session prompt must not be empty'')
        else
        bindE (require_initial_lease L d sid lease now) (\<lambda>_.
        bindE (create_dedup L cid sid digest legacy d) (\<lambda>replay.
        case replay of
          Some snapshot \<Rightarrow> Inr (d, Replayed snapshot, None)
        | None \<Rightarrow> create_session_writes L ids cid sid t b root text
            (session_title (scrub_secrets L) text) digest baseline lease now focus d))))"

definition create_started_session_v2 ::
  "lib \<Rightarrow> (nat \<Rightarrow> uuid) \<Rightarrow> db \<Rightarrow> uuid option \<Rightarrow> uuid \<Rightarrow> uuid \<Rightarrow> session_provider_binding \<Rightarrow> rstr
     \<Rightarrow> rstr \<Rightarrow> manifest \<Rightarrow> lease \<Rightarrow> nat \<Rightarrow> rstr option
     \<Rightarrow> storage_error + db \<times> session_snapshot create_outcome" where
  "create_started_session_v2 L ids d cid sid t b root prompt baseline l now focus =
     bindE (create_session_v2_inner L ids d cid sid t b root prompt baseline (Some l) now focus)
       (\<lambda>(d, outcome, _). Inr (d, outcome))"

subsection \<open>Following up\<close>

definition follow_up_parent :: "db \<Rightarrow> uuid option \<Rightarrow> storage_error + turn_state option" where
  "follow_up_parent d latest = (case latest of
     None \<Rightarrow> Inr None
   | Some p \<Rightarrow> bindE (ok_or (Sql QueryReturnedNoRows) (find_turn d p))
       (\<lambda>r. Inr (Some (tr_state r))))"

definition follow_up_allowed :: "turn_state \<Rightarrow> bool" where
  "follow_up_allowed p \<longleftrightarrow> ts_status p = Completed
     \<or> (ts_status p = Failed \<and> (case ts_failure p of None \<Rightarrow> False
         | Some f \<Rightarrow> tf_retryability f = Retryable \<or> tf_code f = PermissionDenied))"

definition next_ordinal :: "db \<Rightarrow> uuid \<Rightarrow> nat" where
  "next_ordinal d sid = foldr max
     (map (\<lambda>r. Suc (st_ordinal r)) (filter (\<lambda>r. st_session_id r = sid) (db_session_turns d))) 0"

text \<open>The checks on the session: revision, readiness, and the parent the child continues.\<close>

definition follow_up_gate ::
  "db \<Rightarrow> uuid \<Rightarrow> nat \<Rightarrow> storage_error + session_row \<times> turn_state option" where
  "follow_up_gate d sid expected =
     bindE (ok_or (SessionNotFound sid) (find_session d sid)) (\<lambda>s.
     if sr_revision s \<noteq> expected then Inl (StaleSessionRevision expected (sr_revision s))
     else if sr_lifecycle s \<noteq> lit ''ready'' \<or> sql_exists (\<lambda>r. ar_session_id r = sid) (db_active d)
     then Inl (invalid ''follow-up requires a ready session with no active child'')
     else if sr_latest_turn_id s = None \<and> sr_parent_session_id s = None
     then Inl (invalid ''follow-up session has no completed child'')
     else
     bindE (follow_up_parent d (sr_latest_turn_id s)) (\<lambda>parent.
     if (case parent of None \<Rightarrow> False | Some p \<Rightarrow> \<not> follow_up_allowed p)
     then Inl (invalid ''follow-up parent must be completed, retryably failed, or permission-denied'')
     else Inr (s, parent)))"

definition linked_summary :: "uuid \<Rightarrow> turn_state option \<Rightarrow> nat \<Rightarrow> session_turn_summary" where
  "linked_summary t parent ordinal = \<lparr>sm_turn_id = t, sm_parent_turn_id = map_option ts_turn_id parent,
     sm_ordinal = ordinal, sm_status = StQueued, sm_turn_revision = 0, sm_completed_at_ms = None,
     sm_failure_code = None\<rparr>"

definition followed_session :: "nat \<Rightarrow> nat \<Rightarrow> uuid \<Rightarrow> nat \<Rightarrow> session_row \<Rightarrow> session_row" where
  "followed_session revision seq t now x = x\<lparr>sr_revision := revision, sr_last_seq := seq,
     sr_lifecycle := lit ''running'', sr_latest_turn_id := Some t, sr_updated_at_ms := now\<rparr>"

text \<open>The started child's own event advances the session a second time.\<close>

definition follow_up_start ::
  "uuid \<Rightarrow> uuid \<Rightarrow> uuid \<Rightarrow> turn_state \<Rightarrow> nat \<Rightarrow> nat \<Rightarrow> nat \<Rightarrow> db
     \<Rightarrow> storage_error + db \<times> stored_session_event" where
  "follow_up_start tev sev sid s revision seq now d =
     bindE (ok_or (invalid ''session revision overflow'') (checked_add revision 1)) (\<lambda>revision.
     bindE (ok_or (invalid ''session sequence overflow'') (checked_add seq 1)) (\<lambda>seq.
     bindE (started_events tev sev sid s revision seq now d) (\<lambda>(d, ev).
     Inr (d\<lparr>db_sessions := sql_update (\<lambda>r. sr_session_id r = sid)
            (\<lambda>r. r\<lparr>sr_revision := revision, sr_last_seq := seq\<rparr>) (db_sessions d)\<rparr>, ev))))"

definition follow_up_writes ::
  "lib \<Rightarrow> (nat \<Rightarrow> uuid) \<Rightarrow> uuid option \<Rightarrow> session_row \<Rightarrow> uuid \<Rightarrow> turn_state option \<Rightarrow> rstr \<Rightarrow> rstr
     \<Rightarrow> manifest \<Rightarrow> lease option \<Rightarrow> nat \<Rightarrow> db \<Rightarrow> storage_error + db \<times> created" where
  "follow_up_writes L ids cid sr t parent prompt digest baseline lease now d =
     (let sid = sr_session_id sr; ordinal = next_ordinal d sid in
     bindE (first_state t lease) (\<lambda>s.
     bindE (insert_child s (lease_count lease) (lease_number lease) (Some baseline) now d) (\<lambda>d.
     bindE (insert_session_turn \<lparr>st_turn_id = t, st_session_id = sid,
       st_parent_turn_id = sr_latest_turn_id sr, st_ordinal = ordinal, st_completed_at_ms = None,
       st_tool_round_count = 0\<rparr> d) (\<lambda>d.
     bindE (insert_active \<lparr>ar_session_id = sid, ar_turn_id = t,
       ar_lease_token = lease_number lease\<rparr> d) (\<lambda>d.
     bindE (ok_or (invalid ''session revision overflow'') (checked_add (sr_revision sr) 1)) (\<lambda>revision.
     bindE (ok_or (invalid ''session sequence overflow'') (checked_add (sr_last_seq sr) 1)) (\<lambda>seq.
     bindE (to_i64 seq) (\<lambda>seq.
     bindE (insert_outbox (outbox_row_of sid (user_entry (ids 0) seq t prompt
       (lit ''follow-up:'' @ uuid_text L t @ lit '':user'') now)) d) (\<lambda>d.
     bindE (to_i64 revision) (\<lambda>revision.
     bindE (insert_session_event (session_event_row (session_envelope (ids 1) sid revision seq
       (TurnLinked (linked_summary t parent ordinal))) now) d) (\<lambda>d.
     let d = d\<lparr>db_sessions := sql_update (\<lambda>r. sr_session_id r = sid)
           (followed_session revision seq t now) (db_sessions d)\<rparr>
     in bindE (when_leased lease (follow_up_start (ids 2) (ids 3) sid s revision seq now) d)
          (\<lambda>(d, event).
        bindE (current_session_snapshot L d sid SESSION_PROJECTION_TRANSCRIPT_LIMIT) (\<lambda>snapshot.
        bindE (record_snapshot cid digest snapshot now d) (\<lambda>d.
        Inr (d, Created snapshot, event)))))))))))))))"

definition create_session_follow_up_v2_inner ::
  "lib \<Rightarrow> (nat \<Rightarrow> uuid) \<Rightarrow> db \<Rightarrow> uuid option \<Rightarrow> uuid \<Rightarrow> uuid \<Rightarrow> nat \<Rightarrow> rstr \<Rightarrow> manifest
     \<Rightarrow> lease option \<Rightarrow> nat \<Rightarrow> storage_error + db \<times> created" where
  "create_session_follow_up_v2_inner L ids d cid sid t expected prompt baseline lease now =
     (let digest = follow_up_command_digest L sid expected prompt;
          legacy = legacy_follow_up_command_digest L sid expected prompt;
          text = redact L prompt
      in if trim text = [] then Inl (invalid ''session follow-up must not be empty'')
         else
         bindE (require_initial_lease L d sid lease now) (\<lambda>_.
         bindE (case cid of None \<Rightarrow> Inr None | Some c \<Rightarrow> command_replay L d c digest legacy) (\<lambda>replay.
         case replay of
           Some snapshot \<Rightarrow> Inr (d, Replayed snapshot, None)
         | None \<Rightarrow>
             bindE (follow_up_gate d sid expected) (\<lambda>(sr, parent).
               follow_up_writes L ids cid sr t parent text digest baseline lease now d))))"

subsection \<open>Switching the model, forking, renaming\<close>

definition switch_entry :: "uuid \<Rightarrow> nat \<Rightarrow> nat \<Rightarrow> session_provider_binding \<Rightarrow> nat \<Rightarrow> transcript_entry" where
  "switch_entry eid revision seq b now = \<lparr>te_entry_id = eid, te_sequence = seq, te_turn_id = None,
     te_kind = TkSystem,
     te_text = lit ''Model switched to '' @ pb_provider_name b @ lit ''/'' @ pb_model b,
     te_payload = Some (json_obj [(lit ''provider_name'', JStr (pb_provider_name b)),
                                  (lit ''model'', JStr (pb_model b))]),
     te_source_key = lit ''session:model:'' @ nat_text revision, te_created_at_ms = now\<rparr>"

definition switch_gate ::
  "lib \<Rightarrow> db \<Rightarrow> uuid \<Rightarrow> nat \<Rightarrow> session_provider_binding \<Rightarrow> lease \<Rightarrow> nat \<Rightarrow> storage_error + session_row"
where
  "switch_gate L d sid expected b l now =
     bindE (map_err InvalidData (binding_validate b)) (\<lambda>_.
     bindE (require_lease_scope l (session_lease_scope L sid)) (\<lambda>_.
     bindE (require_live_lease d (session_lease_scope L sid) l now) (\<lambda>_.
     bindE (ok_or (SessionNotFound sid) (find_session d sid)) (\<lambda>s.
     if sr_revision s \<noteq> expected then Inl (StaleSessionRevision expected (sr_revision s))
     else if sr_lifecycle s \<noteq> lit ''ready'' \<or> sql_exists (\<lambda>r. ar_session_id r = sid) (db_active d)
     then Inl (invalid ''model switching requires a ready session with no active child'')
     else if sr_binding s = b
     then Inl (invalid ''selected provider and model are already active'')
     else Inr s))))"

definition switch_session_binding_v2 ::
  "lib \<Rightarrow> (nat \<Rightarrow> uuid) \<Rightarrow> db \<Rightarrow> uuid \<Rightarrow> nat \<Rightarrow> session_provider_binding \<Rightarrow> lease \<Rightarrow> nat
     \<Rightarrow> storage_error + db \<times> session_commit_response" where
  "switch_session_binding_v2 L ids d sid expected b l now =
     bindE (switch_gate L d sid expected b l now) (\<lambda>s.
     bindE (ok_or (invalid ''session revision overflow'') (checked_add (sr_revision s) 1)) (\<lambda>revision.
     bindE (ok_or (invalid ''session sequence overflow'') (checked_add (sr_last_seq s) 1)) (\<lambda>seq.
     bindE (to_i64 seq) (\<lambda>seq.
     bindE (insert_outbox (outbox_row_of sid (switch_entry (ids 0) revision seq b now)) d) (\<lambda>d.
     bindE (to_i64 revision) (\<lambda>revision.
     let env = session_envelope (ids 1) sid revision seq
           (BindingChanged (pb_provider_name b) (pb_model b))
     in bindE (insert_session_event (session_event_row env now) d) (\<lambda>d.
        let d = d\<lparr>db_sessions := sql_update (\<lambda>r. sr_session_id r = sid)
              (\<lambda>r. r\<lparr>sr_revision := revision, sr_last_seq := seq, sr_binding := b,
                 sr_updated_at_ms := now\<rparr>) (db_sessions d)\<rparr>
        in bindE (current_session_snapshot L d sid SESSION_PROJECTION_TRANSCRIPT_LIMIT) (\<lambda>snapshot.
           Inr (d, \<lparr>rs_snapshot = snapshot,
             rs_session_event = \<lparr>ss_sequence = seq, ss_envelope = env\<rparr>\<rparr>)))))))))"

definition fork_entry :: "lib \<Rightarrow> uuid \<Rightarrow> uuid \<Rightarrow> transcript_entry \<Rightarrow> transcript_entry" where
  "fork_entry L source eid e = e\<lparr>te_entry_id := eid, te_turn_id := None,
     te_source_key := lit ''fork:'' @ uuid_text L source @ lit '':'' @ nat_text (te_sequence e),
     te_text := redact L (te_text e), te_payload := map_option (redact_value L) (te_payload e)\<rparr>"

fun fork_history ::
  "lib \<Rightarrow> (nat \<Rightarrow> uuid) \<Rightarrow> uuid \<Rightarrow> uuid \<Rightarrow> nat \<Rightarrow> nat \<Rightarrow> transcript_entry list \<Rightarrow> db \<Rightarrow> storage_error + db"
where
  "fork_history L ids source fork k previous [] d = Inr d"
| "fork_history L ids source fork k previous (e # es) d =
     (if te_sequence e \<le> previous
      then Inl (invalid ''fork history is not a strictly increasing sequence'')
      else
      bindE (to_i64 (te_sequence e)) (\<lambda>_.
      bindE (to_i64 (te_created_at_ms e)) (\<lambda>_.
      bindE (insert_outbox (outbox_row_of fork (fork_entry L source (ids k) e)) d)
        (fork_history L ids source fork (Suc k) (te_sequence e) es))))"

definition create_session_fork ::
  "lib \<Rightarrow> (nat \<Rightarrow> uuid) \<Rightarrow> db \<Rightarrow> uuid \<Rightarrow> uuid \<Rightarrow> transcript_entry list \<Rightarrow> rstr option \<Rightarrow> nat
     \<Rightarrow> storage_error + db" where
  "create_session_fork L ids d source fork history title now =
     bindE (ok_or (SessionNotFound source) (find_session d source)) (\<lambda>s.
     let name = session_title (scrub_secrets L)
           (case title of None \<Rightarrow> sr_title s @ lit '' (fork)'' | Some x \<Rightarrow> x);
         last_sequence = (if history = [] then 0 else te_sequence (last history))
     in bindE (to_i64 last_sequence) (\<lambda>last_sequence.
        bindE (to_i64 now) (\<lambda>now.
        bindE (insert_session \<lparr>sr_session_id = fork, sr_revision = 0, sr_last_seq = last_sequence,
          sr_lifecycle = lit ''ready'', sr_binding = sr_binding s, sr_latest_turn_id = None,
          sr_created_at_ms = now, sr_updated_at_ms = now, sr_focus = sr_focus s, sr_title = name,
          sr_workspace_root = sr_workspace_root s, sr_parent_session_id = Some source\<rparr> d)
          (fork_history L ids source fork 0 0 history))))"

definition rename_session :: "lib \<Rightarrow> db \<Rightarrow> uuid \<Rightarrow> rstr \<Rightarrow> storage_error + db" where
  "rename_session L d sid title =
     (if trim title = [] then Inl (invalid ''session title must not be empty'')
      else
      let name = session_title (scrub_secrets L) (trim title);
          P = (\<lambda>r. sr_session_id r = sid)
      in if sql_changes P (db_sessions d) = 0 then Inl (SessionNotFound sid)
         else Inr (d\<lparr>db_sessions := sql_update P (\<lambda>r. r\<lparr>sr_title := name\<rparr>) (db_sessions d)\<rparr>))"

definition create_run_with_baseline ::
  "db \<Rightarrow> turn_state \<Rightarrow> nat \<Rightarrow> manifest option \<Rightarrow> storage_error + db" where
  "create_run_with_baseline d s now baseline =
     bindE (to_i64 (ts_revision s)) (\<lambda>_. insert_child s 0 0 baseline now d)"

end
