(* ===== verification/Store_Recovery.thy ===== *)
theory Store_Recovery
  imports Store_Create
begin

text \<open>
  Recovery of stale coordinators (\<open>recover_linked_session_turn\<close>, \<open>release_lease\<close>,
  \<open>recover_session_after_lease_loss\<close>, \<open>interrupt_after_lease_loss\<close> and \<open>recover_at\<close> of
  \<open>storage.rs\<close>): a turn whose holder is gone is interrupted, its effects are settled
  conservatively, and a linked child's session is told.
\<close>

subsection \<open>A linked child\<close>

definition turn_effects :: "uuid \<Rightarrow> rstr \<Rightarrow> effect_row \<Rightarrow> bool" where
  "turn_effects t status r \<longleftrightarrow> ef_turn_id r = t \<and> ef_status r = status"

definition effect_ids :: "uuid \<Rightarrow> rstr \<Rightarrow> db \<Rightarrow> rstr list" where
  "effect_ids t status d = map ef_effect_id (filter (turn_effects t status) (db_effects d))"

text \<open>
  Prepared effects did not start: they end as failed. Started ones may have happened:
  they become unknown. Open permissions are used up.
\<close>

definition settle_turn_effects :: "uuid \<Rightarrow> nat \<Rightarrow> db \<Rightarrow> db" where
  "settle_turn_effects t now d =
     (let d1 = d\<lparr>db_permissions := sql_update
            (\<lambda>r. pm_turn_id r = t \<and> pm_consumed_at_ms r = None) (consume_row now)
            (db_permissions d)\<rparr>;
          d2 = d1\<lparr>db_effects := sql_update (turn_effects t (lit ''prepared''))
            (observe_row (lit ''observed_failed'') (lit ''{\"recovery\":\"not_started\"}'') now)
            (db_effects d1)\<rparr>
      in d2\<lparr>db_effects := sql_update (turn_effects t (lit ''started''))
           (observe_row (lit ''unknown'') (lit ''{\"outcome\":\"lease_lost_after_start\"}'') now)
           (db_effects d2)\<rparr>)"

definition interrupted_state :: "turn_state \<Rightarrow> nat \<Rightarrow> turn_state" where
  "interrupted_state s revision = s\<lparr>ts_status := Interrupted, ts_revision := revision,
     ts_pending_input := None, ts_pending_permission := None\<rparr>"

definition recovery_key :: "lib \<Rightarrow> uuid \<Rightarrow> nat \<Rightarrow> rstr \<Rightarrow> rstr" where
  "recovery_key L t revision what =
     lit ''recovery:'' @ uuid_text L t @ lit '':'' @ nat_text revision @ lit '':'' @ what"

definition recovery_entry ::
  "lib \<Rightarrow> uuid \<Rightarrow> nat \<Rightarrow> uuid \<Rightarrow> nat \<Rightarrow> transcript_kind \<times> rstr \<times> json option \<times> rstr
     \<Rightarrow> transcript_entry" where
  "recovery_entry L eid seq t now c = (case c of (kind, text, payload, key) \<Rightarrow>
     \<lparr>te_entry_id = eid, te_sequence = seq, te_turn_id = Some t, te_kind = kind,
      te_text = redact L text, te_payload = map_option (redact_value L) payload,
      te_source_key = key, te_created_at_ms = now\<rparr>)"

definition append_recovery_card ::
  "lib \<Rightarrow> uuid \<Rightarrow> uuid \<Rightarrow> uuid \<Rightarrow> uuid \<Rightarrow> nat \<Rightarrow> nat
     \<Rightarrow> transcript_kind \<times> rstr \<times> json option \<times> rstr \<Rightarrow> nat \<Rightarrow> db \<Rightarrow> storage_error + db \<times> nat" where
  "append_recovery_card L eid evid sid t revision now entry_data last_seq d =
     bindE (ok_or (invalid ''session sequence overflow during recovery'') (checked_add last_seq 1))
       (\<lambda>seq.
     let entry = recovery_entry L eid seq t now entry_data in
     bindE (to_i64 seq) (\<lambda>seq.
     bindE (insert_outbox (outbox_row_of sid entry) d) (\<lambda>d.
     bindE (to_i64 revision) (\<lambda>revision.
     bindE (insert_session_event (session_event_row
       (session_envelope evid sid revision seq (TranscriptAppended entry)) now) d) (\<lambda>d.
     Inr (d, seq))))))"

fun append_recovery_cards ::
  "lib \<Rightarrow> (nat \<Rightarrow> uuid) \<Rightarrow> nat \<Rightarrow> uuid \<Rightarrow> uuid \<Rightarrow> nat \<Rightarrow> nat
     \<Rightarrow> (transcript_kind \<times> rstr \<times> json option \<times> rstr) list \<Rightarrow> nat \<Rightarrow> db \<Rightarrow> storage_error + db \<times> nat"
where
  "append_recovery_cards L ids k sid t revision now [] last_seq d = Inr (d, last_seq)"
| "append_recovery_cards L ids k sid t revision now (c # cs) last_seq d =
     bindE (append_recovery_card L (ids k) (ids (k + 1)) sid t revision now c last_seq d)
       (\<lambda>(d, seq). append_recovery_cards L ids (k + 2) sid t revision now cs seq d)"

definition effect_card ::
  "lib \<Rightarrow> rstr \<Rightarrow> rstr \<Rightarrow> rstr \<Rightarrow> rstr \<Rightarrow> transcript_kind \<times> rstr \<times> json option \<times> rstr" where
  "effect_card L text status eid key = (TkFailure, text,
     Some (json_obj [(lit ''effect_id'', JStr (redact L eid)), (lit ''status'', JStr status)]), key)"

definition recovery_cards ::
  "lib \<Rightarrow> uuid \<Rightarrow> nat \<Rightarrow> rstr list \<Rightarrow> rstr list \<Rightarrow> (transcript_kind \<times> rstr \<times> json option \<times> rstr) list"
where
  "recovery_cards L t revision started prepared =
     (TkSystem, lit ''lease authority lost; linked turn interrupted'',
       Some (json_obj [(lit ''recovery'', JStr (lit ''lease_lost''))]),
       recovery_key L t revision (lit ''interrupted''))
     # map (\<lambda>(i, eid). effect_card L (lit ''effect outcome unknown; reconciliation required'')
         (lit ''unknown'') eid (recovery_key L t revision (lit ''unknown:'' @ nat_text i)))
         (enumerate 0 started)
     @ map (\<lambda>(i, eid). effect_card L
         (lit ''prepared effect terminalized before external execution'')
         (lit ''not_started'') eid (recovery_key L t revision (lit ''prepared:'' @ nat_text i)))
         (enumerate 0 prepared)"

definition stale_fence :: "lib \<Rightarrow> uuid \<Rightarrow> nat \<Rightarrow> lease" where
  "stale_fence L sid token = \<lparr>ls_scope = session_lease_scope L sid, ls_owner = lit ''recovery'',
     ls_fencing_token = token, ls_expires_at_ms = 0\<rparr>"

text \<open>The child is interrupted and its active row removed.\<close>

definition recover_turn ::
  "lib \<Rightarrow> (nat \<Rightarrow> uuid) \<Rightarrow> uuid \<Rightarrow> turn_row \<Rightarrow> nat \<Rightarrow> nat \<Rightarrow> db \<Rightarrow> storage_error + db" where
  "recover_turn L ids sid r token now d =
     (let t = tr_turn_id r; current = tr_state r in
     bindE (to_i64 now) (\<lambda>now.
     bindE (ok_or (invalid ''revision overflow during recovery'')
       (checked_add (ts_revision current) 1)) (\<lambda>revision.
     bindE (append_linked_turn_transition ids current (interrupted_state current revision)
       (tr_last_seq r) (stale_fence L sid token) now (settle_turn_effects t now d)) (\<lambda>d.
     Inr (d\<lparr>db_session_turns := sql_update (\<lambda>x. st_session_id x = sid \<and> st_turn_id x = t)
              (\<lambda>x. x\<lparr>st_completed_at_ms := Some now\<rparr>) (db_session_turns d),
            db_active := sql_delete (\<lambda>x. ar_session_id x = sid \<and> ar_turn_id x = t
              \<and> ar_lease_token x = token) (db_active d)\<rparr>)))))"

definition recovery_event :: "lib \<Rightarrow> uuid \<Rightarrow> rstr list \<Rightarrow> session_event" where
  "recovery_event L t started = (case started of
     [] \<Rightarrow> LifecycleChanged LcInterrupted (Some t)
   | eid # _ \<Rightarrow> ReconciliationRequiredEv t (redact L eid))"

definition recover_session ::
  "lib \<Rightarrow> (nat \<Rightarrow> uuid) \<Rightarrow> session_row \<Rightarrow> turn_row \<Rightarrow> rstr list \<Rightarrow> rstr list \<Rightarrow> nat \<Rightarrow> db
     \<Rightarrow> storage_error + db \<times> session_commit_response" where
  "recover_session L ids s r started prepared now d =
     (let sid = sr_session_id s; t = tr_turn_id r in
     bindE (ok_or (invalid ''session revision overflow during recovery'')
       (checked_add (sr_revision s) 1)) (\<lambda>revision.
     bindE (append_recovery_cards L ids 2 sid t revision now
       (recovery_cards L t (ts_revision (tr_state r)) started prepared) (sr_last_seq s) d)
       (\<lambda>(d, last_seq).
     bindE (ok_or (invalid ''session sequence overflow during recovery'') (checked_add last_seq 1))
       (\<lambda>seq.
     bindE (to_i64 seq) (\<lambda>seq.
     bindE (to_i64 revision) (\<lambda>revision.
     let env = session_envelope (ids 1) sid revision seq (recovery_event L t started)
     in bindE (insert_session_event (session_event_row env now) d) (\<lambda>d.
        let d = d\<lparr>db_sessions := sql_update (\<lambda>x. sr_session_id x = sid)
              (\<lambda>x. x\<lparr>sr_revision := revision, sr_last_seq := seq,
                 sr_lifecycle := (if started = [] then lit ''interrupted''
                                  else lit ''reconciliation_required''),
                 sr_latest_turn_id := Some t, sr_updated_at_ms := now\<rparr>) (db_sessions d)\<rparr>
        in bindE (Store_Snapshot.session_snapshot L d sid None 100) (\<lambda>snapshot.
           Inr (d, \<lparr>rs_snapshot = snapshot,
             rs_session_event = \<lparr>ss_sequence = seq, ss_envelope = env\<rparr>\<rparr>)))))))))"

definition recover_linked_session_turn ::
  "lib \<Rightarrow> (nat \<Rightarrow> uuid) \<Rightarrow> db \<Rightarrow> uuid \<Rightarrow> uuid \<Rightarrow> nat \<Rightarrow> nat option \<Rightarrow> nat
     \<Rightarrow> storage_error + db \<times> session_commit_response option" where
  "recover_linked_session_turn L ids d sid t token expected now =
     (case active_turn d sid of
        None \<Rightarrow> Inr (d, None)
      | Some a \<Rightarrow>
          if ar_turn_id a \<noteq> t \<or> ar_lease_token a \<noteq> token then Inr (d, None)
          else
          bindE (ok_or (Sql QueryReturnedNoRows) (find_turn d t)) (\<lambda>r.
          if tr_lease_token r \<noteq> token then Inr (d, None)
          else if (case expected of None \<Rightarrow> False | Some n \<Rightarrow> n \<noteq> ts_revision (tr_state r))
             \<or> terminal_status (ts_status (tr_state r))
          then Inr (d, None)
          else
          bindE (ok_or (SessionNotFound sid) (find_session d sid)) (\<lambda>s.
          let started = effect_ids t (lit ''started'') d;
              prepared = effect_ids t (lit ''prepared'') d
          in bindE (recover_turn L ids sid r token now d) (\<lambda>d.
             bindE (recover_session L ids s r started prepared now d) (\<lambda>(d, response).
             Inr (d, Some response))))))"

subsection \<open>Releasing a lease\<close>

text \<open>
  A child that waits is at a clean boundary: its tokens become zero. Any other child of
  the released lease is recovered.
\<close>

definition held_active :: "uuid \<Rightarrow> nat \<Rightarrow> active_row \<Rightarrow> bool" where
  "held_active sid token a \<longleftrightarrow> ar_session_id a = sid \<and> ar_lease_token a = token"

definition waiting_child :: "db \<Rightarrow> uuid \<Rightarrow> nat \<Rightarrow> turn_row \<Rightarrow> bool" where
  "waiting_child d sid token r \<longleftrightarrow>
     map_option ar_turn_id (find (held_active sid token) (db_active d)) = Some (tr_turn_id r)
     \<and> tr_lease_token r = token
     \<and> tr_status r \<in> {lit ''waiting_permission'', lit ''waiting_input''}"

definition quiesce_turns :: "db \<Rightarrow> uuid \<Rightarrow> nat \<Rightarrow> db" where
  "quiesce_turns d sid token = d\<lparr>db_turns := sql_update (waiting_child d sid token)
     (\<lambda>r. r\<lparr>tr_lease_token := 0\<rparr>) (db_turns d)\<rparr>"

definition release_session ::
  "lib \<Rightarrow> (nat \<Rightarrow> uuid) \<Rightarrow> db \<Rightarrow> uuid \<Rightarrow> nat \<Rightarrow> nat
     \<Rightarrow> storage_error + db \<times> session_commit_response option" where
  "release_session L ids d sid token now =
     (let quiesced = quiesce_turns d sid token
      in if sql_changes (waiting_child d sid token) (db_turns d) = 1
         then (if sql_changes (held_active sid token) (db_active d) \<noteq> 1 then Inl LeaseLost
               else Inr (quiesced\<lparr>db_active := sql_update (held_active sid token)
                      (\<lambda>a. a\<lparr>ar_lease_token := 0\<rparr>) (db_active d)\<rparr>, None))
         else (case active_turn d sid of
                 Some a \<Rightarrow>
                   if ar_lease_token a = token
                   then recover_linked_session_turn L ids quiesced sid (ar_turn_id a) token None now
                   else Inr (quiesced, None)
               | None \<Rightarrow> Inr (quiesced, None)))"

definition release_lease ::
  "lib \<Rightarrow> (nat \<Rightarrow> uuid) \<Rightarrow> db \<Rightarrow> lease \<Rightarrow> nat
     \<Rightarrow> storage_error + db \<times> session_commit_response option" where
  "release_lease L ids d l now =
     bindE (case strip_prefix (lit ''session:'') (ls_scope l) of
              None \<Rightarrow> Inr (d, None)
            | Some text \<Rightarrow>
                bindE (parse_session_id L text) (\<lambda>sid.
                bindE (to_i64 (ls_fencing_token l)) (\<lambda>token.
                release_session L ids d sid token now))) (\<lambda>(d, recovery).
     bindE (to_i64 (ls_fencing_token l)) (\<lambda>token.
     let P = holds_row (ls_scope l) (ls_owner l) token
     in if sql_changes P (db_leases d) \<noteq> 1 then Inl LeaseLost
        else Inr (d\<lparr>db_leases := sql_delete P (db_leases d)\<rparr>, recovery)))"

subsection \<open>After a lost lease\<close>

definition recover_session_after_lease_loss ::
  "lib \<Rightarrow> (nat \<Rightarrow> uuid) \<Rightarrow> db \<Rightarrow> uuid \<Rightarrow> uuid \<Rightarrow> lease \<Rightarrow> nat \<Rightarrow> nat
     \<Rightarrow> storage_error + db \<times> session_lease_loss_recovery" where
  "recover_session_after_lease_loss L ids d sid t l expected now =
     bindE (require_lease_scope l (session_lease_scope L sid)) (\<lambda>_.
     bindE (to_i64 (ls_fencing_token l)) (\<lambda>token.
     bindE (to_i64 now) (\<lambda>now.
     if lease_live d (session_lease_scope L sid) (ls_owner l) token now
     then Inl (invalid ''lease is still authoritative'')
     else
     bindE (ok_or (TurnNotFound t) (find_turn d t)) (\<lambda>r.
     if terminal_status (ts_status (tr_state r))
     then bindE (current_session_snapshot L d sid SESSION_PROJECTION_TRANSCRIPT_LIMIT) (\<lambda>s.
          Inr (d, AlreadyTerminal s))
     else
     bindE (recover_linked_session_turn L ids d sid t token (Some expected) now) (\<lambda>(d, response).
     case response of
       None \<Rightarrow> Inr (d, FencedNoop)
     | Some resp \<Rightarrow> Inr (d, Recovered resp))))))"

text \<open>
  An unlinked run is interrupted in place; \<open>updated\<close> is the new \<open>updated_at_ms\<close> where the
  statement sets one.
\<close>

definition interrupt_unlinked ::
  "uuid \<Rightarrow> turn_row \<Rightarrow> nat option \<Rightarrow> rstr \<Rightarrow> rstr \<Rightarrow> nat \<Rightarrow> db \<Rightarrow> storage_error + db \<times> turn_state" where
  "interrupt_unlinked eid r updated revision_error sequence_error now d =
     (let t = tr_turn_id r in
     bindE (ok_or (InvalidData revision_error) (checked_add (ts_revision (tr_state r)) 1))
       (\<lambda>revision.
     let s = (tr_state r)\<lparr>ts_status := Interrupted, ts_revision := revision\<rparr> in
     bindE (ok_or (InvalidData sequence_error) (checked_add (tr_last_seq r) 1)) (\<lambda>seq.
     bindE (to_i64 seq) (\<lambda>seq.
     bindE (to_i64 revision) (\<lambda>revision.
     bindE (insert_event (turn_event_row (turn_envelope eid s (StateChanged Interrupted)) seq now) d)
       (\<lambda>d.
     let d = update_read_model t seq s (d\<lparr>db_turns := sql_update (\<lambda>x. tr_turn_id x = t)
           (\<lambda>x. x\<lparr>tr_state := s, tr_status := lit ''interrupted'', tr_revision := revision,
              tr_last_seq := seq, tr_updated_at_ms :=
                (case updated of None \<Rightarrow> tr_updated_at_ms x | Some m \<Rightarrow> m)\<rparr>) (db_turns d)\<rparr>)
     in Inr (d\<lparr>db_effects := sql_update (turn_effects t (lit ''started''))
               (\<lambda>x. x\<lparr>ef_status := lit ''unknown''\<rparr>) (db_effects d)\<rparr>, s)))))))"

definition interrupt_after_lease_loss ::
  "(nat \<Rightarrow> uuid) \<Rightarrow> db \<Rightarrow> uuid \<Rightarrow> lease \<Rightarrow> nat \<Rightarrow> nat \<Rightarrow> storage_error + db \<times> lease_loss_recovery" where
  "interrupt_after_lease_loss ids d t l expected now =
     bindE (require_legacy_runtime_lease l) (\<lambda>_.
     bindE (to_i64 (ls_fencing_token l)) (\<lambda>token.
     bindE (to_i64 now) (\<lambda>now.
     if lease_live d (ls_scope l) (ls_owner l) token now
     then Inl (invalid ''lease is still authoritative'')
     else
     bindE (ok_or (Sql QueryReturnedNoRows) (find_turn d t)) (\<lambda>r.
     if tr_lease_token r \<noteq> token \<or> ts_revision (tr_state r) \<noteq> expected
     then Inr (d, LossFencedNoop)
     else if ts_status (tr_state r) \<notin> {Running, Cancelling}
     then Inr (d, LossAlreadyTerminal (tr_state r))
     else
     bindE (interrupt_unlinked (ids 0) r (Some now) (lit ''revision overflow'')
       (lit ''sequence overflow'') now d) (\<lambda>(d, s). Inr (d, LossInterrupted s))))))"

subsection \<open>Startup\<close>

definition stale_linked :: "lib \<Rightarrow> db \<Rightarrow> nat \<Rightarrow> (uuid \<times> uuid \<times> nat) list" where
  "stale_linked L d now = concat (map (\<lambda>a. map (\<lambda>r. (ar_session_id a, ar_turn_id a, tr_lease_token r))
     (filter (\<lambda>r. tr_turn_id r = ar_turn_id a
        \<and> tr_status r \<in> {lit ''queued'', lit ''running'', lit ''cancelling'',
            lit ''waiting_permission'', lit ''waiting_input''}
        \<and> tr_lease_token r \<noteq> 0
        \<and> \<not> sql_exists (\<lambda>l. lr_scope l = session_lease_scope L (ar_session_id a)
              \<and> lr_token l = tr_lease_token r \<and> lr_expires_at_ms l > now) (db_leases d))
       (db_turns d))) (db_active d))"

fun recover_all_linked ::
  "lib \<Rightarrow> (nat \<Rightarrow> nat \<Rightarrow> uuid) \<Rightarrow> nat \<Rightarrow> nat \<Rightarrow> (uuid \<times> uuid \<times> nat) list \<Rightarrow> db
     \<Rightarrow> storage_error + db \<times> session_commit_response list" where
  "recover_all_linked L ids i now [] d = Inr (d, [])"
| "recover_all_linked L ids i now ((sid, t, token) # rows) d =
     bindE (recover_linked_session_turn L (ids i) d sid t token None now) (\<lambda>(d, response).
     bindE (recover_all_linked L ids (Suc i) now rows d) (\<lambda>(d, responses).
     Inr (d, (case response of None \<Rightarrow> responses | Some resp \<Rightarrow> resp # responses))))"

definition stale_unlinked :: "db \<Rightarrow> nat \<Rightarrow> turn_row list" where
  "stale_unlinked d now = filter (\<lambda>r. tr_status r \<in> {lit ''running'', lit ''cancelling''}
     \<and> unlinked d r
     \<and> \<not> sql_exists (\<lambda>l. lr_scope l = lit ''runtime'' \<and> lr_token l = tr_lease_token r
           \<and> lr_expires_at_ms l > now) (db_leases d)) (db_turns d)"

fun recover_all_unlinked ::
  "(nat \<Rightarrow> nat \<Rightarrow> uuid) \<Rightarrow> nat \<Rightarrow> nat \<Rightarrow> turn_row list \<Rightarrow> db \<Rightarrow> storage_error + db" where
  "recover_all_unlinked ids i now [] d = Inr d"
| "recover_all_unlinked ids i now (r # rows) d =
     bindE (interrupt_unlinked (ids i 0) r None (lit ''revision overflow during recovery'')
       (lit ''event sequence overflow during recovery'') now d)
       (\<lambda>(d, _). recover_all_unlinked ids (Suc i) now rows d)"

definition recover_at ::
  "lib \<Rightarrow> (nat \<Rightarrow> nat \<Rightarrow> uuid) \<Rightarrow> db \<Rightarrow> nat \<Rightarrow> storage_error + db \<times> session_commit_response list" where
  "recover_at L ids d now =
     bindE (to_i64 now) (\<lambda>now.
     let linked_rows = stale_linked L d now in
     bindE (recover_all_linked L ids 0 now linked_rows d) (\<lambda>(d, responses).
     bindE (recover_all_unlinked ids (length linked_rows) now (stale_unlinked d now) d) (\<lambda>d.
     Inr (d, responses))))"

end
