(* ===== verification/Store_Runs.thy ===== *)
theory Store_Runs
  imports Store_Recovery
begin

text \<open>
  The operations of \<open>storage.rs\<close> on unlinked v1 runs under the \<open>runtime\<close> lease:
  transitions, single-use permissions and their effects, checkpoints, verification
  evidence and verified completion; and the guards that \<open>latte-engine/src/lib.rs\<close> puts
  before them, which keep linked children out.
\<close>

subsection \<open>Transitions\<close>

definition stored_turn_event :: "uuid \<Rightarrow> turn_state \<Rightarrow> runtime_event \<Rightarrow> nat \<Rightarrow> stored_event" where
  "stored_turn_event eid s ev seq = \<lparr>sto_sequence = seq, sto_envelope = turn_envelope eid s ev\<rparr>"

text \<open>The event, then the state row of the run, which must still be at \<open>expected\<close>.\<close>

definition advance_run ::
  "uuid \<Rightarrow> turn_row \<Rightarrow> turn_state \<Rightarrow> runtime_event \<Rightarrow> (turn_row \<Rightarrow> bool) \<Rightarrow> rstr \<Rightarrow> nat \<Rightarrow> nat \<Rightarrow> db
     \<Rightarrow> storage_error + db \<times> stored_event" where
  "advance_run eid r s ev P overflow token now d =
     bindE (ok_or (InvalidData overflow) (checked_add (tr_last_seq r) 1)) (\<lambda>seq.
     bindE (to_i64 seq) (\<lambda>seq.
     bindE (to_i64 (ts_revision s)) (\<lambda>revision.
     bindE (insert_event (turn_event_row (turn_envelope eid s ev) seq now) d) (\<lambda>d.
     let d = d\<lparr>db_turns := sql_update (\<lambda>x. tr_turn_id x = tr_turn_id r \<and> P x)
           (\<lambda>x. x\<lparr>tr_state := s, tr_status := status_name (ts_status s), tr_revision := revision,
              tr_last_seq := seq, tr_lease_token := token, tr_updated_at_ms := now\<rparr>) (db_turns d)\<rparr>
     in Inr (update_read_model (tr_turn_id r) seq s d, stored_turn_event eid s ev seq)))))"

text \<open>The checks every fenced run operation begins with.\<close>

definition run_gate :: "db \<Rightarrow> uuid \<Rightarrow> nat \<Rightarrow> lease \<Rightarrow> nat \<Rightarrow> storage_error + turn_row" where
  "run_gate d t expected l now =
     bindE (require_legacy_runtime_lease l) (\<lambda>_.
     bindE (require_live_lease d (ls_scope l) l now) (\<lambda>_.
     bindE (ok_or (Sql QueryReturnedNoRows) (find_turn d t)) (\<lambda>r.
     if ts_revision (tr_state r) \<noteq> expected
     then Inl (StaleTurnRevision expected (ts_revision (tr_state r)))
     else if tr_lease_token r > ls_fencing_token l then Inl LeaseLost
     else Inr r)))"

definition store_apply_transition ::
  "(nat \<Rightarrow> uuid) \<Rightarrow> db \<Rightarrow> uuid \<Rightarrow> nat \<Rightarrow> transition \<Rightarrow> nat \<Rightarrow> lease
     \<Rightarrow> storage_error + db \<times> turn_state \<times> stored_event" where
  "store_apply_transition ids d t expected tr now l =
     bindE (run_gate d t expected l now) (\<lambda>r.
     bindE (lift_transition (turn_transition (tr_state r) expected tr)) (\<lambda>s.
     bindE (advance_run (ids 0) r s (turn_event s) (\<lambda>x. tr_revision x = expected)
       (lit ''event sequence overflow'') (ls_fencing_token l) now d) (\<lambda>(d, ev).
     Inr (d, s, ev))))"

definition cancel_failure :: "bool \<Rightarrow> turn_failure" where
  "cancel_failure denied = \<lparr>tf_code = (if denied then PermissionDenied else Cancelled),
     tf_message = (if denied then lit ''permission denied''
                   else lit ''run cancelled while waiting''),
     tf_retryability = Terminal\<rparr>"

text \<open>The permission a waiting run is bound to is withdrawn with its prepared effect.\<close>

definition drop_permission ::
  "uuid \<Rightarrow> pending_permission \<Rightarrow> rstr \<Rightarrow> nat \<Rightarrow> db \<Rightarrow> storage_error + db" where
  "drop_permission t p post now d =
     (let P = (\<lambda>x. pm_effect_id x = pp_request_id p \<and> pm_turn_id x = t
                 \<and> pm_approval_digest x = pp_operation_digest p \<and> pm_consumed_at_ms x = None);
          E = effect_of (pp_request_id p) t (lit ''prepared'')
      in if sql_changes P (db_permissions d) \<noteq> 1
         then Inl (invalid ''waiting permission binding is not prepared'')
         else if sql_changes E (db_effects d) \<noteq> 1
         then Inl (invalid ''prepared effect cancellation failed'')
         else Inr (d\<lparr>db_permissions := sql_delete P (db_permissions d),
                     db_effects := sql_update E (observe_row (lit ''observed_failed'') post now)
                       (db_effects d)\<rparr>))"

definition cancel_waiting ::
  "(nat \<Rightarrow> uuid) \<Rightarrow> db \<Rightarrow> uuid \<Rightarrow> nat \<Rightarrow> lease \<Rightarrow> nat \<Rightarrow> bool
     \<Rightarrow> storage_error + db \<times> turn_state \<times> stored_event option" where
  "cancel_waiting ids d t expected l now denied =
     bindE (run_gate d t expected l now) (\<lambda>r.
     let current = tr_state r in
     if terminal_status (ts_status current) then Inr (d, current, None)
     else if denied \<and> ts_status current \<noteq> WaitingPermission
     then Inl (invalid ''turn is not waiting for permission'')
     else if ts_status current \<notin> {WaitingPermission, WaitingInput}
     then Inl (invalid ''turn is not waiting'')
     else
     bindE (case ts_pending_permission current of
              None \<Rightarrow> Inr d
            | Some p \<Rightarrow> drop_permission t p
                (if denied then lit ''{\"denied\":true}'' else lit ''{\"cancelled\":true}'') now d)
       (\<lambda>d.
     bindE (ok_or (invalid ''revision overflow'') (checked_add (ts_revision current) 1)) (\<lambda>revision.
     let s = current\<lparr>ts_revision := revision, ts_status := Failed, ts_pending_permission := None,
           ts_pending_input := None, ts_failure := Some (cancel_failure denied)\<rparr>
     in bindE (advance_run (ids 0) r s (StateChanged Failed) (\<lambda>x. tr_revision x = expected)
          (lit ''sequence overflow'') (ls_fencing_token l) now d) (\<lambda>(d, ev).
        Inr (d\<lparr>db_checkpoints := sql_delete (\<lambda>x. ck_turn_id x = t) (db_checkpoints d)\<rparr>,
             s, Some ev)))))"

subsection \<open>Permissions and effects\<close>

definition run_row :: "uuid \<Rightarrow> nat \<Rightarrow> nat \<Rightarrow> turn_row \<Rightarrow> bool" where
  "run_row t revision token r \<longleftrightarrow>
     tr_turn_id r = t \<and> tr_revision r = revision \<and> tr_lease_token r = token"

definition run_authority :: "db \<Rightarrow> uuid \<Rightarrow> nat \<Rightarrow> lease \<Rightarrow> nat \<Rightarrow> bool" where
  "run_authority d t revision l now \<longleftrightarrow>
     lease_live d (ls_scope l) (ls_owner l) (ls_fencing_token l) now
     \<and> sql_exists (run_row t revision (ls_fencing_token l)) (db_turns d)"

definition authority_effect :: "effect_authority \<Rightarrow> effect_row \<Rightarrow> bool" where
  "authority_effect a r \<longleftrightarrow> effect_of (au_effect_id a) (au_turn_id a) (lit ''started'') r
     \<and> ef_attempt r = au_attempt a \<and> ef_approval_digest r = Some (au_digest a)"

definition finish_effect ::
  "lib \<Rightarrow> db \<Rightarrow> effect_authority \<Rightarrow> bool \<Rightarrow> rstr \<Rightarrow> nat \<Rightarrow> storage_error + db" where
  "finish_effect L d a success post now =
     bindE (require_legacy_runtime_lease (au_lease a)) (\<lambda>_.
     bindE (parse_json L post) (\<lambda>_.
     bindE (to_i64 now) (\<lambda>now.
     bindE (to_i64 (au_attempt a)) (\<lambda>_.
     bindE (to_i64 (ls_fencing_token (au_lease a))) (\<lambda>_.
     bindE (to_i64 (au_expected_revision a)) (\<lambda>_.
     settle_effect (\<lambda>r. authority_effect a r
         \<and> run_authority d (au_turn_id a) (au_expected_revision a) (au_lease a) now)
       (if success then lit ''observed_success'' else lit ''observed_failed'') post now
       EffectFenced d))))))"

definition mark_effect_unknown :: "db \<Rightarrow> effect_authority \<Rightarrow> nat \<Rightarrow> storage_error + db" where
  "mark_effect_unknown d a now =
     bindE (require_legacy_runtime_lease (au_lease a)) (\<lambda>_.
     bindE (to_i64 now) (\<lambda>now.
     bindE (to_i64 (au_attempt a)) (\<lambda>_.
     bindE (to_i64 (ls_fencing_token (au_lease a))) (\<lambda>_.
     bindE (to_i64 (au_expected_revision a)) (\<lambda>_.
     let P = (\<lambda>r. authority_effect a r
         \<and> run_authority d (au_turn_id a) (au_expected_revision a) (au_lease a) now)
     in if sql_changes P (db_effects d) \<noteq> 1 then Inl EffectFenced
        else Inr (d\<lparr>db_effects := sql_update P
          (\<lambda>r. r\<lparr>ef_status := lit ''unknown'', ef_observed_at_ms := Some now\<rparr>) (db_effects d)\<rparr>))))))"

definition permission_for ::
  "rstr \<Rightarrow> uuid \<Rightarrow> nat \<Rightarrow> lease \<Rightarrow> rstr \<Rightarrow> permission_row" where
  "permission_for eid t revision l digest = \<lparr>pm_effect_id = eid, pm_turn_id = t,
     pm_turn_revision = revision, pm_lease_owner = ls_owner l, pm_lease_token = ls_fencing_token l,
     pm_approval_digest = digest, pm_consumed_at_ms = None\<rparr>"

definition insert_prepared ::
  "rstr \<Rightarrow> uuid \<Rightarrow> nat \<Rightarrow> nat \<Rightarrow> rstr \<Rightarrow> rstr \<Rightarrow> lease \<Rightarrow> nat \<Rightarrow> db \<Rightarrow> storage_error + db" where
  "insert_prepared eid t bound_revision attempt descriptor digest l now d =
     bindE (to_i64 attempt) (\<lambda>attempt.
     bindE (insert_effect (prepared_row eid t now attempt descriptor digest (lit ''{}'')) d) (\<lambda>d.
     bindE (to_i64 bound_revision) (\<lambda>bound_revision.
     insert_permission (permission_for eid t bound_revision l digest) d)))"

definition create_prepared_permission ::
  "lib \<Rightarrow> db \<Rightarrow> rstr \<Rightarrow> uuid \<Rightarrow> nat \<Rightarrow> nat \<Rightarrow> nat \<Rightarrow> rstr \<Rightarrow> rstr \<Rightarrow> lease \<Rightarrow> nat \<Rightarrow> storage_error + db"
where
  "create_prepared_permission L d eid t expected bound_revision attempt descriptor digest l now =
     bindE (require_legacy_runtime_lease l) (\<lambda>_.
     bindE (parse_json L descriptor) (\<lambda>_.
     bindE (to_i64 (ls_fencing_token l)) (\<lambda>_.
     bindE (to_i64 now) (\<lambda>now.
     bindE (to_i64 expected) (\<lambda>expected.
     if \<not> run_authority d t expected l now then Inl LeaseLost
     else insert_prepared eid t bound_revision attempt descriptor digest l now d)))))"

definition consumable :: "rstr \<Rightarrow> uuid \<Rightarrow> nat \<Rightarrow> lease \<Rightarrow> rstr \<Rightarrow> permission_row \<Rightarrow> bool" where
  "consumable eid t revision l digest p \<longleftrightarrow> pm_effect_id p = eid \<and> pm_turn_id p = t
     \<and> pm_turn_revision p = revision \<and> pm_lease_owner p = ls_owner l
     \<and> pm_lease_token p = ls_fencing_token l \<and> pm_approval_digest p = digest
     \<and> pm_consumed_at_ms p = None"

definition consume_permission_and_start ::
  "db \<Rightarrow> rstr \<Rightarrow> uuid \<Rightarrow> nat \<Rightarrow> lease \<Rightarrow> rstr \<Rightarrow> nat \<Rightarrow> storage_error + db \<times> effect_authority" where
  "consume_permission_and_start d eid t revision l digest now =
     bindE (require_legacy_runtime_lease l) (\<lambda>_.
     bindE (to_i64 now) (\<lambda>now.
     bindE (to_i64 revision) (\<lambda>revision.
     bindE (to_i64 (ls_fencing_token l)) (\<lambda>token.
     let P = (\<lambda>p. consumable eid t revision l digest p
           \<and> sql_exists (\<lambda>r. tr_turn_id r = t \<and> tr_revision r = revision) (db_turns d)
           \<and> lease_live d (ls_scope l) (ls_owner l) token now);
         E = (\<lambda>r. ef_effect_id r = eid \<and> ef_status r = lit ''prepared''
           \<and> ef_approval_digest r = Some digest);
         d1 = d\<lparr>db_permissions := sql_update P (consume_row now) (db_permissions d)\<rparr>;
         d2 = d1\<lparr>db_effects := sql_update E
           (\<lambda>r. r\<lparr>ef_status := lit ''started'', ef_started_at_ms := now\<rparr>) (db_effects d1)\<rparr>;
         T = run_row t revision token;
         d3 = d2\<lparr>db_turns := sql_update T (\<lambda>r. r\<lparr>tr_effect_epoch := tr_effect_epoch r + 1\<rparr>)
           (db_turns d2)\<rparr>
     in if sql_changes P (db_permissions d) \<noteq> 1
        then Inl (invalid ''permission is stale, mismatched, consumed, or lease-invalid'')
        else if sql_changes E (db_effects d1) \<noteq> 1
        then Inl (invalid ''effect preparation or approval digest mismatch'')
        else if sql_changes T (db_turns d2) \<noteq> 1 then Inl LeaseLost
        else
        bindE (ok_or (Sql QueryReturnedNoRows) (find (\<lambda>r. ef_effect_id r = eid) (db_effects d3)))
          (\<lambda>r. Inr (d3, \<lparr>au_turn_id = t, au_expected_revision = revision, au_lease = l,
             au_effect_id = eid, au_digest = digest, au_attempt = ef_attempt r\<rparr>))))))"

definition replaceable :: "db \<Rightarrow> rstr \<Rightarrow> uuid \<Rightarrow> lease \<Rightarrow> bool" where
  "replaceable d eid t l \<longleftrightarrow>
     sql_exists (\<lambda>p. pm_turn_id p = t \<and> pm_effect_id p = eid \<and> pm_consumed_at_ms p = None
       \<and> (pm_lease_owner p \<noteq> ls_owner l \<or> pm_lease_token p \<noteq> ls_fencing_token l)
       \<and> sql_exists (\<lambda>e. effect_of eid t (lit ''prepared'') e
           \<and> ef_approval_digest e = Some (pm_approval_digest p)) (db_effects d)) (db_permissions d)"

definition replace_pending_effect ::
  "lib \<Rightarrow> db \<Rightarrow> rstr \<Rightarrow> rstr \<Rightarrow> uuid \<Rightarrow> nat \<Rightarrow> nat \<Rightarrow> rstr \<Rightarrow> rstr \<Rightarrow> lease \<Rightarrow> nat \<Rightarrow> storage_error + db"
where
  "replace_pending_effect L d old new t revision attempt descriptor digest l now =
     bindE (require_legacy_runtime_lease l) (\<lambda>_.
     bindE (parse_json L descriptor) (\<lambda>_.
     bindE (to_i64 (ls_fencing_token l)) (\<lambda>_.
     bindE (to_i64 now) (\<lambda>now.
     bindE (to_i64 (saturating_sub revision 2)) (\<lambda>expected.
     let P = (\<lambda>p. open_permission old t p \<and> sql_exists (\<lambda>e. effect_of old t (lit ''prepared'') e
           \<and> ef_approval_digest e = Some (pm_approval_digest p)) (db_effects d));
         E = effect_of old t (lit ''prepared'')
     in if \<not> (run_authority d t expected l now \<and> replaceable d old t l) then Inl LeaseLost
        else if sql_changes P (db_permissions d) \<noteq> 1 \<or> sql_changes E (db_effects d) \<noteq> 1
        then Inl (invalid ''old pending effect cannot be replaced'')
        else insert_prepared new t revision attempt descriptor digest l now
          (d\<lparr>db_permissions := sql_delete P (db_permissions d),
             db_effects := sql_update E (observe_row (lit ''observed_failed'')
               (lit ''{\"abandoned\":\"lease_changed\"}'') now) (db_effects d)\<rparr>))))))"

definition permission_matches ::
  "db \<Rightarrow> rstr \<Rightarrow> uuid \<Rightarrow> nat \<Rightarrow> lease \<Rightarrow> rstr \<Rightarrow> nat \<Rightarrow> storage_error + bool" where
  "permission_matches d eid t expected l digest now =
     bindE (require_legacy_runtime_lease l) (\<lambda>_.
     bindE (to_i64 expected) (\<lambda>expected.
     bindE (to_i64 (ls_fencing_token l)) (\<lambda>token.
     bindE (to_i64 now) (\<lambda>now.
     Inr (sql_exists (consumable eid t expected l digest) (db_permissions d)
        \<and> sql_exists (\<lambda>r. tr_turn_id r = t \<and> tr_revision r + 1 = expected) (db_turns d)
        \<and> lease_live d (ls_scope l) (ls_owner l) token now)))))"

definition read_effect_status :: "db \<Rightarrow> rstr \<Rightarrow> storage_error + effect_status" where
  "read_effect_status d eid =
     bindE (ok_or (Sql QueryReturnedNoRows) (find (\<lambda>r. ef_effect_id r = eid) (db_effects d))) (\<lambda>r.
     let s = ef_status r in
     if s = lit ''declared'' then Inr EfDeclared
     else if s = lit ''prepared'' then Inr EfPrepared
     else if s = lit ''started'' then Inr EfStarted
     else if s = lit ''observed'' \<or> s = lit ''observed_success'' then Inr EfObservedSuccess
     else if s = lit ''observed_failed'' then Inr EfObservedFailed
     else if s = lit ''unknown'' then Inr EfUnknown
     else Inl (InvalidData (lit ''unknown effect status '' @ s)))"

subsection \<open>Checkpoints, evidence, verified completion\<close>

definition put_checkpoint ::
  "lib \<Rightarrow> db \<Rightarrow> uuid \<Rightarrow> nat \<Rightarrow> lease \<Rightarrow> rstr \<Rightarrow> nat \<Rightarrow> storage_error + db" where
  "put_checkpoint L d t expected l payload now =
     bindE (require_legacy_runtime_lease l) (\<lambda>_.
     bindE (parse_json L payload) (\<lambda>_.
     bindE (to_i64 now) (\<lambda>now.
     bindE (to_i64 (ls_fencing_token l)) (\<lambda>_.
     bindE (to_i64 expected) (\<lambda>expected.
     if \<not> run_authority d t expected l now then Inl LeaseLost
     else Inr (upsert_checkpoint t payload now d))))))"

definition checkpoint_of :: "db \<Rightarrow> uuid \<Rightarrow> rstr option" where
  "checkpoint_of d t = map_option ck_payload (find (\<lambda>r. ck_turn_id r = t) (db_checkpoints d))"

text \<open>Evidence for a linked child needs its session's lease and its active row.\<close>

definition evidence_scope :: "lib \<Rightarrow> uuid option \<Rightarrow> rstr" where
  "evidence_scope L linked_session = (case linked_session of
     None \<Rightarrow> LEGACY_RUNTIME_LEASE_SCOPE | Some sid \<Rightarrow> session_lease_scope L sid)"

definition evidence_admitted :: "db \<Rightarrow> uuid \<Rightarrow> uuid option \<Rightarrow> nat \<Rightarrow> bool" where
  "evidence_admitted d t linked_session token \<longleftrightarrow> (case linked_session of
     None \<Rightarrow> \<not> sql_exists (\<lambda>x. st_turn_id x = t) (db_session_turns d)
   | Some sid \<Rightarrow> sql_exists (\<lambda>x. st_turn_id x = t \<and> st_session_id x = sid
       \<and> sql_exists (\<lambda>a. ar_session_id a = st_session_id x \<and> ar_turn_id a = st_turn_id x
           \<and> ar_lease_token a = token) (db_active d)) (db_session_turns d))"

definition record_verification_evidence ::
  "lib \<Rightarrow> db \<Rightarrow> uuid \<Rightarrow> nat \<Rightarrow> lease \<Rightarrow> rstr \<Rightarrow> rstr \<Rightarrow> rstr option \<Rightarrow> nat \<Rightarrow> storage_error + db" where
  "record_verification_evidence L d t expected l vid metadata blob now =
     bindE (parse_json L metadata) (\<lambda>_.
     bindE (ok_or (InvalidData (json_error L metadata)) (verification_parse L metadata)) (\<lambda>v.
     let linked_session = map_option st_session_id
           (find (\<lambda>x. st_turn_id x = t) (db_session_turns d));
         scope = evidence_scope L linked_session
     in bindE (require_lease_scope l scope) (\<lambda>_.
        bindE (to_i64 (ls_fencing_token l)) (\<lambda>token.
        bindE (to_i64 now) (\<lambda>now.
        bindE (to_i64 expected) (\<lambda>expected.
        bindE (to_i64 (ver_effect_epoch v)) (\<lambda>epoch.
        if \<not> (lease_live d scope (ls_owner l) token now
              \<and> sql_exists (\<lambda>r. run_row t expected token r \<and> tr_effect_epoch r = epoch) (db_turns d)
              \<and> evidence_admitted d t linked_session token)
        then Inl LeaseLost
        else bindE (sql_insert (Sql ConstraintViolation) (\<lambda>x. vr_id x = vid)
               \<lparr>vr_id = vid, vr_turn_id = t, vr_metadata = metadata, vr_blob_ref = blob\<rparr>
               (db_evidence d)) (\<lambda>rows. Inr (d\<lparr>db_evidence := rows\<rparr>)))))))))"

definition read_effect_epoch :: "db \<Rightarrow> uuid \<Rightarrow> storage_error + nat" where
  "read_effect_epoch d t =
     bindE (ok_or (Sql QueryReturnedNoRows) (find_turn d t)) (\<lambda>r. Inr (tr_effect_epoch r))"

text \<open>
  The paths changed since the baseline: manifest keys are JSON arrays of components,
  shown joined by \<open>/\<close>. \<open>BTreeSet\<close> and \<open>BTreeMap\<close> are sorted association lists.
\<close>

definition changed_keys :: "manifest \<Rightarrow> manifest \<Rightarrow> rstr list" where
  "changed_keys baseline current = map fst (foldl (\<lambda>m k. obj_insert k () m) []
     (filter (\<lambda>k. map_of baseline k \<noteq> map_of current k) (map fst baseline @ map fst current)))"

definition key_components :: "lib \<Rightarrow> rstr \<Rightarrow> storage_error + rstr list" where
  "key_components L encoded = ok_or (InvalidData (json_error L encoded))
     (case json_parse L encoded of
        Some (JArr vs) \<Rightarrow> if list_all (\<lambda>v. json_as_str v \<noteq> None) vs
                         then Some (map (\<lambda>v. the (json_as_str v)) vs) else None
      | _ \<Rightarrow> None)"

definition bad_component :: "rstr \<Rightarrow> bool" where
  "bad_component c \<longleftrightarrow> c = [] \<or> 47 \<in> set c \<or> list_ex is_control c"

fun join_components :: "rstr list \<Rightarrow> rstr" where
  "join_components [] = []"
| "join_components [c] = c"
| "join_components (c # cs) = c @ [47] @ join_components cs"

fun display_paths :: "lib \<Rightarrow> rstr list \<Rightarrow> (rstr \<times> rstr) list \<Rightarrow> storage_error + rstr list" where
  "display_paths L [] shown = Inr (map fst shown)"
| "display_paths L (k # ks) shown =
     bindE (key_components L k) (\<lambda>cs.
     if cs = [] \<or> list_ex bad_component cs
     then Inl (invalid ''invalid manifest component key'')
     else if map_of shown (join_components cs) \<noteq> None
     then Inl (invalid ''manifest display path collision'')
     else display_paths L ks (obj_insert (join_components cs) k shown))"

definition changed_files_since :: "lib \<Rightarrow> manifest \<Rightarrow> manifest \<Rightarrow> storage_error + rstr list" where
  "changed_files_since L baseline current = display_paths L (changed_keys baseline current) []"

definition session_changed_files :: "lib \<Rightarrow> db \<Rightarrow> uuid \<Rightarrow> manifest \<Rightarrow> storage_error + rstr list" where
  "session_changed_files L d t current =
     bindE (ok_or (invalid ''linked child has no engine-owned baseline'')
       (find (\<lambda>r. bl_turn_id r = t) (db_baselines d))) (\<lambda>b.
     changed_files_since L (bl_manifest b) current)"

text \<open>The newest evidence, if it was taken at this revision and effect epoch.\<close>

definition current_evidence ::
  "lib \<Rightarrow> db \<Rightarrow> turn_row \<Rightarrow> rstr \<Rightarrow> storage_error + verification_record" where
  "current_evidence L d r digest =
     bindE (latest_verification L d (tr_turn_id r)) (\<lambda>latest.
     bindE (ok_or (invalid ''missing current verification evidence'')
       (case latest of None \<Rightarrow> None
        | Some v \<Rightarrow> if ver_revision v = ts_revision (tr_state r)
                       \<and> ver_effect_epoch v = tr_effect_epoch r then Some v else None)) (\<lambda>v.
     if \<not> ver_passed v then Inl (invalid ''verification failed'')
     else if ver_workspace_manifest_digest v \<noteq> digest
     then Inl (InvalidData (lit ''workspace changed after verification: expected ''
            @ ver_workspace_manifest_digest v @ lit '', actual '' @ digest))
     else Inr v))"

definition complete_verified ::
  "lib \<Rightarrow> (nat \<Rightarrow> uuid) \<Rightarrow> db \<Rightarrow> uuid \<Rightarrow> nat \<Rightarrow> lease \<Rightarrow> rstr \<Rightarrow> manifest \<Rightarrow> rstr \<Rightarrow> nat
     \<Rightarrow> storage_error + db \<times> turn_state \<times> stored_event" where
  "complete_verified L ids d t expected l summary current digest now =
     bindE (run_gate d t expected l now) (\<lambda>r.
     bindE (current_evidence L d r digest) (\<lambda>v.
     bindE (ok_or (invalid ''missing engine-owned run baseline'')
       (find (\<lambda>b. bl_turn_id b = t) (db_baselines d))) (\<lambda>b.
     bindE (changed_files_since L (bl_manifest b) current) (\<lambda>files.
     let h = \<lparr>ho_summary = summary, ho_files_changed = files,
              ho_evidence = [verified_evidence (ver_effect_id v) (ver_summary v) digest now]\<rparr>
     in bindE (lift_transition (turn_transition (tr_state r) expected
          (Complete h VerificationRequired))) (\<lambda>s.
        let P = (\<lambda>x. tr_revision x = expected \<and> tr_effect_epoch x = tr_effect_epoch r)
        in bindE (advance_run (ids 0) r s (HandoffProduced h) P (lit ''sequence overflow'')
             (ls_fencing_token l) now d) (\<lambda>(d', ev).
           if sql_changes (\<lambda>x. tr_turn_id x = t \<and> P x) (db_turns d) \<noteq> 1
           then Inl (StaleTurnRevision expected (ts_revision (tr_state r)))
           else Inr (d', s, ev)))))))"

subsection \<open>The engine's guards\<close>

definition reject_linked_turn :: "db \<Rightarrow> uuid \<Rightarrow> storage_error + unit" where
  "reject_linked_turn d t =
     (if is_session_linked_turn d t then Inl LinkedTurnRequiresSessionCommit else Inr ())"

definition engine_create_turn ::
  "db \<Rightarrow> uuid \<Rightarrow> nat \<Rightarrow> rstr + manifest \<Rightarrow> storage_error + db \<times> turn_state" where
  "engine_create_turn d t now sample =
     bindE (map_err InvalidData sample) (\<lambda>baseline.
     bindE (create_run_with_baseline d (turn_queued t) now (Some baseline)) (\<lambda>d.
     Inr (d, turn_queued t)))"

definition engine_apply_transition ::
  "(nat \<Rightarrow> uuid) \<Rightarrow> db \<Rightarrow> uuid \<Rightarrow> nat \<Rightarrow> transition \<Rightarrow> nat \<Rightarrow> lease \<Rightarrow> storage_error + db \<times> turn_state"
where
  "engine_apply_transition ids d t expected tr now l =
     bindE (reject_linked_turn d t) (\<lambda>_.
     if (case tr of Complete _ _ \<Rightarrow> True | _ \<Rightarrow> False)
     then Inl (invalid ''Complete is engine-owned; use complete_verified_turn'')
     else bindE (store_apply_transition ids d t expected tr now l) (\<lambda>(d, s, _). Inr (d, s)))"

definition engine_complete_verified_turn ::
  "lib \<Rightarrow> (nat \<Rightarrow> uuid) \<Rightarrow> db \<Rightarrow> uuid \<Rightarrow> nat \<Rightarrow> lease \<Rightarrow> rstr \<Rightarrow> storage_error + rstr \<times> manifest \<Rightarrow> nat
     \<Rightarrow> storage_error + db \<times> turn_state" where
  "engine_complete_verified_turn L ids d t expected l summary sample now =
     bindE (reject_linked_turn d t) (\<lambda>_.
     bindE sample (\<lambda>(digest, current).
     bindE (complete_verified L ids d t expected l summary current digest now) (\<lambda>(d, s, _).
     Inr (d, s))))"

definition engine_cancel_waiting ::
  "(nat \<Rightarrow> uuid) \<Rightarrow> db \<Rightarrow> uuid \<Rightarrow> nat \<Rightarrow> lease \<Rightarrow> nat \<Rightarrow> bool \<Rightarrow> storage_error + db \<times> turn_state" where
  "engine_cancel_waiting ids d t expected l now denied =
     bindE (reject_linked_turn d t) (\<lambda>_.
     bindE (cancel_waiting ids d t expected l now denied) (\<lambda>(d, s, _). Inr (d, s)))"

definition engine_interrupt_after_lease_loss ::
  "(nat \<Rightarrow> uuid) \<Rightarrow> db \<Rightarrow> uuid \<Rightarrow> lease \<Rightarrow> nat \<Rightarrow> nat \<Rightarrow> storage_error + db \<times> lease_loss_recovery" where
  "engine_interrupt_after_lease_loss ids d t l expected now =
     bindE (reject_linked_turn d t) (\<lambda>_. interrupt_after_lease_loss ids d t l expected now)"

definition engine_persist_checkpoint ::
  "lib \<Rightarrow> db \<Rightarrow> uuid \<Rightarrow> nat \<Rightarrow> lease \<Rightarrow> rstr \<Rightarrow> nat \<Rightarrow> storage_error + db" where
  "engine_persist_checkpoint L d t expected l payload now =
     bindE (reject_linked_turn d t) (\<lambda>_. put_checkpoint L d t expected l payload now)"

end
