(* ===== verification/Store_Change.thy ===== *)
theory Store_Change
  imports Session_Store Store_Runs
begin

text \<open>
  How the store may evolve: \<open>store_le\<close> is the order every operation moves along, and
  \<open>session_change\<close> and \<open>run_change\<close> say when an operation on one session, or on an
  unlinked run, keeps the invariant.
\<close>

subsection \<open>The order of evolution\<close>

text \<open>
  Sessions stay and only gain revisions and sequences, turns stay and a completed one
  keeps its state, the ledger and the leases move forward, and the session events and the
  replay records are append-only.
\<close>

definition sessions_le :: "db \<Rightarrow> db \<Rightarrow> bool" where
  "sessions_le d e \<longleftrightarrow> (\<forall>sid s. find_session d sid = Some s \<longrightarrow>
     (\<exists>x. find_session e sid = Some x \<and> sr_revision s \<le> sr_revision x
        \<and> sr_last_seq s \<le> sr_last_seq x))"

definition turns_le :: "db \<Rightarrow> db \<Rightarrow> bool" where
  "turns_le d e \<longleftrightarrow> (\<forall>t s. turn_state_of d t = Some s \<longrightarrow>
     (\<exists>x. turn_state_of e t = Some x \<and> turn_le s x))"

definition logs_le :: "db \<Rightarrow> db \<Rightarrow> bool" where
  "logs_le d e \<longleftrightarrow> prefix (db_session_events d) (db_session_events e)
     \<and> prefix (db_dedup d) (db_dedup e)"

definition store_le :: "db \<Rightarrow> db \<Rightarrow> bool" where
  "store_le d e \<longleftrightarrow> sessions_le d e \<and> turns_le d e \<and> logs_le d e \<and> ledger_le d e \<and> lease_le d e"

lemma turn_le_refl [simp, intro]: "turn_le s s"
  by (simp add: turn_le_def)

lemma turn_le_trans: "turn_le s t \<Longrightarrow> turn_le t u \<Longrightarrow> turn_le s u"
  by (auto simp: turn_le_def)

lemma sessions_le_refl [simp, intro]: "sessions_le d d"
  by (simp add: sessions_le_def)

lemma sessions_le_trans:
  assumes "sessions_le d e" and "sessions_le e f"
  shows "sessions_le d f"
  unfolding sessions_le_def
proof (intro allI impI)
  fix sid s assume "find_session d sid = Some s"
  with assms(1) obtain x where x: "find_session e sid = Some x" "sr_revision s \<le> sr_revision x"
    "sr_last_seq s \<le> sr_last_seq x" by (auto simp: sessions_le_def)
  with assms(2) obtain y where "find_session f sid = Some y" "sr_revision x \<le> sr_revision y"
    "sr_last_seq x \<le> sr_last_seq y" by (auto simp: sessions_le_def)
  with x show "\<exists>y. find_session f sid = Some y \<and> sr_revision s \<le> sr_revision y
      \<and> sr_last_seq s \<le> sr_last_seq y" by auto
qed

lemma turns_le_refl [simp, intro]: "turns_le d d"
  by (auto simp: turns_le_def)

lemma turns_le_trans: "turns_le d e \<Longrightarrow> turns_le e f \<Longrightarrow> turns_le d f"
  unfolding turns_le_def by (blast intro: turn_le_trans)

lemma logs_le_refl [simp, intro]: "logs_le d d"
  by (simp add: logs_le_def)

lemma logs_le_trans: "logs_le d e \<Longrightarrow> logs_le e f \<Longrightarrow> logs_le d f"
  unfolding logs_le_def by (blast intro: prefix_order.trans)

lemma store_le_refl [simp, intro]: "store_le d d"
  by (simp add: store_le_def)

lemma store_le_trans: "store_le d e \<Longrightarrow> store_le e f \<Longrightarrow> store_le d f"
  unfolding store_le_def
  by (blast intro: sessions_le_trans turns_le_trans logs_le_trans ledger_le_trans lease_le_trans)

text \<open>
  The outbox grows at its end, by rows that carry later sequences than any their session
  has used. Acknowledging the outbox is the one operation that removes rows; every other
  one moves the store along \<open>store_grows\<close>.
\<close>

definition outbox_before :: "outbox_row \<Rightarrow> outbox_row \<Rightarrow> bool" where
  "outbox_before r q \<longleftrightarrow> (ob_session_id r = ob_session_id q \<longrightarrow> ob_seq r < ob_seq q)"

definition later_rows :: "db \<Rightarrow> outbox_row list \<Rightarrow> bool" where
  "later_rows d rows \<longleftrightarrow> sorted_wrt outbox_before rows \<and> (\<forall>r \<in> set rows. 0 < ob_seq r
     \<and> (\<forall>s. find_session d (ob_session_id r) = Some s \<longrightarrow> sr_last_seq s < ob_seq r))"

definition outbox_grows :: "db \<Rightarrow> db \<Rightarrow> bool" where
  "outbox_grows d e \<longleftrightarrow> (\<exists>rows. db_outbox e = db_outbox d @ rows \<and> later_rows d rows)"

definition store_grows :: "db \<Rightarrow> db \<Rightarrow> bool" where
  "store_grows d e \<longleftrightarrow> sessions_le d e \<and> turns_le d e \<and> logs_le d e \<and> ledger_le d e \<and> lease_le d e
     \<and> outbox_grows d e"

lemma store_grows_le: "store_grows d e \<Longrightarrow> store_le d e"
  by (simp add: store_grows_def store_le_def)

lemma outbox_grows_same: "db_outbox e = db_outbox d \<Longrightarrow> outbox_grows d e"
  by (simp add: outbox_grows_def later_rows_def)

lemma store_grows_refl [simp, intro]: "store_grows d d"
  by (simp add: store_grows_def outbox_grows_same)

lemma outbox_below_last:
  assumes "store_ok e" and "r \<in> set (db_outbox e)"
  obtains s where "find_session e (ob_session_id r) = Some s" "ob_seq r \<le> sr_last_seq s"
proof -
  have "ob_session_id ` set (db_outbox e) \<subseteq> sr_session_id ` set (db_sessions e)"
    using assms(1) by (simp add: store_ok_def owned_ok_def Let_def)
  with assms(2) obtain x where "x \<in> set (db_sessions e)" "sr_session_id x = ob_session_id r"
    by (metis imageE image_eqI subsetD)
  then obtain s where s: "find_session e (ob_session_id r) = Some s"
    by (cases "find_session e (ob_session_id r)") (auto simp: find_session_def find_None_all)
  moreover from this have "s \<in> set (db_sessions e)" "sr_session_id s = ob_session_id r"
    by (auto simp: find_session_def dest: find_Some_in)
  ultimately show thesis
    using that assms by (auto simp: store_ok_def sequences_ok_def)
qed

lemma outbox_grows_trans:
  assumes ok: "store_ok e" and "sessions_le d e" and "outbox_grows d e" and "outbox_grows e f"
  shows "outbox_grows d f"
proof -
  obtain xs ys where x: "db_outbox e = db_outbox d @ xs" "later_rows d xs"
    and y: "db_outbox f = db_outbox e @ ys" "later_rows e ys"
    using assms(3,4) by (auto simp: outbox_grows_def)
  have cross: "outbox_before r q" if "r \<in> set xs" "q \<in> set ys" for r q
  proof -
    have "r \<in> set (db_outbox e)" using that(1) x(1) by simp
    from outbox_below_last [OF ok this] obtain s where
      "find_session e (ob_session_id r) = Some s" "ob_seq r \<le> sr_last_seq s" .
    with y(2) that(2) show ?thesis by (fastforce simp: outbox_before_def later_rows_def)
  qed
  have later: "sr_last_seq s < ob_seq q" if q: "q \<in> set ys" and s: "find_session d (ob_session_id q) = Some s" for q s
  proof -
    obtain u where "find_session e (ob_session_id q) = Some u" "sr_last_seq s \<le> sr_last_seq u"
      using assms(2) s by (auto simp: sessions_le_def)
    with y(2) q show ?thesis by (fastforce simp: later_rows_def)
  qed
  have "later_rows d (xs @ ys)"
    using x(2) y(2) cross later by (auto simp: later_rows_def sorted_wrt_append)
  with x(1) y(1) show ?thesis by (auto simp: outbox_grows_def)
qed

lemma store_grows_trans: "store_ok e \<Longrightarrow> store_grows d e \<Longrightarrow> store_grows e f \<Longrightarrow> store_grows d f"
  unfolding store_grows_def
  by (blast intro: sessions_le_trans turns_le_trans logs_le_trans ledger_le_trans lease_le_trans
      outbox_grows_trans)

text \<open>Rows in one session, and a single row.\<close>

lemma later_rows_session:
  assumes "sorted_wrt (<) (map ob_seq rows)" and "\<forall>r \<in> set rows. ob_session_id r = sid \<and> n < ob_seq r"
    and "\<And>s. find_session d sid = Some s \<Longrightarrow> sr_last_seq s \<le> n"
  shows "later_rows d rows"
proof -
  have "sorted_wrt outbox_before rows"
    using assms(1) by (auto simp: sorted_wrt_map outbox_before_def elim: sorted_wrt_mono_rel [rotated])
  with assms(2,3) show ?thesis by (fastforce simp: later_rows_def)
qed

lemma outbox_grows_rows:
  assumes "db_outbox e = db_outbox d @ rows" and "sorted_wrt (<) (map ob_seq rows)"
    and "\<forall>r \<in> set rows. ob_session_id r = sid \<and> n < ob_seq r"
    and "\<And>s. find_session d sid = Some s \<Longrightarrow> sr_last_seq s \<le> n"
  shows "outbox_grows d e"
  using assms(1) later_rows_session [OF assms(2-4)] by (auto simp: outbox_grows_def)

lemma sessions_le_same: "db_sessions e = db_sessions d \<Longrightarrow> sessions_le d e"
  by (simp add: sessions_le_def find_session_def)

lemma turns_le_same: "db_turns e = db_turns d \<Longrightarrow> turns_le d e"
  by (auto simp: turns_le_def turn_state_of_def find_turn_def)

lemma turns_le_core: "map turn_core (db_turns e) = map turn_core (db_turns d) \<Longrightarrow> turns_le d e"
  unfolding turns_le_def by (simp add: same_core_state [of e d])

lemma turns_le_move:
  assumes "\<And>u. turn_state_of e u = (if u = t then Some s' else turn_state_of d u)"
    and "\<And>s. turn_state_of d t = Some s \<Longrightarrow> turn_le s s'"
  shows "turns_le d e"
  unfolding turns_le_def
proof (intro allI impI)
  fix u s assume s: "turn_state_of d u = Some s"
  with assms(1) [of u] assms(2) [of s]
  show "\<exists>x. turn_state_of e u = Some x \<and> turn_le s x" by (cases "u = t") auto
qed

lemma sessions_le_update:
  assumes "db_sessions e = sql_update (\<lambda>x. sr_session_id x = sid) f (db_sessions d)"
    and "\<And>x. sr_session_id (f x) = sr_session_id x"
    and "\<And>x. find_session d sid = Some x \<Longrightarrow>
      sr_revision x \<le> sr_revision (f x) \<and> sr_last_seq x \<le> sr_last_seq (f x)"
  shows "sessions_le d e"
proof -
  have found: "find_session e k = map_option (\<lambda>x. if sr_session_id x = sid then f x else x) (find_session d k)"
    for k unfolding find_session_def assms(1) by (rule find_update_key) (simp add: assms(2))
  show ?thesis
    unfolding sessions_le_def
  proof (intro allI impI)
    fix k s assume s: "find_session d k = Some s"
    then have "sr_session_id s = k" by (simp add: find_session_Some)
    with s found [of k] assms(3) show "\<exists>x. find_session e k = Some x
        \<and> sr_revision s \<le> sr_revision x \<and> sr_last_seq s \<le> sr_last_seq x" by auto
  qed
qed

lemma sessions_le_insert: "db_sessions e = db_sessions d @ rs \<Longrightarrow> sessions_le d e"
  by (auto simp: sessions_le_def find_session_def find_append)

lemma turn_state_insert:
  assumes "db_turns e = db_turns d @ [r]" and "\<forall>x \<in> set (db_turns d). tr_turn_id x \<noteq> tr_turn_id r"
  shows "turn_state_of e u = (if u = tr_turn_id r then Some (tr_state r) else turn_state_of d u)"
proof -
  have "find (\<lambda>x. tr_turn_id x = tr_turn_id r) (db_turns d) = None"
    using assms(2) by (simp add: find_None_all)
  then show ?thesis
    by (auto simp: turn_state_of_def find_turn_def assms(1) find_append split: option.split)
qed

lemma turns_le_insert:
  assumes "db_turns e = db_turns d @ [r]" and "\<forall>x \<in> set (db_turns d). tr_turn_id x \<noteq> tr_turn_id r"
  shows "turns_le d e"
proof -
  have "turn_state_of d (tr_turn_id r) = None"
    using assms(2) by (simp add: turn_state_of_def find_turn_def find_None_all)
  then show ?thesis
    by (auto simp: turns_le_def turn_state_insert [OF assms])
qed

subsection \<open>A change to one session\<close>

text \<open>
  The obligations of an operation that touches the rows of session \<open>sid\<close> only: other
  sessions keep their row, their active turn and the state of their turns.
\<close>

lemma session_change:
  assumes ok: "store_ok d"
    and tables: "keys_ok e" "effects_keyed e" "leases_ok e" "outbox_consistent e"
      "\<forall>r \<in> set (db_turns e). turn_row_ok r"
    and links: "\<And>u k. linked d u k \<Longrightarrow> linked e u k"
    and turns: "\<And>u. turn_state_of e u = turn_state_of d u \<or> linked e u sid"
    and act: "\<And>k. k \<noteq> sid \<Longrightarrow> active_turn e k = active_turn d k"
    and actives: "\<And>a. a \<in> set (db_active e) \<Longrightarrow> a \<in> set (db_active d)
      \<or> (ar_session_id a = sid \<and> linked e (ar_turn_id a) sid)"
    and others: "\<And>x. x \<in> set (db_sessions e) \<Longrightarrow> sr_session_id x \<noteq> sid \<Longrightarrow> x \<in> set (db_sessions d)"
    and kept: "sr_session_id ` set (db_sessions d) \<subseteq> sr_session_id ` set (db_sessions e)"
      "sid \<in> sr_session_id ` set (db_sessions e)"
    and own: "\<And>x. x \<in> set (db_sessions e) \<Longrightarrow> sr_session_id x = sid \<Longrightarrow> session_ok e x"
    and later: "\<And>x y. x \<in> set (db_sessions e) \<Longrightarrow> sr_session_id x = sid \<Longrightarrow>
      y \<in> set (db_sessions d) \<Longrightarrow> sr_session_id y = sid \<Longrightarrow> sr_last_seq y \<le> sr_last_seq x"
    and outbox: "\<And>r. r \<in> set (db_outbox e) \<Longrightarrow> r \<in> set (db_outbox d) \<or> (ob_session_id r = sid
      \<and> (\<forall>x \<in> set (db_sessions e). sr_session_id x = sid \<longrightarrow> ob_seq r \<le> sr_last_seq x))"
    and events: "\<And>r. r \<in> set (db_session_events e) \<Longrightarrow> r \<in> set (db_session_events d) \<or> (sv_session_id r = sid
      \<and> (\<forall>x \<in> set (db_sessions e). sr_session_id x = sid \<longrightarrow> sv_seq r \<le> sr_last_seq x))"
  shows "store_ok e"
proof -
  have seqs: "sequences_ok d" and own_d: "owned_ok d"
    and lnk: "\<And>a. a \<in> set (db_active d) \<Longrightarrow> linked d (ar_turn_id a) (ar_session_id a)"
    using ok by (auto simp: store_ok_def)
  have keys: "distinct (map sr_session_id (db_sessions e))" using tables(1) by (simp add: keys_ok_def)
  have seq: "n \<le> sr_last_seq x"
    if x: "x \<in> set (db_sessions e)" and id: "sr_session_id x \<in> sr_session_id ` set (db_sessions d)"
      and n: "\<And>y. y \<in> set (db_sessions d) \<Longrightarrow> sr_session_id y = sr_session_id x \<Longrightarrow> n \<le> sr_last_seq y"
    for x n
  proof -
    obtain y where y: "y \<in> set (db_sessions d)" "sr_session_id y = sr_session_id x"
      using id by auto
    moreover have "sr_last_seq y \<le> sr_last_seq x"
    proof (cases "sr_session_id x = sid")
      case False
      then have "x \<in> set (db_sessions d)" by (rule others [OF x])
      moreover have "distinct (map sr_session_id (db_sessions d))"
        using ok by (simp add: store_ok_def keys_ok_def)
      ultimately have "x = y" using y find_by_key by (metis option.inject)
      then show ?thesis by simp
    qed (use later x y in auto)
    ultimately show ?thesis using n [of y] by simp
  qed
  have seq_outbox: "ob_seq r \<le> sr_last_seq x"
    if x: "x \<in> set (db_sessions e)" and r: "r \<in> set (db_outbox e)" "ob_session_id r = sr_session_id x" for x r
  proof (cases "r \<in> set (db_outbox d)")
    case True
    have "ob_session_id ` set (db_outbox d) \<subseteq> sr_session_id ` set (db_sessions d)"
      using own_d by (simp add: owned_ok_def Let_def)
    from subsetD [OF this imageI [OF True]]
    have "sr_session_id x \<in> sr_session_id ` set (db_sessions d)" unfolding r(2) .
    then show ?thesis
      by (rule seq [OF x]) (use seqs True r(2) in \<open>simp add: sequences_ok_def\<close>)
  next
    case False
    with outbox [OF r(1)] x r(2) show ?thesis by auto
  qed
  have seq_events: "sv_seq r \<le> sr_last_seq x"
    if x: "x \<in> set (db_sessions e)" and r: "r \<in> set (db_session_events e)" "sv_session_id r = sr_session_id x" for x r
  proof (cases "r \<in> set (db_session_events d)")
    case True
    have "sv_session_id ` set (db_session_events d) \<subseteq> sr_session_id ` set (db_sessions d)"
      using own_d by (simp add: owned_ok_def Let_def)
    from subsetD [OF this imageI [OF True]]
    have "sr_session_id x \<in> sr_session_id ` set (db_sessions d)" unfolding r(2) .
    then show ?thesis
      by (rule seq [OF x]) (use seqs True r(2) in \<open>simp add: sequences_ok_def\<close>)
  next
    case False
    with events [OF r(1)] x r(2) show ?thesis by auto
  qed
  have sessions: "session_ok e x" if x: "x \<in> set (db_sessions e)" for x
  proof (cases "sr_session_id x = sid")
    case False
    have same: "turn_state_of e (ar_turn_id a) = turn_state_of d (ar_turn_id a)"
      if a: "active_turn d (sr_session_id x) = Some a" for a
    proof -
      have "a \<in> set (db_active d)" "ar_session_id a = sr_session_id x"
        using a by (auto simp: active_turn_def dest: find_Some_in)
      then have "linked e (ar_turn_id a) (sr_session_id x)" using lnk links by metis
      with linked_unique [OF tables(1)] False turns show ?thesis by metis
    qed
    have "session_ok d x" using ok others [OF x False] by (simp add: store_ok_def)
    then show ?thesis
      using links act [OF False] same by (auto simp: session_ok_def split: option.splits)
  qed (use own x in blast)
  have active: "linked e (ar_turn_id a) (ar_session_id a)" if "a \<in> set (db_active e)" for a
    using actives [OF that] lnk links by blast
  have "owned_ok e"
    unfolding owned_ok_def Let_def
  proof (intro conjI image_subsetI)
    let ?ids = "sr_session_id ` set (db_sessions e)"
    note o = own_d [unfolded owned_ok_def Let_def]
    note own = subset_trans [OF conjunct1 [OF o] kept(1)]
      subset_trans [OF conjunct1 [OF conjunct2 [OF o]] kept(1)]
      subset_trans [OF conjunct2 [OF conjunct2 [OF o]] kept(1)]
    show "ob_session_id r \<in> ?ids" if "r \<in> set (db_outbox e)" for r
      using outbox [OF that] own(1) kept(2) by (elim disjE conjE) (simp_all add: image_subset_iff)
    show "sv_session_id r \<in> ?ids" if "r \<in> set (db_session_events e)" for r
      using events [OF that] own(2) kept(2) by (elim disjE conjE) (simp_all add: image_subset_iff)
    show "ar_session_id a \<in> ?ids" if "a \<in> set (db_active e)" for a
      using actives [OF that] own(3) kept(2) by (elim disjE conjE) (simp_all add: image_subset_iff)
  qed
  moreover have "sequences_ok e"
    using seq_outbox seq_events by (simp add: sequences_ok_def)
  ultimately show ?thesis
    using tables sessions active by (simp add: store_ok_def)
qed

text \<open>An operation on runs that no session links.\<close>

lemma run_change:
  assumes "store_ok d" and "db_sessions e = db_sessions d" and "db_active e = db_active d"
    and "db_session_turns e = db_session_turns d" and "db_outbox e = db_outbox d"
    and "db_session_events e = db_session_events d" and "leases_ok e"
    and "distinct (map tr_turn_id (db_turns e))" and "\<forall>r \<in> set (db_turns e). turn_row_ok r"
    and "effects_keyed e"
    and "\<And>u k. linked d u k \<Longrightarrow> turn_state_of d u \<noteq> None \<Longrightarrow> turn_state_of e u = turn_state_of d u"
  shows "store_ok e"
proof -
  have same: "turn_state_of e (ar_turn_id a) = turn_state_of d (ar_turn_id a)"
    if "active_turn d k = Some a" "turn_state_of d (ar_turn_id a) \<noteq> None" for a k
  proof -
    have "a \<in> set (db_active d)"
      using that(1) by (auto simp: active_turn_def dest: find_Some_in)
    then have "linked d (ar_turn_id a) (ar_session_id a)"
      using assms(1) by (simp add: store_ok_def)
    with assms(11) that(2) show ?thesis by blast
  qed
  have "session_ok e x" if x: "x \<in> set (db_sessions e)" for x
  proof -
    have ok: "session_ok d x" using assms(1) x by (simp add: store_ok_def assms(2))
    have act: "active_turn e k = active_turn d k" and lnk: "linked e u k = linked d u k" for u k
      by (simp_all add: active_turn_def linked_def assms(3,4))
    show ?thesis
    proof (cases "active_turn d (sr_session_id x)")
      case None
      with ok show ?thesis by (simp add: session_ok_def act lnk)
    next
      case (Some a)
      with ok have "turn_state_of d (ar_turn_id a) \<noteq> None" by (auto simp: session_ok_def)
      with same [OF Some] Some ok show ?thesis by (simp add: session_ok_def act lnk)
    qed
  qed
  moreover have "outbox_consistent e = outbox_consistent d" "sequences_ok e = sequences_ok d"
    "owned_ok e = owned_ok d" "linked e = linked d"
    by (simp_all add: outbox_consistent_def sequences_ok_def owned_ok_def linked_def [abs_def] assms(2-6))
  moreover have "keys_ok e" using assms(1,8) by (simp add: store_ok_def keys_ok_def assms(2-4))
  ultimately show ?thesis
    using assms(1) assms(7-10) by (simp add: store_ok_def assms(2,3))
qed

end
