(* ===== verification/Commit_Keeps.thy ===== *)
theory Commit_Keeps
  imports Store_Change
begin

text \<open>
  A commit moves the store along \<open>store_grows\<close>. The one fact the arms must supply is that
  none of them moves a completed turn.
\<close>

lemma cancel_then_interrupt_open:
  "cancel_then_interrupt cx = Inr s \<Longrightarrow> ts_status (cx_current cx) \<noteq> Completed"
  by (auto simp: cancel_then_interrupt_def turn_step_def turn_transition_Inr)

lemma reconciled_turn_open:
  "reconciled_turn L cx eid = Inr s \<Longrightarrow> ts_status (cx_current cx) \<noteq> Completed"
  by (auto simp: reconciled_turn_def turn_step_def turn_transition_Inr split: if_splits)

lemma turn_step_open: "turn_step s tr = Inr t \<Longrightarrow> ts_status s \<noteq> Completed"
  by (simp add: turn_step_def turn_transition_Inr)

lemma commit_interrupt_open:
  assumes "commit_interrupt L cx key eid dr = Inr dr'"
  shows "ts_status (cx_current cx) \<noteq> Completed"
proof (cases "ts_status (cx_current cx) \<in> {WaitingPermission, WaitingInput}")
  case False
  with assms obtain s where "cancel_then_interrupt cx = Inr s"
    by (auto simp: commit_interrupt_def interrupt_running_def Let_def)
  then show ?thesis by (rule cancel_then_interrupt_open)
qed auto

lemma prepare_effect_open:
  assumes "commit_prepare_effect L cx key eid digest descriptor canonical policy description cp dr = Inr dr'"
  shows "ts_status (cx_current cx) \<noteq> Completed"
  using assms unfolding commit_prepare_effect_def
  by (simp del: if_err_eq_Inr split: if_splits)

lemma commit_arm_open:
  assumes "commit_arm L cx u (initial_draft d s lc) = Inr dr" and "dr_turn_changed dr"
  shows "ts_status (cx_current cx) \<noteq> Completed"
proof (cases u)
  case (CuAppendTranscript key kind message payload)
  with assms show ?thesis by (auto simp: commit_append_transcript_def initial_draft_def)
next
  case (CuPrepareEffect key eid digest descriptor canonical policy description cp)
  with assms(1) show ?thesis by (simp add: prepare_effect_open)
next
  case (CuStartEffect key eid digest cp)
  with assms(1) show ?thesis
    by (auto simp: commit_start_effect_def split: if_splits)
next
  case (CuObserveEffect key eid digest success result payload cp)
  with assms(1) show ?thesis by (auto simp: commit_observe_effect_def split: if_splits)
next
  case (CuUnknownEffect key eid digest cp)
  with assms(1) show ?thesis by (auto simp: commit_unknown_effect_def dest: cancel_then_interrupt_open)
next
  case (CuReconcileUnknownEffect key eid cp)
  with assms(1) show ?thesis by (auto simp: commit_reconcile_unknown_def dest: reconciled_turn_open)
next
  case (CuInterrupt key eid)
  with assms(1) show ?thesis by (simp add: commit_interrupt_open)
qed (use assms(1) in \<open>auto simp: commit_start_def commit_request_permission_def
    commit_resolve_permission_def commit_request_input_def commit_provide_input_def
    commit_complete_def commit_complete_verified_def complete_with_def commit_fail_def
    dest: turn_step_open split: option.splits if_splits\<close>)

lemma commit_turns_le:
  assumes ok: "store_ok d" and gate: "passed_gate L d rq l now ct"
    and arm: "commit_arm L (trace_ctx rq l now ct) (rq_update rq)
       (initial_draft d (tr_state (ct_turn ct)) (sr_lifecycle (ct_session ct))) = Inr (ct_draft ct)"
    and dok: "draft_ok (tr_state (ct_turn ct)) (sr_lifecycle (ct_session ct)) (ct_draft ct)"
    and mv: "ledger_move d (dr_db (ct_draft ct))" and tables: "committed_tables L d rq l now ct e"
  shows "turns_le d e"
proof (rule turns_le_move)
  show "turn_state_of e u = (if u = rq_turn_id rq then Some (dr_next (ct_draft ct)) else turn_state_of d u)"
    for u by (rule committed_turns(3) [OF ok gate dok mv tables])
  fix s assume "turn_state_of d (rq_turn_id rq) = Some s"
  then have s: "s = tr_state (ct_turn ct)"
    using gate by (simp add: passed_gate_def turn_state_of_def)
  show "turn_le s (dr_next (ct_draft ct))"
  proof (cases "dr_turn_changed (ct_draft ct)")
    case True
    from commit_arm_open [OF arm True] dok True show ?thesis
      by (auto simp: s turn_le_def draft_ok_def trace_ctx_def)
  next
    case False
    with dok show ?thesis by (simp add: s draft_ok_def)
  qed
qed

lemma insert_dedup_le: "insert_dedup r d = Inr e \<Longrightarrow> store_grows d e"
  by (auto simp: insert_dedup_def store_grows_def outbox_grows_same logs_le_def sessions_le_same turns_le_same
      ledger_le_same lease_le_same)

lemma commit_outbox_grows:
  assumes gate: "passed_gate L d rq l now ct" and card: "committed_card ids rq now ct"
    and tables: "committed_tables L d rq l now ct e"
  shows "outbox_grows d e"
proof -
  have "sr_last_seq s < sr_last_seq (ct_session ct) + 1" if "find_session d (rq_session_id rq) = Some s" for s
    using gate that by (simp add: passed_gate_def)
  then have "later_rows d (ct_card ct)"
    using card by (auto simp: later_rows_def committed_card_def outbox_row_of_def card_entry_def
        split: option.splits prod.splits)
  then show ?thesis using tables by (auto simp: outbox_grows_def committed_tables_def)
qed

lemma commit_moves:
  assumes ok: "store_ok d" and "commit_session_turn_update L ids d rq l now = Inr (e, resp)"
  shows "store_ok e \<and> store_grows d e"
  using assms(2)
proof (cases rule: commit_cases)
  case (replay r)
  with ok show ?thesis by simp
next
  case (source r)
  with commit_keeps_store_ok [OF assms] insert_dedup_le show ?thesis by blast
next
  case fresh
  have rows: "\<forall>r \<in> set (db_turns d). turn_row_ok r" using ok by (simp add: store_ok_def)
  obtain ct where gate: "passed_gate L d rq l now ct"
    and arm: "commit_arm L (trace_ctx rq l now ct) (rq_update rq)
       (initial_draft d (tr_state (ct_turn ct)) (sr_lifecycle (ct_session ct))) = Inr (ct_draft ct)"
    and dok: "draft_ok (tr_state (ct_turn ct)) (sr_lifecycle (ct_session ct)) (ct_draft ct)"
    and mv: "ledger_move d (dr_db (ct_draft ct))" and tables: "committed_tables L d rq l now ct e"
    and card: "committed_card ids rq now ct" and rec: "committed_records L d rq now e resp"
    by (rule commit_fresh_Inr [OF fresh(3) rows])
  have "sessions_le d e"
  proof (rule sessions_le_update)
    show "db_sessions e = sql_update (\<lambda>x. sr_session_id x = rq_session_id rq)
        (moved_session rq now ct) (db_sessions d)"
      using tables by (simp add: committed_tables_def)
  qed (use gate in \<open>auto simp: moved_session_def passed_gate_def\<close>)
  moreover have "turns_le d e" by (rule commit_turns_le [OF ok gate arm dok mv tables])
  moreover have "logs_le d e"
    using tables rec by (simp add: logs_le_def committed_tables_def committed_records_def)
  moreover have "ledger_le d e"
    using mv tables by (auto simp: ledger_move_def committed_tables_def intro: ledger_le_trans ledger_le_same)
  moreover have "lease_le d e"
    using committed_leases(2) [OF _ tables] ok by (simp add: store_ok_def)
  moreover have "outbox_grows d e" by (rule commit_outbox_grows [OF gate card tables])
  ultimately show ?thesis
    using commit_keeps_store_ok [OF assms] by (simp add: store_grows_def)
qed

end
