(* ===== verification/Create_Keeps.thy ===== *)
theory Create_Keeps
  imports Commit_Keeps
begin

text \<open>
  Creations, follow-ups, model switches, forks and renames keep the store's invariant
  and move along its order.
\<close>

subsection \<open>Building blocks\<close>

lemma turn_status_text [simp]: "row_holds s (child_row s seq token now)"
  by (simp add: row_holds_def child_row_def)

lemma child_row_fields [simp]:
  "tr_turn_id (child_row s seq token now) = ts_turn_id s"
  "tr_state (child_row s seq token now) = s"
  by (simp_all add: child_row_def)

lemma insert_child_Inr:
  assumes "insert_child s seq token baseline now d = Inr e"
  obtains rm bl where "e = d\<lparr>db_turns := db_turns d @ [child_row s seq token now],
      db_read_model := rm, db_baselines := bl\<rparr>"
    "\<forall>x \<in> set (db_turns d). tr_turn_id x \<noteq> ts_turn_id s"
proof -
  have "\<exists>rm bl. e = d\<lparr>db_turns := db_turns d @ [child_row s seq token now],
      db_read_model := rm, db_baselines := bl\<rparr>
      \<and> (\<forall>x \<in> set (db_turns d). tr_turn_id x \<noteq> ts_turn_id s)"
  proof (cases baseline)
    case None
    with assms obtain rm where "e = d\<lparr>db_turns := db_turns d @ [child_row s seq token now],
        db_read_model := rm\<rparr>" "\<forall>x \<in> set (db_turns d). tr_turn_id x \<noteq> ts_turn_id s"
      unfolding insert_child_def insert_turn_def insert_read_model_def by auto
    moreover have "d\<lparr>db_turns := db_turns d @ [child_row s seq token now], db_read_model := rm\<rparr>
      = d\<lparr>db_turns := db_turns d @ [child_row s seq token now], db_read_model := rm,
          db_baselines := db_baselines d\<rparr>" by simp
    ultimately show ?thesis by metis
  next
    case (Some m)
    with assms show ?thesis
      unfolding insert_child_def insert_turn_def insert_read_model_def insert_baseline_def by auto
  qed
  with that show thesis by blast
qed

lemma first_state_Inr:
  assumes "first_state t lease = Inr s"
  shows "ts_turn_id s = t" and "turn_wf s"
    and "ts_status s = (if lease = None then Queued else Running)"
    and "ts_revision s = lease_count lease"
proof -
  have "ts_turn_id s = t \<and> turn_wf s \<and> ts_status s = (if lease = None then Queued else Running)
    \<and> ts_revision s = lease_count lease"
  proof (cases lease)
    case None
    with assms have "s = turn_queued t" by (simp add: first_state_def)
    with None turn_queued_wf [of t] show ?thesis by (simp add: lease_count_def turn_queued_def)
  next
    case (Some l)
    then have step: "turn_step (turn_queued t) Start = Inr s"
      using assms by (simp add: first_state_def turn_step_def turn_queued_def)
    from turn_step_facts [OF step turn_queued_wf] turn_step_status(1) [OF step] Some show ?thesis
      by (simp add: lease_count_def turn_queued_def)
  qed
  then show "ts_turn_id s = t" "turn_wf s"
    "ts_status s = (if lease = None then Queued else Running)" "ts_revision s = lease_count lease"
    by blast+
qed

lemma child_row_ok:
  assumes "first_state t lease = Inr s"
  shows "turn_row_ok (child_row s seq token now)"
  using first_state_Inr(2) [OF assms] by (simp add: turn_row_ok_def)

lemma insert_outbox_Inr [simp]:
  "insert_outbox r d = Inr e \<longleftrightarrow> e = d\<lparr>db_outbox := db_outbox d @ [r]\<rparr>
     \<and> (\<forall>x \<in> set (db_outbox d). \<not> ((ob_session_id x = ob_session_id r
          \<and> (ob_seq x = ob_seq r \<or> ob_source_key x = ob_source_key r))
        \<or> ob_entry_id x = ob_entry_id r))"
  by (auto simp: insert_outbox_def)

lemma insert_session_event_Inr [simp]:
  "insert_session_event r d = Inr e \<longleftrightarrow> e = d\<lparr>db_session_events := db_session_events d @ [r]\<rparr>
     \<and> (\<forall>x \<in> set (db_session_events d). \<not> ((sv_session_id x = sv_session_id r \<and> sv_seq x = sv_seq r)
        \<or> sv_event_id x = sv_event_id r))"
  by (auto simp: insert_session_event_def)

lemma started_events_Inr:
  assumes "started_events tev sev sid s revision seq now d = Inr (e, ev)"
  obtains evs where "e = d\<lparr>db_events := evs, db_session_events := db_session_events d
      @ [session_event_row (session_envelope sev sid revision seq
          (LifecycleChanged LcRunning (Some (ts_turn_id s)))) now]\<rparr>"
    "seq < i64_bound"
  using assms that by (auto simp: started_events_def Let_def insert_event_def)

lemma record_snapshot_Inr:
  assumes "record_snapshot cid digest snapshot now d = Inr e"
  obtains dd where "e = d\<lparr>db_dedup := dd\<rparr>" "prefix (db_dedup d) dd"
proof (cases cid)
  case None
  with assms have "e = d\<lparr>db_dedup := db_dedup d\<rparr>" by (simp add: record_snapshot_def)
  then show thesis by (rule that) simp
next
  case (Some c)
  with assms show thesis by (auto simp: record_snapshot_def insert_dedup_def intro: that)
qed

lemma outbox_row_fields [simp]:
  "ob_session_id (outbox_row_of sid e) = sid" "ob_seq (outbox_row_of sid e) = te_sequence e"
  "ob_entry (outbox_row_of sid e) = e"
  "ob_kind (outbox_row_of sid e) = transcript_kind_name (te_kind e)"
  by (simp_all add: outbox_row_of_def)

lemma session_event_fields [simp]:
  "sv_session_id (session_event_row (session_envelope eid sid revision seq ev) now) = sid"
  "sv_seq (session_event_row (session_envelope eid sid revision seq ev) now) = seq"
  by (simp_all add: session_event_row_def session_envelope_def)

lemma user_entry_fields [simp]:
  "te_sequence (user_entry eid seq t text key now) = seq"
  "te_kind (user_entry eid seq t text key now) = TkUser"
  by (simp_all add: user_entry_def)

subsection \<open>Creating a session\<close>

text \<open>A started child adds events of its session; a queued one adds none.\<close>

lemma optional_events_Inr:
  assumes "when_leased lease (started_events tev sev sid s revision seq now) d = Inr (e, event)"
  obtains bev new where "e = d\<lparr>db_events := bev, db_session_events := db_session_events d @ new\<rparr>"
    "\<forall>r \<in> set new. sv_session_id r = sid \<and> sv_seq r = seq \<and> lease \<noteq> None"
proof (cases lease)
  case None
  then have "e = d\<lparr>db_events := db_events d, db_session_events := db_session_events d @ []\<rparr>"
    using assms by (simp add: when_leased_def)
  then show thesis by (rule that) simp
next
  case (Some l)
  then obtain ev where "started_events tev sev sid s revision seq now d = Inr (e, ev)"
    using assms by (auto simp: when_leased_def)
  then show thesis
    by (rule started_events_Inr) (rule that, assumption, simp add: Some)
qed

lemma create_writes_steps:
  assumes "create_session_writes L ids cid sid t b root prompt title digest baseline lease now focus d
      = Inr (e, outcome, event)"
  obtains s rm bl bev new dd where "first_state t lease = Inr s"
    "e = d\<lparr>db_turns := db_turns d @ [child_row s (lease_count lease) (lease_number lease) now],
       db_read_model := rm, db_baselines := bl,
       db_sessions := db_sessions d @ [new_session_row sid lease t b title root focus now],
       db_session_turns := db_session_turns d @ [\<lparr>st_turn_id = t, st_session_id = sid,
         st_parent_turn_id = None, st_ordinal = 0, st_completed_at_ms = None, st_tool_round_count = 0\<rparr>],
       db_active := db_active d @ [\<lparr>ar_session_id = sid, ar_turn_id = t,
         ar_lease_token = lease_number lease\<rparr>],
       db_outbox := db_outbox d @ [outbox_row_of sid
         (user_entry (ids 0) 1 t prompt (lit ''session:create:user'') now)],
       db_events := bev, db_session_events := db_session_events d @ new, db_dedup := dd\<rparr>"
    "\<forall>x \<in> set (db_turns d). tr_turn_id x \<noteq> t" "\<forall>x \<in> set (db_sessions d). sr_session_id x \<noteq> sid"
    "\<forall>x \<in> set (db_session_turns d). st_turn_id x \<noteq> t"
    "\<forall>x \<in> set (db_active d). ar_session_id x \<noteq> sid \<and> ar_turn_id x \<noteq> t"
    "\<forall>r \<in> set new. sv_session_id r = sid \<and> sv_seq r = 2 \<and> lease \<noteq> None"
    "prefix (db_dedup d) dd"
proof -
  obtain s d1 d2 d3 d4 d5 d6 snapshot where
    s: "first_state t lease = Inr s"
    and d1: "insert_child s (lease_count lease) (lease_number lease) (Some baseline) now d = Inr d1"
    and d2: "insert_session (new_session_row sid lease t b title root focus now) d1 = Inr d2"
    and d3: "insert_session_turn \<lparr>st_turn_id = t, st_session_id = sid, st_parent_turn_id = None,
        st_ordinal = 0, st_completed_at_ms = None, st_tool_round_count = 0\<rparr> d2 = Inr d3"
    and d4: "insert_active \<lparr>ar_session_id = sid, ar_turn_id = t,
        ar_lease_token = lease_number lease\<rparr> d3 = Inr d4"
    and d5: "insert_outbox (outbox_row_of sid
        (user_entry (ids 0) 1 t prompt (lit ''session:create:user'') now)) d4 = Inr d5"
    and d6: "when_leased lease (started_events (ids 1) (ids 2) sid s (lease_count lease) 2 now) d5
        = Inr (d6, event)"
    and d7: "record_snapshot cid digest snapshot now d6 = Inr e"
    using assms unfolding create_session_writes_def
    by (auto simp del: insert_outbox_Inr split: prod.splits)
  have t: "ts_turn_id s = t" by (rule first_state_Inr(1) [OF s])
  obtain rm bl where t1: "d1 = d\<lparr>db_turns := db_turns d @ [child_row s (lease_count lease)
      (lease_number lease) now], db_read_model := rm, db_baselines := bl\<rparr>"
    "\<forall>x \<in> set (db_turns d). tr_turn_id x \<noteq> ts_turn_id s"
    by (rule insert_child_Inr [OF d1])
  obtain bev new where t6: "d6 = d5\<lparr>db_events := bev, db_session_events := db_session_events d5 @ new\<rparr>"
    "\<forall>r \<in> set new. sv_session_id r = sid \<and> sv_seq r = 2 \<and> lease \<noteq> None"
    by (rule optional_events_Inr [OF d6])
  obtain dd where t7: "e = d6\<lparr>db_dedup := dd\<rparr>" "prefix (db_dedup d6) dd"
    by (rule record_snapshot_Inr [OF d7])
  have t2: "d2 = d1\<lparr>db_sessions := db_sessions d1 @ [new_session_row sid lease t b title root focus now]\<rparr>"
    "\<forall>x \<in> set (db_sessions d1). sr_session_id x \<noteq> sid"
    using d2 by (auto simp: insert_session_def new_session_row_def)
  have t3: "d3 = d2\<lparr>db_session_turns := db_session_turns d2 @ [\<lparr>st_turn_id = t, st_session_id = sid,
        st_parent_turn_id = None, st_ordinal = 0, st_completed_at_ms = None, st_tool_round_count = 0\<rparr>]\<rparr>"
    "\<forall>x \<in> set (db_session_turns d2). st_turn_id x \<noteq> t"
    using d3 by (auto simp: insert_session_turn_def)
  have t4: "d4 = d3\<lparr>db_active := db_active d3 @ [\<lparr>ar_session_id = sid, ar_turn_id = t,
        ar_lease_token = lease_number lease\<rparr>]\<rparr>"
    "\<forall>x \<in> set (db_active d3). ar_session_id x \<noteq> sid \<and> ar_turn_id x \<noteq> t"
    using d4 by (auto simp: insert_active_def)
  have t5: "d5 = d4\<lparr>db_outbox := db_outbox d4 @ [outbox_row_of sid
        (user_entry (ids 0) 1 t prompt (lit ''session:create:user'') now)]\<rparr>"
    using d5 by simp
  show thesis
    by (rule that [OF s _ _ _ _ _ t6(2)])
      (use t1(2) t2(2) t3(2) t4(2) t7(2) t in \<open>simp_all add: t7(1) t6(1) t5 t4(1) t3(1) t2(1) t1(1)\<close>)
qed

lemma linked_append: "linked d u k \<Longrightarrow> db_session_turns e = db_session_turns d @ rs \<Longrightarrow> linked e u k"
  by (auto simp: linked_def)

lemma active_turn_append:
  "db_active e = db_active d @ [a] \<Longrightarrow> k \<noteq> ar_session_id a \<Longrightarrow> active_turn e k = active_turn d k"
  by (auto simp: active_turn_def find_append split: option.split)

lemma active_turn_new:
  "db_active e = db_active d @ [a] \<Longrightarrow> \<forall>x \<in> set (db_active d). ar_session_id x \<noteq> ar_session_id a
     \<Longrightarrow> active_turn e (ar_session_id a) = Some a"
proof -
  assume *: "db_active e = db_active d @ [a]" "\<forall>x \<in> set (db_active d). ar_session_id x \<noteq> ar_session_id a"
  then have "find (\<lambda>r. ar_session_id r = ar_session_id a) (db_active d) = None"
    by (simp add: find_None_all)
  with *(1) show ?thesis by (simp add: active_turn_def find_append)
qed

lemma create_writes_moves:
  assumes ok: "store_ok d" and w: "create_session_writes L ids cid sid t b root prompt title digest
      baseline lease now focus d = Inr (e, outcome, event)"
  shows "store_ok e \<and> store_grows d e"
proof -
  obtain s rm bl bev new dd where s: "first_state t lease = Inr s"
    and e: "e = d\<lparr>db_turns := db_turns d @ [child_row s (lease_count lease) (lease_number lease) now],
       db_read_model := rm, db_baselines := bl,
       db_sessions := db_sessions d @ [new_session_row sid lease t b title root focus now],
       db_session_turns := db_session_turns d @ [\<lparr>st_turn_id = t, st_session_id = sid,
         st_parent_turn_id = None, st_ordinal = 0, st_completed_at_ms = None, st_tool_round_count = 0\<rparr>],
       db_active := db_active d @ [\<lparr>ar_session_id = sid, ar_turn_id = t,
         ar_lease_token = lease_number lease\<rparr>],
       db_outbox := db_outbox d @ [outbox_row_of sid
         (user_entry (ids 0) 1 t prompt (lit ''session:create:user'') now)],
       db_events := bev, db_session_events := db_session_events d @ new, db_dedup := dd\<rparr>"
    and fresh: "\<forall>x \<in> set (db_turns d). tr_turn_id x \<noteq> t" "\<forall>x \<in> set (db_sessions d). sr_session_id x \<noteq> sid"
    "\<forall>x \<in> set (db_session_turns d). st_turn_id x \<noteq> t"
    "\<forall>x \<in> set (db_active d). ar_session_id x \<noteq> sid \<and> ar_turn_id x \<noteq> t"
    and new: "\<forall>r \<in> set new. sv_session_id r = sid \<and> sv_seq r = 2 \<and> lease \<noteq> None"
    and dd: "prefix (db_dedup d) dd"
    by (rule create_writes_steps [OF w])
  note st = first_state_Inr [OF s]
  let ?row = "new_session_row sid lease t b title root focus now"
  have row: "sr_session_id ?row = sid" "sr_latest_turn_id ?row = Some t"
    "sr_lifecycle ?row = lit ''running''" "1 \<le> sr_last_seq ?row" "lease \<noteq> None \<Longrightarrow> sr_last_seq ?row = 2"
    by (simp_all add: new_session_row_def)
  have turns: "turn_state_of e u = (if u = t then Some s else turn_state_of d u)" for u
    using turn_state_insert [of e d "child_row s (lease_count lease) (lease_number lease) now" u] fresh(1) st(1)
    by (simp add: e)
  have link: "linked e t sid" by (simp add: linked_def e)
  have act: "active_turn e sid = Some \<lparr>ar_session_id = sid, ar_turn_id = t, ar_lease_token = lease_number lease\<rparr>"
    using active_turn_new [of e d "\<lparr>ar_session_id = sid, ar_turn_id = t, ar_lease_token = lease_number lease\<rparr>"]
      fresh(4) by (simp add: e)
  have parts: "keys_ok d" "effects_keyed d" "leases_ok d" "outbox_consistent d"
    "\<forall>r \<in> set (db_turns d). turn_row_ok r"
    using ok by (simp_all add: store_ok_def)
  have "store_ok e"
  proof (rule session_change [OF ok, where sid = sid])
    show "keys_ok e" using parts(1) fresh st(1) row(1) by (auto simp: keys_ok_def e)
    show "effects_keyed e" using parts(2) by (simp add: effects_keyed_def e)
    show "leases_ok e" using parts(3) by (simp add: leases_ok_def e)
    show "outbox_consistent e" using parts(4) by (auto simp: outbox_consistent_def e i64_bound_def)
    show "\<forall>r \<in> set (db_turns e). turn_row_ok r" using parts(5) child_row_ok [OF s] by (simp add: e)
    show "linked e u k" if "linked d u k" for u k using that by (rule linked_append) (simp add: e)
    show "turn_state_of e u = turn_state_of d u \<or> linked e u sid" for u using turns link by simp
    show "active_turn e k = active_turn d k" if "k \<noteq> sid" for k
      by (rule active_turn_append [where a = "\<lparr>ar_session_id = sid, ar_turn_id = t,
        ar_lease_token = lease_number lease\<rparr>"]) (use that in \<open>simp_all add: e\<close>)
    show "a \<in> set (db_active d) \<or> (ar_session_id a = sid \<and> linked e (ar_turn_id a) sid)"
      if "a \<in> set (db_active e)" for a using that link by (auto simp: e)
    show "x \<in> set (db_sessions d)" if "x \<in> set (db_sessions e)" "sr_session_id x \<noteq> sid" for x
      using that row(1) by (auto simp: e)
    show "sr_session_id ` set (db_sessions d) \<subseteq> sr_session_id ` set (db_sessions e)"
      "sid \<in> sr_session_id ` set (db_sessions e)" using row(1) by (auto simp: e)
    show "session_ok e x" if "x \<in> set (db_sessions e)" "sr_session_id x = sid" for x
    proof -
      have "x = ?row" using that fresh(2) by (auto simp: e)
      then show ?thesis
        using row act link turns [of t] st(3) by (auto simp: session_ok_def agrees_def)
    qed
    show "sr_last_seq y \<le> sr_last_seq x" if "y \<in> set (db_sessions d)" "sr_session_id y = sid" for x y
      using that fresh(2) by auto
    show "r \<in> set (db_outbox d) \<or> (ob_session_id r = sid
      \<and> (\<forall>x \<in> set (db_sessions e). sr_session_id x = sid \<longrightarrow> ob_seq r \<le> sr_last_seq x))"
      if "r \<in> set (db_outbox e)" for r
      using that row(4) fresh(2) by (auto simp: e)
    show "r \<in> set (db_session_events d) \<or> (sv_session_id r = sid
      \<and> (\<forall>x \<in> set (db_sessions e). sr_session_id x = sid \<longrightarrow> sv_seq r \<le> sr_last_seq x))"
      if "r \<in> set (db_session_events e)" for r
      using that new row(5) fresh(2) by (auto simp: e)
  qed
  moreover have "store_grows d e"
    unfolding store_grows_def
  proof (intro conjI)
    show "sessions_le d e" by (rule sessions_le_insert) (simp add: e)
    show "turns_le d e" 
      by (rule turns_le_insert [where r = "child_row s (lease_count lease) (lease_number lease) now"])
        (use fresh(1) st(1) in \<open>simp_all add: e\<close>)
    show "logs_le d e" using dd by (simp add: logs_le_def e)
    show "outbox_grows d e"
      by (rule outbox_grows_rows [where sid = sid and n = 0])
        (use fresh(2) in \<open>auto simp: e find_session_def dest: find_Some_in\<close>)
  qed (simp_all add: e ledger_le_same lease_le_same)
  ultimately show ?thesis by blast
qed

lemma create_session_moves:
  assumes "store_ok d" and "create_session_v2_inner L ids d cid sid t b root prompt baseline lease now focus
      = Inr (e, outcome, event)"
  shows "store_ok e \<and> store_grows d e"
  using assms
  by (auto simp: create_session_v2_inner_def Let_def dest: create_writes_moves split: option.splits)

subsection \<open>Following up\<close>

lemma followed_twice:
  "sql_update (\<lambda>x. sr_session_id x = sid) (\<lambda>x. x\<lparr>sr_revision := a, sr_last_seq := b\<rparr>)
     (sql_update (\<lambda>x. sr_session_id x = sid) (followed_session r s t now) rows)
   = sql_update (\<lambda>x. sr_session_id x = sid) (followed_session a b t now) rows"
proof -
  have "(\<lambda>x. followed_session r s t now x\<lparr>sr_revision := a, sr_last_seq := b\<rparr>) = followed_session a b t now"
    by (rule ext) (simp add: followed_session_def)
  then show ?thesis by (subst sql_update_twice) (simp_all add: followed_session_def)
qed

text \<open>The second advance of a follow-up that starts its child at once.\<close>

lemma follow_up_start_steps:
  assumes "when_leased lease (follow_up_start tev sev sid s revision seq now) d = Inr (e, event)"
    and "db_sessions d = sql_update (\<lambda>x. sr_session_id x = sid) (followed_session revision seq t now) rows"
  obtains bev new a b where "e = d\<lparr>db_events := bev, db_session_events := db_session_events d @ new,
      db_sessions := sql_update (\<lambda>x. sr_session_id x = sid) (followed_session a b t now) rows\<rparr>"
    "\<forall>r \<in> set new. sv_session_id r = sid \<and> sv_seq r \<le> b" "revision \<le> a" "seq \<le> b"
proof (cases lease)
  case None
  with assms have "e = d\<lparr>db_events := db_events d, db_session_events := db_session_events d @ [],
      db_sessions := sql_update (\<lambda>x. sr_session_id x = sid) (followed_session revision seq t now) rows\<rparr>"
    by (simp add: assms(2) [symmetric] when_leased_def)
  then show thesis by (rule that) simp_all
next
  case (Some l)
  with assms(1) obtain d1 ev where ev: "started_events tev sev sid s (revision + 1) (seq + 1) now d = Inr (d1, ev)"
    and e: "e = d1\<lparr>db_sessions := sql_update (\<lambda>r. sr_session_id r = sid)
      (\<lambda>r. r\<lparr>sr_revision := revision + 1, sr_last_seq := seq + 1\<rparr>) (db_sessions d1)\<rparr>"
    by (auto simp: follow_up_start_def when_leased_def)
  obtain bev where d1: "d1 = d\<lparr>db_events := bev, db_session_events := db_session_events d
      @ [session_event_row (session_envelope sev sid (revision + 1) (seq + 1)
          (LifecycleChanged LcRunning (Some (ts_turn_id s)))) now]\<rparr>"
    by (rule started_events_Inr [OF ev])
  show thesis
    by (rule that [where bev = bev and new = "[session_event_row (session_envelope sev sid (revision + 1)
          (seq + 1) (LifecycleChanged LcRunning (Some (ts_turn_id s)))) now]"
        and a = "revision + 1" and b = "seq + 1"])
      (simp_all add: e d1 assms(2) followed_twice)
qed

lemma follow_up_steps:
  assumes "follow_up_writes L ids cid sr t parent prompt digest baseline lease now d = Inr (e, outcome, event)"
  obtains s rm bl bev entry new a b dd where "first_state t lease = Inr s"
    "e = d\<lparr>db_turns := db_turns d @ [child_row s (lease_count lease) (lease_number lease) now],
       db_read_model := rm, db_baselines := bl,
       db_session_turns := db_session_turns d @ [\<lparr>st_turn_id = t, st_session_id = sr_session_id sr,
         st_parent_turn_id = sr_latest_turn_id sr, st_ordinal = next_ordinal d (sr_session_id sr),
         st_completed_at_ms = None, st_tool_round_count = 0\<rparr>],
       db_active := db_active d @ [\<lparr>ar_session_id = sr_session_id sr, ar_turn_id = t,
         ar_lease_token = lease_number lease\<rparr>],
       db_outbox := db_outbox d @ [outbox_row_of (sr_session_id sr) entry],
       db_events := bev, db_session_events := db_session_events d @ new,
       db_sessions := sql_update (\<lambda>x. sr_session_id x = sr_session_id sr)
         (followed_session a b t now) (db_sessions d),
       db_dedup := dd\<rparr>"
    "te_sequence entry = sr_last_seq sr + 1" "te_sequence entry < i64_bound"
    "\<forall>x \<in> set (db_turns d). tr_turn_id x \<noteq> t" "\<forall>x \<in> set (db_session_turns d). st_turn_id x \<noteq> t"
    "\<forall>x \<in> set (db_active d). ar_session_id x \<noteq> sr_session_id sr \<and> ar_turn_id x \<noteq> t"
    "\<forall>r \<in> set new. sv_session_id r = sr_session_id sr \<and> sv_seq r \<le> b"
    "sr_revision sr < a" "sr_last_seq sr < b" "prefix (db_dedup d) dd"
proof -
  let ?sid = "sr_session_id sr"
  let ?link = "\<lparr>st_turn_id = t, st_session_id = ?sid, st_parent_turn_id = sr_latest_turn_id sr,
      st_ordinal = next_ordinal d ?sid, st_completed_at_ms = None, st_tool_round_count = 0\<rparr>"
  let ?active = "\<lparr>ar_session_id = ?sid, ar_turn_id = t, ar_lease_token = lease_number lease\<rparr>"
  let ?entry = "user_entry (ids 0) (sr_last_seq sr + 1) t prompt
      (lit ''follow-up:'' @ uuid_text L t @ lit '':user'') now"
  let ?ev = "session_event_row (session_envelope (ids 1) ?sid (sr_revision sr + 1) (sr_last_seq sr + 1)
      (TurnLinked (linked_summary t parent (next_ordinal d ?sid)))) now"
  obtain s d1 d2 d3 d4 d5 d6 snapshot where
    s: "first_state t lease = Inr s"
    and d1: "insert_child s (lease_count lease) (lease_number lease) (Some baseline) now d = Inr d1"
    and d2: "insert_session_turn ?link d1 = Inr d2" and d3: "insert_active ?active d2 = Inr d3"
    and seq: "sr_last_seq sr + 1 < i64_bound"
    and d4: "insert_outbox (outbox_row_of ?sid ?entry) d3 = Inr d4"
    and d5: "insert_session_event ?ev d4 = Inr d5"
    and d6: "when_leased lease (follow_up_start (ids 2) (ids 3) ?sid s (sr_revision sr + 1)
        (sr_last_seq sr + 1) now) (d5\<lparr>db_sessions := sql_update (\<lambda>r. sr_session_id r = ?sid)
          (followed_session (sr_revision sr + 1) (sr_last_seq sr + 1) t now) (db_sessions d5)\<rparr>)
      = Inr (d6, event)"
    and d7: "record_snapshot cid digest snapshot now d6 = Inr e"
    using assms unfolding follow_up_writes_def Let_def
    by (auto simp del: insert_outbox_Inr insert_session_event_Inr split: prod.splits)
  have t: "ts_turn_id s = t" by (rule first_state_Inr(1) [OF s])
  obtain rm bl where t1: "d1 = d\<lparr>db_turns := db_turns d @ [child_row s (lease_count lease)
      (lease_number lease) now], db_read_model := rm, db_baselines := bl\<rparr>"
    "\<forall>x \<in> set (db_turns d). tr_turn_id x \<noteq> ts_turn_id s"
    by (rule insert_child_Inr [OF d1])
  have t2: "d2 = d1\<lparr>db_session_turns := db_session_turns d1 @ [?link]\<rparr>"
    "\<forall>x \<in> set (db_session_turns d1). st_turn_id x \<noteq> t"
    using d2 by (auto simp: insert_session_turn_def)
  have t3: "d3 = d2\<lparr>db_active := db_active d2 @ [?active]\<rparr>"
    "\<forall>x \<in> set (db_active d2). ar_session_id x \<noteq> ?sid \<and> ar_turn_id x \<noteq> t"
    using d3 by (auto simp: insert_active_def)
  have t4: "d4 = d3\<lparr>db_outbox := db_outbox d3 @ [outbox_row_of ?sid ?entry]\<rparr>" using d4 by simp
  have t5: "d5 = d4\<lparr>db_session_events := db_session_events d4 @ [?ev]\<rparr>" using d5 by simp
  let ?d = "d5\<lparr>db_sessions := sql_update (\<lambda>r. sr_session_id r = ?sid)
      (followed_session (sr_revision sr + 1) (sr_last_seq sr + 1) t now) (db_sessions d5)\<rparr>"
  obtain bev new a b where t6: "d6 = ?d\<lparr>db_events := bev,
      db_session_events := db_session_events ?d @ new,
      db_sessions := sql_update (\<lambda>x. sr_session_id x = ?sid) (followed_session a b t now) (db_sessions d5)\<rparr>"
    "\<forall>r \<in> set new. sv_session_id r = ?sid \<and> sv_seq r \<le> b" "sr_revision sr + 1 \<le> a" "sr_last_seq sr + 1 \<le> b"
    by (rule follow_up_start_steps [OF d6, where rows = "db_sessions d5"]) simp
  obtain dd where t7: "e = d6\<lparr>db_dedup := dd\<rparr>" "prefix (db_dedup d6) dd"
    by (rule record_snapshot_Inr [OF d7])
  show thesis
    by (rule that [OF s, where entry = ?entry and new = "?ev # new" and a = a and b = b])
      (use t1(2) t2(2) t3(2) t6(2-4) t7(2) seq t in \<open>simp_all add: t7(1) t6(1) t5 t4 t3(1) t2(1) t1(1)\<close>)
qed

lemma followed_fields [simp]:
  "sr_session_id (followed_session a b t now x) = sr_session_id x"
  "sr_revision (followed_session a b t now x) = a" "sr_last_seq (followed_session a b t now x) = b"
  "sr_lifecycle (followed_session a b t now x) = lit ''running''"
  "sr_latest_turn_id (followed_session a b t now x) = Some t"
  by (simp_all add: followed_session_def)

lemma update_session_ids:
  assumes "rows' = sql_update P f rows" and "\<And>x. sr_session_id (f x) = sr_session_id x"
  shows "map sr_session_id rows' = map sr_session_id rows"
    and "sr_session_id ` set rows' = sr_session_id ` set rows"
proof -
  show ids: "map sr_session_id rows' = map sr_session_id rows"
    unfolding assms(1) by (induction rows) (auto simp: assms(2))
  show "sr_session_id ` set rows' = sr_session_id ` set rows"
    using arg_cong [OF ids, of set] by simp
qed

lemma only_session:
  assumes "store_ok d" and "find_session d sid = Some s" and "x \<in> set (db_sessions d)" and "sr_session_id x = sid"
  shows "x = s"
proof -
  have "distinct (map sr_session_id (db_sessions d))" using assms(1) by (simp add: store_ok_def keys_ok_def)
  from find_by_key [OF this assms(3)] assms(2,4) show ?thesis by (simp add: find_session_def)
qed

lemma follow_up_writes_moves:
  assumes ok: "store_ok d" and sr: "find_session d (sr_session_id sr) = Some sr"
    and w: "follow_up_writes L ids cid sr t parent prompt digest baseline lease now d = Inr (e, outcome, event)"
  shows "store_ok e \<and> store_grows d e"
proof -
  let ?sid = "sr_session_id sr"
  let ?active = "\<lparr>ar_session_id = ?sid, ar_turn_id = t, ar_lease_token = lease_number lease\<rparr>"
  obtain s rm bl bev entry new a b dd where s: "first_state t lease = Inr s"
    and e: "e = d\<lparr>db_turns := db_turns d @ [child_row s (lease_count lease) (lease_number lease) now],
       db_read_model := rm, db_baselines := bl,
       db_session_turns := db_session_turns d @ [\<lparr>st_turn_id = t, st_session_id = ?sid,
         st_parent_turn_id = sr_latest_turn_id sr, st_ordinal = next_ordinal d ?sid,
         st_completed_at_ms = None, st_tool_round_count = 0\<rparr>],
       db_active := db_active d @ [?active],
       db_outbox := db_outbox d @ [outbox_row_of ?sid entry],
       db_events := bev, db_session_events := db_session_events d @ new,
       db_sessions := sql_update (\<lambda>x. sr_session_id x = ?sid) (followed_session a b t now) (db_sessions d),
       db_dedup := dd\<rparr>"
    and entry: "te_sequence entry = sr_last_seq sr + 1" "te_sequence entry < i64_bound"
    and fresh: "\<forall>x \<in> set (db_turns d). tr_turn_id x \<noteq> t" "\<forall>x \<in> set (db_session_turns d). st_turn_id x \<noteq> t"
    "\<forall>x \<in> set (db_active d). ar_session_id x \<noteq> ?sid \<and> ar_turn_id x \<noteq> t"
    and new: "\<forall>r \<in> set new. sv_session_id r = ?sid \<and> sv_seq r \<le> b"
    and grow: "sr_revision sr < a" "sr_last_seq sr < b" and dd: "prefix (db_dedup d) dd"
    by (rule follow_up_steps [OF w])
  note st = first_state_Inr [OF s]
  have sessions: "db_sessions e = sql_update (\<lambda>x. sr_session_id x = ?sid) (followed_session a b t now) (db_sessions d)"
    by (simp add: e)
  note ids = update_session_ids [OF sessions followed_fields(1)]
  have sid: "?sid \<in> sr_session_id ` set (db_sessions d)"
    using find_session_Some [OF sr] by auto
  have own: "x = followed_session a b t now sr" if "x \<in> set (db_sessions e)" "sr_session_id x = ?sid" for x
    using that only_session [OF ok sr] by (auto simp: sessions set_sql_update split: if_splits)
  have last: "\<forall>x \<in> set (db_sessions e). sr_session_id x = ?sid \<longrightarrow> sr_last_seq x = b"
  proof (intro ballI impI)
    fix x assume "x \<in> set (db_sessions e)" "sr_session_id x = ?sid"
    from own [OF this] show "sr_last_seq x = b" by simp
  qed
  have turns: "turn_state_of e u = (if u = t then Some s else turn_state_of d u)" for u
    using turn_state_insert [of e d "child_row s (lease_count lease) (lease_number lease) now" u] fresh(1) st(1)
    by (simp add: e)
  have link: "linked e t ?sid" by (simp add: linked_def e)
  have act: "active_turn e ?sid = Some ?active"
    using active_turn_new [of e d ?active] fresh(3) by (simp add: e)
  have parts: "keys_ok d" "effects_keyed d" "leases_ok d" "outbox_consistent d"
    "\<forall>r \<in> set (db_turns d). turn_row_ok r"
    using ok by (simp_all add: store_ok_def)
  have "store_ok e"
  proof (rule session_change [OF ok, where sid = ?sid])
    show "keys_ok e" using parts(1) fresh st(1) ids(1) unfolding keys_ok_def by (auto simp: e)
    show "effects_keyed e" using parts(2) by (simp add: effects_keyed_def e)
    show "leases_ok e" using parts(3) by (simp add: leases_ok_def e)
    show "outbox_consistent e" using parts(4) entry by (auto simp: outbox_consistent_def e)
    show "\<forall>r \<in> set (db_turns e). turn_row_ok r" using parts(5) child_row_ok [OF s] by (simp add: e)
    show "linked e u k" if "linked d u k" for u k using that by (rule linked_append) (simp add: e)
    show "turn_state_of e u = turn_state_of d u \<or> linked e u ?sid" for u using turns link by simp
    show "active_turn e k = active_turn d k" if "k \<noteq> ?sid" for k
      by (rule active_turn_append [where a = ?active]) (use that in \<open>simp_all add: e\<close>)
    show "a \<in> set (db_active d) \<or> (ar_session_id a = ?sid \<and> linked e (ar_turn_id a) ?sid)"
      if "a \<in> set (db_active e)" for a using that link by (auto simp: e)
    show "x \<in> set (db_sessions d)" if "x \<in> set (db_sessions e)" "sr_session_id x \<noteq> ?sid" for x
      using that by (auto simp: sessions set_sql_update split: if_splits)
    show "sr_session_id ` set (db_sessions d) \<subseteq> sr_session_id ` set (db_sessions e)"
      "?sid \<in> sr_session_id ` set (db_sessions e)" using ids(2) sid by simp_all
    show "session_ok e x" if "x \<in> set (db_sessions e)" "sr_session_id x = ?sid" for x
      using own [OF that] act link turns [of t] st(3) by (auto simp: session_ok_def agrees_def)
    show "sr_last_seq y \<le> sr_last_seq x" if "x \<in> set (db_sessions e)" "sr_session_id x = ?sid"
      "y \<in> set (db_sessions d)" "sr_session_id y = ?sid" for x y
      using own [OF that(1,2)] only_session [OF ok sr that(3,4)] grow by simp
    show "r \<in> set (db_outbox d) \<or> (ob_session_id r = ?sid
      \<and> (\<forall>x \<in> set (db_sessions e). sr_session_id x = ?sid \<longrightarrow> ob_seq r \<le> sr_last_seq x))"
      if "r \<in> set (db_outbox e)" for r
    proof (cases "r \<in> set (db_outbox d)")
      case False
      then have "r = outbox_row_of ?sid entry" using that by (simp add: e)
      with entry(1) grow(2) last show ?thesis by simp
    qed simp
    show "r \<in> set (db_session_events d) \<or> (sv_session_id r = ?sid
      \<and> (\<forall>x \<in> set (db_sessions e). sr_session_id x = ?sid \<longrightarrow> sv_seq r \<le> sr_last_seq x))"
      if "r \<in> set (db_session_events e)" for r
    proof (cases "r \<in> set (db_session_events d)")
      case False
      then have "r \<in> set new" using that by (simp add: e)
      with new last show ?thesis by simp
    qed simp
  qed
  moreover have "store_grows d e"
    unfolding store_grows_def
  proof (intro conjI)
    show "sessions_le d e"
      by (rule sessions_le_update [OF sessions]) (use sr grow in auto)
    show "turns_le d e"
      by (rule turns_le_insert [where r = "child_row s (lease_count lease) (lease_number lease) now"])
        (use fresh(1) st(1) in \<open>simp_all add: e\<close>)
    show "logs_le d e" using dd by (simp add: logs_le_def e)
    show "outbox_grows d e"
      by (rule outbox_grows_rows [where sid = ?sid and n = "sr_last_seq sr"])
        (use sr entry(1) in \<open>auto simp: e\<close>)
  qed (simp_all add: e ledger_le_same lease_le_same)
  ultimately show ?thesis by blast
qed

lemma follow_up_gate_Inr:
  assumes "follow_up_gate d sid expected = Inr (sr, parent)"
  shows "find_session d sid = Some sr" and "sr_revision sr = expected"
    and "sr_lifecycle sr = lit ''ready''" and "active_turn d sid = None"
    and "\<And>p. parent = Some p \<Longrightarrow> follow_up_allowed p \<and> (\<exists>t. sr_latest_turn_id sr = Some t \<and> turn_state_of d t = Some p)"
    and "parent = None \<Longrightarrow> sr_latest_turn_id sr = None \<and> sr_parent_session_id sr \<noteq> None"
  using assms
  by (auto simp: follow_up_gate_def follow_up_parent_def active_turn_def find_None_all turn_state_of_def
      split: option.splits if_splits)

lemma follow_up_moves:
  assumes "store_ok d" and "create_session_follow_up_v2_inner L ids d cid sid t expected prompt baseline
      lease now = Inr (e, outcome, event)"
  shows "store_ok e \<and> store_grows d e"
proof -
  consider "e = d" | sr parent digest message where "follow_up_gate d sid expected = Inr (sr, parent)"
      "follow_up_writes L ids cid sr t parent message digest baseline lease now d = Inr (e, outcome, event)"
    using assms(2) by (auto simp: create_session_follow_up_v2_inner_def Let_def split: option.splits)
  then show ?thesis
  proof cases
    case 2
    have "find_session d (sr_session_id sr) = Some sr"
      using follow_up_gate_Inr(1) [OF 2(1)] find_session_Some by metis
    from follow_up_writes_moves [OF assms(1) this 2(2)] show ?thesis .
  qed (use assms(1) in simp)
qed

subsection \<open>Switching, renaming, forking\<close>

text \<open>
  An operation that appends to one session's transcript and events and keeps its lifecycle
  and turns.
\<close>

lemma idle_session_change:
  assumes ok: "store_ok d" and s: "find_session d sid = Some s"
    and e: "e = d\<lparr>db_sessions := sql_update (\<lambda>x. sr_session_id x = sid) f (db_sessions d),
      db_outbox := db_outbox d @ obs, db_session_events := db_session_events d @ evs\<rparr>"
    and keep: "\<And>x. sr_session_id (f x) = sr_session_id x" "sr_lifecycle (f s) = sr_lifecycle s"
      "sr_latest_turn_id (f s) = sr_latest_turn_id s"
      "sr_revision s \<le> sr_revision (f s)" "sr_last_seq s \<le> sr_last_seq (f s)"
    and obs: "\<forall>r \<in> set obs. ob_session_id r = sid \<and> ob_seq r \<le> sr_last_seq (f s)
      \<and> ob_kind r = transcript_kind_name (te_kind (ob_entry r)) \<and> ob_seq r = te_sequence (ob_entry r)
      \<and> ob_seq r < i64_bound \<and> sr_last_seq s < ob_seq r"
    and srt: "sorted_wrt (<) (map ob_seq obs)"
    and evs: "\<forall>r \<in> set evs. sv_session_id r = sid \<and> sv_seq r \<le> sr_last_seq (f s)"
  shows "store_ok e \<and> store_grows d e"
proof -
  have sessions: "db_sessions e = sql_update (\<lambda>x. sr_session_id x = sid) f (db_sessions d)"
    by (simp add: e)
  note ids = update_session_ids [OF sessions keep(1)]
  have own: "x = f s" if "x \<in> set (db_sessions e)" "sr_session_id x = sid" for x
    using that only_session [OF ok s] by (auto simp: sessions set_sql_update keep(1) split: if_splits)
  have last: "\<forall>x \<in> set (db_sessions e). sr_session_id x = sid \<longrightarrow> sr_last_seq x = sr_last_seq (f s)"
  proof (intro ballI impI)
    fix x assume "x \<in> set (db_sessions e)" "sr_session_id x = sid"
    from own [OF this] show "sr_last_seq x = sr_last_seq (f s)" by simp
  qed
  have same: "linked e u k = linked d u k" "turn_state_of e u = turn_state_of d u"
    "active_turn e k = active_turn d k" for u k
    by (simp_all add: linked_def turn_state_of_def find_turn_def active_turn_def e)
  have sin: "s \<in> set (db_sessions d)" "sr_session_id s = sid" using find_session_Some [OF s] by auto
  have parts: "keys_ok d" "effects_keyed d" "leases_ok d" "outbox_consistent d"
    "\<forall>r \<in> set (db_turns d). turn_row_ok r" "session_ok d s"
    using ok sin by (simp_all add: store_ok_def)
  have "store_ok e"
  proof (rule session_change [OF ok, where sid = sid])
    show "keys_ok e" using parts(1) ids(1) unfolding keys_ok_def by (simp add: e)
    show "outbox_consistent e" using parts(4) obs by (auto simp: outbox_consistent_def e)
    show "sr_session_id ` set (db_sessions d) \<subseteq> sr_session_id ` set (db_sessions e)"
      "sid \<in> sr_session_id ` set (db_sessions e)" using ids(2) sin by auto
    show "x \<in> set (db_sessions d)" if "x \<in> set (db_sessions e)" "sr_session_id x \<noteq> sid" for x
      using that by (auto simp: sessions set_sql_update keep(1) split: if_splits)
    show "session_ok e x" if "x \<in> set (db_sessions e)" "sr_session_id x = sid" for x
      using parts(6) keep(2,3) keep(1) [of s] sin(2) unfolding own [OF that]
      by (cases "active_turn d sid") (simp_all add: session_ok_def same)
    show "sr_last_seq y \<le> sr_last_seq x" if "x \<in> set (db_sessions e)" "sr_session_id x = sid"
      "y \<in> set (db_sessions d)" "sr_session_id y = sid" for x y
      using own [OF that(1,2)] only_session [OF ok s that(3,4)] keep(5) by simp
    show "r \<in> set (db_outbox d) \<or> (ob_session_id r = sid
      \<and> (\<forall>x \<in> set (db_sessions e). sr_session_id x = sid \<longrightarrow> ob_seq r \<le> sr_last_seq x))"
      if "r \<in> set (db_outbox e)" for r
    proof (cases "r \<in> set (db_outbox d)")
      case False
      then have "r \<in> set obs" using that by (simp add: e)
      from bspec [OF obs this] last have "ob_session_id r = sid" "\<forall>x \<in> set (db_sessions e).
        sr_session_id x = sid \<longrightarrow> ob_seq r \<le> sr_last_seq x" by auto
      then show ?thesis by blast
    qed simp
    show "r \<in> set (db_session_events d) \<or> (sv_session_id r = sid
      \<and> (\<forall>x \<in> set (db_sessions e). sr_session_id x = sid \<longrightarrow> sv_seq r \<le> sr_last_seq x))"
      if "r \<in> set (db_session_events e)" for r
    proof (cases "r \<in> set (db_session_events d)")
      case False
      then have "r \<in> set evs" using that by (simp add: e)
      with evs last show ?thesis by simp
    qed simp
  qed (use parts(2,3,5) same in \<open>simp_all add: e effects_keyed_def leases_ok_def\<close>)
  moreover have "sessions_le d e"
    by (rule sessions_le_update [OF sessions keep(1)]) (use s keep(4,5) in auto)
  moreover have "outbox_grows d e"
    by (rule outbox_grows_rows [where sid = sid and n = "sr_last_seq s" and rows = obs])
      (use s obs srt in \<open>auto simp: e\<close>)
  ultimately show ?thesis
    by (simp add: store_grows_def logs_le_def e turns_le_same ledger_le_same lease_le_same)
qed

lemma switch_moves:
  assumes ok: "store_ok d" and w: "switch_session_binding_v2 L ids d sid expected b l now = Inr (e, resp)"
  shows "store_ok e \<and> store_grows d e"
proof -
  obtain s where gate: "switch_gate L d sid expected b l now = Inr s"
    and seq: "sr_last_seq s + 1 < i64_bound"
    and e: "e = d\<lparr>db_outbox := db_outbox d @ [outbox_row_of sid (switch_entry (ids 0)
          (sr_revision s + 1) (sr_last_seq s + 1) b now)],
        db_session_events := db_session_events d @ [session_event_row (session_envelope (ids 1) sid
          (sr_revision s + 1) (sr_last_seq s + 1)
          (BindingChanged (pb_provider_name b) (pb_model b))) now],
        db_sessions := sql_update (\<lambda>r. sr_session_id r = sid)
          (\<lambda>r. r\<lparr>sr_revision := sr_revision s + 1, sr_last_seq := sr_last_seq s + 1, sr_binding := b,
             sr_updated_at_ms := now\<rparr>) (db_sessions d)\<rparr>"
    using w by (auto simp: switch_session_binding_v2_def Let_def)
  have s: "find_session d sid = Some s"
    using gate by (auto simp: switch_gate_def split: if_splits)
  show ?thesis
    by (rule idle_session_change [OF ok s, where f = "\<lambda>r. r\<lparr>sr_revision := sr_revision s + 1,
          sr_last_seq := sr_last_seq s + 1, sr_binding := b, sr_updated_at_ms := now\<rparr>"
        and obs = "[outbox_row_of sid (switch_entry (ids 0) (sr_revision s + 1) (sr_last_seq s + 1) b now)]"
        and evs = "[session_event_row (session_envelope (ids 1) sid (sr_revision s + 1) (sr_last_seq s + 1)
          (BindingChanged (pb_provider_name b) (pb_model b))) now]"])
      (use seq in \<open>simp_all add: e switch_entry_def\<close>)
qed

lemma rename_moves:
  assumes ok: "store_ok d" and w: "rename_session L d sid title = Inr e"
  shows "store_ok e \<and> store_grows d e"
proof -
  let ?f = "\<lambda>r. r\<lparr>sr_title := session_title (scrub_secrets L) (trim title)\<rparr>"
  have e: "e = d\<lparr>db_sessions := sql_update (\<lambda>r. sr_session_id r = sid) ?f (db_sessions d)\<rparr>"
    and some: "\<exists>r \<in> set (db_sessions d). sr_session_id r = sid"
    using w by (auto simp: rename_session_def Let_def sql_changes_zero split: if_splits)
  then obtain s where s: "find_session d sid = Some s"
    by (cases "find_session d sid") (auto simp: find_session_def find_None_all)
  show ?thesis
    by (rule idle_session_change [OF ok s, where f = ?f and obs = "[]" and evs = "[]"]) (simp_all add: e)
qed

lemma fork_history_Inr:
  assumes "fork_history L ids source fork k previous es d = Inr e"
  shows "\<exists>rows. e = d\<lparr>db_outbox := db_outbox d @ rows\<rparr>
      \<and> (\<forall>r \<in> set rows. ob_session_id r = fork \<and> ob_seq r \<le> te_sequence (last es)
         \<and> ob_kind r = transcript_kind_name (te_kind (ob_entry r)) \<and> ob_seq r = te_sequence (ob_entry r)
         \<and> ob_seq r < i64_bound \<and> previous < ob_seq r) \<and> sorted_wrt (<) (map ob_seq rows)
      \<and> (es \<noteq> [] \<longrightarrow> previous < te_sequence (last es))"
  using assms
proof (induction es arbitrary: k previous d)
  case Nil
  then show ?case by (intro exI [of _ "[]"]) simp
next
  case (Cons x es)
  let ?row = "outbox_row_of fork (fork_entry L source (ids k) x)"
  have gt: "previous < te_sequence x" "te_sequence x < i64_bound"
    and rest: "fork_history L ids source fork (Suc k) (te_sequence x) es
      (d\<lparr>db_outbox := db_outbox d @ [?row]\<rparr>) = Inr e"
    using Cons.prems by auto
  have nil: "db_outbox e = db_outbox d @ [?row]" if "es = []" using rest that by auto
  from Cons.IH [OF rest] obtain rows where rows: "e = d\<lparr>db_outbox := db_outbox d @ [?row] @ rows\<rparr>"
    "\<forall>r \<in> set rows. ob_session_id r = fork \<and> ob_seq r \<le> te_sequence (last es)
         \<and> ob_kind r = transcript_kind_name (te_kind (ob_entry r)) \<and> ob_seq r = te_sequence (ob_entry r)
         \<and> ob_seq r < i64_bound \<and> te_sequence x < ob_seq r" "sorted_wrt (<) (map ob_seq rows)"
    "es \<noteq> [] \<longrightarrow> te_sequence x < te_sequence (last es)"
    by auto
  show ?case
  proof (intro exI [of _ "?row # rows"] conjI)
    show "\<forall>r \<in> set (?row # rows). ob_session_id r = fork \<and> ob_seq r \<le> te_sequence (last (x # es))
         \<and> ob_kind r = transcript_kind_name (te_kind (ob_entry r)) \<and> ob_seq r = te_sequence (ob_entry r)
         \<and> ob_seq r < i64_bound \<and> previous < ob_seq r"
    proof (cases "es = []")
      case True
      then have "rows = []" using nil rows(1) by simp
      with True gt show ?thesis by (simp add: fork_entry_def)
    next
      case False
      then have last: "last (x # es) = last es" "te_sequence x \<le> te_sequence (last es)"
        using rows(4) by auto
      show ?thesis
        unfolding last(1) using rows(2) last(2) gt by (auto simp: fork_entry_def)
    qed
    show "x # es \<noteq> [] \<longrightarrow> previous < te_sequence (last (x # es))"
      using rows(4) gt by auto
    show "sorted_wrt (<) (map ob_seq (?row # rows))"
      using rows(2,3) by (auto simp: fork_entry_def)
  qed (use rows(1) in simp)
qed

lemma fork_moves:
  assumes ok: "store_ok d" and w: "create_session_fork L ids d source fork history title now = Inr e"
  shows "store_ok e \<and> store_grows d e"
proof -
  obtain row rows where row: "sr_session_id row = fork" "sr_lifecycle row = lit ''ready''"
      "sr_latest_turn_id row = None"
      "sr_last_seq row = (if history = [] then 0 else te_sequence (last history))"
    and fresh: "\<forall>x \<in> set (db_sessions d). sr_session_id x \<noteq> fork"
    and e: "e = d\<lparr>db_sessions := db_sessions d @ [row], db_outbox := db_outbox d @ rows\<rparr>"
    and rows: "\<forall>r \<in> set rows. ob_session_id r = fork \<and> ob_seq r \<le> te_sequence (last history)
         \<and> ob_kind r = transcript_kind_name (te_kind (ob_entry r)) \<and> ob_seq r = te_sequence (ob_entry r)
         \<and> ob_seq r < i64_bound \<and> 0 < ob_seq r" "history = [] \<longrightarrow> rows = []"
      "sorted_wrt (<) (map ob_seq rows)"
  proof -
    obtain d1 row where ins: "insert_session row d = Inr d1" and row: "sr_session_id row = fork"
      "sr_lifecycle row = lit ''ready''" "sr_latest_turn_id row = None"
      "sr_last_seq row = (if history = [] then 0 else te_sequence (last history))"
      and f: "fork_history L ids source fork 0 0 history d1 = Inr e"
      using w by (auto simp: create_session_fork_def Let_def)
    have d1: "d1 = d\<lparr>db_sessions := db_sessions d @ [row]\<rparr>" "\<forall>x \<in> set (db_sessions d). sr_session_id x \<noteq> fork"
      using ins row(1) by (auto simp: insert_session_def)
    obtain rows where rows: "e = d1\<lparr>db_outbox := db_outbox d1 @ rows\<rparr>"
      "\<forall>r \<in> set rows. ob_session_id r = fork \<and> ob_seq r \<le> te_sequence (last history)
         \<and> ob_kind r = transcript_kind_name (te_kind (ob_entry r)) \<and> ob_seq r = te_sequence (ob_entry r)
         \<and> ob_seq r < i64_bound \<and> 0 < ob_seq r" "sorted_wrt (<) (map ob_seq rows)"
      using fork_history_Inr [OF f] by blast
    have "rows = []" if "history = []"
    proof -
      have "db_outbox e = db_outbox d1" using f that by simp
      with rows(1) show ?thesis by simp
    qed
    with that [OF row d1(2) _ rows(2) _ rows(3)] rows(1) d1(1) show thesis by simp
  qed
  have keys: "keys_ok d" and own: "owned_ok d" and parts: "effects_keyed d" "leases_ok d"
    "outbox_consistent d" "\<forall>r \<in> set (db_turns d). turn_row_ok r"
    using ok by (simp_all add: store_ok_def)
  have "active_turn d fork = None"
  proof (rule ccontr)
    assume "active_turn d fork \<noteq> None"
    then obtain a where "a \<in> set (db_active d)" "ar_session_id a = fork"
      by (auto simp: active_turn_def dest: find_Some_in)
    moreover have "ar_session_id ` set (db_active d) \<subseteq> sr_session_id ` set (db_sessions d)"
      using own by (simp add: owned_ok_def Let_def)
    ultimately have "fork \<in> sr_session_id ` set (db_sessions d)" by (metis image_eqI subsetD)
    then obtain x where "x \<in> set (db_sessions d)" "sr_session_id x = fork" by (metis imageE)
    with fresh show False by metis
  qed
  then have act: "active_turn e fork = None" by (simp add: active_turn_def e)
  have same: "linked e u k = linked d u k" "turn_state_of e u = turn_state_of d u"
    "active_turn e k = active_turn d k" for u k
    by (simp_all add: linked_def turn_state_of_def find_turn_def active_turn_def e)
  have is_row: "x = row" if "x \<in> set (db_sessions e)" "sr_session_id x = fork" for x
    using that fresh by (auto simp: e)
  have bound: "ob_seq r \<le> sr_last_seq row" if "r \<in> set rows" for r
  proof -
    have "history \<noteq> []" using rows(2) that by auto
    with bspec [OF rows(1) that] row(4) show ?thesis by auto
  qed
  have "store_ok e"
  proof (rule session_change [OF ok, where sid = fork])
    show "keys_ok e" using keys fresh row(1) unfolding keys_ok_def by (auto simp: e)
    show "outbox_consistent e" using parts(3) rows(1) by (auto simp: outbox_consistent_def e)
    show "session_ok e x" if "x \<in> set (db_sessions e)" "sr_session_id x = fork" for x
      using act row(1,2,3) unfolding is_row [OF that] by (simp add: session_ok_def idle_lifecycle_def)
    show "sr_last_seq y \<le> sr_last_seq x" if "x \<in> set (db_sessions e)" "sr_session_id x = fork"
      "y \<in> set (db_sessions d)" "sr_session_id y = fork" for x y
      using fresh that(3,4) by blast
    show "r \<in> set (db_outbox d) \<or> (ob_session_id r = fork
      \<and> (\<forall>x \<in> set (db_sessions e). sr_session_id x = fork \<longrightarrow> ob_seq r \<le> sr_last_seq x))"
      if "r \<in> set (db_outbox e)" for r
    proof (cases "r \<in> set (db_outbox d)")
      case False
      then have r: "r \<in> set rows" using that by (simp add: e)
      have "ob_seq r \<le> sr_last_seq x" if "x \<in> set (db_sessions e)" "sr_session_id x = fork" for x
        unfolding is_row [OF that] by (rule bound [OF r])
      with bspec [OF rows(1) r] show ?thesis by blast
    qed simp
  qed (use parts row(1) same in \<open>auto simp: e effects_keyed_def leases_ok_def\<close>)
  moreover have "sessions_le d e" by (rule sessions_le_insert [where rs = "[row]"]) (simp add: e)
  moreover have "outbox_grows d e"
    by (rule outbox_grows_rows [where sid = fork and n = 0 and rows = rows])
      (use fresh rows in \<open>auto simp: e find_session_def dest: find_Some_in\<close>)
  ultimately show ?thesis
    by (simp add: store_grows_def logs_le_def e turns_le_same ledger_le_same lease_le_same)
qed

subsection \<open>Unlinked runs\<close>

lemma create_run_moves:
  assumes ok: "store_ok d" and wf: "turn_wf s" and w: "create_run_with_baseline d s now baseline = Inr e"
    and unlinked: "\<And>k. \<not> linked d (ts_turn_id s) k"
  shows "store_ok e \<and> store_grows d e"
proof -
  obtain rm bl where e: "e = d\<lparr>db_turns := db_turns d @ [child_row s 0 0 now],
      db_read_model := rm, db_baselines := bl\<rparr>"
    and fresh: "\<forall>x \<in> set (db_turns d). tr_turn_id x \<noteq> ts_turn_id s"
  proof -
    have "insert_child s 0 0 baseline now d = Inr e"
      using w by (auto simp: create_run_with_baseline_def)
    from insert_child_Inr [OF this] that show thesis by blast
  qed
  have states: "turn_state_of e u = (if u = ts_turn_id s then Some s else turn_state_of d u)" for u
    using turn_state_insert [of e d "child_row s 0 0 now" u] fresh by (simp add: e)
  have parts: "keys_ok d" "effects_keyed d" "leases_ok d" "\<forall>r \<in> set (db_turns d). turn_row_ok r"
    using ok by (simp_all add: store_ok_def)
  have "store_ok e"
  proof (rule run_change [OF ok])
    show "turn_state_of e u = turn_state_of d u" if "linked d u k" for u k
      using states [of u] unlinked that by auto
    show "\<forall>r \<in> set (db_turns e). turn_row_ok r" using parts(4) wf by (simp add: e turn_row_ok_def)
    show "distinct (map tr_turn_id (db_turns e))" using parts(1) fresh by (auto simp: e keys_ok_def)
  qed (use parts in \<open>simp_all add: e leases_ok_def effects_keyed_def\<close>)
  moreover have "turns_le d e"
    by (rule turns_le_insert [where r = "child_row s 0 0 now"]) (use fresh in \<open>simp_all add: e\<close>)
  ultimately show ?thesis
    by (simp add: store_grows_def outbox_grows_same logs_le_def e sessions_le_same ledger_le_same lease_le_same)
qed

end
