(* ===== verification/Run_Keeps.thy ===== *)
theory Run_Keeps
  imports Store_Change
begin

text \<open>
  The lease operations and the operations on unlinked runs keep the store's invariant and
  move along its order.
\<close>

subsection \<open>Frames\<close>

definition sessions_kept :: "db \<Rightarrow> db \<Rightarrow> bool" where
  "sessions_kept d e \<longleftrightarrow> db_sessions e = db_sessions d \<and> db_active e = db_active d
     \<and> db_session_turns e = db_session_turns d \<and> db_outbox e = db_outbox d
     \<and> db_session_events e = db_session_events d \<and> prefix (db_dedup d) (db_dedup e)"

lemma sessions_kept_refl [simp, intro]: "sessions_kept d d"
  by (simp add: sessions_kept_def)

lemma sessions_kept_trans: "sessions_kept d e \<Longrightarrow> sessions_kept e f \<Longrightarrow> sessions_kept d f"
  by (auto simp: sessions_kept_def)

definition leases_kept :: "db \<Rightarrow> db \<Rightarrow> bool" where
  "leases_kept d e \<longleftrightarrow> db_leases e = db_leases d \<and> db_lease_epoch e = db_lease_epoch d"

text \<open>An operation that leaves the sessions and the states of the turns alone.\<close>

lemma core_moves:
  assumes ok: "store_ok d" and kept: "sessions_kept d e"
    and core: "map turn_core (db_turns e) = map turn_core (db_turns d)"
    and lease: "leases_ok e" "lease_le d e" and ledger: "ledger_le d e" "effects_keyed e"
  shows "store_ok e \<and> store_grows d e"
proof
  have turns: "distinct (map tr_turn_id (db_turns d))" "\<forall>r \<in> set (db_turns d). turn_row_ok r"
    using ok by (simp_all add: store_ok_def keys_ok_def)
  show "store_ok e"
  proof (rule run_change [OF ok])
    show "distinct (map tr_turn_id (db_turns e))" using turns(1) same_core_ids [OF core] by simp
    show "\<forall>r \<in> set (db_turns e). turn_row_ok r" by (rule same_core_ok [OF core turns(2)])
    show "turn_state_of e u = turn_state_of d u" for u by (rule same_core_state [OF core])
  qed (use kept lease ledger in \<open>simp_all add: sessions_kept_def\<close>)
  show "store_grows d e"
    using kept lease ledger turns_le_core [OF core]
    by (simp add: store_grows_def outbox_grows_same logs_le_def sessions_kept_def sessions_le_same)
qed

lemma ledger_moves:
  assumes ok: "store_ok d" and mv: "ledger_move d e"
  shows "store_ok e \<and> store_grows d e"
proof (rule core_moves [OF ok])
  have "leases_ok d" "effects_keyed d" using ok by (simp_all add: store_ok_def)
  with mv show "leases_ok e" "effects_keyed e" "lease_le d e"
    by (auto simp: ledger_move_def ledger_only_def leases_ok_def intro: lease_le_same)
qed (use mv in \<open>simp_all add: ledger_move_def ledger_only_def sessions_kept_def\<close>)

text \<open>An operation that moves one unlinked turn.\<close>

lemma run_moves:
  assumes ok: "store_ok d" and kept: "sessions_kept d e" "leases_kept d e"
    and r: "find_turn d t = Some r" "P r" and unlinked: "\<And>k. \<not> linked d t k"
    and turns: "db_turns e = sql_update (\<lambda>x. tr_turn_id x = t \<and> P x) f (db_turns d)"
    and f: "row_holds s (f r)" "turn_wf s" "turn_le (tr_state r) s"
    and ledger: "ledger_le d e" "effects_keyed e"
  shows "store_ok e \<and> store_grows d e"
proof -
  have rows: "distinct (map tr_turn_id (db_turns d))" "\<forall>r \<in> set (db_turns d). turn_row_ok r" "leases_ok d"
    using ok by (simp_all add: store_ok_def keys_ok_def)
  have rin: "r \<in> set (db_turns d)" "tr_turn_id r = t" using find_turn_Some [OF r(1)] by auto
  have only: "x = r" if "x \<in> set (db_turns d)" "tr_turn_id x = t" for x
    using find_by_key [OF rows(1) that(1)] that(2) r(1) by (simp add: find_turn_def)
  have tid: "tr_turn_id (f r) = t" "tr_state (f r) = s"
  proof -
    have "ts_turn_id (tr_state r) = t"
      using rows(2) rin by (auto simp: turn_row_ok_def row_holds_def)
    then have "ts_turn_id s = t" using f(3) by (simp add: turn_le_def)
    with f(1) show "tr_turn_id (f r) = t" "tr_state (f r) = s" by (simp_all add: row_holds_def)
  qed
  let ?g = "\<lambda>x. if x = r then f r else x"
  have map: "db_turns e = map ?g (db_turns d)"
    unfolding turns sql_update_def
  proof (intro map_cong refl)
    fix x assume x: "x \<in> set (db_turns d)"
    show "(if tr_turn_id x = t \<and> P x then f x else x) = ?g x"
      using only [OF x] r(2) rin(2) by (cases "x = r") auto
  qed
  have ids: "tr_turn_id (?g x) = tr_turn_id x" for x using tid rin(2) by simp
  have found: "find_turn e u = map_option ?g (find_turn d u)" for u
    unfolding find_turn_def map find_map ids ..
  have states: "turn_state_of e u = (if u = t then Some s else turn_state_of d u)" for u
  proof (cases "u = t")
    case True
    then show ?thesis using found [of u] r(1) tid by (simp add: turn_state_of_def)
  next
    case False
    have "?g x = x" if "find_turn d u = Some x" for x
      using find_turn_Some [OF that] False rin(2) by auto
    then show ?thesis using found [of u] False by (cases "find_turn d u") (simp_all add: turn_state_of_def)
  qed
  have "store_ok e"
  proof (rule run_change [OF ok])
    have "map tr_turn_id (db_turns e) = map tr_turn_id (db_turns d)"
      unfolding map by (simp add: comp_def ids del: if_split)
    then show "distinct (map tr_turn_id (db_turns e))" using rows(1) by simp
    show "\<forall>r \<in> set (db_turns e). turn_row_ok r"
      using rows(2) f(1,2) tid unfolding map by (auto simp: turn_row_ok_def)
    show "leases_ok e" using kept(2) by (intro leases_ok_same [OF rows(3)]) (simp_all add: leases_kept_def)
    show "turn_state_of e u = turn_state_of d u" if "linked d u k" for u k
      using states [of u] unlinked that by auto
  qed (use kept ledger in \<open>simp_all add: sessions_kept_def\<close>)
  moreover have "turns_le d e"
  proof (rule turns_le_move [OF states])
    show "turn_le x s" if "turn_state_of d t = Some x" for x
      using that r(1) f(3) by (simp add: turn_state_of_def)
  qed
  moreover have "lease_le d e" using kept(2) by (intro lease_le_same) (simp_all add: leases_kept_def)
  ultimately show ?thesis
    using kept ledger by (simp add: store_grows_def outbox_grows_same logs_le_def sessions_kept_def sessions_le_same)
qed

lemma not_linked: "reject_linked_turn d t = Inr u \<Longrightarrow> \<not> linked d t k"
  by (auto simp: reject_linked_turn_def is_session_linked_turn_def linked_def split: if_splits)

subsection \<open>Transitions of runs\<close>

lemma advance_run_moves:
  assumes ok: "store_ok d" and unlinked: "\<And>k. \<not> linked d t k"
    and r: "find_turn d t = Some r" "P r" and s: "turn_wf s" "turn_le (tr_state r) s"
    and w: "advance_run eid r s ev P overflow token now d = Inr (e, stored)"
  shows "store_ok e \<and> store_grows d e" and "db_checkpoints e = db_checkpoints d"
proof -
  let ?f = "\<lambda>x. x\<lparr>tr_state := s, tr_status := status_name (ts_status s), tr_revision := ts_revision s,
      tr_last_seq := tr_last_seq r + 1, tr_lease_token := token, tr_updated_at_ms := now\<rparr>"
  obtain evs rm where e: "e = d\<lparr>db_events := evs, db_turns := sql_update (\<lambda>x. tr_turn_id x = tr_turn_id r \<and> P x)
      ?f (db_turns d), db_read_model := rm\<rparr>"
    using w by (auto simp: advance_run_def insert_event_def update_read_model_def Let_def)
  have t: "tr_turn_id r = t" and tok: "turn_row_ok r"
    using find_turn_Some [OF r(1)] ok by (auto simp: store_ok_def)
  then have f: "row_holds s (?f r)"
    using s(2) by (auto simp: row_holds_def turn_row_ok_def turn_le_def)
  show "store_ok e \<and> store_grows d e"
  proof (rule run_moves [where P = P and f = ?f, OF ok _ _ r unlinked _ f s])
    show "effects_keyed e" using ok by (simp add: store_ok_def effects_keyed_def e)
  qed (simp_all add: e t sessions_kept_def leases_kept_def ledger_le_same)
  show "db_checkpoints e = db_checkpoints d" by (simp add: e)
qed

lemma run_gate_Inr:
  assumes "run_gate d t expected l now = Inr r"
  shows "find_turn d t = Some r" "ts_revision (tr_state r) = expected" "tr_lease_token r \<le> ls_fencing_token l"
    "ls_scope l = LEGACY_RUNTIME_LEASE_SCOPE"
    "lease_live d (ls_scope l) (ls_owner l) (ls_fencing_token l) now"
  using assms
  by (auto simp: run_gate_def require_legacy_runtime_lease_def require_lease_scope_def
      require_live_lease_def split: if_splits)

lemma gate_row:
  assumes "store_ok d" and "find_turn d t = Some r"
  shows "turn_wf (tr_state r)" "tr_revision r = ts_revision (tr_state r)" "ts_turn_id (tr_state r) = t"
    "tr_status r = status_name (ts_status (tr_state r))" "tr_turn_id r = t"
  using find_turn_Some [OF assms(2)] assms(1) by (auto simp: store_ok_def turn_row_ok_def row_holds_def)

lemma apply_transition_moves:
  assumes ok: "store_ok d" and unlinked: "\<And>k. \<not> linked d t k"
    and w: "store_apply_transition ids d t expected tr now l = Inr (e, s, ev)"
  shows "store_ok e \<and> store_grows d e"
proof -
  obtain r where gate: "run_gate d t expected l now = Inr r"
    and step: "turn_transition (tr_state r) expected tr = Inr s"
    and adv: "advance_run (ids 0) r s (turn_event s) (\<lambda>x. tr_revision x = expected)
       (lit ''event sequence overflow'') (ls_fencing_token l) now d = Inr (e, ev)"
    using w by (auto simp: store_apply_transition_def lift_transition_def)
  note g = run_gate_Inr [OF gate]
  note row = gate_row [OF ok g(1)]
  have "turn_step (tr_state r) tr = Inr s" using step g(2) by (simp add: turn_step_def)
  then show ?thesis
    by (intro advance_run_moves(1) [OF ok unlinked g(1) _ _ _ adv])
      (use row g(2) in \<open>auto intro: turn_step_wf turn_step_le\<close>)
qed

lemma drop_permission_move: "drop_permission t p post now d = Inr e \<Longrightarrow> ledger_move d e"
proof -
  assume "drop_permission t p post now d = Inr e"
  then obtain perms where e: "e = d\<lparr>db_permissions := perms, db_effects := sql_update
      (effect_of (pp_request_id p) t (lit ''prepared''))
      (observe_row (lit ''observed_failed'') post now) (db_effects d)\<rparr>"
    by (auto simp: drop_permission_def Let_def)
  let ?d = "d\<lparr>db_permissions := perms\<rparr>"
  have "ledger_move ?d (?d\<lparr>db_effects := sql_update (effect_of (pp_request_id p) t (lit ''prepared''))
      (observe_row (lit ''observed_failed'') post now) (db_effects ?d)\<rparr>)"
    by (rule observe_move) (simp add: effect_of_def)
  from ledger_move_trans [OF permissions_move this] show ?thesis by (simp add: e)
qed

lemma ledger_move_turns:
  assumes "ledger_move d e" and "find_turn d t = Some r"
  obtains r' where "find_turn e t = Some r'" "turn_core r' = turn_core r"
proof -
  have "map turn_core (db_turns e) = map turn_core (db_turns d)"
    using assms(1) by (simp add: ledger_move_def ledger_only_def)
  from same_core_find [OF this, of t] assms(2) that show thesis
    by (auto simp: find_turn_def)
qed

lemma ledger_move_linked: "ledger_move d e \<Longrightarrow> linked e t k = linked d t k"
  by (simp add: ledger_move_def ledger_only_def linked_def)

lemma cancelled_wf:
  assumes "turn_wf s" and "ts_status s \<in> {WaitingPermission, WaitingInput}" and "ts_revision s + 1 < u64_bound"
  shows "turn_wf (s\<lparr>ts_revision := ts_revision s + 1, ts_status := Failed, ts_pending_permission := None,
           ts_pending_input := None, ts_failure := Some f\<rparr>)"
  using assms by (auto simp: turn_wf_def)

lemma cancel_waiting_moves:
  assumes ok: "store_ok d" and unlinked: "\<And>k. \<not> linked d t k"
    and w: "cancel_waiting ids d t expected l now denied = Inr (e, s, ev)"
  shows "store_ok e \<and> store_grows d e"
proof -
  obtain r where gate: "run_gate d t expected l now = Inr r"
    using w by (auto simp: cancel_waiting_def)
  note g = run_gate_Inr [OF gate]
  note row = gate_row [OF ok g(1)]
  show ?thesis
  proof (cases "terminal_status (ts_status (tr_state r))")
    case True
    then have "e = d" using w gate by (simp add: cancel_waiting_def Let_def)
    with ok show ?thesis by simp
  next
    case False
    let ?drop = "case ts_pending_permission (tr_state r) of None \<Rightarrow> Inr d
        | Some p \<Rightarrow> drop_permission t p
            (if denied then lit ''{\"denied\":true}'' else lit ''{\"cancelled\":true}'') now d"
    obtain d1 d2 stored where 2: "ts_status (tr_state r) \<in> {WaitingPermission, WaitingInput}"
      "ts_revision (tr_state r) + 1 < u64_bound" "?drop = Inr d1"
      "advance_run (ids 0) r s (StateChanged Failed) (\<lambda>x. tr_revision x = expected)
         (lit ''sequence overflow'') (ls_fencing_token l) now d1 = Inr (d2, stored)"
      "s = (tr_state r)\<lparr>ts_revision := ts_revision (tr_state r) + 1, ts_status := Failed,
         ts_pending_permission := None, ts_pending_input := None, ts_failure := Some (cancel_failure denied)\<rparr>"
      "e = d2\<lparr>db_checkpoints := sql_delete (\<lambda>x. ck_turn_id x = t) (db_checkpoints d2)\<rparr>"
      using w gate False unfolding cancel_waiting_def Let_def by (elim bindE_eq_Inr [THEN iffD1, elim_format]) auto
    have mv1: "ledger_move d d1"
      using 2(3) by (cases "ts_pending_permission (tr_state r)") (auto dest: drop_permission_move)
    have ok1: "store_ok d1" "store_grows d d1" using ledger_moves [OF ok mv1] by auto
    obtain r1 where r1: "find_turn d1 t = Some r1" "turn_core r1 = turn_core r"
      by (rule ledger_move_turns [OF mv1 g(1)])
    then have r1_core: "tr_turn_id r1 = t" "tr_state r1 = tr_state r" "tr_revision r1 = tr_revision r"
      "tr_last_seq r1 = tr_last_seq r" using row(5) by (simp_all add: turn_core_def)
    have "advance_run (ids 0) r1 s (StateChanged Failed) (\<lambda>x. tr_revision x = expected)
         (lit ''sequence overflow'') (ls_fencing_token l) now d1 = Inr (d2, stored)"
      using 2(4) r1_core row(5) by (simp add: advance_run_def)
    then have mv: "store_ok d2 \<and> store_grows d1 d2"
      by (rule_tac advance_run_moves(1) [where P = "\<lambda>x. tr_revision x = expected" and t = t and r = r1, OF ok1(1)])
        (use r1 r1_core row g(2) unlinked ledger_move_linked [OF mv1] 2(2,5)
          cancelled_wf [OF row(1) 2(1,2)] 2(1) in \<open>auto simp: turn_le_def\<close>)
    have "store_ok e \<and> store_grows d2 e"
    proof (rule core_moves)
      show "store_ok d2" using mv by blast
      then have "leases_ok d2" "effects_keyed d2" by (simp_all add: store_ok_def)
      then show "leases_ok e" "effects_keyed e"
        by (simp_all add: 2(6) leases_ok_def effects_keyed_def)
    qed (simp_all add: 2(6) sessions_kept_def ledger_le_same lease_le_same)
    with mv store_grows_trans [OF ok1(1,2), of d2] store_grows_trans [of d2 d e] show ?thesis by blast
  qed
qed

lemma complete_verified_moves:
  assumes ok: "store_ok d" and unlinked: "\<And>k. \<not> linked d t k"
    and w: "complete_verified L ids d t expected l summary current digest now = Inr (e, s, ev)"
  shows "store_ok e \<and> store_grows d e"
proof -
  obtain r h where gate: "run_gate d t expected l now = Inr r"
    and step: "turn_transition (tr_state r) expected (Complete h VerificationRequired) = Inr s"
    and adv: "advance_run (ids 0) r s (HandoffProduced h) (\<lambda>x. tr_revision x = expected
       \<and> tr_effect_epoch x = tr_effect_epoch r) (lit ''sequence overflow'') (ls_fencing_token l) now d
       = Inr (e, ev)"
    using w by (auto simp: complete_verified_def lift_transition_def Let_def split: if_splits)
  note g = run_gate_Inr [OF gate]
  note row = gate_row [OF ok g(1)]
  have "turn_step (tr_state r) (Complete h VerificationRequired) = Inr s"
    using step g(2) by (simp add: turn_step_def)
  then show ?thesis
    by (intro advance_run_moves(1) [where P = "\<lambda>x. tr_revision x = expected
        \<and> tr_effect_epoch x = tr_effect_epoch r", OF ok unlinked g(1) _ _ _ adv])
      (use row g(2) in \<open>auto intro: turn_step_wf turn_step_le\<close>)
qed

subsection \<open>Lost leases of runs\<close>

lemma interrupted_run_wf:
  assumes "turn_wf s" and "ts_status s \<in> {Running, Cancelling}" and "ts_revision s + 1 < u64_bound"
  shows "turn_wf (s\<lparr>ts_status := Interrupted, ts_revision := ts_revision s + 1\<rparr>)"
  using assms by (auto simp: turn_wf_def)

lemma interrupt_unlinked_moves:
  assumes ok: "store_ok d" and unlinked: "\<And>k. \<not> linked d (tr_turn_id r) k"
    and r: "find_turn d (tr_turn_id r) = Some r" "ts_status (tr_state r) \<in> {Running, Cancelling}"
    and w: "interrupt_unlinked eid r updated e1 e2 now d = Inr (e, s)"
  shows "store_ok e \<and> store_grows d e"
    and "u \<noteq> tr_turn_id r \<Longrightarrow> find_turn e u = find_turn d u" and "db_session_turns e = db_session_turns d"
proof -
  let ?t = "tr_turn_id r"
  let ?f = "\<lambda>x. x\<lparr>tr_state := s, tr_status := lit ''interrupted'', tr_revision := ts_revision s,
     tr_last_seq := tr_last_seq r + 1, tr_updated_at_ms :=
     (case updated of None \<Rightarrow> tr_updated_at_ms x | Some m \<Rightarrow> m)\<rparr>"
  let ?g = "\<lambda>x. x\<lparr>ef_status := lit ''unknown''\<rparr>"
  note row = gate_row [OF ok r(1)]
  obtain evs rm where s: "s = (tr_state r)\<lparr>ts_status := Interrupted, ts_revision := ts_revision (tr_state r) + 1\<rparr>"
      "ts_revision (tr_state r) + 1 < u64_bound"
    and e: "e = d\<lparr>db_events := evs, db_turns := sql_update (\<lambda>x. tr_turn_id x = ?t) ?f (db_turns d),
      db_read_model := rm, db_effects := sql_update (turn_effects ?t (lit ''started'')) ?g (db_effects d)\<rparr>"
    using w by (auto simp: interrupt_unlinked_def insert_event_def update_read_model_def Let_def)
  have keyed: "effects_keyed d" using ok by (simp add: store_ok_def)
  show "store_ok e \<and> store_grows d e"
  proof (rule run_moves [where P = "\<lambda>x. True" and f = ?f and s = s, OF ok _ _ r(1) TrueI unlinked])
    show "row_holds s (?f r)" using row by (simp add: s(1) row_holds_def)
    show "turn_wf s" unfolding s(1) by (rule interrupted_run_wf [OF row(1) r(2) s(2)])
    show "turn_le (tr_state r) s" using r(2) by (auto simp: s(1) turn_le_def)
    show "ledger_le d e"
      by (rule ledger_le_update [where P = "turn_effects ?t (lit ''started'')" and f = ?g])
        (auto simp: e turn_effects_def intro: effect_le_step)
    show "effects_keyed e"
      using keyed effects_keyed_update [where e = e and d = d and P = "turn_effects ?t (lit ''started'')" and f = ?g]
      by (simp add: e)
  qed (simp_all add: e sessions_kept_def leases_kept_def)
  show "find_turn e u = find_turn d u" if "u \<noteq> ?t"
  proof -
    have turns: "db_turns e = sql_update (\<lambda>x. tr_turn_id x = ?t) ?f (db_turns d)" by (simp add: e)
    have "find_turn e u = map_option (\<lambda>x. if tr_turn_id x = ?t then ?f x else x) (find_turn d u)"
      unfolding find_turn_def turns by (rule find_update_key) simp
    with that show ?thesis by (cases "find_turn d u") (auto dest: find_turn_Some)
  qed
  show "db_session_turns e = db_session_turns d" by (simp add: e)
qed

lemma interrupt_after_loss_moves:
  assumes ok: "store_ok d" and unlinked: "\<And>k. \<not> linked d t k"
    and w: "interrupt_after_lease_loss ids d t l expected now = Inr (e, outcome)"
  shows "store_ok e \<and> store_grows d e"
proof -
  consider "e = d" | r s where "find_turn d t = Some r" "ts_status (tr_state r) \<in> {Running, Cancelling}"
      "interrupt_unlinked (ids 0) r (Some now) (lit ''revision overflow'') (lit ''sequence overflow'') now d
        = Inr (e, s)"
    using w by (auto simp: interrupt_after_lease_loss_def split: if_splits)
  then show ?thesis
  proof cases
    case 2
    have "tr_turn_id r = t" using find_turn_Some [OF 2(1)] by simp
    with interrupt_unlinked_moves(1) [OF ok _ _ 2(2,3)] 2(1) unlinked show ?thesis by simp
  qed (use ok in simp)
qed

lemma recover_unlinked_moves:
  assumes "recover_all_unlinked ids i now rows d = Inr e" and "store_ok d"
    and "distinct (map tr_turn_id rows)"
    and "\<forall>r \<in> set rows. find_turn d (tr_turn_id r) = Some r \<and> (\<forall>k. \<not> linked d (tr_turn_id r) k)
      \<and> ts_status (tr_state r) \<in> {Running, Cancelling}"
  shows "store_ok e \<and> store_grows d e"
  using assms
proof (induction rows arbitrary: i d)
  case (Cons r rows)
  obtain d1 s where one: "interrupt_unlinked (ids i 0) r None (lit ''revision overflow during recovery'')
      (lit ''event sequence overflow during recovery'') now d = Inr (d1, s)"
    and rest: "recover_all_unlinked ids (Suc i) now rows d1 = Inr e"
    using Cons.prems(1) by auto
  have r: "find_turn d (tr_turn_id r) = Some r" "ts_status (tr_state r) \<in> {Running, Cancelling}"
    "\<And>k. \<not> linked d (tr_turn_id r) k"
    using Cons.prems(4) by auto
  note mv = interrupt_unlinked_moves [OF Cons.prems(2) r(3,1,2) one]
  have "store_ok e \<and> store_grows d1 e"
  proof (rule Cons.IH [OF rest])
    show "store_ok d1" using mv(1) by blast
    show "distinct (map tr_turn_id rows)" using Cons.prems(3) by simp
    show "\<forall>x \<in> set rows. find_turn d1 (tr_turn_id x) = Some x \<and> (\<forall>k. \<not> linked d1 (tr_turn_id x) k)
      \<and> ts_status (tr_state x) \<in> {Running, Cancelling}"
    proof
      fix x assume x: "x \<in> set rows"
      with Cons.prems(3) have "tr_turn_id x \<noteq> tr_turn_id r" by (metis distinct.simps(2) image_eqI list.set_map list.simps(9))
      with mv(2) mv(3) Cons.prems(4) x
      show "find_turn d1 (tr_turn_id x) = Some x \<and> (\<forall>k. \<not> linked d1 (tr_turn_id x) k)
        \<and> ts_status (tr_state x) \<in> {Running, Cancelling}" by (simp add: linked_def)
    qed
  qed
  with mv(1) show ?case by (blast intro: store_grows_trans)
qed simp

text \<open>What startup selects satisfies this: unlinked rows, each its own turn.\<close>

lemma stale_unlinked_rows:
  assumes "store_ok d"
  shows "distinct (map tr_turn_id (stale_unlinked d now))"
    and "\<forall>r \<in> set (stale_unlinked d now). find_turn d (tr_turn_id r) = Some r
      \<and> (\<forall>k. \<not> linked d (tr_turn_id r) k) \<and> ts_status (tr_state r) \<in> {Running, Cancelling}"
proof -
  have turns: "distinct (map tr_turn_id (db_turns d))" "\<forall>r \<in> set (db_turns d). turn_row_ok r"
    using assms by (simp_all add: store_ok_def keys_ok_def)
  show "distinct (map tr_turn_id (stale_unlinked d now))"
    unfolding stale_unlinked_def by (rule distinct_map_filter [OF turns(1)])
  show "\<forall>r \<in> set (stale_unlinked d now). find_turn d (tr_turn_id r) = Some r
      \<and> (\<forall>k. \<not> linked d (tr_turn_id r) k) \<and> ts_status (tr_state r) \<in> {Running, Cancelling}"
  proof
    fix r assume "r \<in> set (stale_unlinked d now)"
    then have r: "r \<in> set (db_turns d)" "unlinked d r" "tr_status r \<in> {lit ''running'', lit ''cancelling''}"
      by (auto simp: stale_unlinked_def)
    have "find_turn d (tr_turn_id r) = Some r"
      unfolding find_turn_def by (rule find_by_key [OF turns(1) r(1)])
    moreover have "ts_status (tr_state r) \<in> {Running, Cancelling}"
      using turns(2) r(1,3) by (cases "ts_status (tr_state r)") (auto simp: turn_row_ok_def row_holds_def)
    ultimately show "find_turn d (tr_turn_id r) = Some r
      \<and> (\<forall>k. \<not> linked d (tr_turn_id r) k) \<and> ts_status (tr_state r) \<in> {Running, Cancelling}"
      using r(2) by (auto simp: unlinked_def linked_def)
  qed
qed

subsection \<open>Leases\<close>

lemma bind_turns_core:
  "bind_turns_to_lease d scope turn token = Inr e \<Longrightarrow>
     \<exists>ts. e = d\<lparr>db_turns := ts\<rparr> \<and> map turn_core ts = map turn_core (db_turns d)"
  by (auto simp: bind_turns_to_lease_def Let_def sql_update_def turn_core_def split: if_splits option.splits
      intro: exI [of _ "db_turns d"])

lemma acquire_moves:
  assumes ok: "store_ok d" and w: "acquire_scoped_lease d scope owner turn now ttl = Inr (e, l)"
  shows "store_ok e \<and> store_grows d e"
proof -
  obtain d1 rows token where tok: "lease_token_for d scope owner now = Inr (d1, token)"
    and bind: "bind_turns_to_lease (d1\<lparr>db_leases := rows\<rparr>) scope turn token = Inr e"
    using w by (auto simp: acquire_scoped_lease_def)
  obtain n where d1: "d1 = d\<lparr>db_lease_epoch := n\<rparr>"
  proof -
    have "d1 = d \<or> d1 = d\<lparr>db_lease_epoch := token\<rparr>" using lease_token_for_Inr [OF tok] by blast
    moreover have "d = d\<lparr>db_lease_epoch := db_lease_epoch d\<rparr>" by simp
    ultimately show thesis using that by metis
  qed
  obtain ts where ts: "e = d\<lparr>db_lease_epoch := n, db_leases := rows, db_turns := ts\<rparr>"
    "map turn_core ts = map turn_core (db_turns d)"
    using bind_turns_core [OF bind] by (auto simp: d1)
  have parts: "leases_ok d" "effects_keyed d" using ok by (simp_all add: store_ok_def)
  show ?thesis
    by (rule core_moves [OF ok])
      (use acquire_keeps_contract [OF parts(1) w] parts(2) ts(2) in
        \<open>simp_all add: ts(1) sessions_kept_def ledger_le_same effects_keyed_def\<close>)
qed

lemma renew_moves:
  assumes ok: "store_ok d" and w: "renew_lease d l now ttl = Inr (e, l')"
  shows "store_ok e \<and> store_grows d e"
proof -
  have parts: "leases_ok d" "effects_keyed d" using ok by (simp_all add: store_ok_def)
  note e = renew_lease_Inr(3) [OF w]
  show ?thesis
    by (rule core_moves [OF ok])
      (use renew_keeps_contract [OF parts(1) w] parts(2) in
        \<open>simp_all add: e sessions_kept_def ledger_le_same effects_keyed_def\<close>)
qed

subsection \<open>Effects, permissions, evidence\<close>

lemma effect_started_le:
  "ef_status r = lit ''prepared'' \<Longrightarrow> effect_le r (r\<lparr>ef_status := lit ''started'', ef_started_at_ms := now\<rparr>)"
  by (rule effect_le_step) simp_all

lemma effect_unknown_le:
  "ef_status r = lit ''started'' \<Longrightarrow> effect_le r (r\<lparr>ef_status := lit ''unknown'', ef_observed_at_ms := x\<rparr>)"
  by (rule effect_le_step) simp_all

lemma authority_effect_started: "authority_effect a r \<Longrightarrow> ef_status r = lit ''started''"
  by (simp add: authority_effect_def effect_of_def)

lemma finish_effect_move: "finish_effect L d a success post now = Inr e \<Longrightarrow> ledger_move d e"
  by (auto simp: finish_effect_def dest!: authority_effect_started elim!: settle_effect_move split: if_splits)

lemma mark_unknown_move:
  assumes "mark_effect_unknown d a now = Inr e"
  shows "ledger_move d e"
proof -
  have e: "e = d\<lparr>db_effects := sql_update (\<lambda>r. authority_effect a r
         \<and> run_authority d (au_turn_id a) (au_expected_revision a) (au_lease a) now)
       (\<lambda>r. r\<lparr>ef_status := lit ''unknown'', ef_observed_at_ms := Some now\<rparr>) (db_effects d)\<rparr>"
    using assms by (auto simp: mark_effect_unknown_def Let_def)
  show ?thesis
    unfolding e by (rule update_effects_move) (auto dest: authority_effect_started intro: effect_unknown_le)
qed

lemma insert_prepared_move:
  "insert_prepared eid t b attempt descriptor digest l now d = Inr e \<Longrightarrow> ledger_move d e"
  by (auto simp: insert_prepared_def dest!: insert_effect_move insert_permission_move
      intro: ledger_move_trans)

lemma create_permission_move:
  "create_prepared_permission L d eid t expected b attempt descriptor digest l now = Inr e \<Longrightarrow> ledger_move d e"
  by (auto simp: create_prepared_permission_def dest: insert_prepared_move)

lemma replace_effect_move:
  assumes "replace_pending_effect L d old new t revision attempt descriptor digest l now = Inr e"
  shows "ledger_move d e"
proof -
  obtain perms where ins: "insert_prepared new t revision attempt descriptor digest l now
      (d\<lparr>db_permissions := perms, db_effects := sql_update (effect_of old t (lit ''prepared''))
        (observe_row (lit ''observed_failed'') (lit ''{\"abandoned\":\"lease_changed\"}'') now)
        (db_effects d)\<rparr>) = Inr e"
    using assms unfolding replace_pending_effect_def Let_def by (auto split: if_splits)
  have "ledger_move (d\<lparr>db_permissions := perms\<rparr>) (d\<lparr>db_permissions := perms,
      db_effects := sql_update (effect_of old t (lit ''prepared''))
        (observe_row (lit ''observed_failed'') (lit ''{\"abandoned\":\"lease_changed\"}'') now)
        (db_effects d)\<rparr>)"
    using observe_move [where P = "effect_of old t (lit ''prepared'')" and d = "d\<lparr>db_permissions := perms\<rparr>"
        and status = "lit ''observed_failed''"] by (simp add: effect_of_def)
  from ledger_move_trans [OF permissions_move this] insert_prepared_move [OF ins]
  show ?thesis by (rule ledger_move_trans)
qed

lemma consume_permission_move:
  assumes "consume_permission_and_start d eid t revision l digest now = Inr (e, a)"
  shows "ledger_move d e"
proof -
  let ?E = "\<lambda>r. ef_effect_id r = eid \<and> ef_status r = lit ''prepared'' \<and> ef_approval_digest r = Some digest"
  let ?f = "\<lambda>r. r\<lparr>ef_status := lit ''started'', ef_started_at_ms := now\<rparr>"
  let ?g = "\<lambda>r. r\<lparr>tr_effect_epoch := tr_effect_epoch r + 1\<rparr>"
  obtain perms where e: "e = d\<lparr>db_permissions := perms, db_effects := sql_update ?E ?f (db_effects d),
      db_turns := sql_update (run_row t revision (ls_fencing_token l)) ?g (db_turns d)\<rparr>"
    using assms unfolding consume_permission_and_start_def Let_def by (auto split: if_splits)
  let ?d = "d\<lparr>db_permissions := perms, db_effects := sql_update ?E ?f (db_effects d)\<rparr>"
  have "ledger_move (d\<lparr>db_permissions := perms\<rparr>) ?d"
    using update_effects_move [where P = ?E and f = ?f and d = "d\<lparr>db_permissions := perms\<rparr>"]
    by (simp add: effect_started_le)
  moreover have "ledger_move ?d e"
    by (auto simp: ledger_move_def ledger_only_def ledger_le_same effects_keyed_def e turn_core_def sql_update_def)
  ultimately show ?thesis using permissions_move ledger_move_trans by blast
qed

lemma put_checkpoint_moves:
  assumes ok: "store_ok d" and w: "put_checkpoint L d t expected l payload now = Inr e"
  shows "store_ok e \<and> store_grows d e"
proof -
  obtain cks where e: "e = d\<lparr>db_checkpoints := cks\<rparr>"
    using w by (auto simp: put_checkpoint_def upsert_checkpoint_def split: if_splits)
  have parts: "leases_ok d" "effects_keyed d" using ok by (simp_all add: store_ok_def)
  show ?thesis
    by (rule core_moves [OF ok])
      (use parts in \<open>simp_all add: e sessions_kept_def ledger_le_same lease_le_same leases_ok_def effects_keyed_def\<close>)
qed

lemma record_evidence_moves:
  assumes ok: "store_ok d" and w: "record_verification_evidence L d t expected l vid metadata blob now = Inr e"
  shows "store_ok e \<and> store_grows d e"
proof -
  obtain rows where e: "e = d\<lparr>db_evidence := rows\<rparr>"
    using w by (auto simp: record_verification_evidence_def Let_def split: if_splits)
  have parts: "leases_ok d" "effects_keyed d" using ok by (simp_all add: store_ok_def)
  show ?thesis
    by (rule core_moves [OF ok])
      (use parts in \<open>simp_all add: e sessions_kept_def ledger_le_same lease_le_same leases_ok_def effects_keyed_def\<close>)
qed

subsection \<open>Through the engine's guards\<close>

lemma engine_run_moves:
  assumes ok: "store_ok d"
  shows "engine_apply_transition ids d t expected tr now l = Inr (e, s) \<Longrightarrow> store_ok e \<and> store_grows d e"
    and "engine_complete_verified_turn L ids d t expected l summary sample now = Inr (e, s)
      \<Longrightarrow> store_ok e \<and> store_grows d e"
    and "engine_cancel_waiting ids d t expected l now denied = Inr (e, s) \<Longrightarrow> store_ok e \<and> store_grows d e"
    and "engine_interrupt_after_lease_loss ids d t l expected now = Inr (e, outcome)
      \<Longrightarrow> store_ok e \<and> store_grows d e"
    and "engine_persist_checkpoint L d t expected l payload now = Inr e \<Longrightarrow> store_ok e \<and> store_grows d e"
proof -
  let ?ok = "reject_linked_turn d t = Inr ()"
  have apply_run: "store_ok e \<and> store_grows d e"
    if "?ok" "store_apply_transition ids d t expected tr now l = Inr (e, s, b)" for b
    using apply_transition_moves [OF ok not_linked [OF that(1)] that(2)] .
  have complete_run: "store_ok e \<and> store_grows d e"
    if "?ok" "complete_verified L ids d t expected l summary current digest now = Inr (e, s, b)" for b current digest
    using complete_verified_moves [OF ok not_linked [OF that(1)] that(2)] .
  have cancel_run: "store_ok e \<and> store_grows d e"
    if "?ok" "cancel_waiting ids d t expected l now denied = Inr (e, s, b)" for b
    using cancel_waiting_moves [OF ok not_linked [OF that(1)] that(2)] .
  have loss_run: "store_ok e \<and> store_grows d e"
    if "?ok" "interrupt_after_lease_loss ids d t l expected now = Inr (e, outcome)"
    using interrupt_after_loss_moves [OF ok not_linked [OF that(1)] that(2)] .
  show "engine_apply_transition ids d t expected tr now l = Inr (e, s) \<Longrightarrow> store_ok e \<and> store_grows d e"
    using apply_run by (auto simp: engine_apply_transition_def)
  show "engine_complete_verified_turn L ids d t expected l summary sample now = Inr (e, s)
      \<Longrightarrow> store_ok e \<and> store_grows d e"
    using complete_run by (auto simp: engine_complete_verified_turn_def)
  show "engine_cancel_waiting ids d t expected l now denied = Inr (e, s) \<Longrightarrow> store_ok e \<and> store_grows d e"
    using cancel_run by (auto simp: engine_cancel_waiting_def)
  show "engine_interrupt_after_lease_loss ids d t l expected now = Inr (e, outcome)
      \<Longrightarrow> store_ok e \<and> store_grows d e"
    using loss_run by (auto simp: engine_interrupt_after_lease_loss_def)
  show "engine_persist_checkpoint L d t expected l payload now = Inr e \<Longrightarrow> store_ok e \<and> store_grows d e"
    using put_checkpoint_moves [OF ok] by (auto simp: engine_persist_checkpoint_def)
qed

end
