(* ===== verification/Recover_Keeps.thy ===== *)
theory Recover_Keeps
  imports Create_Keeps Run_Keeps
begin

text \<open>
  Recovery and release keep the store's invariant and move along its order: an abandoned
  child ends interrupted, its effects settled, its session at rest.
\<close>

subsection \<open>Building blocks\<close>

lemma settle_turn_effects_move: "ledger_move d (settle_turn_effects t now d)"
proof -
  let ?d1 = "d\<lparr>db_permissions := sql_update (\<lambda>r. pm_turn_id r = t \<and> pm_consumed_at_ms r = None)
    (consume_row now) (db_permissions d)\<rparr>"
  let ?d2 = "?d1\<lparr>db_effects := sql_update (turn_effects t (lit ''prepared''))
    (observe_row (lit ''observed_failed'') (lit ''{\"recovery\":\"not_started\"}'') now) (db_effects ?d1)\<rparr>"
  have "ledger_move ?d1 ?d2" by (rule observe_move) (simp add: turn_effects_def)
  moreover have "ledger_move ?d2 (?d2\<lparr>db_effects := sql_update (turn_effects t (lit ''started''))
    (observe_row (lit ''unknown'') (lit ''{\"outcome\":\"lease_lost_after_start\"}'') now) (db_effects ?d2)\<rparr>)"
    by (rule observe_move) (simp add: turn_effects_def)
  ultimately show ?thesis
    using permissions_move [of d] unfolding settle_turn_effects_def Let_def
    by (blast intro: ledger_move_trans)
qed

lemma append_card_Inr:
  assumes "append_recovery_card L eid evid sid t revision now c last_seq d = Inr (e, seq)"
  obtains o1 v1 where "e = d\<lparr>db_outbox := db_outbox d @ [o1],
      db_session_events := db_session_events d @ [v1]\<rparr>"
    "seq = last_seq + 1" "seq < i64_bound"
    "ob_session_id o1 = sid" "ob_seq o1 = seq" "te_sequence (ob_entry o1) = seq"
    "ob_kind o1 = transcript_kind_name (te_kind (ob_entry o1))"
    "sv_session_id v1 = sid" "sv_seq v1 = seq"
  using assms that
  by (auto simp: append_recovery_card_def Let_def recovery_entry_def split: prod.splits)

text \<open>The rows a recovery adds to the transcript and the events of its session.\<close>

definition log_rows :: "uuid \<Rightarrow> nat \<Rightarrow> nat \<Rightarrow> outbox_row list \<Rightarrow> sevent_row list \<Rightarrow> bool" where
  "log_rows sid a b obs evs \<longleftrightarrow> a \<le> b \<and> sorted_wrt (<) (map ob_seq obs)
     \<and> (\<forall>r \<in> set obs. ob_session_id r = sid \<and> a < ob_seq r \<and> ob_seq r \<le> b
         \<and> ob_kind r = transcript_kind_name (te_kind (ob_entry r)) \<and> te_sequence (ob_entry r) = ob_seq r
         \<and> ob_seq r < i64_bound)
     \<and> (\<forall>r \<in> set evs. sv_session_id r = sid \<and> a < sv_seq r \<and> sv_seq r \<le> b)"

lemma append_cards_Inr:
  assumes "append_recovery_cards L ids k sid t revision now cs last_seq d = Inr (e, seq)"
  shows "\<exists>obs evs. e = d\<lparr>db_outbox := db_outbox d @ obs,
      db_session_events := db_session_events d @ evs\<rparr> \<and> log_rows sid last_seq seq obs evs"
  using assms
proof (induction cs arbitrary: k last_seq d)
  case Nil
  then show ?case by (intro exI [of _ "[]"]) (simp add: log_rows_def)
next
  case (Cons c cs)
  obtain d1 seq1 where one: "append_recovery_card L (ids k) (ids (k + 1)) sid t revision now c last_seq d
      = Inr (d1, seq1)"
    and rest: "append_recovery_cards L ids (k + 2) sid t revision now cs seq1 d1 = Inr (e, seq)"
    using Cons.prems by auto
  obtain o1 v1 where d1: "d1 = d\<lparr>db_outbox := db_outbox d @ [o1],
      db_session_events := db_session_events d @ [v1]\<rparr>"
    and s1: "seq1 = last_seq + 1" "seq1 < i64_bound" "ob_session_id o1 = sid" "ob_seq o1 = seq1"
      "te_sequence (ob_entry o1) = seq1" "ob_kind o1 = transcript_kind_name (te_kind (ob_entry o1))"
      "sv_session_id v1 = sid" "sv_seq v1 = seq1"
    by (rule append_card_Inr [OF one])
  obtain obs evs where e: "e = d1\<lparr>db_outbox := db_outbox d1 @ obs,
      db_session_events := db_session_events d1 @ evs\<rparr>" and rows: "log_rows sid seq1 seq obs evs"
    using Cons.IH [OF rest] by blast
  have "e = d\<lparr>db_outbox := db_outbox d @ (o1 # obs), db_session_events := db_session_events d @ (v1 # evs)\<rparr>"
    by (simp add: e d1)
  moreover have "log_rows sid last_seq seq (o1 # obs) (v1 # evs)"
    using rows s1 by (auto simp: log_rows_def)
  ultimately show ?case by blast
qed

lemma interrupted_state_wf:
  assumes "turn_wf s" and "\<not> terminal_status (ts_status s)" and "ts_revision s + 1 < u64_bound"
  shows "turn_wf (interrupted_state s (ts_revision s + 1))"
  using assms by (auto simp: turn_wf_def interrupted_state_def terminal_status_def)

lemma recover_turn_steps:
  assumes "recover_turn L ids sid r token now d = Inr e" and "turn_row_ok r"
  obtains rows :: "turn_row list" and ev rm where "ts_revision (tr_state r) + 1 < u64_bound"
    "turns_moved (tr_turn_id r) (ts_revision (tr_state r))
      (interrupted_state (tr_state r) (ts_revision (tr_state r) + 1))
      (db_turns (settle_turn_effects (tr_turn_id r) now d)) rows"
    "e = (settle_turn_effects (tr_turn_id r) now d)\<lparr>db_turns := rows, db_events := ev, db_read_model := rm,
       db_session_turns := sql_update (\<lambda>x. st_session_id x = sid \<and> st_turn_id x = tr_turn_id r)
         (\<lambda>x. x\<lparr>st_completed_at_ms := Some now\<rparr>) (db_session_turns d),
       db_active := sql_delete (\<lambda>x. ar_session_id x = sid \<and> ar_turn_id x = tr_turn_id r
         \<and> ar_lease_token x = token) (db_active d)\<rparr>"
proof -
  let ?t = "tr_turn_id r" and ?s = "tr_state r" and ?d1 = "settle_turn_effects (tr_turn_id r) now d"
  let ?next = "interrupted_state ?s (ts_revision ?s + 1)"
  obtain d2 where rev: "ts_revision ?s + 1 < u64_bound"
    and app: "append_linked_turn_transition ids ?s ?next (tr_last_seq r) (stale_fence L sid token) now ?d1 = Inr d2"
    and e: "e = d2\<lparr>db_session_turns := sql_update (\<lambda>x. st_session_id x = sid \<and> st_turn_id x = ?t)
         (\<lambda>x. x\<lparr>st_completed_at_ms := Some now\<rparr>) (db_session_turns d2),
       db_active := sql_delete (\<lambda>x. ar_session_id x = sid \<and> ar_turn_id x = ?t
         \<and> ar_lease_token x = token) (db_active d2)\<rparr>"
    using assms(1) by (auto simp: recover_turn_def Let_def)
  have t: "ts_turn_id ?s = ?t" using assms(2) by (simp add: turn_row_ok_def row_holds_def)
  have mv: "turns_moved ?t (ts_revision ?s) ?next (db_turns ?d1) (db_turns d2)"
    using append_linked_turns [OF app] by (simp add: interrupted_state_def t)
  have frame: "same_but_turns ?d1 d2" by (rule append_linked_frame [OF app])
  have settle: "db_session_turns ?d1 = db_session_turns d" "db_active ?d1 = db_active d"
    by (simp_all add: settle_turn_effects_def Let_def)
  show thesis
  proof (rule that [where ev = "db_events d2" and rm = "db_read_model d2", OF rev mv])
    show "e = ?d1\<lparr>db_turns := db_turns d2, db_events := db_events d2, db_read_model := db_read_model d2,
       db_session_turns := sql_update (\<lambda>x. st_session_id x = sid \<and> st_turn_id x = ?t)
         (\<lambda>x. x\<lparr>st_completed_at_ms := Some now\<rparr>) (db_session_turns d),
       db_active := sql_delete (\<lambda>x. ar_session_id x = sid \<and> ar_turn_id x = ?t
         \<and> ar_lease_token x = token) (db_active d)\<rparr>"
      by (rule db.equality) (use frame settle in \<open>simp_all add: e same_but_turns_def\<close>)
  qed
qed

definition recovered_session :: "session_row \<Rightarrow> uuid \<Rightarrow> rstr list \<Rightarrow> nat \<Rightarrow> nat \<Rightarrow> session_row \<Rightarrow> session_row" where
  "recovered_session s t started seq now x = x\<lparr>sr_revision := sr_revision s + 1, sr_last_seq := seq,
     sr_lifecycle := (if started = [] then lit ''interrupted'' else lit ''reconciliation_required''),
     sr_latest_turn_id := Some t, sr_updated_at_ms := now\<rparr>"

lemma recover_session_steps:
  assumes "recover_session L ids s r started prepared now d = Inr (e, resp)"
  obtains seq obs evs where "e = d\<lparr>db_outbox := db_outbox d @ obs,
      db_session_events := db_session_events d @ evs,
      db_sessions := sql_update (\<lambda>x. sr_session_id x = sr_session_id s)
        (recovered_session s (tr_turn_id r) started seq now) (db_sessions d)\<rparr>"
    "log_rows (sr_session_id s) (sr_last_seq s) seq obs evs"
proof -
  obtain d1 n env where cards: "append_recovery_cards L ids 2 (sr_session_id s) (tr_turn_id r)
      (sr_revision s + 1) now (recovery_cards L (tr_turn_id r) (ts_revision (tr_state r)) started prepared)
      (sr_last_seq s) d = Inr (d1, n)"
    and env: "env = session_envelope (ids 1) (sr_session_id s) (sr_revision s + 1) (n + 1)
      (recovery_event L (tr_turn_id r) started)"
    and e: "e = d1\<lparr>db_session_events := db_session_events d1 @ [session_event_row env now],
      db_sessions := sql_update (\<lambda>x. sr_session_id x = sr_session_id s)
        (\<lambda>x. x\<lparr>sr_revision := sr_revision s + 1, sr_last_seq := n + 1,
          sr_lifecycle := (if started = [] then lit ''interrupted'' else lit ''reconciliation_required''),
          sr_latest_turn_id := Some (tr_turn_id r), sr_updated_at_ms := now\<rparr>) (db_sessions d1)\<rparr>"
    using assms unfolding recover_session_def Let_def by auto
  obtain obs evs where d1: "d1 = d\<lparr>db_outbox := db_outbox d @ obs,
      db_session_events := db_session_events d @ evs\<rparr>"
    and rows: "log_rows (sr_session_id s) (sr_last_seq s) n obs evs"
    using append_cards_Inr [OF cards] by blast
  show thesis
  proof (rule that)
    show "e = d\<lparr>db_outbox := db_outbox d @ obs,
      db_session_events := db_session_events d @ (evs @ [session_event_row env now]),
      db_sessions := sql_update (\<lambda>x. sr_session_id x = sr_session_id s)
        (recovered_session s (tr_turn_id r) started (n + 1) now) (db_sessions d)\<rparr>"
      by (rule db.equality) (simp_all add: e d1 recovered_session_def [abs_def])
    show "log_rows (sr_session_id s) (sr_last_seq s) (n + 1) obs (evs @ [session_event_row env now])"
      using rows by (auto simp: log_rows_def env)
  qed
qed

text \<open>What a recovery that took place found and wrote.\<close>

lemma recover_linked_steps:
  assumes ok: "store_ok d" and w: "recover_linked_session_turn L ids d sid t token expected now = Inr (e, Some resp)"
  obtains a :: active_row and r s seq obs evs where
    "active_turn d sid = Some a" "ar_turn_id a = t" "ar_lease_token a = token"
    "find_turn d t = Some r" "\<not> terminal_status (ts_status (tr_state r))" "find_session d sid = Some s"
    "ts_revision (tr_state r) + 1 < u64_bound"
    "turns_moved t (ts_revision (tr_state r)) (interrupted_state (tr_state r) (ts_revision (tr_state r) + 1))
       (db_turns d) (db_turns e)"
    "db_sessions e = sql_update (\<lambda>x. sr_session_id x = sid)
       (recovered_session s t (effect_ids t (lit ''started'') d) seq now) (db_sessions d)"
    "db_outbox e = db_outbox d @ obs" "db_session_events e = db_session_events d @ evs"
    "db_effects e = db_effects (settle_turn_effects t now d)"
    "db_permissions e = db_permissions (settle_turn_effects t now d)"
    "db_session_turns e = sql_update (\<lambda>x. st_session_id x = sid \<and> st_turn_id x = t)
       (\<lambda>x. x\<lparr>st_completed_at_ms := Some now\<rparr>) (db_session_turns d)"
    "db_active e = sql_delete (\<lambda>x. ar_session_id x = sid \<and> ar_turn_id x = t
       \<and> ar_lease_token x = token) (db_active d)"
    "db_leases e = db_leases d" "db_lease_epoch e = db_lease_epoch d" "db_dedup e = db_dedup d"
    "log_rows sid (sr_last_seq s) seq obs evs"
proof -
  obtain a r s d1 where act: "active_turn d sid = Some a" "ar_turn_id a = t" "ar_lease_token a = token"
    and r: "find_turn d t = Some r" "\<not> terminal_status (ts_status (tr_state r))"
    and s: "find_session d sid = Some s"
    and turn: "recover_turn L ids sid r token now d = Inr d1"
    and sess: "recover_session L ids s r (effect_ids t (lit ''started'') d) (effect_ids t (lit ''prepared'') d)
       now d1 = Inr (e, resp)"
    using w by (auto simp: recover_linked_session_turn_def Let_def split: option.splits if_splits)
  let ?started = "effect_ids t (lit ''started'') d" and ?d0 = "settle_turn_effects t now d"
  let ?next = "interrupted_state (tr_state r) (ts_revision (tr_state r) + 1)"
  have ids: "tr_turn_id r = t" "sr_session_id s = sid"
    using find_turn_Some [OF r(1)] find_session_Some [OF s] by auto
  have rok: "turn_row_ok r" using ok find_turn_Some [OF r(1)] by (simp add: store_ok_def)
  obtain rows ev rm where rev: "ts_revision (tr_state r) + 1 < u64_bound"
    and moved: "turns_moved t (ts_revision (tr_state r)) ?next (db_turns ?d0) rows"
    and d1: "d1 = ?d0\<lparr>db_turns := rows, db_events := ev, db_read_model := rm,
       db_session_turns := sql_update (\<lambda>x. st_session_id x = sid \<and> st_turn_id x = t)
         (\<lambda>x. x\<lparr>st_completed_at_ms := Some now\<rparr>) (db_session_turns d),
       db_active := sql_delete (\<lambda>x. ar_session_id x = sid \<and> ar_turn_id x = t
         \<and> ar_lease_token x = token) (db_active d)\<rparr>"
    using recover_turn_steps [OF turn rok] unfolding ids by blast
  obtain seq obs evs where e1: "e = d1\<lparr>db_outbox := db_outbox d1 @ obs,
      db_session_events := db_session_events d1 @ evs,
      db_sessions := sql_update (\<lambda>x. sr_session_id x = sid)
        (recovered_session s t ?started seq now) (db_sessions d1)\<rparr>"
    and log: "log_rows sid (sr_last_seq s) seq obs evs"
    using recover_session_steps [OF sess] unfolding ids by blast
  have settle: "db_sessions ?d0 = db_sessions d" "db_outbox ?d0 = db_outbox d"
    "db_session_events ?d0 = db_session_events d" "db_turns ?d0 = db_turns d" "db_leases ?d0 = db_leases d"
    "db_lease_epoch ?d0 = db_lease_epoch d" "db_dedup ?d0 = db_dedup d"
    by (simp_all add: settle_turn_effects_def Let_def)
  show thesis
    by (rule that [OF act r s rev _ _ _ _ _ _ _ _ _ _ _ log])
      (use moved in \<open>simp_all add: e1 d1 settle\<close>)
qed

lemma recover_linked_moves:
  assumes ok: "store_ok d" and w: "recover_linked_session_turn L ids d sid t token expected now = Inr (e, Some resp)"
  shows "store_ok e \<and> store_grows d e"
proof -
  let ?started = "effect_ids t (lit ''started'') d" and ?d0 = "settle_turn_effects t now d"
  obtain a r s seq obs evs where act: "active_turn d sid = Some a" "ar_turn_id a = t" "ar_lease_token a = token"
    and r: "find_turn d t = Some r" "\<not> terminal_status (ts_status (tr_state r))"
    and s: "find_session d sid = Some s"
    and rev: "ts_revision (tr_state r) + 1 < u64_bound"
    and moved': "turns_moved t (ts_revision (tr_state r)) (interrupted_state (tr_state r) (ts_revision (tr_state r) + 1))
       (db_turns d) (db_turns e)"
    and sessions: "db_sessions e = sql_update (\<lambda>x. sr_session_id x = sid)
       (recovered_session s t ?started seq now) (db_sessions d)"
    and outbox: "db_outbox e = db_outbox d @ obs" and events: "db_session_events e = db_session_events d @ evs"
    and effects: "db_effects e = db_effects ?d0"
    and links: "db_session_turns e = sql_update (\<lambda>x. st_session_id x = sid \<and> st_turn_id x = t)
         (\<lambda>x. x\<lparr>st_completed_at_ms := Some now\<rparr>) (db_session_turns d)"
    and active: "db_active e = sql_delete (\<lambda>x. ar_session_id x = sid \<and> ar_turn_id x = t
         \<and> ar_lease_token x = token) (db_active d)"
    and leases: "db_leases e = db_leases d" "db_lease_epoch e = db_lease_epoch d" "db_dedup e = db_dedup d"
    and log: "log_rows sid (sr_last_seq s) seq obs evs"
    by (rule recover_linked_steps [OF ok w])
  let ?next = "interrupted_state (tr_state r) (ts_revision (tr_state r) + 1)"
  have ids: "tr_turn_id r = t" "sr_session_id s = sid" "s \<in> set (db_sessions d)"
    using find_turn_Some [OF r(1)] find_session_Some [OF s] by auto
  have parts: "keys_ok d" "effects_keyed d" "leases_ok d" "outbox_consistent d"
    "\<forall>r \<in> set (db_turns d). turn_row_ok r" "session_ok d s"
    "\<And>a. a \<in> set (db_active d) \<Longrightarrow> linked d (ar_turn_id a) (ar_session_id a)"
    using ok ids by (auto simp: store_ok_def)
  note row = gate_row [OF ok r(1)]
  have tkeys: "distinct (map tr_turn_id (db_turns d))" using parts(1) by (simp add: keys_ok_def)
  have nxt: "ts_turn_id ?next = t" "turn_wf ?next"
    using row(3) interrupted_state_wf [OF row(1) r(2) rev] by (simp_all add: interrupted_state_def)
  note tf = turns_moved_facts [OF refl moved' tkeys parts(5) r(1) refl nxt]
  have fields: "sr_session_id (recovered_session s t st sq now x) = sr_session_id x"
    "sr_lifecycle (recovered_session s t st sq now x) \<in> {lit ''interrupted'', lit ''reconciliation_required''}"
    "sr_latest_turn_id (recovered_session s t st sq now x) = Some t"
    "sr_last_seq (recovered_session s t st sq now x) = sq"
    "sr_revision (recovered_session s t st sq now x) = sr_revision s + 1" for st sq x
    by (simp_all add: recovered_session_def)
  note sids = update_session_ids [OF sessions fields(1)]
  have own: "x = recovered_session s t ?started seq now s" if "x \<in> set (db_sessions e)" "sr_session_id x = sid" for x
    using that only_session [OF ok s] by (auto simp: sessions set_sql_update fields split: if_splits)
  have last: "sr_last_seq x = seq" if "x \<in> set (db_sessions e)" "sr_session_id x = sid" for x
    using own [OF that] fields by metis
  have link_map: "map turn_link (db_session_turns e) = map turn_link (db_session_turns d)"
    by (simp add: links sql_update_def turn_link_def comp_def)
  have link: "linked e u k = linked d u k" for u k
    by (rule linked_cong [OF link_map])
  have acts: "a' = a" if "a' \<in> set (db_active d)" "ar_session_id a' = sid" for a'
  proof -
    have "distinct (map ar_session_id (db_active d))" using parts(1) by (simp add: keys_ok_def)
    from find_by_key [OF this that(1)] that(2) act(1) show ?thesis by (simp add: active_turn_def)
  qed
  have gone: "active_turn e sid = None"
    using acts act(2,3) unfolding active_turn_def active find_None_all by auto
  have a_in: "a \<in> set (db_active d)" "ar_session_id a = sid"
    using act(1) by (auto simp: active_turn_def dest: find_Some_in)
  have t_link: "linked d t sid" using parts(7) [OF a_in(1)] act(2) a_in(2) by simp
  have "store_ok e"
  proof (rule session_change [OF ok, where sid = sid])
    show "keys_ok e"
      using parts(1) sids(1) tf(1) link_ids [OF link_map]
      unfolding keys_ok_def active by (simp add: distinct_delete_key)
    show "effects_keyed e"
      using settle_turn_effects_move [of d t now] parts(2) effects_keyed_same [OF effects]
      by (simp add: ledger_move_def)
    show "leases_ok e" by (rule leases_ok_same [OF parts(3) leases(1,2)])
    show "outbox_consistent e"
      using parts(4) log by (auto simp: outbox_consistent_def outbox log_rows_def)
    show "\<forall>r \<in> set (db_turns e). turn_row_ok r" by (rule tf(2))
    show "turn_state_of e u = turn_state_of d u \<or> linked e u sid" for u
      using tf(3) [of u] t_link by (auto simp: link)
    show "active_turn e k = active_turn d k" if "k \<noteq> sid" for k
      unfolding active_turn_def active by (rule find_delete_other) (use that in auto)
    show "a \<in> set (db_active d) \<or> (ar_session_id a = sid \<and> linked e (ar_turn_id a) sid)"
      if "a \<in> set (db_active e)" for a using that by (simp add: active)
    show "x \<in> set (db_sessions d)" if "x \<in> set (db_sessions e)" "sr_session_id x \<noteq> sid" for x
      using that by (auto simp: sessions set_sql_update fields split: if_splits)
    show "sr_session_id ` set (db_sessions d) \<subseteq> sr_session_id ` set (db_sessions e)"
      "sid \<in> sr_session_id ` set (db_sessions e)" using sids(2) ids(2,3) by auto
    show "session_ok e x" if "x \<in> set (db_sessions e)" "sr_session_id x = sid" for x
      using gone t_link fields ids(2) unfolding own [OF that]
      by (auto simp: session_ok_def idle_lifecycle_def link recovered_session_def)
    show "sr_last_seq y \<le> sr_last_seq x" if "x \<in> set (db_sessions e)" "sr_session_id x = sid"
      "y \<in> set (db_sessions d)" "sr_session_id y = sid" for x y
      using last [OF that(1,2)] only_session [OF ok s that(3,4)] log by (simp add: log_rows_def)
    show "q \<in> set (db_outbox d) \<or> (ob_session_id q = sid
      \<and> (\<forall>x \<in> set (db_sessions e). sr_session_id x = sid \<longrightarrow> ob_seq q \<le> sr_last_seq x))"
      if "q \<in> set (db_outbox e)" for q
      using that last log by (auto simp: outbox log_rows_def)
    show "q \<in> set (db_session_events d) \<or> (sv_session_id q = sid
      \<and> (\<forall>x \<in> set (db_sessions e). sr_session_id x = sid \<longrightarrow> sv_seq q \<le> sr_last_seq x))"
      if "q \<in> set (db_session_events e)" for q
      using that last log by (auto simp: events log_rows_def)
  qed (simp add: link)
  moreover have "store_grows d e"
    unfolding store_grows_def
  proof (intro conjI)
    show "sessions_le d e"
      by (rule sessions_le_update [OF sessions fields(1)]) (use s log fields in \<open>auto simp: log_rows_def\<close>)
    show "turns_le d e"
    proof (rule turns_le_move [OF tf(3)])
      show "turn_le x ?next" if "turn_state_of d t = Some x" for x
        using that r by (auto simp: turn_state_of_def turn_le_def interrupted_state_def terminal_status_def)
    qed
    show "logs_le d e" by (simp add: logs_le_def events leases)
    show "outbox_grows d e"
      by (rule outbox_grows_rows [OF outbox, where sid = sid and n = "sr_last_seq s"])
        (use s log in \<open>auto simp: log_rows_def\<close>)
    show "ledger_le d e"
      using settle_turn_effects_move [of d t now]
      by (auto simp: ledger_move_def intro: ledger_le_trans ledger_le_same [OF effects])
    show "lease_le d e" by (rule lease_le_same [OF leases(1,2)])
  qed
  ultimately show ?thesis by blast
qed

lemma recover_linked_noop:
  "recover_linked_session_turn L ids d sid t token expected now = Inr (e, None) \<Longrightarrow> e = d"
  by (auto simp: recover_linked_session_turn_def Let_def split: option.splits if_splits)

lemma recover_linked_any:
  "store_ok d \<Longrightarrow> recover_linked_session_turn L ids d sid t token expected now = Inr (e, response)
     \<Longrightarrow> store_ok e \<and> store_grows d e"
  by (cases response) (auto dest: recover_linked_noop recover_linked_moves)

subsection \<open>Release, lost leases, startup\<close>

lemma quiesce_core:
  "map turn_core (sql_update P (\<lambda>r. r\<lparr>tr_lease_token := n\<rparr>) rows) = map turn_core rows"
  by (simp add: sql_update_def turn_core_def comp_def)

text \<open>Dropping the tokens of a turn and of an active row.\<close>

lemma quiesce_moves:
  assumes ok: "store_ok d"
    and e: "e = d\<lparr>db_turns := sql_update P (\<lambda>r. r\<lparr>tr_lease_token := 0\<rparr>) (db_turns d),
      db_active := sql_update Q (\<lambda>a. a\<lparr>ar_lease_token := 0\<rparr>) (db_active d)\<rparr>"
  shows "store_ok e \<and> store_grows d e"
proof -
  have core: "map turn_core (db_turns e) = map turn_core (db_turns d)" by (simp add: e quiesce_core)
  have parts: "keys_ok d" "effects_keyed d" "leases_ok d" "outbox_consistent d" "sequences_ok d" "owned_ok d"
    "\<forall>r \<in> set (db_turns d). turn_row_ok r" "\<forall>s \<in> set (db_sessions d). session_ok d s"
    "\<forall>a \<in> set (db_active d). linked d (ar_turn_id a) (ar_session_id a)"
    using ok by (auto simp: store_ok_def)
  have ids: "map ar_session_id (db_active e) = map ar_session_id (db_active d)"
    "map ar_turn_id (db_active e) = map ar_turn_id (db_active d)"
    by (simp_all add: e sql_update_def)
  have link: "linked e u k = linked d u k" for u k by (simp add: linked_def e)
  have act: "map_option ar_turn_id (active_turn e k) = map_option ar_turn_id (active_turn d k)" for k
  proof -
    have "active_turn e k = map_option (\<lambda>a. if Q a then a\<lparr>ar_lease_token := 0\<rparr> else a) (active_turn d k)"
      unfolding active_turn_def e by (simp add: find_update_key)
    then show ?thesis by (cases "active_turn d k") simp_all
  qed
  have sess: "session_ok e s = session_ok d s" for s
    using act [of "sr_session_id s"] same_core_state [OF core]
    by (cases "active_turn d (sr_session_id s)"; cases "active_turn e (sr_session_id s)")
      (simp_all add: session_ok_def link)
  have "keys_ok e" using parts(1) ids same_core_ids [OF core] by (simp add: keys_ok_def e)
  moreover have "owned_ok e"
    using parts(6) arg_cong [OF ids(1), of set] by (simp add: owned_ok_def e)
  moreover have "\<forall>a \<in> set (db_active e). linked e (ar_turn_id a) (ar_session_id a)"
    using parts(9) by (auto simp: e link set_sql_update linked_def)
  moreover have "effects_keyed e = effects_keyed d" "leases_ok e = leases_ok d"
    "outbox_consistent e = outbox_consistent d" "sequences_ok e = sequences_ok d"
    "db_sessions e = db_sessions d"
    by (simp_all add: e effects_keyed_def leases_ok_def outbox_consistent_def sequences_ok_def)
  ultimately have "store_ok e"
    using parts(2-5,8) same_core_ok [OF core parts(7)] sess by (simp add: store_ok_def)
  moreover have "store_grows d e"
    using turns_le_core [OF core]
    by (simp add: store_grows_def outbox_grows_same logs_le_def sessions_le_same ledger_le_same lease_le_same e)
  ultimately show ?thesis by blast
qed

lemma release_session_moves:
  assumes ok: "store_ok d" and w: "release_session L ids d sid token now = Inr (e, resp)"
  shows "store_ok e \<and> store_grows d e"
proof -
  let ?q = "quiesce_turns d sid token"
  have q: "store_ok ?q \<and> store_grows d ?q"
    by (rule quiesce_moves [OF ok, where P = "waiting_child d sid token" and Q = "\<lambda>_. False"])
      (simp add: quiesce_turns_def sql_update_unchanged)
  consider "e = ?q"
    | "e = ?q\<lparr>db_active := sql_update (held_active sid token) (\<lambda>a. a\<lparr>ar_lease_token := 0\<rparr>) (db_active d)\<rparr>"
    | a :: active_row where "recover_linked_session_turn L ids ?q sid (ar_turn_id a) token None now = Inr (e, resp)"
  proof (cases "sql_changes (waiting_child d sid token) (db_turns d) = 1")
    case True
    with w have "e = ?q\<lparr>db_active := sql_update (held_active sid token)
        (\<lambda>a. a\<lparr>ar_lease_token := 0\<rparr>) (db_active d)\<rparr>"
      by (simp add: release_session_def)
    then show thesis by (rule that(2))
  next
    case False
    show thesis
    proof (cases "active_turn d sid")
      case None
      with w False have "e = ?q" by (simp add: release_session_def)
      then show thesis by (rule that(1))
    next
      case (Some a)
      show thesis
      proof (cases "ar_lease_token a = token")
        case True
        with Some w False show thesis by (intro that(3) [of a]) (simp add: release_session_def)
      next
        case neq: False
        with Some w False have "e = ?q" by (simp add: release_session_def)
        then show thesis by (rule that(1))
      qed
    qed
  qed
  then show ?thesis
  proof cases
    case 2
    show ?thesis
      by (rule quiesce_moves [OF ok, where P = "waiting_child d sid token" and Q = "held_active sid token"])
        (simp add: 2 quiesce_turns_def)
  next
    case 3
    from recover_linked_any [OF conjunct1 [OF q] 3] q show ?thesis by (blast intro: store_grows_trans)
  qed (use q in simp)
qed

lemma release_moves:
  assumes ok: "store_ok d" and w: "release_lease L ids d l now = Inr (e, resp)"
  shows "store_ok e \<and> store_grows d e"
proof -
  obtain d1 where d1: "d1 = d \<or> (\<exists>sid r. release_session L ids d sid (ls_fencing_token l) now = Inr (d1, r))"
    and e: "e = d1\<lparr>db_leases := sql_delete (holds_row (ls_scope l) (ls_owner l) (ls_fencing_token l)) (db_leases d1)\<rparr>"
    using w by (auto simp: release_lease_def Let_def split: option.splits)
  have mv: "store_ok d1 \<and> store_grows d d1" using d1 ok release_session_moves [OF ok] by blast
  then have parts: "leases_ok d1" "effects_keyed d1" by (simp_all add: store_ok_def)
  have "store_ok e \<and> store_grows d1 e"
    by (rule core_moves)
      (use mv parts delete_lease_contract [OF parts(1)] in
        \<open>simp_all add: e sessions_kept_def ledger_le_same effects_keyed_def\<close>)
  with mv show ?thesis by (blast intro: store_grows_trans)
qed

lemma recover_after_loss_moves:
  assumes ok: "store_ok d" and w: "recover_session_after_lease_loss L ids d sid t l expected now = Inr (e, outcome)"
  shows "store_ok e \<and> store_grows d e"
proof -
  have "e = d \<or> (\<exists>response. recover_linked_session_turn L ids d sid t (ls_fencing_token l)
      (Some expected) now = Inr (e, response))"
    using w unfolding recover_session_after_lease_loss_def
    by (fastforce split: if_splits option.splits)
  then show ?thesis using ok recover_linked_any [OF ok] by blast
qed

lemma recover_all_linked_moves:
  assumes "store_ok d" and "recover_all_linked L ids i now rows d = Inr (e, responses)"
  shows "store_ok e \<and> store_grows d e"
  using assms
proof (induction rows arbitrary: i d responses)
  case (Cons row rows)
  obtain sid t token where row: "row = (sid, t, token)" by (cases row) auto
  obtain d1 response rs where one: "recover_linked_session_turn L (ids i) d sid t token None now = Inr (d1, response)"
    and rest: "recover_all_linked L ids (Suc i) now rows d1 = Inr (e, rs)"
    using Cons.prems(2) unfolding row by auto
  note mv = recover_linked_any [OF Cons.prems(1) one]
  from Cons.IH [OF conjunct1 [OF mv] rest] mv show ?case by (blast intro: store_grows_trans)
qed simp

lemma recover_at_moves:
  assumes ok: "store_ok d" and w: "recover_at L ids d now = Inr (e, responses)"
  shows "store_ok e \<and> store_grows d e"
proof -
  obtain d1 where one: "recover_all_linked L ids 0 now (stale_linked L d now) d = Inr (d1, responses)"
    and two: "recover_all_unlinked ids (length (stale_linked L d now)) now (stale_unlinked d1 now) d1 = Inr e"
    using w by (auto simp: recover_at_def Let_def)
  note mv = recover_all_linked_moves [OF ok one]
  have "store_ok d1" using mv by blast
  from recover_unlinked_moves [OF two this stale_unlinked_rows [OF this]] mv
  show ?thesis by (blast intro: store_grows_trans)
qed

end
