(* ===== verification/Store_Machine.thy ===== *)
theory Store_Machine
  imports Recover_Keeps
begin

text \<open>
  The store as a machine: one constructor per operation a client can run in a
  transaction, with the arguments of the Rust function. A refused operation leaves the
  database as it was, because its transaction is rolled back.
\<close>

subsection \<open>Operations\<close>

datatype store_op =
    OpCreate "nat \<Rightarrow> uuid" "uuid option" uuid uuid session_provider_binding rstr rstr manifest
      "lease option" nat "rstr option"
  | OpFollowUp "nat \<Rightarrow> uuid" "uuid option" uuid uuid nat rstr manifest "lease option" nat
  | OpCommit "nat \<Rightarrow> uuid" session_commit_request lease nat
  | OpSwitch "nat \<Rightarrow> uuid" uuid nat session_provider_binding lease nat
  | OpFork "nat \<Rightarrow> uuid" uuid uuid "transcript_entry list" "rstr option" nat
  | OpRename uuid rstr
  | OpCreateTurn uuid nat "rstr + manifest"
  | OpTransition "nat \<Rightarrow> uuid" uuid nat transition nat lease
  | OpCancelWaiting "nat \<Rightarrow> uuid" uuid nat lease nat bool
  | OpCompleteVerified "nat \<Rightarrow> uuid" uuid nat lease rstr "storage_error + rstr \<times> manifest" nat
  | OpInterruptLost "nat \<Rightarrow> uuid" uuid lease nat nat
  | OpCheckpoint uuid nat lease rstr nat
  | OpEvidence uuid nat lease rstr rstr "rstr option" nat
  | OpPreparePermission rstr uuid nat nat nat rstr rstr lease nat
  | OpConsumePermission rstr uuid nat lease rstr nat
  | OpReplaceEffect rstr rstr uuid nat nat rstr rstr lease nat
  | OpFinishEffect effect_authority bool rstr nat
  | OpEffectUnknown effect_authority nat
  | OpAcquire rstr rstr "uuid option" nat nat
  | OpRenew lease nat nat
  | OpRelease "nat \<Rightarrow> uuid" lease nat
  | OpRecoverSession "nat \<Rightarrow> uuid" uuid uuid lease nat nat
  | OpRecover "nat \<Rightarrow> nat \<Rightarrow> uuid" nat
  | OpAcknowledge uuid nat

definition db_of :: "storage_error + db \<times> 'a \<Rightarrow> storage_error + db" where
  "db_of m = bindE m (\<lambda>(d, _). Inr d)"

lemma db_of_Inr [simp]: "db_of m = Inr e \<longleftrightarrow> (\<exists>x. m = Inr (e, x))"
  by (auto simp: db_of_def)

text \<open>
  A new run has a fresh identifier (\<open>TurnId::new\<close>); one that a session already links is
  taken in the \<open>turns\<close> table, whose primary key refuses the row.
\<close>

fun store_step :: "lib \<Rightarrow> db \<Rightarrow> store_op \<Rightarrow> storage_error + db" where
  "store_step L d (OpCreate ids cid sid t b root prompt m lease now focus) =
     db_of (create_session_v2_inner L ids d cid sid t b root prompt m lease now focus)"
| "store_step L d (OpFollowUp ids cid sid t expected prompt m lease now) =
     db_of (create_session_follow_up_v2_inner L ids d cid sid t expected prompt m lease now)"
| "store_step L d (OpCommit ids rq l now) = db_of (commit_session_turn_update L ids d rq l now)"
| "store_step L d (OpSwitch ids sid expected b l now) =
     db_of (switch_session_binding_v2 L ids d sid expected b l now)"
| "store_step L d (OpFork ids source fork history title now) =
     create_session_fork L ids d source fork history title now"
| "store_step L d (OpRename sid title) = rename_session L d sid title"
| "store_step L d (OpCreateTurn t now m) =
     (if is_session_linked_turn d t then Inl (Sql ConstraintViolation)
      else db_of (engine_create_turn d t now m))"
| "store_step L d (OpTransition ids t expected tr now l) =
     db_of (engine_apply_transition ids d t expected tr now l)"
| "store_step L d (OpCancelWaiting ids t expected l now denied) =
     db_of (engine_cancel_waiting ids d t expected l now denied)"
| "store_step L d (OpCompleteVerified ids t expected l summary sample now) =
     db_of (engine_complete_verified_turn L ids d t expected l summary sample now)"
| "store_step L d (OpInterruptLost ids t l expected now) =
     db_of (engine_interrupt_after_lease_loss ids d t l expected now)"
| "store_step L d (OpCheckpoint t expected l payload now) =
     engine_persist_checkpoint L d t expected l payload now"
| "store_step L d (OpEvidence t expected l vid metadata blob now) =
     record_verification_evidence L d t expected l vid metadata blob now"
| "store_step L d (OpPreparePermission eid t expected b attempt descriptor digest l now) =
     create_prepared_permission L d eid t expected b attempt descriptor digest l now"
| "store_step L d (OpConsumePermission eid t revision l digest now) =
     db_of (consume_permission_and_start d eid t revision l digest now)"
| "store_step L d (OpReplaceEffect old new t revision attempt descriptor digest l now) =
     replace_pending_effect L d old new t revision attempt descriptor digest l now"
| "store_step L d (OpFinishEffect a success post now) = finish_effect L d a success post now"
| "store_step L d (OpEffectUnknown a now) = mark_effect_unknown d a now"
| "store_step L d (OpAcquire scope owner turn now ttl) =
     db_of (acquire_scoped_lease d scope owner turn now ttl)"
| "store_step L d (OpRenew l now ttl) = db_of (renew_lease d l now ttl)"
| "store_step L d (OpRelease ids l now) = db_of (release_lease L ids d l now)"
| "store_step L d (OpRecoverSession ids sid t l expected now) =
     db_of (recover_session_after_lease_loss L ids d sid t l expected now)"
| "store_step L d (OpRecover ids now) = db_of (recover_at L ids d now)"
| "store_step L d (OpAcknowledge sid through) = acknowledge_conversation_outbox d sid through"

subsection \<open>Every operation moves the store\<close>

lemma create_turn_moves:
  assumes ok: "store_ok d" and fresh: "\<not> is_session_linked_turn d t"
    and w: "engine_create_turn d t now m = Inr (e, s)"
  shows "store_ok e \<and> store_grows d e"
proof -
  obtain b where w: "create_run_with_baseline d (turn_queued t) now (Some b) = Inr e"
    using w by (auto simp: engine_create_turn_def)
  show ?thesis
    by (rule create_run_moves [OF ok turn_queued_wf w])
      (use fresh in \<open>auto simp: is_session_linked_turn_def linked_def turn_queued_def\<close>)
qed

lemma session_ok_cong:
  assumes "turn_state_of e = turn_state_of d" and "active_turn e = active_turn d" and "linked e = linked d"
  shows "session_ok e s = session_ok d s"
  unfolding session_ok_def assms ..

text \<open>The conversation file has taken over the acknowledged entries.\<close>

lemma acknowledge_moves:
  assumes ok: "store_ok d" and w: "acknowledge_conversation_outbox d sid through = Inr e"
  shows "store_ok e \<and> store_le d e"
proof -
  have e: "e = d\<lparr>db_outbox := sql_delete (\<lambda>r. ob_session_id r = sid \<and> ob_seq r \<le> through) (db_outbox d)\<rparr>"
    using w by (auto simp: acknowledge_conversation_outbox_def)
  have same: "db_sessions e = db_sessions d" "db_turns e = db_turns d" "db_active e = db_active d"
    "db_session_turns e = db_session_turns d" "db_session_events e = db_session_events d"
    "db_effects e = db_effects d" "db_leases e = db_leases d" "db_lease_epoch e = db_lease_epoch d"
    "db_dedup e = db_dedup d" and sub: "set (db_outbox e) \<subseteq> set (db_outbox d)"
    by (auto simp: e)
  have "turn_state_of e = turn_state_of d" "active_turn e = active_turn d" "linked e = linked d"
    by (simp_all add: fun_eq_iff turn_state_of_def find_turn_def active_turn_def linked_def same)
  then have "session_ok e s = session_ok d s" for s
    by (rule session_ok_cong)
  moreover have "outbox_consistent e" "sequences_ok e"
    using ok sub by (auto simp: store_ok_def outbox_consistent_def sequences_ok_def same)
  moreover have "owned_ok e"
  proof -
    have "ob_session_id ` set (db_outbox d) \<subseteq> sr_session_id ` set (db_sessions d)"
      using ok by (simp add: store_ok_def owned_ok_def Let_def)
    with image_mono [OF sub, of ob_session_id] ok show ?thesis
      by (simp add: store_ok_def owned_ok_def same Let_def)
  qed
  ultimately have "store_ok e"
    using ok by (simp add: store_ok_def keys_ok_def effects_keyed_def leases_ok_def linked_def same)
  moreover have "store_le d e"
    by (simp add: store_le_def logs_le_def sessions_le_same turns_le_same ledger_le_same lease_le_same same)
  ultimately show ?thesis by blast
qed

lemmas ledger_op_moves =
  ledger_moves [OF _ create_permission_move] ledger_moves [OF _ consume_permission_move]
  ledger_moves [OF _ replace_effect_move] ledger_moves [OF _ finish_effect_move]
  ledger_moves [OF _ mark_unknown_move]

lemmas op_moves = commit_moves create_session_moves follow_up_moves switch_moves fork_moves rename_moves
  create_turn_moves engine_run_moves record_evidence_moves ledger_op_moves acquire_moves renew_moves
  release_moves recover_after_loss_moves recover_at_moves

text \<open>Every operation but the acknowledgement of the outbox lets the store grow.\<close>

definition acknowledges :: "store_op \<Rightarrow> bool" where
  "acknowledges op \<longleftrightarrow> (case op of OpAcknowledge _ _ \<Rightarrow> True | _ \<Rightarrow> False)"

lemma store_step_grows:
  assumes ok: "store_ok d" and step: "store_step L d op = Inr e" and "\<not> acknowledges op"
  shows "store_ok e \<and> store_grows d e"
  using step assms(3) by (cases op) (auto simp: acknowledges_def dest: op_moves [OF ok] split: if_splits)

lemma store_step_moves:
  assumes ok: "store_ok d" and step: "store_step L d op = Inr e"
  shows "store_ok e \<and> store_le d e"
proof (cases "acknowledges op")
  case True
  with step acknowledge_moves [OF ok] show ?thesis
    by (auto simp: acknowledges_def split: store_op.splits)
next
  case False
  from store_step_grows [OF ok step this] show ?thesis by (blast dest: store_grows_le)
qed

interpretation store: monotone_machine "store_step L" store_ok store_le for L
  by unfold_locales (auto dest: store_step_moves intro: store_le_trans)

end
