(* ===== verification/Store_Example.thy ===== *)
theory Store_Example
  imports Session_Store
begin

text \<open>
  A small concrete store on which the properties are exercised: the crates the store
  links against as concrete functions, one session with a running turn under a live
  lease, and requests against it.
\<close>

definition ex_lib :: lib where
  "ex_lib = \<lparr>scrub_secrets = (\<lambda>s. s), uuid_text = (\<lambda>u. [48 + u]),
     uuid_parse = (\<lambda>s. case s of [c] \<Rightarrow> if 48 \<le> c then Some (c - 48) else None | _ \<Rightarrow> None),
     uuid_error = (\<lambda>_. []), json_parse = (\<lambda>s. if s = [] then None else Some (JStr s)),
     json_error = (\<lambda>_. []), json_text = (\<lambda>_. lit ''json''), dedup_result_error = [],
     json_sha256 = (\<lambda>j. case json_get (lit ''update'') j of Some (JObj kvs) \<Rightarrow> [length kvs] | _ \<Rightarrow> []),
     descriptor_parse = (\<lambda>s. Some \<lparr>sd_effect_id = s, sd_tool_call_id = s, sd_name = s,
        sd_input = JObj [], sd_attempt = 1\<rparr>),
     verification_parse = (\<lambda>s. Some \<lparr>ver_revision = 1, ver_effect_epoch = 0, ver_effect_id = s,
        ver_passed = True, ver_workspace_manifest_digest = s, ver_summary = s\<rparr>)\<rparr>"

lemma ex_lib_uuid: "uuid_roundtrip ex_lib"
  by (simp add: uuid_roundtrip_def ex_lib_def)

definition ex_binding :: session_provider_binding where
  "ex_binding = \<lparr>pb_version = 1, pb_provider_name = lit ''p'', pb_provider_type = lit ''t'',
     pb_protocol = lit ''c'', pb_model = lit ''m'', pb_config_fingerprint = lit ''f'',
     pb_tools_fingerprint = lit ''f'', pb_aliases = [], pb_credential_ref_id = lit ''r'',
     pb_data_scope_id = lit ''d'', pb_credential_generation = 1\<rparr>"

definition ex_turn :: turn_state where
  "ex_turn = (turn_queued 5)\<lparr>ts_status := Running, ts_revision := 1\<rparr>"

definition ex_lease :: lease where
  "ex_lease = \<lparr>ls_scope = session_lease_scope ex_lib 1, ls_owner = lit ''w'',
     ls_fencing_token = 3, ls_expires_at_ms = 100\<rparr>"

definition ex_db :: db where
  "ex_db = empty_db\<lparr>
     db_turns := [\<lparr>tr_turn_id = 5, tr_state = ex_turn, tr_status = lit ''running'',
       tr_revision = 1, tr_last_seq = 1, tr_lease_token = 3, tr_created_at_ms = 0,
       tr_updated_at_ms = 0, tr_effect_epoch = 0\<rparr>],
     db_read_model := [\<lparr>rm_turn_id = 5, rm_revision = 1, rm_last_seq = 1, rm_state = ex_turn\<rparr>],
     db_sessions := [\<lparr>sr_session_id = 1, sr_revision = 7, sr_last_seq = 2,
       sr_lifecycle = lit ''running'', sr_binding = ex_binding, sr_latest_turn_id = Some 5,
       sr_created_at_ms = 0, sr_updated_at_ms = 0, sr_focus = None, sr_title = lit ''x'',
       sr_workspace_root = lit ''/'', sr_parent_session_id = None\<rparr>],
     db_session_turns := [\<lparr>st_turn_id = 5, st_session_id = 1, st_parent_turn_id = None,
       st_ordinal = 0, st_completed_at_ms = None, st_tool_round_count = 0\<rparr>],
     db_active := [\<lparr>ar_session_id = 1, ar_turn_id = 5, ar_lease_token = 3\<rparr>],
     db_leases := [\<lparr>lr_scope = session_lease_scope ex_lib 1, lr_owner = lit ''w'', lr_token = 3,
       lr_expires_at_ms = 100\<rparr>],
     db_lease_epoch := 3\<rparr>"

definition ex_request :: "commit_update \<Rightarrow> session_commit_request" where
  "ex_request u = \<lparr>rq_session_id = 1, rq_turn_id = 5, rq_expected_session_revision = 7,
     rq_expected_turn_revision = 1, rq_command_id = 9, rq_request_id = None, rq_effect_id = None,
     rq_update = u\<rparr>"

definition ex_ids :: "nat \<Rightarrow> uuid" where "ex_ids n = 20 + n"

definition ex_handoff :: handoff where
  "ex_handoff = \<lparr>ho_summary = lit ''ok'', ho_files_changed = [], ho_evidence = []\<rparr>"

lemma ex_db_ok: "store_ok ex_db"
  by (simp add: store_ok_def ex_db_def empty_db_def keys_ok_def effects_keyed_def leases_ok_def
      outbox_consistent_def sequences_ok_def owned_ok_def turn_row_ok_def row_holds_def ex_turn_def
      turn_queued_def turn_wf_def u64_bound_def session_ok_def active_turn_def turn_state_of_def
      find_turn_def agrees_def linked_def)

lemmas commit_eval = commit_session_turn_update_def commit_fresh_def commit_gate_def
  require_live_lease_def lease_live_def holds_row_def find_session_def active_gate_def
  active_turn_def find_turn_def initial_draft_def commit_finish_def finish_turn_def
  append_linked_turn_transition_def linked_states_def append_linked_state_def insert_event_def
  turn_event_row_def turn_envelope_def turn_event_def update_read_model_def
  finish_checkpoint_def finish_card_def insert_outbox_def outbox_row_of_def
  finish_active_def finish_terminal_def finish_session_def finish_event_def
  session_envelope_def insert_session_event_def session_event_row_def commit_record_def
  insert_dedup_def insert_source_def current_session_snapshot_def session_snapshot_def
  session_turn_summaries_def turn_summary_def session_transcript_tail_def session_outbox_def
  transcript_page_of_def clamp_def SESSION_PROJECTION_TRANSCRIPT_LIMIT_def parse_lifecycle_def
  validate_session_source_def require_lease_scope_def sql_insert_def sql_changes_def
  sql_delete_def to_i64_def i64_bound_def u64_bound_def checked_add_def lift_transition_def
  ctx_step_def turn_transition_def apply_arm_def counts_as_tool_round_def Let_def

lemmas ex_defs = ex_db_def ex_lease_def ex_request_def ex_turn_def turn_queued_def ex_ids_def
  empty_db_def ex_binding_def

lemmas ex_lib_eval = ex_lib_def redact_def redact_session_text_def redact_value_def lit_def
  is_control_def card_key_def len_utf8_def SESSION_TEXT_CAP_BYTES_def

lemma ex_complete:
  "\<exists>e resp. commit_session_turn_update ex_lib ex_ids ex_db
     (ex_request (CuComplete (lit ''k'') ex_handoff)) ex_lease 10 = Inr (e, resp)"
  by (simp add: ex_defs ex_handoff_def)
    (simp add: commit_eval commit_complete_def complete_with_def completion_card_def
      verification_passed_def redact_handoff_def ex_lib_eval)

end
