(* ===== verification/Session_Commits.thy ===== *)
theory Session_Commits
  imports Store_Example
begin

text \<open>
  Properties of \<open>commit_session_turn_update\<close>: fencing, compare-and-swap, idempotent
  replay, the discipline of effects and permissions, and what a terminal commit leaves.
\<close>

definition command_recorded :: "db \<Rightarrow> session_commit_request \<Rightarrow> bool" where
  "command_recorded d rq \<longleftrightarrow> sql_exists (\<lambda>r. dd_command_id r = rq_command_id rq) (db_dedup d)"

definition source_recorded :: "db \<Rightarrow> session_commit_request \<Rightarrow> bool" where
  "source_recorded d rq \<longleftrightarrow> sql_exists (\<lambda>r. cs_session_id r = rq_session_id rq
     \<and> cs_source_key r = source_key (rq_update rq)) (db_sources d)"

lemma not_command_recorded:
  "\<not> command_recorded d rq \<longleftrightarrow> find (\<lambda>r. dd_command_id r = rq_command_id rq) (db_dedup d) = None"
  by (auto simp: command_recorded_def find_None_iff)

lemma not_source_recorded:
  "\<not> source_recorded d rq \<longleftrightarrow> find (\<lambda>r. cs_session_id r = rq_session_id rq
     \<and> cs_source_key r = source_key (rq_update rq)) (db_sources d) = None"
  by (auto simp: source_recorded_def find_None_iff)

text \<open>A commit of a command the store has not seen ran the transaction.\<close>

lemma commit_new:
  assumes "commit_session_turn_update L ids d rq l now = Inr (e, resp)"
    and "\<not> command_recorded d rq" and "\<not> source_recorded d rq"
  shows "commit_fresh L ids d rq l now = Inr (e, resp)"
  using assms(1)
  by (cases rule: commit_cases)
    (use assms(2,3) in \<open>auto simp: not_command_recorded not_source_recorded\<close>)

lemma commit_new_facts:
  assumes "store_ok d" and "commit_session_turn_update L ids d rq l now = Inr (e, resp)"
    and "\<not> command_recorded d rq" and "\<not> source_recorded d rq"
  obtains ct where "passed_gate L d rq l now ct"
    "commit_arm L (trace_ctx rq l now ct) (rq_update rq)
       (initial_draft d (tr_state (ct_turn ct)) (sr_lifecycle (ct_session ct))) = Inr (ct_draft ct)"
    "draft_ok (tr_state (ct_turn ct)) (sr_lifecycle (ct_session ct)) (ct_draft ct)"
    "ledger_move d (dr_db (ct_draft ct))"
    "committed_tables L d rq l now ct e" "committed_records L d rq now e resp"
    "committed_card ids rq now ct" "committed_event rq ct resp"
  using commit_fresh_Inr [OF commit_new [OF assms(2-4)]] assms(1) by (auto simp: store_ok_def)

lemma find_session_after:
  assumes "passed_gate L d rq l now ct" and "committed_tables L d rq l now ct e"
  shows "find_session e (rq_session_id rq) = Some (moved_session rq now ct (ct_session ct))"
proof -
  have "find_session e (rq_session_id rq) = map_option (\<lambda>r. if sr_session_id r = rq_session_id rq
      then moved_session rq now ct r else r) (find_session d (rq_session_id rq))"
    unfolding find_session_def using assms(2)
    by (simp add: committed_tables_def moved_rows.find_update_same)
  moreover have "find_session d (rq_session_id rq) = Some (ct_session ct)"
    "sr_session_id (ct_session ct) = rq_session_id rq"
    using assms(1) by (auto simp: passed_gate_def dest: find_session_Some)
  ultimately show ?thesis by simp
qed

text \<open>Whichever way a commit was answered, its command is now on record.\<close>

lemma recorded_after:
  assumes "store_ok d" and "commit_session_turn_update L ids d rq l now = Inr (e, resp)"
  shows "\<exists>r. find (\<lambda>r. dd_command_id r = rq_command_id rq) (db_dedup e) = Some r
    \<and> dd_digest r = session_command_digest L rq \<and> dd_result r = DrCommit resp"
  using assms(2)
proof (cases rule: commit_cases)
  case (replay r)
  then show ?thesis by simp
next
  case (source r)
  then show ?thesis by (auto simp: insert_dedup_def find_append)
next
  case fresh
  obtain ct where "committed_records L d rq now e resp"
    using assms(1) fresh(3) by (auto simp: store_ok_def elim: commit_fresh_Inr)
  with fresh(1) show ?thesis by (simp add: committed_records_def find_append)
qed

text \<open>
  C1 A commit is fenced and a compare-and-swap: it is accepted only under a live lease of
  its session, on exactly the session and turn revisions the caller named, and it moves
  the session's revision and sequence on by one.
\<close>

theorem commit_is_fenced_cas:
  assumes "store_ok d" and "commit_session_turn_update L ids d rq l now = Inr (e, resp)"
    and "\<not> command_recorded d rq" and "\<not> source_recorded d rq"
  shows "lease_live d (session_lease_scope L (rq_session_id rq)) (ls_owner l) (ls_fencing_token l) now
    \<and> map_option sr_revision (find_session d (rq_session_id rq)) = Some (rq_expected_session_revision rq)
    \<and> map_option ts_revision (turn_state_of d (rq_turn_id rq)) = Some (rq_expected_turn_revision rq)
    \<and> map_option sr_revision (find_session e (rq_session_id rq)) = Some (rq_expected_session_revision rq + 1)
    \<and> map_option sr_last_seq (find_session e (rq_session_id rq))
        = map_option (\<lambda>s. sr_last_seq s + 1) (find_session d (rq_session_id rq))"
proof -
  obtain ct where gate: "passed_gate L d rq l now ct" and tables: "committed_tables L d rq l now ct e"
    by (rule commit_new_facts [OF assms])
  then show ?thesis
    using find_session_after [OF gate tables]
    by (simp add: passed_gate_def turn_state_of_def moved_session_def)
qed

theorem commit_is_fenced_cas_witness:
  "\<exists>e. map_option sr_revision (find_session e 1) = Some 8"
proof -
  obtain e resp where c: "commit_session_turn_update ex_lib ex_ids ex_db
      (ex_request (CuComplete (lit ''k'') ex_handoff)) ex_lease 10 = Inr (e, resp)"
    using ex_complete by blast
  have "map_option sr_revision (find_session e 1) = Some 8"
    using commit_is_fenced_cas [OF ex_db_ok c]
    by (simp add: command_recorded_def source_recorded_def ex_defs)
  then show ?thesis by blast
qed

text \<open>
  Without a live lease of the session's scope nothing is written: a command the store
  has not seen is refused with \<open>LeaseLost\<close>, whoever sends it.
\<close>

theorem commit_needs_live_lease:
  assumes "\<not> command_recorded d rq" and "\<not> source_recorded d rq"
    and "\<not> lease_live d (session_lease_scope L (rq_session_id rq)) (ls_owner l) (ls_fencing_token l) now"
    and "ls_scope l = session_lease_scope L (rq_session_id rq)"
    and "validate_session_source (source_key (rq_update rq)) = Inr ()"
    and "ls_fencing_token l < i64_bound" and "now < i64_bound"
  shows "commit_session_turn_update L ids d rq l now = Inl LeaseLost"
  using assms
  by (simp add: commit_session_turn_update_def require_lease_scope_def not_command_recorded
      not_source_recorded commit_fresh_def commit_gate_def require_live_lease_def to_i64_def)

theorem commit_needs_live_lease_witness:
  "commit_session_turn_update ex_lib ex_ids ex_db (ex_request (CuStart (lit ''k''))) ex_lease 200
     = Inl LeaseLost"
  by (rule commit_needs_live_lease)
    (simp_all add: ex_defs command_recorded_def source_recorded_def lease_live_def holds_row_def
      validate_session_source_def ex_lib_eval i64_bound_def)

text \<open>
  Replay is idempotent: once a command has been committed, sending it again, under any
  lease of the session and at any time, returns the recorded response and changes nothing.
\<close>

theorem commit_replays:
  assumes "store_ok d" and "commit_session_turn_update L ids d rq l now = Inr (e, resp)"
    and "ls_scope l' = session_lease_scope L (rq_session_id rq)"
  shows "commit_session_turn_update L ids' e rq l' later = Inr (e, resp)"
proof -
  have src: "validate_session_source (source_key (rq_update rq)) = Inr ()"
    using assms(2) by (auto simp: commit_session_turn_update_def)
  have "\<exists>r. find (\<lambda>r. dd_command_id r = rq_command_id rq) (db_dedup e) = Some r
    \<and> dd_digest r = session_command_digest L rq \<and> dd_result r = DrCommit resp"
    using recorded_after [OF assms(1,2)] .
  then show ?thesis
    using assms(3) src
    by (auto simp: commit_session_turn_update_def require_lease_scope_def commit_replay_def)
qed

theorem commit_replays_witness:
  "\<exists>e resp. commit_session_turn_update ex_lib ex_ids ex_db
      (ex_request (CuComplete (lit ''k'') ex_handoff)) ex_lease 10 = Inr (e, resp)
    \<and> commit_session_turn_update ex_lib (\<lambda>_. 0) e
      (ex_request (CuComplete (lit ''k'') ex_handoff)) ex_lease 5000 = Inr (e, resp)"
proof -
  obtain e resp where c: "commit_session_turn_update ex_lib ex_ids ex_db
      (ex_request (CuComplete (lit ''k'') ex_handoff)) ex_lease 10 = Inr (e, resp)"
    using ex_complete by blast
  moreover have "commit_session_turn_update ex_lib (\<lambda>_. 0) e
      (ex_request (CuComplete (lit ''k'') ex_handoff)) ex_lease 5000 = Inr (e, resp)"
    by (rule commit_replays [OF ex_db_ok c]) (simp add: ex_lease_def ex_request_def)
  ultimately show ?thesis by blast
qed

text \<open>
  A command identifier names one command: after a commit, a request that reuses the
  identifier with another digest is refused before any write.
\<close>

theorem command_id_is_bound:
  assumes "store_ok d" and "commit_session_turn_update L ids d rq l now = Inr (e, resp)"
    and "rq_command_id rq' = rq_command_id rq"
    and "session_command_digest L rq' \<noteq> session_command_digest L rq"
    and "ls_scope l' = session_lease_scope L (rq_session_id rq')"
    and "validate_session_source (source_key (rq_update rq')) = Inr ()"
  shows "commit_session_turn_update L ids' e rq' l' later = Inl SessionCommandReplayMismatch"
  using recorded_after [OF assms(1,2)] assms(3-6)
  by (auto simp: commit_session_turn_update_def require_lease_scope_def)

lemma ex_digest_differs:
  "session_command_digest ex_lib (ex_request (CuStart (lit ''k'')))
     \<noteq> session_command_digest ex_lib (ex_request (CuComplete (lit ''k'') ex_handoff))"
  by (simp add: session_command_digest_def ex_lib_def ex_request_def json_get_def json_obj_def lit_def)

theorem command_id_is_bound_witness:
  "\<exists>e. commit_session_turn_update ex_lib ex_ids e (ex_request (CuStart (lit ''k''))) ex_lease 11
     = Inl SessionCommandReplayMismatch"
proof -
  obtain e resp where c: "commit_session_turn_update ex_lib ex_ids ex_db
      (ex_request (CuComplete (lit ''k'') ex_handoff)) ex_lease 10 = Inr (e, resp)"
    using ex_complete by blast
  have "commit_session_turn_update ex_lib ex_ids e (ex_request (CuStart (lit ''k''))) ex_lease 11
     = Inl SessionCommandReplayMismatch"
    by (rule command_id_is_bound [OF ex_db_ok c _ ex_digest_differs])
      (simp_all add: ex_request_def ex_lease_def validate_session_source_def ex_lib_eval)
  then show ?thesis by blast
qed

end
