(* ===== verification/Session_Effects.thy ===== *)
theory Session_Effects
  imports Session_Commits
begin

text \<open>
  The discipline of external effects in linked turns: an effect starts only when it was
  prepared with the digest the caller names and is authorised, at most once, and what
  was observed about it is final.
\<close>

subsection \<open>Starting an effect\<close>

text \<open>The permission, if there is one, is bound to this revision and lease and unused.\<close>

definition start_authorised :: "db \<Rightarrow> rstr \<Rightarrow> uuid \<Rightarrow> nat \<Rightarrow> lease \<Rightarrow> effect_row \<Rightarrow> bool" where
  "start_authorised d eid t turn_revision l r \<longleftrightarrow>
     (case find (\<lambda>p. pm_effect_id p = eid \<and> pm_turn_id p = t) (db_permissions d) of
        Some p \<Rightarrow> pm_turn_revision p = turn_revision \<and> pm_lease_owner p = ls_owner l
          \<and> pm_lease_token p = ls_fencing_token l \<and> pm_consumed_at_ms p = None
      | None \<Rightarrow> ef_pre_evidence r = Some (policy_marker PolicyAllow))"

definition permission_used :: "db \<Rightarrow> rstr \<Rightarrow> bool" where
  "permission_used d eid \<longleftrightarrow>
     (\<forall>p \<in> set (db_permissions d). pm_effect_id p = eid \<longrightarrow> pm_consumed_at_ms p \<noteq> None)"

lemma authorize_start_Inr:
  assumes "authorize_start cx eid marker d = Inr e"
  shows "db_effects e = db_effects d"
    and "ef_pre_evidence r = Some marker \<Longrightarrow>
      start_authorised d eid (ctx_turn cx) (ts_revision (cx_current cx)) (cx_lease cx) r"
    and "(\<exists>p \<in> set (db_permissions d). pm_effect_id p = eid \<and> pm_turn_id p = ctx_turn cx) \<Longrightarrow>
      permission_used e eid"
proof -
  let ?Q = "\<lambda>p. pm_effect_id p = eid \<and> pm_turn_id p = ctx_turn cx"
  have *: "db_effects e = db_effects d
    \<and> (ef_pre_evidence r = Some marker \<longrightarrow>
      start_authorised d eid (ctx_turn cx) (ts_revision (cx_current cx)) (cx_lease cx) r)
    \<and> ((\<exists>p \<in> set (db_permissions d). ?Q p) \<longrightarrow> permission_used e eid)"
  proof (cases "find ?Q (db_permissions d)")
    case None
    then have "\<not> (\<exists>p \<in> set (db_permissions d). ?Q p)" by (simp add: find_None_all)
    with None assms show ?thesis
      by (simp add: authorize_start_def start_authorised_def) blast
  next
    case (Some p)
    with assms show ?thesis
      by (simp add: authorize_start_def start_authorised_def)
        (auto simp: permission_used_def set_sql_update consume_row_def)
  qed
  show "db_effects e = db_effects d"
    "ef_pre_evidence r = Some marker \<Longrightarrow>
      start_authorised d eid (ctx_turn cx) (ts_revision (cx_current cx)) (cx_lease cx) r"
    "\<exists>p \<in> set (db_permissions d). ?Q p \<Longrightarrow> permission_used e eid"
    using * by blast+
qed

lemma commit_start_effect_Inr:
  assumes "commit_start_effect L cx key eid digest cp dr = Inr dr'"
  shows "\<exists>r \<in> set (db_effects (dr_db dr)). effect_of eid (ctx_turn cx) (lit ''prepared'') r
      \<and> ef_approval_digest r = Some digest
      \<and> start_authorised (dr_db dr) eid (ctx_turn cx) (ts_revision (cx_current cx)) (cx_lease cx) r"
    and "\<exists>r \<in> set (db_effects (dr_db dr')). effect_of eid (ctx_turn cx) (lit ''started'') r"
    and "(\<exists>p \<in> set (db_permissions (dr_db dr)). pm_effect_id p = eid \<and> pm_turn_id p = ctx_turn cx) \<Longrightarrow>
      permission_used (dr_db dr') eid"
    and "ts_status (cx_current cx) = Running"
proof -
  let ?P = "\<lambda>r. effect_of eid (ctx_turn cx) (lit ''prepared'') r \<and> ef_approval_digest r = Some digest"
  let ?f = "\<lambda>r. r\<lparr>ef_status := lit ''started'', ef_started_at_ms := cx_now cx\<rparr>"
  obtain r marker d1 where r: "find (effect_of eid (ctx_turn cx) (lit ''prepared'')) (db_effects (dr_db dr)) = Some r"
      "ef_approval_digest r = Some digest" "ef_pre_evidence r = Some marker"
    and d1: "authorize_start cx eid marker (dr_db dr) = Inr d1"
    and e: "db_effects (dr_db dr') = sql_update ?P ?f (db_effects d1)"
      "db_permissions (dr_db dr') = db_permissions d1"
    and run: "ts_status (cx_current cx) = Running"
    using assms unfolding commit_start_effect_def Let_def
    by (fastforce split: option.splits if_splits)
  note a = authorize_start_Inr [OF d1]
  have rin: "r \<in> set (db_effects (dr_db dr))" "effect_of eid (ctx_turn cx) (lit ''prepared'') r"
    using r(1) by (auto dest: find_Some_in)
  with r(2) a(2) [OF r(3)]
  show "\<exists>r \<in> set (db_effects (dr_db dr)). effect_of eid (ctx_turn cx) (lit ''prepared'') r
      \<and> ef_approval_digest r = Some digest
      \<and> start_authorised (dr_db dr) eid (ctx_turn cx) (ts_revision (cx_current cx)) (cx_lease cx) r"
    by blast
  have "?f r \<in> set (db_effects (dr_db dr'))"
    unfolding e(1) set_sql_update a(1) using rin r(2) by (auto intro: image_eqI [where x = r])
  moreover have "effect_of eid (ctx_turn cx) (lit ''started'') (?f r)"
    using rin(2) by (simp add: effect_of_def)
  ultimately show "\<exists>r \<in> set (db_effects (dr_db dr')). effect_of eid (ctx_turn cx) (lit ''started'') r"
    by blast
  show "permission_used (dr_db dr') eid"
    if "\<exists>p \<in> set (db_permissions (dr_db dr)). pm_effect_id p = eid \<and> pm_turn_id p = ctx_turn cx"
    using a(3) [OF that] e(2) by (simp add: permission_used_def)
  show "ts_status (cx_current cx) = Running" by (rule run)
qed

lemma effect_start_fact:
  assumes "store_ok d" and "commit_session_turn_update L ids d rq l now = Inr (e, resp)"
    and "\<not> command_recorded d rq" and "\<not> source_recorded d rq"
    and "rq_update rq = CuStartEffect key eid digest checkpoint"
  shows "(\<exists>r \<in> set (db_effects d). effect_of eid (rq_turn_id rq) (lit ''prepared'') r
       \<and> ef_approval_digest r = Some digest
       \<and> start_authorised d eid (rq_turn_id rq) (rq_expected_turn_revision rq) l r)
    \<and> (\<exists>r \<in> set (db_effects e). effect_of eid (rq_turn_id rq) (lit ''started'') r)
    \<and> ((\<exists>p \<in> set (db_permissions d). pm_effect_id p = eid \<and> pm_turn_id p = rq_turn_id rq) \<longrightarrow>
       permission_used e eid)"
proof -
  obtain ct where gate: "passed_gate L d rq l now ct"
    and arm: "commit_arm L (trace_ctx rq l now ct) (rq_update rq)
       (initial_draft d (tr_state (ct_turn ct)) (sr_lifecycle (ct_session ct))) = Inr (ct_draft ct)"
    and tables: "committed_tables L d rq l now ct e"
    by (rule commit_new_facts [OF assms(1-4)])
  note st = commit_start_effect_Inr [of L "trace_ctx rq l now ct" key eid digest checkpoint]
  from arm assms(5) have start: "commit_start_effect L (trace_ctx rq l now ct) key eid digest checkpoint
      (initial_draft d (tr_state (ct_turn ct)) (sr_lifecycle (ct_session ct))) = Inr (ct_draft ct)"
    by simp
  show ?thesis
    using st(1-3) [OF start] gate tables
    by (simp add: initial_draft_def trace_ctx_def passed_gate_def committed_tables_def permission_used_def)
qed

text \<open>
  C6 An effect starts only on authority: the effect was prepared for this turn with the
  digest the caller names, and either its Ask permission is bound to exactly this turn
  revision, lease owner and fencing token and is still unused, or it carries the durable
  Allow marker. Afterwards it is started, and an Ask permission is used up.
\<close>

theorem effect_start_needs_authority:
  assumes "store_ok d" and "commit_session_turn_update L ids d rq l now = Inr (e, resp)"
    and "\<not> command_recorded d rq" and "\<not> source_recorded d rq"
    and "rq_update rq = CuStartEffect key eid digest checkpoint"
  shows "(\<exists>r \<in> set (db_effects d). effect_of eid (rq_turn_id rq) (lit ''prepared'') r
       \<and> ef_approval_digest r = Some digest
       \<and> start_authorised d eid (rq_turn_id rq) (rq_expected_turn_revision rq) l r)
    \<and> (\<exists>r \<in> set (db_effects e). effect_of eid (rq_turn_id rq) (lit ''started'') r)
    \<and> ((\<exists>p \<in> set (db_permissions d). pm_effect_id p = eid \<and> pm_turn_id p = rq_turn_id rq) \<longrightarrow>
       permission_used e eid)"
  using assms by (rule effect_start_fact)

text \<open>A store in which effect \<open>ask\<close> waits, prepared under a permission the lease may use.\<close>

definition ex_digest :: rstr where "ex_digest = replicate 64 97"

definition ex_effect :: rstr where "ex_effect = lit ''e1''"

definition ex_db_ask :: db where
  "ex_db_ask = ex_db\<lparr>
     db_effects := [prepared_row ex_effect 5 0 1 (lit ''d'') ex_digest (policy_marker PolicyAsk)],
     db_permissions := [\<lparr>pm_effect_id = ex_effect, pm_turn_id = 5, pm_turn_revision = 1,
       pm_lease_owner = lit ''w'', pm_lease_token = 3, pm_approval_digest = ex_digest,
       pm_consumed_at_ms = None\<rparr>]\<rparr>"

lemma ex_db_ask_ok: "store_ok ex_db_ask"
  by (rule store_ok_frame [OF ex_db_ok]) (simp_all add: ex_db_ask_def effects_keyed_def)

lemmas effect_eval = commit_start_effect_def authorize_start_def effect_of_def prepared_row_def
  policy_marker_def consume_row_def validate_session_effect_id_def
  parse_json_def upsert_checkpoint_def

lemma ex_digest_valid: "validate_session_digest ex_digest = Inr ()"
  by (simp add: validate_session_digest_def ex_digest_def utf8_len_def len_utf8_def sum_list_replicate
      is_ascii_hexdigit_def list_all_iff)

definition ex_start :: commit_update where
  "ex_start = CuStartEffect (lit ''s'') ex_effect ex_digest (lit ''c'')"

lemma ex_start_commits:
  "\<exists>e resp. commit_session_turn_update ex_lib ex_ids ex_db_ask (ex_request ex_start) ex_lease 10
     = Inr (e, resp)"
  by (simp add: ex_defs ex_start_def ex_db_ask_def ex_effect_def)
    (simp add: commit_eval effect_eval ex_digest_valid ex_lib_eval json_obj_def)

lemma ex_ask_fresh: "\<not> command_recorded ex_db_ask rq" "\<not> source_recorded ex_db_ask rq"
  by (simp_all add: command_recorded_def source_recorded_def ex_db_ask_def ex_db_def empty_db_def)

theorem effect_start_needs_authority_witness:
  "\<exists>e resp. commit_session_turn_update ex_lib ex_ids ex_db_ask (ex_request ex_start) ex_lease 10
     = Inr (e, resp) \<and> permission_used e ex_effect"
proof -
  obtain e resp where c: "commit_session_turn_update ex_lib ex_ids ex_db_ask (ex_request ex_start)
      ex_lease 10 = Inr (e, resp)"
    using ex_start_commits by blast
  have "rq_update (ex_request ex_start) = CuStartEffect (lit ''s'') ex_effect ex_digest (lit ''c'')"
    by (simp add: ex_request_def ex_start_def)
  from effect_start_needs_authority [OF ex_db_ask_ok c ex_ask_fresh this] c show ?thesis
    by (simp add: ex_db_ask_def ex_request_def)
qed

subsection \<open>Once, and with a final answer\<close>

text \<open>An effect that has left \<open>prepared\<close> never returns to it.\<close>

lemma effect_edge_not_prepared: "effect_edge s t \<Longrightarrow> t \<noteq> lit ''prepared''"
  by (auto elim: effect_edge.cases)

lemma left_prepared:
  assumes "effect_edge\<^sup>*\<^sup>* s t" and "s \<noteq> lit ''prepared''"
  shows "t \<noteq> lit ''prepared''"
  using assms by (induction rule: rtranclp_induct) (auto dest: effect_edge_not_prepared)

lemma ledger_le_row:
  assumes "ledger_le d e" and "effects_keyed e" and "r \<in> set (db_effects d)"
    and "s \<in> set (db_effects e)" and "ef_effect_id s = ef_effect_id r"
  shows "effect_le r s"
proof -
  obtain i where i: "i < length (db_effects d)" "db_effects d ! i = r"
    using assms(3) by (auto simp: in_set_conv_nth)
  with assms(1) have len: "i < length (db_effects e)" and le: "effect_le r (db_effects e ! i)"
    by (auto simp: ledger_le_def)
  obtain j where j: "j < length (db_effects e)" "db_effects e ! j = s"
    using assms(4) by (auto simp: in_set_conv_nth)
  have "map ef_effect_id (db_effects e) ! i = map ef_effect_id (db_effects e) ! j"
    using assms(5) i j len le by (simp add: effect_le_def)
  then have "i = j"
    using assms(2) len j(1) by (simp add: effects_keyed_def nth_eq_iff_index_eq del: nth_map)
  with le j show ?thesis by simp
qed

subsection \<open>Denials, interruptions and terminal commits\<close>

text \<open>
  C9 A terminal commit leaves nothing running: when a commit takes the session's active
  turn to a terminal state, the active row is gone, the turn is stamped, and no lease of
  the session's scope is live any more, so the next coordinator need not wait for it to
  expire.
\<close>

theorem terminal_commit_releases:
  assumes "store_ok d" and "commit_session_turn_update L ids d rq l now = Inr (e, resp)"
    and "\<not> command_recorded d rq" and "\<not> source_recorded d rq"
    and "turn_state_of e (rq_turn_id rq) = Some t" and "terminal_status (ts_status t)"
    and "active_turn d (rq_session_id rq) = Some a"
  shows "active_turn e (rq_session_id rq) = None
    \<and> (\<forall>r \<in> set (db_session_turns e). st_turn_id r = rq_turn_id rq \<longrightarrow> st_completed_at_ms r = Some now)
    \<and> \<not> lease_live e (session_lease_scope L (rq_session_id rq)) owner token later"
proof -
  obtain ct where gate: "passed_gate L d rq l now ct"
    and dok: "draft_ok (tr_state (ct_turn ct)) (sr_lifecycle (ct_session ct)) (ct_draft ct)"
    and mv: "ledger_move d (dr_db (ct_draft ct))"
    and tables: "committed_tables L d rq l now ct e"
    by (rule commit_new_facts [OF assms(1-4)])
  have keys: "keys_ok d" and lok: "leases_ok d" using assms(1) by (simp_all add: store_ok_def)
  note act = active_turn_after [OF keys gate tables]
  have terminal: "dr_terminal (ct_draft ct)"
  proof (rule ccontr)
    assume nt: "\<not> dr_terminal (ct_draft ct)"
    have s: "find_session e (rq_session_id rq) = Some (moved_session rq now ct (ct_session ct))"
      by (rule find_session_after [OF gate tables])
    have "session_ok e (moved_session rq now ct (ct_session ct))"
      using commit_keeps_store_ok [OF assms(1,2)] find_session_Some [OF s] by (simp add: store_ok_def)
    moreover obtain a' where "active_turn e (rq_session_id rq) = Some a'" "ar_turn_id a' = rq_turn_id rq"
      using act(3) [OF nt] gate_active(1) [OF gate assms(7)] assms(7) by auto
    moreover have "sr_session_id (moved_session rq now ct (ct_session ct)) = rq_session_id rq"
      using find_session_Some [OF s] by simp
    ultimately show False using assms(5,6) agrees_not_idle by (auto simp: session_ok_def)
  qed
  have live: "lease_live d (session_lease_scope L (rq_session_id rq)) (ls_owner l) (ls_fencing_token l) now"
    using gate by (simp add: passed_gate_def)
  have rows: "db_leases e = sql_update (held_row L rq l now) (\<lambda>r. r\<lparr>lr_expires_at_ms := 0\<rparr>) (db_leases d)"
    using tables terminal by (simp add: committed_tables_def)
  have "lr_expires_at_ms r = 0" if "r \<in> set (db_leases e)" "lr_scope r = session_lease_scope L (rq_session_id rq)" for r
  proof -
    have "r \<in> (\<lambda>r. if held_row L rq l now r then r\<lparr>lr_expires_at_ms := 0\<rparr> else r) ` set (db_leases d)"
      using that(1) unfolding rows set_sql_update .
    then obtain r0 where r0: "r0 \<in> set (db_leases d)"
      "r = (if held_row L rq l now r0 then r0\<lparr>lr_expires_at_ms := 0\<rparr> else r0)"
      by (rule imageE)
    obtain h where h: "h \<in> set (db_leases d)" "held_row L rq l now h"
      using live by (auto simp: lease_live_def held_row_def)
    have "lr_scope r0 = session_lease_scope L (rq_session_id rq)"
      using that(2) r0(2) by (simp split: if_splits)
    then have "r0 = h"
      using leases_ok_scope [OF lok r0(1) h(1)] h(2) by (simp add: held_row_def holds_row_def)
    with h(2) r0(2) show ?thesis by simp
  qed
  then have "\<not> lease_live e (session_lease_scope L (rq_session_id rq)) owner token later"
    by (auto simp: lease_live_def holds_row_def)
  with act(2) [OF terminal] tables terminal show ?thesis by (simp add: committed_tables_def)
qed

theorem terminal_commit_releases_witness:
  "\<exists>e. active_turn e 1 = None \<and> \<not> lease_live e (session_lease_scope ex_lib 1) (lit ''w'') 3 10"
proof -
  obtain e resp where c: "commit_session_turn_update ex_lib ex_ids ex_db
      (ex_request (CuComplete (lit ''k'') ex_handoff)) ex_lease 10 = Inr (e, resp)"
    using ex_complete by blast
  have f: "\<not> command_recorded ex_db (ex_request u)" "\<not> source_recorded ex_db (ex_request u)" for u
    by (simp_all add: command_recorded_def source_recorded_def ex_defs)
  have t: "\<exists>t. turn_state_of e 5 = Some t \<and> ts_status t = Completed"
    using c
    by (simp add: ex_defs ex_handoff_def)
      (simp add: commit_eval commit_complete_def complete_with_def completion_card_def
        verification_passed_def redact_handoff_def ex_lib_eval turn_state_of_def, auto)
  then obtain t where t: "turn_state_of e 5 = Some t" "terminal_status (ts_status t)"
    by (auto simp: terminal_status_def)
  have rq: "rq_session_id (ex_request u) = 1" "rq_turn_id (ex_request u) = 5" for u
    by (simp_all add: ex_request_def)
  have a: "active_turn ex_db 1 = Some \<lparr>ar_session_id = 1, ar_turn_id = 5, ar_lease_token = 3\<rparr>"
    by (simp add: active_turn_def ex_db_def)
  show ?thesis
    using terminal_commit_releases [OF ex_db_ok c f, unfolded rq, OF t a] by blast
qed

end
