(* ===== verification/Store_Properties.thy ===== *)
theory Store_Properties
  imports Store_Machine Session_Effects
begin

text \<open>
  Properties of whole runs of the store: any sequence of operations, each committed or
  refused, in any order, by any clients.
\<close>

subsection \<open>The invariant\<close>

text \<open>
  C7 Whatever operations are run on a new database, in whatever order, the store stays
  consistent: keys are unique, every session's lifecycle agrees with the state of its
  active turn and is at rest without one, every turn row agrees with its stored state and
  that state is well formed, transcript and event sequences stay below the session's
  counter, and every row belongs to a session that exists.
\<close>

theorem every_run_keeps_store_ok: "store_ok (run_steps (store_step L) empty_db ops)"
  by (rule store.run_inv [OF store_ok_empty])

text \<open>A session created on the empty store, waiting for a coordinator.\<close>

definition ex_create :: store_op where
  "ex_create = OpCreate ex_ids (Some 2) 1 5 ex_binding (lit ''/w'') (lit ''hi'') [] None 10 None"

lemmas create_eval = create_session_v2_inner_def create_dedup_def command_replay_def session_exists_def
  require_initial_lease_def create_session_writes_def first_state_def insert_child_def
  child_row_def insert_turn_def insert_read_model_def insert_baseline_def insert_session_def
  new_session_row_def insert_session_turn_def insert_active_def user_entry_def when_leased_def
  record_snapshot_def insert_outbox_def outbox_row_of_def insert_dedup_def sql_insert_def
  lease_count_def lease_number_def to_i64_def i64_bound_def find_session_def
  current_session_snapshot_def session_snapshot_def parse_lifecycle_def
  session_turn_summaries_def turn_summary_def session_transcript_tail_def session_outbox_def
  transcript_page_of_def clamp_def SESSION_PROJECTION_TRANSCRIPT_LIMIT_def active_turn_def find_turn_def
  validate_workspace_root_def binding_validate_def binding_fields_def bad_binding_value_def bad_alias_def

lemma ex_create_runs: "\<exists>e. store_step ex_lib empty_db ex_create = Inr e
    \<and> find_session e 1 \<noteq> None \<and> active_turn e 1 \<noteq> None"
  by (simp add: ex_create_def ex_ids_def ex_binding_def empty_db_def create_eval Let_def ex_lib_eval
      trim_def is_white_def)

text \<open>
  C12 What a client reads is what the coordinator wrote: in every reachable store, a
  session without an active turn is at rest, and one with an active turn is linked to it,
  shows the lifecycle of its status, and that turn has not ended.
\<close>

theorem lifecycle_follows_the_active_turn:
  assumes "find_session (run_steps (store_step L) empty_db ops) sid = Some s"
  shows "case active_turn (run_steps (store_step L) empty_db ops) sid of
      None \<Rightarrow> idle_lifecycle (sr_lifecycle s)
    | Some a \<Rightarrow> sr_latest_turn_id s = Some (ar_turn_id a)
        \<and> linked (run_steps (store_step L) empty_db ops) (ar_turn_id a) sid
        \<and> (\<exists>t. turn_state_of (run_steps (store_step L) empty_db ops) (ar_turn_id a) = Some t
            \<and> agrees (sr_lifecycle s) (ts_status t) \<and> \<not> terminal_status (ts_status t))"
proof -
  let ?d = "run_steps (store_step L) empty_db ops"
  have "store_ok ?d" by (rule store.run_inv [OF store_ok_empty])
  then have "session_ok ?d s" "sr_session_id s = sid"
    using find_session_Some [OF assms] by (auto simp: store_ok_def)
  then show ?thesis
    using agrees_not_idle by (auto simp: session_ok_def split: option.splits)
qed

theorem lifecycle_follows_the_active_turn_witness:
  "\<exists>s a. find_session (run_steps (store_step ex_lib) empty_db [ex_create]) 1 = Some s
     \<and> active_turn (run_steps (store_step ex_lib) empty_db [ex_create]) 1 = Some a
     \<and> sr_latest_turn_id s = Some (ar_turn_id a)"
proof -
  obtain e where e: "store_step ex_lib empty_db ex_create = Inr e" "find_session e 1 \<noteq> None" "active_turn e 1 \<noteq> None"
    using ex_create_runs by blast
  then obtain s a where s: "find_session (run_steps (store_step ex_lib) empty_db [ex_create]) 1 = Some s"
    and a: "active_turn (run_steps (store_step ex_lib) empty_db [ex_create]) 1 = Some a"
    by auto
  from lifecycle_follows_the_active_turn [OF s] s a show ?thesis by auto
qed

subsection \<open>What a run cannot undo\<close>

text \<open>
  A completed turn is immutable: no operation, replay, recovery or interruption, of
  this session or another, changes its state again.
\<close>

theorem completed_turns_stay:
  assumes "store_ok d" and "turn_state_of d t = Some s" and "ts_status s = Completed"
  shows "turn_state_of (run_steps (store_step L) d ops) t = Some s"
proof -
  have "turns_le d (run_steps (store_step L) d ops)"
    using store.run_le [OF assms(1)] by (simp add: store_le_def)
  with assms(2,3) show ?thesis by (fastforce simp: turns_le_def turn_le_def)
qed

text \<open>Operations of other clients, among them a recovery at startup and a late interruption.\<close>

definition ex_later :: "store_op list" where
  "ex_later = [OpRecover (\<lambda>_ _. 40) 500, OpRename 1 (lit ''n''),
     OpCommit ex_ids ((ex_request (CuInterrupt (lit ''i'') None))\<lparr>rq_command_id := 12\<rparr>) ex_lease 20]"

lemma ex_completed:
  "\<exists>e resp t. commit_session_turn_update ex_lib ex_ids ex_db
     (ex_request (CuComplete (lit ''k'') ex_handoff)) ex_lease 10 = Inr (e, resp)
     \<and> turn_state_of e 5 = Some t \<and> ts_status t = Completed"
proof -
  obtain e resp where c: "commit_session_turn_update ex_lib ex_ids ex_db
      (ex_request (CuComplete (lit ''k'') ex_handoff)) ex_lease 10 = Inr (e, resp)"
    using ex_complete by blast
  moreover have "\<exists>t. turn_state_of e 5 = Some t \<and> ts_status t = Completed"
    using c
    by (simp add: ex_defs ex_handoff_def)
      (simp add: commit_eval commit_complete_def complete_with_def completion_card_def
        verification_passed_def redact_handoff_def ex_lib_eval turn_state_of_def, auto)
  ultimately show ?thesis by blast
qed

theorem completed_turns_stay_witness:
  "\<exists>e t. turn_state_of (run_steps (store_step ex_lib) e ex_later) 5 = Some t \<and> ts_status t = Completed"
proof -
  obtain e resp t where c: "commit_session_turn_update ex_lib ex_ids ex_db
      (ex_request (CuComplete (lit ''k'') ex_handoff)) ex_lease 10 = Inr (e, resp)"
    and t: "turn_state_of e 5 = Some t" "ts_status t = Completed"
    using ex_completed by blast
  have "store_ok e" using commit_moves [OF ex_db_ok c] by blast
  from completed_turns_stay [OF this t] t show ?thesis by blast
qed

text \<open>
  A session never goes back: it is never removed, and its revision and its sequence
  counter never decrease.
\<close>

theorem sessions_never_go_back:
  assumes "store_ok d" and "find_session d sid = Some s"
  shows "\<exists>x. find_session (run_steps (store_step L) d ops) sid = Some x
    \<and> sr_revision s \<le> sr_revision x \<and> sr_last_seq s \<le> sr_last_seq x"
  using store.run_le [OF assms(1)] assms(2) by (auto simp: store_le_def sessions_le_def)

theorem sessions_never_go_back_witness:
  "\<exists>x. find_session (run_steps (store_step ex_lib) ex_db ex_later) 1 = Some x \<and> 7 \<le> sr_revision x"
proof -
  obtain s where s: "find_session ex_db 1 = Some s" "sr_revision s = 7"
    by (simp add: find_session_def ex_db_def)
  from sessions_never_go_back [OF ex_db_ok s(1)] s(2) show ?thesis by auto
qed

text \<open>
  The event log of the sessions is append-only: what a client has read from it stays,
  at the same place, and new events come after it.
\<close>

theorem session_events_append_only:
  assumes "store_ok d"
  shows "prefix (db_session_events d) (db_session_events (run_steps (store_step L) d ops))"
  using store.run_le [OF assms] by (simp add: store_le_def logs_le_def)

theorem session_events_append_only_witness:
  "prefix (db_session_events ex_db) (db_session_events (run_steps (store_step ex_lib) ex_db ex_later))"
  by (rule session_events_append_only [OF ex_db_ok])

text \<open>
  C11 A client that lost the answer may send its command again at any time: whatever has
  happened to the store since, the recorded response comes back and nothing is written.
\<close>

theorem commit_replays_after_any_run:
  assumes "store_ok d" and "commit_session_turn_update L ids d rq l now = Inr (e, resp)"
    and "ls_scope l' = session_lease_scope L (rq_session_id rq)"
  shows "commit_session_turn_update L ids' (run_steps (store_step L) e ops) rq l' later
    = Inr (run_steps (store_step L) e ops, resp)"
proof -
  have src: "validate_session_source (source_key (rq_update rq)) = Inr ()"
    using assms(2) by (auto simp: commit_session_turn_update_def)
  have "store_ok e" using commit_moves [OF assms(1,2)] by blast
  from store.run_le [OF this] have "prefix (db_dedup e) (db_dedup (run_steps (store_step L) e ops))"
    by (simp add: store_le_def logs_le_def)
  then have "\<exists>r. find (\<lambda>r. dd_command_id r = rq_command_id rq) (db_dedup (run_steps (store_step L) e ops)) = Some r
    \<and> dd_digest r = session_command_digest L rq \<and> dd_result r = DrCommit resp"
    using recorded_after [OF assms(1,2)] by (auto simp: prefix_def find_append)
  then show ?thesis
    using assms(3) src by (auto simp: commit_session_turn_update_def require_lease_scope_def commit_replay_def)
qed

theorem commit_replays_after_any_run_witness:
  "\<exists>e resp. commit_session_turn_update ex_lib ex_ids ex_db
      (ex_request (CuComplete (lit ''k'') ex_handoff)) ex_lease 10 = Inr (e, resp)
    \<and> commit_session_turn_update ex_lib (\<lambda>_. 0) (run_steps (store_step ex_lib) e ex_later)
      (ex_request (CuComplete (lit ''k'') ex_handoff)) ex_lease 5000
      = Inr (run_steps (store_step ex_lib) e ex_later, resp)"
proof -
  obtain e resp where c: "commit_session_turn_update ex_lib ex_ids ex_db
      (ex_request (CuComplete (lit ''k'') ex_handoff)) ex_lease 10 = Inr (e, resp)"
    using ex_complete by blast
  moreover have "ls_scope ex_lease = session_lease_scope ex_lib
      (rq_session_id (ex_request (CuComplete (lit ''k'') ex_handoff)))"
    by (simp add: ex_lease_def ex_request_def)
  from commit_replays_after_any_run [OF ex_db_ok c this]
  have "commit_session_turn_update ex_lib (\<lambda>_. 0) (run_steps (store_step ex_lib) e ex_later)
      (ex_request (CuComplete (lit ''k'') ex_handoff)) ex_lease 5000
      = Inr (run_steps (store_step ex_lib) e ex_later, resp)" .
  ultimately show ?thesis by blast
qed

text \<open>
  Fencing is permanent: a coordinator that has lost its lease never holds it again,
  whatever later acquisitions, renewals and releases happen in its scope.
\<close>

theorem lost_leases_stay_lost:
  assumes "store_ok d" and "lease_lost d l"
  shows "\<not> lease_live (run_steps (store_step L) d ops) (ls_scope l) (ls_owner l) (ls_fencing_token l) now"
proof -
  have "lease_le d (run_steps (store_step L) d ops)"
    using store.run_le [OF assms(1)] by (simp add: store_le_def)
  from lease_lost_not_live [OF lease_lost_persists [OF assms(2) this]] show ?thesis .
qed

theorem lost_leases_stay_lost_witness:
  "\<not> lease_live (run_steps (store_step ex_lib) ex_db
      [OpAcquire (session_lease_scope ex_lib 1) (lit ''w'') None 200 50])
     (session_lease_scope ex_lib 1) (lit ''w'') 2 210"
proof -
  let ?l = "ex_lease\<lparr>ls_fencing_token := 2\<rparr>"
  have "lease_lost ex_db ?l"
    by (simp add: lease_lost_def holds_row_def ex_db_def)
  note lost = lost_leases_stay_lost [OF ex_db_ok this, of ex_lib
      "[OpAcquire (session_lease_scope ex_lib 1) (lit ''w'') None 200 50]" 210]
  have "ls_scope ?l = session_lease_scope ex_lib 1" "ls_owner ?l = lit ''w''" "ls_fencing_token ?l = 2"
    by (simp_all add: ex_lease_def)
  with lost show ?thesis by metis
qed

text \<open>
  C10 An effect of a linked turn starts at most once: after a commit has started it, no
  operations lead to a store in which a new command starts it again.
\<close>

theorem effects_start_once:
  assumes "store_ok d" and "commit_session_turn_update L ids d rq l now = Inr (e, resp)"
    and "\<not> command_recorded d rq" and "\<not> source_recorded d rq"
    and "rq_update rq = CuStartEffect key eid digest checkpoint"
    and "rq_update rq' = CuStartEffect key' eid digest' checkpoint'"
    and "\<not> command_recorded (run_steps (store_step L) e ops) rq'"
    and "\<not> source_recorded (run_steps (store_step L) e ops) rq'"
  shows "\<not> is_ok (commit_session_turn_update L ids' (run_steps (store_step L) e ops) rq' l' later)"
proof
  let ?f = "run_steps (store_step L) e ops"
  assume "is_ok (commit_session_turn_update L ids' ?f rq' l' later)"
  then obtain g resp' where g: "commit_session_turn_update L ids' ?f rq' l' later = Inr (g, resp')"
    by (cases "commit_session_turn_update L ids' ?f rq' l' later") auto
  have e: "store_ok e" using commit_moves [OF assms(1,2)] by blast
  have f: "store_ok ?f" by (rule store.run_inv [OF e])
  have le: "ledger_le e ?f" using store.run_le [OF e] by (simp add: store_le_def)
  obtain r where r: "r \<in> set (db_effects e)" "effect_of eid (rq_turn_id rq) (lit ''started'') r"
    using effect_start_fact [OF assms(1-5)] by blast
  obtain s where s: "s \<in> set (db_effects ?f)" "effect_of eid (rq_turn_id rq') (lit ''prepared'') s"
    using effect_start_fact [OF f g assms(7,8,6)] by blast
  have "effect_le r s"
    using ledger_le_row [OF le _ r(1) s(1)] f r(2) s(2) by (simp add: store_ok_def effect_of_def)
  then show False
    using left_prepared [of "ef_status r" "ef_status s"] r(2) s(2)
    by (simp add: effect_le_def effect_of_def)
qed

theorem effects_start_once_witness:
  "\<exists>e resp. commit_session_turn_update ex_lib ex_ids ex_db_ask (ex_request ex_start) ex_lease 10
     = Inr (e, resp)
   \<and> \<not> is_ok (commit_session_turn_update ex_lib ex_ids (run_steps (store_step ex_lib) e [OpRename 1 (lit ''n'')])
        ((ex_request (CuStartEffect (lit ''z'') ex_effect ex_digest (lit ''c'')))
          \<lparr>rq_command_id := 10\<rparr>) ex_lease 11)"
proof -
  let ?rq = "(ex_request (CuStartEffect (lit ''z'') ex_effect ex_digest (lit ''c'')))\<lparr>rq_command_id := 10\<rparr>"
  obtain e resp where c: "commit_session_turn_update ex_lib ex_ids ex_db_ask (ex_request ex_start)
      ex_lease 10 = Inr (e, resp)"
    using ex_start_commits by blast
  obtain ct where rec: "committed_records ex_lib ex_db_ask (ex_request ex_start) 10 e resp"
    by (rule commit_new_facts [OF ex_db_ask_ok c ex_ask_fresh])
  let ?f = "run_steps (store_step ex_lib) e [OpRename 1 (lit ''n'')]"
  have same: "db_dedup ?f = db_dedup e" "db_sources ?f = db_sources e"
    by (simp_all add: rename_session_def Let_def split: sum.split)
  have fresh: "\<not> command_recorded ?f ?rq" "\<not> source_recorded ?f ?rq"
    using rec unfolding command_recorded_def source_recorded_def same
    by (simp_all add: committed_records_def ex_db_ask_def ex_db_def empty_db_def ex_request_def ex_start_def)
  have "rq_update (ex_request ex_start) = CuStartEffect (lit ''s'') ex_effect ex_digest (lit ''c'')"
    "rq_update ?rq = CuStartEffect (lit ''z'') ex_effect ex_digest (lit ''c'')"
    by (simp_all add: ex_request_def ex_start_def)
  from effects_start_once [OF ex_db_ask_ok c ex_ask_fresh this fresh] c
  show ?thesis by blast
qed

text \<open>
  What has been observed about an effect is final: whatever is run afterwards, its row
  stays and keeps its status, and every other effect moves only forward along the
  ledger's edges.
\<close>

theorem observed_effects_are_final:
  assumes "store_ok d" and "r \<in> set (db_effects d)"
  shows "\<exists>s \<in> set (db_effects (run_steps (store_step L) d ops)).
    ef_effect_id s = ef_effect_id r \<and> ef_turn_id s = ef_turn_id r
    \<and> effect_edge\<^sup>*\<^sup>* (ef_status r) (ef_status s)
    \<and> (ef_status r \<in> {lit ''observed_success'', lit ''observed_failed''} \<longrightarrow> ef_status s = ef_status r)"
proof -
  let ?e = "run_steps (store_step L) d ops"
  have le: "ledger_le d ?e" using store.run_le [OF assms(1)] by (simp add: store_le_def)
  obtain i where i: "i < length (db_effects d)" "db_effects d ! i = r"
    using assms(2) by (auto simp: in_set_conv_nth)
  with le have "db_effects ?e ! i \<in> set (db_effects ?e)" and le: "effect_le r (db_effects ?e ! i)"
    by (auto simp: ledger_le_def)
  with effect_final show ?thesis unfolding effect_le_def by blast
qed

theorem observed_effects_are_final_witness:
  "\<exists>s \<in> set (db_effects (run_steps (store_step ex_lib) ex_db_ask
     [OpCommit ex_ids (ex_request ex_start) ex_lease 10, OpRecover (\<lambda>_ _. 40) 500])).
     ef_effect_id s = ex_effect \<and> effect_edge\<^sup>*\<^sup>* (lit ''prepared'') (ef_status s)"
proof -
  have "prepared_row ex_effect 5 0 1 (lit ''d'') ex_digest (policy_marker PolicyAsk)
      \<in> set (db_effects ex_db_ask)"
    by (simp add: ex_db_ask_def)
  from observed_effects_are_final [OF ex_db_ask_ok this, of ex_lib
      "[OpCommit ex_ids (ex_request ex_start) ex_lease 10, OpRecover (\<lambda>_ _. 40) 500]"] show ?thesis
    by (simp add: prepared_row_def) blast
qed

end
