(* ===== verification/Harness_Profile.thy ===== *)
theory Harness_Profile
  imports Rust_Text
begin

text \<open>
  The per-model harness profile of \<open>latte-core/src/profile.rs\<close>: request budgets, the
  compaction knobs and their validation, the read-only usage projection with its
  proactive trigger, and prompt slot rendering. \<open>usize\<close> has 64 bits; a division by
  zero or an overflowing product panics, which is \<open>None\<close>.
\<close>

record profile_version =
  pv_major :: nat
  pv_minor :: nat

definition V1_0 :: profile_version where "V1_0 = \<lparr>pv_major = 1, pv_minor = 0\<rparr>"

datatype compaction_strategy = CsOff | SummarizeOnDiscard | ElideToolResultsThenSummarize

record compaction_policy =
  cp_strategy :: compaction_strategy
  cp_trigger_ratio :: nat
  cp_retain_ratio :: nat
  cp_summary_prompt_id :: rstr
  cp_max_summary_source_bytes :: nat

definition AGENT_SUMMARIZE_PROMPT_SLOT :: rstr where
  "AGENT_SUMMARIZE_PROMPT_SLOT = lit ''agent.summarize''"

definition compaction_policy_default :: compaction_policy where
  "compaction_policy_default = \<lparr>cp_strategy = CsOff, cp_trigger_ratio = 90, cp_retain_ratio = 20,
     cp_summary_prompt_id = AGENT_SUMMARIZE_PROMPT_SLOT,
     cp_max_summary_source_bytes = 32 * 1024\<rparr>"

record token_estimate_params = te_bytes_per_token :: nat

definition div_ceil :: "nat \<Rightarrow> nat \<Rightarrow> nat" where
  "div_ceil a b = (if a mod b > 0 then a div b + 1 else a div b)"

definition estimate_tokens :: "token_estimate_params \<Rightarrow> nat \<Rightarrow> nat option" where
  "estimate_tokens p bytes =
     (if te_bytes_per_token p = 0 then None else Some (div_ceil bytes (te_bytes_per_token p)))"

record context_usage =
  cu_request_budget_bytes :: nat
  cu_used_bytes :: nat
  cu_remaining_bytes :: nat
  cu_context_cap_bytes :: nat
  cu_estimated_used_tokens :: nat
  cu_estimated_budget_tokens :: nat
  cu_estimated_remaining_tokens :: nat
  cu_discarded_segments :: nat
  cu_compaction_strategy :: compaction_strategy
  cu_trigger_ratio :: nat
  cu_proactive_compaction_due :: bool

record context_policy =
  ctx_max_request_bytes :: nat
  ctx_max_input_bytes :: nat
  ctx_reserved_output_bytes :: nat
  ctx_context_cap_bytes :: nat
  ctx_max_tool_rounds :: "nat option"
  ctx_provider_timeout_ms :: nat
  ctx_compaction :: compaction_policy
  ctx_token_estimate :: token_estimate_params

definition context_policy_default :: context_policy where
  "context_policy_default = \<lparr>ctx_max_request_bytes = 512 * 1024,
     ctx_max_input_bytes = 384 * 1024, ctx_reserved_output_bytes = 128 * 1024,
     ctx_context_cap_bytes = 64 * 1024, ctx_max_tool_rounds = None,
     ctx_provider_timeout_ms = 60000, ctx_compaction = compaction_policy_default,
     ctx_token_estimate = \<lparr>te_bytes_per_token = 4\<rparr>\<rparr>"

definition compaction_error :: "compaction_policy \<Rightarrow> rstr option" where
  "compaction_error c =
     (if cp_strategy c = CsOff then None
      else if cp_trigger_ratio c = 0 \<or> cp_trigger_ratio c > 100
        then Some (lit ''compaction trigger_ratio must be in 1..=100 when enabled'')
      else if cp_retain_ratio c = 0 \<or> cp_retain_ratio c > 80
        then Some (lit ''compaction retain_ratio must be in 1..=80 when enabled'')
      else if cp_max_summary_source_bytes c = 0
        then Some (lit ''compaction max_summary_source_bytes must be nonzero'')
      else if trim (cp_summary_prompt_id c) = []
        then Some (lit ''compaction summary_prompt_id must not be empty'')
      else None)"

definition context_policy_validate :: "context_policy \<Rightarrow> rstr + unit" where
  "context_policy_validate p =
     (if ctx_max_request_bytes p = 0 \<or> ctx_max_input_bytes p = 0
         \<or> ctx_reserved_output_bytes p \<ge> ctx_max_input_bytes p \<or> ctx_context_cap_bytes p = 0
      then Inl (lit (''max_request_bytes/context cap must be nonzero '' @
             ''and reserved output must be smaller than input budget''))
      else if ctx_provider_timeout_ms p = 0
        then Inl (lit ''provider_timeout_ms must be nonzero'')
      else if ctx_max_tool_rounds p = Some 0
        then Inl (lit ''max_tool_rounds must be at least 1 when set'')
      else if te_bytes_per_token (ctx_token_estimate p) = 0
        then Inl (lit ''bytes_per_token must be nonzero'')
      else case compaction_error (ctx_compaction p) of
             Some e \<Rightarrow> Inl e | None \<Rightarrow> Inr ())"

definition request_budget_bytes :: "context_policy \<Rightarrow> nat" where
  "request_budget_bytes p =
     min (ctx_max_request_bytes p)
       (saturating_sub (ctx_max_input_bytes p) (ctx_reserved_output_bytes p))"

definition checked_mul_usize :: "nat \<Rightarrow> nat \<Rightarrow> nat option" where
  "checked_mul_usize a b = (if a * b < u64_bound then Some (a * b) else None)"

definition proactive_due :: "context_policy \<Rightarrow> nat \<Rightarrow> nat \<Rightarrow> bool option" where
  "proactive_due p used_tokens budget_tokens =
     (if cp_strategy (ctx_compaction p) = CsOff \<or> cp_trigger_ratio (ctx_compaction p) = 0
      then Some False
      else case (checked_mul_usize used_tokens 100,
                 checked_mul_usize budget_tokens (cp_trigger_ratio (ctx_compaction p))) of
             (Some u, Some b) \<Rightarrow> Some (b \<le> u)
           | _ \<Rightarrow> None)"

definition policy_usage :: "context_policy \<Rightarrow> nat \<Rightarrow> nat \<Rightarrow> context_usage option" where
  "policy_usage p used_bytes discarded =
     (let budget = request_budget_bytes p;
          remaining = saturating_sub budget used_bytes;
          est = estimate_tokens (ctx_token_estimate p)
      in case (est used_bytes, est budget, est remaining) of
           (Some eu, Some eb, Some er) \<Rightarrow>
             (case proactive_due p eu eb of
                None \<Rightarrow> None
              | Some due \<Rightarrow> Some
                  \<lparr>cu_request_budget_bytes = budget, cu_used_bytes = used_bytes,
                   cu_remaining_bytes = remaining,
                   cu_context_cap_bytes = ctx_context_cap_bytes p,
                   cu_estimated_used_tokens = eu, cu_estimated_budget_tokens = eb,
                   cu_estimated_remaining_tokens = er, cu_discarded_segments = discarded,
                   cu_compaction_strategy = cp_strategy (ctx_compaction p),
                   cu_trigger_ratio = cp_trigger_ratio (ctx_compaction p),
                   cu_proactive_compaction_due = due\<rparr>)
         | _ \<Rightarrow> None)"

subsection \<open>Prompt slots\<close>

definition repository_slot :: rstr where "repository_slot = lit ''{repository_context}''"

lemma repository_slot_nonempty: "repository_slot \<noteq> []"
  by (simp add: repository_slot_def lit_def)

lemma length_repository_slot: "0 < length repository_slot"
  using repository_slot_nonempty by simp

text \<open>\<open>template.replace("{repository_context}", repository_context)\<close>, left to right.\<close>

function replace_slot :: "rstr \<Rightarrow> rstr \<Rightarrow> rstr" where
  "replace_slot ctx [] = []"
| "replace_slot ctx (c # cs) =
     (if take (length repository_slot) (c # cs) = repository_slot
      then ctx @ replace_slot ctx (drop (length repository_slot) (c # cs))
      else c # replace_slot ctx cs)"
  by pat_completeness auto
termination
  by (relation "measure (\<lambda>(ctx, cs). length cs)") (auto simp: repository_slot_nonempty)

type_synonym system_prompt_spec = "(rstr \<times> rstr) list"

definition prompt_render :: "system_prompt_spec \<Rightarrow> rstr \<Rightarrow> rstr \<Rightarrow> rstr option" where
  "prompt_render slots slot ctx = map_option (replace_slot ctx) (map_of slots slot)"

record harness_profile =
  hp_profile_id :: rstr
  hp_version :: profile_version
  hp_context :: context_policy
  hp_prompts :: system_prompt_spec

definition harness_profile_validate :: "harness_profile \<Rightarrow> rstr + unit" where
  "harness_profile_validate h =
     (if trim (hp_profile_id h) = [] \<or> utf8_len (hp_profile_id h) > 128
      then Inl (lit ''profile_id must be 1..=128 non-whitespace characters'')
      else context_policy_validate (hp_context h))"

subsection \<open>Budgets and estimates\<close>

lemma div_ceil_bounds:
  assumes "0 < b"
  shows "a \<le> div_ceil a b * b" and "div_ceil a b * b < a + b"
proof -
  have split: "a = a div b * b + a mod b" by simp
  have less: "a mod b < b" using assms by simp
  have "a \<le> div_ceil a b * b \<and> div_ceil a b * b < a + b"
  proof (cases "0 < a mod b")
    case True
    then have "div_ceil a b * b = a div b * b + b" by (simp add: div_ceil_def)
    with split less True show ?thesis by linarith
  next
    case False
    then have "div_ceil a b * b = a div b * b" by (simp add: div_ceil_def)
    with split False assms show ?thesis by linarith
  qed
  then show "a \<le> div_ceil a b * b" and "div_ceil a b * b < a + b" by simp_all
qed

lemma div_ceil_mono:
  assumes "0 < b" and "a \<le> a'"
  shows "div_ceil a b \<le> div_ceil a' b"
proof -
  have "(div_ceil a b) * b < a + b" and "a' \<le> div_ceil a' b * b"
    using assms(1) by (rule div_ceil_bounds)+
  with assms(2) have "div_ceil a b * b < (div_ceil a' b + 1) * b"
    unfolding distrib_right by linarith
  then have "div_ceil a b < div_ceil a' b + 1" by (simp only: mult_less_cancel2)
  then show ?thesis by simp
qed

lemma div_ceil_le:
  assumes "0 < b"
  shows "div_ceil a b \<le> a"
proof (cases "a mod b = 0")
  case False
  then have "0 < a" by (cases a) auto
  moreover from False have "b \<noteq> 1" by auto
  ultimately have "a div b < a" using assms by (intro div_less_dividend) auto
  then show ?thesis by (simp add: div_ceil_def)
qed (simp add: div_ceil_def)

lemma context_policy_validate_Inr:
  "context_policy_validate p = Inr () \<longleftrightarrow>
     0 < ctx_max_request_bytes p \<and> ctx_reserved_output_bytes p < ctx_max_input_bytes p
     \<and> 0 < ctx_context_cap_bytes p \<and> 0 < ctx_provider_timeout_ms p
     \<and> ctx_max_tool_rounds p \<noteq> Some 0 \<and> 0 < te_bytes_per_token (ctx_token_estimate p)
     \<and> compaction_error (ctx_compaction p) = None"
  by (auto simp: context_policy_validate_def not_le split: option.splits)

lemma request_budget_pos: "context_policy_validate p = Inr () \<Longrightarrow> 0 < request_budget_bytes p"
  by (auto simp: context_policy_validate_Inr request_budget_bytes_def saturating_sub_def)

lemma proactive_due_Some:
  assumes "cp_trigger_ratio (ctx_compaction p) \<le> 255"
    and "u * 100 < u64_bound" and "b * 255 < u64_bound"
  shows "proactive_due p u b = Some
     (cp_strategy (ctx_compaction p) \<noteq> CsOff \<and> 0 < cp_trigger_ratio (ctx_compaction p)
      \<and> b * cp_trigger_ratio (ctx_compaction p) \<le> u * 100)"
proof -
  have "b * cp_trigger_ratio (ctx_compaction p) \<le> b * 255"
    using assms(1) by (rule mult_le_mono2)
  with assms(3) have "b * cp_trigger_ratio (ctx_compaction p) < u64_bound" by linarith
  with assms(2) show ?thesis by (simp add: proactive_due_def checked_mul_usize_def)
qed

lemma policy_usage_total:
  assumes "context_policy_validate p = Inr ()"
    and "cp_trigger_ratio (ctx_compaction p) \<le> 255"
    and "used * 100 < u64_bound" and "request_budget_bytes p * 255 < u64_bound"
  shows "\<exists>u. policy_usage p used d = Some u
    \<and> cu_used_bytes u = used \<and> cu_request_budget_bytes u = request_budget_bytes p
    \<and> cu_remaining_bytes u = request_budget_bytes p - used
    \<and> cu_discarded_segments u = d
    \<and> (cu_proactive_compaction_due u \<longleftrightarrow>
         cp_strategy (ctx_compaction p) \<noteq> CsOff \<and> 0 < cp_trigger_ratio (ctx_compaction p)
         \<and> div_ceil (request_budget_bytes p) (te_bytes_per_token (ctx_token_estimate p))
             * cp_trigger_ratio (ctx_compaction p)
           \<le> div_ceil used (te_bytes_per_token (ctx_token_estimate p)) * 100)"
proof -
  let ?b = "te_bytes_per_token (ctx_token_estimate p)"
  have b: "0 < ?b" using assms(1) by (simp add: context_policy_validate_Inr)
  have "div_ceil used ?b * 100 < u64_bound"
    using div_ceil_le [OF b, of used] assms(3) by linarith
  moreover have "div_ceil (request_budget_bytes p) ?b * 255 < u64_bound"
    using div_ceil_le [OF b, of "request_budget_bytes p"] assms(4) by linarith
  ultimately show ?thesis
    using b assms(2)
    by (simp add: policy_usage_def Let_def estimate_tokens_def proactive_due_Some
        saturating_sub_def)
qed

lemma replace_slot_plain: "\<not> contains repository_slot s \<Longrightarrow> replace_slot ctx s = s"
  by (induction s) auto

end
