(* ===== verification/Core_Properties.thy ===== *)
theory Core_Properties
  imports Turn_State Harness_Profile
begin

text \<open>
  Properties of the core crate: the turn state machine, the redactor, session titles and
  the context budget of a harness profile.
\<close>

subsection \<open>Turns\<close>

text \<open>
  C8 A transition is a compare-and-swap along the legal edges: it is accepted only at the
  revision the caller expects, never on a completed turn, advances the revision by exactly
  one, keeps the turn's identity, and moves the status along an edge of the status graph.
\<close>

theorem transitions_are_cas_on_edges:
  assumes "turn_transition s n tr = Inr t"
  shows "ts_revision s = n \<and> ts_revision t = n + 1 \<and> ts_turn_id t = ts_turn_id s
    \<and> ts_status s \<noteq> Completed \<and> status_edge (ts_status s) (ts_status t)"
proof -
  have "turn_step s tr = Inr t"
    using assms turn_transition_revision [OF assms] by (simp add: turn_step_def)
  from turn_step_edge [OF this] turn_transition_revision [OF assms] assms
  show ?thesis by (simp add: turn_transition_Inr)
qed

theorem transitions_are_cas_on_edges_witness:
  "status_edge (ts_status (turn_queued 5)) Running"
proof -
  have "turn_transition (turn_queued 5) 0 Start
    = Inr ((turn_queued 5)\<lparr>ts_revision := 1, ts_status := Running\<rparr>)"
    by (simp add: turn_transition_def turn_queued_def checked_add_def u64_bound_def apply_arm_def)
  from transitions_are_cas_on_edges [OF this] show ?thesis by simp
qed

text \<open>
  Whatever transitions are attempted on a new turn, in whatever order, its state stays
  well formed: a permission request is stored exactly while it is awaited, an input
  request exactly while it is awaited, a failure exactly while failed, a handoff exactly
  once completed, and the revision stays a \<open>u64\<close>.
\<close>

theorem every_turn_stays_well_formed:
  "turn_wf (run_steps turn_step (turn_queued t) trs)
    \<and> ts_turn_id (run_steps turn_step (turn_queued t) trs) = t"
proof -
  have "turn_le (turn_queued t) (run_steps turn_step (turn_queued t) trs)"
    by (rule turn_machine.run_le [OF turn_queued_wf])
  with turn_machine.run_inv [OF turn_queued_wf] show ?thesis
    by (simp add: turn_le_def turn_queued_def)
qed

text \<open>
  A turn completes in one way only: from running, by \<open>Complete\<close>, and under
  \<open>VerificationRequired\<close> only with at least one piece of evidence, all of it passed.
\<close>

theorem completion_needs_passed_evidence:
  assumes "turn_transition s n tr = Inr t" and "ts_status t = Completed"
  shows "\<exists>h policy. tr = Complete h policy \<and> ts_status s = Running \<and> ts_handoff t = Some h
    \<and> (policy = VerificationRequired \<longrightarrow>
        ho_evidence h \<noteq> [] \<and> (\<forall>e \<in> set (ho_evidence h). ev_status e = Passed))"
proof -
  obtain h policy where "tr = Complete h policy" "ts_status s = Running" "ts_handoff t = Some h"
    "verification_passed policy h"
    using completes_only_verified [OF assms] by blast
  then show ?thesis by (auto simp: verification_passed_def list_all_iff)
qed

definition ex_passed :: handoff where
  "ex_passed = \<lparr>ho_summary = lit ''ok'', ho_files_changed = [],
     ho_evidence = [\<lparr>ev_name = lit ''t'', ev_status = Passed, ev_summary = lit ''ok''\<rparr>]\<rparr>"

theorem completion_needs_passed_evidence_witness:
  "\<exists>s t h policy. turn_transition s 1 (Complete ex_passed VerificationRequired) = Inr t
     \<and> Complete ex_passed VerificationRequired = Complete h policy \<and> ho_evidence h \<noteq> []"
proof -
  let ?s = "(turn_queued 5)\<lparr>ts_revision := 1, ts_status := Running\<rparr>"
  let ?t = "(turn_queued 5)\<lparr>ts_revision := 2, ts_status := Completed, ts_handoff := Some ex_passed\<rparr>"
  have c: "turn_transition ?s 1 (Complete ex_passed VerificationRequired) = Inr ?t"
    by (simp add: turn_transition_def turn_queued_def checked_add_def u64_bound_def apply_arm_def
        verification_passed_def ex_passed_def)
  from completion_needs_passed_evidence [OF c] c show ?thesis by fastforce
qed

text \<open>
  No turn gets stuck: unless it is completed, failed for good, or out of revisions,
  some transition is accepted.
\<close>

theorem open_turns_can_move:
  assumes "turn_wf s" and "ts_revision s + 1 < u64_bound" and "ts_status s \<noteq> Completed"
    and "ts_status s = Failed \<longrightarrow> may_resume s"
  shows "\<exists>tr t. turn_transition s (ts_revision s) tr = Inr t"
  using turn_progress [OF assms] by (simp add: turn_step_def)

theorem open_turns_can_move_witness: "\<exists>tr t. turn_transition (turn_queued 5) 0 tr = Inr t"
  using open_turns_can_move [OF turn_queued_wf, of 5]
  by (simp add: turn_queued_def u64_bound_def)

subsection \<open>Text\<close>


text \<open>
  Structured data is redacted everywhere: every string of a redacted value, object
  keys included, went through the text redactor or is the redaction mark, and the value
  under a secret key is replaced as a whole.
\<close>

theorem redaction_reaches_every_string:
  assumes "redact_session_value scrub (JObj kvs) = JObj m" and "(k', v') \<in> set m"
  shows "json_strings (JObj m) \<subseteq> insert (lit ''[REDACTED]'') (range (redact_session_text scrub))
    \<and> (\<exists>k v. (k, v) \<in> set kvs \<and> k' = redact_session_text scrub k
        \<and> (secret_key k \<longrightarrow> v' = JStr (lit ''[REDACTED]'')))"
proof -
  have "json_strings (JObj m) \<subseteq> insert (lit ''[REDACTED]'') (range (redact_session_text scrub))"
    using redact_session_value_strings [of scrub "JObj kvs"] assms(1) by metis
  moreover obtain k v where "(k, v) \<in> set kvs" "k' = redact_session_text scrub k"
    "v' = (if secret_key k then JStr (lit ''[REDACTED]'') else redact_session_value scrub v)"
    using redact_session_value_member [OF assms] by blast
  ultimately show ?thesis by auto
qed

theorem redaction_reaches_every_string_witness:
  "\<exists>m v. redact_session_value id (JObj [(lit ''x_token'', JInt 1)]) = JObj [(m, v)]
     \<and> v = JStr (lit ''[REDACTED]'')"
proof -
  let ?k = "lit ''x_token''"
  have key: "secret_key ?k"
    by (simp add: secret_key_def secret_needles_def lit_def to_ascii_lowercase_def)
  then have r: "redact_session_value id (JObj [(?k, JInt 1)])
      = JObj [(redact_session_text id ?k, JStr (lit ''[REDACTED]''))]"
    by (simp add: json_obj_def)
  from redaction_reaches_every_string [OF r, of "redact_session_text id ?k"] key r
  show ?thesis by auto
qed

text \<open>
  Redaction is a fixed point on text below the cap, but not at the cap: a text cut
  just before a four-byte character has room for the marker's ellipsis, so a second pass
  appends a second marker.
\<close>

theorem redaction_not_a_fixed_point_at_the_cap:
  "(\<forall>s. utf8_len (redact_scan [] s) \<le> SESSION_TEXT_CAP_BYTES \<longrightarrow>
      redact_scan [] (redact_scan [] s) = redact_scan [] s)
   \<and> (\<exists>s. redact_scan [] (redact_scan [] s) \<noteq> redact_scan [] s)"
proof (intro conjI allI impI)
  show "redact_scan [] (redact_scan [] s) = redact_scan [] s"
    if "utf8_len (redact_scan [] s) \<le> SESSION_TEXT_CAP_BYTES" for s
    using redact_scan_clean that redact_scan_safe [of "[]" s] by simp
  let ?as = "replicate (SESSION_TEXT_CAP_BYTES - 3) (97::nat)"
  have as: "list_all display_char ?as" "utf8_len ?as = SESSION_TEXT_CAP_BYTES - 3"
    by (simp_all add: list_all_iff display_char_def is_control_def utf8_len_def len_utf8_def sum_list_replicate)
  have cap: "3 \<le> SESSION_TEXT_CAP_BYTES" by (simp add: SESSION_TEXT_CAP_BYTES_def)
  have once: "redact_scan [] (?as @ [128512]) = ?as @ truncation_marker"
  proof -
    have "redact_scan [] (?as @ [128512]) = redact_scan ?as [128512]"
      using redact_scan_plain [of ?as "[]" "[128512]"] as by simp
    also have "\<dots> = ?as @ truncation_marker"
      by (rule redact_scan_cut) (use as cap in \<open>simp_all add: display_char_def is_control_def len_utf8_def\<close>)
    finally show ?thesis .
  qed
  have twice: "redact_scan [] (?as @ truncation_marker) = ?as @ [8230] @ truncation_marker"
  proof -
    have "redact_scan [] ((?as @ [8230]) @ lit ''[truncated]'') = redact_scan (?as @ [8230]) (lit ''[truncated]'')"
      using redact_scan_plain [of "?as @ [8230]" "[]" "lit ''[truncated]''"] as cap
      by (simp add: display_char_def is_control_def len_utf8_def)
    also have "\<dots> = (?as @ [8230]) @ truncation_marker"
      unfolding lit_def list.map
      by (rule redact_scan_cut) (use as cap in \<open>simp_all add: display_char_def is_control_def len_utf8_def\<close>)
    finally show ?thesis by (simp add: truncation_marker_def)
  qed
  show "\<exists>s. redact_scan [] (redact_scan [] s) \<noteq> redact_scan [] s"
    by (rule exI [of _ "?as @ [128512]"]) (unfold once twice, simp add: truncation_marker_def)
qed

theorem redaction_not_a_fixed_point_at_the_cap_witness:
  "redact_scan [] (redact_scan [] (lit ''ok'')) = redact_scan [] (lit ''ok'')"
  using redaction_not_a_fixed_point_at_the_cap
  by (auto simp: lit_def is_control_def len_utf8_def SESSION_TEXT_CAP_BYTES_def)

text \<open>
  A session title is one printable line: never empty, without any control character,
  and at most the limit and the ellipsis long.
\<close>

theorem titles_are_printable_lines:
  "session_title scrub p \<noteq> [] \<and> list_all (\<lambda>c. \<not> is_control c) (session_title scrub p)
    \<and> utf8_len (session_title scrub p) \<le> 123"
  using session_title_printable [of scrub p] by (simp add: SESSION_TITLE_LIMIT_def)

subsection \<open>Budgets\<close>

text \<open>
  A valid context policy always has room: its request budget is positive, and the
  usage report of a request is exact, with compaction due exactly when the estimated use
  reaches the trigger ratio of the budget.
\<close>

theorem usage_reports_are_exact:
  assumes "context_policy_validate p = Inr ()"
    and "cp_trigger_ratio (ctx_compaction p) \<le> 255"
    and "used * 100 < u64_bound" and "request_budget_bytes p * 255 < u64_bound"
  shows "0 < request_budget_bytes p \<and> (\<exists>u. policy_usage p used d = Some u
    \<and> cu_used_bytes u = used \<and> cu_request_budget_bytes u = request_budget_bytes p
    \<and> cu_remaining_bytes u = request_budget_bytes p - used
    \<and> (cu_proactive_compaction_due u \<longleftrightarrow>
         cp_strategy (ctx_compaction p) \<noteq> CsOff \<and> 0 < cp_trigger_ratio (ctx_compaction p)
         \<and> div_ceil (request_budget_bytes p) (te_bytes_per_token (ctx_token_estimate p))
             * cp_trigger_ratio (ctx_compaction p)
           \<le> div_ceil used (te_bytes_per_token (ctx_token_estimate p)) * 100))"
  using request_budget_pos [OF assms(1)] policy_usage_total [OF assms, of d] by auto

theorem usage_reports_are_exact_witness:
  "\<exists>u. policy_usage context_policy_default 1000 0 = Some u \<and> cu_remaining_bytes u = 261144"
proof -
  have p: "context_policy_validate context_policy_default = Inr ()"
    by (simp add: context_policy_validate_def context_policy_default_def compaction_policy_default_def
        compaction_error_def trim_def is_white_def lit_def)
  have "request_budget_bytes context_policy_default = 262144"
    by (simp add: request_budget_bytes_def context_policy_default_def saturating_sub_def)
  moreover have "cp_trigger_ratio (ctx_compaction context_policy_default) \<le> 255"
    by (simp add: context_policy_default_def compaction_policy_default_def)
  ultimately show ?thesis
    using usage_reports_are_exact [OF p, of 1000 0] by (auto simp: u64_bound_def)
qed

end
