(* ===== verification/Service_Properties.thy ===== *)
theory Service_Properties
  imports Store_Properties
begin

text \<open>
  What the store promises its clients: exclusive and fenced coordinators, recovery that
  leaves nothing running, replies that survive a retry, follow-ups only from a session at
  rest, and a transcript read that agrees with the engine's own window.
\<close>

subsection \<open>Coordinators\<close>

text \<open>
  At most one coordinator: while an acquired lease has not expired, any other owner
  that asks for the scope is refused as unavailable, and nothing is written.
\<close>

theorem one_coordinator_per_scope:
  assumes "store_ok d" and "acquire_scoped_lease d scope owner turn now ttl = Inr (e, l)"
    and "other \<noteq> owner" and "later < now + ttl"
  shows "acquire_scoped_lease e scope other turn later ttl' = Inl EngineUnavailable"
  by (rule scoped_leases.second_owner_refused [OF _ assms(2-4)]) (use assms(1) in \<open>simp add: store_ok_def\<close>)

text \<open>Session 1's lease, expired at 100, taken over by another coordinator.\<close>

definition ex_takeover :: "storage_error + db \<times> lease" where
  "ex_takeover = acquire_scoped_lease ex_db (session_lease_scope ex_lib 1) (lit ''v'') None 150 50"

lemma ex_takeover_runs: "\<exists>e l. ex_takeover = Inr (e, l) \<and> ls_fencing_token l = 4"
  by (simp add: ex_takeover_def ex_db_def empty_db_def acquire_scoped_lease_def lease_token_for_def
      lease_upsert_def bind_turns_to_lease_def session_lease_scope_def Let_def to_i64_def i64_bound_def
      u64_bound_def checked_add_def lit_def)

theorem one_coordinator_per_scope_witness:
  "\<exists>e l. ex_takeover = Inr (e, l)
     \<and> acquire_scoped_lease e (session_lease_scope ex_lib 1) (lit ''w'') None 199 50 = Inl EngineUnavailable"
proof -
  obtain e l where t: "ex_takeover = Inr (e, l)" using ex_takeover_runs by blast
  moreover have "acquire_scoped_lease e (session_lease_scope ex_lib 1) (lit ''w'') None 199 50 = Inl EngineUnavailable"
    by (rule one_coordinator_per_scope [OF ex_db_ok t [unfolded ex_takeover_def]]) (simp_all add: lit_def)
  ultimately show ?thesis by blast
qed

text \<open>
  Takeover fences: once another owner has acquired the scope, the previous holder can
  no longer commit anything new, at any later time and whatever else happens to the store.
\<close>

lemma takeover_loses:
  assumes "leases_ok d" and "acquire_scoped_lease d (ls_scope old) owner turn now ttl = Inr (e, l)"
    and "owner \<noteq> ls_owner old" and "ls_fencing_token old \<le> db_lease_epoch d"
  shows "lease_lost e old"
proof -
  obtain d1 rows ts where
    tok: "lease_token_for d (ls_scope old) owner now = Inr (d1, ls_fencing_token l)"
    and up: "lease_upsert (ls_scope old) owner (ls_fencing_token l) (now + ttl) (db_leases d1) = Inr rows"
    and e: "e = d1\<lparr>db_leases := rows, db_turns := ts\<rparr>"
    using assms(2) by (rule acquire_scoped_lease_Inr)
  have same: "db_leases d1 = db_leases d" "db_lease_epoch d \<le> db_lease_epoch d1"
    using lease_token_for_Inr [OF tok] by auto
  then have "distinct (map lr_scope (db_leases d1))" "distinct (map lr_owner (db_leases d1))"
    using assms(1) by (simp_all add: leases_ok_def)
  note rows = lease_upsert_Inr(3) [OF up this]
  with same(2) assms(3,4) show ?thesis by (auto simp: lease_lost_def holds_row_def e)
qed

theorem takeover_fences_commits:
  assumes "store_ok d" and "acquire_scoped_lease d (ls_scope old) owner turn now ttl = Inr (e, l)"
    and "owner \<noteq> ls_owner old" and "ls_fencing_token old \<le> db_lease_epoch d"
    and "\<not> command_recorded (run_steps (store_step L) e ops) rq"
    and "\<not> source_recorded (run_steps (store_step L) e ops) rq"
  shows "\<not> is_ok (commit_session_turn_update L ids (run_steps (store_step L) e ops) rq old later)"
proof
  let ?f = "run_steps (store_step L) e ops"
  assume "is_ok (commit_session_turn_update L ids ?f rq old later)"
  then obtain g resp where g: "commit_session_turn_update L ids ?f rq old later = Inr (g, resp)"
    by (cases "commit_session_turn_update L ids ?f rq old later") auto
  have e: "store_ok e" using acquire_moves [OF assms(1,2)] by blast
  have f: "store_ok ?f" by (rule store.run_inv [OF e])
  have "lease_le e ?f" using store.run_le [OF e] by (simp add: store_le_def)
  moreover have "lease_lost e old"
    using takeover_loses [OF _ assms(2-4)] assms(1) by (simp add: store_ok_def)
  ultimately have "lease_lost ?f old" by (rule lease_lost_persists [rotated])
  moreover obtain ct where "passed_gate L ?f rq old later ct"
    by (rule commit_new_facts [OF f g assms(5,6)])
  then have "lease_live ?f (session_lease_scope L (rq_session_id rq)) (ls_owner old) (ls_fencing_token old) later"
    by (simp add: passed_gate_def)
  moreover have "ls_scope old = session_lease_scope L (rq_session_id rq)"
    using g by (auto simp: commit_session_turn_update_def require_lease_scope_def split: if_splits)
  ultimately show False using lease_lost_not_live by metis
qed

theorem takeover_fences_commits_witness:
  "\<exists>e l. ex_takeover = Inr (e, l)
     \<and> \<not> is_ok (commit_session_turn_update ex_lib ex_ids (run_steps (store_step ex_lib) e [])
          (ex_request (CuComplete (lit ''k'') ex_handoff)) ex_lease 160)"
proof -
  obtain e l where t: "ex_takeover = Inr (e, l)" using ex_takeover_runs by blast
  then have same: "db_dedup e = db_dedup ex_db" "db_sources e = db_sources ex_db"
    by (auto simp: ex_takeover_def elim!: acquire_scoped_lease_Inr dest!: lease_token_for_Inr)
  have "\<not> is_ok (commit_session_turn_update ex_lib ex_ids (run_steps (store_step ex_lib) e [])
      (ex_request (CuComplete (lit ''k'') ex_handoff)) ex_lease 160)"
    by (rule takeover_fences_commits [OF ex_db_ok, where old = ex_lease and owner = "lit ''v''"
        and turn = None and now = 150 and ttl = 50 and l = l])
      (use t same in \<open>simp_all add: ex_takeover_def ex_lease_def ex_db_def empty_db_def lit_def
         command_recorded_def source_recorded_def\<close>)
  with t show ?thesis by blast
qed

subsection \<open>Recovery\<close>

lemma updated_row:
  assumes "r \<in> set (sql_update P f rows)"
  obtains x where "x \<in> set rows" "r = (if P x then f x else x)"
  using assms by (auto simp: sql_update_def)

lemma settled_rows:
  assumes "r \<in> set (db_effects (settle_turn_effects t now d))" and "ef_turn_id r = t"
  shows "ef_status r \<noteq> lit ''prepared'' \<and> ef_status r \<noteq> lit ''started''"
proof -
  let ?obs1 = "observe_row (lit ''observed_failed'') (lit ''{\"recovery\":\"not_started\"}'') now"
  let ?obs2 = "observe_row (lit ''unknown'') (lit ''{\"outcome\":\"lease_lost_after_start\"}'') now"
  have "db_effects (settle_turn_effects t now d) = sql_update (turn_effects t (lit ''started'')) ?obs2
      (sql_update (turn_effects t (lit ''prepared'')) ?obs1 (db_effects d))"
    by (simp add: settle_turn_effects_def Let_def)
  with assms(1) obtain x where "x \<in> set (sql_update (turn_effects t (lit ''prepared'')) ?obs1 (db_effects d))"
    and r: "r = (if turn_effects t (lit ''started'') x then ?obs2 x else x)"
    by (auto simp only: elim: updated_row)
  then obtain y where x: "x = (if turn_effects t (lit ''prepared'') y then ?obs1 y else y)"
    by (elim updated_row)
  have obs: "ef_status (?obs1 y) = lit ''observed_failed''" "ef_status (?obs2 x) = lit ''unknown''"
    by (simp_all add: observe_row_def)
  have id: "ef_turn_id x = ef_turn_id r" using r by (simp add: observe_row_def split: if_splits)
  have "ef_status x \<noteq> lit ''prepared''"
  proof (cases "turn_effects t (lit ''prepared'') y")
    case True
    with x obs(1) show ?thesis by simp
  next
    case False
    then have "x = y" using x by simp
    with False id assms(2) show ?thesis by (simp add: turn_effects_def)
  qed
  moreover have "ef_status r = ef_status x \<and> ef_status r \<noteq> lit ''started'' \<or> ef_status r = lit ''unknown''"
  proof (cases "turn_effects t (lit ''started'') x")
    case True
    with r obs(2) show ?thesis by simp
  next
    case False
    then have "r = x" using r by simp
    with False assms(2) show ?thesis by (simp add: turn_effects_def)
  qed
  moreover have "lit ''unknown'' \<noteq> lit ''prepared''" "lit ''unknown'' \<noteq> lit ''started''" by simp_all
  ultimately show ?thesis by metis
qed

lemma consumed_rows:
  assumes "p \<in> set (db_permissions (settle_turn_effects t now d))" and "pm_turn_id p = t"
  shows "pm_consumed_at_ms p \<noteq> None"
proof -
  have "db_permissions (settle_turn_effects t now d) = sql_update
      (\<lambda>r. pm_turn_id r = t \<and> pm_consumed_at_ms r = None) (consume_row now) (db_permissions d)"
    by (simp add: settle_turn_effects_def Let_def)
  with assms(1) obtain q where "p = (if pm_turn_id q = t \<and> pm_consumed_at_ms q = None
      then consume_row now q else q)"
    by (auto simp only: elim: updated_row)
  with assms(2) show ?thesis by (simp add: consume_row_def split: if_splits)
qed

text \<open>
  C15 Recovery leaves nothing running: the abandoned turn is interrupted without a pending
  request, the session has no active turn, every effect of the turn is settled and every
  permission of it used up, and the session asks for reconciliation exactly when an effect
  had started.
\<close>

theorem recovery_leaves_nothing_running:
  assumes "store_ok d"
    and "recover_linked_session_turn L ids d sid t token expected now = Inr (e, Some resp)"
  shows "active_turn e sid = None
    \<and> (\<exists>x. turn_state_of e t = Some x \<and> ts_status x = Interrupted
          \<and> ts_pending_permission x = None \<and> ts_pending_input x = None)
    \<and> (\<forall>r \<in> set (db_effects e). ef_turn_id r = t \<longrightarrow> ef_status r \<notin> {lit ''prepared'', lit ''started''})
    \<and> (\<forall>p \<in> set (db_permissions e). pm_turn_id p = t \<longrightarrow> pm_consumed_at_ms p \<noteq> None)
    \<and> map_option sr_lifecycle (find_session e sid) = Some
        (if \<exists>r \<in> set (db_effects d). ef_turn_id r = t \<and> ef_status r = lit ''started''
         then lit ''reconciliation_required'' else lit ''interrupted'')"
proof (intro conjI)
  have keys: "keys_ok d" "\<forall>r \<in> set (db_turns d). turn_row_ok r"
    using assms(1) by (simp_all add: store_ok_def)
  obtain a r s seq obs evs where act: "active_turn d sid = Some a" "ar_turn_id a = t" "ar_lease_token a = token"
    and r: "find_turn d t = Some r" "\<not> terminal_status (ts_status (tr_state r))"
    and s: "find_session d sid = Some s" and rev: "ts_revision (tr_state r) + 1 < u64_bound"
    and moved: "turns_moved t (ts_revision (tr_state r))
      (interrupted_state (tr_state r) (ts_revision (tr_state r) + 1)) (db_turns d) (db_turns e)"
    and sessions: "db_sessions e = sql_update (\<lambda>x. sr_session_id x = sid)
       (recovered_session s t (effect_ids t (lit ''started'') d) seq now) (db_sessions d)"
    and effects: "db_effects e = db_effects (settle_turn_effects t now d)"
    and perms: "db_permissions e = db_permissions (settle_turn_effects t now d)"
    and active: "db_active e = sql_delete (\<lambda>x. ar_session_id x = sid \<and> ar_turn_id x = t
       \<and> ar_lease_token x = token) (db_active d)"
    by (rule recover_linked_steps [OF assms])
  have nxt: "ts_turn_id (interrupted_state (tr_state r) (ts_revision (tr_state r) + 1)) = t"
    "turn_wf (interrupted_state (tr_state r) (ts_revision (tr_state r) + 1))"
    using gate_row [OF assms(1) r(1)] interrupted_state_wf [OF _ r(2) rev] by (simp_all add: interrupted_state_def)
  have ids: "distinct (map tr_turn_id (db_turns d))" using keys(1) by (simp add: keys_ok_def)
  show "\<exists>x. turn_state_of e t = Some x \<and> ts_status x = Interrupted
      \<and> ts_pending_permission x = None \<and> ts_pending_input x = None"
    using turns_moved_facts(3) [OF refl moved ids keys(2) r(1) refl nxt, of t]
    by (simp add: interrupted_state_def)
  show "active_turn e sid = None"
    using active_turn_delete [of d sid "\<lambda>x. ar_turn_id x = t \<and> ar_lease_token x = token"] act keys(1)
    by (simp add: active_turn_def [of e] active keys_ok_def)
  show "\<forall>r \<in> set (db_effects e). ef_turn_id r = t \<longrightarrow> ef_status r \<notin> {lit ''prepared'', lit ''started''}"
    unfolding effects using settled_rows by simp
  show "\<forall>p \<in> set (db_permissions e). pm_turn_id p = t \<longrightarrow> pm_consumed_at_ms p \<noteq> None"
    unfolding perms using consumed_rows by blast
  have "find_session e sid = map_option (\<lambda>x. if sr_session_id x = sid
      then recovered_session s t (effect_ids t (lit ''started'') d) seq now x else x) (find_session d sid)"
    unfolding find_session_def sessions by (rule find_update_key) (simp add: recovered_session_def)
  moreover have "effect_ids t (lit ''started'') d = [] \<longleftrightarrow>
      \<not> (\<exists>r \<in> set (db_effects d). ef_turn_id r = t \<and> ef_status r = lit ''started'')"
    by (auto simp: effect_ids_def turn_effects_def filter_empty_conv)
  ultimately show "map_option sr_lifecycle (find_session e sid) = Some
      (if \<exists>r \<in> set (db_effects d). ef_turn_id r = t \<and> ef_status r = lit ''started''
       then lit ''reconciliation_required'' else lit ''interrupted'')"
    using s find_session_Some [OF s] by (simp add: recovered_session_def)
qed

lemmas recovery_eval = recover_linked_session_turn_def recover_turn_def recover_session_def
  append_recovery_card_def recovery_cards_def recovery_event_def recovery_entry_def effect_ids_def
  settle_turn_effects_def interrupted_state_def

lemma ex_recovers:
  "\<exists>e resp. recover_linked_session_turn ex_lib ex_ids ex_db 1 5 3 None 500 = Inr (e, Some resp)"
  by (simp add: ex_defs)
    (simp add: commit_eval recovery_eval stale_fence_def recovery_key_def terminal_status_def
      ex_ids_def ex_lib_eval)

theorem recovery_leaves_nothing_running_witness:
  "\<exists>e resp. recover_linked_session_turn ex_lib ex_ids ex_db 1 5 3 None 500 = Inr (e, Some resp)
     \<and> active_turn e 1 = None \<and> map_option sr_lifecycle (find_session e 1) = Some (lit ''interrupted'')"
proof -
  obtain e resp where r: "recover_linked_session_turn ex_lib ex_ids ex_db 1 5 3 None 500 = Inr (e, Some resp)"
    using ex_recovers by blast
  have "db_effects ex_db = []" by (simp add: ex_db_def empty_db_def)
  with recovery_leaves_nothing_running [OF ex_db_ok r] r show ?thesis by simp
qed

subsection \<open>Retries\<close>

lemma record_snapshot_found:
  assumes "record_snapshot (Some c) digest s now d = Inr e"
  shows "\<exists>r. find (\<lambda>r. dd_command_id r = c) (db_dedup e) = Some r
    \<and> dd_digest r = digest \<and> dd_result r = DrSnapshot s"
proof -
  let ?row = "\<lparr>dd_command_id = c, dd_digest = digest, dd_result = DrSnapshot s, dd_created_at_ms = now\<rparr>"
  have "find (\<lambda>r. dd_command_id r = c) (db_dedup d) = None" and e: "e = d\<lparr>db_dedup := db_dedup d @ [?row]\<rparr>"
    using assms by (auto simp: record_snapshot_def insert_dedup_def find_None_all)
  then show ?thesis by (simp add: find_append)
qed

lemma find_prefix: "find P xs = Some x \<Longrightarrow> prefix xs ys \<Longrightarrow> find P ys = Some x"
  by (auto simp: prefix_def find_append)

text \<open>A command on record is answered from the record, also after any run.\<close>

lemma command_replay_run:
  assumes "store_ok e" and "find (\<lambda>r. dd_command_id r = c) (db_dedup e) = Some r"
    and "dd_digest r = digest \<or> dd_digest r = legacy" and "dd_result r = DrSnapshot s"
  shows "command_replay L (run_steps (store_step L') e ops) c digest legacy = Inr (Some s)"
proof -
  have "prefix (db_dedup e) (db_dedup (run_steps (store_step L') e ops))"
    using store.run_le [OF assms(1)] by (simp add: store_le_def logs_le_def)
  from find_prefix [OF assms(2) this] assms(3,4) show ?thesis
    by (auto simp: command_replay_def snapshot_replay_def)
qed

lemma command_replay_Some:
  assumes "command_replay L d c digest legacy = Inr (Some s)"
  shows "\<exists>r. find (\<lambda>r. dd_command_id r = c) (db_dedup d) = Some r
    \<and> (dd_digest r = digest \<or> dd_digest r = legacy) \<and> dd_result r = DrSnapshot s"
  using assms
  by (auto simp: command_replay_def snapshot_replay_def split: option.splits if_splits dedup_result.splits)

definition outcome_snapshot :: "session_snapshot create_outcome \<Rightarrow> session_snapshot" where
  "outcome_snapshot r = (case r of Created s \<Rightarrow> s | Replayed s \<Rightarrow> s)"

text \<open>
  A client whose connection broke may ask again: after a session was created under a
  command identifier, the same command is answered with the same snapshot, whatever has
  happened in between, and without a lease.
\<close>

theorem create_replays_after_any_run:
  assumes "store_ok d" and "create_session_v2_inner L ids d (Some c) sid t b root prompt m lease now focus
      = Inr (e, outcome, event)"
  shows "lookup_create_replay L (run_steps (store_step L) e ops) c sid root prompt b focus
    = Inr (Some (outcome_snapshot outcome))"
proof -
  have e: "store_ok e" using create_session_moves [OF assms] by blast
  obtain root' where root: "validate_workspace_root root = Inr root'"
    using assms(2) by (auto simp: create_session_v2_inner_def)
  let ?digest = "create_command_digest L sid root' prompt b focus"
  let ?legacy = "legacy_create_command_digest L sid root' prompt b focus"
  have "\<exists>r. find (\<lambda>r. dd_command_id r = c) (db_dedup e) = Some r
      \<and> (dd_digest r = ?digest \<or> dd_digest r = ?legacy)
      \<and> dd_result r = DrSnapshot (outcome_snapshot outcome)"
  proof -
    obtain replay where dedup: "create_dedup L (Some c) sid ?digest ?legacy d = Inr replay"
      and rest: "(case replay of Some s \<Rightarrow> Inr (d, Replayed s, None)
        | None \<Rightarrow> create_session_writes L ids (Some c) sid t b root' (redact L prompt)
            (session_title (scrub_secrets L) (redact L prompt)) ?digest m lease now focus d)
        = Inr (e, outcome, event)"
      using assms(2) root by (auto simp: create_session_v2_inner_def Let_def)
    show ?thesis
    proof (cases replay)
      case (Some s)
      then have "command_replay L d c ?digest ?legacy = Inr (Some s)"
        using dedup by (auto simp: create_dedup_def split: option.splits if_splits)
      moreover have "e = d" "outcome = Replayed s" using rest Some by auto
      ultimately show ?thesis using command_replay_Some by (simp add: outcome_snapshot_def)
    next
      case None
      then obtain s d' where "record_snapshot (Some c) ?digest s now d' = Inr e" "outcome = Created s"
        using rest by (auto simp: create_session_writes_def)
      then show ?thesis using record_snapshot_found [of c ?digest s now d' e] by (auto simp: outcome_snapshot_def)
    qed
  qed
  then obtain r where r: "find (\<lambda>r. dd_command_id r = c) (db_dedup e) = Some r"
    "dd_digest r = ?digest \<or> dd_digest r = ?legacy" "dd_result r = DrSnapshot (outcome_snapshot outcome)"
    by blast
  show ?thesis
    unfolding lookup_create_replay_def root bindE_simps by (rule command_replay_run [OF e r])
qed

theorem create_replays_after_any_run_witness:
  "\<exists>e outcome event. create_session_v2_inner ex_lib ex_ids empty_db (Some 2) 1 5 ex_binding (lit ''/w'')
      (lit ''hi'') [] None 10 None = Inr (e, outcome, event)
    \<and> lookup_create_replay ex_lib (run_steps (store_step ex_lib) e ex_later) 2 1 (lit ''/w'') (lit ''hi'')
      ex_binding None = Inr (Some (outcome_snapshot outcome))"
proof -
  obtain e where "store_step ex_lib empty_db ex_create = Inr e" using ex_create_runs by blast
  then obtain outcome event where c: "create_session_v2_inner ex_lib ex_ids empty_db (Some 2) 1 5 ex_binding
      (lit ''/w'') (lit ''hi'') [] None 10 None = Inr (e, outcome, event)"
    by (auto simp: ex_create_def)
  from create_replays_after_any_run [OF store_ok_empty c] c show ?thesis by blast
qed

subsection \<open>Follow-ups\<close>

text \<open>
  A conversation continues only from rest: a new follow-up is accepted only at the
  revision the client has seen, with no active turn and a parent that completed, failed
  retryably or was denied a permission; afterwards the new turn is the session's active
  and latest turn, and the session runs at a higher revision.
\<close>

theorem follow_up_starts_from_rest:
  assumes "store_ok d" and "create_session_follow_up_v2_inner L ids d cid sid t expected prompt m lease now
      = Inr (e, Created snapshot, event)"
  shows "active_turn d sid = None
    \<and> (\<exists>s. find_session d sid = Some s \<and> sr_revision s = expected \<and> sr_lifecycle s = lit ''ready''
        \<and> (case sr_latest_turn_id s of None \<Rightarrow> sr_parent_session_id s \<noteq> None
           | Some p \<Rightarrow> \<exists>x. turn_state_of d p = Some x \<and> follow_up_allowed x))
    \<and> map_option ar_turn_id (active_turn e sid) = Some t
    \<and> (\<exists>x. find_session e sid = Some x \<and> expected < sr_revision x \<and> sr_lifecycle x = lit ''running''
        \<and> sr_latest_turn_id x = Some t)"
proof -
  obtain sr parent digest message where gate: "follow_up_gate d sid expected = Inr (sr, parent)"
    and w: "follow_up_writes L ids cid sr t parent message digest m lease now d
      = Inr (e, Created snapshot, event)"
    using assms(2) by (auto simp: create_session_follow_up_v2_inner_def Let_def split: option.splits if_splits)
  note g = follow_up_gate_Inr [OF gate]
  have sid: "sr_session_id sr = sid" using find_session_Some [OF g(1)] by simp
  obtain new a b where act: "db_active e = db_active d @ [\<lparr>ar_session_id = sid, ar_turn_id = t,
         ar_lease_token = lease_number lease\<rparr>]"
    and none: "\<forall>x \<in> set (db_active d). ar_session_id x \<noteq> sid \<and> ar_turn_id x \<noteq> t"
    and sess: "db_sessions e = sql_update (\<lambda>x. sr_session_id x = sid) (followed_session a b t now) (db_sessions d)"
    and a: "sr_revision sr < a"
    by (rule follow_up_steps [OF w]) (simp add: sid)
  have "find_session e sid = map_option (\<lambda>x. if sr_session_id x = sid then followed_session a b t now x else x)
      (find_session d sid)"
    unfolding find_session_def sess by (rule find_update_key) simp
  then have "find_session e sid = Some (followed_session a b t now sr)" using g(1) sid by simp
  moreover have "active_turn e sid = Some \<lparr>ar_session_id = sid, ar_turn_id = t,
         ar_lease_token = lease_number lease\<rparr>"
    using active_turn_new [OF act] none by simp
  moreover have "case sr_latest_turn_id sr of None \<Rightarrow> sr_parent_session_id sr \<noteq> None
      | Some p \<Rightarrow> \<exists>x. turn_state_of d p = Some x \<and> follow_up_allowed x"
    using g(5,6) by (cases parent) (auto split: option.split)
  ultimately show ?thesis using g(1-4) a by simp
qed

text \<open>A session at rest: its only turn has completed.\<close>

definition ex_rest_db :: db where
  "ex_rest_db = ex_db\<lparr>
     db_turns := [\<lparr>tr_turn_id = 5, tr_state = ex_turn\<lparr>ts_status := Completed, ts_handoff := Some ex_handoff\<rparr>,
       tr_status = lit ''completed'', tr_revision = 1, tr_last_seq = 1, tr_lease_token = 3,
       tr_created_at_ms = 0, tr_updated_at_ms = 0, tr_effect_epoch = 0\<rparr>],
     db_sessions := map (\<lambda>r. r\<lparr>sr_lifecycle := lit ''ready''\<rparr>) (db_sessions ex_db), db_active := []\<rparr>"

lemma ex_rest_db_ok: "store_ok ex_rest_db"
  by (simp add: store_ok_def ex_rest_db_def ex_db_def empty_db_def keys_ok_def effects_keyed_def leases_ok_def
      outbox_consistent_def sequences_ok_def owned_ok_def turn_row_ok_def row_holds_def ex_turn_def
      turn_queued_def turn_wf_def u64_bound_def session_ok_def active_turn_def turn_state_of_def
      find_turn_def agrees_def linked_def idle_lifecycle_def)

lemma ex_follow_up:
  "\<exists>e snapshot. create_session_follow_up_v2_inner ex_lib (\<lambda>n. 30 + n) ex_rest_db (Some 15) 1 6 7 (lit ''go'') []
     None 20 = Inr (e, Created snapshot, None)"
  by (simp add: ex_rest_db_def ex_defs ex_handoff_def)
    (simp add: create_session_follow_up_v2_inner_def follow_up_gate_def follow_up_parent_def
      follow_up_allowed_def follow_up_writes_def followed_session_def next_ordinal_def
      session_envelope_def session_event_row_def insert_session_event_def
      create_eval Let_def ex_lib_eval trim_def is_white_def u64_bound_def checked_add_def turn_queued_def)

theorem follow_up_starts_from_rest_witness:
  "\<exists>e snapshot. create_session_follow_up_v2_inner ex_lib (\<lambda>n. 30 + n) ex_rest_db (Some 15) 1 6 7 (lit ''go'') []
     None 20 = Inr (e, Created snapshot, None) \<and> map_option ar_turn_id (active_turn e 1) = Some 6"
  using ex_follow_up follow_up_starts_from_rest [OF ex_rest_db_ok] by blast

subsection \<open>Reading the conversation\<close>

text \<open>
  The two readers agree: in every reachable store the projection computed by the SQL
  queries is the engine's window of the session's whole outbox.
\<close>

theorem projections_agree:
  "session_transcript_projection (run_steps (store_step L) empty_db ops) sid fallback
    = projection_window (conversation_outbox_entries (run_steps (store_step L) empty_db ops) sid) fallback"
proof -
  have "store_ok (run_steps (store_step L) empty_db ops)" by (rule store.run_inv [OF store_ok_empty])
  then show ?thesis by (intro projection_agrees) (simp add: store_ok_def)
qed

subsection \<open>Verified completion\<close>

text \<open>
  C18 Verified completion rests on current evidence: a new \<open>CompleteVerified\<close> commit is
  accepted only if the newest evidence of the turn passed, for the named verification and
  workspace manifest, at the turn's present revision and effect epoch; the turn is then
  completed with that evidence in its handoff.
\<close>

theorem verified_completion_needs_current_evidence:
  assumes "store_ok d" and "commit_session_turn_update L ids d rq l now = Inr (e, resp)"
    and "\<not> command_recorded d rq" and "\<not> source_recorded d rq"
    and "rq_update rq = CuCompleteVerified key summary veid manifest files"
  shows "\<exists>row v x h. find_turn d (rq_turn_id rq) = Some row
    \<and> latest_verification L d (rq_turn_id rq) = Inr (Some v)
    \<and> ver_passed v \<and> ver_effect_id v = veid \<and> ver_workspace_manifest_digest v = manifest
    \<and> ver_revision v = rq_expected_turn_revision rq \<and> ver_effect_epoch v = tr_effect_epoch row
    \<and> turn_state_of e (rq_turn_id rq) = Some x \<and> ts_status x = Completed \<and> ts_handoff x = Some h
    \<and> ho_evidence h = [verified_evidence (redact L veid) (redact L (ver_summary v)) (redact L manifest) now]"
proof -
  obtain ct where gate: "passed_gate L d rq l now ct" and arm: "commit_arm L (trace_ctx rq l now ct)
      (rq_update rq) (initial_draft d (tr_state (ct_turn ct)) (sr_lifecycle (ct_session ct))) = Inr (ct_draft ct)"
    and draft: "draft_ok (tr_state (ct_turn ct)) (sr_lifecycle (ct_session ct)) (ct_draft ct)"
    and ledger: "ledger_move d (dr_db (ct_draft ct))" and tables: "committed_tables L d rq l now ct e"
    by (rule commit_new_facts [OF assms(1-4)])
  note turns = committed_turns [OF assms(1) gate draft ledger tables]
  have t: "find_turn d (rq_turn_id rq) = Some (ct_turn ct)"
    "ts_revision (tr_state (ct_turn ct)) = rq_expected_turn_revision rq"
    using gate by (simp_all add: passed_gate_def)
  define h where "h v = \<lparr>ho_summary = redact L summary, ho_files_changed = map (redact L) files,
      ho_evidence = [verified_evidence (redact L veid) (redact L (ver_summary v)) (redact L manifest) now]\<rparr>" for v :: verification_record
  obtain v where v: "latest_verification L d (rq_turn_id rq) = Inr (Some v)"
    "verification_current (tr_state (ct_turn ct)) (tr_effect_epoch (ct_turn ct)) veid manifest v"
    and c: "turn_transition (tr_state (ct_turn ct)) (ts_revision (tr_state (ct_turn ct)))
      (Complete (h v) VerificationRequired) = Inr (dr_next (ct_draft ct))"
    using arm assms(5) t(1)
    by (auto simp: commit_complete_verified_def complete_with_def trace_ctx_def initial_draft_def ctx_step_def
        lift_transition_def h_def eq_commute [of _ "ct_draft ct"] split: option.splits if_splits)
  have "verification_passed VerificationRequired (h v)"
    by (simp add: h_def verification_passed_def verified_evidence_def)
  with c have "ts_status (dr_next (ct_draft ct)) = Completed \<and> ts_handoff (dr_next (ct_draft ct)) = Some (h v)"
    by (auto simp: turn_transition_def apply_arm_def eq_commute [of _ "dr_next (ct_draft ct)"] split: if_splits)
  with turns(3) [of "rq_turn_id rq"] v t show ?thesis
    by (simp add: verification_current_def h_def)
qed

text \<open>The example store with evidence for the turn at its present revision.\<close>

definition ex_evidence_db :: db where
  "ex_evidence_db = ex_db\<lparr>db_evidence := [\<lparr>vr_id = lit ''e'', vr_turn_id = 5,
     vr_metadata = lit ''d'', vr_blob_ref = None\<rparr>]\<rparr>"

lemma ex_evidence_db_ok: "store_ok ex_evidence_db"
  by (rule store_ok_frame [OF ex_db_ok]) (simp_all add: ex_evidence_db_def effects_keyed_def ex_db_def empty_db_def)

definition ex_verified :: session_commit_request where
  "ex_verified = ex_request (CuCompleteVerified (lit ''k'') (lit ''ok'') (lit ''d'') (lit ''d'') [])"

lemma ex_verified_commits:
  "\<exists>e resp. commit_session_turn_update ex_lib ex_ids ex_evidence_db ex_verified ex_lease 10 = Inr (e, resp)"
  by (simp add: ex_evidence_db_def ex_verified_def ex_defs ex_handoff_def)
    (simp add: commit_eval commit_complete_verified_def complete_with_def completion_card_def
      latest_verification_def verification_current_def verified_evidence_def
      verification_passed_def redact_handoff_def ex_lib_eval)

theorem verified_completion_needs_current_evidence_witness:
  "\<exists>e resp x. commit_session_turn_update ex_lib ex_ids ex_evidence_db ex_verified ex_lease 10 = Inr (e, resp)
     \<and> turn_state_of e 5 = Some x \<and> ts_status x = Completed"
proof -
  obtain e resp where c: "commit_session_turn_update ex_lib ex_ids ex_evidence_db ex_verified ex_lease 10 = Inr (e, resp)"
    using ex_verified_commits by blast
  have "\<not> command_recorded ex_evidence_db ex_verified" "\<not> source_recorded ex_evidence_db ex_verified"
    by (simp_all add: command_recorded_def source_recorded_def ex_evidence_db_def ex_db_def empty_db_def)
  moreover have "rq_update ex_verified = CuCompleteVerified (lit ''k'') (lit ''ok'') (lit ''d'') (lit ''d'') []"
    "rq_turn_id ex_verified = 5"
    by (simp_all add: ex_verified_def ex_request_def)
  ultimately show ?thesis
    using verified_completion_needs_current_evidence [OF ex_evidence_db_ok c] c by auto
qed

end
