(* ===== verification/Session_Lists.thy ===== *)
theory Session_Lists
  imports Store_Snapshot
begin

text \<open>
  The session catalogue of \<open>storage.rs\<close>: lists, searches and exact titles, whole and page
  by page, and the opaque cursors between the pages. A page is a keyset query: the rows
  after the cursor's position in the order \<open>updated_at_ms DESC, rowid DESC\<close>.
\<close>

subsection \<open>Cursors\<close>

definition hex_digit :: "nat \<Rightarrow> nat" where
  "hex_digit n = (if n < 10 then 48 + n else 87 + n)"

text \<open>\<open>{:x}\<close> of an unsigned integer.\<close>

fun hex_text :: "nat \<Rightarrow> rstr" where
  "hex_text n = (if n < 16 then [hex_digit n] else hex_text (n div 16) @ [hex_digit (n mod 16)])"

declare hex_text.simps [simp del]

definition hex_value :: "nat \<Rightarrow> nat" where
  "hex_value c = (if is_ascii_digit c then c - 48 else if 97 \<le> c then c - 87 else c - 55)"

fun hex_fold :: "nat \<Rightarrow> rstr \<Rightarrow> nat option" where
  "hex_fold acc [] = Some acc"
| "hex_fold acc (c # cs) =
     (if \<not> is_ascii_hexdigit c then None
      else if acc * 16 + hex_value c < u64_bound then hex_fold (acc * 16 + hex_value c) cs else None)"

text \<open>\<open>u64::from_str_radix(_, 16)\<close>: digits after an optional plus sign, in range.\<close>

definition from_str_radix_16 :: "rstr \<Rightarrow> nat option" where
  "from_str_radix_16 s =
     (let digits = (case s of [] \<Rightarrow> [] | c # cs \<Rightarrow> if c = 43 \<and> cs \<noteq> [] then cs else s)
      in if digits = [] then None else hex_fold 0 digits)"

definition SESSION_CURSOR_PREFIX :: rstr where "SESSION_CURSOR_PREFIX = lit ''v1_''"

definition encode_session_cursor :: "nat \<Rightarrow> nat \<Rightarrow> rstr" where
  "encode_session_cursor updated rowid =
     SESSION_CURSOR_PREFIX @ hex_text updated @ [58] @ hex_text rowid"

definition cursor_number :: "rstr \<Rightarrow> storage_error + nat" where
  "cursor_number hex =
     bindE (ok_or (invalid ''invalid session cursor'') (from_str_radix_16 hex)) (\<lambda>n.
     if n < i64_bound then Inr n else Inl (invalid ''invalid session cursor''))"

definition decode_session_cursor :: "rstr \<Rightarrow> storage_error + nat \<times> nat" where
  "decode_session_cursor cursor =
     bindE (ok_or (invalid ''invalid session cursor'')
       (strip_prefix SESSION_CURSOR_PREFIX cursor)) (\<lambda>body.
     bindE (ok_or (invalid ''invalid session cursor'') (split_once 58 body)) (\<lambda>(updated, rowid).
     bindE (cursor_number updated) (\<lambda>u.
     bindE (cursor_number rowid) (\<lambda>k. Inr (u, k)))))"

lemma hex_text_digits: "\<forall>c \<in> set (hex_text n). is_ascii_hexdigit c"
proof (induction n rule: hex_text.induct)
  case (1 n)
  have "is_ascii_hexdigit (hex_digit m)" if "m < 16" for m
    using that by (auto simp: is_ascii_hexdigit_def is_ascii_digit_def hex_digit_def)
  then show ?case
    using 1 by (cases "n < 16") (auto simp: hex_text.simps [of n])
qed

lemma hex_value_digit: "n < 16 \<Longrightarrow> hex_value (hex_digit n) = n"
  by (auto simp: hex_value_def hex_digit_def is_ascii_digit_def)

lemma hex_fold_append:
  "hex_fold acc (xs @ ys) = (case hex_fold acc xs of None \<Rightarrow> None | Some b \<Rightarrow> hex_fold b ys)"
  by (induction xs arbitrary: acc) auto

lemma hex_fold_text: "n < u64_bound \<Longrightarrow> hex_fold 0 (hex_text n) = Some n"
proof (induction n rule: hex_text.induct)
  case (1 n)
  have digit: "is_ascii_hexdigit (hex_digit (n mod 16))" "hex_value (hex_digit (n mod 16)) = n mod 16"
    using hex_value_digit [of "n mod 16"]
    by (auto simp: is_ascii_hexdigit_def is_ascii_digit_def hex_digit_def)
  show ?case
  proof (cases "n < 16")
    case True
    then show ?thesis using digit 1(2) by (simp add: hex_text.simps [of n])
  next
    case False
    then have "hex_fold 0 (hex_text (n div 16)) = Some (n div 16)"
      using 1 by (auto intro: le_less_trans [OF div_le_dividend])
    then show ?thesis using False digit 1(2) by (simp add: hex_text.simps [of n] hex_fold_append)
  qed
qed

lemma hex_text_shape: "hex_text n \<noteq> []" "hd (hex_text n) \<noteq> 43" "58 \<notin> set (hex_text n)"
proof -
  show ne: "hex_text n \<noteq> []" by (simp add: hex_text.simps [of n])
  have "\<not> is_ascii_hexdigit 43" "\<not> is_ascii_hexdigit 58"
    by (simp_all add: is_ascii_hexdigit_def is_ascii_digit_def)
  then show "hd (hex_text n) \<noteq> 43" "58 \<notin> set (hex_text n)"
    using hex_text_digits [of n] hd_in_set [OF ne] by metis+
qed

lemma from_str_radix_text: "n < u64_bound \<Longrightarrow> from_str_radix_16 (hex_text n) = Some n"
  using hex_text_shape [of n] hex_fold_text [of n]
  by (auto simp: from_str_radix_16_def split: list.split)

lemma cursor_number_text: "n < i64_bound \<Longrightarrow> cursor_number (hex_text n) = Inr n"
  by (simp add: cursor_number_def from_str_radix_text i64_bound_def u64_bound_def)

lemma decode_encode_cursor:
  "u < i64_bound \<Longrightarrow> k < i64_bound \<Longrightarrow> decode_session_cursor (encode_session_cursor u k) = Inr (u, k)"
  by (simp add: decode_session_cursor_def encode_session_cursor_def cursor_number_text
      split_once_append hex_text_shape(3))

subsection \<open>Interface: keyset pages\<close>

text \<open>
  A reader asks for \<open>n\<close> rows after a position and continues at the key of the last row it
  got. When the rows after the key of the \<open>i\<close>-th row are the rows from \<open>i + 1\<close> on, the
  pages are exactly the rows, in order and once each.
\<close>

definition keyset_page :: "('k \<Rightarrow> 'a \<Rightarrow> bool) \<Rightarrow> ('a \<Rightarrow> 'k) \<Rightarrow> 'a list \<Rightarrow> nat \<Rightarrow> 'k option \<Rightarrow> 'a list \<times> 'k option" where
  "keyset_page after key rows n cursor =
     (let fetched = take (n + 1)
            (filter (case cursor of None \<Rightarrow> \<lambda>_. True | Some k \<Rightarrow> after k) rows)
      in (take n fetched, if n < length fetched then Some (key (fetched ! (n - 1))) else None))"

fun read_pages :: "('k option \<Rightarrow> 'a list \<times> 'k option) \<Rightarrow> nat \<Rightarrow> 'k option \<Rightarrow> 'a list" where
  "read_pages page 0 cursor = []"
| "read_pages page (Suc fuel) cursor =
     (case page cursor of
        (items, None) \<Rightarrow> items
      | (items, Some k) \<Rightarrow> items @ read_pages page fuel (Some k))"

locale keyset =
  fixes after :: "'k \<Rightarrow> 'a \<Rightarrow> bool"
    and key :: "'a \<Rightarrow> 'k"
    and rows :: "'a list"
  assumes rest: "i < length rows \<Longrightarrow> filter (after (key (rows ! i))) rows = drop (Suc i) rows"
begin

lemma page_from:
  assumes "0 < n" and "filter (case cursor of None \<Rightarrow> \<lambda>_. True | Some k \<Rightarrow> after k) rows = drop m rows"
  shows "keyset_page after key rows n cursor =
    (take n (drop m rows), if n < length rows - m then Some (key (rows ! (m + n - 1))) else None)"
proof -
  have "m + (n - 1) = m + n - 1" using assms(1) by simp
  then show ?thesis
    using assms by (simp add: keyset_page_def Let_def min_def)
qed

lemma pages_from:
  assumes "0 < n" and "length rows - m < fuel"
    and "filter (case cursor of None \<Rightarrow> \<lambda>_. True | Some k \<Rightarrow> after k) rows = drop m rows"
  shows "read_pages (keyset_page after key rows n) fuel cursor = drop m rows"
  using assms(2,3)
proof (induction fuel arbitrary: m cursor)
  case (Suc fuel)
  note page = page_from [OF assms(1) Suc.prems(2)]
  show ?case
  proof (cases "n < length rows - m")
    case True
    let ?i = "m + n - 1"
    have i: "?i < length rows" "Suc ?i = m + n" using True assms(1) by auto
    have "read_pages (keyset_page after key rows n) fuel (Some (key (rows ! ?i))) = drop (m + n) rows"
      by (rule Suc.IH) (use True Suc.prems(1) assms(1) rest [OF i(1)] i(2) in auto)
    moreover have "take n (drop m rows) @ drop (m + n) rows = drop m rows"
      by (metis add.commute append_take_drop_id drop_drop)
    ultimately show ?thesis using True page by simp
  next
    case False
    then show ?thesis using page by simp
  qed
qed simp

lemma pages_complete: "0 < n \<Longrightarrow> read_pages (keyset_page after key rows n) (Suc (length rows)) None = rows"
  using pages_from [of n 0 "Suc (length rows)" None] by simp

end

subsection \<open>The catalogue\<close>

record session_summary =
  sy_session_id :: uuid
  sy_title :: rstr
  sy_workspace_root :: rstr
  sy_parent_session_id :: "uuid option"
  sy_lifecycle :: session_lifecycle
  sy_provider_name :: rstr
  sy_model :: rstr
  sy_created_at_ms :: nat
  sy_updated_at_ms :: nat

record 'a paged =
  pg_items :: "'a list"
  pg_next_cursor :: "rstr option"

text \<open>
  Sessions are never deleted, so the \<open>rowid\<close> of a session is its position, from 1. The
  rows of a query come newest first.
\<close>

type_synonym catalogue_row = "nat \<times> session_row"

definition catalogue :: "db \<Rightarrow> (session_row \<Rightarrow> bool) \<Rightarrow> catalogue_row list" where
  "catalogue d P = rev (sort_key (\<lambda>(_, r). sr_updated_at_ms r)
     (filter (\<lambda>(_, r). P r) (enumerate 1 (db_sessions d))))"

definition position :: "catalogue_row \<Rightarrow> nat \<times> nat" where
  "position x = (sr_updated_at_ms (snd x), fst x)"

definition past_cursor :: "nat \<times> nat \<Rightarrow> catalogue_row \<Rightarrow> bool" where
  "past_cursor k x \<longleftrightarrow> sr_updated_at_ms (snd x) < fst k
     \<or> (sr_updated_at_ms (snd x) = fst k \<and> fst x < snd k)"

lemma past_order: "past_cursor (position x) y \<longleftrightarrow> sr_updated_at_ms (snd y) < sr_updated_at_ms (snd x)
    \<or> (sr_updated_at_ms (snd y) = sr_updated_at_ms (snd x) \<and> fst y < fst x)"
  by (simp add: past_cursor_def position_def)

lemma insort_newest:
  assumes "sorted_wrt (\<lambda>a b. past_cursor (position b) a) ys" and "\<forall>y \<in> set ys. fst x < fst y"
  shows "sorted_wrt (\<lambda>a b. past_cursor (position b) a) (insort_key (\<lambda>(_, r). sr_updated_at_ms r) x ys)"
  using assms by (induction ys) (auto simp: past_order set_insort_key split: prod.splits)

lemma sort_newest:
  "sorted_wrt (\<lambda>a b. fst a < fst b) xs \<Longrightarrow>
     sorted_wrt (\<lambda>a b. past_cursor (position b) a) (sort_key (\<lambda>(_, r). sr_updated_at_ms r) xs)"
  by (induction xs) (auto simp: insort_newest)

lemma catalogue_sorted: "sorted_wrt (\<lambda>a b. past_cursor (position a) b) (catalogue d P)"
proof -
  have "sorted_wrt (\<lambda>a b. fst a < fst b) (enumerate n xs)" for n and xs :: "session_row list"
    by (simp add: sorted_wrt_iff_nth_less nth_enumerate_eq)
  then have "sorted_wrt (\<lambda>a b. fst a < fst b) (filter (\<lambda>(_, r). P r) (enumerate 1 (db_sessions d)))"
    by (rule sorted_wrt_filter)
  from sort_newest [OF this] show ?thesis
    unfolding catalogue_def sorted_wrt_rev .
qed

lemma rest_of_sorted:
  assumes "sorted_wrt (\<lambda>a b. past_cursor (position a) b) xs" and "i < length xs"
  shows "filter (past_cursor (position (xs ! i))) xs = drop (Suc i) xs"
  using assms
proof (induction xs arbitrary: i)
  case (Cons x xs)
  show ?case
  proof (cases i)
    case 0
    with Cons.prems(1) show ?thesis by (simp add: past_order filter_id_conv)
  next
    case (Suc j)
    then have "past_cursor (position x) (xs ! j)" "j < length xs" using Cons.prems by auto
    then have "\<not> past_cursor (position (xs ! j)) x" by (auto simp: past_order)
    moreover have "filter (past_cursor (position (xs ! j))) xs = drop (Suc j) xs"
      using Cons.IH [of j] Cons.prems Suc by simp
    ultimately show ?thesis using Suc by simp
  qed
qed simp

interpretation catalogue_pages: keyset past_cursor position "catalogue d P" for d P
  by unfold_locales (rule rest_of_sorted [OF catalogue_sorted])

text \<open>The results of a query are decoded row by row; the first failure is the query's.\<close>

fun collect_rows :: "('a \<Rightarrow> 'e + 'b) \<Rightarrow> 'a list \<Rightarrow> 'e + 'b list" where
  "collect_rows f [] = Inr []"
| "collect_rows f (x # xs) = bindE (f x) (\<lambda>y. bindE (collect_rows f xs) (\<lambda>ys. Inr (y # ys)))"

definition summary_of :: "session_row \<Rightarrow> session_lifecycle \<Rightarrow> session_summary" where
  "summary_of r lifecycle = \<lparr>sy_session_id = sr_session_id r, sy_title = sr_title r,
     sy_workspace_root = sr_workspace_root r, sy_parent_session_id = sr_parent_session_id r,
     sy_lifecycle = lifecycle, sy_provider_name = pb_provider_name (sr_binding r),
     sy_model = pb_model (sr_binding r), sy_created_at_ms = sr_created_at_ms r,
     sy_updated_at_ms = sr_updated_at_ms r\<rparr>"

text \<open>\<open>session_summary_row\<close> runs inside the row mapper: a bad lifecycle is an error of column 4.\<close>

definition session_summary_row :: "catalogue_row \<Rightarrow> storage_error + session_summary" where
  "session_summary_row x = map_err (\<lambda>_. Sql (FromSqlConversionFailure 4))
     (bindE (parse_lifecycle (sr_lifecycle (snd x))) (\<lambda>l. Inr (summary_of (snd x) l)))"

definition list_snapshot :: "lib \<Rightarrow> db \<Rightarrow> catalogue_row \<Rightarrow> storage_error + session_snapshot" where
  "list_snapshot L d x =
     current_session_snapshot L d (sr_session_id (snd x)) SESSION_PROJECTION_TRANSCRIPT_LIMIT"

subsection \<open>Whole lists\<close>

definition list_sessions :: "lib \<Rightarrow> db \<Rightarrow> storage_error + session_snapshot list" where
  "list_sessions L d = collect_rows (list_snapshot L d) (catalogue d (\<lambda>_. True))"

definition list_sessions_for_workspace :: "lib \<Rightarrow> db \<Rightarrow> rstr \<Rightarrow> storage_error + session_snapshot list" where
  "list_sessions_for_workspace L d root =
     bindE (validate_workspace_root root) (\<lambda>root.
     collect_rows (list_snapshot L d) (catalogue d (\<lambda>r. sr_workspace_root r = root)))"

definition list_session_summaries_for_workspace ::
  "db \<Rightarrow> rstr \<Rightarrow> nat \<Rightarrow> storage_error + session_summary list" where
  "list_session_summaries_for_workspace d root limit =
     (if limit = 0 then Inr [] else
      bindE (validate_workspace_root root) (\<lambda>root.
      collect_rows (\<lambda>x. bindE (parse_lifecycle (sr_lifecycle (snd x))) (\<lambda>l. Inr (summary_of (snd x) l)))
        (take (min limit 500) (catalogue d (\<lambda>r. sr_workspace_root r = root)))))"

definition find_sessions_by_exact_title_for_workspace ::
  "db \<Rightarrow> rstr \<Rightarrow> rstr \<Rightarrow> nat \<Rightarrow> storage_error + session_summary list" where
  "find_sessions_by_exact_title_for_workspace d root title limit =
     (if title = [] \<or> limit = 0 then Inr [] else
      bindE (validate_workspace_root root) (\<lambda>root.
      collect_rows session_summary_row (take (min limit 500)
        (catalogue d (\<lambda>r. sr_workspace_root r = root \<and> sr_title r = title)))))"

definition session_v2 :: "db \<Rightarrow> uuid \<Rightarrow> storage_error + session_summary option" where
  "session_v2 d sid = (case find_session d sid of
     None \<Rightarrow> Inr None
   | Some r \<Rightarrow> bindE (parse_lifecycle (sr_lifecycle r)) (\<lambda>l. Inr (Some (summary_of r l))))"

text \<open>
  A search folds the query with Rust's \<open>str::to_lowercase\<close> (\<open>lc\<close>, the Unicode tables), and
  the stored columns with SQLite's \<open>lower\<close>, which folds ASCII only.
\<close>

definition search_query :: "(rstr \<Rightarrow> rstr) \<Rightarrow> rstr \<Rightarrow> rstr" where
  "search_query lc query = lc (trim query)"

definition search_matches :: "lib \<Rightarrow> rstr \<Rightarrow> rstr \<Rightarrow> session_row \<Rightarrow> bool" where
  "search_matches L root q r \<longleftrightarrow> sr_workspace_root r = root
     \<and> (q = [] \<or> contains q (to_ascii_lowercase (sr_title r))
          \<or> contains q (to_ascii_lowercase (uuid_text L (sr_session_id r))))"

definition search_sessions ::
  "(rstr \<Rightarrow> rstr) \<Rightarrow> lib \<Rightarrow> db \<Rightarrow> rstr \<Rightarrow> rstr \<Rightarrow> nat \<Rightarrow> storage_error + session_summary list" where
  "search_sessions lc L d root query limit =
     (if limit = 0 then Inr [] else
      bindE (validate_workspace_root root) (\<lambda>root.
      collect_rows session_summary_row (take (min limit 500)
        (catalogue d (search_matches L root (search_query lc query))))))"

subsection \<open>Pages\<close>

definition decode_cursor :: "rstr option \<Rightarrow> storage_error + (nat \<times> nat) option" where
  "decode_cursor cursor = (case cursor of
     None \<Rightarrow> Inr None | Some c \<Rightarrow> bindE (decode_session_cursor c) (\<lambda>k. Inr (Some k)))"

text \<open>
  The query fetches one row more than it returns; the cursor is the position of the last
  returned row when there is such a row.
\<close>

definition fetch_rows :: "db \<Rightarrow> (session_row \<Rightarrow> bool) \<Rightarrow> (nat \<times> nat) option \<Rightarrow> nat \<Rightarrow> catalogue_row list" where
  "fetch_rows d P start limit = take (limit + 1)
     (filter (case start of None \<Rightarrow> \<lambda>_. True | Some k \<Rightarrow> past_cursor k) (catalogue d P))"

definition next_cursor :: "nat \<Rightarrow> catalogue_row list \<Rightarrow> rstr option" where
  "next_cursor limit fetched =
     (if length fetched > limit
      then (case position (fetched ! (limit - 1)) of (u, k) \<Rightarrow> Some (encode_session_cursor u k))
      else None)"

definition summary_page ::
  "db \<Rightarrow> (session_row \<Rightarrow> bool) \<Rightarrow> (nat \<times> nat) option \<Rightarrow> nat \<Rightarrow> storage_error + session_summary paged" where
  "summary_page d P start limit =
     (let fetched = fetch_rows d P start limit
      in bindE (collect_rows session_summary_row fetched) (\<lambda>all.
         Inr \<lparr>pg_items = take limit all, pg_next_cursor = next_cursor limit fetched\<rparr>))"

definition list_sessions_for_workspace_paged ::
  "lib \<Rightarrow> db \<Rightarrow> rstr \<Rightarrow> rstr option \<Rightarrow> nat \<Rightarrow> storage_error + session_snapshot paged" where
  "list_sessions_for_workspace_paged L d root cursor limit =
     bindE (validate_workspace_root root) (\<lambda>root.
     if limit = 0 then Inr \<lparr>pg_items = [], pg_next_cursor = None\<rparr> else
     bindE (decode_cursor cursor) (\<lambda>k.
     let fetched = fetch_rows d (\<lambda>r. sr_workspace_root r = root) k (min limit 500)
     in bindE (collect_rows (list_snapshot L d) (take (min limit 500) fetched)) (\<lambda>items.
        Inr \<lparr>pg_items = items, pg_next_cursor = next_cursor (min limit 500) fetched\<rparr>)))"

definition search_sessions_paged ::
  "(rstr \<Rightarrow> rstr) \<Rightarrow> lib \<Rightarrow> db \<Rightarrow> rstr \<Rightarrow> rstr \<Rightarrow> rstr option \<Rightarrow> nat \<Rightarrow> storage_error + session_summary paged"
where
  "search_sessions_paged lc L d root query cursor limit =
     (if limit = 0 then Inr \<lparr>pg_items = [], pg_next_cursor = None\<rparr> else
      bindE (validate_workspace_root root) (\<lambda>root.
      bindE (decode_cursor cursor) (\<lambda>k.
      summary_page d (search_matches L root (search_query lc query)) k (min limit 500))))"

definition find_sessions_by_exact_title_for_workspace_paged ::
  "db \<Rightarrow> rstr \<Rightarrow> rstr \<Rightarrow> rstr option \<Rightarrow> nat \<Rightarrow> storage_error + session_summary paged" where
  "find_sessions_by_exact_title_for_workspace_paged d root title cursor limit =
     (if title = [] \<or> limit = 0 then Inr \<lparr>pg_items = [], pg_next_cursor = None\<rparr> else
      bindE (validate_workspace_root root) (\<lambda>root.
      bindE (decode_cursor cursor) (\<lambda>k.
      summary_page d (\<lambda>r. sr_workspace_root r = root \<and> sr_title r = title) k
        (min limit 500))))"

subsection \<open>Page by page is the whole list\<close>

text \<open>A client that follows the cursors until there is none.\<close>

fun read_paged :: "(rstr option \<Rightarrow> 'e + 'a paged) \<Rightarrow> nat \<Rightarrow> rstr option \<Rightarrow> 'e + 'a list" where
  "read_paged f 0 cursor = Inr []"
| "read_paged f (Suc fuel) cursor = bindE (f cursor) (\<lambda>p.
     case pg_next_cursor p of
       None \<Rightarrow> Inr (pg_items p)
     | Some c \<Rightarrow> bindE (read_paged f fuel (Some c)) (\<lambda>rest. Inr (pg_items p @ rest)))"

lemma collect_rows_total:
  assumes "\<And>x. x \<in> set xs \<Longrightarrow> f x = Inr (g x)"
  shows "collect_rows f xs = Inr (map g xs)"
  using assms by (induction xs) auto

lemma summary_page_keyset:
  assumes "\<And>x. x \<in> set (catalogue d P) \<Longrightarrow> session_summary_row x = Inr (g x)"
  shows "summary_page d P k limit = (case keyset_page past_cursor position (catalogue d P) limit k of
    (rows, nxt) \<Rightarrow> Inr \<lparr>pg_items = map g rows,
       pg_next_cursor = map_option (\<lambda>(u, i). encode_session_cursor u i) nxt\<rparr>)"
proof -
  let ?fetched = "fetch_rows d P k limit"
  have "set ?fetched \<subseteq> set (catalogue d P)"
    by (auto simp: fetch_rows_def dest: in_set_takeD)
  then have "collect_rows session_summary_row ?fetched = Inr (map g ?fetched)"
    by (intro collect_rows_total assms) auto
  then show ?thesis
    by (simp add: summary_page_def keyset_page_def next_cursor_def fetch_rows_def Let_def take_map min_def
        split: prod.splits)
qed

lemma read_summary_pages:
  assumes rows: "\<And>x. x \<in> set (catalogue d P) \<Longrightarrow> session_summary_row x = Inr (g x)"
    and pos: "\<And>x. x \<in> set (catalogue d P) \<Longrightarrow> sr_updated_at_ms (snd x) < i64_bound \<and> fst x < i64_bound"
    and cursor: "decode_cursor c = Inr k"
    and f: "\<And>c k. decode_cursor c = Inr k \<Longrightarrow> f c = summary_page d P k limit"
  shows "read_paged f fuel c
    = Inr (map g (read_pages (keyset_page past_cursor position (catalogue d P) limit) fuel k))"
  using cursor
proof (induction fuel arbitrary: c k)
  case (Suc fuel)
  obtain items nxt where page: "keyset_page past_cursor position (catalogue d P) limit k = (items, nxt)"
    by force
  have fc: "f c = Inr \<lparr>pg_items = map g items,
       pg_next_cursor = map_option (\<lambda>(u, i). encode_session_cursor u i) nxt\<rparr>"
    using f [OF Suc.prems] summary_page_keyset [OF rows, where k = k and limit = limit] page by simp
  show ?case
  proof (cases nxt)
    case None
    then show ?thesis using fc page by simp
  next
    case (Some key)
    let ?fetched = "fetch_rows d P k limit"
    have "key = position (?fetched ! (limit - 1))" "limit < length ?fetched"
      using page Some by (auto simp: keyset_page_def fetch_rows_def Let_def split: if_splits)
    moreover from this have "?fetched ! (limit - 1) \<in> set ?fetched" by (intro nth_mem) linarith
    then have "?fetched ! (limit - 1) \<in> set (catalogue d P)"
      by (auto simp: fetch_rows_def dest: in_set_takeD)
    ultimately have "fst key < i64_bound \<and> snd key < i64_bound"
      using pos by (simp add: position_def)
    then have "decode_cursor (Some (encode_session_cursor (fst key) (snd key))) = Inr (Some key)"
      by (simp add: decode_cursor_def decode_encode_cursor)
    from Suc.IH [OF this] Some fc page show ?thesis by (simp add: split_beta)
  qed
qed simp

end
