(* ===== verification/List_Properties.thy ===== *)
theory List_Properties
  imports Session_Lists Service_Properties
begin

text \<open>
  Properties of the session catalogue: cursors survive the trip through the client, the
  pages of a search are the search, and what a search does not find.
\<close>

text \<open>
  A cursor comes back as it was issued: the position encoded in it is decoded again
  exactly, for every timestamp and rowid the database can hold.
\<close>

theorem cursors_roundtrip:
  assumes "updated < i64_bound" and "rowid < i64_bound"
  shows "decode_session_cursor (encode_session_cursor updated rowid) = Inr (updated, rowid)"
  by (rule decode_encode_cursor [OF assms])

theorem cursors_roundtrip_witness:
  "decode_session_cursor (encode_session_cursor 1750000000000 17) = Inr (1750000000000, 17)"
  by (rule cursors_roundtrip) (simp_all add: i64_bound_def)

subsection \<open>Pages of a search\<close>

lemma lifecycle_parses:
  assumes "session_ok d s"
  shows "\<exists>l. parse_lifecycle (sr_lifecycle s) = Inr l"
proof -
  have "idle_lifecycle (sr_lifecycle s) \<or> (\<exists>x. agrees (sr_lifecycle s) x)"
    using assms by (auto simp: session_ok_def split: option.splits)
  then show ?thesis
    by (auto simp: idle_lifecycle_def agrees_def parse_lifecycle_def)
qed

lemma catalogue_rows:
  assumes "x \<in> set (catalogue d P)"
  shows "snd x \<in> set (db_sessions d)" and "fst x \<le> length (db_sessions d)" and "P (snd x)"
proof -
  have "x \<in> set (enumerate 1 (db_sessions d))" "P (snd x)"
    using assms by (auto simp: catalogue_def)
  then show "snd x \<in> set (db_sessions d)" "fst x \<le> length (db_sessions d)" "P (snd x)"
    by (auto simp: in_set_enumerate_eq intro!: nth_mem elim!: subst [of "_ ! _"])
qed

lemma catalogue_length: "length (catalogue d P) \<le> length (db_sessions d)"
  by (simp add: catalogue_def) (metis length_enumerate length_filter_le)

text \<open>
  Searching page by page finds what one search finds: following the cursors until
  there is none returns every matching session of the workspace exactly once, newest
  first, for every page size.
\<close>

theorem search_pages_are_the_search:
  assumes "store_ok d" and "0 < limit" and "validate_workspace_root root = Inr root"
    and "length (db_sessions d) < i64_bound" and "\<forall>s \<in> set (db_sessions d). sr_updated_at_ms s < i64_bound"
  shows "read_paged (\<lambda>c. search_sessions_paged lc L d root query c limit) (Suc (length (db_sessions d))) None
    = collect_rows session_summary_row (catalogue d (search_matches L root (search_query lc query)))"
proof -
  let ?P = "search_matches L root (search_query lc query)"
  define g where "g x = projr (session_summary_row x)" for x
  have rows: "session_summary_row x = Inr (g x)" if "x \<in> set (catalogue d ?P)" for x
  proof -
    have "session_ok d (snd x)" using assms(1) catalogue_rows(1) [OF that] by (simp add: store_ok_def)
    from lifecycle_parses [OF this] show ?thesis by (auto simp: g_def session_summary_row_def)
  qed
  have "read_paged (\<lambda>c. search_sessions_paged lc L d root query c limit) (Suc (length (db_sessions d))) None
    = Inr (map g (read_pages (keyset_page past_cursor position (catalogue d ?P) (min limit 500))
        (Suc (length (db_sessions d))) None))"
  proof (rule read_summary_pages [OF rows])
    show "sr_updated_at_ms (snd x) < i64_bound \<and> fst x < i64_bound" if "x \<in> set (catalogue d ?P)" for x
      using catalogue_rows [OF that] assms(4,5) by auto
  qed (use assms(2,3) in \<open>simp_all add: decode_cursor_def search_sessions_paged_def\<close>)
  also have "read_pages (keyset_page past_cursor position (catalogue d ?P) (min limit 500))
      (Suc (length (db_sessions d))) None = catalogue d ?P"
    using catalogue_pages.pages_from [of "min limit 500" d ?P 0 "Suc (length (db_sessions d))" None]
      catalogue_length [of d ?P] assms(2) by simp
  finally have "read_paged (\<lambda>c. search_sessions_paged lc L d root query c limit)
      (Suc (length (db_sessions d))) None = Inr (map g (catalogue d ?P))" .
  also have "\<dots> = collect_rows session_summary_row (catalogue d ?P)"
    by (rule collect_rows_total [OF rows, symmetric])
  finally show ?thesis .
qed

text \<open>Two sessions, read one by one.\<close>

definition ex_two_db :: db where
  "ex_two_db = empty_db\<lparr>db_sessions := map (\<lambda>(sid, title, updated).
     \<lparr>sr_session_id = sid, sr_revision = 0, sr_last_seq = 0, sr_lifecycle = lit ''ready'',
      sr_binding = ex_binding, sr_latest_turn_id = None, sr_created_at_ms = 0,
      sr_updated_at_ms = updated, sr_focus = None, sr_title = title,
      sr_workspace_root = lit ''/w'', sr_parent_session_id = None\<rparr>)
     [(1, lit ''Alpha'', 5), (2, lit ''Beta'', 9)]\<rparr>"

lemma ex_two_db_ok: "store_ok ex_two_db"
  by (simp add: ex_two_db_def store_ok_def empty_db_def keys_ok_def effects_keyed_def leases_ok_def
      outbox_consistent_def sequences_ok_def owned_ok_def session_ok_def active_turn_def idle_lifecycle_def)

theorem search_pages_are_the_search_witness:
  "read_paged (\<lambda>c. search_sessions_paged id ex_lib ex_two_db (lit ''/w'') [] c 1) 3 None
    = collect_rows session_summary_row (catalogue ex_two_db (search_matches ex_lib (lit ''/w'') []))
   \<and> map fst (catalogue ex_two_db (search_matches ex_lib (lit ''/w'') [])) = [2, 1]"
proof
  have "validate_workspace_root (lit ''/w'') = Inr (lit ''/w'')"
    by (simp add: validate_workspace_root_def lit_def utf8_len_def len_utf8_def is_control_def)
  from search_pages_are_the_search [OF ex_two_db_ok _ this, of 1 id ex_lib "[]"]
  show "read_paged (\<lambda>c. search_sessions_paged id ex_lib ex_two_db (lit ''/w'') [] c 1) 3 None
    = collect_rows session_summary_row (catalogue ex_two_db (search_matches ex_lib (lit ''/w'') []))"
    by (simp add: ex_two_db_def empty_db_def i64_bound_def search_query_def trim_def numeral_3_eq_3)
  show "map fst (catalogue ex_two_db (search_matches ex_lib (lit ''/w'') [])) = [2, 1]"
    by (simp add: catalogue_def ex_two_db_def empty_db_def search_matches_def)
qed

text \<open>
  A search folds its query with the Unicode tables but the titles with SQLite's ASCII
  \<open>lower\<close>: a session is not found by its own title when that title has a capital letter
  outside ASCII (here U+00C9, whose lower case is U+00E9), although the exact lookup finds it.
\<close>

theorem search_misses_non_ascii_capitals:
  assumes "lc [201] = [233]" and "d = ex_two_db\<lparr>db_sessions := map (\<lambda>s. s\<lparr>sr_title := [201]\<rparr>) (db_sessions ex_two_db)\<rparr>"
  shows "search_sessions lc ex_lib d (lit ''/w'') [201] 10 = Inr []
    \<and> (\<exists>x y. find_sessions_by_exact_title_for_workspace d (lit ''/w'') [201] 10 = Inr [x, y])"
  using assms
  by (simp add: search_sessions_def validate_workspace_root_def utf8_len_def len_utf8_def is_control_def
      lit_def catalogue_def ex_two_db_def empty_db_def search_matches_def search_query_def trim_def is_white_def
      to_ascii_lowercase_def ex_lib_def find_sessions_by_exact_title_for_workspace_def session_summary_row_def
      parse_lifecycle_def)

theorem search_misses_non_ascii_capitals_witness:
  "\<exists>d. search_sessions (map (\<lambda>c. if c = 201 then 233 else c)) ex_lib d (lit ''/w'') [201] 10 = Inr []"
  using search_misses_non_ascii_capitals [of "map (\<lambda>c. if c = 201 then 233 else c)", OF _ refl] by auto

end
