(* ===== verification/Provider_Types.thy ===== *)
theory Provider_Types
  imports Store_Schema
begin

text \<open>
  Conversation messages and the chat-completions adapter of
  \<open>latte-headless/src/provider.rs\<close>: the message grammar, the decoding of an inline
  response, the classification of refused requests, the retry schedule and the
  request loop. HTTP, clocks and the deserialiser are outside: a request attempt is
  given by what the transport reported for it.
\<close>

subsection \<open>Messages\<close>

record tool_call =
  tc_id :: rstr
  tc_name :: rstr
  tc_input :: json

datatype message =
    System rstr
  | User rstr
  | Assistant "rstr option" "tool_call list"
  | Tool rstr "rstr option" rstr

fun is_role :: "message \<Rightarrow> rstr \<Rightarrow> bool" where
  "is_role (System _) role = (role = lit ''system'')"
| "is_role (User _) role = (role = lit ''user'')"
| "is_role (Assistant _ _) role = (role = lit ''assistant'')"
| "is_role (Tool _ _ _) role = (role = lit ''tool'')"

fun message_content :: "message \<Rightarrow> rstr option" where
  "message_content (System c) = Some c"
| "message_content (User c) = Some c"
| "message_content (Tool _ _ c) = Some c"
| "message_content (Assistant c _) = c"

text \<open>
  \<open>serde_json::from_value::<Vec<ToolCall>>\<close>: a struct is read from an object with its
  fields, unknown ones ignored, or from an array of exactly its fields.
\<close>

fun tool_call_of_json :: "json \<Rightarrow> tool_call option" where
  "tool_call_of_json (JObj kvs) =
     (case (map_of kvs (lit ''id''), map_of kvs (lit ''name''), map_of kvs (lit ''input'')) of
        (Some (JStr i), Some (JStr n), Some v) \<Rightarrow> Some \<lparr>tc_id = i, tc_name = n, tc_input = v\<rparr>
      | _ \<Rightarrow> None)"
| "tool_call_of_json (JArr [JStr i, JStr n, v]) = Some \<lparr>tc_id = i, tc_name = n, tc_input = v\<rparr>"
| "tool_call_of_json _ = None"

fun all_some :: "'a option list \<Rightarrow> 'a list option" where
  "all_some [] = Some []"
| "all_some (None # xs) = None"
| "all_some (Some x # xs) = map_option ((#) x) (all_some xs)"

definition tool_calls_of_json :: "json \<Rightarrow> tool_call list option" where
  "tool_calls_of_json j = (case j of JArr xs \<Rightarrow> all_some (map tool_call_of_json xs) | _ \<Rightarrow> None)"

definition tool_call_json :: "tool_call \<Rightarrow> json" where
  "tool_call_json c = json_obj
     [(lit ''id'', JStr (tc_id c)), (lit ''name'', JStr (tc_name c)), (lit ''input'', tc_input c)]"

text \<open>The continuation envelope that a tool round persists reads back as the same calls.\<close>

lemma tool_call_json_roundtrip: "tool_call_of_json (tool_call_json c) = Some c"
  by (cases c) (simp add: tool_call_json_def json_obj_def lit_def)

lemma tool_calls_json_roundtrip:
  "tool_calls_of_json (JArr (map tool_call_json cs)) = Some cs"
proof -
  have "all_some (map tool_call_of_json (map tool_call_json cs)) = Some cs"
    by (induction cs) (simp_all add: tool_call_json_roundtrip)
  then show ?thesis by (simp add: tool_calls_of_json_def)
qed

subsection \<open>Responses and errors\<close>

record input_request =
  ir_id :: rstr
  ir_prompt :: rstr
  ir_secret :: bool

record provider_usage =
  us_input_tokens :: "nat option"
  us_output_tokens :: "nat option"
  us_total_tokens :: "nat option"
  us_cached_tokens :: "nat option"

definition provider_usage_default :: provider_usage where
  "provider_usage_default = \<lparr>us_input_tokens = None, us_output_tokens = None,
     us_total_tokens = None, us_cached_tokens = None\<rparr>"

datatype finish_reason_kind = FrStop | FrToolCalls | FrLength | FrContentFilter | FrOther rstr

record provider_response =
  pr_message :: "rstr option"
  pr_tool_calls :: "tool_call list"
  pr_input_request :: "input_request option"
  pr_usage :: provider_usage
  pr_finish_reason :: "finish_reason_kind option"
  pr_provider_state :: "json option"

datatype provider_error =
    PeCancelled
  | Capability rstr
  | Http nat rstr bool
  | ContextOverflow rstr
  | PeTimeout
  | Transport rstr
  | Malformed rstr

fun provider_error_text :: "provider_error \<Rightarrow> rstr" where
  "provider_error_text PeCancelled = lit ''provider request cancelled''"
| "provider_error_text (Capability c) = lit ''provider capability unavailable: '' @ c"
| "provider_error_text (Http status request_id retryable) =
     lit ''provider rejected request: http '' @ nat_text status @ request_id"
| "provider_error_text (ContextOverflow request_id) =
     lit ''provider rejected request: context length exceeded'' @ request_id"
| "provider_error_text PeTimeout = lit ''provider timeout''"
| "provider_error_text (Transport e) = lit ''provider transport: '' @ e"
| "provider_error_text (Malformed e) = lit ''malformed provider response: '' @ e"

abbreviation malformed :: "string \<Rightarrow> provider_error" where
  "malformed msg \<equiv> Malformed (lit msg)"

subsection \<open>Tool calls\<close>

text \<open>\<open>validate_tool_calls\<close>: each identifier is well formed and was not seen before.\<close>

fun fresh_ids :: "rstr set \<Rightarrow> tool_call list \<Rightarrow> bool" where
  "fresh_ids ids [] = True"
| "fresh_ids ids (c # cs) = (valid_openai_chat_opaque_id (tc_id c) \<and> tc_id c \<notin> ids
     \<and> fresh_ids (insert (tc_id c) ids) cs)"

definition validate_tool_calls :: "tool_call list \<Rightarrow> provider_error + unit" where
  "validate_tool_calls calls =
     (if fresh_ids {} calls then Inr ()
      else Inl (malformed ''tool call ids must match [A-Za-z0-9_-]{1,256} and be unique''))"

lemma fresh_ids_iff:
  "fresh_ids ids cs \<longleftrightarrow> (\<forall>c \<in> set cs. valid_openai_chat_opaque_id (tc_id c))
     \<and> distinct (map tc_id cs) \<and> set (map tc_id cs) \<inter> ids = {}"
  by (induction cs arbitrary: ids) auto

lemma validate_tool_calls_Inr:
  "validate_tool_calls cs = Inr u \<longleftrightarrow>
     (\<forall>c \<in> set cs. valid_openai_chat_opaque_id (tc_id c)) \<and> distinct (map tc_id cs)"
  by (auto simp: validate_tool_calls_def fresh_ids_iff)

fun traverse :: "('a \<Rightarrow> 'e + 'b) \<Rightarrow> 'a list \<Rightarrow> 'e + 'b list" where
  "traverse f [] = Inr []"
| "traverse f (x # xs) = bindE (f x) (\<lambda>y. bindE (traverse f xs) (\<lambda>ys. Inr (y # ys)))"

lemma traverse_Inr: "traverse f xs = Inr ys \<longleftrightarrow> list_all2 (\<lambda>x y. f x = Inr y) xs ys"
  by (induction xs arbitrary: ys) (auto simp: list_all2_Cons1)

lemma traverse_ok: "\<forall>x \<in> set xs. f x = Inr (g x) \<Longrightarrow> traverse f xs = Inr (map g xs)"
  by (induction xs) auto

definition args_json :: "lib \<Rightarrow> rstr \<Rightarrow> provider_error + json" where
  "args_json L s = ok_or (Malformed (json_error L s)) (json_parse L s)"

subsection \<open>Inline responses\<close>

record wire_call =
  wc_id :: rstr
  wc_name :: rstr
  wc_arguments :: rstr

record wire_usage =
  wu_prompt_tokens :: "nat option"
  wu_completion_tokens :: "nat option"
  wu_total_tokens :: "nat option"
  wu_prompt_tokens_details :: "nat option option"

record wire_choice =
  wm_content :: "rstr option"
  wm_tool_calls :: "wire_call list"
  wm_input_request :: "input_request option"
  wm_finish_reason :: "rstr option"

record wire =
  wr_choices :: "wire_choice list"
  wr_usage :: "wire_usage option"
  wr_provider_state :: "json option"

definition finish_reason :: "rstr \<Rightarrow> finish_reason_kind" where
  "finish_reason reason =
     (if reason = lit ''stop'' then FrStop
      else if reason = lit ''tool_calls'' then FrToolCalls
      else if reason = lit ''length'' then FrLength
      else if reason = lit ''content_filter'' then FrContentFilter
      else FrOther reason)"

definition usage_from_wire :: "wire_usage option \<Rightarrow> provider_usage" where
  "usage_from_wire usage = (case usage of
     None \<Rightarrow> provider_usage_default
   | Some u \<Rightarrow> \<lparr>us_input_tokens = wu_prompt_tokens u, us_output_tokens = wu_completion_tokens u,
       us_total_tokens = wu_total_tokens u,
       us_cached_tokens = Option.bind (wu_prompt_tokens_details u) (\<lambda>details. details)\<rparr>)"

definition decode_tool_call :: "lib \<Rightarrow> wire_call \<Rightarrow> provider_error + tool_call" where
  "decode_tool_call L c = bindE (args_json L (wc_arguments c)) (\<lambda>v.
     Inr \<lparr>tc_id = wc_id c, tc_name = wc_name c, tc_input = v\<rparr>)"

definition decode_tool_calls :: "lib \<Rightarrow> wire_call list \<Rightarrow> provider_error + tool_call list" where
  "decode_tool_calls L values =
     bindE (traverse (decode_tool_call L) values) (\<lambda>calls.
     bindE (validate_tool_calls calls) (\<lambda>_. Inr calls))"

definition decode_wire :: "lib \<Rightarrow> wire \<Rightarrow> bool \<Rightarrow> provider_error + provider_response" where
  "decode_wire L w compatibility_input_request =
     (if wr_provider_state w \<noteq> None
      then Inl (Capability (lit ''openai-chat does not support provider state''))
      else case wr_choices w of
        [] \<Rightarrow> Inl (malformed ''missing choices'')
      | m # _ \<Rightarrow>
          if wm_input_request m \<noteq> None \<and> \<not> compatibility_input_request
          then Inl (malformed (''nonstandard message.input_request requires '' @
                 ''compatibility_input_request''))
          else bindE (decode_tool_calls L (wm_tool_calls m)) (\<lambda>calls.
            Inr \<lparr>pr_message = wm_content m, pr_tool_calls = calls,
              pr_input_request = wm_input_request m, pr_usage = usage_from_wire (wr_usage w),
              pr_finish_reason = map_option finish_reason (wm_finish_reason m),
              pr_provider_state = None\<rparr>))"

lemma decode_tool_calls_valid:
  "decode_tool_calls L ws = Inr cs \<Longrightarrow>
     (\<forall>c \<in> set cs. valid_openai_chat_opaque_id (tc_id c)) \<and> distinct (map tc_id cs)"
  by (auto simp: decode_tool_calls_def validate_tool_calls_Inr)

lemma decode_wire_valid:
  assumes "decode_wire L w allow = Inr r"
  shows "\<forall>c \<in> set (pr_tool_calls r). valid_openai_chat_opaque_id (tc_id c)"
    and "distinct (map tc_id (pr_tool_calls r))"
  using assms
  by (auto simp: decode_wire_def split: if_splits list.splits dest!: decode_tool_calls_valid)

subsection \<open>Refused requests\<close>

definition is_retryable_status :: "nat \<Rightarrow> bool" where
  "is_retryable_status status \<longleftrightarrow> status \<in> {408, 429, 502, 503, 504}"

definition CONTEXT_OVERFLOW_CODES :: "rstr list" where
  "CONTEXT_OVERFLOW_CODES = [lit ''context_length_exceeded'', lit ''string_above_max_length'',
     lit ''invalid_request_error.context_length_exceeded'']"

definition CONTEXT_OVERFLOW_MESSAGE_MARKERS :: "rstr list" where
  "CONTEXT_OVERFLOW_MESSAGE_MARKERS = [lit ''maximum context length'', lit ''context length'',
     lit ''context window'', lit ''too many tokens'']"

text \<open>
  The body is given as the value \<open>serde_json::from_slice\<close> read from it, or, where it is
  not JSON, as its lossy text.
\<close>

datatype error_body = JsonBody json | TextBody rstr

definition json_text_field :: "string \<Rightarrow> json \<Rightarrow> rstr" where
  "json_text_field k j =
     (case Option.bind (json_get (lit k) j) json_as_str of None \<Rightarrow> [] | Some s \<Rightarrow> s)"

fun body_signals_context_overflow :: "error_body \<Rightarrow> bool" where
  "body_signals_context_overflow (JsonBody value) =
     (let err = (case json_get (lit ''error'') value of Some e \<Rightarrow> e | None \<Rightarrow> value);
          raw = (case json_get (lit ''code'') err of Some c \<Rightarrow> Some c
                 | None \<Rightarrow> json_get (lit ''type'') err);
          code = to_ascii_lowercase
            (case Option.bind raw json_as_str of None \<Rightarrow> [] | Some s \<Rightarrow> s);
          msg = to_ascii_lowercase (json_text_field ''message'' err)
      in code \<in> set CONTEXT_OVERFLOW_CODES
         \<or> list_ex (\<lambda>marker. contains marker msg) CONTEXT_OVERFLOW_MESSAGE_MARKERS)"
| "body_signals_context_overflow (TextBody text) =
     list_ex (\<lambda>marker. contains marker (to_ascii_lowercase text)) CONTEXT_OVERFLOW_MESSAGE_MARKERS"

definition classify_http_error :: "nat \<Rightarrow> rstr \<Rightarrow> error_body \<Rightarrow> provider_error" where
  "classify_http_error status request_id body =
     (if status \<in> {400, 413} \<and> body_signals_context_overflow body
      then ContextOverflow request_id
      else Http status request_id (is_retryable_status status))"

subsection \<open>Headers\<close>

definition RESERVED_HEADERS :: "rstr list" where
  "RESERVED_HEADERS =
     [lit ''authorization'', lit ''content-type'', lit ''host'', lit ''content-length'']"

definition with_headers :: "(rstr \<times> rstr) list \<Rightarrow> (rstr \<times> rstr) list" where
  "with_headers headers =
     filter (\<lambda>(name, _). to_ascii_lowercase name \<notin> set RESERVED_HEADERS) headers"

subsection \<open>Attempts\<close>

text \<open>
  \<open>retry_pause\<close> in milliseconds: the server's \<open>retry-after\<close> seconds or an exponential
  delay, at most two seconds, and never up to the deadline. \<open>left\<close> is the time to the
  deadline, \<open>cancelled\<close> whether the token fires during the pause.
\<close>

definition retry_delay_ms :: "nat \<Rightarrow> nat option \<Rightarrow> nat" where
  "retry_delay_ms attempt retry_after_s =
     min (case retry_after_s of Some s \<Rightarrow> 1000 * s
          | None \<Rightarrow> 100 * 2 ^ min (saturating_sub attempt 1) 4) 2000"

definition retry_pause :: "nat \<Rightarrow> nat option \<Rightarrow> nat \<Rightarrow> bool \<Rightarrow> provider_error + unit" where
  "retry_pause attempt retry_after_s left cancelled =
     (if left \<le> retry_delay_ms attempt retry_after_s then Inl PeTimeout
      else if cancelled then Inl PeCancelled else Inr ())"

text \<open>What one pass of the request loop observes of the outside.\<close>

datatype 'r sent =
    SendElapsed
  | SendConnectFailed bool rstr
  | SendFailed bool rstr
  | Sent nat "nat option" 'r

record 'r attempt =
  at_cancelled :: bool
  at_remaining_ms :: nat
  at_sent :: "'r sent"
  at_left_ms :: nat
  at_cancelled_in_pause :: bool

definition is_success :: "nat \<Rightarrow> bool" where
  "is_success status \<longleftrightarrow> 200 \<le> status \<and> status < 300"

definition send_error :: "bool \<Rightarrow> rstr \<Rightarrow> provider_error" where
  "send_error timeout text = (if timeout then PeTimeout else Transport text)"

text \<open>
  The request loop of \<open>complete\<close> from attempt \<open>n\<close> on. \<open>None\<close>: the observations end before
  the loop does.
\<close>

fun request_loop :: "nat \<Rightarrow> nat \<Rightarrow> 'r attempt list \<Rightarrow> (provider_error + nat \<times> 'r) option" where
  "request_loop max_attempts n [] = None"
| "request_loop max_attempts n (a # as) =
     (let again = (\<lambda>retry_after.
            case retry_pause n retry_after (at_left_ms a) (at_cancelled_in_pause a) of
              Inl e \<Rightarrow> Some (Inl e)
            | Inr _ \<Rightarrow> request_loop max_attempts (n + 1) as)
      in if at_cancelled a then Some (Inl PeCancelled)
         else if at_remaining_ms a = 0 then Some (Inl PeTimeout)
         else case at_sent a of
           SendElapsed \<Rightarrow> Some (Inl PeTimeout)
         | SendConnectFailed timeout text \<Rightarrow>
             if n < max_attempts then again None else Some (Inl (send_error timeout text))
         | SendFailed timeout text \<Rightarrow> Some (Inl (send_error timeout text))
         | Sent status retry_after response \<Rightarrow>
             if \<not> is_success status \<and> is_retryable_status status \<and> n < max_attempts
             then again retry_after
             else Some (Inr (status, response)))"

text \<open>At most \<open>max_attempts\<close> attempts are looked at, so they always settle the loop.\<close>

lemma request_loop_settles:
  "n \<le> m \<Longrightarrow> m - n < length as \<Longrightarrow> request_loop m n as \<noteq> None"
proof (induction as arbitrary: n)
  case (Cons a as)
  have "request_loop m (n + 1) as \<noteq> None" if "n < m"
    using Cons.prems that by (intro Cons.IH) auto
  then show ?case by (auto simp: Let_def split: sent.split sum.split)
qed simp

end
