(* ===== verification/Headless_Profile.thy ===== *)
theory Headless_Profile
  imports Harness_Profile Store_Schema
begin

text \<open>
  Resolution of harness profiles, \<open>latte-headless/src/profile.rs\<close>: the built-in profile
  of a provider type, the application configuration layered over it, the declared
  context window of the model, and the history policy that the agent loop reads
  from the result (\<open>SessionHistoryPolicy\<close> of \<open>session.rs\<close>). The provider registry is
  the function that looks up a model's context window.
\<close>

subsection \<open>History policy\<close>

record history_policy =
  hp_max_request_bytes :: nat
  hp_max_input_bytes :: nat
  hp_reserved_output_bytes :: nat
  hp_context_cap_bytes :: nat
  hp_max_tool_rounds :: "nat option"
  hp_provider_timeout_ms :: nat

definition history_policy_default :: history_policy where
  "history_policy_default = \<lparr>hp_max_request_bytes = 512 * 1024,
     hp_max_input_bytes = 384 * 1024, hp_reserved_output_bytes = 128 * 1024,
     hp_context_cap_bytes = 64 * 1024, hp_max_tool_rounds = None,
     hp_provider_timeout_ms = 60000\<rparr>"

definition history_policy_validate :: "history_policy \<Rightarrow> rstr + unit" where
  "history_policy_validate p =
     (if hp_max_request_bytes p = 0 \<or> hp_max_input_bytes p = 0
         \<or> hp_reserved_output_bytes p \<ge> hp_max_input_bytes p \<or> hp_context_cap_bytes p = 0
      then Inl (lit (''max_request_bytes/context cap must be nonzero '' @
             ''and reserved output must be smaller than input budget''))
      else if hp_max_tool_rounds p = Some 0
        then Inl (lit ''max_tool_rounds must be omitted (unlimited) or at least 1'')
      else if hp_provider_timeout_ms p = 0
        then Inl (lit ''provider_timeout_ms must be nonzero'')
      else Inr ())"

subsection \<open>The built-in profile\<close>

datatype profile_error =
    UnknownProviderType rstr
  | ProfileInvalid rstr rstr

fun profile_error_text :: "profile_error \<Rightarrow> rstr" where
  "profile_error_text (UnknownProviderType t) =
     lit ''no harness profile for provider type `'' @ t @
     lit ''`; refusing to start without an explicit profile''"
| "profile_error_text (ProfileInvalid p reason) =
     lit ''invalid harness profile for `'' @ p @ lit ''`: '' @ reason"

definition AGENT_SYSTEM_PROMPT_TEMPLATE :: rstr where
  "AGENT_SYSTEM_PROMPT_TEMPLATE =
     lit ''You are Latte Code, a coding agent making scoped changes to the repository '' @
     lit ''described below. Work only within it: paths outside the workspace are '' @
     lit ''rejected, and you cannot reach the network.'' @ [10] @ [10] @
     lit ''Read before you write. To change an existing file, first call `read_file` on '' @
     lit ''it and pass the `sha256` it returns as `precondition` to `edit_file` or '' @
     lit ''`write_file`. A mutation without the digest of the version you actually read '' @
     lit ''is rejected, and this holds again for every later edit to the same file: '' @
     lit ''re-read to get the new digest. Prefer `edit_file`, whose `before` must match '' @
     lit ''the file verbatim and occur exactly once; reach for `write_file` only to '' @
     lit ''create a file or to rewrite one whole.'' @ [10] @ [10] @
     lit ''Understand before you change. Locate the relevant code with `search` and '' @
     lit ''`list_directory`, and read enough of it that your edit follows what is '' @
     lit ''already there. `read_project_manifest` shows the language and dependencies. '' @
     lit ''Do not invent APIs, dependencies, or file paths you have not observed.'' @ [10] @ [10] @
     lit ''Finish what you start. After editing, check your own work with `git_diff`. '' @
     lit ''When a verification command is configured it must pass before the task is '' @
     lit ''complete; a failing, missing, or unrun verification means the work is '' @
     lit ''unfinished. Report plainly what you changed and what you verified. If a tool '' @
     lit ''call is rejected, read the error and correct the call rather than repeating '' @
     lit ''it unchanged. If the task is ambiguous or you lack the means to finish it, '' @
     lit ''say so instead of guessing.'' @ [10] @ lit ''{repository_context}''"

definition AGENT_SUMMARIZE_PROMPT_TEMPLATE :: rstr where
  "AGENT_SUMMARIZE_PROMPT_TEMPLATE =
     lit ''You are compacting the earlier history of a coding-agent conversation that no '' @
     lit ''longer fits its request budget. Produce a terse factual summary of the '' @
     lit ''transcript below so a fresh model instance can continue the work without the '' @
     lit ''original turns.'' @ [10] @ [10] @
     lit ''Preserve, in this priority order: the user's goal and any corrections to it; '' @
     lit ''every decision made and its reason; every file path, command, and '' @
     lit ''verification result that is still relevant; open questions and unfinished '' @
     lit ''work. Omit small talk, retries, and superseded attempts. Do not invent '' @
     lit ''anything that is not in the transcript. The transcript may contain an earlier '' @
     lit ''`[compacted summary]` block: treat it as a prior checkpoint, merge it into '' @
     lit ''one consolidated summary '' @ [8212] @
     lit '' preserve still-true facts and drop stale ones '' @ [8212] @
     lit '' and never copy it verbatim. Reply with the summary only.'' @ [10] @ [10] @
     lit ''Transcript:'' @ [10]"

definition BUILTIN_PROVIDER_TYPES :: "rstr list" where
  "BUILTIN_PROVIDER_TYPES = [lit ''openai-chat'', lit ''embedded'', lit ''test'']"

definition DEFAULT_BUILTIN_PROVIDER_TYPE :: rstr where
  "DEFAULT_BUILTIN_PROVIDER_TYPE = lit ''openai-chat''"

definition GENERIC_OPENAI_CHAT_PROFILE_ID :: rstr where
  "GENERIC_OPENAI_CHAT_PROFILE_ID = lit ''generic-openai-chat''"

definition AGENT_SYSTEM_PROMPT_SLOT :: rstr where
  "AGENT_SYSTEM_PROMPT_SLOT = lit ''agent.system''"

definition builtin_profile :: "rstr \<Rightarrow> profile_error + harness_profile" where
  "builtin_profile provider_type =
     (if provider_type \<notin> set BUILTIN_PROVIDER_TYPES
      then Inl (UnknownProviderType provider_type)
      else Inr \<lparr>hp_profile_id = GENERIC_OPENAI_CHAT_PROFILE_ID, hp_version = V1_0,
        hp_context = context_policy_default
          \<lparr>ctx_max_request_bytes := 512 * 1024, ctx_max_input_bytes := 384 * 1024,
           ctx_reserved_output_bytes := 128 * 1024, ctx_context_cap_bytes := 64 * 1024,
           ctx_max_tool_rounds := None, ctx_provider_timeout_ms := 60000\<rparr>,
        hp_prompts = [(AGENT_SYSTEM_PROMPT_SLOT, AGENT_SYSTEM_PROMPT_TEMPLATE),
                      (AGENT_SUMMARIZE_PROMPT_SLOT, AGENT_SUMMARIZE_PROMPT_TEMPLATE)]\<rparr>)"

subsection \<open>Layers\<close>

definition context_of_history :: "history_policy \<Rightarrow> context_policy" where
  "context_of_history p = \<lparr>ctx_max_request_bytes = hp_max_request_bytes p,
     ctx_max_input_bytes = hp_max_input_bytes p,
     ctx_reserved_output_bytes = hp_reserved_output_bytes p,
     ctx_context_cap_bytes = hp_context_cap_bytes p, ctx_max_tool_rounds = hp_max_tool_rounds p,
     ctx_provider_timeout_ms = hp_provider_timeout_ms p,
     ctx_compaction = compaction_policy_default,
     ctx_token_estimate = ctx_token_estimate context_policy_default\<rparr>"

text \<open>A configured field wins where it differs from the configuration layer's own default.\<close>

definition layer_budget :: "context_policy \<Rightarrow> context_policy \<Rightarrow> context_policy" where
  "layer_budget builtin base =
     (let config_default = context_of_history history_policy_default
      in \<lparr>ctx_max_request_bytes =
            (if ctx_max_request_bytes base = ctx_max_request_bytes config_default
             then ctx_max_request_bytes builtin else ctx_max_request_bytes base),
          ctx_max_input_bytes =
            (if ctx_max_input_bytes base = ctx_max_input_bytes config_default
             then ctx_max_input_bytes builtin else ctx_max_input_bytes base),
          ctx_reserved_output_bytes =
            (if ctx_reserved_output_bytes base = ctx_reserved_output_bytes config_default
             then ctx_reserved_output_bytes builtin else ctx_reserved_output_bytes base),
          ctx_context_cap_bytes =
            (if ctx_context_cap_bytes base = ctx_context_cap_bytes config_default
             then ctx_context_cap_bytes builtin else ctx_context_cap_bytes base),
          ctx_max_tool_rounds =
            (if ctx_max_tool_rounds base = ctx_max_tool_rounds config_default
             then ctx_max_tool_rounds builtin else ctx_max_tool_rounds base),
          ctx_provider_timeout_ms =
            (if ctx_provider_timeout_ms base = ctx_provider_timeout_ms config_default
             then ctx_provider_timeout_ms builtin else ctx_provider_timeout_ms base),
          ctx_compaction =
            (if cp_strategy (ctx_compaction base) = CsOff then ctx_compaction builtin
             else ctx_compaction base),
          ctx_token_estimate = ctx_token_estimate builtin\<rparr>)"

subsection \<open>The catalogue\<close>

text \<open>
  \<open>ProfileCatalog\<close>: the base policy and, when a registry is attached, its lookup of a
  declared context window by provider name and model (\<open>model_context_window\<close>).
\<close>

record profile_catalog =
  pc_base :: context_policy
  pc_registry :: "(rstr \<Rightarrow> rstr \<Rightarrow> nat option) option"

definition catalog_new ::
  "context_policy \<Rightarrow> (rstr \<Rightarrow> rstr \<Rightarrow> nat option) \<Rightarrow> profile_error + profile_catalog" where
  "catalog_new base registry =
     bindE (map_err (ProfileInvalid GENERIC_OPENAI_CHAT_PROFILE_ID) (context_policy_validate base))
       (\<lambda>_. Inr \<lparr>pc_base = base, pc_registry = Some registry\<rparr>)"

definition catalog_without_registry :: "context_policy \<Rightarrow> profile_catalog" where
  "catalog_without_registry base = \<lparr>pc_base = base, pc_registry = None\<rparr>"

text \<open>The shared end of \<open>resolve_base\<close> and \<open>resolve\<close>: validate the context, then install it.\<close>

definition resolved_with :: "harness_profile \<Rightarrow> context_policy \<Rightarrow> profile_error + harness_profile" where
  "resolved_with builtin context =
     bindE (map_err (ProfileInvalid (hp_profile_id builtin)) (context_policy_validate context))
       (\<lambda>_. Inr (builtin\<lparr>hp_context := context\<rparr>))"

definition resolve_base :: "profile_catalog \<Rightarrow> profile_error + harness_profile" where
  "resolve_base c =
     bindE (builtin_profile DEFAULT_BUILTIN_PROVIDER_TYPE) (\<lambda>builtin. resolved_with builtin (pc_base c))"

definition usize_saturating_mul :: "nat \<Rightarrow> nat \<Rightarrow> nat" where
  "usize_saturating_mul a b = min (a * b) (u64_bound - 1)"

definition tighten_window :: "nat option \<Rightarrow> context_policy \<Rightarrow> context_policy" where
  "tighten_window window context = (case window of
     None \<Rightarrow> context
   | Some w \<Rightarrow> context\<lparr>ctx_context_cap_bytes := min (ctx_context_cap_bytes context)
       (usize_saturating_mul w (te_bytes_per_token (ctx_token_estimate context)))\<rparr>)"

definition resolve ::
  "profile_catalog \<Rightarrow> session_provider_binding \<Rightarrow> profile_error + harness_profile" where
  "resolve c b =
     bindE (builtin_profile (pb_provider_type b)) (\<lambda>builtin.
     let window = (case pc_registry c of
           None \<Rightarrow> None
         | Some registry \<Rightarrow> registry (pb_provider_name b) (pb_model b))
     in resolved_with builtin (tighten_window window (layer_budget (hp_context builtin) (pc_base c))))"

subsection \<open>The resolved profile\<close>

definition profile_history_policy :: "harness_profile \<Rightarrow> history_policy" where
  "profile_history_policy h =
     \<lparr>hp_max_request_bytes = ctx_max_request_bytes (hp_context h),
      hp_max_input_bytes = ctx_max_input_bytes (hp_context h),
      hp_reserved_output_bytes = ctx_reserved_output_bytes (hp_context h),
      hp_context_cap_bytes = ctx_context_cap_bytes (hp_context h),
      hp_max_tool_rounds = ctx_max_tool_rounds (hp_context h),
      hp_provider_timeout_ms = ctx_provider_timeout_ms (hp_context h)\<rparr>"

definition prompt_slot :: "harness_profile \<Rightarrow> rstr \<Rightarrow> rstr \<Rightarrow> profile_error + rstr" where
  "prompt_slot h slot ctx =
     ok_or (ProfileInvalid (hp_profile_id h) (lit ''missing prompt slot `'' @ slot @ lit ''`''))
       (prompt_render (hp_prompts h) slot ctx)"

definition system_prompt :: "harness_profile \<Rightarrow> rstr \<Rightarrow> profile_error + rstr" where
  "system_prompt h repository_context = prompt_slot h AGENT_SYSTEM_PROMPT_SLOT repository_context"

definition summarize_prompt :: "harness_profile \<Rightarrow> profile_error + rstr" where
  "summarize_prompt h = prompt_slot h AGENT_SUMMARIZE_PROMPT_SLOT []"

definition profile_compaction :: "harness_profile \<Rightarrow> compaction_policy" where
  "profile_compaction h = ctx_compaction (hp_context h)"

subsection \<open>What resolution guarantees\<close>

lemma resolved_with_Inr:
  "resolved_with b ctx = Inr h \<longleftrightarrow>
     context_policy_validate ctx = Inr () \<and> h = b\<lparr>hp_context := ctx\<rparr>"
  by (auto simp: resolved_with_def)

lemma builtin_profile_Inr:
  "builtin_profile ty = Inr h \<Longrightarrow>
     ty \<in> set BUILTIN_PROVIDER_TYPES \<and> hp_profile_id h = GENERIC_OPENAI_CHAT_PROFILE_ID
     \<and> hp_prompts h = [(AGENT_SYSTEM_PROMPT_SLOT, AGENT_SYSTEM_PROMPT_TEMPLATE),
                       (AGENT_SUMMARIZE_PROMPT_SLOT, AGENT_SUMMARIZE_PROMPT_TEMPLATE)]"
  by (auto simp: builtin_profile_def split: if_splits)

lemma prompt_slots_differ: "AGENT_SYSTEM_PROMPT_SLOT \<noteq> AGENT_SUMMARIZE_PROMPT_SLOT"
  by (simp add: AGENT_SYSTEM_PROMPT_SLOT_def AGENT_SUMMARIZE_PROMPT_SLOT_def)

text \<open>A resolved profile is valid, so its history policy is, and both its prompts render.\<close>

lemma resolve_valid:
  assumes "resolve c b = Inr h"
  shows "context_policy_validate (hp_context h) = Inr ()"
    and "pb_provider_type b \<in> set BUILTIN_PROVIDER_TYPES"
    and "\<exists>s. system_prompt h ctx = Inr s"
    and "\<exists>s. summarize_prompt h = Inr s"
proof -
  obtain builtin where b: "builtin_profile (pb_provider_type b) = Inr builtin"
    and h: "hp_prompts h = hp_prompts builtin" "context_policy_validate (hp_context h) = Inr ()"
    using assms by (auto simp: resolve_def Let_def resolved_with_Inr)
  note builtin = builtin_profile_Inr [OF b]
  show "context_policy_validate (hp_context h) = Inr ()" by (rule h)
  show "pb_provider_type b \<in> set BUILTIN_PROVIDER_TYPES" using builtin by simp
  show "\<exists>s. system_prompt h ctx = Inr s" and "\<exists>s. summarize_prompt h = Inr s"
    using builtin h(1) prompt_slots_differ
    by (simp_all add: system_prompt_def summarize_prompt_def prompt_slot_def prompt_render_def)
qed

text \<open>A declared window only tightens the cap, and touches nothing else.\<close>

lemma tighten_window_le: "ctx_context_cap_bytes (tighten_window w c) \<le> ctx_context_cap_bytes c"
  by (simp add: tighten_window_def split: option.split)

lemma tighten_window_budget: "request_budget_bytes (tighten_window w c) = request_budget_bytes c"
  by (simp add: tighten_window_def request_budget_bytes_def split: option.split)

lemma history_policy_valid:
  assumes "context_policy_validate (hp_context h) = Inr ()"
  shows "history_policy_validate (profile_history_policy h) = Inr ()"
  using assms
  by (auto simp: context_policy_validate_Inr history_policy_validate_def profile_history_policy_def)

end
