(* ===== verification/Headless_History.thy ===== *)
theory Headless_History
  imports Provider_Types Headless_Profile
begin

text \<open>
  The provider history of \<open>latte-headless/src/session.rs\<close>: the user segments that are
  rebuilt from the durable transcript, the deterministic elision of tool results, the
  sources of a compaction summary, and the framing of volatile context. The number of
  bytes of a serialised message list (\<open>serde_json::to_vec\<close>) is a parameter.
\<close>

subsection \<open>Errors, sizes, budgets\<close>

datatype runtime_error =
    ErStorage storage_error
  | ErProviderConfiguration rstr
  | ErProvider provider_error
  | ErHistory rstr
  | ErInvalidState
  | ErMailboxFull
  | ErEffect rstr

type_synonym wire_size = "message list \<Rightarrow> rstr + nat"

definition wire_bytes :: "wire_size \<Rightarrow> message list \<Rightarrow> runtime_error + nat" where
  "wire_bytes W messages = map_err ErHistory (W messages)"

definition history_budget :: "history_policy \<Rightarrow> runtime_error + nat" where
  "history_budget p =
     bindE (map_err ErHistory (history_policy_validate p)) (\<lambda>_.
     Inr (min (hp_max_request_bytes p) (hp_max_input_bytes p - hp_reserved_output_bytes p)))"

definition enforce_budget ::
  "wire_size \<Rightarrow> message list \<Rightarrow> history_policy \<Rightarrow> runtime_error + message list" where
  "enforce_budget W messages policy =
     bindE (wire_bytes W messages) (\<lambda>bytes.
     bindE (history_budget policy) (\<lambda>budget.
     if bytes > budget
     then Inl (ErHistory (lit ''request is '' @ nat_text bytes @
            lit '' bytes and exceeds the exact budget''))
     else Inr messages))"

lemma enforce_budget_Inr:
  "enforce_budget W ms p = Inr r \<longleftrightarrow>
     r = ms \<and> (\<exists>b budget. W ms = Inr b \<and> history_budget p = Inr budget \<and> b \<le> budget)"
  by (auto simp: enforce_budget_def wire_bytes_def)

subsection \<open>Tool grammar\<close>

definition SESSION_VERIFICATION_EFFECT_PREFIX :: rstr where
  "SESSION_VERIFICATION_EFFECT_PREFIX = lit ''session-verification:''"

definition LEGACY_THREAD_VERIFICATION_EFFECT_PREFIX :: rstr where
  "LEGACY_THREAD_VERIFICATION_EFFECT_PREFIX = lit ''thread-verification:''"

definition is_verification_effect_id :: "rstr \<Rightarrow> bool" where
  "is_verification_effect_id request_id \<longleftrightarrow>
     strip_prefix SESSION_VERIFICATION_EFFECT_PREFIX request_id \<noteq> None
     \<or> strip_prefix LEGACY_THREAD_VERIFICATION_EFFECT_PREFIX request_id \<noteq> None"

fun message_calls :: "message \<Rightarrow> tool_call list" where
  "message_calls (Assistant _ calls) = calls"
| "message_calls _ = []"

definition declared_tool_call :: "message list \<Rightarrow> rstr \<Rightarrow> bool" where
  "declared_tool_call segment tool_call_id \<longleftrightarrow>
     list_ex (\<lambda>m. list_ex (\<lambda>c. tc_id c = tool_call_id) (message_calls m)) segment"

fun newest_calls :: "message list \<Rightarrow> tool_call list" where
  "newest_calls [] = []"
| "newest_calls (Assistant _ calls # ms) = calls"
| "newest_calls (m # ms) = newest_calls ms"

fun observed_ids :: "message list \<Rightarrow> rstr list" where
  "observed_ids [] = []"
| "observed_ids (Tool i _ _ # ms) = i # observed_ids ms"
| "observed_ids (m # ms) = observed_ids ms"

definition denied_text :: rstr where
  "denied_text = lit ''permission denied by user; tool was not executed''"

definition append_denied_tool_results :: "message list \<Rightarrow> message list" where
  "append_denied_tool_results segment =
     segment @ map (\<lambda>c. Tool (tc_id c) (Some (tc_name c)) denied_text)
       (filter (\<lambda>c. tc_id c \<notin> set (observed_ids segment)) (newest_calls (rev segment)))"

subsection \<open>Segments\<close>

record history_segment =
  hs_messages :: "message list"
  hs_text :: rstr
  hs_first_sequence :: "nat option"
  hs_max_sequence :: "nat option"
  hs_from_summary :: bool
  hs_turn_id :: "uuid option"
  hs_tool_results :: "(nat \<times> rstr) list"

definition segment_new ::
  "nat option \<Rightarrow> uuid option \<Rightarrow> message list \<Rightarrow> rstr \<Rightarrow> history_segment" where
  "segment_new first_sequence turn_id messages text =
     \<lparr>hs_messages = messages, hs_text = text, hs_first_sequence = first_sequence,
      hs_max_sequence = first_sequence, hs_from_summary = False, hs_turn_id = turn_id,
      hs_tool_results = []\<rparr>"

definition summary_segment ::
  "nat \<Rightarrow> uuid option \<Rightarrow> message \<Rightarrow> rstr \<Rightarrow> history_segment" where
  "summary_segment sequence turn_id message text =
     \<lparr>hs_messages = [message], hs_text = text, hs_first_sequence = Some sequence,
      hs_max_sequence = Some sequence, hs_from_summary = True, hs_turn_id = turn_id,
      hs_tool_results = []\<rparr>"

definition push_message :: "message \<Rightarrow> history_segment \<Rightarrow> history_segment" where
  "push_message m s = s\<lparr>hs_messages := hs_messages s @ [m]\<rparr>"

definition push_tool_result :: "nat \<Rightarrow> rstr \<Rightarrow> history_segment \<Rightarrow> history_segment" where
  "push_tool_result sequence tool_call_id s =
     s\<lparr>hs_tool_results := hs_tool_results s @ [(sequence, tool_call_id)]\<rparr>"

definition push_text :: "rstr \<Rightarrow> nat \<Rightarrow> history_segment \<Rightarrow> history_segment" where
  "push_text text sequence s =
     s\<lparr>hs_text := hs_text s @ text,
       hs_max_sequence := Some (case hs_max_sequence s of None \<Rightarrow> sequence
                                | Some m \<Rightarrow> max m sequence)\<rparr>"

definition update_last :: "('a \<Rightarrow> 'a) \<Rightarrow> 'a list \<Rightarrow> 'a list" where
  "update_last f xs = (if xs = [] then [] else butlast xs @ [f (last xs)])"

definition tagged :: "string \<Rightarrow> rstr \<Rightarrow> rstr" where
  "tagged tag text = lit ''['' @ lit tag @ lit '']'' @ [10] @ text @ [10]"

subsection \<open>Elision of tool results\<close>

definition elision_card_sequences :: "transcript_entry \<Rightarrow> nat list" where
  "elision_card_sequences entry =
     (case Option.bind (Option.bind (te_payload entry) (json_get (lit ''tool_result_sequences'')))
            json_as_array of
        None \<Rightarrow> []
      | Some xs \<Rightarrow> List.map_filter json_as_u64 xs)"

definition elided_tool_skeleton :: "rstr option \<Rightarrow> rstr \<Rightarrow> json \<Rightarrow> rstr" where
  "elided_tool_skeleton name original payload =
     lit ''[elided tool result: tool='' @ (case name of None \<Rightarrow> lit ''unknown'' | Some n \<Rightarrow> n) @
     lit '', original_bytes='' @ nat_text (utf8_len original) @ lit '', status='' @
     (if json_get (lit ''error'') payload \<noteq> None then lit ''error'' else lit ''ok'') @
     (if Option.bind (json_get (lit ''truncated'') payload) json_as_bool = Some True
      then lit '', truncated'' else []) @ lit '']''"

text \<open>\<open>str::replace\<close>: every occurrence, left to right, without overlap.\<close>

function str_replace :: "rstr \<Rightarrow> rstr \<Rightarrow> rstr \<Rightarrow> rstr" where
  "str_replace pat rep [] = (if pat = [] then rep else [])"
| "str_replace pat rep (c # cs) =
     (if pat = [] then rep @ c # str_replace pat rep cs
      else if take (length pat) (c # cs) = pat
      then rep @ str_replace pat rep (drop (length pat) (c # cs))
      else c # str_replace pat rep cs)"
  by pat_completeness auto
termination
  by (relation "measure (\<lambda>(pat, rep, s). length s)") (auto simp: length_greater_0_conv)

definition content_json :: "lib \<Rightarrow> rstr \<Rightarrow> json" where
  "content_json L original = (case json_parse L original of None \<Rightarrow> JObj [] | Some v \<Rightarrow> v)"

fun first_result :: "rstr \<Rightarrow> message list \<Rightarrow> rstr option" where
  "first_result i [] = None"
| "first_result i (Tool j _ content # ms) = (if j = i then Some content else first_result i ms)"
| "first_result i (m # ms) = first_result i ms"

fun skeletonize :: "lib \<Rightarrow> rstr \<Rightarrow> rstr \<Rightarrow> message \<Rightarrow> message" where
  "skeletonize L i original (Tool j name content) =
     (if j = i then Tool j name (elided_tool_skeleton name original (content_json L original))
      else Tool j name content)"
| "skeletonize L i original m = m"

fun last_name :: "rstr \<Rightarrow> message list \<Rightarrow> rstr option \<Rightarrow> rstr option" where
  "last_name i [] name = name"
| "last_name i (Tool j n _ # ms) name = last_name i ms (if j = i then n else name)"
| "last_name i (m # ms) name = last_name i ms name"

definition elide_target :: "lib \<Rightarrow> nat \<times> rstr \<times> rstr \<Rightarrow> history_segment \<Rightarrow> history_segment" where
  "elide_target L = (\<lambda>(seq, i, original) s.
     let name = last_name i (hs_messages s) None;
         skeleton = elided_tool_skeleton name original (content_json L original)
     in s\<lparr>hs_messages := map (skeletonize L i original) (hs_messages s),
          hs_text := str_replace (tagged ''tool'' original) (tagged ''tool'' skeleton) (hs_text s)\<rparr>)"

definition elision_targets :: "history_segment \<Rightarrow> (nat \<times> rstr \<times> rstr) list" where
  "elision_targets s = List.map_filter
     (\<lambda>(seq, i). map_option (\<lambda>original. (seq, i, original)) (first_result i (hs_messages s)))
     (hs_tool_results s)"

definition elide_segment :: "lib \<Rightarrow> history_segment \<Rightarrow> history_segment" where
  "elide_segment L s = fold (elide_target L) (elision_targets s) s"

definition elide_prefix ::
  "lib \<Rightarrow> history_segment list \<Rightarrow> nat \<Rightarrow> history_segment list \<times> nat list" where
  "elide_prefix L segments boundary =
     (map (elide_segment L) (take boundary segments) @ drop boundary segments,
      concat (map (\<lambda>s. map fst (elision_targets s)) (take boundary segments)))"

definition elision_audit_text :: "nat list \<Rightarrow> rstr" where
  "elision_audit_text sequences = nat_text (length sequences) @
     lit '' older tool result(s) elided into deterministic skeletons to free request budget''"

subsection \<open>Segments from the transcript\<close>

definition entry_tool_calls :: "transcript_entry \<Rightarrow> tool_call list" where
  "entry_tool_calls entry =
     (case Option.bind (Option.bind (te_payload entry) (json_get (lit ''tool_calls'')))
            tool_calls_of_json of
        None \<Rightarrow> [] | Some calls \<Rightarrow> calls)"

definition apply_assistant :: "transcript_entry \<Rightarrow> history_segment \<Rightarrow> history_segment" where
  "apply_assistant entry s =
     push_text (tagged ''assistant'' (te_text entry)) (te_sequence entry)
       (push_message (Assistant (Some (te_text entry)) (entry_tool_calls entry)) s)"

definition payload_str :: "string \<Rightarrow> json \<Rightarrow> rstr option" where
  "payload_str k payload = Option.bind (json_get (lit k) payload) json_as_str"

definition apply_tool_result ::
  "nat list \<Rightarrow> transcript_entry \<Rightarrow> history_segment \<Rightarrow> history_segment" where
  "apply_tool_result elided entry s = (case te_payload entry of
     None \<Rightarrow> s
   | Some payload \<Rightarrow>
       (case (payload_str ''tool_call_id'' payload, payload_str ''provider_content'' payload) of
          (Some i, Some original) \<Rightarrow>
            if declared_tool_call (hs_messages s) i then
              (let name = payload_str ''name'' payload;
                   content = (if te_sequence entry \<in> set elided
                              then elided_tool_skeleton name original payload else original)
               in push_text (tagged ''tool'' content) (te_sequence entry)
                    (push_tool_result (te_sequence entry) i (push_message (Tool i name content) s)))
            else s
        | _ \<Rightarrow> s))"

definition tool_round_aborted :: "transcript_entry \<Rightarrow> bool" where
  "tool_round_aborted entry \<longleftrightarrow>
     Option.bind (te_payload entry) (payload_str ''provider_tool_round_aborted'')
       = Some (lit ''permission_denied'')"

fun apply_kind :: "transcript_kind \<Rightarrow> nat list \<Rightarrow> transcript_entry
    \<Rightarrow> history_segment list \<Rightarrow> history_segment list" where
  "apply_kind TkUser elided entry segments = segments @
     [segment_new (Some (te_sequence entry)) (te_turn_id entry) [User (te_text entry)]
        (tagged ''user'' (te_text entry))]"
| "apply_kind TkAssistant elided entry segments = update_last (apply_assistant entry) segments"
| "apply_kind TkToolResult elided entry segments =
     update_last (apply_tool_result elided entry) segments"
| "apply_kind TkFailure elided entry segments =
     (if tool_round_aborted entry
      then update_last (\<lambda>s. s\<lparr>hs_messages := append_denied_tool_results (hs_messages s)\<rparr>) segments
      else segments)"
| "apply_kind _ elided entry segments = segments"

definition apply_entry ::
  "nat list \<Rightarrow> transcript_entry \<Rightarrow> history_segment list \<Rightarrow> history_segment list" where
  "apply_entry elided entry segments = apply_kind (te_kind entry) elided entry segments"

text \<open>The last element that satisfies a predicate, with what stands before and after it.\<close>

fun rsplit :: "('a \<Rightarrow> bool) \<Rightarrow> 'a list \<Rightarrow> ('a list \<times> 'a \<times> 'a list) option" where
  "rsplit P [] = None"
| "rsplit P (x # xs) = (case rsplit P xs of
     Some (before, y, after) \<Rightarrow> Some (x # before, y, after)
   | None \<Rightarrow> if P x then Some ([], x, xs) else None)"

definition elided_sequences :: "transcript_entry list \<Rightarrow> nat list" where
  "elided_sequences entries =
     concat (map elision_card_sequences (filter (\<lambda>e. te_kind e = TkToolResultElision) entries))"

definition retain_from_sequence :: "transcript_entry \<Rightarrow> nat option" where
  "retain_from_sequence entry =
     Option.bind (Option.bind (te_payload entry) (json_get (lit ''retain_from_sequence''))) json_as_u64"

definition retained_entries :: "transcript_entry \<Rightarrow> transcript_entry list \<Rightarrow> transcript_entry list" where
  "retained_entries entry entries = filter (\<lambda>e. te_kind e \<noteq> TkCompactSummary
     \<and> te_kind e \<noteq> TkToolResultElision
     \<and> (case retain_from_sequence entry of None \<Rightarrow> False | Some from \<Rightarrow> te_sequence e \<ge> from)) entries"

definition card_segment :: "transcript_entry \<Rightarrow> history_segment" where
  "card_segment entry = summary_segment (te_sequence entry) (te_turn_id entry) (User (te_text entry))
     (tagged ''compacted summary'' (te_text entry))"

definition scan_history_segments :: "session_snapshot \<Rightarrow> history_segment list" where
  "scan_history_segments snapshot =
     (let entries = tp_entries (sn_transcript snapshot);
          elided = elided_sequences entries
      in case rsplit (\<lambda>e. te_kind e = TkCompactSummary) entries of
           None \<Rightarrow> fold (apply_entry elided) entries []
         | Some (before, entry, after) \<Rightarrow>
             let retained = fold (apply_entry elided) (retained_entries entry before) []
             in fold (apply_entry elided) (filter (\<lambda>e. te_kind e \<noteq> TkToolResultElision) after)
                  (card_segment entry # retained))"

subsection \<open>The provider grammar\<close>

text \<open>
  A tool message is legal only as the answer to a call that an assistant message before
  it declared: \<open>tools_answer ids ms\<close>, where \<open>ids\<close> were declared before \<open>ms\<close>.
\<close>

definition declared_ids :: "message list \<Rightarrow> rstr set" where
  "declared_ids ms = (\<Union>m \<in> set ms. tc_id ` set (message_calls m))"

fun tools_answer :: "rstr set \<Rightarrow> message list \<Rightarrow> bool" where
  "tools_answer ids [] = True"
| "tools_answer ids (Assistant c calls # ms) = tools_answer (ids \<union> tc_id ` set calls) ms"
| "tools_answer ids (Tool i n c # ms) = (i \<in> ids \<and> tools_answer ids ms)"
| "tools_answer ids (System c # ms) = tools_answer ids ms"
| "tools_answer ids (User c # ms) = tools_answer ids ms"

definition segment_ok :: "history_segment \<Rightarrow> bool" where
  "segment_ok s \<longleftrightarrow> tools_answer {} (hs_messages s)
     \<and> (\<exists>c ms. hs_messages s = User c # ms)
     \<and> (\<forall>(q, i) \<in> set (hs_tool_results s). i \<in> set (observed_ids (hs_messages s)))"

lemma declared_tool_call_iff: "declared_tool_call ms i \<longleftrightarrow> i \<in> declared_ids ms"
  by (auto simp: declared_tool_call_def declared_ids_def list_ex_iff)

lemma declared_ids_simps [simp]:
  "declared_ids [] = {}"
  "declared_ids (m # ms) = tc_id ` set (message_calls m) \<union> declared_ids ms"
  "declared_ids (xs @ ys) = declared_ids xs \<union> declared_ids ys"
  by (auto simp: declared_ids_def)

lemma tools_answer_append:
  "tools_answer ids (xs @ ys) \<longleftrightarrow> tools_answer ids xs \<and> tools_answer (ids \<union> declared_ids xs) ys"
  by (induction ids xs rule: tools_answer.induct) (auto simp: Un_assoc)

lemma tools_answer_mono: "tools_answer ids ms \<Longrightarrow> ids \<subseteq> ids' \<Longrightarrow> tools_answer ids' ms"
  by (induction ids ms arbitrary: ids' rule: tools_answer.induct) (auto, blast)

lemma tools_answer_concat:
  "\<forall>ms \<in> set mss. tools_answer {} ms \<Longrightarrow> tools_answer ids (concat mss)"
  by (induction mss arbitrary: ids) (auto simp: tools_answer_append intro: tools_answer_mono)

lemma observed_ids_append [simp]: "observed_ids (xs @ ys) = observed_ids xs @ observed_ids ys"
  by (induction xs rule: observed_ids.induct) auto

lemma newest_calls_declared: "c \<in> set (newest_calls ms) \<Longrightarrow> tc_id c \<in> declared_ids ms"
  by (induction ms rule: newest_calls.induct) auto

lemma declared_ids_rev [simp]: "declared_ids (rev ms) = declared_ids ms"
  by (simp add: declared_ids_def)

lemma tools_answer_results:
  "(\<forall>c \<in> set cs. tc_id c \<in> ids) \<Longrightarrow> tools_answer ids (map (\<lambda>c. Tool (tc_id c) (n c) (t c)) cs)"
  by (induction cs) auto

lemma append_denied_tools_answer:
  "tools_answer {} ms \<Longrightarrow> tools_answer {} (append_denied_tool_results ms)"
  using newest_calls_declared [of _ "rev ms"]
  by (auto simp: append_denied_tool_results_def tools_answer_append intro!: tools_answer_results)

text \<open>Every call of the round that was denied has an answer after the denial.\<close>

lemma observed_ids_map_Tool: "observed_ids (map (\<lambda>c. Tool (f c) (n c) (t c)) cs) = map f cs"
  by (induction cs) auto

lemma append_denied_answers_all:
  "c \<in> set (newest_calls (rev ms)) \<Longrightarrow> tc_id c \<in> set (observed_ids (append_denied_tool_results ms))"
  by (auto simp: append_denied_tool_results_def observed_ids_map_Tool)

subsection \<open>Every rebuilt segment is legal\<close>

lemma segment_new_ok: "segment_ok (segment_new q t [User c] text)"
  by (simp add: segment_ok_def segment_new_def)

lemma card_segment_ok: "segment_ok (card_segment e)"
  by (simp add: segment_ok_def card_segment_def summary_segment_def)

lemma push_text_messages [simp]:
  "hs_messages (push_text t q s) = hs_messages s"
  "hs_tool_results (push_text t q s) = hs_tool_results s"
  by (simp_all add: push_text_def)

lemma apply_assistant_ok: "segment_ok s \<Longrightarrow> segment_ok (apply_assistant e s)"
  by (auto simp: segment_ok_def apply_assistant_def push_message_def tools_answer_append)

lemma apply_tool_result_ok: "segment_ok s \<Longrightarrow> segment_ok (apply_tool_result elided e s)"
  by (auto simp: segment_ok_def apply_tool_result_def push_message_def push_tool_result_def
      tools_answer_append declared_tool_call_iff Let_def split: option.split)

lemma append_denied_ok:
  "segment_ok s \<Longrightarrow> segment_ok (s\<lparr>hs_messages := append_denied_tool_results (hs_messages s)\<rparr>)"
  by (auto simp: segment_ok_def append_denied_tools_answer)
    (auto simp: append_denied_tool_results_def)

definition segments_ok :: "history_segment list \<Rightarrow> bool" where
  "segments_ok ss \<longleftrightarrow> (\<forall>s \<in> set ss. segment_ok s)"

lemma segments_ok_simps [simp]:
  "segments_ok []"
  "segments_ok (s # ss) \<longleftrightarrow> segment_ok s \<and> segments_ok ss"
  "segments_ok (xs @ ys) \<longleftrightarrow> segments_ok xs \<and> segments_ok ys"
  by (auto simp: segments_ok_def)

lemma segments_ok_update_last:
  "segments_ok ss \<Longrightarrow> (\<And>s. segment_ok s \<Longrightarrow> segment_ok (f s)) \<Longrightarrow> segments_ok (update_last f ss)"
  by (auto simp: update_last_def segments_ok_def dest: in_set_butlastD)

lemma apply_entry_ok: "segments_ok ss \<Longrightarrow> segments_ok (apply_entry elided e ss)"
  unfolding apply_entry_def
  by (induction "te_kind e" elided e ss rule: apply_kind.induct)
    (auto simp: segment_new_ok append_denied_ok
      intro!: segments_ok_update_last apply_assistant_ok apply_tool_result_ok)

lemma fold_apply_entry_ok: "segments_ok ss \<Longrightarrow> segments_ok (fold (apply_entry elided) es ss)"
  by (induction es arbitrary: ss) (auto intro: apply_entry_ok)

lemma scan_history_segments_ok: "segments_ok (scan_history_segments sn)"
  by (auto simp: scan_history_segments_def Let_def card_segment_ok
      intro!: fold_apply_entry_ok split: option.split)

subsection \<open>Elision keeps the shape\<close>

text \<open>The same message up to the content of a tool result.\<close>

fun same_shape :: "message \<Rightarrow> message \<Rightarrow> bool" where
  "same_shape (Tool i n c) m = (\<exists>c'. m = Tool i n c')"
| "same_shape m m' = (m' = m)"

lemma same_shape_refl [simp]: "same_shape m m"
  by (cases m) auto

lemma same_shape_trans: "same_shape a b \<Longrightarrow> same_shape b c \<Longrightarrow> same_shape a c"
  by (cases a; cases b) auto

lemma skeletonize_shape: "same_shape m (skeletonize L i original m)"
  by (cases m) auto

lemma tools_answer_shape:
  "list_all2 same_shape ms ms' \<Longrightarrow> tools_answer ids ms' = tools_answer ids ms"
  by (induction ids ms arbitrary: ms' rule: tools_answer.induct) (auto simp: list_all2_Cons1)

lemma observed_ids_shape: "list_all2 same_shape ms ms' \<Longrightarrow> observed_ids ms' = observed_ids ms"
  by (induction ms arbitrary: ms' rule: observed_ids.induct) (auto simp: list_all2_Cons1)

definition same_segment :: "history_segment \<Rightarrow> history_segment \<Rightarrow> bool" where
  "same_segment s s' \<longleftrightarrow> list_all2 same_shape (hs_messages s) (hs_messages s')
     \<and> hs_first_sequence s' = hs_first_sequence s \<and> hs_max_sequence s' = hs_max_sequence s
     \<and> hs_from_summary s' = hs_from_summary s \<and> hs_turn_id s' = hs_turn_id s
     \<and> hs_tool_results s' = hs_tool_results s"

lemma same_segment_refl [simp]: "same_segment s s"
  by (simp add: same_segment_def list.rel_refl)

lemma same_segment_trans: "same_segment a b \<Longrightarrow> same_segment b c \<Longrightarrow> same_segment a c"
  unfolding same_segment_def
  by (elim conjE, intro conjI)
    (auto elim: list_all2_trans [where ?P1.0 = same_shape and ?P2.0 = same_shape, rotated]
      intro: same_shape_trans)

lemma elide_target_same: "same_segment s (elide_target L t s)"
  by (cases t) (simp add: elide_target_def same_segment_def Let_def list.rel_map skeletonize_shape
      list_all2_same)

lemma elide_segment_same: "same_segment s (elide_segment L s)"
proof -
  have "same_segment a (fold (elide_target L) ts s)" if "same_segment a s" for a ts s
    using that
    by (induction ts arbitrary: s)
      (simp, metis elide_target_same fold_simps(2) same_segment_trans)
  then show ?thesis unfolding elide_segment_def by simp
qed

lemma same_segment_ok:
  assumes "same_segment s s'" and "segment_ok s"
  shows "segment_ok s'"
proof -
  have shape: "list_all2 same_shape (hs_messages s) (hs_messages s')"
    and results: "hs_tool_results s' = hs_tool_results s"
    using assms(1) by (simp_all add: same_segment_def)
  obtain c ms where "hs_messages s = User c # ms" using assms(2) by (auto simp: segment_ok_def)
  with shape have "\<exists>c ms. hs_messages s' = User c # ms" by (auto simp: list_all2_Cons1)
  with assms(2) show ?thesis
    unfolding segment_ok_def results tools_answer_shape [OF shape] observed_ids_shape [OF shape]
    by blast
qed

lemma elide_prefix_same: "list_all2 same_segment ss (fst (elide_prefix L ss n))"
proof -
  have "list_all2 same_segment (take n ss @ drop n ss)
      (map (elide_segment L) (take n ss) @ drop n ss)"
    by (intro list_all2_appendI) (simp_all add: list.rel_map elide_segment_same list_all2_same)
  then show ?thesis by (simp add: elide_prefix_def)
qed

lemma elide_prefix_length: "length (fst (elide_prefix L ss n)) = length ss"
  using elide_prefix_same [of ss L n] by (simp add: list_all2_lengthD)

lemma elide_prefix_drop: "n \<le> length ss \<Longrightarrow> drop n (fst (elide_prefix L ss n)) = drop n ss"
  by (simp add: elide_prefix_def)

lemma elide_prefix_ok:
  assumes "segments_ok ss"
  shows "segments_ok (fst (elide_prefix L ss n))"
  unfolding segments_ok_def
proof
  fix s assume "s \<in> set (fst (elide_prefix L ss n))"
  then obtain i where i: "i < length ss" "s = fst (elide_prefix L ss n) ! i"
    by (auto simp: in_set_conv_nth elide_prefix_length)
  then have "same_segment (ss ! i) s"
    using elide_prefix_same [of ss L n] by (simp add: list_all2_conv_all_nth)
  moreover have "segment_ok (ss ! i)" using assms i by (simp add: segments_ok_def)
  ultimately show "segment_ok s" by (rule same_segment_ok)
qed

text \<open>Every durable result of the prefix is listed, in order.\<close>

lemma first_result_observed: "i \<in> set (observed_ids ms) \<Longrightarrow> \<exists>c. first_result i ms = Some c"
  by (induction ms rule: observed_ids.induct) auto

lemma elision_targets_all:
  assumes "segment_ok s"
  shows "map fst (elision_targets s) = map fst (hs_tool_results s)"
proof -
  have "map fst (List.map_filter (\<lambda>(seq, i). map_option (\<lambda>original. (seq, i, original))
      (first_result i ms)) rs) = map fst rs"
    if "\<forall>(q, i) \<in> set rs. i \<in> set (observed_ids ms)" for rs ms
    using that
    by (induction rs) (auto simp: List.map_filter_simps dest: first_result_observed)
  then show ?thesis using assms by (auto simp: elision_targets_def segment_ok_def)
qed

end
