(* ===== verification/Volatile_Frames.thy ===== *)
theory Volatile_Frames
  imports Headless_History
begin

text \<open>
  The non-persistent tail of a request in \<open>latte-headless/src/session.rs\<close>: repository
  context and reminder, each framed by a pair of tags, and the escape that keeps framed
  content from forging a tag of either frame. The source walks over bytes; the bytes it
  tests are ASCII, so the model walks over characters.
\<close>

subsection \<open>Tokens\<close>

definition REPOSITORY_CONTEXT :: rstr where "REPOSITORY_CONTEXT = lit ''repository-context''"
definition SYSTEM_REMINDER :: rstr where "SYSTEM_REMINDER = lit ''system-reminder''"

definition VOLATILE_FRAME_TAGS :: "rstr list" where
  "VOLATILE_FRAME_TAGS = [REPOSITORY_CONTEXT, SYSTEM_REMINDER]"

definition is_ascii_whitespace :: "nat \<Rightarrow> bool" where
  "is_ascii_whitespace c \<longleftrightarrow> c = 9 \<or> c = 10 \<or> c = 12 \<or> c = 13 \<or> c = 32"

definition tag_at :: "rstr \<Rightarrow> rstr \<Rightarrow> bool" where
  "tag_at s tag \<longleftrightarrow> length tag \<le> length s
     \<and> to_ascii_lowercase (take (length tag) s) = to_ascii_lowercase tag"

text \<open>
  What follows a \<open><\<close>: an optional slash, a tag, white space, \<open>>\<close>. The result is whether the
  token closes a frame, its tag, and the text after it.
\<close>

definition frame_token :: "rstr \<Rightarrow> (bool \<times> rstr \<times> rstr) option" where
  "frame_token s =
     (let closing = (s \<noteq> [] \<and> hd s = 47);
          probe = (if closing then tl s else s)
      in case find (tag_at probe) VOLATILE_FRAME_TAGS of
           None \<Rightarrow> None
         | Some tag \<Rightarrow>
             (case dropWhile is_ascii_whitespace (drop (length tag) probe) of
                [] \<Rightarrow> None
              | c # rest \<Rightarrow> if c = 62 then Some (closing, tag, rest) else None))"

lemma frame_token_shorter: "frame_token s = Some (closing, tag, rest) \<Longrightarrow> length rest < length s"
proof -
  assume a: "frame_token s = Some (closing, tag, rest)"
  define probe where "probe = (if s \<noteq> [] \<and> hd s = 47 then tl s else s)"
  obtain c where "dropWhile is_ascii_whitespace (drop (length tag) probe) = c # rest"
    using a by (auto simp: frame_token_def Let_def probe_def split: option.splits list.splits if_splits)
  then have "Suc (length rest) \<le> length (drop (length tag) probe)"
    using length_dropWhile_le [of is_ascii_whitespace "drop (length tag) probe"] by simp
  moreover have "length (drop (length tag) probe) \<le> length s"
    by (auto simp: probe_def)
  ultimately show ?thesis by linarith
qed

function escape_volatile_frames :: "rstr \<Rightarrow> rstr" where
  "escape_volatile_frames [] = []"
| "escape_volatile_frames (c # cs) =
     (if c \<noteq> 60 then c # escape_volatile_frames cs
      else case frame_token cs of
        None \<Rightarrow> 60 # escape_volatile_frames cs
      | Some (closing, tag, rest) \<Rightarrow>
          (if closing then lit ''[/'' else lit ''['') @ tag @ lit '']'' @ escape_volatile_frames rest)"
  by pat_completeness auto
termination
  by (relation "measure length") (auto dest!: frame_token_shorter)

definition frame_volatile :: "rstr \<Rightarrow> rstr \<Rightarrow> rstr" where
  "frame_volatile tag body = lit ''<'' @ tag @ lit ''>'' @ [10] @ escape_volatile_frames body @
     [10] @ lit ''</'' @ tag @ lit ''>''"

subsection \<open>The volatile block\<close>

record context_bundle =
  cb_text :: rstr
  cb_truncated :: bool
  cb_sources :: "rstr list"

record volatile_turn_context =
  vt_repository :: "message option"
  vt_reminder :: "message option"

definition trim_end :: "rstr \<Rightarrow> rstr" where
  "trim_end s = rev (dropWhile is_white (rev s))"

definition repository_context_message :: "context_bundle \<Rightarrow> message option" where
  "repository_context_message bundle =
     (if trim (cb_text bundle) = [] then None
      else Some (User (frame_volatile REPOSITORY_CONTEXT (trim_end (cb_text bundle)))))"

definition reminder_message :: "rstr \<Rightarrow> message" where
  "reminder_message reminder = User (frame_volatile SYSTEM_REMINDER reminder)"

definition build_volatile_turn_context ::
  "context_bundle \<Rightarrow> rstr option \<Rightarrow> volatile_turn_context" where
  "build_volatile_turn_context bundle reminder =
     \<lparr>vt_repository = repository_context_message bundle,
      vt_reminder = map_option reminder_message reminder\<rparr>"

definition opt_list :: "'a option \<Rightarrow> 'a list" where
  "opt_list m = (case m of None \<Rightarrow> [] | Some x \<Rightarrow> [x])"

definition volatile_messages :: "volatile_turn_context \<Rightarrow> message list" where
  "volatile_messages v = opt_list (vt_repository v) @ opt_list (vt_reminder v)"

definition volatile_filtered ::
  "bool \<Rightarrow> bool \<Rightarrow> volatile_turn_context \<Rightarrow> volatile_turn_context" where
  "volatile_filtered repository_kept reminder_kept v =
     \<lparr>vt_repository = (if repository_kept then vt_repository v else None),
      vt_reminder = (if reminder_kept then vt_reminder v else None)\<rparr>"

subsection \<open>Frames cannot be forged\<close>

text \<open>A frame token starts at some position of the text.\<close>

fun has_frame_token :: "rstr \<Rightarrow> bool" where
  "has_frame_token [] = False"
| "has_frame_token (c # cs) = ((c = 60 \<and> frame_token cs \<noteq> None) \<or> has_frame_token cs)"

text \<open>
  A token is made of characters that escaping never introduces by itself: no \<open><\<close>, and it
  ends at its own \<open>>\<close>. So whether one starts here depends only on the text up to the
  next \<open><\<close>.
\<close>

definition frame_char :: "nat \<Rightarrow> bool" where
  "frame_char c \<longleftrightarrow> c \<noteq> 60 \<and> c \<noteq> 91"

lemma to_ascii_lowercase_append [simp]:
  "to_ascii_lowercase (xs @ ys) = to_ascii_lowercase xs @ to_ascii_lowercase ys"
  by (simp add: to_ascii_lowercase_def)

lemma length_to_ascii_lowercase [simp]: "length (to_ascii_lowercase s) = length s"
  by (simp add: to_ascii_lowercase_def)

lemma frame_tags_chars:
  "tag \<in> set VOLATILE_FRAME_TAGS \<Longrightarrow> c \<in> set (to_ascii_lowercase tag) \<Longrightarrow> c = 45 \<or> (97 \<le> c \<and> c \<le> 122)"
  by (auto simp: VOLATILE_FRAME_TAGS_def REPOSITORY_CONTEXT_def SYSTEM_REMINDER_def
      to_ascii_lowercase_def lit_def)

lemma tag_at_chars:
  assumes "tag_at s tag" and "tag \<in> set VOLATILE_FRAME_TAGS" and "c \<in> set (take (length tag) s)"
  shows "frame_char c"
proof -
  let ?low = "\<lambda>c :: nat. if 65 \<le> c \<and> c \<le> 90 then c + 32 else c"
  have "?low c \<in> set (to_ascii_lowercase (take (length tag) s))"
    unfolding to_ascii_lowercase_def set_map using assms(3) by (rule imageI)
  then have "?low c \<in> set (to_ascii_lowercase tag)" using assms(1) by (simp add: tag_at_def)
  from frame_tags_chars [OF assms(2) this] show ?thesis
    by (auto simp: frame_char_def split: if_splits)
qed

lemma tag_at_append: "tag_at s tag \<Longrightarrow> tag_at (take (length tag) s @ u) tag"
  by (simp add: tag_at_def)

text \<open>The two tags start with different letters, so at most one of them is at a position.\<close>

lemma find_tag:
  "find (tag_at s) VOLATILE_FRAME_TAGS = Some tag \<longleftrightarrow> tag \<in> set VOLATILE_FRAME_TAGS \<and> tag_at s tag"
proof -
  have first: "hd (to_ascii_lowercase (take (length tag) s)) = hd (to_ascii_lowercase tag)"
    if "tag_at s tag" for tag using that by (simp add: tag_at_def)
  have hd_take: "hd (to_ascii_lowercase (take n s)) = hd (to_ascii_lowercase s)" if "0 < n" for n
    using that by (cases s; cases n) (simp_all add: to_ascii_lowercase_def)
  have "0 < length REPOSITORY_CONTEXT" "0 < length SYSTEM_REMINDER"
    "hd (to_ascii_lowercase REPOSITORY_CONTEXT) \<noteq> hd (to_ascii_lowercase SYSTEM_REMINDER)"
    by (simp_all add: REPOSITORY_CONTEXT_def SYSTEM_REMINDER_def lit_def to_ascii_lowercase_def)
  then have "\<not> (tag_at s REPOSITORY_CONTEXT \<and> tag_at s SYSTEM_REMINDER)"
    using first hd_take by metis
  then show ?thesis by (auto simp: VOLATILE_FRAME_TAGS_def)
qed

lemma frame_tags_nonempty: "tag \<in> set VOLATILE_FRAME_TAGS \<Longrightarrow> tag \<noteq> []"
  by (auto simp: VOLATILE_FRAME_TAGS_def REPOSITORY_CONTEXT_def SYSTEM_REMINDER_def lit_def)

text \<open>Reading a token only looks at a prefix of frame characters that ends in \<open>>\<close>.\<close>

lemma frame_token_intro:
  assumes "tag \<in> set VOLATILE_FRAME_TAGS" and "tag_at p tag"
    and "dropWhile is_ascii_whitespace (drop (length tag) p) = 62 # rest"
    and "s = (if closing then 47 # p else p)" and "\<not> closing \<Longrightarrow> hd p \<noteq> 47"
  shows "frame_token s = Some (closing, tag, rest)"
proof -
  have "find (tag_at p) VOLATILE_FRAME_TAGS = Some tag" using assms(1,2) by (simp add: find_tag)
  moreover have "p \<noteq> []" using assms(1,2) by (auto simp: tag_at_def dest: frame_tags_nonempty)
  ultimately show ?thesis using assms(3,4,5) by (auto simp: frame_token_def Let_def)
qed

lemma frame_token_elim:
  assumes "frame_token s = Some (closing, tag, rest)"
  obtains p where "tag \<in> set VOLATILE_FRAME_TAGS" and "tag_at p tag"
    and "dropWhile is_ascii_whitespace (drop (length tag) p) = 62 # rest"
    and "s = (if closing then 47 # p else p)" and "\<not> closing \<longrightarrow> hd p \<noteq> 47" and "p \<noteq> []"
proof -
  define p where "p = (if s \<noteq> [] \<and> hd s = 47 then tl s else s)"
  have "find (tag_at p) VOLATILE_FRAME_TAGS = Some tag"
    and d: "dropWhile is_ascii_whitespace (drop (length tag) p) = 62 # rest"
    and c: "closing = (s \<noteq> [] \<and> hd s = 47)"
    using assms
    by (auto simp: frame_token_def Let_def p_def split: option.splits list.splits if_splits)
  then have tag: "tag \<in> set VOLATILE_FRAME_TAGS" "tag_at p tag" by (simp_all add: find_tag)
  moreover have p: "p \<noteq> []" using tag by (auto simp: tag_at_def dest: frame_tags_nonempty)
  moreover have "s = (if closing then 47 # p else p)"
    using c by (cases s) (auto simp: p_def)
  moreover have "\<not> closing \<longrightarrow> hd p \<noteq> 47" using c p by (auto simp: p_def split: if_splits)
  ultimately show ?thesis using d by (intro that)
qed

lemma frame_token_split:
  assumes "frame_token s = Some (closing, tag, rest)"
  shows "\<exists>t. s = t @ rest \<and> (\<forall>c \<in> set t. frame_char c) \<and> t \<noteq> [] \<and> last t = 62
     \<and> (\<forall>u. frame_token (t @ u) = Some (closing, tag, u))"
proof -
  obtain p where tag: "tag \<in> set VOLATILE_FRAME_TAGS" "tag_at p tag"
    and d: "dropWhile is_ascii_whitespace (drop (length tag) p) = 62 # rest"
    and s: "s = (if closing then 47 # p else p)" and slash: "\<not> closing \<longrightarrow> hd p \<noteq> 47" and "p \<noteq> []"
    by (rule frame_token_elim [OF assms])
  define ws where "ws = takeWhile is_ascii_whitespace (drop (length tag) p)"
  have ws: "\<forall>c \<in> set ws. is_ascii_whitespace c" by (auto simp: ws_def dest: set_takeWhileD)
  have split: "p = take (length tag) p @ ws @ 62 # rest"
    using takeWhile_dropWhile_id [of is_ascii_whitespace "drop (length tag) p"] d
    by (simp add: ws_def)
  define t where "t = (if closing then [47] else []) @ take (length tag) p @ ws @ [62]"
  have "s = t @ rest" using split by (simp add: s t_def)
  moreover have "t \<noteq> []" and "last t = 62" by (simp_all add: t_def)
  moreover have "\<forall>c \<in> set t. frame_char c"
    using tag_at_chars [OF tag(2,1)] ws
    by (auto simp: t_def frame_char_def is_ascii_whitespace_def)
  moreover have "frame_token (t @ u) = Some (closing, tag, u)" for u
  proof (rule frame_token_intro [OF tag(1)])
    let ?p = "take (length tag) p @ ws @ 62 # u"
    have len: "length tag \<le> length p" using tag(2) by (simp add: tag_at_def)
    show "tag_at ?p tag" using tag(2) by (rule tag_at_append)
    have "\<not> is_ascii_whitespace 62" by (simp add: is_ascii_whitespace_def)
    then show "dropWhile is_ascii_whitespace (drop (length tag) ?p) = 62 # u"
      using ws len by (simp add: dropWhile_append2)
    show "t @ u = (if closing then 47 # ?p else ?p)" by (simp add: t_def)
    have "take (length tag) p \<noteq> []" using frame_tags_nonempty [OF tag(1)] \<open>p \<noteq> []\<close> by simp
    then have "hd ?p = hd p" by (simp add: hd_append hd_take)
    then show "\<not> closing \<Longrightarrow> hd ?p \<noteq> 47" using slash by simp
  qed
  ultimately show ?thesis by blast
qed

text \<open>Escaped text repeats its source up to the first \<open><\<close> or \<open>[\<close>.\<close>

lemma escape_prefix:
  "escape_volatile_frames s = t @ u \<Longrightarrow> \<forall>c \<in> set t. frame_char c \<Longrightarrow> \<exists>v. s = t @ v"
proof (induction s arbitrary: t rule: escape_volatile_frames.induct)
  case (2 c cs)
  show ?case
  proof (cases t)
    case (Cons a t')
    have "c \<noteq> 60"
    proof
      assume "c = 60"
      with "2.prems" Cons show False
        by (auto simp: frame_char_def lit_def split: option.splits if_splits)
    qed
    then show ?thesis using 2 Cons by auto
  qed simp
qed simp

lemma has_frame_token_append:
  "60 \<notin> set xs \<Longrightarrow> has_frame_token (xs @ ys) = has_frame_token ys"
  by (induction xs) auto

lemma frame_tags_no_bracket: "tag \<in> set VOLATILE_FRAME_TAGS \<Longrightarrow> 60 \<notin> set tag"
  by (auto simp: VOLATILE_FRAME_TAGS_def REPOSITORY_CONTEXT_def SYSTEM_REMINDER_def lit_def)

lemma escape_has_no_token: "\<not> has_frame_token (escape_volatile_frames s)"
proof (induction s rule: escape_volatile_frames.induct)
  case (2 c cs)
  show ?case
  proof (cases "c = 60")
    case True
    show ?thesis
    proof (cases "frame_token cs")
      case None
      have "frame_token (escape_volatile_frames cs) = None"
      proof (rule ccontr)
        assume "frame_token (escape_volatile_frames cs) \<noteq> None"
        then obtain closing tag rest
          where "frame_token (escape_volatile_frames cs) = Some (closing, tag, rest)" by auto
        from frame_token_split [OF this] obtain t where t: "escape_volatile_frames cs = t @ rest"
          "\<forall>c \<in> set t. frame_char c" "\<And>u. frame_token (t @ u) = Some (closing, tag, u)" by blast
        obtain v where "cs = t @ v" using escape_prefix [OF t(1,2)] by blast
        with t(3) None show False by simp
      qed
      with 2(2) [OF _ None] True None show ?thesis by simp
    next
      case (Some p)
      obtain closing tag rest where p: "p = (closing, tag, rest)" by (cases p)
      have "60 \<notin> set ((if closing then lit ''[/'' else lit ''['') @ tag @ lit '']'')"
        using Some p frame_tags_no_bracket by (auto simp: lit_def elim!: frame_token_elim)
      from has_frame_token_append [OF this, of "escape_volatile_frames rest"]
      show ?thesis using 2(3) [OF _ Some p [symmetric] refl] True Some p by simp
    qed
  next
    case False
    with 2(1) [OF False] show ?thesis by simp
  qed
qed simp

text \<open>Content without tokens is framed as it is.\<close>

lemma escape_plain: "\<not> has_frame_token s \<Longrightarrow> escape_volatile_frames s = s"
  by (induction s) (auto split: option.split)

lemma escape_idempotent: "escape_volatile_frames (escape_volatile_frames s) = escape_volatile_frames s"
  by (rule escape_plain) (rule escape_has_no_token)

subsection \<open>A framed message has exactly its own two tokens\<close>

function frame_tokens :: "rstr \<Rightarrow> (bool \<times> rstr) list" where
  "frame_tokens [] = []"
| "frame_tokens (c # cs) =
     (if c \<noteq> 60 then frame_tokens cs
      else case frame_token cs of
        None \<Rightarrow> frame_tokens cs
      | Some (closing, tag, rest) \<Rightarrow> (closing, tag) # frame_tokens rest)"
  by pat_completeness auto
termination
  by (relation "measure length") (auto dest!: frame_token_shorter)

text \<open>A line break before the closing token keeps the content from joining it.\<close>

lemma frame_token_boundary:
  assumes "frame_token (e @ 10 # 60 # w) = Some x"
  shows "frame_token e \<noteq> None"
proof -
  obtain closing tag rest where "x = (closing, tag, rest)" by (cases x)
  from frame_token_split [OF assms [unfolded this]] obtain t
    where t: "e @ 10 # 60 # w = t @ rest" "\<forall>c \<in> set t. frame_char c" "t \<noteq> []" "last t = 62"
      "\<And>u. frame_token (t @ u) = Some (closing, tag, u)" by blast
  from t(1) obtain us where "e = t @ us \<or> (e @ us = t \<and> 10 # 60 # w = us @ rest)"
    by (auto simp: append_eq_append_conv2)
  then show ?thesis
  proof
    assume "e = t @ us"
    with t(5) show ?thesis by simp
  next
    assume us: "e @ us = t \<and> 10 # 60 # w = us @ rest"
    show ?thesis
    proof (cases us)
      case Nil
      with us t(5) [of "[]"] show ?thesis by simp
    next
      case (Cons a us')
      with us have "a = 10" "60 # w = us' @ rest" by auto
      moreover have "us' \<noteq> []" using us t(4) Cons calculation by auto
      ultimately have "60 \<in> set us'" by (cases us') auto
      with us Cons t(2) show ?thesis by (auto simp: frame_char_def)
    qed
  qed
qed

lemma frame_tokens_body:
  "\<not> has_frame_token e \<Longrightarrow> frame_tokens (e @ 10 # 60 # w) = frame_tokens (60 # w)"
proof (induction e)
  case (Cons c e)
  then show ?case
    using frame_token_boundary [of e w]
    by (cases "frame_token (e @ 10 # 60 # w)") auto
qed simp

lemma frame_token_open:
  "tag \<in> set VOLATILE_FRAME_TAGS \<Longrightarrow> frame_token (tag @ 62 # u) = Some (False, tag, u)"
  by (rule frame_token_intro [where p = "tag @ 62 # u"])
    (auto simp: tag_at_def is_ascii_whitespace_def VOLATILE_FRAME_TAGS_def REPOSITORY_CONTEXT_def
      SYSTEM_REMINDER_def lit_def)

lemma frame_token_close:
  "tag \<in> set VOLATILE_FRAME_TAGS \<Longrightarrow> frame_token (47 # tag @ 62 # u) = Some (True, tag, u)"
  by (rule frame_token_intro [where p = "tag @ 62 # u"])
    (simp_all add: tag_at_def is_ascii_whitespace_def)

lemma frame_volatile_tokens:
  assumes "tag \<in> set VOLATILE_FRAME_TAGS"
  shows "frame_tokens (frame_volatile tag body) = [(False, tag), (True, tag)]"
proof -
  let ?e = "escape_volatile_frames body"
  have "frame_volatile tag body = 60 # tag @ 62 # 10 # ?e @ 10 # 60 # 47 # tag @ 62 # []"
    by (simp add: frame_volatile_def lit_def)
  also have "frame_tokens \<dots> = (False, tag) # frame_tokens ((10 # ?e) @ 10 # 60 # 47 # tag @ 62 # [])"
    by (simp add: frame_token_open [OF assms])
  also have "frame_tokens ((10 # ?e) @ 10 # 60 # 47 # tag @ 62 # []) = frame_tokens (60 # 47 # tag @ 62 # [])"
    by (rule frame_tokens_body) (simp add: escape_has_no_token)
  also have "frame_tokens (60 # 47 # tag @ 62 # []) = [(True, tag)]"
    by (simp add: frame_token_close [OF assms])
  finally show ?thesis .
qed

end
