(* ===== verification/Request_Fit.thy ===== *)
theory Request_Fit
  imports Volatile_Frames
begin

text \<open>
  The exact-byte fit of a request in \<open>latte-headless/src/session.rs\<close>: the two phases of
  \<open>fit_request\<close>, and the assembly of requests around the kept history. An index of the
  source is a position in the list of entries.
\<close>

datatype fit_kind = FkHistory | FkRepository | FkReminder | FkPrompt

record fit_entry =
  fe_messages :: "message list"
  fe_kind :: fit_kind
  fe_mandatory :: bool

definition fit_history :: "history_segment \<Rightarrow> fit_entry" where
  "fit_history s = \<lparr>fe_messages = hs_messages s, fe_kind = FkHistory, fe_mandatory = True\<rparr>"

definition fit_prompt :: "history_segment \<Rightarrow> fit_entry" where
  "fit_prompt s = \<lparr>fe_messages = hs_messages s, fe_kind = FkPrompt, fe_mandatory = True\<rparr>"

definition fit_volatile :: "fit_kind \<Rightarrow> message list \<Rightarrow> fit_entry" where
  "fit_volatile kind messages = \<lparr>fe_messages = messages, fe_kind = kind, fe_mandatory = False\<rparr>"

definition fit_entries :: "volatile_turn_context \<Rightarrow> fit_entry list" where
  "fit_entries v =
     map (\<lambda>m. fit_volatile FkRepository [m]) (opt_list (vt_repository v)) @
     map (\<lambda>m. fit_volatile FkReminder [m]) (opt_list (vt_reminder v))"

record fit_selection =
  fs_messages :: "message list"
  fs_history_kept :: nat
  fs_prompt_kept :: bool
  fs_repository_kept :: bool
  fs_reminder_kept :: bool

subsection \<open>The two phases\<close>

text \<open>The system message and the messages of the entries whose position is included.\<close>

definition candidate :: "message \<Rightarrow> fit_entry list \<Rightarrow> (nat \<Rightarrow> bool) \<Rightarrow> message list" where
  "candidate system entries included =
     system # concat (map (\<lambda>i. fe_messages (entries ! i)) (filter included [0..<length entries]))"

text \<open>Phase 1 over the positions still to visit, newest first.\<close>

fun fit_core :: "wire_size \<Rightarrow> message \<Rightarrow> fit_entry list \<Rightarrow> nat \<Rightarrow> nat list \<Rightarrow> bool list
    \<Rightarrow> runtime_error + bool list" where
  "fit_core W system entries budget [] keep = Inr keep"
| "fit_core W system entries budget (i # is) keep =
     (if \<not> fe_mandatory (entries ! i) then fit_core W system entries budget is keep
      else bindE (wire_bytes W (candidate system entries
                    (\<lambda>j. fe_mandatory (entries ! j) \<and> (keep ! j \<or> j = i)))) (\<lambda>bytes.
           if bytes \<le> budget then fit_core W system entries budget is (keep[i := True])
           else Inr keep))"

definition optional_indices :: "fit_entry list \<Rightarrow> nat list" where
  "optional_indices entries = filter (\<lambda>i. \<not> fe_mandatory (entries ! i)) [0..<length entries]"

text \<open>Phase 2 over the prefix lengths still to try, longest first.\<close>

fun fit_tails :: "wire_size \<Rightarrow> message \<Rightarrow> fit_entry list \<Rightarrow> nat \<Rightarrow> bool list \<Rightarrow> nat list
    \<Rightarrow> runtime_error + nat" where
  "fit_tails W system entries budget keep [] = Inr 0"
| "fit_tails W system entries budget keep (n # ns) =
     bindE (wire_bytes W (candidate system entries
              (\<lambda>j. keep ! j \<or> j \<in> set (take n (optional_indices entries))))) (\<lambda>bytes.
     if bytes \<le> budget then Inr n else fit_tails W system entries budget keep ns)"

definition fit_select :: "fit_entry list \<Rightarrow> (nat \<Rightarrow> bool) \<Rightarrow> fit_selection" where
  "fit_select entries kept =
     (let ix = filter kept [0..<length entries];
          has = (\<lambda>k. list_ex (\<lambda>i. fe_kind (entries ! i) = k) ix)
      in \<lparr>fs_messages = concat (map (\<lambda>i. fe_messages (entries ! i)) ix),
          fs_history_kept = length (filter (\<lambda>i. fe_kind (entries ! i) = FkHistory) ix),
          fs_prompt_kept = has FkPrompt, fs_repository_kept = has FkRepository,
          fs_reminder_kept = has FkReminder\<rparr>)"

definition fit_request ::
  "wire_size \<Rightarrow> message \<Rightarrow> fit_entry list \<Rightarrow> nat \<Rightarrow> runtime_error + fit_selection" where
  "fit_request W system entries budget =
     bindE (fit_core W system entries budget (rev [0..<length entries])
              (replicate (length entries) False)) (\<lambda>keep.
     bindE (fit_tails W system entries budget keep
              (rev [1..<length (optional_indices entries) + 1])) (\<lambda>admitted.
     Inr (fit_select entries (\<lambda>i.
       if fe_mandatory (entries ! i) then keep ! i
       else i \<in> set (take admitted (optional_indices entries))))))"

subsection \<open>Assembly\<close>

definition summary_message :: "rstr \<Rightarrow> message" where
  "summary_message summary = User
     (lit ''Earlier conversation, automatically compacted to this summary:'' @ [10, 10] @ summary)"

definition segment_messages :: "history_segment list \<Rightarrow> message list" where
  "segment_messages segments = concat (map hs_messages segments)"

definition assemble_request ::
  "message \<Rightarrow> rstr option \<Rightarrow> history_segment list \<Rightarrow> volatile_turn_context \<Rightarrow> message option
     \<Rightarrow> message list" where
  "assemble_request system summary history volatile prompt =
     system # map summary_message (opt_list summary) @ segment_messages history @
     volatile_messages volatile @ opt_list prompt"

definition assemble_mid_turn_request ::
  "message \<Rightarrow> rstr option \<Rightarrow> history_segment list \<Rightarrow> uuid \<Rightarrow> volatile_turn_context
     \<Rightarrow> message list" where
  "assemble_mid_turn_request system summary segments active_turn volatile =
     (let open_turn = (\<lambda>s. hs_turn_id s = Some active_turn)
      in system # map summary_message (opt_list summary) @
         segment_messages (takeWhile (\<lambda>s. \<not> open_turn s) segments) @
         volatile_messages volatile @
         segment_messages (dropWhile (\<lambda>s. \<not> open_turn s) segments))"

subsection \<open>What the fit keeps\<close>

text \<open>
  The reference: of the mandatory entries a suffix, of the optional ones a prefix.
  \<open>mandatory_from e k\<close> keeps the mandatory positions from \<open>k\<close> on.
\<close>

definition kept_from :: "fit_entry list \<Rightarrow> nat \<Rightarrow> nat \<Rightarrow> nat \<Rightarrow> bool" where
  "kept_from entries k n i \<longleftrightarrow>
     (if fe_mandatory (entries ! i) then k \<le> i else i \<in> set (take n (optional_indices entries)))"

lemma candidate_cong:
  "(\<And>i. i < length entries \<Longrightarrow> P i = Q i) \<Longrightarrow> candidate s entries P = candidate s entries Q"
  unfolding candidate_def by (intro arg_cong2 [where f = Cons] refl arg_cong [where f = concat]
      arg_cong2 [where f = map] filter_cong) auto

lemma fit_core_suffix:
  assumes "fit_core W s es b (rev [0..<m]) keep = Inr keep'"
    and "m \<le> length es" "length keep = length es"
    and "\<forall>i < length es. keep ! i \<longleftrightarrow> m \<le> i \<and> fe_mandatory (es ! i)"
    and "(\<exists>i < length es. keep ! i) \<longrightarrow> (\<exists>n. W (candidate s es (\<lambda>i. keep ! i)) = Inr n \<and> n \<le> b)"
  shows "length keep' = length es \<and> (\<exists>k \<le> length es.
      (\<forall>i < length es. keep' ! i \<longleftrightarrow> k \<le> i \<and> fe_mandatory (es ! i)))
    \<and> ((\<exists>i < length es. keep' ! i) \<longrightarrow> (\<exists>n. W (candidate s es (\<lambda>i. keep' ! i)) = Inr n \<and> n \<le> b))"
  using assms
proof (induction m arbitrary: keep)
  case 0
  then show ?case by auto
next
  case (Suc m)
  show ?case
  proof (cases "fe_mandatory (es ! m)")
    case False
    have "\<forall>i < length es. keep ! i \<longleftrightarrow> m \<le> i \<and> fe_mandatory (es ! i)"
      using Suc.prems(4) False by (auto simp: Suc_le_eq nat_less_le)
    then show ?thesis using Suc.IH [of keep] Suc.prems False by simp
  next
    case True
    let ?P = "\<lambda>j. fe_mandatory (es ! j) \<and> (keep ! j \<or> j = m)"
    obtain n where n: "W (candidate s es ?P) = Inr n"
      and step: "(if n \<le> b then fit_core W s es b (rev [0..<m]) (keep[m := True]) else Inr keep) = Inr keep'"
      using Suc.prems(1) True by (auto simp: wire_bytes_def)
    show ?thesis
    proof (cases "n \<le> b")
      case True
      have same: "candidate s es (\<lambda>i. keep[m := True] ! i) = candidate s es ?P"
        using Suc.prems(2,3,4) \<open>fe_mandatory (es ! m)\<close>
        by (intro candidate_cong) (auto simp: nth_list_update)
      have "\<forall>i < length es. keep[m := True] ! i \<longleftrightarrow> m \<le> i \<and> fe_mandatory (es ! i)"
        using Suc.prems(2,3,4) \<open>fe_mandatory (es ! m)\<close>
        by (auto simp: nth_list_update Suc_le_eq nat_less_le)
      moreover have "fit_core W s es b (rev [0..<m]) (keep[m := True]) = Inr keep'"
        using step True by simp
      ultimately show ?thesis
        using Suc.IH [of "keep[m := True]"] Suc.prems(2,3) n True same by auto
    next
      case False
      then have "keep' = keep" using step by simp
      then show ?thesis using Suc.prems by blast
    qed
  qed
qed

text \<open>The first phase stops only at an entry that does not fit beside the newer ones.\<close>

lemma fit_core_maximal:
  assumes "fit_core W s es b (rev [0..<m]) keep = Inr keep'"
    and "m \<le> length es" "length keep = length es"
    and "\<forall>i < length es. keep ! i \<longleftrightarrow> m \<le> i \<and> fe_mandatory (es ! i)"
  shows "(\<forall>i < length es. keep' ! i \<longleftrightarrow> fe_mandatory (es ! i)) \<or>
    (\<exists>j n. j < length es \<and> fe_mandatory (es ! j)
       \<and> (\<forall>i < length es. keep' ! i \<longleftrightarrow> j < i \<and> fe_mandatory (es ! i))
       \<and> W (candidate s es (\<lambda>i. j \<le> i \<and> fe_mandatory (es ! i))) = Inr n \<and> b < n)"
  using assms
proof (induction m arbitrary: keep)
  case (Suc m)
  have later: "\<forall>i < length es. keep ! i \<longleftrightarrow> m < i \<and> fe_mandatory (es ! i)"
    using Suc.prems(4) by (simp add: Suc_le_eq)
  show ?case
  proof (cases "fe_mandatory (es ! m)")
    case False
    have "\<forall>i < length es. keep ! i \<longleftrightarrow> m \<le> i \<and> fe_mandatory (es ! i)"
      using later False by (auto simp: nat_less_le)
    then show ?thesis using Suc.IH [of keep] Suc.prems False by simp
  next
    case True
    let ?P = "\<lambda>j. fe_mandatory (es ! j) \<and> (keep ! j \<or> j = m)"
    have same: "candidate s es ?P = candidate s es (\<lambda>i. m \<le> i \<and> fe_mandatory (es ! i))"
      using later True by (intro candidate_cong) (auto simp: nat_less_le)
    obtain n where n: "W (candidate s es ?P) = Inr n"
      and step: "(if n \<le> b then fit_core W s es b (rev [0..<m]) (keep[m := True]) else Inr keep) = Inr keep'"
      using Suc.prems(1) True by (auto simp: wire_bytes_def)
    show ?thesis
    proof (cases "n \<le> b")
      case True
      have "\<forall>i < length es. keep[m := True] ! i \<longleftrightarrow> m \<le> i \<and> fe_mandatory (es ! i)"
        using Suc.prems(2,3) later \<open>fe_mandatory (es ! m)\<close> by (auto simp: nth_list_update nat_less_le)
      then show ?thesis using Suc.IH [of "keep[m := True]"] Suc.prems(2,3) step True by simp
    next
      case False
      then have "keep' = keep" using step by simp
      then show ?thesis using Suc.prems(2) later \<open>fe_mandatory (es ! m)\<close> n same False
        by (intro disjI2 exI [of _ m] exI [of _ n]) auto
    qed
  qed
qed simp

lemma fit_tails_admitted:
  "fit_tails W s es b keep ns = Inr n \<Longrightarrow> n = 0 \<or>
     (\<exists>m. W (candidate s es (\<lambda>j. keep ! j \<or> j \<in> set (take n (optional_indices es)))) = Inr m \<and> m \<le> b)"
  by (induction ns) (auto simp: wire_bytes_def split: if_splits)

lemma optional_not_mandatory:
  "i \<in> set (take n (optional_indices es)) \<Longrightarrow> i < length es \<and> \<not> fe_mandatory (es ! i)"
  by (auto simp: optional_indices_def dest!: in_set_takeD)

text \<open>
  The result of the fit: a suffix of the mandatory entries and a prefix of the tails,
  and, once anything is kept, within the budget.
\<close>

lemma fit_request_kept:
  assumes "fit_request W s es b = Inr f"
  obtains k n where "f = fit_select es (kept_from es k n)"
    and "(\<exists>i < length es. kept_from es k n i) \<longrightarrow>
           (\<exists>m. W (candidate s es (kept_from es k n)) = Inr m \<and> m \<le> b)"
    and "k = 0 \<or> (fe_mandatory (es ! (k - 1)) \<and>
           (\<exists>m. W (candidate s es (\<lambda>i. k - 1 \<le> i \<and> fe_mandatory (es ! i))) = Inr m \<and> b < m))"
proof -
  obtain keep n where core: "fit_core W s es b (rev [0..<length es]) (replicate (length es) False) = Inr keep"
    and tails: "fit_tails W s es b keep (rev [1..<length (optional_indices es) + 1]) = Inr n"
    and f: "f = fit_select es (\<lambda>i. if fe_mandatory (es ! i) then keep ! i
              else i \<in> set (take n (optional_indices es)))"
    using assms by (auto simp: fit_request_def)
  let ?none = "replicate (length es) False"
  have start: "\<forall>i < length es. ?none ! i \<longleftrightarrow> length es \<le> i \<and> fe_mandatory (es ! i)"
    "length ?none = length es" by auto
  have "(\<exists>i < length es. ?none ! i) \<longrightarrow> (\<exists>n. W (candidate s es (\<lambda>i. ?none ! i)) = Inr n \<and> n \<le> b)"
    by auto
  from fit_core_suffix [OF core order.refl start(2,1) this]
  have fits: "(\<exists>i < length es. keep ! i) \<longrightarrow> (\<exists>m. W (candidate s es (\<lambda>i. keep ! i)) = Inr m \<and> m \<le> b)"
    by blast
  obtain k where k: "\<forall>i < length es. keep ! i \<longleftrightarrow> k \<le> i \<and> fe_mandatory (es ! i)"
    and stop: "k = 0 \<or> (fe_mandatory (es ! (k - 1)) \<and>
       (\<exists>m. W (candidate s es (\<lambda>i. k - 1 \<le> i \<and> fe_mandatory (es ! i))) = Inr m \<and> b < m))"
    using fit_core_maximal [OF core order.refl start(2,1)]
  proof
    assume "\<forall>i < length es. keep ! i \<longleftrightarrow> fe_mandatory (es ! i)"
    then show thesis by (intro that [of 0]) auto
  next
    assume "\<exists>j n. j < length es \<and> fe_mandatory (es ! j)
       \<and> (\<forall>i < length es. keep ! i \<longleftrightarrow> j < i \<and> fe_mandatory (es ! i))
       \<and> W (candidate s es (\<lambda>i. j \<le> i \<and> fe_mandatory (es ! i))) = Inr n \<and> b < n"
    then obtain j where "\<forall>i < length es. keep ! i \<longleftrightarrow> j < i \<and> fe_mandatory (es ! i)"
      and "fe_mandatory (es ! j)"
      and "\<exists>n. W (candidate s es (\<lambda>i. j \<le> i \<and> fe_mandatory (es ! i))) = Inr n \<and> b < n" by blast
    then show thesis by (intro that [of "Suc j"]) (auto simp: Suc_le_eq)
  qed
  have "f = fit_select es (kept_from es k n)"
  proof -
    have "filter (\<lambda>i. if fe_mandatory (es ! i) then keep ! i
          else i \<in> set (take n (optional_indices es))) [0..<length es]
        = filter (kept_from es k n) [0..<length es]"
      using k by (intro filter_cong) (auto simp: kept_from_def)
    then show ?thesis by (simp add: f fit_select_def)
  qed
  moreover have "\<exists>m. W (candidate s es (kept_from es k n)) = Inr m \<and> m \<le> b"
    if some: "\<exists>i < length es. kept_from es k n i"
  proof (cases "n = 0")
    case True
    have "candidate s es (kept_from es k n) = candidate s es (\<lambda>i. keep ! i)"
      using k True by (intro candidate_cong) (auto simp: kept_from_def)
    moreover have "\<exists>i < length es. keep ! i"
      using some k True by (auto simp: kept_from_def split: if_splits)
    ultimately show ?thesis using fits by simp
  next
    case False
    have "candidate s es (kept_from es k n)
        = candidate s es (\<lambda>j. keep ! j \<or> j \<in> set (take n (optional_indices es)))"
      using k optional_not_mandatory by (intro candidate_cong) (auto simp: kept_from_def)
    then show ?thesis using fit_tails_admitted [OF tails] False by simp
  qed
  ultimately show ?thesis using stop that by blast
qed

subsection \<open>Requests of the planner\<close>

definition kept_entries :: "'a list \<Rightarrow> (nat \<Rightarrow> bool) \<Rightarrow> 'a list" where
  "kept_entries es P = map (\<lambda>i. es ! i) (filter P [0..<length es])"

lemma kept_entries_append:
  "kept_entries (xs @ ys) P = kept_entries xs P @ kept_entries ys (\<lambda>i. P (i + length xs))"
proof -
  have "[0..<length (xs @ ys)] = [0..<length xs] @ map (\<lambda>i. i + length xs) [0..<length ys]"
    by (simp add: upt_add_eq_append [of 0 "length xs" "length ys"] map_add_upt add.commute)
  then have "kept_entries (xs @ ys) P =
      map (\<lambda>i. (xs @ ys) ! i) (filter P [0..<length xs]) @
      map (\<lambda>i. (xs @ ys) ! (i + length xs)) (filter (\<lambda>i. P (i + length xs)) [0..<length ys])"
    unfolding kept_entries_def by (simp add: filter_map o_def)
  also have "map (\<lambda>i. (xs @ ys) ! i) (filter P [0..<length xs]) = map (\<lambda>i. xs ! i) (filter P [0..<length xs])"
    by (intro map_cong refl) (auto simp: nth_append)
  finally show ?thesis by (simp add: kept_entries_def nth_append)
qed

lemma kept_entries_cong:
  "(\<And>i. i < length es \<Longrightarrow> P i = Q i) \<Longrightarrow> kept_entries es P = kept_entries es Q"
  unfolding kept_entries_def by (intro arg_cong2 [where f = map] refl filter_cong) auto

lemma kept_entries_Cons:
  "kept_entries (x # xs) P = (if P 0 then [x] else []) @ kept_entries xs (\<lambda>i. P (Suc i))"
  using kept_entries_append [of "[x]" xs P] by (simp add: kept_entries_def)

lemma kept_entries_drop: "kept_entries xs (\<lambda>i. k \<le> i) = drop k xs"
proof (induction xs arbitrary: k)
  case (Cons x xs)
  show ?case
  proof (cases k)
    case 0
    then show ?thesis using Cons [of 0] by (simp add: kept_entries_Cons)
  next
    case (Suc j)
    then show ?thesis using Cons [of j] by (simp add: kept_entries_Cons)
  qed
qed (simp add: kept_entries_def)

lemma kept_entries_take: "kept_entries xs (\<lambda>i. i < n) = take n xs"
proof (induction xs arbitrary: n)
  case (Cons x xs)
  show ?case
  proof (cases n)
    case 0
    then show ?thesis by (simp add: kept_entries_def)
  next
    case (Suc j)
    then show ?thesis using Cons [of j] by (simp add: kept_entries_Cons)
  qed
qed (simp add: kept_entries_def)

lemma candidate_kept: "candidate s es P = s # concat (map fe_messages (kept_entries es P))"
  by (simp add: candidate_def kept_entries_def o_def)

lemma fit_select_kept:
  "fit_select es P =
     (let ke = kept_entries es P; has = (\<lambda>k. list_ex (\<lambda>e. fe_kind e = k) ke)
      in \<lparr>fs_messages = concat (map fe_messages ke),
          fs_history_kept = length (filter (\<lambda>e. fe_kind e = FkHistory) ke),
          fs_prompt_kept = has FkPrompt, fs_repository_kept = has FkRepository,
          fs_reminder_kept = has FkReminder\<rparr>)"
  by (simp add: fit_select_def kept_entries_def Let_def o_def filter_map list_ex_iff)

text \<open>The planner's shape: mandatory history, optional tails, mandatory prompt.\<close>

lemma kept_from_shape:
  assumes "\<forall>e \<in> set A. fe_mandatory e" "\<forall>e \<in> set B. \<not> fe_mandatory e" "\<forall>e \<in> set C. fe_mandatory e"
  shows "kept_entries (A @ B @ C) (kept_from (A @ B @ C) k n)
    = drop k A @ take n B @ drop (k - length A - length B) C"
proof -
  let ?es = "A @ B @ C"
  have at: "?es ! i = A ! i" if "i < length A" for i using that by (simp add: nth_append)
  have bt: "?es ! (i + length A) = B ! i" if "i < length B" for i using that by (simp add: nth_append)
  have ct: "?es ! (i + length B + length A) = C ! i" for i by (simp add: nth_append)
  have "[0..<length ?es] = [0..<length A] @ map (\<lambda>i. i + length A) [0..<length B] @
      map (\<lambda>i. i + length B + length A) [0..<length C]"
    using upt_add_eq_append [of 0 "length A" "length B + length C"]
      upt_add_eq_append [of "length A" "length A + length B" "length C"]
    by (simp add: map_add_upt add.commute add.left_commute)
  then have opt: "optional_indices ?es = map (\<lambda>i. i + length A) [0..<length B]"
    using assms by (auto simp: optional_indices_def filter_map o_def at bt ct filter_empty_conv
        intro!: filter_True)
  have tn: "i + length A \<in> set (take n (optional_indices ?es)) \<longleftrightarrow> i < n" if "i < length B" for i
  proof -
    have "set (take n [0..<length B]) = {0..<min n (length B)}"
      by (cases "n \<le> length B") (simp_all add: take_upt)
    then show ?thesis using that by (auto simp: opt take_map)
  qed
  have "kept_entries A (kept_from ?es k n) = kept_entries A (\<lambda>i. k \<le> i)"
    using assms(1) by (intro kept_entries_cong) (simp add: kept_from_def at)
  moreover have "kept_entries B (\<lambda>i. kept_from ?es k n (i + length A)) = kept_entries B (\<lambda>i. i < n)"
    using assms(2) tn by (intro kept_entries_cong) (simp add: kept_from_def bt)
  moreover have "kept_entries C (\<lambda>i. kept_from ?es k n (i + length B + length A))
      = kept_entries C (\<lambda>i. k - length A - length B \<le> i)"
    using assms(3) by (intro kept_entries_cong) (auto simp: kept_from_def ct)
  ultimately show ?thesis
    by (simp add: kept_entries_append kept_entries_drop kept_entries_take)
qed

lemma fit_entries_kinds:
  "e \<in> set (fit_entries v) \<Longrightarrow> \<not> fe_mandatory e \<and> fe_kind e \<in> {FkRepository, FkReminder}"
  by (auto simp: fit_entries_def fit_volatile_def)

lemma fit_entries_take:
  "concat (map fe_messages (take n (fit_entries v))) =
     volatile_messages (volatile_filtered
       (list_ex (\<lambda>e. fe_kind e = FkRepository) (take n (fit_entries v)))
       (list_ex (\<lambda>e. fe_kind e = FkReminder) (take n (fit_entries v))) v)"
  by (cases n; cases "n - 1"; cases "vt_repository v"; cases "vt_reminder v")
    (simp_all add: fit_entries_def fit_volatile_def opt_list_def volatile_messages_def
      volatile_filtered_def)

definition request_entries ::
  "history_segment list \<Rightarrow> volatile_turn_context \<Rightarrow> history_segment list \<Rightarrow> fit_entry list" where
  "request_entries history volatile prompts =
     map fit_history history @ fit_entries volatile @ map fit_prompt prompts"

lemma request_entries_kept:
  "kept_entries (request_entries H v P) (kept_from (request_entries H v P) k n)
     = map fit_history (drop k H) @ take n (fit_entries v)
       @ map fit_prompt (drop (k - length H - length (fit_entries v)) P)"
proof -
  have "kept_entries (request_entries H v P) (kept_from (request_entries H v P) k n)
     = drop k (map fit_history H) @ take n (fit_entries v)
       @ drop (k - length (map fit_history H) - length (fit_entries v)) (map fit_prompt P)"
    unfolding request_entries_def
    by (rule kept_from_shape)
      (auto simp: fit_history_def fit_prompt_def dest: fit_entries_kinds)
  then show ?thesis by (simp add: drop_map)
qed

lemma mandatory_entries_kept:
  assumes "j \<le> length H"
  shows "kept_entries (request_entries H v P)
      (\<lambda>i. j \<le> i \<and> fe_mandatory (request_entries H v P ! i))
    = drop j (map fit_history H) @ map fit_prompt P"
proof -
  have man: "fe_mandatory (request_entries H v P ! i) \<longleftrightarrow>
      i < length H \<or> length H + length (fit_entries v) \<le> i" if "i < length (request_entries H v P)" for i
    using that fit_entries_kinds [of "fit_entries v ! (i - length H)" v]
    by (auto simp: request_entries_def nth_append fit_history_def fit_prompt_def)
  have "kept_entries (request_entries H v P) (\<lambda>i. j \<le> i \<and> fe_mandatory (request_entries H v P ! i))
      = kept_entries (request_entries H v P) (\<lambda>i. j \<le> i \<and> (i < length H \<or> length H + length (fit_entries v) \<le> i))"
    by (rule kept_entries_cong) (use man in auto)
  also have "\<dots> = kept_entries (map fit_history H) (\<lambda>i. j \<le> i) @ kept_entries (fit_entries v) (\<lambda>i. False)
      @ kept_entries (map fit_prompt P) (\<lambda>i. True)"
    unfolding request_entries_def kept_entries_append
    using assms by (intro arg_cong2 [where f = append] kept_entries_cong) auto
  also have "\<dots> = drop j (map fit_history H) @ map fit_prompt P"
    using kept_entries_drop [of "map fit_prompt P" 0]
    by (simp add: kept_entries_drop) (simp add: kept_entries_def)
  finally show ?thesis .
qed

text \<open>
  The fitted request is the assembled one: the kept suffix of the history, the tails that
  were admitted, and the prompt; and it is within the budget.
\<close>

lemma fit_request_shape:
  assumes "fit_request W system (request_entries H v P) budget = Inr f"
  obtains k j where
    "fs_messages f = segment_messages (drop k H)
       @ volatile_messages (volatile_filtered (fs_repository_kept f) (fs_reminder_kept f) v)
       @ segment_messages (drop j P)"
    and "fs_history_kept f = length H - k" and "fs_prompt_kept f \<longleftrightarrow> drop j P \<noteq> []"
    and "drop k H \<noteq> [] \<or> drop j P \<noteq> [] \<longrightarrow>
           (\<exists>m. W (system # fs_messages f) = Inr m \<and> m \<le> budget)"
    and "k = 0 \<or> 0 < j \<or> (k \<le> length H \<and> (\<exists>m. W (system # segment_messages (drop (k - 1) H)
           @ segment_messages P) = Inr m \<and> budget < m))"
proof -
  let ?es = "request_entries H v P"
  obtain k n where f: "f = fit_select ?es (kept_from ?es k n)"
    and fits: "(\<exists>i < length ?es. kept_from ?es k n i) \<longrightarrow>
           (\<exists>m. W (candidate system ?es (kept_from ?es k n)) = Inr m \<and> m \<le> budget)"
    and stop: "k = 0 \<or> (fe_mandatory (?es ! (k - 1)) \<and>
       (\<exists>m. W (candidate system ?es (\<lambda>i. k - 1 \<le> i \<and> fe_mandatory (?es ! i))) = Inr m \<and> budget < m))"
    using assms by (rule fit_request_kept)
  define j where "j = k - length H - length (fit_entries v)"
  have ke: "kept_entries ?es (kept_from ?es k n)
      = map fit_history (drop k H) @ take n (fit_entries v) @ map fit_prompt (drop j P)"
    using request_entries_kept [of H v P k n] by (simp add: j_def)
  have tails: "fe_kind e = FkRepository \<or> fe_kind e = FkReminder" if "e \<in> set (take n (fit_entries v))" for e
    using that by (auto dest!: in_set_takeD dest: fit_entries_kinds)
  have none: "filter (\<lambda>e. fe_kind e = FkHistory) (take n (fit_entries v)) = []"
    "\<not> list_ex (\<lambda>e. fe_kind e = FkPrompt) (take n (fit_entries v))"
    using tails by (fastforce simp: filter_empty_conv list_ex_iff)+
  have kinds: "fe_kind (fit_history s) = FkHistory" "fe_kind (fit_prompt s) = FkPrompt"
    "fe_messages (fit_history s) = hs_messages s" "fe_messages (fit_prompt s) = hs_messages s" for s
    by (simp_all add: fit_history_def fit_prompt_def)
  have "fs_repository_kept f = list_ex (\<lambda>e. fe_kind e = FkRepository) (take n (fit_entries v))"
    "fs_reminder_kept f = list_ex (\<lambda>e. fe_kind e = FkReminder) (take n (fit_entries v))"
    by (auto simp: f fit_select_kept ke Let_def kinds list_ex_iff)
  moreover have "fs_messages f = segment_messages (drop k H)
      @ concat (map fe_messages (take n (fit_entries v))) @ segment_messages (drop j P)"
    by (simp add: f fit_select_kept ke Let_def kinds segment_messages_def o_def)
  ultimately have "fs_messages f = segment_messages (drop k H)
      @ volatile_messages (volatile_filtered (fs_repository_kept f) (fs_reminder_kept f) v)
      @ segment_messages (drop j P)"
    by (simp add: fit_entries_take)
  moreover have "fs_history_kept f = length H - k"
    using none by (simp add: f fit_select_kept ke Let_def kinds o_def filter_map)
  moreover have "fs_prompt_kept f \<longleftrightarrow> drop j P \<noteq> []"
    using none
    by (cases "drop j P") (auto simp: f fit_select_kept ke Let_def kinds list_ex_iff)
  moreover have "\<exists>m. W (system # fs_messages f) = Inr m \<and> m \<le> budget"
    if "drop k H \<noteq> [] \<or> drop j P \<noteq> []"
  proof -
    have "kept_entries ?es (kept_from ?es k n) \<noteq> []" using that ke by auto
    then have "\<exists>i < length ?es. kept_from ?es k n i"
      by (auto simp: kept_entries_def filter_empty_conv)
    then show ?thesis using fits by (simp add: candidate_kept f fit_select_kept Let_def)
  qed
  moreover have "k = 0 \<or> 0 < j \<or> (k \<le> length H \<and> (\<exists>m. W (system # segment_messages (drop (k - 1) H)
           @ segment_messages P) = Inr m \<and> budget < m))"
  proof (cases "k = 0 \<or> 0 < j")
    case settled: False
    have "\<not> fe_mandatory (?es ! (k - 1))" if "length H < k"
      using that settled fit_entries_kinds [of "fit_entries v ! (k - 1 - length H)" v]
      by (auto simp: request_entries_def nth_append j_def)
    then have False: "\<not> (k = 0 \<or> length H < k)" using settled stop by auto
    have "kept_entries ?es (\<lambda>i. k - 1 \<le> i \<and> fe_mandatory (?es ! i))
        = drop (k - 1) (map fit_history H) @ map fit_prompt P"
      using False by (intro mandatory_entries_kept) auto
    then show ?thesis using stop False
      by (simp add: candidate_kept segment_messages_def drop_map o_def kinds)
  qed auto
  ultimately show ?thesis using that by blast
qed

lemma drop_kept: "drop (length H - (length H - k)) H = drop k H"
  by (cases "k \<le> length H") auto

lemma fit_request_with_prompt:
  assumes fit: "fit_request W system (request_entries H v [p]) budget = Inr f"
    and kept: "fs_prompt_kept f" and prompt: "hs_messages p = [m]"
  shows "fs_history_kept f \<le> length H"
    and "system # fs_messages f = assemble_request system None
           (drop (length H - fs_history_kept f) H)
           (volatile_filtered (fs_repository_kept f) (fs_reminder_kept f) v) (Some m)"
    and "\<exists>n. W (system # fs_messages f) = Inr n \<and> n \<le> budget"
    and "fs_history_kept f < length H \<longrightarrow>
      (\<exists>n. W (assemble_request system None (drop (length H - fs_history_kept f - 1) H)
          \<lparr>vt_repository = None, vt_reminder = None\<rparr> (Some m)) = Inr n \<and> budget < n)"
proof -
  obtain k j where shape: "fs_messages f = segment_messages (drop k H)
       @ volatile_messages (volatile_filtered (fs_repository_kept f) (fs_reminder_kept f) v)
       @ segment_messages (drop j [p])"
    and hk: "fs_history_kept f = length H - k" and pk: "fs_prompt_kept f \<longleftrightarrow> drop j [p] \<noteq> []"
    and fits: "drop k H \<noteq> [] \<or> drop j [p] \<noteq> [] \<longrightarrow>
           (\<exists>m. W (system # fs_messages f) = Inr m \<and> m \<le> budget)"
    and stop: "k = 0 \<or> 0 < j \<or> (k \<le> length H \<and> (\<exists>m. W (system # segment_messages (drop (k - 1) H)
           @ segment_messages [p]) = Inr m \<and> budget < m))"
    using fit by (rule fit_request_shape)
  have j: "j = 0" using pk kept by (cases j) auto
  with shape hk fits prompt show "fs_history_kept f \<le> length H"
    and "system # fs_messages f = assemble_request system None
           (drop (length H - fs_history_kept f) H)
           (volatile_filtered (fs_repository_kept f) (fs_reminder_kept f) v) (Some m)"
    and "\<exists>n. W (system # fs_messages f) = Inr n \<and> n \<le> budget"
    by (simp_all add: assemble_request_def opt_list_def segment_messages_def drop_kept)
  have "length H - fs_history_kept f - 1 = k - 1" if "k \<le> length H" using that hk by simp
  then show "fs_history_kept f < length H \<longrightarrow>
      (\<exists>n. W (assemble_request system None (drop (length H - fs_history_kept f - 1) H)
          \<lparr>vt_repository = None, vt_reminder = None\<rparr> (Some m)) = Inr n \<and> budget < n)"
    using stop j hk prompt
    by (auto simp: assemble_request_def opt_list_def volatile_messages_def segment_messages_def)
qed

end
