(* ===== verification/History_Planner.thy ===== *)
theory History_Planner
  imports Request_Fit
begin

text \<open>
  The pre-turn planner of \<open>latte-headless/src/session.rs\<close>: the first request of a session,
  and \<open>prepare_history\<close> with its two compaction tiers. The summarizer is an argument: for
  a source text it returns an error, no summary, or a summary. Compaction failures per
  session are counted in a map that lives as long as the process.
\<close>

subsection \<open>Process-local state\<close>

definition MAX_COMPACTION_FAILURES :: nat where "MAX_COMPACTION_FAILURES = 3"

definition REMINDER_CAP_BYTES :: nat where "REMINDER_CAP_BYTES = 4096"

type_synonym failure_counts = "uuid \<rightharpoonup> nat"

definition compaction_breaker_tripped :: "failure_counts \<Rightarrow> uuid \<Rightarrow> bool" where
  "compaction_breaker_tripped fc sid =
     (case fc sid of None \<Rightarrow> False | Some failures \<Rightarrow> failures \<ge> MAX_COMPACTION_FAILURES)"

definition note_compaction_failure :: "uuid \<Rightarrow> failure_counts \<Rightarrow> failure_counts" where
  "note_compaction_failure sid fc =
     fc(sid \<mapsto> (case fc sid of None \<Rightarrow> 0 | Some failures \<Rightarrow> failures) + 1)"

definition note_compaction_success :: "uuid \<Rightarrow> failure_counts \<Rightarrow> failure_counts" where
  "note_compaction_success sid fc = fc(sid := None)"

type_synonym reminders = "uuid \<rightharpoonup> rstr"

definition set_reminder ::
  "lib \<Rightarrow> session_lifecycle \<Rightarrow> uuid \<Rightarrow> rstr \<Rightarrow> reminders \<Rightarrow> runtime_error + reminders \<times> nat" where
  "set_reminder L lifecycle sid value slots =
     (if lifecycle \<noteq> LcReady then Inl ErInvalidState
      else let redacted = redact L value in
        if trim redacted = [] then Inl (ErHistory (lit ''reminder text must not be empty''))
        else if utf8_len redacted > REMINDER_CAP_BYTES
        then Inl (ErHistory (lit ''reminder exceeds the '' @ nat_text REMINDER_CAP_BYTES @
               lit ''-byte cap''))
        else Inr (slots(sid \<mapsto> redacted), utf8_len redacted))"

definition take_reminder :: "uuid \<Rightarrow> reminders \<Rightarrow> rstr option \<times> reminders" where
  "take_reminder sid slots = (slots sid, slots(sid := None))"

definition restore_reminder :: "uuid \<Rightarrow> rstr option \<Rightarrow> reminders \<Rightarrow> reminders" where
  "restore_reminder sid value slots = (case value of
     None \<Rightarrow> slots
   | Some v \<Rightarrow> (case slots sid of None \<Rightarrow> slots(sid \<mapsto> v) | Some _ \<Rightarrow> slots))"

subsection \<open>Heads and prompts\<close>

definition build_system_head :: "lib \<Rightarrow> harness_profile \<Rightarrow> runtime_error + message" where
  "build_system_head L h =
     bindE (map_err (\<lambda>e. ErProviderConfiguration (profile_error_text e)) (system_prompt h []))
       (\<lambda>text. Inr (System (redact L text)))"

definition prospective_prompt_segment :: "lib \<Rightarrow> rstr \<Rightarrow> history_segment" where
  "prospective_prompt_segment L prompt =
     segment_new None None [User (redact L prompt)] (tagged ''user'' (redact L prompt))"

definition initial_messages ::
  "lib \<Rightarrow> wire_size \<Rightarrow> harness_profile \<Rightarrow> rstr \<Rightarrow> runtime_error + message list" where
  "initial_messages L W h prompt =
     bindE (build_system_head L h) (\<lambda>head.
     enforce_budget W [head, User (redact L prompt)] (profile_history_policy h))"

definition prompt_too_large :: runtime_error where
  "prompt_too_large =
     ErHistory (lit ''newest complete user segment exceeds the exact request budget'')"

definition first_turn_messages ::
  "lib \<Rightarrow> wire_size \<Rightarrow> harness_profile \<Rightarrow> context_bundle \<Rightarrow> rstr \<Rightarrow> rstr option
     \<Rightarrow> runtime_error + message list \<times> volatile_turn_context" where
  "first_turn_messages L W h bundle prompt reminder =
     (let volatile = build_volatile_turn_context bundle reminder in
      bindE (build_system_head L h) (\<lambda>head.
      bindE (history_budget (profile_history_policy h)) (\<lambda>budget.
      bindE (fit_request W head
               (request_entries [] volatile [prospective_prompt_segment L prompt]) budget) (\<lambda>fit.
      if \<not> fs_prompt_kept fit then Inl prompt_too_large
      else Inr (head # fs_messages fit,
             volatile_filtered (fs_repository_kept fit) (fs_reminder_kept fit) volatile)))))"

subsection \<open>Boundaries and summary sources\<close>

text \<open>
  The walk of \<open>proactive_retain_boundary\<close> over the movable positions, newest first:
  \<open>boundary\<close> is the oldest retained position so far, \<open>accumulated\<close> its size.
\<close>

fun retain_walk :: "wire_size \<Rightarrow> history_segment list \<Rightarrow> nat \<Rightarrow> nat list \<Rightarrow> nat \<Rightarrow> nat
    \<Rightarrow> runtime_error + nat" where
  "retain_walk W segments retain_bytes [] boundary accumulated = Inr boundary"
| "retain_walk W segments retain_bytes (i # is) boundary accumulated =
     (if hs_from_summary (segments ! i) then Inr (i + 1)
      else bindE (wire_bytes W (hs_messages (segments ! i))) (\<lambda>size.
      if accumulated = 0 then retain_walk W segments retain_bytes is i size
      else if min (accumulated + size) (u64_bound - 1) > retain_bytes then Inr boundary
      else retain_walk W segments retain_bytes is i (accumulated + size)))"

definition proactive_retain_boundary ::
  "wire_size \<Rightarrow> history_segment list \<Rightarrow> nat \<Rightarrow> nat \<Rightarrow> nat \<Rightarrow> runtime_error + nat option" where
  "proactive_retain_boundary W segments budget retain_ratio immobile_tail =
     (let retain_bytes = usize_saturating_mul budget retain_ratio div 100;
          movable_end = length segments - immobile_tail
      in bindE (retain_walk W segments retain_bytes (rev [0..<movable_end]) movable_end 0) (\<lambda>boundary.
         Inr (if boundary > 0 then Some boundary else None)))"

text \<open>The longest prefix within a number of bytes that ends at a character boundary.\<close>

fun floor_prefix :: "nat \<Rightarrow> rstr \<Rightarrow> rstr" where
  "floor_prefix n [] = []"
| "floor_prefix n (c # cs) =
     (if len_utf8 c \<le> n then c # floor_prefix (n - len_utf8 c) cs else [])"

fun summary_parts :: "nat \<Rightarrow> rstr list \<Rightarrow> rstr list" where
  "summary_parts bound [] = []"
| "summary_parts bound (text # texts) =
     (if bound = 0 then []
      else let part = floor_prefix bound text
           in part # summary_parts (bound - utf8_len part) texts)"

definition compaction_source ::
  "history_segment list \<Rightarrow> nat \<Rightarrow> compaction_policy \<Rightarrow> nat option \<times> rstr" where
  "compaction_source segments boundary compaction =
     (Option.bind (find (\<lambda>s. hs_first_sequence s \<noteq> None) (drop boundary segments)) hs_first_sequence,
      concat (summary_parts (cp_max_summary_source_bytes compaction)
                (map hs_text (rev (take boundary segments)))))"

definition fold_prompt_into_summary_source :: "lib \<Rightarrow> rstr \<Rightarrow> rstr \<Rightarrow> nat \<Rightarrow> rstr" where
  "fold_prompt_into_summary_source L source prompt max_bytes =
     floor_prefix max_bytes (source @ [10] @ tagged ''user'' (redact L prompt))"

definition through_sequence :: "history_segment list \<Rightarrow> nat" where
  "through_sequence segments = fold max (List.map_filter hs_max_sequence segments) 0"

subsection \<open>The planner\<close>

record superseded_history =
  su_through_sequence :: nat
  su_retain_from_sequence :: "nat option"

datatype prepared_history =
    Complete "message list"
  | Elided "message list" "nat list"
  | Summarized "message list" superseded_history rstr
  | Degraded "message list"

fun prepared_messages :: "prepared_history \<Rightarrow> message list" where
  "prepared_messages (Complete ms) = ms"
| "prepared_messages (Elided ms _) = ms"
| "prepared_messages (Summarized ms _ _) = ms"
| "prepared_messages (Degraded ms) = ms"

text \<open>\<open>None\<close>: the usage estimate panics, which a validated policy excludes.\<close>

definition compaction_due :: "harness_profile \<Rightarrow> nat \<Rightarrow> nat \<Rightarrow> bool" where
  "compaction_due h used discarded =
     (case policy_usage (hp_context h) used discarded of
        None \<Rightarrow> False | Some u \<Rightarrow> cu_proactive_compaction_due u)"

record fit_env =
  en_system :: message
  en_profile :: harness_profile
  en_budget :: nat
  en_volatile :: volatile_turn_context
  en_prompt :: rstr
  en_prompt_message :: message

definition elision_cures ::
  "lib \<Rightarrow> wire_size \<Rightarrow> history_segment list \<Rightarrow> bool \<Rightarrow> fit_env \<Rightarrow> runtime_error + bool" where
  "elision_cures L W elided reactive env =
     (if reactive then
        bindE (fit_request W (en_system env)
                 (request_entries elided (en_volatile env)
                    [prospective_prompt_segment L (en_prompt env)]) (en_budget env)) (\<lambda>fit.
        Inr (fs_prompt_kept fit \<and> fs_history_kept fit = length elided))
      else
        bindE (wire_bytes W (assemble_request (en_system env) None elided (en_volatile env)
                 (Some (en_prompt_message env)))) (\<lambda>used.
        Inr (\<not> compaction_due (en_profile env) used 0)))"

definition apply_pre_turn_elision ::
  "lib \<Rightarrow> wire_size \<Rightarrow> compaction_strategy \<Rightarrow> history_segment list \<Rightarrow> nat \<Rightarrow> bool \<Rightarrow> fit_env
     \<Rightarrow> runtime_error + prepared_history option \<times> history_segment list" where
  "apply_pre_turn_elision L W strategy history boundary reactive env =
     (if strategy \<noteq> ElideToolResultsThenSummarize then Inr (None, history)
      else let (elided, sequences) = elide_prefix L history boundary in
        if sequences = [] then Inr (None, history)
        else bindE (elision_cures L W elided reactive env) (\<lambda>cured.
          if \<not> cured then Inr (None, elided)
          else let messages = assemble_request (en_system env) None elided (en_volatile env)
                     (Some (en_prompt_message env))
               in case enforce_budget W messages (profile_history_policy (en_profile env)) of
                    Inl _ \<Rightarrow> Inr (None, elided)
                  | Inr _ \<Rightarrow> Inr (Some (Elided messages sequences), elided)))"

type_synonym summarizer = "rstr \<Rightarrow> runtime_error + rstr option"

definition prepare_summary_tier ::
  "lib \<Rightarrow> wire_size \<Rightarrow> summarizer \<Rightarrow> uuid \<Rightarrow> failure_counts \<Rightarrow> history_segment list \<Rightarrow> nat \<Rightarrow> fit_env
     \<Rightarrow> message list \<Rightarrow> runtime_error + prepared_history \<times> failure_counts" where
  "prepare_summary_tier L W summarize sid fc fitting boundary env plain =
     (let compaction = profile_compaction (en_profile env);
          (retain_from, base) = compaction_source fitting boundary compaction;
          source = (if retain_from = None
            then fold_prompt_into_summary_source L base (en_prompt env)
                   (cp_max_summary_source_bytes compaction)
            else base)
      in bindE (summarize source) (\<lambda>outcome.
         case outcome of
           None \<Rightarrow> Inr (Degraded plain, note_compaction_failure sid fc)
         | Some summary \<Rightarrow>
             let messages = assemble_request (en_system env) (Some summary) (drop boundary fitting)
                   (en_volatile env) (Some (en_prompt_message env))
             in case enforce_budget W messages (profile_history_policy (en_profile env)) of
                  Inl _ \<Rightarrow> Inr (Degraded plain, note_compaction_failure sid fc)
                | Inr _ \<Rightarrow> Inr (Summarized messages
                    \<lparr>su_through_sequence = through_sequence (take boundary fitting),
                     su_retain_from_sequence = retain_from\<rparr> summary,
                    note_compaction_success sid fc)))"

text \<open>The prefix to shrink: what the fit discarded, or the proactive boundary when it is due.\<close>

definition shrink_boundary ::
  "wire_size \<Rightarrow> harness_profile \<Rightarrow> history_segment list \<Rightarrow> nat \<Rightarrow> nat \<Rightarrow> message list
     \<Rightarrow> runtime_error + nat option" where
  "shrink_boundary W h history budget discard_at plain =
     (if discard_at > 0 then Inr (Some discard_at)
      else bindE (wire_bytes W plain) (\<lambda>used.
        if \<not> compaction_due h used 0 then Inr None
        else proactive_retain_boundary W history budget
               (cp_retain_ratio (profile_compaction h)) 0))"

definition prepare_history ::
  "lib \<Rightarrow> wire_size \<Rightarrow> profile_catalog \<Rightarrow> summarizer \<Rightarrow> failure_counts \<Rightarrow> session_snapshot \<Rightarrow> rstr
     \<Rightarrow> volatile_turn_context \<Rightarrow> runtime_error + prepared_history \<times> failure_counts" where
  "prepare_history L W catalog summarize fc snapshot prompt volatile =
     bindE (map_err (\<lambda>e. ErProviderConfiguration (profile_error_text e))
              (resolve catalog (sn_binding snapshot))) (\<lambda>h.
     bindE (build_system_head L h) (\<lambda>system.
     bindE (history_budget (profile_history_policy h)) (\<lambda>budget.
     let history = scan_history_segments snapshot in
     bindE (fit_request W system
              (request_entries history volatile [prospective_prompt_segment L prompt]) budget) (\<lambda>fit.
     if \<not> fs_prompt_kept fit then Inl prompt_too_large
     else
     let discard_at = length history - fs_history_kept fit;
         prompt_message = User (redact L prompt);
         fitted = volatile_filtered (fs_repository_kept fit) (fs_reminder_kept fit) volatile;
         plain = assemble_request system None (drop discard_at history) fitted (Some prompt_message);
         sid = sn_session_id snapshot
     in if cp_strategy (profile_compaction h) = CsOff \<or> compaction_breaker_tripped fc sid
        then Inr (Complete plain, fc)
        else bindE (shrink_boundary W h history budget discard_at plain) (\<lambda>at.
          case at of
            None \<Rightarrow> Inr (Complete plain, fc)
          | Some boundary \<Rightarrow>
              let env = \<lparr>en_system = system, en_profile = h, en_budget = budget,
                    en_volatile = fitted, en_prompt = prompt, en_prompt_message = prompt_message\<rparr>
              in bindE (apply_pre_turn_elision L W (cp_strategy (profile_compaction h)) history
                          boundary (discard_at > 0) env) (\<lambda>(elided, fitting).
                 case elided of
                   Some prepared \<Rightarrow> Inr (prepared, fc)
                 | None \<Rightarrow> prepare_summary_tier L W summarize sid fc fitting boundary env plain))))))"

subsection \<open>Read-only usage\<close>

definition session_context_usage ::
  "lib \<Rightarrow> wire_size \<Rightarrow> profile_catalog \<Rightarrow> session_snapshot \<Rightarrow> context_bundle
     \<Rightarrow> runtime_error + context_usage option" where
  "session_context_usage L W catalog snapshot bundle =
     bindE (map_err (\<lambda>e. ErProviderConfiguration (profile_error_text e))
              (resolve catalog (sn_binding snapshot))) (\<lambda>h.
     bindE (history_budget (profile_history_policy h)) (\<lambda>budget.
     bindE (build_system_head L h) (\<lambda>system.
     let segments = scan_history_segments snapshot;
         volatile = build_volatile_turn_context bundle None
     in bindE (fit_request W system (request_entries segments volatile []) budget) (\<lambda>fit.
        bindE (wire_bytes W (system # fs_messages fit)) (\<lambda>used.
        Inr (policy_usage (hp_context h) used (length segments - fs_history_kept fit)))))))"

subsection \<open>Prepared requests are legal and within the budget\<close>

text \<open>
  \<open>sendable\<close>: within the budget, every tool message answers a declared call, the system
  message first and the prompt last.
\<close>

definition sendable :: "wire_size \<Rightarrow> nat \<Rightarrow> message \<Rightarrow> message \<Rightarrow> message list \<Rightarrow> bool" where
  "sendable W budget system prompt ms \<longleftrightarrow>
     (\<exists>n. W ms = Inr n \<and> n \<le> budget) \<and> tools_answer {} ms
     \<and> ms \<noteq> [] \<and> hd ms = system \<and> last ms = prompt"

lemma segments_ok_answer: "segments_ok ss \<Longrightarrow> tools_answer ids (segment_messages ss)"
  unfolding segment_messages_def
  by (rule tools_answer_concat) (auto simp: segments_ok_def segment_ok_def)

lemma segments_ok_drop: "segments_ok ss \<Longrightarrow> segments_ok (drop n ss)"
  by (auto simp: segments_ok_def dest: in_set_dropD)

text \<open>Volatile messages are user messages, so they never break the tool grammar.\<close>

definition volatile_ok :: "volatile_turn_context \<Rightarrow> bool" where
  "volatile_ok v \<longleftrightarrow> (\<forall>m \<in> set (volatile_messages v). \<exists>c. m = User c)"

lemma build_volatile_ok: "volatile_ok (build_volatile_turn_context bundle reminder)"
  by (auto simp: volatile_ok_def volatile_messages_def build_volatile_turn_context_def opt_list_def
      repository_context_message_def reminder_message_def split: option.splits if_splits)

lemma volatile_filtered_ok: "volatile_ok v \<Longrightarrow> volatile_ok (volatile_filtered r m v)"
  by (auto simp: volatile_ok_def volatile_messages_def volatile_filtered_def opt_list_def)

lemma tools_answer_users:
  "\<forall>m \<in> set ms. \<exists>c. m = User c \<Longrightarrow> tools_answer ids ms"
  by (induction ms) auto

lemma assemble_request_answers:
  assumes "segments_ok history" and "volatile_ok v"
  shows "tools_answer {} (assemble_request (System s) summary history v (Some (User p)))"
  using assms segments_ok_answer [OF assms(1)] tools_answer_users
  by (auto simp: assemble_request_def tools_answer_append volatile_ok_def opt_list_def
      summary_message_def split: option.split intro!: tools_answer_users)

lemma assemble_request_ends:
  "assemble_request s summary history v (Some p) \<noteq> []"
  "hd (assemble_request s summary history v (Some p)) = s"
  "last (assemble_request s summary history v (Some p)) = p"
  by (simp_all add: assemble_request_def opt_list_def)

lemma enforce_budget_fits:
  assumes "enforce_budget W ms policy = Inr r" and "history_budget policy = Inr budget"
  shows "\<exists>n. W ms = Inr n \<and> n \<le> budget"
  using assms by (auto simp: enforce_budget_Inr)

lemma build_system_head_Inr: "build_system_head L h = Inr m \<Longrightarrow> \<exists>s. m = System s"
  by (auto simp: build_system_head_def)

lemma fitted_plain_sendable:
  assumes fit: "fit_request W (System s)
      (request_entries history v [prospective_prompt_segment L prompt]) budget = Inr f"
    and kept: "fs_prompt_kept f" and ok: "segments_ok history" "volatile_ok v"
  shows "sendable W budget (System s) (User (redact L prompt))
    (assemble_request (System s) None (drop (length history - fs_history_kept f) history)
      (volatile_filtered (fs_repository_kept f) (fs_reminder_kept f) v) (Some (User (redact L prompt))))"
proof -
  have "hs_messages (prospective_prompt_segment L prompt) = [User (redact L prompt)]"
    by (simp add: prospective_prompt_segment_def segment_new_def)
  from fit_request_with_prompt [OF fit kept this] ok show ?thesis
    by (auto simp: sendable_def assemble_request_ends segments_ok_drop volatile_filtered_ok
        assemble_request_answers)
qed

lemma assembled_sendable:
  assumes "enforce_budget W (assemble_request (System s) summary history v (Some (User p))) policy = Inr r"
    and "history_budget policy = Inr budget" and "segments_ok history" and "volatile_ok v"
  shows "sendable W budget (System s) (User p)
    (assemble_request (System s) summary history v (Some (User p)))"
  using enforce_budget_fits [OF assms(1,2)] assms(3,4)
  by (simp add: sendable_def assemble_request_ends assemble_request_answers)

text \<open>The tier environment of \<open>prepare_history\<close>.\<close>

definition env_ok :: "fit_env \<Rightarrow> bool" where
  "env_ok env \<longleftrightarrow> (\<exists>s. en_system env = System s) \<and> (\<exists>p. en_prompt_message env = User p)
     \<and> volatile_ok (en_volatile env)
     \<and> history_budget (profile_history_policy (en_profile env)) = Inr (en_budget env)"

lemma apply_pre_turn_elision_ok:
  assumes "apply_pre_turn_elision L W strategy history boundary reactive env = Inr (elided, fitting)"
    and "env_ok env" and "segments_ok history"
  shows "segments_ok fitting"
    and "\<And>p. elided = Some p \<Longrightarrow>
      sendable W (en_budget env) (en_system env) (en_prompt_message env) (prepared_messages p)"
proof -
  obtain es seqs where e: "elide_prefix L history boundary = (es, seqs)" by fastforce
  have es: "segments_ok es" using elide_prefix_ok [OF assms(3), of L boundary] e by simp
  show "segments_ok fitting"
    using assms(1,3) es e
    by (auto simp: apply_pre_turn_elision_def Let_def split: if_splits sum.splits)
  fix p assume p: "elided = Some p"
  let ?ms = "assemble_request (en_system env) None es (en_volatile env) (Some (en_prompt_message env))"
  have "p = Elided ?ms seqs"
    and "is_ok (enforce_budget W ?ms (profile_history_policy (en_profile env)))"
    using assms(1) e p
    by (auto simp: apply_pre_turn_elision_def Let_def split: if_splits sum.splits)
  moreover obtain s q where "en_system env = System s" "en_prompt_message env = User q"
    using assms(2) by (auto simp: env_ok_def)
  ultimately show "sendable W (en_budget env) (en_system env) (en_prompt_message env) (prepared_messages p)"
    using assembled_sendable [of W s None es "en_volatile env" q] assms(2) es
    by (auto simp: env_ok_def is_ok_def split: sum.splits)
qed

lemma prepare_summary_tier_ok:
  assumes "prepare_summary_tier L W summarize sid fc fitting boundary env plain = Inr (r, fc')"
    and "env_ok env" and "segments_ok fitting"
    and "sendable W (en_budget env) (en_system env) (en_prompt_message env) plain"
  shows "sendable W (en_budget env) (en_system env) (en_prompt_message env) (prepared_messages r)"
proof -
  let ?ms = "\<lambda>summary. assemble_request (en_system env) (Some summary) (drop boundary fitting)
    (en_volatile env) (Some (en_prompt_message env))"
  obtain s q where "en_system env = System s" "en_prompt_message env = User q"
    using assms(2) by (auto simp: env_ok_def)
  then have fits: "sendable W (en_budget env) (en_system env) (en_prompt_message env) (?ms summary)"
    if "enforce_budget W (?ms summary) (profile_history_policy (en_profile env)) = Inr u" for summary u
    using that assms(2,3) assembled_sendable [of W s "Some summary" "drop boundary fitting"]
    by (auto simp: env_ok_def segments_ok_drop)
  have "prepared_messages r = plain \<or> (\<exists>summary u. prepared_messages r = ?ms summary
      \<and> enforce_budget W (?ms summary) (profile_history_policy (en_profile env)) = Inr u)"
  proof -
    obtain rf base where cs: "compaction_source fitting boundary (profile_compaction (en_profile env))
        = (rf, base)" by fastforce
    note step = assms(1) [unfolded prepare_summary_tier_def Let_def cs prod.case bindE_eq_Inr]
    from step obtain outcome where o: "(case outcome of
        None \<Rightarrow> Inr (Degraded plain, note_compaction_failure sid fc)
      | Some summary \<Rightarrow> case enforce_budget W (?ms summary) (profile_history_policy (en_profile env)) of
          Inl _ \<Rightarrow> Inr (Degraded plain, note_compaction_failure sid fc)
        | Inr _ \<Rightarrow> Inr (Summarized (?ms summary) \<lparr>su_through_sequence =
            through_sequence (take boundary fitting), su_retain_from_sequence = rf\<rparr> summary,
            note_compaction_success sid fc)) = (Inr (r, fc') :: runtime_error + _)"
      by blast
    show ?thesis
    proof (cases outcome)
      case None
      with o show ?thesis by auto
    next
      case (Some summary)
      with o show ?thesis
        by (cases "enforce_budget W (?ms summary) (profile_history_policy (en_profile env))") auto
    qed
  qed
  then show ?thesis using assms(4) fits by auto
qed

theorem prepare_history_sendable:
  assumes "prepare_history L W catalog summarize fc snapshot prompt volatile = Inr (r, fc')"
    and "volatile_ok volatile"
  shows "\<exists>h s budget. resolve catalog (sn_binding snapshot) = Inr h
    \<and> build_system_head L h = Inr (System s)
    \<and> history_budget (profile_history_policy h) = Inr budget
    \<and> sendable W budget (System s) (User (redact L prompt)) (prepared_messages r)"
proof -
  let ?history = "scan_history_segments snapshot"
  have ok: "segments_ok ?history" by (rule scan_history_segments_ok)
  obtain h system budget fit where h: "resolve catalog (sn_binding snapshot) = Inr h"
    and system: "build_system_head L h = Inr system"
    and budget: "history_budget (profile_history_policy h) = Inr budget"
    and fit: "fit_request W system (request_entries ?history volatile
        [prospective_prompt_segment L prompt]) budget = Inr fit"
    and kept: "fs_prompt_kept fit"
    using assms(1) unfolding prepare_history_def Let_def by (simp only: result_simps) blast
  obtain s where s: "system = System s" using build_system_head_Inr [OF system] by blast
  define plain where "plain = assemble_request system None
      (drop (length ?history - fs_history_kept fit) ?history)
      (volatile_filtered (fs_repository_kept fit) (fs_reminder_kept fit) volatile)
      (Some (User (redact L prompt)))"
  define env where "env = \<lparr>en_system = system, en_profile = h, en_budget = budget,
      en_volatile = volatile_filtered (fs_repository_kept fit) (fs_reminder_kept fit) volatile,
      en_prompt = prompt, en_prompt_message = User (redact L prompt)\<rparr>"
  have env: "env_ok env" using assms(2) budget s by (simp add: env_def env_ok_def volatile_filtered_ok)
  have plain: "sendable W budget system (User (redact L prompt)) plain"
    using fitted_plain_sendable [OF fit [unfolded s] kept ok assms(2)] by (simp add: plain_def s)
  have "prepared_messages r = plain \<or> (\<exists>boundary elided fitting.
      apply_pre_turn_elision L W (cp_strategy (profile_compaction h)) ?history boundary
        (length ?history - fs_history_kept fit > 0) env = Inr (elided, fitting)
      \<and> (elided = Some r \<or> prepare_summary_tier L W summarize (sn_session_id snapshot) fc fitting
            boundary env plain = Inr (r, fc')))"
  proof (cases "cp_strategy (profile_compaction h) = CsOff
      \<or> compaction_breaker_tripped fc (sn_session_id snapshot)")
    case True
    then show ?thesis using assms(1) h system budget fit kept
      by (auto simp: prepare_history_def Let_def plain_def)
  next
    case False
    let ?at = "shrink_boundary W h ?history budget (length ?history - fs_history_kept fit) plain"
    obtain at where at: "?at = Inr at" and rest: "(case at of
        None \<Rightarrow> Inr (Complete plain, fc)
      | Some boundary \<Rightarrow>
          bindE (apply_pre_turn_elision L W (cp_strategy (profile_compaction h)) ?history boundary
            (length ?history - fs_history_kept fit > 0) env) (\<lambda>(elided, fitting).
          case elided of Some prepared \<Rightarrow> Inr (prepared, fc)
          | None \<Rightarrow> prepare_summary_tier L W summarize (sn_session_id snapshot) fc fitting boundary
              env plain)) = Inr (r, fc')"
      using assms(1) h system budget fit kept False
      unfolding prepare_history_def Let_def plain_def env_def
      by (simp only: result_simps if_False not_True_eq_False not_False_eq_True) blast
    show ?thesis
    proof (cases at)
      case None
      with rest show ?thesis by auto
    next
      case (Some boundary)
      with rest obtain elided fitting where "apply_pre_turn_elision L W
          (cp_strategy (profile_compaction h)) ?history boundary
          (length ?history - fs_history_kept fit > 0) env = Inr (elided, fitting)"
        and "(case elided of Some prepared \<Rightarrow> Inr (prepared, fc)
          | None \<Rightarrow> prepare_summary_tier L W summarize (sn_session_id snapshot) fc fitting boundary
              env plain) = Inr (r, fc')" by auto
      then show ?thesis by (cases elided) auto
    qed
  qed
  then have "sendable W budget system (User (redact L prompt)) (prepared_messages r)"
  proof
    assume "prepared_messages r = plain"
    with plain show ?thesis by simp
  next
    assume "\<exists>boundary elided fitting.
      apply_pre_turn_elision L W (cp_strategy (profile_compaction h)) ?history boundary
        (length ?history - fs_history_kept fit > 0) env = Inr (elided, fitting)
      \<and> (elided = Some r \<or> prepare_summary_tier L W summarize (sn_session_id snapshot) fc fitting
            boundary env plain = Inr (r, fc'))"
    then obtain boundary elided fitting where
      e: "apply_pre_turn_elision L W (cp_strategy (profile_compaction h)) ?history boundary
        (length ?history - fs_history_kept fit > 0) env = Inr (elided, fitting)"
      and "elided = Some r \<or> prepare_summary_tier L W summarize (sn_session_id snapshot) fc fitting
            boundary env plain = Inr (r, fc')" by blast
    moreover note apply_pre_turn_elision_ok [OF e env ok] prepare_summary_tier_ok [of L W summarize
        "sn_session_id snapshot" fc fitting boundary env plain r fc', OF _ env] plain
    ultimately show ?thesis by (auto simp: env_def)
  qed
  then show ?thesis using h system budget s by blast
qed

lemma first_turn_messages_sendable:
  assumes "first_turn_messages L W h bundle prompt reminder = Inr (ms, v)"
  shows "\<exists>s budget. build_system_head L h = Inr (System s)
    \<and> history_budget (profile_history_policy h) = Inr budget
    \<and> sendable W budget (System s) (User (redact L prompt)) ms"
proof -
  let ?v = "build_volatile_turn_context bundle reminder"
  obtain system budget fit where system: "build_system_head L h = Inr system"
    and budget: "history_budget (profile_history_policy h) = Inr budget"
    and fit: "fit_request W system (request_entries [] ?v [prospective_prompt_segment L prompt])
        budget = Inr fit"
    and kept: "fs_prompt_kept fit" and ms: "ms = system # fs_messages fit"
    using assms by (auto simp: first_turn_messages_def Let_def split: if_splits)
  obtain s where s: "system = System s" using build_system_head_Inr [OF system] by blast
  have "hs_messages (prospective_prompt_segment L prompt) = [User (redact L prompt)]"
    by (simp add: prospective_prompt_segment_def segment_new_def)
  from fit_request_with_prompt(2) [OF fit kept this]
  have "ms = assemble_request system None [] (volatile_filtered (fs_repository_kept fit)
      (fs_reminder_kept fit) ?v) (Some (User (redact L prompt)))" by (simp add: ms)
  moreover have "sendable W budget (System s) (User (redact L prompt)) (assemble_request (System s)
      None [] (volatile_filtered (fs_repository_kept fit) (fs_reminder_kept fit) ?v)
      (Some (User (redact L prompt))))"
    using fitted_plain_sendable [OF fit [unfolded s] kept] by (simp add: build_volatile_ok)
  ultimately show ?thesis using system budget s by auto
qed

subsection \<open>Sources and boundaries\<close>

lemma floor_prefix_le: "utf8_len (floor_prefix n s) \<le> n"
  by (induction n s rule: floor_prefix.induct) auto

lemma floor_prefix_prefix: "\<exists>t. s = floor_prefix n s @ t"
  by (induction n s rule: floor_prefix.induct) auto

lemma floor_prefix_all: "utf8_len s \<le> n \<Longrightarrow> floor_prefix n s = s"
  by (induction n s rule: floor_prefix.induct) auto

lemma summary_parts_le: "utf8_len (concat (summary_parts n ts)) \<le> n"
proof (induction n ts rule: summary_parts.induct)
  case (2 n t ts)
  have "utf8_len (concat (summary_parts (n - utf8_len (floor_prefix n t)) ts))
      \<le> n - utf8_len (floor_prefix n t)" if "n \<noteq> 0"
    using 2 that by simp
  then show ?case using floor_prefix_le [of n t] by (cases "n = 0") (simp_all add: Let_def)
qed simp

lemma compaction_source_le:
  "utf8_len (snd (compaction_source ss b c)) \<le> cp_max_summary_source_bytes c"
  by (simp add: compaction_source_def summary_parts_le)

lemma retain_walk_le:
  "retain_walk W ss rb is b acc = Inr b' \<Longrightarrow> sorted_wrt (>) (b # is) \<Longrightarrow> b' \<le> b"
proof (induction "is" arbitrary: b acc)
  case (Cons i "is")
  have i: "i < b" and sorted: "sorted_wrt (>) (i # is)" using Cons.prems(2) by auto
  note IH = Cons.IH [OF _ sorted]
  show ?case
  proof (cases "hs_from_summary (ss ! i)")
    case True
    then show ?thesis using Cons.prems(1) i by simp
  next
    case False
    then obtain size where step: "(if acc = 0 then retain_walk W ss rb is i size
        else if min (acc + size) (u64_bound - 1) > rb then Inr b
        else retain_walk W ss rb is i (acc + size)) = Inr b'"
      using Cons.prems(1) unfolding retain_walk.simps bindE_eq_Inr if_not_P [OF False] by blast
    show ?thesis
    proof (cases "acc = 0")
      case True
      then show ?thesis using step IH [of size] i by simp
    next
      case False
      then show ?thesis using step IH [of "acc + size"] i
        by (auto split: if_splits)
    qed
  qed
qed simp

text \<open>The boundary is a proper position: something older is summarized, within the movable part.\<close>

lemma proactive_retain_boundary_bounds:
  assumes "proactive_retain_boundary W ss budget ratio tail = Inr (Some b)"
  shows "0 < b" and "b \<le> length ss - tail"
proof -
  let ?n = "length ss - tail"
  have "sorted_wrt (>) (?n # rev [0..<?n])"
    by (simp add: sorted_wrt_rev)
  with assms show "0 < b" and "b \<le> length ss - tail"
    by (auto simp: proactive_retain_boundary_def Let_def split: if_splits dest: retain_walk_le)
qed

end
