(* ===== verification/Utf8_Text.thy ===== *)
theory Utf8_Text
  imports Rust_Text
begin

text \<open>
  Text as bytes and text inside text: the UTF-8 codec of \<open>str\<close>, and the searches of the
  standard library that several components use.
\<close>

subsection \<open>UTF-8\<close>

type_synonym bytes = "nat list"

definition is_cont :: "nat \<Rightarrow> bool" where
  "is_cont b \<longleftrightarrow> 128 \<le> b \<and> b < 192"

text \<open>The second byte excludes overlong forms, surrogates and values past U+10FFFF.\<close>

definition second_ok :: "nat \<Rightarrow> nat \<Rightarrow> bool" where
  "second_ok b0 b1 =
     (if b0 = 224 then 160 \<le> b1 \<and> b1 < 192
      else if b0 = 237 then 128 \<le> b1 \<and> b1 < 160
      else if b0 = 240 then 144 \<le> b1 \<and> b1 < 192
      else if b0 = 244 then 128 \<le> b1 \<and> b1 < 144
      else is_cont b1)"

definition utf8_width :: "nat \<Rightarrow> nat" where
  "utf8_width b =
     (if b < 128 then 1 else if 194 \<le> b \<and> b < 224 then 2
      else if 224 \<le> b \<and> b < 240 then 3 else if 240 \<le> b \<and> b < 245 then 4 else 0)"

text \<open>\<open>std::str::from_utf8\<close>.\<close>

fun from_utf8 :: "bytes \<Rightarrow> rstr option" where
  "from_utf8 [] = Some []"
| "from_utf8 (a # bs) =
     (if utf8_width a = 1 then map_option ((#) a) (from_utf8 bs)
      else case bs of
        [] \<Rightarrow> None
      | b # cs \<Rightarrow>
          if utf8_width a = 0 \<or> \<not> second_ok a b then None
          else if utf8_width a = 2
          then map_option ((#) ((a - 192) * 64 + (b - 128))) (from_utf8 cs)
          else case cs of
            [] \<Rightarrow> None
          | c # ds \<Rightarrow>
              if \<not> is_cont c then None
              else if utf8_width a = 3
              then map_option ((#) ((a - 224) * 4096 + (b - 128) * 64 + (c - 128))) (from_utf8 ds)
              else case ds of
                [] \<Rightarrow> None
              | d # es \<Rightarrow>
                  if \<not> is_cont d then None
                  else map_option ((#) ((a - 240) * 262144 + (b - 128) * 4096
                         + (c - 128) * 64 + (d - 128))) (from_utf8 es))"

definition utf8_encode :: "nat \<Rightarrow> bytes" where
  "utf8_encode c =
     (if c < 128 then [c]
      else if c < 2048 then [192 + c div 64, 128 + c mod 64]
      else if c < 65536 then [224 + c div 4096, 128 + c div 64 mod 64, 128 + c mod 64]
      else [240 + c div 262144, 128 + c div 4096 mod 64, 128 + c div 64 mod 64, 128 + c mod 64])"

definition to_utf8 :: "rstr \<Rightarrow> bytes" where
  "to_utf8 s = concat (map utf8_encode s)"

definition scalar_value :: "nat \<Rightarrow> bool" where
  "scalar_value c \<longleftrightarrow> c < 55296 \<or> (57344 \<le> c \<and> c < 1114112)"

lemma length_to_utf8: "length (to_utf8 s) = utf8_len s"
  by (induction s) (simp_all add: to_utf8_def utf8_encode_def len_utf8_def)

text \<open>Decoding inverts encoding on Unicode scalar values.\<close>

lemma from_utf8_two:
  "utf8_width a = 2 \<Longrightarrow> second_ok a b \<Longrightarrow>
     from_utf8 (a # b # bs) = map_option ((#) ((a - 192) * 64 + (b - 128))) (from_utf8 bs)"
  by simp

lemma from_utf8_three:
  "utf8_width a = 3 \<Longrightarrow> second_ok a b \<Longrightarrow> is_cont c \<Longrightarrow> from_utf8 (a # b # c # bs) =
     map_option ((#) ((a - 224) * 4096 + (b - 128) * 64 + (c - 128))) (from_utf8 bs)"
  by simp

lemma from_utf8_four:
  "utf8_width a = 4 \<Longrightarrow> second_ok a b \<Longrightarrow> is_cont c \<Longrightarrow> is_cont d \<Longrightarrow>
     from_utf8 (a # b # c # d # bs) =
     map_option ((#) ((a - 240) * 262144 + (b - 128) * 4096 + (c - 128) * 64 + (d - 128)))
       (from_utf8 bs)"
  by simp

lemma is_cont_mod: "is_cont (128 + c mod 64)"
  by (simp add: is_cont_def)

lemma digits_64:
  fixes c :: nat
  shows "c div 4096 * 4096 + c div 64 mod 64 * 64 + c mod 64 = c"
    and "c div 262144 * 262144 + c div 4096 mod 64 * 4096 + c div 64 mod 64 * 64 + c mod 64 = c"
    and "c div 4096 * 64 + c div 64 mod 64 = c div 64"
    and "c div 262144 * 64 + c div 4096 mod 64 = c div 4096"
proof -
  have a: "c div 64 * 64 + c mod 64 = c" by simp
  have b: "c div 4096 * 64 + c div 64 mod 64 = c div 64"
    using div_mult_mod_eq [of "c div 64" 64] by (simp add: div_mult2_eq [symmetric])
  have d: "c div 262144 * 64 + c div 4096 mod 64 = c div 4096"
    using div_mult_mod_eq [of "c div 4096" 64] by (simp add: div_mult2_eq [symmetric])
  show "c div 4096 * 4096 + c div 64 mod 64 * 64 + c mod 64 = c" using a b by linarith
  show "c div 262144 * 262144 + c div 4096 mod 64 * 4096 + c div 64 mod 64 * 64 + c mod 64 = c"
    using a b d by linarith
  show "c div 4096 * 64 + c div 64 mod 64 = c div 64" by (rule b)
  show "c div 262144 * 64 + c div 4096 mod 64 = c div 4096" by (rule d)
qed

lemma from_utf8_encode:
  assumes "scalar_value c"
  shows "from_utf8 (utf8_encode c @ bs) = map_option ((#) c) (from_utf8 bs)"
proof -
  consider "c < 128" | "128 \<le> c" "c < 2048" | "2048 \<le> c" "c < 65536" | "65536 \<le> c"
    by linarith
  then show ?thesis
  proof cases
    case 1
    then show ?thesis by (simp add: utf8_encode_def utf8_width_def)
  next
    case 2
    then have "2 \<le> c div 64" and "c div 64 < 32"
      using div_le_mono [of 128 c 64] by (simp_all add: less_mult_imp_div_less)
    then have "utf8_width (192 + c div 64) = 2" and "second_ok (192 + c div 64) (128 + c mod 64)"
      by (simp_all add: utf8_width_def second_ok_def is_cont_mod)
    from from_utf8_two [OF this, of bs] 2 show ?thesis by (simp add: utf8_encode_def del: from_utf8.simps)
  next
    case 3
    have w: "utf8_width (224 + c div 4096) = 3" using 3 by (auto simp: utf8_width_def)
    have s: "second_ok (224 + c div 4096) (128 + c div 64 mod 64)"
      using 3 assms digits_64(3) [of c] less_mult_imp_div_less [of c 864 64]
        div_le_mono [of 2048 c 64] div_le_mono [of 57344 c 64]
      by (auto simp: second_ok_def is_cont_def scalar_value_def)
    from from_utf8_three [OF w s is_cont_mod, of c bs] 3 digits_64 [of c] show ?thesis
      by (simp add: utf8_encode_def del: from_utf8.simps)
  next
    case 4
    have w: "utf8_width (240 + c div 262144) = 4"
      using 4 assms by (auto simp: utf8_width_def scalar_value_def)
    have s: "second_ok (240 + c div 262144) (128 + c div 4096 mod 64)"
      using 4 assms digits_64(4) [of c] less_mult_imp_div_less [of c 272 4096]
        div_le_mono [of 65536 c 4096]
      by (auto simp: second_ok_def is_cont_def scalar_value_def)
    from from_utf8_four [OF w s is_cont_mod is_cont_mod, of "c div 64" c bs] 4 digits_64 [of c] show ?thesis
      by (simp add: utf8_encode_def del: from_utf8.simps)
  qed
qed

lemma from_utf8_to_utf8: "\<forall>c \<in> set s. scalar_value c \<Longrightarrow> from_utf8 (to_utf8 s) = Some s"
  by (induction s) (simp_all add: to_utf8_def from_utf8_encode)

subsection \<open>Searching\<close>

text \<open>\<open>str::find\<close> of a substring: the characters before its first occurrence, and the rest from there.\<close>

fun find_str :: "rstr \<Rightarrow> rstr \<Rightarrow> (rstr \<times> rstr) option" where
  "find_str needle [] = (if needle = [] then Some ([], []) else None)"
| "find_str needle (c # cs) =
     (if take (length needle) (c # cs) = needle then Some ([], c # cs)
      else map_option (\<lambda>(a, b). (c # a, b)) (find_str needle cs))"

lemma find_str_length: "find_str needle s = Some (a, b) \<Longrightarrow> s = a @ b"
  by (induction s arbitrary: a) (auto split: if_splits)

lemma find_str_nonempty: "needle \<noteq> [] \<Longrightarrow> find_str needle s = Some (a, b) \<Longrightarrow> b \<noteq> []"
  by (induction s arbitrary: a) (auto split: if_splits)

lemma split_once_shorter: "split_once d xs = Some (a, b) \<Longrightarrow> length b < length xs"
  by (induction xs arbitrary: a) (auto split: if_splits intro: less_SucI)

text \<open>\<open>str::match_indices\<close> counts matches from left to right that do not overlap.\<close>

function count_matches :: "rstr \<Rightarrow> rstr \<Rightarrow> nat" where
  "count_matches needle s =
     (if needle = [] then length s + 1
      else case find_str needle s of
        None \<Rightarrow> 0
      | Some (_, rest) \<Rightarrow> Suc (count_matches needle (drop (length needle) rest)))"
  by pat_completeness auto

termination
proof (relation "measure (\<lambda>(needle, s). length s)", goal_cases)
  case (2 needle s x a b)
  then have "s = a @ b" and "b \<noteq> []" using find_str_length find_str_nonempty by blast+
  moreover have "0 < length b" using \<open>b \<noteq> []\<close> by simp
  moreover have "0 < length needle" using 2 by simp
  ultimately show ?case using 2 by (simp only: in_measure prod.case length_append length_drop)
qed simp

declare count_matches.simps [simp del]

text \<open>\<open>str::replacen\<close> with one replacement.\<close>

definition replace_once :: "rstr \<Rightarrow> rstr \<Rightarrow> rstr \<Rightarrow> rstr" where
  "replace_once needle replacement s =
     (case find_str needle s of
        None \<Rightarrow> s
      | Some (before, rest) \<Rightarrow> before @ replacement @ drop (length needle) rest)"

fun split_on :: "nat \<Rightarrow> rstr \<Rightarrow> rstr list" where
  "split_on d [] = [[]]"
| "split_on d (c # cs) =
     (if c = d then [] # split_on d cs
      else case split_on d cs of p # ps \<Rightarrow> (c # p) # ps | [] \<Rightarrow> [[c]])"

lemma split_on_nonempty: "split_on d s \<noteq> []"
  by (induction s) (auto split: list.split)

fun join_with :: "rstr \<Rightarrow> rstr list \<Rightarrow> rstr" where
  "join_with sep [] = []"
| "join_with sep [p] = p"
| "join_with sep (p # ps) = p @ sep @ join_with sep ps"

lemma join_split_on: "join_with [d] (split_on d s) = s"
proof (induction s)
  case (Cons c cs)
  obtain p ps where p: "split_on d cs = p # ps" using split_on_nonempty by (cases "split_on d cs") auto
  then show ?case using Cons by (cases ps) auto
qed simp

lemma find_str_match: "find_str needle s = Some (a, b) \<Longrightarrow> \<exists>c. b = needle @ c"
proof (induction s arbitrary: a)
  case (Cons x s)
  then show ?case
  proof (cases "take (length needle) (x # s) = needle")
    case True
    then have "b = x # s" using Cons.prems by simp
    then show ?thesis using True append_take_drop_id [of "length needle" "x # s"] by metis
  next
    case False
    then show ?thesis using Cons by auto
  qed
qed (auto split: if_splits)

lemma count_one:
  assumes "needle \<noteq> []" and "count_matches needle s = 1"
  shows "\<exists>a c. s = a @ needle @ c \<and> replace_once needle r s = a @ r @ c"
proof -
  obtain a b where f: "find_str needle s = Some (a, b)"
    using assms count_matches.simps [of needle s] by (auto split: option.splits)
  obtain c where b: "b = needle @ c" using find_str_match [OF f] by blast
  have "s = a @ needle @ c" using find_str_length [OF f] b by simp
  moreover have "replace_once needle r s = a @ r @ c" by (simp add: replace_once_def f b)
  ultimately show ?thesis by blast
qed

end
