(* ===== verification/Provider_Stream.thy ===== *)
theory Provider_Stream
  imports Provider_Types Utf8_Text
begin

text \<open>
  The streaming response of \<open>latte-headless/src/provider.rs\<close>: the line splitter over
  body chunks, the data fields of an event, the assembly of deltas, and the response
  built when the stream closes. A byte is a natural below 256; \<open>stream_parse\<close> stands for
  the deserialiser of one event (\<open>serde_json::from_str::<StreamWire>\<close>). The text deltas
  sent to the observer are kept in the assembly in the order they are sent.
\<close>

subsection \<open>Assembly\<close>

record stream_tool_call =
  sc_index :: nat
  sc_id :: "rstr option"
  sc_name :: "rstr option"
  sc_arguments :: "rstr option"

record stream_choice =
  sx_content :: "rstr option"
  sx_tool_calls :: "stream_tool_call list"
  sx_finish_reason :: "rstr option"

record stream_wire =
  sw_choices :: "stream_choice list"
  sw_usage :: "wire_usage option"

type_synonym stream_parse = "rstr \<Rightarrow> rstr + stream_wire"

record stream_tool_assembly =
  ta_id :: "rstr option"
  ta_name :: "rstr option"
  ta_arguments :: rstr

definition stream_tool_default :: stream_tool_assembly where
  "stream_tool_default = \<lparr>ta_id = None, ta_name = None, ta_arguments = []\<rparr>"

record stream_assembly =
  sa_content :: rstr
  sa_tools :: "stream_tool_assembly list"
  sa_finish_reason :: "rstr option"
  sa_usage :: "wire_usage option"
  sa_deltas :: "rstr list"

definition stream_assembly_default :: stream_assembly where
  "stream_assembly_default = \<lparr>sa_content = [], sa_tools = [], sa_finish_reason = None,
     sa_usage = None, sa_deltas = []\<rparr>"

definition MAX_SSE_BODY_BYTES :: nat where "MAX_SSE_BODY_BYTES = 4 * 1024 * 1024"
definition MAX_SSE_EVENT_BYTES :: nat where "MAX_SSE_EVENT_BYTES = 256 * 1024"
definition MAX_SSE_TOOL_CALLS :: nat where "MAX_SSE_TOOL_CALLS = 128"

definition merge_once ::
  "string \<Rightarrow> rstr option \<Rightarrow> rstr option \<Rightarrow> provider_error + rstr option" where
  "merge_once msg old new = (case new of
     None \<Rightarrow> Inr old
   | Some v \<Rightarrow> if old \<noteq> None \<and> old \<noteq> Some v then Inl (malformed msg) else Inr (Some v))"

definition merge_tool ::
  "stream_tool_call \<Rightarrow> stream_tool_assembly \<Rightarrow> provider_error + stream_tool_assembly" where
  "merge_tool delta t =
     bindE (merge_once ''stream tool id changed'' (ta_id t) (sc_id delta)) (\<lambda>i.
     bindE (merge_once ''stream tool name changed'' (ta_name t) (sc_name delta)) (\<lambda>n.
     case sc_arguments delta of
       None \<Rightarrow> Inr (t\<lparr>ta_id := i, ta_name := n\<rparr>)
     | Some arguments \<Rightarrow>
         if utf8_len (ta_arguments t @ arguments) > MAX_SSE_EVENT_BYTES
         then Inl (malformed ''stream tool arguments exceed limit'')
         else Inr \<lparr>ta_id = i, ta_name = n, ta_arguments = ta_arguments t @ arguments\<rparr>))"

definition grow_tools :: "nat \<Rightarrow> stream_tool_assembly list \<Rightarrow> stream_tool_assembly list" where
  "grow_tools index tools = tools @ replicate (index + 1 - length tools) stream_tool_default"

fun merge_tools :: "stream_tool_call list \<Rightarrow> stream_tool_assembly list
    \<Rightarrow> provider_error + stream_tool_assembly list" where
  "merge_tools [] tools = Inr tools"
| "merge_tools (delta # deltas) tools =
     (if sc_index delta \<ge> MAX_SSE_TOOL_CALLS then Inl (malformed ''too many stream tool calls'')
      else let grown = grow_tools (sc_index delta) tools
           in bindE (merge_tool delta (grown ! sc_index delta)) (\<lambda>t.
              merge_tools deltas (grown[sc_index delta := t])))"

definition merge_content :: "rstr option \<Rightarrow> stream_assembly \<Rightarrow> provider_error + stream_assembly" where
  "merge_content content asm = (case content of
     None \<Rightarrow> Inr asm
   | Some delta \<Rightarrow>
       if delta = [] then Inr asm
       else let text = sa_content asm @ delta
            in if utf8_len text > MAX_SSE_BODY_BYTES
               then Inl (malformed ''stream assistant content exceeds limit'')
               else Inr (asm\<lparr>sa_content := text, sa_deltas := sa_deltas asm @ [delta]\<rparr>))"

definition consume_choice :: "stream_choice \<Rightarrow> stream_assembly \<Rightarrow> provider_error + stream_assembly" where
  "consume_choice choice asm =
     (let asm = (case sx_finish_reason choice of None \<Rightarrow> asm
                 | Some r \<Rightarrow> asm\<lparr>sa_finish_reason := Some r\<rparr>)
      in bindE (merge_content (sx_content choice) asm) (\<lambda>asm.
         bindE (merge_tools (sx_tool_calls choice) (sa_tools asm)) (\<lambda>tools.
         Inr (asm\<lparr>sa_tools := tools\<rparr>))))"

definition consume_sse_event ::
  "stream_parse \<Rightarrow> rstr \<Rightarrow> stream_assembly \<Rightarrow> provider_error + bool \<times> stream_assembly" where
  "consume_sse_event P data asm =
     (if data = lit ''[DONE]'' then Inr (True, asm)
      else bindE (map_err (\<lambda>e. Malformed (lit ''invalid SSE JSON: '' @ e)) (P data)) (\<lambda>wire.
      let asm = (case sw_usage wire of None \<Rightarrow> asm | Some u \<Rightarrow> asm\<lparr>sa_usage := Some u\<rparr>)
      in case sw_choices wire of
        [] \<Rightarrow> Inr (False, asm)
      | choice # _ \<Rightarrow> bindE (consume_choice choice asm) (\<lambda>asm. Inr (False, asm))))"

subsection \<open>Lines and events\<close>

definition join_lines :: "rstr list \<Rightarrow> rstr" where
  "join_lines ls = concat (case ls of [] \<Rightarrow> [] | l # ls \<Rightarrow> l # map (\<lambda>x. 10 # x) ls)"

definition strip_cr :: "bytes \<Rightarrow> bytes" where
  "strip_cr line = (if line \<noteq> [] \<and> last line = 13 then butlast line else line)"

text \<open>One nonempty line: comments and lines without a colon are skipped, \<open>data\<close> is kept.\<close>

definition sse_field :: "bytes \<Rightarrow> rstr list \<Rightarrow> provider_error + rstr list" where
  "sse_field line data_lines =
     (if hd line = 58 then Inr data_lines
      else case split_once 58 line of
        None \<Rightarrow> Inr data_lines
      | Some (field, value) \<Rightarrow>
          if field \<noteq> lit ''data'' then Inr data_lines
          else let value = (if value \<noteq> [] \<and> hd value = 32 then tl value else value)
               in if length value > MAX_SSE_EVENT_BYTES
                  then Inl (malformed ''SSE event exceeds limit'')
                  else case from_utf8 value of
                    None \<Rightarrow> Inl (malformed ''SSE data is not UTF-8'')
                  | Some s \<Rightarrow> Inr (data_lines @ [s]))"

lemma split_once_length: "split_once d xs = Some (a, b) \<Longrightarrow> length xs = length a + length b + 1"
  by (induction xs arbitrary: a b) (auto split: if_splits)

text \<open>The loop over complete lines; the last component says that \<open>[DONE]\<close> was read.\<close>

function drain_lines :: "stream_parse \<Rightarrow> bytes \<Rightarrow> rstr list \<Rightarrow> stream_assembly
    \<Rightarrow> provider_error + bytes \<times> rstr list \<times> stream_assembly \<times> bool" where
  "drain_lines P buffer data_lines asm =
     (case split_once 10 buffer of
        None \<Rightarrow> Inr (buffer, data_lines, asm, False)
      | Some (raw, rest) \<Rightarrow>
          (case strip_cr raw of
             [] \<Rightarrow>
               (if data_lines = [] then drain_lines P rest data_lines asm
                else case consume_sse_event P (join_lines data_lines) asm of
                  Inl e \<Rightarrow> Inl e
                | Inr (done, asm') \<Rightarrow>
                    if done then Inr (rest, [], asm', True) else drain_lines P rest [] asm')
           | c # cs \<Rightarrow>
               (case sse_field (c # cs) data_lines of
                  Inl e \<Rightarrow> Inl e
                | Inr data_lines' \<Rightarrow> drain_lines P rest data_lines' asm)))"
  by pat_completeness auto
termination
  by (relation "measure (\<lambda>(P, buffer, data_lines, asm). length buffer)")
    (auto dest: split_once_length)

declare drain_lines.simps [simp del]

subsection \<open>The stream\<close>

datatype sse_chunk = Chunk bytes | ChunkFailed rstr | StreamCancelled

fun read_chunks :: "stream_parse \<Rightarrow> sse_chunk list \<Rightarrow> nat \<Rightarrow> bytes \<Rightarrow> rstr list \<Rightarrow> stream_assembly
    \<Rightarrow> provider_error + rstr list \<times> stream_assembly \<times> bool" where
  "read_chunks P [] seen buffer data_lines asm = Inr (data_lines, asm, False)"
| "read_chunks P (ChunkFailed e # cs) seen buffer data_lines asm = Inl (Transport e)"
| "read_chunks P (StreamCancelled # cs) seen buffer data_lines asm = Inl PeCancelled"
| "read_chunks P (Chunk c # cs) seen buffer data_lines asm =
     (let seen' = min (seen + length c) (u64_bound - 1)
      in if seen' > MAX_SSE_BODY_BYTES then Inl (malformed ''SSE body exceeds limit'')
         else case drain_lines P (buffer @ c) data_lines asm of
           Inl e \<Rightarrow> Inl e
         | Inr (buffer', data_lines', asm', done) \<Rightarrow>
             if done then Inr (data_lines', asm', True)
             else read_chunks P cs seen' buffer' data_lines' asm')"

definition stream_tool :: "lib \<Rightarrow> stream_tool_assembly \<Rightarrow> provider_error + tool_call" where
  "stream_tool L t =
     bindE (ok_or (malformed ''stream tool call missing id'') (ta_id t)) (\<lambda>i.
     bindE (ok_or (malformed ''stream tool call missing name'') (ta_name t)) (\<lambda>n.
     bindE (args_json L (ta_arguments t)) (\<lambda>v.
     Inr \<lparr>tc_id = i, tc_name = n, tc_input = v\<rparr>)))"

definition stream_response :: "lib \<Rightarrow> stream_assembly \<Rightarrow> provider_error + provider_response" where
  "stream_response L asm =
     bindE (traverse (stream_tool L) (sa_tools asm)) (\<lambda>calls.
     bindE (validate_tool_calls calls) (\<lambda>_.
     Inr \<lparr>pr_message = (if sa_content asm = [] then None else Some (sa_content asm)),
       pr_tool_calls = calls, pr_input_request = None, pr_usage = usage_from_wire (sa_usage asm),
       pr_finish_reason = map_option finish_reason (sa_finish_reason asm),
       pr_provider_state = None\<rparr>))"

definition parse_openai_sse ::
  "lib \<Rightarrow> stream_parse \<Rightarrow> sse_chunk list \<Rightarrow> provider_error + provider_response" where
  "parse_openai_sse L P chunks =
     bindE (read_chunks P chunks 0 [] [] stream_assembly_default) (\<lambda>(data_lines, asm, done).
     bindE (if data_lines \<noteq> [] \<and> \<not> done
            then consume_sse_event P (join_lines data_lines) asm else Inr (done, asm))
       (\<lambda>(done, asm).
     if \<not> done then Inl (malformed ''SSE stream ended without [DONE]'')
     else stream_response L asm))"

subsection \<open>Chunk boundaries do not matter\<close>

lemma split_once_append_Some:
  "split_once d xs = Some (a, b) \<Longrightarrow> split_once d (xs @ ys) = Some (a, b @ ys)"
  by (induction xs arbitrary: a b) (auto split: if_splits)

lemma drain_lines_append:
  "drain_lines P (buffer @ extra) ls asm =
     (case drain_lines P buffer ls asm of
        Inl e \<Rightarrow> Inl e
      | Inr (buffer', ls', asm', done) \<Rightarrow>
          if done then Inr (buffer' @ extra, ls', asm', True)
          else drain_lines P (buffer' @ extra) ls' asm')"
proof (induction P buffer ls asm rule: drain_lines.induct)
  case (1 P buffer ls asm)
  show ?case
  proof (cases "split_once 10 buffer")
    case None
    then show ?thesis by (simp add: drain_lines.simps [of P buffer])
  next
    case (Some p)
    obtain raw rest where p: "p = (raw, rest)" by (cases p)
    note here = Some [unfolded p]
    have there: "split_once 10 (buffer @ extra) = Some (raw, rest @ extra)"
      using here by (rule split_once_append_Some)
    note unfold = drain_lines.simps [of P buffer] drain_lines.simps [of P "buffer @ extra"]
    show ?thesis
    proof (cases "strip_cr raw")
      case Nil
      show ?thesis
      proof (cases "ls = []")
        case True
        then show ?thesis using 1(1) [OF here refl Nil True] here there Nil by (simp add: unfold)
      next
        case False
        then show ?thesis using 1(2) [OF here refl Nil False] here there Nil
          by (auto simp: unfold split: sum.split)
      qed
    next
      case (Cons c cs)
      then show ?thesis using 1(3) [OF here refl Cons] here there
        by (auto simp: unfold split: sum.split)
    qed
  qed
qed

lemma drain_lines_nil: "drain_lines P [] ls asm = Inr ([], ls, asm, False)"
  by (simp add: drain_lines.simps)

text \<open>The line loop leaves no complete line in the buffer unless the stream is closed.\<close>

lemma drain_lines_rest:
  "drain_lines P buffer ls asm = Inr (buffer', ls', asm', False) \<Longrightarrow> split_once 10 buffer' = None"
proof (induction P buffer ls asm rule: drain_lines.induct)
  case (1 P buffer ls asm)
  show ?case
  proof (cases "split_once 10 buffer")
    case None
    then show ?thesis using 1(4) by (simp add: drain_lines.simps [of P buffer])
  next
    case (Some p)
    obtain raw rest where p: "p = (raw, rest)" by (cases p)
    note here = Some [unfolded p]
    note step = 1(4) [unfolded drain_lines.simps [of P buffer]]
    show ?thesis
    proof (cases "strip_cr raw")
      case Nil
      then show ?thesis
        using step 1(1) [OF here refl Nil] 1(2) [OF here refl Nil] here
        by (auto split: if_splits sum.splits)
    next
      case (Cons c cs)
      then show ?thesis
        using step 1(3) [OF here refl Cons] here by (auto split: sum.splits)
    qed
  qed
qed

lemma drain_lines_again:
  "split_once 10 buffer = None \<Longrightarrow> drain_lines P buffer ls asm = Inr (buffer, ls, asm, False)"
  by (simp add: drain_lines.simps)

lemma read_chunks_concat:
  assumes "seen + length (concat cs) \<le> MAX_SSE_BODY_BYTES"
    and "split_once 10 buffer = None"
  shows "read_chunks P (map Chunk cs) seen buffer ls asm
     = read_chunks P [Chunk (concat cs)] seen buffer ls asm"
  using assms
proof (induction cs arbitrary: seen buffer ls asm)
  case Nil
  then show ?case by (simp add: drain_lines_again Let_def)
next
  case (Cons c cs)
  have bound: "min (seen + length c) (u64_bound - 1) = seen + length c"
    "min (seen + length (c @ concat cs)) (u64_bound - 1) = seen + length (c @ concat cs)"
    "seen + length c \<le> MAX_SSE_BODY_BYTES" "seen + length (c @ concat cs) \<le> MAX_SSE_BODY_BYTES"
    using Cons.prems(1) by (auto simp: MAX_SSE_BODY_BYTES_def u64_bound_def)
  have step: "read_chunks P (map Chunk cs) (seen + length c) buffer' ls' asm'
      = (case drain_lines P (buffer' @ concat cs) ls' asm' of
           Inl e \<Rightarrow> Inl e | Inr (b, l, a, done) \<Rightarrow> Inr (l, a, done))"
    if "split_once 10 buffer' = None" for buffer' ls' asm'
    using Cons.IH [of "seen + length c" buffer' ls' asm'] Cons.prems(1) that bound
    by (auto simp: Let_def split: sum.split prod.split if_splits)
  show ?case
    using bound step drain_lines_rest [of P "buffer @ c" ls asm]
    by (auto simp: Let_def drain_lines_append [of P "buffer @ c" "concat cs", simplified]
        split: sum.split prod.split)
qed

theorem parse_openai_sse_concat:
  assumes "length (concat cs) \<le> MAX_SSE_BODY_BYTES"
  shows "parse_openai_sse L P (map Chunk cs) = parse_openai_sse L P [Chunk (concat cs)]"
  unfolding parse_openai_sse_def
  by (subst read_chunks_concat) (use assms in simp_all)

subsection \<open>What was assembled\<close>

text \<open>The text sent to the observer is the text of the message, and stays within the limit.\<close>

definition assembly_ok :: "stream_assembly \<Rightarrow> bool" where
  "assembly_ok asm \<longleftrightarrow> sa_content asm = concat (sa_deltas asm)
     \<and> utf8_len (sa_content asm) \<le> MAX_SSE_BODY_BYTES
     \<and> length (sa_tools asm) \<le> MAX_SSE_TOOL_CALLS
     \<and> (\<forall>t \<in> set (sa_tools asm). utf8_len (ta_arguments t) \<le> MAX_SSE_EVENT_BYTES)"

lemma assembly_ok_default: "assembly_ok stream_assembly_default"
  by (simp add: assembly_ok_def stream_assembly_default_def)

definition tools_ok :: "stream_tool_assembly list \<Rightarrow> bool" where
  "tools_ok ts \<longleftrightarrow> length ts \<le> MAX_SSE_TOOL_CALLS
     \<and> (\<forall>t \<in> set ts. utf8_len (ta_arguments t) \<le> MAX_SSE_EVENT_BYTES)"

lemma merge_tool_bounded:
  "merge_tool delta t = Inr t' \<Longrightarrow> utf8_len (ta_arguments t) \<le> MAX_SSE_EVENT_BYTES \<Longrightarrow>
     utf8_len (ta_arguments t') \<le> MAX_SSE_EVENT_BYTES"
  by (auto simp: merge_tool_def split: option.splits if_splits)

lemma grow_tools_ok: "tools_ok ts \<Longrightarrow> i < MAX_SSE_TOOL_CALLS \<Longrightarrow> tools_ok (grow_tools i ts)"
  by (auto simp: tools_ok_def grow_tools_def stream_tool_default_def)

lemma grow_tools_length: "i < length (grow_tools i ts)"
  by (simp add: grow_tools_def)

lemma merge_tools_ok: "merge_tools ds ts = Inr ts' \<Longrightarrow> tools_ok ts \<Longrightarrow> tools_ok ts'"
proof (induction ds arbitrary: ts)
  case (Cons d ds)
  let ?g = "grow_tools (sc_index d) ts"
  obtain t where i: "sc_index d < MAX_SSE_TOOL_CALLS"
    and t: "merge_tool d (?g ! sc_index d) = Inr t"
    and rest: "merge_tools ds (?g[sc_index d := t]) = Inr ts'"
    using Cons.prems(1) by (auto simp: Let_def split: if_splits)
  have g: "tools_ok ?g" using Cons.prems(2) i by (rule grow_tools_ok)
  then have "utf8_len (ta_arguments t) \<le> MAX_SSE_EVENT_BYTES"
    using merge_tool_bounded [OF t] grow_tools_length [of "sc_index d" ts]
    by (simp add: tools_ok_def)
  with g have "tools_ok (?g[sc_index d := t])"
    by (auto simp: tools_ok_def dest!: set_update_subset_insert [THEN subsetD])
  then show ?case by (rule Cons.IH [OF rest])
qed simp

lemma assembly_ok_tools: "assembly_ok asm \<longleftrightarrow> sa_content asm = concat (sa_deltas asm)
     \<and> utf8_len (sa_content asm) \<le> MAX_SSE_BODY_BYTES \<and> tools_ok (sa_tools asm)"
  by (auto simp: assembly_ok_def tools_ok_def)

lemma merge_content_ok: "merge_content c asm = Inr asm' \<Longrightarrow> assembly_ok asm \<Longrightarrow> assembly_ok asm'"
  by (auto simp: merge_content_def assembly_ok_def Let_def split: option.splits if_splits)

lemma consume_choice_ok:
  assumes "consume_choice choice asm = Inr asm'" and "assembly_ok asm"
  shows "assembly_ok asm'"
proof -
  let ?asm = "case sx_finish_reason choice of None \<Rightarrow> asm | Some r \<Rightarrow> asm\<lparr>sa_finish_reason := Some r\<rparr>"
  obtain a ts where a: "merge_content (sx_content choice) ?asm = Inr a"
    and ts: "merge_tools (sx_tool_calls choice) (sa_tools a) = Inr ts"
    and asm': "asm' = a\<lparr>sa_tools := ts\<rparr>"
    using assms(1) by (auto simp: consume_choice_def Let_def)
  have "assembly_ok ?asm" using assms(2) by (auto simp: assembly_ok_def split: option.split)
  with a have ok: "assembly_ok a" by (rule merge_content_ok)
  then have "tools_ok ts" using merge_tools_ok [OF ts] by (simp add: assembly_ok_tools)
  with ok show ?thesis by (auto simp: asm' assembly_ok_tools)
qed

lemma consume_sse_event_ok:
  assumes "consume_sse_event P data asm = Inr (done, asm')" and "assembly_ok asm"
  shows "assembly_ok asm'"
proof (cases "data = lit ''[DONE]''")
  case True
  with assms show ?thesis by (simp add: consume_sse_event_def)
next
  case False
  then obtain wire where "P data = Inr wire" using assms(1) by (auto simp: consume_sse_event_def)
  moreover let ?asm = "case sw_usage wire of None \<Rightarrow> asm | Some u \<Rightarrow> asm\<lparr>sa_usage := Some u\<rparr>"
  have "assembly_ok ?asm" using assms(2) by (auto simp: assembly_ok_def split: option.split)
  ultimately show ?thesis using False assms(1) consume_choice_ok
    by (cases "sw_choices wire") (auto simp: consume_sse_event_def Let_def)
qed

lemma drain_lines_ok:
  "drain_lines P buffer ls asm = Inr (buffer', ls', asm', done) \<Longrightarrow> assembly_ok asm \<Longrightarrow>
     assembly_ok asm'"
proof (induction P buffer ls asm rule: drain_lines.induct)
  case (1 P buffer ls asm)
  show ?case
  proof (cases "split_once 10 buffer")
    case None
    then show ?thesis using 1(4,5) by (simp add: drain_lines.simps [of P buffer])
  next
    case (Some p)
    obtain raw rest where p: "p = (raw, rest)" by (cases p)
    note here = Some [unfolded p]
    note step = 1(4) [unfolded drain_lines.simps [of P buffer]]
    show ?thesis
    proof (cases "strip_cr raw")
      case Nil
      then show ?thesis
        using step 1(5) 1(1) [OF here refl Nil] 1(2) [OF here refl Nil] here
        by (auto split: if_splits sum.splits dest: consume_sse_event_ok)
    next
      case (Cons c cs)
      then show ?thesis
        using step 1(5) 1(3) [OF here refl Cons] here by (auto split: sum.splits)
    qed
  qed
qed

lemma read_chunks_ok:
  "read_chunks P cs seen buffer ls asm = Inr (ls', asm', done) \<Longrightarrow> assembly_ok asm \<Longrightarrow>
     assembly_ok asm'"
proof (induction P cs seen buffer ls asm rule: read_chunks.induct)
  case (4 P c cs seen buffer ls asm)
  show ?case using 4(2,3) 4(1)
    by (auto simp: Let_def split: if_splits sum.splits prod.splits dest: drain_lines_ok)
qed auto

text \<open>
  A streamed response holds the text that was sent as deltas, at most 128 calls, and
  calls with distinct well-formed identifiers.
\<close>

lemma stream_response_Inr:
  assumes "stream_response L asm = Inr r"
  shows "pr_message r = (if sa_content asm = [] then None else Some (sa_content asm))"
    and "length (pr_tool_calls r) = length (sa_tools asm)"
    and "\<forall>c \<in> set (pr_tool_calls r). valid_openai_chat_opaque_id (tc_id c)"
    and "distinct (map tc_id (pr_tool_calls r))"
proof -
  obtain calls where "list_all2 (\<lambda>t c. stream_tool L t = Inr c) (sa_tools asm) calls"
    and "validate_tool_calls calls = Inr ()"
    and r: "pr_tool_calls r = calls"
      "pr_message r = (if sa_content asm = [] then None else Some (sa_content asm))"
    using assms by (auto simp: stream_response_def traverse_Inr simp del: if_err_eq_Inr)
  then show "pr_message r = (if sa_content asm = [] then None else Some (sa_content asm))"
    and "length (pr_tool_calls r) = length (sa_tools asm)"
    and "\<forall>c \<in> set (pr_tool_calls r). valid_openai_chat_opaque_id (tc_id c)"
    and "distinct (map tc_id (pr_tool_calls r))"
    by (auto simp: validate_tool_calls_Inr dest: list_all2_lengthD)
qed

lemma parse_openai_sse_ok:
  assumes "parse_openai_sse L P chunks = Inr r"
  shows "\<exists>asm. assembly_ok asm \<and> stream_response L asm = Inr r"
  using assms
  by (auto simp: parse_openai_sse_def assembly_ok_default split: if_splits
      dest!: read_chunks_ok dest: consume_sse_event_ok)

end
