(* ===== verification/History_Properties.thy ===== *)
theory History_Properties
  imports History_Planner Provider_Stream Store_Example
begin

text \<open>
  What the headless runtime promises about its requests and responses: a prepared request
  fits the budget and obeys the tool grammar, history is dropped oldest first and only when
  it does not fit, framed content cannot forge a frame, a streamed response does not depend
  on how the network cut it, and decoded calls are well formed.
\<close>

subsection \<open>A concrete conversation\<close>

definition ex_entry :: "nat \<Rightarrow> transcript_kind \<Rightarrow> string \<Rightarrow> json option \<Rightarrow> transcript_entry" where
  "ex_entry q kind text payload = \<lparr>te_entry_id = q, te_sequence = q, te_turn_id = Some 5,
     te_kind = kind, te_text = lit text, te_payload = payload, te_source_key = lit text,
     te_created_at_ms = q\<rparr>"

definition ex_call :: tool_call where
  "ex_call = \<lparr>tc_id = lit ''c1'', tc_name = lit ''read_file'', tc_input = JObj []\<rparr>"

definition ex_result :: json where
  "ex_result = json_obj [(lit ''tool_call_id'', JStr (lit ''c1'')),
     (lit ''name'', JStr (lit ''read_file'')), (lit ''error'', JStr (lit ''denied'')),
     (lit ''provider_content'', JStr (lit ''denied''))]"

definition ex_entries :: "transcript_entry list" where
  "ex_entries = [ex_entry 1 TkUser ''hello'' None,
     ex_entry 2 TkAssistant ''reading''
       (Some (json_obj [(lit ''tool_calls'', JArr [tool_call_json ex_call])])),
     ex_entry 3 TkToolResult ''result'' (Some ex_result)]"

definition ex_chat :: "session_provider_binding \<Rightarrow> transcript_entry list \<Rightarrow> session_snapshot" where
  "ex_chat b entries = \<lparr>sn_session_id = 1, sn_revision = 7, sn_sequence = 3, sn_lifecycle = LcReady,
     sn_binding = b, sn_latest_turn_id = Some 5, sn_active_turn_id = None, sn_pending = None,
     sn_turns = [], sn_transcript = \<lparr>tp_entries = entries, tp_next_after = None,
     tp_has_more = False\<rparr>, sn_focus = None\<rparr>"

definition ex_chat_binding :: session_provider_binding where
  "ex_chat_binding = ex_binding\<lparr>pb_provider_type := lit ''openai-chat''\<rparr>"

definition ex_catalog :: profile_catalog where
  "ex_catalog = catalog_without_registry context_policy_default"

definition ex_bundle :: context_bundle where
  "ex_bundle = \<lparr>cb_text = lit ''</system-reminder>'', cb_truncated = False, cb_sources = []\<rparr>"

definition ex_wire :: wire_size where "ex_wire ms = Inr (100000 * length ms)"

lemma ex_segments:
  "scan_history_segments (ex_chat b ex_entries) =
     [\<lparr>hs_messages = [User (lit ''hello''), Assistant (Some (lit ''reading'')) [ex_call],
         Tool (lit ''c1'') (Some (lit ''read_file'')) (lit ''denied'')],
       hs_text = lit ''[user]'' @ [10] @ lit ''hello'' @ [10] @ lit ''[assistant]'' @ [10]
         @ lit ''reading'' @ [10] @ lit ''[tool]'' @ [10] @ lit ''denied'' @ [10],
       hs_first_sequence = Some 1, hs_max_sequence = Some 3, hs_from_summary = False,
       hs_turn_id = Some 5, hs_tool_results = [(3, lit ''c1'')]\<rparr>]"
  unfolding ex_chat_def ex_entries_def ex_entry_def ex_result_def ex_call_def
  by code_simp

subsection \<open>Requests\<close>

text \<open>
  C26 Whatever the planner prepares for a turn (the plain window, an elided or summarized
  history, or the degraded window) is within the exact byte budget of the resolved profile,
  starts with the profile's system message, ends with the redacted prompt, and answers with
  a tool message only calls that an assistant message before it declared. No hypothesis on
  the transcript: it may be any sequence of cards.
\<close>

theorem prepared_requests_are_sendable:
  assumes "prepare_history L W catalog summarize fc snapshot prompt
      (build_volatile_turn_context bundle reminder) = Inr (r, fc')"
  shows "\<exists>h system budget n. resolve catalog (sn_binding snapshot) = Inr h
    \<and> build_system_head L h = Inr system
    \<and> history_budget (profile_history_policy h) = Inr budget
    \<and> W (prepared_messages r) = Inr n \<and> n \<le> budget
    \<and> hd (prepared_messages r) = system
    \<and> last (prepared_messages r) = User (redact L prompt)
    \<and> tools_answer {} (prepared_messages r)"
  using prepare_history_sendable [OF assms build_volatile_ok] by (auto simp: sendable_def)

lemma ex_budget: "history_budget history_policy_default = Inr 262144"
  by (simp add: history_budget_def history_policy_validate_def history_policy_default_def)

lemma ex_resolved:
  obtains h s where "resolve ex_catalog ex_chat_binding = Inr h"
    and "build_system_head L h = Inr (System s)"
    and "profile_history_policy h = history_policy_default" and "cp_strategy (profile_compaction h) = CsOff"
proof -
  have "\<exists>h. resolve ex_catalog ex_chat_binding = Inr h
      \<and> profile_history_policy h = history_policy_default \<and> cp_strategy (profile_compaction h) = CsOff"
    by (simp add: resolve_def ex_catalog_def catalog_without_registry_def ex_chat_binding_def
        builtin_profile_def BUILTIN_PROVIDER_TYPES_def resolved_with_Inr tighten_window_def
        layer_budget_def context_policy_default_def context_policy_validate_def
        compaction_error_def compaction_policy_default_def profile_history_policy_def
        history_policy_default_def profile_compaction_def context_of_history_def Let_def)
  then obtain h where h: "resolve ex_catalog ex_chat_binding = Inr h"
    "profile_history_policy h = history_policy_default" "cp_strategy (profile_compaction h) = CsOff"
    by blast
  obtain t where "system_prompt h [] = Inr t" using resolve_valid(3) [OF h(1)] by blast
  then have "build_system_head L h = Inr (System (redact L t))"
    by (simp add: build_system_head_def)
  with h show ?thesis using that by blast
qed

theorem prepared_requests_are_sendable_witness:
  "\<exists>r fc'. prepare_history ex_lib ex_wire ex_catalog (\<lambda>_. Inr None) (\<lambda>_. None)
       (ex_chat ex_chat_binding []) (lit ''go'')
       (build_volatile_turn_context ex_bundle (Some (lit ''be brief''))) = Inr (r, fc')
     \<and> last (prepared_messages r) = User (redact ex_lib (lit ''go''))"
proof -
  obtain h s where h: "resolve ex_catalog ex_chat_binding = Inr h"
    "build_system_head ex_lib h = Inr (System s)"
    "profile_history_policy h = history_policy_default" "cp_strategy (profile_compaction h) = CsOff"
    by (rule ex_resolved)
  have seg: "scan_history_segments (ex_chat ex_chat_binding []) = []"
    by (simp add: scan_history_segments_def ex_chat_def elided_sequences_def)
  have b: "sn_binding (ex_chat ex_chat_binding []) = ex_chat_binding" by (simp add: ex_chat_def)
  obtain m m' where v: "build_volatile_turn_context ex_bundle (Some (lit ''be brief''))
      = \<lparr>vt_repository = Some m, vt_reminder = Some m'\<rparr>"
    by (simp add: build_volatile_turn_context_def repository_context_message_def ex_bundle_def
        trim_def lit_def is_white_def)
  have "\<exists>f. fit_request ex_wire (System s) (request_entries [] \<lparr>vt_repository = Some m, vt_reminder = Some m'\<rparr>
      [prospective_prompt_segment ex_lib (lit ''go'')]) 262144 = Inr f \<and> fs_prompt_kept f"
    by (simp add: fit_request_def request_entries_def fit_entries_def opt_list_def fit_volatile_def
        fit_prompt_def prospective_prompt_segment_def segment_new_def optional_indices_def
        candidate_def ex_wire_def wire_bytes_def fit_select_def Let_def upt_rec)
  then have "\<exists>r fc'. prepare_history ex_lib ex_wire ex_catalog (\<lambda>_. Inr None) (\<lambda>_. None)
       (ex_chat ex_chat_binding []) (lit ''go'')
       (build_volatile_turn_context ex_bundle (Some (lit ''be brief''))) = Inr (r, fc')"
    using h unfolding v by (auto simp: prepare_history_def b seg ex_budget Let_def)
  then show ?thesis using prepared_requests_are_sendable by blast
qed

text \<open>
  The fit keeps a suffix of the history and, when it drops anything, it had to: the
  newest dropped segment does not fit beside the kept ones and the prompt, even with no
  volatile tail. So tails never displace history, and the request within the budget is the
  kept history, the admitted tails and the prompt, in this order.
\<close>

theorem history_is_dropped_oldest_first:
  assumes "fit_request W system (request_entries history volatile
      [prospective_prompt_segment L prompt]) budget = Inr f"
    and "fs_prompt_kept f"
  defines "dropped \<equiv> length history - fs_history_kept f"
  shows "(\<exists>n. W (assemble_request system None (drop dropped history)
            (volatile_filtered (fs_repository_kept f) (fs_reminder_kept f) volatile)
            (Some (User (redact L prompt)))) = Inr n \<and> n \<le> budget)
    \<and> (dropped = 0 \<or> (\<exists>n. W (assemble_request system None (drop (dropped - 1) history)
            \<lparr>vt_repository = None, vt_reminder = None\<rparr>
            (Some (User (redact L prompt)))) = Inr n \<and> budget < n))"
proof -
  have "hs_messages (prospective_prompt_segment L prompt) = [User (redact L prompt)]"
    by (simp add: prospective_prompt_segment_def segment_new_def)
  note fit = fit_request_with_prompt [OF assms(1,2) this]
  show ?thesis using fit(1,3,4) unfolding fit(2) dropped_def by auto
qed

definition ex_segment :: "nat \<Rightarrow> history_segment" where
  "ex_segment q = segment_new (Some q) None [User [q]] []"

theorem history_is_dropped_oldest_first_witness:
  "\<exists>f. fit_request ex_wire (System []) (request_entries [ex_segment 1, ex_segment 2]
        \<lparr>vt_repository = None, vt_reminder = None\<rparr> [prospective_prompt_segment ex_lib []]) 300000 = Inr f
     \<and> fs_history_kept f = 1
     \<and> (\<exists>n. ex_wire (assemble_request (System []) None [ex_segment 1, ex_segment 2]
          \<lparr>vt_repository = None, vt_reminder = None\<rparr> (Some (User (redact ex_lib [])))) = Inr n
          \<and> 300000 < n)"
proof -
  let ?v = "\<lparr>vt_repository = None, vt_reminder = None\<rparr>"
  let ?H = "[ex_segment 1, ex_segment 2]"
  have "\<exists>f. fit_request ex_wire (System []) (request_entries ?H ?v
      [prospective_prompt_segment ex_lib []]) 300000 = Inr f \<and> fs_prompt_kept f \<and> fs_history_kept f = 1"
    by (simp add: fit_request_def request_entries_def fit_entries_def opt_list_def fit_history_def
        fit_prompt_def prospective_prompt_segment_def segment_new_def optional_indices_def
        candidate_def ex_wire_def wire_bytes_def fit_select_def Let_def upt_rec ex_segment_def)
  then obtain f where f: "fit_request ex_wire (System []) (request_entries ?H ?v
      [prospective_prompt_segment ex_lib []]) 300000 = Inr f" "fs_prompt_kept f" "fs_history_kept f = 1"
    by blast
  from history_is_dropped_oldest_first [OF f(1,2)] f show ?thesis by auto
qed

subsection \<open>Framed content\<close>

text \<open>
  Volatile content cannot forge a frame: whatever text is framed, the tokens that a
  reader finds in the framed message (either tag, any letter case, white space before the
  closing bracket) are exactly the opening and the closing token of its own frame. Text
  that holds no token is framed unchanged.
\<close>

theorem volatile_frames_cannot_be_forged:
  "frame_tokens (frame_volatile REPOSITORY_CONTEXT body)
     = [(False, REPOSITORY_CONTEXT), (True, REPOSITORY_CONTEXT)]
   \<and> frame_tokens (frame_volatile SYSTEM_REMINDER body)
     = [(False, SYSTEM_REMINDER), (True, SYSTEM_REMINDER)]
   \<and> (has_frame_token body \<or> escape_volatile_frames body = body)"
  using escape_plain [of body]
  by (auto simp: frame_volatile_tokens VOLATILE_FRAME_TAGS_def)

subsection \<open>Responses\<close>

text \<open>
  C27 A streamed response does not depend on how the network cuts it into chunks: within
  the size limit, reading the chunks one by one gives the same response or the same error
  as reading the whole body at once.
\<close>

theorem stream_chunks_do_not_matter:
  assumes "concat cs = concat cs'" and "length (concat cs) \<le> MAX_SSE_BODY_BYTES"
  shows "parse_openai_sse L P (map Chunk cs) = parse_openai_sse L P (map Chunk cs')"
  using parse_openai_sse_concat [of cs] parse_openai_sse_concat [of cs'] assms by simp

lemma ex_stream:
  "parse_openai_sse ex_lib (\<lambda>_. Inl []) [Chunk (lit ''data: [DONE]'' @ [10, 10])]
     = stream_response ex_lib stream_assembly_default"
  "is_ok (stream_response ex_lib stream_assembly_default)"
proof -
  have "drain_lines P (lit ''data: [DONE]'' @ [10, 10]) [] asm
      = drain_lines P [10] [lit ''[DONE]''] asm" for P asm
    by (subst drain_lines.simps)
      (simp add: lit_def strip_cr_def sse_field_def MAX_SSE_EVENT_BYTES_def utf8_width_def Let_def)
  also have "drain_lines P [10] [lit ''[DONE]''] asm = Inr ([], [], asm, True)" for P asm
    by (subst drain_lines.simps) (simp add: strip_cr_def consume_sse_event_def join_lines_def)
  finally show "parse_openai_sse ex_lib (\<lambda>_. Inl []) [Chunk (lit ''data: [DONE]'' @ [10, 10])]
     = stream_response ex_lib stream_assembly_default"
    by (simp add: parse_openai_sse_def MAX_SSE_BODY_BYTES_def u64_bound_def Let_def) (simp add: lit_def)
  show "is_ok (stream_response ex_lib stream_assembly_default)"
    by (simp add: stream_response_def stream_assembly_default_def validate_tool_calls_def)
qed

theorem stream_chunks_do_not_matter_witness:
  "parse_openai_sse ex_lib (\<lambda>_. Inl []) (map Chunk [lit ''data: [DO'', lit ''NE]'', [10], [10]])
     = parse_openai_sse ex_lib (\<lambda>_. Inl []) (map Chunk [lit ''data: [DONE]'' @ [10, 10]])
   \<and> is_ok (parse_openai_sse ex_lib (\<lambda>_. Inl []) (map Chunk [lit ''data: [DONE]'' @ [10, 10]]))"
proof
  show "parse_openai_sse ex_lib (\<lambda>_. Inl []) (map Chunk [lit ''data: [DO'', lit ''NE]'', [10], [10]])
     = parse_openai_sse ex_lib (\<lambda>_. Inl []) (map Chunk [lit ''data: [DONE]'' @ [10, 10]])"
    by (rule stream_chunks_do_not_matter)
      (simp_all add: lit_def MAX_SSE_BODY_BYTES_def)
  show "is_ok (parse_openai_sse ex_lib (\<lambda>_. Inl []) (map Chunk [lit ''data: [DONE]'' @ [10, 10]]))"
    using ex_stream by simp
qed



subsection \<open>Elision\<close>

definition ex_elided_chat :: session_snapshot where
  "ex_elided_chat = ex_chat ex_chat_binding (ex_entries @ [ex_entry 4 TkToolResultElision ''card''
     (Some (json_obj [(lit ''tool_result_sequences'', JArr [JInt 3])]))])"

text \<open>
  Eliding a result that the projection already shows elided is not the identity: the
  skeleton is read as if it were the original output, so its size replaces the recorded one
  and a failed call is reported as successful. Here the projection says that the call
  failed with six bytes of output, and one more elision of the same prefix says that it
  succeeded with sixty-eight.
\<close>

theorem elision_is_not_idempotent:
  "map hs_messages (scan_history_segments ex_elided_chat)
     = [[User (lit ''hello''), Assistant (Some (lit ''reading'')) [ex_call],
         Tool (lit ''c1'') (Some (lit ''read_file''))
           (lit ''[elided tool result: tool=read_file, original_bytes=6, status=error]'')]]
   \<and> map hs_messages (fst (elide_prefix (ex_lib\<lparr>json_parse := \<lambda>_. None\<rparr>)
         (scan_history_segments ex_elided_chat) 1))
     = [[User (lit ''hello''), Assistant (Some (lit ''reading'')) [ex_call],
         Tool (lit ''c1'') (Some (lit ''read_file''))
           (lit ''[elided tool result: tool=read_file, original_bytes=68, status=ok]'')]]"
  unfolding ex_elided_chat_def ex_chat_def ex_entries_def ex_entry_def ex_result_def ex_call_def ex_lib_def
  by code_simp

end
