(* ===== verification/Conversation_Log.thy ===== *)
theory Conversation_Log
  imports Session_Lists
begin

text \<open>
  The append-only conversation files of \<open>latte-engine/src/conversation.rs\<close> and the engine's
  use of them (\<open>sync_session_conversation\<close> and \<open>conversation_page\<close> of
  \<open>latte-engine/src/lib.rs\<close>). A file is its list of bytes; \<open>serde\<close> holds what the code takes
  from \<open>serde_json\<close> (\<open>to_vec\<close>, \<open>from_slice\<close> and the texts of its errors). An operation
  returns the file it leaves behind beside its result, because a refused operation may
  have repaired the file or appended some records already. Failing disks are outside the
  model; a process that dies half way is the subject of the theory \<open>Conversation_Service\<close>.
\<close>

subsection \<open>Files, directories and links\<close>

type_synonym file_bytes = "nat list"

datatype fs_node = FsFile file_bytes | FsLink rstr | FsDir

type_synonym fs = "rstr \<rightharpoonup> fs_node"

text \<open>The kernel follows at most forty links when a path is opened (\<open>ELOOP\<close>).\<close>

fun resolve :: "nat \<Rightarrow> fs \<Rightarrow> rstr \<Rightarrow> rstr option" where
  "resolve 0 fs p = None"
| "resolve (Suc n) fs p = (case fs p of Some (FsLink q) \<Rightarrow> resolve n fs q | _ \<Rightarrow> Some p)"

definition path_target :: "fs \<Rightarrow> rstr \<Rightarrow> rstr option" where
  "path_target fs p = resolve 41 fs p"

text \<open>\<open>Path::exists\<close> follows links: a link to nothing does not exist.\<close>

definition path_exists :: "fs \<Rightarrow> rstr \<Rightarrow> bool" where
  "path_exists fs p = (case path_target fs p of None \<Rightarrow> False | Some q \<Rightarrow> fs q \<noteq> None)"

definition is_symlink :: "fs \<Rightarrow> rstr \<Rightarrow> bool" where
  "is_symlink fs p = (case fs p of Some (FsLink _) \<Rightarrow> True | _ \<Rightarrow> False)"

definition conv_io_error :: "string \<Rightarrow> rstr" where
  "conv_io_error e = lit ''conversation storage failure: '' @ lit e"

definition ensure_private_directory :: "fs \<Rightarrow> rstr \<Rightarrow> rstr + fs" where
  "ensure_private_directory fs p =
     (if path_exists fs p \<and> is_symlink fs p
      then Inl (lit ''conversation directory is a symlink: '' @ p)
      else if \<not> path_exists fs p \<and> fs p = None then Inr (fs(p \<mapsto> FsDir))
      else if fs p = Some FsDir then Inr fs
      else Inl (conv_io_error ''File exists (os error 17)''))"

definition open_session_file :: "fs \<Rightarrow> rstr \<Rightarrow> rstr + (fs \<times> rstr \<times> file_bytes)" where
  "open_session_file fs p =
     (if path_exists fs p \<and> is_symlink fs p
      then Inl (lit ''conversation file is a symlink: '' @ p)
      else case path_target fs p of
        None \<Rightarrow> Inl (conv_io_error ''Too many levels of symbolic links (os error 40)'')
      | Some q \<Rightarrow> (case fs q of
            None \<Rightarrow> Inr (fs(q \<mapsto> FsFile []), q, [])
          | Some (FsFile bs) \<Rightarrow> Inr (fs, q, bs)
          | Some _ \<Rightarrow> Inl (conv_io_error ''Is a directory (os error 21)'')))"

record conversation_store =
  cs_workspace_dir :: rstr
  cs_workspace_key :: rstr

definition path_join :: "rstr \<Rightarrow> rstr \<Rightarrow> rstr" where
  "path_join dir name = dir @ lit ''/'' @ name"

definition conversation_store_open :: "fs \<Rightarrow> rstr \<Rightarrow> rstr \<Rightarrow> rstr + (fs \<times> conversation_store)" where
  "conversation_store_open fs root key =
     (if key = [] \<or> \<not> list_all (\<lambda>c. is_ascii_alnum c \<or> c = 45) key
      then Inl (lit ''invalid conversation workspace key'')
      else bindE (ensure_private_directory fs root) (\<lambda>fs.
           bindE (ensure_private_directory fs (path_join root key)) (\<lambda>fs.
           Inr (fs, \<lparr>cs_workspace_dir = path_join root key, cs_workspace_key = key\<rparr>))))"

subsection \<open>Records\<close>

definition MAX_FILE_BYTES :: nat where "MAX_FILE_BYTES = 64 * 1024 * 1024"

definition MAX_RECORD_BYTES :: nat where "MAX_RECORD_BYTES = 2 * 1024 * 1024"

record serde =
  to_vec :: "json \<Rightarrow> file_bytes"
  from_slice :: "file_bytes \<Rightarrow> json option"
  slice_error :: "file_bytes \<Rightarrow> rstr"
  kind_error :: "json \<Rightarrow> rstr"

definition conv_json_error :: "rstr \<Rightarrow> rstr" where
  "conv_json_error e = lit ''invalid conversation JSONL: '' @ e"

definition parse_line :: "serde \<Rightarrow> file_bytes \<Rightarrow> rstr + json" where
  "parse_line S line = ok_or (conv_json_error (slice_error S line)) (from_slice S line)"

definition field_str :: "string \<Rightarrow> json \<Rightarrow> rstr option" where
  "field_str k j = Option.bind (json_get (lit k) j) json_as_str"

definition field_u64 :: "string \<Rightarrow> json \<Rightarrow> nat option" where
  "field_u64 k j = Option.bind (json_get (lit k) j) json_as_u64"

definition not_null :: "json option \<Rightarrow> json option" where
  "not_null v = (if v = Some JNull then None else v)"

definition session_header :: "lib \<Rightarrow> rstr \<Rightarrow> uuid \<Rightarrow> nat \<Rightarrow> json" where
  "session_header L key sid created = json_obj
     [(lit ''record'', JStr (lit ''session'')), (lit ''format_version'', JInt 1),
      (lit ''session_id'', JStr (uuid_text L sid)), (lit ''workspace_id'', JStr key),
      (lit ''created_at_ms'', JInt (int created))]"

definition entry_record :: "lib \<Rightarrow> transcript_entry \<Rightarrow> json" where
  "entry_record L e = json_obj
     [(lit ''record'', JStr (lit ''entry'')), (lit ''format_version'', JInt 1),
      (lit ''entry_id'', JStr (uuid_text L (te_entry_id e))), (lit ''seq'', JInt (int (te_sequence e))),
      (lit ''turn_id'', json_opt (\<lambda>u. JStr (uuid_text L u)) (te_turn_id e)),
      (lit ''created_at_ms'', JInt (int (te_created_at_ms e))),
      (lit ''kind'', JStr (transcript_kind_name (te_kind e))), (lit ''content'', JStr (te_text e)),
      (lit ''payload'', json_opt (\<lambda>v. v) (te_payload e)), (lit ''source_key'', JStr (te_source_key e))]"

definition write_record :: "serde \<Rightarrow> json \<Rightarrow> file_bytes \<Rightarrow> file_bytes \<times> (rstr + unit)" where
  "write_record S j f =
     (let b = to_vec S j in
      if length b > MAX_RECORD_BYTES
      then (f, Inl (lit ''conversation record exceeds the line limit''))
      else (f @ b @ [10], Inr ()))"

subsection \<open>Reading and repairing\<close>

text \<open>
  \<open>bytes.split(|b| b == NEWLINE)\<close>, and the truncation of a last line that has no newline.
\<close>

fun split_newline :: "file_bytes \<Rightarrow> file_bytes list" where
  "split_newline [] = [[]]"
| "split_newline (b # bs) =
     (if b = 10 then [] # split_newline bs
      else case split_newline bs of [] \<Rightarrow> [[b]] | l # ls \<Rightarrow> (b # l) # ls)"

definition byte_lines :: "file_bytes \<Rightarrow> file_bytes list" where
  "byte_lines bs = filter (\<lambda>l. l \<noteq> []) (split_newline bs)"

definition repair :: "file_bytes \<Rightarrow> rstr + file_bytes" where
  "repair bs =
     (if bs \<noteq> [] \<and> last bs = 10 then Inr bs
      else let kept = rev (dropWhile (\<lambda>b. b \<noteq> 10) (rev bs)) in
        if kept = [] then Inl (lit ''conversation header is torn'') else Inr kept)"

definition header_matches :: "lib \<Rightarrow> uuid \<Rightarrow> rstr \<Rightarrow> json \<Rightarrow> bool" where
  "header_matches L sid key h \<longleftrightarrow>
     field_str ''record'' h = Some (lit ''session'') \<and> field_u64 ''format_version'' h = Some 1
   \<and> field_str ''session_id'' h = Some (uuid_text L sid) \<and> field_str ''workspace_id'' h = Some key"

text \<open>
  \<open>serde_json::from_value::<TranscriptKind>\<close>: the name of a variant, or the object form of a
  unit variant.
\<close>

definition kind_of_name :: "rstr \<Rightarrow> transcript_kind option" where
  "kind_of_name s = find (\<lambda>k. transcript_kind_name k = s)
     [TkUser, TkAssistant, TkToolCall, TkToolResult, TkPermission, TkInput, TkFailure, TkCompletion,
      TkSystem, TkCompactSummary, TkToolResultElision]"

definition kind_of_json :: "json \<Rightarrow> transcript_kind option" where
  "kind_of_json j = (case j of
       JStr s \<Rightarrow> kind_of_name s
     | JObj [(s, JNull)] \<Rightarrow> kind_of_name s
     | _ \<Rightarrow> None)"

definition parse_entry_id :: "lib \<Rightarrow> rstr \<Rightarrow> rstr + uuid" where
  "parse_entry_id L s =
     ok_or (lit ''invalid conversation entry id: '' @ uuid_error L s) (uuid_parse L s)"

definition parse_turn_id :: "lib \<Rightarrow> json \<Rightarrow> rstr + uuid option" where
  "parse_turn_id L record =
     (case not_null (case not_null (json_get (lit ''turn_id'') record) of
          Some v \<Rightarrow> Some v | None \<Rightarrow> json_get (lit ''run_id'') record) of
        None \<Rightarrow> Inr None
      | Some v \<Rightarrow>
          bindE (ok_or (lit ''invalid conversation turn id'') (json_as_str v)) (\<lambda>s.
          bindE (ok_or (lit ''invalid conversation turn id: '' @ uuid_error L s) (uuid_parse L s)) (\<lambda>u.
          Inr (Some u))))"

definition parse_record :: "lib \<Rightarrow> serde \<Rightarrow> nat \<Rightarrow> rstr \<Rightarrow> json \<Rightarrow> rstr + transcript_entry" where
  "parse_record L S sequence raw_id record =
     bindE (parse_entry_id L raw_id) (\<lambda>eid.
     bindE (parse_turn_id L record) (\<lambda>turn.
     bindE (ok_or (lit ''conversation record has no kind'') (json_get (lit ''kind'') record)) (\<lambda>kj.
     bindE (ok_or (conv_json_error (kind_error S kj)) (kind_of_json kj)) (\<lambda>kind.
     bindE (ok_or (lit ''conversation record has no content'') (field_str ''content'' record)) (\<lambda>content.
     bindE (ok_or (lit ''conversation record has no source key'') (field_str ''source_key'' record)) (\<lambda>key.
     bindE (ok_or (lit ''conversation record has no creation time'')
       (field_u64 ''created_at_ms'' record)) (\<lambda>created.
     Inr \<lparr>te_entry_id = eid, te_sequence = sequence, te_turn_id = turn, te_kind = kind,
          te_text = content, te_payload = not_null (json_get (lit ''payload'') record),
          te_source_key = key, te_created_at_ms = created\<rparr>)))))))"

text \<open>The \<open>BTreeMap<u64, String>\<close> of the sequences read so far, in key order.\<close>

fun seq_insert :: "nat \<Rightarrow> 'v \<Rightarrow> (nat \<times> 'v) list \<Rightarrow> (nat \<times> 'v) list" where
  "seq_insert k v [] = [(k, v)]"
| "seq_insert k v ((k', v') # m) =
     (if k = k' then (k, v) # m
      else if k < k' then (k, v) # (k', v') # m
      else (k', v') # seq_insert k v m)"

record log_state =
  lg_entries :: "(nat \<times> rstr) list"
  lg_transcript :: "transcript_entry list"
  lg_previous :: nat

definition read_record :: "lib \<Rightarrow> serde \<Rightarrow> file_bytes \<Rightarrow> log_state \<Rightarrow> rstr + log_state" where
  "read_record L S line st =
     (if length line > MAX_RECORD_BYTES then Inl (lit ''conversation record exceeds the line limit'')
      else bindE (parse_line S line) (\<lambda>record.
        if field_str ''record'' record \<noteq> Some (lit ''entry'')
           \<or> field_u64 ''format_version'' record \<noteq> Some 1
        then Inl (lit ''invalid conversation record type'')
        else bindE (ok_or (lit ''conversation record has no sequence'') (field_u64 ''seq'' record)) (\<lambda>sequence.
        bindE (ok_or (lit ''conversation record has no entry id'') (field_str ''entry_id'' record)) (\<lambda>raw_id.
        if sequence \<le> lg_previous st \<or> map_of (lg_entries st) sequence \<noteq> None
        then Inl (lit ''conversation records are not a strictly increasing sequence'')
        else bindE (parse_record L S sequence raw_id record) (\<lambda>e.
          Inr \<lparr>lg_entries = seq_insert sequence raw_id (lg_entries st),
               lg_transcript = lg_transcript st @ [e], lg_previous = sequence\<rparr>)))))"

fun read_records :: "lib \<Rightarrow> serde \<Rightarrow> file_bytes list \<Rightarrow> log_state \<Rightarrow> rstr + log_state" where
  "read_records L S [] st = Inr st"
| "read_records L S (line # ls) st = bindE (read_record L S line st) (read_records L S ls)"

definition read_lines :: "lib \<Rightarrow> serde \<Rightarrow> uuid \<Rightarrow> rstr \<Rightarrow> file_bytes \<Rightarrow> rstr + log_state" where
  "read_lines L S sid key bs =
     (case byte_lines bs of
        [] \<Rightarrow> Inl (lit ''conversation header is missing'')
      | h # ls \<Rightarrow> bindE (parse_line S h) (\<lambda>header.
          if \<not> header_matches L sid key header then Inl (lit ''conversation header identity mismatch'')
          else read_records L S ls \<lparr>lg_entries = [], lg_transcript = [], lg_previous = 0\<rparr>))"

definition repair_and_read ::
  "lib \<Rightarrow> serde \<Rightarrow> uuid \<Rightarrow> rstr \<Rightarrow> file_bytes
    \<Rightarrow> file_bytes \<times> (rstr + (nat \<times> rstr) list \<times> transcript_entry list)" where
  "repair_and_read L S sid key f =
     (if length f > MAX_FILE_BYTES
      then (f, Inl (lit ''conversation file exceeds the bounded repair limit''))
      else case repair f of
        Inl e \<Rightarrow> (f, Inl e)
      | Inr bs \<Rightarrow> (bs, bindE (read_lines L S sid key bs) (\<lambda>st. Inr (lg_entries st, lg_transcript st))))"

subsection \<open>Appending\<close>

fun append_entries :: "lib \<Rightarrow> serde \<Rightarrow> (nat \<times> rstr) list \<Rightarrow> nat \<Rightarrow> transcript_entry list
    \<Rightarrow> file_bytes \<Rightarrow> file_bytes \<times> (rstr + unit)" where
  "append_entries L S existing last_sequence [] f = (f, Inr ())"
| "append_entries L S existing last_sequence (e # es) f =
     (case map_of existing (te_sequence e) of
        Some existing_id \<Rightarrow>
          if existing_id \<noteq> uuid_text L (te_entry_id e)
          then (f, Inl (lit ''conversation sequence '' @ nat_text (te_sequence e)
                        @ lit '' has a different entry id''))
          else append_entries L S existing last_sequence es f
      | None \<Rightarrow>
          if te_sequence e \<le> last_sequence
          then (f, Inl (lit ''conversation sequence is not increasing: previous ''
                        @ nat_text last_sequence @ lit '', found '' @ nat_text (te_sequence e)))
          else (case write_record S (entry_record L e) f of
                  (f, Inl err) \<Rightarrow> (f, Inl err)
                | (f, Inr _) \<Rightarrow> append_entries L S existing (te_sequence e) es f))"

definition last_key :: "(nat \<times> 'v) list \<Rightarrow> nat" where
  "last_key m = (if m = [] then 0 else fst (last m))"

definition sync_opened ::
  "lib \<Rightarrow> serde \<Rightarrow> uuid \<Rightarrow> rstr \<Rightarrow> transcript_entry list \<Rightarrow> file_bytes \<Rightarrow> file_bytes \<times> (rstr + unit)" where
  "sync_opened L S sid key entries f =
     (case repair_and_read L S sid key f of
        (f, Inl e) \<Rightarrow> (f, Inl e)
      | (f, Inr (existing, _)) \<Rightarrow> append_entries L S existing (last_key existing) entries f)"

definition sync_bytes ::
  "lib \<Rightarrow> serde \<Rightarrow> rstr \<Rightarrow> uuid \<Rightarrow> nat \<Rightarrow> transcript_entry list \<Rightarrow> file_bytes
    \<Rightarrow> file_bytes \<times> (rstr + unit)" where
  "sync_bytes L S key sid created entries f =
     (if f = [] then
        (if entries = []
         then (f, Inl (lit ''conversation file is missing and the durable outbox has no recovery records''))
         else case write_record S (session_header L key sid created) f of
            (f, Inl e) \<Rightarrow> (f, Inl e)
          | (f, Inr _) \<Rightarrow> sync_opened L S sid key entries f)
      else sync_opened L S sid key entries f)"

definition session_path :: "lib \<Rightarrow> conversation_store \<Rightarrow> uuid \<Rightarrow> rstr" where
  "session_path L cs sid = path_join (cs_workspace_dir cs) (uuid_text L sid @ lit ''.jsonl'')"

definition conversation_sync ::
  "lib \<Rightarrow> serde \<Rightarrow> conversation_store \<Rightarrow> uuid \<Rightarrow> nat \<Rightarrow> transcript_entry list \<Rightarrow> fs \<Rightarrow> fs \<times> (rstr + unit)" where
  "conversation_sync L S cs sid created entries fs =
     (case open_session_file fs (session_path L cs sid) of
        Inl e \<Rightarrow> (fs, Inl e)
      | Inr (fs, q, f) \<Rightarrow>
          (case sync_bytes L S (cs_workspace_key cs) sid created entries f of
             (f, r) \<Rightarrow> (fs(q \<mapsto> FsFile f), r)))"

definition conversation_read ::
  "lib \<Rightarrow> serde \<Rightarrow> conversation_store \<Rightarrow> uuid \<Rightarrow> fs \<Rightarrow> fs \<times> (rstr + transcript_entry list)" where
  "conversation_read L S cs sid fs =
     (case open_session_file fs (session_path L cs sid) of
        Inl e \<Rightarrow> (fs, Inl e)
      | Inr (fs, q, f) \<Rightarrow>
          (case repair_and_read L S sid (cs_workspace_key cs) f of
             (f, r) \<Rightarrow> (fs(q \<mapsto> FsFile f), bindE r (\<lambda>(_, es). Inr es))))"

subsection \<open>The engine's use of the files\<close>

text \<open>
  \<open>EngineHandle::sync_session_conversation\<close>: the outbox of the session is written to its
  file and acknowledged up to its last entry.
\<close>

definition sync_session_conversation ::
  "lib \<Rightarrow> serde \<Rightarrow> conversation_store option \<Rightarrow> rstr \<Rightarrow> uuid \<Rightarrow> fs \<Rightarrow> db \<Rightarrow> fs \<times> (storage_error + db)" where
  "sync_session_conversation L S store root sid fs d =
     (case store of
        None \<Rightarrow> (fs, Inr d)
      | Some cs \<Rightarrow>
          (case bindE (session_v2 d sid) (ok_or (SessionNotFound sid)) of
             Inl e \<Rightarrow> (fs, Inl e)
           | Inr metadata \<Rightarrow>
               if sy_workspace_root metadata \<noteq> root
               then (fs, Inl (invalid ''cannot write a Session conversation from a foreign workspace''))
               else let entries = conversation_outbox_entries d sid in
                 (case conversation_sync L S cs sid (sy_created_at_ms metadata) entries fs of
                    (fs, Inl e) \<Rightarrow> (fs, Inl (InvalidData e))
                  | (fs, Inr _) \<Rightarrow>
                      (fs, if entries = [] then Inr d
                           else acknowledge_conversation_outbox d sid (te_sequence (last entries))))))"

definition page_of :: "nat option \<Rightarrow> nat \<Rightarrow> bool \<Rightarrow> transcript_entry list \<Rightarrow> transcript_page" where
  "page_of after limit tail entries =
     (let bounded = clamp limit 1 500;
          next_after = (\<lambda>es. if es = [] then None else Some (te_sequence (last es))) in
      if tail then
        let start = length entries - bounded; es = drop start entries in
        \<lparr>tp_entries = es, tp_next_after = next_after es, tp_has_more = start > 0\<rparr>
      else
        let kept = filter (\<lambda>e. te_sequence e > (case after of None \<Rightarrow> 0 | Some a \<Rightarrow> a)) entries;
            es = take bounded kept in
        \<lparr>tp_entries = es, tp_next_after = next_after es, tp_has_more = length kept > bounded\<rparr>)"

definition conversation_page ::
  "lib \<Rightarrow> serde \<Rightarrow> conversation_store option \<Rightarrow> rstr \<Rightarrow> uuid \<Rightarrow> nat option \<Rightarrow> nat \<Rightarrow> bool \<Rightarrow> fs \<Rightarrow> db
    \<Rightarrow> fs \<times> db \<times> (storage_error + transcript_page option)" where
  "conversation_page L S store root sid after limit tail fs d =
     (case store of
        None \<Rightarrow> (fs, d, Inr None)
      | Some cs \<Rightarrow>
          (case sync_session_conversation L S store root sid fs d of
             (fs, Inl e) \<Rightarrow> (fs, d, Inl e)
           | (fs, Inr d) \<Rightarrow>
               (case conversation_read L S cs sid fs of
                  (fs, r) \<Rightarrow> (fs, d, bindE (map_err InvalidData r) (\<lambda>es. Inr (Some (page_of after limit tail es)))))))"

end
