(* ===== verification/Conversation_Sync.thy ===== *)
theory Conversation_Sync
  imports Conversation_Log
begin

text \<open>
  What the bytes of a conversation file mean: \<open>log_file\<close> is the file that holds a list of
  entries, reading inverts it, a torn last line is cut away and nothing else, and
  \<open>sync_bytes\<close> appends the entries of the outbox that the file does not have.
\<close>

subsection \<open>The file of a list of entries\<close>

text \<open>
  What \<open>serde_json\<close> promises of a record: \<open>from_slice\<close> inverts \<open>to_vec\<close>, whose compact form
  has no newline and is not empty.
\<close>

definition line_ok :: "serde \<Rightarrow> json \<Rightarrow> bool" where
  "line_ok S j \<longleftrightarrow> from_slice S (to_vec S j) = Some j \<and> to_vec S j \<noteq> [] \<and> 10 \<notin> set (to_vec S j)"

definition line_of :: "serde \<Rightarrow> json \<Rightarrow> file_bytes" where
  "line_of S j = to_vec S j @ [10]"

definition log_file :: "lib \<Rightarrow> serde \<Rightarrow> rstr \<Rightarrow> uuid \<Rightarrow> nat \<Rightarrow> transcript_entry list \<Rightarrow> file_bytes" where
  "log_file L S key sid created es =
     concat (map (line_of S) (session_header L key sid created # map (entry_record L) es))"

text \<open>
  An entry that the store can hold: its record survives \<open>serde_json\<close>, its sequence is
  positive and its payload is not the null that stands for no payload.
\<close>

definition entry_ok :: "lib \<Rightarrow> serde \<Rightarrow> transcript_entry \<Rightarrow> bool" where
  "entry_ok L S e \<longleftrightarrow> line_ok S (entry_record L e) \<and> 0 < te_sequence e \<and> te_payload e \<noteq> Some JNull"

definition fits :: "lib \<Rightarrow> serde \<Rightarrow> transcript_entry \<Rightarrow> bool" where
  "fits L S e \<longleftrightarrow> length (to_vec S (entry_record L e)) \<le> MAX_RECORD_BYTES"

definition seq_sorted :: "transcript_entry list \<Rightarrow> bool" where
  "seq_sorted es \<longleftrightarrow> sorted_wrt (<) (map te_sequence es)"

lemma log_file_append:
  "log_file L S key sid c (es @ xs) =
     log_file L S key sid c es @ concat (map (line_of S) (map (entry_record L) xs))"
  by (simp add: log_file_def)

lemma log_file_snoc:
  "log_file L S key sid c (es @ [e]) = log_file L S key sid c es @ line_of S (entry_record L e)"
  by (simp add: log_file_append)

lemma log_file_nonempty [simp]: "log_file L S key sid c es \<noteq> []"
  by (simp add: log_file_def line_of_def)

lemma last_log_file [simp]: "last (log_file L S key sid c es) = 10"
  by (induction es rule: rev_induct) (simp_all add: log_file_snoc, simp_all add: log_file_def line_of_def)

subsection \<open>Lines\<close>

lemma split_newline_line:
  "10 \<notin> set l \<Longrightarrow> split_newline (l @ [10] @ bs) = l # split_newline bs"
  by (induction l) auto

lemma byte_lines_line:
  "10 \<notin> set l \<Longrightarrow> l \<noteq> [] \<Longrightarrow> byte_lines (l @ 10 # bs) = l # byte_lines bs"
  using split_newline_line [of l bs] by (simp add: byte_lines_def)

lemma byte_lines_concat:
  "\<forall>j \<in> set js. line_ok S j \<Longrightarrow> byte_lines (concat (map (line_of S) js)) = map (to_vec S) js"
  by (induction js) (simp_all add: line_of_def line_ok_def byte_lines_line, simp add: byte_lines_def)

text \<open>A torn last line is exactly what repair removes.\<close>

lemma repair_torn:
  assumes "f \<noteq> []" and "last f = 10" and "10 \<notin> set t"
  shows "repair (f @ t) = Inr f"
proof (cases "t = []")
  case True
  with assms show ?thesis by (simp add: repair_def)
next
  case False
  have "dropWhile (\<lambda>b. b \<noteq> 10) (rev (f @ t)) = dropWhile (\<lambda>b. b \<noteq> 10) (rev f)"
    using assms(3) by (induction t rule: rev_induct) auto
  also have "\<dots> = rev f"
    using assms(1,2) by (cases f rule: rev_cases) auto
  finally have "rev (dropWhile (\<lambda>b. b \<noteq> 10) (rev (f @ t))) = f" by simp
  moreover have "last (f @ t) \<noteq> 10"
    using False assms(3) last_in_set [OF False] by (metis last_appendR)
  ultimately show ?thesis using False assms(1) unfolding repair_def Let_def by simp
qed

lemma repair_no_newline: "10 \<notin> set t \<Longrightarrow> repair t = Inl (lit ''conversation header is torn'')"
proof -
  assume t: "10 \<notin> set t"
  then have "rev (dropWhile (\<lambda>b. b \<noteq> 10) (rev t)) = []"
    by (simp add: dropWhile_eq_Nil_conv) metis
  moreover have "\<not> (t \<noteq> [] \<and> last t = 10)" using t last_in_set [of t] by metis
  ultimately show ?thesis by (simp only: repair_def Let_def if_False if_True refl)
qed

subsection \<open>Reading back\<close>

lemma map_of_foldl_insert:
  "map_of (foldl (\<lambda>m (k, v). obj_insert k v m) m kvs) = map_of m ++ map_of (rev kvs)"
  by (induction kvs arbitrary: m) (auto simp: map_of_obj_insert)

lemma json_get_obj: "json_get k (json_obj kvs) = map_of (rev kvs) k"
  by (simp add: json_get_def json_obj_def map_of_foldl_insert)

lemmas record_eval = json_get_obj field_str_def field_u64_def json_as_str_def json_as_u64_def

lemma kind_of_name_of [simp]: "kind_of_name (transcript_kind_name k) = Some k"
  by (cases k) (simp_all add: kind_of_name_def)

lemma header_matches_header: "header_matches L sid key (session_header L key sid c)"
  by (simp add: header_matches_def session_header_def record_eval)

lemma entry_fields:
  "field_str ''record'' (entry_record L e) = Some (lit ''entry'')"
  "field_u64 ''format_version'' (entry_record L e) = Some 1"
  "field_u64 ''seq'' (entry_record L e) = Some (te_sequence e)"
  "field_str ''entry_id'' (entry_record L e) = Some (uuid_text L (te_entry_id e))"
  "field_str ''content'' (entry_record L e) = Some (te_text e)"
  "field_str ''source_key'' (entry_record L e) = Some (te_source_key e)"
  "field_u64 ''created_at_ms'' (entry_record L e) = Some (te_created_at_ms e)"
  "json_get (lit ''kind'') (entry_record L e) = Some (JStr (transcript_kind_name (te_kind e)))"
  "json_get (lit ''payload'') (entry_record L e) = Some (json_opt (\<lambda>v. v) (te_payload e))"
  "json_get (lit ''turn_id'') (entry_record L e)
     = Some (json_opt (\<lambda>u. JStr (uuid_text L u)) (te_turn_id e))"
  "json_get (lit ''run_id'') (entry_record L e) = None"
  by (simp_all add: entry_record_def record_eval)

lemma parse_turn_id_record:
  "uuid_roundtrip L \<Longrightarrow> parse_turn_id L (entry_record L e) = Inr (te_turn_id e)"
  by (cases "te_turn_id e")
    (simp_all add: parse_turn_id_def entry_fields json_opt_def not_null_def json_as_str_def uuid_roundtrip_def
      del: lit_simps)

lemma payload_record: "p \<noteq> Some JNull \<Longrightarrow> not_null (Some (json_opt (\<lambda>v. v) p)) = p"
  by (cases p) (auto simp: not_null_def json_opt_def)

lemma parse_record_record:
  assumes "uuid_roundtrip L" and "te_payload e \<noteq> Some JNull"
  shows "parse_record L S (te_sequence e) (uuid_text L (te_entry_id e)) (entry_record L e) = Inr e"
  using assms by (simp add: parse_record_def parse_entry_id_def parse_turn_id_record entry_fields kind_of_json_def
      payload_record uuid_roundtrip_def del: lit_simps)

definition id_index :: "lib \<Rightarrow> transcript_entry list \<Rightarrow> (nat \<times> rstr) list" where
  "id_index L es = map (\<lambda>e. (te_sequence e, uuid_text L (te_entry_id e))) es"

definition last_seq :: "transcript_entry list \<Rightarrow> nat" where
  "last_seq es = (if es = [] then 0 else te_sequence (last es))"

lemma seq_insert_last: "\<forall>p \<in> set m. fst p < k \<Longrightarrow> seq_insert k v m = m @ [(k, v)]"
  by (induction m) auto

lemma seq_sorted_snoc: "seq_sorted (es @ [e]) \<longleftrightarrow> seq_sorted es \<and> (\<forall>x \<in> set es. te_sequence x < te_sequence e)"
  by (auto simp: seq_sorted_def sorted_wrt_append)

lemma seq_sorted_append:
  "seq_sorted (xs @ ys) \<longleftrightarrow> seq_sorted xs \<and> seq_sorted ys
     \<and> (\<forall>x \<in> set xs. \<forall>y \<in> set ys. te_sequence x < te_sequence y)"
  by (auto simp: seq_sorted_def sorted_wrt_append)

lemma seq_le_last: "seq_sorted es \<Longrightarrow> x \<in> set es \<Longrightarrow> te_sequence x \<le> last_seq es"
  by (cases es rule: rev_cases) (auto simp: last_seq_def seq_sorted_snoc)

lemma last_key_index [simp]: "last_key (id_index L es) = last_seq es"
  by (simp add: last_key_def id_index_def last_seq_def last_map)

lemma map_of_index:
  "map_of (id_index L es) n = None \<longleftrightarrow> n \<notin> te_sequence ` set es"
  by (auto simp: map_of_eq_None_iff id_index_def image_iff)

lemma map_of_index_entry:
  "seq_sorted es \<Longrightarrow> e \<in> set es \<Longrightarrow> map_of (id_index L es) (te_sequence e) = Some (uuid_text L (te_entry_id e))"
  by (induction es) (auto simp: id_index_def seq_sorted_def)

lemma read_record_line:
  assumes "uuid_roundtrip L" and "entry_ok L S e" and "fits L S e"
    and "seq_sorted (es @ [e])"
  shows "read_record L S (to_vec S (entry_record L e))
      \<lparr>lg_entries = id_index L es, lg_transcript = es, lg_previous = last_seq es\<rparr>
    = Inr \<lparr>lg_entries = id_index L (es @ [e]), lg_transcript = es @ [e], lg_previous = last_seq (es @ [e])\<rparr>"
proof -
  have e: "from_slice S (to_vec S (entry_record L e)) = Some (entry_record L e)"
      "te_payload e \<noteq> Some JNull" "0 < te_sequence e"
    using assms(2) by (auto simp: entry_ok_def line_ok_def)
  have lt: "\<forall>x \<in> set es. te_sequence x < te_sequence e" using assms(4) by (simp add: seq_sorted_snoc)
  then have "last_seq es < te_sequence e" using e(3) by (cases es rule: rev_cases) (auto simp: last_seq_def)
  moreover have "map_of (id_index L es) (te_sequence e) = None"
    using lt by (auto simp: map_of_index)
  moreover have "seq_insert (te_sequence e) (uuid_text L (te_entry_id e)) (id_index L es) = id_index L (es @ [e])"
    using lt by (subst seq_insert_last) (auto simp: id_index_def)
  ultimately show ?thesis
    using assms(3) parse_record_record [OF assms(1) e(2), of S] e(1)
    by (simp add: read_record_def fits_def parse_line_def entry_fields last_seq_def del: lit_simps)
qed

lemma read_records_lines:
  assumes "uuid_roundtrip L" and "\<forall>e \<in> set xs. entry_ok L S e \<and> fits L S e" and "seq_sorted (es @ xs)"
  shows "read_records L S (map (\<lambda>e. to_vec S (entry_record L e)) xs)
      \<lparr>lg_entries = id_index L es, lg_transcript = es, lg_previous = last_seq es\<rparr>
    = Inr \<lparr>lg_entries = id_index L (es @ xs), lg_transcript = es @ xs, lg_previous = last_seq (es @ xs)\<rparr>"
  using assms(2,3)
proof (induction xs arbitrary: es)
  case (Cons e xs)
  from Cons.prems have "seq_sorted (es @ [e])" by (auto simp: seq_sorted_def sorted_wrt_append)
  from read_record_line [OF assms(1) _ _ this, of S] Cons.prems Cons.IH [of "es @ [e]"]
  show ?case by simp
qed simp

text \<open>The entries of a file that may be written to: in order, and each readable on its own.\<close>

definition log_ok :: "lib \<Rightarrow> serde \<Rightarrow> rstr \<Rightarrow> uuid \<Rightarrow> nat \<Rightarrow> transcript_entry list \<Rightarrow> bool" where
  "log_ok L S key sid c es \<longleftrightarrow> uuid_roundtrip L \<and> line_ok S (session_header L key sid c)
     \<and> (\<forall>e \<in> set es. entry_ok L S e \<and> fits L S e) \<and> seq_sorted es"

lemma read_lines_log:
  assumes "log_ok L S key sid c es"
  shows "read_lines L S sid key (log_file L S key sid c es)
    = Inr \<lparr>lg_entries = id_index L es, lg_transcript = es, lg_previous = last_seq es\<rparr>"
proof -
  let ?h = "session_header L key sid c"
  have ok: "uuid_roundtrip L" "line_ok S ?h" "\<forall>e \<in> set es. entry_ok L S e \<and> fits L S e" "seq_sorted es"
    using assms by (auto simp: log_ok_def)
  have "byte_lines (log_file L S key sid c es) = to_vec S ?h # map (to_vec S) (map (entry_record L) es)"
    unfolding log_file_def using ok(2,3) by (subst byte_lines_concat) (auto simp: entry_ok_def)
  moreover have "read_records L S (map (\<lambda>e. to_vec S (entry_record L e)) es)
      \<lparr>lg_entries = [], lg_transcript = [], lg_previous = 0\<rparr>
    = Inr \<lparr>lg_entries = id_index L es, lg_transcript = es, lg_previous = last_seq es\<rparr>"
    using read_records_lines [OF ok(1,3), of "[]"] ok(4) by (simp add: id_index_def last_seq_def)
  moreover have "from_slice S (to_vec S ?h) = Some ?h" using ok(2) by (simp add: line_ok_def)
  ultimately show ?thesis
    by (simp add: read_lines_def parse_line_def header_matches_header comp_def)
qed

lemma read_torn_log:
  assumes "log_ok L S key sid c es" and "10 \<notin> set t"
    and "length (log_file L S key sid c es @ t) \<le> MAX_FILE_BYTES"
  shows "repair_and_read L S sid key (log_file L S key sid c es @ t)
    = (log_file L S key sid c es, Inr (id_index L es, es))"
  using assms(3) by (simp add: repair_and_read_def repair_torn [OF _ _ assms(2)] read_lines_log [OF assms(1)])

subsection \<open>Appending\<close>

text \<open>The entries of the outbox that the file lacks.\<close>

definition missing :: "transcript_entry list \<Rightarrow> transcript_entry list \<Rightarrow> transcript_entry list" where
  "missing es out = filter (\<lambda>e. te_sequence e \<notin> te_sequence ` set es) out"

text \<open>The outbox continues the file: what they share agrees, and the rest comes later.\<close>

definition continues :: "transcript_entry list \<Rightarrow> transcript_entry list \<Rightarrow> bool" where
  "continues es out \<longleftrightarrow> seq_sorted out
     \<and> (\<forall>e \<in> set out. e \<in> set es \<or> (\<forall>x \<in> set es. te_sequence x < te_sequence e))"

lemma missing_later:
  assumes "seq_sorted es" and "continues es out"
  shows "missing es out = filter (\<lambda>e. last_seq es < te_sequence e \<or> es = []) out"
  unfolding missing_def
proof (rule filter_cong [OF refl])
  fix e assume "e \<in> set out"
  then have "e \<in> set es \<or> (\<forall>x \<in> set es. te_sequence x < te_sequence e)"
    using assms(2) by (simp add: continues_def)
  then show "(te_sequence e \<notin> te_sequence ` set es) = (last_seq es < te_sequence e \<or> es = [])"
  proof (elim disjE)
    assume "e \<in> set es"
    with seq_le_last [OF assms(1) this] show ?thesis by (auto simp: not_less)
  next
    assume *: "\<forall>x \<in> set es. te_sequence x < te_sequence e"
    then have "es = [] \<or> last_seq es < te_sequence e" by (cases "es = []") (simp_all add: last_seq_def)
    with * show ?thesis by auto
  qed
qed

text \<open>
  The loop over the outbox writes the missing entries in order up to the first record that
  exceeds the line limit; it fails only there.
\<close>

lemma append_entries_writes:
  assumes "seq_sorted es" and "\<forall>e \<in> set out. e \<in> set es \<or> prev < te_sequence e"
    and "seq_sorted out" and "\<forall>x \<in> set es. te_sequence x \<le> prev"
  shows "append_entries L S (id_index L es) prev out f =
     (f @ concat (map (line_of S) (map (entry_record L) (takeWhile (fits L S) (missing es out)))),
      if list_all (fits L S) (missing es out) then Inr ()
      else Inl (lit ''conversation record exceeds the line limit''))"
  using assms(2,3,4)
proof (induction out arbitrary: prev f)
  case (Cons e out)
  have srt: "seq_sorted out" and later: "\<forall>x \<in> set out. te_sequence e < te_sequence x"
    using Cons.prems(2) by (auto simp: seq_sorted_def)
  show ?case
  proof (cases "e \<in> set es")
    case True
    then have "map_of (id_index L es) (te_sequence e) = Some (uuid_text L (te_entry_id e))"
      using assms(1) by (simp add: map_of_index_entry)
    with Cons.IH [of prev f] Cons.prems srt True show ?thesis by (simp add: missing_def)
  next
    case False
    with Cons.prems have lt: "prev < te_sequence e" by simp
    with Cons.prems(3) have new: "te_sequence e \<notin> te_sequence ` set es" by fastforce
    then have none: "map_of (id_index L es) (te_sequence e) = None" by (simp add: map_of_index)
    have m: "missing es (e # out) = e # missing es out" using new by (simp add: missing_def)
    show ?thesis
    proof (cases "fits L S e")
      case True
      have "\<forall>x \<in> set out. x \<in> set es \<or> te_sequence e < te_sequence x" using later by blast
      moreover have "\<forall>x \<in> set es. te_sequence x \<le> te_sequence e" using Cons.prems(3) lt by fastforce
      ultimately show ?thesis
        using Cons.IH [of "te_sequence e" "f @ line_of S (entry_record L e)"] srt none lt True
        by (simp add: m write_record_def fits_def line_of_def not_le)
    next
      case False
      then show ?thesis using none lt by (simp add: m write_record_def fits_def not_le)
    qed
  qed
qed (simp add: missing_def)

text \<open>
  A sync of a file that may end in a torn line: the torn line goes, the missing entries
  that fit are appended, and the sync succeeds when all of them fit.
\<close>

lemma sync_opened_log:
  assumes ok: "log_ok L S key sid c es" and torn: "10 \<notin> set t"
    and size: "length (log_file L S key sid c es @ t) \<le> MAX_FILE_BYTES"
    and cont: "continues es out" and pos: "\<forall>e \<in> set out. 0 < te_sequence e"
  shows "sync_opened L S sid key out (log_file L S key sid c es @ t) =
     (log_file L S key sid c (es @ takeWhile (fits L S) (missing es out)),
      if list_all (fits L S) (missing es out) then Inr ()
      else Inl (lit ''conversation record exceeds the line limit''))"
proof -
  have srt: "seq_sorted es" and out: "seq_sorted out" using ok cont by (auto simp: log_ok_def continues_def)
  have last: "\<forall>x \<in> set es. te_sequence x \<le> last_seq es" using srt seq_le_last by blast
  have later: "\<forall>e \<in> set out. e \<in> set es \<or> last_seq es < te_sequence e"
    using cont pos by (cases "es = []") (auto simp: continues_def last_seq_def)
  show ?thesis
    by (simp add: sync_opened_def read_torn_log [OF ok torn size] log_file_append
        append_entries_writes [OF srt later out last])
qed

lemma sync_bytes_log:
  assumes "log_ok L S key sid c es" and "10 \<notin> set t"
    and "length (log_file L S key sid c es @ t) \<le> MAX_FILE_BYTES"
    and "continues es out" and "\<forall>e \<in> set out. 0 < te_sequence e"
  shows "sync_bytes L S key sid c' out (log_file L S key sid c es @ t) =
     (log_file L S key sid c (es @ takeWhile (fits L S) (missing es out)),
      if list_all (fits L S) (missing es out) then Inr ()
      else Inl (lit ''conversation record exceeds the line limit''))"
  by (simp add: sync_bytes_def sync_opened_log [OF assms])

lemma sync_bytes_new:
  assumes ok: "log_ok L S key sid c []"
    and size: "length (to_vec S (session_header L key sid c)) \<le> MAX_RECORD_BYTES"
    and out: "out \<noteq> []" "seq_sorted out" "\<forall>e \<in> set out. 0 < te_sequence e"
  shows "sync_bytes L S key sid c out [] =
     (log_file L S key sid c (takeWhile (fits L S) out),
      if list_all (fits L S) out then Inr ()
      else Inl (lit ''conversation record exceeds the line limit''))"
proof -
  have "log_file L S key sid c [] = to_vec S (session_header L key sid c) @ [10]"
    by (simp add: log_file_def line_of_def)
  moreover from this have "length (log_file L S key sid c [] @ []) \<le> MAX_FILE_BYTES"
    using size by (simp add: MAX_RECORD_BYTES_def MAX_FILE_BYTES_def)
  moreover have "continues [] out" using out(2) by (simp add: continues_def)
  ultimately show ?thesis
    using size out sync_opened_log [OF ok, of "[]" out]
    by (simp add: sync_bytes_def write_record_def missing_def)
qed

subsection \<open>A write cut short\<close>

text \<open>
  A process that dies while it appends leaves a prefix of the file it was writing: some of
  the new records in full, and part of the next one.
\<close>

lemma take_concat_lines:
  assumes "\<forall>j \<in> set js. line_ok S j"
  shows "\<exists>k t. take n (concat (map (line_of S) js)) = concat (map (line_of S) (take k js)) @ t
    \<and> 10 \<notin> set t"
  using assms
proof (induction js arbitrary: n)
  case (Cons j js)
  show ?case
  proof (cases "n < length (line_of S j)")
    case True
    then have "take n (concat (map (line_of S) (j # js))) = take n (to_vec S j)"
      by (simp add: line_of_def)
    moreover have "10 \<notin> set (take n (to_vec S j))"
      using Cons.prems by (auto simp: line_ok_def dest: in_set_takeD)
    ultimately show ?thesis by (intro exI [of _ 0]) simp
  next
    case False
    from Cons.prems Cons.IH [of "n - length (line_of S j)"] obtain k t where
      "take (n - length (line_of S j)) (concat (map (line_of S) js))
         = concat (map (line_of S) (take k js)) @ t" "10 \<notin> set t" by auto
    with False show ?thesis by (intro exI [of _ "Suc k"]) (simp add: not_less)
  qed
qed simp

lemma take_log_file:
  assumes "\<forall>e \<in> set xs. entry_ok L S e" and "length (log_file L S key sid c es) \<le> n"
  obtains k t where
    "take n (log_file L S key sid c (es @ xs)) = log_file L S key sid c (es @ take k xs) @ t" "10 \<notin> set t"
proof -
  let ?js = "map (entry_record L) xs" and ?n = "n - length (log_file L S key sid c es)"
  have "\<forall>j \<in> set ?js. line_ok S j" using assms(1) by (auto simp: entry_ok_def)
  from take_concat_lines [OF this, of ?n] obtain k t where
    "take ?n (concat (map (line_of S) ?js)) = concat (map (line_of S) (take k ?js)) @ t" "10 \<notin> set t"
    by blast
  with that [of k t] assms(2) show ?thesis by (simp add: log_file_append take_map)
qed

text \<open>
  Syncing the same outbox again after the cut restores the file that the first sync would
  have written.
\<close>

lemma resync_restores:
  assumes ok: "log_ok L S key sid c (es @ xs)"
    and size: "length (log_file L S key sid c (es @ xs)) \<le> MAX_FILE_BYTES"
    and out: "out = ys @ xs" "set ys \<subseteq> set es" "seq_sorted out"
    and cut: "length (log_file L S key sid c es) \<le> n"
  shows "sync_bytes L S key sid c' out (take n (log_file L S key sid c (es @ xs)))
    = (log_file L S key sid c (es @ xs), Inr ())"
proof -
  have entries: "\<forall>e \<in> set (es @ xs). entry_ok L S e \<and> fits L S e" and srt: "seq_sorted (es @ xs)"
    using ok by (auto simp: log_ok_def)
  obtain k t where k: "take n (log_file L S key sid c (es @ xs)) = log_file L S key sid c (es @ take k xs) @ t"
    "10 \<notin> set t" using take_log_file [OF _ cut] entries by (metis UnCI set_append)
  have "seq_sorted ((es @ take k xs) @ drop k xs)" using srt by simp
  then have lt: "\<forall>x \<in> set (es @ take k xs). \<forall>y \<in> set (drop k xs). te_sequence x < te_sequence y"
    and part: "seq_sorted (es @ take k xs)"
    unfolding seq_sorted_append [of "es @ take k xs" "drop k xs"] by blast+
  have ok': "log_ok L S key sid c (es @ take k xs)"
    using ok part by (auto simp: log_ok_def dest: in_set_takeD)
  have size': "length (log_file L S key sid c (es @ take k xs) @ t) \<le> MAX_FILE_BYTES"
    using size k(1) by (metis length_take min.coboundedI1)
  have xs: "e \<in> set (take k xs) \<or> e \<in> set (drop k xs)" if "e \<in> set xs" for e
    using that by (metis UnE append_take_drop_id set_append)
  have cont: "continues (es @ take k xs) out"
    using out lt xs by (auto simp: continues_def)
  have miss: "missing (es @ take k xs) out = drop k xs"
  proof -
    have "missing (es @ take k xs) ys = []" using out(2) by (auto simp: missing_def filter_empty_conv)
    moreover have "missing (es @ take k xs) (take k xs) = []" by (auto simp: missing_def filter_empty_conv)
    moreover have "missing (es @ take k xs) (drop k xs) = drop k xs"
      unfolding missing_def using lt by (intro filter_True) fastforce
    ultimately show ?thesis
      unfolding out(1) missing_def filter_append
      by (metis append_Nil append_take_drop_id filter_append)
  qed
  have pos: "\<forall>e \<in> set out. 0 < te_sequence e" using entries out by (auto simp: entry_ok_def)
  have fits: "list_all (fits L S) (drop k xs)"
    using entries by (auto simp: list_all_iff dest: in_set_dropD)
  show ?thesis
    unfolding k(1) sync_bytes_log [OF ok' k(2) size' cont pos] miss
    using fits by (simp add: list_all_iff takeWhile_eq_all_conv [THEN iffD2])
qed

text \<open>A file cut inside its header is refused by every later sync and read.\<close>

lemma torn_header_refused:
  assumes "f \<noteq> []" and "10 \<notin> set f" and "length f \<le> MAX_FILE_BYTES"
  shows "sync_bytes L S key sid c out f = (f, Inl (lit ''conversation header is torn''))"
    and "repair_and_read L S sid key f = (f, Inl (lit ''conversation header is torn''))"
  using assms by (simp_all add: sync_bytes_def sync_opened_def repair_and_read_def repair_no_newline del: lit_simps)

end
