(* ===== verification/Conversation_Service.thy ===== *)
theory Conversation_Service
  imports Conversation_Sync Store_Machine
begin

text \<open>
  The store and its conversation files as one machine: store operations, syncs, reads, and
  processes that die while a sync appends. The history of a session is what its file holds
  followed by what its outbox still has to write; every step extends it at its end.
\<close>

subsection \<open>The machine\<close>

type_synonym conv_state = "db \<times> fs"

datatype conv_op = CoStore store_op | CoSync uuid | CoRead uuid | CoCrash uuid nat

definition file_at :: "fs \<Rightarrow> rstr \<Rightarrow> file_bytes" where
  "file_at fs p = (case fs p of Some (FsFile f) \<Rightarrow> f | _ \<Rightarrow> [])"

text \<open>
  What a dead process leaves of the file \<open>f'\<close> its sync of \<open>f\<close> would have written: a prefix
  that keeps the records that were already there, and at least the header once there is
  anything (\<open>sync_data\<close> follows the header).
\<close>

definition crash_point :: "file_bytes \<Rightarrow> file_bytes \<Rightarrow> nat \<Rightarrow> bool" where
  "crash_point f f' n \<longleftrightarrow> (case repair f of Inl _ \<Rightarrow> length f \<le> n | Inr kept \<Rightarrow> length kept \<le> n)
     \<and> (take n f' = [] \<or> 10 \<in> set (take n f'))"

fun conv_step :: "lib \<Rightarrow> serde \<Rightarrow> conversation_store \<Rightarrow> rstr \<Rightarrow> conv_state \<Rightarrow> conv_op \<Rightarrow> conv_state" where
  "conv_step L S cs root (d, fs) (CoStore op) =
     (if acknowledges op then (d, fs)
      else case store_step L d op of Inl _ \<Rightarrow> (d, fs) | Inr e \<Rightarrow> (e, fs))"
| "conv_step L S cs root (d, fs) (CoSync sid) =
     (case sync_session_conversation L S (Some cs) root sid fs d of
        (fs, Inl _) \<Rightarrow> (d, fs) | (fs, Inr d) \<Rightarrow> (d, fs))"
| "conv_step L S cs root (d, fs) (CoRead sid) = (d, fst (conversation_read L S cs sid fs))"
| "conv_step L S cs root (d, fs) (CoCrash sid n) =
     (let p = session_path L cs sid;
          f' = file_at (fst (sync_session_conversation L S (Some cs) root sid fs d)) p in
      if crash_point (file_at fs p) f' n then (d, fs(p \<mapsto> FsFile (take n f'))) else (d, fs))"

definition conv_run :: "lib \<Rightarrow> serde \<Rightarrow> conversation_store \<Rightarrow> rstr \<Rightarrow> conv_state \<Rightarrow> conv_op list \<Rightarrow> conv_state" where
  "conv_run L S cs root s ops = foldl (conv_step L S cs root) s ops"

definition logged :: "lib \<Rightarrow> serde \<Rightarrow> uuid \<Rightarrow> rstr \<Rightarrow> file_bytes \<Rightarrow> transcript_entry list" where
  "logged L S sid key f =
     (case repair f of Inl _ \<Rightarrow> []
      | Inr bs \<Rightarrow> (case read_lines L S sid key bs of Inl _ \<Rightarrow> [] | Inr st \<Rightarrow> lg_transcript st))"

definition history :: "lib \<Rightarrow> serde \<Rightarrow> conversation_store \<Rightarrow> uuid \<Rightarrow> conv_state \<Rightarrow> transcript_entry list" where
  "history L S cs sid s =
     (let es = logged L S sid (cs_workspace_key cs) (file_at (snd s) (session_path L cs sid)) in
      es @ missing es (conversation_outbox_entries (fst s) sid))"

subsection \<open>One file\<close>

definition holds :: "lib \<Rightarrow> serde \<Rightarrow> rstr \<Rightarrow> uuid \<Rightarrow> file_bytes \<Rightarrow> transcript_entry list \<Rightarrow> bool" where
  "holds L S key sid f es \<longleftrightarrow> (f = [] \<and> es = [])
     \<or> (\<exists>c t. f = log_file L S key sid c es @ t \<and> 10 \<notin> set t \<and> log_ok L S key sid c es)"

lemma holds_log:
  "log_ok L S key sid c es \<Longrightarrow> 10 \<notin> set t \<Longrightarrow> holds L S key sid (log_file L S key sid c es @ t) es"
  by (auto simp: holds_def)

lemma holds_logged: "holds L S key sid f es \<Longrightarrow> logged L S sid key f = es"
  by (auto simp: holds_def logged_def repair_no_newline repair_torn read_lines_log)

lemma holds_sorted: "holds L S key sid f es \<Longrightarrow> seq_sorted es"
  by (auto simp: holds_def log_ok_def seq_sorted_def)

text \<open>What the files promise of the strings they are made of.\<close>

definition printable :: "lib \<Rightarrow> serde \<Rightarrow> rstr \<Rightarrow> uuid \<Rightarrow> transcript_entry list \<Rightarrow> bool" where
  "printable L S key sid es \<longleftrightarrow> uuid_roundtrip L \<and> (\<forall>c. line_ok S (session_header L key sid c))
     \<and> (\<forall>e \<in> set es. entry_ok L S e)"

lemma extended_log_ok:
  assumes "log_ok L S key sid c es" and "continues es out" and "\<forall>e \<in> set out. entry_ok L S e"
  shows "log_ok L S key sid c (es @ takeWhile (fits L S) (missing es out))"
proof -
  let ?new = "takeWhile (fits L S) (missing es out)"
  have new: "x \<in> set out \<and> fits L S x \<and> te_sequence x \<notin> te_sequence ` set es" if "x \<in> set ?new" for x
    using that by (auto simp: missing_def dest!: set_takeWhileD)
  have "seq_sorted ?new"
  proof -
    obtain ys where "missing es out = ?new @ ys"
      by (metis takeWhile_dropWhile_id)
    moreover have "seq_sorted (missing es out)"
      using assms(2) unfolding continues_def missing_def seq_sorted_def sorted_wrt_map
      by (intro sorted_wrt_filter) simp
    ultimately show ?thesis using seq_sorted_append [of ?new ys] by simp
  qed
  moreover have "te_sequence x < te_sequence y" if "x \<in> set es" "y \<in> set ?new" for x y
    using new [OF that(2)] assms(2) that(1) by (auto simp: continues_def)
  ultimately have "seq_sorted (es @ ?new)"
    using assms(1) by (simp add: seq_sorted_append log_ok_def)
  then show ?thesis using assms(1,3) new by (auto simp: log_ok_def)
qed

text \<open>
  The outcome of a sync, whatever its result: the entries of the file, then some of the
  missing ones in order, all of them when it succeeds.
\<close>

lemma sync_bytes_outcome:
  assumes h: "holds L S key sid f es" and p: "printable L S key sid out" and cont: "continues es out"
    and sync: "sync_bytes L S key sid c out f = (f', r)"
  obtains "f' = f" "r \<noteq> Inr ()"
  | c' k where "f' = log_file L S key sid c' (es @ take k (missing es out))"
      "log_ok L S key sid c' (es @ take k (missing es out))"
      "f = [] \<or> (\<exists>t. f = log_file L S key sid c' es @ t \<and> 10 \<notin> set t)"
      "r = Inr () \<Longrightarrow> take k (missing es out) = missing es out"
proof -
  have pos: "\<forall>e \<in> set out. 0 < te_sequence e" and entries: "\<forall>e \<in> set out. entry_ok L S e"
    using p by (auto simp: printable_def entry_ok_def)
  obtain k where tk: "takeWhile (fits L S) (missing es out) = take k (missing es out)"
    using takeWhile_eq_take by blast
  have full: "take k (missing es out) = missing es out" if "list_all (fits L S) (missing es out)"
    using that tk by (simp add: list_all_iff takeWhile_eq_all_conv [THEN iffD2])
  consider "f = []" "es = []" "log_ok L S key sid c []"
    | c' t where "f = log_file L S key sid c' es @ t" "10 \<notin> set t" "log_ok L S key sid c' es"
    using h p by (auto simp: holds_def printable_def log_ok_def seq_sorted_def)
  then show thesis
  proof cases
    case 1
    show thesis
    proof (cases "out = [] \<or> length (to_vec S (session_header L key sid c)) > MAX_RECORD_BYTES")
      case True
      with sync 1 show thesis
        by (intro that(1)) (auto simp: sync_bytes_def write_record_def split: if_splits)
    next
      case False
      have "seq_sorted out" using cont by (simp add: continues_def)
      moreover have "missing es out = out" by (simp add: 1 missing_def)
      ultimately have "f' = log_file L S key sid c (es @ take k (missing es out))"
        "r = Inr () \<longrightarrow> list_all (fits L S) (missing es out)"
        using sync False pos sync_bytes_new [OF 1(3), of out] tk 1 by (auto split: if_splits)
      moreover have "log_ok L S key sid c (es @ take k (missing es out))"
      proof -
        have "log_ok L S key sid c es" using 1 by simp
        from extended_log_ok [OF this cont entries] show ?thesis by (simp only: tk)
      qed
      ultimately show thesis using 1 full by (intro that(2) [of c k]) auto
    qed
  next
    case 2
    show thesis
    proof (cases "length f \<le> MAX_FILE_BYTES")
      case True
      have "f' = log_file L S key sid c' (es @ take k (missing es out))"
        "r = Inr () \<longrightarrow> list_all (fits L S) (missing es out)"
        using sync sync_bytes_log [OF 2(3,2) _ cont pos, of c] True tk 2(1) by (auto split: if_splits)
      moreover have "log_ok L S key sid c' (es @ take k (missing es out))"
        using extended_log_ok [OF 2(3) cont entries] by (simp add: tk)
      ultimately show thesis using 2 full by (intro that(2) [of c' k]) auto
    next
      case False
      with sync 2(1) show thesis
        by (intro that(1)) (auto simp: sync_bytes_def sync_opened_def repair_and_read_def)
    qed
  qed
qed

lemma sync_bytes_holds:
  assumes "holds L S key sid f es" and "printable L S key sid out" and "continues es out"
    and "sync_bytes L S key sid c out f = (f', r)"
  shows "\<exists>k. holds L S key sid f' (es @ take k (missing es out))
    \<and> (r = Inr () \<longrightarrow> take k (missing es out) = missing es out)"
proof (rule sync_bytes_outcome [OF assms])
  assume "f' = f" "r \<noteq> Inr ()"
  with assms(1) show ?thesis by (intro exI [of _ 0]) simp
next
  fix c' k
  assume "f' = log_file L S key sid c' (es @ take k (missing es out))"
    "log_ok L S key sid c' (es @ take k (missing es out))"
    "r = Inr () \<Longrightarrow> take k (missing es out) = missing es out"
  with holds_log [of L S key sid c' "es @ take k (missing es out)" "[]"] show ?thesis by auto
qed

text \<open>A sync that dies leaves some of the missing entries too.\<close>

lemma cut_holds:
  assumes h: "holds L S key sid f es" and crash: "crash_point f f n"
  shows "holds L S key sid (take n f) es"
proof -
  from h consider "f = []" "es = []"
    | c t where "f = log_file L S key sid c es @ t" "10 \<notin> set t" "log_ok L S key sid c es"
    by (auto simp: holds_def)
  then show ?thesis
  proof cases
    case 1
    then show ?thesis by (simp add: holds_def)
  next
    case 2
    then have "length (log_file L S key sid c es) \<le> n"
      using crash by (simp add: crash_point_def repair_torn)
    then have "take n f = log_file L S key sid c es @ take (n - length (log_file L S key sid c es)) t"
      by (simp add: 2(1))
    moreover have "10 \<notin> set (take (n - length (log_file L S key sid c es)) t)"
      using 2(2) by (auto dest: in_set_takeD)
    ultimately show ?thesis using holds_log [OF 2(3)] by simp
  qed
qed

lemma crash_holds:
  assumes h: "holds L S key sid f es" and p: "printable L S key sid out" and cont: "continues es out"
    and sync: "sync_bytes L S key sid c out f = (f', r)" and crash: "crash_point f f' n"
  shows "\<exists>k. holds L S key sid (take n f') (es @ take k (missing es out))"
proof (rule sync_bytes_outcome [OF h p cont sync])
  assume same: "f' = f"
  with cut_holds [OF h] crash show ?thesis by (intro exI [of _ 0]) simp
next
  fix c' k
  let ?new = "take k (missing es out)"
  assume f': "f' = log_file L S key sid c' (es @ ?new)" and ok: "log_ok L S key sid c' (es @ ?new)"
    and old: "f = [] \<or> (\<exists>t. f = log_file L S key sid c' es @ t \<and> 10 \<notin> set t)"
  have empty: "es = []" if "f = []" using h that by (auto simp: holds_def)
  show ?thesis
  proof (cases "take n f' = []")
    case True
    then have "n = 0" by (simp add: f')
    with crash old have "f = []" by (auto simp: crash_point_def repair_torn)
    with empty True show ?thesis by (intro exI [of _ 0]) (simp add: holds_def)
  next
    case False
    then have nl: "10 \<in> set (take n f')" using crash by (simp add: crash_point_def)
    have "length (log_file L S key sid c' es) \<le> n"
    proof (cases "f = []")
      case True
      have line: "line_ok S (session_header L key sid c')" using ok by (simp add: log_ok_def)
      show ?thesis
      proof (rule ccontr)
        assume "\<not> ?thesis"
        then have "take n f' = take n (to_vec S (session_header L key sid c'))"
          using empty [OF True] by (simp add: f' log_file_def line_of_def)
        then have "set (take n f') \<subseteq> set (to_vec S (session_header L key sid c'))"
          by (simp add: set_take_subset)
        with nl line show False by (auto simp: line_ok_def)
      qed
    next
      case False
      with old crash show ?thesis by (auto simp: crash_point_def repair_torn)
    qed
    moreover have "\<forall>e \<in> set ?new. entry_ok L S e" using ok by (auto simp: log_ok_def)
    ultimately obtain j t where j: "take n f' = log_file L S key sid c' (es @ take j ?new) @ t" "10 \<notin> set t"
      unfolding f' using take_log_file by metis
    have "log_ok L S key sid c' (es @ take j ?new)"
    proof -
      have "seq_sorted ((es @ take j ?new) @ drop j ?new)"
        using ok unfolding append.assoc append_take_drop_id by (simp add: log_ok_def)
      then have "seq_sorted (es @ take j ?new)"
        unfolding seq_sorted_append [of "es @ take j ?new" "drop j ?new"] by blast
      then show ?thesis using ok set_take_subset [of j ?new] by (auto simp: log_ok_def simp del: take_take)
    qed
    from holds_log [OF this j(2)] show ?thesis
      unfolding j(1) by (intro exI [of _ "min j k"]) (simp add: take_take)
  qed
qed

lemma read_holds:
  assumes "holds L S key sid f es"
  shows "holds L S key sid (fst (repair_and_read L S sid key f)) es"
    and "snd (repair_and_read L S sid key f) = Inr (m, xs) \<Longrightarrow> xs = es"
proof -
  consider "length f > MAX_FILE_BYTES" | "f = []" "es = []"
    | c t where "f = log_file L S key sid c es @ t" "10 \<notin> set t" "log_ok L S key sid c es"
      "length f \<le> MAX_FILE_BYTES"
    using assms by (force simp: holds_def)
  then have "holds L S key sid (fst (repair_and_read L S sid key f)) es
    \<and> (snd (repair_and_read L S sid key f) = Inr (m, xs) \<longrightarrow> xs = es)"
  proof cases
    case 1
    with assms show ?thesis by (simp add: repair_and_read_def)
  next
    case 2
    then show ?thesis by (simp add: repair_and_read_def repair_no_newline holds_def)
  next
    case 3
    with read_torn_log [OF 3(3,2)] holds_log [OF 3(3), of "[]"] show ?thesis by simp
  qed
  then show "holds L S key sid (fst (repair_and_read L S sid key f)) es"
    and "snd (repair_and_read L S sid key f) = Inr (m, xs) \<Longrightarrow> xs = es" by blast+
qed

subsection \<open>The outbox of a session\<close>

definition outbox_sorted :: "db \<Rightarrow> bool" where
  "outbox_sorted d \<longleftrightarrow> sorted_wrt outbox_before (db_outbox d)"

lemma session_outbox_sorted:
  assumes "outbox_sorted d"
  shows "session_outbox d sid = filter (\<lambda>r. ob_session_id r = sid) (db_outbox d)"
    and "sorted_wrt (<) (map ob_seq (session_outbox d sid))"
proof -
  let ?rows = "filter (\<lambda>r. ob_session_id r = sid) (db_outbox d)"
  have "sorted_wrt outbox_before ?rows"
    using assms unfolding outbox_sorted_def by (rule sorted_wrt_filter)
  then have srt: "sorted_wrt (<) (map ob_seq ?rows)"
    by (auto simp: sorted_wrt_map outbox_before_def elim: sorted_wrt_mono_rel [rotated])
  then have "sorted (map ob_seq ?rows)" by (rule strict_sorted_imp_sorted)
  then show same: "session_outbox d sid = ?rows" by (simp add: session_outbox_def sort_key_id_if_sorted)
  show "sorted_wrt (<) (map ob_seq (session_outbox d sid))" using srt unfolding same .
qed

lemma outbox_entries_sorted:
  assumes "outbox_consistent d" and "outbox_sorted d"
  shows "seq_sorted (conversation_outbox_entries d sid)"
proof -
  have "map te_sequence (conversation_outbox_entries d sid) = map ob_seq (session_outbox d sid)"
    using assms(1) by (auto simp: conversation_outbox_entries_def outbox_consistent_def session_outbox_def)
  with session_outbox_sorted(2) [OF assms(2)] show ?thesis by (simp add: seq_sorted_def)
qed

lemma grown_outbox:
  assumes ok: "store_ok d" and srt: "outbox_sorted d" and grow: "outbox_grows d e"
  shows "outbox_sorted e"
    and "\<exists>new. conversation_outbox_entries e sid = conversation_outbox_entries d sid @ map ob_entry new
      \<and> (\<forall>r \<in> set new. r \<in> set (db_outbox e) \<and> (\<forall>s. find_session d sid = Some s \<longrightarrow> sr_last_seq s < ob_seq r))"
proof -
  obtain rows where rows: "db_outbox e = db_outbox d @ rows" "later_rows d rows"
    using grow by (auto simp: outbox_grows_def)
  have cross: "outbox_before r q" if "r \<in> set (db_outbox d)" "q \<in> set rows" for r q
  proof -
    from outbox_below_last [OF ok that(1)] obtain s where
      "find_session d (ob_session_id r) = Some s" "ob_seq r \<le> sr_last_seq s" .
    with rows(2) that(2) show ?thesis by (fastforce simp: outbox_before_def later_rows_def)
  qed
  show e: "outbox_sorted e"
    using srt rows cross by (auto simp: outbox_sorted_def sorted_wrt_append later_rows_def)
  have "conversation_outbox_entries e sid = conversation_outbox_entries d sid
      @ map ob_entry (filter (\<lambda>r. ob_session_id r = sid) rows)"
    by (simp add: conversation_outbox_entries_def session_outbox_sorted(1) [OF e]
        session_outbox_sorted(1) [OF srt] rows(1))
  then show "\<exists>new. conversation_outbox_entries e sid = conversation_outbox_entries d sid @ map ob_entry new
      \<and> (\<forall>r \<in> set new. r \<in> set (db_outbox e) \<and> (\<forall>s. find_session d sid = Some s \<longrightarrow> sr_last_seq s < ob_seq r))"
    using rows by (intro exI [of _ "filter (\<lambda>r. ob_session_id r = sid) rows"]) (auto simp: later_rows_def)
qed

lemma missing_append: "missing es (xs @ ys) = missing es xs @ missing es ys"
  by (simp add: missing_def)

subsection \<open>One session in the machine\<close>

definition key_of :: "conversation_store \<Rightarrow> rstr" where
  "key_of cs = cs_workspace_key cs"

text \<open>
  The file of a session holds entries that its outbox continues, none of them past the
  session's last sequence, and its path is no link.
\<close>

definition session_logged :: "lib \<Rightarrow> serde \<Rightarrow> conversation_store \<Rightarrow> conv_state \<Rightarrow> uuid \<Rightarrow> transcript_entry list \<Rightarrow> bool" where
  "session_logged L S cs s sid es \<longleftrightarrow>
     (snd s (session_path L cs sid) = None \<and> es = []
      \<or> (\<exists>f. snd s (session_path L cs sid) = Some (FsFile f) \<and> holds L S (cs_workspace_key cs) sid f es))
   \<and> continues es (conversation_outbox_entries (fst s) sid)
   \<and> (es = [] \<or> (\<exists>r. find_session (fst s) sid = Some r \<and> last_seq es \<le> sr_last_seq r))"

definition conv_ok :: "lib \<Rightarrow> serde \<Rightarrow> conversation_store \<Rightarrow> conv_state \<Rightarrow> bool" where
  "conv_ok L S cs s \<longleftrightarrow> store_ok (fst s) \<and> outbox_sorted (fst s) \<and> (\<forall>sid. \<exists>es. session_logged L S cs s sid es)"

lemma session_logged_holds:
  "session_logged L S cs s sid es \<Longrightarrow> holds L S (cs_workspace_key cs) sid (file_at (snd s) (session_path L cs sid)) es"
  by (auto simp: session_logged_def file_at_def) (simp_all add: holds_def)

lemma history_logged:
  assumes "session_logged L S cs s sid es"
  shows "history L S cs sid s = es @ missing es (conversation_outbox_entries (fst s) sid)"
  using holds_logged [OF session_logged_holds [OF assms]] by (simp add: history_def)

lemma conv_ok_empty: "conv_ok L S cs (empty_db, Map.empty)"
proof -
  have "db_outbox empty_db = []" by (simp add: empty_db_def)
  then show ?thesis
    by (simp add: conv_ok_def store_ok_empty outbox_sorted_def session_logged_def continues_def
        conversation_outbox_entries_def session_outbox_def seq_sorted_def)
qed

text \<open>A store operation leaves the files alone and extends the history.\<close>

lemma continues_grown:
  assumes "continues es out" and "seq_sorted (out @ new)" and "seq_sorted es"
    and "\<forall>e \<in> set new. es = [] \<or> last_seq es < te_sequence e"
  shows "continues es (out @ new)"
proof -
  have "\<forall>x \<in> set es. te_sequence x < te_sequence e" if "e \<in> set new" for e
    using assms(3,4) that seq_le_last by (cases "es = []") fastforce+
  with assms(1,2) show ?thesis by (auto simp: continues_def)
qed

lemma store_step_logged:
  assumes ok: "store_ok d" "outbox_sorted d" and e: "store_ok e" "store_grows d e"
    and logged: "session_logged L S cs (d, fs) sid es"
  shows "session_logged L S cs (e, fs) sid es"
    and "prefix (history L S cs sid (d, fs)) (history L S cs sid (e, fs))"
proof -
  have grow: "outbox_grows d e" and le: "sessions_le d e" using e(2) by (simp_all add: store_grows_def)
  obtain new where new: "conversation_outbox_entries e sid = conversation_outbox_entries d sid @ map ob_entry new"
    "\<forall>r \<in> set new. r \<in> set (db_outbox e) \<and> (\<forall>s. find_session d sid = Some s \<longrightarrow> sr_last_seq s < ob_seq r)"
    using grown_outbox(2) [OF ok grow] by blast
  have cons: "outbox_consistent e" using e(1) by (simp add: store_ok_def)
  have srt: "seq_sorted (conversation_outbox_entries e sid)"
    by (rule outbox_entries_sorted [OF cons grown_outbox(1) [OF ok grow]])
  have holds: "holds L S (cs_workspace_key cs) sid (file_at fs (session_path L cs sid)) es"
    using session_logged_holds [OF logged] by simp
  have "\<forall>x \<in> set (map ob_entry new). es = [] \<or> last_seq es < te_sequence x"
  proof
    fix x assume "x \<in> set (map ob_entry new)"
    then obtain r where r: "r \<in> set new" "x = ob_entry r" by auto
    then have seq: "te_sequence x = ob_seq r" using cons new(2) by (auto simp: outbox_consistent_def)
    from logged have "es = [] \<or> (\<exists>s. find_session d sid = Some s \<and> last_seq es \<le> sr_last_seq s)"
      by (simp add: session_logged_def)
    with new(2) r(1) show "es = [] \<or> last_seq es < te_sequence x" unfolding seq by (metis le_less_trans)
  qed
  with logged srt holds_sorted [OF holds] have "continues es (conversation_outbox_entries e sid)"
    unfolding new(1) by (intro continues_grown) (simp_all add: session_logged_def)
  then show after: "session_logged L S cs (e, fs) sid es"
    using logged le by (fastforce simp: session_logged_def sessions_le_def)
  show "prefix (history L S cs sid (d, fs)) (history L S cs sid (e, fs))"
    unfolding history_logged [OF logged] history_logged [OF after]
    by (simp add: new(1) missing_append)
qed

text \<open>A sync, a read or a crash moves entries from the outbox to the file of its session.\<close>

lemma filter_not_taken:
  "seq_sorted xs \<Longrightarrow> filter (\<lambda>e. te_sequence e \<notin> te_sequence ` set (take k xs)) xs = drop k xs"
proof -
  assume srt: "seq_sorted xs"
  have parts: "xs = take k xs @ drop k xs" by simp
  have "seq_sorted (take k xs @ drop k xs)" using srt by simp
  then have lt: "\<forall>x \<in> set (take k xs). \<forall>y \<in> set (drop k xs). te_sequence x < te_sequence y"
    unfolding seq_sorted_append [of "take k xs" "drop k xs"] by blast
  let ?P = "\<lambda>e. te_sequence e \<notin> te_sequence ` set (take k xs)"
  have "filter ?P (take k xs) = []" by (auto simp: filter_empty_conv)
  moreover have "filter ?P (drop k xs) = drop k xs" using lt by (intro filter_True) fastforce
  ultimately show ?thesis using filter_append [of ?P "take k xs" "drop k xs"] by simp
qed

lemma missing_sorted: "continues es out \<Longrightarrow> seq_sorted (missing es out)"
  unfolding continues_def missing_def seq_sorted_def sorted_wrt_map by (intro sorted_wrt_filter) simp

lemma missing_taken:
  assumes "continues es out"
  shows "missing (es @ take k (missing es out)) out = drop k (missing es out)"
proof -
  have "missing (es @ take k (missing es out)) out
      = filter (\<lambda>e. te_sequence e \<notin> te_sequence ` set (take k (missing es out))) (missing es out)"
    unfolding missing_def filter_filter by (rule filter_cong) auto
  with filter_not_taken [OF missing_sorted [OF assms]] show ?thesis by simp
qed

lemma continues_taken:
  assumes "continues es out"
  shows "continues (es @ take k (missing es out)) out"
proof -
  let ?m = "missing es out"
  have "e \<in> set (es @ take k ?m) \<or> (\<forall>x \<in> set (es @ take k ?m). te_sequence x < te_sequence e)"
    if e: "e \<in> set out" for e
  proof (cases "e \<in> set es")
    case False
    then have later: "\<forall>x \<in> set es. te_sequence x < te_sequence e"
      using assms e unfolding continues_def by blast
    then have "e \<in> set ?m" using e by (auto simp: missing_def)
    then have "e \<in> set (take k ?m) \<or> e \<in> set (drop k ?m)"
      by (metis UnE append_take_drop_id set_append)
    moreover have "seq_sorted (take k ?m @ drop k ?m)" using missing_sorted [OF assms] by simp
    ultimately show ?thesis
      using later unfolding seq_sorted_append [of "take k ?m" "drop k ?m"] by auto
  qed simp
  then show ?thesis using assms by (simp add: continues_def)
qed

lemma session_path_inj:
  "uuid_roundtrip L \<Longrightarrow> session_path L cs sid = session_path L cs sid' \<longleftrightarrow> sid = sid'"
  by (auto simp: session_path_def path_join_def uuid_text_inj)

lemma outbox_entry_below:
  assumes ok: "store_ok d" and x: "x \<in> set (conversation_outbox_entries d sid)"
  shows "\<exists>s. find_session d sid = Some s \<and> te_sequence x \<le> sr_last_seq s"
proof -
  obtain r where r: "r \<in> set (db_outbox d)" "ob_session_id r = sid" "x = ob_entry r"
    using x by (auto simp: conversation_outbox_entries_def set_session_outbox)
  moreover have "te_sequence x = ob_seq r" using ok r by (simp add: store_ok_def outbox_consistent_def)
  ultimately show ?thesis using outbox_below_last [OF ok r(1)] by metis
qed

lemma moved_to_file:
  assumes ok: "store_ok d" and logged: "session_logged L S cs (d, fs) sid es"
    and f: "fs' (session_path L cs sid) = Some (FsFile f)"
    and h: "holds L S (cs_workspace_key cs) sid f (es @ take k (missing es (conversation_outbox_entries d sid)))"
  shows "session_logged L S cs (d, fs') sid (es @ take k (missing es (conversation_outbox_entries d sid)))"
    and "history L S cs sid (d, fs') = history L S cs sid (d, fs)"
proof -
  let ?out = "conversation_outbox_entries d sid"
  let ?es = "es @ take k (missing es ?out)"
  have cont: "continues es ?out" using logged by (simp add: session_logged_def)
  have "?es = [] \<or> (\<exists>r. find_session d sid = Some r \<and> last_seq ?es \<le> sr_last_seq r)"
  proof (cases "take k (missing es ?out) = []")
    case True
    show ?thesis unfolding True using logged by (simp add: session_logged_def)
  next
    case False
    then have "last ?es \<in> set (take k (missing es ?out))" by (metis last_appendR last_in_set)
    then have "last ?es \<in> set ?out" by (auto simp: missing_def dest: in_set_takeD)
    from outbox_entry_below [OF ok this] show ?thesis
      using False by (simp add: last_seq_def)
  qed
  then show after: "session_logged L S cs (d, fs') sid ?es"
    using f h continues_taken [OF cont] by (simp add: session_logged_def)
  show "history L S cs sid (d, fs') = history L S cs sid (d, fs)"
    unfolding history_logged [OF logged] history_logged [OF after] by (simp add: missing_taken [OF cont])
qed

lemma logged_other:
  assumes "\<And>q. q \<noteq> session_path L cs sid \<Longrightarrow> fs' q = fs q" and "uuid_roundtrip L" and "k \<noteq> sid"
  shows "session_logged L S cs (d, fs') k es = session_logged L S cs (d, fs) k es"
    and "history L S cs k (d, fs') = history L S cs k (d, fs)"
  using assms by (simp_all add: session_logged_def history_def file_at_def session_path_inj)

lemma open_plain:
  assumes "fs p = None \<or> (\<exists>f. fs p = Some (FsFile f))"
  obtains fs0 where "open_session_file fs p = Inr (fs0, p, file_at fs p)" "\<And>q. q \<noteq> p \<Longrightarrow> fs0 q = fs q"
proof -
  have t: "path_target fs p = Some p"
    using assms by (auto simp: path_target_def eval_nat_numeral)
  have "\<not> is_symlink fs p" using assms by (auto simp: is_symlink_def)
  with t assms that [of "fs(p \<mapsto> FsFile [])"] that [of fs] show thesis
    by (auto simp: open_session_file_def file_at_def)
qed

lemma logged_plain:
  "session_logged L S cs (d, fs) sid es
    \<Longrightarrow> fs (session_path L cs sid) = None \<or> (\<exists>f. fs (session_path L cs sid) = Some (FsFile f))"
  by (auto simp: session_logged_def)

lemma conversation_sync_moves:
  assumes ok: "store_ok d" and logged: "session_logged L S cs (d, fs) sid es"
    and p: "printable L S (cs_workspace_key cs) sid (conversation_outbox_entries d sid)"
    and sync: "conversation_sync L S cs sid c (conversation_outbox_entries d sid) fs = (fs', r)"
  obtains k where "session_logged L S cs (d, fs') sid (es @ take k (missing es (conversation_outbox_entries d sid)))"
    "history L S cs sid (d, fs') = history L S cs sid (d, fs)"
    "\<And>q. q \<noteq> session_path L cs sid \<Longrightarrow> fs' q = fs q"
    "r = Inr () \<Longrightarrow> take k (missing es (conversation_outbox_entries d sid))
       = missing es (conversation_outbox_entries d sid)"
proof -
  let ?p = "session_path L cs sid" and ?out = "conversation_outbox_entries d sid"
  obtain fs0 where op: "open_session_file fs ?p = Inr (fs0, ?p, file_at fs ?p)"
    and other: "\<forall>q. q \<noteq> ?p \<longrightarrow> fs0 q = fs q"
    using open_plain [where fs = fs and p = ?p, OF logged_plain [OF logged]] by metis
  obtain f' r' where sb: "sync_bytes L S (cs_workspace_key cs) sid c ?out (file_at fs ?p) = (f', r')" by fastforce
  then have fs': "fs' = fs0(?p \<mapsto> FsFile f')" "r = r'"
    using sync op by (simp_all add: conversation_sync_def)
  have h: "holds L S (cs_workspace_key cs) sid (file_at fs ?p) es" and cont: "continues es ?out"
    using session_logged_holds [OF logged] logged by (simp_all add: session_logged_def)
  obtain k where k: "holds L S (cs_workspace_key cs) sid f' (es @ take k (missing es ?out))"
    "r' = Inr () \<longrightarrow> take k (missing es ?out) = missing es ?out"
    using sync_bytes_holds [OF h p cont sb] by blast
  have at: "fs' ?p = Some (FsFile f')" by (simp add: fs')
  show thesis
    by (rule that [of k]) (use moved_to_file [where fs = fs and fs' = fs', OF ok logged at k(1)] k(2) other fs' in auto)
qed

lemma conversation_read_moves:
  assumes ok: "store_ok d" and logged: "session_logged L S cs (d, fs) sid es"
    and read: "conversation_read L S cs sid fs = (fs', r)"
  shows "session_logged L S cs (d, fs') sid es"
    and "history L S cs sid (d, fs') = history L S cs sid (d, fs)"
    and "q \<noteq> session_path L cs sid \<Longrightarrow> fs' q = fs q" and "r = Inr xs \<Longrightarrow> xs = es"
proof -
  let ?p = "session_path L cs sid"
  obtain fs0 where op: "open_session_file fs ?p = Inr (fs0, ?p, file_at fs ?p)"
    and other: "\<forall>q. q \<noteq> ?p \<longrightarrow> fs0 q = fs q"
    using open_plain [where fs = fs and p = ?p, OF logged_plain [OF logged]] by metis
  obtain f' r' where rr: "repair_and_read L S sid (cs_workspace_key cs) (file_at fs ?p) = (f', r')" by fastforce
  then have fs': "fs' = fs0(?p \<mapsto> FsFile f')" "r = bindE r' (\<lambda>(_, es). Inr es)"
    using read op by (simp_all add: conversation_read_def)
  have h: "holds L S (cs_workspace_key cs) sid (file_at fs ?p) es"
    using session_logged_holds [OF logged] by simp
  have at: "fs' ?p = Some (FsFile f')" by (simp add: fs')
  have "holds L S (cs_workspace_key cs) sid f' es" using read_holds(1) [OF h] rr by simp
  with moved_to_file [where fs = fs and fs' = fs' and k = 0, OF ok logged at]
  show "session_logged L S cs (d, fs') sid es" "history L S cs sid (d, fs') = history L S cs sid (d, fs)"
    by simp_all
  show "fs' q = fs q" if "q \<noteq> ?p" using other that by (simp add: fs')
  show "xs = es" if "r = Inr xs" using that fs'(2) read_holds(2) [OF h] rr by auto
qed

text \<open>Acknowledging the whole outbox of a session empties it, once the file has it all.\<close>

lemma acknowledge_all:
  assumes ok: "store_ok d" "outbox_sorted d"
    and ack: "acknowledge_conversation_outbox d sid
      (te_sequence (last (conversation_outbox_entries d sid))) = Inr e"
    and ne: "conversation_outbox_entries d sid \<noteq> []"
  shows "conversation_outbox_entries e sid = []"
    and "k \<noteq> sid \<Longrightarrow> conversation_outbox_entries e k = conversation_outbox_entries d k"
    and "outbox_sorted e" and "find_session e k = find_session d k"
proof -
  let ?n = "te_sequence (last (conversation_outbox_entries d sid))"
  have e: "e = d\<lparr>db_outbox := sql_delete (\<lambda>r. ob_session_id r = sid \<and> ob_seq r \<le> ?n) (db_outbox d)\<rparr>"
    using ack by (auto simp: acknowledge_conversation_outbox_def)
  show srt: "outbox_sorted e"
    using ok(2) unfolding outbox_sorted_def e sql_delete_def by (simp add: sorted_wrt_filter)
  show "find_session e k = find_session d k" by (simp add: e find_session_def)
  have cons: "outbox_consistent d" using ok(1) by (simp add: store_ok_def)
  have bound: "ob_seq r \<le> ?n" if "r \<in> set (db_outbox d)" "ob_session_id r = sid" for r
  proof -
    have "ob_entry r \<in> set (conversation_outbox_entries d sid)"
      using that by (simp add: conversation_outbox_entries_def set_session_outbox)
    from seq_le_last [OF outbox_entries_sorted [OF cons ok(2)] this] ne cons that(1)
    show ?thesis by (simp add: last_seq_def outbox_consistent_def)
  qed
  have out: "db_outbox e = sql_delete (\<lambda>r. ob_session_id r = sid \<and> ob_seq r \<le> ?n) (db_outbox d)"
    by (simp add: e)
  have "set (session_outbox e sid) = {}"
    unfolding set_session_outbox out set_sql_delete using bound by auto
  then show "conversation_outbox_entries e sid = []" by (simp add: conversation_outbox_entries_def)
  show "conversation_outbox_entries e k = conversation_outbox_entries d k" if "k \<noteq> sid"
  proof -
    have "filter (\<lambda>r. ob_session_id r = k) (db_outbox e) = filter (\<lambda>r. ob_session_id r = k) (db_outbox d)"
      unfolding out sql_delete_def filter_filter using that by (intro filter_cong) auto
    then show ?thesis
      by (simp add: conversation_outbox_entries_def session_outbox_sorted(1) [OF srt]
          session_outbox_sorted(1) [OF ok(2)])
  qed
qed

text \<open>A sync by the engine, and what its success means.\<close>

lemma sync_session_cases:
  assumes sync: "sync_session_conversation L S (Some cs) root sid fs d = (fs', r)"
  obtains e where "fs' = fs" "r = Inl e"
    | c cr where "conversation_sync L S cs sid c (conversation_outbox_entries d sid) fs = (fs', cr)"
      "r = (case cr of Inl x \<Rightarrow> Inl (InvalidData x)
            | Inr _ \<Rightarrow> if conversation_outbox_entries d sid = [] then Inr d
              else acknowledge_conversation_outbox d sid
                (te_sequence (last (conversation_outbox_entries d sid))))"
  using sync that unfolding sync_session_conversation_def Let_def
  by (auto split: sum.splits prod.splits if_splits)

lemma sync_session_moves:
  assumes ok: "store_ok d" "outbox_sorted d" and logged: "session_logged L S cs (d, fs) sid es"
    and p: "printable L S (cs_workspace_key cs) sid (conversation_outbox_entries d sid)"
    and sync: "sync_session_conversation L S (Some cs) root sid fs d = (fs', r)"
  obtains es' where "session_logged L S cs (d, fs') sid es'"
    "history L S cs sid (d, fs') = history L S cs sid (d, fs)"
    "\<And>q. q \<noteq> session_path L cs sid \<Longrightarrow> fs' q = fs q"
    "\<And>e. r = Inr e \<Longrightarrow> es' = history L S cs sid (d, fs) \<and> conversation_outbox_entries e sid = []
       \<and> (e = d \<or> (conversation_outbox_entries d sid \<noteq> [] \<and> acknowledge_conversation_outbox d sid
            (te_sequence (last (conversation_outbox_entries d sid))) = Inr e))"
proof -
  let ?out = "conversation_outbox_entries d sid"
  show thesis
  proof (cases rule: sync_session_cases [OF sync])
    case 1
    then show thesis using that [of es] logged by simp
  next
    case (2 c cr)
    show thesis
    proof (rule conversation_sync_moves [OF ok(1) logged p 2(1)])
      fix k
      assume k: "session_logged L S cs (d, fs') sid (es @ take k (missing es ?out))"
        "history L S cs sid (d, fs') = history L S cs sid (d, fs)"
        "\<And>q. q \<noteq> session_path L cs sid \<Longrightarrow> fs' q = fs q"
        "cr = Inr () \<Longrightarrow> take k (missing es ?out) = missing es ?out"
      show thesis
      proof (rule that [OF k(1,2,3)])
        fix e assume r: "r = Inr e"
        with 2(2) have cr: "cr = Inr ()" by (cases cr) auto
        have "es @ take k (missing es ?out) = history L S cs sid (d, fs)"
          using k(4) [OF cr] by (simp add: history_logged [OF logged])
        moreover have "e = d \<and> ?out = [] \<or> ?out \<noteq> [] \<and> acknowledge_conversation_outbox d sid (te_sequence (last ?out)) = Inr e"
          using 2(2) cr r by (auto split: if_splits)
        ultimately show "es @ take k (missing es ?out) = history L S cs sid (d, fs)
          \<and> conversation_outbox_entries e sid = [] \<and> (e = d \<or> (?out \<noteq> [] \<and> acknowledge_conversation_outbox d sid
            (te_sequence (last ?out)) = Inr e))"
          using acknowledge_all(1) [OF ok] by blast
      qed
    qed
  qed
qed

subsection \<open>Every step extends the history\<close>

definition all_printable :: "lib \<Rightarrow> serde \<Rightarrow> conversation_store \<Rightarrow> conv_state \<Rightarrow> bool" where
  "all_printable L S cs s \<longleftrightarrow>
     (\<forall>sid. printable L S (cs_workspace_key cs) sid (conversation_outbox_entries (fst s) sid))"

lemma crashed_file:
  assumes logged: "session_logged L S cs (d, fs) sid es"
  shows "file_at (fst (sync_session_conversation L S (Some cs) root sid fs d)) (session_path L cs sid)
      = file_at fs (session_path L cs sid)
    \<or> (\<exists>c r. sync_bytes L S (cs_workspace_key cs) sid c (conversation_outbox_entries d sid)
         (file_at fs (session_path L cs sid))
       = (file_at (fst (sync_session_conversation L S (Some cs) root sid fs d)) (session_path L cs sid), r))"
proof -
  let ?p = "session_path L cs sid" and ?out = "conversation_outbox_entries d sid"
  obtain fs0 where op: "open_session_file fs ?p = Inr (fs0, ?p, file_at fs ?p)"
    using open_plain [where fs = fs and p = ?p, OF logged_plain [OF logged]] by metis
  have "file_at (fst (conversation_sync L S cs sid c ?out fs)) ?p
      = fst (sync_bytes L S (cs_workspace_key cs) sid c ?out (file_at fs ?p))" for c
    by (simp add: conversation_sync_def op file_at_def split: prod.split)
  moreover have "fst (sync_session_conversation L S (Some cs) root sid fs d) = fs
      \<or> (\<exists>c. fst (sync_session_conversation L S (Some cs) root sid fs d) = fst (conversation_sync L S cs sid c ?out fs))"
    using sync_session_cases [OF prod.collapse [symmetric], of L S cs root sid fs d]
    by (metis fst_conv)
  ultimately show ?thesis by (metis prod.collapse)
qed

lemma crash_moves:
  assumes ok: "store_ok d" and logged: "session_logged L S cs (d, fs) sid es"
    and p: "printable L S (cs_workspace_key cs) sid (conversation_outbox_entries d sid)"
    and f': "f' = file_at (fst (sync_session_conversation L S (Some cs) root sid fs d)) (session_path L cs sid)"
    and crash: "crash_point (file_at fs (session_path L cs sid)) f' n"
    and fs': "fs' = fs(session_path L cs sid \<mapsto> FsFile (take n f'))"
  shows "\<exists>es'. session_logged L S cs (d, fs') sid es'" and "history L S cs sid (d, fs') = history L S cs sid (d, fs)"
proof -
  let ?p = "session_path L cs sid" and ?out = "conversation_outbox_entries d sid"
  have h: "holds L S (cs_workspace_key cs) sid (file_at fs ?p) es" and cont: "continues es ?out"
    using session_logged_holds [OF logged] logged by (simp_all add: session_logged_def)
  have "\<exists>k. holds L S (cs_workspace_key cs) sid (take n f') (es @ take k (missing es ?out))"
    using crashed_file [OF logged, of root]
  proof (elim disjE exE)
    assume "file_at (fst (sync_session_conversation L S (Some cs) root sid fs d)) ?p = file_at fs ?p"
    with crash f' cut_holds [OF h] show ?thesis by (intro exI [of _ 0]) simp
  next
    fix c r
    assume "sync_bytes L S (cs_workspace_key cs) sid c ?out (file_at fs ?p)
       = (file_at (fst (sync_session_conversation L S (Some cs) root sid fs d)) ?p, r)"
    with crash_holds [OF h p cont _ crash] f' show ?thesis by blast
  qed
  then obtain k where k: "holds L S (cs_workspace_key cs) sid (take n f') (es @ take k (missing es ?out))" ..
  have at: "fs' ?p = Some (FsFile (take n f'))" by (simp add: fs')
  show "\<exists>es'. session_logged L S cs (d, fs') sid es'" "history L S cs sid (d, fs') = history L S cs sid (d, fs)"
    using moved_to_file [where fs = fs and fs' = fs', OF ok logged at k] by blast+
qed

text \<open>Only the file of one session moved: the others are as they were.\<close>

lemma one_file_moved:
  assumes "conv_ok L S cs (d, fs)" and "uuid_roundtrip L" and "\<And>q. q \<noteq> session_path L cs sid \<Longrightarrow> fs' q = fs q"
    and "\<exists>es. session_logged L S cs (d, fs') sid es" and "history L S cs sid (d, fs') = history L S cs sid (d, fs)"
  shows "conv_ok L S cs (d, fs')" and "history L S cs k (d, fs') = history L S cs k (d, fs)"
proof -
  have same: "session_logged L S cs (d, fs') k es = session_logged L S cs (d, fs) k es"
    "history L S cs k (d, fs') = history L S cs k (d, fs)" if "k \<noteq> sid" for k es
    using logged_other [where fs = fs and fs' = fs', OF assms(3,2) that] by blast+
  have "\<exists>es. session_logged L S cs (d, fs') k es" for k
    using assms(1,4) same(1) by (cases "k = sid") (auto simp: conv_ok_def)
  with assms(1) show "conv_ok L S cs (d, fs')" by (simp add: conv_ok_def)
  show "history L S cs k (d, fs') = history L S cs k (d, fs)" using assms(5) same(2) by (cases "k = sid") auto
qed

text \<open>The acknowledgement after a sync.\<close>

lemma acknowledged_moves:
  assumes ok: "conv_ok L S cs (d, fs)"
    and logged: "session_logged L S cs (d, fs) sid es" "es = history L S cs sid (d, fs)"
    and e: "e = d \<or> (conversation_outbox_entries d sid \<noteq> [] \<and> acknowledge_conversation_outbox d sid
      (te_sequence (last (conversation_outbox_entries d sid))) = Inr e)"
  shows "conv_ok L S cs (e, fs)" and "history L S cs k (e, fs) = history L S cs k (d, fs)"
proof -
  have d: "store_ok d" "outbox_sorted d" using ok by (simp_all add: conv_ok_def)
  have "conv_ok L S cs (e, fs) \<and> history L S cs k (e, fs) = history L S cs k (d, fs)"
    using e
  proof (elim disjE conjE)
    assume "e = d"
    with ok show ?thesis by simp
  next
    assume ne: "conversation_outbox_entries d sid \<noteq> []"
      and ack: "acknowledge_conversation_outbox d sid
        (te_sequence (last (conversation_outbox_entries d sid))) = Inr e"
    note facts = acknowledge_all [OF d ack ne]
    have same: "session_logged L S cs (e, fs) k xs = session_logged L S cs (d, fs) k xs"
      "history L S cs k (e, fs) = history L S cs k (d, fs)" if "k \<noteq> sid" for k xs
      using facts(2) [OF that] facts(4) [of k] by (simp_all add: session_logged_def history_def)
    have own: "session_logged L S cs (e, fs) sid es"
      using logged(1) facts(1,4) by (auto simp: session_logged_def continues_def seq_sorted_def)
    have "history L S cs sid (e, fs) = history L S cs sid (d, fs)"
      unfolding history_logged [OF own] using logged(2) facts(1) by (simp add: missing_def)
    then have "history L S cs k (e, fs) = history L S cs k (d, fs)" using same(2) by (cases "k = sid") auto
    moreover have "\<exists>xs. session_logged L S cs (e, fs) k xs" for k
      using ok own same(1) by (cases "k = sid") (auto simp: conv_ok_def)
    moreover have "store_ok e" using acknowledge_moves [OF d(1) ack] by blast
    ultimately show ?thesis using facts(3) by (simp add: conv_ok_def)
  qed
  then show "conv_ok L S cs (e, fs)" "history L S cs k (e, fs) = history L S cs k (d, fs)" by blast+
qed

lemma sync_moves:
  assumes ok: "conv_ok L S cs (d, fs)" and p: "all_printable L S cs (d, fs)"
    and sync: "sync_session_conversation L S (Some cs) root sid fs d = (fs', r)"
  shows "conv_ok L S cs (case r of Inl _ \<Rightarrow> d | Inr e \<Rightarrow> e, fs')"
    and "history L S cs k (case r of Inl _ \<Rightarrow> d | Inr e \<Rightarrow> e, fs') = history L S cs k (d, fs)"
    and "r = Inr e \<Longrightarrow> conversation_outbox_entries e sid = []
      \<and> session_logged L S cs (e, fs') sid (history L S cs sid (d, fs))"
proof -
  obtain es where logged: "session_logged L S cs (d, fs) sid es" using ok by (auto simp: conv_ok_def)
  have d: "store_ok d" "outbox_sorted d" and L: "uuid_roundtrip L"
    and ps: "printable L S (cs_workspace_key cs) sid (conversation_outbox_entries d sid)"
    using ok p by (simp_all add: conv_ok_def all_printable_def printable_def)
  obtain es' where es': "session_logged L S cs (d, fs') sid es'"
    "history L S cs sid (d, fs') = history L S cs sid (d, fs)"
    "\<forall>q. q \<noteq> session_path L cs sid \<longrightarrow> fs' q = fs q"
    "\<forall>e. r = Inr e \<longrightarrow> es' = history L S cs sid (d, fs) \<and> conversation_outbox_entries e sid = []
       \<and> (e = d \<or> (conversation_outbox_entries d sid \<noteq> [] \<and> acknowledge_conversation_outbox d sid
            (te_sequence (last (conversation_outbox_entries d sid))) = Inr e))"
    by (rule sync_session_moves [OF d logged ps sync]) blast
  have q: "fs' q = fs q" if "q \<noteq> session_path L cs sid" for q using es'(3) that by blast
  note one = one_file_moved [where fs = fs and fs' = fs', OF ok L q exI [of "session_logged L S cs (d, fs') sid" es', OF es'(1)] es'(2)]
  have "conv_ok L S cs (case r of Inl _ \<Rightarrow> d | Inr e \<Rightarrow> e, fs')
    \<and> history L S cs k (case r of Inl _ \<Rightarrow> d | Inr e \<Rightarrow> e, fs') = history L S cs k (d, fs)"
  proof (cases r)
    case (Inl e)
    with one show ?thesis by simp
  next
    case (Inr e)
    with es'(2,4) have e: "es' = history L S cs sid (d, fs')" "e = d \<or> (conversation_outbox_entries d sid \<noteq> []
      \<and> acknowledge_conversation_outbox d sid (te_sequence (last (conversation_outbox_entries d sid))) = Inr e)"
      by simp_all
    from acknowledged_moves [OF one(1) es'(1) e] one(2) Inr show ?thesis by simp
  qed
  then show "conv_ok L S cs (case r of Inl _ \<Rightarrow> d | Inr e \<Rightarrow> e, fs')"
    "history L S cs k (case r of Inl _ \<Rightarrow> d | Inr e \<Rightarrow> e, fs') = history L S cs k (d, fs)" by blast+
  show "conversation_outbox_entries e sid = [] \<and> session_logged L S cs (e, fs') sid (history L S cs sid (d, fs))"
    if r: "r = Inr e"
  proof -
    have e: "conversation_outbox_entries e sid = []" "es' = history L S cs sid (d, fs)"
      "e = d \<or> (conversation_outbox_entries d sid \<noteq> [] \<and> acknowledge_conversation_outbox d sid
            (te_sequence (last (conversation_outbox_entries d sid))) = Inr e)"
      using es'(4) r by blast+
    have "find_session e sid = find_session d sid" using e(3) acknowledge_all(4) [OF d] by metis
    with e(1,2) es'(1) show ?thesis by (auto simp: session_logged_def continues_def seq_sorted_def)
  qed
qed

lemma conv_step_moves:
  assumes ok: "conv_ok L S cs s" and p: "all_printable L S cs s"
  shows "conv_ok L S cs (conv_step L S cs root s op)"
    and "prefix (history L S cs k s) (history L S cs k (conv_step L S cs root s op))"
proof -
  obtain d fs where s: "s = (d, fs)" by (cases s)
  have L: "uuid_roundtrip L" and d: "store_ok d" "outbox_sorted d"
    and es: "\<And>sid. \<exists>es. session_logged L S cs (d, fs) sid es"
    using ok p by (auto simp: s conv_ok_def all_printable_def printable_def)
  have "conv_ok L S cs (conv_step L S cs root s op)
    \<and> prefix (history L S cs k s) (history L S cs k (conv_step L S cs root s op))"
  proof (cases op)
    case (CoStore o1)
    show ?thesis
    proof (cases "acknowledges o1 \<or> \<not> is_ok (store_step L d o1)")
      case True
      then show ?thesis using ok by (auto simp: s CoStore is_ok_def split: sum.splits)
    next
      case False
      then obtain e where e: "store_step L d o1 = Inr e" "\<not> acknowledges o1"
        by (auto simp: is_ok_def split: sum.splits)
      have grows: "store_ok e" "store_grows d e" using store_step_grows [OF d(1) e] by blast+
      then have "outbox_sorted e" using grown_outbox(1) [OF d] by (simp add: store_grows_def)
      moreover have "\<exists>es. session_logged L S cs (e, fs) sid es" for sid
        using es [of sid] store_step_logged(1) [OF d grows] by blast
      moreover have "prefix (history L S cs k (d, fs)) (history L S cs k (e, fs))"
        using es [of k] store_step_logged(2) [OF d grows] by blast
      ultimately show ?thesis using grows(1) by (simp add: s CoStore e conv_ok_def)
    qed
  next
    case (CoSync sid)
    obtain fs' r where sync: "sync_session_conversation L S (Some cs) root sid fs d = (fs', r)" by fastforce
    have step: "conv_step L S cs root s op = (case r of Inl _ \<Rightarrow> d | Inr e \<Rightarrow> e, fs')"
      by (simp add: s CoSync sync split: sum.split)
    show ?thesis
      unfolding step using sync_moves(1,2) [OF _ _ sync] ok p by (simp add: s)
  next
    case (CoRead sid)
    obtain fs' r where read: "conversation_read L S cs sid fs = (fs', r)" by fastforce
    obtain xs where xs: "session_logged L S cs (d, fs) sid xs" using es by blast
    note mv = conversation_read_moves [OF d(1) xs read]
    have q: "fs' q = fs q" if "q \<noteq> session_path L cs sid" for q using mv(3) [OF that] .
    have "conv_ok L S cs (d, fs')" "history L S cs k (d, fs') = history L S cs k (d, fs)"
      using one_file_moved [where fs = fs and fs' = fs', OF ok [unfolded s] L q exI [of "session_logged L S cs (d, fs') sid" xs, OF mv(1)] mv(2)]
      by blast+
    then show ?thesis by (simp add: s CoRead read)
  next
    case (CoCrash sid n)
    define f' where "f' = file_at (fst (sync_session_conversation L S (Some cs) root sid fs d)) (session_path L cs sid)"
    show ?thesis
    proof (cases "crash_point (file_at fs (session_path L cs sid)) f' n")
      case True
      let ?fs' = "fs(session_path L cs sid \<mapsto> FsFile (take n f'))"
      obtain xs where xs: "session_logged L S cs (d, fs) sid xs" using es by blast
      have ps: "printable L S (cs_workspace_key cs) sid (conversation_outbox_entries d sid)"
        using p by (simp add: all_printable_def s)
      note mv = crash_moves [where fs' = ?fs', OF d(1) xs ps f'_def True refl]
      have "conv_ok L S cs (d, ?fs')" "history L S cs k (d, ?fs') = history L S cs k (d, fs)"
        using one_file_moved [where fs = fs and fs' = ?fs', OF ok [unfolded s] L _ mv] by simp_all
      then show ?thesis using True by (simp add: s CoCrash f'_def Let_def)
    next
      case False
      then show ?thesis using ok by (simp add: s CoCrash f'_def Let_def)
    qed
  qed
  then show "conv_ok L S cs (conv_step L S cs root s op)"
    "prefix (history L S cs k s) (history L S cs k (conv_step L S cs root s op))" by blast+
qed

end
