(* ===== verification/Conversation_Properties.thy ===== *)
theory Conversation_Properties
  imports Conversation_Service Store_Properties
begin

text \<open>
  Properties of the conversation files beside the store: nothing that was said is lost or
  reordered by a sync, a read, a refused operation or a process that dies while it appends.
\<close>

subsection \<open>Runs\<close>

text \<open>
  The records written in a run are ones \<open>serde_json\<close> can print and read back (see
  \<open>line_ok\<close>), and UUIDs parse back to what was rendered.
\<close>

fun printable_run :: "lib \<Rightarrow> serde \<Rightarrow> conversation_store \<Rightarrow> rstr \<Rightarrow> conv_state \<Rightarrow> conv_op list \<Rightarrow> bool" where
  "printable_run L S cs root s [] = all_printable L S cs s"
| "printable_run L S cs root s (op # ops) =
     (all_printable L S cs s \<and> printable_run L S cs root (conv_step L S cs root s op) ops)"

lemma conv_run_simps [simp]:
  "conv_run L S cs root s [] = s"
  "conv_run L S cs root s (op # ops) = conv_run L S cs root (conv_step L S cs root s op) ops"
  "conv_run L S cs root s (xs @ ys) = conv_run L S cs root (conv_run L S cs root s xs) ys"
  by (simp_all add: conv_run_def)

lemma printable_run_append:
  "printable_run L S cs root s (xs @ ys)
    \<Longrightarrow> printable_run L S cs root s xs \<and> printable_run L S cs root (conv_run L S cs root s xs) ys"
  by (induction xs arbitrary: s) (auto elim: printable_run.elims)

lemma printable_run_start: "printable_run L S cs root s ops \<Longrightarrow> all_printable L S cs s"
  by (cases ops) simp_all

lemma conv_run_moves:
  assumes "conv_ok L S cs s" and "printable_run L S cs root s ops"
  shows "conv_ok L S cs (conv_run L S cs root s ops)
    \<and> prefix (history L S cs sid s) (history L S cs sid (conv_run L S cs root s ops))"
  using assms
proof (induction ops arbitrary: s)
  case (Cons op ops)
  have p: "all_printable L S cs s" using Cons.prems(2) by simp
  have "conv_ok L S cs (conv_run L S cs root (conv_step L S cs root s op) ops)
    \<and> prefix (history L S cs sid (conv_step L S cs root s op))
        (history L S cs sid (conv_run L S cs root (conv_step L S cs root s op) ops))"
    using Cons.prems(2) by (intro Cons.IH [OF conv_step_moves(1) [OF Cons.prems(1) p]]) simp
  with conv_step_moves(2) [OF Cons.prems(1) p, of sid root op]
  show ?case by (auto intro: prefix_order.trans)
qed simp

subsection \<open>A small service\<close>

definition ex_store :: conversation_store where
  "ex_store = \<lparr>cs_workspace_dir = lit ''/c/w'', cs_workspace_key = lit ''w''\<rparr>"

definition ex_said :: transcript_entry where
  "ex_said = \<lparr>te_entry_id = 20, te_sequence = 1, te_turn_id = Some 5, te_kind = TkUser, te_text = lit ''hi'',
     te_payload = None, te_source_key = lit ''session:create:user'', te_created_at_ms = 10\<rparr>"

text \<open>
  A \<open>serde_json\<close> for the records of this service: a header is printed as its session and
  its time, an entry as its sequence.
\<close>

definition ex_serde :: serde where
  "ex_serde = \<lparr>
     to_vec = (\<lambda>j. if field_str ''record'' j = Some (lit ''session'')
       then [11, 11 + the (uuid_parse ex_lib (the (field_str ''session_id'' j))),
             11 + the (field_u64 ''created_at_ms'' j)]
       else [12]),
     from_slice = (\<lambda>b. case b of
         [x, a, c] \<Rightarrow> Some (session_header ex_lib (lit ''w'') (a - 11) (c - 11))
       | [x] \<Rightarrow> Some (entry_record ex_lib ex_said) | _ \<Rightarrow> None),
     slice_error = (\<lambda>_. []), kind_error = (\<lambda>_. [])\<rparr>"

lemma header_fields:
  "field_str ''record'' (session_header L key sid c) = Some (lit ''session'')"
  "field_str ''session_id'' (session_header L key sid c) = Some (uuid_text L sid)"
  "field_u64 ''created_at_ms'' (session_header L key sid c) = Some c"
  by (simp_all add: session_header_def record_eval)

lemma ex_header_ok: "line_ok ex_serde (session_header ex_lib (lit ''w'') sid c)"
  using ex_lib_uuid by (simp add: line_ok_def ex_serde_def header_fields uuid_roundtrip_def del: lit_simps)

lemma ex_said_ok: "entry_ok ex_lib ex_serde ex_said"
proof -
  have "lit ''entry'' \<noteq> lit ''session''" by simp
  then show ?thesis
    by (simp add: entry_ok_def line_ok_def ex_serde_def entry_fields ex_said_def del: lit_simps)
qed

lemma ex_all_printable:
  assumes "\<And>sid. set (conversation_outbox_entries (fst s) sid) \<subseteq> {ex_said}"
  shows "all_printable ex_lib ex_serde ex_store s"
  using assms ex_said_ok ex_lib_uuid ex_header_ok
  by (fastforce simp: all_printable_def printable_def ex_store_def)

lemma ex_created: "\<exists>e m. store_step ex_lib empty_db ex_create = Inr e
    \<and> db_outbox e = [outbox_row_of 1 ex_said] \<and> session_v2 e 1 = Inr (Some m)
    \<and> sy_workspace_root m = lit ''/w'' \<and> sy_created_at_ms m = 10"
  by (simp add: ex_create_def ex_ids_def ex_binding_def empty_db_def create_eval Let_def ex_lib_eval
      trim_def is_white_def ex_said_def session_v2_def summary_of_def)

definition ex_path :: rstr where
  "ex_path = session_path ex_lib ex_store 1"

lemma ex_open: "open_session_file Map.empty ex_path = Inr ([ex_path \<mapsto> FsFile []], ex_path, [])"
  by (simp add: open_session_file_def is_symlink_def path_target_def eval_nat_numeral)

lemma ex_reopen: "fs ex_path = Some (FsFile f) \<Longrightarrow> open_session_file fs ex_path = Inr (fs, ex_path, f)"
  by (simp add: open_session_file_def is_symlink_def path_target_def eval_nat_numeral)

lemma ex_log_ok: "log_ok ex_lib ex_serde (lit ''w'') sid c [ex_said]"
proof -
  have "lit ''entry'' \<noteq> lit ''session''" by simp
  then have "fits ex_lib ex_serde ex_said"
    by (simp add: fits_def ex_serde_def entry_fields MAX_RECORD_BYTES_def del: lit_simps)
  then show ?thesis
    using ex_lib_uuid ex_header_ok ex_said_ok by (simp add: log_ok_def seq_sorted_def)
qed

lemma ex_log_file: "log_file ex_lib ex_serde (lit ''w'') 1 10 [ex_said] = [11, 12, 21, 10, 12, 10]"
proof -
  have "lit ''entry'' \<noteq> lit ''session''" by simp
  then show ?thesis
    using ex_lib_uuid
    by (simp add: log_file_def line_of_def ex_serde_def header_fields entry_fields uuid_roundtrip_def del: lit_simps)
qed

lemma ex_sync: "sync_bytes ex_lib ex_serde (lit ''w'') 1 10 [ex_said] [] = ([11, 12, 21, 10, 12, 10], Inr ())"
proof -
  have ok: "log_ok ex_lib ex_serde (lit ''w'') 1 10 []"
    using ex_log_ok [of 1 10] by (simp add: log_ok_def seq_sorted_def)
  have fits: "fits ex_lib ex_serde ex_said" using ex_log_ok [of 1 10] by (simp add: log_ok_def)
  have "length (to_vec ex_serde (session_header ex_lib (lit ''w'') 1 10)) \<le> MAX_RECORD_BYTES"
    by (simp add: ex_serde_def header_fields MAX_RECORD_BYTES_def del: lit_simps)
  moreover have "seq_sorted [ex_said]" "0 < te_sequence ex_said" by (simp_all add: seq_sorted_def ex_said_def)
  ultimately show ?thesis
    using sync_bytes_new [OF ok, of "[ex_said]"] fits ex_log_file by simp
qed

definition ex_ops :: "conv_op list" where
  "ex_ops = [CoStore ex_create]"

lemma ex_ops_run: "\<exists>e. conv_run ex_lib ex_serde ex_store (lit ''/w'') (empty_db, Map.empty) ex_ops = (e, Map.empty)
    \<and> conversation_outbox_entries e 1 = [ex_said]
    \<and> (\<forall>sid. set (conversation_outbox_entries e sid) \<subseteq> {ex_said})
    \<and> printable_run ex_lib ex_serde ex_store (lit ''/w'') (empty_db, Map.empty) ex_ops
    \<and> (\<exists>e'. sync_session_conversation ex_lib ex_serde (Some ex_store) (lit ''/w'') 1 Map.empty e
          = ([ex_path \<mapsto> FsFile [11, 12, 21, 10, 12, 10]], Inr e')
        \<and> (\<forall>sid. set (conversation_outbox_entries e' sid) \<subseteq> {ex_said}))"
proof -
  obtain e m where e: "store_step ex_lib empty_db ex_create = Inr e" "db_outbox e = [outbox_row_of 1 ex_said]"
    "session_v2 e 1 = Inr (Some m)" "sy_workspace_root m = lit ''/w''" "sy_created_at_ms m = 10"
    using ex_created by blast
  have run: "conv_run ex_lib ex_serde ex_store (lit ''/w'') (empty_db, Map.empty) ex_ops = (e, Map.empty)"
    using e(1) by (simp add: ex_ops_def del: store_step.simps) (simp add: ex_create_def acknowledges_def)
  have out: "conversation_outbox_entries e 1 = [ex_said]"
    "\<forall>sid. set (conversation_outbox_entries e sid) \<subseteq> {ex_said}"
    using e(2) by (auto simp: conversation_outbox_entries_def set_session_outbox)
      (simp add: session_outbox_def outbox_row_of_def)
  have "conversation_outbox_entries empty_db sid = []" for sid
    by (simp add: conversation_outbox_entries_def session_outbox_def empty_db_def)
  then have "all_printable ex_lib ex_serde ex_store (empty_db, Map.empty)"
    "all_printable ex_lib ex_serde ex_store (e, Map.empty)"
    using out(2) by (intro ex_all_printable; simp)+
  then have p: "printable_run ex_lib ex_serde ex_store (lit ''/w'') (empty_db, Map.empty) ex_ops"
    using run by (simp add: ex_ops_def)
  obtain e' where ack: "acknowledge_conversation_outbox e 1 (te_sequence ex_said) = Inr e'"
    by (simp add: acknowledge_conversation_outbox_def to_i64_def ex_said_def i64_bound_def)
  have "set (db_outbox e') \<subseteq> set (db_outbox e)" using ack by (auto simp: acknowledge_conversation_outbox_def)
  then have "\<forall>sid. set (conversation_outbox_entries e' sid) \<subseteq> {ex_said}"
    using e(2) by (auto simp: conversation_outbox_entries_def set_session_outbox)
  moreover have "sync_session_conversation ex_lib ex_serde (Some ex_store) (lit ''/w'') 1 Map.empty e
      = ([ex_path \<mapsto> FsFile [11, 12, 21, 10, 12, 10]], Inr e')"
    using ex_open ex_sync ack
    by (simp add: sync_session_conversation_def e out conversation_sync_def ex_path_def ex_store_def
        del: lit_simps One_nat_def)
  ultimately show ?thesis using run out p by blast
qed

subsection \<open>Properties\<close>

text \<open>
  C16 The conversation of a session is append-only across the store and its file: whatever
  operations, syncs, reads and crashes follow, what was said stays, in its order, and new
  entries come after it. Nothing is lost between the commit of a card and its line in the
  file, and nothing is written twice.
\<close>

theorem conversation_is_append_only:
  assumes "printable_run L S cs root (empty_db, Map.empty) (ops @ later)"
  shows "prefix (history L S cs sid (conv_run L S cs root (empty_db, Map.empty) ops))
    (history L S cs sid (conv_run L S cs root (empty_db, Map.empty) (ops @ later)))"
proof -
  have p: "printable_run L S cs root (empty_db, Map.empty) ops"
    "printable_run L S cs root (conv_run L S cs root (empty_db, Map.empty) ops) later"
    using printable_run_append [OF assms] by blast+
  have "conv_ok L S cs (conv_run L S cs root (empty_db, Map.empty) ops)"
    using conv_run_moves [OF conv_ok_empty p(1)] by blast
  from conv_run_moves [OF this p(2)] show ?thesis by simp
qed

theorem conversation_is_append_only_witness:
  "\<exists>s'. prefix [ex_said] (history ex_lib ex_serde ex_store 1 s')
     \<and> s' = conv_run ex_lib ex_serde ex_store (lit ''/w'') (empty_db, Map.empty) (ex_ops @ [CoSync 1])"
proof -
  obtain e e' where run: "conv_run ex_lib ex_serde ex_store (lit ''/w'') (empty_db, Map.empty) ex_ops = (e, Map.empty)"
    and out: "conversation_outbox_entries e 1 = [ex_said]"
    and p: "printable_run ex_lib ex_serde ex_store (lit ''/w'') (empty_db, Map.empty) ex_ops"
      "\<forall>sid. set (conversation_outbox_entries e sid) \<subseteq> {ex_said}"
    and sync: "sync_session_conversation ex_lib ex_serde (Some ex_store) (lit ''/w'') 1 Map.empty e
          = ([ex_path \<mapsto> FsFile [11, 12, 21, 10, 12, 10]], Inr e')"
      "\<forall>sid. set (conversation_outbox_entries e' sid) \<subseteq> {ex_said}"
    using ex_ops_run by blast
  let ?f = "[ex_path \<mapsto> FsFile [11, 12, 21, 10, 12, 10]]"
  have step: "conv_step ex_lib ex_serde ex_store (lit ''/w'') (e, Map.empty) (CoSync 1) = (e', ?f)"
    using sync(1) by simp
  have "all_printable ex_lib ex_serde ex_store (e, Map.empty)" "all_printable ex_lib ex_serde ex_store (e', ?f)"
    using p(2) sync(2) by (intro ex_all_printable; simp)+
  then have "printable_run ex_lib ex_serde ex_store (lit ''/w'') (e, Map.empty) [CoSync 1]"
    using step by simp
  then have "printable_run ex_lib ex_serde ex_store (lit ''/w'') (empty_db, Map.empty) (ex_ops @ [CoSync 1])"
    using p(1) run by (simp add: ex_ops_def)
  from conversation_is_append_only [OF this, of 1]
  have "prefix (history ex_lib ex_serde ex_store 1 (e, Map.empty))
    (history ex_lib ex_serde ex_store 1 (conv_run ex_lib ex_serde ex_store (lit ''/w'') (empty_db, Map.empty)
       (ex_ops @ [CoSync 1])))"
    unfolding run by simp
  moreover have "history ex_lib ex_serde ex_store 1 (e, Map.empty) = [ex_said]"
    by (simp add: history_def out file_at_def logged_def repair_def missing_def del: One_nat_def)
  ultimately show ?thesis by metis
qed

text \<open>
  C17 A page of a conversation that the engine serves is the requested window of that
  history, whichever part of it was still in the outbox, and serving it leaves nothing of
  the session in the outbox.
\<close>

theorem pages_are_windows_of_the_history:
  assumes run: "printable_run L S cs root (empty_db, Map.empty) ops"
    and s: "conv_run L S cs root (empty_db, Map.empty) ops = (d, fs)"
    and page: "conversation_page L S (Some cs) root sid after limit tail fs d = (fs', d', Inr (Some p))"
  shows "p = page_of after limit tail (history L S cs sid (d, fs)) \<and> conversation_outbox_entries d' sid = []"
proof -
  have ok: "conv_ok L S cs (d, fs)" and ap: "all_printable L S cs (d, fs)"
    using conv_run_moves [OF conv_ok_empty run] s printable_run_append [of L S cs root "(empty_db, Map.empty)" ops "[]"] run
    by simp_all
  obtain fs1 r where sync: "sync_session_conversation L S (Some cs) root sid fs d = (fs1, Inr d')"
    and read: "conversation_read L S cs sid fs1 = (fs', r)"
    and p: "bindE (map_err InvalidData r) (\<lambda>es. Inr (Some (page_of after limit tail es))) = Inr (Some p)"
    using page by (auto simp: conversation_page_def split: sum.splits prod.splits)
  from p obtain es where es: "r = Inr es" "p = page_of after limit tail es" by auto
  have synced: "conversation_outbox_entries d' sid = []"
    "session_logged L S cs (d', fs1) sid (history L S cs sid (d, fs))"
    using sync_moves(3) [OF ok ap sync refl] by blast+
  have "conv_ok L S cs (d', fs1)" using sync_moves(1) [OF ok ap sync] by simp
  then have "store_ok d'" by (simp add: conv_ok_def)
  with conversation_read_moves(4) [OF _ synced(2)] read es(1) have "es = history L S cs sid (d, fs)" by blast
  with es(2) synced(1) show ?thesis by simp
qed

theorem pages_are_windows_of_the_history_witness:
  "\<exists>fs d p. p = page_of None 10 False (history ex_lib ex_serde ex_store 1 (d, fs)) \<and> tp_entries p = [ex_said]"
proof -
  obtain e e' where run: "conv_run ex_lib ex_serde ex_store (lit ''/w'') (empty_db, Map.empty) ex_ops = (e, Map.empty)"
    and out: "conversation_outbox_entries e 1 = [ex_said]"
    and p: "printable_run ex_lib ex_serde ex_store (lit ''/w'') (empty_db, Map.empty) ex_ops"
    and sync: "sync_session_conversation ex_lib ex_serde (Some ex_store) (lit ''/w'') 1 Map.empty e
          = ([ex_path \<mapsto> FsFile [11, 12, 21, 10, 12, 10]], Inr e')"
    using ex_ops_run by blast
  let ?f = "[ex_path \<mapsto> FsFile [11, 12, 21, 10, 12, 10]]"
  have "repair_and_read ex_lib ex_serde 1 (lit ''w'') [11, 12, 21, 10, 12, 10]
      = ([11, 12, 21, 10, 12, 10], Inr (id_index ex_lib [ex_said], [ex_said]))"
    using read_torn_log [OF ex_log_ok [of 1 10], of "[]"] by (simp add: ex_log_file MAX_FILE_BYTES_def del: One_nat_def)
  then have "conversation_read ex_lib ex_serde ex_store 1 ?f = (?f, Inr [ex_said])"
    using ex_reopen [of ?f "[11, 12, 21, 10, 12, 10]"]
    by (simp add: conversation_read_def ex_path_def ex_store_def del: One_nat_def)
  then have "conversation_page ex_lib ex_serde (Some ex_store) (lit ''/w'') 1 None 10 False Map.empty e
      = (?f, e', Inr (Some (page_of None 10 False [ex_said])))"
    by (simp add: conversation_page_def sync del: One_nat_def)
  from pages_are_windows_of_the_history [OF p run this]
  have "page_of None 10 False [ex_said] = page_of None 10 False (history ex_lib ex_serde ex_store 1 (e, Map.empty))"
    by blast
  moreover have "tp_entries (page_of None 10 False [ex_said]) = [ex_said]"
    by (simp add: page_of_def clamp_def ex_said_def)
  ultimately show ?thesis by metis
qed

text \<open>
  A sync that a dying process cut short at any byte past the records that were there
  is finished by the next sync of the same outbox: the file is byte for byte the one the
  first sync would have written, and a repeated sync changes nothing.
\<close>

theorem cut_sync_is_finished_by_the_next:
  assumes ok: "log_ok L S key sid c (es @ out)"
    and size: "length (log_file L S key sid c (es @ out)) \<le> MAX_FILE_BYTES"
    and cut: "length (log_file L S key sid c es) \<le> n"
  shows "sync_bytes L S key sid c out (take n (fst (sync_bytes L S key sid c out (log_file L S key sid c es))))
    = sync_bytes L S key sid c out (log_file L S key sid c es)"
proof -
  have "seq_sorted (es @ out)" using ok by (simp add: log_ok_def)
  then have srt: "seq_sorted out" by (simp add: seq_sorted_append)
  have "log_file L S key sid c es = take (length (log_file L S key sid c es)) (log_file L S key sid c (es @ out))"
    by (simp add: log_file_append)
  with resync_restores [OF ok size, where out = out and ys = "[]" and n = "length (log_file L S key sid c es)"] srt
  have once: "sync_bytes L S key sid c out (log_file L S key sid c es) = (log_file L S key sid c (es @ out), Inr ())"
    by simp
  from resync_restores [OF ok size, where out = out and ys = "[]" and n = n] srt cut
  show ?thesis by (simp add: once)
qed

theorem cut_sync_is_finished_by_the_next_witness:
  "sync_bytes ex_lib ex_serde (lit ''w'') 1 10 [ex_said]
     (take 4 (fst (sync_bytes ex_lib ex_serde (lit ''w'') 1 10 [ex_said] [11, 12, 21, 10])))
   = ([11, 12, 21, 10, 12, 10], Inr ())"
proof -
  have "log_ok ex_lib ex_serde (lit ''w'') 1 10 ([] @ [ex_said])" using ex_log_ok [of 1 10] by simp
  moreover have "length (log_file ex_lib ex_serde (lit ''w'') 1 10 ([] @ [ex_said])) \<le> MAX_FILE_BYTES"
    unfolding append_Nil ex_log_file by (simp add: MAX_FILE_BYTES_def)
  moreover have h: "log_file ex_lib ex_serde (lit ''w'') 1 10 [] = [11, 12, 21, 10]"
    using ex_lib_uuid
    by (simp add: log_file_def line_of_def ex_serde_def header_fields uuid_roundtrip_def del: lit_simps)
  ultimately have "sync_bytes ex_lib ex_serde (lit ''w'') 1 10 [ex_said]
      (take 4 (fst (sync_bytes ex_lib ex_serde (lit ''w'') 1 10 [ex_said] [11, 12, 21, 10])))
    = sync_bytes ex_lib ex_serde (lit ''w'') 1 10 [ex_said] [11, 12, 21, 10]"
    using cut_sync_is_finished_by_the_next [of ex_lib ex_serde "lit ''w''" 1 10 "[]" "[ex_said]" 4] by simp
  moreover have "sync_bytes ex_lib ex_serde (lit ''w'') 1 10 [ex_said] [11, 12, 21, 10]
    = ([11, 12, 21, 10, 12, 10], Inr ())"
  proof -
    have "sync_bytes ex_lib ex_serde (lit ''w'') 1 10 [ex_said] []
        = sync_opened ex_lib ex_serde 1 (lit ''w'') [ex_said] [11, 12, 21, 10]"
      by (simp add: sync_bytes_def write_record_def ex_serde_def header_fields MAX_RECORD_BYTES_def
          ex_lib_uuid [unfolded uuid_roundtrip_def] del: lit_simps)
    then show ?thesis by (simp add: ex_sync [symmetric] sync_bytes_def del: lit_simps One_nat_def)
  qed
  ultimately show ?thesis by simp
qed

text \<open>
  The guard against links misses a link whose target does not exist yet: such a path
  \<^emph>\<open>does not exist\<close> for \<open>Path::exists\<close>, so the conversation file is created at the
  target of the link instead of being refused.
\<close>

theorem dangling_links_are_followed:
  assumes "fs (session_path L cs sid) = Some (FsLink q)" and "fs q = None"
  shows "open_session_file fs (session_path L cs sid) = Inr (fs(q \<mapsto> FsFile []), q, [])"
proof -
  have "path_target fs (session_path L cs sid) = Some q"
    using assms by (simp add: path_target_def eval_nat_numeral)
  with assms show ?thesis by (simp add: open_session_file_def path_exists_def)
qed

theorem dangling_links_are_followed_witness:
  "\<exists>fs. open_session_file fs ex_path = Inr (fs(lit ''/etc/x'' \<mapsto> FsFile []), lit ''/etc/x'', [])
     \<and> is_symlink fs ex_path"
proof -
  let ?fs = "[ex_path \<mapsto> FsLink (lit ''/etc/x'')]"
  have "ex_path \<noteq> lit ''/etc/x''" by (simp add: ex_path_def session_path_def path_join_def ex_store_def ex_lib_def lit_def)
  then have "?fs (lit ''/etc/x'') = None" by simp
  with dangling_links_are_followed [of ?fs ex_lib ex_store 1 "lit ''/etc/x''"]
  have "open_session_file ?fs ex_path = Inr (?fs(lit ''/etc/x'' \<mapsto> FsFile []), lit ''/etc/x'', [])"
    by (simp add: ex_path_def del: lit_simps One_nat_def)
  moreover have "is_symlink ?fs ex_path" by (simp add: is_symlink_def)
  ultimately show ?thesis by blast
qed

end
