(* ===== verification/Workspace_Config.thy ===== *)
theory Workspace_Config
  imports Headless_Profile
begin

text \<open>
  The layered configuration of \<open>latte-code/src/lib.rs\<close>: the user's file, the file of the
  workspace (which comes with the repository) and the built-in default, their merge, the
  trust boundary between a workspace that names an endpoint and a credential held outside
  it, and the validation of the merged result. Files, environment variables and the JSON5
  parser are arguments (\<open>config_env\<close>), as are the deserializers that \<open>serde\<close> derives for
  \<open>AppConfig\<close> and \<open>SecretRef\<close>.
\<close>

subsection \<open>Settings\<close>

record compaction_config =
  cc_enabled :: bool
  cc_mode :: "rstr option"
  cc_max_summary_source_bytes :: nat
  cc_trigger_ratio :: nat
  cc_retain_ratio :: nat

record session_config =
  sc_max_request_bytes :: nat
  sc_max_input_bytes :: nat
  sc_reserved_output_bytes :: nat
  sc_context_cap_bytes :: nat
  sc_max_tool_rounds :: "nat option"
  sc_provider_timeout_ms :: nat
  sc_compaction :: compaction_config

record verification_config =
  vc_argv :: "rstr list"
  vc_cwd :: rstr
  vc_timeout_ms :: nat

record app_config =
  ac_version :: nat
  ac_default_model :: rstr
  ac_providers :: json
  ac_database_path :: rstr
  ac_verification :: verification_config
  ac_session :: session_config

definition COMPACTION_MODE_SUMMARIZE :: rstr where
  "COMPACTION_MODE_SUMMARIZE = lit ''summarize''"

definition COMPACTION_MODE_ELIDE :: rstr where
  "COMPACTION_MODE_ELIDE = lit ''elide_then_summarize''"

definition compaction_config_validate :: "compaction_config \<Rightarrow> rstr + unit" where
  "compaction_config_validate c =
     (if cc_enabled c \<and> cc_max_summary_source_bytes c = 0
      then Inl (lit ''session.compaction.max_summary_source_bytes must be nonzero when enabled'')
      else if cc_enabled c \<and> cc_trigger_ratio c > 100
      then Inl (lit ''session.compaction.trigger_ratio must be at most 100 when enabled'')
      else if cc_enabled c \<and> cc_retain_ratio c > 80
      then Inl (lit ''session.compaction.retain_ratio must be at most 80 when enabled'')
      else (case cc_mode c of
          None \<Rightarrow> Inr ()
        | Some mode \<Rightarrow>
            if mode \<in> {COMPACTION_MODE_SUMMARIZE, COMPACTION_MODE_ELIDE} then Inr ()
            else Inl (lit ''session.compaction.mode must be `'' @ COMPACTION_MODE_SUMMARIZE @ lit ''` or `''
                      @ COMPACTION_MODE_ELIDE @ lit ''`'')))"

definition compaction_config_default :: compaction_config where
  "compaction_config_default = \<lparr>cc_enabled = False, cc_mode = None, cc_max_summary_source_bytes = 0,
     cc_trigger_ratio = 0, cc_retain_ratio = 0\<rparr>"

definition session_config_default :: session_config where
  "session_config_default = (let d = history_policy_default in
     \<lparr>sc_max_request_bytes = hp_max_request_bytes d, sc_max_input_bytes = hp_max_input_bytes d,
      sc_reserved_output_bytes = hp_reserved_output_bytes d, sc_context_cap_bytes = hp_context_cap_bytes d,
      sc_max_tool_rounds = hp_max_tool_rounds d, sc_provider_timeout_ms = hp_provider_timeout_ms d,
      sc_compaction = compaction_config_default\<rparr>)"

definition session_policy :: "app_config \<Rightarrow> history_policy" where
  "session_policy c = (let s = ac_session c in
     \<lparr>hp_max_request_bytes = sc_max_request_bytes s, hp_max_input_bytes = sc_max_input_bytes s,
      hp_reserved_output_bytes = sc_reserved_output_bytes s, hp_context_cap_bytes = sc_context_cap_bytes s,
      hp_max_tool_rounds = sc_max_tool_rounds s, hp_provider_timeout_ms = sc_provider_timeout_ms s\<rparr>)"

record verification_plan =
  vp_argv :: "rstr list"
  vp_cwd :: rstr
  vp_timeout_ms :: nat
  vp_grace_ms :: nat
  vp_stdout_cap :: nat
  vp_stderr_cap :: nat

definition verification_plan_of :: "app_config \<Rightarrow> verification_plan" where
  "verification_plan_of c = \<lparr>vp_argv = vc_argv (ac_verification c), vp_cwd = vc_cwd (ac_verification c),
     vp_timeout_ms = vc_timeout_ms (ac_verification c), vp_grace_ms = 250,
     vp_stdout_cap = 16 * 1024, vp_stderr_cap = 16 * 1024\<rparr>"

subsection \<open>Paths\<close>

definition path_absolute :: "rstr \<Rightarrow> bool" where
  "path_absolute p \<longleftrightarrow> take 1 p = lit ''/''"

definition join_path :: "rstr \<Rightarrow> rstr \<Rightarrow> rstr" where
  "join_path dir name =
     (if path_absolute name then name
      else if dir = [] \<or> last dir = 47 then dir @ name else dir @ lit ''/'' @ name)"

definition legacy_database_path :: "app_config \<Rightarrow> rstr \<Rightarrow> rstr" where
  "legacy_database_path c root =
     (if path_absolute (ac_database_path c) then ac_database_path c
      else join_path root (ac_database_path c))"

definition storage_home_with :: "rstr option \<Rightarrow> rstr option \<Rightarrow> rstr + rstr" where
  "storage_home_with override_home home =
     bindE (case override_home of
        Some v \<Rightarrow> if v = [] then Inl (lit ''LATTE_CODE_HOME must not be empty'') else Inr v
      | None \<Rightarrow> (case home of
            None \<Rightarrow> Inl (lit ''LATTE_CODE_HOME or HOME must be set'')
          | Some h \<Rightarrow> Inr (join_path h (lit ''.latte/latte-code'')))) (\<lambda>path.
     if \<not> path_absolute path then Inl (lit ''LATTE_CODE_HOME must be an absolute path'') else Inr path)"

definition CONFIG_RELATIVE_PATH :: rstr where
  "CONFIG_RELATIVE_PATH = lit ''.latte/latte-code.jsonc''"

subsection \<open>Layers\<close>

datatype secret_ref = SecretLiteral rstr | SecretEnv rstr

datatype file_read = FileMissing | FileUnreadable rstr | FileText rstr

record config_env =
  ce_read :: "rstr \<Rightarrow> file_read"
  ce_json5 :: "rstr \<Rightarrow> rstr + json"
  ce_env :: "rstr \<Rightarrow> rstr option"
  ce_app :: "json \<Rightarrow> rstr + app_config"
  ce_secret :: "json \<Rightarrow> secret_ref option"

text \<open>The built-in \<open>DEFAULT_CONFIG\<close>.\<close>

definition default_config :: json where
  "default_config = json_obj
     [(lit ''version'', JInt 1),
      (lit ''session'', json_obj
         [(lit ''max_request_bytes'', JInt 524288), (lit ''max_input_bytes'', JInt 393216),
          (lit ''reserved_output_bytes'', JInt 131072), (lit ''context_cap_bytes'', JInt 65536)]),
      (lit ''database'', json_obj [(lit ''path'', JStr (lit ''.latte/latte-code.db''))]),
      (lit ''verification'', json_obj
         [(lit ''argv'', JArr [JStr (lit ''cargo''), JStr (lit ''test''), JStr (lit ''--workspace'')]),
          (lit ''cwd'', JStr (lit ''.'')), (lit ''timeout_ms'', JInt 120000)]),
      (lit ''providers'', JObj [])]"

definition obj_remove :: "rstr \<Rightarrow> (rstr \<times> 'v) list \<Rightarrow> (rstr \<times> 'v) list" where
  "obj_remove k m = filter (\<lambda>(k', _). k' \<noteq> k) m"

definition normalize_legacy_thread_block :: "rstr \<Rightarrow> json \<Rightarrow> rstr + json" where
  "normalize_legacy_thread_block path overlay =
     (case overlay of
        JObj m \<Rightarrow>
          (case map_of m (lit ''thread'') of
             None \<Rightarrow> Inr overlay
           | Some thread \<Rightarrow>
               if map_of m (lit ''session'') \<noteq> None
               then Inl (path @ lit '' uses both the legacy `thread` settings block and the current ''
                 @ lit ''`session` block; consolidate the settings under `session` and remove `thread`'')
               else Inr (JObj (obj_insert (lit ''session'') thread (obj_remove (lit ''thread'') m))))
      | _ \<Rightarrow> Inr overlay)"

definition read_optional_config :: "config_env \<Rightarrow> rstr \<Rightarrow> rstr + json option" where
  "read_optional_config E path =
     (case ce_read E path of
        FileMissing \<Rightarrow> Inr None
      | FileUnreadable e \<Rightarrow> Inl (lit ''cannot read '' @ path @ lit '': '' @ e)
      | FileText text \<Rightarrow>
          bindE (map_err (\<lambda>e. lit ''invalid JSONC '' @ path @ lit '': '' @ e) (ce_json5 E text)) (\<lambda>overlay.
          if \<not> json_is_object overlay
          then Inl (lit ''invalid JSONC '' @ path @ lit '': top-level configuration must be an object'')
          else bindE (normalize_legacy_thread_block path overlay) (\<lambda>overlay. Inr (Some overlay))))"

text \<open>\<open>merge_value_at\<close>: objects merge key by key, anything else is replaced by the later layer.\<close>

fun merge_value_at :: "rstr list \<Rightarrow> json \<Rightarrow> json \<Rightarrow> json"
  and merge_fields :: "rstr list \<Rightarrow> (rstr \<times> json) list \<Rightarrow> (rstr \<times> json) list \<Rightarrow> (rstr \<times> json) list" where
  "merge_value_at path base overlay =
     (case overlay of
        JObj ov \<Rightarrow> (case base of JObj b \<Rightarrow> JObj (merge_fields path b ov) | _ \<Rightarrow> overlay)
      | _ \<Rightarrow> overlay)"
| "merge_fields path b [] = b"
| "merge_fields path b ((k, v) # ov) =
     merge_fields path
       (if k = lit ''models'' \<and> length path = 2 \<and> path ! 0 = lit ''providers'' then obj_insert k v b
        else case map_of b k of
          Some existing \<Rightarrow> obj_insert k (merge_value_at (path @ [k]) existing v) b
        | None \<Rightarrow> obj_insert k v b) ov"

definition merge_value :: "json \<Rightarrow> json \<Rightarrow> json" where
  "merge_value base overlay = merge_value_at [] base overlay"

subsection \<open>Trust\<close>

text \<open>
  The flag \<open>trust_repo_endpoint\<close> is taken out of a layer before it is merged; the names of
  the providers that carried it as true are returned.
\<close>

definition strip_trust :: "json \<Rightarrow> json" where
  "strip_trust p = (case p of JObj m \<Rightarrow> JObj (obj_remove (lit ''trust_repo_endpoint'') m) | _ \<Rightarrow> p)"

definition carries_trust :: "json \<Rightarrow> bool" where
  "carries_trust p = (case p of JObj m \<Rightarrow> map_of m (lit ''trust_repo_endpoint'') = Some (JBool True) | _ \<Rightarrow> False)"

definition take_workspace_trust_flags :: "json \<Rightarrow> json \<times> rstr list" where
  "take_workspace_trust_flags overlay =
     (case overlay of
        JObj m \<Rightarrow>
          (case map_of m (lit ''providers'') of
             Some (JObj ps) \<Rightarrow>
               (JObj (obj_insert (lit ''providers'') (JObj (map (\<lambda>(n, p). (n, strip_trust p)) ps)) m),
                map fst (filter (\<lambda>(n, p). carries_trust p) ps))
           | _ \<Rightarrow> (overlay, []))
      | _ \<Rightarrow> (overlay, []))"

definition provider_in :: "json \<Rightarrow> rstr \<Rightarrow> json option" where
  "provider_in layer name = Option.bind (json_get (lit ''providers'') layer) (json_get name)"

definition env_reference_set :: "config_env \<Rightarrow> json \<Rightarrow> bool" where
  "env_reference_set E api_key \<longleftrightarrow>
     Option.bind (json_get (lit ''source'') api_key) json_as_str = Some (lit ''env'')
   \<and> (case Option.bind (json_get (lit ''name'') api_key) json_as_str of
        None \<Rightarrow> False
      | Some name \<Rightarrow> (case ce_env E name of None \<Rightarrow> False | Some v \<Rightarrow> v \<noteq> []))"

definition provider_holds_foreign_credential :: "config_env \<Rightarrow> bool \<Rightarrow> json \<Rightarrow> json option \<Rightarrow> rstr \<Rightarrow> bool" where
  "provider_holds_foreign_credential E workspace_declares_key merged_provider home_overlay name =
     (let home_declares_key =
        (case Option.bind home_overlay (\<lambda>h. provider_in h name) of
           None \<Rightarrow> False | Some p \<Rightarrow> json_get (lit ''api_key'') p \<noteq> None) in
      if home_declares_key \<and> \<not> workspace_declares_key then True
      else case json_get (lit ''api_key'') merged_provider of
          None \<Rightarrow> False | Some api_key \<Rightarrow> env_reference_set E api_key)"

definition endpoint_fields :: "json \<Rightarrow> rstr list" where
  "endpoint_fields p = filter (\<lambda>k. json_get k p \<noteq> None) [lit ''base_url'', lit ''endpoint'']"

fun join_slash :: "rstr list \<Rightarrow> rstr" where
  "join_slash [] = []"
| "join_slash [f] = f"
| "join_slash (f # fs) = f @ lit ''/'' @ join_slash fs"

fun enforce_gated :: "config_env \<Rightarrow> json option \<Rightarrow> json \<Rightarrow> rstr list \<Rightarrow> rstr \<Rightarrow> rstr
    \<Rightarrow> (rstr \<times> json) list \<Rightarrow> rstr + unit" where
  "enforce_gated E home_overlay merged trusted home_display workspace_path [] = Inr ()"
| "enforce_gated E home_overlay merged trusted home_display workspace_path ((name, p) # ps) =
     (let rest = enforce_gated E home_overlay merged trusted home_display workspace_path ps in
      if endpoint_fields p = [] \<or> name \<in> set trusted then rest
      else case provider_in merged name of
        None \<Rightarrow> rest
      | Some provider \<Rightarrow>
          if \<not> provider_holds_foreign_credential E (json_get (lit ''api_key'') p \<noteq> None)
                 provider home_overlay name then rest
          else Inl (workspace_path @ lit '' sets providers.'' @ name @ lit ''.'' @ join_slash (endpoint_fields p)
            @ lit '' while a credential held outside the workspace would be sent to that endpoint; a workspace ''
            @ lit ''configuration file ships with the repository clone and must not be trusted with API keys. ''
            @ lit ''To accept this endpoint anyway, set `providers.'' @ name @ lit ''.trust_repo_endpoint: true` in ''
            @ home_display @ lit '' '' @ [8212] @ lit '' the home layer, never the workspace layer''))"

definition enforce_workspace_endpoint_trust ::
  "config_env \<Rightarrow> json \<Rightarrow> json option \<Rightarrow> json \<Rightarrow> rstr list \<Rightarrow> rstr option \<Rightarrow> rstr \<Rightarrow> rstr + unit" where
  "enforce_workspace_endpoint_trust E workspace_overlay home_overlay merged trusted home_path workspace_path =
     (case json_get (lit ''providers'') workspace_overlay of
        Some (JObj ps) \<Rightarrow>
          enforce_gated E home_overlay merged trusted
            (case home_path of None \<Rightarrow> lit ''the home configuration file'' | Some p \<Rightarrow> p) workspace_path ps
      | _ \<Rightarrow> Inr ())"

subsection \<open>Loading\<close>

definition home_layer :: "config_env \<Rightarrow> rstr option \<Rightarrow> json \<Rightarrow> rstr + json \<times> json option \<times> rstr list" where
  "home_layer E home_path merged =
     (case home_path of
        None \<Rightarrow> Inr (merged, None, [])
      | Some path \<Rightarrow> bindE (read_optional_config E path) (\<lambda>r.
          case r of
            None \<Rightarrow> Inr (merged, None, [])
          | Some overlay \<Rightarrow> (let (overlay, trusted) = take_workspace_trust_flags overlay in
              Inr (merge_value merged overlay, Some overlay, trusted))))"

definition workspace_layer ::
  "config_env \<Rightarrow> rstr option \<Rightarrow> rstr \<Rightarrow> bool \<Rightarrow> json \<times> json option \<times> rstr list \<Rightarrow> rstr + json" where
  "workspace_layer E home_path workspace_path enforce h =
     (case h of (merged, home_overlay, trusted) \<Rightarrow>
        if home_path = Some workspace_path then Inr merged
        else bindE (read_optional_config E workspace_path) (\<lambda>r.
          case r of
            None \<Rightarrow> Inr merged
          | Some overlay \<Rightarrow> (let overlay = fst (take_workspace_trust_flags overlay);
                merged = merge_value merged overlay in
              if enforce
              then bindE (enforce_workspace_endpoint_trust E overlay home_overlay merged trusted home_path
                     workspace_path) (\<lambda>_. Inr merged)
              else Inr merged)))"

definition validate_app_config :: "app_config \<Rightarrow> rstr + unit" where
  "validate_app_config c =
     (if vc_argv (ac_verification c) = [] then Inl (lit ''verification.argv must not be empty'')
      else bindE (map_err (\<lambda>e. lit ''invalid session configuration: '' @ e)
             (history_policy_validate (session_policy c))) (\<lambda>_.
           map_err (\<lambda>e. lit ''invalid session configuration: '' @ e)
             (compaction_config_validate (sc_compaction (ac_session c)))))"

definition load_with_home_inner :: "config_env \<Rightarrow> (json \<Rightarrow> rstr + 'r) \<Rightarrow> rstr \<Rightarrow> rstr option \<Rightarrow> bool
    \<Rightarrow> rstr + app_config \<times> 'r \<times> json" where
  "load_with_home_inner E registry root home enforce =
     (let home_path = map_option (\<lambda>h. join_path h CONFIG_RELATIVE_PATH) home in
     bindE (home_layer E home_path default_config) (\<lambda>h.
     bindE (workspace_layer E home_path (join_path root CONFIG_RELATIVE_PATH) enforce h) (\<lambda>merged.
     bindE (map_err (\<lambda>e. lit ''invalid merged configuration: '' @ e) (ce_app E merged)) (\<lambda>config.
     bindE (validate_app_config config) (\<lambda>_.
     bindE (registry merged) (\<lambda>r. Inr (config, r, merged)))))))"

subsection \<open>Credentials\<close>

text \<open>\<open>ProviderRegistry::resolve_model\<close>: the key that is sent with a request.\<close>

definition resolve_secret :: "config_env \<Rightarrow> secret_ref \<Rightarrow> rstr option" where
  "resolve_secret E r =
     (case r of
        SecretLiteral s \<Rightarrow> if s = [] then None else Some s
      | SecretEnv name \<Rightarrow> (case ce_env E name of None \<Rightarrow> None | Some v \<Rightarrow> if v = [] then None else Some v))"

text \<open>The context policy the server's workspace builder derives from the configuration.\<close>

definition base_context_policy :: "app_config \<Rightarrow> context_policy" where
  "base_context_policy c =
     (let base = context_of_history (session_policy c); cc = sc_compaction (ac_session c);
          strategy = (if \<not> cc_enabled cc then CsOff
            else if cc_mode cc = Some COMPACTION_MODE_ELIDE then ElideToolResultsThenSummarize
            else SummarizeOnDiscard);
          cp = (ctx_compaction base)\<lparr>cp_strategy := strategy\<rparr>;
          cp = (if cc_max_summary_source_bytes cc = 0 then cp
                else cp\<lparr>cp_max_summary_source_bytes := cc_max_summary_source_bytes cc\<rparr>);
          cp = (if cc_trigger_ratio cc \<noteq> 0 then cp\<lparr>cp_trigger_ratio := cc_trigger_ratio cc\<rparr> else cp);
          cp = (if cc_retain_ratio cc \<noteq> 0 then cp\<lparr>cp_retain_ratio := cc_retain_ratio cc\<rparr> else cp)
      in base\<lparr>ctx_compaction := cp\<rparr>)"

text \<open>
  Paths as their components: the nearest ancestor with a repository, and the display of a
  workspace relative to the home directory.
\<close>

definition path_ancestors :: "rstr list \<Rightarrow> rstr list list" where
  "path_ancestors p = map (\<lambda>k. take (length p - k) p) [0..<Suc (length p)]"

definition discover_workspace_root :: "(rstr list \<Rightarrow> bool) \<Rightarrow> rstr list \<Rightarrow> rstr list" where
  "discover_workspace_root has_git start =
     (case find has_git (path_ancestors start) of Some c \<Rightarrow> c | None \<Rightarrow> start)"

definition path_text :: "rstr list \<Rightarrow> rstr" where
  "path_text p = lit ''/'' @ join_slash p"

definition workspace_display_path_with_home :: "rstr list \<Rightarrow> rstr list option \<Rightarrow> rstr" where
  "workspace_display_path_with_home root home =
     (case home of
        None \<Rightarrow> path_text root
      | Some h \<Rightarrow>
          if take (length h) root \<noteq> h then path_text root
          else if drop (length h) root = [] then lit ''~''
          else lit ''~/'' @ join_slash (drop (length h) root))"

subsection \<open>What a merge keeps\<close>

lemma map_of_obj_remove: "map_of (obj_remove k m) = (map_of m)(k := None)"
  by (induction m) (auto simp: obj_remove_def fun_eq_iff)

text \<open>The value of a field after a layer was merged.\<close>

definition merged_field :: "rstr list \<Rightarrow> (rstr \<times> json) list \<Rightarrow> rstr \<Rightarrow> json \<Rightarrow> json" where
  "merged_field path b k v =
     (if k = lit ''models'' \<and> length path = 2 \<and> path ! 0 = lit ''providers'' then v
      else case map_of b k of Some e \<Rightarrow> merge_value_at (path @ [k]) e v | None \<Rightarrow> v)"

lemma merge_fields_get:
  "distinct (map fst ov) \<Longrightarrow> map_of (merge_fields path b ov) k =
     (case map_of ov k of None \<Rightarrow> map_of b k | Some v \<Rightarrow> Some (merged_field path b k v))"
proof (induction ov arbitrary: b)
  case (Cons kv ov)
  obtain k' v where kv: "kv = (k', v)" by fastforce
  define b' where "b' = (if k' = lit ''models'' \<and> length path = 2 \<and> path ! 0 = lit ''providers'' then obj_insert k' v b
        else case map_of b k' of
          Some existing \<Rightarrow> obj_insert k' (merge_value_at (path @ [k']) existing v) b
        | None \<Rightarrow> obj_insert k' v b)"
  have b': "map_of b' = (map_of b)(k' \<mapsto> merged_field path b k' v)"
    by (simp add: b'_def merged_field_def map_of_obj_insert split: option.split)
  have fold: "merge_fields path b ((k', v) # ov) = merge_fields path b' ov"
    by (simp only: merge_fields.simps b'_def)
  have ih: "map_of (merge_fields path b' ov) k =
     (case map_of ov k of None \<Rightarrow> map_of b' k | Some v \<Rightarrow> Some (merged_field path b' k v))"
    using Cons by (simp add: kv)
  show ?case
  proof (cases "k = k'")
    case True
    have "map_of ov k' = None" using Cons.prems by (simp add: kv map_of_eq_None_iff)
    then show ?thesis unfolding kv fold ih using True b' by simp
  next
    case False
    then have "merged_field path b' k w = merged_field path b k w" for w
      by (simp add: merged_field_def b')
    then show ?thesis unfolding kv fold ih using False b' by (simp split: option.split)
  qed
qed simp

subsection \<open>Objects in key order\<close>

lemma rstr_less_irrefl [simp]: "\<not> rstr_less a a"
  by (induction a) auto

lemma rstr_less_trans: "rstr_less a b \<Longrightarrow> rstr_less b c \<Longrightarrow> rstr_less a c"
proof (induction a b arbitrary: c rule: rstr_less.induct)
  case (2 d ds)
  then show ?case by (cases c) auto
next
  case (4 x xs y ys)
  then show ?case by (cases c) auto
qed auto

lemma rstr_less_linear: "a \<noteq> b \<Longrightarrow> \<not> rstr_less a b \<Longrightarrow> rstr_less b a"
  by (induction a b rule: rstr_less.induct) auto

definition obj_sorted :: "(rstr \<times> 'v) list \<Rightarrow> bool" where
  "obj_sorted m \<longleftrightarrow> sorted_wrt rstr_less (map fst m)"

lemma obj_sorted_distinct: "obj_sorted m \<Longrightarrow> distinct (map fst m)"
  unfolding obj_sorted_def
proof (induction m)
  case (Cons kv m)
  then show ?case by auto
qed simp

lemma obj_insert_keys: "set (map fst (obj_insert k v m)) = insert k (set (map fst m))"
proof (induction m)
  case (Cons kv m)
  then show ?case by (cases kv) (simp add: insert_commute)
qed simp

lemma obj_sorted_insert: "obj_sorted m \<Longrightarrow> obj_sorted (obj_insert k v m)"
proof (induction m)
  case (Cons kv m)
  obtain k' v' where kv: "kv = (k', v')" by fastforce
  have k': "\<forall>x \<in> set (map fst m). rstr_less k' x" and m: "obj_sorted m"
    using Cons.prems by (simp_all add: obj_sorted_def kv)
  show ?case
  proof (cases "k = k' \<or> rstr_less k k'")
    case True
    then show ?thesis using k' m rstr_less_trans by (auto simp: kv obj_sorted_def)
  next
    case False
    then have "rstr_less k' k" using rstr_less_linear by blast
    moreover have "sorted_wrt rstr_less (map fst (obj_insert k v m))"
      using Cons.IH [OF m] by (simp add: obj_sorted_def)
    moreover have "\<forall>x \<in> set (map fst (obj_insert k v m)). rstr_less k' x"
      unfolding obj_insert_keys using k' \<open>rstr_less k' k\<close> by simp
    ultimately show ?thesis using False by (simp add: kv obj_sorted_def)
  qed
qed (simp add: obj_sorted_def)

lemma obj_sorted_remove: "obj_sorted m \<Longrightarrow> obj_sorted (obj_remove k m)"
  unfolding obj_sorted_def obj_remove_def sorted_wrt_map by (rule sorted_wrt_filter)

text \<open>What \<open>serde_json\<close> parses: every object is a map in key order.\<close>

fun json_wf :: "json \<Rightarrow> bool" where
  "json_wf (JObj m) \<longleftrightarrow> obj_sorted m \<and> (\<forall>kv \<in> set m. json_wf (snd kv))"
| "json_wf (JArr vs) \<longleftrightarrow> (\<forall>v \<in> set vs. json_wf v)"
| "json_wf _ \<longleftrightarrow> True"

lemma json_wf_get: "json_wf j \<Longrightarrow> json_get k j = Some v \<Longrightarrow> json_wf v"
  by (cases j) (auto simp: json_get_def dest!: map_of_SomeD)

subsection \<open>Which layer a key comes from\<close>

definition key_in :: "json \<Rightarrow> rstr \<Rightarrow> json option" where
  "key_in layer name = Option.bind (provider_in layer name) (json_get (lit ''api_key''))"

lemma json_get_simps [simp]:
  "json_get k (JObj m) = map_of m k" "json_get k (JStr s) = None" "json_get k (JArr vs) = None"
  "json_get k JNull = None" "json_get k (JBool b) = None" "json_get k (JInt i) = None"
  "json_get k (JFloat t) = None"
  by (simp_all add: json_get_def)

lemma json_get_Some: "json_get k j = Some v \<Longrightarrow> \<exists>m. j = JObj m \<and> map_of m k = Some v"
  by (cases j) simp_all

lemma merge_value_at_atom: "(\<forall>m. v \<noteq> JObj m) \<Longrightarrow> merge_value_at path e v = v"
  by (cases v) simp_all

lemma merge_value_at_JStr: "merge_value_at path e v = JStr s \<longleftrightarrow> v = JStr s"
  by (cases v; cases e) simp_all

lemma json_wf_distinct: "json_wf (JObj m) \<Longrightarrow> distinct (map fst m)"
  by (simp add: obj_sorted_distinct)

text \<open>A field of a merged object is the later layer's, merged with the earlier one's, or the earlier one's.\<close>

lemma merge_value_at_get:
  assumes "json_wf o'" and "k \<noteq> lit ''models'' \<or> length path \<noteq> 2" and "json_get k (merge_value_at path b o') = Some v"
  shows "(\<exists>w. json_get k o' = Some w \<and> (v = w \<or> (\<exists>e. json_get k b = Some e \<and> v = merge_value_at (path @ [k]) e w)))
       \<or> json_get k o' = None \<and> json_get k b = Some v"
proof (cases o')
  case (JObj ov)
  show ?thesis
  proof (cases b)
    case (JObj bm)
    note d = merge_fields_get [OF json_wf_distinct [OF assms(1) [unfolded \<open>o' = JObj ov\<close>]], of path bm k]
    show ?thesis using assms(2,3) \<open>o' = JObj ov\<close> JObj
      by (auto simp: d merged_field_def split: option.splits)
  qed (use assms \<open>o' = JObj ov\<close> in \<open>auto simp: merge_value_at_atom\<close>)
qed (use assms in \<open>auto simp: merge_value_at_atom\<close>)

lemma key_in_merge:
  assumes "json_wf o'" and "key_in (merge_value b o') name = Some k"
  shows "(\<exists>w. key_in o' name = Some w \<and> (k = w \<or> (\<exists>path e. k = merge_value_at path e w)))
       \<or> key_in o' name = None \<and> key_in b name = Some k"
proof -
  from assms(2) obtain ps p where
      ps: "json_get (lit ''providers'') (merge_value_at [] b o') = Some ps"
    and p: "json_get name ps = Some p" and k: "json_get (lit ''api_key'') p = Some k"
    by (auto simp: key_in_def provider_in_def merge_value_def bind_eq_Some_conv)
  have wf: "json_wf w" if "json_get (lit ''providers'') o' = Some w" for w
    using json_wf_get [OF assms(1) that] .
  have key: "k \<noteq> lit ''models'' \<or> length path \<noteq> 2" if "k = lit ''api_key''" for k and path :: "rstr list"
    using that by (simp add: lit_inj)
  consider (own) w where "json_get (lit ''providers'') o' = Some w" "ps = w"
    | (both) w e where "json_get (lit ''providers'') o' = Some w" "json_get (lit ''providers'') b = Some e"
        "ps = merge_value_at [lit ''providers''] e w"
    | (old) "json_get (lit ''providers'') o' = None" "json_get (lit ''providers'') b = Some ps"
    using merge_value_at_get [OF assms(1) _ ps] by (fastforce simp: lit_inj)
  then show ?thesis
  proof cases
    case own
    then show ?thesis using p k by (simp add: key_in_def provider_in_def)
  next
    case old
    then show ?thesis using p k by (simp add: key_in_def provider_in_def)
  next
    case both
    then have "json_get name (merge_value_at [lit ''providers''] e w) = Some p" using p by simp
    from merge_value_at_get [OF wf [OF both(1)] _ this]
    consider (own2) "json_get name w = Some p"
      | (both2) w' e' where "json_get name w = Some w'" "json_get name e = Some e'"
          "p = merge_value_at ([lit ''providers''] @ [name]) e' w'"
      | (old2) "json_get name w = None" "json_get name e = Some p"
      by auto
    then show ?thesis
    proof cases
      case own2
      then show ?thesis using both k by (simp add: key_in_def provider_in_def)
    next
      case old2
      then show ?thesis using both k by (simp add: key_in_def provider_in_def)
    next
      case both2
      have "json_wf w'" using json_wf_get [OF wf [OF both(1)] both2(1)] .
      from merge_value_at_get [OF this key [OF refl] k [unfolded both2(3)]]
      show ?thesis using both both2 by (auto simp: key_in_def provider_in_def)
    qed
  qed
qed

lemma json_wf_insert: "json_wf (JObj m) \<Longrightarrow> json_wf v \<Longrightarrow> json_wf (JObj (obj_insert k v m))"
  using set_obj_insert [of k v m] by (auto simp: obj_sorted_insert)

lemma json_wf_remove: "json_wf (JObj m) \<Longrightarrow> json_wf (JObj (obj_remove k m))"
  by (auto simp: obj_sorted_remove) (auto simp: obj_remove_def)

lemma read_optional_config_wf:
  assumes "\<forall>t j. ce_json5 E t = Inr j \<longrightarrow> json_wf j" and "read_optional_config E path = Inr (Some j)"
  shows "json_wf j"
proof -
  obtain t o' where o': "ce_json5 E t = Inr o'" and n: "normalize_legacy_thread_block path o' = Inr j"
    using assms(2) by (auto simp: read_optional_config_def split: file_read.splits if_splits)
  have wf: "json_wf o'" using assms(1) o' by blast
  show ?thesis
  proof (cases "\<exists>m v. o' = JObj m \<and> map_of m (lit ''thread'') = Some v")
    case True
    then obtain m v where m: "o' = JObj m" "map_of m (lit ''thread'') = Some v" by blast
    then have j: "j = JObj (obj_insert (lit ''session'') v (obj_remove (lit ''thread'') m))"
      using n by (simp add: normalize_legacy_thread_block_def split: if_splits)
    have "json_wf v" using wf m json_wf_get [of o' "lit ''thread''" v] by simp
    moreover have "json_wf (JObj (obj_remove (lit ''thread'') m))" using wf m json_wf_remove by blast
    ultimately show ?thesis unfolding j using json_wf_insert by blast
  next
    case False
    then show ?thesis using n wf
      by (auto simp: normalize_legacy_thread_block_def split: json.splits option.splits)
  qed
qed

lemma strip_trust_get: "k \<noteq> lit ''trust_repo_endpoint'' \<Longrightarrow> json_get k (strip_trust p) = json_get k p"
  by (cases p) (simp_all add: strip_trust_def map_of_obj_remove)

lemma json_wf_strip: "json_wf p \<Longrightarrow> json_wf (strip_trust p)"
  by (cases p) (simp_all add: strip_trust_def json_wf_remove del: json_wf.simps(1))

lemma map_of_map_value: "map_of (map (\<lambda>(n, p). (n, f p)) ps) k = map_option f (map_of ps k)"
  by (induction ps) auto

definition stripped :: "json \<Rightarrow> json" where
  "stripped layer = fst (take_workspace_trust_flags layer)"

lemma provider_in_stripped:
  "provider_in (stripped layer) name =
     (case json_get (lit ''providers'') layer of Some (JObj ps) \<Rightarrow> map_option strip_trust (map_of ps name)
      | _ \<Rightarrow> None)"
  by (cases layer)
     (auto simp: stripped_def take_workspace_trust_flags_def provider_in_def map_of_obj_insert map_of_map_value
        split: option.splits json.splits)

lemma provider_in_obj: "provider_in layer name = Some p \<Longrightarrow>
    \<exists>ps. json_get (lit ''providers'') layer = Some (JObj ps) \<and> map_of ps name = Some p"
  by (auto simp: provider_in_def bind_eq_Some_conv dest!: json_get_Some)

lemma provider_in_stripped_eq: "provider_in (stripped layer) name = map_option strip_trust (provider_in layer name)"
  unfolding provider_in_stripped
  by (cases "json_get (lit ''providers'') layer")
     (simp_all add: provider_in_def split: json.split)

lemma key_in_stripped: "key_in (stripped layer) name = key_in layer name"
  by (cases "provider_in layer name") (simp_all add: key_in_def provider_in_stripped_eq strip_trust_get lit_inj)

lemma json_wf_stripped: "json_wf layer \<Longrightarrow> json_wf (stripped layer)"
proof (cases "\<exists>m ps. layer = JObj m \<and> map_of m (lit ''providers'') = Some (JObj ps)")
  case True
  assume wf: "json_wf layer"
  from True obtain m ps where m: "layer = JObj m" "map_of m (lit ''providers'') = Some (JObj ps)" by blast
  have "json_wf (JObj ps)" using wf m json_wf_get [of layer "lit ''providers''"] by simp
  moreover have "obj_sorted (map (\<lambda>(n, p). (n, f p)) ps) = obj_sorted ps" for f :: "json \<Rightarrow> json"
    unfolding obj_sorted_def by (induction ps) auto
  ultimately have "json_wf (JObj (map (\<lambda>(n, p). (n, strip_trust p)) ps))"
    by (auto simp: json_wf_strip)
  with wf m show ?thesis
    by (auto simp: stripped_def take_workspace_trust_flags_def simp del: json_wf.simps
        intro!: json_wf_insert)
next
  case False
  then have "stripped layer = layer"
    by (auto simp: stripped_def take_workspace_trust_flags_def split: json.splits option.splits)
  then show "json_wf layer \<Longrightarrow> json_wf (stripped layer)" by simp
qed

lemma key_in_default: "key_in default_config name = None"
  by (simp add: default_config_def key_in_def provider_in_def json_obj_def map_of_obj_insert lit_inj)

text \<open>The forms the derived deserializer of \<open>SecretRef\<close> reads.\<close>

definition secret_forms :: "config_env \<Rightarrow> bool" where
  "secret_forms E \<longleftrightarrow> (\<forall>j s. ce_secret E j = Some (SecretLiteral s) \<longrightarrow> j = JStr s)
   \<and> (\<forall>j n. ce_secret E j = Some (SecretEnv n) \<longrightarrow> json_get (lit ''name'') j = Some (JStr n)
        \<and> (json_get (lit ''source'') j = Some (JStr (lit ''env''))
           \<or> json_get (lit ''source'') j = Some (JObj [(lit ''env'', JNull)])))"

lemma endpoint_fields_stripped: "endpoint_fields (strip_trust p) = endpoint_fields p"
  by (simp add: endpoint_fields_def strip_trust_get lit_inj)

lemma enforce_gated_passes:
  assumes "enforce_gated E ho merged trusted shown wp ps = Inr ()" and "(name, p) \<in> set ps"
    and "endpoint_fields p \<noteq> []" and "name \<notin> set trusted" and "provider_in merged name = Some q"
  shows "\<not> provider_holds_foreign_credential E (json_get (lit ''api_key'') p \<noteq> None) q ho name"
  using assms by (induction ps) (auto simp: Let_def split: if_splits option.splits)

lemma home_layer_cases:
  assumes "home_layer E home_path base = Inr (m, ho, trusted)"
  shows "ho = None \<and> m = base \<and> trusted = [] \<or> (\<exists>hp hl. home_path = Some hp \<and> read_optional_config E hp = Inr (Some hl)
     \<and> ho = Some (stripped hl) \<and> trusted = snd (take_workspace_trust_flags hl) \<and> m = merge_value base (stripped hl))"
  using assms by (auto simp: home_layer_def stripped_def case_prod_beta Let_def split: option.splits)

lemma workspace_layer_enforced:
  assumes "workspace_layer E home_path wp True (m, ho, trusted) = Inr merged"
    and "home_path \<noteq> Some wp" and "read_optional_config E wp = Inr (Some ws)"
  shows "merged = merge_value m (stripped ws)
    \<and> enforce_workspace_endpoint_trust E (stripped ws) ho merged trusted home_path wp = Inr ()"
  using assms by (auto simp: workspace_layer_def stripped_def Let_def)

text \<open>What the accepted layers say about the key that a workspace's endpoint receives.\<close>

lemma gate_keeps_keys:
  assumes "enforce_workspace_endpoint_trust E (stripped ws) ho merged trusted home_path wp = Inr ()"
    and p: "provider_in ws name = Some p" "endpoint_fields p \<noteq> []" and "name \<notin> set trusted"
    and k: "key_in merged name = Some k"
  shows "key_in ws name = None \<longrightarrow> (\<forall>h. ho = Some h \<longrightarrow> key_in h name = None)"
    and "\<not> env_reference_set E k"
proof -
  obtain q where q: "provider_in merged name = Some q" "json_get (lit ''api_key'') q = Some k"
    using k by (auto simp: key_in_def bind_eq_Some_conv)
  have ps': "provider_in (stripped ws) name = Some (strip_trust p)" using p by (simp add: provider_in_stripped_eq)
  from provider_in_obj [OF this] obtain ps where ps: "json_get (lit ''providers'') (stripped ws) = Some (JObj ps)"
    "map_of ps name = Some (strip_trust p)" by blast
  have "\<not> provider_holds_foreign_credential E (json_get (lit ''api_key'') (strip_trust p) \<noteq> None) q ho name"
    using assms(1) ps(1) map_of_SomeD [OF ps(2)] assms(4) q p(2)
    by (auto simp: enforce_workspace_endpoint_trust_def endpoint_fields_stripped dest: enforce_gated_passes)
  then have no: "\<not> provider_holds_foreign_credential E (key_in ws name \<noteq> None) q ho name"
    using p by (simp add: strip_trust_get lit_inj key_in_def)
  show "\<not> env_reference_set E k" using no q by (auto simp: provider_holds_foreign_credential_def Let_def split: if_splits)
  show "key_in ws name = None \<longrightarrow> (\<forall>h. ho = Some h \<longrightarrow> key_in h name = None)"
    using no by (auto simp: provider_holds_foreign_credential_def key_in_def Let_def bind_eq_Some_conv
        split: if_splits option.splits)
qed

subsection \<open>Properties\<close>


text \<open>
  The gate reads the source of a credential reference as a string, but the reference is
  also read from the object form of the same variant. A workspace file that writes
  \<open>source: {env: null}\<close> loads without any consent of the home file, its endpoint is the
  one in the merged configuration, and the key resolves to the environment's value.
\<close>

theorem env_source_object_passes_the_gate:
  assumes clone: "read_optional_config E wp = Inr (Some (JObj [(lit ''providers'', JObj [(name,
      JObj [(lit ''api_key'', key), (lit ''base_url'', JStr url)])])]))"
    and key: "key = JObj [(lit ''name'', JStr var), (lit ''source'', JObj [(lit ''env'', JNull)])]"
    and serde: "ce_secret E key = Some (SecretEnv var)" and var: "ce_env E var = Some v" "v \<noteq> []"
  shows "\<exists>merged. workspace_layer E None wp True (default_config, None, []) = Inr merged
    \<and> Option.bind (provider_in merged name) (json_get (lit ''base_url'')) = Some (JStr url)
    \<and> Option.bind (Option.bind (key_in merged name) (ce_secret E)) (resolve_secret E) = Some v"
proof -
  define layer where "layer = JObj [(lit ''providers'', JObj [(name, JObj [(lit ''api_key'', key), (lit ''base_url'', JStr url)])])]"
  have strip: "fst (take_workspace_trust_flags layer) = layer"
    by (simp add: layer_def take_workspace_trust_flags_def strip_trust_def obj_remove_def lit_inj)
  define merged where "merged = merge_value default_config layer"
  have provider: "provider_in merged name = Some (JObj [(lit ''api_key'', key), (lit ''base_url'', JStr url)])"
    unfolding merged_def layer_def
    by (simp add: provider_in_def merge_value_def default_config_def json_obj_def map_of_obj_insert lit_inj)
  have no_ref: "\<not> env_reference_set E key"
    by (simp add: key env_reference_set_def json_as_str_def lit_inj)
  have gate: "enforce_workspace_endpoint_trust E layer None merged [] None wp = Inr ()"
    using provider no_ref
    by (simp add: layer_def enforce_workspace_endpoint_trust_def provider_holds_foreign_credential_def Let_def)
  have "workspace_layer E None wp True (default_config, None, []) = Inr merged"
    using clone gate by (simp add: workspace_layer_def Let_def strip layer_def [symmetric] merged_def)
  then show ?thesis
    using provider serde var by (auto simp: key_in_def resolve_secret_def lit_inj)
qed

subsection \<open>Concrete layers\<close>

text \<open>
  A home file that holds a key for one provider, and a workspace file that sends another
  provider's requests, with a key of its own, to an endpoint of its choice.
\<close>

definition sample_secret :: "json \<Rightarrow> secret_ref option" where
  "sample_secret j =
     (case j of
        JStr s \<Rightarrow> Some (SecretLiteral s)
      | JObj m \<Rightarrow>
          (case (map_of m (lit ''source''), map_of m (lit ''name'')) of
             (Some src, Some (JStr name)) \<Rightarrow>
               if src = JStr (lit ''env'') \<or> src = JObj [(lit ''env'', JNull)] then Some (SecretEnv name) else None
           | _ \<Rightarrow> None)
      | _ \<Rightarrow> None)"

definition sample_home :: json where
  "sample_home = JObj [(lit ''providers'', JObj [(lit ''a'', JObj [(lit ''api_key'', JStr (lit ''home-key''))])])]"

definition sample_workspace :: json where
  "sample_workspace = JObj [(lit ''providers'', JObj [(lit ''b'', JObj [(lit ''api_key'', JStr (lit ''own'')),
     (lit ''base_url'', JStr (lit ''http://w''))])])]"

definition sample_app :: app_config where
  "sample_app = \<lparr>ac_version = 1, ac_default_model = [], ac_providers = JObj [], ac_database_path = lit ''d'',
     ac_verification = \<lparr>vc_argv = [lit ''true''], vc_cwd = lit ''.'', vc_timeout_ms = 1\<rparr>,
     ac_session = session_config_default\<rparr>"

definition sample_env :: config_env where
  "sample_env = \<lparr>ce_read = (\<lambda>p. FileText p),
     ce_json5 = (\<lambda>t. if t = join_path (lit ''/r'') CONFIG_RELATIVE_PATH then Inr sample_workspace else Inr sample_home),
     ce_env = (\<lambda>_. None), ce_app = (\<lambda>_. Inr sample_app), ce_secret = sample_secret\<rparr>"

lemma sample_wf: "json_wf sample_home" "json_wf sample_workspace"
  by (simp_all add: sample_home_def sample_workspace_def obj_sorted_def lit_def)

lemma sample_forms: "secret_forms sample_env"
  by (auto simp: secret_forms_def sample_env_def sample_secret_def split: json.splits option.splits if_splits)

lemma sample_paths: "join_path (lit ''/h'') CONFIG_RELATIVE_PATH \<noteq> join_path (lit ''/r'') CONFIG_RELATIVE_PATH"
  by (simp add: join_path_def CONFIG_RELATIVE_PATH_def path_absolute_def lit_def)

lemma sample_reads:
  "read_optional_config sample_env (join_path (lit ''/r'') CONFIG_RELATIVE_PATH) = Inr (Some sample_workspace)"
  "read_optional_config sample_env (join_path (lit ''/h'') CONFIG_RELATIVE_PATH) = Inr (Some sample_home)"
  using sample_paths
  by (simp_all add: read_optional_config_def sample_env_def json_is_object_def
      normalize_legacy_thread_block_def sample_workspace_def sample_home_def lit_inj)

lemma sample_flags: "take_workspace_trust_flags sample_home = (sample_home, [])"
    "take_workspace_trust_flags sample_workspace = (sample_workspace, [])"
  by (simp_all add: sample_home_def sample_workspace_def take_workspace_trust_flags_def strip_trust_def
      carries_trust_def obj_remove_def lit_inj)

definition sample_merged :: json where
  "sample_merged = merge_value (merge_value default_config sample_home) sample_workspace"

lemma sample_keys: "key_in sample_merged (lit ''b'') = Some (JStr (lit ''own''))"
    "provider_in sample_workspace (lit ''b'') = Some (JObj [(lit ''api_key'', JStr (lit ''own'')),
     (lit ''base_url'', JStr (lit ''http://w''))])"
  by (simp_all add: sample_merged_def key_in_def provider_in_def sample_workspace_def sample_home_def merge_value_def
      default_config_def json_obj_def map_of_obj_insert lit_inj)

lemma sample_loads: "load_with_home_inner sample_env (\<lambda>_. Inr ()) (lit ''/r'') (Some (lit ''/h'')) True
    = Inr (sample_app, (), sample_merged)"
proof -
  have "home_layer sample_env (Some (join_path (lit ''/h'') CONFIG_RELATIVE_PATH)) default_config
      = Inr (merge_value default_config sample_home, Some sample_home, [])"
    by (simp add: home_layer_def sample_reads sample_flags)
  moreover have "enforce_workspace_endpoint_trust sample_env sample_workspace (Some sample_home) sample_merged []
      (Some (join_path (lit ''/h'') CONFIG_RELATIVE_PATH)) (join_path (lit ''/r'') CONFIG_RELATIVE_PATH) = Inr ()"
    using sample_keys
    by (auto simp: enforce_workspace_endpoint_trust_def sample_workspace_def sample_home_def Let_def
        provider_holds_foreign_credential_def env_reference_set_def key_in_def bind_eq_Some_conv provider_in_def lit_inj
        split: option.splits)
  ultimately have "workspace_layer sample_env (Some (join_path (lit ''/h'') CONFIG_RELATIVE_PATH))
      (join_path (lit ''/r'') CONFIG_RELATIVE_PATH) True (merge_value default_config sample_home, Some sample_home, [])
      = Inr sample_merged"
    using sample_paths by (simp add: workspace_layer_def sample_reads sample_flags sample_merged_def)
  moreover have "validate_app_config sample_app = Inr ()"
    by (simp add: validate_app_config_def sample_app_def history_policy_validate_def session_policy_def
        session_config_default_def history_policy_default_def compaction_config_validate_def
        compaction_config_default_def Let_def)
  ultimately show ?thesis
    by (simp add: load_with_home_inner_def home_layer_def sample_reads sample_flags) (simp add: sample_env_def)
qed


definition sample_clone :: config_env where
  "sample_clone = sample_env\<lparr>ce_json5 := (\<lambda>_. Inr (JObj [(lit ''providers'', JObj [(lit ''b'',
      JObj [(lit ''api_key'', JObj [(lit ''name'', JStr (lit ''K'')), (lit ''source'', JObj [(lit ''env'', JNull)])]),
        (lit ''base_url'', JStr (lit ''http://w''))])])])), ce_env := (\<lambda>_. Some (lit ''ambient''))\<rparr>"

theorem env_source_object_passes_the_gate_witness:
  "\<exists>merged. workspace_layer sample_clone None (lit ''/r'') True (default_config, None, []) = Inr merged
    \<and> Option.bind (provider_in merged (lit ''b'')) (json_get (lit ''base_url'')) = Some (JStr (lit ''http://w''))
    \<and> Option.bind (Option.bind (key_in merged (lit ''b'')) (ce_secret sample_clone)) (resolve_secret sample_clone)
      = Some (lit ''ambient'')"
  by (rule env_source_object_passes_the_gate [OF _ refl, where var = "lit ''K''"])
     (simp_all add: sample_clone_def sample_env_def read_optional_config_def json_is_object_def
       normalize_legacy_thread_block_def sample_secret_def lit_inj, simp add: lit_def)

end
