(* ===== verification/Tool_Descriptors.thy ===== *)
theory Tool_Descriptors
  imports Rust_Text
begin

text \<open>
  The descriptors of the built-in tools in \<open>latte-engine/src/tools.rs\<close>: the record that the
  engine publishes and the provider registry puts on the wire, the description of each tool
  and the JSON schema of its input.
\<close>

subsection \<open>Descriptors\<close>

record tool_descriptor =
  td_name :: rstr
  td_description :: rstr
  td_input_schema :: json
  td_version :: nat
  td_effect :: rstr

definition tool_description :: "rstr \<Rightarrow> rstr" where
  "tool_description name = (
     if name = lit ''read_file'' then
        lit (''Read a UTF-8 text file inside the workspace. Returns {content, sha256, size, '' @
         ''modified_ns}, where `sha256` is the digest of the file as read. Keep that value: '' @
         ''editing or overwriting this path requires passing it back as `precondition`. Long '' @
         ''files are truncated to `max_output` bytes; a truncated read still reports the digest '' @
         ''of the whole file.'')
     else if name = lit ''list_directory'' then
        lit (''List the immediate entry names of one workspace directory, sorted, without '' @
         ''recursing. Returns {entries}. Use `search` to find content across the tree.'')
     else if name = lit ''search'' then
        lit (''Search workspace file contents line by line, honouring .gitignore. Returns {matches} '' @
         ''as `path:line:text` strings. `query` is a literal substring unless `regex` is true, '' @
         ''in which case it is a Rust regular expression. Results stop at `max_results` or '' @
         ''`max_output` bytes, whichever comes first.'')
     else if name = lit ''read_project_manifest'' then
        lit (''Read the workspace's dependency manifests (Cargo.toml, package.json, pyproject.toml, '' @
         ''go.mod) that exist at its root. Returns one entry per file found. Use this to learn '' @
         ''the language, dependencies, and toolchain before proposing changes.'')
     else if name = lit ''git_diff'' then
        lit (''Show the workspace's uncommitted changes as a unified diff against the Git index. '' @
         ''Returns an empty result when nothing is modified. Use it to review your own edits '' @
         ''before reporting them as complete.'')
     else if name = lit ''edit_file'' then
        lit (''Replace one exact span of an existing file. Call `read_file` on the same path first '' @
         ''and pass the `sha256` it returned as `precondition`; the edit is rejected as stale '' @
         ''if the file changed since that read. `before` must match the current contents '' @
         ''verbatim, including whitespace and indentation, and must occur exactly once '') @ [8212] @
         lit ('' the edit is rejected when it matches zero times or more than once, so widen '' @
         ''`before` with surrounding lines until it is unique. `after` replaces it and may be '' @
         ''empty to delete the span. Prefer this over `write_file` for changing part of a file: '' @
         ''it cannot silently discard content you did not read.'')
     else if name = lit ''write_file'' then
        lit (''Write a file's complete contents, replacing anything already there. To create a new '' @
         ''file, set `create_intent` to true and omit `precondition`; this fails if the path '' @
         ''already exists. To overwrite an existing file, leave `create_intent` false and pass '' @
         ''the `sha256` from a prior `read_file` as `precondition`. `content` becomes the '' @
         ''entire file, so an overwrite drops every line you did not include '') @ [8212] @
         lit ('' use `edit_file` for partial changes.'')
     else if name = lit ''process'' then
        lit (''Run a command inside the workspace under engine supervision. Prefer `argv`, an '' @
         ''argument vector executed directly with no shell, so no quoting or expansion applies. '' @
         ''`shell` runs a shell command line instead and is high-risk: it needs explicit policy '' @
         ''approval and should be reserved for pipelines and redirection that `argv` cannot '' @
         ''express. Output is captured up to `stdout_cap`/`stderr_cap` bytes and the process '' @
         ''group is terminated at `timeout_ms`. Returns the exit status with the captured '' @
         ''streams.'')
     else lit ''Engine-owned workspace operation.'')"

definition schema_fields :: "(string \<times> json) list \<Rightarrow> json" where
  "schema_fields kvs = json_obj (map (\<lambda>(k, v). (lit k, v)) kvs)"

abbreviation js_text :: "string \<Rightarrow> json" where
  "js_text s \<equiv> JStr (lit s)"

definition schema_path :: json where
  "schema_path = schema_fields [(''type'', js_text ''string''), (''minLength'', JInt 1), (''maxLength'', JInt 4096)]"

definition schema_range :: "int \<Rightarrow> int \<Rightarrow> json" where
  "schema_range lo hi = schema_fields [(''type'', js_text ''integer''), (''minimum'', JInt lo), (''maximum'', JInt hi)]"

definition schema_cap :: json where
  "schema_cap = schema_range 1 65536"

definition schema_digest :: json where
  "schema_digest = schema_fields [(''type'', js_text ''string''), (''pattern'', js_text ''^[0-9a-f]{64}$'')]"

definition schema_string :: json where
  "schema_string = schema_fields [(''type'', js_text ''string'')]"

definition schema_strings :: "int \<Rightarrow> json" where
  "schema_strings cap = schema_fields [(''type'', js_text ''string''), (''minLength'', JInt 1), (''maxLength'', JInt cap)]"

definition schema_anchor :: json where
  "schema_anchor = schema_fields [(''type'', js_text ''string''), (''minLength'', JInt 1)]"

definition schema_boolean :: json where
  "schema_boolean = schema_fields [(''type'', js_text ''boolean'')]"

definition required_names :: "string list \<Rightarrow> json" where
  "required_names ns = JArr (map js_text ns)"

definition one_of_required :: "string list \<Rightarrow> json" where
  "one_of_required ns = JArr (map (\<lambda>n. schema_fields [(''required'', required_names [n])]) ns)"

definition object_schema :: "string list \<Rightarrow> (string \<times> json) list \<Rightarrow> (string \<times> json) list \<Rightarrow> json" where
  "object_schema req properties choice = schema_fields
     ([(''type'', js_text ''object''), (''required'', required_names req), (''properties'', schema_fields properties)]
      @ choice @ [(''additionalProperties'', JBool False)])"

definition tool_schema :: "rstr \<Rightarrow> json" where
  "tool_schema name =
     (if name = lit ''read_file''
      then object_schema [''path''] [(''path'', schema_path), (''max_output'', schema_cap)] []
      else if name = lit ''list_directory''
      then object_schema [''path''] [(''path'', schema_path), (''max_entries'', schema_range 1 10000)] []
      else if name = lit ''search''
      then object_schema [''query''] [(''query'', schema_strings 4096), (''regex'', schema_boolean),
             (''max_results'', schema_range 1 10000), (''max_output'', schema_cap)] []
      else if name \<in> {lit ''read_project_manifest'', lit ''git_diff''}
      then object_schema [] [(''max_output'', schema_cap)] []
      else if name = lit ''edit_file''
      then object_schema [''path'', ''after'', ''precondition'']
             [(''path'', schema_path), (''before'', schema_anchor), (''anchor'', schema_anchor),
              (''after'', schema_string), (''precondition'', schema_digest)]
             [(''anyOf'', one_of_required [''before'', ''anchor''])]
      else if name = lit ''write_file''
      then object_schema [''path'', ''content'', ''create_intent'']
             [(''path'', schema_path), (''content'', schema_string), (''create_intent'', schema_boolean),
              (''precondition'', schema_digest)] []
      else if name = lit ''process''
      then object_schema []
             [(''argv'', schema_fields [(''type'', js_text ''array''), (''minItems'', JInt 1), (''maxItems'', JInt 256),
                (''items'', schema_strings 4096)]),
              (''shell'', schema_strings 16384), (''cwd'', schema_path),
              (''env'', schema_fields [(''type'', js_text ''object''), (''maxProperties'', JInt 128),
                (''additionalProperties'', schema_fields [(''type'', js_text ''string''), (''maxLength'', JInt 16384)])]),
              (''timeout_ms'', schema_range 1 600000), (''grace_ms'', schema_range 0 30000),
              (''stdout_cap'', schema_range 1 1048576), (''stderr_cap'', schema_range 1 1048576)]
             [(''oneOf'', one_of_required [''argv'', ''shell''])]
      else object_schema [] [] [])"

end
