(* ===== verification/Provider_Registry.thy ===== *)
theory Provider_Registry
  imports Complex_Main Provider_Types Utf8_Text Workspace_Config Tool_Descriptors
begin

text \<open>
  The provider registry of \<open>latte-headless/src/registry.rs\<close>: the validation of the
  configured providers, the catalogue of models, the table of wire names for the tools, the
  binding that pins a session to a provider, model and tool set, and the provider that
  speaks wire names outside and canonical names inside. The digest, the JSON and float
  texts, the debug rendering of strings and the HTTP client are arguments
  (\<open>registry_lib\<close>).
\<close>

subsection \<open>Configuration\<close>

datatype f64 = Finite rat | NonFinite

record model_options =
  mo_context_window :: "nat option"
  mo_reasoning_effort :: "rstr option"
  mo_temperature :: "f64 option"
  mo_max_tokens :: "nat option"

definition model_options_default :: model_options where
  "model_options_default = \<lparr>mo_context_window = None, mo_reasoning_effort = None,
     mo_temperature = None, mo_max_tokens = None\<rparr>"

record model_config =
  mc_name :: "rstr option"
  mc_options :: model_options

datatype chat_models = ModelIds "rstr list" | ConfiguredModels "(rstr \<times> model_config) list"

record provider_definition =
  pd_models :: chat_models
  pd_base_url :: "rstr option"
  pd_endpoint :: "rstr option"
  pd_api_key :: secret_ref
  pd_timeout_ms :: nat
  pd_max_attempts :: nat
  pd_temperature :: "f64 option"
  pd_max_tokens :: "nat option"
  pd_compatibility_input_request :: bool
  pd_streaming :: bool
  pd_headers :: "(rstr \<times> rstr) list"
  pd_aliases :: "(rstr \<times> rstr) list"

record provider_file =
  pf_version :: nat
  pf_default_model :: rstr
  pf_providers :: "(rstr \<times> provider_definition) list"

record registry_lib =
  rl_hex_digest :: "rstr \<Rightarrow> rstr"
  rl_json_text :: "json \<Rightarrow> rstr"
  rl_f64 :: "f64 \<Rightarrow> json"
  rl_debug :: "rstr \<Rightarrow> rstr"
  rl_client_error :: "nat \<Rightarrow> rstr option"

datatype registry_error =
    RegInvalid rstr
  | MissingSecret rstr
  | BindingMismatch rstr
  | RegProvider provider_error

fun registry_error_text :: "registry_error \<Rightarrow> rstr" where
  "registry_error_text (RegInvalid m) = lit ''invalid provider configuration: '' @ m"
| "registry_error_text (MissingSecret n) =
     lit ''provider secret environment variable '' @ n @ lit '' is missing or empty''"
| "registry_error_text (BindingMismatch m) = lit ''provider binding mismatch: '' @ m
     @ lit ''; start a new run or restore the original provider configuration''"
| "registry_error_text (RegProvider e) = provider_error_text e"

abbreviation reg_invalid :: "string \<Rightarrow> registry_error" where
  "reg_invalid msg \<equiv> RegInvalid (lit msg)"

subsection \<open>Models\<close>

fun model_ids :: "chat_models \<Rightarrow> rstr list" where
  "model_ids (ModelIds ms) = ms"
| "model_ids (ConfiguredModels ms) = map fst ms"

fun options_of_model :: "chat_models \<Rightarrow> rstr \<Rightarrow> model_options option" where
  "options_of_model (ModelIds ms) selected =
     (if selected \<in> set ms then Some model_options_default else None)"
| "options_of_model (ConfiguredModels ms) selected = map_option mc_options (map_of ms selected)"

fun name_of_model :: "chat_models \<Rightarrow> rstr \<Rightarrow> rstr option" where
  "name_of_model (ModelIds ms) selected = None"
| "name_of_model (ConfiguredModels ms) selected = Option.bind (map_of ms selected) mc_name"

fun configured_models :: "chat_models \<Rightarrow> (rstr \<times> model_config) list" where
  "configured_models (ModelIds ms) = []"
| "configured_models (ConfiguredModels ms) = ms"

definition available_models :: "provider_definition \<Rightarrow> rstr list" where
  "available_models d = model_ids (pd_models d)"

definition require_model :: "provider_definition \<Rightarrow> rstr \<Rightarrow> rstr \<Rightarrow> registry_error + unit" where
  "require_model d provider selected =
     (if selected \<in> set (available_models d) then Inr ()
      else Inl (RegInvalid (lit ''unknown model '' @ selected @ lit '' for provider '' @ provider)))"

definition credential_ref_id :: "secret_ref \<Rightarrow> rstr \<Rightarrow> rstr" where
  "credential_ref_id r provider_name =
     (case r of
        SecretLiteral _ \<Rightarrow> lit ''config:'' @ provider_name @ lit ''/api_key''
      | SecretEnv name \<Rightarrow> lit ''env:'' @ name)"

subsection \<open>Headers\<close>

definition SESSION_ID_PLACEHOLDER :: rstr where
  "SESSION_ID_PLACEHOLDER = lit ''${session_id}''"

function check_placeholders :: "registry_lib \<Rightarrow> rstr \<Rightarrow> rstr \<Rightarrow> registry_error + unit" where
  "check_placeholders R name rest =
     (case find_str (lit ''${'') rest of
        None \<Rightarrow> Inr ()
      | Some (_, from_start) \<Rightarrow>
          (case split_once 125 from_start of
             None \<Rightarrow> Inl (RegInvalid (lit ''header '' @ rl_debug R name @ lit '' has an unterminated placeholder''))
           | Some (inner, rest') \<Rightarrow>
               if inner @ [125] \<noteq> SESSION_ID_PLACEHOLDER
               then Inl (RegInvalid (lit ''header '' @ rl_debug R name @ lit '' uses unknown placeholder '' @ inner @ [125]
                      @ lit ''; only '' @ SESSION_ID_PLACEHOLDER @ lit '' is supported''))
               else check_placeholders R name rest'))"
  by pat_completeness auto

termination
proof (relation "measure (\<lambda>(R, name, rest). length rest)", goal_cases)
  case (2 R name rest x a b y c d)
  then have "length b \<le> length rest" using find_str_length [of "lit ''${''" rest a b] by auto
  moreover have "length d < length b" using 2 split_once_shorter [of 125 b c d] by simp
  ultimately show ?case by simp
qed simp

declare check_placeholders.simps [simp del]

definition validate_header :: "registry_lib \<Rightarrow> rstr \<times> rstr \<Rightarrow> registry_error + unit" where
  "validate_header R nv = (case nv of (name, value) \<Rightarrow>
     if name = [] \<or> \<not> list_all (\<lambda>c. is_ascii_alnum c \<or> c = 45 \<or> c = 95) name
     then Inl (RegInvalid (lit ''header name '' @ rl_debug R name
            @ lit '' must be non-empty and use only ASCII letters, digits, `-`, or `_`''))
     else if to_ascii_lowercase name \<in> set RESERVED_HEADERS
     then Inl (RegInvalid (lit ''header '' @ rl_debug R name
            @ lit '' is derived by the provider and cannot be configured''))
     else if list_ex (\<lambda>c. c < 32 \<or> c = 127) value
     then Inl (RegInvalid (lit ''header '' @ rl_debug R name @ lit '' value must not contain control characters''))
     else check_placeholders R name value)"

fun each_ok :: "('a \<Rightarrow> 'e + unit) \<Rightarrow> 'a list \<Rightarrow> 'e + unit" where
  "each_ok f [] = Inr ()"
| "each_ok f (x # xs) = bindE (f x) (\<lambda>_. each_ok f xs)"

lemma each_ok_Inr: "each_ok f xs = Inr u \<longleftrightarrow> (\<forall>x \<in> set xs. f x = Inr ())"
  by (induction xs) auto

definition validate_headers :: "registry_lib \<Rightarrow> (rstr \<times> rstr) list \<Rightarrow> registry_error + unit" where
  "validate_headers R headers = each_ok (validate_header R) headers"

subsection \<open>Validation\<close>

definition temperature_bad :: "f64 option \<Rightarrow> bool" where
  "temperature_bad t = (case t of None \<Rightarrow> False | Some NonFinite \<Rightarrow> True
     | Some (Finite q) \<Rightarrow> \<not> (0 \<le> q \<and> q \<le> 2))"

definition text_bad :: "nat \<Rightarrow> rstr \<Rightarrow> bool" where
  "text_bad cap s \<longleftrightarrow> trim s = [] \<or> utf8_len s > cap \<or> list_ex is_control s"

definition model_options_bad :: "model_config \<Rightarrow> bool" where
  "model_options_bad c \<longleftrightarrow>
     (let opts = mc_options c in
        mo_context_window opts = Some 0 \<or> mo_max_tokens opts = Some 0
      \<or> (case (mo_context_window opts, mo_max_tokens opts) of
           (Some w, Some m) \<Rightarrow> m \<ge> w | _ \<Rightarrow> False)
      \<or> temperature_bad (mo_temperature opts)
      \<or> (case mo_reasoning_effort opts of None \<Rightarrow> False | Some e \<Rightarrow> text_bad 64 e)
      \<or> (case mc_name c of None \<Rightarrow> False | Some n \<Rightarrow> text_bad 128 n))"

definition validate_provider :: "rstr \<times> provider_definition \<Rightarrow> registry_error + unit" where
  "validate_provider np = (case np of (name, p) \<Rightarrow>
     let ids = model_ids (pd_models p) in
     if ids = [] \<or> length ids > 256 \<or> list_ex (text_bad 1024) ids \<or> \<not> distinct ids
     then Inl (RegInvalid (lit ''provider '' @ name @ lit '' models must be unique, non-empty, and bounded''))
     else if (pd_base_url p \<noteq> None) = (pd_endpoint p \<noteq> None)
     then Inl (RegInvalid (lit ''provider '' @ name @ lit '' requires exactly one of base_url or endpoint''))
     else if pd_timeout_ms p = 0 \<or> pd_max_attempts p = 0 \<or> pd_max_attempts p > 10
     then Inl (RegInvalid (lit ''provider '' @ name @ lit '' timeout/attempts are out of range''))
     else if temperature_bad (pd_temperature p)
     then Inl (RegInvalid (lit ''provider '' @ name @ lit '' temperature must be between 0 and 2''))
     else case find (\<lambda>mc. model_options_bad (snd mc)) (configured_models (pd_models p)) of
       Some (model, _) \<Rightarrow>
         Inl (RegInvalid (lit ''provider '' @ name @ lit '' model '' @ model @ lit '' options are invalid''))
     | None \<Rightarrow> Inr ())"

definition registry_validate :: "provider_file \<Rightarrow> registry_error + unit" where
  "registry_validate c =
     (if pf_version c \<noteq> 1 then Inl (reg_invalid ''version must be 1'')
      else if pf_default_model c = [] \<and> pf_providers c = [] then Inr ()
      else if list_ex (\<lambda>(name, _). trim name = []) (pf_providers c)
      then Inl (reg_invalid ''provider names must not be empty'')
      else case split_once 47 (pf_default_model c) of
        None \<Rightarrow> Inl (reg_invalid ''default_model must use provider/model format'')
      | Some (provider, model) \<Rightarrow>
          if trim provider = [] \<or> trim model = [] \<or> utf8_len (pf_default_model c) > 2048
             \<or> list_ex is_control (pf_default_model c)
          then Inl (RegInvalid (lit (''default_model provider/model must be non-empty, bounded, '' @
                 ''and contain no controls'')))
          else case map_of (pf_providers c) provider of
            None \<Rightarrow> Inl (reg_invalid ''default_model provider must name a configured provider'')
          | Some d \<Rightarrow>
              if model \<notin> set (available_models d)
              then Inl (reg_invalid ''default_model model must be configured for its provider'')
              else each_ok validate_provider (pf_providers c))"

text \<open>
  \<open>parse_jsonc\<close>: the sections that belong to the application are removed before the strict
  schema reads the rest. The JSON5 parser and the derived deserializer are arguments.
\<close>

definition parse_jsonc :: "(rstr \<Rightarrow> rstr + json) \<Rightarrow> (json \<Rightarrow> rstr + provider_file) \<Rightarrow> rstr
    \<Rightarrow> registry_error + provider_file" where
  "parse_jsonc json5 schema t =
     bindE (map_err RegInvalid (json5 t)) (\<lambda>value.
     let value = (case value of
           JObj m \<Rightarrow> JObj (obj_remove (lit ''session'') (obj_remove (lit ''verification'')
             (obj_remove (lit ''database'') m)))
         | _ \<Rightarrow> value)
     in bindE (map_err RegInvalid (schema value)) (\<lambda>config.
     bindE (registry_validate config) (\<lambda>_. Inr config)))"

subsection \<open>Catalogue\<close>

definition default_selection :: "provider_file \<Rightarrow> registry_error + rstr \<times> rstr" where
  "default_selection c =
     ok_or (reg_invalid ''default_model must be configured as provider/model before provider use'')
       (split_once 47 (pf_default_model c))"

definition default_of :: "provider_file \<Rightarrow> (rstr \<times> rstr) option" where
  "default_of c = (case default_selection c of Inr d \<Rightarrow> Some d | Inl _ \<Rightarrow> None)"

definition default_name :: "provider_file \<Rightarrow> rstr option" where
  "default_name c = map_option fst (default_of c)"

definition default_model :: "provider_file \<Rightarrow> rstr option" where
  "default_model c = map_option snd (default_of c)"

record model_entry =
  me_provider_name :: rstr
  me_model :: rstr
  me_name :: "rstr option"
  me_is_default :: bool

text \<open>The default model of the default provider moves to the front of its provider's models.\<close>

definition models_in_order :: "(rstr \<times> rstr) option \<Rightarrow> rstr \<Rightarrow> provider_definition \<Rightarrow> rstr list" where
  "models_in_order chosen provider_name d =
     (case chosen of
        None \<Rightarrow> available_models d
      | Some (default_provider, selected) \<Rightarrow>
          if provider_name = default_provider \<and> selected \<in> set (available_models d)
          then selected # remove1 selected (available_models d)
          else available_models d)"

definition provider_entries :: "(rstr \<times> rstr) option \<Rightarrow> rstr \<times> provider_definition \<Rightarrow> model_entry list" where
  "provider_entries chosen np = (case np of (provider_name, d) \<Rightarrow>
     map (\<lambda>model. \<lparr>me_provider_name = provider_name, me_model = model,
            me_name = name_of_model (pd_models d) model,
            me_is_default = (chosen = Some (provider_name, model))\<rparr>)
       (models_in_order chosen provider_name d))"

definition model_catalog :: "provider_file \<Rightarrow> model_entry list" where
  "model_catalog c = concat (map (provider_entries (default_of c)) (pf_providers c))"

definition model_context_window :: "provider_file \<Rightarrow> rstr \<Rightarrow> rstr \<Rightarrow> nat option" where
  "model_context_window c provider model =
     Option.bind (map_of (pf_providers c) provider) (\<lambda>d.
     Option.bind (options_of_model (pd_models d) model) mo_context_window)"

end
