(* ===== verification/Provider_Binding.thy ===== *)
theory Provider_Binding
  imports Provider_Registry
begin

text \<open>
  The bindings of \<open>latte-headless/src/registry.rs\<close>: the wire names of the tools, the
  fingerprints, the binding of a session, its comparison with the configuration of today,
  and the provider that translates tool names in both directions.
\<close>

subsection \<open>Wire names\<close>

definition MAX_ALIAS_BYTES :: nat where
  "MAX_ALIAS_BYTES = 64"

definition valid_wire_name :: "rstr \<Rightarrow> bool" where
  "valid_wire_name name \<longleftrightarrow> name \<noteq> [] \<and> utf8_len name \<le> MAX_ALIAS_BYTES
     \<and> list_all (\<lambda>c. is_ascii_alnum c \<or> c = 95 \<or> c = 45) name"

definition deterministic_alias :: "registry_lib \<Rightarrow> rstr \<Rightarrow> rstr" where
  "deterministic_alias R name =
     (if valid_wire_name name then name else lit ''tool_'' @ take 16 (rl_hex_digest R name))"

definition alias_for :: "registry_lib \<Rightarrow> (rstr \<times> rstr) list \<Rightarrow> rstr \<Rightarrow> rstr" where
  "alias_for R configured name =
     (case map_of configured name of Some a \<Rightarrow> a | None \<Rightarrow> deterministic_alias R name)"

fun alias_table :: "registry_lib \<Rightarrow> (rstr \<times> rstr) list \<Rightarrow> rstr set \<Rightarrow> (rstr \<times> rstr) list
    \<Rightarrow> tool_descriptor list \<Rightarrow> registry_error + (rstr \<times> rstr) list" where
  "alias_table R configured wire table [] = Inr table"
| "alias_table R configured wire table (t # ts) =
     (let a = alias_for R configured (td_name t) in
      if \<not> valid_wire_name a \<or> a \<in> wire
      then Inl (RegInvalid (lit ''tool alias collision or invalid alias: '' @ a))
      else alias_table R configured (insert a wire) (obj_insert (td_name t) a table) ts)"

definition tool_aliases :: "registry_lib \<Rightarrow> tool_descriptor list \<Rightarrow> (rstr \<times> rstr) list
    \<Rightarrow> registry_error + (rstr \<times> rstr) list" where
  "tool_aliases R tools configured =
     (if list_ex (\<lambda>(n, _). n \<notin> set (map td_name tools)) configured
      then Inl (reg_invalid ''alias references an unknown canonical tool'')
      else alias_table R configured {} [] tools)"

subsection \<open>Fingerprints\<close>

definition fingerprint :: "registry_lib \<Rightarrow> json \<Rightarrow> rstr" where
  "fingerprint R j = rl_hex_digest R (rl_json_text R j)"

definition text_map_json :: "(rstr \<times> rstr) list \<Rightarrow> json" where
  "text_map_json m = json_obj (map (\<lambda>(k, v). (k, JStr v)) m)"

definition tool_descriptor_json :: "tool_descriptor \<Rightarrow> json" where
  "tool_descriptor_json t = json_obj [(lit ''name'', JStr (td_name t)),
     (lit ''description'', JStr (td_description t)), (lit ''input_schema'', td_input_schema t),
     (lit ''version'', JInt (int (td_version t))), (lit ''effect'', JStr (td_effect t))]"

text \<open>\<open>sort_by\<close> on the tool names, which is stable.\<close>

fun insert_tool :: "tool_descriptor \<Rightarrow> tool_descriptor list \<Rightarrow> tool_descriptor list" where
  "insert_tool t [] = [t]"
| "insert_tool t (u # us) =
     (if rstr_less (td_name u) (td_name t) then u # insert_tool t us else t # u # us)"

definition sort_tools :: "tool_descriptor list \<Rightarrow> tool_descriptor list" where
  "sort_tools ts = foldr insert_tool ts []"

definition canonical_tools :: "tool_descriptor list \<Rightarrow> (rstr \<times> rstr) list \<Rightarrow> json" where
  "canonical_tools tools aliases = json_obj [(lit ''version'', JInt 1),
     (lit ''tools'', JArr (map tool_descriptor_json (sort_tools tools))), (lit ''aliases'', text_map_json aliases)]"

definition underscores_to_spaces :: "rstr \<Rightarrow> rstr" where
  "underscores_to_spaces s = map (\<lambda>c. if c = 95 then 32 else c) s"

definition legacy_placeholder_tools_fingerprint ::
  "registry_lib \<Rightarrow> tool_descriptor list \<Rightarrow> (rstr \<times> rstr) list \<Rightarrow> rstr" where
  "legacy_placeholder_tools_fingerprint R tools aliases =
     fingerprint R (canonical_tools
       (map (\<lambda>t. t\<lparr>td_description :=
          lit ''Engine-owned '' @ underscores_to_spaces (td_name t) @ lit '' operation''\<rparr>) tools) aliases)"

definition opt_field :: "string \<Rightarrow> ('a \<Rightarrow> json) \<Rightarrow> 'a option \<Rightarrow> (rstr \<times> json) list" where
  "opt_field k f v = (case v of None \<Rightarrow> [] | Some x \<Rightarrow> [(lit k, f x)])"

definition model_options_json :: "registry_lib \<Rightarrow> model_options \<Rightarrow> json" where
  "model_options_json R m = json_obj
     (opt_field ''context_window'' (\<lambda>n. JInt (int n)) (mo_context_window m)
      @ opt_field ''reasoning_effort'' JStr (mo_reasoning_effort m)
      @ opt_field ''temperature'' (rl_f64 R) (mo_temperature m)
      @ opt_field ''max_tokens'' (\<lambda>n. JInt (int n)) (mo_max_tokens m))"

text \<open>
  The definition as it is fingerprinted for one model: without the credential and the other
  models; empty headers are omitted.
\<close>

definition semantic_definition_for_model ::
  "registry_lib \<Rightarrow> provider_definition \<Rightarrow> rstr \<Rightarrow> registry_error + json" where
  "semantic_definition_for_model R d selected =
     (case options_of_model (pd_models d) selected of
        None \<Rightarrow> Inl (RegInvalid (lit ''unknown model '' @ selected))
      | Some opts \<Rightarrow> Inr (json_obj [(lit ''version'', JInt 1), (lit ''provider'', json_obj
          ([(lit ''type'', JStr (lit ''openai-chat'')),
            (lit ''base_url'', json_opt JStr (pd_base_url d)), (lit ''endpoint'', json_opt JStr (pd_endpoint d)),
            (lit ''timeout_ms'', JInt (int (pd_timeout_ms d))), (lit ''max_attempts'', JInt (int (pd_max_attempts d))),
            (lit ''temperature'', json_opt (rl_f64 R) (pd_temperature d)),
            (lit ''max_tokens'', json_opt (\<lambda>n. JInt (int n)) (pd_max_tokens d)),
            (lit ''compatibility_input_request'', JBool (pd_compatibility_input_request d)),
            (lit ''streaming'', JBool (pd_streaming d)), (lit ''aliases'', text_map_json (pd_aliases d)),
            (lit ''model'', JStr selected), (lit ''model_options'', model_options_json R opts)]
           @ (if pd_headers d = [] then [] else [(lit ''headers'', text_map_json (pd_headers d))])))]))"

subsection \<open>Bindings\<close>

record provider_binding =
  bi_version :: nat
  bi_provider_name :: rstr
  bi_provider_type :: rstr
  bi_protocol :: rstr
  bi_model :: rstr
  bi_config_fingerprint :: rstr
  bi_tools_fingerprint :: rstr
  bi_aliases :: "(rstr \<times> rstr) list"

definition BINDING_VERSION :: nat where
  "BINDING_VERSION = 1"

definition binding_for_model :: "registry_lib \<Rightarrow> rstr \<Rightarrow> provider_definition \<Rightarrow> rstr
    \<Rightarrow> tool_descriptor list \<Rightarrow> registry_error + provider_binding" where
  "binding_for_model R name d selected tools =
     bindE (tool_aliases R tools (pd_aliases d)) (\<lambda>table.
     bindE (semantic_definition_for_model R d selected) (\<lambda>semantic.
     Inr \<lparr>bi_version = BINDING_VERSION, bi_provider_name = name, bi_provider_type = lit ''openai-chat'',
       bi_protocol = lit ''openai-chat-completions-v1'', bi_model = selected,
       bi_config_fingerprint = fingerprint R semantic,
       bi_tools_fingerprint = fingerprint R (canonical_tools tools table), bi_aliases = table\<rparr>))"

definition with_session_scope :: "provider_binding \<Rightarrow> rstr \<Rightarrow> rstr \<Rightarrow> nat \<Rightarrow> session_provider_binding" where
  "with_session_scope b credential scope generation =
     \<lparr>pb_version = bi_version b, pb_provider_name = bi_provider_name b, pb_provider_type = bi_provider_type b,
      pb_protocol = bi_protocol b, pb_model = bi_model b, pb_config_fingerprint = bi_config_fingerprint b,
      pb_tools_fingerprint = bi_tools_fingerprint b, pb_aliases = bi_aliases b,
      pb_credential_ref_id = credential, pb_data_scope_id = scope, pb_credential_generation = generation\<rparr>"

definition lookup_provider :: "provider_file \<Rightarrow> rstr \<Rightarrow> registry_error + provider_definition" where
  "lookup_provider c name =
     ok_or (RegInvalid (lit ''unknown provider '' @ name)) (map_of (pf_providers c) name)"

definition session_binding_for_model :: "registry_lib \<Rightarrow> provider_file \<Rightarrow> rstr \<Rightarrow> rstr
    \<Rightarrow> tool_descriptor list \<Rightarrow> registry_error + session_provider_binding" where
  "session_binding_for_model R c name model tools =
     bindE (lookup_provider c name) (\<lambda>d.
     bindE (require_model d name model) (\<lambda>_.
     bindE (binding_for_model R name d model tools) (\<lambda>b.
     let result = with_session_scope b (credential_ref_id (pd_api_key d) name) (lit ''workspace'') 1 in
     bindE (map_err RegInvalid (binding_validate result)) (\<lambda>_. Inr result))))"

definition session_binding_for_default ::
  "registry_lib \<Rightarrow> provider_file \<Rightarrow> tool_descriptor list \<Rightarrow> registry_error + session_provider_binding" where
  "session_binding_for_default R c tools =
     bindE (default_selection c) (\<lambda>(provider, model). session_binding_for_model R c provider model tools)"

record binding_entry =
  be_entry :: model_entry
  be_binding :: session_provider_binding

definition session_binding_catalog ::
  "registry_lib \<Rightarrow> provider_file \<Rightarrow> tool_descriptor list \<Rightarrow> registry_error + binding_entry list" where
  "session_binding_catalog R c tools =
     traverse (\<lambda>e. bindE (session_binding_for_model R c (me_provider_name e) (me_model e) tools)
       (\<lambda>b. Inr \<lparr>be_entry = e, be_binding = b\<rparr>)) (model_catalog c)"

definition binding_matches_with_legacy_tools ::
  "session_provider_binding \<Rightarrow> session_provider_binding \<Rightarrow> rstr \<Rightarrow> bool" where
  "binding_matches_with_legacy_tools stored proposed legacy \<longleftrightarrow>
     pb_version stored = pb_version proposed \<and> pb_provider_name stored = pb_provider_name proposed
   \<and> pb_provider_type stored = pb_provider_type proposed \<and> pb_protocol stored = pb_protocol proposed
   \<and> pb_model stored = pb_model proposed \<and> pb_config_fingerprint stored = pb_config_fingerprint proposed
   \<and> pb_credential_ref_id stored = pb_credential_ref_id proposed
   \<and> pb_data_scope_id stored = pb_data_scope_id proposed
   \<and> pb_credential_generation stored = pb_credential_generation proposed
   \<and> pb_aliases stored = pb_aliases proposed
   \<and> (pb_tools_fingerprint stored = pb_tools_fingerprint proposed \<or> pb_tools_fingerprint stored = legacy)"

subsection \<open>Resolution\<close>

record openai_provider =
  op_endpoint :: rstr
  op_model :: rstr
  op_api_key :: rstr
  op_timeout_ms :: nat
  op_max_attempts :: nat
  op_temperature :: "f64 option"
  op_max_tokens :: "nat option"
  op_reasoning_effort :: "rstr option"
  op_compatibility_input_request :: bool
  op_streaming :: bool
  op_headers :: "(rstr \<times> rstr) list"

record aliased_provider =
  ap_inner :: openai_provider
  ap_forward :: "(rstr \<times> rstr) list"
  ap_reverse :: "(rstr \<times> rstr) list"

record resolved_provider =
  rp_provider :: aliased_provider
  rp_binding :: provider_binding

definition resolve_key :: "config_env \<Rightarrow> secret_ref \<Rightarrow> registry_error + rstr" where
  "resolve_key E r =
     (case r of
        SecretLiteral v \<Rightarrow>
          if v = [] then Inl (reg_invalid ''provider inline api_key must not be empty'') else Inr v
      | SecretEnv name \<Rightarrow> (case ce_env E name of
            None \<Rightarrow> Inl (MissingSecret name)
          | Some v \<Rightarrow> if v = [] then Inl (MissingSecret name) else Inr v))"

definition trim_end_slashes :: "rstr \<Rightarrow> rstr" where
  "trim_end_slashes s = rev (dropWhile (\<lambda>c. c = 47) (rev s))"

definition or_else :: "'a option \<Rightarrow> 'a option \<Rightarrow> 'a option" where
  "or_else a b = (case a of None \<Rightarrow> b | Some x \<Rightarrow> Some x)"

definition reverse_table :: "(rstr \<times> rstr) list \<Rightarrow> (rstr \<times> rstr) list" where
  "reverse_table m = foldl (\<lambda>r (canonical, wire). obj_insert wire canonical r) [] m"

text \<open>
  \<open>base_url.as_deref().unwrap()\<close> is reached when neither an endpoint nor a base URL is
  configured, which \<open>validate_provider\<close> excludes; the panic is \<open>None\<close>.
\<close>

definition endpoint_of :: "provider_definition \<Rightarrow> rstr option" where
  "endpoint_of d =
     (case pd_endpoint d of
        Some e \<Rightarrow> Some e
      | None \<Rightarrow> map_option (\<lambda>b. trim_end_slashes b @ lit ''/chat/completions'') (pd_base_url d))"

definition resolve_model :: "registry_lib \<Rightarrow> config_env \<Rightarrow> provider_file \<Rightarrow> rstr \<Rightarrow> rstr
    \<Rightarrow> tool_descriptor list \<Rightarrow> (registry_error + resolved_provider) option" where
  "resolve_model R E c name selected tools =
     (case bindE (lookup_provider c name) (\<lambda>d. bindE (require_model d name selected) (\<lambda>_.
        bindE (ok_or (RegInvalid (lit ''unknown model '' @ selected @ lit '' for provider '' @ name))
                 (options_of_model (pd_models d) selected)) (\<lambda>opts.
        bindE (resolve_key E (pd_api_key d)) (\<lambda>key. Inr (d, opts, key))))) of
        Inl e \<Rightarrow> Some (Inl e)
      | Inr (d, opts, key) \<Rightarrow>
          map_option (\<lambda>endpoint.
            bindE (binding_for_model R name d selected tools) (\<lambda>binding.
            bindE (validate_headers R (pd_headers d)) (\<lambda>_.
            case rl_client_error R (pd_timeout_ms d) of
              Some e \<Rightarrow> Inl (RegProvider (Transport e))
            | None \<Rightarrow> Inr \<lparr>rp_provider = \<lparr>
                 ap_inner = \<lparr>op_endpoint = endpoint, op_model = selected, op_api_key = key,
                   op_timeout_ms = pd_timeout_ms d, op_max_attempts = max (pd_max_attempts d) 1,
                   op_temperature = or_else (mo_temperature opts) (pd_temperature d),
                   op_max_tokens = or_else (mo_max_tokens opts) (pd_max_tokens d),
                   op_reasoning_effort = mo_reasoning_effort opts,
                   op_compatibility_input_request = pd_compatibility_input_request d,
                   op_streaming = pd_streaming d, op_headers = with_headers (pd_headers d)\<rparr>,
                 ap_forward = bi_aliases binding, ap_reverse = reverse_table (bi_aliases binding)\<rparr>,
               rp_binding = binding\<rparr>))) (endpoint_of d))"

definition resolve_default :: "registry_lib \<Rightarrow> config_env \<Rightarrow> provider_file \<Rightarrow> tool_descriptor list
    \<Rightarrow> (registry_error + resolved_provider) option" where
  "resolve_default R E c tools =
     (case default_selection c of
        Inl e \<Rightarrow> Some (Inl e)
      | Inr (provider, model) \<Rightarrow> resolve_model R E c provider model tools)"

definition pinned_definition :: "provider_file \<Rightarrow> rstr \<Rightarrow> rstr \<Rightarrow> registry_error + provider_definition" where
  "pinned_definition c name model =
     bindE (ok_or (BindingMismatch (lit ''pinned provider is no longer configured''))
       (map_of (pf_providers c) name)) (\<lambda>d.
     if require_model d name model \<noteq> Inr ()
     then Inl (BindingMismatch (lit ''pinned model is no longer configured for its provider''))
     else Inr d)"

definition resolve_bound :: "registry_lib \<Rightarrow> config_env \<Rightarrow> provider_file \<Rightarrow> provider_binding
    \<Rightarrow> tool_descriptor list \<Rightarrow> (registry_error + resolved_provider) option" where
  "resolve_bound R E c b tools =
     (case pinned_definition c (bi_provider_name b) (bi_model b) of
        Inl e \<Rightarrow> Some (Inl e)
      | Inr _ \<Rightarrow> map_option (\<lambda>r. bindE r (\<lambda>resolved.
          if rp_binding resolved \<noteq> b
          then Inl (BindingMismatch (lit ''semantic provider or tool configuration changed''))
          else Inr resolved)) (resolve_model R E c (bi_provider_name b) (bi_model b) tools))"

definition resolve_session_bound :: "registry_lib \<Rightarrow> config_env \<Rightarrow> provider_file \<Rightarrow> session_provider_binding
    \<Rightarrow> tool_descriptor list \<Rightarrow> (registry_error + resolved_provider) option" where
  "resolve_session_bound R E c b tools =
     (case bindE (pinned_definition c (pb_provider_name b) (pb_model b)) (\<lambda>_.
        bindE (session_binding_for_model R c (pb_provider_name b) (pb_model b) tools) (\<lambda>proposed.
        if \<not> binding_matches_with_legacy_tools b proposed
               (legacy_placeholder_tools_fingerprint R tools (pb_aliases proposed))
        then Inl (BindingMismatch (lit (''provider binding, aliases, credential reference/generation, '' @
               ''or data scope changed'')))
        else Inr ())) of
        Inl e \<Rightarrow> Some (Inl e)
      | Inr _ \<Rightarrow> resolve_model R E c (pb_provider_name b) (pb_model b) tools)"

subsection \<open>The aliased provider\<close>

record provider_request =
  rq_messages :: "message list"
  rq_tools :: "tool_descriptor list"
  rq_session_ref :: rstr

definition rename_or :: "string \<Rightarrow> (rstr \<times> rstr) list \<Rightarrow> rstr \<Rightarrow> provider_error + rstr" where
  "rename_or msg table name = ok_or (malformed msg) (map_of table name)"

definition rename_call :: "string \<Rightarrow> (rstr \<times> rstr) list \<Rightarrow> tool_call \<Rightarrow> provider_error + tool_call" where
  "rename_call msg table call =
     bindE (rename_or msg table (tc_name call)) (\<lambda>n. Inr (call\<lparr>tc_name := n\<rparr>))"

fun lower_message :: "(rstr \<times> rstr) list \<Rightarrow> message \<Rightarrow> provider_error + message" where
  "lower_message forward (Assistant content calls) =
     bindE (traverse (rename_call ''historical tool call is not in the pinned binding'' forward) calls)
       (\<lambda>calls. Inr (Assistant content calls))"
| "lower_message forward (Tool i (Some name) content) =
     bindE (rename_or ''historical tool result is not in the pinned binding'' forward name)
       (\<lambda>n. Inr (Tool i (Some n) content))"
| "lower_message forward m = Inr m"

definition lower_request :: "(rstr \<times> rstr) list \<Rightarrow> provider_request \<Rightarrow> provider_error + provider_request" where
  "lower_request forward r =
     bindE (traverse (\<lambda>t. bindE (rename_or ''tool binding does not contain a declaration'' forward (td_name t))
       (\<lambda>n. Inr (t\<lparr>td_name := n\<rparr>))) (rq_tools r)) (\<lambda>tools.
     bindE (traverse (lower_message forward) (rq_messages r)) (\<lambda>messages.
     Inr (r\<lparr>rq_messages := messages, rq_tools := tools\<rparr>)))"

definition raise_calls :: "(rstr \<times> rstr) list \<Rightarrow> tool_call list \<Rightarrow> provider_error + tool_call list" where
  "raise_calls reverse calls = traverse (rename_call ''provider returned an unknown tool alias'' reverse) calls"

definition aliased_complete :: "aliased_provider
    \<Rightarrow> (openai_provider \<Rightarrow> provider_request \<Rightarrow> provider_error + provider_response)
    \<Rightarrow> provider_request \<Rightarrow> provider_error + provider_response" where
  "aliased_complete p inner request =
     bindE (lower_request (ap_forward p) request) (\<lambda>lowered.
     bindE (inner (ap_inner p) lowered) (\<lambda>outcome.
     bindE (raise_calls (ap_reverse p) (pr_tool_calls outcome)) (\<lambda>calls.
     Inr (outcome\<lparr>pr_tool_calls := calls\<rparr>))))"

end
