(* ===== verification/Registry_Properties.thy ===== *)
theory Registry_Properties
  imports Registry_Facts
begin

text \<open>
  The properties of the provider registry and of the configuration that carries it.
\<close>

subsection \<open>Catalogue\<close>

lemma split_once_parts: "split_once d s = Some (a, b) \<Longrightarrow> s = a @ d # b"
  by (induction s arbitrary: a) (auto split: if_splits)

lemma registry_validate_providers:
  assumes "registry_validate c = Inr ()" and "pf_providers c \<noteq> []"
  shows "\<exists>p m d. split_once 47 (pf_default_model c) = Some (p, m) \<and> map_of (pf_providers c) p = Some d
      \<and> m \<in> set (available_models d)"
    and "np \<in> set (pf_providers c) \<Longrightarrow> validate_provider np = Inr ()"
  using assms by (auto simp: registry_validate_def each_ok_Inr split: if_splits option.splits)

lemma validate_provider_models:
  assumes "validate_provider (name, d) = Inr ()"
  shows "distinct (available_models d)"
    and "mc \<in> set (configured_models (pd_models d)) \<Longrightarrow> \<not> model_options_bad (snd mc)"
proof -
  have "distinct (available_models d)
      \<and> find (\<lambda>mc. model_options_bad (snd mc)) (configured_models (pd_models d)) = None"
    using assms by (auto simp: validate_provider_def available_models_def Let_def split: if_splits option.splits)
  then show "distinct (available_models d)"
    and "mc \<in> set (configured_models (pd_models d)) \<Longrightarrow> \<not> model_options_bad (snd mc)"
    unfolding find_None_iff by blast+
qed

lemma insert_remove1: "x \<in> set xs \<Longrightarrow> insert x (set (remove1 x xs)) = set xs"
  by (induction xs) auto

lemma models_in_order_set: "set (models_in_order chosen p d) = set (available_models d)"
  by (auto simp: models_in_order_def insert_remove1 split: option.split prod.split)

lemma models_in_order_distinct: "distinct (available_models d) \<Longrightarrow> distinct (models_in_order chosen p d)"
  by (cases chosen) (auto simp: models_in_order_def)

lemma provider_entries_pairs:
  "map (\<lambda>e. (me_provider_name e, me_model e)) (provider_entries chosen (p, d))
     = map (Pair p) (models_in_order chosen p d)"
  by (simp add: provider_entries_def comp_def)

definition entry_pair :: "model_entry \<Rightarrow> rstr \<times> rstr" where
  "entry_pair e = (me_provider_name e, me_model e)"

lemma catalog_pairs:
  "map entry_pair (model_catalog c)
     = concat (map (\<lambda>(p, d). map (Pair p) (models_in_order (default_of c) p d)) (pf_providers c))"
  unfolding model_catalog_def map_concat
  by (auto simp: entry_pair_def provider_entries_def comp_def intro!: arg_cong [where f = concat])

lemma distinct_pairs:
  "distinct (map fst ps) \<Longrightarrow> \<forall>(p, d) \<in> set ps. distinct (f p d) \<Longrightarrow>
     distinct (concat (map (\<lambda>(p, d). map (Pair p) (f p d)) ps))"
proof (induction ps)
  case (Cons pd ps)
  obtain p d where pd: "pd = (p, d)" by fastforce
  have "set (map (Pair p) (f p d)) \<inter> set (concat (map (\<lambda>(p, d). map (Pair p) (f p d)) ps)) = {}"
    using Cons.prems(1) by (force simp: pd)
  then show ?case using Cons by (simp add: pd distinct_map inj_on_def)
qed simp

lemma catalog_default:
  "e \<in> set (model_catalog c) \<Longrightarrow> me_is_default e = (default_of c = Some (entry_pair e))"
  by (auto simp: model_catalog_def provider_entries_def entry_pair_def)

lemma filter_single: "distinct xs \<Longrightarrow> e \<in> set xs \<Longrightarrow> filter (\<lambda>x. x = e) xs = [e]"
  by (induction xs) (auto simp: filter_empty_conv)

text \<open>
  A validated registry with a provider offers each configured pair of provider and model
  exactly once, exactly one of them is the default, and it is the pair that
  \<open>default_model\<close> names.
\<close>

theorem catalogue_has_one_default:
  assumes "registry_validate c = Inr ()" and "pf_providers c \<noteq> []" and "distinct (map fst (pf_providers c))"
  shows "\<exists>p m e. pf_default_model c = p @ 47 # m
    \<and> filter me_is_default (model_catalog c) = [e] \<and> entry_pair e = (p, m)
    \<and> distinct (map entry_pair (model_catalog c))
    \<and> set (map entry_pair (model_catalog c))
        = {(p, m). \<exists>d. map_of (pf_providers c) p = Some d \<and> m \<in> set (available_models d)}"
proof -
  obtain p m d where pm: "split_once 47 (pf_default_model c) = Some (p, m)" "map_of (pf_providers c) p = Some d"
    "m \<in> set (available_models d)" using registry_validate_providers(1) [OF assms(1,2)] by blast
  have chosen: "default_of c = Some (p, m)" by (simp add: default_of_def default_selection_def ok_or_def pm)
  have d: "distinct (map entry_pair (model_catalog c))"
    unfolding catalog_pairs
  proof (rule distinct_pairs [OF assms(3)], clarify)
    fix q dq assume "(q, dq) \<in> set (pf_providers c)"
    then show "distinct (models_in_order (default_of c) q dq)"
      using validate_provider_models(1) registry_validate_providers(2) [OF assms(1,2)]
      by (intro models_in_order_distinct) blast
  qed
  have pairs: "set (map entry_pair (model_catalog c))
        = {(p, m). \<exists>d. map_of (pf_providers c) p = Some d \<and> m \<in> set (available_models d)}"
    unfolding catalog_pairs using assms(3)
    by (force simp: models_in_order_set map_of_eq_Some_iff)
  have "(p, m) \<in> set (map entry_pair (model_catalog c))" unfolding pairs using pm by auto
  then obtain e where e: "e \<in> set (model_catalog c)" "entry_pair e = (p, m)" by auto
  have "me_is_default x = (x = e)" if "x \<in> set (model_catalog c)" for x
    using catalog_default [OF that] chosen e that d by (auto simp: distinct_map inj_on_def)
  then have "filter me_is_default (model_catalog c) = filter (\<lambda>x. x = e) (model_catalog c)"
    by (intro filter_cong) auto
  also have "\<dots> = [e]"
  proof -
    have "distinct (model_catalog c)" using d by (simp add: distinct_map)
    then show ?thesis using e(1) by (rule filter_single)
  qed
  finally show ?thesis using split_once_parts [OF pm(1)] e(2) d pairs by blast
qed

definition sample_definition :: provider_definition where
  "sample_definition = \<lparr>pd_models = ModelIds [lit ''m'', lit ''n''], pd_base_url = Some (lit ''http://p/''), pd_endpoint = None,
     pd_api_key = SecretLiteral (lit ''k''), pd_timeout_ms = 1, pd_max_attempts = 1, pd_temperature = None,
     pd_max_tokens = None, pd_compatibility_input_request = False, pd_streaming = True, pd_headers = [],
     pd_aliases = []\<rparr>"

definition sample_registry :: provider_file where
  "sample_registry = \<lparr>pf_version = 1, pf_default_model = lit ''p/n'', pf_providers = [(lit ''p'', sample_definition)]\<rparr>"

lemma sample_registry_ok: "registry_validate sample_registry = Inr ()"
  by (simp add: sample_registry_def sample_definition_def registry_validate_def validate_provider_def Let_def
      temperature_bad_def text_bad_def available_models_def trim_def is_white_def is_control_def len_utf8_def lit_def)

theorem catalogue_has_one_default_witness:
  "\<exists>p m e. pf_default_model sample_registry = p @ 47 # m
    \<and> filter me_is_default (model_catalog sample_registry) = [e] \<and> entry_pair e = (p, m)
    \<and> distinct (map entry_pair (model_catalog sample_registry))
    \<and> set (map entry_pair (model_catalog sample_registry))
        = {(p, m). \<exists>d. map_of (pf_providers sample_registry) p = Some d \<and> m \<in> set (available_models d)}"
  by (rule catalogue_has_one_default [OF sample_registry_ok]) (simp_all add: sample_registry_def)

subsection \<open>Wire names\<close>

text \<open>
  The tool names of a resolved provider translate both ways: calls of the bound tools
  are renamed to distinct names the wire admits, and the calls a provider makes under
  those names come back as the calls of the same tools.
\<close>

theorem tool_calls_keep_their_tools:
  assumes "resolve_model R E c name model tools = Some (Inr rp)"
    and "\<forall>call \<in> set calls. tc_name call \<in> td_name ` set tools"
  shows "\<exists>wire. traverse (rename_call msg (ap_forward (rp_provider rp))) calls = Inr wire
    \<and> (\<forall>w \<in> set wire. valid_wire_name (tc_name w))
    \<and> raise_calls (ap_reverse (rp_provider rp)) wire = Inr calls
    \<and> inj_on (map_of (ap_forward (rp_provider rp))) (td_name ` set tools)"
proof -
  obtain d where d: "binding_for_model R name d model tools = Inr (rp_binding rp)"
    "ap_forward (rp_provider rp) = bi_aliases (rp_binding rp)"
    "ap_reverse (rp_provider rp) = reverse_table (bi_aliases (rp_binding rp))"
    using resolve_model_Inr [OF assms(1)] by blast
  note t = tool_aliases_ok [OF binding_for_model_Inr(1) [OF d(1)]]
  have both_ways: "\<exists>wire. traverse (rename_call msg (ap_forward (rp_provider rp))) calls = Inr wire
    \<and> (\<forall>w \<in> set wire. valid_wire_name (tc_name w))
    \<and> raise_calls (ap_reverse (rp_provider rp)) wire = Inr calls"
    unfolding d(2,3) using t assms(2) by (intro calls_roundtrip) (auto simp: image_iff)
  have "inj_on (map_of (ap_forward (rp_provider rp))) (td_name ` set tools)"
    unfolding d(2)
  proof (rule inj_onI)
    fix x y assume x: "x \<in> td_name ` set tools" and y: "y \<in> td_name ` set tools"
      and eq: "map_of (bi_aliases (rp_binding rp)) x = map_of (bi_aliases (rp_binding rp)) y"
    from table_get [OF t(1), of x] table_get [OF t(1), of y] x y t(2) eq show "x = y" by auto
  qed
  then show ?thesis using both_ways by blast
qed

definition sample_lib :: registry_lib where
  "sample_lib = \<lparr>rl_hex_digest = (\<lambda>_. lit ''00''), rl_json_text = (\<lambda>_. []), rl_f64 = (\<lambda>_. JNull),
     rl_debug = id, rl_client_error = (\<lambda>_. None)\<rparr>"

definition sample_tool :: tool_descriptor where
  "sample_tool = \<lparr>td_name = lit ''fs.read'', td_description = [], td_input_schema = JNull, td_version = 1,
     td_effect = lit ''read''\<rparr>"

definition sample_binding :: provider_binding where
  "sample_binding = \<lparr>bi_version = 1, bi_provider_name = lit ''p'', bi_provider_type = lit ''openai-chat'',
     bi_protocol = lit ''openai-chat-completions-v1'', bi_model = lit ''n'', bi_config_fingerprint = lit ''00'',
     bi_tools_fingerprint = lit ''00'', bi_aliases = [(lit ''fs.read'', lit ''tool_00'')]\<rparr>"

lemma sample_binding_made:
  "binding_for_model sample_lib (lit ''p'') sample_definition (lit ''n'') [sample_tool] = Inr sample_binding"
  by (simp add: binding_for_model_def sample_definition_def sample_lib_def sample_tool_def sample_binding_def
      tool_aliases_def alias_for_def deterministic_alias_def valid_wire_name_def Let_def semantic_definition_for_model_def
      fingerprint_def BINDING_VERSION_def MAX_ALIAS_BYTES_def len_utf8_def is_ascii_alnum_def is_ascii_digit_def)
     (simp add: lit_def len_utf8_def)

definition sample_resolved :: resolved_provider where
  "sample_resolved = \<lparr>rp_provider = \<lparr>
     ap_inner = \<lparr>op_endpoint = lit ''http://p/chat/completions'', op_model = lit ''n'', op_api_key = lit ''k'',
       op_timeout_ms = 1, op_max_attempts = 1, op_temperature = None, op_max_tokens = None,
       op_reasoning_effort = None, op_compatibility_input_request = False, op_streaming = True, op_headers = []\<rparr>,
     ap_forward = [(lit ''fs.read'', lit ''tool_00'')], ap_reverse = [(lit ''tool_00'', lit ''fs.read'')]\<rparr>,
     rp_binding = sample_binding\<rparr>"

lemma sample_resolves:
  "resolve_model sample_lib sample_env sample_registry (lit ''p'') (lit ''n'') [sample_tool] = Some (Inr sample_resolved)"
proof -
  note record_defs = sample_definition_def sample_lib_def
  have d: "map_of (pf_providers sample_registry) (lit ''p'') = Some sample_definition"
      "lit ''n'' \<in> set (available_models sample_definition)"
      "options_of_model (pd_models sample_definition) (lit ''n'') = Some model_options_default"
      "resolve_key sample_env (pd_api_key sample_definition) = Inr (lit ''k'')"
      "endpoint_of sample_definition = Some (lit ''http://p/chat/completions'')"
      "validate_headers sample_lib (pd_headers sample_definition) = Inr ()"
      "rl_client_error sample_lib (pd_timeout_ms sample_definition) = None"
    by (simp_all add: sample_registry_def record_defs available_models_def resolve_key_def endpoint_of_def
        trim_end_slashes_def validate_headers_def) (simp_all add: lit_def)
  show ?thesis
    by (simp add: resolve_model_def lookup_provider_def require_model_def d sample_binding_made)
       (simp add: sample_resolved_def sample_binding_def record_defs model_options_default_def or_else_def
        with_headers_def reverse_table_def)
qed

theorem tool_calls_keep_their_tools_witness:
  "\<exists>wire. traverse (rename_call ''gone'' [(lit ''fs.read'', lit ''tool_00'')])
      [\<lparr>tc_id = lit ''1'', tc_name = lit ''fs.read'', tc_input = JNull\<rparr>] = Inr wire
    \<and> (\<forall>w \<in> set wire. valid_wire_name (tc_name w))
    \<and> raise_calls [(lit ''tool_00'', lit ''fs.read'')] wire
      = Inr [\<lparr>tc_id = lit ''1'', tc_name = lit ''fs.read'', tc_input = JNull\<rparr>]"
  using tool_calls_keep_their_tools [OF sample_resolves, of "[\<lparr>tc_id = lit ''1'', tc_name = lit ''fs.read'', tc_input = JNull\<rparr>]" "''gone''"]
  by (simp add: sample_tool_def sample_resolved_def)


definition plain_text :: "rstr \<Rightarrow> bool" where
  "plain_text s \<longleftrightarrow> s \<noteq> [] \<and> length s \<le> 256 \<and> list_all (\<lambda>c. 33 \<le> c \<and> c < 127) s"

lemma plain_value: "plain_text s \<Longrightarrow> \<not> bad_binding_value s"
proof -
  assume p: "plain_text s"
  have keep: "list_all (\<lambda>c. 33 \<le> c \<and> c < 127) t \<Longrightarrow> dropWhile is_white t = t" for t :: rstr
    by (cases t) (simp_all add: is_white_def)
  have "list_all (\<lambda>c. 33 \<le> c \<and> c < 127) t \<Longrightarrow> utf8_len t = length t" for t
    by (induction t) (simp_all add: len_utf8_def)
  then have "utf8_len s = length s" using p by (simp add: plain_text_def)
  moreover have "trim s = s" using p keep by (simp add: trim_def plain_text_def)
  moreover have "\<not> list_ex is_control s"
    using p by (auto simp: plain_text_def list_ex_iff list_all_iff is_control_def)
  ultimately show ?thesis using p by (simp add: bad_binding_value_def plain_text_def)
qed

definition sample_pinned :: session_provider_binding where
  "sample_pinned = with_session_scope sample_binding (lit ''config:p/api_key'') (lit ''workspace'') 1"

lemma sample_resumes:
  "resolve_session_bound sample_lib sample_env sample_registry sample_pinned [sample_tool] = Some (Inr sample_resolved)"
proof -
  have valid: "binding_validate sample_pinned = Inr ()"
    unfolding binding_validate_Inr
    by (simp add: sample_pinned_def with_session_scope_def sample_binding_def binding_fields_def plain_value
        bad_alias_def list_ex_iff)
       (simp add: lit_def plain_text_def plain_value is_control_def len_utf8_def)
  have c: "map_of (pf_providers sample_registry) (lit ''p'') = Some sample_definition"
      "lit ''n'' \<in> set (available_models sample_definition)"
      "credential_ref_id (pd_api_key sample_definition) (lit ''p'') = lit ''config:p/api_key''"
    by (simp_all add: sample_registry_def sample_definition_def available_models_def credential_ref_id_def)
       (simp add: lit_def)
  have p: "pb_provider_name sample_pinned = lit ''p''" "pb_model sample_pinned = lit ''n''"
    by (simp_all add: sample_pinned_def with_session_scope_def sample_binding_def)
  have made: "session_binding_for_model sample_lib sample_registry (lit ''p'') (lit ''n'') [sample_tool] = Inr sample_pinned"
    using c valid
    by (simp add: session_binding_for_model_def lookup_provider_def require_model_def sample_binding_made
        sample_pinned_def [symmetric] Let_def del: One_nat_def)
  have "binding_matches_with_legacy_tools sample_pinned sample_pinned x" for x
    by (simp add: binding_matches_with_legacy_tools_def)
  then show ?thesis
    using c made sample_resolves
    by (simp add: resolve_session_bound_def pinned_definition_def require_model_def p)
qed


subsection \<open>Credentials\<close>

definition rekey :: "(rstr \<Rightarrow> rstr) \<Rightarrow> provider_file \<Rightarrow> provider_file" where
  "rekey f c = c\<lparr>pf_providers := map (\<lambda>(n, d). (n, d\<lparr>pd_api_key :=
     (case pd_api_key d of SecretLiteral _ \<Rightarrow> SecretLiteral (f n) | r \<Rightarrow> r)\<rparr>)) (pf_providers c)\<rparr>"

lemma map_of_map_pair: "map_of (map (\<lambda>(n, d). (n, g n d)) ps) n = map_option (g n) (map_of ps n)"
  by (induction ps) auto

lemma map_of_rekey: "map_of (pf_providers (rekey f c)) n = map_option (\<lambda>d. d\<lparr>pd_api_key :=
     (case pd_api_key d of SecretLiteral _ \<Rightarrow> SecretLiteral (f n) | r \<Rightarrow> r)\<rparr>) (map_of (pf_providers c) n)"
  by (simp add: rekey_def map_of_map_pair)

lemma binding_rekey: "binding_for_model R name (d\<lparr>pd_api_key := r\<rparr>) = binding_for_model R name d"
proof -
  have "semantic_definition_for_model R (d\<lparr>pd_api_key := r\<rparr>) = semantic_definition_for_model R d"
    by (rule ext) (simp add: semantic_definition_for_model_def split: option.split)
  then show ?thesis by (intro ext) (simp add: binding_for_model_def)
qed

lemma session_binding_rekey:
  "session_binding_for_model R (rekey f c) name model tools = session_binding_for_model R c name model tools"
proof (cases "map_of (pf_providers c) name")
  case (Some d)
  have "credential_ref_id (case pd_api_key d of SecretLiteral _ \<Rightarrow> SecretLiteral (f name) | r \<Rightarrow> r) name
      = credential_ref_id (pd_api_key d) name"
    by (simp add: credential_ref_id_def split: secret_ref.split)
  then show ?thesis
    by (simp add: session_binding_for_model_def lookup_provider_def map_of_rekey Some require_model_def
        available_models_def binding_rekey)
qed (simp add: session_binding_for_model_def lookup_provider_def map_of_rekey)

lemma model_catalog_rekey: "model_catalog (rekey f c) = model_catalog c"
proof -
  have "default_of (rekey f c) = default_of c" by (simp add: default_of_def default_selection_def rekey_def)
  moreover have "map (provider_entries (default_of c)) (pf_providers (rekey f c)) = map (provider_entries (default_of c)) (pf_providers c)"
    by (auto simp: rekey_def provider_entries_def models_in_order_def available_models_def split: option.split)
  ultimately show ?thesis by (simp add: model_catalog_def)
qed

text \<open>
  A binding holds nothing of a credential that is written literally: with every literal
  key replaced by another the catalogue of bindings that clients see, and every session
  binding, is the same.
\<close>

theorem bindings_hold_no_literal_credential:
  "session_binding_catalog R (rekey f c) tools = session_binding_catalog R c tools
   \<and> session_binding_for_model R (rekey f c) name model tools = session_binding_for_model R c name model tools"
  by (simp add: session_binding_catalog_def model_catalog_rekey session_binding_rekey)

subsection \<open>Headers\<close>

definition with_configured_headers :: "(rstr \<times> rstr) list \<Rightarrow> provider_file \<Rightarrow> provider_file" where
  "with_configured_headers hs c = c\<lparr>pf_providers := map (\<lambda>(n, d). (n, d\<lparr>pd_headers := hs\<rparr>)) (pf_providers c)\<rparr>"

lemma registry_validate_headers:
  "registry_validate (with_configured_headers hs c) = registry_validate c"
proof -
  have p: "validate_provider (n, d\<lparr>pd_headers := hs\<rparr>) = validate_provider (n, d)" for n d
    by (cases d) (simp only: validate_provider_def prod.case provider_definition.simps)
  have e: "each_ok validate_provider (map (\<lambda>(n, d). (n, d\<lparr>pd_headers := hs\<rparr>)) ps) = each_ok validate_provider ps" for ps
    by (induction ps) (auto simp: p)
  have x: "list_ex (\<lambda>(n, _). trim n = []) (map (\<lambda>(n, d). (n, d\<lparr>pd_headers := hs\<rparr>)) ps)
      = list_ex (\<lambda>(n, _). trim n = []) ps" for ps :: "(rstr \<times> provider_definition) list"
    by (induction ps) auto
  have m: "map_of (map (\<lambda>(n, d). (n, d\<lparr>pd_headers := hs\<rparr>)) ps) n = map_option (\<lambda>d. d\<lparr>pd_headers := hs\<rparr>) (map_of ps n)"
    for ps :: "(rstr \<times> provider_definition) list" and n
    by (rule map_of_map_pair)
  show ?thesis
    by (simp add: registry_validate_def with_configured_headers_def e x m available_models_def
        split: option.split)
qed

lemma unknown_placeholder_refused: "\<exists>e. validate_headers R [(lit ''X'', lit ''${user}'')] = Inl e"
  by (simp add: validate_headers_def validate_header_def is_ascii_alnum_def RESERVED_HEADERS_def to_ascii_lowercase_def
      check_placeholders.simps)
     (simp add: lit_def is_ascii_alnum_def check_placeholders.simps SESSION_ID_PLACEHOLDER_def)

text \<open>
  The registry is validated without looking at the headers: a header with an unknown
  placeholder is accepted when the configuration is loaded, and only refused when a
  request to its provider is prepared, every one of which fails.
\<close>

theorem unknown_placeholders_load:
  "registry_validate (with_configured_headers [(lit ''X'', lit ''${user}'')] c) = registry_validate c
   \<and> \<not> (\<exists>rp. resolve_model R E (with_configured_headers [(lit ''X'', lit ''${user}'')] c) name model tools = Some (Inr rp))"
proof -
  have "\<not> (\<exists>rp. resolve_model R E (with_configured_headers [(lit ''X'', lit ''${user}'')] c) name model tools = Some (Inr rp))"
  proof
    assume "\<exists>rp. resolve_model R E (with_configured_headers [(lit ''X'', lit ''${user}'')] c) name model tools = Some (Inr rp)"
    then obtain d where d: "map_of (pf_providers (with_configured_headers [(lit ''X'', lit ''${user}'')] c)) name = Some d"
      "validate_headers R (pd_headers d) = Inr ()" using resolve_model_Inr by blast
    then have "pd_headers d = [(lit ''X'', lit ''${user}'')]"
      by (auto simp: with_configured_headers_def map_of_map_pair)
    then show False using d(2) unknown_placeholder_refused [of R] by simp
  qed
  then show ?thesis by (simp add: registry_validate_headers)
qed

subsection \<open>Accepted configurations\<close>

lemma context_window_nonzero:
  assumes "registry_validate c = Inr ()"
  shows "model_context_window c provider model \<noteq> Some 0"
proof
  assume "model_context_window c provider model = Some 0"
  then obtain d opts where d: "map_of (pf_providers c) provider = Some d"
    "options_of_model (pd_models d) model = Some opts" "mo_context_window opts = Some 0"
    by (auto simp: model_context_window_def bind_eq_Some_conv)
  then have "pf_providers c \<noteq> []" by auto
  then have "validate_provider (provider, d) = Inr ()"
    using registry_validate_providers(2) [OF assms] map_of_SomeD [OF d(1)] by blast
  note ok = validate_provider_models(2) [OF this]
  show False
  proof (cases "pd_models d")
    case (ModelIds ms)
    then show False using d(2,3) by (auto simp: model_options_default_def split: if_splits)
  next
    case (ConfiguredModels ms)
    then obtain mc where mc: "map_of ms model = Some mc" "mc_options mc = opts" using d(2) by auto
    then have "(model, mc) \<in> set (configured_models (pd_models d))" using ConfiguredModels map_of_SomeD by simp
    from ok [OF this] show False using mc d(3) by (simp add: model_options_bad_def)
  qed
qed

lemma base_context_policy_fields:
  "ctx_max_request_bytes (base_context_policy c) = sc_max_request_bytes (ac_session c)"
  "ctx_max_input_bytes (base_context_policy c) = sc_max_input_bytes (ac_session c)"
  "ctx_reserved_output_bytes (base_context_policy c) = sc_reserved_output_bytes (ac_session c)"
  "ctx_context_cap_bytes (base_context_policy c) = sc_context_cap_bytes (ac_session c)"
  "ctx_max_tool_rounds (base_context_policy c) = sc_max_tool_rounds (ac_session c)"
  "ctx_provider_timeout_ms (base_context_policy c) = sc_provider_timeout_ms (ac_session c)"
  "ctx_token_estimate (base_context_policy c) = ctx_token_estimate context_policy_default"
  by (simp_all add: base_context_policy_def context_of_history_def session_policy_def Let_def)

lemma base_compaction_ok:
  assumes "compaction_config_validate (sc_compaction (ac_session c)) = Inr ()"
  shows "compaction_error (ctx_compaction (base_context_policy c)) = None"
proof -
  have "trim AGENT_SUMMARIZE_PROMPT_SLOT \<noteq> []" by code_simp
  then show ?thesis using assms
    by (auto simp: compaction_error_def base_context_policy_def context_of_history_def compaction_policy_default_def
        compaction_config_validate_def Let_def not_less split: if_splits)
qed

lemma layered_fields:
  assumes "builtin_profile ty = Inr builtin"
  shows "layer_budget (hp_context builtin) base = base\<lparr>ctx_compaction :=
     (if cp_strategy (ctx_compaction base) = CsOff then compaction_policy_default else ctx_compaction base),
     ctx_token_estimate := ctx_token_estimate context_policy_default\<rparr>"
  using assms
  by (auto simp: builtin_profile_def layer_budget_def context_of_history_def history_policy_default_def
      context_policy_default_def Let_def split: if_splits)

text \<open>
  A configuration that loads serves every model it offers: the profile catalogue accepts
  the session settings and each binding resolves to a profile with the configured budget
  and tool rounds and at most the configured context cap, whatever window the model
  declares. Nothing is left to be refused at the first request.
\<close>

theorem accepted_configurations_resolve:
  assumes "load_with_home_inner E (\<lambda>m. map_err registry_error_text (parse_jsonc json5 schema (to_text m))) workspace home enforce
      = Inr (c, r, merged)"
    and "pb_provider_type b = lit ''openai-chat''"
  shows "\<exists>catalog h. catalog_new (base_context_policy c) (model_context_window r) = Inr catalog
    \<and> resolve catalog b = Inr h
    \<and> request_budget_bytes (hp_context h) = request_budget_bytes (base_context_policy c)
    \<and> ctx_max_tool_rounds (hp_context h) = sc_max_tool_rounds (ac_session c)
    \<and> ctx_context_cap_bytes (hp_context h) \<le> sc_context_cap_bytes (ac_session c)"
proof -
  let ?base = "base_context_policy c"
  have v: "validate_app_config c = Inr ()" and r: "registry_validate r = Inr ()"
    using assms(1) by (auto simp: load_with_home_inner_def parse_jsonc_def Let_def)
  have hist: "history_policy_validate (session_policy c) = Inr ()"
    and comp: "compaction_error (ctx_compaction ?base) = None"
    using v base_compaction_ok by (auto simp: validate_app_config_def split: if_splits)
  have base_ok: "context_policy_validate ?base = Inr ()"
    using hist comp
    by (auto simp: context_policy_validate_Inr base_context_policy_fields history_policy_validate_def session_policy_def
        context_policy_default_def Let_def split: if_splits)
  obtain builtin where builtin: "builtin_profile (pb_provider_type b) = Inr builtin"
    using assms(2) by (simp add: builtin_profile_def BUILTIN_PROVIDER_TYPES_def)
  define layered where "layered = layer_budget (hp_context builtin) ?base"
  define w where "w = model_context_window r (pb_provider_name b) (pb_model b)"
  have w: "w \<noteq> Some 0" unfolding w_def by (rule context_window_nonzero [OF r])
  have l: "layered = ?base\<lparr>ctx_compaction := (if cp_strategy (ctx_compaction ?base) = CsOff then compaction_policy_default else ctx_compaction ?base),
     ctx_token_estimate := ctx_token_estimate context_policy_default\<rparr>"
    unfolding layered_def by (rule layered_fields [OF builtin])
  have layered_ok: "context_policy_validate (tighten_window w layered) = Inr ()"
  proof -
    have "compaction_error compaction_policy_default = None"
      by (simp add: compaction_error_def compaction_policy_default_def)
    then have "context_policy_validate layered = Inr ()"
      using base_ok comp by (auto simp: context_policy_validate_Inr l base_context_policy_fields)
    moreover have "0 < usize_saturating_mul n (te_bytes_per_token (ctx_token_estimate layered))" if "w = Some n" for n
      using w that by (auto simp: usize_saturating_mul_def l context_policy_default_def u64_bound_def)
    ultimately show ?thesis
      by (cases w) (auto simp: context_policy_validate_Inr tighten_window_def)
  qed
  define h where "h = builtin\<lparr>hp_context := tighten_window w layered\<rparr>"
  have "resolve \<lparr>pc_base = ?base, pc_registry = Some (model_context_window r)\<rparr> b = Inr h"
    using builtin layered_ok by (simp add: resolve_def resolved_with_Inr h_def layered_def w_def)
  moreover have "catalog_new ?base (model_context_window r) = Inr \<lparr>pc_base = ?base, pc_registry = Some (model_context_window r)\<rparr>"
    using base_ok by (simp add: catalog_new_def)
  moreover have "request_budget_bytes (hp_context h) = request_budget_bytes ?base"
    by (simp add: h_def tighten_window_budget) (simp add: l request_budget_bytes_def)
  moreover have "ctx_max_tool_rounds (hp_context h) = sc_max_tool_rounds (ac_session c)"
    by (simp add: h_def l tighten_window_def base_context_policy_fields split: option.split)
  moreover have "ctx_context_cap_bytes (hp_context h) \<le> sc_context_cap_bytes (ac_session c)"
    using tighten_window_le [of w layered] by (simp add: h_def l base_context_policy_fields)
  ultimately show ?thesis by blast
qed

theorem accepted_configurations_resolve_witness:
  "\<exists>catalog h. catalog_new (base_context_policy sample_app) (model_context_window sample_registry) = Inr catalog
    \<and> resolve catalog sample_pinned = Inr h
    \<and> request_budget_bytes (hp_context h) = request_budget_bytes (base_context_policy sample_app)
    \<and> ctx_max_tool_rounds (hp_context h) = sc_max_tool_rounds (ac_session sample_app)
    \<and> ctx_context_cap_bytes (hp_context h) \<le> sc_context_cap_bytes (ac_session sample_app)"
proof -
  have "parse_jsonc (\<lambda>_. Inr JNull) (\<lambda>_. Inr sample_registry) t = Inr sample_registry" for t
    by (simp add: parse_jsonc_def sample_registry_ok)
  then have "load_with_home_inner sample_env (\<lambda>m. map_err registry_error_text
       (parse_jsonc (\<lambda>_. Inr JNull) (\<lambda>_. Inr sample_registry) ((\<lambda>_. []) m))) (lit ''/r'') (Some (lit ''/h'')) True
     = Inr (sample_app, sample_registry, sample_merged)"
    using sample_loads by (auto simp: load_with_home_inner_def Let_def)
  then show ?thesis
    by (rule accepted_configurations_resolve) (simp add: sample_pinned_def with_session_scope_def sample_binding_def)
qed

end
