(* ===== verification/Workspace_Files.thy ===== *)
theory Workspace_Files
  imports Store_Schema Utf8_Text
begin

text \<open>
  The confinement of file operations in \<open>latte-engine/src/workspace.rs\<close>. The file system
  is a map from physical paths (their components from the root) to directories, files and
  symbolic links, with the kernel's walk over links; names are UTF-8. The platform is
  Unix. The path texts of the code are split as \<open>std::path\<close> splits them. Other programs
  may change the file system between two operations of this module, but not inside one;
  the one operation that writes can fail at any of its steps (\<open>replace_fault\<close>).
\<close>

subsection \<open>The file system\<close>

datatype file_node =
    FnDir
  | FnFile "nat list" nat
  | FnLink rstr

type_synonym files = "rstr list \<Rightarrow> file_node option"

datatype io_failure =
    IoNotFound
  | IoNotADirectory
  | IoIsADirectory
  | IoTooManyLinks
  | IoAlreadyExists
  | IoInvalidUtf8
  | IoOther rstr

definition is_dir :: "files \<Rightarrow> rstr list \<Rightarrow> bool" where
  "is_dir fs p \<longleftrightarrow> fs p = Some FnDir"

definition is_link :: "file_node option \<Rightarrow> bool" where
  "is_link n = (case n of Some (FnLink _) \<Rightarrow> True | _ \<Rightarrow> False)"

definition noop_piece :: "rstr \<Rightarrow> bool" where
  "noop_piece p \<longleftrightarrow> p = [] \<or> p = lit ''.''"

definition is_absolute :: "rstr \<Rightarrow> bool" where
  "is_absolute t \<longleftrightarrow> take 1 t = lit ''/''"

definition pieces :: "rstr \<Rightarrow> rstr list" where
  "pieces t = split_on 47 t"

text \<open>The kernel's walk: \<open>n\<close> links may still be followed.\<close>

function walk :: "files \<Rightarrow> nat \<Rightarrow> rstr list \<Rightarrow> rstr list \<Rightarrow> io_failure + rstr list" where
  "walk fs n cur [] = Inr cur"
| "walk fs n cur (p # ps) =
     (if \<not> is_dir fs cur then Inl IoNotADirectory
      else if noop_piece p then walk fs n cur ps
      else if p = lit ''..'' then walk fs n (butlast cur) ps
      else case fs (cur @ [p]) of
        None \<Rightarrow> Inl IoNotFound
      | Some (FnLink t) \<Rightarrow>
          if n = 0 then Inl IoTooManyLinks
          else walk fs (n - 1) (if is_absolute t then [] else cur) (pieces t @ ps)
      | Some _ \<Rightarrow> walk fs n (cur @ [p]) ps)"
  by pat_completeness auto

termination
  by (relation "(\<lambda>(fs, n, cur, ps). n) <*mlex*> measure (\<lambda>(fs, n, cur, ps). length ps)")
     (auto intro: mlex_less mlex_leq wf_mlex)

declare walk.simps(2) [simp del]

definition MAX_LINKS :: nat where
  "MAX_LINKS = 40"

definition canonicalize :: "files \<Rightarrow> rstr list \<Rightarrow> io_failure + rstr list" where
  "canonicalize fs ps = walk fs MAX_LINKS [] ps"

text \<open>\<open>symlink_metadata\<close>: the last component is not followed.\<close>

definition symlink_metadata :: "files \<Rightarrow> rstr list \<Rightarrow> io_failure + file_node" where
  "symlink_metadata fs p =
     (if p = [] then ok_or IoNotFound (fs [])
      else bindE (canonicalize fs (butlast p)) (\<lambda>d.
        if \<not> is_dir fs d then Inl IoNotADirectory
        else ok_or IoNotFound (fs (d @ [last p]))))"

definition read_bytes :: "files \<Rightarrow> rstr list \<Rightarrow> io_failure + nat list \<times> nat" where
  "read_bytes fs p =
     bindE (canonicalize fs p) (\<lambda>q.
       case fs q of
         Some (FnFile data t) \<Rightarrow> Inr (data, t)
       | Some FnDir \<Rightarrow> Inl IoIsADirectory
       | _ \<Rightarrow> Inl IoNotFound)"

subsection \<open>Workspace paths\<close>

datatype path_error =
    PathInvalid
  | PathEscape
  | PathSymlink rstr
  | PathMissing rstr
  | PathIo io_failure
  | UnsupportedSafePathOperation

text \<open>\<open>Component::Normal\<close> and \<open>Component::CurDir\<close> are the pieces that \<open>lexical\<close> admits.\<close>

definition lexical :: "rstr \<Rightarrow> path_error + rstr list" where
  "lexical input =
     (if input = [] \<or> is_absolute input \<or> lit ''..'' \<in> set (pieces input)
      then Inl PathInvalid else Inr (pieces input))"

definition normal_parts :: "rstr list \<Rightarrow> rstr list" where
  "normal_parts ps = filter (\<lambda>p. \<not> noop_piece p) ps"

text \<open>
  \<open>strip_prefix\<close> returns the text after the root as \<open>Components::as_path\<close> shows it: without
  the empty and dot pieces at its ends, but with those inside it.
\<close>

definition trimmed_pieces :: "rstr list \<Rightarrow> rstr list" where
  "trimmed_pieces ps = rev (dropWhile noop_piece (rev (dropWhile noop_piece ps)))"

definition display :: "rstr \<Rightarrow> path_error + rstr" where
  "display input =
     bindE (lexical input) (\<lambda>ps.
       Inr (map (\<lambda>c. if c = 92 then 47 else c) (join_with (lit ''/'') (trimmed_pieces ps))))"

definition read_path :: "files \<Rightarrow> rstr list \<Rightarrow> rstr \<Rightarrow> path_error + rstr list" where
  "read_path fs root input =
     bindE (lexical input) (\<lambda>ps.
     case canonicalize fs (root @ ps) of
       Inl IoNotFound \<Rightarrow> Inl (PathMissing input)
     | Inl e \<Rightarrow> Inl (PathIo e)
     | Inr q \<Rightarrow> if take (length root) q \<noteq> root then Inl PathEscape else Inr q)"

definition path_display :: "rstr list \<Rightarrow> rstr" where
  "path_display p = lit ''/'' @ join_with (lit ''/'') p"

fun mutation_walk :: "files \<Rightarrow> bool \<Rightarrow> rstr \<Rightarrow> rstr list \<Rightarrow> rstr list \<Rightarrow> path_error + unit" where
  "mutation_walk fs allow_missing input cursor [] = Inr ()"
| "mutation_walk fs allow_missing input cursor (p # ps) =
     (let cursor = cursor @ [p] in
      case symlink_metadata fs cursor of
        Inr (FnLink _) \<Rightarrow> bindE (display input) (\<lambda>d. Inl (PathSymlink d))
      | Inr _ \<Rightarrow> mutation_walk fs allow_missing input cursor ps
      | Inl IoNotFound \<Rightarrow>
          if allow_missing \<and> ps = [] then mutation_walk fs allow_missing input cursor ps
          else Inl (PathMissing (path_display cursor))
      | Inl e \<Rightarrow> Inl (PathIo e))"

definition mutation_path :: "files \<Rightarrow> rstr list \<Rightarrow> rstr \<Rightarrow> bool \<Rightarrow> path_error + rstr list" where
  "mutation_path fs root input allow_missing =
     bindE (lexical input) (\<lambda>ps.
     bindE (mutation_walk fs allow_missing input root (normal_parts ps)) (\<lambda>_.
     Inr (root @ normal_parts ps)))"

record file_identity =
  fi_hash :: rstr
  fi_size :: nat
  fi_modified :: nat

definition identity :: "(nat list \<Rightarrow> rstr) \<Rightarrow> files \<Rightarrow> rstr list \<Rightarrow> path_error + file_identity" where
  "identity sha fs p =
     bindE (map_err PathIo (read_bytes fs p)) (\<lambda>(data, t).
     Inr \<lparr>fi_hash = sha data, fi_size = length data, fi_modified = t\<rparr>)"

text \<open>
  \<open>atomic_replace\<close>: the steps after the checks and where they may fail. When one fails after
  the temporary file was created, the file is removed again; when the removal fails too,
  \<open>leftover\<close> bytes of it stay.
\<close>

datatype replace_step = OpenTemp | WriteAll | SyncAll | RenameTemp

record replace_fault =
  rf_fault :: "(replace_step \<times> io_failure) option"
  rf_leftover :: "nat option"

definition fault_at :: "replace_fault \<Rightarrow> replace_step \<Rightarrow> io_failure option" where
  "fault_at F s = (case rf_fault F of Some (s', e) \<Rightarrow> if s = s' then Some e else None | None \<Rightarrow> None)"

text \<open>The directories below the root are opened one after the other, relative to the last.\<close>

fun open_dirs :: "files \<Rightarrow> rstr list \<Rightarrow> rstr list \<Rightarrow> io_failure + rstr list" where
  "open_dirs fs dir [] = Inr dir"
| "open_dirs fs dir (p # ps) =
     (case fs (dir @ [p]) of
        Some FnDir \<Rightarrow> open_dirs fs (dir @ [p]) ps
      | None \<Rightarrow> Inl IoNotFound
      | _ \<Rightarrow> Inl IoNotADirectory)"

definition replace_io :: "replace_fault \<Rightarrow> files \<Rightarrow> rstr list \<Rightarrow> rstr list \<Rightarrow> nat list \<Rightarrow> nat
    \<Rightarrow> (io_failure + unit) \<times> files" where
  "replace_io F fs temp target data t =
     (if fault_at F OpenTemp \<noteq> None then (Inl (the (fault_at F OpenTemp)), fs)
      else if fs temp \<noteq> None then (Inl IoAlreadyExists, fs)
      else
        let failed = (\<lambda>e. (Inl e, case rf_leftover F of None \<Rightarrow> fs
              | Some k \<Rightarrow> fs(temp := Some (FnFile (take k data) t)))) in
        case fault_at F WriteAll of Some e \<Rightarrow> failed e | None \<Rightarrow>
        (case fault_at F SyncAll of Some e \<Rightarrow> failed e | None \<Rightarrow>
        (case fault_at F RenameTemp of Some e \<Rightarrow> failed e | None \<Rightarrow>
         if fs target = Some FnDir then failed IoIsADirectory
         else (Inr (), fs(target := Some (FnFile data t))))))"

definition atomic_replace :: "bool \<Rightarrow> replace_fault \<Rightarrow> rstr \<Rightarrow> files \<Rightarrow> rstr list \<Rightarrow> rstr \<Rightarrow> nat list \<Rightarrow> bool
    \<Rightarrow> nat \<Rightarrow> (path_error + unit) \<times> files" where
  "atomic_replace supported F temp fs root input data create t =
     (if \<not> supported then (Inl UnsupportedSafePathOperation, fs)
      else case mutation_path fs root input create of
        Inl e \<Rightarrow> (Inl e, fs)
      | Inr target \<Rightarrow>
          let parts = drop (length root) target in
          if parts = [] then (Inl PathInvalid, fs)
          else case open_dirs fs root (butlast parts) of
            Inl e \<Rightarrow> (Inl (PathIo e), fs)
          | Inr parent \<Rightarrow>
              if is_link (fs (parent @ [last parts])) then (Inl (PathSymlink input), fs)
              else let (r, fs') = replace_io F fs (parent @ [temp]) (parent @ [last parts]) data t
                   in (map_err PathIo r, fs'))"

subsection \<open>Where operations end up\<close>

text \<open>Every node has a directory above it, and the root of the file system is one.\<close>

definition files_ok :: "files \<Rightarrow> bool" where
  "files_ok fs \<longleftrightarrow> is_dir fs [] \<and> (\<forall>p c. fs (p @ [c]) \<noteq> None \<longrightarrow> is_dir fs p)"

text \<open>A place in the file system that is reached without following a link.\<close>

definition real_place :: "files \<Rightarrow> rstr list \<Rightarrow> bool" where
  "real_place fs p \<longleftrightarrow> fs p \<noteq> None \<and> \<not> is_link (fs p)"

definition plain_names :: "rstr list \<Rightarrow> bool" where
  "plain_names p \<longleftrightarrow> (\<forall>c \<in> set p. \<not> noop_piece c \<and> c \<noteq> lit ''..'')"

lemma dir_is_real: "is_dir fs p \<Longrightarrow> real_place fs p"
  by (simp add: is_dir_def real_place_def is_link_def)

lemma dir_above: "files_ok fs \<Longrightarrow> is_dir fs p \<Longrightarrow> is_dir fs (butlast p)"
  by (cases p rule: rev_cases) (auto simp: files_ok_def is_dir_def)

lemma walk_step:
  assumes "walk fs n cur (p # ps) = Inr q"
  shows "is_dir fs cur"
    and "noop_piece p \<Longrightarrow> walk fs n cur ps = Inr q"
    and "\<not> noop_piece p \<Longrightarrow> p = lit ''..'' \<Longrightarrow> walk fs n (butlast cur) ps = Inr q"
    and "\<not> noop_piece p \<Longrightarrow> p \<noteq> lit ''..'' \<Longrightarrow> fs (cur @ [p]) \<noteq> None"
    and "\<not> noop_piece p \<Longrightarrow> p \<noteq> lit ''..'' \<Longrightarrow> fs (cur @ [p]) = Some (FnLink t) \<Longrightarrow>
      n \<noteq> 0 \<and> walk fs (n - 1) (if is_absolute t then [] else cur) (pieces t @ ps) = Inr q"
    and "\<not> noop_piece p \<Longrightarrow> p \<noteq> lit ''..'' \<Longrightarrow> \<not> is_link (fs (cur @ [p])) \<Longrightarrow> walk fs n (cur @ [p]) ps = Inr q"
  using assms unfolding walk.simps(2) [of fs n cur p ps]
  by (auto simp: is_link_def split: if_splits option.splits file_node.splits)

lemma walk_ends_real:
  assumes "files_ok fs"
  shows "walk fs n cur ps = Inr q \<Longrightarrow> real_place fs cur \<Longrightarrow> plain_names cur \<Longrightarrow> real_place fs q \<and> plain_names q"
proof (induction "(n, length ps)" arbitrary: n cur ps rule: wf_induct_rule [OF wf_lex_prod [OF wf_less_than wf_less_than]])
  case (1 n ps cur)
  show ?case
  proof (cases ps)
    case Nil
    then show ?thesis using 1(2-4) by simp
  next
    case (Cons p rest)
    note w = walk_step [OF 1(2) [unfolded Cons]]
    have shorter: "((n, length rest), (n, length ps)) \<in> less_than <*lex*> less_than" by (simp add: Cons)
    have root: "real_place fs []" "plain_names []"
      using assms by (simp_all add: files_ok_def dir_is_real plain_names_def)
    show ?thesis
    proof (cases "noop_piece p \<or> p = lit ''..''")
      case True
      have up: "real_place fs (butlast cur)" "plain_names (butlast cur)"
        using dir_above [OF assms w(1)] dir_is_real 1(4) by (auto simp: plain_names_def dest: in_set_butlastD)
      show ?thesis
      proof (cases "noop_piece p")
        case True
        then show ?thesis using 1(1) [OF shorter w(2)] 1(2-4) by blast
      next
        case False
        then show ?thesis using 1(1) [OF shorter w(3)] True up by blast
      qed
    next
      case False
      then have p: "\<not> noop_piece p" "p \<noteq> lit ''..''" by blast+
      show ?thesis
      proof (cases "is_link (fs (cur @ [p]))")
        case True
        then obtain t where t: "fs (cur @ [p]) = Some (FnLink t)" by (auto simp: is_link_def split: option.splits file_node.splits)
        have linked: "n \<noteq> 0" "walk fs (n - 1) (if is_absolute t then [] else cur) (pieces t @ rest) = Inr q"
          using w(5) [OF p t] by blast+
        then have "((n - 1, length (pieces t @ rest)), (n, length ps)) \<in> less_than <*lex*> less_than" by simp
        from 1(1) [OF this linked(2)] show ?thesis using root 1(2-4) by (cases "is_absolute t") simp_all
      next
        case False
        have "real_place fs (cur @ [p])" using w(4) [OF p] False by (simp add: real_place_def)
        moreover have "plain_names (cur @ [p])" using 1(4) p by (simp add: plain_names_def)
        ultimately show ?thesis using 1(1) [OF shorter w(6) [OF p False]] by blast
      qed
    qed
  qed
qed

text \<open>A real place is reached by its own name, and by no other one.\<close>

lemma dirs_above:
  assumes "files_ok fs"
  shows "fs (p @ q) \<noteq> None \<Longrightarrow> q \<noteq> [] \<Longrightarrow> is_dir fs p"
proof (induction q rule: rev_induct)
  case (snoc c q)
  then have "is_dir fs (p @ q)" using assms append_assoc [of p q "[c]"] unfolding files_ok_def by metis
  then show ?case using snoc by (cases "q = []") (auto simp: is_dir_def)
qed simp

lemma walk_plain:
  "real_place fs (cur @ ps) \<Longrightarrow> files_ok fs \<Longrightarrow> plain_names ps \<Longrightarrow> walk fs n cur ps = Inr (cur @ ps)"
proof (induction ps arbitrary: cur)
  case (Cons p ps)
  have cur: "is_dir fs cur" using dirs_above [OF Cons.prems(2), of cur "p # ps"] Cons.prems(1) by (simp add: real_place_def)
  have next_place: "fs (cur @ [p]) \<noteq> None \<and> \<not> is_link (fs (cur @ [p]))"
  proof (cases "ps = []")
    case True
    then show ?thesis using Cons.prems(1) by (simp add: real_place_def)
  next
    case False
    then have "is_dir fs (cur @ [p])"
      using dirs_above [OF Cons.prems(2), of "cur @ [p]" ps] Cons.prems(1) by (simp add: real_place_def)
    then show ?thesis using dir_is_real by (simp add: real_place_def)
  qed
  have p: "\<not> noop_piece p" "p \<noteq> lit ''..''" using Cons.prems(3) by (simp_all add: plain_names_def)
  have "walk fs n cur (p # ps) = walk fs n (cur @ [p]) ps"
    using cur p next_place unfolding walk.simps(2) [of fs n cur p ps]
    by (auto simp: is_link_def split: option.split file_node.split)
  then show ?case using Cons.IH [of "cur @ [p]"] Cons.prems by (simp add: plain_names_def)
qed simp

lemma canonicalize_real: "files_ok fs \<Longrightarrow> real_place fs p \<Longrightarrow> plain_names p \<Longrightarrow> canonicalize fs p = Inr p"
  using walk_plain [of fs "[]" p MAX_LINKS] by (simp add: canonicalize_def)

lemma canonicalize_ends_real: "files_ok fs \<Longrightarrow> canonicalize fs ps = Inr q \<Longrightarrow> real_place fs q \<and> plain_names q"
  using walk_ends_real [of fs MAX_LINKS "[]" ps q] by (simp add: canonicalize_def files_ok_def dir_is_real plain_names_def)

text \<open>A path that may be read is a real place below the root.\<close>

lemma read_path_confined:
  assumes "files_ok fs" and "read_path fs root input = Inr q"
  shows "\<exists>rest. q = root @ rest \<and> real_place fs q \<and> canonicalize fs q = Inr q"
proof -
  obtain ps where c: "canonicalize fs (root @ ps) = Inr q" and under: "take (length root) q = root"
  proof -
    obtain ps where ps: "lexical input = Inr ps" using assms(2) by (cases "lexical input") (simp_all add: read_path_def)
    then obtain q' where q': "canonicalize fs (root @ ps) = Inr q'"
      using assms(2) by (cases "canonicalize fs (root @ ps)") (simp_all add: read_path_def split: io_failure.splits)
    then have "take (length root) q' = root \<and> q = q'"
      using assms(2) ps by (cases "take (length root) q' = root") (simp_all add: read_path_def)
    then show thesis using that q' by metis
  qed
  have "real_place fs q" "plain_names q" using canonicalize_ends_real [OF assms(1) c] by blast+
  moreover have "q = root @ drop (length root) q" using under append_take_drop_id [of "length root" q] by simp
  ultimately show ?thesis using canonicalize_real [OF assms(1)] by blast
qed

lemma symlink_metadata_real:
  assumes "files_ok fs" and "real_place fs cur" and "plain_names cur"
  shows "symlink_metadata fs (cur @ [p]) =
    (if \<not> is_dir fs cur then Inl IoNotADirectory else ok_or IoNotFound (fs (cur @ [p])))"
  using canonicalize_real [OF assms] by (simp add: symlink_metadata_def)

text \<open>A path that may be changed names a place below the root without a link on the way.\<close>

lemma mutation_walk_step:
  assumes "files_ok fs" and "real_place fs cur" and "plain_names cur"
    and "mutation_walk fs allow input cur (p # ps) = Inr ()"
  shows "is_dir fs cur \<and> (fs (cur @ [p]) = None \<and> allow \<and> ps = []
    \<or> real_place fs (cur @ [p]) \<and> mutation_walk fs allow input (cur @ [p]) ps = Inr ())"
proof -
  note meta = symlink_metadata_real [OF assms(1-3), of p]
  have dir: "is_dir fs cur" using assms(4) by (cases "is_dir fs cur") (simp_all add: meta Let_def)
  show ?thesis
  proof (cases "fs (cur @ [p])")
    case None
    then show ?thesis using assms(4) dir by (cases "allow \<and> ps = []") (simp_all add: meta Let_def)
  next
    case (Some node)
    then show ?thesis using assms(4) dir by (cases node) (simp_all add: meta Let_def real_place_def is_link_def)
  qed
qed

lemma mutation_walk_ok:
  assumes "files_ok fs"
  shows "mutation_walk fs allow input cur ps = Inr () \<Longrightarrow> real_place fs cur \<Longrightarrow> plain_names (cur @ ps) \<Longrightarrow> ps \<noteq> [] \<Longrightarrow>
    is_dir fs (cur @ butlast ps) \<and> \<not> is_link (fs (cur @ ps)) \<and> (fs (cur @ ps) = None \<longrightarrow> allow)"
proof (induction ps arbitrary: cur)
  case (Cons p ps)
  have cur: "plain_names cur" using Cons.prems(3) by (simp add: plain_names_def)
  from mutation_walk_step [OF assms Cons.prems(2) cur Cons.prems(1)]
  consider (missing) "is_dir fs cur" "fs (cur @ [p]) = None" "allow" "ps = []"
    | (there) "is_dir fs cur" "real_place fs (cur @ [p])" "mutation_walk fs allow input (cur @ [p]) ps = Inr ()" by metis
  then show ?case
  proof cases
    case missing
    then show ?thesis by (simp add: is_link_def)
  next
    case there
    then show ?thesis
      using Cons.IH [OF there(3) there(2)] Cons.prems(3) by (cases "ps = []") (auto simp: real_place_def)
  qed
qed simp

lemma normal_parts_plain: "lit ''..'' \<notin> set ps \<Longrightarrow> plain_names (normal_parts ps)"
  by (auto simp: normal_parts_def plain_names_def)

lemma mutation_path_confined:
  assumes "files_ok fs" and "is_dir fs root" and "plain_names root" and "mutation_path fs root input allow = Inr target"
  shows "\<exists>parts. target = root @ parts \<and> plain_names parts
    \<and> (parts \<noteq> [] \<longrightarrow> is_dir fs (root @ butlast parts) \<and> \<not> is_link (fs target) \<and> (fs target = None \<longrightarrow> allow))"
proof -
  obtain ps where ps: "lexical input = Inr ps" using assms(4) by (cases "lexical input") (simp_all add: mutation_path_def)
  then have w: "mutation_walk fs allow input root (normal_parts ps) = Inr ()"
    and t: "target = root @ normal_parts ps" using assms(4) by (simp_all add: mutation_path_def)
  have plain: "plain_names (normal_parts ps)"
    using ps by (intro normal_parts_plain) (auto simp: lexical_def split: if_splits)
  have "plain_names (root @ normal_parts ps)" using plain assms(3) by (auto simp: plain_names_def)
  from mutation_walk_ok [OF assms(1) w dir_is_real [OF assms(2)] this] show ?thesis
    by (intro exI [of _ "normal_parts ps"]) (simp add: t plain)
qed

lemma open_dirs_real:
  "files_ok fs \<Longrightarrow> ps = [] \<or> is_dir fs (dir @ ps) \<Longrightarrow> open_dirs fs dir ps = Inr (dir @ ps)"
proof (induction ps arbitrary: dir)
  case (Cons p ps)
  have "is_dir fs (dir @ [p])"
    using Cons.prems dirs_above [of fs "dir @ [p]" ps] by (cases "ps = []") (auto simp: is_dir_def)
  then show ?case using Cons by (simp add: is_dir_def)
qed simp

text \<open>
  What a replacement does to the file system: on success exactly its target changes, and
  on failure at most the temporary file beside it is left behind.
\<close>

lemma atomic_replace_effect:
  assumes "files_ok fs" and "is_dir fs root" and "plain_names root"
    and "atomic_replace supported F temp fs root input data create t = (r, fs')"
  shows "(r = Inr () \<longrightarrow> (\<exists>parts. mutation_path fs root input create = Inr (root @ parts) \<and> parts \<noteq> []
        \<and> fs' = fs(root @ parts := Some (FnFile data t)) \<and> fs (root @ parts) \<noteq> Some FnDir))
    \<and> (r \<noteq> Inr () \<longrightarrow> fs' = fs \<or> (\<exists>dir k. is_dir fs (root @ dir) \<and> fs (root @ dir @ [temp]) = None
        \<and> fs' = fs(root @ dir @ [temp] := Some (FnFile (take k data) t))))"
proof (cases "supported \<and> (\<exists>target. mutation_path fs root input create = Inr target \<and> drop (length root) target \<noteq> [])")
  case False
  then show ?thesis using assms(4) by (auto simp: atomic_replace_def Let_def split: sum.splits if_splits)
next
  case True
  then obtain target where m: "mutation_path fs root input create = Inr target" "drop (length root) target \<noteq> []" by blast
  from mutation_path_confined [OF assms(1-3) m(1)] m(2) obtain parts where parts: "target = root @ parts" "parts \<noteq> []"
    "is_dir fs (root @ butlast parts)" "\<not> is_link (fs target)" by auto
  have parent: "open_dirs fs root (butlast parts) = Inr (root @ butlast parts)"
    using open_dirs_real [OF assms(1)] parts(3) by blast
  have last_part: "root @ butlast parts @ [last parts] = target" using parts by simp
  obtain e where e: "replace_io F fs (root @ butlast parts @ [temp]) target data t = (e, fs')" "r = map_err PathIo e"
    using assms(4) True m(1) parts parent last_part by (auto simp: atomic_replace_def Let_def split: prod.splits)
  have "(e = Inr () \<longrightarrow> fs' = fs(target := Some (FnFile data t)) \<and> fs target \<noteq> Some FnDir)
    \<and> (e \<noteq> Inr () \<longrightarrow> fs' = fs \<or> (\<exists>k. fs (root @ butlast parts @ [temp]) = None
        \<and> fs' = fs(root @ butlast parts @ [temp] := Some (FnFile (take k data) t))))"
    using e(1) by (auto simp: replace_io_def Let_def split: option.splits if_splits)
  note outcome = this
  show ?thesis
  proof (cases "e = Inr ()")
    case True
    then show ?thesis using outcome e(2) m(1) parts by auto
  next
    case False
    then have "r \<noteq> Inr ()" using e(2) by (cases e) auto
    then show ?thesis using outcome False parts(3) by blast
  qed
qed

end
