(* ===== verification/Tools.thy ===== *)
theory Tools
  imports Workspace_Files Tool_Descriptors
begin

text \<open>
  The built-in tools of \<open>latte-engine/src/tools.rs\<close> and the permission policy of
  \<open>latte-engine/src/policy.rs\<close>: the preparation of a call, the
  policy decision and the digest that binds it, and the execution of each tool on the
  files of the workspace. Compiled globs and regular expressions, the walk that honours
  ignore files, directory listings, the file digest and Git are arguments
  (\<open>tool_lib\<close>). The manifest that completion compares is not part of this theory.
\<close>

subsection \<open>Policy\<close>

datatype effect_class = EffRead | EffCreate | EffModify

definition effect_name :: "effect_class \<Rightarrow> rstr" where
  "effect_name e = (case e of EffRead \<Rightarrow> lit ''read'' | EffCreate \<Rightarrow> lit ''create'' | EffModify \<Rightarrow> lit ''modify'')"

datatype policy_decision = PdAllow | PdAsk | PdDeny

record permission_policy =
  po_denies :: "rstr \<Rightarrow> bool"
  po_version :: nat

definition decide :: "permission_policy \<Rightarrow> effect_class \<Rightarrow> rstr \<Rightarrow> policy_decision" where
  "decide policy effect target =
     (if po_denies policy target then PdDeny
      else if effect = EffRead then PdAllow else PdAsk)"

record operation_binding =
  ob_descriptor_version :: nat
  ob_turn_revision :: nat
  ob_effect_id :: rstr
  ob_attempt :: nat
  ob_tool :: rstr
  ob_target :: rstr
  ob_input :: json
  ob_precondition :: "rstr option"
  ob_timeout_ms :: nat
  ob_output_cap :: nat
  ob_policy_version :: nat
  ob_lease_owner :: rstr
  ob_lease_token :: nat

abbreviation js_nat :: "nat \<Rightarrow> json" where
  "js_nat n \<equiv> JInt (int n)"

definition operation_json :: "operation_binding \<Rightarrow> json" where
  "operation_json b = JObj
     [(lit ''descriptor_version'', js_nat (ob_descriptor_version b)),
      (lit ''turn_revision'', js_nat (ob_turn_revision b)), (lit ''effect_id'', JStr (ob_effect_id b)),
      (lit ''attempt'', js_nat (ob_attempt b)), (lit ''tool'', JStr (ob_tool b)),
      (lit ''target'', JStr (ob_target b)), (lit ''input'', ob_input b),
      (lit ''precondition'', json_opt JStr (ob_precondition b)), (lit ''timeout_ms'', js_nat (ob_timeout_ms b)),
      (lit ''output_cap'', js_nat (ob_output_cap b)), (lit ''policy_version'', js_nat (ob_policy_version b)),
      (lit ''lease_owner'', JStr (ob_lease_owner b)), (lit ''lease_token'', js_nat (ob_lease_token b))]"

definition operation_digest :: "lib \<Rightarrow> operation_binding \<Rightarrow> rstr" where
  "operation_digest L b = json_sha256 L (operation_json b)"

subsection \<open>Errors and fields\<close>

datatype tool_error =
    ToolUnknown rstr
  | ToolInput rstr
  | ToolPath rstr
  | ToolDenied rstr
  | ToolPermissionRequired rstr rstr
  | ToolInvalidApproval
  | ReadRequired rstr
  | ToolStale rstr
  | MatchCount nat
  | ToolIo io_failure
  | ToolRegex rstr
  | ToolGit rstr
  | WorkspaceUnstable rstr
  | WorkspaceUnsafe rstr

record tool_lib =
  tl_sha :: "nat list \<Rightarrow> rstr"
  tl_lossy :: "nat list \<Rightarrow> rstr"
  tl_regex :: "rstr \<Rightarrow> rstr + (rstr \<Rightarrow> bool)"
  tl_walk :: "files \<Rightarrow> rstr list \<Rightarrow> rstr list list"
  tl_names :: "files \<Rightarrow> rstr list \<Rightarrow> rstr list"
  tl_git_diff :: "files \<Rightarrow> rstr list \<Rightarrow> nat \<Rightarrow> rstr + rstr \<times> bool"
  tl_io_text :: "io_failure \<Rightarrow> rstr"

fun path_error_text :: "tool_lib \<Rightarrow> path_error \<Rightarrow> rstr" where
  "path_error_text T PathInvalid = lit (''workspace path must be relative and may not contain parent, root, '' @
     ''or platform-prefix components'')"
| "path_error_text T PathEscape = lit ''path escapes the canonical workspace''"
| "path_error_text T (PathSymlink p) = lit ''symbolic links are forbidden for mutations: '' @ p"
| "path_error_text T (PathMissing p) = lit ''path does not exist: '' @ p"
| "path_error_text T (PathIo e) = lit ''filesystem operation failed: '' @ tl_io_text T e"
| "path_error_text T UnsupportedSafePathOperation =
     lit ''safe handle-relative mutation is unsupported on this platform''"

fun tool_error_text :: "tool_lib \<Rightarrow> tool_error \<Rightarrow> rstr" where
  "tool_error_text T (ToolUnknown n) = lit ''unknown or disabled tool: '' @ n"
| "tool_error_text T (ToolInput m) = lit ''invalid tool input: '' @ m"
| "tool_error_text T (ToolPath m) = lit ''workspace path rejected: '' @ m"
| "tool_error_text T (ToolDenied t) = lit ''policy denied target '' @ t"
| "tool_error_text T (ToolPermissionRequired t _) = lit ''permission required for target '' @ t"
| "tool_error_text T ToolInvalidApproval = lit ''approval is stale, mismatched, or already consumed''"
| "tool_error_text T (ReadRequired t) = lit ''fresh read snapshot required for '' @ t"
| "tool_error_text T (ToolStale t) = lit ''file changed since read: '' @ t"
| "tool_error_text T (MatchCount n) = lit ''edit match count must be exactly one, found '' @ nat_text n"
| "tool_error_text T (ToolIo e) = lit ''filesystem operation failed: '' @ tl_io_text T e"
| "tool_error_text T (ToolRegex e) = lit ''invalid regex: '' @ e"
| "tool_error_text T (ToolGit e) = lit ''git diff failed: '' @ e"
| "tool_error_text T (WorkspaceUnstable e) = lit ''workspace remained unstable while sampling: '' @ e"
| "tool_error_text T (WorkspaceUnsafe e) = lit ''workspace contains an unsafe symbolic link: '' @ e"

definition from_path :: "tool_lib \<Rightarrow> path_error + 'a \<Rightarrow> tool_error + 'a" where
  "from_path T m = map_err (\<lambda>e. ToolPath (path_error_text T e)) m"

definition string_field :: "json \<Rightarrow> string \<Rightarrow> tool_error + rstr" where
  "string_field v key =
     (case Option.bind (json_get (lit key) v) json_as_str of
        Some (c # cs) \<Rightarrow> Inr (c # cs)
      | _ \<Rightarrow> Inl (ToolInput (lit key @ lit '' must be a non-empty string'')))"

definition bool_field :: "json \<Rightarrow> string \<Rightarrow> bool \<Rightarrow> tool_error + bool" where
  "bool_field v key default_value =
     (case json_get (lit key) v of
        None \<Rightarrow> Inr default_value
      | Some x \<Rightarrow> ok_or (ToolInput (lit key @ lit '' must be boolean'')) (json_as_bool x))"

definition as_u64 :: "json \<Rightarrow> nat option" where
  "as_u64 v = (case v of JInt i \<Rightarrow> if 0 \<le> i \<and> nat i < u64_bound then Some (nat i) else None | _ \<Rightarrow> None)"

definition usize_field :: "json \<Rightarrow> string \<Rightarrow> nat \<Rightarrow> nat \<Rightarrow> nat \<Rightarrow> tool_error + nat" where
  "usize_field v key default_value lo hi =
     bindE (case json_get (lit key) v of
        None \<Rightarrow> Inr default_value
      | Some x \<Rightarrow> ok_or (ToolInput (lit key @ lit '' must be an integer'')) (as_u64 x)) (\<lambda>n.
     if n < lo \<or> n > hi then Inl (ToolInput (lit key @ lit '' is out of bounds'')) else Inr n)"

text \<open>The longest prefix of whole characters within a number of bytes.\<close>

fun floor_chars :: "nat \<Rightarrow> rstr \<Rightarrow> rstr" where
  "floor_chars n [] = []"
| "floor_chars n (c # cs) = (if len_utf8 c \<le> n then c # floor_chars (n - len_utf8 c) cs else [])"

definition bounded :: "rstr \<Rightarrow> nat \<Rightarrow> rstr \<times> bool" where
  "bounded t cap = (if utf8_len t \<le> cap then (t, False) else (floor_chars cap t, True))"

subsection \<open>Preparation\<close>

definition DEFAULT_CAP :: nat where
  "DEFAULT_CAP = 64 * 1024"

datatype action =
    ActRead "rstr list" nat
  | ActList "rstr list" nat
  | ActSearch rstr bool nat nat
  | ActManifest nat
  | ActEdit "rstr list" rstr rstr
  | ActWrite "rstr list" rstr bool
  | ActGitDiff nat

record prepared =
  pp_target :: rstr
  pp_effect :: effect_class
  pp_action :: action
  pp_expected_hash :: "rstr option"

record tool_registry =
  tr_root :: "rstr list"
  tr_supported :: bool
  tr_policy :: permission_policy
  tr_tools :: "(rstr \<times> effect_class) list"
  tr_snapshots :: "rstr \<rightharpoonup> file_identity"

definition BUILTIN_TOOLS :: "(rstr \<times> effect_class) list" where
  "BUILTIN_TOOLS = [(lit ''read_file'', EffRead), (lit ''list_directory'', EffRead), (lit ''search'', EffRead),
     (lit ''read_project_manifest'', EffRead), (lit ''edit_file'', EffModify), (lit ''write_file'', EffModify),
     (lit ''git_diff'', EffRead)]"

definition registry_new :: "files \<Rightarrow> rstr list \<Rightarrow> rstr set option \<Rightarrow> (rstr \<Rightarrow> bool) \<Rightarrow> path_error + tool_registry" where
  "registry_new fs given enabled denies =
     bindE (map_err PathIo (canonicalize fs given)) (\<lambda>r.
     Inr \<lparr>tr_root = r, tr_supported = True, tr_policy = \<lparr>po_denies = denies, po_version = 1\<rparr>,
       tr_tools = filter (\<lambda>(n, _). case enabled of None \<Rightarrow> True | Some names \<Rightarrow> n \<in> names) BUILTIN_TOOLS,
       tr_snapshots = Map.empty\<rparr>)"

definition descriptor :: "rstr \<times> effect_class \<Rightarrow> tool_descriptor" where
  "descriptor t = \<lparr>td_name = fst t, td_description = tool_description (fst t),
     td_input_schema = tool_schema (fst t), td_version = 1, td_effect = effect_name (snd t)\<rparr>"

definition edit_anchor :: "json \<Rightarrow> tool_error + rstr" where
  "edit_anchor input =
     (case Option.bind (case json_get (lit ''before'') input of Some v \<Rightarrow> Some v
           | None \<Rightarrow> json_get (lit ''anchor'') input) json_as_str of
        Some (c # cs) \<Rightarrow> Inr (c # cs)
      | _ \<Rightarrow> Inl (ToolInput (lit ''before or anchor must be a non-empty string'')))"

definition prepare_action :: "tool_lib \<Rightarrow> files \<Rightarrow> rstr list \<Rightarrow> rstr \<Rightarrow> json \<Rightarrow> tool_error + rstr \<times> action" where
  "prepare_action T fs workspace name input =
     (let path = string_field input ''path''; cap = usize_field input ''max_output'' DEFAULT_CAP 1 DEFAULT_CAP in
      if name = lit ''read_file'' then
        bindE path (\<lambda>p. bindE (from_path T (display p)) (\<lambda>target.
        bindE (from_path T (read_path fs workspace p)) (\<lambda>q. bindE cap (\<lambda>n.
        Inr (target, ActRead q n)))))
      else if name = lit ''list_directory'' then
        bindE path (\<lambda>p. bindE (from_path T (display p)) (\<lambda>target.
        bindE (from_path T (read_path fs workspace p)) (\<lambda>q.
        bindE (usize_field input ''max_entries'' 1000 1 10000) (\<lambda>n.
        Inr (target, ActList q n)))))
      else if name = lit ''search'' then
        bindE (string_field input ''query'') (\<lambda>query. bindE (bool_field input ''regex'' False) (\<lambda>regex.
        bindE (usize_field input ''max_results'' 100 1 10000) (\<lambda>results. bindE cap (\<lambda>n.
        Inr (lit ''.'', ActSearch query regex results n)))))
      else if name = lit ''read_project_manifest'' then bindE cap (\<lambda>n. Inr (lit ''.'', ActManifest n))
      else if name = lit ''edit_file'' then
        bindE path (\<lambda>p. bindE (edit_anchor input) (\<lambda>before.
        bindE (from_path T (display p)) (\<lambda>target.
        bindE (from_path T (mutation_path fs workspace p False)) (\<lambda>q.
        bindE (string_field input ''after'') (\<lambda>after.
        Inr (target, ActEdit q before after))))))
      else if name = lit ''write_file'' then
        bindE path (\<lambda>p. bindE (bool_field input ''create_intent'' False) (\<lambda>create.
        bindE (from_path T (display p)) (\<lambda>target.
        bindE (from_path T (mutation_path fs workspace p create)) (\<lambda>q.
        bindE (string_field input ''content'') (\<lambda>content.
        Inr (target, ActWrite q content create))))))
      else if name = lit ''git_diff'' then bindE cap (\<lambda>n. Inr (lit ''.'', ActGitDiff n))
      else Inl (ToolUnknown name))"

definition prepare :: "tool_lib \<Rightarrow> files \<Rightarrow> rstr list \<Rightarrow> rstr \<times> effect_class \<Rightarrow> json \<Rightarrow> tool_error + prepared" where
  "prepare T fs workspace tool input =
     bindE (prepare_action T fs workspace (fst tool) input) (\<lambda>(target, act).
     let effect = (case act of ActWrite _ _ True \<Rightarrow> EffCreate | _ \<Rightarrow> snd tool) in
     Inr \<lparr>pp_target = target, pp_effect = effect, pp_action = act, pp_expected_hash = None\<rparr>)"

record tool_invocation =
  iv_name :: rstr
  iv_input :: json
  iv_turn_revision :: nat
  iv_effect_id :: rstr
  iv_attempt :: nat
  iv_precondition :: "rstr option"
  iv_timeout_ms :: nat
  iv_output_cap :: nat
  iv_approval_digest :: "rstr option"
  iv_lease_owner :: rstr
  iv_lease_token :: nat

definition binding_of :: "tool_registry \<Rightarrow> tool_invocation \<Rightarrow> rstr \<Rightarrow> operation_binding" where
  "binding_of r iv target = \<lparr>ob_descriptor_version = 1, ob_turn_revision = iv_turn_revision iv,
     ob_effect_id = iv_effect_id iv, ob_attempt = iv_attempt iv, ob_tool = iv_name iv, ob_target = target,
     ob_input = iv_input iv, ob_precondition = iv_precondition iv, ob_timeout_ms = iv_timeout_ms iv,
     ob_output_cap = iv_output_cap iv, ob_policy_version = po_version (tr_policy r),
     ob_lease_owner = iv_lease_owner iv, ob_lease_token = iv_lease_token iv\<rparr>"

definition prepare_for_engine :: "lib \<Rightarrow> tool_lib \<Rightarrow> files \<Rightarrow> tool_registry \<Rightarrow> tool_invocation
    \<Rightarrow> tool_error + prepared \<times> policy_decision \<times> rstr" where
  "prepare_for_engine L T fs r iv =
     bindE (ok_or (ToolUnknown (iv_name iv)) (map_of (tr_tools r) (iv_name iv))) (\<lambda>class.
     bindE (prepare T fs (tr_root r) (iv_name iv, class) (iv_input iv)) (\<lambda>p.
     if pp_effect p \<noteq> EffRead \<and> \<not> tr_supported r
     then Inl (ToolPath (path_error_text T UnsupportedSafePathOperation))
     else if pp_effect p = EffModify \<and> iv_precondition iv = None then Inl (ReadRequired (pp_target p))
     else Inr (p\<lparr>pp_expected_hash := iv_precondition iv\<rparr>,
       decide (tr_policy r) (pp_effect p) (pp_target p), operation_digest L (binding_of r iv (pp_target p)))))"

subsection \<open>Execution\<close>

record tool_output =
  to_value :: json
  to_truncated :: bool

text \<open>
  What an execution sees and leaves: the files and the snapshots of earlier reads. \<open>others\<close> is
  what other programs do to the files between the two file accesses of one execution.
\<close>

record tool_world =
  tw_files :: files
  tw_snapshots :: "rstr \<rightharpoonup> file_identity"

record execution =
  ex_others :: "files \<Rightarrow> files"
  ex_fault :: replace_fault
  ex_temp :: rstr
  ex_time :: nat

definition read_text :: "files \<Rightarrow> rstr list \<Rightarrow> tool_error + rstr" where
  "read_text fs p =
     bindE (map_err ToolIo (read_bytes fs p)) (\<lambda>(data, _).
     ok_or (ToolIo IoInvalidUtf8) (from_utf8 data))"

fun insert_text :: "rstr \<Rightarrow> rstr list \<Rightarrow> rstr list" where
  "insert_text t [] = [t]"
| "insert_text t (u # us) = (if rstr_less u t then u # insert_text t us else t # u # us)"

definition sort_texts :: "rstr list \<Rightarrow> rstr list" where
  "sort_texts ts = foldr insert_text ts []"

text \<open>\<open>str::lines\<close>: a final newline ends the last line, and a carriage return before one is dropped.\<close>

definition chomp :: "rstr \<Rightarrow> rstr" where
  "chomp l = (if l \<noteq> [] \<and> last l = 13 then butlast l else l)"

definition text_lines :: "rstr \<Rightarrow> rstr list" where
  "text_lines t = (let ps = split_on 10 t in
     map chomp (butlast ps) @ (if last ps = [] then [] else [last ps]))"

text \<open>The matches of one file; the loop stops at the first item that does not fit.\<close>

fun search_lines :: "(rstr \<Rightarrow> bool) \<Rightarrow> rstr \<Rightarrow> nat \<Rightarrow> nat \<Rightarrow> nat \<Rightarrow> nat \<times> rstr list \<Rightarrow> rstr list
    \<Rightarrow> (nat \<times> rstr list) \<times> bool" where
  "search_lines hit rel max_results max_output i acc [] = (acc, False)"
| "search_lines hit rel max_results max_output i (used, results) (l # ls) =
     (if hit l then
        (let item = rel @ lit '':'' @ nat_text (i + 1) @ lit '':'' @ l in
         if length results = max_results \<or> used + utf8_len item > max_output then ((used, results), True)
         else search_lines hit rel max_results max_output (i + 1) (used + utf8_len item, results @ [item]) ls)
      else search_lines hit rel max_results max_output (i + 1) (used, results) ls)"

fun search_files :: "files \<Rightarrow> rstr list \<Rightarrow> (rstr \<Rightarrow> bool) \<Rightarrow> nat \<Rightarrow> nat \<Rightarrow> nat \<times> rstr list \<Rightarrow> rstr list list
    \<Rightarrow> rstr list \<times> bool" where
  "search_files fs workspace hit max_results max_output acc [] = (snd acc, False)"
| "search_files fs workspace hit max_results max_output acc (rel # rels) =
     (case read_text fs (workspace @ rel) of
        Inl _ \<Rightarrow> search_files fs workspace hit max_results max_output acc rels
      | Inr t \<Rightarrow>
          (case search_lines hit (map (\<lambda>c. if c = 92 then 47 else c) (join_with (lit ''/'') rel))
                  max_results max_output 0 acc (text_lines t) of
             (acc, stopped) \<Rightarrow>
               if stopped then (snd acc, True)
               else search_files fs workspace hit max_results max_output acc rels))"

text \<open>\<open>Path::is_file\<close> and \<open>Path::exists\<close> follow links.\<close>

definition leads_to :: "files \<Rightarrow> rstr list \<Rightarrow> file_node option" where
  "leads_to fs p = (case canonicalize fs p of Inl _ \<Rightarrow> None | Inr q \<Rightarrow> fs q)"

definition is_file :: "files \<Rightarrow> rstr list \<Rightarrow> bool" where
  "is_file fs p = (case leads_to fs p of Some (FnFile _ _) \<Rightarrow> True | _ \<Rightarrow> False)"

definition MANIFEST_NAMES :: "rstr list" where
  "MANIFEST_NAMES = [lit ''Cargo.toml'', lit ''package.json'', lit ''pyproject.toml'', lit ''go.mod'']"

fun read_manifests :: "files \<Rightarrow> rstr list \<Rightarrow> nat \<Rightarrow> (rstr \<times> json) list \<times> bool \<Rightarrow> rstr list
    \<Rightarrow> tool_error + (rstr \<times> json) list \<times> bool" where
  "read_manifests fs workspace cap acc [] = Inr acc"
| "read_manifests fs workspace cap (found, truncated) (n # ns) =
     (if is_file fs (workspace @ [n]) then
        bindE (read_text fs (workspace @ [n])) (\<lambda>data.
        case bounded data cap of
          (v, t) \<Rightarrow> read_manifests fs workspace cap (obj_insert n (JStr v) found, truncated \<or> t) ns)
      else read_manifests fs workspace cap (found, truncated) ns)"

definition require_fresh :: "tool_lib \<Rightarrow> (rstr \<rightharpoonup> file_identity) \<Rightarrow> files \<Rightarrow> rstr \<Rightarrow> rstr list \<Rightarrow> rstr option
    \<Rightarrow> tool_error + unit" where
  "require_fresh T snapshots fs target path expected_hash =
     bindE (from_path T (identity (tl_sha T) fs path)) (\<lambda>actual.
     case expected_hash of
       Some h \<Rightarrow> if fi_hash actual \<noteq> h then Inl (ToolStale target) else Inr ()
     | None \<Rightarrow>
         bindE (ok_or (ReadRequired target) (snapshots target)) (\<lambda>expected.
         if actual \<noteq> expected then Inl (ToolStale target) else Inr ()))"

definition identity_output :: "file_identity \<Rightarrow> tool_output" where
  "identity_output i = \<lparr>to_value = json_obj [(lit ''sha256'', JStr (fi_hash i)), (lit ''size'', js_nat (fi_size i))],
     to_truncated = False\<rparr>"

definition execute_read :: "tool_lib \<Rightarrow> execution \<Rightarrow> rstr \<Rightarrow> rstr list \<Rightarrow> nat \<Rightarrow> tool_world
    \<Rightarrow> (tool_error + tool_output) \<times> tool_world" where
  "execute_read T X target path cap w =
     (let fs = tw_files w; later = ex_others X fs; w' = w\<lparr>tw_files := later\<rparr> in
      case map_err ToolIo (read_bytes fs path) of
        Inl e \<Rightarrow> (Inl e, w')
      | Inr (data, _) \<Rightarrow>
      (case from_path T (identity (tl_sha T) later path) of
        Inl e \<Rightarrow> (Inl e, w')
      | Inr i \<Rightarrow>
          (case bounded (tl_lossy T data) cap of
             (t, truncated) \<Rightarrow>
               (Inr \<lparr>to_value = json_obj [(lit ''content'', JStr t), (lit ''sha256'', JStr (fi_hash i)),
                    (lit ''size'', js_nat (fi_size i)), (lit ''modified_ns'', js_nat (fi_modified i))],
                   to_truncated = truncated\<rparr>,
                w'\<lparr>tw_snapshots := (tw_snapshots w)(target \<mapsto> i)\<rparr>))))"

text \<open>The end of both mutations: replace the target, then report what is there now.\<close>

definition replace_and_report :: "tool_lib \<Rightarrow> tool_registry \<Rightarrow> execution \<Rightarrow> rstr \<Rightarrow> rstr list \<Rightarrow> rstr \<Rightarrow> bool
    \<Rightarrow> tool_world \<Rightarrow> (tool_error + tool_output) \<times> tool_world" where
  "replace_and_report T r X target path content create w =
     (case atomic_replace (tr_supported r) (ex_fault X) (ex_temp X) (tw_files w) (tr_root r) target
             (to_utf8 content) create (ex_time X) of
        (res, fs') \<Rightarrow>
          (bindE (from_path T res) (\<lambda>_.
           bindE (from_path T (identity (tl_sha T) fs' path)) (\<lambda>i. Inr (identity_output i))),
           w\<lparr>tw_files := fs'\<rparr>))"

definition check_target :: "tool_lib \<Rightarrow> tool_registry \<Rightarrow> files \<Rightarrow> rstr \<Rightarrow> rstr list \<Rightarrow> bool \<Rightarrow> tool_error + unit" where
  "check_target T r fs target path create =
     bindE (from_path T (mutation_path fs (tr_root r) target create)) (\<lambda>checked.
     if checked \<noteq> path then Inl (ToolPath (lit ''target identity changed before mutation'')) else Inr ())"

definition execute_edit :: "tool_lib \<Rightarrow> tool_registry \<Rightarrow> execution \<Rightarrow> prepared \<Rightarrow> rstr list \<Rightarrow> rstr \<Rightarrow> rstr
    \<Rightarrow> tool_world \<Rightarrow> (tool_error + tool_output) \<times> tool_world" where
  "execute_edit T r X p path before after w =
     (let fs = tw_files w; later = ex_others X fs; w' = w\<lparr>tw_files := later\<rparr> in
      case bindE (check_target T r fs (pp_target p) path False) (\<lambda>_.
           bindE (require_fresh T (tw_snapshots w) fs (pp_target p) path (pp_expected_hash p)) (\<lambda>_.
           bindE (read_text later path) (\<lambda>content.
           if count_matches before content \<noteq> 1 then Inl (MatchCount (count_matches before content))
           else Inr (replace_once before after content)))) of
        Inl e \<Rightarrow> (Inl e, w')
      | Inr content \<Rightarrow> replace_and_report T r X (pp_target p) path content False w')"

definition execute_write :: "tool_lib \<Rightarrow> tool_registry \<Rightarrow> execution \<Rightarrow> prepared \<Rightarrow> rstr list \<Rightarrow> rstr \<Rightarrow> bool
    \<Rightarrow> tool_world \<Rightarrow> (tool_error + tool_output) \<times> tool_world" where
  "execute_write T r X p path content create w =
     (let fs = tw_files w; later = ex_others X fs; w' = w\<lparr>tw_files := later\<rparr> in
      case bindE (check_target T r fs (pp_target p) path create) (\<lambda>_.
           if create then
             (if leads_to fs path \<noteq> None
              then Inl (ToolInput (lit ''create_intent requires a missing target'')) else Inr ())
           else require_fresh T (tw_snapshots w) fs (pp_target p) path (pp_expected_hash p)) of
        Inl e \<Rightarrow> (Inl e, w')
      | Inr _ \<Rightarrow> replace_and_report T r X (pp_target p) path content create w')"

definition execute :: "tool_lib \<Rightarrow> tool_registry \<Rightarrow> execution \<Rightarrow> prepared \<Rightarrow> tool_world
    \<Rightarrow> (tool_error + tool_output) \<times> tool_world" where
  "execute T r X p w =
     (case pp_action p of
        ActRead path cap \<Rightarrow> execute_read T X (pp_target p) path cap w
      | ActList path cap \<Rightarrow>
          (if \<not> is_dir (tw_files w) path then (Inl (ToolIo IoNotADirectory), w)
           else let names = sort_texts (tl_names T (tw_files w) path) in
             (Inr \<lparr>to_value = json_obj [(lit ''entries'', JArr (map JStr (take cap names)))],
                to_truncated = (length names > cap)\<rparr>, w))
      | ActSearch query regex results cap \<Rightarrow>
          (case (if regex then map_err ToolRegex (tl_regex T query) else Inr (contains query)) of
             Inl e \<Rightarrow> (Inl e, w)
           | Inr hit \<Rightarrow>
               (case search_files (tw_files w) (tr_root r) hit results cap (0, [])
                       (tl_walk T (tw_files w) (tr_root r)) of
                  (found, truncated) \<Rightarrow>
                    (Inr \<lparr>to_value = json_obj [(lit ''matches'', JArr (map JStr found))],
                       to_truncated = truncated\<rparr>, w)))
      | ActManifest cap \<Rightarrow>
          (bindE (read_manifests (tw_files w) (tr_root r) cap ([], False) MANIFEST_NAMES)
             (\<lambda>(found, truncated). Inr \<lparr>to_value = JObj found, to_truncated = truncated\<rparr>), w)
      | ActEdit path before after \<Rightarrow> execute_edit T r X p path before after w
      | ActWrite path content create \<Rightarrow> execute_write T r X p path content create w
      | ActGitDiff cap \<Rightarrow>
          (bindE (map_err ToolGit (tl_git_diff T (tw_files w) (tr_root r) cap))
             (\<lambda>(t, truncated). Inr \<lparr>to_value = json_obj [(lit ''summary'', JStr t)], to_truncated = truncated\<rparr>), w))"

end
