(* ===== verification/Tool_Properties.thy ===== *)
theory Tool_Properties
  imports Tools Store_Example
begin

text \<open>
  What the tools may touch: a prepared read stays below the workspace, a mutation replaces
  exactly one file of it; and where the code falls short of its own rules.
\<close>

subsection \<open>Reading\<close>

lemma prepare_for_engine_action:
  assumes "prepare_for_engine L T fs r iv = Inr (p, decision, digest)"
  shows "\<exists>e. map_of (tr_tools r) (iv_name iv) = Some e
    \<and> prepare_action T fs (tr_root r) (iv_name iv) (iv_input iv) = Inr (pp_target p, pp_action p)
    \<and> decision = decide (tr_policy r) (pp_effect p) (pp_target p)
    \<and> digest = operation_digest L (binding_of r iv (pp_target p))
    \<and> pp_expected_hash p = iv_precondition iv"
  using assms by (auto simp: prepare_for_engine_def prepare_def Let_def split: if_splits)

lemma from_path_Inr [simp]: "from_path T m = Inr x \<longleftrightarrow> m = Inr x"
  by (simp add: from_path_def)

lemma prepared_read:
  assumes "prepare_action T fs workspace name input = Inr (target, act)" and "act = ActRead q n \<or> act = ActList q n"
  shows "\<exists>p. read_path fs workspace p = Inr q \<and> display p = Inr target"
  using assms by (auto simp: prepare_action_def Let_def split: if_splits)


subsection \<open>Mutating\<close>

lemma mutation_path_name:
  assumes "mutation_path fs root input allow = Inr target"
  shows "\<exists>ps. lexical input = Inr ps \<and> target = root @ normal_parts ps"
  using assms by (auto simp: mutation_path_def)

lemma replace_and_report_effect:
  assumes "files_ok (tw_files w)" and "is_dir (tw_files w) (tr_root r)" and "plain_names (tr_root r)"
    and "replace_and_report T r X target path content create w = (Inr out, w')"
  shows "\<exists>parts. mutation_path (tw_files w) (tr_root r) target create = Inr (tr_root r @ parts) \<and> parts \<noteq> []
     \<and> tw_files w (tr_root r @ parts) \<noteq> Some FnDir
     \<and> w' = w\<lparr>tw_files := (tw_files w)(tr_root r @ parts := Some (FnFile (to_utf8 content) (ex_time X)))\<rparr>"
proof -
  obtain res fs' where a: "atomic_replace (tr_supported r) (ex_fault X) (ex_temp X) (tw_files w) (tr_root r) target
             (to_utf8 content) create (ex_time X) = (res, fs')" by fastforce
  have "res = Inr ()" and w': "w' = w\<lparr>tw_files := fs'\<rparr>"
    using assms(4) by (auto simp: replace_and_report_def a)
  from atomic_replace_effect [OF assms(1-3) a] this show ?thesis by auto
qed




subsection \<open>A small workspace\<close>

definition example_files :: files where
  "example_files = map_of
     [([], FnDir), ([lit ''w''], FnDir), ([lit ''w'', lit ''secret''], FnDir),
      ([lit ''w'', lit ''secret'', lit ''key''], FnFile [107] 1),
      ([lit ''w'', lit ''a''], FnFile [104, 105] 1),
      ([lit ''w'', lit ''go.mod''], FnLink (lit ''/secret'')), ([lit ''secret''], FnFile [115] 1)]"

definition example_tools :: tool_registry where
  "example_tools = \<lparr>tr_root = [lit ''w''], tr_supported = True,
     tr_policy = \<lparr>po_denies = (\<lambda>t. t = lit ''secret/key''), po_version = 1\<rparr>,
     tr_tools = BUILTIN_TOOLS, tr_snapshots = Map.empty\<rparr>"

definition example_call :: "string \<Rightarrow> (string \<times> string) list \<Rightarrow> tool_invocation" where
  "example_call n kvs = \<lparr>iv_name = lit n, iv_input = JObj (map (\<lambda>(k, v). (lit k, JStr (lit v))) kvs),
     iv_turn_revision = 1, iv_effect_id = lit ''e'', iv_attempt = 1, iv_precondition = Some (lit ''h''),
     iv_timeout_ms = 1, iv_output_cap = 1, iv_approval_digest = None, iv_lease_owner = lit ''o'', iv_lease_token = 1\<rparr>"

definition example_library :: tool_lib where
  "example_library = \<lparr>tl_sha = (\<lambda>_. lit ''h''), tl_lossy = (\<lambda>d. d), tl_regex = (\<lambda>_. Inl []), tl_walk = (\<lambda>_ _. []),
     tl_names = (\<lambda>_ _. []), tl_git_diff = (\<lambda>_ _ _. Inl []), tl_io_text = (\<lambda>_. [])\<rparr>"

lemma example_files_ok: "files_ok example_files"
proof -
  have "is_dir example_files p" if "example_files (p @ [c]) \<noteq> None" for p c
    using that by (auto simp: example_files_def is_dir_def split: if_splits)
  then show ?thesis by (simp add: files_ok_def is_dir_def example_files_def)
qed


subsection \<open>Where the tools differ from their descriptions\<close>

lemma schemas_allow_empty_texts:
  "json_get (lit ''after'') (the (json_get (lit ''properties'') (tool_schema (lit ''edit_file'')))) = Some schema_string"
  "json_get (lit ''content'') (the (json_get (lit ''properties'') (tool_schema (lit ''write_file'')))) = Some schema_string"
  "json_get (lit ''minLength'') schema_string = None"
  by code_simp+

text \<open>
  A span cannot be deleted, nor a file emptied: a call of \<open>edit_file\<close> with an empty \<open>after\<close>,
  or of \<open>write_file\<close> with an empty \<open>content\<close>, satisfies the schema and the description of its
  tool, which says that \<open>after\<close> may be empty, but is always refused as invalid input.
\<close>

theorem spans_cannot_be_deleted:
  "prepare_action T fs workspace (lit ''edit_file'') (JObj [(lit ''path'', JStr p), (lit ''before'', JStr b),
     (lit ''after'', JStr []), (lit ''precondition'', JStr h)]) \<noteq> Inr (target, act)
   \<and> prepare_action T fs workspace (lit ''write_file'') (JObj [(lit ''path'', JStr p), (lit ''content'', JStr []),
     (lit ''create_intent'', JBool c), (lit ''precondition'', JStr h)]) \<noteq> Inr (target, act)
   \<and> json_get (lit ''after'') (the (json_get (lit ''properties'') (tool_schema (lit ''edit_file'')))) = Some schema_string
   \<and> json_get (lit ''content'') (the (json_get (lit ''properties'') (tool_schema (lit ''write_file'')))) = Some schema_string
   \<and> json_get (lit ''minLength'') schema_string = None"
  unfolding schemas_allow_empty_texts by (simp add: prepare_action_def string_field_def json_get_def json_as_str_def)

text \<open>
  Deny rules are matched against the text of a path, not against the file it names: a rule
  that denies one text does not deny another text of the same file.
\<close>

lemma example_paths:
  "lexical (lit ''secret/key'') = Inr [lit ''secret'', lit ''key'']" "display (lit ''secret/key'') = Inr (lit ''secret/key'')"
  "lexical (lit ''secret//key'') = Inr [lit ''secret'', [], lit ''key'']" "display (lit ''secret//key'') = Inr (lit ''secret//key'')"
  by code_simp+

lemma example_reads:
  "read_path example_files [lit ''w''] (lit ''secret/key'') = Inr [lit ''w'', lit ''secret'', lit ''key'']"
  "read_path example_files [lit ''w''] (lit ''secret//key'') = Inr [lit ''w'', lit ''secret'', lit ''key'']"
  by code_simp+

definition decided :: "string \<Rightarrow> tool_error + action \<times> policy_decision" where
  "decided path = map_sum (\<lambda>e. e) (\<lambda>(p, d, _). (pp_action p, d))
     (prepare_for_engine ex_lib example_library example_files example_tools (example_call ''read_file'' [(''path'', path)]))"

lemma string_field_lit: "path \<noteq> [] \<Longrightarrow> string_field (JObj [(lit k, JStr (lit path))]) k = Inr (lit path)"
  by (cases path) (simp_all add: string_field_def json_get_def json_as_str_def lit_simps)

lemma usize_field_default: "k \<noteq> k' \<Longrightarrow> usize_field (JObj [(lit k, v)]) k' DEFAULT_CAP 1 DEFAULT_CAP = Inr DEFAULT_CAP"
  by (simp add: usize_field_def json_get_def DEFAULT_CAP_def)

lemma prepared_example:
  assumes "display (lit path) = Inr target" and "read_path example_files [lit ''w''] (lit path) = Inr q" and "path \<noteq> []"
  shows "\<exists>d. prepare_for_engine ex_lib example_library example_files example_tools (example_call ''read_file'' [(''path'', path)])
   = Inr (\<lparr>pp_target = target, pp_effect = EffRead, pp_action = ActRead q DEFAULT_CAP, pp_expected_hash = Some (lit ''h'')\<rparr>,
       if target = lit ''secret/key'' then PdDeny else PdAllow, d)"
  using assms by (simp add: prepare_for_engine_def prepare_def prepare_action_def example_call_def example_tools_def
    BUILTIN_TOOLS_def string_field_lit usize_field_default decide_def from_path_def
    del: One_nat_def)

lemma decided_read:
  assumes "display (lit path) = Inr d" and "read_path example_files [lit ''w''] (lit path) = Inr q" and "path \<noteq> []"
  shows "decided path = Inr (ActRead q DEFAULT_CAP, if d = lit ''secret/key'' then PdDeny else PdAllow)"
  using prepared_example [OF assms] by (auto simp: decided_def)

lemma deny_rules_miss_an_alias:
  "decided ''secret/key'' = Inr (ActRead [lit ''w'', lit ''secret'', lit ''key''] DEFAULT_CAP, PdDeny)
   \<and> decided ''secret//key'' = Inr (ActRead [lit ''w'', lit ''secret'', lit ''key''] DEFAULT_CAP, PdAllow)"
  using decided_read [OF example_paths(2) example_reads(1)] decided_read [OF example_paths(4) example_reads(2)] by simp

text \<open>\<open>read_project_manifest\<close> follows a link at a manifest's name out of the workspace.\<close>

lemma manifests_are_read_outside:
  "read_manifests example_files [lit ''w''] 9 ([], False) MANIFEST_NAMES = Inr ([(lit ''go.mod'', JStr [115])], False)"
  by code_simp


subsection \<open>Witnesses\<close>


definition example_execution :: execution where
  "example_execution = \<lparr>ex_others = (\<lambda>fs. fs), ex_fault = \<lparr>rf_fault = None, rf_leftover = None\<rparr>, ex_temp = lit ''t'', ex_time = 2\<rparr>"

definition example_edit :: prepared where
  "example_edit = \<lparr>pp_target = lit ''a'', pp_effect = EffModify, pp_action = ActEdit [lit ''w'', lit ''a''] [105] [106, 107],
     pp_expected_hash = Some (lit ''h'')\<rparr>"

definition edit_outcome :: "(tool_error + tool_output) \<times> tool_world" where
  "edit_outcome = execute example_library example_tools example_execution example_edit
     \<lparr>tw_files = example_files, tw_snapshots = Map.empty\<rparr>"

lemma example_root: "is_dir example_files (tr_root example_tools)" "plain_names (tr_root example_tools)"
  by code_simp+

lemma example_text: "read_text example_files [lit ''w'', lit ''a''] = Inr [104, 105]"
  by code_simp

lemma edit_outcome_ok: "is_ok (fst edit_outcome)"
  by code_simp


end
