(* ===== verification/Process_Policy.thy ===== *)
theory Process_Policy
  imports Tools
begin

text \<open>
  Processes in \<open>latte-engine/src/process.rs\<close>: the request a model writes, its policy class and
  digest, the supervision of a spawned process group and the bounded capture of its output.
  The operating system answers through \<open>os_run\<close>: what the spawn, the waits and the n-th probe
  of the group returned, and how long the n-th pause took. Time is in milliseconds.
\<close>

subsection \<open>Requests\<close>

datatype process_decision = PrAllow | PrAsk | PrDeny

datatype group_probe = GroupAbsent | GroupPresent | GroupUncertain

record process_invocation =
  pi_argv :: "rstr list"
  pi_shell :: "rstr option"
  pi_cwd :: rstr
  pi_env :: "(rstr \<times> rstr) list"
  pi_timeout_ms :: nat
  pi_grace_ms :: nat
  pi_stdout_cap :: nat
  pi_stderr_cap :: nat
  pi_turn_revision :: nat
  pi_effect_id :: rstr
  pi_attempt :: nat
  pi_approval_digest :: "rstr option"
  pi_lease_owner :: rstr
  pi_lease_token :: nat

datatype process_termination = ProcExited | ProcTimedOut | ProcCancelled

record process_output =
  po_exit_code :: "int option"
  po_stdout :: rstr
  po_stderr :: rstr
  po_stdout_truncated :: bool
  po_stderr_truncated :: bool
  po_termination :: process_termination

definition command_succeeded :: "process_output \<Rightarrow> bool" where
  "command_succeeded out \<longleftrightarrow> po_termination out = ProcExited \<and> po_exit_code out = Some 0"

datatype process_error =
    PeInvalid rstr
  | PeDenied
  | PePermissionRequired rstr
  | PeInvalidApproval
  | PeUnsupported
  | PeSupervision rstr

fun process_error_text :: "process_error \<Rightarrow> rstr" where
  "process_error_text (PeInvalid m) = lit ''invalid process request: '' @ m"
| "process_error_text PeDenied = lit ''process operation denied''"
| "process_error_text (PePermissionRequired _) = lit ''process permission required''"
| "process_error_text PeInvalidApproval = lit ''approval is stale, mismatched, consumed, or lease-invalid''"
| "process_error_text PeUnsupported = lit ''process supervision unsupported on this platform''"
| "process_error_text (PeSupervision m) = lit ''process supervision failed: '' @ m"

definition bad_request :: "string \<Rightarrow> process_error" where
  "bad_request m = PeInvalid (lit m)"

definition safe_grep :: "rstr list \<Rightarrow> bool" where
  "safe_grep argv \<longleftrightarrow> length argv = 4 \<and> argv ! 0 = lit ''/usr/bin/grep'' \<and> argv ! 1 = lit ''-q'' \<and> argv ! 2 \<noteq> []
     \<and> \<not> is_absolute (argv ! 3) \<and> lit ''..'' \<notin> set (pieces (argv ! 3))"

definition classify :: "process_invocation \<Rightarrow> process_decision" where
  "classify i =
     (case pi_shell i of
        Some shell \<Rightarrow>
          let lower = to_ascii_lowercase shell in
          if contains (lit ''rm -rf /'') lower \<or> contains (lit '':(){'') lower \<or> contains (lit ''mkfs'') lower
          then PrDeny else PrAsk
      | None \<Rightarrow>
          if pi_argv i = [] then PrDeny
          else if pi_env i = [] \<and> (pi_argv i = [lit ''/bin/pwd''] \<or> safe_grep (pi_argv i)) then PrAllow
          else PrAsk)"

definition text_object :: "(rstr \<times> rstr) list \<Rightarrow> json" where
  "text_object kvs = JObj (map (\<lambda>(k, v). (k, JStr v)) kvs)"

definition process_binding_json :: "process_invocation \<Rightarrow> json" where
  "process_binding_json i = JObj
     [(lit ''argv'', JArr (map JStr (pi_argv i))), (lit ''shell'', json_opt JStr (pi_shell i)),
      (lit ''cwd'', JStr (pi_cwd i)), (lit ''env'', text_object (pi_env i)),
      (lit ''timeout_ms'', js_nat (pi_timeout_ms i)), (lit ''grace_ms'', js_nat (pi_grace_ms i)),
      (lit ''stdout_cap'', js_nat (pi_stdout_cap i)), (lit ''stderr_cap'', js_nat (pi_stderr_cap i)),
      (lit ''turn_revision'', js_nat (pi_turn_revision i)), (lit ''effect_id'', JStr (pi_effect_id i)),
      (lit ''attempt'', js_nat (pi_attempt i)), (lit ''lease_owner'', JStr (pi_lease_owner i)),
      (lit ''lease_token'', js_nat (pi_lease_token i)), (lit ''version'', js_nat 1)]"

definition process_digest :: "lib \<Rightarrow> process_invocation \<Rightarrow> rstr" where
  "process_digest L i = json_sha256 L (process_binding_json i)"

subsection \<open>Reading a request\<close>

record process_spec =
  sp_argv :: "rstr list"
  sp_shell :: "rstr option"
  sp_cwd :: rstr
  sp_env :: "(rstr \<times> rstr) list"
  sp_timeout_ms :: nat
  sp_grace_ms :: nat
  sp_stdout_cap :: nat
  sp_stderr_cap :: nat

fun texts_of :: "json list \<Rightarrow> rstr list option" where
  "texts_of [] = Some []"
| "texts_of (v # vs) = (case (json_as_str v, texts_of vs) of (Some t, Some ts) \<Rightarrow> Some (t # ts) | _ \<Rightarrow> None)"

definition optional_field :: "json \<Rightarrow> string \<Rightarrow> 'a \<Rightarrow> (json \<Rightarrow> process_error + 'a) \<Rightarrow> process_error + 'a" where
  "optional_field input key absent read = (case json_get (lit key) input of None \<Rightarrow> Inr absent | Some v \<Rightarrow> read v)"

definition read_argv :: "json \<Rightarrow> process_error + rstr list" where
  "read_argv v = (case v of
       JArr vs \<Rightarrow> ok_or (bad_request ''argv entries must be strings'') (texts_of vs)
     | _ \<Rightarrow> Inl (bad_request ''argv must be an array''))"

fun text_fields :: "(rstr \<times> json) list \<Rightarrow> (rstr \<times> rstr) list option" where
  "text_fields [] = Some []"
| "text_fields ((k, v) # kvs) = (case (json_as_str v, text_fields kvs) of
     (Some t, Some m) \<Rightarrow> Some (obj_insert k t m) | _ \<Rightarrow> None)"

definition read_env :: "(json \<Rightarrow> rstr) \<Rightarrow> json \<Rightarrow> process_error + (rstr \<times> rstr) list" where
  "read_env env_error v =
     ok_or (PeInvalid (lit ''invalid env: '' @ env_error v)) (case v of JObj kvs \<Rightarrow> text_fields kvs | _ \<Rightarrow> None)"

definition spec_number :: "json \<Rightarrow> string \<Rightarrow> nat \<Rightarrow> nat \<Rightarrow> process_error + nat" where
  "spec_number input key absent maximum =
     bindE (optional_field input key absent
       (\<lambda>v. ok_or (bad_request (key @ '' must be an unsigned integer'')) (as_u64 v))) (\<lambda>n.
     if n = 0 \<or> n > maximum then Inl (bad_request (key @ '' is out of range'')) else Inr n)"

definition from_input :: "(json \<Rightarrow> rstr) \<Rightarrow> json \<Rightarrow> process_error + process_spec" where
  "from_input env_error input =
     (case input of JObj _ \<Rightarrow>
        bindE (optional_field input ''argv'' [] read_argv) (\<lambda>argv.
        bindE (optional_field input ''shell'' None
          (\<lambda>v. map_sum (\<lambda>e. e) Some (ok_or (bad_request ''shell must be a string'') (json_as_str v)))) (\<lambda>shell.
        let cwd = (case Option.bind (json_get (lit ''cwd'') input) json_as_str of Some c \<Rightarrow> c | None \<Rightarrow> lit ''.'') in
        bindE (optional_field input ''env'' [] (read_env env_error)) (\<lambda>env.
        bindE (spec_number input ''timeout_ms'' 30000 600000) (\<lambda>timeout.
        bindE (optional_field input ''grace_ms'' 250
          (\<lambda>v. ok_or (bad_request ''grace_ms must be an unsigned integer'') (as_u64 v))) (\<lambda>grace.
        if grace > 30000 then Inl (bad_request ''grace_ms is out of range'') else
        bindE (spec_number input ''stdout_cap'' (64 * 1024) 1048576) (\<lambda>out.
        bindE (spec_number input ''stderr_cap'' (64 * 1024) 1048576) (\<lambda>err.
        if (argv = []) = (shell = None) then Inl (bad_request ''provide exactly one of argv or shell'')
        else Inr \<lparr>sp_argv = argv, sp_shell = shell, sp_cwd = cwd, sp_env = env, sp_timeout_ms = timeout,
          sp_grace_ms = grace, sp_stdout_cap = out, sp_stderr_cap = err\<rparr>)))))))
      | _ \<Rightarrow> Inl (bad_request ''process input must be an object''))"

definition spec_invocation :: "process_spec \<Rightarrow> nat \<Rightarrow> session_effect_descriptor \<Rightarrow> lease \<Rightarrow> process_invocation" where
  "spec_invocation s revision d l = \<lparr>pi_argv = sp_argv s, pi_shell = sp_shell s, pi_cwd = sp_cwd s, pi_env = sp_env s,
     pi_timeout_ms = sp_timeout_ms s, pi_grace_ms = sp_grace_ms s, pi_stdout_cap = sp_stdout_cap s,
     pi_stderr_cap = sp_stderr_cap s, pi_turn_revision = revision, pi_effect_id = sd_effect_id d,
     pi_attempt = sd_attempt d, pi_approval_digest = None, pi_lease_owner = ls_owner l,
     pi_lease_token = ls_fencing_token l\<rparr>"

definition resolve_cwd :: "tool_lib \<Rightarrow> files \<Rightarrow> tool_registry \<Rightarrow> rstr \<Rightarrow> tool_error + rstr list" where
  "resolve_cwd T fs r path =
     bindE (from_path T (read_path fs (tr_root r) path)) (\<lambda>q.
     if \<not> is_dir fs q then Inl (ToolInput (lit ''process cwd must be a directory'')) else Inr q)"

subsection \<open>Supervision\<close>

datatype first_event = FirstExit "rstr + int option" | FirstCancel | FirstDeadline

record os_run =
  os_cancelled :: bool
  os_spawn :: "rstr + unit"
  os_first :: first_event
  os_grace_wait :: "(rstr + int option) option"
  os_kill_wait :: "rstr + int option"
  os_probe :: "nat \<Rightarrow> rstr + group_probe"
  os_pause :: "nat \<Rightarrow> nat"
  os_stdout :: "(rstr + nat list list) option"
  os_stderr :: "(rstr + nat list list) option"

text \<open>Probes and pauses are counted; the state of a supervision is their number and the clock.\<close>

type_synonym ticks = "nat \<times> nat"

definition probe :: "os_run \<Rightarrow> ticks \<Rightarrow> process_error + group_probe \<times> ticks" where
  "probe os st = map_sum PeSupervision (\<lambda>g. (g, (fst st + 1, snd st))) (os_probe os (fst st))"

definition pause :: "os_run \<Rightarrow> ticks \<Rightarrow> ticks" where
  "pause os st = (fst st, snd st + 10 + os_pause os (fst st))"

lemma probe_Inr: "probe os st = Inr (g, st') \<longleftrightarrow> os_probe os (fst st) = Inr g \<and> st' = (fst st + 1, snd st)"
  by (cases "os_probe os (fst st)") (auto simp: probe_def)

definition uncertain :: "string \<Rightarrow> process_error" where
  "uncertain m = PeSupervision (lit m)"

text \<open>Poll while the group is present and time is left.\<close>

function poll_group :: "os_run \<Rightarrow> nat \<Rightarrow> ticks \<Rightarrow> process_error + ticks" where
  "poll_group os deadline st =
     (case probe os st of
        Inl e \<Rightarrow> Inl e
      | Inr (g, st') \<Rightarrow>
          if g = GroupPresent \<and> snd st' < deadline then poll_group os deadline (pause os st') else Inr st')"
  by pat_completeness auto

termination
  by (relation "measure (\<lambda>(os, deadline, st). deadline - snd st)") (auto simp: probe_Inr pause_def)

declare poll_group.simps [simp del]

function await_absent :: "os_run \<Rightarrow> nat \<Rightarrow> ticks \<Rightarrow> process_error + bool \<times> ticks" where
  "await_absent os deadline st =
     (case probe os st of
        Inl e \<Rightarrow> Inl e
      | Inr (g, st') \<Rightarrow>
          if g = GroupAbsent then Inr (True, st')
          else if snd st' < deadline then await_absent os deadline (pause os st')
          else if g = GroupUncertain then Inl (uncertain ''process group existence remained uncertain'')
          else Inr (False, st'))"
  by pat_completeness auto

termination
  by (relation "measure (\<lambda>(os, deadline, st). deadline - snd st)") (auto simp: probe_Inr pause_def)

declare await_absent.simps [simp del]

definition await_group_absent :: "os_run \<Rightarrow> nat \<Rightarrow> ticks \<Rightarrow> process_error + bool \<times> ticks" where
  "await_group_absent os grace st = await_absent os (snd st + max grace 10000) st"

text \<open>The end of both shutdowns: whoever is left after the grace period is killed.\<close>

definition kill_rest :: "os_run \<Rightarrow> nat \<Rightarrow> string \<Rightarrow> ticks \<Rightarrow> process_error + ticks" where
  "kill_rest os grace survived st =
     bindE (probe os st) (\<lambda>(g, st).
     if g = GroupUncertain then Inl (uncertain ''process group existence is uncertain'')
     else bindE (probe os st) (\<lambda>(g, st).
       if g = GroupPresent
       then bindE (await_group_absent os grace st) (\<lambda>(gone, st).
         if \<not> gone then Inl (uncertain survived) else Inr st)
       else Inr st))"

definition shutdown_group :: "os_run \<Rightarrow> nat \<Rightarrow> ticks \<Rightarrow> process_error + ticks" where
  "shutdown_group os grace st =
     bindE (poll_group os (snd st + grace) st) (kill_rest os grace ''process group survived SIGKILL'')"

definition terminate_and_reap :: "os_run \<Rightarrow> nat \<Rightarrow> ticks \<Rightarrow> process_error + int option \<times> ticks" where
  "terminate_and_reap os grace st =
     bindE (map_err PeSupervision (case os_grace_wait os of Some r \<Rightarrow> r | None \<Rightarrow> os_kill_wait os)) (\<lambda>status.
     bindE (kill_rest os grace ''descendant process group survived SIGKILL'' st) (\<lambda>st. Inr (status, st)))"

fun drain :: "nat \<Rightarrow> nat list list \<Rightarrow> nat list \<times> bool \<Rightarrow> nat list \<times> bool" where
  "drain cap [] acc = acc"
| "drain cap (c # cs) (kept, truncated) =
     (let remaining = cap - length kept
      in drain cap cs (kept @ take remaining c, truncated \<or> length c > remaining))"

definition collect :: "tool_lib \<Rightarrow> string \<Rightarrow> nat \<Rightarrow> (rstr + nat list list) option \<Rightarrow> process_error + rstr \<times> bool" where
  "collect T name cap r =
     (case r of
        None \<Rightarrow> Inl (uncertain (name @ '' drain did not reach EOF''))
      | Some (Inl e) \<Rightarrow> Inl (PeSupervision e)
      | Some (Inr chunks) \<Rightarrow> (case drain cap chunks ([], False) of (kept, truncated) \<Rightarrow> Inr (tl_lossy T kept, truncated)))"

definition supervise :: "tool_lib \<Rightarrow> os_run \<Rightarrow> process_invocation \<Rightarrow> process_error + process_output" where
  "supervise T os i =
     (if os_cancelled os then Inl (uncertain ''process cancelled before it could be started'')
      else
      bindE (map_err PeSupervision (os_spawn os)) (\<lambda>_.
      bindE (case os_first os of
         FirstExit r \<Rightarrow>
           bindE (map_err PeSupervision r) (\<lambda>status.
           bindE (probe os (0, 0)) (\<lambda>(g, st).
           case g of
             GroupPresent \<Rightarrow> bindE (shutdown_group os (pi_grace_ms i) st) (\<lambda>_. Inr (ProcExited, status))
           | GroupAbsent \<Rightarrow> Inr (ProcExited, status)
           | GroupUncertain \<Rightarrow> Inl (uncertain ''process group existence is uncertain'')))
       | FirstCancel \<Rightarrow>
           bindE (terminate_and_reap os (pi_grace_ms i) (0, 0)) (\<lambda>(status, _). Inr (ProcCancelled, status))
       | FirstDeadline \<Rightarrow>
           bindE (terminate_and_reap os (pi_grace_ms i) (0, 0)) (\<lambda>(status, _). Inr (ProcTimedOut, status)))
        (\<lambda>(termination, status).
      bindE (collect T ''stdout'' (pi_stdout_cap i) (os_stdout os)) (\<lambda>(out, out_cut).
      bindE (collect T ''stderr'' (pi_stderr_cap i) (os_stderr os)) (\<lambda>(err, err_cut).
      Inr \<lparr>po_exit_code = status, po_stdout = out, po_stderr = err, po_stdout_truncated = out_cut,
        po_stderr_truncated = err_cut, po_termination = termination\<rparr>)))))"

end
