(* ===== verification/Engine_Commit.thy ===== *)
theory Engine_Commit
  imports Process_Policy Store_Commit Store_Runs Conversation_Log
begin

text \<open>
  How the engine commits (\<open>latte-engine/src/lib.rs\<close>): the guard of an unverified completion,
  the commit of the store, the conversation file and the snapshot that the caller gets; and
  verified completion, whose evidence is bound to a workspace that was sampled twice alike.
  \<open>samples n\<close> is the answer of the n-th walk over the workspace.
\<close>

subsection \<open>The engine and its world\<close>

record engine =
  en_lib :: lib
  en_serde :: serde
  en_store :: "conversation_store option"
  en_root :: rstr
  en_tools :: tool_registry
  en_tool_lib :: tool_lib
  en_env_error :: "json \<Rightarrow> rstr"
  en_sql_text :: "sql_error \<Rightarrow> rstr"
  en_supervision :: bool

record engine_world =
  ew_db :: db
  ew_log :: fs
  ew_tools :: tool_world

fun storage_error_text :: "lib \<Rightarrow> (sql_error \<Rightarrow> rstr) \<Rightarrow> storage_error \<Rightarrow> rstr" where
  "storage_error_text L q (Sql e) = lit ''sqlite storage failure: '' @ q e"
| "storage_error_text L q (InvalidData m) = lit ''stored data is invalid: '' @ m"
| "storage_error_text L q (NewerSchema found supported) =
     lit ''database schema version '' @ nat_text (nat found) @ lit '' is newer than supported version '' @ nat_text (nat supported)"
| "storage_error_text L q (TurnNotFound t) = lit ''run '' @ uuid_text L t @ lit '' was not found''"
| "storage_error_text L q (StaleTurnRevision expected actual) =
     lit ''stale run revision: expected '' @ nat_text expected @ lit '', actual '' @ nat_text actual"
| "storage_error_text L q EngineUnavailable = lit ''runtime lease is held by another owner''"
| "storage_error_text L q LeaseLost = lit ''runtime lease was lost''"
| "storage_error_text L q EffectFenced = lit ''effect terminal write was fenced''"
| "storage_error_text L q (SessionNotFound s) = lit ''session '' @ uuid_text L s @ lit '' was not found''"
| "storage_error_text L q (StaleSessionRevision expected actual) =
     lit ''session revision is stale: expected '' @ nat_text expected @ lit '', actual '' @ nat_text actual"
| "storage_error_text L q LinkedTurnRequiresSessionCommit = lit ''linked session turns must use CommitSessionTurnUpdate''"
| "storage_error_text L q SessionCommandReplayMismatch = lit ''session command id was reused with different content''"
| "storage_error_text L q (SessionAlreadyExists s) = lit ''session '' @ uuid_text L s @ lit '' already exists''"
| "storage_error_text L q SessionActiveTurnMismatch = lit ''session does not have the requested active turn''"

definition ensure_session_lease :: "lib \<Rightarrow> uuid \<Rightarrow> lease \<Rightarrow> storage_error + unit" where
  "ensure_session_lease L sid l = (if ls_scope l = lit ''session:'' @ uuid_text L sid then Inr () else Inl LeaseLost)"

definition snapshot_projection :: "engine \<Rightarrow> uuid \<Rightarrow> nat \<Rightarrow> engine_world \<Rightarrow> (storage_error + session_snapshot) \<times> engine_world" where
  "snapshot_projection E sid limit w =
     (let L = en_lib E in
      case current_projection_snapshot L (ew_db w) sid limit of
        Inl e \<Rightarrow> (Inl e, w)
      | Inr s \<Rightarrow>
     (case en_store E of
        None \<Rightarrow> (Inr s, w)
      | Some cs \<Rightarrow>
     (case sync_session_conversation L (en_serde E) (en_store E) (en_root E) sid (ew_log w) (ew_db w) of
        (log, Inl e) \<Rightarrow> (Inl e, w\<lparr>ew_log := log\<rparr>)
      | (log, Inr d) \<Rightarrow>
     (case conversation_read L (en_serde E) cs sid log of
        (log, r) \<Rightarrow>
          (bindE (map_err InvalidData r) (\<lambda>es. Inr (s\<lparr>sn_transcript := projection_window es limit\<rparr>)),
           w\<lparr>ew_log := log, ew_db := d\<rparr>)))))"

definition finish_session_response :: "engine \<Rightarrow> session_commit_response \<Rightarrow> engine_world
    \<Rightarrow> (storage_error + session_commit_response) \<times> engine_world" where
  "finish_session_response E resp w =
     (let sid = sn_session_id (rs_snapshot resp) in
      case sync_session_conversation (en_lib E) (en_serde E) (en_store E) (en_root E) sid (ew_log w) (ew_db w) of
        (log, Inl e) \<Rightarrow> (Inl e, w\<lparr>ew_log := log\<rparr>)
      | (log, Inr d) \<Rightarrow>
          (case snapshot_projection E sid 500 (w\<lparr>ew_log := log, ew_db := d\<rparr>) of
             (r, w) \<Rightarrow> (bindE r (\<lambda>s. Inr (resp\<lparr>rs_snapshot := s\<rparr>)), w)))"

subsection \<open>Completion\<close>

definition manifest_map_digest :: "lib \<Rightarrow> manifest \<Rightarrow> rstr" where
  "manifest_map_digest L m = json_sha256 L (text_object m)"

type_synonym samples = "nat \<Rightarrow> tool_error + manifest"

fun completion_attempts :: "lib \<Rightarrow> tool_lib \<Rightarrow> samples \<Rightarrow> nat \<Rightarrow> nat \<Rightarrow> storage_error + rstr \<times> manifest" where
  "completion_attempts L T samples 0 n = Inl (invalid ''workspace remained unstable across completion sampling'')"
| "completion_attempts L T samples (Suc k) n =
     (case samples n of
        Inl (WorkspaceUnstable _) \<Rightarrow> completion_attempts L T samples k (n + 1)
      | Inl e \<Rightarrow> Inl (InvalidData (tool_error_text T e))
      | Inr first \<Rightarrow>
     (case samples (n + 1) of
        Inl (WorkspaceUnstable _) \<Rightarrow> completion_attempts L T samples k (n + 2)
      | Inl e \<Rightarrow> Inl (InvalidData (tool_error_text T e))
      | Inr second \<Rightarrow>
          if manifest_map_digest L first = manifest_map_digest L second
          then Inr (manifest_map_digest L second, second)
          else completion_attempts L T samples k (n + 2)))"

definition stable_completion_snapshot :: "lib \<Rightarrow> tool_lib \<Rightarrow> samples \<Rightarrow> storage_error + rstr \<times> manifest" where
  "stable_completion_snapshot L T samples = completion_attempts L T samples 3 0"

definition completion_guard :: "engine \<Rightarrow> samples \<Rightarrow> session_commit_request \<Rightarrow> db \<Rightarrow> storage_error + unit" where
  "completion_guard E samples rq d =
     (case rq_update rq of
        CuComplete _ _ \<Rightarrow>
          bindE (stable_completion_snapshot (en_lib E) (en_tool_lib E) samples) (\<lambda>(_, current).
          bindE (session_changed_files (en_lib E) d (rq_turn_id rq) current) (\<lambda>files.
          if files \<noteq> [] then Inl (invalid ''linked child changed the workspace; use verified completion'')
          else Inr ()))
      | _ \<Rightarrow> Inr ())"

definition engine_commit :: "engine \<Rightarrow> samples \<Rightarrow> (nat \<Rightarrow> uuid) \<Rightarrow> session_commit_request \<Rightarrow> lease \<Rightarrow> nat \<Rightarrow> engine_world
    \<Rightarrow> (storage_error + session_commit_response) \<times> engine_world" where
  "engine_commit E samples ids rq l now w =
     (case bindE (completion_guard E samples rq (ew_db w))
             (\<lambda>_. commit_session_turn_update (en_lib E) ids (ew_db w) rq l now) of
        Inl e \<Rightarrow> (Inl e, w)
      | Inr (d, resp) \<Rightarrow> finish_session_response E resp (w\<lparr>ew_db := d\<rparr>))"

definition commit_snapshot :: "engine \<Rightarrow> samples \<Rightarrow> (nat \<Rightarrow> uuid) \<Rightarrow> session_commit_request \<Rightarrow> lease \<Rightarrow> nat \<Rightarrow> engine_world
    \<Rightarrow> (storage_error + session_snapshot) \<times> engine_world" where
  "commit_snapshot E samples ids rq l now w =
     (case engine_commit E samples ids rq l now w of (r, w) \<Rightarrow> (bindE r (\<lambda>resp. Inr (rs_snapshot resp)), w))"

definition snapshot_turn_revision :: "session_snapshot \<Rightarrow> nat option" where
  "snapshot_turn_revision s =
     (case sn_active_turn_id s of
        None \<Rightarrow> None
      | Some t \<Rightarrow> map_option sm_turn_revision (find (\<lambda>x. sm_turn_id x = t) (sn_turns s)))"

definition session_turn_changed_files :: "engine \<Rightarrow> samples \<Rightarrow> uuid \<Rightarrow> db \<Rightarrow> storage_error + rstr list" where
  "session_turn_changed_files E samples t d =
     bindE (map_err (\<lambda>e. InvalidData (tool_error_text (en_tool_lib E) e)) (samples 0)) (\<lambda>current.
     session_changed_files (en_lib E) d t current)"

definition termination_name :: "process_termination \<Rightarrow> rstr" where
  "termination_name t = (case t of ProcExited \<Rightarrow> lit ''exited'' | ProcTimedOut \<Rightarrow> lit ''timed_out''
     | ProcCancelled \<Rightarrow> lit ''cancelled'')"

definition process_output_json :: "process_output \<Rightarrow> json" where
  "process_output_json out = JObj
     [(lit ''exit_code'', json_opt JInt (po_exit_code out)), (lit ''stdout'', JStr (po_stdout out)),
      (lit ''stderr'', JStr (po_stderr out)), (lit ''stdout_truncated'', JBool (po_stdout_truncated out)),
      (lit ''stderr_truncated'', JBool (po_stderr_truncated out)),
      (lit ''termination'', JStr (termination_name (po_termination out)))]"

definition verification_json :: "verification_record \<Rightarrow> json" where
  "verification_json v = JObj
     [(lit ''revision'', js_nat (ver_revision v)), (lit ''effect_epoch'', js_nat (ver_effect_epoch v)),
      (lit ''effect_id'', JStr (ver_effect_id v)), (lit ''passed'', JBool (ver_passed v)),
      (lit ''workspace_manifest_digest'', JStr (ver_workspace_manifest_digest v)),
      (lit ''summary'', JStr (ver_summary v))]"

definition record_session_verification :: "engine \<Rightarrow> samples \<Rightarrow> uuid \<Rightarrow> nat \<Rightarrow> rstr \<Rightarrow> process_output \<Rightarrow> lease \<Rightarrow> nat
    \<Rightarrow> db \<Rightarrow> storage_error + db" where
  "record_session_verification E samples t expected eid out l now d =
     (let L = en_lib E in
      bindE (stable_completion_snapshot L (en_tool_lib E) samples) (\<lambda>(manifest_digest, _).
      bindE (read_effect_epoch d t) (\<lambda>epoch.
      let v = \<lparr>ver_revision = expected, ver_effect_epoch = epoch, ver_effect_id = eid, ver_passed = command_succeeded out,
            ver_workspace_manifest_digest = manifest_digest,
            ver_summary = redact L (json_text L (process_output_json out))\<rparr>
      in record_verification_evidence L d t expected l eid (json_text L (verification_json v)) None now)))"

definition complete_session_verified :: "engine \<Rightarrow> samples \<Rightarrow> (nat \<Rightarrow> uuid) \<Rightarrow> uuid \<Rightarrow> session_snapshot \<Rightarrow> rstr \<Rightarrow> rstr
    \<Rightarrow> lease \<Rightarrow> nat \<Rightarrow> engine_world \<Rightarrow> (storage_error + session_snapshot) \<times> engine_world" where
  "complete_session_verified E samples ids command s summary eid l now w =
     (let L = en_lib E in
      case bindE (ok_or SessionActiveTurnMismatch (sn_active_turn_id s)) (\<lambda>t.
           bindE (ok_or (invalid ''linked child is missing'') (snapshot_turn_revision s)) (\<lambda>revision.
           bindE (stable_completion_snapshot L (en_tool_lib E) samples) (\<lambda>(manifest_digest, current).
           bindE (session_changed_files L (ew_db w) t current) (\<lambda>files.
           Inr \<lparr>rq_session_id = sn_session_id s, rq_turn_id = t, rq_expected_session_revision = sn_revision s,
             rq_expected_turn_revision = revision, rq_command_id = command, rq_request_id = None,
             rq_effect_id = Some eid, rq_update = CuCompleteVerified (uuid_text L t @ lit '':complete-verified'')
               summary eid manifest_digest files\<rparr>)))) of
        Inl e \<Rightarrow> (Inl e, w)
      | Inr rq \<Rightarrow> commit_snapshot E samples ids rq l now w)"

end
