(* ===== verification/Engine_Effects.thy ===== *)
theory Engine_Effects
  imports Engine_Commit
begin

text \<open>
  The engine's operations on effects (\<open>latte-engine/src/lib.rs\<close>): the descriptor a provider
  asks for is validated, classified and digested, recorded as prepared, approved, started,
  executed on the workspace and observed; each durable step is one commit of the store.
\<close>

subsection \<open>Descriptors and what a user is asked\<close>

definition bad_identifier :: "rstr \<Rightarrow> bool" where
  "bad_identifier v \<longleftrightarrow> v = [] \<or> utf8_len v > 512 \<or> list_ex is_control v"

definition is_object :: "json \<Rightarrow> bool" where
  "is_object j = (case j of JObj _ \<Rightarrow> True | _ \<Rightarrow> False)"

definition validate_session_effect_descriptor :: "session_effect_descriptor \<Rightarrow> storage_error + unit" where
  "validate_session_effect_descriptor d =
     (if bad_identifier (sd_effect_id d) \<or> bad_identifier (sd_name d)
      then Inl (invalid ''invalid session effect descriptor identifier'')
      else if \<not> valid_openai_chat_opaque_id (sd_tool_call_id d)
      then Inl (invalid ''invalid provider tool call identifier'')
      else if sd_attempt d = 0 \<or> \<not> is_object (sd_input d)
      then Inl (invalid ''invalid session effect descriptor input'')
      else Inr ())"

definition session_effect_checkpoint :: "lib \<Rightarrow> string \<Rightarrow> session_effect_descriptor \<Rightarrow> rstr \<Rightarrow> rstr" where
  "session_effect_checkpoint L phase d digest = json_text L (json_obj [(lit ''session_effect'', json_obj
     [(lit ''phase'', JStr (lit phase)), (lit ''effect_id'', JStr (redact L (sd_effect_id d))),
      (lit ''tool_call_id'', JStr (redact L (sd_tool_call_id d))), (lit ''name'', JStr (redact L (sd_name d))),
      (lit ''operation_digest'', JStr (redact L digest))])])"

definition PERMISSION_SUMMARY_CAP :: nat where
  "PERMISSION_SUMMARY_CAP = 360"

fun summary_scan :: "nat \<Rightarrow> rstr \<Rightarrow> rstr" where
  "summary_scan used [] = []"
| "summary_scan used (c # cs) =
     (if is_control c then summary_scan used cs
      else if used + len_utf8 c > PERMISSION_SUMMARY_CAP then [8230]
      else c # summary_scan (used + len_utf8 c) cs)"

definition summary_text :: "lib \<Rightarrow> rstr \<Rightarrow> rstr" where
  "summary_text L v = (let out = summary_scan 0 (redact L v) in if out = [] then lit ''[unspecified]'' else out)"

definition input_string :: "lib \<Rightarrow> json \<Rightarrow> string \<Rightarrow> string \<Rightarrow> rstr" where
  "input_string L input key fallback =
     (case Option.bind (json_get (lit key) input) json_as_str of None \<Rightarrow> lit fallback | Some v \<Rightarrow> summary_text L v)"

definition SECRET_WORDS :: "rstr list" where
  "SECRET_WORDS = [lit ''secret'', lit ''token'', lit ''password'', lit ''api_key'', lit ''apikey'',
     lit ''authorization'', lit ''credential'']"

definition summary_argv :: "lib \<Rightarrow> rstr \<Rightarrow> rstr" where
  "summary_argv L v =
     (let safe = summary_text L v in
      case split_once 61 safe of
        None \<Rightarrow> safe
      | Some (key, _) \<Rightarrow>
          if list_ex (\<lambda>needle. contains needle (to_ascii_lowercase key)) SECRET_WORDS
          then key @ lit ''=[REDACTED]'' else safe)"

definition text_field_bytes :: "json \<Rightarrow> string \<Rightarrow> nat" where
  "text_field_bytes input key =
     (case Option.bind (json_get (lit key) input) json_as_str of None \<Rightarrow> 0 | Some t \<Rightarrow> utf8_len t)"

definition argv_summary :: "lib \<Rightarrow> json \<Rightarrow> rstr option" where
  "argv_summary L input =
     (case json_get (lit ''argv'') input of
        Some (JArr vs) \<Rightarrow>
          (let t = join_with (lit '' '') (map (summary_argv L) (List.map_filter json_as_str vs))
           in if t = [] then None else Some t)
      | _ \<Rightarrow> None)"

definition session_effect_permission_summary :: "lib \<Rightarrow> session_effect_descriptor \<Rightarrow> rstr" where
  "session_effect_permission_summary L d =
     (let input = sd_input d; name = sd_name d; path = input_string L input ''path'' ''[unknown path]'' in
      summary_text L
       (if name = lit ''write_file'' then
          lit ''Write '' @ path @ lit '' ('' @
          (if Option.bind (json_get (lit ''create_intent'') input) json_as_bool = Some True
           then lit ''create or replace'' else lit ''replace existing'') @
          lit ''; '' @ nat_text (text_field_bytes input ''content'') @ lit '' bytes of content)''
        else if name = lit ''edit_file'' then
          lit ''Edit '' @ path @ lit '' (replace one match; '' @ nat_text (text_field_bytes input ''before'') @
          lit '' bytes '' @ [8594] @ lit '' '' @ nat_text (text_field_bytes input ''after'') @ lit '' bytes)''
        else if name = lit ''process'' then
          (let cwd = input_string L input ''cwd'' ''.'' in
           case argv_summary L input of
             Some argv \<Rightarrow> lit ''Run argv: '' @ argv @ lit '' (cwd: '' @ cwd @ lit '')''
           | None \<Rightarrow> lit ''Run shell command (cwd: '' @ cwd @ lit '')'')
        else if name = lit ''read_file'' then lit ''Read '' @ path
        else if name = lit ''list_directory'' then lit ''List '' @ path
        else if name = lit ''search'' then
          lit ''Search workspace for '' @ input_string L input ''query'' ''[unspecified query]''
        else lit ''Run '' @ summary_text L name @ lit '' invocation''))"

definition descriptor_json :: "session_effect_descriptor \<Rightarrow> json" where
  "descriptor_json d = JObj
     [(lit ''effect_id'', JStr (sd_effect_id d)), (lit ''tool_call_id'', JStr (sd_tool_call_id d)),
      (lit ''name'', JStr (sd_name d)), (lit ''input'', sd_input d), (lit ''attempt'', js_nat (sd_attempt d))]"

subsection \<open>Policy and digest\<close>

definition tool_precondition :: "json \<Rightarrow> rstr option" where
  "tool_precondition input = Option.bind (json_get (lit ''precondition'') input) json_as_str"

definition effect_invocation :: "session_effect_descriptor \<Rightarrow> nat \<Rightarrow> lease \<Rightarrow> tool_invocation" where
  "effect_invocation d revision l = \<lparr>iv_name = sd_name d, iv_input = sd_input d, iv_turn_revision = revision,
     iv_effect_id = sd_effect_id d, iv_attempt = sd_attempt d, iv_precondition = tool_precondition (sd_input d),
     iv_timeout_ms = 30000, iv_output_cap = 64 * 1024, iv_approval_digest = None,
     iv_lease_owner = ls_owner l, iv_lease_token = ls_fencing_token l\<rparr>"

definition process_policy_and_digest :: "engine \<Rightarrow> files \<Rightarrow> session_effect_descriptor \<Rightarrow> nat \<Rightarrow> lease
    \<Rightarrow> storage_error + session_effect_policy \<times> rstr" where
  "process_policy_and_digest E fs d revision l =
     (if \<not> en_supervision E then Inl (invalid ''process supervision is unsupported on this platform'')
      else
      bindE (map_err (\<lambda>e. InvalidData (process_error_text e)) (from_input (en_env_error E) (sd_input d))) (\<lambda>spec.
      bindE (map_err (\<lambda>e. InvalidData (tool_error_text (en_tool_lib E) e))
        (resolve_cwd (en_tool_lib E) fs (en_tools E) (sp_cwd spec))) (\<lambda>_.
      let i = spec_invocation spec revision d l in
      bindE (case classify i of
          PrAllow \<Rightarrow> Inr PolicyAllow
        | PrAsk \<Rightarrow> Inr PolicyAsk
        | PrDeny \<Rightarrow> Inl (invalid ''process policy denied operation'')) (\<lambda>policy.
      Inr (policy, process_digest (en_lib E) i)))))"

definition session_effect_policy_and_digest :: "engine \<Rightarrow> files \<Rightarrow> session_effect_descriptor \<Rightarrow> nat \<Rightarrow> lease
    \<Rightarrow> storage_error + session_effect_policy \<times> rstr" where
  "session_effect_policy_and_digest E fs d revision l =
     (if sd_name d = lit ''process'' then process_policy_and_digest E fs d revision l
      else
      bindE (map_err (\<lambda>e. InvalidData (tool_error_text (en_tool_lib E) e))
        (prepare_for_engine (en_lib E) (en_tool_lib E) fs (en_tools E) (effect_invocation d revision l)))
        (\<lambda>(_, decision, digest).
      bindE (case decision of
          PdAllow \<Rightarrow> Inr PolicyAllow
        | PdAsk \<Rightarrow> Inr PolicyAsk
        | PdDeny \<Rightarrow> Inl (invalid ''tool policy denied operation'')) (\<lambda>policy.
      Inr (policy, digest))))"

subsection \<open>Preparing, approving, starting\<close>

record effect_request =
  xr_session_id :: uuid
  xr_turn_id :: uuid
  xr_expected_session_revision :: nat
  xr_expected_turn_revision :: nat
  xr_command_id :: uuid
  xr_source_key :: rstr

record effect_prepared =
  ep_snapshot :: session_snapshot
  ep_policy :: session_effect_policy
  ep_operation_digest :: rstr

record effect_presentation =
  en_effect_id :: rstr
  en_tool_call_id :: rstr
  en_name :: rstr
  en_input :: json
  en_attempt :: nat

record effect_started =
  es_snapshot :: session_snapshot
  es_presentation :: effect_presentation
  es_operation_digest :: rstr
  es_descriptor :: session_effect_descriptor

definition commit_request :: "effect_request \<Rightarrow> rstr option \<Rightarrow> rstr \<Rightarrow> commit_update \<Rightarrow> session_commit_request" where
  "commit_request q request_id eid u = \<lparr>rq_session_id = xr_session_id q, rq_turn_id = xr_turn_id q,
     rq_expected_session_revision = xr_expected_session_revision q,
     rq_expected_turn_revision = xr_expected_turn_revision q, rq_command_id = xr_command_id q,
     rq_request_id = request_id, rq_effect_id = Some eid, rq_update = u\<rparr>"

definition run_revision_after :: "nat \<Rightarrow> nat \<Rightarrow> storage_error + nat" where
  "run_revision_after revision n = ok_or (invalid ''run revision overflow'') (checked_add revision n)"

definition prepared_digest :: "engine \<Rightarrow> files \<Rightarrow> session_effect_descriptor \<Rightarrow> nat \<Rightarrow> lease
    \<Rightarrow> storage_error + session_effect_policy \<times> rstr" where
  "prepared_digest E fs d revision l =
     bindE (session_effect_policy_and_digest E fs d revision l) (\<lambda>(policy, digest).
     if policy = PolicyAsk then
       bindE (run_revision_after revision 2) (\<lambda>after.
       bindE (session_effect_policy_and_digest E fs d after l) (\<lambda>(_, rebound). Inr (policy, rebound)))
     else Inr (policy, digest))"

definition prepare_update :: "lib \<Rightarrow> rstr \<Rightarrow> session_effect_descriptor \<Rightarrow> session_effect_policy \<Rightarrow> rstr \<Rightarrow> commit_update" where
  "prepare_update L key d policy digest =
     (let persisted = d\<lparr>sd_input := redact_value L (sd_input d)\<rparr> in
      CuPrepareEffect key (sd_effect_id d) digest (json_text L (descriptor_json persisted))
        (json_text L (descriptor_json d)) policy (session_effect_permission_summary L d)
        (session_effect_checkpoint L ''prepared'' persisted digest))"

definition prepare_session_effect :: "engine \<Rightarrow> samples \<Rightarrow> (nat \<Rightarrow> uuid) \<Rightarrow> effect_request \<Rightarrow> session_effect_descriptor
    \<Rightarrow> lease \<Rightarrow> nat \<Rightarrow> engine_world \<Rightarrow> (storage_error + effect_prepared) \<times> engine_world" where
  "prepare_session_effect E samples ids q d l now w =
     (case bindE (validate_session_effect_descriptor d) (\<lambda>_.
           prepared_digest E (tw_files (ew_tools w)) d (xr_expected_turn_revision q) l) of
        Inl e \<Rightarrow> (Inl e, w)
      | Inr (policy, digest) \<Rightarrow>
          (case engine_commit E samples ids (commit_request q None (sd_effect_id d)
                  (prepare_update (en_lib E) (xr_source_key q) d policy digest)) l now w of
             (r, w) \<Rightarrow> (bindE r (\<lambda>resp. Inr \<lparr>ep_snapshot = rs_snapshot resp, ep_policy = policy,
                          ep_operation_digest = digest\<rparr>), w)))"

definition session_effect_canonical_descriptor :: "lib \<Rightarrow> db \<Rightarrow> rstr \<Rightarrow> uuid \<Rightarrow> storage_error + session_effect_descriptor" where
  "session_effect_canonical_descriptor L d eid t =
     bindE (ok_or (Sql QueryReturnedNoRows)
       (find (\<lambda>r. ca_effect_id r = eid \<and> ca_turn_id r = t) (db_canonical d))) (\<lambda>r.
     parse_descriptor L (ca_descriptor r))"

definition canonical_effect :: "engine \<Rightarrow> rstr \<Rightarrow> uuid \<Rightarrow> nat \<Rightarrow> lease \<Rightarrow> engine_world
    \<Rightarrow> storage_error + session_effect_descriptor \<times> rstr" where
  "canonical_effect E eid t revision l w =
     bindE (session_effect_canonical_descriptor (en_lib E) (ew_db w) eid t) (\<lambda>d.
     bindE (validate_session_effect_descriptor d) (\<lambda>_.
     if sd_effect_id d \<noteq> eid then Inl (invalid ''canonical session effect identifier mismatch'')
     else bindE (session_effect_policy_and_digest E (tw_files (ew_tools w)) d revision l) (\<lambda>(_, digest).
     Inr (d, digest))))"

definition rebound_digest :: "engine \<Rightarrow> effect_request \<Rightarrow> rstr \<Rightarrow> bool \<Rightarrow> lease \<Rightarrow> engine_world
    \<Rightarrow> storage_error + rstr option" where
  "rebound_digest E q request_id allow l w =
     (if \<not> allow then Inr None
      else
      bindE (session_effect_canonical_descriptor (en_lib E) (ew_db w) request_id (xr_turn_id q)) (\<lambda>d.
      bindE (validate_session_effect_descriptor d) (\<lambda>_.
      if sd_effect_id d \<noteq> request_id then Inl (invalid ''canonical session effect identifier mismatch'')
      else
      bindE (run_revision_after (xr_expected_turn_revision q) 1) (\<lambda>after.
      bindE (session_effect_policy_and_digest E (tw_files (ew_tools w)) d after l) (\<lambda>(_, digest).
      Inr (Some digest))))))"

definition resolve_session_effect_permission :: "engine \<Rightarrow> samples \<Rightarrow> (nat \<Rightarrow> uuid) \<Rightarrow> effect_request \<Rightarrow> rstr \<Rightarrow> bool
    \<Rightarrow> lease \<Rightarrow> nat \<Rightarrow> engine_world \<Rightarrow> (storage_error + session_snapshot) \<times> engine_world" where
  "resolve_session_effect_permission E samples ids q request_id allow l now w =
     (case rebound_digest E q request_id allow l w of
        Inl e \<Rightarrow> (Inl e, w)
      | Inr rebound \<Rightarrow>
          commit_snapshot E samples ids (commit_request q (Some request_id) request_id
            (CuResolvePermission (xr_source_key q) request_id allow rebound)) l now w)"

definition presentation :: "lib \<Rightarrow> session_effect_descriptor \<Rightarrow> effect_presentation" where
  "presentation L d = \<lparr>en_effect_id = redact L (sd_effect_id d), en_tool_call_id = redact L (sd_tool_call_id d),
     en_name = redact L (sd_name d), en_input = redact_value L (sd_input d), en_attempt = sd_attempt d\<rparr>"

definition start_session_effect :: "engine \<Rightarrow> samples \<Rightarrow> (nat \<Rightarrow> uuid) \<Rightarrow> effect_request \<Rightarrow> rstr \<Rightarrow> rstr \<Rightarrow> lease \<Rightarrow> nat
    \<Rightarrow> engine_world \<Rightarrow> (storage_error + effect_started) \<times> engine_world" where
  "start_session_effect E samples ids q eid digest l now w =
     (case bindE (canonical_effect E eid (xr_turn_id q) (xr_expected_turn_revision q) l w) (\<lambda>(d, exact).
           if exact \<noteq> digest then Inl (invalid ''canonical session effect digest mismatch'') else Inr d) of
        Inl e \<Rightarrow> (Inl e, w)
      | Inr d \<Rightarrow>
          (case engine_commit E samples ids (commit_request q (Some eid) eid
                  (CuStartEffect (xr_source_key q) eid digest (session_effect_checkpoint (en_lib E) ''started'' d digest)))
                  l now w of
             (r, w) \<Rightarrow> (bindE r (\<lambda>resp. Inr \<lparr>es_snapshot = rs_snapshot resp, es_presentation = presentation (en_lib E) d,
                          es_operation_digest = digest, es_descriptor = d\<rparr>), w)))"

subsection \<open>Executing and observing\<close>

record observed_value =
  ov_result :: rstr
  ov_payload :: "json option"
  ov_success :: bool

datatype execution_error = Certified rstr | Uncertain rstr

text \<open>What a run of the operation meets: the cancellation flag, the file system and the system's answers.\<close>

record run_conditions =
  rc_cancelled :: bool
  rc_execution :: execution
  rc_os :: os_run

definition is_uncertain :: "tool_error \<Rightarrow> bool" where
  "is_uncertain e = (case e of ToolIo _ \<Rightarrow> True | ToolPath _ \<Rightarrow> True | WorkspaceUnsafe _ \<Rightarrow> True | _ \<Rightarrow> False)"

definition call_fields :: "session_effect_descriptor \<Rightarrow> (rstr \<times> json) list \<Rightarrow> json" where
  "call_fields d rest = json_obj
     ((lit ''tool_call_id'', JStr (sd_tool_call_id d)) # (lit ''name'', JStr (sd_name d)) # rest)"

definition execute_started_session_tool :: "engine \<Rightarrow> run_conditions \<Rightarrow> session_effect_descriptor \<Rightarrow> nat \<Rightarrow> rstr \<Rightarrow> lease
    \<Rightarrow> tool_world \<Rightarrow> (execution_error + observed_value) \<times> tool_world" where
  "execute_started_session_tool E C d revision digest l w =
     (let L = en_lib E; T = en_tool_lib E in
      if rc_cancelled C then (Inl (Uncertain (lit ''tool cancelled after Started'')), w)
      else case prepare_for_engine L T (tw_files w) (en_tools E) (effect_invocation d revision l) of
        Inl e \<Rightarrow> (Inl (Uncertain (lit ''effect precondition changed: '' @ tool_error_text T e)), w)
      | Inr (p, decision, exact) \<Rightarrow>
          if exact \<noteq> digest \<or> decision = PdDeny
          then (Inl (Uncertain (lit ''effect authorization changed before execution'')), w)
          else (case Tools.execute T (en_tools E) (rc_execution C) p w of
              (Inr out, w) \<Rightarrow>
                (Inr \<lparr>ov_result = json_text L (to_value out),
                  ov_payload = Some (redact_value L (call_fields d
                    [(lit ''output'', to_value out), (lit ''truncated'', JBool (to_truncated out))])),
                  ov_success = True\<rparr>, w)
            | (Inl e, w) \<Rightarrow>
                (if is_uncertain e then Inl (Uncertain (tool_error_text T e))
                 else Inr \<lparr>ov_result = json_text L (json_obj [(lit ''error'', JStr (tool_error_text T e))]),
                   ov_payload = Some (call_fields d [(lit ''error'', JStr (tool_error_text T e))]),
                   ov_success = False\<rparr>, w)))"

definition execute_started_session_process :: "engine \<Rightarrow> run_conditions \<Rightarrow> session_effect_descriptor \<Rightarrow> nat \<Rightarrow> lease
    \<Rightarrow> files \<Rightarrow> execution_error + observed_value" where
  "execute_started_session_process E C d revision l fs =
     (let L = en_lib E; T = en_tool_lib E in
      if \<not> en_supervision E then Inl (Certified (process_error_text PeUnsupported))
      else
      bindE (map_err (\<lambda>e. Uncertain (process_error_text e)) (from_input (en_env_error E) (sd_input d))) (\<lambda>spec.
      bindE (map_err (\<lambda>e. Uncertain (tool_error_text T e)) (resolve_cwd T fs (en_tools E) (sp_cwd spec))) (\<lambda>_.
      case supervise T (rc_os C) (spec_invocation spec revision d l) of
        Inl e \<Rightarrow> Inl (Uncertain (process_error_text e))
      | Inr out \<Rightarrow>
          if po_termination out = ProcCancelled
          then Inl (Uncertain (lit ''process cancelled after its external outcome may have happened''))
          else Inr \<lparr>ov_result = json_text L (process_output_json out),
            ov_payload = Some (redact_value L (call_fields d [(lit ''output'', process_output_json out)])),
            ov_success = True\<rparr>)))"

definition execute_started_session_effect :: "engine \<Rightarrow> run_conditions \<Rightarrow> effect_started \<Rightarrow> lease \<Rightarrow> tool_world
    \<Rightarrow> (execution_error + observed_value) \<times> tool_world" where
  "execute_started_session_effect E C s l w =
     (let d = es_descriptor s;
          refused = (\<lambda>e. Uncertain (storage_error_text (en_lib E) (en_sql_text E) e)) in
      case bindE (map_err refused (ensure_session_lease (en_lib E) (sn_session_id (es_snapshot s)) l)) (\<lambda>_.
           bindE (ok_or (Uncertain (lit ''started run is missing'')) (snapshot_turn_revision (es_snapshot s))) (\<lambda>revision.
           bindE (map_err refused (session_effect_policy_and_digest E (tw_files w) d revision l)) (\<lambda>(_, digest).
           if digest \<noteq> es_operation_digest s
           then Inl (Uncertain (lit ''prepared descriptor no longer has the exact operation digest''))
           else Inr revision))) of
        Inl e \<Rightarrow> (Inl e, w)
      | Inr revision \<Rightarrow>
          if sd_name d = lit ''process''
          then (execute_started_session_process E C d revision l (tw_files w), w)
          else execute_started_session_tool E C d revision (es_operation_digest s) l w)"

text \<open>The request of the commits that follow a start: its turn and revisions are those of the started snapshot.\<close>

definition started_request :: "effect_started \<Rightarrow> uuid \<Rightarrow> commit_update \<Rightarrow> storage_error + session_commit_request" where
  "started_request s command u =
     bindE (ok_or (invalid ''started run is missing'') (snapshot_turn_revision (es_snapshot s))) (\<lambda>revision.
     bindE (ok_or SessionActiveTurnMismatch (sn_active_turn_id (es_snapshot s))) (\<lambda>t.
     Inr \<lparr>rq_session_id = sn_session_id (es_snapshot s), rq_turn_id = t,
       rq_expected_session_revision = sn_revision (es_snapshot s), rq_expected_turn_revision = revision,
       rq_command_id = command, rq_request_id = Some (sd_effect_id (es_descriptor s)),
       rq_effect_id = Some (sd_effect_id (es_descriptor s)), rq_update = u\<rparr>))"

definition observe_session_effect :: "engine \<Rightarrow> samples \<Rightarrow> (nat \<Rightarrow> uuid) \<Rightarrow> effect_started \<Rightarrow> rstr \<Rightarrow> uuid \<Rightarrow> observed_value
    \<Rightarrow> lease \<Rightarrow> nat \<Rightarrow> engine_world \<Rightarrow> (storage_error + session_snapshot \<times> rstr \<times> bool) \<times> engine_world" where
  "observe_session_effect E samples ids s key command v l now w =
     (case started_request s command (CuObserveEffect key (sd_effect_id (es_descriptor s)) (es_operation_digest s)
             (ov_success v) (ov_result v) (ov_payload v)
             (session_effect_checkpoint (en_lib E) (if ov_success v then ''observed_success'' else ''observed_failed'')
               (es_descriptor s) (es_operation_digest s))) of
        Inl e \<Rightarrow> (Inl e, w)
      | Inr rq \<Rightarrow>
          (case engine_commit E samples ids rq l now w of
             (r, w) \<Rightarrow> (bindE r (\<lambda>resp. Inr (rs_snapshot resp, ov_result v, ov_success v)), w)))"

definition mark_session_effect_unknown :: "engine \<Rightarrow> samples \<Rightarrow> (nat \<Rightarrow> uuid) \<Rightarrow> effect_started \<Rightarrow> rstr \<Rightarrow> uuid
    \<Rightarrow> lease \<Rightarrow> nat \<Rightarrow> engine_world \<Rightarrow> (storage_error + session_snapshot) \<times> engine_world" where
  "mark_session_effect_unknown E samples ids s key command l now w =
     (case started_request s command (CuUnknownEffect key (sd_effect_id (es_descriptor s)) (es_operation_digest s)
             (session_effect_checkpoint (en_lib E) ''unknown'' (es_descriptor s) (es_operation_digest s))) of
        Inl e \<Rightarrow> (Inl e, w)
      | Inr rq \<Rightarrow> commit_snapshot E samples ids rq l now w)"

definition reconcile_session_effect_unknown :: "engine \<Rightarrow> samples \<Rightarrow> (nat \<Rightarrow> uuid) \<Rightarrow> effect_request \<Rightarrow> rstr
    \<Rightarrow> lease \<Rightarrow> nat \<Rightarrow> engine_world \<Rightarrow> (storage_error + session_snapshot) \<times> engine_world" where
  "reconcile_session_effect_unknown E samples ids q eid l now w =
     commit_snapshot E samples ids (commit_request q (Some eid) eid (CuReconcileUnknownEffect (xr_source_key q) eid
       (json_text (en_lib E) (json_obj [(lit ''session_effect'', JStr (lit ''reconciled_unknown''))])))) l now w"

end
