(* ===== verification/Process_Properties.thy ===== *)
theory Process_Properties
  imports Process_Policy Store_Example
begin

text \<open>
  What the process policy and the supervisor promise: bounded requests, captured output that
  does not depend on how the pipe was read, and a shutdown that ends whatever the system
  answers; and a command that the policy lets through.
\<close>

subsection \<open>Requests\<close>

lemma optional_field_Inr:
  "optional_field input key absent rd = Inr v \<Longrightarrow>
     json_get (lit key) input = None \<and> v = absent \<or> (\<exists>j. json_get (lit key) input = Some j \<and> rd j = Inr v)"
  by (auto simp: optional_field_def split: option.splits)

lemma spec_number_bounds: "spec_number input key absent maximum = Inr n \<Longrightarrow> 1 \<le> n \<and> n \<le> maximum"
  by (auto simp: spec_number_def split: if_splits)

lemma from_input_spec:
  assumes "from_input env_error input = Inr spec"
  shows "\<exists>argv shell cwd env timeout grace out err. spec = \<lparr>sp_argv = argv, sp_shell = shell, sp_cwd = cwd, sp_env = env,
      sp_timeout_ms = timeout, sp_grace_ms = grace, sp_stdout_cap = out, sp_stderr_cap = err\<rparr>
    \<and> spec_number input ''timeout_ms'' 30000 600000 = Inr timeout \<and> grace \<le> 30000
    \<and> spec_number input ''stdout_cap'' (64 * 1024) 1048576 = Inr out
    \<and> spec_number input ''stderr_cap'' (64 * 1024) 1048576 = Inr err \<and> (argv = []) \<noteq> (shell = None)"
proof (cases input)
  case (JObj kvs)
  show ?thesis using assms unfolding JObj from_input_def Let_def json.case
    by (simp only: bindE_eq_Inr if_err_eq_Inr not_less) (elim exE conjE; intro exI conjI; (rule sum.inject(2) [THEN iffD1, symmetric])?; (assumption | simp)+)
qed (use assms in \<open>simp_all add: from_input_def\<close>)

lemma classify_allow:
  assumes "classify i = PrAllow"
  shows "pi_env i = [] \<and> (pi_argv i = [lit ''/bin/pwd'']
    \<or> (\<exists>pattern path. pi_argv i = [lit ''/usr/bin/grep'', lit ''-q'', pattern, path]))"
proof -
  have grep: "safe_grep argv \<Longrightarrow> \<exists>pattern path. argv = [lit ''/usr/bin/grep'', lit ''-q'', pattern, path]" for argv
    by (auto simp: safe_grep_def numeral_eq_Suc length_Suc_conv)
  show ?thesis using assms by (auto simp: classify_def Let_def intro: grep split: option.splits if_splits)
qed

text \<open>
  A process request that is read is bounded: its timeout, grace and capture caps are in
  range whatever the model wrote, and it names exactly one of an argument vector and a
  shell line; when it runs without approval, it is \<open>/bin/pwd\<close> or the quiet \<open>grep\<close>.
\<close>

theorem read_requests_are_bounded:
  assumes "from_input env_error input = Inr spec"
  shows "1 \<le> sp_timeout_ms spec \<and> sp_timeout_ms spec \<le> 600000 \<and> sp_grace_ms spec \<le> 30000
    \<and> 1 \<le> sp_stdout_cap spec \<and> sp_stdout_cap spec \<le> 1048576 \<and> 1 \<le> sp_stderr_cap spec \<and> sp_stderr_cap spec \<le> 1048576
    \<and> ((sp_argv spec = []) \<noteq> (sp_shell spec = None))
    \<and> (classify (spec_invocation spec revision d l) = PrAllow \<longrightarrow> sp_env spec = [] \<and>
         (sp_argv spec = [lit ''/bin/pwd''] \<or> (\<exists>pattern path. sp_argv spec = [lit ''/usr/bin/grep'', lit ''-q'', pattern, path])))"
proof -
  from from_input_spec [OF assms] obtain argv shell cwd env timeout grace out err where
    spec: "spec = \<lparr>sp_argv = argv, sp_shell = shell, sp_cwd = cwd, sp_env = env,
      sp_timeout_ms = timeout, sp_grace_ms = grace, sp_stdout_cap = out, sp_stderr_cap = err\<rparr>"
    and "spec_number input ''timeout_ms'' 30000 600000 = Inr timeout" "grace \<le> 30000"
      "spec_number input ''stdout_cap'' (64 * 1024) 1048576 = Inr out"
      "spec_number input ''stderr_cap'' (64 * 1024) 1048576 = Inr err" "(argv = []) \<noteq> (shell = None)" by blast
  then show ?thesis
    using classify_allow [of "spec_invocation spec revision d l"]
      spec_number_bounds [of input "''timeout_ms''"] spec_number_bounds [of input "''stdout_cap''"]
      spec_number_bounds [of input "''stderr_cap''"]
    by (simp add: spec_invocation_def)
qed

text \<open>
  The approved-by-default \<open>grep\<close> is meant to search one file below the working directory, but
  its pattern argument may be an option, which makes it open any file.
\<close>

lemma quiet_grep_opens_any_file:
  "classify \<lparr>pi_argv = [lit ''/usr/bin/grep'', lit ''-q'', lit ''-f'' @ path, lit ''x''], pi_shell = None, pi_cwd = cwd, pi_env = [],
     pi_timeout_ms = t, pi_grace_ms = g, pi_stdout_cap = a, pi_stderr_cap = b, pi_turn_revision = r, pi_effect_id = e,
     pi_attempt = n, pi_approval_digest = None, pi_lease_owner = w, pi_lease_token = k\<rparr> = PrAllow"
proof -
  have "\<not> is_absolute (lit ''x'')" "lit ''..'' \<notin> set (pieces (lit ''x''))" by code_simp+
  then show ?thesis by (simp add: classify_def safe_grep_def) (simp add: lit_def)
qed

subsection \<open>Captured output\<close>

lemma drain_append:
  "length kept \<le> cap \<Longrightarrow> drain cap chunks (kept, t)
     = (take cap (kept @ concat chunks), t \<or> length kept + length (concat chunks) > cap)"
proof (induction chunks arbitrary: kept t)
  case (Cons c cs)
  have step: "drain cap (c # cs) (kept, t) = drain cap cs (kept @ take (cap - length kept) c, t \<or> length c > cap - length kept)"
    by (simp add: Let_def)
  show ?case
  proof (cases "length c > cap - length kept")
    case True
    then show ?thesis unfolding step using Cons by (subst Cons.IH) auto
  next
    case False
    then show ?thesis unfolding step using Cons by (subst Cons.IH) auto
  qed
qed simp

text \<open>
  Captured output is the beginning of what the process wrote: the text kept is decoded
  from the first bytes up to the cap, and it is marked truncated exactly when there were
  more; how the pipe cut the output into reads does not matter.
\<close>

theorem captured_output_is_a_prefix:
  "collect T name cap (Some (Inr chunks)) = Inr (tl_lossy T (take cap (concat chunks)), cap < length (concat chunks))"
  using drain_append [of "[]" cap chunks False] by (simp add: collect_def)

subsection \<open>Shutdown\<close>

text \<open>The number of polls that fit before a deadline that is \<open>gap\<close> milliseconds away.\<close>

definition polls :: "nat \<Rightarrow> nat" where
  "polls gap = 1 + (gap + 9) div 10"

lemma polls_step: "0 < gap \<Longrightarrow> gap' \<le> gap - 10 \<Longrightarrow> 1 + polls gap' \<le> polls gap"
proof -
  assume "0 < gap" "gap' \<le> gap - 10"
  then have "gap' + 9 + 10 \<le> gap + 9 \<or> gap' = 0" by linarith
  then have "(gap' + 9) div 10 + 1 \<le> (gap + 9) div 10"
  proof
    assume "gap' + 9 + 10 \<le> gap + 9"
    then have "(gap' + 9 + 10) div 10 \<le> (gap + 9) div 10" by (rule div_le_mono)
    then show ?thesis by simp
  next
    assume "gap' = 0"
    have "10 div 10 \<le> (gap + 9) div 10" using \<open>0 < gap\<close> by (intro div_le_mono) simp
    then show ?thesis using \<open>gap' = 0\<close> by simp
  qed
  then show ?thesis by (simp add: polls_def)
qed

text \<open>Two systems that give the same answers to \<open>k\<close> probes and pauses from the n-th on.\<close>

definition same_answers :: "nat \<Rightarrow> nat \<Rightarrow> os_run \<Rightarrow> os_run \<Rightarrow> bool" where
  "same_answers n k os os' \<longleftrightarrow> (\<forall>i. n \<le> i \<and> i \<le> n + k \<longrightarrow> os_probe os i = os_probe os' i \<and> os_pause os i = os_pause os' i)"

lemma same_answers_later: "same_answers n k os os' \<Longrightarrow> n \<le> n' \<Longrightarrow> n' + k' \<le> n + k \<Longrightarrow> same_answers n' k' os os'"
  by (auto simp: same_answers_def)

lemma probe_same: "same_answers (fst st) k os os' \<Longrightarrow> probe os' st = probe os st"
  by (simp add: same_answers_def probe_def)

lemma next_poll:
  assumes "same_answers (fst st) (polls (deadline - snd st)) os os'" and "probe os st = Inr (g, st1)" and "snd st1 < deadline"
  shows "pause os' st1 = pause os st1"
    and "same_answers (fst (pause os st1)) (polls (deadline - snd (pause os st1))) os os'"
    and "fst st + 1 = fst (pause os st1)" "1 + polls (deadline - snd (pause os st1)) \<le> polls (deadline - snd st)"
proof -
  have st1: "st1 = (fst st + 1, snd st)" using assms(2) by (simp add: probe_Inr)
  show "pause os' st1 = pause os st1" using assms(1) st1 by (simp add: same_answers_def pause_def polls_def)
  show "fst st + 1 = fst (pause os st1)" by (simp add: pause_def st1)
  have "deadline - snd (pause os st1) \<le> (deadline - snd st) - 10" by (simp add: pause_def st1)
  moreover have "0 < deadline - snd st" using assms(3) st1 by simp
  ultimately show fewer: "1 + polls (deadline - snd (pause os st1)) \<le> polls (deadline - snd st)"
    by (rule polls_step [rotated])
  show "same_answers (fst (pause os st1)) (polls (deadline - snd (pause os st1))) os os'"
    using fewer by (intro same_answers_later [OF assms(1)]) (simp_all add: pause_def st1)
qed

lemma poll_group_bounded:
  "same_answers (fst st) (polls (deadline - snd st)) os os' \<Longrightarrow>
     poll_group os deadline st = poll_group os' deadline st
     \<and> (\<forall>st'. poll_group os deadline st = Inr st' \<longrightarrow> fst st' \<le> fst st + polls (deadline - snd st))"
proof (induction os deadline st rule: poll_group.induct)
  case (1 os deadline st)
  note unfold = poll_group.simps [of os deadline st] poll_group.simps [of os' deadline st]
  show ?case
  proof (cases "probe os st")
    case (Inl e)
    then show ?thesis using probe_same [OF 1(2)] by (simp add: unfold)
  next
    case (Inr r)
    then obtain g st1 where r: "probe os st = Inr (g, st1)" by (cases r) simp
    show ?thesis
    proof (cases "g = GroupPresent \<and> snd st1 < deadline")
      case True
      note n = next_poll [OF 1(2) r conjunct2 [OF True]]
      from 1(1) [OF r refl True n(2)] show ?thesis using r probe_same [OF 1(2)] True n(1,3,4) by (auto simp: unfold)
    next
      case False
      moreover have "st1 = (fst st + 1, snd st)" using r by (simp add: probe_Inr)
      ultimately show ?thesis using r probe_same [OF 1(2)] by (auto simp: unfold polls_def)
    qed
  qed
qed

lemma poll_group_grows: "poll_group os deadline st = Inr st' \<Longrightarrow> fst st \<le> fst st'"
proof (induction os deadline st rule: poll_group.induct)
  case (1 os deadline st)
  then obtain g st1 where r: "probe os st = Inr (g, st1)"
    by (cases "probe os st") (auto simp: poll_group.simps [of os deadline st])
  then have st1: "fst st + 1 = fst st1" by (simp add: probe_Inr)
  show ?case
  proof (cases "g = GroupPresent \<and> snd st1 < deadline")
    case True
    then have "poll_group os deadline (pause os st1) = Inr st'" using 1(2) r by (simp add: poll_group.simps [of os deadline st])
    from 1(1) [OF r refl True this] show ?thesis using st1 by (simp add: pause_def)
  next
    case False
    then have "st1 = st'" using 1(2) r by (auto simp: poll_group.simps [of os deadline st])
    then show ?thesis using st1 by simp
  qed
qed

lemma await_absent_bounded:
  "same_answers (fst st) (polls (deadline - snd st)) os os' \<Longrightarrow> await_absent os deadline st = await_absent os' deadline st"
proof (induction os deadline st rule: await_absent.induct)
  case (1 os deadline st)
  note unfold = await_absent.simps [of os deadline st] await_absent.simps [of os' deadline st]
  show ?case
  proof (cases "probe os st")
    case (Inl e)
    then show ?thesis using probe_same [OF 1(2)] by (simp add: unfold)
  next
    case (Inr r)
    then obtain g st1 where r: "probe os st = Inr (g, st1)" by (cases r) simp
    show ?thesis
    proof (cases "g \<noteq> GroupAbsent \<and> snd st1 < deadline")
      case True
      note n = next_poll [OF 1(2) r conjunct2 [OF True]]
      from 1(1) [OF r refl _ _ n(2)] True show ?thesis using r probe_same [OF 1(2)] n(1) by (auto simp: unfold)
    next
      case False
      then show ?thesis using r probe_same [OF 1(2)] by (auto simp: unfold)
    qed
  qed
qed

lemma kill_rest_bounded:
  assumes "same_answers (fst st) (polls (max grace 10000) + 2) os os'"
  shows "kill_rest os grace survived st = kill_rest os' grace survived st"
proof (cases "probe os st")
  case (Inl e)
  then show ?thesis using probe_same [OF assms] by (simp add: kill_rest_def)
next
  case (Inr r)
  then obtain g where r: "probe os st = Inr (g, (fst st + 1, snd st))" by (cases r) (auto simp: probe_Inr)
  let ?st = "(fst st + 1, snd st)"
  have same: "same_answers (fst ?st) (polls (max grace 10000) + 1) os os'" by (rule same_answers_later [OF assms]) auto
  show ?thesis
  proof (cases "probe os ?st")
    case (Inl e)
    then show ?thesis using r probe_same [OF assms] probe_same [OF same] by (simp add: kill_rest_def)
  next
    case (Inr r')
    then obtain g' where r': "probe os ?st = Inr (g', (fst st + 2, snd st))" by (cases r') (auto simp: probe_Inr)
    have "await_group_absent os grace (fst st + 2, snd st) = await_group_absent os' grace (fst st + 2, snd st)"
      unfolding await_group_absent_def
      by (rule await_absent_bounded) (rule same_answers_later [OF assms], simp_all)
    then show ?thesis using r r' probe_same [OF assms] probe_same [OF same] by (simp add: kill_rest_def)
  qed
qed

text \<open>
  Shutting a process group down comes to an end whatever the system answers: it asks at
  most one probe per ten milliseconds of the grace period and of the settling window after
  the kill, and a few more, so that its outcome is a function of that many answers.
\<close>

theorem shutdown_needs_bounded_answers:
  assumes "same_answers (fst st) (polls grace + polls (max grace 10000) + 2) os os'"
  shows "shutdown_group os grace st = shutdown_group os' grace st"
proof -
  have "same_answers (fst st) (polls (snd st + grace - snd st)) os os'" by (rule same_answers_later [OF assms]) auto
  note poll = poll_group_bounded [OF this]
  show ?thesis
  proof (cases "poll_group os (snd st + grace) st")
    case (Inl e)
    then show ?thesis using poll by (simp add: shutdown_group_def)
  next
    case (Inr st1)
    have "fst st \<le> fst st1" using Inr by (rule poll_group_grows)
    moreover have "fst st1 \<le> fst st + polls grace" using poll Inr by simp
    ultimately have "same_answers (fst st1) (polls (max grace 10000) + 2) os os'" by (intro same_answers_later [OF assms]) auto
    moreover have "poll_group os' (snd st + grace) st = Inr st1" using poll Inr by simp
    ultimately show ?thesis using Inr kill_rest_bounded by (simp add: shutdown_group_def)
  qed
qed

subsection \<open>Witnesses\<close>

definition example_request :: json where
  "example_request = JObj [(lit ''argv'', JArr [JStr (lit ''/bin/pwd'')])]"

lemma example_request_spec: "from_input (\<lambda>_. []) example_request = Inr \<lparr>sp_argv = [lit ''/bin/pwd''], sp_shell = None,
    sp_cwd = lit ''.'', sp_env = [], sp_timeout_ms = 30000, sp_grace_ms = 250, sp_stdout_cap = 65536, sp_stderr_cap = 65536\<rparr>"
  by (simp add: from_input_def example_request_def optional_field_def json_get_def read_argv_def json_as_str_def spec_number_def)

lemma read_requests_are_bounded_witness:
  "sp_timeout_ms (projr (from_input (\<lambda>_. []) example_request)) \<le> 600000"
  using read_requests_are_bounded [OF example_request_spec] by (simp add: example_request_spec)

definition example_os :: "group_probe \<Rightarrow> os_run" where
  "example_os late = \<lparr>os_cancelled = False, os_spawn = Inr (), os_first = FirstExit (Inr (Some 0)), os_grace_wait = None,
     os_kill_wait = Inr None, os_probe = (\<lambda>n. Inr (if n < 1100 then GroupPresent else late)), os_pause = (\<lambda>_. 0),
     os_stdout = None, os_stderr = None\<rparr>"

lemma shutdown_needs_bounded_answers_witness:
  "shutdown_group (example_os GroupAbsent) 20 (0, 0) = shutdown_group (example_os GroupUncertain) 20 (0, 0)"
  by (rule shutdown_needs_bounded_answers) (simp add: same_answers_def example_os_def polls_def)

end
