(* ===== verification/Effect_Properties.thy ===== *)
theory Effect_Properties
  imports Engine_Effects Session_Effects Tool_Properties Process_Properties "HOL-Library.Countable"
begin

text \<open>
  What the engine's effect protocol guarantees on top of the store: the digest that a user
  approves binds the operation that later runs, an approval survives until its start, and
  a turn completes without verification only on the workspace it began with.
\<close>

subsection \<open>The digest binds the operation\<close>

lemma json_opt_text: "json_opt JStr x = json_opt JStr y \<longleftrightarrow> x = y"
  by (cases x; cases y) (auto simp: json_opt_def)

lemma text_object_inj: "text_object m = text_object m' \<longleftrightarrow> m = m'"
proof -
  have "inj (\<lambda>(k :: rstr, v). (k, JStr v))" by (auto intro: injI)
  then show ?thesis by (auto simp: text_object_def dest: map_injective)
qed

lemma operation_json_inj: "operation_json b = operation_json b' \<longleftrightarrow> b = b'"
  by (cases b; cases b') (auto simp: operation_json_def json_opt_text)

lemma process_binding_differs: "process_binding_json i \<noteq> operation_json b"
  by (simp add: process_binding_json_def operation_json_def)

definition process_core :: "process_invocation \<Rightarrow> process_invocation" where
  "process_core i = i\<lparr>pi_approval_digest := None\<rparr>"

lemma process_binding_inj: "process_binding_json i = process_binding_json i' \<longleftrightarrow> process_core i = process_core i'"
  by (cases i; cases i') (auto simp: process_binding_json_def process_core_def json_opt_text text_object_inj inj_map_eq_map inj_def)

text \<open>What the digest of a descriptor covers: the process that would be spawned, or the tool call with its target.\<close>

datatype bound_operation = BoundProcess process_invocation | BoundTool operation_binding

fun bound_json :: "bound_operation \<Rightarrow> json" where
  "bound_json (BoundProcess i) = process_binding_json i"
| "bound_json (BoundTool b) = operation_json b"

lemma effect_digest_bound:
  assumes "session_effect_policy_and_digest E fs d revision l = Inr (policy, digest)"
  shows "\<exists>op. digest = json_sha256 (en_lib E) (bound_json op)
    \<and> (sd_name d = lit ''process'' \<longrightarrow> (\<exists>spec. from_input (en_env_error E) (sd_input d) = Inr spec
         \<and> op = BoundProcess (spec_invocation spec revision d l)))
    \<and> (sd_name d \<noteq> lit ''process'' \<longrightarrow> (\<exists>target. op = BoundTool (binding_of (en_tools E) (effect_invocation d revision l) target)))"
proof (cases "sd_name d = lit ''process''")
  case True
  then obtain spec where spec: "from_input (en_env_error E) (sd_input d) = Inr spec"
    and digest: "digest = process_digest (en_lib E) (spec_invocation spec revision d l)"
    using assms by (auto simp: session_effect_policy_and_digest_def process_policy_and_digest_def Let_def)
  show ?thesis
    by (rule exI [of _ "BoundProcess (spec_invocation spec revision d l)"]) (simp add: spec digest True process_digest_def)
next
  case False
  then obtain p decision where "prepare_for_engine (en_lib E) (en_tool_lib E) fs (en_tools E) (effect_invocation d revision l)
      = Inr (p, decision, digest)"
    using assms by (auto simp: session_effect_policy_and_digest_def)
  then have digest: "digest = operation_digest (en_lib E) (binding_of (en_tools E) (effect_invocation d revision l) (pp_target p))"
    using prepare_for_engine_action by blast
  show ?thesis
    by (rule exI [of _ "BoundTool (binding_of (en_tools E) (effect_invocation d revision l) (pp_target p))"])
      (simp add: False digest operation_digest_def, blast)
qed

lemma bound_json_inj: "bound_json op = bound_json op' \<Longrightarrow> (\<forall>i. op = BoundProcess i \<longrightarrow> (\<exists>i'. op' = BoundProcess i' \<and> process_core i = process_core i'))
    \<and> (\<forall>b. op = BoundTool b \<longrightarrow> op' = BoundTool b)"
  using process_binding_differs by (cases op; cases op') (auto simp: operation_json_inj process_binding_inj dest: sym)

text \<open>
  An approval is for one operation: when the digest of a call equals the digest that was
  prepared for approval, it is the same attempt of the same effect, at the revision after
  the approval, under the same lease; a tool call has the same name, input and
  precondition, and a process call describes the same process (SHA-256 taken as free of
  collisions).
\<close>

theorem approvals_bind_the_operation:
  assumes "inj (json_sha256 (en_lib E))"
    and prepared: "prepared_digest E fs d revision l = Inr (PolicyAsk, digest)"
    and later: "session_effect_policy_and_digest E fs' d' revision' l' = Inr (policy', digest)"
  shows "sd_effect_id d' = sd_effect_id d \<and> sd_attempt d' = sd_attempt d \<and> revision' = revision + 2
    \<and> ls_owner l' = ls_owner l \<and> ls_fencing_token l' = ls_fencing_token l
    \<and> (sd_name d = lit ''process'' \<longleftrightarrow> sd_name d' = lit ''process'')
    \<and> (sd_name d = lit ''process'' \<longrightarrow> from_input (en_env_error E) (sd_input d') = from_input (en_env_error E) (sd_input d))
    \<and> (sd_name d \<noteq> lit ''process'' \<longrightarrow> sd_name d' = sd_name d \<and> sd_input d' = sd_input d)"
proof -
  have "session_effect_policy_and_digest E fs d (revision + 2) l = Inr (fst (projr (session_effect_policy_and_digest E fs d (revision + 2) l)), digest)"
    using prepared by (auto simp: prepared_digest_def run_revision_after_def split: if_splits)
  from effect_digest_bound [OF this] obtain op where op: "digest = json_sha256 (en_lib E) (bound_json op)"
    "sd_name d = lit ''process'' \<Longrightarrow> \<exists>spec. from_input (en_env_error E) (sd_input d) = Inr spec
       \<and> op = BoundProcess (spec_invocation spec (revision + 2) d l)"
    "sd_name d \<noteq> lit ''process'' \<Longrightarrow> \<exists>target. op = BoundTool (binding_of (en_tools E) (effect_invocation d (revision + 2) l) target)"
    by blast
  from effect_digest_bound [OF later] obtain op' where op': "digest = json_sha256 (en_lib E) (bound_json op')"
    "sd_name d' = lit ''process'' \<Longrightarrow> \<exists>spec. from_input (en_env_error E) (sd_input d') = Inr spec
       \<and> op' = BoundProcess (spec_invocation spec revision' d' l')"
    "sd_name d' \<noteq> lit ''process'' \<Longrightarrow> \<exists>target. op' = BoundTool (binding_of (en_tools E) (effect_invocation d' revision' l') target)"
    by blast
  have same: "bound_json op = bound_json op'" using op(1) op'(1) assms(1) by (simp add: inj_eq)
  show ?thesis
  proof (cases "sd_name d = lit ''process''")
    case True
    then obtain spec where spec: "from_input (en_env_error E) (sd_input d) = Inr spec"
      "op = BoundProcess (spec_invocation spec (revision + 2) d l)" using op(2) by blast
    then obtain i' where i': "op' = BoundProcess i'" "process_core (spec_invocation spec (revision + 2) d l) = process_core i'"
      using bound_json_inj [OF same] by blast
    then have name': "sd_name d' = lit ''process''" using op'(3) by auto
    then obtain spec' where "from_input (en_env_error E) (sd_input d') = Inr spec'" "i' = spec_invocation spec' revision' d' l'"
      using op'(2) i'(1) by auto
    then show ?thesis using i'(2) spec(1) True name'
      by (cases spec; cases spec') (simp add: process_core_def spec_invocation_def)
  next
    case False
    then obtain target where "op = BoundTool (binding_of (en_tools E) (effect_invocation d (revision + 2) l) target)"
      using op(3) by blast
    then have op_op': "op' = BoundTool (binding_of (en_tools E) (effect_invocation d (revision + 2) l) target)"
      using bound_json_inj [OF same] by blast
    then have name': "sd_name d' \<noteq> lit ''process''" using op'(2) by auto
    then obtain target' where "op' = BoundTool (binding_of (en_tools E) (effect_invocation d' revision' l') target')"
      using op'(3) by blast
    then show ?thesis using op_op' False name' by (simp add: binding_of_def effect_invocation_def)
  qed
qed

subsection \<open>From approval to start\<close>


lemma engine_commit_Inr:
  assumes "engine_commit E samples ids rq l now w = (Inr resp, w')"
  shows "completion_guard E samples rq (ew_db w) = Inr ()
    \<and> (\<exists>d resp0. commit_session_turn_update (en_lib E) ids (ew_db w) rq l now = Inr (d, resp0))"
  using assms by (auto simp: engine_commit_def split: sum.splits)


subsection \<open>Completion\<close>

lemma completion_attempts_Inr:
  "completion_attempts L T samples k n = Inr (digest, m) \<Longrightarrow>
     \<exists>i m'. n \<le> i \<and> i + 1 < n + 2 * k \<and> samples i = Inr m' \<and> samples (i + 1) = Inr m
       \<and> manifest_map_digest L m' = digest \<and> manifest_map_digest L m = digest"
proof (induction k arbitrary: n)
  case (Suc k)
  then consider (later) n' where "n < n'" "n' \<le> n + 2" "completion_attempts L T samples k n' = Inr (digest, m)"
    | (done_now) m' where "samples n = Inr m'" "samples (n + 1) = Inr m" "manifest_map_digest L m' = digest" "manifest_map_digest L m = digest"
    by (auto split: sum.splits tool_error.splits if_splits intro: that(1) [of "Suc n"] that(1) [of "Suc (Suc n)"] that(2))
  then show ?case
  proof cases
    case later
    from Suc.IH [OF later(3)] obtain i m' where "n' \<le> i" "i + 1 < n' + 2 * k" "samples i = Inr m'" "samples (i + 1) = Inr m"
      "manifest_map_digest L m' = digest" "manifest_map_digest L m = digest" by blast
    then show ?thesis using later(1,2) by (intro exI [of _ i] exI [of _ m']) simp
  next
    case done_now
    then show ?thesis by (intro exI [of _ n] exI [of _ m']) simp
  qed
qed simp

lemma obj_insert_nonempty: "obj_insert k v m \<noteq> []"
  by (cases m) (auto split: if_splits)

lemma display_paths_nonempty: "display_paths L ks shown = Inr [] \<Longrightarrow> ks = [] \<and> shown = []"
proof (induction ks arbitrary: shown)
  case (Cons k ks)
  then obtain shown' where "display_paths L ks (obj_insert shown' k shown) = Inr []" by auto
  from Cons.IH [OF this] show ?case using obj_insert_nonempty [of shown' k shown] by simp
qed simp

lemma foldl_insert_empty: "foldl (\<lambda>m k. obj_insert k () m) acc ks = [] \<Longrightarrow> ks = [] \<and> acc = []"
proof (induction ks arbitrary: acc)
  case (Cons k ks)
  then show ?case using Cons.IH [of "obj_insert k () acc"] obj_insert_nonempty [of k "()" acc] by simp
qed simp

lemma changed_keys_empty: "changed_keys baseline current = [] \<Longrightarrow> map_of baseline = map_of current"
proof
  fix k
  assume "changed_keys baseline current = []"
  then have "filter (\<lambda>k. map_of baseline k \<noteq> map_of current k) (map fst baseline @ map fst current) = []"
    using foldl_insert_empty unfolding changed_keys_def by blast
  then have "\<forall>k \<in> fst ` set baseline \<union> fst ` set current. map_of baseline k = map_of current k"
    by (auto simp: filter_empty_conv)
  then show "map_of baseline k = map_of current k"
    by (cases "k \<in> fst ` set baseline \<union> fst ` set current") (auto simp: map_of_eq_None_iff [THEN iffD2])
qed

text \<open>
  A turn completes without verification only when it changed nothing: the engine walked
  over the workspace twice in a row, at most six times in all, with the same digest, and
  every path of the last walk has the digest it had when the turn began.
\<close>

theorem unverified_completion_changes_nothing:
  assumes "engine_commit E samples ids rq l now w = (Inr resp, w')" and "rq_update rq = CuComplete key h"
  shows "\<exists>i m m' b. i < 5 \<and> samples i = Inr m' \<and> samples (i + 1) = Inr m
    \<and> manifest_map_digest (en_lib E) m' = manifest_map_digest (en_lib E) m
    \<and> find (\<lambda>r. bl_turn_id r = rq_turn_id rq) (db_baselines (ew_db w)) = Some b \<and> map_of (bl_manifest b) = map_of m"
proof -
  have "completion_guard E samples rq (ew_db w) = Inr ()" using engine_commit_Inr [OF assms(1)] by blast
  then obtain digest m where m: "completion_attempts (en_lib E) (en_tool_lib E) samples 3 0 = Inr (digest, m)"
    and "session_changed_files (en_lib E) (ew_db w) (rq_turn_id rq) m = Inr []"
    by (auto simp: completion_guard_def assms(2) stable_completion_snapshot_def split: if_splits)
  then obtain b where b: "find (\<lambda>r. bl_turn_id r = rq_turn_id rq) (db_baselines (ew_db w)) = Some b"
    "map_of (bl_manifest b) = map_of m"
    using display_paths_nonempty changed_keys_empty by (auto simp: session_changed_files_def changed_files_since_def)
  from completion_attempts_Inr [OF m] obtain i m' where "i + 1 < 0 + 2 * 3" "samples i = Inr m'" "samples (i + 1) = Inr m"
    "manifest_map_digest (en_lib E) m' = digest" "manifest_map_digest (en_lib E) m = digest" by blast
  then show ?thesis using b by (intro exI [of _ i] exI [of _ m] exI [of _ m'] exI [of _ b]) simp
qed

subsection \<open>What a user approves\<close>

text \<open>
  The text a user approves for a shell command does not depend on the command: any two
  shell lines in the same directory are presented alike.
\<close>

theorem shell_approvals_look_alike:
  "session_effect_permission_summary L \<lparr>sd_effect_id = e, sd_tool_call_id = c, sd_name = lit ''process'',
      sd_input = JObj [(lit ''shell'', JStr line), (lit ''cwd'', JStr cwd)], sd_attempt = n\<rparr>
   = session_effect_permission_summary L \<lparr>sd_effect_id = e', sd_tool_call_id = c', sd_name = lit ''process'',
      sd_input = JObj [(lit ''shell'', JStr line'), (lit ''cwd'', JStr cwd)], sd_attempt = n'\<rparr>"
  by (simp add: session_effect_permission_summary_def argv_summary_def input_string_def json_get_def)

instance json :: countable
  by countable_datatype

definition wide_lib :: lib where
  "wide_lib = ex_lib\<lparr>json_sha256 := (\<lambda>j. [to_nat j])\<rparr>"

lemma wide_lib_inj: "inj (json_sha256 wide_lib)"
  by (simp add: wide_lib_def inj_def)

subsection \<open>Witnesses\<close>

definition ap_descriptor :: session_effect_descriptor where
  "ap_descriptor = \<lparr>sd_effect_id = ex_effect, sd_tool_call_id = lit ''c1'', sd_name = lit ''process'',
     sd_input = JObj [(lit ''argv'', JArr [JStr (lit ''ls'')])], sd_attempt = 1\<rparr>"

definition ap_lib :: lib where
  "ap_lib = ex_lib\<lparr>json_sha256 := (\<lambda>_. ex_digest), descriptor_parse := (\<lambda>_. Some ap_descriptor)\<rparr>"

definition ap_serde :: serde where
  "ap_serde = \<lparr>to_vec = (\<lambda>_. []), from_slice = (\<lambda>_. None), slice_error = (\<lambda>_. []), kind_error = (\<lambda>_. [])\<rparr>"

definition ap_engine :: "lib \<Rightarrow> engine" where
  "ap_engine L = \<lparr>en_lib = L, en_serde = ap_serde, en_store = None, en_root = lit ''/'', en_tools = example_tools,
     en_tool_lib = example_library, en_env_error = (\<lambda>_. []), en_sql_text = (\<lambda>_. []), en_supervision = True\<rparr>"

lemma ap_reads:
  "read_path example_files [lit ''w''] (lit ''.'') = Inr [lit ''w'']" "is_dir example_files [lit ''w'']"
  by code_simp+

lemma ap_policy:
  "session_effect_policy_and_digest (ap_engine L) example_files ap_descriptor revision l
     = Inr (PolicyAsk, process_digest L (spec_invocation \<lparr>sp_argv = [lit ''ls''], sp_shell = None, sp_cwd = lit ''.'', sp_env = [],
         sp_timeout_ms = 30000, sp_grace_ms = 250, sp_stdout_cap = 65536, sp_stderr_cap = 65536\<rparr> revision ap_descriptor l))"
  using ap_reads by (simp add: session_effect_policy_and_digest_def process_policy_and_digest_def ap_engine_def ap_descriptor_def
    from_input_def optional_field_def json_get_def read_argv_def json_as_str_def spec_number_def resolve_cwd_def from_path_def
    example_tools_def classify_def spec_invocation_def safe_grep_def)

lemma ap_prepared: "\<exists>digest. prepared_digest (ap_engine L) example_files ap_descriptor 1 l = Inr (PolicyAsk, digest)"
  by (simp add: prepared_digest_def ap_policy run_revision_after_def u64_bound_def)

lemma approvals_bind_the_operation_witness:
  "\<exists>digest policy. prepared_digest (ap_engine wide_lib) example_files ap_descriptor 1 ex_lease = Inr (PolicyAsk, digest)
    \<and> session_effect_policy_and_digest (ap_engine wide_lib) example_files ap_descriptor 3 ex_lease = Inr (policy, digest)
    \<and> (3 :: nat) = 1 + 2"
proof -
  have inj: "inj (json_sha256 (en_lib (ap_engine wide_lib)))" by (simp add: ap_engine_def wide_lib_inj)
  obtain digest where d: "prepared_digest (ap_engine wide_lib) example_files ap_descriptor 1 ex_lease = Inr (PolicyAsk, digest)"
    using ap_prepared by blast
  moreover from d have l: "session_effect_policy_and_digest (ap_engine wide_lib) example_files ap_descriptor 3 ex_lease = Inr (PolicyAsk, digest)"
    by (simp add: prepared_digest_def ap_policy run_revision_after_def u64_bound_def numeral_3_eq_3)
  ultimately show ?thesis using approvals_bind_the_operation [OF inj d l] by blast
qed

definition ap_world :: "db \<Rightarrow> engine_world" where
  "ap_world d = \<lparr>ew_db = d, ew_log = Map.empty, ew_tools = \<lparr>tw_files = example_files, tw_snapshots = Map.empty\<rparr>\<rparr>"

definition ap_request :: effect_request where
  "ap_request = \<lparr>xr_session_id = 1, xr_turn_id = 5, xr_expected_session_revision = 7, xr_expected_turn_revision = 1,
     xr_command_id = 9, xr_source_key = lit ''k''\<rparr>"

definition ap_db_prepared :: db where
  "ap_db_prepared = ex_db_ask\<lparr>db_canonical := [\<lparr>ca_effect_id = ex_effect, ca_turn_id = 5, ca_descriptor = lit ''json''\<rparr>]\<rparr>"

lemma ap_start_commits:
  "\<exists>e resp. commit_session_turn_update ap_lib ex_ids ap_db_prepared (commit_request ap_request (Some ex_effect) ex_effect
      (CuStartEffect (lit ''k'') ex_effect ex_digest (lit ''json''))) ex_lease 10 = Inr (e, resp)
    \<and> (\<forall>x. current_projection_snapshot ap_lib e 1 500 \<noteq> Inl x) \<and> sn_session_id (rs_snapshot resp) = 1"
  by (simp add: ex_defs ap_db_prepared_def ex_db_ask_def ex_effect_def commit_request_def ap_request_def)
    (simp add: commit_eval effect_eval ex_digest_valid ex_lib_eval ap_lib_def json_obj_def
      current_projection_snapshot_def session_lease_scope_def)

lemma ap_engine_lib [simp]: "en_lib (ap_engine L) = L"
  by (simp add: ap_engine_def)

lemma engine_commit_ok:
  assumes "completion_guard (ap_engine L) samples rq d = Inr ()" and "commit_session_turn_update L ids d rq l now = Inr (e, resp)"
    and "current_projection_snapshot L e (sn_session_id (rs_snapshot resp)) 500 = Inr s"
  shows "engine_commit (ap_engine L) samples ids rq l now (ap_world d) = (Inr (resp\<lparr>rs_snapshot := s\<rparr>), ap_world e)"
  using assms by (simp add: engine_commit_def ap_engine_def ap_world_def finish_session_response_def
      sync_session_conversation_def snapshot_projection_def Let_def)

lemma ap_descriptor_valid: "validate_session_effect_descriptor ap_descriptor = Inr ()"
  by code_simp

lemma ap_digest: "process_digest ap_lib i = ex_digest"
  by (simp add: process_digest_def ap_lib_def)

lemma ap_start_update:
  "session_effect_checkpoint ap_lib phase d digest = lit ''json''"
  by (simp add: session_effect_checkpoint_def ap_lib_def ex_lib_def)

lemma ap_db_prepared_ok: "store_ok ap_db_prepared"
  by (rule store_ok_frame [OF ex_db_ask_ok]) (simp_all add: ap_db_prepared_def ex_db_ask_def effects_keyed_def)

lemma ap_started: "\<exists>s w'. start_session_effect (ap_engine ap_lib) samples ex_ids ap_request ex_effect ex_digest ex_lease 10
    (ap_world ap_db_prepared) = (Inr s, w')"
proof -
  let ?rq = "commit_request ap_request (Some ex_effect) ex_effect (CuStartEffect (lit ''k'') ex_effect ex_digest (lit ''json''))"
  obtain e resp where c: "commit_session_turn_update ap_lib ex_ids ap_db_prepared ?rq ex_lease 10 = Inr (e, resp)"
    "\<forall>x. current_projection_snapshot ap_lib e 1 500 \<noteq> Inl x" "sn_session_id (rs_snapshot resp) = 1"
    using ap_start_commits by metis
  then obtain s where "current_projection_snapshot ap_lib e (sn_session_id (rs_snapshot resp)) 500 = Inr s"
    by (cases "current_projection_snapshot ap_lib e 1 500") auto
  from engine_commit_ok [OF _ c(1) this]
  have "engine_commit (ap_engine ap_lib) samples ex_ids ?rq ex_lease 10 (ap_world ap_db_prepared) = (Inr (resp\<lparr>rs_snapshot := s\<rparr>), ap_world e)"
    by (simp add: completion_guard_def commit_request_def)
  moreover have "canonical_effect (ap_engine ap_lib) ex_effect 5 1 ex_lease (ap_world ap_db_prepared) = Inr (ap_descriptor, ex_digest)"
    using ap_descriptor_valid ap_policy [of ap_lib]
    by (simp add: canonical_effect_def session_effect_canonical_descriptor_def ap_world_def ap_db_prepared_def parse_descriptor_def
        ap_digest) (simp add: ap_engine_def ap_lib_def ap_descriptor_def)
  ultimately show ?thesis
    by (simp add: start_session_effect_def ap_request_def ap_start_update)
qed

lemma ap_fresh: "\<not> command_recorded ap_db_prepared rq" "\<not> source_recorded ap_db_prepared rq"
  using ex_ask_fresh [of rq] by (simp_all add: ap_db_prepared_def command_recorded_def source_recorded_def)


text \<open>A preparation for approval in the example store.\<close>

lemma ap_prepare_update:
  "prepare_update ap_lib k ap_descriptor policy digest = CuPrepareEffect k ex_effect digest (lit ''json'') (lit ''json'') policy
     (session_effect_permission_summary ap_lib ap_descriptor) (lit ''json'')"
  by (simp add: prepare_update_def session_effect_checkpoint_def) (simp add: ap_lib_def ex_lib_def ap_descriptor_def)

lemma ap_prepare_commits:
  "\<exists>e resp. commit_session_turn_update ap_lib ex_ids ex_db (commit_request ap_request None ex_effect
      (CuPrepareEffect (lit ''k'') ex_effect ex_digest (lit ''json'') (lit ''json'') PolicyAsk shown (lit ''json''))) ex_lease 10 = Inr (e, resp)
    \<and> (\<forall>x. current_projection_snapshot ap_lib e 1 500 \<noteq> Inl x) \<and> sn_session_id (rs_snapshot resp) = 1"
  by (simp add: ex_defs ex_effect_def commit_request_def ap_request_def)
    (simp add: commit_eval effect_eval ex_digest_valid ex_lib_def lit_def is_control_def card_key_def len_utf8_def ap_lib_def
      commit_prepare_effect_def prepare_ask_def
      insert_effect_def insert_canonical_def insert_permission_def parse_descriptor_def
      current_projection_snapshot_def session_lease_scope_def)

lemma ap_prepares: "\<exists>p w1. prepare_session_effect (ap_engine ap_lib) samples ex_ids ap_request ap_descriptor ex_lease 10 (ap_world ex_db)
    = (Inr p, w1) \<and> ep_policy p = PolicyAsk \<and> ep_operation_digest p = ex_digest"
proof -
  let ?rq = "commit_request ap_request None ex_effect (prepare_update ap_lib (lit ''k'') ap_descriptor PolicyAsk ex_digest)"
  obtain e resp where c: "commit_session_turn_update ap_lib ex_ids ex_db ?rq ex_lease 10 = Inr (e, resp)"
    "\<forall>x. current_projection_snapshot ap_lib e 1 500 \<noteq> Inl x" "sn_session_id (rs_snapshot resp) = 1"
    using ap_prepare_commits [of "session_effect_permission_summary ap_lib ap_descriptor"] unfolding ap_prepare_update by metis
  then obtain s where "current_projection_snapshot ap_lib e (sn_session_id (rs_snapshot resp)) 500 = Inr s"
    by (cases "current_projection_snapshot ap_lib e 1 500") auto
  from engine_commit_ok [OF _ c(1) this]
  have "engine_commit (ap_engine ap_lib) samples ex_ids ?rq ex_lease 10 (ap_world ex_db) = (Inr (resp\<lparr>rs_snapshot := s\<rparr>), ap_world e)"
    by (simp add: completion_guard_def commit_request_def ap_prepare_update)
  moreover have "prepared_digest (ap_engine ap_lib) example_files ap_descriptor 1 ex_lease = Inr (PolicyAsk, ex_digest)"
    by (simp add: prepared_digest_def ap_policy run_revision_after_def u64_bound_def ap_digest)
  moreover have "sd_effect_id ap_descriptor = ex_effect" "tw_files (ew_tools (ap_world ex_db)) = example_files"
    "xr_expected_turn_revision ap_request = 1" "xr_source_key ap_request = lit ''k''"
    by (simp_all add: ap_descriptor_def ap_world_def ap_request_def)
  ultimately show ?thesis using ap_descriptor_valid by (simp add: prepare_session_effect_def)
qed


definition ap_db_baseline :: db where
  "ap_db_baseline = ex_db\<lparr>db_baselines := [\<lparr>bl_turn_id = 5, bl_manifest = []\<rparr>]\<rparr>"

lemma ap_completes:
  "\<exists>e resp. commit_session_turn_update ex_lib ex_ids ap_db_baseline (ex_request (CuComplete (lit ''k'') ex_handoff)) ex_lease 10 = Inr (e, resp)
    \<and> (\<forall>x. current_projection_snapshot ex_lib e 1 500 \<noteq> Inl x) \<and> sn_session_id (rs_snapshot resp) = 1"
  by (simp add: ex_defs ex_handoff_def ap_db_baseline_def)
    (simp add: commit_eval commit_complete_def complete_with_def completion_card_def
      verification_passed_def redact_handoff_def ex_lib_eval current_projection_snapshot_def)

lemma unverified_completion_changes_nothing_witness:
  "\<exists>w'. engine_commit (ap_engine ex_lib) (\<lambda>_. Inr []) ex_ids (ex_request (CuComplete (lit ''k'') ex_handoff)) ex_lease 10
       (ap_world ap_db_baseline) = w' \<and> is_ok (fst w')
    \<and> (\<exists>b. find (\<lambda>r. bl_turn_id r = 5) (db_baselines ap_db_baseline) = Some b \<and> map_of (bl_manifest b) = Map.empty)"
proof -
  let ?rq = "ex_request (CuComplete (lit ''k'') ex_handoff)"
  obtain e resp where c: "commit_session_turn_update ex_lib ex_ids ap_db_baseline ?rq ex_lease 10 = Inr (e, resp)"
    "\<forall>x. current_projection_snapshot ex_lib e 1 500 \<noteq> Inl x" "sn_session_id (rs_snapshot resp) = 1"
    using ap_completes by metis
  then obtain s where s: "current_projection_snapshot ex_lib e (sn_session_id (rs_snapshot resp)) 500 = Inr s"
    by (cases "current_projection_snapshot ex_lib e 1 500") auto
  have "completion_guard (ap_engine ex_lib) (\<lambda>_. Inr []) ?rq ap_db_baseline = Inr ()"
    by (simp add: completion_guard_def ex_request_def stable_completion_snapshot_def numeral_3_eq_3 session_changed_files_def
        ap_db_baseline_def changed_files_since_def changed_keys_def)
  from engine_commit_ok [OF this c(1) s] obtain r w' where
    commit: "engine_commit (ap_engine ex_lib) (\<lambda>_. Inr []) ex_ids ?rq ex_lease 10 (ap_world ap_db_baseline) = (Inr r, w')" by blast
  from unverified_completion_changes_nothing [OF this] commit show ?thesis
    by (auto simp: ex_request_def ap_world_def)
qed

end
