(* ===== verification/Cancellation.thy ===== *)
theory Cancellation
  imports Main
begin

text \<open>
  The cancellation token of \<open>latte-engine/src/process.rs\<close>, which the supervisor waits on while
  another thread cancels: \<open>cancel\<close> stores the flag and then wakes the registered waiters,
  \<open>cancelled\<close> loads the flag and then registers with the notifier and sleeps. As documented
  for tokio's \<open>Notify\<close>, \<open>notify_waiters\<close> wakes the waiters registered at that moment and
  leaves nothing behind for later ones. A step is one atomic access of either side.
\<close>

datatype waiter = WLoad | WRegister | WAsleep | WReturned

datatype canceller = CStore | CNotify | CDone

record token_state =
  tk_flag :: bool
  tk_waiter :: waiter
  tk_canceller :: canceller

definition token_new :: token_state where
  "token_new = \<lparr>tk_flag = False, tk_waiter = WLoad, tk_canceller = CStore\<rparr>"

fun waiter_step :: "token_state \<Rightarrow> token_state option" where
  "waiter_step s =
     (case tk_waiter s of
        WLoad \<Rightarrow> Some (s\<lparr>tk_waiter := if tk_flag s then WReturned else WRegister\<rparr>)
      | WRegister \<Rightarrow> Some (s\<lparr>tk_waiter := WAsleep\<rparr>)
      | _ \<Rightarrow> None)"

fun cancel_step :: "token_state \<Rightarrow> token_state option" where
  "cancel_step s =
     (case tk_canceller s of
        CStore \<Rightarrow> Some (s\<lparr>tk_flag := True, tk_canceller := CNotify\<rparr>)
      | CNotify \<Rightarrow> Some (s\<lparr>tk_waiter := if tk_waiter s = WAsleep then WReturned else tk_waiter s, tk_canceller := CDone\<rparr>)
      | CDone \<Rightarrow> None)"

inductive token_step :: "token_state \<Rightarrow> token_state \<Rightarrow> bool" where
  waiter: "waiter_step s = Some s' \<Longrightarrow> token_step s s'"
| cancels: "cancel_step s = Some s' \<Longrightarrow> token_step s s'"

inductive_simps token_step_simps: "token_step s s'"

inductive token_reach :: "token_state \<Rightarrow> bool" where
  init: "token_reach token_new"
| step: "token_reach s \<Longrightarrow> token_step s s' \<Longrightarrow> token_reach s'"

text \<open>What holds in every interleaving: a waiter returns only from a cancelled token, and the flag tells.\<close>

lemma token_inv:
  "token_reach s \<Longrightarrow> (tk_flag s \<longleftrightarrow> tk_canceller s \<noteq> CStore) \<and> (tk_waiter s = WReturned \<longrightarrow> tk_flag s)"
  by (induction rule: token_reach.induct)
     (auto simp: token_new_def token_step_simps split: waiter.splits canceller.splits if_splits)

text \<open>A state in which the waiter sleeps and nobody is left to wake it.\<close>

definition asleep_for_ever :: token_state where
  "asleep_for_ever = \<lparr>tk_flag = True, tk_waiter = WAsleep, tk_canceller = CDone\<rparr>"

lemma asleep_for_ever_reached: "token_reach asleep_for_ever"
proof -
  let ?s = "\<lambda>f w c. \<lparr>tk_flag = f, tk_waiter = w, tk_canceller = c\<rparr>"
  have "token_reach (?s False WLoad CStore)" using token_reach.init by (simp add: token_new_def)
  then have "token_reach (?s False WRegister CStore)" by (rule token_reach.step) (simp add: token_step_simps)
  then have "token_reach (?s True WRegister CNotify)" by (rule token_reach.step) (simp add: token_step_simps)
  then have "token_reach (?s True WRegister CDone)" by (rule token_reach.step) (simp add: token_step_simps)
  then have "token_reach (?s True WAsleep CDone)" by (rule token_reach.step) (simp add: token_step_simps)
  then show ?thesis by (simp add: asleep_for_ever_def)
qed

text \<open>
  A cancellation can be lost: the waiter returns only from a cancelled token, and it always
  returns when the cancellation was complete before it looked, but there is an interleaving
  of one \<open>cancel\<close> with one \<open>cancelled\<close> after which the flag is set, \<open>cancel\<close> has returned, and
  the waiter sleeps with no step left that could wake it.
\<close>

theorem a_cancellation_can_be_lost:
  "(\<forall>s. token_reach s \<longrightarrow> tk_waiter s = WReturned \<longrightarrow> tk_flag s)
   \<and> (\<forall>s s'. tk_flag s \<longrightarrow> tk_waiter s = WLoad \<longrightarrow> waiter_step s = Some s' \<longrightarrow> tk_waiter s' = WReturned)
   \<and> (\<exists>s. token_reach s \<and> tk_flag s \<and> tk_canceller s = CDone \<and> tk_waiter s = WAsleep \<and> (\<forall>s'. \<not> token_step s s'))"
  using token_inv asleep_for_ever_reached
  by (auto simp: asleep_for_ever_def token_step_simps)

lemma a_cancellation_can_be_lost_witness:
  "token_reach asleep_for_ever \<and> \<not> token_step asleep_for_ever token_new
   \<and> (\<exists>s. token_reach s \<and> tk_flag s \<and> tk_canceller s = CDone \<and> tk_waiter s = WAsleep \<and> (\<forall>s'. \<not> token_step s s'))"
  using a_cancellation_can_be_lost asleep_for_ever_reached by (auto simp: asleep_for_ever_def token_step_simps)

end
