(* ===== verification/Repository_Context.thy ===== *)
theory Repository_Context
  imports Workspace_Files History_Planner
begin

text \<open>
  The repository context of a request, \<open>latte-headless/src/context.rs\<close>: the guidance files
  between the workspace root and the focus, then the manifests at the root, read through
  links that stay in the workspace and cut at the byte cap. A path is the list of its
  pieces; two paths are equal when their components are.
\<close>

definition is_regular_file :: "files \<Rightarrow> rstr list \<Rightarrow> bool" where
  "is_regular_file fs p = (case canonicalize fs p of
     Inr q \<Rightarrow> (case fs q of Some (FnFile _ _) \<Rightarrow> True | _ \<Rightarrow> False) | Inl _ \<Rightarrow> False)"

definition is_directory :: "files \<Rightarrow> rstr list \<Rightarrow> bool" where
  "is_directory fs p = (case canonicalize fs p of Inr q \<Rightarrow> is_dir fs q | Inl _ \<Rightarrow> False)"

definition exists_path :: "files \<Rightarrow> rstr list \<Rightarrow> bool" where
  "exists_path fs p = is_ok (canonicalize fs p)"

text \<open>\<open>Path::starts_with\<close> compares components; \<open>Path::parent\<close> drops the last one.\<close>

definition under :: "rstr list \<Rightarrow> rstr list \<Rightarrow> bool" where
  "under root p \<longleftrightarrow> take (length root) (normal_parts p) = root"

definition parent_dir :: "rstr list \<Rightarrow> rstr list" where
  "parent_dir p = butlast (normal_parts p)"

definition focus_escape :: io_failure where
  "focus_escape = IoOther (lit ''focus must be workspace-relative and remain within the workspace'')"

definition contained_canonical :: "files \<Rightarrow> rstr list \<Rightarrow> rstr list \<Rightarrow> io_failure + rstr list" where
  "contained_canonical fs root p =
     bindE (canonicalize fs p) (\<lambda>q. if take (length root) q \<noteq> root then Inl focus_escape else Inr q)"

definition focus_refused :: "rstr \<Rightarrow> bool" where
  "focus_refused focus \<longleftrightarrow> focus = [] \<or> is_absolute focus \<or> lit ''..'' \<in> set (pieces focus)"

text \<open>The closest existing ancestor; \<open>n\<close> bounds the number of parents that are tried.\<close>

fun existing_ancestor :: "files \<Rightarrow> nat \<Rightarrow> rstr list \<Rightarrow> io_failure + rstr list" where
  "existing_ancestor fs 0 p = (if exists_path fs p then Inr p else Inl focus_escape)"
| "existing_ancestor fs (Suc n) p =
     (if exists_path fs p then Inr p
      else if normal_parts p = [] then Inl focus_escape
      else existing_ancestor fs n (parent_dir p))"

definition focused_path :: "files \<Rightarrow> rstr list \<Rightarrow> rstr \<Rightarrow> io_failure + rstr list" where
  "focused_path fs root focus =
     (let focused = root @ pieces focus in
      bindE (existing_ancestor fs (length (normal_parts focused)) focused) (\<lambda>ancestor.
      bindE (canonicalize fs ancestor) (\<lambda>q.
      if take (length root) q \<noteq> root then Inl focus_escape
      else
      bindE (if exists_path fs focused then canonicalize fs focused else Inr focused) (\<lambda>focused.
      if \<not> under root focused then Inl focus_escape else Inr focused))))"

definition AGENTS :: rstr where "AGENTS = lit ''AGENTS.md''"

text \<open>The walk from the focus up to the root, \<open>n\<close> directories at most; the result is innermost first.\<close>

fun nested_guidance :: "files \<Rightarrow> rstr list \<Rightarrow> rstr list list \<Rightarrow> nat \<Rightarrow> rstr list
    \<Rightarrow> io_failure + rstr list list" where
  "nested_guidance fs root seen n dir =
     (if \<not> under root dir then Inl (IoOther (lit ''focus escapes workspace''))
      else
      bindE (let candidate = dir @ [AGENTS] in
             if is_regular_file fs candidate \<and> normal_parts candidate \<notin> set seen
             then bindE (contained_canonical fs root candidate) (\<lambda>q. Inr [q]) else Inr []) (\<lambda>here.
      if normal_parts dir = root then Inr here
      else case n of
        0 \<Rightarrow> Inr here
      | Suc n \<Rightarrow> bindE (nested_guidance fs root seen n (parent_dir dir)) (\<lambda>above. Inr (here @ above))))"

declare nested_guidance.simps [simp del]

definition focus_guidance :: "files \<Rightarrow> rstr list \<Rightarrow> rstr list list \<Rightarrow> rstr option \<Rightarrow> io_failure + rstr list list" where
  "focus_guidance fs root seen focus =
     (case focus of
        None \<Rightarrow> Inr []
      | Some f \<Rightarrow>
          if focus_refused f then Inl focus_escape
          else bindE (focused_path fs root f) (\<lambda>focused.
            let start = (if is_directory fs focused then focused else parent_dir focused)
            in bindE (nested_guidance fs root seen (length (normal_parts start)) start) (\<lambda>ps. Inr (rev ps))))"

definition ROOT_MANIFESTS :: "rstr list" where
  "ROOT_MANIFESTS = [lit ''Cargo.toml'', lit ''package.json'', lit ''pyproject.toml'', lit ''go.mod'']"

fun present_files :: "files \<Rightarrow> rstr list \<Rightarrow> rstr list \<Rightarrow> io_failure + rstr list list" where
  "present_files fs root [] = Inr []"
| "present_files fs root (name # names) =
     (if is_regular_file fs (root @ [name])
      then bindE (contained_canonical fs root (root @ [name])) (\<lambda>q.
           bindE (present_files fs root names) (\<lambda>qs. Inr (q # qs)))
      else present_files fs root names)"

definition context_paths :: "files \<Rightarrow> rstr list \<Rightarrow> rstr option \<Rightarrow> io_failure + rstr list list" where
  "context_paths fs root focus =
     bindE (present_files fs root [AGENTS]) (\<lambda>top.
     bindE (focus_guidance fs root top focus) (\<lambda>nested.
     bindE (present_files fs root ROOT_MANIFESTS) (\<lambda>manifests.
     Inr (top @ nested @ manifests))))"

definition relative_name :: "rstr list \<Rightarrow> rstr list \<Rightarrow> rstr" where
  "relative_name root p =
     map (\<lambda>c. if c = 92 then 47 else c) (join_with (lit ''/'') (drop (length root) p))"

definition context_section :: "rstr \<Rightarrow> rstr \<Rightarrow> rstr" where
  "context_section relative content = [10] @ lit ''--- '' @ relative @ lit '' ---'' @ [10] @ content"

definition read_to_string :: "files \<Rightarrow> rstr list \<Rightarrow> io_failure + rstr" where
  "read_to_string fs p =
     bindE (read_bytes fs p) (\<lambda>(data, _). ok_or IoInvalidUtf8 (from_utf8 data))"

fun collect_sections :: "files \<Rightarrow> rstr list \<Rightarrow> nat \<Rightarrow> rstr list list \<Rightarrow> context_bundle
    \<Rightarrow> io_failure + context_bundle" where
  "collect_sections fs root cap [] b = Inr b"
| "collect_sections fs root cap (p # ps) b =
     bindE (read_to_string fs p) (\<lambda>content.
     let relative = relative_name root p;
         section = context_section relative content;
         remaining = saturating_sub cap (utf8_len (cb_text b))
     in if utf8_len section > remaining
        then Inr (b\<lparr>cb_text := cb_text b @ floor_prefix remaining section, cb_truncated := True\<rparr>)
        else collect_sections fs root cap ps
               (b\<lparr>cb_text := cb_text b @ section, cb_sources := cb_sources b @ [relative]\<rparr>))"

definition build_context :: "files \<Rightarrow> rstr list \<Rightarrow> rstr option \<Rightarrow> nat \<Rightarrow> io_failure + context_bundle" where
  "build_context fs given focus cap =
     bindE (canonicalize fs given) (\<lambda>root.
     bindE (context_paths fs root focus) (\<lambda>ps.
     collect_sections fs root cap ps \<lparr>cb_text = [], cb_truncated = False, cb_sources = []\<rparr>))"


end
