(* ===== verification/Context_Properties.thy ===== *)
theory Context_Properties
  imports Repository_Context
begin

text \<open>
  The repository context: where its files lie, and how its text is made from theirs.
\<close>

lemma contained: "contained_canonical fs root p = Inr q \<Longrightarrow> take (length root) q = root"
  by (auto simp: contained_canonical_def bindE_eq_Inr split: if_splits)

lemma present_contained:
  "present_files fs root names = Inr ps \<Longrightarrow> p \<in> set ps \<Longrightarrow> take (length root) p = root"
  by (induction names arbitrary: ps) (auto simp: bindE_eq_Inr split: if_splits dest: contained)

lemma nested_contained:
  "nested_guidance fs root seen n dir = Inr ps \<Longrightarrow> p \<in> set ps \<Longrightarrow> take (length root) p = root"
proof (induction n arbitrary: dir ps)
  case 0
  then show ?case by (subst (asm) nested_guidance.simps) (auto simp: Let_def split: if_splits dest: contained)
next
  case (Suc n)
  let ?H = "if is_regular_file fs (dir @ [AGENTS]) \<and> normal_parts (dir @ [AGENTS]) \<notin> set seen
      then bindE (contained_canonical fs root (dir @ [AGENTS])) (\<lambda>q. Inr [q]) else Inr []"
  let ?K = "\<lambda>here. if normal_parts dir = root then Inr here
      else bindE (nested_guidance fs root seen n (parent_dir dir)) (\<lambda>above. Inr (here @ above))"
  have "bindE ?H ?K = Inr ps"
    using Suc.prems(1) unfolding nested_guidance.simps [of _ _ _ "Suc n"] Let_def
    by (cases "under root dir") (simp_all only: not_True_eq_False not_False_eq_True if_True if_False nat.case sum.distinct)
  then obtain here where here: "?H = Inr here" and K: "?K here = Inr ps" unfolding bindE_eq_Inr by blast
  from K have rest: "ps = here \<or> (\<exists>above. nested_guidance fs root seen n (parent_dir dir) = Inr above \<and> ps = here @ above)"
    by (auto split: if_splits)
  from here have "p \<in> set here \<Longrightarrow> take (length root) p = root" by (auto split: if_splits dest: contained)
  then show ?case using Suc rest by auto
qed

lemma context_contained:
  "context_paths fs root focus = Inr ps \<Longrightarrow> p \<in> set ps \<Longrightarrow> take (length root) p = root"
  by (fastforce simp: context_paths_def focus_guidance_def Let_def simp del: present_files.simps split: if_splits option.splits
      dest: present_contained nested_contained)

text \<open>The sections of the files that were read.\<close>

definition sections :: "rstr list \<Rightarrow> (rstr list \<times> rstr) list \<Rightarrow> rstr" where
  "sections root reads = concat (map (\<lambda>(p, t). context_section (relative_name root p) t) reads)"

lemma sections_Cons: "sections root ((p, t) # reads) = context_section (relative_name root p) t @ sections root reads"
  by (simp add: sections_def)

lemma collected:
  assumes "collect_sections fs root cap ps b = Inr b'" and "utf8_len (cb_text b) \<le> cap" and "\<not> cb_truncated b"
  shows "utf8_len (cb_text b') \<le> cap \<and> (\<exists>reads cut. (\<forall>(p, t) \<in> set reads. read_to_string fs p = Inr t)
     \<and> map fst reads = take (length reads) ps
     \<and> cb_text b @ sections root reads = cb_text b' @ cut
     \<and> (if cb_truncated b'
        then cut \<noteq> [] \<and> reads \<noteq> [] \<and> cb_sources b' = cb_sources b @ map (relative_name root) (take (length reads - 1) ps)
        else cut = [] \<and> length reads = length ps \<and> cb_sources b' = cb_sources b @ map (relative_name root) ps))"
  using assms
proof (induction fs root cap ps b rule: collect_sections.induct)
  case (1 fs root cap b)
  then show ?case by (auto intro!: exI [of _ "[]"] simp: sections_def)
next
  case (2 fs root cap p ps b)
  obtain content where content: "read_to_string fs p = Inr content"
    using "2.prems"(1) by auto
  define sec where "sec = context_section (relative_name root p) content"
  let ?room = "cap - utf8_len (cb_text b)"
  show ?case
  proof (cases "utf8_len sec > ?room")
    case True
    then have b': "b' = b\<lparr>cb_text := cb_text b @ floor_prefix ?room sec, cb_truncated := True\<rparr>"
      using "2.prems"(1) content by (simp add: Let_def sec_def saturating_sub_def)
    obtain cut where cut: "sec = floor_prefix ?room sec @ cut" using floor_prefix_prefix by blast
    have "utf8_len (floor_prefix ?room sec) \<le> ?room" by (rule floor_prefix_le)
    moreover from this have "cut \<noteq> []" using True cut by auto
    ultimately show ?thesis
      using "2.prems"(2) content cut b'
      by (intro conjI exI [of _ "[(p, content)]"] exI [of _ cut]) (simp_all add: sections_def flip: sec_def)
  next
    case False
    let ?b = "b\<lparr>cb_text := cb_text b @ sec, cb_sources := cb_sources b @ [relative_name root p]\<rparr>"
    have run: "collect_sections fs root cap ps ?b = Inr b'"
      using "2.prems"(1) content False by (simp add: Let_def sec_def saturating_sub_def)
    have ih: "utf8_len (cb_text b') \<le> cap \<and> (\<exists>reads cut. (\<forall>(p, t) \<in> set reads. read_to_string fs p = Inr t)
       \<and> map fst reads = take (length reads) ps \<and> cb_text ?b @ sections root reads = cb_text b' @ cut
       \<and> (if cb_truncated b'
          then cut \<noteq> [] \<and> reads \<noteq> [] \<and> cb_sources b' = cb_sources ?b @ map (relative_name root) (take (length reads - 1) ps)
          else cut = [] \<and> length reads = length ps \<and> cb_sources b' = cb_sources ?b @ map (relative_name root) ps))"
      by (rule "2.IH" [OF refl refl refl, of content, folded sec_def])
        (use run "2.prems"(2,3) False in \<open>simp_all add: saturating_sub_def\<close>)
    show ?thesis
    proof -
      obtain reads cut where r: "\<forall>(p, t) \<in> set reads. read_to_string fs p = Inr t"
        "map fst reads = take (length reads) ps" "cb_text ?b @ sections root reads = cb_text b' @ cut"
        "if cb_truncated b' then cut \<noteq> [] \<and> reads \<noteq> [] \<and> cb_sources b' = cb_sources ?b @ map (relative_name root) (take (length reads - 1) ps)
          else cut = [] \<and> length reads = length ps \<and> cb_sources b' = cb_sources ?b @ map (relative_name root) ps"
        and cap: "utf8_len (cb_text b') \<le> cap" using ih by blast
      let ?reads = "(p, content) # reads"
      have "reads \<noteq> [] \<Longrightarrow> take (length ?reads - 1) (p # ps) = p # take (length reads - 1) ps" by (cases reads) simp_all
      moreover have "cb_text b @ sections root ?reads = cb_text b' @ cut" using r(3) by (simp add: sections_Cons sec_def)
      ultimately show ?thesis using content r(1,2,4) cap
        by (intro conjI exI [of _ ?reads] exI [of _ cut]) (simp_all split: if_splits)
    qed
  qed
qed


subsection \<open>A workspace with guidance\<close>

definition guided_files :: files where
  "guided_files = map_of
     [([], FnDir), ([lit ''w''], FnDir), ([lit ''w'', lit ''s''], FnDir),
      ([lit ''w'', lit ''AGENTS.md''], FnFile [114] 1), ([lit ''w'', lit ''s'', lit ''AGENTS.md''], FnFile [195, 169] 1),
      ([lit ''w'', lit ''go.mod''], FnLink (lit ''s/AGENTS.md''))]"

definition guided_bundle :: context_bundle where
  "guided_bundle = \<lparr>cb_text = context_section (lit ''AGENTS.md'') [114] @ context_section (lit ''s/AGENTS.md'') [233]
       @ [10] @ lit ''--- s/'', cb_truncated = True, cb_sources = [lit ''AGENTS.md'', lit ''s/AGENTS.md'']\<rparr>"

lemma guided_context: "build_context guided_files [lit ''w''] (Some (lit ''s'')) 50 = Inr guided_bundle"
  by code_simp


end
