(* ===== verification/Agent_Runtime.thy ===== *)
theory Agent_Runtime
  imports Engine_Effects Repository_Context Provider_Binding
begin

text \<open>
  The runtime around one session, \<open>latte-headless/src/session.rs\<close>: the process-local state,
  what the outside answers, commits, leases with their heartbeats, calls of the provider.
  An action takes the state and returns a result with the new state; an error keeps what
  was done before it. \<open>as_tick\<close> numbers the questions to the outside: the clock, fresh
  identifiers, samples of the workspace, answers of the provider, and what other tasks and
  processes do while this one waits (\<open>ou_others\<close>).
\<close>

subsection \<open>State and outside\<close>

record verification_plan =
  vp_argv :: "rstr list"
  vp_cwd :: rstr
  vp_timeout_ms :: nat
  vp_grace_ms :: nat
  vp_stdout_cap :: nat
  vp_stderr_cap :: nat

text \<open>What the acceptance channel of a create or a follow-up carries.\<close>

datatype create_accept_error = IdempotencyMismatch rstr | AcceptConflict rstr | AcceptFailed rstr

type_synonym accept_signal = "create_accept_error + session_snapshot create_outcome"

record agent =
  as_world :: engine_world
  as_mailboxes :: "uuid \<rightharpoonup> rstr list"
  as_failures :: failure_counts
  as_reminders :: reminders
  as_active :: "uuid set"
  as_accept :: "accept_signal option"
  as_tick :: nat

type_synonym provider = "nat \<Rightarrow> provider_request \<Rightarrow> provider_error + provider_response"

record agent_service =
  ag_engine :: engine
  ag_root :: "rstr list"
  ag_catalog :: profile_catalog
  ag_provider :: "session_provider_binding \<Rightarrow> rstr + provider"
  ag_verification :: "verification_plan option"
  ag_lease_ttl_ms :: nat
  ag_wire :: wire_size
  ag_session_sha :: "uuid \<Rightarrow> rstr"
  ag_process_parse :: "rstr \<Rightarrow> process_output option"

record outside =
  ou_now :: "nat \<Rightarrow> nat"
  ou_uuid :: "nat \<Rightarrow> uuid"
  ou_ids :: "nat \<Rightarrow> nat \<Rightarrow> uuid"
  ou_samples :: "nat \<Rightarrow> samples"
  ou_beats :: "nat \<Rightarrow> nat"
  ou_cancelled :: "nat \<Rightarrow> bool"
  ou_run :: "nat \<Rightarrow> run_conditions"
  ou_others :: "nat \<Rightarrow> agent \<Rightarrow> agent"

abbreviation ag_lib :: "agent_service \<Rightarrow> lib" where
  "ag_lib S \<equiv> en_lib (ag_engine S)"

subsection \<open>Actions\<close>

type_synonym 'a act = "agent \<Rightarrow> (runtime_error + 'a) \<times> agent"

definition retA :: "'a \<Rightarrow> 'a act" where
  "retA x = (\<lambda>w. (Inr x, w))"

definition errA :: "runtime_error \<Rightarrow> 'a act" where
  "errA e = (\<lambda>w. (Inl e, w))"

definition liftA :: "runtime_error + 'a \<Rightarrow> 'a act" where
  "liftA r = (\<lambda>w. (r, w))"

definition bindA :: "'a act \<Rightarrow> ('a \<Rightarrow> 'b act) \<Rightarrow> 'b act" where
  "bindA m f = (\<lambda>w. case m w of (Inl e, w) \<Rightarrow> (Inl e, w) | (Inr x, w) \<Rightarrow> f x w)"

definition tryA :: "'a act \<Rightarrow> (runtime_error + 'a) act" where
  "tryA m = (\<lambda>w. case m w of (r, w) \<Rightarrow> (Inr r, w))"

definition readA :: "(agent \<Rightarrow> 'a) \<Rightarrow> 'a act" where
  "readA f = (\<lambda>w. (Inr (f w), w))"

definition modifyA :: "(agent \<Rightarrow> agent) \<Rightarrow> unit act" where
  "modifyA f = (\<lambda>w. (Inr (), f w))"

definition tickA :: "(nat \<Rightarrow> 'a act) \<Rightarrow> 'a act" where
  "tickA f = (\<lambda>w. f (as_tick w) (w\<lparr>as_tick := as_tick w + 1\<rparr>))"

definition engineA :: "(engine_world \<Rightarrow> (storage_error + 'a) \<times> engine_world) \<Rightarrow> 'a act" where
  "engineA f = (\<lambda>w. case f (as_world w) of (r, ew) \<Rightarrow> (map_err ErStorage r, w\<lparr>as_world := ew\<rparr>))"

text \<open>A transaction of the store alone; a refused one is rolled back.\<close>

definition transaction :: "(db \<Rightarrow> storage_error + db \<times> 'a) \<Rightarrow> engine_world \<Rightarrow> (storage_error + 'a) \<times> engine_world" where
  "transaction f ew = (case f (ew_db ew) of
     Inl e \<Rightarrow> (Inl e, ew) | Inr (d, x) \<Rightarrow> (Inr x, ew\<lparr>ew_db := d\<rparr>))"

definition storeA :: "(db \<Rightarrow> storage_error + db \<times> 'a) \<Rightarrow> 'a act" where
  "storeA f = engineA (transaction f)"

definition queryA :: "(db \<Rightarrow> storage_error + 'a) \<Rightarrow> 'a act" where
  "queryA f = engineA (\<lambda>ew. (f (ew_db ew), ew))"

definition othersA :: "outside \<Rightarrow> unit act" where
  "othersA X = tickA (\<lambda>n. modifyA (ou_others X n))"

subsection \<open>Error texts\<close>

fun runtime_error_text :: "engine \<Rightarrow> runtime_error \<Rightarrow> rstr" where
  "runtime_error_text E (ErStorage e) =
     lit ''session storage: '' @ storage_error_text (en_lib E) (en_sql_text E) e"
| "runtime_error_text E (ErProviderConfiguration m) = lit ''session provider configuration: '' @ m"
| "runtime_error_text E (ErProvider e) = lit ''session provider: '' @ provider_error_text e"
| "runtime_error_text E (ErHistory m) = lit ''session history: '' @ m"
| "runtime_error_text E ErInvalidState = lit ''session is not in the requested active state''"
| "runtime_error_text E ErMailboxFull = lit ''session input mailbox is full''"
| "runtime_error_text E (ErEffect m) = lit ''session effect: '' @ m"

subsection \<open>Snapshots\<close>

definition active_turn_id :: "session_snapshot \<Rightarrow> runtime_error + uuid" where
  "active_turn_id s = ok_or ErInvalidState (sn_active_turn_id s)"

definition turn_revision_of :: "session_snapshot \<Rightarrow> uuid \<Rightarrow> nat option" where
  "turn_revision_of s t = map_option sm_turn_revision (find (\<lambda>x. sm_turn_id x = t) (sn_turns s))"

definition active_turn_revision :: "session_snapshot \<Rightarrow> runtime_error + nat" where
  "active_turn_revision s =
     bindE (active_turn_id s) (\<lambda>t. ok_or ErInvalidState (turn_revision_of s t))"

text \<open>\<open>session_snapshot_v2\<close> and \<open>session_snapshot_tail_v2\<close> of the engine, with the page of the file.\<close>

definition snapshot_paged :: "engine \<Rightarrow> uuid \<Rightarrow> nat option \<Rightarrow> nat \<Rightarrow> engine_world
    \<Rightarrow> (storage_error + session_snapshot) \<times> engine_world" where
  "snapshot_paged E sid after limit w =
     (case session_snapshot (en_lib E) (ew_db w) sid after limit of
        Inl e \<Rightarrow> (Inl e, w)
      | Inr s \<Rightarrow>
          (case conversation_page (en_lib E) (en_serde E) (en_store E) (en_root E) sid after limit False
                  (ew_log w) (ew_db w) of
             (lg, d, r) \<Rightarrow>
               (bindE r (\<lambda>page. Inr (case page of None \<Rightarrow> s | Some p \<Rightarrow> s\<lparr>sn_transcript := p\<rparr>)),
                w\<lparr>ew_log := lg, ew_db := d\<rparr>)))"

definition snapshot_tail :: "engine \<Rightarrow> uuid \<Rightarrow> nat \<Rightarrow> engine_world
    \<Rightarrow> (storage_error + session_snapshot) \<times> engine_world" where
  "snapshot_tail E sid limit w =
     (case current_session_snapshot (en_lib E) (ew_db w) sid limit of
        Inl e \<Rightarrow> (Inl e, w)
      | Inr s \<Rightarrow>
          (case conversation_page (en_lib E) (en_serde E) (en_store E) (en_root E) sid None limit True
                  (ew_log w) (ew_db w) of
             (lg, d, r) \<Rightarrow>
               (bindE r (\<lambda>page. Inr (case page of None \<Rightarrow> s | Some p \<Rightarrow> s\<lparr>sn_transcript := p\<rparr>)),
                w\<lparr>ew_log := lg, ew_db := d\<rparr>)))"

text \<open>
  The pages after the first. Every page holds an entry with a later sequence, so the session's
  last sequence bounds how many there are.
\<close>

fun load_pages :: "engine \<Rightarrow> uuid \<Rightarrow> nat \<Rightarrow> session_snapshot \<Rightarrow> session_snapshot act" where
  "load_pages E sid 0 s = retA s"
| "load_pages E sid (Suc n) s =
     (if \<not> tp_has_more (sn_transcript s) then retA s
      else bindA (engineA (snapshot_paged E sid (tp_next_after (sn_transcript s)) 500)) (\<lambda>next_page.
        let page = sn_transcript next_page in
        if tp_entries page = [] then retA s
        else load_pages E sid n (s\<lparr>sn_transcript := \<lparr>tp_entries = tp_entries (sn_transcript s) @ tp_entries page,
               tp_next_after = tp_next_after page, tp_has_more = tp_has_more page\<rparr>\<rparr>)))"

definition load_full :: "agent_service \<Rightarrow> uuid \<Rightarrow> session_snapshot act" where
  "load_full S sid =
     bindA (engineA (snapshot_paged (ag_engine S) sid None 500)) (\<lambda>s.
     load_pages (ag_engine S) sid (sn_sequence s) s)"

subsection \<open>Commits\<close>

definition agent_commit :: "agent_service \<Rightarrow> outside \<Rightarrow> uuid \<Rightarrow> uuid \<Rightarrow> nat \<Rightarrow> nat \<Rightarrow> commit_update \<Rightarrow> lease
    \<Rightarrow> session_snapshot act" where
  "agent_commit S X sid t session_revision turn_revision u l = tickA (\<lambda>n.
     engineA (commit_snapshot (ag_engine S) (ou_samples X n) (ou_ids X n)
       \<lparr>rq_session_id = sid, rq_turn_id = t, rq_expected_session_revision = session_revision,
        rq_expected_turn_revision = turn_revision, rq_command_id = ou_uuid X n, rq_request_id = None,
        rq_effect_id = None, rq_update = u\<rparr> l (ou_now X n)))"

definition turn_key :: "agent_service \<Rightarrow> uuid \<Rightarrow> string \<Rightarrow> rstr" where
  "turn_key S t rest = uuid_text (ag_lib S) t @ lit rest"

definition fail_with_retryability :: "agent_service \<Rightarrow> outside \<Rightarrow> retryability \<Rightarrow> uuid \<Rightarrow> uuid \<Rightarrow> nat \<Rightarrow> nat
    \<Rightarrow> rstr \<Rightarrow> lease \<Rightarrow> session_snapshot act" where
  "fail_with_retryability S X again sid t session_revision turn_revision message l =
     agent_commit S X sid t session_revision turn_revision
       (CuFail (turn_key S t '':failure'') \<lparr>tf_code = RuntimeFailed,
          tf_message = redact (ag_lib S) message, tf_retryability = again\<rparr>) l"

abbreviation fail_turn where "fail_turn S X \<equiv> fail_with_retryability S X Terminal"
abbreviation fail_retryable where "fail_retryable S X \<equiv> fail_with_retryability S X Retryable"

subsection \<open>Leases\<close>

definition acquire_with_ttl :: "agent_service \<Rightarrow> outside \<Rightarrow> uuid \<Rightarrow> nat \<Rightarrow> lease act" where
  "acquire_with_ttl S X sid ttl = tickA (\<lambda>n.
     storeA (\<lambda>d. acquire_session_lease (ag_lib S) (ou_ids X n) d sid (ou_now X n) ttl))"

definition acquire_authority :: "agent_service \<Rightarrow> outside \<Rightarrow> uuid \<Rightarrow> lease act" where
  "acquire_authority S X sid = acquire_with_ttl S X sid (ag_lease_ttl_ms S)"

definition management_ttl :: "agent_service \<Rightarrow> nat" where
  "management_ttl S = (if ag_lease_ttl_ms S > 5000 then ag_lease_ttl_ms S else 5000)"

definition heartbeat_interval_ms :: "agent_service \<Rightarrow> nat" where
  "heartbeat_interval_ms S = max (ag_lease_ttl_ms S div 3) 1"

definition with_lease_ttl_ms :: "nat \<Rightarrow> agent_service \<Rightarrow> agent_service" where
  "with_lease_ttl_ms ttl S = S\<lparr>ag_lease_ttl_ms := max ttl 10\<rparr>"

text \<open>Dropping a guard releases its lease; the result of the release is ignored.\<close>

definition engine_release_lease :: "engine \<Rightarrow> (nat \<Rightarrow> uuid) \<Rightarrow> lease \<Rightarrow> nat \<Rightarrow> engine_world
    \<Rightarrow> (storage_error + unit) \<times> engine_world" where
  "engine_release_lease E ids l now w =
     (case release_lease (en_lib E) ids (ew_db w) l now of
        Inl e \<Rightarrow> (Inl e, w)
      | Inr (d, None) \<Rightarrow> (Inr (), w\<lparr>ew_db := d\<rparr>)
      | Inr (d, Some resp) \<Rightarrow>
          (case finish_session_response E resp (w\<lparr>ew_db := d\<rparr>) of (r, w) \<Rightarrow> (bindE r (\<lambda>_. Inr ()), w)))"

definition drop_lease :: "agent_service \<Rightarrow> outside \<Rightarrow> lease \<Rightarrow> unit act" where
  "drop_lease S X l = bindA (tryA (tickA (\<lambda>n.
     engineA (engine_release_lease (ag_engine S) (ou_ids X n) l (ou_now X n))))) (\<lambda>_. retA ())"

definition guarded :: "agent_service \<Rightarrow> outside \<Rightarrow> lease \<Rightarrow> 'a act \<Rightarrow> 'a act" where
  "guarded S X l m = bindA (tryA m) (\<lambda>r. bindA (drop_lease S X l) (\<lambda>_. liftA r))"

text \<open>Each heartbeat renews the lease; the result says whether it is still held.\<close>

fun heartbeats :: "agent_service \<Rightarrow> outside \<Rightarrow> lease \<Rightarrow> nat \<Rightarrow> bool act" where
  "heartbeats S X l 0 = bindA (othersA X) (\<lambda>_. retA True)"
| "heartbeats S X l (Suc n) =
     bindA (othersA X) (\<lambda>_.
     bindA (tryA (tickA (\<lambda>k. storeA (\<lambda>d. renew_lease d l (ou_now X k) (ag_lease_ttl_ms S))))) (\<lambda>r.
     case r of Inl _ \<Rightarrow> retA False | Inr _ \<Rightarrow> heartbeats S X l n))"

definition engine_recover_after_loss :: "engine \<Rightarrow> (nat \<Rightarrow> uuid) \<Rightarrow> uuid \<Rightarrow> uuid \<Rightarrow> lease \<Rightarrow> nat \<Rightarrow> nat
    \<Rightarrow> engine_world \<Rightarrow> (storage_error + session_lease_loss_recovery) \<times> engine_world" where
  "engine_recover_after_loss E ids sid t stale expected now w =
     (case bindE (ensure_session_lease (en_lib E) sid stale) (\<lambda>_.
           recover_session_after_lease_loss (en_lib E) ids (ew_db w) sid t stale expected now) of
        Inl e \<Rightarrow> (Inl e, w)
      | Inr (d, Recovered resp) \<Rightarrow>
          (case sync_session_conversation (en_lib E) (en_serde E) (en_store E) (en_root E)
                  (sn_session_id (rs_snapshot resp)) (ew_log w) d of
             (lg, Inl e) \<Rightarrow> (Inl e, w\<lparr>ew_log := lg, ew_db := d\<rparr>)
           | (lg, Inr d) \<Rightarrow> (Inr (Recovered resp), w\<lparr>ew_log := lg, ew_db := d\<rparr>))
      | Inr (d, x) \<Rightarrow> (Inr x, w\<lparr>ew_db := d\<rparr>))"

definition lost_text :: "string \<Rightarrow> rstr \<Rightarrow> runtime_error" where
  "lost_text phase rest = ErEffect (lit ''lease heartbeat lost during '' @ lit phase @ lit ''; '' @ rest)"

definition recover_lease_loss :: "agent_service \<Rightarrow> outside \<Rightarrow> session_snapshot \<Rightarrow> lease \<Rightarrow> string
    \<Rightarrow> runtime_error act" where
  "recover_lease_loss S X s l phase =
     (case sn_active_turn_id s of
        None \<Rightarrow> retA (lost_text phase (lit ''active linked turn is unavailable''))
      | Some t \<Rightarrow>
     (case turn_revision_of s t of
        None \<Rightarrow> retA (lost_text phase (lit ''active linked turn revision is unavailable''))
      | Some revision \<Rightarrow>
          bindA (tryA (tickA (\<lambda>n. engineA (engine_recover_after_loss (ag_engine S) (ou_ids X n)
            (sn_session_id s) t l revision (ou_now X n))))) (\<lambda>r.
          retA (lost_text phase (case r of
             Inr (Recovered _) \<Rightarrow> lit ''linked turn requires reconciliation''
           | Inr FencedNoop \<Rightarrow> lit ''newer owner fenced stale recovery''
           | Inr (AlreadyTerminal _) \<Rightarrow> lit ''linked turn already terminal''
           | Inl (ErStorage e) \<Rightarrow> lit ''recovery failed: ''
               @ storage_error_text (ag_lib S) (en_sql_text (ag_engine S)) e
           | Inl e \<Rightarrow> lit ''recovery failed: '' @ runtime_error_text (ag_engine S) e)))))"

text \<open>
  Waiting for something outside with the lease held: heartbeats renew it, and a lost lease
  ends the wait with the recovery of the turn.
\<close>

definition await_holding :: "agent_service \<Rightarrow> outside \<Rightarrow> session_snapshot \<Rightarrow> lease \<Rightarrow> string \<Rightarrow> unit act" where
  "await_holding S X s l phase =
     bindA (modifyA (\<lambda>w. w\<lparr>as_active := insert (sn_session_id s) (as_active w)\<rparr>)) (\<lambda>_.
     bindA (tickA (\<lambda>n. heartbeats S X l (ou_beats X n))) (\<lambda>kept.
     bindA (modifyA (\<lambda>w. w\<lparr>as_active := as_active w - {sn_session_id s}\<rparr>)) (\<lambda>_.
     if kept then retA ()
     else bindA (recover_lease_loss S X s l phase) errA)))"

subsection \<open>The provider\<close>

definition session_ref_for :: "agent_service \<Rightarrow> uuid \<Rightarrow> rstr" where
  "session_ref_for S sid = take 32 (ag_session_sha S sid)"

definition process_descriptor :: tool_descriptor where
  "process_descriptor = \<lparr>td_name = lit ''process'', td_description = tool_description (lit ''process''),
     td_input_schema = tool_schema (lit ''process''), td_version = 1, td_effect = lit ''process''\<rparr>"

text \<open>\<open>EngineHandle::tool_descriptors\<close>, ordered by name.\<close>

definition engine_tool_descriptors :: "engine \<Rightarrow> tool_descriptor list" where
  "engine_tool_descriptors E =
     (let tools = map descriptor (tr_tools (en_tools E))
      in if en_supervision E then sort_tools (tools @ [process_descriptor]) else tools)"

definition resolved_profile :: "agent_service \<Rightarrow> session_provider_binding \<Rightarrow> runtime_error + harness_profile" where
  "resolved_profile S b =
     map_err (\<lambda>e. ErProviderConfiguration (profile_error_text e)) (Headless_Profile.resolve (ag_catalog S) b)"

definition summary_request :: "agent_service \<Rightarrow> session_snapshot \<Rightarrow> rstr \<Rightarrow> (provider \<times> provider_request) option" where
  "summary_request S s source =
     (case resolved_profile S (sn_binding s) of Inl _ \<Rightarrow> None | Inr h \<Rightarrow>
     (case summarize_prompt h of Inl _ \<Rightarrow> None | Inr instructions \<Rightarrow>
     (case ag_provider S (sn_binding s) of Inl _ \<Rightarrow> None | Inr p \<Rightarrow>
        Some (p, \<lparr>rq_messages = [System instructions, User source], rq_tools = [],
                rq_session_ref = session_ref_for S (sn_session_id s)\<rparr>))))"

definition answer_summary :: "lib \<Rightarrow> provider_error + provider_response \<Rightarrow> rstr option" where
  "answer_summary L answer = (case answer of
     Inl _ \<Rightarrow> None
   | Inr response \<Rightarrow>
       (case pr_message response of
          None \<Rightarrow> None
        | Some m \<Rightarrow> if trim m = [] then None else Some (redact L (trim m))))"

text \<open>With a lease the wait renews it; before a turn is acquired there is none.\<close>

definition summarize_history :: "agent_service \<Rightarrow> outside \<Rightarrow> session_snapshot \<Rightarrow> rstr \<Rightarrow> lease \<Rightarrow> rstr option act" where
  "summarize_history S X s source l =
     (case summary_request S s source of
        None \<Rightarrow> retA None
      | Some (p, q) \<Rightarrow> tickA (\<lambda>n.
          bindA (await_holding S X s l ''context summarization'') (\<lambda>_.
          retA (answer_summary (ag_lib S) (p n q)))))"

definition summarize_unleased :: "agent_service \<Rightarrow> session_snapshot \<Rightarrow> nat \<Rightarrow> summarizer" where
  "summarize_unleased S s n source =
     Inr (case summary_request S s source of
        None \<Rightarrow> None
      | Some (p, q) \<Rightarrow> answer_summary (ag_lib S) (p n q))"

end
