(* ===== verification/Agent_Turn.thy ===== *)
theory Agent_Turn
  imports Agent_Runtime
begin

text \<open>
  One turn of the agent, \<open>latte-headless/src/session.rs\<close>: the calls of a tool batch through
  their effects, verification before completion, compaction between two requests, and the
  loop around the provider. A turn without a bound on its rounds may run for ever, so the
  loop takes the number of requests it may issue; \<open>None\<close> means that this number was spent.
\<close>

subsection \<open>Reading the transcript\<close>

definition call_position :: "rstr \<Rightarrow> tool_call list \<Rightarrow> nat option" where
  "call_position i calls = find (\<lambda>n. tc_id (calls ! n) = i) [0..<length calls]"

definition round_in_entry :: "rstr \<Rightarrow> transcript_entry \<Rightarrow> (nat \<times> tool_call list \<times> nat) option" where
  "round_in_entry i entry =
     Option.bind (te_payload entry) (\<lambda>payload.
     Option.bind (json_get (lit ''tool_calls'') payload) (\<lambda>v.
     Option.bind (tool_calls_of_json v) (\<lambda>calls.
     Option.bind (call_position i calls) (\<lambda>ordinal. Some (te_sequence entry, calls, ordinal)))))"

fun first_some :: "('a \<Rightarrow> 'b option) \<Rightarrow> 'a list \<Rightarrow> 'b option" where
  "first_some f [] = None"
| "first_some f (x # xs) = (case f x of None \<Rightarrow> first_some f xs | Some y \<Rightarrow> Some y)"

definition tool_round_for_call :: "session_snapshot \<Rightarrow> rstr \<Rightarrow> runtime_error + nat \<times> tool_call list \<times> nat" where
  "tool_round_for_call s i =
     ok_or (ErEffect (lit ''prepared tool call has no durable provider round continuation''))
       (first_some (round_in_entry i)
         (filter (\<lambda>e. te_kind e = TkAssistant) (rev (tp_entries (sn_transcript s)))))"

definition answers_call :: "rstr \<Rightarrow> transcript_entry \<Rightarrow> bool" where
  "answers_call i e \<longleftrightarrow> te_kind e = TkToolResult \<and>
     Option.bind (te_payload e) (\<lambda>p. Option.bind (json_get (lit ''tool_call_id'') p) json_as_str) = Some i"

definition effect_provider_result :: "session_snapshot \<Rightarrow> rstr \<Rightarrow> rstr option" where
  "effect_provider_result s i =
     Option.bind (find (answers_call i) (rev (tp_entries (sn_transcript s)))) (\<lambda>e.
     Option.bind (te_payload e) (\<lambda>p.
     Option.bind (json_get (lit ''provider_content'') p) json_as_str))"

subsection \<open>Effects\<close>

definition effect_request_of :: "session_snapshot \<Rightarrow> rstr \<Rightarrow> uuid \<Rightarrow> runtime_error + effect_request" where
  "effect_request_of s key command =
     bindE (active_turn_id s) (\<lambda>t.
     bindE (active_turn_revision s) (\<lambda>revision.
     Inr \<lparr>xr_session_id = sn_session_id s, xr_turn_id = t, xr_expected_session_revision = sn_revision s,
       xr_expected_turn_revision = revision, xr_command_id = command, xr_source_key = key\<rparr>))"

definition prepare_effect :: "agent_service \<Rightarrow> outside \<Rightarrow> session_snapshot \<Rightarrow> session_effect_descriptor \<Rightarrow> rstr
    \<Rightarrow> lease \<Rightarrow> effect_prepared act" where
  "prepare_effect S X s d key l = tickA (\<lambda>n.
     bindA (liftA (effect_request_of s key (ou_uuid X n))) (\<lambda>q.
     engineA (prepare_session_effect (ag_engine S) (ou_samples X n) (ou_ids X n) q d l (ou_now X n))))"

definition start_effect :: "agent_service \<Rightarrow> outside \<Rightarrow> session_snapshot \<Rightarrow> rstr \<Rightarrow> rstr \<Rightarrow> rstr \<Rightarrow> lease
    \<Rightarrow> effect_started act" where
  "start_effect S X s eid digest key l = tickA (\<lambda>n.
     bindA (liftA (effect_request_of s key (ou_uuid X n))) (\<lambda>q.
     engineA (start_session_effect (ag_engine S) (ou_samples X n) (ou_ids X n) q eid digest l (ou_now X n))))"

definition effect_key :: "agent_service \<Rightarrow> effect_started \<Rightarrow> string \<Rightarrow> runtime_error + rstr" where
  "effect_key S st what =
     bindE (active_turn_id (es_snapshot st)) (\<lambda>t.
     Inr (turn_key S t '':effect:'' @ en_effect_id (es_presentation st) @ lit what))"

definition observe_effect :: "agent_service \<Rightarrow> outside \<Rightarrow> effect_started \<Rightarrow> string \<Rightarrow> observed_value \<Rightarrow> lease
    \<Rightarrow> session_snapshot act" where
  "observe_effect S X st what v l = tickA (\<lambda>n.
     bindA (liftA (effect_key S st what)) (\<lambda>key.
     bindA (engineA (observe_session_effect (ag_engine S) (ou_samples X n) (ou_ids X n) st key (ou_uuid X n) v l
       (ou_now X n))) (\<lambda>(s, _, _). retA s)))"

definition mark_unknown :: "agent_service \<Rightarrow> outside \<Rightarrow> effect_started \<Rightarrow> string \<Rightarrow> lease
    \<Rightarrow> session_snapshot act" where
  "mark_unknown S X st what l = tickA (\<lambda>n.
     bindA (liftA (effect_key S st what)) (\<lambda>key.
     engineA (mark_session_effect_unknown (ag_engine S) (ou_samples X n) (ou_ids X n) st key (ou_uuid X n) l
       (ou_now X n))))"

definition json_insert :: "string \<Rightarrow> json \<Rightarrow> json \<Rightarrow> json" where
  "json_insert k v j = (case j of JObj kvs \<Rightarrow> JObj (obj_insert (lit k) v kvs) | _ \<Rightarrow> j)"

definition observed_payload :: "effect_started \<Rightarrow> observed_value \<Rightarrow> json" where
  "observed_payload st v =
     json_insert ''name'' (JStr (en_name (es_presentation st)))
     (json_insert ''tool_call_id'' (JStr (en_tool_call_id (es_presentation st)))
     (json_insert ''provider_content'' (JStr (ov_result v))
       (case ov_payload v of None \<Rightarrow> JObj [] | Some p \<Rightarrow> p)))"

definition certified_value :: "lib \<Rightarrow> effect_started \<Rightarrow> rstr \<Rightarrow> observed_value" where
  "certified_value L st e =
     \<lparr>ov_result = json_text L (json_obj [(lit ''error'', JStr e)]),
      ov_payload = Some (json_obj [(lit ''tool_call_id'', JStr (en_tool_call_id (es_presentation st))),
        (lit ''name'', JStr (en_name (es_presentation st))), (lit ''error'', JStr e)]),
      ov_success = False\<rparr>"

definition run_effect :: "agent_service \<Rightarrow> run_conditions \<Rightarrow> effect_started \<Rightarrow> lease
    \<Rightarrow> (execution_error + observed_value) act" where
  "run_effect S C st l = engineA (\<lambda>ew.
     case execute_started_session_effect (ag_engine S) C st l (ew_tools ew) of
       (r, tw) \<Rightarrow> (Inr r, ew\<lparr>ew_tools := tw\<rparr>))"

definition execute_and_observe_effect :: "agent_service \<Rightarrow> outside \<Rightarrow> effect_started \<Rightarrow> lease
    \<Rightarrow> session_snapshot act" where
  "execute_and_observe_effect S X st l = tickA (\<lambda>n.
     bindA (run_effect S (ou_run X n) st l) (\<lambda>execution.
     bindA (await_holding S X (es_snapshot st) l ''started effect'') (\<lambda>_.
     if ou_cancelled X n then mark_unknown S X st '':cancelled-after-start'' l
     else case execution of
       Inr v \<Rightarrow> observe_effect S X st '':observe'' (v\<lparr>ov_payload := Some (observed_payload st v)\<rparr>) l
     | Inl (Certified e) \<Rightarrow> observe_effect S X st '':observe-failed'' (certified_value (ag_lib S) st e) l
     | Inl (Uncertain e) \<Rightarrow> mark_unknown S X st '':unknown'' l)))"

subsection \<open>A batch of tool calls\<close>

datatype batch_outcome =
    BatchCompleted session_snapshot "message list"
  | BatchParked session_snapshot

definition call_descriptor :: "agent_service \<Rightarrow> uuid \<Rightarrow> nat \<Rightarrow> nat \<Rightarrow> tool_call \<Rightarrow> session_effect_descriptor" where
  "call_descriptor S t round_sequence ordinal call = \<lparr>
     sd_effect_id = lit ''session-effect:'' @ uuid_text (ag_lib S) t @ lit '':'' @ nat_text round_sequence @
       lit '':'' @ nat_text ordinal @ lit '':'' @ tc_id call,
     sd_tool_call_id = tc_id call, sd_name = tc_name call, sd_input = tc_input call, sd_attempt = 1\<rparr>"

definition call_key :: "agent_service \<Rightarrow> uuid \<Rightarrow> tool_call \<Rightarrow> nat \<Rightarrow> string \<Rightarrow> rstr" where
  "call_key S t call ordinal what =
     turn_key S t '':effect:'' @ tc_id call @ lit '':'' @ nat_text ordinal @ lit what"

text \<open>One call: parked when it asks for permission or leaves the running lifecycle.\<close>

definition execute_call :: "agent_service \<Rightarrow> outside \<Rightarrow> uuid \<Rightarrow> nat \<Rightarrow> lease \<Rightarrow> session_snapshot \<Rightarrow> nat \<times> tool_call
    \<Rightarrow> (session_snapshot + session_snapshot \<times> message) act" where
  "execute_call S X t round_sequence l current = (\<lambda>(ordinal, call).
     let d = call_descriptor S t round_sequence ordinal call in
     bindA (prepare_effect S X current d (call_key S t call ordinal '':prepare'') l) (\<lambda>prepared.
     if ep_policy prepared = PolicyAsk then retA (Inl (ep_snapshot prepared))
     else
     bindA (start_effect S X (ep_snapshot prepared) (sd_effect_id d) (ep_operation_digest prepared)
       (call_key S t call ordinal '':start'') l) (\<lambda>st.
     bindA (execute_and_observe_effect S X st l) (\<lambda>after.
     if sn_lifecycle after \<noteq> LcRunning then retA (Inl after)
     else
     bindA (liftA (ok_or (ErEffect (lit ''missing observed tool result''))
       (effect_provider_result after (tc_id call)))) (\<lambda>result.
     retA (Inr (after, Tool (tc_id call) (Some (tc_name call)) result)))))))"

fun execute_calls :: "agent_service \<Rightarrow> outside \<Rightarrow> uuid \<Rightarrow> nat \<Rightarrow> lease \<Rightarrow> (nat \<times> tool_call) list
    \<Rightarrow> session_snapshot \<Rightarrow> message list \<Rightarrow> batch_outcome act" where
  "execute_calls S X t round_sequence l [] current messages = retA (BatchCompleted current messages)"
| "execute_calls S X t round_sequence l (c # cs) current messages =
     bindA (execute_call S X t round_sequence l current c) (\<lambda>r.
     case r of
       Inl parked \<Rightarrow> retA (BatchParked parked)
     | Inr (current, m) \<Rightarrow> execute_calls S X t round_sequence l cs current (messages @ [m]))"

definition execute_tool_batch :: "agent_service \<Rightarrow> outside \<Rightarrow> session_snapshot \<Rightarrow> message list \<Rightarrow> tool_call list
    \<Rightarrow> nat \<Rightarrow> nat \<Rightarrow> lease \<Rightarrow> batch_outcome act" where
  "execute_tool_batch S X current messages calls start_ordinal round_sequence l =
     bindA (liftA (active_turn_id current)) (\<lambda>t.
     execute_calls S X t round_sequence l (drop start_ordinal (enumerate 0 calls)) current messages)"

definition calls_malformed :: "engine \<Rightarrow> tool_call list \<Rightarrow> bool" where
  "calls_malformed E calls \<longleftrightarrow>
     \<not> fresh_ids {} calls
     \<or> list_ex (\<lambda>c. tc_name c \<notin> td_name ` set (engine_tool_descriptors E) \<or> \<not> is_object (tc_input c)) calls"

definition handle_provider_tool_round :: "agent_service \<Rightarrow> outside \<Rightarrow> session_snapshot \<Rightarrow> message list
    \<Rightarrow> provider_response \<Rightarrow> lease \<Rightarrow> batch_outcome act" where
  "handle_provider_tool_round S X s messages response l =
     bindA (liftA (active_turn_id s)) (\<lambda>t.
     bindA (liftA (active_turn_revision s)) (\<lambda>turn_revision.
     let calls = pr_tool_calls response in
     if calls_malformed (ag_engine S) calls
     then bindA (fail_turn S X (sn_session_id s) t (sn_revision s) turn_revision
            (lit (''provider tool call ids must match [A-Za-z0-9_-]{1,256}, '' @
               ''be unique, known, and object-shaped'')) l) (\<lambda>failed. retA (BatchParked failed))
     else
     bindA (agent_commit S X (sn_session_id s) t (sn_revision s) turn_revision
       (CuAppendTranscript (turn_key S t '':assistant-tool-round:'' @ tc_id (hd calls)) TkAssistant
          (case pr_message response of None \<Rightarrow> [] | Some m \<Rightarrow> m)
          (Some (json_obj [(lit ''tool_calls'', JArr (map tool_call_json calls))]))) l) (\<lambda>current.
     execute_tool_batch S X current (messages @ [Assistant (pr_message response) calls]) calls 0
       (sn_sequence current) l)))"

subsection \<open>Verification before completion\<close>

definition verification_descriptor :: "agent_service \<Rightarrow> session_snapshot \<Rightarrow> rstr
    \<Rightarrow> runtime_error + session_effect_descriptor" where
  "verification_descriptor S s summary =
     bindE (ok_or (ErEffect (lit ''workspace changed but no configured verification plan is available''))
       (ag_verification S)) (\<lambda>plan.
     if vp_argv plan = [] then Inl (ErEffect (lit ''configured verification argv is empty''))
     else
     bindE (active_turn_id s) (\<lambda>t.
     Inr \<lparr>sd_effect_id = SESSION_VERIFICATION_EFFECT_PREFIX @ uuid_text (ag_lib S) t,
       sd_tool_call_id = lit ''verification-'' @ uuid_text (ag_lib S) t, sd_name = lit ''process'',
       sd_input = json_obj
         [(lit ''argv'', JArr (map JStr (vp_argv plan))), (lit ''cwd'', JStr (vp_cwd plan)),
          (lit ''env'', JObj []), (lit ''timeout_ms'', js_nat (vp_timeout_ms plan)),
          (lit ''grace_ms'', js_nat (vp_grace_ms plan)), (lit ''stdout_cap'', js_nat (vp_stdout_cap plan)),
          (lit ''stderr_cap'', js_nat (vp_stderr_cap plan)),
          (lit ''completion_summary'', JStr (redact (ag_lib S) summary))],
       sd_attempt = 1\<rparr>))"

definition finish_verification :: "agent_service \<Rightarrow> outside \<Rightarrow> session_snapshot \<Rightarrow> effect_presentation \<Rightarrow> lease
    \<Rightarrow> session_snapshot act" where
  "finish_verification S X s p l =
     bindA (liftA (active_turn_id s)) (\<lambda>t.
     bindA (liftA (active_turn_revision s)) (\<lambda>turn_revision.
     bindA (liftA (ok_or (ErEffect (lit ''verification observation is missing''))
       (effect_provider_result s (en_tool_call_id p)))) (\<lambda>raw.
     bindA (liftA (ok_or (ErEffect (lit ''verification observation is not a process result''))
       (ag_process_parse S raw))) (\<lambda>out.
     bindA (tickA (\<lambda>n. storeA (\<lambda>d. bindE (record_session_verification (ag_engine S) (ou_samples X n) t
       turn_revision (en_effect_id p) out l (ou_now X n) d) (\<lambda>d. Inr (d, ()))))) (\<lambda>_.
     if \<not> command_succeeded out
     then fail_turn S X (sn_session_id s) t (sn_revision s) turn_revision
            (lit ''configured verification failed; evidence was recorded'') l
     else
     bindA (liftA (ok_or (ErEffect (lit ''verification completion summary is missing''))
       (Option.bind (json_get (lit ''completion_summary'') (en_input p)) json_as_str))) (\<lambda>summary.
     tickA (\<lambda>n. engineA (complete_session_verified (ag_engine S) (ou_samples X n) (ou_ids X n) (ou_uuid X n)
       s summary (en_effect_id p) l (ou_now X n)))))))))"

definition begin_verification :: "agent_service \<Rightarrow> outside \<Rightarrow> session_snapshot \<Rightarrow> rstr \<Rightarrow> lease
    \<Rightarrow> session_snapshot act" where
  "begin_verification S X s summary l =
     bindA (liftA (active_turn_id s)) (\<lambda>t.
     bindA (liftA (verification_descriptor S s summary)) (\<lambda>d.
     bindA (prepare_effect S X s d (turn_key S t '':verification:prepare'') l) (\<lambda>prepared.
     if ep_policy prepared = PolicyAsk then retA (ep_snapshot prepared)
     else
     bindA (start_effect S X (ep_snapshot prepared) (sd_effect_id d) (ep_operation_digest prepared)
       (turn_key S t '':verification:start'') l) (\<lambda>st.
     bindA (execute_and_observe_effect S X st l) (\<lambda>observed.
     if sn_lifecycle observed \<noteq> LcRunning then retA observed
     else finish_verification S X observed (es_presentation st) l)))))"

subsection \<open>Compaction between two requests\<close>

record mid_turn =
  mt_snapshot :: session_snapshot
  mt_messages :: "message list"
  mt_forced :: bool
  mt_profile :: harness_profile
  mt_system :: message
  mt_budget :: nat
  mt_turn :: uuid
  mt_turn_revision :: nat
  mt_round :: nat
  mt_boundary :: nat
  mt_reactive :: bool
  mt_volatile :: volatile_turn_context

type_synonym rebased = "session_snapshot \<times> message list"

definition mt_append :: "agent_service \<Rightarrow> outside \<Rightarrow> mid_turn \<Rightarrow> rstr \<Rightarrow> transcript_kind \<Rightarrow> rstr \<Rightarrow> json option
    \<Rightarrow> lease \<Rightarrow> session_snapshot act" where
  "mt_append S X M key kind text payload l =
     agent_commit S X (sn_session_id (mt_snapshot M)) (mt_turn M) (sn_revision (mt_snapshot M))
       (mt_turn_revision M) (CuAppendTranscript key kind text payload) l"

text \<open>A rebuilt request is taken when it is within the budget and, when forced, strictly smaller.\<close>

definition shrink_confirmed :: "agent_service \<Rightarrow> mid_turn \<Rightarrow> message list \<Rightarrow> runtime_error + bool" where
  "shrink_confirmed S M messages =
     (let fits = is_ok (enforce_budget (ag_wire S) messages (profile_history_policy (mt_profile M))) in
      if mt_forced M then
        bindE (wire_bytes (ag_wire S) messages) (\<lambda>new.
        bindE (wire_bytes (ag_wire S) (mt_messages M)) (\<lambda>old. Inr (new < old \<and> fits)))
      else Inr fits)"

definition mt_request :: "mid_turn \<Rightarrow> rstr option \<Rightarrow> history_segment list \<Rightarrow> message list" where
  "mt_request M summary segments =
     assemble_mid_turn_request (mt_system M) summary segments (mt_turn M) (mt_volatile M)"

definition mid_turn_summarize :: "agent_service \<Rightarrow> outside \<Rightarrow> mid_turn \<Rightarrow> history_segment list \<Rightarrow> lease
    \<Rightarrow> rebased act" where
  "mid_turn_summarize S X M segments l =
     (let s = mt_snapshot M; sid = sn_session_id s; unchanged = retA (s, mt_messages M);
          failed = bindA (modifyA (\<lambda>w. w\<lparr>as_failures := note_compaction_failure sid (as_failures w)\<rparr>)) (\<lambda>_.
            bindA (mt_append S X M (turn_key S (mt_turn M) '':compact-summary-failed:round'') TkSystem
              (lit ''context compaction failed; continuing without a summary'') None l) (\<lambda>audited.
            retA (audited, mt_messages M)))
      in case compaction_source segments (mt_boundary M) (profile_compaction (mt_profile M)) of
        (None, _) \<Rightarrow> unchanged
      | (Some retain_from, source) \<Rightarrow>
          bindA (readA (\<lambda>w. compaction_breaker_tripped (as_failures w) sid)) (\<lambda>tripped.
          if mt_forced M \<and> tripped then unchanged
          else
          bindA (summarize_history S X s source l) (\<lambda>outcome.
          case outcome of
            None \<Rightarrow> if mt_forced M then unchanged else failed
          | Some summary \<Rightarrow>
              let messages = mt_request M (Some summary) (drop (mt_boundary M) segments) in
              bindA (liftA (shrink_confirmed S M messages)) (\<lambda>ok.
              if \<not> ok then (if mt_forced M then unchanged else failed)
              else
              bindA (mt_append S X M (turn_key S (mt_turn M) '':compact-summary:round:'' @ nat_text (mt_round M))
                TkCompactSummary summary (Some (json_obj
                  [(lit ''superseded_through_sequence'',
                      js_nat (through_sequence (take (mt_boundary M) segments))),
                   (lit ''retain_from_sequence'', js_nat retain_from)])) l) (\<lambda>post.
              bindA (modifyA (\<lambda>w. w\<lparr>as_failures := note_compaction_success sid (as_failures w)\<rparr>)) (\<lambda>_.
              retA (post, messages)))))))"

definition mid_turn_elision_cures :: "agent_service \<Rightarrow> mid_turn \<Rightarrow> history_segment list \<Rightarrow> runtime_error + bool" where
  "mid_turn_elision_cures S M elided =
     (if mt_forced M then Inr True
      else if mt_reactive M then
        bindE (fit_request (ag_wire S) (mt_system M) (request_entries elided (mt_volatile M) []) (mt_budget M))
          (\<lambda>fit. Inr (fs_history_kept fit = length elided))
      else
        bindE (wire_bytes (ag_wire S) (mt_request M None elided)) (\<lambda>used.
        Inr (\<not> compaction_due (mt_profile M) used 0)))"

text \<open>The elision tier: the rebuilt request once it was persisted, and the segments for the next tier.\<close>

definition mid_turn_elide :: "agent_service \<Rightarrow> outside \<Rightarrow> mid_turn \<Rightarrow> history_segment list \<Rightarrow> nat list \<Rightarrow> lease
    \<Rightarrow> rebased option act" where
  "mid_turn_elide S X M elided sequences l =
     (if sequences = [] then retA None
      else
      bindA (liftA (mid_turn_elision_cures S M elided)) (\<lambda>cured.
      if \<not> cured then retA None
      else
      let messages = mt_request M None elided in
      bindA (liftA (shrink_confirmed S M messages)) (\<lambda>ok.
      if \<not> ok then retA None
      else
      bindA (mt_append S X M (turn_key S (mt_turn M) '':tool-result-elision:round:'' @ nat_text (mt_round M))
        TkToolResultElision (elision_audit_text sequences)
        (Some (json_obj [(lit ''tool_result_sequences'', JArr (map js_nat sequences))])) l) (\<lambda>post.
      retA (Some (post, messages))))))"

definition mid_turn_compact :: "agent_service \<Rightarrow> outside \<Rightarrow> mid_turn \<Rightarrow> history_segment list \<Rightarrow> lease
    \<Rightarrow> rebased act" where
  "mid_turn_compact S X M segments l =
     (if cp_strategy (profile_compaction (mt_profile M)) \<noteq> ElideToolResultsThenSummarize
      then mid_turn_summarize S X M segments l
      else case elide_prefix (ag_lib S) segments (mt_boundary M) of (elided, sequences) \<Rightarrow>
        bindA (mid_turn_elide S X M elided sequences l) (\<lambda>r.
        case r of Some done_with \<Rightarrow> retA done_with | None \<Rightarrow> mid_turn_summarize S X M elided l))"

text \<open>The prefix to shrink: what the fit discards, else the boundary of the retained suffix when it is due.\<close>

definition mid_turn_boundary :: "agent_service \<Rightarrow> harness_profile \<Rightarrow> history_segment list \<Rightarrow> nat \<Rightarrow> bool \<Rightarrow> fit_selection
    \<Rightarrow> runtime_error + nat option" where
  "mid_turn_boundary S h segments budget forced fit =
     (let discarded = length segments - fs_history_kept fit in
      bindE (wire_bytes (ag_wire S) (fs_messages fit)) (\<lambda>used.
      if \<not> (forced \<or> discarded > 0 \<or> compaction_due h used discarded) then Inr None
      else if discarded > 0 then Inr (Some discarded)
      else proactive_retain_boundary (ag_wire S) segments budget (cp_retain_ratio (profile_compaction h)) 0))"

definition maybe_compact_mid_turn :: "agent_service \<Rightarrow> outside \<Rightarrow> session_snapshot \<Rightarrow> message list \<Rightarrow> lease \<Rightarrow> bool
    \<Rightarrow> volatile_turn_context \<Rightarrow> rebased act" where
  "maybe_compact_mid_turn S X s messages l forced volatile =
     bindA (liftA (resolved_profile S (sn_binding s))) (\<lambda>h.
     bindA (readA (\<lambda>w. compaction_breaker_tripped (as_failures w) (sn_session_id s))) (\<lambda>tripped.
     if cp_strategy (profile_compaction h) = CsOff \<or> \<not> forced \<and> tripped then retA (s, messages)
     else
     bindA (liftA (build_system_head (ag_lib S) h)) (\<lambda>system.
     bindA (liftA (history_budget (profile_history_policy h))) (\<lambda>budget.
     bindA (liftA (active_turn_id s)) (\<lambda>t.
     let segments = scan_history_segments s in
     if segments = [] then retA (s, messages)
     else
     bindA (liftA (fit_request (ag_wire S) system (request_entries segments volatile []) budget)) (\<lambda>fit.
     bindA (liftA (mid_turn_boundary S h segments budget forced fit)) (\<lambda>cut.
     case cut of
       None \<Rightarrow> retA (s, messages)
     | Some boundary \<Rightarrow>
         bindA (liftA (active_turn_revision s)) (\<lambda>turn_revision.
         bindA (queryA (\<lambda>d. tool_round_count_for_turn d t)) (\<lambda>rounds.
         mid_turn_compact S X \<lparr>mt_snapshot = s, mt_messages = messages, mt_forced = forced, mt_profile = h,
           mt_system = system, mt_budget = budget, mt_turn = t, mt_turn_revision = turn_revision,
           mt_round = rounds, mt_boundary = boundary, mt_reactive = (fs_history_kept fit < length segments),
           mt_volatile = volatile_filtered (fs_repository_kept fit) (fs_reminder_kept fit) volatile\<rparr>
           segments l)))))))))"

subsection \<open>One request and its answer\<close>

datatype round_flow =
    FlowContinue session_snapshot "message list"
  | FlowRecovered session_snapshot "message list"
  | FlowDone session_snapshot

text \<open>What one step knows of its turn.\<close>

record turn_step_env =
  te_snapshot :: session_snapshot
  te_messages :: "message list"
  te_volatile :: volatile_turn_context
  te_turn :: uuid
  te_turn_revision :: nat
  te_max_rounds :: "nat option"
  te_round :: nat
  te_retried :: bool

definition done_with :: "session_snapshot act \<Rightarrow> round_flow act" where
  "done_with m = bindA m (\<lambda>s. retA (FlowDone s))"

text \<open>The commits of a step: at the revisions of its snapshot, or after one card was appended.\<close>

definition step_commit :: "agent_service \<Rightarrow> outside \<Rightarrow> turn_step_env \<Rightarrow> commit_update \<Rightarrow> lease
    \<Rightarrow> session_snapshot act" where
  "step_commit S X V u l =
     agent_commit S X (sn_session_id (te_snapshot V)) (te_turn V) (sn_revision (te_snapshot V))
       (te_turn_revision V) u l"

definition step_fail :: "agent_service \<Rightarrow> outside \<Rightarrow> turn_step_env \<Rightarrow> retryability \<Rightarrow> nat \<Rightarrow> rstr \<Rightarrow> lease
    \<Rightarrow> session_snapshot act" where
  "step_fail S X V again revision message l =
     fail_with_retryability S X again (sn_session_id (te_snapshot V)) (te_turn V) revision
       (te_turn_revision V) message l"

definition recover_overflow :: "agent_service \<Rightarrow> outside \<Rightarrow> turn_step_env \<Rightarrow> lease \<Rightarrow> round_flow act" where
  "recover_overflow S X V l =
     bindA (maybe_compact_mid_turn S X (te_snapshot V) (te_messages V) l True (te_volatile V)) (\<lambda>(rebased, rebuilt).
     if sn_revision rebased = sn_revision (te_snapshot V)
     then done_with (step_fail S X V Retryable (sn_revision (te_snapshot V))
       (lit (''provider rejected the request as over its context window '' @
             ''and no older history could be shrunk'')) l)
     else retA (FlowRecovered rebased rebuilt))"

definition is_credential_refusal :: "provider_error \<Rightarrow> bool" where
  "is_credential_refusal e = (case e of Http status _ _ \<Rightarrow> status = 401 \<or> status = 403 | _ \<Rightarrow> False)"

definition provider_failed :: "agent_service \<Rightarrow> outside \<Rightarrow> turn_step_env \<Rightarrow> provider_error \<Rightarrow> lease
    \<Rightarrow> round_flow act" where
  "provider_failed S X V e l =
     done_with (step_fail S X V (if is_credential_refusal e then Terminal else Retryable)
       (sn_revision (te_snapshot V)) (lit ''provider: '' @ provider_error_text e) l)"

definition visible_message :: "provider_response \<Rightarrow> rstr option" where
  "visible_message r = (case pr_message r of None \<Rightarrow> None | Some m \<Rightarrow> if trim m = [] then None else Some m)"

definition is_cut :: "provider_response \<Rightarrow> bool" where
  "is_cut r \<longleftrightarrow> pr_finish_reason r \<in> {Some FrLength, Some FrContentFilter}"

text \<open>A response that was cut or filtered: its text is kept, its calls are not.\<close>

definition refuse_cut :: "agent_service \<Rightarrow> outside \<Rightarrow> turn_step_env \<Rightarrow> provider_response \<Rightarrow> lease
    \<Rightarrow> round_flow act" where
  "refuse_cut S X V r l =
     (let at_length = (pr_finish_reason r = Some FrLength);
          source = (if at_length then '':assistant-truncated'' else '':assistant-filtered'');
          payload = json_obj [if at_length then (lit ''truncated'', JStr (lit ''length''))
                              else (lit ''filtered'', JStr (lit ''content_filter''))];
          reason = (if at_length
            then lit ''provider stopped at its output limit before completing the response''
            else lit ''provider blocked the response before it completed: content was filtered'')
      in case visible_message r of
           Some m \<Rightarrow>
             bindA (step_commit S X V
               (CuAppendTranscript (turn_key S (te_turn V) source) TkAssistant m (Some payload)) l) (\<lambda>appended.
             done_with (step_fail S X V Retryable (sn_revision appended) reason l))
         | None \<Rightarrow> done_with (step_fail S X V Retryable (sn_revision (te_snapshot V)) reason l))"

definition ask_input :: "agent_service \<Rightarrow> outside \<Rightarrow> turn_step_env \<Rightarrow> input_request \<Rightarrow> lease
    \<Rightarrow> round_flow act" where
  "ask_input S X V i l =
     done_with
      (if ir_secret i \<or> \<not> valid_openai_chat_opaque_id (ir_id i) \<or> trim (ir_prompt i) = []
       then step_fail S X V Terminal (sn_revision (te_snapshot V))
              (lit ''provider requested unsupported secret or invalid input'') l
       else step_commit S X V (CuRequestInput (turn_key S (te_turn V) '':input-request:'' @ ir_id i)
              \<lparr>pi_request_id = ir_id i, pi_prompt = ir_prompt i\<rparr>) l)"

definition rounds_spent :: "turn_step_env \<Rightarrow> bool" where
  "rounds_spent V = (case te_max_rounds V of None \<Rightarrow> False | Some max_rounds \<Rightarrow> max_rounds \<le> te_round V)"

definition run_tools :: "agent_service \<Rightarrow> outside \<Rightarrow> turn_step_env \<Rightarrow> provider_response \<Rightarrow> lease
    \<Rightarrow> round_flow act" where
  "run_tools S X V r l =
     (if rounds_spent V
      then done_with (step_fail S X V Retryable (sn_revision (te_snapshot V))
        (lit ''turn stopped after '' @ nat_text (the (te_max_rounds V)) @
         lit '' tool rounds without completing;'' @ replicate 30 32 @
         lit ''raise or remove session.max_tool_rounds, or narrow the task'') l)
      else bindA (handle_provider_tool_round S X (te_snapshot V) (te_messages V) r l) (\<lambda>outcome.
        retA (case outcome of BatchCompleted s ms \<Rightarrow> FlowContinue s ms | BatchParked s \<Rightarrow> FlowDone s)))"

definition finish_answer :: "agent_service \<Rightarrow> outside \<Rightarrow> turn_step_env \<Rightarrow> provider_response \<Rightarrow> lease
    \<Rightarrow> round_flow act" where
  "finish_answer S X V r l =
     (case visible_message r of
        None \<Rightarrow> done_with (step_fail S X V Terminal (sn_revision (te_snapshot V))
          (lit ''provider returned an empty assistant outcome'') l)
      | Some m \<Rightarrow>
          bindA (step_commit S X V
            (CuAppendTranscript (turn_key S (te_turn V) '':assistant-final'') TkAssistant m None) l) (\<lambda>appended.
          bindA (tickA (\<lambda>n. queryA (session_turn_changed_files (ag_engine S) (ou_samples X n) (te_turn V)))) (\<lambda>changed.
          done_with
           (if changed \<noteq> [] then
              (if ag_verification S = None
               then step_fail S X V Terminal (sn_revision appended)
                 (lit ''workspace changed but no configured verification plan is available'') l
               else begin_verification S X appended m l)
            else agent_commit S X (sn_session_id (te_snapshot V)) (te_turn V) (sn_revision appended)
              (te_turn_revision V) (CuComplete (turn_key S (te_turn V) '':complete'')
                \<lparr>ho_summary = m, ho_files_changed = [], ho_evidence = []\<rparr>) l))))"

definition handle_answer :: "agent_service \<Rightarrow> outside \<Rightarrow> turn_step_env \<Rightarrow> provider_error + provider_response
    \<Rightarrow> lease \<Rightarrow> round_flow act" where
  "handle_answer S X V answer l =
     (case answer of
        Inl PeCancelled \<Rightarrow> done_with (step_commit S X V (CuInterrupt (turn_key S (te_turn V) '':provider-cancel'') None) l)
      | Inl (ContextOverflow i) \<Rightarrow>
          if te_retried V then provider_failed S X V (ContextOverflow i) l else recover_overflow S X V l
      | Inl e \<Rightarrow> provider_failed S X V e l
      | Inr r \<Rightarrow>
          if is_cut r then refuse_cut S X V r l
          else case pr_input_request r of
            Some i \<Rightarrow> ask_input S X V i l
          | None \<Rightarrow> if pr_tool_calls r \<noteq> [] then run_tools S X V r l else finish_answer S X V r l)"

definition step_request :: "agent_service \<Rightarrow> session_snapshot \<Rightarrow> message list \<Rightarrow> provider_request" where
  "step_request S s messages = \<lparr>rq_messages = messages,
     rq_tools = engine_tool_descriptors (ag_engine S), rq_session_ref = session_ref_for S (sn_session_id s)\<rparr>"

definition run_provider_step :: "agent_service \<Rightarrow> outside \<Rightarrow> provider \<Rightarrow> session_snapshot \<Rightarrow> message list
    \<Rightarrow> volatile_turn_context \<Rightarrow> lease \<Rightarrow> nat \<Rightarrow> bool \<Rightarrow> round_flow act" where
  "run_provider_step S X p s messages volatile l rounds retried =
     bindA (liftA (active_turn_id s)) (\<lambda>t.
     bindA (liftA (active_turn_revision s)) (\<lambda>turn_revision.
     bindA (liftA (resolved_profile S (sn_binding s))) (\<lambda>h.
     let policy = profile_history_policy h;
         V = \<lparr>te_snapshot = s, te_messages = messages, te_volatile = volatile, te_turn = t,
           te_turn_revision = turn_revision, te_max_rounds = hp_max_tool_rounds policy,
           te_round = rounds, te_retried = retried\<rparr>
     in case enforce_budget (ag_wire S) messages policy of
          Inl e \<Rightarrow> done_with (step_fail S X V Retryable (sn_revision s)
            (runtime_error_text (ag_engine S) e) l)
        | Inr _ \<Rightarrow> tickA (\<lambda>n.
            bindA (await_holding S X s l ''provider call'') (\<lambda>_.
            handle_answer S X V (p n (step_request S s messages)) l)))))"

subsection \<open>The loop\<close>

fun turn_loop :: "agent_service \<Rightarrow> outside \<Rightarrow> provider \<Rightarrow> volatile_turn_context \<Rightarrow> lease \<Rightarrow> nat \<Rightarrow> bool
    \<Rightarrow> session_snapshot \<Rightarrow> message list \<Rightarrow> session_snapshot option act" where
  "turn_loop S X p volatile l 0 retried s messages = retA None"
| "turn_loop S X p volatile l (Suc n) retried s messages =
     bindA (liftA (active_turn_id s)) (\<lambda>t.
     bindA (queryA (\<lambda>d. tool_round_count_for_turn d t)) (\<lambda>rounds.
     bindA (run_provider_step S X p s messages volatile l rounds retried) (\<lambda>flow.
     case flow of
       FlowDone s \<Rightarrow> retA (Some s)
     | FlowContinue s messages \<Rightarrow>
         bindA (maybe_compact_mid_turn S X s messages l False volatile) (\<lambda>(s, messages).
         turn_loop S X p volatile l n retried s messages)
     | FlowRecovered s messages \<Rightarrow> turn_loop S X p volatile l n True s messages)))"

text \<open>Its lease is dropped when it returns, which \<open>guarded\<close> does for the callers.\<close>

definition run_provider_turn :: "agent_service \<Rightarrow> outside \<Rightarrow> provider \<Rightarrow> volatile_turn_context \<Rightarrow> lease \<Rightarrow> nat
    \<Rightarrow> session_snapshot \<Rightarrow> message list \<Rightarrow> session_snapshot option act" where
  "run_provider_turn S X p volatile l n s messages = turn_loop S X p volatile l n False s messages"

end
