(* ===== verification/Agent_Session.thy ===== *)
theory Agent_Session
  imports Agent_Turn
begin

text \<open>
  The sessions of \<open>latte-headless/src/session.rs\<close>: starting a conversation and its
  follow-ups, the queue behind a running turn, answers to a parked turn, cancellation,
  reconciliation, manual compaction and the switch of the model. \<open>n\<close> is the number of
  requests a turn may issue.
\<close>

subsection \<open>Acceptance\<close>

definition bindO :: "'a option act \<Rightarrow> ('a \<Rightarrow> 'b option act) \<Rightarrow> 'b option act" where
  "bindO m f = bindA m (\<lambda>r. case r of None \<Rightarrow> retA None | Some x \<Rightarrow> f x)"

definition someA :: "'a act \<Rightarrow> 'a option act" where
  "someA m = bindA m (\<lambda>x. retA (Some x))"

text \<open>\<open>wanted\<close>: the caller handed over a channel.\<close>

definition signal_accept :: "bool \<Rightarrow> accept_signal \<Rightarrow> unit act" where
  "signal_accept wanted v = (if wanted then modifyA (\<lambda>w. w\<lparr>as_accept := Some v\<rparr>) else retA ())"

fun classify_create_error :: "engine \<Rightarrow> runtime_error \<Rightarrow> create_accept_error" where
  "classify_create_error E (ErStorage e) =
     (let text = runtime_error_text E (ErStorage e) in
      if e = SessionCommandReplayMismatch then IdempotencyMismatch text
      else if is_coordinator_conflict e then AcceptConflict text
      else case e of SessionAlreadyExists _ \<Rightarrow> AcceptConflict text | _ \<Rightarrow> AcceptFailed text)"
| "classify_create_error E ErInvalidState = AcceptConflict (runtime_error_text E ErInvalidState)"
| "classify_create_error E e = AcceptFailed (runtime_error_text E e)"

text \<open>An error that is signalled before it leaves the function.\<close>

definition refusing :: "bool \<Rightarrow> (runtime_error \<Rightarrow> create_accept_error) \<Rightarrow> 'a act \<Rightarrow> 'a act" where
  "refusing wanted f m = bindA (tryA m) (\<lambda>r. case r of
     Inr x \<Rightarrow> retA x
   | Inl e \<Rightarrow> bindA (signal_accept wanted (Inl (f e))) (\<lambda>_. errA e))"

abbreviation failed_text :: "agent_service \<Rightarrow> runtime_error \<Rightarrow> create_accept_error" where
  "failed_text S e \<equiv> AcceptFailed (runtime_error_text (ag_engine S) e)"

abbreviation classified :: "agent_service \<Rightarrow> runtime_error \<Rightarrow> create_accept_error" where
  "classified S \<equiv> classify_create_error (ag_engine S)"

subsection \<open>Context and history\<close>

definition context_bundle_of :: "agent_service \<Rightarrow> rstr option \<Rightarrow> nat \<Rightarrow> context_bundle act" where
  "context_bundle_of S focus cap = (\<lambda>w.
     (map_err (\<lambda>e. ErHistory (tl_io_text (en_tool_lib (ag_engine S)) e))
        (build_context (tw_files (ew_tools (as_world w))) (ag_root S) focus cap), w))"

definition session_bundle :: "agent_service \<Rightarrow> session_snapshot \<Rightarrow> context_bundle act" where
  "session_bundle S s =
     bindA (liftA (resolved_profile S (sn_binding s))) (\<lambda>h.
     context_bundle_of S (sn_focus s) (hp_context_cap_bytes (profile_history_policy h)))"

definition take_armed :: "uuid \<Rightarrow> rstr option act" where
  "take_armed sid = (\<lambda>w. case take_reminder sid (as_reminders w) of
     (r, slots) \<Rightarrow> (Inr r, w\<lparr>as_reminders := slots\<rparr>))"

definition restore_armed :: "uuid \<Rightarrow> rstr option \<Rightarrow> unit act" where
  "restore_armed sid r = modifyA (\<lambda>w. w\<lparr>as_reminders := restore_reminder sid r (as_reminders w)\<rparr>)"

definition restoring :: "uuid \<Rightarrow> rstr option \<Rightarrow> 'a act \<Rightarrow> 'a act" where
  "restoring sid r m = bindA (tryA m) (\<lambda>x. case x of
     Inr y \<Rightarrow> retA y | Inl e \<Rightarrow> bindA (restore_armed sid r) (\<lambda>_. errA e))"

definition agent_prepare_history :: "agent_service \<Rightarrow> outside \<Rightarrow> session_snapshot \<Rightarrow> rstr
    \<Rightarrow> volatile_turn_context \<Rightarrow> prepared_history act" where
  "agent_prepare_history S X s prompt volatile = tickA (\<lambda>n.
     bindA (othersA X) (\<lambda>_ w.
     case prepare_history (ag_lib S) (ag_wire S) (ag_catalog S) (summarize_unleased S s n)
             (as_failures w) s prompt volatile of
       Inl e \<Rightarrow> (Inl e, w)
     | Inr (p, fc) \<Rightarrow> (Inr p, w\<lparr>as_failures := fc\<rparr>)))"

definition prepared_card :: "agent_service \<Rightarrow> uuid \<Rightarrow> rstr \<Rightarrow> prepared_history \<Rightarrow> commit_update option" where
  "prepared_card S t key_suffix prepared =
     (case prepared of
        Complete _ \<Rightarrow> None
      | Summarized _ superseded summary \<Rightarrow>
          Some (CuAppendTranscript (turn_key S t '':compact-summary'' @ key_suffix) TkCompactSummary summary
            (Some (json_obj
              [(lit ''superseded_through_sequence'', js_nat (su_through_sequence superseded)),
               (lit ''retain_from_sequence'', json_opt js_nat (su_retain_from_sequence superseded))])))
      | Elided _ sequences \<Rightarrow>
          Some (CuAppendTranscript (turn_key S t '':tool-result-elision'' @ key_suffix) TkToolResultElision
            (elision_audit_text sequences)
            (Some (json_obj [(lit ''tool_result_sequences'', JArr (map js_nat sequences))])))
      | Degraded _ \<Rightarrow>
          Some (CuAppendTranscript (turn_key S t '':compact-summary-failed'' @ key_suffix) TkSystem
            (lit ''context compaction failed; continuing without a summary'') None))"

definition append_prepared_history_card :: "agent_service \<Rightarrow> outside \<Rightarrow> uuid \<Rightarrow> uuid \<Rightarrow> session_snapshot \<Rightarrow> nat
    \<Rightarrow> prepared_history \<Rightarrow> lease \<Rightarrow> rstr \<Rightarrow> session_snapshot act" where
  "append_prepared_history_card S X sid t s turn_revision prepared l key_suffix =
     (case prepared_card S t key_suffix prepared of
        None \<Rightarrow> retA s
      | Some u \<Rightarrow> agent_commit S X sid t (sn_revision s) turn_revision u l)"

subsection \<open>Starting a conversation\<close>

definition preflight_first_turn :: "agent_service \<Rightarrow> session_provider_binding \<Rightarrow> rstr \<Rightarrow> rstr option
    \<Rightarrow> (harness_profile \<times> context_bundle) act" where
  "preflight_first_turn S b prompt focus =
     bindA (liftA (map_err ErProviderConfiguration (binding_validate b))) (\<lambda>_.
     bindA (liftA (resolved_profile S b)) (\<lambda>h.
     bindA (liftA (initial_messages (ag_lib S) (ag_wire S) h prompt)) (\<lambda>_.
     bindA (context_bundle_of S focus (hp_context_cap_bytes (profile_history_policy h))) (\<lambda>bundle.
     retA (h, bundle)))))"

definition engine_create_started :: "engine \<Rightarrow> samples \<Rightarrow> (nat \<Rightarrow> uuid) \<Rightarrow> uuid \<Rightarrow> uuid \<Rightarrow> uuid
    \<Rightarrow> session_provider_binding \<Rightarrow> rstr \<Rightarrow> lease \<Rightarrow> nat \<Rightarrow> rstr option \<Rightarrow> engine_world
    \<Rightarrow> (storage_error + session_snapshot create_outcome) \<times> engine_world" where
  "engine_create_started E samples ids cid sid t b prompt l now focus =
     transaction (\<lambda>d.
       bindE (map_err (\<lambda>e. InvalidData (tool_error_text (en_tool_lib E) e)) (samples 0)) (\<lambda>baseline.
       create_started_session_v2 (en_lib E) ids d (Some cid) sid t b (en_root E) prompt baseline l now focus))"

definition engine_follow_up_started :: "engine \<Rightarrow> samples \<Rightarrow> (nat \<Rightarrow> uuid) \<Rightarrow> uuid option \<Rightarrow> uuid \<Rightarrow> uuid \<Rightarrow> nat \<Rightarrow> rstr
    \<Rightarrow> lease \<Rightarrow> nat \<Rightarrow> engine_world \<Rightarrow> (storage_error + session_snapshot create_outcome) \<times> engine_world" where
  "engine_follow_up_started E samples ids cid sid t expected prompt l now w =
     (case bindE (map_err (\<lambda>e. InvalidData (tool_error_text (en_tool_lib E) e)) (samples 0)) (\<lambda>baseline.
           create_session_follow_up_v2_inner (en_lib E) ids (ew_db w) cid sid t expected prompt baseline
             (Some l) now) of
        Inl e \<Rightarrow> (Inl e, w)
      | Inr (d, Replayed s, _) \<Rightarrow> (Inr (Replayed s), w\<lparr>ew_db := d\<rparr>)
      | Inr (d, Created s, None) \<Rightarrow>
          (Inl (invalid ''atomic follow-up start omitted its durable event''), w\<lparr>ew_db := d\<rparr>)
      | Inr (d, Created s, Some ev) \<Rightarrow>
          (case finish_session_response E \<lparr>rs_snapshot = s, rs_session_event = ev\<rparr> (w\<lparr>ew_db := d\<rparr>) of
             (r, w) \<Rightarrow> (bindE r (\<lambda>resp. Inr (Created (rs_snapshot resp))), w)))"

definition provider_configuration_failure_message :: rstr where
  "provider_configuration_failure_message =
     lit (''The selected model could not be started. Check provider configuration and credentials, '' @
          ''then retry in this conversation.'')"

definition fail_first_turn :: "agent_service \<Rightarrow> outside \<Rightarrow> session_snapshot \<Rightarrow> uuid \<Rightarrow> lease \<Rightarrow> rstr
    \<Rightarrow> session_snapshot create_outcome option act" where
  "fail_first_turn S X s t l message =
     bindA (liftA (active_turn_revision s)) (\<lambda>turn_revision.
     bindA (fail_retryable S X (sn_session_id s) t (sn_revision s) turn_revision message l) (\<lambda>s.
     retA (Some (Created s))))"

definition created_turn :: "session_snapshot option act \<Rightarrow> session_snapshot create_outcome option act" where
  "created_turn m = bindO m (\<lambda>s. retA (Some (Created s)))"

text \<open>What runs once the first submission is durable.\<close>

definition first_turn :: "agent_service \<Rightarrow> outside \<Rightarrow> nat \<Rightarrow> harness_profile \<Rightarrow> context_bundle \<Rightarrow> rstr
    \<Rightarrow> session_snapshot \<Rightarrow> uuid \<Rightarrow> lease \<Rightarrow> session_snapshot create_outcome option act" where
  "first_turn S X n h bundle prompt started t l =
     (case ag_provider S (sn_binding started) of
        Inl _ \<Rightarrow> fail_first_turn S X started t l provider_configuration_failure_message
      | Inr p \<Rightarrow>
          bindA (take_armed (sn_session_id started)) (\<lambda>reminder.
          case first_turn_messages (ag_lib S) (ag_wire S) h bundle prompt reminder of
            Inl e \<Rightarrow> fail_first_turn S X started t l (runtime_error_text (ag_engine S) e)
          | Inr (messages, volatile) \<Rightarrow>
              created_turn (run_provider_turn S X p volatile l n started messages)))"

definition start_fresh :: "agent_service \<Rightarrow> outside \<Rightarrow> nat \<Rightarrow> uuid option \<Rightarrow> uuid \<Rightarrow> rstr \<Rightarrow> session_provider_binding
    \<Rightarrow> rstr option \<Rightarrow> bool \<Rightarrow> harness_profile \<Rightarrow> context_bundle
    \<Rightarrow> session_snapshot create_outcome option act" where
  "start_fresh S X n cid sid prompt b focus wanted h bundle = tickA (\<lambda>k.
     let t = ou_uuid X k; now = ou_now X k in
     bindA (refusing wanted (failed_text S) (acquire_authority S X sid)) (\<lambda>l.
     guarded S X l (tickA (\<lambda>j.
     bindA (refusing wanted (classified S)
        (engineA (engine_create_started (ag_engine S) (ou_samples X j) (ou_ids X j)
          (case cid of None \<Rightarrow> ou_uuid X j | Some c \<Rightarrow> c) sid t b prompt l now focus))) (\<lambda>outcome.
     bindA (signal_accept wanted (Inr outcome)) (\<lambda>_.
     case outcome of
       Replayed s \<Rightarrow> retA (Some (Replayed s))
     | Created started \<Rightarrow> first_turn S X n h bundle prompt started t l))))))"

definition start_one :: "agent_service \<Rightarrow> outside \<Rightarrow> nat \<Rightarrow> uuid option \<Rightarrow> uuid \<Rightarrow> rstr \<Rightarrow> session_provider_binding
    \<Rightarrow> rstr option \<Rightarrow> bool \<Rightarrow> session_snapshot create_outcome option act" where
  "start_one S X n cid sid prompt b focus wanted =
     bindA (refusing wanted (failed_text S) (preflight_first_turn S b prompt focus)) (\<lambda>(h, bundle).
     bindA (case cid of
         None \<Rightarrow> retA None
       | Some c \<Rightarrow> refusing wanted (classified S) (queryA (\<lambda>d.
           lookup_create_replay (ag_lib S) d c sid (en_root (ag_engine S)) prompt b focus))) (\<lambda>replay.
     case replay of
       Some s \<Rightarrow> bindA (signal_accept wanted (Inr (Replayed s))) (\<lambda>_. retA (Some (Replayed s)))
     | None \<Rightarrow> start_fresh S X n cid sid prompt b focus wanted h bundle))"

subsection \<open>Follow-ups\<close>

definition engine_session_tail :: "agent_service \<Rightarrow> uuid \<Rightarrow> session_snapshot act" where
  "engine_session_tail S sid = engineA (snapshot_tail (ag_engine S) sid 1)"

text \<open>What runs once the follow-up is durable: its compaction card first, then the turn.\<close>

definition follow_up_turn :: "agent_service \<Rightarrow> outside \<Rightarrow> nat \<Rightarrow> prepared_history \<Rightarrow> volatile_turn_context
    \<Rightarrow> session_snapshot \<Rightarrow> uuid \<Rightarrow> lease \<Rightarrow> session_snapshot create_outcome option act" where
  "follow_up_turn S X n prepared volatile minted t l =
     bindA (liftA (active_turn_revision minted)) (\<lambda>turn_revision.
     bindA (tryA (append_prepared_history_card S X (sn_session_id minted) t minted turn_revision prepared l []))
       (\<lambda>r. case r of
          Inl e \<Rightarrow> fail_first_turn S X minted t l (runtime_error_text (ag_engine S) e)
        | Inr started \<Rightarrow>
            (case ag_provider S (sn_binding started) of
               Inl _ \<Rightarrow> fail_first_turn S X started t l provider_configuration_failure_message
             | Inr p \<Rightarrow>
                 created_turn (run_provider_turn S X p volatile l n started (prepared_messages prepared)))))"

definition follow_up_fresh :: "agent_service \<Rightarrow> outside \<Rightarrow> nat \<Rightarrow> uuid option \<Rightarrow> uuid \<Rightarrow> nat \<Rightarrow> rstr \<Rightarrow> bool
    \<Rightarrow> session_snapshot \<Rightarrow> session_snapshot create_outcome option act" where
  "follow_up_fresh S X n cid sid expected prompt wanted s =
     bindA (session_bundle S s) (\<lambda>bundle.
     bindA (take_armed sid) (\<lambda>armed.
     let volatile = build_volatile_turn_context bundle armed in
     bindA (refusing wanted (classified S) (restoring sid armed
       (agent_prepare_history S X s prompt volatile))) (\<lambda>prepared. tickA (\<lambda>k.
     let t = ou_uuid X k in
     bindA (refusing wanted (classified S) (restoring sid armed (acquire_authority S X sid))) (\<lambda>l.
     guarded S X l (tickA (\<lambda>j.
     bindA (refusing wanted (classified S) (restoring sid armed
       (engineA (engine_follow_up_started (ag_engine S) (ou_samples X j) (ou_ids X j) cid sid t expected prompt l
          (ou_now X j))))) (\<lambda>outcome.
     case outcome of
       Replayed s \<Rightarrow>
         bindA (restore_armed sid armed) (\<lambda>_.
         bindA (signal_accept wanted (Inr (Replayed s))) (\<lambda>_. retA (Some (Replayed s))))
     | Created minted \<Rightarrow>
         bindA (signal_accept wanted (Inr (Created minted))) (\<lambda>_.
         follow_up_turn S X n prepared volatile minted t l)))))))))"

definition follow_up_one :: "agent_service \<Rightarrow> outside \<Rightarrow> nat \<Rightarrow> uuid option \<Rightarrow> uuid \<Rightarrow> nat \<Rightarrow> rstr \<Rightarrow> bool
    \<Rightarrow> session_snapshot create_outcome option act" where
  "follow_up_one S X n cid sid expected prompt wanted =
     bindA (refusing wanted (classified S) (load_full S sid)) (\<lambda>s.
     bindA (case cid of
         None \<Rightarrow> retA None
       | Some c \<Rightarrow> refusing wanted (classified S) (queryA (\<lambda>d.
           lookup_follow_up_replay (ag_lib S) d c sid expected prompt))) (\<lambda>replay.
     case replay of
       Some s \<Rightarrow> bindA (signal_accept wanted (Inr (Replayed s))) (\<lambda>_. retA (Some (Replayed s)))
     | None \<Rightarrow>
         if sn_revision s \<noteq> expected \<or> \<not> accepts_follow_up (sn_lifecycle s)
         then refusing wanted (classified S) (errA ErInvalidState)
         else follow_up_fresh S X n cid sid expected prompt wanted s))"

subsection \<open>The runner and its queue\<close>

definition SESSION_MAILBOX_CAPACITY :: nat where "SESSION_MAILBOX_CAPACITY = 8"
definition RESIDUE_SETTLE_INTERVAL_MS :: nat where "RESIDUE_SETTLE_INTERVAL_MS = 5"
definition RESIDUE_SETTLE_BUDGET_MS :: nat where "RESIDUE_SETTLE_BUDGET_MS = 100"

definition set_mailbox :: "uuid \<Rightarrow> rstr list option \<Rightarrow> agent \<Rightarrow> agent" where
  "set_mailbox sid q w = w\<lparr>as_mailboxes := (as_mailboxes w)(sid := q)\<rparr>"

definition begin_runner :: "uuid \<Rightarrow> unit act" where
  "begin_runner sid = (\<lambda>w.
     if as_mailboxes w sid \<noteq> None then (Inl ErInvalidState, w) else (Inr (), set_mailbox sid (Some []) w))"

definition ensure_runner :: "uuid \<Rightarrow> unit act" where
  "ensure_runner sid = modifyA (\<lambda>w.
     case as_mailboxes w sid of None \<Rightarrow> set_mailbox sid (Some []) w | Some _ \<Rightarrow> w)"

text \<open>A runner that is dropped open removes its queue.\<close>

definition drop_runner :: "uuid \<Rightarrow> unit act" where
  "drop_runner sid = modifyA (set_mailbox sid None)"

definition dropping :: "uuid \<Rightarrow> 'a act \<Rightarrow> 'a act" where
  "dropping sid m = bindA (tryA m) (\<lambda>r. case r of
     Inr x \<Rightarrow> retA x | Inl e \<Rightarrow> bindA (drop_runner sid) (\<lambda>_. errA e))"

fun begin_when_settled :: "agent_service \<Rightarrow> outside \<Rightarrow> uuid \<Rightarrow> nat \<Rightarrow> unit act" where
  "begin_when_settled S X sid 0 = begin_runner sid"
| "begin_when_settled S X sid (Suc k) =
     bindA (tryA (begin_runner sid)) (\<lambda>r. case r of
       Inr _ \<Rightarrow> retA ()
     | Inl _ \<Rightarrow>
         bindA (tryA (engine_session_tail S sid)) (\<lambda>r. case r of
           Inl _ \<Rightarrow> errA ErInvalidState
         | Inr s \<Rightarrow>
             if sn_lifecycle s \<noteq> LcReady \<or> sn_active_turn_id s \<noteq> None then errA ErInvalidState
             else bindA (othersA X) (\<lambda>_. begin_when_settled S X sid k)))"

definition begin_runner_when_settled :: "agent_service \<Rightarrow> outside \<Rightarrow> uuid \<Rightarrow> unit act" where
  "begin_runner_when_settled S X sid =
     begin_when_settled S X sid (RESIDUE_SETTLE_BUDGET_MS div RESIDUE_SETTLE_INTERVAL_MS)"

definition terminal_name :: "session_lifecycle \<Rightarrow> rstr" where
  "terminal_name lc = (case lc of LcFailed \<Rightarrow> lit ''failed'' | LcInterrupted \<Rightarrow> lit ''interrupted''
     | LcReconciliationRequired \<Rightarrow> lit ''reconciliation_required'' | _ \<Rightarrow> lit ''terminal'')"

definition audit_discarded_queue :: "agent_service \<Rightarrow> outside \<Rightarrow> session_snapshot \<Rightarrow> rstr list \<Rightarrow> lease
    \<Rightarrow> session_snapshot act" where
  "audit_discarded_queue S X s discarded l =
     (if discarded = [] \<or> sn_turns s = [] then retA s
      else let turn = last (sn_turns s); n = length discarded; lc = terminal_name (sn_lifecycle s) in
        bindA (tryA (agent_commit S X (sn_session_id s) (sm_turn_id turn) (sn_revision s) (sm_turn_revision turn)
          (CuAppendTranscript (turn_key S (sm_turn_id turn) '':queue-audit'') TkSystem
            (nat_text n @ lit '' queued follow-up prompt(s) were discarded: the turn finished in the '' @ lc @
             lit '' state and can no longer execute them'')
            (Some (json_obj [(lit ''discarded_queue_len'', js_nat n), (lit ''terminal_lifecycle'', JStr lc)]))) l))
        (\<lambda>r. retA (case r of Inl _ \<Rightarrow> s | Inr s \<Rightarrow> s)))"

definition audit_terminal_discard :: "agent_service \<Rightarrow> outside \<Rightarrow> session_snapshot \<Rightarrow> rstr list option
    \<Rightarrow> session_snapshot act" where
  "audit_terminal_discard S X s discarded =
     bindA (tryA (acquire_authority S X (sn_session_id s))) (\<lambda>r. case r of
       Inl _ \<Rightarrow> retA s
     | Inr l \<Rightarrow> guarded S X l (audit_discarded_queue S X s (case discarded of None \<Rightarrow> [] | Some q \<Rightarrow> q) l))"

definition parked :: "session_lifecycle \<Rightarrow> bool" where
  "parked lc \<longleftrightarrow> lc \<in> {LcWaitingInput, LcWaitingPermission, LcReconciliationRequired}"

definition settled_snapshot :: "'a create_outcome \<Rightarrow> 'a" where
  "settled_snapshot r = (case r of Created s \<Rightarrow> s | Replayed s \<Rightarrow> s)"

text \<open>The queue behind a turn that has returned; \<open>k\<close> bounds how many prompts are taken from it.\<close>

fun drain_mailbox :: "agent_service \<Rightarrow> outside \<Rightarrow> nat \<Rightarrow> nat \<Rightarrow> session_snapshot \<Rightarrow> session_snapshot option act" where
  "drain_mailbox S X n 0 s = retA None"
| "drain_mailbox S X n (Suc k) s =
     (if parked (sn_lifecycle s) then retA (Some s)
      else (\<lambda>w. let sid = sn_session_id s in
        case as_mailboxes w sid of
          None \<Rightarrow> (Inl ErInvalidState, w)
        | Some q \<Rightarrow>
            if accepts_follow_up (sn_lifecycle s) then
              (case q of
                 [] \<Rightarrow> (Inr (Some s), set_mailbox sid None w)
               | prompt # rest \<Rightarrow>
                   bindO (dropping sid (tickA (\<lambda>j.
                     follow_up_one S X n (Some (ou_uuid X j)) sid (sn_revision s) prompt False)))
                     (\<lambda>r. drain_mailbox S X n k (settled_snapshot r))
                     (set_mailbox sid (Some rest) w))
            else if q = [] then (Inr (Some s), set_mailbox sid None w)
            else someA (audit_terminal_discard S X s (Some q)) (set_mailbox sid None w)))"

definition queue_follow_up :: "agent_service \<Rightarrow> uuid \<Rightarrow> rstr \<Rightarrow> nat act" where
  "queue_follow_up S sid prompt =
     bindA (liftA (map_err (\<lambda>e. ErProviderConfiguration (profile_error_text e)) (resolve_base (ag_catalog S)))) (\<lambda>h.
     bindA (liftA (initial_messages (ag_lib S) (ag_wire S) h prompt)) (\<lambda>_.
     bindA (tryA (engine_session_tail S sid)) (\<lambda>r. case r of
       Inl _ \<Rightarrow> errA ErInvalidState
     | Inr s \<Rightarrow>
         if sn_lifecycle s \<notin> {LcRunning, LcWaitingInput, LcWaitingPermission} then errA ErInvalidState
         else (\<lambda>w. case as_mailboxes w sid of
           None \<Rightarrow> (Inl ErInvalidState, w)
         | Some q \<Rightarrow>
             if length q \<ge> SESSION_MAILBOX_CAPACITY then (Inl ErMailboxFull, w)
             else (Inr (length q + 1), set_mailbox sid (Some (q @ [prompt])) w)))))"

subsection \<open>The entry points that run a turn\<close>

text \<open>After a created turn the runner drains its queue; a replay owns no runner.\<close>

definition settle_outcome :: "agent_service \<Rightarrow> outside \<Rightarrow> nat \<Rightarrow> nat \<Rightarrow> uuid \<Rightarrow> session_snapshot create_outcome
    \<Rightarrow> session_snapshot create_outcome option act" where
  "settle_outcome S X n k sid outcome =
     (case outcome of
        Created s \<Rightarrow> created_turn (drain_mailbox S X n k s)
      | Replayed s \<Rightarrow> bindA (drop_runner sid) (\<lambda>_. retA (Some (Replayed s))))"

definition start_accepted :: "agent_service \<Rightarrow> outside \<Rightarrow> nat \<Rightarrow> nat \<Rightarrow> uuid \<Rightarrow> uuid \<Rightarrow> rstr
    \<Rightarrow> session_provider_binding \<Rightarrow> rstr option \<Rightarrow> session_snapshot create_outcome option act" where
  "start_accepted S X n k sid cid prompt b focus =
     bindA (refusing True (failed_text S) (begin_runner sid)) (\<lambda>_.
     bindO (dropping sid (start_one S X n (Some cid) sid prompt b focus True)) (settle_outcome S X n k sid))"

definition start_session :: "agent_service \<Rightarrow> outside \<Rightarrow> nat \<Rightarrow> nat \<Rightarrow> uuid \<Rightarrow> rstr
    \<Rightarrow> session_provider_binding \<Rightarrow> rstr option \<Rightarrow> session_snapshot option act" where
  "start_session S X n k sid prompt b focus =
     bindA (begin_runner sid) (\<lambda>_.
     bindO (dropping sid (start_one S X n None sid prompt b focus False)) (\<lambda>r.
     drain_mailbox S X n k (settled_snapshot r)))"

definition follow_up_accepted :: "agent_service \<Rightarrow> outside \<Rightarrow> nat \<Rightarrow> nat \<Rightarrow> uuid \<Rightarrow> uuid \<Rightarrow> nat \<Rightarrow> rstr
    \<Rightarrow> session_snapshot create_outcome option act" where
  "follow_up_accepted S X n k sid cid expected prompt =
     bindA (refusing True (classified S) (begin_runner_when_settled S X sid)) (\<lambda>_.
     bindO (dropping sid (follow_up_one S X n (Some cid) sid expected prompt True)) (settle_outcome S X n k sid))"

definition follow_up_session :: "agent_service \<Rightarrow> outside \<Rightarrow> nat \<Rightarrow> nat \<Rightarrow> uuid \<Rightarrow> nat \<Rightarrow> rstr
    \<Rightarrow> session_snapshot option act" where
  "follow_up_session S X n k sid expected prompt =
     bindA (begin_runner_when_settled S X sid) (\<lambda>_.
     bindO (dropping sid (tickA (\<lambda>j. follow_up_one S X n (Some (ou_uuid X j)) sid expected prompt False))) (\<lambda>r.
     drain_mailbox S X n k (settled_snapshot r)))"

subsection \<open>Answers to a parked turn\<close>

definition input_turn :: "agent_service \<Rightarrow> outside \<Rightarrow> nat \<Rightarrow> session_snapshot \<Rightarrow> uuid \<Rightarrow> nat \<Rightarrow> rstr \<Rightarrow> rstr
    \<Rightarrow> rstr option \<Rightarrow> prepared_history \<Rightarrow> volatile_turn_context \<Rightarrow> provider \<Rightarrow> lease
    \<Rightarrow> session_snapshot option act" where
  "input_turn S X n s t turn_revision request_id v armed prepared volatile p l =
     bindA (ensure_runner (sn_session_id s)) (\<lambda>_.
     bindA (restoring (sn_session_id s) armed (agent_commit S X (sn_session_id s) t (sn_revision s) turn_revision
       (CuProvideInput (turn_key S t '':input:'' @ request_id) request_id v) l)) (\<lambda>running.
     bindA (dropping (sn_session_id s) (liftA (active_turn_revision running))) (\<lambda>running_revision.
     bindA (append_prepared_history_card S X (sn_session_id s) t running running_revision prepared l
       (lit '':input'')) (\<lambda>running.
     run_provider_turn S X p volatile l n running (prepared_messages prepared)))))"

definition provide_input :: "agent_service \<Rightarrow> outside \<Rightarrow> nat \<Rightarrow> nat \<Rightarrow> uuid \<Rightarrow> nat \<Rightarrow> nat \<Rightarrow> rstr \<Rightarrow> rstr
    \<Rightarrow> session_snapshot option act" where
  "provide_input S X n k sid expected_session expected_turn request_id v =
     bindA (load_full S sid) (\<lambda>s.
     bindA (liftA (active_turn_id s)) (\<lambda>t.
     bindA (liftA (active_turn_revision s)) (\<lambda>turn_revision.
     if sn_lifecycle s \<noteq> LcWaitingInput \<or> sn_revision s \<noteq> expected_session \<or> turn_revision \<noteq> expected_turn
     then errA ErInvalidState
     else
     bindA (session_bundle S s) (\<lambda>bundle.
     bindA (take_armed sid) (\<lambda>armed.
     let volatile = build_volatile_turn_context bundle armed in
     bindA (restoring sid armed (agent_prepare_history S X s v volatile)) (\<lambda>prepared.
     bindA (liftA (map_err ErProviderConfiguration (ag_provider S (sn_binding s)))) (\<lambda>p.
     bindA (acquire_authority S X sid) (\<lambda>l.
     bindO (guarded S X l (input_turn S X n s t turn_revision request_id v armed prepared volatile p l))
       (drain_mailbox S X n k)))))))))"

definition pending_permission_id :: "session_snapshot \<Rightarrow> rstr option" where
  "pending_permission_id s = (case sn_pending s of Some (PendPermission _ i _ _) \<Rightarrow> Some i | _ \<Rightarrow> None)"

definition session_effect_digest :: "db \<Rightarrow> rstr \<Rightarrow> storage_error + rstr" where
  "session_effect_digest d eid =
     bindE (ok_or (Sql QueryReturnedNoRows) (find (\<lambda>r. ef_effect_id r = eid) (db_effects d))) (\<lambda>r.
     ok_or (Sql InvalidColumnType) (ef_approval_digest r))"

text \<open>After the approved call: the calls of its round that are left, then the loop.\<close>

definition resume_round :: "agent_service \<Rightarrow> outside \<Rightarrow> nat \<Rightarrow> session_snapshot \<Rightarrow> nat \<times> tool_call list \<times> nat
    \<Rightarrow> provider \<Rightarrow> lease \<Rightarrow> session_snapshot option act" where
  "resume_round S X n s continuation p l =
     (case continuation of (round_sequence, calls, ordinal) \<Rightarrow>
        bindA (liftA (resolved_profile S (sn_binding s))) (\<lambda>h.
        bindA (liftA (build_system_head (ag_lib S) h)) (\<lambda>head.
        bindA (context_bundle_of S (sn_focus s) (hp_context_cap_bytes (profile_history_policy h))) (\<lambda>bundle.
        bindA (liftA (active_turn_id s)) (\<lambda>t.
        let volatile = build_volatile_turn_context bundle None;
            messages = assemble_mid_turn_request head None (scan_history_segments s) t volatile
        in bindA (execute_tool_batch S X s messages calls (ordinal + 1) round_sequence l) (\<lambda>outcome.
           case outcome of
             BatchParked s \<Rightarrow> retA (Some s)
           | BatchCompleted s messages \<Rightarrow> run_provider_turn S X p volatile l n s messages))))))"

definition approved_effect :: "agent_service \<Rightarrow> outside \<Rightarrow> nat \<Rightarrow> session_snapshot \<Rightarrow> uuid \<Rightarrow> rstr
    \<Rightarrow> provider option \<Rightarrow> lease \<Rightarrow> session_snapshot option act" where
  "approved_effect S X n resolved t request_id p l =
     bindA (liftA (active_turn_revision resolved)) (\<lambda>_.
     bindA (queryA (\<lambda>d. session_effect_digest d request_id)) (\<lambda>digest.
     bindA (start_effect S X resolved request_id digest
       (turn_key S t '':effect:'' @ request_id @ lit '':start'') l) (\<lambda>st.
     let verification = is_verification_effect_id request_id in
     bindA (if verification then retA None
            else bindA (liftA (tool_round_for_call resolved (en_tool_call_id (es_presentation st))))
              (\<lambda>r. retA (Some r))) (\<lambda>continuation.
     bindA (execute_and_observe_effect S X st l) (\<lambda>after.
     if sn_lifecycle after \<noteq> LcRunning then retA (Some after)
     else if verification then someA (finish_verification S X after (es_presentation st) l)
     else case continuation of
       None \<Rightarrow> errA (ErEffect (lit ''provider tool continuation is missing''))
     | Some c \<Rightarrow>
         (case p of
            None \<Rightarrow> errA (ErProviderConfiguration (lit ''provider was not resolved before effect approval''))
          | Some p \<Rightarrow> resume_round S X n after c p l))))))"

definition resolve_and_run :: "agent_service \<Rightarrow> outside \<Rightarrow> nat \<Rightarrow> session_snapshot \<Rightarrow> uuid \<Rightarrow> nat \<Rightarrow> rstr \<Rightarrow> bool
    \<Rightarrow> provider option \<Rightarrow> lease \<Rightarrow> session_snapshot option act" where
  "resolve_and_run S X n s t turn_revision request_id allow p l = tickA (\<lambda>j.
     bindA (engineA (resolve_session_effect_permission (ag_engine S) (ou_samples X j) (ou_ids X j)
       \<lparr>xr_session_id = sn_session_id s, xr_turn_id = t, xr_expected_session_revision = sn_revision s,
        xr_expected_turn_revision = turn_revision, xr_command_id = ou_uuid X j,
        xr_source_key = turn_key S t '':permission:'' @ request_id @
          (if allow then lit '':allow'' else lit '':deny'')\<rparr> request_id allow l (ou_now X j))) (\<lambda>resolved.
     if \<not> allow then retA (Some resolved)
     else approved_effect S X n resolved t request_id p l))"

definition resolve_permission :: "agent_service \<Rightarrow> outside \<Rightarrow> nat \<Rightarrow> nat \<Rightarrow> uuid \<Rightarrow> nat \<Rightarrow> nat \<Rightarrow> rstr \<Rightarrow> bool
    \<Rightarrow> session_snapshot option act" where
  "resolve_permission S X n k sid expected_session expected_turn request_id allow =
     bindA (load_full S sid) (\<lambda>s.
     bindA (liftA (active_turn_id s)) (\<lambda>t.
     bindA (liftA (active_turn_revision s)) (\<lambda>turn_revision.
     if sn_lifecycle s \<noteq> LcWaitingPermission \<or> sn_revision s \<noteq> expected_session
        \<or> turn_revision \<noteq> expected_turn \<or> pending_permission_id s \<noteq> Some request_id
     then errA ErInvalidState
     else
     bindA (if allow \<and> \<not> is_verification_effect_id request_id
            then bindA (liftA (map_err ErProviderConfiguration (ag_provider S (sn_binding s))))
                   (\<lambda>p. retA (Some p))
            else retA None) (\<lambda>p.
     bindA (acquire_authority S X sid) (\<lambda>l.
     bindO (guarded S X l (bindA (ensure_runner sid) (\<lambda>_.
       resolve_and_run S X n s t turn_revision request_id allow p l)))
       (drain_mailbox S X n k))))))"

subsection \<open>Operations without a turn\<close>

definition take_queue :: "uuid \<Rightarrow> rstr list option act" where
  "take_queue sid = (\<lambda>w. (Inr (as_mailboxes w sid), set_mailbox sid None w))"

definition reconcile_unknown_effect :: "agent_service \<Rightarrow> outside \<Rightarrow> uuid \<Rightarrow> rstr \<Rightarrow> session_snapshot act" where
  "reconcile_unknown_effect S X sid eid =
     bindA (load_full S sid) (\<lambda>s.
     bindA (liftA (ok_or ErInvalidState (sn_latest_turn_id s))) (\<lambda>t.
     if sn_lifecycle s \<noteq> LcReconciliationRequired then errA ErInvalidState
     else
     bindA (liftA (ok_or ErInvalidState (turn_revision_of s t))) (\<lambda>turn_revision.
     bindA (acquire_with_ttl S X sid (management_ttl S)) (\<lambda>l.
     bindA (guarded S X l (tickA (\<lambda>j. engineA (reconcile_session_effect_unknown (ag_engine S) (ou_samples X j)
       (ou_ids X j) \<lparr>xr_session_id = sid, xr_turn_id = t, xr_expected_session_revision = sn_revision s,
          xr_expected_turn_revision = turn_revision, xr_command_id = ou_uuid X j,
          xr_source_key = turn_key S t '':effect:'' @ eid @ lit '':reconcile''\<rparr> eid l (ou_now X j)))))
       (\<lambda>terminal.
     bindA (take_queue sid) (audit_terminal_discard S X terminal))))))"

definition cancel_durable :: "agent_service \<Rightarrow> outside \<Rightarrow> uuid \<Rightarrow> nat \<Rightarrow> nat \<Rightarrow> session_snapshot act" where
  "cancel_durable S X sid expected_session expected_turn =
     bindA (load_full S sid) (\<lambda>s.
     bindA (liftA (active_turn_id s)) (\<lambda>t.
     bindA (liftA (active_turn_revision s)) (\<lambda>turn_revision.
     if sn_revision s \<noteq> expected_session \<or> turn_revision \<noteq> expected_turn then errA ErInvalidState
     else
     bindA (readA (\<lambda>w. sid \<in> as_active w)) (\<lambda>in_flight.
     if in_flight then load_full S sid
     else
     bindA (acquire_authority S X sid) (\<lambda>l.
     bindA (guarded S X l (agent_commit S X sid t (sn_revision s) turn_revision
       (CuInterrupt (turn_key S t '':cancel'') None) l)) (\<lambda>s.
     bindA (take_queue sid) (audit_terminal_discard S X s)))))))"

definition engine_switch_binding :: "engine \<Rightarrow> (nat \<Rightarrow> uuid) \<Rightarrow> uuid \<Rightarrow> nat \<Rightarrow> session_provider_binding \<Rightarrow> lease
    \<Rightarrow> nat \<Rightarrow> engine_world \<Rightarrow> (storage_error + session_snapshot) \<times> engine_world" where
  "engine_switch_binding E ids sid expected b l now w =
     (case switch_session_binding_v2 (en_lib E) ids (ew_db w) sid expected b l now of
        Inl e \<Rightarrow> (Inl e, w)
      | Inr (d, resp) \<Rightarrow>
          (case finish_session_response E resp (w\<lparr>ew_db := d\<rparr>) of
             (r, w) \<Rightarrow> (bindE r (\<lambda>resp. Inr (rs_snapshot resp)), w)))"

definition switch_model :: "agent_service \<Rightarrow> outside \<Rightarrow> uuid \<Rightarrow> nat \<Rightarrow> session_provider_binding
    \<Rightarrow> session_snapshot act" where
  "switch_model S X sid expected b =
     bindA (liftA (map_err ErProviderConfiguration (binding_validate b))) (\<lambda>_.
     bindA (load_full S sid) (\<lambda>s.
     if sn_revision s \<noteq> expected \<or> \<not> accepts_follow_up (sn_lifecycle s) \<or> sn_active_turn_id s \<noteq> None
     then errA ErInvalidState
     else if sn_binding s = b then retA s
     else
     bindA (acquire_authority S X sid) (\<lambda>l.
     guarded S X l (tickA (\<lambda>j.
       engineA (engine_switch_binding (ag_engine S) (ou_ids X j) sid expected b l (ou_now X j)))))))"

subsection \<open>Manual compaction\<close>

datatype compaction_tier = TierElided | TierSummarized
datatype idle_reason = IdleEmpty | IdleDisabled | IdleBreakerTripped | IdleNothingToCompress
datatype compaction_state = Compacted compaction_tier nat | NothingToCompact idle_reason

type_synonym compaction_result = "session_snapshot \<times> compaction_state"

definition manual_idle :: "session_snapshot \<Rightarrow> idle_reason \<Rightarrow> compaction_result" where
  "manual_idle s reason = (s, NothingToCompact reason)"

definition manual_compacted :: "session_snapshot \<Rightarrow> compaction_tier \<Rightarrow> compaction_result" where
  "manual_compacted s tier = (s, Compacted tier (sn_revision s))"

record manual_env =
  me_snapshot :: session_snapshot
  me_turn :: session_turn_summary
  me_profile :: harness_profile
  me_system :: message
  me_volatile :: volatile_turn_context
  me_boundary :: nat

definition manual_append :: "agent_service \<Rightarrow> outside \<Rightarrow> manual_env \<Rightarrow> prepared_history \<Rightarrow> compaction_tier \<Rightarrow> lease
    \<Rightarrow> compaction_result act" where
  "manual_append S X M prepared tier l =
     bindA (append_prepared_history_card S X (sn_session_id (me_snapshot M)) (sm_turn_id (me_turn M))
       (me_snapshot M) (sm_turn_revision (me_turn M)) prepared l
       (lit '':manual:'' @ nat_text (sm_turn_revision (me_turn M)))) (\<lambda>s.
     retA (manual_compacted s tier))"

definition manual_failure :: "uuid \<Rightarrow> string \<Rightarrow> 'a act" where
  "manual_failure sid message =
     bindA (modifyA (\<lambda>w. w\<lparr>as_failures := note_compaction_failure sid (as_failures w)\<rparr>)) (\<lambda>_.
     errA (ErHistory (lit message)))"

definition manual_summary :: "agent_service \<Rightarrow> outside \<Rightarrow> manual_env \<Rightarrow> history_segment list \<Rightarrow> lease
    \<Rightarrow> compaction_result act" where
  "manual_summary S X M fitting l =
     (let s = me_snapshot M; sid = sn_session_id s;
          (retain_from, source) = compaction_source fitting (me_boundary M) (profile_compaction (me_profile M))
      in bindA (summarize_history S X s source l) (\<lambda>outcome.
         case outcome of
           None \<Rightarrow> manual_failure sid ''manual compaction summary request failed''
         | Some summary \<Rightarrow>
             let messages = assemble_request (me_system M) (Some summary) (drop (me_boundary M) fitting)
                   (me_volatile M) None
             in if \<not> is_ok (enforce_budget (ag_wire S) messages (profile_history_policy (me_profile M)))
                then manual_failure sid ''manual compaction summary exceeds the exact request budget''
                else
                bindA (modifyA (\<lambda>w. w\<lparr>as_failures := note_compaction_success sid (as_failures w)\<rparr>)) (\<lambda>_.
                manual_append S X M (Summarized messages
                  \<lparr>su_through_sequence = through_sequence (take (me_boundary M) fitting),
                   su_retain_from_sequence = retain_from\<rparr> summary) TierSummarized l)))"

definition manual_compact :: "agent_service \<Rightarrow> outside \<Rightarrow> manual_env \<Rightarrow> history_segment list \<Rightarrow> lease
    \<Rightarrow> compaction_result act" where
  "manual_compact S X M segments l =
     (if cp_strategy (profile_compaction (me_profile M)) \<noteq> ElideToolResultsThenSummarize
      then manual_summary S X M segments l
      else case elide_prefix (ag_lib S) segments (me_boundary M) of (elided, sequences) \<Rightarrow>
        let messages = assemble_request (me_system M) None elided (me_volatile M) None in
        if sequences \<noteq> [] \<and> is_ok (enforce_budget (ag_wire S) messages (profile_history_policy (me_profile M)))
        then manual_append S X M (Elided messages sequences) TierElided l
        else manual_summary S X M elided l)"

definition compact_session :: "agent_service \<Rightarrow> outside \<Rightarrow> uuid \<Rightarrow> compaction_result act" where
  "compact_session S X sid =
     bindA (load_full S sid) (\<lambda>s.
     if sn_lifecycle s \<noteq> LcReady then errA ErInvalidState
     else if sn_turns s = [] then retA (manual_idle s IdleEmpty)
     else
     bindA (liftA (resolved_profile S (sn_binding s))) (\<lambda>h.
     bindA (liftA (build_system_head (ag_lib S) h)) (\<lambda>system.
     bindA (liftA (history_budget (profile_history_policy h))) (\<lambda>budget.
     if cp_strategy (profile_compaction h) = CsOff then retA (manual_idle s IdleDisabled)
     else
     bindA (context_bundle_of S (sn_focus s) (hp_context_cap_bytes (profile_history_policy h))) (\<lambda>bundle.
     let segments = scan_history_segments s in
     if segments = [] then retA (manual_idle s IdleEmpty)
     else
     bindA (readA (\<lambda>w. compaction_breaker_tripped (as_failures w) sid)) (\<lambda>tripped.
     if tripped then retA (manual_idle s IdleBreakerTripped)
     else
     bindA (liftA (proactive_retain_boundary (ag_wire S) segments budget
       (cp_retain_ratio (profile_compaction h)) 0)) (\<lambda>cut.
     case cut of
       None \<Rightarrow> retA (manual_idle s IdleNothingToCompress)
     | Some boundary \<Rightarrow>
         if list_all hs_from_summary (take boundary segments) then retA (manual_idle s IdleNothingToCompress)
         else
         bindA (acquire_authority S X sid) (\<lambda>l.
         guarded S X l (manual_compact S X \<lparr>me_snapshot = s, me_turn = last (sn_turns s), me_profile = h,
           me_system = system, me_volatile = build_volatile_turn_context bundle None,
           me_boundary = boundary\<rparr> segments l)))))))))"

end
