(* ===== verification/Agent_Moves.thy ===== *)
theory Agent_Moves
  imports Agent_Session Store_Properties
begin

text \<open>
  How the actions of the agent move the world of the engine: by operations of the store, by
  syncs and reads of the conversation files, by executing an effect that was just recorded as
  started, and by what other tasks do while an action waits. The rules for sequencing are
  proved once, for every reflexive and transitive relation.
\<close>

named_theorems act_intros \<open>introduction rules that walk an action\<close>

definition moves :: "(engine_world \<Rightarrow> engine_world \<Rightarrow> bool) \<Rightarrow> 'a act \<Rightarrow> bool" where
  "moves Q m \<longleftrightarrow> (\<forall>w. Q (as_world w) (as_world (snd (m w))))"

definition served :: "(engine_world \<Rightarrow> engine_world \<Rightarrow> bool)
    \<Rightarrow> (engine_world \<Rightarrow> 'a \<times> engine_world) \<Rightarrow> bool" where
  "served Q f \<longleftrightarrow> (\<forall>e. Q e (snd (f e)))"

subsection \<open>Case distinctions\<close>

lemma moves_option [act_intros]:
  "moves Q a \<Longrightarrow> (\<And>y. moves Q (b y)) \<Longrightarrow> moves Q (case x of None \<Rightarrow> a | Some y \<Rightarrow> b y)"
  by (cases x) auto

lemma moves_sum [act_intros]:
  "(\<And>y. moves Q (a y)) \<Longrightarrow> (\<And>y. moves Q (b y)) \<Longrightarrow> moves Q (case x of Inl y \<Rightarrow> a y | Inr y \<Rightarrow> b y)"
  by (cases x) auto

lemma moves_prod [act_intros]: "(\<And>y z. moves Q (a y z)) \<Longrightarrow> moves Q (case x of (y, z) \<Rightarrow> a y z)"
  by (cases x) auto

lemma moves_if [act_intros]: "(c \<Longrightarrow> moves Q a) \<Longrightarrow> (\<not> c \<Longrightarrow> moves Q b) \<Longrightarrow> moves Q (if c then a else b)"
  by auto

lemma moves_let [act_intros]: "moves Q (f x) \<Longrightarrow> moves Q (Let x f)"
  by (simp add: Let_def)

lemma moves_outcome [act_intros]:
  "(\<And>s. moves Q (a s)) \<Longrightarrow> (\<And>s. moves Q (b s)) \<Longrightarrow> moves Q (case x of Created s \<Rightarrow> a s | Replayed s \<Rightarrow> b s)"
  by (cases x) auto

lemma moves_batch [act_intros]:
  "(\<And>s ms. moves Q (a s ms)) \<Longrightarrow> (\<And>s. moves Q (b s))
     \<Longrightarrow> moves Q (case x of BatchCompleted s ms \<Rightarrow> a s ms | BatchParked s \<Rightarrow> b s)"
  by (cases x) auto

lemma moves_flow [act_intros]:
  "(\<And>s ms. moves Q (a s ms)) \<Longrightarrow> (\<And>s ms. moves Q (b s ms)) \<Longrightarrow> (\<And>s. moves Q (c s))
     \<Longrightarrow> moves Q (case x of FlowContinue s ms \<Rightarrow> a s ms | FlowRecovered s ms \<Rightarrow> b s ms | FlowDone s \<Rightarrow> c s)"
  by (cases x) auto

lemma moves_execution [act_intros]:
  "(\<And>e. moves Q (a e)) \<Longrightarrow> (\<And>e. moves Q (b e)) \<Longrightarrow> moves Q (case x of Certified e \<Rightarrow> a e | Uncertain e \<Rightarrow> b e)"
  by (cases x) auto

lemma moves_nat [act_intros]:
  "moves Q a \<Longrightarrow> (\<And>n. moves Q (b n)) \<Longrightarrow> moves Q (case x of 0 \<Rightarrow> a | Suc n \<Rightarrow> b n)"
  by (cases x) auto

lemmas case_intros = act_intros

subsection \<open>Interface: what actions may do to the world\<close>

locale engine_order =
  fixes Q :: "engine_world \<Rightarrow> engine_world \<Rightarrow> bool"
  assumes refl: "Q e e"
    and trans: "Q a b \<Longrightarrow> Q b c \<Longrightarrow> Q a c"
begin

lemma ret: "moves Q (retA x)"
  by (simp add: moves_def retA_def refl)

lemma err: "moves Q (errA e)"
  by (simp add: moves_def errA_def refl)

lemma lift: "moves Q (liftA r)"
  by (simp add: moves_def liftA_def refl)

lemma reads: "moves Q (readA f)"
  by (simp add: moves_def readA_def refl)

lemma bind: "moves Q m \<Longrightarrow> (\<And>x. moves Q (f x)) \<Longrightarrow> moves Q (bindA m f)"
  by (auto simp: moves_def bindA_def split: prod.splits sum.splits)
    (metis snd_conv trans)+

lemma tries: "moves Q m \<Longrightarrow> moves Q (tryA m)"
  by (auto simp: moves_def tryA_def split: prod.splits) (metis snd_conv)

lemma tick: "(\<And>n. moves Q (f n)) \<Longrightarrow> moves Q (tickA f)"
  by (simp add: moves_def tickA_def) (metis agent.select_convs(1) agent.surjective agent.update_convs(7))

lemma modify: "(\<And>w. as_world (f w) = as_world w) \<Longrightarrow> moves Q (modifyA f)"
  by (simp add: moves_def modifyA_def refl)

lemma engine: "served Q f \<Longrightarrow> moves Q (engineA f)"
  by (simp add: moves_def served_def engineA_def split: prod.split) (metis snd_conv)

lemma query: "moves Q (queryA f)"
  by (simp add: moves_def queryA_def engineA_def refl)

lemmas order_intros = ret err lift reads bind tries tick query

end

subsection \<open>The moves of the engine\<close>

inductive engine_move :: "agent_service \<Rightarrow> outside \<Rightarrow> engine_world \<Rightarrow> engine_world \<Rightarrow> bool" for S X where
  Stored: "store_step (ag_lib S) (ew_db e) op = Inr d \<Longrightarrow> \<not> acknowledges op
    \<Longrightarrow> engine_move S X e (e\<lparr>ew_db := d\<rparr>)"
| Synced: "sync_session_conversation (ag_lib S) (en_serde (ag_engine S)) (en_store (ag_engine S))
      (en_root (ag_engine S)) sid (ew_log e) (ew_db e) = (lg, r)
    \<Longrightarrow> engine_move S X e (e\<lparr>ew_log := lg, ew_db := (case r of Inl _ \<Rightarrow> ew_db e | Inr d \<Rightarrow> d)\<rparr>)"
| ReadBack: "en_store (ag_engine S) = Some cs
    \<Longrightarrow> conversation_read (ag_lib S) (en_serde (ag_engine S)) cs sid (ew_log e) = (lg, r)
    \<Longrightarrow> engine_move S X e (e\<lparr>ew_log := lg\<rparr>)"
| Worked: "start_session_effect (ag_engine S) samples ids q eid digest l now e0 = (Inr st, e)
    \<Longrightarrow> execute_started_session_effect (ag_engine S) C st l (ew_tools e) = (r, tw)
    \<Longrightarrow> engine_move S X e (e\<lparr>ew_tools := tw\<rparr>)"
| Others: "engine_move S X (as_world w) (as_world (ou_others X n w))"

abbreviation engine_run :: "agent_service \<Rightarrow> outside \<Rightarrow> engine_world \<Rightarrow> engine_world \<Rightarrow> bool" where
  "engine_run S X \<equiv> (engine_move S X)\<^sup>*\<^sup>*"

interpretation run: engine_order "engine_run S X" for S X
  by unfold_locales auto

declare run.order_intros [act_intros]

lemma run_step: "engine_run S X a b \<Longrightarrow> engine_move S X b c \<Longrightarrow> engine_run S X a c"
  by (rule rtranclp.rtrancl_into_rtrancl)

lemma others_moves [act_intros]: "moves (engine_run S X) (othersA X)"
  unfolding othersA_def
  by (rule run.tick) (auto simp: moves_def modifyA_def intro: Others)

subsection \<open>Engine operations\<close>

lemma sync_refused:
  "sync_session_conversation (ag_lib S) (en_serde (ag_engine S)) st (en_root (ag_engine S)) sid (ew_log e) (ew_db e)
      = (lg, Inl err)
    \<Longrightarrow> en_store (ag_engine S) = st \<Longrightarrow> engine_run S X e (e\<lparr>ew_log := lg\<rparr>)"
  using Synced [of S sid e lg "Inl err" X] by auto

lemma sync_done:
  "sync_session_conversation (ag_lib S) (en_serde (ag_engine S)) st (en_root (ag_engine S)) sid (ew_log e) (ew_db e)
      = (lg, Inr d)
    \<Longrightarrow> en_store (ag_engine S) = st \<Longrightarrow> engine_run S X e (e\<lparr>ew_log := lg, ew_db := d\<rparr>)"
  using Synced [of S sid e lg "Inr d" X] by auto

lemma sync_read:
  assumes "sync_session_conversation (ag_lib S) (en_serde (ag_engine S)) st (en_root (ag_engine S)) sid
      (ew_log e) (ew_db e) = (lg, Inr d)"
    and "en_store (ag_engine S) = st" and "st = Some cs"
    and "conversation_read (ag_lib S) (en_serde (ag_engine S)) cs sid lg = (lg', r)"
  shows "engine_run S X e (e\<lparr>ew_log := lg', ew_db := d\<rparr>)"
proof -
  have "engine_move S X (e\<lparr>ew_log := lg, ew_db := d\<rparr>) (e\<lparr>ew_log := lg, ew_db := d\<rparr>\<lparr>ew_log := lg'\<rparr>)"
    by (rule ReadBack) (use assms in simp_all)
  moreover have "e\<lparr>ew_log := lg, ew_db := d\<rparr>\<lparr>ew_log := lg'\<rparr> = e\<lparr>ew_log := lg', ew_db := d\<rparr>"
    by (rule engine_world.equality) simp_all
  ultimately have "engine_move S X (e\<lparr>ew_log := lg, ew_db := d\<rparr>) (e\<lparr>ew_log := lg', ew_db := d\<rparr>)"
    by simp
  with sync_done [OF assms(1,2)] show ?thesis by (rule run_step)
qed

lemma projection_served: "served (engine_run S X) (snapshot_projection (ag_engine S) sid limit)"
  by (auto simp: served_def snapshot_projection_def Let_def split: sum.splits option.splits prod.splits
    intro: sync_refused sync_read)

lemma finish_served: "served (engine_run S X) (finish_session_response (ag_engine S) resp)"
  unfolding served_def
proof (intro allI)
  fix e :: engine_world
  obtain lg r where sync: "sync_session_conversation (ag_lib S) (en_serde (ag_engine S)) (en_store (ag_engine S))
      (en_root (ag_engine S)) (sn_session_id (rs_snapshot resp)) (ew_log e) (ew_db e) = (lg, r)" by force
  show "engine_run S X e (snd (finish_session_response (ag_engine S) resp e))"
  proof (cases r)
    case (Inl err)
    with sync sync_refused [of S _ _ e lg err X, OF _ HOL.refl] show ?thesis
      by (simp add: finish_session_response_def Let_def)
  next
    case (Inr d)
    let ?e = "e\<lparr>ew_log := lg, ew_db := d\<rparr>"
    have "engine_run S X e ?e"
      using sync_done [OF _ HOL.refl, of S _ e lg d X] sync Inr by simp
    moreover have "engine_run S X ?e (snd (snapshot_projection (ag_engine S) (sn_session_id (rs_snapshot resp)) 500 ?e))"
      using projection_served unfolding served_def by blast
    ultimately show ?thesis
      using sync Inr by (simp add: finish_session_response_def Let_def split: prod.split) (metis run.trans snd_conv)
  qed
qed

lemma stored_moves:
  "store_step (ag_lib S) (ew_db e) op = Inr d \<Longrightarrow> \<not> acknowledges op \<Longrightarrow> engine_run S X e (e\<lparr>ew_db := d\<rparr>)"
  by (blast intro: Stored)

lemma stored_finished:
  assumes "store_step (ag_lib S) (ew_db e) op = Inr d" and "\<not> acknowledges op"
  shows "engine_run S X e (snd (finish_session_response (ag_engine S) resp (e\<lparr>ew_db := d\<rparr>)))"
  using stored_moves [OF assms] finish_served [of S X resp, unfolded served_def] run.trans by blast

lemma acknowledges_simps [simp]:
  "\<not> acknowledges (OpCreate ids cid sid t b rt prompt m lo now focus)"
  "\<not> acknowledges (OpFollowUp ids cid sid t expected prompt m lo now)"
  "\<not> acknowledges (OpCommit ids rq l now)" "\<not> acknowledges (OpSwitch ids sid expected b l now)"
  "\<not> acknowledges (OpEvidence t expected l vid metadata blob now)"
  "\<not> acknowledges (OpAcquire scope owner turn now ttl)" "\<not> acknowledges (OpRenew l now ttl)"
  "\<not> acknowledges (OpRelease ids l now)" "\<not> acknowledges (OpRecoverSession ids sid t l expected now)"
  by (simp_all add: acknowledges_def)

lemma commit_served: "served (engine_run S X) (engine_commit (ag_engine S) samples ids rq l now)"
  unfolding served_def engine_commit_def
  by (auto split: sum.split intro!: stored_finished [where op = "OpCommit ids rq l now"])

lemma commit_snapshot_served: "served (engine_run S X) (commit_snapshot (ag_engine S) samples ids rq l now)"
  using commit_served [of S X samples ids rq l now]
  by (auto simp: served_def commit_snapshot_def split: prod.split) (metis snd_conv)

lemma transaction_served:
  assumes "\<And>d e x. f d = Inr (e, x) \<Longrightarrow> \<exists>op. store_step (ag_lib S) d op = Inr e \<and> \<not> acknowledges op"
  shows "served (engine_run S X) (transaction f)"
  unfolding served_def transaction_def
  by (auto split: sum.split dest: assms intro: stored_moves)

lemma acquire_served:
  "served (engine_run S X) (transaction (\<lambda>d. acquire_session_lease (ag_lib S) ids d sid now ttl))"
  by (rule transaction_served) (auto simp: acquire_session_lease_def
    intro!: exI [of _ "OpAcquire (session_lease_scope (ag_lib S) sid)
      (lit ''session-'' @ uuid_text (ag_lib S) sid @ lit ''-'' @ uuid_text (ag_lib S) (ids 0)) None now ttl"])

lemma renew_served: "served (engine_run S X) (transaction (\<lambda>d. renew_lease d l now ttl))"
  by (rule transaction_served) (auto intro!: exI [of _ "OpRenew l now ttl"])

lemma evidence_op:
  "record_session_verification (ag_engine S) samples t expected eid out l now d = Inr e
    \<Longrightarrow> \<exists>op. store_step (ag_lib S) d op = Inr e \<and> \<not> acknowledges op"
  by (auto simp: record_session_verification_def Let_def intro: exI [of _ "OpEvidence t expected l eid v None now" for v])

lemma evidence_served:
  "served (engine_run S X) (transaction (\<lambda>d. bindE
     (record_session_verification (ag_engine S) samples t expected eid out l now d) (\<lambda>d. Inr (d, ()))))"
  by (rule transaction_served) (auto dest: evidence_op)

lemma create_op:
  "create_session_v2_inner L ids d cid sid t b rt prompt m lo now focus = Inr (e, x)
    \<Longrightarrow> \<exists>op. store_step L d op = Inr e \<and> \<not> acknowledges op"
  by (rule exI [of _ "OpCreate ids cid sid t b rt prompt m lo now focus"]) simp

lemma created_served:
  "served (engine_run S X) (engine_create_started (ag_engine S) samples ids c sid t b prompt l now focus)"
  unfolding engine_create_started_def
  by (rule transaction_served) (auto simp: create_started_session_v2_def split: prod.splits dest: create_op)

lemma follow_up_op:
  "create_session_follow_up_v2_inner L ids d cid sid t expected prompt m lo now = Inr (e, x)
    \<Longrightarrow> \<exists>op. store_step L d op = Inr e \<and> \<not> acknowledges op"
  by (rule exI [of _ "OpFollowUp ids cid sid t expected prompt m lo now"]) simp

lemma ran_finished:
  "\<exists>op. store_step (ag_lib S) (ew_db e) op = Inr d \<and> \<not> acknowledges op
    \<Longrightarrow> finish_session_response (ag_engine S) resp (e\<lparr>ew_db := d\<rparr>) = (r, w) \<Longrightarrow> engine_run S X e w"
  using stored_finished [of S e _ d X resp] by auto

lemma ran_moves:
  "\<exists>op. store_step (ag_lib S) (ew_db e) op = Inr d \<and> \<not> acknowledges op \<Longrightarrow> engine_run S X e (e\<lparr>ew_db := d\<rparr>)"
  by (blast intro: stored_moves)

lemma follow_up_served:
  "served (engine_run S X) (engine_follow_up_started (ag_engine S) samples ids cid sid t expected prompt l now)"
  unfolding served_def engine_follow_up_started_def
  by (auto split: sum.split prod.split create_outcome.split option.split
    intro: ran_finished [OF follow_up_op] ran_moves [OF follow_up_op])

lemma switched_served:
  "served (engine_run S X) (engine_switch_binding (ag_engine S) ids sid expected b l now)"
  unfolding served_def engine_switch_binding_def
  by (auto split: sum.split prod.split
    intro!: ran_finished [OF exI [of _ "OpSwitch ids sid expected b l now"]])

lemma released_served: "served (engine_run S X) (engine_release_lease (ag_engine S) ids l now)"
  unfolding served_def engine_release_lease_def
  by (auto split: sum.split prod.split option.split
    intro!: ran_finished [OF exI [of _ "OpRelease ids l now"]] ran_moves [OF exI [of _ "OpRelease ids l now"]])

lemma paged_served: "served (engine_run S X) (snapshot_paged (ag_engine S) sid after limit)"
  unfolding served_def snapshot_paged_def conversation_page_def
  by (auto split: sum.splits prod.splits option.splits intro: sync_refused sync_read)

lemma tail_served: "served (engine_run S X) (snapshot_tail (ag_engine S) sid limit)"
  unfolding served_def snapshot_tail_def conversation_page_def
  by (auto split: sum.splits prod.splits option.splits intro: sync_refused sync_read)

lemma recover_op:
  "recover_session_after_lease_loss L ids d sid t l expected now = Inr (e, x)
    \<Longrightarrow> \<exists>op. store_step L d op = Inr e \<and> \<not> acknowledges op"
  by (rule exI [of _ "OpRecoverSession ids sid t l expected now"]) simp

lemma ran_synced:
  assumes "engine_run S X e (e\<lparr>ew_db := d\<rparr>)"
    and sync: "sync_session_conversation (ag_lib S) (en_serde (ag_engine S)) (en_store (ag_engine S))
      (en_root (ag_engine S)) sid (ew_log e) d = (lg, r)"
  shows "engine_run S X e (e\<lparr>ew_log := lg, ew_db := (case r of Inl _ \<Rightarrow> d | Inr d' \<Rightarrow> d')\<rparr>)"
proof -
  let ?e = "e\<lparr>ew_db := d\<rparr>"
  have "engine_move S X ?e (?e\<lparr>ew_log := lg, ew_db := (case r of Inl _ \<Rightarrow> ew_db ?e | Inr d' \<Rightarrow> d')\<rparr>)"
    by (rule Synced) (use sync in simp)
  moreover have "?e\<lparr>ew_log := lg, ew_db := (case r of Inl _ \<Rightarrow> ew_db ?e | Inr d' \<Rightarrow> d')\<rparr>
      = e\<lparr>ew_log := lg, ew_db := (case r of Inl _ \<Rightarrow> d | Inr d' \<Rightarrow> d')\<rparr>"
    by (rule engine_world.equality) (simp_all split: sum.split)
  ultimately show ?thesis
    using assms(1) run_step by metis
qed

lemma recover_served:
  "served (engine_run S X) (engine_recover_after_loss (ag_engine S) ids sid t l expected now)"
proof -
  have "engine_run S X e (snd (engine_recover_after_loss (ag_engine S) ids sid t l expected now e))" for e
  proof (cases "bindE (ensure_session_lease (ag_lib S) sid l) (\<lambda>_.
           recover_session_after_lease_loss (ag_lib S) ids (ew_db e) sid t l expected now)")
    case (Inl err)
    then show ?thesis by (simp add: engine_recover_after_loss_def)
  next
    case (Inr y)
    then obtain d x where y: "y = (d, x)" "recover_session_after_lease_loss (ag_lib S) ids (ew_db e) sid t l expected now = Inr (d, x)"
      by (cases y) auto
    from ran_moves [OF recover_op [OF y(2)]] have op: "engine_run S X e (e\<lparr>ew_db := d\<rparr>)" .
    show ?thesis
      using Inr y op
      by (auto simp: engine_recover_after_loss_def split: session_lease_loss_recovery.split prod.split sum.split
        dest: ran_synced [OF op])
  qed
  then show ?thesis by (simp add: served_def)
qed

lemma complete_verified_served:
  "served (engine_run S X) (complete_session_verified (ag_engine S) samples ids command s summary eid l now)"
  using commit_snapshot_served unfolding served_def complete_session_verified_def Let_def
  by (auto split: sum.split)

lemma prepare_served:
  "served (engine_run S X) (prepare_session_effect (ag_engine S) samples ids q d l now)"
  using commit_served unfolding served_def prepare_session_effect_def
  by (auto simp: Let_def split: sum.split prod.split) (metis snd_conv)+

lemma resolve_served:
  "served (engine_run S X) (resolve_session_effect_permission (ag_engine S) samples ids q i allow l now)"
  using commit_snapshot_served unfolding served_def resolve_session_effect_permission_def
  by (auto split: sum.split)

lemma start_served:
  "served (engine_run S X) (start_session_effect (ag_engine S) samples ids q eid digest l now)"
  using commit_served unfolding served_def start_session_effect_def
  by (auto split: sum.split prod.split) (metis snd_conv)+

lemma observe_served:
  "served (engine_run S X) (observe_session_effect (ag_engine S) samples ids st key command v l now)"
  using commit_served unfolding served_def observe_session_effect_def
  by (auto split: sum.split prod.split) (metis snd_conv)+

lemma unknown_served:
  "served (engine_run S X) (mark_session_effect_unknown (ag_engine S) samples ids st key command l now)"
  using commit_snapshot_served unfolding served_def mark_session_effect_unknown_def
  by (auto split: sum.split)

lemma reconcile_served:
  "served (engine_run S X) (reconcile_session_effect_unknown (ag_engine S) samples ids q eid l now)"
  using commit_snapshot_served unfolding served_def reconcile_session_effect_unknown_def by blast

lemmas engine_served = commit_served commit_snapshot_served acquire_served renew_served evidence_served created_served
  follow_up_served switched_served released_served paged_served tail_served recover_served complete_verified_served
  prepare_served resolve_served start_served observe_served unknown_served reconcile_served

subsection \<open>Actions\<close>

lemmas engine_acts = engine_served [THEN run.engine]

lemma store_acts:
  "moves (engine_run S X) (storeA (\<lambda>d. acquire_session_lease (ag_lib S) ids d sid now ttl))"
  "moves (engine_run S X) (storeA (\<lambda>d. renew_lease d l now ttl))"
  "moves (engine_run S X) (storeA (\<lambda>d. bindE
     (record_session_verification (ag_engine S) samples t expected eid out l now d) (\<lambda>d. Inr (d, ()))))"
  unfolding storeA_def by (intro engine_acts)+

lemma modify_acts [act_intros]:
  "moves (engine_run S X) (modifyA (\<lambda>w. w\<lparr>as_active := f w\<rparr>))"
  "moves (engine_run S X) (modifyA (\<lambda>w. w\<lparr>as_failures := g w\<rparr>))"
  "moves (engine_run S X) (modifyA (\<lambda>w. w\<lparr>as_accept := h w\<rparr>))"
  "moves (engine_run S X) (modifyA (\<lambda>w. w\<lparr>as_reminders := k w\<rparr>))"
  "moves (engine_run S X) (modifyA (set_mailbox sid q))"
  by (rule run.modify, simp add: set_mailbox_def)+

declare engine_acts [act_intros] store_acts [act_intros]

lemma load_pages_acts [act_intros]: "moves (engine_run S X) (load_pages (ag_engine S) sid n s)"
  by (induction n arbitrary: s) (auto intro!: act_intros)

lemma load_full_acts [act_intros]: "moves (engine_run S X) (load_full S sid)"
  unfolding load_full_def by (intro act_intros)

lemma commit_acts [act_intros]: "moves (engine_run S X) (agent_commit S X sid t r tr u l)"
  unfolding agent_commit_def by (intro act_intros)

lemma fail_acts [act_intros]: "moves (engine_run S X) (fail_with_retryability S X again sid t r tr msg l)"
  unfolding fail_with_retryability_def by (intro act_intros)

lemma acquire_acts [act_intros]:
  "moves (engine_run S X) (acquire_with_ttl S X sid ttl)" "moves (engine_run S X) (acquire_authority S X sid)"
  unfolding acquire_authority_def acquire_with_ttl_def by (intro act_intros)+

lemma drop_acts [act_intros]: "moves (engine_run S X) (drop_lease S X l)"
  unfolding drop_lease_def by (intro act_intros)

lemma guarded_acts [act_intros]: "moves (engine_run S X) m \<Longrightarrow> moves (engine_run S X) (guarded S X l m)"
  unfolding guarded_def by (intro act_intros)

lemma heartbeats_acts [act_intros]: "moves (engine_run S X) (heartbeats S X l n)"
  by (induction n) (auto intro!: act_intros)

lemma recover_acts [act_intros]: "moves (engine_run S X) (recover_lease_loss S X s l phase)"
  unfolding recover_lease_loss_def by (intro act_intros)

lemma await_acts [act_intros]: "moves (engine_run S X) (await_holding S X s l phase)"
  unfolding await_holding_def by (intro act_intros)

lemma summarize_acts [act_intros]: "moves (engine_run S X) (summarize_history S X s source l)"
  unfolding summarize_history_def by (intro act_intros)

subsection \<open>Effects of a turn\<close>

definition still :: "'a act \<Rightarrow> bool" where
  "still m \<longleftrightarrow> (\<forall>w. as_world (snd (m w)) = as_world w)"

lemma still_ret [simp]: "still (retA x)"
  by (simp add: still_def retA_def)

lemma still_lift [simp]: "still (bindA (liftA r) (\<lambda>x. retA (f x)))"
  by (simp add: still_def bindA_def liftA_def retA_def split: sum.split)

lemma prepare_acts [act_intros]: "moves (engine_run S X) (prepare_effect S X s d key l)"
  unfolding prepare_effect_def by (intro act_intros)

lemma start_acts [act_intros]: "moves (engine_run S X) (start_effect S X s eid digest key l)"
  unfolding start_effect_def by (intro act_intros)

lemma observe_acts [act_intros]: "moves (engine_run S X) (observe_effect S X st what v l)"
  unfolding observe_effect_def by (intro act_intros)

lemma unknown_acts [act_intros]: "moves (engine_run S X) (mark_unknown S X st what l)"
  unfolding mark_unknown_def by (intro act_intros)

text \<open>The world right after the commit that started an effect.\<close>

definition just_started :: "agent_service \<Rightarrow> lease \<Rightarrow> effect_started \<Rightarrow> engine_world \<Rightarrow> bool" where
  "just_started S l st e \<longleftrightarrow> (\<exists>samples ids q eid digest now e0.
     start_session_effect (ag_engine S) samples ids q eid digest l now e0 = (Inr st, e))"

lemma started_world:
  assumes "start_effect S X s eid digest key l w = (Inr st, w')"
  shows "just_started S l st (as_world w')"
  using assms unfolding just_started_def start_effect_def tickA_def bindA_def liftA_def engineA_def
  by (auto split: sum.splits prod.splits simp: map_err_def) blast

lemma execute_runs:
  assumes "just_started S l st (as_world w)"
  shows "engine_run S X (as_world w) (as_world (snd (execute_and_observe_effect S X st l w)))"
proof -
  let ?n = "as_tick w" and ?w = "w\<lparr>as_tick := as_tick w + 1\<rparr>"
  obtain r tw where run: "execute_started_session_effect (ag_engine S) (ou_run X ?n) st l (ew_tools (as_world w)) = (r, tw)"
    by force
  let ?w' = "?w\<lparr>as_world := (as_world w)\<lparr>ew_tools := tw\<rparr>\<rparr>"
  obtain samples ids q eid digest now e0
    where start: "start_session_effect (ag_engine S) samples ids q eid digest l now e0 = (Inr st, as_world w)"
    using assms by (auto simp: just_started_def)
  have step: "engine_run S X (as_world w) (as_world ?w')"
    using Worked [OF start run, of X] by auto
  have "moves (engine_run S X) (bindA (await_holding S X (es_snapshot st) l ''started effect'') (\<lambda>_.
     if ou_cancelled X ?n then mark_unknown S X st '':cancelled-after-start'' l
     else case r of
       Inr v \<Rightarrow> observe_effect S X st '':observe'' (v\<lparr>ov_payload := Some (observed_payload st v)\<rparr>) l
     | Inl (Certified e) \<Rightarrow> observe_effect S X st '':observe-failed'' (certified_value (ag_lib S) st e) l
     | Inl (Uncertain e) \<Rightarrow> mark_unknown S X st '':unknown'' l))" (is "moves _ ?rest")
    by (intro act_intros)
  then have "engine_run S X (as_world ?w') (as_world (snd (?rest ?w')))"
    unfolding moves_def by blast
  moreover have "execute_and_observe_effect S X st l w = ?rest ?w'"
    using run by (simp add: execute_and_observe_effect_def tickA_def run_effect_def engineA_def map_err_def bindA_def)
  ultimately show ?thesis
    using run.trans [OF step] by simp
qed

text \<open>A start and what runs it, with an action in between that leaves the world as it is.\<close>

lemma started_acts:
  assumes pre: "\<And>st. still (pre st)" and rest: "\<And>st x s. moves (engine_run S X) (k st x s)"
  shows "moves (engine_run S X) (bindA (start_effect S X s eid digest key l) (\<lambda>st.
     bindA (pre st) (\<lambda>x. bindA (execute_and_observe_effect S X st l) (k st x))))"
  unfolding moves_def
proof
  fix w
  obtain r w1 where start: "start_effect S X s eid digest key l w = (r, w1)" by force
  have a: "engine_run S X (as_world w) (as_world w1)"
    using start_acts [of S X s eid digest key l] start unfolding moves_def by (metis snd_conv)
  show "engine_run S X (as_world w) (as_world (snd (bindA (start_effect S X s eid digest key l) (\<lambda>st.
     bindA (pre st) (\<lambda>x. bindA (execute_and_observe_effect S X st l) (k st x))) w)))"
  proof (cases r)
    case (Inl e)
    with start a show ?thesis by (simp add: bindA_def)
  next
    case (Inr st)
    obtain p w2 where p: "pre st w1 = (p, w2)" by force
    have same: "as_world w2 = as_world w1"
      using pre [of st] p unfolding still_def by (metis snd_conv)
    show ?thesis
    proof (cases p)
      case (Inl e)
      with start a Inr p same show ?thesis by (simp add: bindA_def)
    next
      case (Inr x)
      obtain o' w3 where exec: "execute_and_observe_effect S X st l w2 = (o', w3)" by force
      have "just_started S l st (as_world w2)"
        using started_world [of S X s eid digest key l w st w1] start \<open>r = Inr st\<close> same by simp
      from execute_runs [OF this, of X] exec same have b: "engine_run S X (as_world w1) (as_world w3)" by simp
      show ?thesis
      proof (cases o')
        case (Inl e)
        with start \<open>r = Inr st\<close> p Inr exec show ?thesis
          using run.trans [OF a b] by (simp add: bindA_def)
      next
        case (Inr s')
        have "engine_run S X (as_world w3) (as_world (snd (k st x s' w3)))"
          using rest unfolding moves_def by blast
        then show ?thesis
          using start \<open>r = Inr st\<close> p \<open>p = Inr x\<close> exec Inr run.trans [OF run.trans [OF a b]] by (simp add: bindA_def)
      qed
    qed
  qed
qed

lemma bind_ret: "bindA (retA x) f = f x"
  by (simp add: bindA_def retA_def)

lemma started_runs [act_intros]:
  assumes "\<And>st s. moves (engine_run S X) (k st s)"
  shows "moves (engine_run S X) (bindA (start_effect S X s eid digest key l) (\<lambda>st.
     bindA (execute_and_observe_effect S X st l) (k st)))"
  using started_acts [of "\<lambda>_. retA ()" S X "\<lambda>st _. k st" s eid digest key l] assms by (simp add: bind_ret)

subsection \<open>The turn\<close>

declare start_acts [act_intros del]

lemma call_acts [act_intros]: "moves (engine_run S X) (execute_call S X t r l current c)"
  unfolding execute_call_def by (intro act_intros)

lemma calls_acts [act_intros]: "moves (engine_run S X) (execute_calls S X t r l cs current ms)"
  by (induction cs arbitrary: current ms) (auto intro!: act_intros)

lemma batch_acts [act_intros]: "moves (engine_run S X) (execute_tool_batch S X current ms calls n r l)"
  unfolding execute_tool_batch_def by (intro act_intros)

lemma round_acts [act_intros]: "moves (engine_run S X) (handle_provider_tool_round S X s ms r l)"
  unfolding handle_provider_tool_round_def by (intro act_intros)

lemma finish_verification_acts [act_intros]: "moves (engine_run S X) (finish_verification S X s p l)"
  unfolding finish_verification_def by (intro act_intros)

lemma verification_acts [act_intros]: "moves (engine_run S X) (begin_verification S X s summary l)"
  unfolding begin_verification_def by (intro act_intros)

lemma append_acts [act_intros]: "moves (engine_run S X) (mt_append S X M key kind txt payload l)"
  unfolding mt_append_def by (intro act_intros)

lemma mid_summary_acts [act_intros]: "moves (engine_run S X) (mid_turn_summarize S X M segments l)"
  unfolding mid_turn_summarize_def by (intro act_intros)

lemma mid_elide_acts [act_intros]: "moves (engine_run S X) (mid_turn_elide S X M segments sequences l)"
  unfolding mid_turn_elide_def by (intro act_intros)

lemma mid_compact_acts [act_intros]: "moves (engine_run S X) (mid_turn_compact S X M segments l)"
  unfolding mid_turn_compact_def by (intro act_intros)

lemma maybe_compact_acts [act_intros]:
  "moves (engine_run S X) (maybe_compact_mid_turn S X s ms l forced volatile)"
  unfolding maybe_compact_mid_turn_def by (intro act_intros)

lemma done_acts [act_intros]: "moves (engine_run S X) m \<Longrightarrow> moves (engine_run S X) (done_with m)"
  unfolding done_with_def by (intro act_intros)

lemma step_acts [act_intros]:
  "moves (engine_run S X) (step_commit S X V u l)"
  "moves (engine_run S X) (step_fail S X V again r msg l)"
  unfolding step_commit_def step_fail_def by (intro act_intros)+

lemma failed_acts [act_intros]: "moves (engine_run S X) (provider_failed S X V e l)"
  unfolding provider_failed_def by (intro act_intros)

lemma answer_acts [act_intros]: "moves (engine_run S X) (handle_answer S X V answer l)"
proof -
  have "moves (engine_run S X) (recover_overflow S X V l)"
    unfolding recover_overflow_def by (intro act_intros)
  moreover have "moves (engine_run S X) (refuse_cut S X V r l)" for r
    unfolding refuse_cut_def by (intro act_intros)
  moreover have "moves (engine_run S X) (ask_input S X V i l)" for i
    unfolding ask_input_def by (intro act_intros)
  moreover have "moves (engine_run S X) (run_tools S X V r l)" for r
    unfolding run_tools_def by (intro act_intros)
  moreover have "moves (engine_run S X) (finish_answer S X V r l)" for r
    unfolding finish_answer_def by (intro act_intros)
  ultimately show ?thesis
    unfolding handle_answer_def
    by (auto split: sum.split provider_error.split option.split intro!: act_intros)
qed

lemma provider_step_acts [act_intros]: "moves (engine_run S X) (run_provider_step S X p s ms volatile l rounds retried)"
  unfolding run_provider_step_def by (intro act_intros)

lemma turn_loop_acts [act_intros]: "moves (engine_run S X) (turn_loop S X p volatile l n retried s ms)"
  by (induction n arbitrary: retried s ms) (auto intro!: act_intros)

lemma turn_acts [act_intros]: "moves (engine_run S X) (run_provider_turn S X p volatile l n s ms)"
  unfolding run_provider_turn_def by (intro act_intros)

subsection \<open>Sessions\<close>

lemma bindO_acts [act_intros]:
  "moves (engine_run S X) m \<Longrightarrow> (\<And>x. moves (engine_run S X) (f x)) \<Longrightarrow> moves (engine_run S X) (bindO m f)"
  unfolding bindO_def by (intro act_intros)

lemma some_acts [act_intros]: "moves (engine_run S X) m \<Longrightarrow> moves (engine_run S X) (someA m)"
  unfolding someA_def by (intro act_intros)

lemma signal_acts [act_intros]: "moves (engine_run S X) (signal_accept wanted v)"
  unfolding signal_accept_def by (intro act_intros)

lemma refusing_acts [act_intros]: "moves (engine_run S X) m \<Longrightarrow> moves (engine_run S X) (refusing wanted f m)"
  unfolding refusing_def by (intro act_intros)

lemma quiet_acts [act_intros]:
  "moves (engine_run S X) (context_bundle_of S focus cap)"
  "moves (engine_run S X) (take_armed sid)"
  "moves (engine_run S X) (begin_runner sid)"
  "moves (engine_run S X) (take_queue sid)"
  by (simp_all add: moves_def context_bundle_of_def take_armed_def begin_runner_def take_queue_def set_mailbox_def
      split: prod.split)

lemma runner_acts [act_intros]:
  "moves (engine_run S X) (ensure_runner sid)" "moves (engine_run S X) (drop_runner sid)"
  "moves (engine_run S X) (restore_armed sid r)"
  unfolding ensure_runner_def drop_runner_def restore_armed_def
  by (rule run.modify, simp add: set_mailbox_def split: option.split)+

lemma dropping_acts [act_intros]: "moves (engine_run S X) m \<Longrightarrow> moves (engine_run S X) (dropping sid m)"
  unfolding dropping_def by (intro act_intros)

lemma restoring_acts [act_intros]: "moves (engine_run S X) m \<Longrightarrow> moves (engine_run S X) (restoring sid r m)"
  unfolding restoring_def by (intro act_intros)

lemma bundle_acts [act_intros]: "moves (engine_run S X) (session_bundle S s)"
  unfolding session_bundle_def by (intro act_intros)

lemma history_acts [act_intros]: "moves (engine_run S X) (agent_prepare_history S X s prompt volatile)"
proof -
  have "moves (engine_run S X) (\<lambda>w. case prepare_history (ag_lib S) (ag_wire S) (ag_catalog S)
      (summarize_unleased S s n) (as_failures w) s prompt volatile of
       Inl e \<Rightarrow> (Inl e, w) | Inr (p, fc) \<Rightarrow> (Inr p, w\<lparr>as_failures := fc\<rparr>))" for n
    by (simp add: moves_def split: sum.split prod.split)
  then show ?thesis
    unfolding agent_prepare_history_def by (intro act_intros)
qed

lemma card_acts [act_intros]: "moves (engine_run S X) (append_prepared_history_card S X sid t s r prepared l key)"
  unfolding append_prepared_history_card_def by (intro act_intros)

lemma preflight_acts [act_intros]: "moves (engine_run S X) (preflight_first_turn S b prompt focus)"
  unfolding preflight_first_turn_def by (intro act_intros)

lemma fail_first_acts [act_intros]: "moves (engine_run S X) (fail_first_turn S X s t l msg)"
  unfolding fail_first_turn_def by (intro act_intros)

lemma created_acts [act_intros]: "moves (engine_run S X) m \<Longrightarrow> moves (engine_run S X) (created_turn m)"
  unfolding created_turn_def by (intro act_intros)

lemma first_turn_acts [act_intros]: "moves (engine_run S X) (first_turn S X n h bundle prompt s t l)"
  unfolding first_turn_def by (intro act_intros)

lemma start_fresh_acts [act_intros]:
  "moves (engine_run S X) (start_fresh S X n cid sid prompt b focus wanted h bundle)"
  unfolding start_fresh_def by (intro act_intros)

lemma start_one_acts [act_intros]: "moves (engine_run S X) (start_one S X n cid sid prompt b focus wanted)"
  unfolding start_one_def by (intro act_intros)

lemma tail_acts [act_intros]: "moves (engine_run S X) (engine_session_tail S sid)"
  unfolding engine_session_tail_def by (intro act_intros)

lemma follow_up_turn_acts [act_intros]: "moves (engine_run S X) (follow_up_turn S X n prepared volatile s t l)"
  unfolding follow_up_turn_def by (intro act_intros)

lemma follow_up_fresh_acts [act_intros]:
  "moves (engine_run S X) (follow_up_fresh S X n cid sid expected prompt wanted s)"
  unfolding follow_up_fresh_def by (intro act_intros)

lemma follow_up_one_acts [act_intros]:
  "moves (engine_run S X) (follow_up_one S X n cid sid expected prompt wanted)"
  unfolding follow_up_one_def by (intro act_intros)

lemma settled_acts [act_intros]: "moves (engine_run S X) (begin_when_settled S X sid k)"
  by (induction k) (auto intro!: act_intros)

lemma settle_acts [act_intros]: "moves (engine_run S X) (begin_runner_when_settled S X sid)"
  unfolding begin_runner_when_settled_def by (intro act_intros)

lemma audit_acts [act_intros]: "moves (engine_run S X) (audit_discarded_queue S X s q l)"
  unfolding audit_discarded_queue_def by (intro act_intros)

lemma terminal_acts [act_intros]: "moves (engine_run S X) (audit_terminal_discard S X s q)"
  unfolding audit_terminal_discard_def by (intro act_intros)

lemma set_mailbox_world [simp]: "as_world (set_mailbox sid q w) = as_world w"
  by (simp add: set_mailbox_def)

lemma moves_after: "moves Q m \<Longrightarrow> Q (as_world w) (as_world (snd (m (set_mailbox sid q w))))"
  unfolding moves_def by (metis set_mailbox_world)

lemma drain_acts [act_intros]: "moves (engine_run S X) (drain_mailbox S X n k s)"
proof (induction k arbitrary: s)
  case 0
  show ?case by (simp add: run.ret)
next
  case (Suc k)
  let ?rest = "\<lambda>prompt. bindO (dropping (sn_session_id s) (tickA (\<lambda>j.
    follow_up_one S X n (Some (ou_uuid X j)) (sn_session_id s) (sn_revision s) prompt False)))
      (\<lambda>r. drain_mailbox S X n k (settled_snapshot r))"
  have rest: "moves (engine_run S X) (?rest prompt)" for prompt
    by (intro act_intros Suc)
  have audit: "moves (engine_run S X) (someA (audit_terminal_discard S X s q))" for q
    by (intro act_intros)
  show ?case
    by (auto simp: moves_def retA_def Let_def split: option.split list.split
      intro: moves_after [OF rest] moves_after [OF audit])
qed

lemma queue_acts [act_intros]: "moves (engine_run S X) (queue_follow_up S sid prompt)"
proof -
  have "moves (engine_run S X) (\<lambda>w. case as_mailboxes w sid of
           None \<Rightarrow> (Inl ErInvalidState, w)
         | Some q \<Rightarrow> if length q \<ge> SESSION_MAILBOX_CAPACITY then (Inl ErMailboxFull, w)
             else (Inr (length q + 1), set_mailbox sid (Some (q @ [prompt])) w))"
    by (simp add: moves_def split: option.split)
  then show ?thesis
    unfolding queue_follow_up_def by (intro act_intros)
qed

lemma settle_outcome_acts [act_intros]: "moves (engine_run S X) (settle_outcome S X n k sid r)"
  unfolding settle_outcome_def by (intro act_intros)

lemma entry_acts [act_intros]:
  "moves (engine_run S X) (start_accepted S X n k sid cid prompt b focus)"
  "moves (engine_run S X) (start_session S X n k sid prompt b focus)"
  "moves (engine_run S X) (follow_up_accepted S X n k sid c expected prompt)"
  "moves (engine_run S X) (follow_up_session S X n k sid expected prompt)"
  unfolding start_accepted_def start_session_def follow_up_accepted_def follow_up_session_def
  by (intro act_intros)+

lemma input_acts [act_intros]: "moves (engine_run S X) (input_turn S X n s t r i v armed prepared volatile p l)"
  unfolding input_turn_def by (intro act_intros)

lemma provide_acts [act_intros]: "moves (engine_run S X) (provide_input S X n k sid es et i v)"
  unfolding provide_input_def by (intro act_intros)

lemma resume_acts [act_intros]: "moves (engine_run S X) (resume_round S X n s c p l)"
  unfolding resume_round_def by (intro act_intros)

lemma approved_acts [act_intros]: "moves (engine_run S X) (approved_effect S X n s t i p l)"
proof -
  have pre: "still (if v then retA None else bindA (liftA r) (\<lambda>x. retA (Some x)))" for v r
    by simp
  show ?thesis
    unfolding approved_effect_def Let_def by (intro act_intros started_acts pre)
qed

lemma resolve_run_acts [act_intros]: "moves (engine_run S X) (resolve_and_run S X n s t r i allow p l)"
  unfolding resolve_and_run_def by (intro act_intros)

lemma permission_acts [act_intros]: "moves (engine_run S X) (resolve_permission S X n k sid es et i allow)"
  unfolding resolve_permission_def by (intro act_intros)

lemma management_acts [act_intros]:
  "moves (engine_run S X) (reconcile_unknown_effect S X sid eid)"
  "moves (engine_run S X) (cancel_durable S X sid es et)"
  "moves (engine_run S X) (switch_model S X sid expected b)"
  unfolding reconcile_unknown_effect_def cancel_durable_def switch_model_def by (intro act_intros)+

lemma manual_append_acts [act_intros]: "moves (engine_run S X) (manual_append S X M prepared tier l)"
  unfolding manual_append_def by (intro act_intros)

lemma manual_failure_acts [act_intros]: "moves (engine_run S X) (manual_failure sid msg)"
  unfolding manual_failure_def by (intro act_intros)

lemma manual_summary_acts [act_intros]: "moves (engine_run S X) (manual_summary S X M segments l)"
  unfolding manual_summary_def by (intro act_intros)

lemma manual_acts [act_intros]: "moves (engine_run S X) (manual_compact S X M segments l)"
  unfolding manual_compact_def by (intro act_intros)

lemma compact_acts [act_intros]: "moves (engine_run S X) (compact_session S X sid)"
  unfolding compact_session_def by (intro act_intros)

end
