(* ===== verification/Agent_Requests.thy ===== *)
theory Agent_Requests
  imports Agent_Session
begin

text \<open>
  The requests of a turn: what a completed batch adds to them, what compaction between two
  requests rebuilds, and that nothing else is ever sent.
\<close>

named_theorems gives_intros \<open>what a successful action returns\<close>

definition gives :: "('a \<Rightarrow> bool) \<Rightarrow> 'a act \<Rightarrow> bool" where
  "gives P m \<longleftrightarrow> (\<forall>w x w'. m w = (Inr x, w') \<longrightarrow> P x)"

lemma gives_ret [gives_intros]: "P x \<Longrightarrow> gives P (retA x)"
  by (simp add: gives_def retA_def)

lemma gives_err [gives_intros]: "gives P (errA e)"
  by (simp add: gives_def errA_def)

lemma gives_lift: "(\<And>x. r = Inr x \<Longrightarrow> P x) \<Longrightarrow> gives P (liftA r)"
  by (simp add: gives_def liftA_def)

lemma gives_bind: "gives R m \<Longrightarrow> (\<And>x. R x \<Longrightarrow> gives P (f x)) \<Longrightarrow> gives P (bindA m f)"
  unfolding gives_def bindA_def by (fastforce split: prod.splits sum.splits)

lemma gives_any [gives_intros]: "(\<And>x. gives P (f x)) \<Longrightarrow> gives P (bindA m f)"
  by (auto simp: gives_def bindA_def split: prod.splits sum.splits)

lemma gives_bind_lift: "(\<And>x. r = Inr x \<Longrightarrow> gives P (f x)) \<Longrightarrow> gives P (bindA (liftA r) f)"
  by (rule gives_bind [where R = "\<lambda>x. r = Inr x"]) (auto intro: gives_lift)

lemma gives_tick [gives_intros]: "(\<And>n. gives P (f n)) \<Longrightarrow> gives P (tickA f)"
  by (simp add: gives_def tickA_def)

lemma gives_let [gives_intros]: "gives P (f x) \<Longrightarrow> gives P (Let x f)"
  by simp

lemma gives_if [gives_intros]: "(c \<Longrightarrow> gives P a) \<Longrightarrow> (\<not> c \<Longrightarrow> gives P b) \<Longrightarrow> gives P (if c then a else b)"
  by simp

lemma gives_option [gives_intros]:
  "(x = None \<Longrightarrow> gives P a) \<Longrightarrow> (\<And>y. x = Some y \<Longrightarrow> gives P (b y))
     \<Longrightarrow> gives P (case x of None \<Rightarrow> a | Some y \<Rightarrow> b y)"
  by (cases x) auto

lemma gives_prod [gives_intros]:
  "(\<And>y z. x = (y, z) \<Longrightarrow> gives P (a y z)) \<Longrightarrow> gives P (case x of (y, z) \<Rightarrow> a y z)"
  by (cases x) auto

lemma gives_sum [gives_intros]:
  "(\<And>y. x = Inl y \<Longrightarrow> gives P (a y)) \<Longrightarrow> (\<And>y. x = Inr y \<Longrightarrow> gives P (b y))
     \<Longrightarrow> gives P (case x of Inl y \<Rightarrow> a y | Inr y \<Rightarrow> b y)"
  by (cases x) auto

lemma gives_weaken: "gives P m \<Longrightarrow> (\<And>x. P x \<Longrightarrow> R x) \<Longrightarrow> gives R m"
  by (auto simp: gives_def)

subsection \<open>A completed batch\<close>

definition call_results :: "tool_call list \<Rightarrow> rstr list \<Rightarrow> message list" where
  "call_results calls results = map2 (\<lambda>c r. Tool (tc_id c) (Some (tc_name c)) r) calls results"

definition completed_with :: "message list \<Rightarrow> tool_call list \<Rightarrow> batch_outcome \<Rightarrow> bool" where
  "completed_with ms calls outcome \<longleftrightarrow> (\<forall>s ms'. outcome = BatchCompleted s ms' \<longrightarrow>
     (\<exists>results. length results = length calls \<and> ms' = ms @ call_results calls results))"

lemma completed_Nil: "completed_with ms [] (BatchCompleted s ms)"
  by (simp add: completed_with_def call_results_def)

lemma completed_parked: "completed_with ms calls (BatchParked s)"
  by (simp add: completed_with_def)

lemma completed_Cons:
  assumes "completed_with (ms @ [Tool (tc_id c) (Some (tc_name c)) r]) calls outcome"
  shows "completed_with ms (c # calls) outcome"
  unfolding completed_with_def
proof (intro allI impI)
  fix s ms' assume "outcome = BatchCompleted s ms'"
  with assms obtain results where "length results = length calls"
    "ms' = (ms @ [Tool (tc_id c) (Some (tc_name c)) r]) @ call_results calls results"
    by (auto simp: completed_with_def)
  then show "\<exists>results. length results = length (c # calls) \<and> ms' = ms @ call_results (c # calls) results"
    by (intro exI [of _ "r # results"]) (simp add: call_results_def)
qed

lemma execute_call_gives:
  "gives (\<lambda>r. \<forall>s m. r = Inr (s, m) \<longrightarrow> (\<exists>x. m = Tool (tc_id (snd c)) (Some (tc_name (snd c))) x))
     (execute_call S X t n l current c)"
  by (cases c) (auto simp: execute_call_def Let_def intro!: gives_intros)

lemma execute_calls_gives:
  "gives (completed_with ms (map snd cs)) (execute_calls S X t n l cs current ms)"
proof (induction cs arbitrary: current ms)
  case Nil
  show ?case by (simp add: completed_Nil gives_ret)
next
  case (Cons c cs)
  have "gives (completed_with ms (map snd (c # cs))) (case r of
       Inl halted \<Rightarrow> retA (BatchParked halted)
     | Inr (current, m) \<Rightarrow> execute_calls S X t n l cs current (ms @ [m]))"
    if r: "\<forall>s m. r = Inr (s, m) \<longrightarrow> (\<exists>x. m = Tool (tc_id (snd c)) (Some (tc_name (snd c))) x)" for r
  proof (cases r)
    case (Inl halted)
    then show ?thesis by (simp add: completed_parked gives_ret)
  next
    case (Inr y)
    obtain s x where y: "y = (s, Tool (tc_id (snd c)) (Some (tc_name (snd c))) x)"
      using r Inr by (cases y) auto
    have "gives (completed_with ms (snd c # map snd cs))
        (execute_calls S X t n l cs s (ms @ [Tool (tc_id (snd c)) (Some (tc_name (snd c))) x]))"
      by (rule gives_weaken [OF Cons.IH completed_Cons])
    then show ?thesis using Inr y by simp
  qed
  then show ?case
    by (auto intro: gives_bind [OF execute_call_gives])
qed

lemma batch_gives:
  "gives (completed_with ms (drop start calls)) (execute_tool_batch S X current ms calls start n l)"
proof -
  have "map snd (drop start (enumerate 0 calls)) = drop start calls"
    by (simp add: drop_map [symmetric])
  with execute_calls_gives [of ms "drop start (enumerate 0 calls)"] show ?thesis
    unfolding execute_tool_batch_def by (auto intro!: gives_intros)
qed

lemma round_gives:
  "gives (completed_with (ms @ [Assistant (pr_message r) (pr_tool_calls r)]) (pr_tool_calls r))
     (handle_provider_tool_round S X s ms r l)"
  using batch_gives [of "ms @ [Assistant (pr_message r) (pr_tool_calls r)]" 0 "pr_tool_calls r"]
  by (auto simp: handle_provider_tool_round_def Let_def intro!: gives_intros completed_parked)

lemma call_results_answer:
  "length results = length calls \<Longrightarrow> \<forall>c \<in> set calls. tc_id c \<in> ids \<Longrightarrow> tools_answer ids (call_results calls results)"
  by (induction calls results rule: list_induct2') (auto simp: call_results_def)

definition batch_legal :: "batch_outcome \<Rightarrow> bool" where
  "batch_legal outcome \<longleftrightarrow> (\<forall>s ms. outcome = BatchCompleted s ms \<longrightarrow> tools_answer {} ms)"

lemma completed_round_legal:
  assumes "tools_answer {} ms" and "completed_with (ms @ [Assistant c calls]) calls outcome"
  shows "batch_legal outcome"
  unfolding batch_legal_def
proof (intro allI impI)
  fix s ms' assume "outcome = BatchCompleted s ms'"
  with assms(2) obtain results where "length results = length calls"
    "ms' = (ms @ [Assistant c calls]) @ call_results calls results"
    unfolding completed_with_def by blast
  then show "tools_answer {} ms'"
    using assms(1) call_results_answer [of results calls] by (auto simp: tools_answer_append)
qed

lemma round_legal:
  "tools_answer {} ms \<Longrightarrow> gives batch_legal (handle_provider_tool_round S X s ms r l)"
  by (rule gives_weaken [OF round_gives completed_round_legal])

subsection \<open>Rebuilt requests\<close>

lemma mt_request_legal:
  assumes "mt_system M = System c" and "segments_ok segments" and "volatile_ok (mt_volatile M)"
  shows "tools_answer {} (mt_request M summary segments)"
proof -
  let ?open = "\<lambda>s. hs_turn_id s = Some (mt_turn M)"
  have "segments_ok (takeWhile (\<lambda>s. \<not> ?open s) segments)" "segments_ok (dropWhile (\<lambda>s. \<not> ?open s) segments)"
    using assms(2) by (auto simp: segments_ok_def dest: set_takeWhileD set_dropWhileD)
  then show ?thesis
    using assms(1,3)
    by (auto simp: mt_request_def assemble_mid_turn_request_def Let_def tools_answer_append summary_message_def
      volatile_ok_def opt_list_def segments_ok_answer tools_answer_users split: option.split)
qed

definition rebased_legal :: "rebased \<Rightarrow> bool" where
  "rebased_legal r \<longleftrightarrow> tools_answer {} (snd r)"

definition mid_turn_ok :: "mid_turn \<Rightarrow> bool" where
  "mid_turn_ok M \<longleftrightarrow> (\<exists>c. mt_system M = System c) \<and> volatile_ok (mt_volatile M) \<and> tools_answer {} (mt_messages M)"

lemma rebased_simps [simp]: "rebased_legal (s, ms) \<longleftrightarrow> tools_answer {} ms"
  by (simp add: rebased_legal_def)

lemma mid_turn_legal:
  assumes "mid_turn_ok M" and "segments_ok segments"
  shows "gives rebased_legal (mid_turn_summarize S X M segments l)"
    and "gives (\<lambda>r. \<forall>x. r = Some x \<longrightarrow> rebased_legal x) (mid_turn_elide S X M segments sequences l)"
proof -
  have request: "tools_answer {} (mt_request M summary (drop n segments))"
    "tools_answer {} (mt_request M summary segments)" for summary n
    using assms mt_request_legal segments_ok_drop by (auto simp: mid_turn_ok_def)
  have same: "tools_answer {} (mt_messages M)" using assms(1) by (simp add: mid_turn_ok_def)
  show "gives rebased_legal (mid_turn_summarize S X M segments l)"
    unfolding mid_turn_summarize_def Let_def
    by (intro gives_intros; simp add: request same)
  show "gives (\<lambda>r. \<forall>x. r = Some x \<longrightarrow> rebased_legal x) (mid_turn_elide S X M segments sequences l)"
    unfolding mid_turn_elide_def Let_def
    by (intro gives_intros; simp add: request)
qed

lemma mid_turn_compact_legal:
  assumes "mid_turn_ok M" and "segments_ok segments"
  shows "gives rebased_legal (mid_turn_compact S X M segments l)"
proof -
  have elided: "segments_ok (fst (elide_prefix (ag_lib S) segments (mt_boundary M)))"
    by (rule elide_prefix_ok [OF assms(2)])
  have "gives rebased_legal (case elide_prefix (ag_lib S) segments (mt_boundary M) of (elided, sequences) \<Rightarrow>
      bindA (mid_turn_elide S X M elided sequences l) (\<lambda>r.
        case r of Some x \<Rightarrow> retA x | None \<Rightarrow> mid_turn_summarize S X M elided l))"
    using elided by (cases "elide_prefix (ag_lib S) segments (mt_boundary M)")
      (auto intro!: gives_bind [OF mid_turn_legal(2) [OF assms(1)]] mid_turn_legal(1) [OF assms(1)]
        gives_ret split: option.split)
  then show ?thesis
    using mid_turn_legal(1) [OF assms] by (simp add: mid_turn_compact_def)
qed

lemma maybe_compact_legal:
  assumes "tools_answer {} ms" and "volatile_ok volatile"
  shows "gives rebased_legal (maybe_compact_mid_turn S X s ms l forced volatile)"
proof -
  have unchanged: "gives rebased_legal (retA (s, ms))"
    using assms(1) by (simp add: gives_ret)
  show ?thesis
    unfolding maybe_compact_mid_turn_def Let_def
    by (intro gives_intros gives_bind_lift unchanged mid_turn_compact_legal scan_history_segments_ok)
      (auto simp: mid_turn_ok_def assms volatile_filtered_ok dest: build_system_head_Inr)
qed

subsection \<open>The flow of a turn\<close>

definition flow_legal :: "round_flow \<Rightarrow> bool" where
  "flow_legal f \<longleftrightarrow> (case f of FlowContinue s ms \<Rightarrow> tools_answer {} ms | FlowRecovered s ms \<Rightarrow> tools_answer {} ms
     | FlowDone s \<Rightarrow> True)"

lemma done_legal: "gives flow_legal (done_with m)"
  by (simp add: done_with_def flow_legal_def gives_any gives_ret)

lemma recover_legal:
  assumes "tools_answer {} (te_messages V)" and "volatile_ok (te_volatile V)"
  shows "gives flow_legal (recover_overflow S X V l)"
  unfolding recover_overflow_def
  by (rule gives_bind [OF maybe_compact_legal [OF assms]])
    (auto intro!: done_legal gives_ret simp: flow_legal_def)

lemma run_tools_legal:
  assumes "tools_answer {} (te_messages V)"
  shows "gives flow_legal (run_tools S X V r l)"
proof -
  have "gives flow_legal (bindA (handle_provider_tool_round S X (te_snapshot V) (te_messages V) r l) (\<lambda>outcome.
        retA (case outcome of BatchCompleted s ms \<Rightarrow> FlowContinue s ms | BatchParked s \<Rightarrow> FlowDone s)))"
    by (rule gives_bind [OF round_legal [OF assms]])
      (auto simp: batch_legal_def flow_legal_def split: batch_outcome.split intro: gives_ret)
  then show ?thesis
    by (simp add: run_tools_def done_legal)
qed

lemma handle_answer_legal:
  assumes "tools_answer {} (te_messages V)" and "volatile_ok (te_volatile V)"
  shows "gives flow_legal (handle_answer S X V answer l)"
proof -
  have "gives flow_legal (refuse_cut S X V r l)" for r
    by (auto simp: refuse_cut_def Let_def split: option.split intro!: gives_any done_legal)
  moreover have "gives flow_legal (finish_answer S X V r l)" for r
    by (auto simp: finish_answer_def split: option.split intro!: gives_any done_legal)
  ultimately show ?thesis
    by (auto simp: handle_answer_def provider_failed_def ask_input_def recover_legal [OF assms]
      run_tools_legal [OF assms(1)] done_legal split: sum.split provider_error.split option.split)
qed

text \<open>
  What a turn may send: messages within the byte budget of the profile of some binding, in
  which every tool result answers a call that an assistant message before it made.
\<close>

definition turn_sendable :: "agent_service \<Rightarrow> provider_request \<Rightarrow> bool" where
  "turn_sendable S q \<longleftrightarrow> tools_answer {} (rq_messages q) \<and>
     (\<exists>b h. resolved_profile S b = Inr h
        \<and> is_ok (enforce_budget (ag_wire S) (rq_messages q) (profile_history_policy h)))"

definition agree_on_sendable :: "agent_service \<Rightarrow> provider \<Rightarrow> provider \<Rightarrow> bool" where
  "agree_on_sendable S p p' \<longleftrightarrow> (\<forall>n q. turn_sendable S q \<longrightarrow> p n q = p' n q)"

lemma bindA_cong: "m = m' \<Longrightarrow> (\<And>w x w'. m' w = (Inr x, w') \<Longrightarrow> f x = f' x) \<Longrightarrow> bindA m f = bindA m' f'"
  by (rule ext) (auto simp: bindA_def split: prod.split sum.split)

lemma step_same:
  assumes agree: "agree_on_sendable S p p'" and legal: "tools_answer {} ms"
  shows "run_provider_step S X p s ms volatile l rounds retried
    = run_provider_step S X p' s ms volatile l rounds retried"
proof -
  have same: "p n (step_request S s ms) = p' n (step_request S s ms)"
    if "resolved_profile S (sn_binding s) = Inr h"
      "enforce_budget (ag_wire S) ms (profile_history_policy h) = Inr y" for n h y
  proof -
    have "is_ok (enforce_budget (ag_wire S) ms (profile_history_policy h))" using that(2) by simp
    with that(1) legal have "turn_sendable S (step_request S s ms)"
      unfolding turn_sendable_def step_request_def by auto
    with agree show ?thesis by (simp add: agree_on_sendable_def)
  qed
  show ?thesis
    unfolding run_provider_step_def Let_def
    by (intro bindA_cong refl) (auto simp: liftA_def same split: sum.split)
qed

lemma step_legal:
  assumes "tools_answer {} ms" and "volatile_ok volatile"
  shows "gives flow_legal (run_provider_step S X p s ms volatile l rounds retried)"
  unfolding run_provider_step_def Let_def
  by (auto intro!: gives_any gives_tick done_legal handle_answer_legal assms split: sum.split)


definition strict_provider :: "agent_service \<Rightarrow> provider \<Rightarrow> provider" where
  "strict_provider S p = (\<lambda>n q. if turn_sendable S q then p n q else Inl PeTimeout)"


text \<open>
  A completed batch adds to the messages of the turn the assistant message with all its
  calls and then exactly one result for each call, in the order of the calls.
\<close>

lemma completed_rounds_answer_every_call:
  assumes "handle_provider_tool_round S X s ms r l w = (Inr (BatchCompleted s' ms'), w')"
  shows "\<exists>results. length results = length (pr_tool_calls r)
    \<and> ms' = ms @ Assistant (pr_message r) (pr_tool_calls r) # call_results (pr_tool_calls r) results"
proof -
  have "completed_with (ms @ [Assistant (pr_message r) (pr_tool_calls r)]) (pr_tool_calls r) (BatchCompleted s' ms')"
    using round_gives assms unfolding gives_def by blast
  then show ?thesis by (auto simp: completed_with_def)
qed

end
