(* ===== verification/Agent_Properties.thy ===== *)
theory Agent_Properties
  imports Agent_Moves Agent_Requests Effect_Properties Conversation_Sync History_Properties
begin

text \<open>
  What the operations of the session runtime guarantee of the store, the workspace and the
  turns they leave behind.
\<close>

subsection \<open>The runtime as a machine\<close>

datatype agent_op =
    AgStart uuid rstr session_provider_binding "rstr option"
  | AgStartAccepted uuid uuid rstr session_provider_binding "rstr option"
  | AgFollowUp uuid nat rstr
  | AgFollowUpAccepted uuid uuid nat rstr
  | AgQueue uuid rstr
  | AgInput uuid nat nat rstr rstr
  | AgPermission uuid nat nat rstr bool
  | AgReconcile uuid rstr
  | AgCancel uuid nat nat
  | AgSwitch uuid nat session_provider_binding
  | AgCompact uuid

text \<open>\<open>n\<close> bounds the requests of a turn, \<open>k\<close> the queued prompts that are taken.\<close>

fun agent_step :: "agent_service \<Rightarrow> outside \<Rightarrow> nat \<Rightarrow> nat \<Rightarrow> agent \<Rightarrow> agent_op \<Rightarrow> agent" where
  "agent_step S X n k w (AgStart sid prompt b focus) = snd (start_session S X n k sid prompt b focus w)"
| "agent_step S X n k w (AgStartAccepted sid c prompt b focus) = snd (start_accepted S X n k sid c prompt b focus w)"
| "agent_step S X n k w (AgFollowUp sid expected prompt) = snd (follow_up_session S X n k sid expected prompt w)"
| "agent_step S X n k w (AgFollowUpAccepted sid c expected prompt) =
     snd (follow_up_accepted S X n k sid c expected prompt w)"
| "agent_step S X n k w (AgQueue sid prompt) = snd (queue_follow_up S sid prompt w)"
| "agent_step S X n k w (AgInput sid es et i v) = snd (provide_input S X n k sid es et i v w)"
| "agent_step S X n k w (AgPermission sid es et i allow) = snd (resolve_permission S X n k sid es et i allow w)"
| "agent_step S X n k w (AgReconcile sid eid) = snd (reconcile_unknown_effect S X sid eid w)"
| "agent_step S X n k w (AgCancel sid es et) = snd (cancel_durable S X sid es et w)"
| "agent_step S X n k w (AgSwitch sid expected b) = snd (switch_model S X sid expected b w)"
| "agent_step S X n k w (AgCompact sid) = snd (compact_session S X sid w)"

definition agent_run :: "agent_service \<Rightarrow> outside \<Rightarrow> nat \<Rightarrow> nat \<Rightarrow> agent \<Rightarrow> agent_op list \<Rightarrow> agent" where
  "agent_run S X n k w ops = foldl (agent_step S X n k) w ops"

lemma movesD: "moves Q m \<Longrightarrow> Q (as_world w) (as_world (snd (m w)))"
  by (simp add: moves_def)

lemma agent_step_moves: "engine_run S X (as_world w) (as_world (agent_step S X n k w op))"
  by (cases op) (simp_all, (intro movesD act_intros)+)

lemma agent_run_moves: "engine_run S X (as_world w) (as_world (agent_run S X n k w ops))"
  unfolding agent_run_def
proof (induction ops arbitrary: w)
  case (Cons op ops)
  then show ?case using run.trans [OF agent_step_moves Cons.IH] by simp
qed simp

subsection \<open>The store\<close>

definition others_keep_store :: "outside \<Rightarrow> bool" where
  "others_keep_store X \<longleftrightarrow> (\<forall>n w. store_ok (ew_db (as_world w)) \<longrightarrow>
     store_ok (ew_db (as_world (ou_others X n w))) \<and> store_le (ew_db (as_world w)) (ew_db (as_world (ou_others X n w))))"

lemma sync_keeps_store:
  assumes "store_ok d" and "sync_session_conversation L S store rt sid fs d = (lg, Inr e)"
  shows "store_ok e \<and> store_le d e"
  using assms acknowledge_moves [OF assms(1)]
  by (auto simp: sync_session_conversation_def Let_def store_le_refl split: option.splits sum.splits prod.splits if_splits)

lemma engine_move_keeps_store:
  assumes "engine_move S X e e'" and "store_ok (ew_db e)" and "others_keep_store X"
  shows "store_ok (ew_db e') \<and> store_le (ew_db e) (ew_db e')"
  using assms
  by cases (auto simp: others_keep_store_def store_le_refl dest: store_step_moves sync_keeps_store split: sum.split)

text \<open>
  C2 Whatever the runtime is asked to do, in any order, and however its requests to the outside
  are answered, the store stays consistent: keys, lifecycles and active turns agree, and
  revisions, sequences, leases and effects only advance. A turn that ends in an error, loses
  its lease or is cancelled leaves such a store as well.
\<close>

theorem agents_keep_the_store:
  assumes "store_ok (ew_db (as_world w))" and "others_keep_store X"
  shows "store_ok (ew_db (as_world (agent_run S X n k w ops)))
    \<and> store_le (ew_db (as_world w)) (ew_db (as_world (agent_run S X n k w ops)))"
proof -
  have "store_ok (ew_db e') \<and> store_le (ew_db (as_world w)) (ew_db e')" if "engine_run S X (as_world w) e'" for e'
    using that
  proof (induction rule: rtranclp_induct)
    case base
    then show ?case using assms(1) by (simp add: store_le_refl)
  next
    case (step e e')
    with engine_move_keeps_store [OF step.hyps(2) _ assms(2)] show ?case by (blast intro: store_le_trans)
  qed
  with agent_run_moves show ?thesis by blast
qed

definition calm_outside :: outside where
  "calm_outside = \<lparr>ou_now = (\<lambda>n. 100 + n), ou_uuid = (\<lambda>n. 1000 + n), ou_ids = (\<lambda>n i. 2000 + 10 * n + i),
     ou_samples = (\<lambda>_ _. Inr []), ou_beats = (\<lambda>_. 1), ou_cancelled = (\<lambda>_. False),
     ou_run = (\<lambda>_. \<lparr>rc_cancelled = False, rc_execution = example_execution, rc_os = example_os GroupAbsent\<rparr>),
     ou_others = (\<lambda>_ w. w)\<rparr>"

definition new_agent :: agent where
  "new_agent = \<lparr>as_world = \<lparr>ew_db = empty_db, ew_log = Map.empty, 
       ew_tools = \<lparr>tw_files = example_files, tw_snapshots = Map.empty\<rparr>\<rparr>,
     as_mailboxes = Map.empty, as_failures = (\<lambda>_. None), as_reminders = Map.empty, as_active = {},
     as_accept = None, as_tick = 0\<rparr>"

theorem agents_keep_the_store_witness:
  "\<forall>S b. store_ok (ew_db (as_world (agent_run S calm_outside 3 2 new_agent
     [AgStart 1 (lit ''hi'') b None, AgQueue 1 (lit ''more''), AgCancel 1 2 1, AgCompact 1])))"
proof (intro allI)
  fix S b
  have "store_ok (ew_db (as_world new_agent))" by (simp add: new_agent_def store_ok_empty)
  moreover have "others_keep_store calm_outside"
    by (simp add: others_keep_store_def calm_outside_def store_le_refl)
  ultimately show "store_ok (ew_db (as_world (agent_run S calm_outside 3 2 new_agent
     [AgStart 1 (lit ''hi'') b None, AgQueue 1 (lit ''more''), AgCancel 1 2 1, AgCompact 1])))"
    using agents_keep_the_store by blast
qed

subsection \<open>The workspace\<close>

definition others_keep_files :: "outside \<Rightarrow> bool" where
  "others_keep_files X \<longleftrightarrow> (\<forall>n w. ew_tools (as_world (ou_others X n w)) = ew_tools (as_world w))"

text \<open>An effect started at \<open>e\<close>, with the recorded descriptor, whose execution changes what the tools see.\<close>

definition worked_at :: "agent_service \<Rightarrow> engine_world \<Rightarrow> bool" where
  "worked_at S e \<longleftrightarrow> (\<exists>samples ids q eid digest l now e0 st C.
     start_session_effect (ag_engine S) samples ids q eid digest l now e0 = (Inr st, e)
     \<and> session_effect_canonical_descriptor (ag_lib S) (ew_db e0) eid (xr_turn_id q) = Inr (es_descriptor st)
     \<and> es_operation_digest st = digest
     \<and> snd (execute_started_session_effect (ag_engine S) C st l (ew_tools e)) \<noteq> ew_tools e)"

lemma started_facts:
  assumes "start_session_effect E samples ids q eid digest l now e0 = (Inr st, e)"
  shows "session_effect_canonical_descriptor (en_lib E) (ew_db e0) eid (xr_turn_id q) = Inr (es_descriptor st)"
    and "es_operation_digest st = digest"
  using assms by (auto simp: start_session_effect_def canonical_effect_def split: sum.splits prod.splits if_splits)

lemma worked_atI:
  "start_session_effect (ag_engine S) samples ids q eid digest l now e0 = (Inr st, e)
    \<Longrightarrow> snd (execute_started_session_effect (ag_engine S) C st l (ew_tools e)) \<noteq> ew_tools e \<Longrightarrow> worked_at S e"
  unfolding worked_at_def by (intro exI conjI) (assumption | rule started_facts)+

lemma engine_move_files:
  assumes "engine_move S X e e'" and "others_keep_files X"
  shows "ew_tools e' = ew_tools e \<or> worked_at S e"
  using assms
proof cases
  case (Worked samples ids q eid digest l now e0 st C r tw)
  then show ?thesis
    using worked_atI [OF Worked(2), of C] by (cases "tw = ew_tools e") simp_all
qed (auto simp: others_keep_files_def)

text \<open>
  C3 The workspace, and the record of which files a turn has read, change only by executing an
  effect that a commit has just recorded as started, with the descriptor the store holds for that
  effect and the digest computed for it: no answer of the provider, no resumed call, no
  verification and no compaction reaches the files on another way.
\<close>

theorem files_change_only_by_started_effects:
  assumes "others_keep_files X"
  shows "ew_tools (as_world (agent_run S X n k w ops)) = ew_tools (as_world w)
    \<or> (\<exists>e. engine_run S X (as_world w) e \<and> ew_tools e = ew_tools (as_world w) \<and> worked_at S e)"
proof -
  have "ew_tools e' = ew_tools (as_world w)
      \<or> (\<exists>e. engine_run S X (as_world w) e \<and> ew_tools e = ew_tools (as_world w) \<and> worked_at S e)"
    if "engine_run S X (as_world w) e'" for e'
    using that
  proof (induction rule: rtranclp_induct)
    case (step e e')
    from engine_move_files [OF step.hyps(2) assms] step.IH step.hyps(1) show ?case by metis
  qed simp
  with agent_run_moves show ?thesis by blast
qed

theorem files_change_only_by_started_effects_witness:
  "\<forall>S b. let w = agent_run S calm_outside 3 2 new_agent [AgStart 1 (lit ''hi'') b None, AgPermission 1 3 2 (lit ''e'') True] in
     ew_tools (as_world w) = ew_tools (as_world new_agent)
     \<or> (\<exists>e. engine_run S calm_outside (as_world new_agent) e \<and> ew_tools e = ew_tools (as_world new_agent) \<and> worked_at S e)"
  unfolding Let_def
  by (intro allI files_change_only_by_started_effects) (simp add: others_keep_files_def calm_outside_def)

subsection \<open>Refused responses\<close>

definition quiet :: "engine_world \<Rightarrow> engine_world \<Rightarrow> bool" where
  "quiet e e' \<longleftrightarrow> ew_tools e' = ew_tools e
     \<and> (store_ok (ew_db e) \<longrightarrow> store_ok (ew_db e') \<and> db_effects (ew_db e') = db_effects (ew_db e))"

interpretation quiet: engine_order quiet
  by unfold_locales (auto simp: quiet_def)

definition leaves_effects :: "commit_update \<Rightarrow> bool" where
  "leaves_effects u \<longleftrightarrow> (case u of CuAppendTranscript _ _ _ _ \<Rightarrow> True | CuFail _ _ \<Rightarrow> True
     | CuRequestInput _ _ \<Rightarrow> True | _ \<Rightarrow> False)"

lemma leaves_effects_arm:
  assumes "leaves_effects u" and "commit_arm L cx u dr = Inr dr'"
  shows "dr_db dr' = dr_db dr"
  using assms by (cases u) (auto simp: leaves_effects_def commit_append_transcript_def commit_fail_def commit_request_input_def)

lemma commit_leaves_effects:
  assumes ok: "store_ok d" and u: "leaves_effects (rq_update rq)"
    and commit: "commit_session_turn_update L ids d rq l now = Inr (e, resp)"
  shows "db_effects e = db_effects d"
  using commit
proof (cases rule: commit_cases)
  case (source r)
  then show ?thesis by (auto simp: insert_dedup_def split: if_splits)
next
  case fresh
  have rows: "\<forall>r \<in> set (db_turns d). turn_row_ok r" using ok by (simp add: store_ok_def)
  show ?thesis
    by (rule commit_fresh_Inr [OF fresh(3) rows])
      (use leaves_effects_arm [OF u] in \<open>fastforce simp: committed_tables_def initial_draft_def\<close>)
qed simp

lemma sync_leaves_effects:
  "sync_session_conversation L S store rt sid fs d = (lg, Inr e) \<Longrightarrow> db_effects e = db_effects d"
  by (auto simp: sync_session_conversation_def Let_def acknowledge_conversation_outbox_def
    split: option.splits sum.splits prod.splits if_splits)

lemma quiet_synced:
  assumes "sync_session_conversation L D store rt sid (ew_log e) (ew_db e) = (lg, r)"
  shows "quiet e (e\<lparr>ew_log := lg, ew_db := (case r of Inl _ \<Rightarrow> ew_db e | Inr d \<Rightarrow> d)\<rparr>)"
  using assms sync_leaves_effects sync_keeps_store by (fastforce simp: quiet_def split: sum.split)

lemma quiet_log: "quiet e (e\<lparr>ew_log := lg\<rparr>)"
  by (simp add: quiet_def)

lemma quiet_projection: "served quiet (snapshot_projection E sid limit)"
proof -
  have "quiet e (snd (snapshot_projection E sid limit e))" for e
  proof (cases "\<exists>s cs. current_projection_snapshot (en_lib E) (ew_db e) sid limit = Inr s \<and> en_store E = Some cs")
    case True
    then obtain s cs where s: "current_projection_snapshot (en_lib E) (ew_db e) sid limit = Inr s" "en_store E = Some cs"
      by blast
    obtain lg r where sync: "sync_session_conversation (en_lib E) (en_serde E) (Some cs) (en_root E) sid
        (ew_log e) (ew_db e) = (lg, r)" by force
    from quiet_synced [OF this] s sync show ?thesis
      by (auto simp: snapshot_projection_def Let_def quiet_def split: sum.splits prod.splits)
  next
    case False
    then show ?thesis
      by (auto simp: snapshot_projection_def Let_def quiet.refl split: sum.splits option.splits)
  qed
  then show ?thesis by (simp add: served_def)
qed

lemma quiet_finish: "served quiet (finish_session_response E resp)"
proof -
  have "quiet e (snd (finish_session_response E resp e))" for e
  proof -
    let ?sid = "sn_session_id (rs_snapshot resp)"
    obtain lg r where sync: "sync_session_conversation (en_lib E) (en_serde E) (en_store E) (en_root E) ?sid
        (ew_log e) (ew_db e) = (lg, r)" by force
    let ?e = "e\<lparr>ew_log := lg, ew_db := (case r of Inl _ \<Rightarrow> ew_db e | Inr d \<Rightarrow> d)\<rparr>"
    have "quiet ?e (snd (snapshot_projection E ?sid 500 ?e))"
      using quiet_projection by (simp add: served_def)
    with quiet_synced [OF sync] have "quiet e (snd (snapshot_projection E ?sid 500 ?e))"
      by (rule quiet.trans)
    then show ?thesis
      using sync by (cases r) (auto simp: finish_session_response_def Let_def quiet_log split: prod.split)
  qed
  then show ?thesis by (simp add: served_def)
qed

lemma quiet_commit:
  assumes "leaves_effects (rq_update rq)"
  shows "served quiet (commit_snapshot E samples ids rq l now)"
proof -
  have "quiet e (snd (engine_commit E samples ids rq l now e))" for e
  proof (cases "bindE (completion_guard E samples rq (ew_db e))
             (\<lambda>_. commit_session_turn_update (en_lib E) ids (ew_db e) rq l now)")
    case (Inl err)
    then show ?thesis by (simp add: engine_commit_def quiet.refl)
  next
    case (Inr y)
    then obtain d resp where y: "y = (d, resp)" "commit_session_turn_update (en_lib E) ids (ew_db e) rq l now = Inr (d, resp)"
      by (cases y) auto
    have "quiet e (e\<lparr>ew_db := d\<rparr>)"
      using commit_moves [OF _ y(2)] commit_leaves_effects [OF _ assms y(2)] by (auto simp: quiet_def)
    moreover have "quiet (e\<lparr>ew_db := d\<rparr>) (snd (finish_session_response E resp (e\<lparr>ew_db := d\<rparr>)))"
      using quiet_finish by (simp add: served_def)
    ultimately show ?thesis
      using Inr y quiet.trans by (auto simp: engine_commit_def)
  qed
  then show ?thesis by (simp add: served_def commit_snapshot_def split: prod.split) (metis snd_conv)
qed

lemma quiet_agent_commit: "leaves_effects u \<Longrightarrow> moves quiet (agent_commit S X sid t r tr u l)"
  unfolding agent_commit_def by (intro quiet.tick quiet.engine quiet_commit) simp

lemma quiet_step:
  "leaves_effects u \<Longrightarrow> moves quiet (step_commit S X V u l)"
  "moves quiet (step_fail S X V again r msg l)"
  unfolding step_commit_def step_fail_def fail_with_retryability_def
  by (auto intro!: quiet_agent_commit simp: leaves_effects_def)

lemma quiet_done: "moves quiet m \<Longrightarrow> moves quiet (done_with m)"
  unfolding done_with_def by (intro quiet.bind quiet.ret)

text \<open>A response whose calls, if it has any, must not run.\<close>

definition refused_response :: "agent_service \<Rightarrow> turn_step_env \<Rightarrow> provider_response \<Rightarrow> bool" where
  "refused_response S V r \<longleftrightarrow> is_cut r \<or> pr_input_request r \<noteq> None
     \<or> (pr_tool_calls r \<noteq> [] \<and> (rounds_spent V \<or> calls_malformed (ag_engine S) (pr_tool_calls r)))"

lemma refused_round:
  assumes "calls_malformed (ag_engine S) (pr_tool_calls r)"
  shows "moves quiet (handle_provider_tool_round S X s ms r l)"
    and "gives (\<lambda>o'. \<exists>s. o' = BatchParked s) (handle_provider_tool_round S X s ms r l)"
  using assms unfolding handle_provider_tool_round_def Let_def fail_with_retryability_def
  by (auto intro!: quiet.bind quiet.lift quiet.ret quiet_agent_commit gives_any gives_ret simp: leaves_effects_def)

definition stops :: "round_flow \<Rightarrow> bool" where
  "stops f \<longleftrightarrow> (case f of FlowDone s \<Rightarrow> True | _ \<Rightarrow> False)"

lemma done_stops: "gives stops (done_with m)"
  by (simp add: done_with_def stops_def gives_any gives_ret)

lemma refused_answer:
  assumes "refused_response S V r"
  shows "moves quiet (handle_answer S X V (Inr r) l)" and "gives stops (handle_answer S X V (Inr r) l)"
proof -
  have cut: "moves quiet (refuse_cut S X V r l)" "gives stops (refuse_cut S X V r l)"
    by (auto simp: refuse_cut_def Let_def leaves_effects_def split: option.split
      intro!: quiet.bind quiet_done quiet_step gives_any done_stops)
  have ask: "moves quiet (ask_input S X V i l)" "gives stops (ask_input S X V i l)" for i
    by (auto simp: ask_input_def leaves_effects_def intro!: quiet_done quiet_step done_stops)
  have tools: "moves quiet (run_tools S X V r l)" "gives stops (run_tools S X V r l)"
    if "rounds_spent V \<or> calls_malformed (ag_engine S) (pr_tool_calls r)"
    using that
    by (auto simp: run_tools_def stops_def intro!: quiet_done quiet_step done_stops quiet.bind quiet.ret
      refused_round(1) gives_bind [OF refused_round(2)] gives_ret)
  show "moves quiet (handle_answer S X V (Inr r) l)" "gives stops (handle_answer S X V (Inr r) l)"
    using assms cut ask tools by (auto simp: handle_answer_def refused_response_def split: option.split)
qed


definition cut_response :: provider_response where
  "cut_response = \<lparr>pr_message = Some (lit ''so far''),
     pr_tool_calls = [\<lparr>tc_id = lit ''c1'', tc_name = lit ''write_file'', tc_input = JObj [(lit ''path'', JStr (lit ''a''))]\<rparr>],
     pr_input_request = None, pr_usage = provider_usage_default, pr_finish_reason = Some FrLength, pr_provider_state = None\<rparr>"


subsection \<open>Source keys that were used before\<close>

text \<open>The key was written by another command, and the command itself is new.\<close>

definition key_taken :: "lib \<Rightarrow> db \<Rightarrow> uuid \<Rightarrow> rstr \<Rightarrow> uuid \<Rightarrow> bool" where
  "key_taken L d sid key c \<longleftrightarrow> (\<forall>r \<in> set (db_dedup d). dd_command_id r \<noteq> c)
     \<and> (\<exists>r rq. find (\<lambda>r. cs_session_id r = sid \<and> cs_source_key r = key) (db_sources d) = Some r
          \<and> cs_digest r = session_command_digest L rq \<and> rq_command_id rq \<noteq> c)"

definition identities_differ :: "lib \<Rightarrow> bool" where
  "identities_differ L \<longleftrightarrow> inj (json_sha256 L) \<and> inj (uuid_text L)"

lemma digest_names_command:
  assumes "identities_differ L" and "session_command_digest L rq = session_command_digest L rq'"
  shows "rq_command_id rq = rq_command_id rq'"
proof -
  have inj: "inj (json_sha256 L)" "inj (uuid_text L)" using assms(1) by (simp_all add: identities_differ_def)
  let ?j = "\<lambda>rq. json_obj
     [(lit ''session_id'', JStr (uuid_text L (rq_session_id rq))),
      (lit ''command_id'', JStr (uuid_text L (rq_command_id rq))),
      (lit ''turn_id'', JStr (uuid_text L (rq_turn_id rq))),
      (lit ''expected_session_revision'', JInt (int (rq_expected_session_revision rq))),
      (lit ''expected_turn_revision'', JInt (int (rq_expected_turn_revision rq))),
      (lit ''request_id'', json_opt (redacted L) (rq_request_id rq)),
      (lit ''effect_id'', json_opt (redacted L) (rq_effect_id rq)),
      (lit ''update'', update_json L (rq_update rq))]"
  have "?j rq = ?j rq'"
    using assms(2) injD [OF inj(1)] by (simp only: session_command_digest_def)
  then have "json_get (lit ''command_id'') (?j rq) = json_get (lit ''command_id'') (?j rq')" by simp
  then have "uuid_text L (rq_command_id rq) = uuid_text L (rq_command_id rq')"
    by (simp add: json_get_obj lit_def)
  then show ?thesis by (rule injD [OF inj(2)])
qed

lemma taken_key_refused:
  assumes "identities_differ L" and taken: "key_taken L d (rq_session_id rq) (source_key (rq_update rq)) (rq_command_id rq)"
  shows "\<exists>e. commit_session_turn_update L ids d rq l now = Inl e"
proof (cases "commit_session_turn_update L ids d rq l now")
  case (Inr y)
  obtain r rq0 where r: "find (\<lambda>r. cs_session_id r = rq_session_id rq \<and> cs_source_key r = source_key (rq_update rq))
      (db_sources d) = Some r" "cs_digest r = session_command_digest L rq0" "rq_command_id rq0 \<noteq> rq_command_id rq"
    and new: "\<forall>r \<in> set (db_dedup d). dd_command_id r \<noteq> rq_command_id rq"
    using taken by (auto simp: key_taken_def)
  obtain e resp where "commit_session_turn_update L ids d rq l now = Inr (e, resp)"
    using Inr by (cases y) auto
  then have False
  proof (cases rule: commit_cases)
    case (replay x)
    then show False using new by (auto dest: find_Some_in)
  next
    case (source x)
    then show False using r digest_names_command [OF assms(1), of rq0 rq] by simp
  qed (use r in simp)
  then show ?thesis ..
qed blast

lemma taken_commit_fails:
  assumes "identities_differ (ag_lib S)"
    and "key_taken (ag_lib S) (ew_db (as_world w)) sid (source_key u) (ou_uuid X (as_tick w))"
  shows "\<exists>e. agent_commit S X sid t r tr u l w = (Inl (ErStorage e), w\<lparr>as_tick := as_tick w + 1\<rparr>)"
proof -
  let ?rq = "\<lparr>rq_session_id = sid, rq_turn_id = t, rq_expected_session_revision = r,
        rq_expected_turn_revision = tr, rq_command_id = ou_uuid X (as_tick w), rq_request_id = None,
        rq_effect_id = None, rq_update = u\<rparr>"
  obtain e where e: "commit_session_turn_update (ag_lib S) (ou_ids X (as_tick w)) (ew_db (as_world w)) ?rq l
      (ou_now X (as_tick w)) = Inl e"
    using taken_key_refused [OF assms(1), of "ew_db (as_world w)" ?rq "ou_ids X (as_tick w)" l "ou_now X (as_tick w)"]
      assms(2) by auto
  then have "\<exists>e. bindE (completion_guard (ag_engine S) (ou_samples X (as_tick w)) ?rq (ew_db (as_world w)))
      (\<lambda>_. commit_session_turn_update (ag_lib S) (ou_ids X (as_tick w)) (ew_db (as_world w)) ?rq l
      (ou_now X (as_tick w))) = Inl e"
    by (cases "completion_guard (ag_engine S) (ou_samples X (as_tick w)) ?rq (ew_db (as_world w))") auto
  then show ?thesis
    by (auto simp: agent_commit_def tickA_def engineA_def commit_snapshot_def engine_commit_def map_err_def)
qed


text \<open>
  The card that records a failed compaction between two rounds has the same key in every round
  of the turn. The first failure is recorded and the turn goes on; a second one in the same turn is
  refused as a reused command, and the step ends in that error instead of going on without a summary.
\<close>

theorem second_failed_compaction_ends_the_step:
  assumes "identities_differ (ag_lib S)" and "\<not> mt_forced M"
    and "compaction_source segments (mt_boundary M) (profile_compaction (mt_profile M)) = (Some from, source)"
    and "summarize_history S X (mt_snapshot M) source l w = (Inr None, w')"
    and "key_taken (ag_lib S) (ew_db (as_world w')) (sn_session_id (mt_snapshot M))
      (turn_key S (mt_turn M) '':compact-summary-failed:round'') (ou_uuid X (as_tick w'))"
  shows "\<exists>e w''. mid_turn_summarize S X M segments l w = (Inl (ErStorage e), w'') \<and> as_world w'' = as_world w'"
proof -
  let ?sid = "sn_session_id (mt_snapshot M)"
  let ?w = "w'\<lparr>as_failures := note_compaction_failure ?sid (as_failures w')\<rparr>"
  obtain e where e: "mt_append S X M (turn_key S (mt_turn M) '':compact-summary-failed:round'') TkSystem
      (lit ''context compaction failed; continuing without a summary'') None l ?w
      = (Inl (ErStorage e), ?w\<lparr>as_tick := as_tick ?w + 1\<rparr>)"
    using taken_commit_fails [OF assms(1), of ?w] assms(5) unfolding mt_append_def by fastforce
  show ?thesis
    using assms(2-4) e
    by (intro exI [of _ e] exI [of _ "?w\<lparr>as_tick := as_tick ?w + 1\<rparr>"])
      (simp add: mid_turn_summarize_def Let_def readA_def modifyA_def bindA_def)
qed

text \<open>
  A call that the tools refuse when it is prepared (a missing file, a text that does not occur,
  an edit of a file that was not read, a denied path) ends the step in an error: nothing is written
  to the transcript, so the provider never learns why, and the remaining calls are not run.
\<close>

theorem refused_preparations_end_the_step:
  assumes "sn_active_turn_id s = Some t" and "turn_revision_of s t = Some revision"
    and "session_effect_policy_and_digest (ag_engine S) (tw_files (ew_tools (as_world w)))
      (call_descriptor S t sequence ordinal c) revision l = Inl refusal"
  shows "\<exists>e. execute_calls S X t sequence l ((ordinal, c) # cs) s ms w = (Inl (ErStorage e), w\<lparr>as_tick := as_tick w + 1\<rparr>)"
proof -
  let ?d = "call_descriptor S t sequence ordinal c"
  have "\<exists>e. bindE (validate_session_effect_descriptor ?d) (\<lambda>_. prepared_digest (ag_engine S)
      (tw_files (ew_tools (as_world w))) ?d revision l) = Inl e"
    using assms(3) by (cases "validate_session_effect_descriptor ?d") (simp_all add: prepared_digest_def)
  then show ?thesis
    using assms(1,2)
    by (auto simp: execute_call_def prepare_effect_def prepare_session_effect_def effect_request_of_def active_turn_id_def
      active_turn_revision_def ok_or_def tickA_def bindA_def liftA_def engineA_def map_err_def Let_def)
qed

subsection \<open>Witnesses of the failing steps\<close>

definition running_chat :: session_snapshot where
  "running_chat = (ex_chat ex_chat_binding [])\<lparr>sn_lifecycle := LcRunning, sn_active_turn_id := Some 5, sn_turns :=
     [\<lparr>sm_turn_id = 5, sm_parent_turn_id = None, sm_ordinal = 0, sm_status = StRunning, sm_turn_revision = 1,
       sm_completed_at_ms = None, sm_failure_code = None\<rparr>]\<rparr>"

definition tool_response :: provider_response where
  "tool_response = cut_response\<lparr>pr_finish_reason := None, pr_tool_calls :=
     [\<lparr>tc_id = lit ''c1'', tc_name = lit ''read_file'', tc_input = JObj [(lit ''path'', JStr (lit ''gone''))]\<rparr>]\<rparr>"

definition small_engine :: "lib \<Rightarrow> engine" where
  "small_engine L = (ap_engine L)\<lparr>en_supervision := False\<rparr>"

text \<open>An agent whose store has one commit source, written by command 9 under the key.\<close>

definition keyed_agent :: "rstr \<Rightarrow> session_commit_response \<Rightarrow> agent" where
  "keyed_agent key resp = new_agent\<lparr>as_world := (as_world new_agent)\<lparr>ew_db := empty_db\<lparr>db_sources :=
     [\<lparr>cs_session_id = 1, cs_source_key = key, cs_digest = session_command_digest wide_lib (ex_request ex_start),
       cs_result = resp\<rparr>]\<rparr>\<rparr>\<rparr>"

lemma wide_identities: "identities_differ wide_lib"
  using wide_lib_inj by (simp add: identities_differ_def wide_lib_def ex_lib_def inj_def)

lemma keyed_taken: "key_taken wide_lib (ew_db (as_world (keyed_agent key resp))) 1 key (ou_uuid calm_outside n)"
  by (auto simp: key_taken_def keyed_agent_def empty_db_def calm_outside_def ex_request_def
    intro!: exI [of _ "ex_request ex_start"])

lemma running_turn: "sn_active_turn_id running_chat = Some 5" "turn_revision_of running_chat 5 = Some 1"
  "sn_session_id running_chat = 1"
  by (simp_all add: running_chat_def turn_revision_of_def ex_chat_def)

lemma tool_response_known: "\<not> calls_malformed (small_engine L) (pr_tool_calls tool_response)"
proof -
  have "lit ''read_file'' \<in> td_name ` set (map descriptor BUILTIN_TOOLS)" by code_simp
  then show ?thesis
    by (simp add: calls_malformed_def tool_response_def engine_tool_descriptors_def small_engine_def ap_engine_def
      example_tools_def is_object_def) (simp add: valid_openai_chat_opaque_id_def lit_def len_utf8_def is_ascii_alnum_def OPENAI_CHAT_TOOL_CALL_ID_MAX_BYTES_def is_ascii_digit_def)
qed


definition failing_mid_turn :: "harness_profile \<Rightarrow> mid_turn" where
  "failing_mid_turn h = \<lparr>mt_snapshot = running_chat, mt_messages = [], mt_forced = False, mt_profile = h,
     mt_system = System [], mt_budget = 100, mt_turn = 5, mt_turn_revision = 1, mt_round = 4, mt_boundary = 0,
     mt_reactive = True, mt_volatile = build_volatile_turn_context \<lparr>cb_text = [], cb_truncated = False, cb_sources = []\<rparr> None\<rparr>"

theorem second_failed_compaction_ends_the_step_witness:
  "\<forall>S0 resp h. let S = S0\<lparr>ag_engine := small_engine wide_lib, ag_provider := (\<lambda>_. Inl [])\<rparr>;
       w = keyed_agent (turn_key S 5 '':compact-summary-failed:round'') resp in
     \<exists>e w''. mid_turn_summarize S calm_outside (failing_mid_turn h) [segment_new (Some 3) (Some 5) [User []] []] ex_lease w
       = (Inl (ErStorage e), w'') \<and> as_world w'' = as_world w"
  unfolding Let_def
proof (intro allI)
  fix S0 :: agent_service and resp h
  let ?S = "S0\<lparr>ag_engine := small_engine wide_lib, ag_provider := (\<lambda>_. Inl [])\<rparr>"
  let ?w = "keyed_agent (turn_key ?S 5 '':compact-summary-failed:round'') resp"
  have lib: "ag_lib ?S = wide_lib" by (simp add: small_engine_def ap_engine_def)
  have none: "summary_request ?S s source = None" for s source
    by (simp add: summary_request_def split: sum.split)
  have summary: "summarize_history ?S calm_outside (mt_snapshot (failing_mid_turn h)) source ex_lease ?w = (Inr None, ?w)" for source
    by (simp add: summarize_history_def none retA_def)
  obtain source where source: "compaction_source [segment_new (Some 3) (Some 5) [User []] []]
      (mt_boundary (failing_mid_turn h)) (profile_compaction (mt_profile (failing_mid_turn h))) = (Some 3, source)"
    by (simp add: compaction_source_def failing_mid_turn_def segment_new_def)
  have m: "mt_turn (failing_mid_turn h) = 5" "mt_forced (failing_mid_turn h) = False"
    "sn_session_id (mt_snapshot (failing_mid_turn h)) = 1"
    using running_turn(3) by (simp_all add: failing_mid_turn_def)
  show "\<exists>e w''. mid_turn_summarize ?S calm_outside (failing_mid_turn h) [segment_new (Some 3) (Some 5) [User []] []] ex_lease ?w
       = (Inl (ErStorage e), w'') \<and> as_world w'' = as_world ?w"
    by (rule second_failed_compaction_ends_the_step [OF _ _ source summary])
      (use wide_identities keyed_taken m in \<open>simp_all only: lib, simp_all\<close>)
qed

lemma gone_unreadable: "\<exists>e. read_path example_files [lit ''w''] (lit ''gone'') = Inl e"
proof -
  have "isl (read_path example_files [lit ''w''] (lit ''gone''))" by code_simp
  then show ?thesis by (cases "read_path example_files [lit ''w''] (lit ''gone'')") simp_all
qed

lemma gone_refused: "\<exists>x. session_effect_policy_and_digest (small_engine L) example_files
  \<lparr>sd_effect_id = e, sd_tool_call_id = i, sd_name = lit ''read_file'',
    sd_input = JObj [(lit ''path'', JStr (lit ''gone''))], sd_attempt = 1\<rparr> revision le = Inl x"
proof -
  obtain x where x: "read_path example_files [lit ''w''] (lit ''gone'') = Inl x" using gone_unreadable by blast
  have "string_field (JObj [(lit ''path'', JStr (lit ''gone''))]) ''path'' = Inr (lit ''gone'')"
    by (rule string_field_lit) simp
  moreover have "map_of BUILTIN_TOOLS (lit ''read_file'') = Some EffRead" by code_simp
  ultimately show ?thesis
    using x by (cases "display (lit ''gone'')")
      (simp_all add: session_effect_policy_and_digest_def small_engine_def ap_engine_def example_tools_def
        prepare_for_engine_def prepare_def prepare_action_def effect_invocation_def from_path_def map_err_def)
qed

lemma small_world: "tw_files (ew_tools (as_world new_agent)) = example_files" "as_tick new_agent = 0"
  by (simp_all add: new_agent_def)

theorem refused_preparations_end_the_step_witness:
  "\<forall>S0. let S = S0\<lparr>ag_engine := small_engine wide_lib\<rparr> in
     \<exists>e. execute_calls S calm_outside 5 3 ex_lease [(0, hd (pr_tool_calls tool_response))] running_chat [] new_agent
       = (Inl (ErStorage e), new_agent\<lparr>as_tick := 1\<rparr>)"
  unfolding Let_def
proof (intro allI)
  fix S0 :: agent_service
  let ?S = "S0\<lparr>ag_engine := small_engine wide_lib\<rparr>"
  let ?c = "hd (pr_tool_calls tool_response)"
  obtain x where x: "session_effect_policy_and_digest (ag_engine ?S) (tw_files (ew_tools (as_world new_agent)))
      (call_descriptor ?S 5 3 0 ?c) 1 ex_lease = Inl x"
    using gone_refused [of wide_lib] small_world(1) by (fastforce simp: call_descriptor_def tool_response_def)
  show "\<exists>e. execute_calls ?S calm_outside 5 3 ex_lease [(0, ?c)] running_chat [] new_agent
       = (Inl (ErStorage e), new_agent\<lparr>as_tick := 1\<rparr>)"
    using refused_preparations_end_the_step [OF running_turn(1,2) x, of calm_outside "[]" "[]"] small_world(2) by simp
qed

end
