(* ===== verification/Agent_History.thy ===== *)
theory Agent_History
  imports Agent_Runtime Conversation_Properties
begin

text \<open>
  The whole transcript of a session as the runtime loads it, page by page: the pages fit
  together, and the number of pages that are asked for is enough.
\<close>

subsection \<open>A page leaves the history as it was\<close>

lemma acknowledged_entries:
  assumes "acknowledge_conversation_outbox d sid n = Inr e"
  shows "set (conversation_outbox_entries e k) \<subseteq> set (conversation_outbox_entries d k)"
    and "db_sessions e = db_sessions d"
  using assms by (auto simp: acknowledge_conversation_outbox_def conversation_outbox_entries_def session_outbox_def sql_delete_def)

lemma synced_entries:
  assumes "sync_session_conversation L S store key sid fs d = (fs', Inr e)"
  shows "set (conversation_outbox_entries e k) \<subseteq> set (conversation_outbox_entries d k) \<and> db_sessions e = db_sessions d"
proof (cases "e = d")
  case False
  then have "\<exists>n. acknowledge_conversation_outbox d sid n = Inr e"
    using assms by (auto simp: sync_session_conversation_def Let_def split: option.splits sum.splits prod.splits if_splits)
  then show ?thesis using acknowledged_entries by blast
qed simp

definition conv_intact :: "lib \<Rightarrow> serde \<Rightarrow> conversation_store \<Rightarrow> uuid \<Rightarrow> transcript_entry list \<Rightarrow> engine_world \<Rightarrow> bool" where
  "conv_intact L S cs sid H e \<longleftrightarrow> conv_ok L S cs (ew_db e, ew_log e) \<and> all_printable L S cs (ew_db e, ew_log e)
     \<and> history L S cs sid (ew_db e, ew_log e) = H"

lemma printable_fewer:
  assumes "all_printable L S cs (d, fs)"
    and "\<And>k. set (conversation_outbox_entries e k) \<subseteq> set (conversation_outbox_entries d k)"
  shows "all_printable L S cs (e, fs')"
  using assms by (fastforce simp: all_printable_def printable_def)

lemma page_intact:
  assumes ok: "conv_ok L S cs (d, fs)" and ap: "all_printable L S cs (d, fs)"
    and page: "conversation_page L S (Some cs) key sid after limit tail fs d = (fs', d', r)"
  shows "conv_ok L S cs (d', fs') \<and> all_printable L S cs (d', fs') \<and> db_sessions d' = db_sessions d
    \<and> history L S cs sid (d', fs') = history L S cs sid (d, fs)
    \<and> (\<forall>p. r = Inr p \<longrightarrow> p = Some (page_of after limit tail (history L S cs sid (d, fs)))
        \<and> session_logged L S cs (d', fs') sid (history L S cs sid (d, fs)))"
proof -
  let ?H = "history L S cs sid (d, fs)"
  obtain fs1 r1 where sync: "sync_session_conversation L S (Some cs) key sid fs d = (fs1, r1)" by fastforce
  note moved = sync_moves [OF ok ap sync]
  show ?thesis
  proof (cases r1)
    case (Inl x)
    then have "fs' = fs1 \<and> d' = d \<and> r = Inl x" using page by (simp add: conversation_page_def sync)
    then show ?thesis using moved(1) moved(2) [of sid] Inl ap by (auto simp: all_printable_def)
  next
    case (Inr e)
    obtain fs2 r2 where read: "conversation_read L S cs sid fs1 = (fs2, r2)" by fastforce
    have out: "fs' = fs2" "d' = e" "r = bindE (map_err InvalidData r2) (\<lambda>es. Inr (Some (page_of after limit tail es)))"
      using page by (simp_all add: conversation_page_def sync Inr read)
    have e: "conv_ok L S cs (e, fs1)" "history L S cs sid (e, fs1) = ?H"
      and logged: "session_logged L S cs (e, fs1) sid ?H"
      using moved Inr by auto
    have "store_ok e" and L: "uuid_roundtrip L" using e(1) ap by (simp_all add: conv_ok_def all_printable_def printable_def)
    note rd = conversation_read_moves [OF \<open>store_ok e\<close> logged read]
    have "conv_ok L S cs (e, fs2)"
      by (rule one_file_moved(1) [where fs = fs1, OF e(1) L rd(3) _ rd(2)]) (assumption, rule exI, rule rd(1))
    then show ?thesis
      using out rd(1,2,4) e(2) synced_entries [OF sync [unfolded Inr]] printable_fewer [OF ap]
      by (auto simp: map_err_def split: sum.splits)
  qed
qed

lemma logged_sequences:
  assumes "session_logged L S cs (d, fs) sid H"
  shows "seq_sorted H" and "H = [] \<or> (\<exists>r. find_session d sid = Some r \<and> last_seq H \<le> sr_last_seq r)"
  using assms by (auto simp: session_logged_def holds_def log_ok_def seq_sorted_def)

subsection \<open>The pages fit together\<close>

definition numbered :: "transcript_entry list \<Rightarrow> transcript_entry list" where
  "numbered H = filter (\<lambda>e. 0 < te_sequence e) H"

text \<open>The first \<open>m\<close> entries were loaded.\<close>

definition loaded :: "transcript_entry list \<Rightarrow> nat \<Rightarrow> transcript_page \<Rightarrow> bool" where
  "loaded K m p \<longleftrightarrow> m \<le> length K \<and> tp_entries p = take m K \<and> tp_has_more p = (m < length K)
     \<and> (m < length K \<longrightarrow> 0 < m \<and> tp_next_after p = Some (te_sequence (K ! (m - 1))))"

lemma sorted_after:
  assumes "sorted_wrt (<) (map te_sequence K)" and "0 < m" and "m \<le> length K"
  shows "filter (\<lambda>e. te_sequence e > te_sequence (K ! (m - 1))) K = drop m K"
proof -
  have less: "te_sequence (K ! i) < te_sequence (K ! j)" if "i < j" "j < length K" for i j
    using assms(1) that by (simp add: sorted_wrt_iff_nth_less)
  have "filter (\<lambda>e. te_sequence e > te_sequence (K ! (m - 1))) (take m K) = []"
  proof (rule ccontr)
    assume "filter (\<lambda>e. te_sequence e > te_sequence (K ! (m - 1))) (take m K) \<noteq> []"
    then obtain i where "i < m" "te_sequence (K ! i) > te_sequence (K ! (m - 1))"
      using assms(3) by (auto simp: filter_empty_conv in_set_conv_nth)
    moreover from this have "i = m - 1 \<or> i < m - 1" "m - 1 < length K" using assms(2,3) by linarith+
    ultimately show False using less [of i "m - 1"] assms(2,3) by auto
  qed
  moreover have "filter (\<lambda>e. te_sequence e > te_sequence (K ! (m - 1))) (drop m K) = drop m K"
    using less assms(2) by (auto simp: filter_id_conv in_set_conv_nth)
  ultimately show ?thesis using filter_append [of _ "take m K" "drop m K"] by simp
qed

lemma first_page_loaded:
  "loaded (numbered H) (min 500 (length (numbered H))) (page_of None 500 False H)"
  by (auto simp: loaded_def page_of_def clamp_def numbered_def last_conv_nth Let_def min_def simp del: One_nat_def)

lemma next_page_loaded:
  assumes "seq_sorted H" and "loaded (numbered H) m p" and "m < length (numbered H)"
    and q: "q = page_of (tp_next_after p) 500 False H"
  shows "tp_entries q \<noteq> []"
    and "loaded (numbered H) (min (m + 500) (length (numbered H)))
      \<lparr>tp_entries = tp_entries p @ tp_entries q, tp_next_after = tp_next_after q, tp_has_more = tp_has_more q\<rparr>"
proof -
  let ?K = "numbered H"
  have K: "sorted_wrt (<) (map te_sequence ?K)"
    using assms(1) by (simp add: seq_sorted_def numbered_def sorted_wrt_map sorted_wrt_filter)
  have m: "0 < m" "tp_next_after p = Some (te_sequence (?K ! (m - 1)))" using assms(2,3) by (simp_all add: loaded_def)
  have "?K ! (m - 1) \<in> set ?K" using assms(3) by simp
  then have "0 < te_sequence (?K ! (m - 1))" by (simp add: numbered_def)
  then have "filter (\<lambda>e. te_sequence e > te_sequence (?K ! (m - 1))) H
      = filter (\<lambda>e. te_sequence e > te_sequence (?K ! (m - 1))) ?K"
    by (auto simp: numbered_def intro!: filter_cong)
  then have kept: "filter (\<lambda>e. te_sequence e > te_sequence (?K ! (m - 1))) H = drop m ?K"
    using sorted_after [OF K m(1)] assms(3) by simp
  show "tp_entries q \<noteq> []"
    using assms(3) by (simp add: q m(2) page_of_def clamp_def kept Let_def del: One_nat_def)
  show "loaded ?K (min (m + 500) (length ?K))
      \<lparr>tp_entries = tp_entries p @ tp_entries q, tp_next_after = tp_next_after q, tp_has_more = tp_has_more q\<rparr>"
    using assms(2,3)
    by (auto simp: loaded_def q m(2) page_of_def clamp_def kept take_add last_conv_nth Let_def min_def simp del: One_nat_def)
qed

lemma load_pages_step:
  assumes "tp_has_more (sn_transcript s)" and "snapshot_paged E sid (tp_next_after (sn_transcript s)) 500 (as_world w) = (Inr s', ew)"
  shows "load_pages E sid (Suc n) s w =
    (if tp_entries (sn_transcript s') = [] then (Inr s, w\<lparr>as_world := ew\<rparr>)
     else load_pages E sid n (s\<lparr>sn_transcript := \<lparr>tp_entries = tp_entries (sn_transcript s) @ tp_entries (sn_transcript s'),
               tp_next_after = tp_next_after (sn_transcript s'), tp_has_more = tp_has_more (sn_transcript s')\<rparr>\<rparr>)
       (w\<lparr>as_world := ew\<rparr>))"
  using assms by (simp add: bindA_def engineA_def retA_def map_err_def Let_def)

lemma snapshot_page:
  assumes "en_store E = Some cs" and "conv_intact (en_lib E) (en_serde E) cs sid H e"
    and "snapshot_paged E sid after 500 e = (Inr s, e')"
  shows "conv_intact (en_lib E) (en_serde E) cs sid H e'" and "sn_transcript s = page_of after 500 False H"
    and "seq_sorted H" and "last_seq H \<le> sn_sequence s"
proof -
  let ?L = "en_lib E"
  obtain s0 where s0: "session_snapshot ?L (ew_db e) sid after 500 = Inr s0"
    using assms(3) by (auto simp: snapshot_paged_def split: sum.splits)
  obtain lg d r where page: "conversation_page ?L (en_serde E) (Some cs) (en_root E) sid after 500 False (ew_log e) (ew_db e) = (lg, d, r)"
    by (metis prod_cases3)
  have out: "bindE r (\<lambda>page. Inr (case page of None \<Rightarrow> s0 | Some p \<Rightarrow> s0\<lparr>sn_transcript := p\<rparr>)) = Inr s"
    "e' = e\<lparr>ew_log := lg, ew_db := d\<rparr>"
    using assms(1,3) s0 page by (simp_all add: snapshot_paged_def)
  have ok: "conv_ok ?L (en_serde E) cs (ew_db e, ew_log e)" "all_printable ?L (en_serde E) cs (ew_db e, ew_log e)"
    "history ?L (en_serde E) cs sid (ew_db e, ew_log e) = H" using assms(2) by (simp_all add: conv_intact_def)
  note intact = page_intact [OF ok(1,2) page, unfolded ok(3)]
  obtain p where r: "r = Inr p" using out(1) by auto
  then have p: "p = Some (page_of after 500 False H)" "session_logged ?L (en_serde E) cs (d, lg) sid H"
    using intact by blast+
  show "conv_intact ?L (en_serde E) cs sid H e'" using intact by (simp add: conv_intact_def out(2))
  have s: "s = s0\<lparr>sn_transcript := page_of after 500 False H\<rparr>" using out(1) r p(1) by simp
  then show "sn_transcript s = page_of after 500 False H" by simp
  show "seq_sorted H" using logged_sequences(1) [OF p(2)] .
  have "find_session d sid = find_session (ew_db e) sid" using intact by (simp add: find_session_def)
  moreover obtain r where "find_session (ew_db e) sid = Some r" "sn_sequence s0 = sr_last_seq r"
    using s0 by (auto simp: session_snapshot_def ok_or_def Let_def split: option.splits)
  ultimately show "last_seq H \<le> sn_sequence s" using logged_sequences(2) [OF p(2)] by (auto simp: s last_seq_def)
qed

text \<open>Strictly increasing positive numbers up to \<open>n\<close>: no more than \<open>n\<close> of them.\<close>

lemma numbered_length:
  assumes "seq_sorted H" and "last_seq H \<le> n"
  shows "length (numbered H) \<le> n"
proof -
  let ?ks = "map te_sequence (numbered H)"
  have srt: "sorted_wrt (<) (map te_sequence H)" using assms(1) by (simp add: seq_sorted_def)
  then have ks: "sorted_wrt (<) ?ks" by (simp add: numbered_def sorted_wrt_map sorted_wrt_filter)
  have "te_sequence e \<le> last_seq H" if "e \<in> set H" for e
    using srt that by (cases H rule: rev_cases) (auto simp: last_seq_def sorted_wrt_append less_imp_le)
  then have "set ?ks \<subseteq> {1..n}" using assms(2) by (fastforce simp: numbered_def)
  then have "card (set ?ks) \<le> n" using card_mono [of "{1..n}" "set ?ks"] by simp
  moreover have "distinct ?ks" using ks by (simp add: strict_sorted_iff)
  ultimately show ?thesis by (metis distinct_card length_map)
qed

lemma load_pages_loads:
  assumes store: "en_store E = Some cs" and "seq_sorted H"
    and "conv_intact (en_lib E) (en_serde E) cs sid H (as_world w)"
    and "loaded (numbered H) m (sn_transcript s)" and "length (numbered H) \<le> m + n"
    and "load_pages E sid n s w = (Inr s', w')"
  shows "tp_entries (sn_transcript s') = numbered H \<and> \<not> tp_has_more (sn_transcript s')
    \<and> conv_intact (en_lib E) (en_serde E) cs sid H (as_world w')"
  using assms(3-)
proof (induction n arbitrary: m s w)
  case 0
  then have "m = length (numbered H)" by (simp add: loaded_def)
  then show ?case using 0 by (simp add: loaded_def retA_def)
next
  case (Suc n)
  show ?case
  proof (cases "m < length (numbered H)")
    case False
    then show ?thesis using Suc.prems by (auto simp: loaded_def retA_def)
  next
    case True
    then have more: "tp_has_more (sn_transcript s)" using Suc.prems(2) by (simp add: loaded_def)
    obtain r ew where page: "snapshot_paged E sid (tp_next_after (sn_transcript s)) 500 (as_world w) = (r, ew)" by fastforce
    obtain q where r: "r = Inr q"
      using Suc.prems(4) more page by (cases r) (auto simp: bindA_def engineA_def map_err_def)
    note step = snapshot_page [OF store Suc.prems(1) page [unfolded r]]
    note next_page = next_page_loaded [OF assms(2) Suc.prems(2) True step(2)]
    let ?s = "s\<lparr>sn_transcript := \<lparr>tp_entries = tp_entries (sn_transcript s) @ tp_entries (sn_transcript q),
               tp_next_after = tp_next_after (sn_transcript q), tp_has_more = tp_has_more (sn_transcript q)\<rparr>\<rparr>"
    have "load_pages E sid n ?s (w\<lparr>as_world := ew\<rparr>) = (Inr s', w')"
      using Suc.prems(4) load_pages_step [OF more page [unfolded r], of n] next_page(1) by simp
    then show ?thesis
      by (intro Suc.IH [of "w\<lparr>as_world := ew\<rparr>" "min (m + 500) (length (numbered H))" ?s])
        (use step(1) next_page(2) Suc.prems(3) True in \<open>auto\<close>)
  qed
qed

text \<open>
  C19 A loaded session has its whole transcript. Whatever part of it was in the file and whatever
  part in the outbox, the pages that \<open>load_full\<close> asks for fit together without a gap or a repeated
  entry, it asks for enough of them, and loading changes no history.
\<close>

theorem full_loads_are_the_history:
  assumes "en_store (ag_engine S) = Some cs"
    and "conv_intact (ag_lib S) (en_serde (ag_engine S)) cs sid H (as_world w)"
    and "load_full S sid w = (Inr s, w')"
  shows "tp_entries (sn_transcript s) = filter (\<lambda>e. 0 < te_sequence e) H \<and> \<not> tp_has_more (sn_transcript s)
    \<and> conv_intact (ag_lib S) (en_serde (ag_engine S)) cs sid H (as_world w')"
proof -
  obtain r ew where page: "snapshot_paged (ag_engine S) sid None 500 (as_world w) = (r, ew)" by fastforce
  obtain q where r: "r = Inr q"
    using assms(3) page by (cases r) (auto simp: load_full_def bindA_def engineA_def map_err_def)
  note first = snapshot_page [OF assms(1,2) page [unfolded r]]
  have "load_pages (ag_engine S) sid (sn_sequence q) q (w\<lparr>as_world := ew\<rparr>) = (Inr s, w')"
    using assms(3) page by (simp add: load_full_def bindA_def engineA_def map_err_def r)
  from load_pages_loads [OF assms(1) first(3) _ _ _ this]
  show ?thesis
    using first(1,2) first_page_loaded [of H] numbered_length [OF first(3,4)]
    by (simp add: numbered_def [symmetric])
qed

subsection \<open>A session of one entry\<close>

lemma ex_created_snapshot:
  "\<exists>e s. store_step ex_lib empty_db ex_create = Inr e \<and> session_snapshot ex_lib e 1 None 500 = Inr s"
  by (simp add: ex_create_def ex_ids_def ex_binding_def empty_db_def create_eval Let_def ex_lib_eval
      trim_def is_white_def session_snapshot_def)

definition logged_engine :: engine where
  "logged_engine = \<lparr>en_lib = ex_lib, en_serde = ex_serde, en_store = Some ex_store, en_root = lit ''/w'',
     en_tools = \<lparr>tr_root = [], tr_supported = False, tr_policy = \<lparr>po_denies = (\<lambda>_. False), po_version = 1\<rparr>,
       tr_tools = [], tr_snapshots = Map.empty\<rparr>,
     en_tool_lib = \<lparr>tl_sha = (\<lambda>_. []), tl_lossy = (\<lambda>d. d), tl_regex = (\<lambda>_. Inl []), tl_walk = (\<lambda>_ _. []),
       tl_names = (\<lambda>_ _. []), tl_git_diff = (\<lambda>_ _ _. Inl []), tl_io_text = (\<lambda>_. [])\<rparr>,
     en_env_error = (\<lambda>_. []), en_sql_text = (\<lambda>_. []), en_supervision = False\<rparr>"

definition logged_agent :: "db \<Rightarrow> agent" where
  "logged_agent d = \<lparr>as_world = \<lparr>ew_db = d, ew_log = Map.empty, ew_tools = \<lparr>tw_files = Map.empty, tw_snapshots = Map.empty\<rparr>\<rparr>,
     as_mailboxes = Map.empty, as_failures = (\<lambda>_. None), as_reminders = Map.empty, as_active = {}, as_accept = None,
     as_tick = 0\<rparr>"

theorem full_loads_are_the_history_witness:
  "\<exists>e. \<forall>S0. \<exists>s w. load_full (S0\<lparr>ag_engine := logged_engine\<rparr>) 1 (logged_agent e) = (Inr s, w)
     \<and> tp_entries (sn_transcript s) = [ex_said]"
proof -
  obtain e e' where run: "conv_run ex_lib ex_serde ex_store (lit ''/w'') (empty_db, Map.empty) ex_ops = (e, Map.empty)"
    and out: "conversation_outbox_entries e 1 = [ex_said]" "\<forall>sid. set (conversation_outbox_entries e sid) \<subseteq> {ex_said}"
    and p: "printable_run ex_lib ex_serde ex_store (lit ''/w'') (empty_db, Map.empty) ex_ops"
    and sync: "sync_session_conversation ex_lib ex_serde (Some ex_store) (lit ''/w'') 1 Map.empty e
          = ([ex_path \<mapsto> FsFile [11, 12, 21, 10, 12, 10]], Inr e')"
    using ex_ops_run by blast
  obtain x s0 where x: "store_step ex_lib empty_db ex_create = Inr x" "session_snapshot ex_lib x 1 None 500 = Inr s0"
    using ex_created_snapshot by blast
  have "conv_run ex_lib ex_serde ex_store (lit ''/w'') (empty_db, Map.empty) ex_ops = (x, Map.empty)"
    using x(1) by (simp add: ex_ops_def del: store_step.simps) (simp add: ex_create_def acknowledges_def)
  then have s0: "session_snapshot ex_lib e 1 None 500 = Inr s0" using run x(2) by simp
  let ?f = "[ex_path \<mapsto> FsFile [11, 12, 21, 10, 12, 10]]"
  have "repair_and_read ex_lib ex_serde 1 (lit ''w'') [11, 12, 21, 10, 12, 10]
      = ([11, 12, 21, 10, 12, 10], Inr (id_index ex_lib [ex_said], [ex_said]))"
    using read_torn_log [OF ex_log_ok [of 1 10], of "[]"] by (simp add: ex_log_file MAX_FILE_BYTES_def del: One_nat_def)
  then have "conversation_read ex_lib ex_serde ex_store 1 ?f = (?f, Inr [ex_said])"
    using ex_reopen [of ?f "[11, 12, 21, 10, 12, 10]"]
    by (simp add: conversation_read_def ex_path_def ex_store_def del: One_nat_def)
  then have page: "conversation_page ex_lib ex_serde (Some ex_store) (lit ''/w'') 1 None 500 False Map.empty e
      = (?f, e', Inr (Some (page_of None 500 False [ex_said])))"
    by (simp add: conversation_page_def sync del: One_nat_def)
  have "page_of None 500 False [ex_said] = \<lparr>tp_entries = [ex_said], tp_next_after = Some 1, tp_has_more = False\<rparr>"
    by (simp add: page_of_def clamp_def ex_said_def)
  then have load: "load_full (S0\<lparr>ag_engine := logged_engine\<rparr>) 1 (logged_agent e)
      = (Inr (s0\<lparr>sn_transcript := \<lparr>tp_entries = [ex_said], tp_next_after = Some 1, tp_has_more = False\<rparr>\<rparr>),
         (logged_agent e)\<lparr>as_world := (as_world (logged_agent e))\<lparr>ew_log := ?f, ew_db := e'\<rparr>\<rparr>)" for S0 :: agent_service
    using page s0
    by (cases "sn_sequence s0") (simp_all add: load_full_def bindA_def engineA_def map_err_def retA_def snapshot_paged_def
      logged_engine_def logged_agent_def del: One_nat_def)
  have H: "history ex_lib ex_serde ex_store 1 (e, Map.empty) = [ex_said]"
    by (simp add: history_def out file_at_def logged_def repair_def missing_def del: One_nat_def)
  have "conv_ok ex_lib ex_serde ex_store (e, Map.empty)" using conv_run_moves [OF conv_ok_empty p] run by simp
  moreover have "all_printable ex_lib ex_serde ex_store (e, Map.empty)" using out(2) by (intro ex_all_printable) simp
  ultimately have intact: "conv_intact ex_lib ex_serde ex_store 1 [ex_said] (as_world (logged_agent e))"
    using H by (simp add: conv_intact_def logged_agent_def del: One_nat_def)
  have engine: "en_store logged_engine = Some ex_store" "en_lib logged_engine = ex_lib" "en_serde logged_engine = ex_serde"
    by (simp_all add: logged_engine_def)
  have said: "filter (\<lambda>e. 0 < te_sequence e) [ex_said] = [ex_said]" by (simp add: ex_said_def)
  show ?thesis
  proof (rule exI, rule allI)
    fix S0 :: agent_service
    let ?S = "S0\<lparr>ag_engine := logged_engine\<rparr>"
    have "en_store (ag_engine ?S) = Some ex_store" using engine by simp
    moreover have "conv_intact (ag_lib ?S) (en_serde (ag_engine ?S)) ex_store 1 [ex_said] (as_world (logged_agent e))"
      using intact engine by simp
    ultimately have "tp_entries (sn_transcript (s0\<lparr>sn_transcript := \<lparr>tp_entries = [ex_said], tp_next_after = Some 1, tp_has_more = False\<rparr>\<rparr>))
        = filter (\<lambda>e. 0 < te_sequence e) [ex_said]"
      using full_loads_are_the_history [OF _ _ load [of S0]] by blast
    then show "\<exists>s w. load_full ?S 1 (logged_agent e) = (Inr s, w) \<and> tp_entries (sn_transcript s) = [ex_said]"
      unfolding said using load [of S0] by blast
  qed
qed

end
