(* ===== verification/Terminal_Commands.thy ===== *)
theory Terminal_Commands
  imports Protocol
begin

text \<open>
  The built-in commands of the terminal, \<open>latte-tui/src/command.rs\<close>: one catalogue that the
  palette and the slash input share, the exact recognition of a slash command and the
  suggestions for a partial one. A descriptor is found by its place in the catalogue.
\<close>

datatype builtin_command =
    CmdNew | CmdSessions | CmdRename | CmdFork | CmdModel | CmdHelp | CmdNavigation | CmdRefresh | CmdQuit

datatype command_kind = LocalUi | TypedAction | PromptTemplate

datatype argument_policy = ArgNone | ArgOptional | ArgRequired

record command_descriptor =
  cd_id :: builtin_command
  cd_name :: rstr
  cd_aliases :: "rstr list"
  cd_description :: rstr
  cd_argument_hint :: "rstr option"
  cd_kind :: command_kind
  cd_arguments :: argument_policy

definition command_of :: "builtin_command \<Rightarrow> string \<Rightarrow> string list \<Rightarrow> string \<Rightarrow> string option \<Rightarrow> command_kind
    \<Rightarrow> argument_policy \<Rightarrow> command_descriptor" where
  "command_of i name aliases description hint kind arguments =
     \<lparr>cd_id = i, cd_name = lit name, cd_aliases = map lit aliases, cd_description = lit description,
      cd_argument_hint = map_option lit hint, cd_kind = kind, cd_arguments = arguments\<rparr>"

definition BUILTINS :: "command_descriptor list" where
  "BUILTINS =
     [command_of CmdNew ''new'' [] ''Start a new conversation draft'' None LocalUi ArgNone,
      command_of CmdSessions ''sessions'' [''resume''] ''Find and resume a saved session'' (Some ''[query]'')
        TypedAction ArgOptional,
      command_of CmdModel ''model'' [] ''Select a provider and model'' None LocalUi ArgNone,
      command_of CmdHelp ''help'' [] ''Show keyboard shortcuts'' None LocalUi ArgNone,
      command_of CmdNavigation ''navigation'' [''nav''] ''Enter transcript navigation'' None LocalUi ArgNone,
      command_of CmdRefresh ''refresh'' [] ''Refresh authoritative session state'' None TypedAction ArgNone,
      command_of CmdQuit ''quit'' [''exit'', ''q''] ''Quit Latte Code'' None LocalUi ArgNone,
      command_of CmdRename ''rename'' [] ''Rename the current session'' (Some ''<title>'') TypedAction ArgRequired,
      command_of CmdFork ''fork'' [''branch''] ''Fork committed history into a new session'' (Some ''[title]'')
        TypedAction ArgOptional]"

definition is_ascii_lowercase :: "nat \<Rightarrow> bool" where
  "is_ascii_lowercase c \<longleftrightarrow> 97 \<le> c \<and> c \<le> 122"

text \<open>Bytes outside ASCII are refused, so the bytes of an accepted name are its characters.\<close>

definition valid_name :: "rstr \<Rightarrow> bool" where
  "valid_name v \<longleftrightarrow> v \<noteq> [] \<and> utf8_len v \<le> 64
     \<and> (\<forall>(i, c) \<in> set (enumerate 0 v). is_ascii_lowercase c \<or> is_ascii_digit c \<or> i > 0 \<and> c \<in> {58, 95, 45})"

datatype slash_resolution =
    SlPrompt
  | SlCommand command_descriptor rstr
  | SlValidationError rstr

definition resolve_slash :: "rstr \<Rightarrow> slash_resolution" where
  "resolve_slash value =
     (case strip_prefix (lit ''/'') value of
        None \<Rightarrow> SlPrompt
      | Some candidate \<Rightarrow>
          let name = takeWhile (\<lambda>c. \<not> is_white c) candidate in
          if \<not> valid_name name then SlPrompt
          else case find (\<lambda>d. cd_name d = name \<or> name \<in> set (cd_aliases d)) BUILTINS of
            None \<Rightarrow> SlPrompt
          | Some d \<Rightarrow>
              let argument = trim (drop (length name) candidate) in
              if cd_arguments d = ArgNone \<and> argument \<noteq> []
              then SlValidationError (lit ''/'' @ cd_name d @ lit '' does not accept arguments'')
              else if cd_arguments d = ArgRequired \<and> argument = []
              then SlValidationError (lit ''/'' @ cd_name d @ lit '' requires an argument'')
              else SlCommand d argument)"

definition suggestion_rank :: "rstr \<Rightarrow> command_descriptor \<Rightarrow> nat option" where
  "suggestion_rank p d =
     (if cd_name d = p \<or> p \<in> set (cd_aliases d) then Some 0
      else if strip_prefix p (cd_name d) \<noteq> None then Some 1
      else if list_ex (\<lambda>a. strip_prefix p a \<noteq> None) (cd_aliases d) then Some 2
      else None)"

text \<open>Sorted by rank and then by place: the three ranks one after the other, in the order of the catalogue.\<close>

definition slash_suggestions :: "rstr \<Rightarrow> command_descriptor list" where
  "slash_suggestions value =
     (case strip_prefix (lit ''/'') value of
        None \<Rightarrow> []
      | Some p \<Rightarrow>
          if list_ex is_white p \<or> (p \<noteq> [] \<and> \<not> valid_name p) \<or> utf8_len p > 64 then []
          else filter (\<lambda>d. suggestion_rank p d = Some 0) BUILTINS
             @ filter (\<lambda>d. suggestion_rank p d = Some 1) BUILTINS
             @ filter (\<lambda>d. suggestion_rank p d = Some 2) BUILTINS)"

subsection \<open>The catalogue is a catalogue\<close>

text \<open>Every name and alias is valid and means one command.\<close>

lemma BUILTINS_ok:
  "list_all valid_name (concat (map (\<lambda>d. cd_name d # cd_aliases d) BUILTINS))"
  "distinct (concat (map (\<lambda>d. cd_name d # cd_aliases d) BUILTINS))"
  "distinct (map cd_id BUILTINS)"
  by code_simp+

lemma resolve_named:
  assumes "resolve_slash v = SlCommand d argument"
  shows "d \<in> set BUILTINS" and "cd_arguments d = ArgNone \<Longrightarrow> argument = []" and "cd_arguments d = ArgRequired \<Longrightarrow> argument \<noteq> []"
  using assms by (auto simp: resolve_slash_def Let_def dest: find_Some_in split: option.splits if_splits)

end
