(* ===== verification/Terminal_Projection.thy ===== *)
theory Terminal_Projection
  imports Session_Lists Harness_Profile Utf8_Text
begin

text \<open>
  What the terminal shows of a session, \<open>latte-tui/src/session.rs\<close>: the transcript grouped by
  turn with tool calls paired to their results, the texts of a permission request, and the
  wrapping of text into rows. Grapheme clusters and display widths are those of the
  \<open>unicode-segmentation\<close> and \<open>unicode-width\<close> crates.
\<close>

record terminal_lib =
  tm_lib :: lib
  tm_graphemes :: "rstr \<Rightarrow> rstr list"
  tm_width :: "rstr \<Rightarrow> nat"
  tm_handoff :: "json \<Rightarrow> handoff option"

subsection \<open>Text\<close>

text \<open>Redacted, without control characters but newline and tab, cut at \<open>cap\<close> bytes with an ellipsis.\<close>

fun present_scan :: "(nat \<Rightarrow> bool) \<Rightarrow> nat \<Rightarrow> rstr \<Rightarrow> rstr \<Rightarrow> rstr" where
  "present_scan skip cap out [] = out"
| "present_scan skip cap out (c # cs) =
     (if skip c then present_scan skip cap out cs
      else if utf8_len out + len_utf8 c > cap then out @ [8230]
      else present_scan skip cap (out @ [c]) cs)"

definition presentation_text :: "lib \<Rightarrow> rstr \<Rightarrow> nat \<Rightarrow> rstr" where
  "presentation_text L value cap =
     present_scan (\<lambda>c. is_control c \<and> c \<noteq> 10 \<and> c \<noteq> 9) cap [] (redact L value)"

definition permission_context :: "lib \<Rightarrow> rstr \<Rightarrow> rstr" where
  "permission_context L description =
     (let out = present_scan is_control 360 [] (redact L description)
      in if out = [] then lit ''[operation summary unavailable]'' else out)"

definition payload_at :: "transcript_entry \<Rightarrow> string list \<Rightarrow> json option" where
  "payload_at e path = foldl (\<lambda>v k. case v of None \<Rightarrow> None | Some v \<Rightarrow> json_get (lit k) v) (te_payload e) path"

definition payload_string :: "lib \<Rightarrow> transcript_entry \<Rightarrow> string list \<Rightarrow> rstr option" where
  "payload_string L e path =
     (case payload_at e path of
        None \<Rightarrow> None
      | Some v \<Rightarrow>
          (case json_as_str v of
             None \<Rightarrow> None
           | Some s \<Rightarrow> if s = [] \<or> utf8_len s > 512 \<or> list_ex is_control s then None else Some (redact L s)))"

definition first_of :: "'a option \<Rightarrow> 'a option \<Rightarrow> 'a option" where
  "first_of x y = (case x of None \<Rightarrow> y | Some _ \<Rightarrow> x)"

subsection \<open>Cards\<close>

datatype activity_state = AcRecorded | AcRunning | AcWaiting | AcSucceeded | AcFailed

record action_result =
  ar_text :: rstr
  ar_failed :: bool

record action_item =
  ai_key :: rstr
  ai_tool_call_id :: "rstr option"
  ai_effect_id :: "rstr option"
  ai_name :: rstr
  ai_summary :: rstr
  ai_metadata :: "(rstr \<times> rstr) list"
  ai_state :: activity_state
  ai_result :: "action_result option"

datatype presentation_item =
    PiMessage transcript_kind rstr
  | PiCompletion rstr "handoff option"
  | PiAction action_item

record turn_presentation =
  tn_turn_id :: "uuid option"
  tn_heading :: rstr
  tn_items :: "presentation_item list"

definition completion_handoff :: "terminal_lib \<Rightarrow> transcript_entry \<Rightarrow> handoff option" where
  "completion_handoff T e =
     (let L = tm_lib T in
      case te_payload e of
        None \<Rightarrow> None
      | Some p \<Rightarrow>
          map_option (\<lambda>h. \<lparr>ho_summary = presentation_text L (ho_summary h) 2048,
            ho_files_changed = filter (\<lambda>p. p \<noteq> []) (map (\<lambda>p. presentation_text L p 512) (take 128 (ho_files_changed h))),
            ho_evidence = map (\<lambda>v. \<lparr>ev_name = presentation_text L (ev_name v) 256, ev_status = ev_status v,
              ev_summary = presentation_text L (ev_summary v) 1024\<rparr>) (take 128 (ho_evidence h))\<rparr>)
          (tm_handoff T (case json_get (lit ''handoff'') p of None \<Rightarrow> p | Some h \<Rightarrow> h)))"

definition tool_metadata :: "lib \<Rightarrow> transcript_entry \<Rightarrow> (rstr \<times> rstr) list" where
  "tool_metadata L e =
     (case payload_at e [''descriptor'', ''input''] of
        None \<Rightarrow> []
      | Some input \<Rightarrow>
          List.map_filter (\<lambda>(label, key).
            case json_get (lit key) input of
              None \<Rightarrow> None
            | Some v \<Rightarrow>
                (case json_as_str v of
                   None \<Rightarrow> None
                 | Some s \<Rightarrow> (let s = presentation_text L s 360 in if s = [] then None else Some (lit label, s))))
            [(''Target'', ''path''), (''Query'', ''query''), (''Directory'', ''cwd'')]
          @ (case (case json_get (lit ''argv'') input of None \<Rightarrow> None | Some v \<Rightarrow> json_as_array v) of
               None \<Rightarrow> []
             | Some argv \<Rightarrow>
                 let command = join_with [32] (map (\<lambda>p. presentation_text L p 160) (List.map_filter json_as_str argv))
                 in if command = [] then [] else [(lit ''Command'', presentation_text L command 512)]))"

fun turn_status_label :: "session_turn_status \<Rightarrow> rstr" where
  "turn_status_label StQueued = lit ''Queued''"
| "turn_status_label StRunning = lit ''Running''"
| "turn_status_label StCancelling = lit ''Cancelling''"
| "turn_status_label StWaitingPermission = lit ''Waiting permission''"
| "turn_status_label StWaitingInput = lit ''Waiting input''"
| "turn_status_label StInterrupted = lit ''Interrupted''"
| "turn_status_label StFailed = lit ''Failed''"
| "turn_status_label StCompleted = lit ''Completed''"

definition turn_heading :: "session_snapshot \<Rightarrow> uuid option \<Rightarrow> rstr" where
  "turn_heading s turn =
     (case turn of
        None \<Rightarrow> lit ''Conversation''
      | Some t \<Rightarrow>
          (case find (\<lambda>x. sm_turn_id x = t) (sn_turns s) of
             None \<Rightarrow> lit ''Turn activity''
           | Some x \<Rightarrow> lit ''Turn '' @ nat_text (sm_ordinal x) @ lit '' '' @ [183] @ lit '' '' @ turn_status_label (sm_status x)))"

subsection \<open>The projection of a transcript\<close>

fun add_to_group :: "uuid option \<Rightarrow> transcript_entry \<Rightarrow> (uuid option \<times> transcript_entry list) list
    \<Rightarrow> (uuid option \<times> transcript_entry list) list" where
  "add_to_group t e [] = [(t, [e])]"
| "add_to_group t e ((t', es) # gs) = (if t' = t then (t', es @ [e]) # gs else (t', es) # add_to_group t e gs)"

definition group_by_turn :: "transcript_entry list \<Rightarrow> (uuid option \<times> transcript_entry list) list" where
  "group_by_turn es = foldl (\<lambda>gs e. add_to_group (te_turn_id e) e gs) [] es"

text \<open>The last item that satisfies \<open>P\<close> is changed by \<open>f\<close>; \<open>None\<close> when there is none.\<close>

fun replace_last :: "('a \<Rightarrow> bool) \<Rightarrow> ('a \<Rightarrow> 'a) \<Rightarrow> 'a list \<Rightarrow> 'a list option" where
  "replace_last P f [] = None"
| "replace_last P f (x # xs) =
     (case replace_last P f xs of
        Some ys \<Rightarrow> Some (x # ys)
      | None \<Rightarrow> if P x then Some (f x # xs) else None)"

definition call_state :: "session_snapshot \<Rightarrow> uuid option \<Rightarrow> activity_state" where
  "call_state s t =
     (if t = sn_active_turn_id s
      then (case sn_lifecycle s of
              LcWaitingPermission \<Rightarrow> AcWaiting | LcRunning \<Rightarrow> AcRunning | LcWaitingInput \<Rightarrow> AcRunning
            | _ \<Rightarrow> AcRecorded)
      else AcRecorded)"

definition call_item :: "lib \<Rightarrow> session_snapshot \<Rightarrow> uuid option \<Rightarrow> transcript_entry \<Rightarrow> action_item" where
  "call_item L s t e =
     \<lparr>ai_key = lit ''action:'' @ uuid_text L (te_entry_id e),
      ai_tool_call_id = first_of (payload_string L e [''descriptor'', ''tool_call_id'']) (payload_string L e [''tool_call_id'']),
      ai_effect_id = first_of (payload_string L e [''descriptor'', ''effect_id'']) (payload_string L e [''effect_id'']),
      ai_name = presentation_text L
        (case first_of (payload_string L e [''descriptor'', ''name'']) (payload_string L e [''name'']) of
           None \<Rightarrow> lit ''Tool action'' | Some n \<Rightarrow> n) 80,
      ai_summary = presentation_text L (te_text e) 360, ai_metadata = tool_metadata L e,
      ai_state = call_state s t, ai_result = None\<rparr>"

definition result_state :: "bool \<Rightarrow> activity_state" where
  "result_state failed = (if failed then AcFailed else AcSucceeded)"

definition waits_for :: "rstr option \<Rightarrow> presentation_item \<Rightarrow> bool" where
  "waits_for call item = (case item of
     PiAction a \<Rightarrow> call \<noteq> None \<and> ai_tool_call_id a = call \<and> ai_result a = None | _ \<Rightarrow> False)"

definition on_action :: "(action_item \<Rightarrow> action_item) \<Rightarrow> presentation_item \<Rightarrow> presentation_item" where
  "on_action f item = (case item of PiAction a \<Rightarrow> PiAction (f a) | _ \<Rightarrow> item)"

definition present_result :: "lib \<Rightarrow> presentation_item list \<Rightarrow> transcript_entry \<Rightarrow> presentation_item list" where
  "present_result L items e =
     (let call = first_of (payload_string L e [''tool_call_id'']) (payload_string L e [''descriptor'', ''tool_call_id'']);
          failed = (payload_at e [''error''] \<noteq> None);
          result = \<lparr>ar_text = presentation_text L (te_text e) 640, ar_failed = failed\<rparr>
      in case replace_last (waits_for call)
             (on_action (\<lambda>a. a\<lparr>ai_state := result_state failed, ai_result := Some result\<rparr>)) items of
           Some items \<Rightarrow> items
         | None \<Rightarrow> items @ [PiAction \<lparr>ai_key = lit ''result:'' @ uuid_text L (te_entry_id e), ai_tool_call_id = call,
             ai_effect_id = None,
             ai_name = presentation_text L (case payload_string L e [''name''] of None \<Rightarrow> lit ''Tool result'' | Some n \<Rightarrow> n) 80,
             ai_summary = ar_text result, ai_metadata = [], ai_state = result_state failed, ai_result = None\<rparr>])"

definition has_effect :: "rstr option \<Rightarrow> presentation_item \<Rightarrow> bool" where
  "has_effect effect item = (case item of PiAction a \<Rightarrow> effect \<noteq> None \<and> ai_effect_id a = effect | _ \<Rightarrow> False)"

definition present_started :: "lib \<Rightarrow> presentation_item list \<Rightarrow> transcript_entry \<Rightarrow> presentation_item list" where
  "present_started L items e =
     (case replace_last (has_effect (payload_string L e [''effect_id''])) (on_action (\<lambda>a. a\<lparr>ai_state := AcRunning\<rparr>)) items of
        Some items \<Rightarrow> items
      | None \<Rightarrow> items @ [PiMessage TkSystem (presentation_text L (te_text e) 2048)])"

definition present_entry :: "terminal_lib \<Rightarrow> session_snapshot \<Rightarrow> uuid option \<Rightarrow> presentation_item list
    \<Rightarrow> transcript_entry \<Rightarrow> presentation_item list" where
  "present_entry T s t items e =
     (let L = tm_lib T; k = te_kind e in
      if k = TkToolCall then items @ [PiAction (call_item L s t e)]
      else if k = TkToolResult then present_result L items e
      else if k = TkSystem \<and> payload_string L e [''status''] = Some (lit ''started'') then present_started L items e
      else if k = TkCompletion
      then items @ [PiCompletion (presentation_text L (te_text e) 2048) (completion_handoff T e)]
      else let text = presentation_text L (te_text e) 2048
           in if text = [] then items else items @ [PiMessage k text])"

definition project_transcript :: "terminal_lib \<Rightarrow> session_snapshot \<Rightarrow> turn_presentation list" where
  "project_transcript T s =
     map (\<lambda>(t, es). \<lparr>tn_turn_id = t, tn_heading = turn_heading s t,
        tn_items = foldl (present_entry T s t) [] es\<rparr>)
       (group_by_turn (tp_entries (sn_transcript s)))"

definition action_keys :: "terminal_lib \<Rightarrow> session_snapshot option \<Rightarrow> rstr list" where
  "action_keys T s =
     (case s of
        None \<Rightarrow> []
      | Some s \<Rightarrow> List.map_filter (\<lambda>i. case i of PiAction a \<Rightarrow> Some (ai_key a) | _ \<Rightarrow> None)
          (concat (map tn_items (project_transcript T s))))"

subsection \<open>Requests and progress\<close>

record permission_presentation =
  pm_operation :: rstr
  pm_target :: rstr
  pm_scope :: rstr

definition text_field :: "json option \<Rightarrow> string \<Rightarrow> rstr option" where
  "text_field v k =
     (case v of None \<Rightarrow> None | Some v \<Rightarrow> (case json_get (lit k) v of None \<Rightarrow> None | Some x \<Rightarrow> json_as_str x))"

text \<open>The newest tool call card of the request; a card without a descriptor is passed over.\<close>

definition requested_descriptor :: "session_snapshot \<Rightarrow> rstr \<Rightarrow> json option" where
  "requested_descriptor s request =
     (case find (\<lambda>e. te_kind e = TkToolCall
           \<and> text_field (payload_at e [''descriptor'']) ''effect_id'' = Some request)
         (rev (tp_entries (sn_transcript s))) of
        None \<Rightarrow> None | Some e \<Rightarrow> payload_at e [''descriptor''])"

definition operation_label :: "rstr option \<Rightarrow> rstr" where
  "operation_label name =
     (case name of
        None \<Rightarrow> lit ''Repository operation''
      | Some n \<Rightarrow>
          if n = lit ''write_file'' then lit ''Write file''
          else if n = lit ''edit_file'' then lit ''Edit file''
          else if n = lit ''process'' then lit ''Run process''
          else if n = lit ''read_file'' then lit ''Read file''
          else if n = lit ''list_directory'' then lit ''List directory''
          else if n = lit ''search'' then lit ''Search workspace''
          else if n \<noteq> [] then map (\<lambda>c. if c = 95 then 32 else c) n
          else lit ''Repository operation'')"

definition present_permission :: "lib \<Rightarrow> session_snapshot \<Rightarrow> rstr \<Rightarrow> rstr \<Rightarrow> permission_presentation" where
  "present_permission L s request description =
     (let d = requested_descriptor s request;
          input = (case d of None \<Rightarrow> None | Some v \<Rightarrow> json_get (lit ''input'') v)
      in \<lparr>pm_operation = operation_label (map_option (\<lambda>n. presentation_text L n 80) (text_field d ''name'')),
          pm_target =
            (case first_of (text_field input ''path'') (first_of (text_field input ''cwd'') (text_field input ''query'')) of
               None \<Rightarrow> lit ''Not exposed by runtime''
             | Some v \<Rightarrow> presentation_text L v 360),
          pm_scope = permission_context L description\<rparr>)"

datatype transient_progress =
    ProviderAttempt uuid nat
  | AssistantDelta uuid rstr
  | ToolProgress uuid rstr rstr

fun progress_text :: "lib \<Rightarrow> transient_progress \<Rightarrow> rstr" where
  "progress_text L (ProviderAttempt _ number) = [8230] @ lit '' provider attempt '' @ nat_text number"
| "progress_text L (AssistantDelta _ text) = [8230] @ lit '' '' @ presentation_text L text 2048"
| "progress_text L (ToolProgress _ name detail) =
     [8230] @ lit '' '' @ presentation_text L name 80 @ lit '': '' @ presentation_text L detail 360"

fun progress_turn_id :: "transient_progress \<Rightarrow> uuid" where
  "progress_turn_id (ProviderAttempt t _) = t"
| "progress_turn_id (AssistantDelta t _) = t"
| "progress_turn_id (ToolProgress t _ _) = t"

fun lifecycle_label :: "session_lifecycle \<Rightarrow> rstr" where
  "lifecycle_label LcReady = lit ''Ready''"
| "lifecycle_label LcRunning = lit ''Running''"
| "lifecycle_label LcWaitingPermission = lit ''Waiting permission''"
| "lifecycle_label LcWaitingInput = lit ''Waiting input''"
| "lifecycle_label LcInterrupted = lit ''Interrupted''"
| "lifecycle_label LcFailed = lit ''Failed''"
| "lifecycle_label LcReconciliationRequired = lit ''Reconciliation required''"

text \<open>The effect whose outcome is unknown, from the newest failure card that names one.\<close>

definition unknown_effect :: "transcript_entry \<Rightarrow> rstr option" where
  "unknown_effect e =
     (if te_kind e \<noteq> TkFailure \<or> text_field (te_payload e) ''status'' \<noteq> Some (lit ''unknown'') then None
      else case text_field (te_payload e) ''effect_id'' of
        None \<Rightarrow> None
      | Some i \<Rightarrow> if i = [] \<or> utf8_len i > 512 \<or> list_ex is_control i then None else Some i)"

definition reconciliation_effect_from_snapshot :: "session_snapshot \<Rightarrow> rstr option" where
  "reconciliation_effect_from_snapshot s =
     (if sn_lifecycle s \<noteq> LcReconciliationRequired then None
      else case List.map_filter unknown_effect (rev (tp_entries (sn_transcript s))) of
        [] \<Rightarrow> None | i # _ \<Rightarrow> Some i)"

end
