(* ===== verification/Terminal_Model.thy ===== *)
theory Terminal_Model
  imports Terminal_Commands Terminal_Projection
begin

text \<open>
  The state of the terminal, \<open>latte-tui/src/session.rs\<close>: the last snapshots, the editors, one
  submission, input and model switch in flight, and the barriers in front of permission and
  reconciliation. A key press is given with the time it was read; modifiers the reducer
  never names are one flag, and so are the other keys.
\<close>

datatype connection_state = CnConnected | CnDisconnected | CnSnapshotRequired

subsection \<open>Inputs and actions\<close>

datatype key_code =
    KcChar nat | KcF nat | KcEnter | KcEsc | KcBackspace | KcUp | KcDown | KcLeft | KcRight
  | KcHome | KcPageUp | KcPageDown | KcOther

record key_event =
  ke_code :: key_code
  ke_shift :: bool
  ke_control :: bool
  ke_other_modifier :: bool
  ke_release :: bool
  ke_at :: nat

definition no_modifiers :: "key_event \<Rightarrow> bool" where
  "no_modifiers k \<longleftrightarrow> \<not> ke_shift k \<and> \<not> ke_control k \<and> \<not> ke_other_modifier k"

definition only_control :: "key_event \<Rightarrow> bool" where
  "only_control k \<longleftrightarrow> ke_control k \<and> \<not> ke_shift k \<and> \<not> ke_other_modifier k"

definition only_shift :: "key_event \<Rightarrow> bool" where
  "only_shift k \<longleftrightarrow> ke_shift k \<and> \<not> ke_control k \<and> \<not> ke_other_modifier k"

definition is_submit :: "key_event \<Rightarrow> bool" where
  "is_submit k \<longleftrightarrow> ke_code k = KcF 5 \<or> ke_code k = KcEnter \<and> (no_modifiers k \<or> only_control k)"

definition is_newline :: "key_event \<Rightarrow> bool" where
  "is_newline k \<longleftrightarrow> ke_code k = KcEnter \<and> only_shift k"

datatype mouse_kind = MouseScrollUp | MouseScrollDown | MouseOther

datatype ui_input =
    UiKey key_event
  | UiMouse mouse_kind
  | UiPaste rstr
  | UiResize nat nat
  | UiFrameRendered
  | UiSnapshot "session_snapshot list"
  | UiSessionCatalog "session_summary list"
  | UiSessionCatalogReady "session_summary list" "rstr option"
  | UiSessionOpened session_snapshot
  | UiEvent session_event_envelope
  | UiProgress transient_progress
  | UiLagged
  | UiConnected
  | UiDisconnected
  | UiCommandError rstr
  | UiCommandCompleted rstr
  | UiSubmissionAssigned nat uuid
  | UiSubmissionError nat
  | UiSubmissionCompleted nat
  | UiInputSubmissionError nat
  | UiInputSubmissionCompleted nat
  | UiModelSwitchError nat rstr
  | UiModelSwitchCompleted nat
  | UiTick
  | UiContextUsage uuid context_usage

datatype ui_action =
    ActStart nat rstr
  | ActStartWithModel nat rstr rstr rstr
  | ActFollowUp nat uuid nat rstr
  | ActQueueFollowUp nat uuid rstr
  | ActCancel uuid
  | ActResolvePermission uuid rstr bool
  | ActProvideInput nat uuid rstr rstr
  | ActReconcileUnknown uuid rstr
  | ActShowSessions "rstr option"
  | ActSearchSessions rstr
  | ActRenameSession uuid rstr
  | ActForkSession uuid "rstr option"
  | ActOpenSession uuid
  | ActSwitchModel nat uuid nat rstr rstr
  | ActRefreshSnapshots
  | ActQuit

subsection \<open>The model\<close>

record pending_submission =
  ps_submission_id :: nat
  ps_prompt :: rstr
  ps_session_id :: "uuid option"
  ps_after_sequence :: nat

record pending_input_submission =
  pn_submission_id :: nat
  pn_session_id :: uuid
  pn_turn_id :: uuid
  pn_request_id :: rstr
  pn_value :: rstr
  pn_after_sequence :: nat

record pending_model_switch =
  pw_switch_id :: nat
  pw_session_id :: uuid
  pw_provider_name :: rstr
  pw_model :: rstr

record model_option =
  mo_provider_name :: rstr
  mo_model :: rstr
  mo_name :: "rstr option"
  mo_is_default :: bool

record startup_presentation =
  su_default_provider :: rstr
  su_default_model :: rstr
  su_model_catalog :: "model_option list"
  su_workspace_display :: rstr

datatype ui_focus = FocusComposer | FocusNavigation

datatype active_conversation = NewSessionDraft | OpenConversation uuid

record ui =
  um_startup :: "startup_presentation option"
  um_sessions :: "session_snapshot list"
  um_catalog :: "session_summary list"
  um_active :: "active_conversation option"
  um_selected :: nat
  um_composer :: rstr
  um_input :: rstr
  um_scroll :: nat
  um_connection :: connection_state
  um_progress :: "transient_progress list"
  um_status :: rstr
  um_help :: bool
  um_palette :: bool
  um_command_index :: nat
  um_slash_index :: nat
  um_slash_dismissed :: bool
  um_picker :: bool
  um_session_index :: nat
  um_model_picker :: "(rstr \<times> nat) option"
  um_draft_model :: "(rstr \<times> rstr) option"
  um_focus :: ui_focus
  um_navigation_index :: nat
  um_expanded :: "rstr set"
  um_size :: "nat \<times> nat"
  um_queued :: "rstr option"
  um_pending :: "pending_submission option"
  um_deferred :: "rstr option"
  um_pending_input :: "pending_input_submission option"
  um_pending_switch :: "pending_model_switch option"
  um_rendered :: "(uuid \<times> rstr) option"
  um_input_target :: "(uuid \<times> rstr) option"
  um_refresh_composer :: bool
  um_refresh_input :: bool
  um_submission_error :: "rstr option"
  um_next_submission :: nat
  um_next_switch :: nat
  um_confirmation :: "(uuid \<times> rstr) option"
  um_hint :: "(uuid \<times> rstr) option"
  um_armed_until :: "nat option"
  um_observed_at :: "nat option"
  um_usage :: "(uuid \<times> context_usage) option"

definition ui_default :: ui where
  "ui_default =
     \<lparr>um_startup = None, um_sessions = [], um_catalog = [], um_active = None, um_selected = 0, um_composer = [],
      um_input = [], um_scroll = 0, um_connection = CnConnected, um_progress = [], um_status = lit ''Ready'',
      um_help = False, um_palette = False, um_command_index = 0, um_slash_index = 0, um_slash_dismissed = False,
      um_picker = False, um_session_index = 0, um_model_picker = None, um_draft_model = None,
      um_focus = FocusComposer, um_navigation_index = 0, um_expanded = {}, um_size = (80, 24), um_queued = None,
      um_pending = None, um_deferred = None, um_pending_input = None, um_pending_switch = None, um_rendered = None,
      um_input_target = None, um_refresh_composer = False, um_refresh_input = False, um_submission_error = None,
      um_next_submission = 1, um_next_switch = 1, um_confirmation = None, um_hint = None, um_armed_until = None,
      um_observed_at = None, um_usage = None\<rparr>"

definition provider_setup_guidance :: rstr where
  "provider_setup_guidance = lit (''Provider setup required: configure default_model and providers in '' @
     ''~/.latte/latte-code.jsonc, then restart Latte Code'')"

definition default_model_of :: "startup_presentation \<Rightarrow> (rstr \<times> rstr) option" where
  "default_model_of s =
     (if su_default_provider s \<noteq> [] \<and> su_default_model s \<noteq> [] then Some (su_default_provider s, su_default_model s)
      else None)"

definition with_startup :: "startup_presentation \<Rightarrow> ui" where
  "with_startup s = ui_default\<lparr>um_startup := Some s, um_draft_model := default_model_of s,
     um_status := (if default_model_of s \<noteq> None then lit ''Ready'' else provider_setup_guidance),
     um_active := Some NewSessionDraft\<rparr>"

subsection \<open>Reading the model\<close>

definition selected_session :: "ui \<Rightarrow> session_snapshot option" where
  "selected_session m =
     (case um_active m of
        Some NewSessionDraft \<Rightarrow> None
      | Some (OpenConversation sid) \<Rightarrow> find (\<lambda>s. sn_session_id s = sid) (um_sessions m)
      | None \<Rightarrow> if um_selected m < length (um_sessions m) then Some (um_sessions m ! um_selected m) else None)"

definition authority_enabled :: "ui \<Rightarrow> bool" where
  "authority_enabled m \<longleftrightarrow> um_connection m = CnConnected"

fun permission_request_id :: "session_pending_request option \<Rightarrow> rstr option" where
  "permission_request_id (Some (PendPermission _ request _ _)) = Some request"
| "permission_request_id _ = None"

fun pending_input_id :: "session_pending_request option \<Rightarrow> (uuid \<times> rstr) option" where
  "pending_input_id (Some (PendInput turn request _ _)) = Some (turn, request)"
| "pending_input_id _ = None"

definition visible_permission :: "ui \<Rightarrow> (uuid \<times> rstr) option" where
  "visible_permission m =
     (case selected_session m of
        None \<Rightarrow> None
      | Some s \<Rightarrow> map_option (\<lambda>r. (sn_session_id s, r)) (permission_request_id (sn_pending s)))"

definition mark_selected_permission_rendered :: "ui \<Rightarrow> ui" where
  "mark_selected_permission_rendered m = m\<lparr>um_rendered := visible_permission m\<rparr>"

definition permission_was_rendered :: "ui \<Rightarrow> uuid \<Rightarrow> rstr \<Rightarrow> bool" where
  "permission_was_rendered m sid request \<longleftrightarrow> um_rendered m = Some (sid, request)"

definition reconciliation_effect_id :: "ui \<Rightarrow> session_snapshot \<Rightarrow> rstr option" where
  "reconciliation_effect_id m s =
     first_of (case um_hint m of None \<Rightarrow> None
              | Some (sid, effect) \<Rightarrow> if sid = sn_session_id s then Some effect else None)
       (reconciliation_effect_from_snapshot s)"

definition selected_provider_model :: "ui \<Rightarrow> (rstr \<times> rstr) option" where
  "selected_provider_model m =
     (case selected_session m of
        None \<Rightarrow> um_draft_model m
      | Some s \<Rightarrow> Some (pb_provider_name (sn_binding s), pb_model (sn_binding s)))"

definition session_switch_available :: "ui \<Rightarrow> bool" where
  "session_switch_available m \<longleftrightarrow> um_pending m = None \<and> um_pending_switch m = None
     \<and> (case selected_session m of
          None \<Rightarrow> True
        | Some s \<Rightarrow> sn_active_turn_id s = None \<and> sn_pending s = None \<and> sn_lifecycle s \<noteq> LcReconciliationRequired)"

definition filtered_model_options :: "ui \<Rightarrow> model_option list" where
  "filtered_model_options m =
     (case um_startup m of
        None \<Rightarrow> []
      | Some startup \<Rightarrow>
          let query = to_ascii_lowercase (case um_model_picker m of None \<Rightarrow> [] | Some (q, _) \<Rightarrow> trim q);
              hit = (\<lambda>s. contains query (to_ascii_lowercase s))
          in filter (\<lambda>x. query = [] \<or> hit (mo_provider_name x) \<or> hit (mo_model x)
               \<or> (case mo_name x of None \<Rightarrow> False | Some n \<Rightarrow> hit n)
               \<or> hit (mo_provider_name x @ lit ''/'' @ mo_model x)) (su_model_catalog startup))"

text \<open>No suggestions while another surface or a request owns the keys.\<close>

definition slash_popup_suggestions :: "ui \<Rightarrow> command_descriptor list" where
  "slash_popup_suggestions m =
     (if um_focus m \<noteq> FocusComposer \<or> um_pending m \<noteq> None \<or> um_slash_dismissed m \<or> um_help m \<or> um_palette m
         \<or> um_picker m \<or> um_model_picker m \<noteq> None
         \<or> (case selected_session m of None \<Rightarrow> False
            | Some s \<Rightarrow> sn_lifecycle s \<in> {LcWaitingPermission, LcWaitingInput, LcReconciliationRequired}
                \<or> sn_pending s \<noteq> None)
      then [] else slash_suggestions (um_composer m))"

subsection \<open>Editing\<close>

definition saturating_add :: "nat \<Rightarrow> nat \<Rightarrow> nat \<Rightarrow> nat" where
  "saturating_add most a b = min most (a + b)"

definition U16_MAX :: nat where "U16_MAX = 65535"

definition EDITOR_CAP :: nat where "EDITOR_CAP = 16 * 1024"

fun append_bounded :: "rstr \<Rightarrow> rstr \<Rightarrow> nat \<Rightarrow> rstr" where
  "append_bounded target [] cap = target"
| "append_bounded target (c # cs) cap =
     (if utf8_len target + len_utf8 c > cap then target else append_bounded (target @ [c]) cs cap)"

text \<open>Escape sequences and control characters but newline and tab are left out of a paste.\<close>

function append_editor_text :: "rstr \<Rightarrow> rstr \<Rightarrow> nat \<Rightarrow> rstr" where
  "append_editor_text target [] cap = target"
| "append_editor_text target (c # cs) cap =
     (if c = 27 then append_editor_text target (skip_escape cs) cap
      else if is_control c \<and> c \<noteq> 10 \<and> c \<noteq> 9 then append_editor_text target cs cap
      else if utf8_len target + len_utf8 c > cap then target
      else append_editor_text (target @ [c]) cs cap)"
  by pat_completeness auto
termination
  by (relation "measure (\<lambda>(target, cs, cap). length cs)") (auto simp: less_Suc_eq_le length_skip_escape)

definition pop_grapheme :: "terminal_lib \<Rightarrow> rstr \<Rightarrow> rstr" where
  "pop_grapheme T value = concat (butlast (tm_graphemes T value))"

end
