(* ===== verification/Terminal_Reducer.thy ===== *)
theory Terminal_Reducer
  imports Terminal_Model
begin

text \<open>
  The reducer of the terminal, \<open>latte-tui/src/session.rs\<close>: \<open>reduce\<close> takes one input to the
  actions it emits and the new model, one definition per surface that owns the keys.
\<close>

subsection \<open>Reconciliation with the durable transcript\<close>

text \<open>The keys of the cards a submission becomes: \<open>session:create:user\<close>, or \<open>follow-up:\<close> to \<open>:user\<close>.\<close>

definition is_submission_user_card :: "transcript_entry \<Rightarrow> bool" where
  "is_submission_user_card e \<longleftrightarrow> te_source_key e = lit ''session:create:user''
     \<or> strip_prefix (lit ''follow-up:'') (te_source_key e) \<noteq> None
        \<and> strip_prefix (rev (lit '':user'')) (rev (te_source_key e)) \<noteq> None"

definition submission_durable :: "lib \<Rightarrow> session_snapshot list \<Rightarrow> pending_submission \<Rightarrow> uuid \<Rightarrow> bool" where
  "submission_durable L sessions p sid \<longleftrightarrow>
     (\<exists>s \<in> set sessions. sn_session_id s = sid
        \<and> (\<exists>e \<in> set (tp_entries (sn_transcript s)). te_kind e = TkUser \<and> te_sequence e > ps_after_sequence p
             \<and> is_submission_user_card e \<and> te_text e = redact L (ps_prompt p)))"

definition reconcile_pending_submission :: "lib \<Rightarrow> ui \<Rightarrow> ui" where
  "reconcile_pending_submission L m =
     (case um_pending m of
        None \<Rightarrow> m
      | Some p \<Rightarrow>
          (case ps_session_id p of
             None \<Rightarrow> m
           | Some sid \<Rightarrow>
               if submission_durable L (um_sessions m) p sid
               then let m = m\<lparr>um_pending := None, um_queued := None, um_submission_error := None,
                              um_refresh_composer := False\<rparr>
                    in if um_composer m = []
                       then (case um_deferred m of
                               None \<Rightarrow> m | Some draft \<Rightarrow> m\<lparr>um_deferred := None, um_composer := draft\<rparr>)
                       else m
               else m))"

definition restore_message :: rstr where
  "restore_message = lit ''Unable to persist submission. Prompt restored for retry.''"

definition restore_pending_submission :: "ui \<Rightarrow> ui" where
  "restore_pending_submission m =
     (case um_pending m of
        None \<Rightarrow> m
      | Some p \<Rightarrow>
          m\<lparr>um_pending := None, um_queued := None,
            um_deferred := (if um_composer m \<noteq> [] then Some (um_composer m) else um_deferred m),
            um_composer := ps_prompt p, um_status := restore_message,
            um_submission_error := Some restore_message, um_refresh_composer := False\<rparr>)"

definition input_durable :: "lib \<Rightarrow> session_snapshot list \<Rightarrow> pending_input_submission \<Rightarrow> bool" where
  "input_durable L sessions p \<longleftrightarrow>
     (\<exists>s \<in> set sessions. sn_session_id s = pn_session_id p
        \<and> (\<exists>e \<in> set (tp_entries (sn_transcript s)). te_kind e = TkUser \<and> te_sequence e > pn_after_sequence p
             \<and> te_source_key e = uuid_text L (pn_turn_id p) @ lit '':input:'' @ pn_request_id p @ lit '':card''
             \<and> te_text e = redact L (pn_value p)))"

definition reconcile_pending_input_submission :: "lib \<Rightarrow> ui \<Rightarrow> ui" where
  "reconcile_pending_input_submission L m =
     (case um_pending_input m of
        None \<Rightarrow> m
      | Some p \<Rightarrow>
          if input_durable L (um_sessions m) p
          then m\<lparr>um_pending_input := None, um_refresh_input := False, um_input := []\<rparr> else m)"

definition switch_durable :: "session_snapshot list \<Rightarrow> pending_model_switch \<Rightarrow> bool" where
  "switch_durable sessions p \<longleftrightarrow>
     (\<exists>s \<in> set sessions. sn_session_id s = pw_session_id p
        \<and> pb_provider_name (sn_binding s) = pw_provider_name p \<and> pb_model (sn_binding s) = pw_model p)"

definition reconcile_pending_model_switch :: "ui \<Rightarrow> ui" where
  "reconcile_pending_model_switch m =
     (case um_pending_switch m of
        None \<Rightarrow> m
      | Some p \<Rightarrow>
          if switch_durable (um_sessions m) p
          then m\<lparr>um_pending_switch := None,
                 um_status := lit ''Model switched to '' @ pw_provider_name p @ lit ''/'' @ pw_model p\<rparr>
          else m)"

definition finalize_failed_submissions_after_snapshot :: "ui \<Rightarrow> ui" where
  "finalize_failed_submissions_after_snapshot m =
     (let m = (if um_refresh_composer m \<and> um_pending m \<noteq> None then restore_pending_submission m else m)
      in if um_refresh_input m
         then (case um_pending_input m of
                 None \<Rightarrow> m
               | Some p \<Rightarrow>
                   m\<lparr>um_pending_input := None, um_input := pn_value p,
                     um_input_target := Some (pn_session_id p, pn_request_id p), um_refresh_input := False,
                     um_status := lit ''Unable to persist input. Input restored for retry.''\<rparr>)
         else m)"

definition restore_stranded_follow_up :: "ui \<Rightarrow> ui" where
  "restore_stranded_follow_up m =
     (if um_queued m \<noteq> None \<and> um_pending m \<noteq> None
         \<and> (case selected_session m of
              None \<Rightarrow> False
            | Some s \<Rightarrow> sn_active_turn_id s = None \<and> sn_pending s = None \<and> sn_lifecycle s \<noteq> LcReady)
      then (restore_pending_submission m)\<lparr>um_status :=
             lit (''Queued follow-up was not submitted because the active child ended; '' @ ''prompt restored'')\<rparr>
      else m)"

definition synchronize_input_target :: "ui \<Rightarrow> ui" where
  "synchronize_input_target m =
     (if um_pending_input m \<noteq> None then m
      else let target = (case selected_session m of
               None \<Rightarrow> None
             | Some s \<Rightarrow> map_option (\<lambda>(_, r). (sn_session_id s, r)) (pending_input_id (sn_pending s)))
        in if um_input_target m \<noteq> target then m\<lparr>um_input := [], um_input_target := target\<rparr> else m)"

text \<open>What a snapshot and an opened session do with everything in flight.\<close>

definition settle_in_flight :: "lib \<Rightarrow> ui \<Rightarrow> ui" where
  "settle_in_flight L m =
     synchronize_input_target (restore_stranded_follow_up (finalize_failed_submissions_after_snapshot
       (reconcile_pending_model_switch (reconcile_pending_input_submission L (reconcile_pending_submission L m)))))"

definition hint_of_selection :: "ui \<Rightarrow> (uuid \<times> rstr) option" where
  "hint_of_selection m =
     (case selected_session m of
        None \<Rightarrow> None
      | Some s \<Rightarrow> map_option (\<lambda>e. (sn_session_id s, e)) (reconciliation_effect_from_snapshot s))"

subsection \<open>Commands\<close>

definition selected_session_action :: "(uuid \<Rightarrow> ui_action) \<Rightarrow> ui \<Rightarrow> ui_action list \<times> ui" where
  "selected_session_action action m =
     (case selected_session m of
        None \<Rightarrow> ([], m\<lparr>um_status := lit ''This command requires an open saved session''\<rparr>)
      | Some s \<Rightarrow> ([action (sn_session_id s)], m))"

text \<open>\<open>split_whitespace\<close>: the maximal runs of other characters.\<close>

fun words :: "rstr \<Rightarrow> rstr \<Rightarrow> rstr list" where
  "words w [] = (if w = [] then [] else [w])"
| "words w (c # cs) =
     (if is_white c then (if w = [] then words [] cs else w # words [] cs) else words (w @ [c]) cs)"

definition dispatch_session_search :: "lib \<Rightarrow> rstr \<Rightarrow> ui \<Rightarrow> ui_action list \<times> ui" where
  "dispatch_session_search L argument m =
     (if argument = [] then ([ActShowSessions None], m)
      else if uuid_parse L argument \<noteq> None then ([ActShowSessions (Some argument)], m)
      else if list_ex (\<lambda>w. strip_prefix (lit ''--'') w \<noteq> None) (words [] argument)
      then ([], m\<lparr>um_status := lit ''The /sessions command accepts only a current-workspace query''\<rparr>)
      else ([ActSearchSessions argument], m))"

fun index_where :: "('a \<Rightarrow> bool) \<Rightarrow> 'a list \<Rightarrow> nat option" where
  "index_where P [] = None"
| "index_where P (x # xs) = (if P x then Some 0 else map_option Suc (index_where P xs))"

definition open_model_picker :: "ui \<Rightarrow> ui" where
  "open_model_picker m =
     (let options = (case um_startup m of None \<Rightarrow> [] | Some s \<Rightarrow> su_model_catalog s) in
      if options = [] then m\<lparr>um_status := provider_setup_guidance\<rparr>
      else let index = (case selected_provider_model m of
                 None \<Rightarrow> 0
               | Some (provider, model) \<Rightarrow>
                   (case index_where (\<lambda>x. mo_provider_name x = provider \<and> mo_model x = model) options of
                      None \<Rightarrow> 0 | Some i \<Rightarrow> i))
           in m\<lparr>um_model_picker := Some ([], index), um_help := False, um_palette := False, um_picker := False\<rparr>)"

definition switch_disabled :: rstr where
  "switch_disabled = lit ''Session switching is disabled while work or a request is active''"

definition new_draft :: "ui \<Rightarrow> ui" where
  "new_draft m = m\<lparr>um_sessions := [], um_selected := 0, um_active := Some NewSessionDraft, um_picker := False,
     um_model_picker := None,
     um_draft_model := (case um_startup m of None \<Rightarrow> None | Some s \<Rightarrow> default_model_of s),
     um_help := False, um_progress := [], um_scroll := 0, um_status := lit ''New conversation draft''\<rparr>"

definition dispatch_builtin :: "lib \<Rightarrow> builtin_command \<Rightarrow> rstr \<Rightarrow> ui \<Rightarrow> ui_action list \<times> ui" where
  "dispatch_builtin L command argument m =
     (if command \<in> {CmdNew, CmdSessions, CmdModel, CmdRename, CmdFork} \<and> \<not> session_switch_available m
      then ([], m\<lparr>um_status := switch_disabled\<rparr>)
      else case command of
        CmdNew \<Rightarrow> ([], new_draft m)
      | CmdSessions \<Rightarrow> dispatch_session_search L argument m
      | CmdRename \<Rightarrow> selected_session_action (\<lambda>sid. ActRenameSession sid argument) m
      | CmdFork \<Rightarrow> selected_session_action
          (\<lambda>sid. ActForkSession sid (if argument \<noteq> [] then Some argument else None)) m
      | CmdModel \<Rightarrow> ([], open_model_picker m)
      | CmdHelp \<Rightarrow> ([], m\<lparr>um_help := True\<rparr>)
      | CmdNavigation \<Rightarrow> ([], m\<lparr>um_focus := FocusNavigation, um_help := False\<rparr>)
      | CmdRefresh \<Rightarrow> ([ActRefreshSnapshots], m)
      | CmdQuit \<Rightarrow> ([ActQuit], m))"

text \<open>\<open>None\<close> when the text is an ordinary prompt.\<close>

definition submit_slash_candidate :: "lib \<Rightarrow> ui \<Rightarrow> (ui_action list \<times> ui) option" where
  "submit_slash_candidate L m =
     (case resolve_slash (um_composer m) of
        SlValidationError e \<Rightarrow> Some ([], m\<lparr>um_status := e\<rparr>)
      | SlCommand d argument \<Rightarrow>
          if cd_id d \<in> {CmdNew, CmdSessions, CmdModel} \<and> \<not> session_switch_available m
          then Some ([], m\<lparr>um_status := switch_disabled\<rparr>)
          else Some (dispatch_builtin L (cd_id d) argument (m\<lparr>um_composer := []\<rparr>))
      | SlPrompt \<Rightarrow> None)"

subsection \<open>Submitting\<close>

definition U64_MAX :: nat where "U64_MAX = 2 ^ 64 - 1"

definition runs_a_turn :: "session_snapshot \<Rightarrow> bool" where
  "runs_a_turn s \<longleftrightarrow> sn_lifecycle s = LcRunning \<and> sn_active_turn_id s \<noteq> None \<and> sn_pending s = None"

definition newest_sequence :: "session_snapshot \<Rightarrow> nat" where
  "newest_sequence s = foldr max (map te_sequence (tp_entries (sn_transcript s))) 0"

text \<open>The prompt has left the composer and is in flight under the identifier \<open>n\<close>.\<close>

definition start_action :: "ui \<Rightarrow> nat \<Rightarrow> rstr \<Rightarrow> ui_action" where
  "start_action m n prompt =
     (case selected_provider_model m of
        Some (provider, model) \<Rightarrow>
          if (case um_startup m of None \<Rightarrow> False
              | Some s \<Rightarrow> su_default_provider s \<noteq> provider \<or> su_default_model s \<noteq> model)
          then ActStartWithModel n prompt provider model else ActStart n prompt
      | None \<Rightarrow> ActStart n prompt)"

definition send_submission :: "nat \<Rightarrow> rstr \<Rightarrow> ui \<Rightarrow> ui_action list \<times> ui" where
  "send_submission n prompt m =
     (case selected_session m of
        None \<Rightarrow> ([start_action m n prompt], m)
      | Some s \<Rightarrow>
          if sn_lifecycle s = LcReady
          then ([ActFollowUp n (sn_session_id s) (sn_revision s) prompt], m)
          else if runs_a_turn s \<and> um_queued m = None
          then ([ActQueueFollowUp n (sn_session_id s) prompt],
                m\<lparr>um_status := lit ''Follow-up queued behind the active turn''\<rparr>)
          else ([], m\<lparr>um_status := lit ''A follow-up is already queued'', um_pending := None, um_composer := prompt\<rparr>))"

definition submit_prompt :: "ui \<Rightarrow> ui_action list \<times> ui" where
  "submit_prompt m =
     (let prompt = um_composer m; n = um_next_submission m;
          (sid, after) = (case selected_session m of
             None \<Rightarrow> (None, 0) | Some s \<Rightarrow> (Some (sn_session_id s), newest_sequence s))
      in send_submission n prompt
           (m\<lparr>um_composer := [], um_next_submission := saturating_add U64_MAX n 1,
              um_pending := Some \<lparr>ps_submission_id = n, ps_prompt = prompt, ps_session_id = sid, ps_after_sequence = after\<rparr>,
              um_submission_error := None\<rparr>))"

definition submit_composer :: "lib \<Rightarrow> ui \<Rightarrow> ui_action list \<times> ui" where
  "submit_composer L m =
     (if um_pending m \<noteq> None \<or> trim (um_composer m) = [] then ([], m)
      else if um_pending_switch m \<noteq> None
      then ([], m\<lparr>um_status := lit ''Wait for the model switch to finish before submitting''\<rparr>)
      else case submit_slash_candidate L m of
        Some r \<Rightarrow> r
      | None \<Rightarrow>
          if selected_session m = None \<and> um_startup m \<noteq> None \<and> selected_provider_model m = None
          then ([], m\<lparr>um_status := provider_setup_guidance\<rparr>)
          else if (case selected_session m of None \<Rightarrow> False
                   | Some s \<Rightarrow> sn_lifecycle s \<noteq> LcReady \<and> \<not> runs_a_turn s)
          then ([], m\<lparr>um_status :=
            lit (''This session has no runnable child; use /new or /sessions '' @ ''before submitting'')\<rparr>)
          else submit_prompt m)"

subsection \<open>Keys of the surfaces\<close>

definition composer_edited :: "rstr \<Rightarrow> ui \<Rightarrow> ui" where
  "composer_edited text m = m\<lparr>um_composer := text, um_slash_index := 0, um_slash_dismissed := False\<rparr>"

text \<open>\<open>None\<close> lets the key fall through to the composer.\<close>

definition reduce_slash_popup_key :: "lib \<Rightarrow> key_event \<Rightarrow> ui \<Rightarrow> (ui_action list \<times> ui) option" where
  "reduce_slash_popup_key L k m =
     (let suggestions = slash_popup_suggestions m; bound = length suggestions - 1 in
      if suggestions = [] then None
      else case ke_code k of
        KcEsc \<Rightarrow> Some ([], m\<lparr>um_slash_dismissed := True\<rparr>)
      | KcUp \<Rightarrow> if no_modifiers k then Some ([], m\<lparr>um_slash_index := um_slash_index m - 1\<rparr>) else None
      | KcDown \<Rightarrow> if no_modifiers k then Some ([], m\<lparr>um_slash_index := min (um_slash_index m + 1) bound\<rparr>) else None
      | KcEnter \<Rightarrow>
          if authority_enabled m \<and> (no_modifiers k \<or> only_control k) then
            let command = cd_id (suggestions ! min (um_slash_index m) bound);
                m' = (if command \<notin> {CmdNew, CmdSessions, CmdModel} \<or> session_switch_available m
                      then composer_edited [] m else m)
            in Some (dispatch_builtin L command [] m')
          else None
      | _ \<Rightarrow> None)"

definition reduce_palette_key :: "lib \<Rightarrow> key_event \<Rightarrow> ui \<Rightarrow> ui_action list \<times> ui" where
  "reduce_palette_key L k m =
     (let up = ([], m\<lparr>um_command_index := um_command_index m - 1\<rparr>);
          down = ([], m\<lparr>um_command_index := min (um_command_index m + 1) (length BUILTINS - 1)\<rparr>);
          closed = m\<lparr>um_palette := False\<rparr>
      in case ke_code k of
        KcEsc \<Rightarrow> ([], closed)
      | KcChar c \<Rightarrow>
          if c = 112 \<and> only_control k then ([], closed)
          else if c = 107 \<and> no_modifiers k then up
          else if c = 106 \<and> no_modifiers k then down
          else ([], m)
      | KcUp \<Rightarrow> if no_modifiers k then up else ([], m)
      | KcDown \<Rightarrow> if no_modifiers k then down else ([], m)
      | KcEnter \<Rightarrow>
          dispatch_builtin L (cd_id (BUILTINS ! min (um_command_index m) (length BUILTINS - 1))) [] closed
      | _ \<Rightarrow> ([], m))"

definition reduce_session_picker_key :: "key_event \<Rightarrow> ui \<Rightarrow> ui_action list \<times> ui" where
  "reduce_session_picker_key k m =
     (let up = ([], m\<lparr>um_session_index := um_session_index m - 1\<rparr>);
          down = ([], m\<lparr>um_session_index := min (um_session_index m + 1) (length (um_catalog m) - 1)\<rparr>)
      in case ke_code k of
        KcEsc \<Rightarrow> ([], m\<lparr>um_picker := False\<rparr>)
      | KcUp \<Rightarrow> if no_modifiers k then up else ([], m)
      | KcDown \<Rightarrow> if no_modifiers k then down else ([], m)
      | KcChar c \<Rightarrow>
          if c = 107 \<and> no_modifiers k then up else if c = 106 \<and> no_modifiers k then down else ([], m)
      | KcEnter \<Rightarrow>
          if um_session_index m < length (um_catalog m)
          then ([ActOpenSession (sy_session_id (um_catalog m ! um_session_index m))], m) else ([], m)
      | _ \<Rightarrow> ([], m))"

definition choose_model :: "model_option \<Rightarrow> ui \<Rightarrow> ui_action list \<times> ui" where
  "choose_model opt m =
     (let provider = mo_provider_name opt; model = mo_model opt; slashed = provider @ lit ''/'' @ model in
      case selected_session m of
        Some s \<Rightarrow>
          if \<not> accepts_follow_up (sn_lifecycle s) \<or> sn_active_turn_id s \<noteq> None \<or> sn_pending s \<noteq> None
          then ([], m\<lparr>um_status := lit ''Model switching is disabled while work or a request is active''\<rparr>)
          else if pb_provider_name (sn_binding s) = provider \<and> pb_model (sn_binding s) = model
          then ([], m\<lparr>um_status := lit ''Model already selected: '' @ slashed\<rparr>)
          else let n = um_next_switch m in
            ([ActSwitchModel n (sn_session_id s) (sn_revision s) provider model],
             m\<lparr>um_next_switch := saturating_add U64_MAX n 1,
               um_pending_switch := Some \<lparr>pw_switch_id = n, pw_session_id = sn_session_id s,
                 pw_provider_name = provider, pw_model = model\<rparr>,
               um_status := lit ''Switching model to '' @ slashed\<rparr>)
      | None \<Rightarrow>
          ([], m\<lparr>um_draft_model := Some (provider, model), um_status := lit ''New sessions will use '' @ slashed\<rparr>))"

definition reduce_model_picker_key :: "terminal_lib \<Rightarrow> key_event \<Rightarrow> ui \<Rightarrow> ui_action list \<times> ui" where
  "reduce_model_picker_key T k m =
     (let options = filtered_model_options m in
      case um_model_picker m of
        None \<Rightarrow> ([], m)
      | Some (query, index) \<Rightarrow>
          (let picker = (\<lambda>q i. ([], m\<lparr>um_model_picker := Some (q, i)\<rparr>)) in
           case ke_code k of
             KcEsc \<Rightarrow> ([], m\<lparr>um_model_picker := None\<rparr>)
           | KcUp \<Rightarrow> if no_modifiers k then picker query (index - 1) else ([], m)
           | KcDown \<Rightarrow> if no_modifiers k then picker query (min (index + 1) (length options - 1)) else ([], m)
           | KcBackspace \<Rightarrow> if no_modifiers k then picker (pop_grapheme T query) 0 else ([], m)
           | KcChar c \<Rightarrow>
               if \<not> ke_control k \<and> utf8_len query < 256 \<and> \<not> is_control c then picker (query @ [c]) 0 else ([], m)
           | KcEnter \<Rightarrow>
               if no_modifiers k \<and> index < length options
               then choose_model (options ! index) (m\<lparr>um_model_picker := None\<rparr>) else ([], m)
           | _ \<Rightarrow> ([], m)))"

definition reduce_composer_key :: "terminal_lib \<Rightarrow> key_event \<Rightarrow> ui \<Rightarrow> ui_action list \<times> ui" where
  "reduce_composer_key T k m =
     (let submit = is_submit k \<and> authority_enabled m \<and> um_pending m = None in
      case ke_code k of
        KcEsc \<Rightarrow> ([], m\<lparr>um_focus := FocusNavigation, um_help := False\<rparr>)
      | KcBackspace \<Rightarrow> ([], composer_edited (pop_grapheme T (um_composer m)) m)
      | KcEnter \<Rightarrow>
          if is_newline k then ([], composer_edited (um_composer m @ [10]) m)
          else if submit then submit_composer (tm_lib T) m else ([], m)
      | KcF n \<Rightarrow> if n = 5 \<and> submit then submit_composer (tm_lib T) m else ([], m)
      | KcChar c \<Rightarrow>
          if \<not> ke_control k \<and> utf8_len (um_composer m) < EDITOR_CAP
          then ([], composer_edited (um_composer m @ [c]) m) else ([], m)
      | _ \<Rightarrow> ([], m))"

definition reduce_navigation_key :: "terminal_lib \<Rightarrow> key_event \<Rightarrow> ui \<Rightarrow> ui_action list \<times> ui" where
  "reduce_navigation_key T k m =
     (let keys = action_keys T (selected_session m); i = um_navigation_index m;
          up = ([], m\<lparr>um_navigation_index := i - 1\<rparr>);
          down = ([], m\<lparr>um_navigation_index := min (i + 1) (length keys - 1)\<rparr>);
          expand = (\<lambda>f. if i < length keys then ([], m\<lparr>um_expanded := f (keys ! i) (um_expanded m)\<rparr>) else ([], m));
          toggle = expand (\<lambda>x S. if x \<in> S then S - {x} else insert x S);
          composer = ([], m\<lparr>um_focus := FocusComposer, um_help := False\<rparr>)
      in case ke_code k of
        KcEsc \<Rightarrow> composer
      | KcChar c \<Rightarrow>
          if c = 105 then composer
          else if c = 113 \<and> no_modifiers k then ([ActQuit], m)
          else if c = 63 \<and> no_modifiers k then ([], m\<lparr>um_help := \<not> um_help m\<rparr>)
          else if c = 107 then up
          else if c = 106 then down
          else if c = 32 then toggle
          else ([], m)
      | KcUp \<Rightarrow> up
      | KcDown \<Rightarrow> down
      | KcPageUp \<Rightarrow> ([], m\<lparr>um_scroll := saturating_add U16_MAX (um_scroll m) 8\<rparr>)
      | KcPageDown \<Rightarrow> ([], m\<lparr>um_scroll := um_scroll m - 8\<rparr>)
      | KcHome \<Rightarrow> ([], m\<lparr>um_scroll := U16_MAX\<rparr>)
      | KcEnter \<Rightarrow> toggle
      | KcLeft \<Rightarrow> expand (\<lambda>x S. S - {x})
      | KcRight \<Rightarrow> expand insert
      | _ \<Rightarrow> ([], m))"

subsection \<open>Requests that own the keys\<close>

definition CTRL_C_EXIT_WINDOW :: nat where "CTRL_C_EXIT_WINDOW = 2000"

definition CTRL_C_DUPLICATE_WINDOW :: nat where "CTRL_C_DUPLICATE_WINDOW = 120"

text \<open>Ctrl+C: a duplicate delivery is ignored, a second press in time quits, a first one cancels.\<close>

definition reduce_interrupt :: "nat \<Rightarrow> ui \<Rightarrow> ui_action list \<times> ui" where
  "reduce_interrupt now m =
     (if (case um_observed_at m of None \<Rightarrow> False | Some t \<Rightarrow> now - t \<le> CTRL_C_DUPLICATE_WINDOW) then ([], m)
      else if (case um_armed_until m of None \<Rightarrow> False | Some deadline \<Rightarrow> now \<le> deadline)
      then ([ActQuit], m\<lparr>um_armed_until := None, um_observed_at := None\<rparr>)
      else let m = m\<lparr>um_observed_at := Some now, um_armed_until := Some (now + CTRL_C_EXIT_WINDOW)\<rparr> in
        case selected_session m of
          None \<Rightarrow> ([], m)
        | Some s \<Rightarrow>
            if authority_enabled m \<and> sn_lifecycle s \<in> {LcRunning, LcWaitingPermission, LcWaitingInput}
            then ([ActCancel (sn_session_id s)], m) else ([], m))"

definition reduce_confirmation_key :: "uuid \<Rightarrow> rstr \<Rightarrow> key_event \<Rightarrow> ui \<Rightarrow> ui_action list \<times> ui" where
  "reduce_confirmation_key sid effect k m =
     (if ke_code k = KcEnter then ([], m)
      else if authority_enabled m \<and> ke_code k = KcChar 97 \<and> only_control k
      then ([ActReconcileUnknown sid effect], m\<lparr>um_confirmation := None\<rparr>)
      else if ke_code k = KcEsc \<or> ke_code k = KcChar 100 \<and> no_modifiers k
      then ([], m\<lparr>um_confirmation := None, um_status := lit ''Reconciliation acknowledgement cancelled''\<rparr>)
      else ([], m))"

definition reduce_reconciliation_key :: "session_snapshot \<Rightarrow> key_event \<Rightarrow> ui \<Rightarrow> ui_action list \<times> ui" where
  "reduce_reconciliation_key s k m =
     (case reconciliation_effect_id m s of
        Some effect \<Rightarrow>
          if authority_enabled m \<and> ke_code k = KcChar 114 \<and> ke_control k
          then ([], m\<lparr>um_confirmation := Some (sn_session_id s, effect),
            um_status := lit (''Reconciliation acknowledgement open: Ctrl+A confirms; '' @ ''Enter does nothing'')\<rparr>)
          else ([], m)
      | None \<Rightarrow> ([], m))"

definition reduce_permission_key :: "session_snapshot \<Rightarrow> rstr \<Rightarrow> key_event \<Rightarrow> ui \<Rightarrow> ui_action list \<times> ui" where
  "reduce_permission_key s request k m =
     (let shown = authority_enabled m \<and> permission_was_rendered m (sn_session_id s) request in
      if shown \<and> ke_code k = KcChar 100 \<and> no_modifiers k
      then ([ActResolvePermission (sn_session_id s) request False], m)
      else if shown \<and> ke_code k = KcChar 97 \<and> only_control k
      then ([ActResolvePermission (sn_session_id s) request True], m)
      else ([], m))"

definition reduce_input_key :: "terminal_lib \<Rightarrow> session_snapshot \<Rightarrow> uuid \<Rightarrow> rstr \<Rightarrow> key_event \<Rightarrow> ui
    \<Rightarrow> ui_action list \<times> ui" where
  "reduce_input_key T s turn request k m =
     (if um_pending_input m \<noteq> None then ([], m)
      else if authority_enabled m \<and> is_submit k \<and> trim (um_input m) \<noteq> [] then
        let value = um_input m; n = um_next_submission m in
        ([ActProvideInput n (sn_session_id s) request value],
         m\<lparr>um_input := [], um_next_submission := saturating_add U64_MAX n 1,
           um_pending_input := Some \<lparr>pn_submission_id = n, pn_session_id = sn_session_id s, pn_turn_id = turn,
             pn_request_id = request, pn_value = value, pn_after_sequence = sn_sequence s\<rparr>,
           um_refresh_input := False\<rparr>)
      else if ke_code k = KcBackspace then ([], m\<lparr>um_input := pop_grapheme T (um_input m)\<rparr>)
      else if is_newline k \<and> utf8_len (um_input m) < EDITOR_CAP then ([], m\<lparr>um_input := um_input m @ [10]\<rparr>)
      else case ke_code k of
        KcChar c \<Rightarrow>
          if \<not> ke_control k \<and> utf8_len (um_input m) < EDITOR_CAP then ([], m\<lparr>um_input := um_input m @ [c]\<rparr>)
          else ([], m)
      | _ \<Rightarrow> ([], m))"

definition reduce_free_key :: "terminal_lib \<Rightarrow> key_event \<Rightarrow> ui \<Rightarrow> ui_action list \<times> ui" where
  "reduce_free_key T k m =
     (if um_model_picker m \<noteq> None then reduce_model_picker_key T k m
      else if um_picker m then reduce_session_picker_key k m
      else if um_palette m then reduce_palette_key (tm_lib T) k m
      else case reduce_slash_popup_key (tm_lib T) k m of
        Some r \<Rightarrow> r
      | None \<Rightarrow>
          if ke_code k = KcChar 112 \<and> only_control k
          then ([], m\<lparr>um_palette := True, um_command_index := 0, um_help := False\<rparr>)
          else (case um_focus m of
                  FocusComposer \<Rightarrow> reduce_composer_key T k m
                | FocusNavigation \<Rightarrow> reduce_navigation_key T k m))"

definition reduce_key_at :: "terminal_lib \<Rightarrow> key_event \<Rightarrow> ui \<Rightarrow> ui_action list \<times> ui" where
  "reduce_key_at T k m =
     (if ke_release k then ([], m)
      else if ke_code k = KcF 10 then ([ActQuit], m)
      else if ke_code k = KcChar 99 \<and> ke_control k then reduce_interrupt (ke_at k) m
      else
      let m = m\<lparr>um_armed_until := None, um_observed_at := None\<rparr> in
      if ke_code k = KcChar 114 \<and> ke_control k \<and> um_connection m \<noteq> CnConnected then ([ActRefreshSnapshots], m)
      else case um_confirmation m of
        Some (sid, effect) \<Rightarrow> reduce_confirmation_key sid effect k m
      | None \<Rightarrow>
          (case selected_session m of
             None \<Rightarrow> reduce_free_key T k m
           | Some s \<Rightarrow>
               if sn_lifecycle s = LcReconciliationRequired then reduce_reconciliation_key s k m
               else case sn_pending s of
                 Some (PendPermission _ request _ _) \<Rightarrow> reduce_permission_key s request k m
               | Some (PendInput turn request _ _) \<Rightarrow> reduce_input_key T s turn request k m
               | None \<Rightarrow> reduce_free_key T k m))"

subsection \<open>Pasted text and progress\<close>

definition reduce_paste :: "rstr \<Rightarrow> ui \<Rightarrow> ui" where
  "reduce_paste value m =
     (let m = m\<lparr>um_armed_until := None, um_observed_at := None\<rparr>;
          blocked = um_pending_input m \<noteq> None \<or> um_confirmation m \<noteq> None
            \<or> (case selected_session m of None \<Rightarrow> False
               | Some s \<Rightarrow> sn_lifecycle s = LcReconciliationRequired \<or> permission_request_id (sn_pending s) \<noteq> None)
      in if blocked then m
         else if (case selected_session m of None \<Rightarrow> False | Some s \<Rightarrow> pending_input_id (sn_pending s) \<noteq> None)
         then m\<lparr>um_input := append_editor_text (um_input m) value EDITOR_CAP\<rparr>
         else if um_focus m = FocusComposer
         then composer_edited (append_editor_text (um_composer m) value EDITOR_CAP) m
         else m)"

definition add_progress :: "transient_progress \<Rightarrow> transient_progress list \<Rightarrow> transient_progress list" where
  "add_progress p ps =
     (let pushed = (if length ps < 64 then ps @ [p] else ps) in
      case p of
        AssistantDelta t text \<Rightarrow>
          (if ps = [] then pushed
           else case last ps of
             AssistantDelta t' current \<Rightarrow>
               if t' = t then butlast ps @ [AssistantDelta t (append_bounded current text EDITOR_CAP)] else pushed
           | _ \<Rightarrow> pushed)
      | ProviderAttempt t number \<Rightarrow>
          (case replace_last (\<lambda>x. case x of ProviderAttempt t' _ \<Rightarrow> t' = t | _ \<Rightarrow> False) (\<lambda>_. p) ps of
             Some ps \<Rightarrow> ps | None \<Rightarrow> pushed)
      | ToolProgress t name detail \<Rightarrow>
          (case replace_last (\<lambda>x. case x of ToolProgress t' name' _ \<Rightarrow> t' = t \<and> name' = name | _ \<Rightarrow> False) (\<lambda>_. p) ps of
             Some ps \<Rightarrow> ps | None \<Rightarrow> pushed))"

definition record_progress :: "transient_progress \<Rightarrow> ui \<Rightarrow> ui" where
  "record_progress p m =
     (if um_connection m \<noteq> CnConnected then m else m\<lparr>um_progress := add_progress p (um_progress m)\<rparr>)"

definition reduce_mouse :: "mouse_kind \<Rightarrow> ui \<Rightarrow> ui" where
  "reduce_mouse k m =
     (case k of
        MouseScrollUp \<Rightarrow> m\<lparr>um_scroll := saturating_add U16_MAX (um_scroll m) 3\<rparr>
      | MouseScrollDown \<Rightarrow> m\<lparr>um_scroll := um_scroll m - 3\<rparr>
      | MouseOther \<Rightarrow> m)"

subsection \<open>Snapshots, catalogues and events\<close>

definition adopt_draft_session :: "ui \<Rightarrow> ui" where
  "adopt_draft_session m =
     (case um_pending m of
        None \<Rightarrow> m
      | Some p \<Rightarrow>
          (case ps_session_id p of
             None \<Rightarrow> m
           | Some sid \<Rightarrow>
               if um_active m = Some NewSessionDraft \<and> (\<exists>s \<in> set (um_sessions m). sn_session_id s = sid)
               then m\<lparr>um_active := Some (OpenConversation sid)\<rparr> else m))"

definition reselect :: "uuid option \<Rightarrow> ui \<Rightarrow> nat" where
  "reselect previous m =
     (let wanted = first_of previous (case um_active m of Some (OpenConversation sid) \<Rightarrow> Some sid | _ \<Rightarrow> None);
          found = (case wanted of None \<Rightarrow> None | Some sid \<Rightarrow> index_where (\<lambda>s. sn_session_id s = sid) (um_sessions m))
      in min (case found of None \<Rightarrow> 0 | Some i \<Rightarrow> i) (length (um_sessions m) - 1))"

definition confirmation_stale :: "ui \<Rightarrow> bool" where
  "confirmation_stale m =
     (case um_confirmation m of
        None \<Rightarrow> False
      | Some (sid, effect) \<Rightarrow>
          (case selected_session m of
             None \<Rightarrow> True
           | Some s \<Rightarrow> sn_session_id s \<noteq> sid \<or> sn_lifecycle s \<noteq> LcReconciliationRequired
               \<or> reconciliation_effect_id m s \<noteq> Some effect))"

text \<open>A queued prompt is dispatched when the selected session is ready again.\<close>

definition dispatch_queued :: "ui \<Rightarrow> ui_action list \<times> ui" where
  "dispatch_queued m =
     (case (um_queued m, selected_session m, um_pending m) of
        (Some prompt, Some s, Some p) \<Rightarrow>
          if sn_lifecycle s = LcReady
          then ([ActFollowUp (ps_submission_id p) (sn_session_id s) (sn_revision s) prompt], m\<lparr>um_queued := None\<rparr>)
          else ([], m)
      | _ \<Rightarrow> ([], m))"

definition needs_attention :: "session_snapshot \<Rightarrow> bool" where
  "needs_attention s \<longleftrightarrow> sn_lifecycle s = LcReconciliationRequired \<or> permission_request_id (sn_pending s) \<noteq> None"

definition reduce_snapshot :: "terminal_lib \<Rightarrow> session_snapshot list \<Rightarrow> ui \<Rightarrow> ui_action list \<times> ui" where
  "reduce_snapshot T sessions m =
     (let previous = map_option sn_session_id (selected_session m);
          m = adopt_draft_session (m\<lparr>um_sessions := sessions\<rparr>);
          m = m\<lparr>um_selected := reselect previous m\<rparr>;
          m = m\<lparr>um_navigation_index := min (um_navigation_index m) (length (action_keys T (selected_session m)) - 1),
                um_connection := CnConnected, um_progress := [], um_status := lit ''Transcript synchronized''\<rparr>;
          m = (case selected_session m of
                 None \<Rightarrow> m
               | Some s \<Rightarrow> if needs_attention s then m\<lparr>um_palette := False, um_help := False\<rparr> else m);
          m = settle_in_flight (tm_lib T) (m\<lparr>um_hint := hint_of_selection m\<rparr>);
          m = (if confirmation_stale m then m\<lparr>um_confirmation := None\<rparr> else m)
      in dispatch_queued m)"

definition reduce_opened :: "lib \<Rightarrow> session_snapshot \<Rightarrow> ui \<Rightarrow> ui" where
  "reduce_opened L s m =
     (let sid = sn_session_id s;
          m = m\<lparr>um_sessions := [s], um_selected := 0, um_active := Some (OpenConversation sid), um_picker := False,
            um_palette := False, um_help := False, um_progress := [], um_scroll := 0,
            um_status := lit ''Resumed session '' @ uuid_text L sid\<rparr>
      in settle_in_flight L (m\<lparr>um_hint := hint_of_selection m\<rparr>))"

definition reduce_catalog_ready :: "lib \<Rightarrow> session_summary list \<Rightarrow> rstr option \<Rightarrow> ui \<Rightarrow> ui_action list \<times> ui" where
  "reduce_catalog_ready L sessions query m =
     (let m = m\<lparr>um_catalog := sessions, um_session_index := 0\<rparr>;
          ask = (\<lambda>status. ([], m\<lparr>um_picker := True, um_status := status\<rparr>)) in
      case (case query of None \<Rightarrow> None | Some q \<Rightarrow> if q = [] then None else Some q) of
        None \<Rightarrow> ask (if sessions = [] then lit ''No saved sessions'' else lit ''Select a session to resume'')
      | Some q \<Rightarrow>
          (case map sy_session_id (filter (\<lambda>s. uuid_text L (sy_session_id s) = q \<or> sy_title s = q) sessions) of
             [sid] \<Rightarrow> ([ActOpenSession sid], m)
           | matches \<Rightarrow> ask
               (if sessions = [] then lit ''No exact session match for '' @ q
                else if matches = []
                then nat_text (length sessions) @ lit '' sessions match '' @ q @ lit ''; choose one''
                else lit ''Multiple sessions match '' @ q @ lit ''; choose one'')))"

fun apply_event :: "session_event \<Rightarrow> session_snapshot \<Rightarrow> session_snapshot" where
  "apply_event (LifecycleChanged lifecycle _) s = s\<lparr>sn_lifecycle := lifecycle\<rparr>"
| "apply_event (TranscriptAppended e) s =
     s\<lparr>sn_transcript := (sn_transcript s)\<lparr>tp_entries := tp_entries (sn_transcript s) @ [e]\<rparr>\<rparr>"
| "apply_event (TurnLinked t) s =
     s\<lparr>sn_latest_turn_id := Some (sm_turn_id t), sn_active_turn_id := Some (sm_turn_id t),
       sn_turns := sn_turns s @ [t], sn_lifecycle := LcRunning\<rparr>"
| "apply_event (BindingChanged _ _) s = s"
| "apply_event (ReconciliationRequiredEv _ _) s = s\<lparr>sn_lifecycle := LcReconciliationRequired\<rparr>"

fun update_first :: "('a \<Rightarrow> bool) \<Rightarrow> ('a \<Rightarrow> 'a) \<Rightarrow> 'a list \<Rightarrow> 'a list" where
  "update_first P f [] = []"
| "update_first P f (x # xs) = (if P x then f x # xs else x # update_first P f xs)"

definition reduce_event :: "lib \<Rightarrow> session_event_envelope \<Rightarrow> ui \<Rightarrow> ui_action list \<times> ui" where
  "reduce_event L ev m =
     (let mine = (\<lambda>s. sn_session_id s = se_session_id ev) in
      case find mine (um_sessions m) of
        None \<Rightarrow> ([ActRefreshSnapshots], m)
      | Some s \<Rightarrow>
          if se_revision ev \<noteq> saturating_add U64_MAX (sn_revision s) 1
          then ([ActRefreshSnapshots], m\<lparr>um_connection := CnSnapshotRequired, um_progress := []\<rparr>)
          else let m = m\<lparr>um_sessions := update_first mine (\<lambda>s. apply_event (se_event ev)
                 (s\<lparr>sn_revision := se_revision ev, sn_sequence := se_sequence ev\<rparr>)) (um_sessions m)\<rparr> in
            case se_event ev of
              BindingChanged _ _ \<Rightarrow> ([ActRefreshSnapshots], m\<lparr>um_connection := CnSnapshotRequired\<rparr>)
            | event \<Rightarrow>
                let m = (case event of
                       ReconciliationRequiredEv _ effect \<Rightarrow> m\<lparr>um_hint := Some (se_session_id ev, effect)\<rparr> | _ \<Rightarrow> m)
                in ([], synchronize_input_target (reconcile_pending_input_submission L (reconcile_pending_submission L m))))"

subsection \<open>Completions of the runtime\<close>

definition reduce_assigned :: "lib \<Rightarrow> nat \<Rightarrow> uuid \<Rightarrow> ui \<Rightarrow> ui" where
  "reduce_assigned L n sid m =
     (case um_pending m of
        None \<Rightarrow> m
      | Some p \<Rightarrow>
          if ps_submission_id p \<noteq> n then m
          else let m = m\<lparr>um_pending := Some (p\<lparr>ps_session_id := Some sid\<rparr>)\<rparr>;
                   m = (case index_where (\<lambda>s. sn_session_id s = sid) (um_sessions m) of
                          Some i \<Rightarrow>
                            if um_active m = Some NewSessionDraft
                            then m\<lparr>um_active := Some (OpenConversation sid), um_selected := i\<rparr> else m
                        | None \<Rightarrow> m)
               in reconcile_pending_submission L m)"

definition pending_is :: "nat \<Rightarrow> ui \<Rightarrow> bool" where
  "pending_is n m \<longleftrightarrow> map_option ps_submission_id (um_pending m) = Some n"

definition input_is :: "nat \<Rightarrow> ui \<Rightarrow> bool" where
  "input_is n m \<longleftrightarrow> map_option pn_submission_id (um_pending_input m) = Some n"

definition switch_is :: "nat \<Rightarrow> ui \<Rightarrow> bool" where
  "switch_is n m \<longleftrightarrow> map_option pw_switch_id (um_pending_switch m) = Some n"

definition no_actions :: "ui \<Rightarrow> ui_action list \<times> ui" where
  "no_actions m = ([], m)"

fun reduce :: "terminal_lib \<Rightarrow> ui \<Rightarrow> ui_input \<Rightarrow> ui_action list \<times> ui" where
  "reduce T m (UiResize width height) = no_actions (m\<lparr>um_size := (width, height)\<rparr>)"
| "reduce T m UiFrameRendered = no_actions (mark_selected_permission_rendered m)"
| "reduce T m UiConnected =
     no_actions (m\<lparr>um_connection := CnConnected, um_progress := [], um_status := lit ''Connected''\<rparr>)"
| "reduce T m UiDisconnected =
     no_actions (m\<lparr>um_connection := CnDisconnected, um_status := lit ''Disconnected: actions disabled''\<rparr>)"
| "reduce T m UiLagged =
     ([ActRefreshSnapshots], m\<lparr>um_connection := CnSnapshotRequired, um_progress := [],
        um_status := lit ''Event gap: reloading transcript snapshot''\<rparr>)"
| "reduce T m (UiSnapshot sessions) = reduce_snapshot T sessions m"
| "reduce T m (UiSessionCatalog sessions) =
     no_actions (m\<lparr>um_catalog := sessions, um_session_index := min (um_session_index m) (length sessions - 1)\<rparr>)"
| "reduce T m (UiSessionCatalogReady sessions query) = reduce_catalog_ready (tm_lib T) sessions query m"
| "reduce T m (UiSessionOpened s) = no_actions (reduce_opened (tm_lib T) s m)"
| "reduce T m (UiContextUsage sid usage) = no_actions (m\<lparr>um_usage := Some (sid, usage)\<rparr>)"
| "reduce T m (UiEvent ev) = reduce_event (tm_lib T) ev m"
| "reduce T m (UiProgress p) = no_actions (record_progress p m)"
| "reduce T m (UiCommandError e) = no_actions (m\<lparr>um_status := lit ''Command rejected: '' @ e\<rparr>)"
| "reduce T m (UiCommandCompleted message) = no_actions (m\<lparr>um_status := message\<rparr>)"
| "reduce T m (UiModelSwitchError n e) =
     no_actions (if switch_is n m
       then m\<lparr>um_pending_switch := None, um_status := lit ''Model switch rejected: '' @ e\<rparr> else m)"
| "reduce T m (UiModelSwitchCompleted n) =
     (if switch_is n m
      then ([ActRefreshSnapshots], m\<lparr>um_status := lit ''Model switch accepted; synchronizing session''\<rparr>)
      else ([], m))"
| "reduce T m (UiSubmissionAssigned n sid) = no_actions (reduce_assigned (tm_lib T) n sid m)"
| "reduce T m (UiSubmissionError n) =
     (if pending_is n m
      then ([ActRefreshSnapshots], m\<lparr>um_refresh_composer := True,
        um_status := lit ''Submission result uncertain; checking durable transcript''\<rparr>)
      else ([], m))"
| "reduce T m (UiSubmissionCompleted n) =
     no_actions (if pending_is n m
       then m\<lparr>um_status := lit ''Submission accepted; synchronizing transcript''\<rparr> else m)"
| "reduce T m (UiInputSubmissionError n) =
     (if input_is n m
      then ([ActRefreshSnapshots], m\<lparr>um_refresh_input := True,
        um_status := lit ''Input result uncertain; checking durable transcript''\<rparr>)
      else ([], m))"
| "reduce T m (UiInputSubmissionCompleted n) =
     no_actions (if input_is n m then m\<lparr>um_status := lit ''Input accepted; synchronizing transcript''\<rparr> else m)"
| "reduce T m (UiKey k) = reduce_key_at T k m"
| "reduce T m (UiMouse k) = no_actions (reduce_mouse k m)"
| "reduce T m (UiPaste value) = no_actions (reduce_paste value m)"
| "reduce T m UiTick = no_actions m"

end
