(* ===== verification/Terminal_Loop.thy ===== *)
theory Terminal_Loop
  imports Terminal_Reducer
begin

text \<open>
  The terminal loop, \<open>latte-tui/src/session.rs\<close>: actions that read the projection are carried
  out here and their results reduced, the others go to the sink. The projection and the sink
  are outside: their answers are functions of the number of calls made so far.
\<close>

record projection =
  pj_snapshots :: "nat \<Rightarrow> rstr + session_snapshot list"
  pj_catalog :: "nat \<Rightarrow> rstr + session_summary list"
  pj_session :: "nat \<Rightarrow> uuid \<Rightarrow> rstr + session_snapshot"
  pj_exact_catalog :: "nat \<Rightarrow> rstr \<Rightarrow> rstr + session_summary list"
  pj_search_catalog :: "nat \<Rightarrow> rstr \<Rightarrow> rstr + session_summary list"
  pj_context_usage :: "nat \<Rightarrow> uuid \<Rightarrow> rstr + context_usage"
  pj_sink :: "nat \<Rightarrow> ui_action \<Rightarrow> rstr + unit"

subsection \<open>What a client gets from its snapshots alone\<close>

definition summary_of_snapshot :: "session_snapshot \<Rightarrow> session_summary" where
  "summary_of_snapshot s =
     (let es = tp_entries (sn_transcript s) in
      \<lparr>sy_session_id = sn_session_id s,
       sy_title = (case find (\<lambda>e. te_kind e = TkUser) es of None \<Rightarrow> lit ''Untitled session'' | Some e \<Rightarrow> te_text e),
       sy_workspace_root = [], sy_parent_session_id = None, sy_lifecycle = sn_lifecycle s,
       sy_provider_name = pb_provider_name (sn_binding s), sy_model = pb_model (sn_binding s),
       sy_created_at_ms = (case es of [] \<Rightarrow> 0 | e # _ \<Rightarrow> te_created_at_ms e),
       sy_updated_at_ms = (if es = [] then 0 else te_created_at_ms (last es))\<rparr>)"

definition session_in :: "lib \<Rightarrow> session_snapshot list \<Rightarrow> uuid \<Rightarrow> rstr + session_snapshot" where
  "session_in L snapshots sid =
     ok_or (lit ''session '' @ uuid_text L sid @ lit '' was not found'') (find (\<lambda>s. sn_session_id s = sid) snapshots)"

definition exact_matches :: "lib \<Rightarrow> rstr \<Rightarrow> session_summary list \<Rightarrow> session_summary list" where
  "exact_matches L query = filter (\<lambda>s. uuid_text L (sy_session_id s) = query \<or> sy_title s = query)"

definition title_matches :: "lib \<Rightarrow> (rstr \<Rightarrow> rstr) \<Rightarrow> rstr \<Rightarrow> session_summary list \<Rightarrow> session_summary list" where
  "title_matches L lower query =
     (let q = lower (trim query) in
      filter (\<lambda>s. q = [] \<or> contains q (lower (sy_title s)) \<or> contains q (uuid_text L (sy_session_id s))))"

text \<open>The defaults of the client's operations, over the snapshots that the \<open>n\<close>-th call returns.\<close>

definition default_projection :: "lib \<Rightarrow> (rstr \<Rightarrow> rstr) \<Rightarrow> (nat \<Rightarrow> rstr + session_snapshot list)
    \<Rightarrow> (nat \<Rightarrow> ui_action \<Rightarrow> rstr + unit) \<Rightarrow> projection" where
  "default_projection L lower snapshots sink =
     (let catalog = (\<lambda>n. bindE (snapshots n) (\<lambda>ss. Inr (map summary_of_snapshot ss))) in
      \<lparr>pj_snapshots = snapshots, pj_catalog = catalog,
       pj_session = (\<lambda>n sid. bindE (snapshots n) (\<lambda>ss. session_in L ss sid)),
       pj_exact_catalog = (\<lambda>n q. bindE (catalog n) (\<lambda>ss. Inr (exact_matches L q ss))),
       pj_search_catalog = (\<lambda>n q. bindE (catalog n) (\<lambda>ss. Inr (title_matches L lower q ss))),
       pj_context_usage = (\<lambda>_ _. Inl (lit ''context usage projection unavailable'')),
       pj_sink = sink\<rparr>)"

subsection \<open>Carrying out one action\<close>

record terminal =
  tt_ui :: ui
  tt_calls :: nat
  tt_sent :: "ui_action list"

definition called :: "terminal \<Rightarrow> terminal" where
  "called w = w\<lparr>tt_calls := tt_calls w + 1\<rparr>"

definition feed :: "terminal_lib \<Rightarrow> ui_input \<Rightarrow> terminal \<Rightarrow> ui_action list \<times> terminal" where
  "feed T i w = (case reduce T (tt_ui w) i of (actions, m) \<Rightarrow> (actions, w\<lparr>tt_ui := m\<rparr>))"

definition exact_session :: "projection \<Rightarrow> rstr \<Rightarrow> terminal \<Rightarrow> (rstr + session_snapshot option) \<times> terminal" where
  "exact_session P query w =
     (case pj_exact_catalog P (tt_calls w) query of
        Inl e \<Rightarrow> (Inl e, called w)
      | Inr [s] \<Rightarrow> (bindE (pj_session P (tt_calls w + 1) (sy_session_id s)) (\<lambda>s. Inr (Some s)), called (called w))
      | Inr _ \<Rightarrow> (Inr None, called w))"

definition reduce_session_opened :: "terminal_lib \<Rightarrow> projection \<Rightarrow> session_snapshot \<Rightarrow> terminal
    \<Rightarrow> ui_action list \<times> terminal" where
  "reduce_session_opened T P s w =
     (case feed T (UiSessionOpened s) w of (actions, w) \<Rightarrow>
       (case pj_context_usage P (tt_calls w) (sn_session_id s) of
          Inl _ \<Rightarrow> (actions, called w)
        | Inr usage \<Rightarrow> (actions, snd (feed T (UiContextUsage (sn_session_id s) usage) (called w)))))"

text \<open>A result of the projection that ends the loop when it fails.\<close>

definition with_result :: "rstr + 'a \<Rightarrow> ('a \<Rightarrow> terminal \<Rightarrow> ui_action list \<times> terminal) \<Rightarrow> terminal
    \<Rightarrow> (rstr + ui_action list) \<times> terminal" where
  "with_result r f w = (case r of Inl e \<Rightarrow> (Inl e, w) | Inr x \<Rightarrow> (case f x w of (actions, w) \<Rightarrow> (Inr actions, w)))"

definition show_catalog :: "terminal_lib \<Rightarrow> rstr + session_summary list \<Rightarrow> rstr option \<Rightarrow> terminal
    \<Rightarrow> (rstr + ui_action list) \<times> terminal" where
  "show_catalog T r query w = with_result r (\<lambda>sessions. feed T (UiSessionCatalogReady sessions query)) w"

definition show_sessions :: "terminal_lib \<Rightarrow> projection \<Rightarrow> rstr option \<Rightarrow> terminal
    \<Rightarrow> (rstr + ui_action list) \<times> terminal" where
  "show_sessions T P query w =
     (case query of
        None \<Rightarrow> show_catalog T (pj_catalog P (tt_calls w)) None (called w)
      | Some q \<Rightarrow>
          (case exact_session P q w of
             (Inl e, w) \<Rightarrow> (Inl e, w)
           | (Inr (Some s), w) \<Rightarrow> with_result (Inr s) (reduce_session_opened T P) w
           | (Inr None, w) \<Rightarrow> show_catalog T (pj_exact_catalog P (tt_calls w) q) query (called w)))"

definition refresh :: "terminal_lib \<Rightarrow> projection \<Rightarrow> terminal \<Rightarrow> (rstr + ui_action list) \<times> terminal" where
  "refresh T P w =
     (case um_active (tt_ui w) of
        Some (OpenConversation sid) \<Rightarrow>
          with_result (pj_session P (tt_calls w) sid) (reduce_session_opened T P) (called w)
      | active \<Rightarrow>
          if active = Some NewSessionDraft \<and> um_pending (tt_ui w) = None
          then with_result (pj_catalog P (tt_calls w)) (\<lambda>sessions. feed T (UiSessionCatalog sessions)) (called w)
          else with_result (pj_snapshots P (tt_calls w)) (\<lambda>snapshots. feed T (UiSnapshot snapshots)) (called w))"

definition open_session :: "terminal_lib \<Rightarrow> projection \<Rightarrow> uuid \<Rightarrow> terminal \<Rightarrow> ui_action list \<times> terminal" where
  "open_session T P sid w =
     (case pj_session P (tt_calls w) sid of
        Inl e \<Rightarrow> ([], snd (feed T (UiCommandError e) (called w)))
      | Inr s \<Rightarrow> reduce_session_opened T P s (called w))"

text \<open>One action other than quitting, with the actions that its reduction emits in turn.\<close>

definition perform :: "terminal_lib \<Rightarrow> projection \<Rightarrow> ui_action \<Rightarrow> terminal \<Rightarrow> (rstr + ui_action list) \<times> terminal" where
  "perform T P action w =
     (case action of
        ActShowSessions query \<Rightarrow> show_sessions T P query w
      | ActSearchSessions query \<Rightarrow>
          show_catalog T (pj_search_catalog P (tt_calls w) query) (if query \<noteq> [] then Some query else None) (called w)
      | ActOpenSession sid \<Rightarrow> with_result (Inr sid) (open_session T P) w
      | ActRefreshSnapshots \<Rightarrow> refresh T P w
      | _ \<Rightarrow> with_result (pj_sink P (tt_calls w) action) (\<lambda>_ w. ([], w))
          ((called w)\<lparr>tt_sent := tt_sent w @ [action]\<rparr>))"

text \<open>
  \<open>n\<close> bounds the nesting of actions that emit actions; \<open>None\<close> when it does not suffice.
  \<open>Inr True\<close> means that the terminal quits.
\<close>

fun apply_session_actions :: "terminal_lib \<Rightarrow> projection \<Rightarrow> nat \<Rightarrow> ui_action list \<Rightarrow> terminal
    \<Rightarrow> (rstr + bool) option \<times> terminal" where
  "apply_session_actions T P n [] w = (Some (Inr False), w)"
| "apply_session_actions T P n (action # actions) w =
     (if action = ActQuit then (Some (Inr True), w)
      else case perform T P action w of
        (Inl e, w) \<Rightarrow> (Some (Inl e), w)
      | (Inr emitted, w) \<Rightarrow>
          if emitted = [] then apply_session_actions T P n actions w
          else (case n of
            0 \<Rightarrow> (None, w)
          | Suc k \<Rightarrow>
              (case apply_session_actions T P k emitted w of
                 (Some (Inr False), w) \<Rightarrow> apply_session_actions T P n actions w
               | r \<Rightarrow> r)))"

subsection \<open>Completions\<close>

datatype management_outcome = MgUpdated rstr | MgForked uuid

datatype ui_feedback =
    FbSubmissionAssigned nat uuid
  | FbSubmissionResult nat "rstr + rstr"
  | FbInputSubmissionResult nat "rstr + rstr"
  | FbModelSwitchResult nat "rstr + rstr"
  | FbCommand "rstr + rstr"
  | FbSessionManagement "rstr + management_outcome"

fun take_feedback :: "terminal_lib \<Rightarrow> ui_feedback \<Rightarrow> terminal \<Rightarrow> ui_action list \<times> terminal" where
  "take_feedback T (FbSubmissionAssigned n sid) w = feed T (UiSubmissionAssigned n sid) w"
| "take_feedback T (FbSubmissionResult n (Inr _)) w = feed T (UiSubmissionCompleted n) w"
| "take_feedback T (FbSubmissionResult n (Inl _)) w = feed T (UiSubmissionError n) w"
| "take_feedback T (FbInputSubmissionResult n (Inr _)) w = feed T (UiInputSubmissionCompleted n) w"
| "take_feedback T (FbInputSubmissionResult n (Inl _)) w = feed T (UiInputSubmissionError n) w"
| "take_feedback T (FbModelSwitchResult n (Inr _)) w = feed T (UiModelSwitchCompleted n) w"
| "take_feedback T (FbModelSwitchResult n (Inl e)) w = feed T (UiModelSwitchError n e) w"
| "take_feedback T (FbCommand (Inr message)) w = feed T (UiCommandCompleted message) w"
| "take_feedback T (FbCommand (Inl e)) w = feed T (UiCommandError e) w"
| "take_feedback T (FbSessionManagement (Inl e)) w = feed T (UiCommandError e) w"
| "take_feedback T (FbSessionManagement (Inr (MgUpdated message))) w =
     (case feed T (UiCommandCompleted message) w of (actions, w) \<Rightarrow> (actions @ [ActRefreshSnapshots], w))"
| "take_feedback T (FbSessionManagement (Inr (MgForked sid))) w = ([ActOpenSession sid], w)"

definition drain_runtime_updates :: "terminal_lib \<Rightarrow> ui_feedback list \<Rightarrow> transient_progress list \<Rightarrow> terminal
    \<Rightarrow> bool \<times> ui_action list \<times> terminal" where
  "drain_runtime_updates T feedback progress w =
     (case foldl (\<lambda>(actions, w) f. case take_feedback T f w of (emitted, w) \<Rightarrow> (actions @ emitted, w)) ([], w) feedback of
        (actions, w) \<Rightarrow>
          (feedback \<noteq> [] \<or> progress \<noteq> [], actions, foldl (\<lambda>w p. snd (feed T (UiProgress p) w)) w progress))"

subsection \<open>One turn of the loop\<close>

datatype projection_poll = PollEvent | PollEmpty | PollLagged nat | PollClosed | PollError rstr

datatype terminal_event = EvKey key_event | EvMouse mouse_kind | EvResize nat nat | EvPaste rstr | EvOther

text \<open>What one iteration meets: the time, a signal, the poll, the channels and the event that was read.\<close>

record iteration =
  it_now :: nat
  it_interrupted :: bool
  it_poll :: projection_poll
  it_feedback :: "ui_feedback list"
  it_progress :: "transient_progress list"
  it_event :: "terminal_event option"

datatype loop_exit = LoopQuit | LoopFailed rstr | LoopStuck

definition carry_out :: "terminal_lib \<Rightarrow> projection \<Rightarrow> ui_action list \<times> terminal \<Rightarrow> loop_exit + terminal" where
  "carry_out T P = (\<lambda>(actions, w). case apply_session_actions T P 1 actions w of
     (Some (Inr False), w) \<Rightarrow> Inr w
   | (Some (Inr True), w) \<Rightarrow> Inl LoopQuit
   | (Some (Inl e), w) \<Rightarrow> Inl (LoopFailed e)
   | (None, w) \<Rightarrow> Inl LoopStuck)"

definition draw_frame :: "terminal_lib \<Rightarrow> nat \<Rightarrow> terminal \<times> bool \<Rightarrow> terminal" where
  "draw_frame T now = (\<lambda>(w, redraw).
     let expired = (case um_armed_until (tt_ui w) of None \<Rightarrow> False | Some deadline \<Rightarrow> now > deadline);
         w = (if expired then w\<lparr>tt_ui := (tt_ui w)\<lparr>um_armed_until := None\<rparr>\<rparr> else w)
     in if redraw \<or> expired then snd (feed T UiFrameRendered w) else w)"

definition control_c :: "nat \<Rightarrow> key_event" where
  "control_c now = \<lparr>ke_code = KcChar 99, ke_shift = False, ke_control = True, ke_other_modifier = False,
     ke_release = False, ke_at = now\<rparr>"

definition take_poll :: "terminal_lib \<Rightarrow> projection \<Rightarrow> projection_poll \<Rightarrow> terminal \<Rightarrow> loop_exit + terminal \<times> bool" where
  "take_poll T P p w =
     (case p of
        PollEvent \<Rightarrow> bindE (carry_out T P ([ActRefreshSnapshots], w)) (\<lambda>w. Inr (w, True))
      | PollLagged _ \<Rightarrow> bindE (carry_out T P (feed T UiLagged w)) (\<lambda>w. Inr (w, True))
      | PollClosed \<Rightarrow>
          if um_connection (tt_ui w) \<noteq> CnDisconnected then Inr (snd (feed T UiDisconnected w), True) else Inr (w, False)
      | PollError e \<Rightarrow>
          if um_status (tt_ui w) \<noteq> lit ''Command rejected: '' @ e
          then Inr (snd (feed T (UiCommandError e) w), True) else Inr (w, False)
      | PollEmpty \<Rightarrow> Inr (w, False))"

definition take_event :: "terminal_lib \<Rightarrow> projection \<Rightarrow> terminal_event \<Rightarrow> terminal \<Rightarrow> loop_exit + terminal \<times> bool" where
  "take_event T P ev w =
     (case ev of
        EvKey k \<Rightarrow> bindE (carry_out T P (feed T (UiKey k) w)) (\<lambda>w. Inr (w, True))
      | EvMouse k \<Rightarrow> Inr (snd (feed T (UiMouse k) w), True)
      | EvResize width height \<Rightarrow> Inr (snd (feed T (UiResize width height) w), True)
      | EvPaste value \<Rightarrow> Inr (snd (feed T (UiPaste value) w), True)
      | EvOther \<Rightarrow> Inr (w, False))"

text \<open>The result is the terminal and whether the next iteration draws.\<close>

definition loop_iteration :: "terminal_lib \<Rightarrow> projection \<Rightarrow> iteration \<Rightarrow> terminal \<times> bool
    \<Rightarrow> loop_exit + terminal \<times> bool" where
  "loop_iteration T P i start =
     bindE (let w = draw_frame T (it_now i) start in
            if it_interrupted i
            then bindE (carry_out T P (feed T (UiKey (control_c (it_now i))) w)) (\<lambda>w. Inr (w, True))
            else Inr (w, False)) (\<lambda>(w, redraw1).
     bindE (take_poll T P (it_poll i) w) (\<lambda>(w, redraw2).
     case drain_runtime_updates T (it_feedback i) (it_progress i) w of (changed, actions, w) \<Rightarrow>
     bindE (carry_out T P (actions, w)) (\<lambda>w.
     bindE (case it_event i of None \<Rightarrow> Inr (w, False) | Some ev \<Rightarrow> take_event T P ev w) (\<lambda>(w, redraw3).
     Inr (w, redraw1 \<or> redraw2 \<or> changed \<or> redraw3)))))"

fun run_loop :: "terminal_lib \<Rightarrow> projection \<Rightarrow> iteration list \<Rightarrow> terminal \<times> bool \<Rightarrow> loop_exit + terminal \<times> bool" where
  "run_loop T P [] w = Inr w"
| "run_loop T P (i # is) w = bindE (loop_iteration T P i w) (run_loop T P is)"

definition start_terminal :: "terminal_lib \<Rightarrow> projection \<Rightarrow> startup_presentation \<Rightarrow> loop_exit + terminal \<times> bool" where
  "start_terminal T P startup =
     bindE (map_err LoopFailed (pj_catalog P 0)) (\<lambda>sessions.
     bindE (carry_out T P (feed T (UiSessionCatalog sessions)
       \<lparr>tt_ui = with_startup startup, tt_calls = 1, tt_sent = []\<rparr>)) (\<lambda>w. Inr (w, True)))"

end
