(* ===== verification/Terminal_Steps.thy ===== *)
theory Terminal_Steps
  imports Terminal_Loop
begin

text \<open>
  What each part of the reducer leaves alone, and the actions each of them can emit. Every
  key is quiet, submits the composer, answers the permission request that was rendered, or
  concerns the reconciliation card.
\<close>

named_theorems ui_frame \<open>fields that a part of the reducer leaves as they were\<close>

subsection \<open>Settling what is in flight\<close>

text \<open>The fields that settling does not touch, and the queue that stays empty.\<close>

definition same_frame :: "ui \<Rightarrow> ui \<Rightarrow> bool" where
  "same_frame m m' \<longleftrightarrow> um_rendered m' = um_rendered m \<and> um_connection m' = um_connection m \<and> um_active m' = um_active m
     \<and> um_sessions m' = um_sessions m \<and> um_selected m' = um_selected m \<and> um_next_submission m' = um_next_submission m
     \<and> um_confirmation m' = um_confirmation m
     \<and> (um_queued m = None \<longrightarrow> um_queued m' = None)"

lemma same_frame_refl [ui_frame]: "same_frame m m"
  by (simp add: same_frame_def)

lemma same_frame_trans [trans]: "same_frame m m' \<Longrightarrow> same_frame m' m'' \<Longrightarrow> same_frame m m''"
  by (simp add: same_frame_def)

lemma settling_frames [ui_frame]:
  "same_frame m (reconcile_pending_submission L m)" "same_frame m (restore_pending_submission m)"
  "same_frame m (reconcile_pending_input_submission L m)" "same_frame m (reconcile_pending_model_switch m)"
  "same_frame m (synchronize_input_target m)"
  by (auto simp: same_frame_def reconcile_pending_submission_def restore_pending_submission_def
    reconcile_pending_input_submission_def reconcile_pending_model_switch_def synchronize_input_target_def Let_def
    split: option.split)

lemma finalize_frame [ui_frame]: "same_frame m (finalize_failed_submissions_after_snapshot m)"
  using settling_frames(2) [of m]
  by (auto simp: finalize_failed_submissions_after_snapshot_def same_frame_def Let_def split: option.split)

lemma stranded_frame [ui_frame]: "same_frame m (restore_stranded_follow_up m)"
  using settling_frames(2) [of m] by (auto simp: restore_stranded_follow_up_def same_frame_def)

lemma settle_frame [ui_frame]: "same_frame m (settle_in_flight L m)"
  unfolding settle_in_flight_def by (meson same_frame_trans ui_frame)

lemma selected_frame:
  assumes "same_frame m m'"
  shows "selected_session m' = selected_session m"
proof -
  have "um_active m' = um_active m" "um_sessions m' = um_sessions m" "um_selected m' = um_selected m"
    using assms by (simp_all add: same_frame_def)
  then show ?thesis by (simp only: selected_session_def)
qed

lemma selected_cong:
  "um_active m' = um_active m \<Longrightarrow> um_sessions m' = um_sessions m \<Longrightarrow> um_selected m' = um_selected m
     \<Longrightarrow> selected_session m' = selected_session m"
  by (simp only: selected_session_def)

text \<open>A submission in flight stays in flight, has become durable, or is back in the composer.\<close>

definition settled :: "lib \<Rightarrow> pending_submission \<Rightarrow> ui \<Rightarrow> bool" where
  "settled L p m \<longleftrightarrow>
     (case um_pending m of
        Some q \<Rightarrow> q = p
      | None \<Rightarrow>
          (\<exists>sid. ps_session_id p = Some sid \<and> submission_durable L (um_sessions m) p sid)
          \<or> um_composer m = ps_prompt p \<and> um_submission_error m = Some restore_message)"

lemma reconcile_settled:
  assumes "um_pending m = Some p"
  shows "settled L p (reconcile_pending_submission L m)"
  using assms
  by (auto simp: settled_def reconcile_pending_submission_def Let_def split: option.split)

lemma settled_cong:
  assumes "um_pending m' = um_pending m" and "um_sessions m' = um_sessions m"
    and "um_pending m = None \<Longrightarrow> um_composer m' = um_composer m \<and> um_submission_error m' = um_submission_error m"
  shows "settled L p m' = settled L p m"
  using assms by (cases "um_pending m") (simp_all add: settled_def)

lemma settled_restore: "settled L p m \<Longrightarrow> settled L p (restore_pending_submission m)"
  by (auto simp: settled_def restore_pending_submission_def split: option.split_asm option.split)

lemma settled_others:
  "settled L p (reconcile_pending_input_submission L m) = settled L p m"
  "settled L p (reconcile_pending_model_switch m) = settled L p m"
  "settled L p (synchronize_input_target m) = settled L p m"
  by (rule settled_cong; simp add: reconcile_pending_input_submission_def reconcile_pending_model_switch_def
    synchronize_input_target_def Let_def split: option.split)+

lemma settled_finalize: "settled L p m \<Longrightarrow> settled L p (finalize_failed_submissions_after_snapshot m)"
proof -
  let ?r = "if um_refresh_composer m \<and> um_pending m \<noteq> None then restore_pending_submission m else m"
  assume "settled L p m"
  then have "settled L p ?r" by (simp add: settled_restore)
  moreover have "settled L p (finalize_failed_submissions_after_snapshot m) = settled L p ?r"
    by (rule settled_cong) (simp_all add: finalize_failed_submissions_after_snapshot_def Let_def split: option.split)
  ultimately show ?thesis by simp
qed

lemma settled_stranded: "settled L p m \<Longrightarrow> settled L p (restore_stranded_follow_up m)"
  using settled_restore [of L p m] settled_cong [of "(restore_pending_submission m)\<lparr>um_status := s\<rparr>" "restore_pending_submission m" L p for s]
  by (simp add: restore_stranded_follow_up_def)

lemma settle_settles: "um_pending m = Some p \<Longrightarrow> settled L p (settle_in_flight L m)"
  by (simp add: settle_in_flight_def settled_others settled_stranded settled_finalize reconcile_settled)

lemma nothing_pending:
  "um_pending m = None \<Longrightarrow> um_pending (reconcile_pending_submission L m) = None"
  "um_pending (reconcile_pending_input_submission L m) = um_pending m"
  "um_pending (reconcile_pending_model_switch m) = um_pending m"
  "um_pending m = None \<Longrightarrow> um_pending (finalize_failed_submissions_after_snapshot m) = None"
  "um_pending m = None \<Longrightarrow> um_pending (restore_stranded_follow_up m) = None"
  "um_pending (synchronize_input_target m) = um_pending m"
  by (simp_all add: synchronize_input_target_def restore_stranded_follow_up_def
    finalize_failed_submissions_after_snapshot_def reconcile_pending_model_switch_def
    reconcile_pending_input_submission_def reconcile_pending_submission_def Let_def split: option.split)

lemma settle_nothing: "um_pending m = None \<Longrightarrow> um_pending (settle_in_flight L m) = None"
  by (simp add: settle_in_flight_def nothing_pending)

subsection \<open>Keys\<close>

text \<open>The submissions that an action makes, and the actions that a key can emit where no request owns it.\<close>

fun submits :: "ui_action \<Rightarrow> (nat \<times> rstr) option" where
  "submits (ActStart n prompt) = Some (n, prompt)"
| "submits (ActStartWithModel n prompt _ _) = Some (n, prompt)"
| "submits (ActFollowUp n _ _ prompt) = Some (n, prompt)"
| "submits (ActQueueFollowUp n _ prompt) = Some (n, prompt)"
| "submits _ = None"

fun decides :: "ui_action \<Rightarrow> bool" where
  "decides (ActResolvePermission _ _ _) = True"
| "decides (ActReconcileUnknown _ _) = True"
| "decides _ = False"

text \<open>
  A result of a surface that decides nothing: the frame is kept, and either nothing is
  submitted or the text of the composer, when nothing was in flight.
\<close>

definition quiet_result :: "ui \<Rightarrow> ui_action list \<times> ui \<Rightarrow> bool" where
  "quiet_result m = (\<lambda>(actions, m').
     (\<forall>a \<in> set actions. \<not> decides a \<and> submits a = None) \<and> um_rendered m' = um_rendered m
     \<and> um_connection m' = um_connection m \<and> (um_queued m = None \<longrightarrow> um_queued m' = None)
     \<and> (um_active m' = um_active m \<or> um_active m' = Some NewSessionDraft \<and> um_pending m = None)
     \<and> um_pending m' = um_pending m \<and> um_confirmation m' = um_confirmation m)"

definition submitting_result :: "ui \<Rightarrow> ui_action list \<times> ui \<Rightarrow> bool" where
  "submitting_result m = (\<lambda>(actions, m').
     um_pending m = None \<and> um_connection m = CnConnected \<and> um_rendered m' = um_rendered m \<and> um_connection m' = um_connection m
     \<and> um_active m' = um_active m \<and> um_queued m' = um_queued m \<and> um_confirmation m' = um_confirmation m
     \<and> (\<exists>a p. actions = [a] \<and> \<not> decides a \<and> um_pending m' = Some p \<and> submits a = Some (ps_submission_id p, ps_prompt p)
          \<and> ps_submission_id p = um_next_submission m \<and> ps_prompt p = um_composer m
          \<and> um_next_submission m' = saturating_add U64_MAX (um_next_submission m) 1))"

lemma quiet_plain: "quiet_result m ([], m') \<longleftrightarrow> um_rendered m' = um_rendered m
     \<and> um_connection m' = um_connection m \<and> (um_queued m = None \<longrightarrow> um_queued m' = None)
     \<and> (um_active m' = um_active m \<or> um_active m' = Some NewSessionDraft \<and> um_pending m = None)
     \<and> um_pending m' = um_pending m \<and> um_confirmation m' = um_confirmation m"
  by (simp add: quiet_result_def)

lemma quiet_keeps: "quiet_result m (actions, m) \<longleftrightarrow> (\<forall>a \<in> set actions. \<not> decides a \<and> submits a = None)"
  by (simp add: quiet_result_def)

lemma quiet_action: "quiet_result m (selected_session_action f m)" if "\<And>sid. \<not> decides (f sid) \<and> submits (f sid) = None"
  using that by (simp add: selected_session_action_def quiet_plain quiet_keeps split: option.split)

lemma quiet_search: "quiet_result m (dispatch_session_search L argument m)"
  by (simp add: dispatch_session_search_def quiet_plain quiet_keeps)

lemma quiet_model_picker: "quiet_result m ([], open_model_picker m)"
  by (auto simp: open_model_picker_def quiet_plain Let_def split: option.split)

lemma quiet_draft: "session_switch_available m \<Longrightarrow> quiet_result m ([], new_draft m)"
  by (simp add: new_draft_def quiet_plain session_switch_available_def)

lemma quiet_dispatch: "quiet_result m (dispatch_builtin L command argument m)"
proof (cases "command \<in> {CmdNew, CmdSessions, CmdModel, CmdRename, CmdFork} \<and> \<not> session_switch_available m")
  case True
  then show ?thesis by (simp add: dispatch_builtin_def quiet_plain)
next
  case False
  then show ?thesis
    by (cases command)
      (simp_all add: dispatch_builtin_def quiet_search quiet_model_picker quiet_draft quiet_action quiet_keeps,
       simp_all add: quiet_plain)
qed

text \<open>Only fields outside the frame were changed before.\<close>

lemma quiet_cong:
  assumes "quiet_result m r" and "um_rendered m = um_rendered m0" and "um_connection m = um_connection m0"
    and "um_queued m = um_queued m0" and "um_active m = um_active m0" and "um_pending m = um_pending m0"
    and "um_confirmation m = um_confirmation m0"
  shows "quiet_result m0 r"
  using assms by (simp add: quiet_result_def split: prod.splits)

lemma quiet_slash: "submit_slash_candidate L m = Some r \<Longrightarrow> quiet_result m r"
  by (auto simp: submit_slash_candidate_def quiet_plain intro: quiet_cong [OF quiet_dispatch]
    split: slash_resolution.splits if_splits)

lemma send_submits:
  assumes "um_queued m = None" and "um_pending m = Some p" and "n = ps_submission_id p" and "prompt = ps_prompt p"
    and "case selected_session m of None \<Rightarrow> True | Some s \<Rightarrow> sn_lifecycle s = LcReady \<or> runs_a_turn s"
  obtains a status where "send_submission n prompt m = ([a], m\<lparr>um_status := status\<rparr>)"
    and "\<not> decides a" and "submits a = Some (n, prompt)"
proof -
  have keep: "m = m\<lparr>um_status := um_status m\<rparr>" by simp
  consider s where "selected_session m = Some s" "sn_lifecycle s \<noteq> LcReady" "runs_a_turn s"
    | s where "selected_session m = Some s" "sn_lifecycle s = LcReady" | "selected_session m = None"
    using assms(5) by (cases "selected_session m") auto
  then show ?thesis
  proof cases
    case 1
    show ?thesis
    proof (rule that)
      show "send_submission n prompt m = ([ActQueueFollowUp n (sn_session_id s) prompt],
          m\<lparr>um_status := lit ''Follow-up queued behind the active turn''\<rparr>)"
        using 1 assms(1) by (simp add: send_submission_def)
    qed simp_all
  next
    case 2
    show ?thesis
    proof (rule that)
      show "send_submission n prompt m = ([ActFollowUp n (sn_session_id s) (sn_revision s) prompt], m\<lparr>um_status := um_status m\<rparr>)"
        using 2 by (simp add: send_submission_def)
    qed simp_all
  next
    case 3
    show ?thesis
    proof (rule that)
      show "send_submission n prompt m = ([start_action m n prompt], m\<lparr>um_status := um_status m\<rparr>)"
        using 3 by (simp add: send_submission_def)
    qed (auto simp: start_action_def split: option.split)
  qed
qed

lemma submit_prompt_submits:
  assumes "um_queued m = None" and "um_connection m = CnConnected" and "um_pending m = None"
    and "case selected_session m of None \<Rightarrow> True | Some s \<Rightarrow> sn_lifecycle s = LcReady \<or> runs_a_turn s"
  shows "submitting_result m (submit_prompt m)"
proof -
  obtain sid after where at: "(case selected_session m of
      None \<Rightarrow> (None, 0) | Some s \<Rightarrow> (Some (sn_session_id s), newest_sequence s)) = (sid, after)" by fastforce
  let ?p = "\<lparr>ps_submission_id = um_next_submission m, ps_prompt = um_composer m, ps_session_id = sid, ps_after_sequence = after\<rparr>"
  let ?m = "m\<lparr>um_composer := [], um_next_submission := saturating_add U64_MAX (um_next_submission m) 1,
    um_pending := Some ?p, um_submission_error := None\<rparr>"
  have "selected_session ?m = selected_session m" by (rule selected_cong) simp_all
  then obtain a status where "send_submission (um_next_submission m) (um_composer m) ?m = ([a], ?m\<lparr>um_status := status\<rparr>)"
    and "\<not> decides a" and "submits a = Some (um_next_submission m, um_composer m)"
    using send_submits [of ?m ?p "um_next_submission m" "um_composer m"] assms(1,4) by auto
  then show ?thesis using assms by (simp add: submitting_result_def submit_prompt_def at Let_def)
qed

lemma quiet_status: "quiet_result m ([], m\<lparr>um_status := text\<rparr>)"
  by (simp add: quiet_plain)

lemma quiet_none: "quiet_result m ([], m)"
  by (simp add: quiet_plain)

lemma not_runnable:
  "\<not> (case selected_session m of None \<Rightarrow> False | Some s \<Rightarrow> sn_lifecycle s \<noteq> LcReady \<and> \<not> runs_a_turn s) \<Longrightarrow>
     case selected_session m of None \<Rightarrow> True | Some s \<Rightarrow> sn_lifecycle s = LcReady \<or> runs_a_turn s"
  by (auto split: option.splits)

lemma submit_result:
  assumes "um_queued m = None" and "um_connection m = CnConnected" and "um_pending m = None"
  shows "quiet_result m (submit_composer L m) \<or> submitting_result m (submit_composer L m)"
  using quiet_slash [of L m] submit_prompt_submits [OF assms not_runnable]
  by (simp add: submit_composer_def assms(3) quiet_status quiet_none split: option.split del: not_None_eq)

subsection \<open>Surfaces that are quiet\<close>

lemma quiet_palette: "quiet_result m (reduce_palette_key L k m)"
proof -
  have "quiet_result m (dispatch_builtin L c a (m\<lparr>um_palette := False\<rparr>))" for c a
    by (rule quiet_cong [OF quiet_dispatch]) simp_all
  then show ?thesis by (simp add: reduce_palette_key_def quiet_plain Let_def split: key_code.split)
qed

lemma quiet_slash_popup: "reduce_slash_popup_key L k m = Some r \<Longrightarrow> quiet_result m r"
proof -
  have "quiet_result m (dispatch_builtin L c a (composer_edited x m))" for c a x
    by (rule quiet_cong [OF quiet_dispatch]) (simp_all add: composer_edited_def)
  then show "reduce_slash_popup_key L k m = Some r \<Longrightarrow> quiet_result m r"
    by (auto simp: reduce_slash_popup_key_def quiet_plain Let_def quiet_dispatch split: key_code.split_asm if_split_asm)
qed

lemma quiet_session_picker: "quiet_result m (reduce_session_picker_key k m)"
  by (simp add: reduce_session_picker_key_def quiet_plain quiet_keeps Let_def split: key_code.split)

lemma quiet_choose_model: "quiet_result m (choose_model opt m)"
  by (simp add: choose_model_def quiet_plain Let_def quiet_result_def split: option.split)

lemma quiet_model_picker_key: "quiet_result m (reduce_model_picker_key T k m)"
proof -
  have "quiet_result m (choose_model opt (m\<lparr>um_model_picker := None\<rparr>))" for opt
    by (rule quiet_cong [OF quiet_choose_model]) simp_all
  then show ?thesis
    by (simp add: reduce_model_picker_key_def quiet_plain Let_def split: option.split key_code.split prod.split)
qed

lemma quiet_navigation: "quiet_result m (reduce_navigation_key T k m)"
  by (simp add: reduce_navigation_key_def quiet_plain quiet_keeps Let_def split: key_code.split)

lemma quiet_input: "quiet_result m (reduce_input_key T s turn request k m)"
  by (simp add: reduce_input_key_def quiet_plain Let_def quiet_result_def split: key_code.split)

lemma quiet_interrupt: "quiet_result m (reduce_interrupt now m)"
  by (simp add: reduce_interrupt_def quiet_plain Let_def quiet_result_def split: option.split)

subsection \<open>The composer\<close>

definition free_result :: "ui \<Rightarrow> ui_action list \<times> ui \<Rightarrow> bool" where
  "free_result m r \<longleftrightarrow> quiet_result m r \<or> submitting_result m r"

lemma composer_result:
  assumes "um_queued m = None"
  shows "free_result m (reduce_composer_key T k m)"
proof -
  have "free_result m (submit_composer L m)" if "authority_enabled m" "um_pending m = None" for L
    using submit_result [OF assms] that by (simp add: free_result_def authority_enabled_def)
  moreover have "free_result m ([], composer_edited x m)" for x
    by (simp add: free_result_def quiet_plain composer_edited_def)
  moreover have "free_result m ([], m\<lparr>um_focus := FocusNavigation, um_help := False\<rparr>)" "free_result m ([], m)"
    by (simp_all add: free_result_def quiet_plain)
  ultimately show ?thesis by (simp add: reduce_composer_key_def Let_def split: key_code.split)
qed

lemma free_key_result:
  assumes "um_queued m = None"
  shows "free_result m (reduce_free_key T k m)"
proof -
  have "free_result m ([], m\<lparr>um_palette := True, um_command_index := 0, um_help := False\<rparr>)"
    by (simp add: free_result_def quiet_plain)
  moreover have "free_result m r" if "reduce_slash_popup_key (tm_lib T) k m = Some r" for r
    using quiet_slash_popup [OF that] by (simp add: free_result_def)
  moreover note composer_result [OF assms, of T k]
  moreover have "free_result m (reduce_model_picker_key T k m)" "free_result m (reduce_session_picker_key k m)"
    "free_result m (reduce_palette_key (tm_lib T) k m)" "free_result m (reduce_navigation_key T k m)"
    by (simp_all add: free_result_def quiet_model_picker_key quiet_session_picker quiet_palette quiet_navigation)
  ultimately show ?thesis
    by (simp add: reduce_free_key_def del: not_None_eq split: option.split ui_focus.split)
qed

subsection \<open>Requests and reconciliation\<close>

text \<open>The key of an answer: \<open>d\<close> denies and Ctrl+A allows.\<close>

definition answer_key :: "key_event \<Rightarrow> bool \<Rightarrow> bool" where
  "answer_key k allow \<longleftrightarrow> \<not> ke_release k
     \<and> (if allow then ke_code k = KcChar 97 \<and> only_control k else ke_code k = KcChar 100 \<and> no_modifiers k)"

definition resolving_result :: "ui \<Rightarrow> key_event \<Rightarrow> ui_action list \<times> ui \<Rightarrow> bool" where
  "resolving_result m k r \<longleftrightarrow>
     (\<exists>sid request allow. r = ([ActResolvePermission sid request allow], m\<lparr>um_armed_until := None, um_observed_at := None\<rparr>)
        \<and> um_connection m = CnConnected \<and> um_rendered m = Some (sid, request)
        \<and> visible_permission m = Some (sid, request) \<and> answer_key k allow)"

text \<open>What Ctrl+R asks for on a session that needs reconciliation.\<close>

definition review_key :: "ui \<Rightarrow> key_event \<Rightarrow> uuid \<times> rstr \<Rightarrow> bool" where
  "review_key m k asked \<longleftrightarrow> \<not> ke_release k \<and> ke_code k = KcChar 114 \<and> ke_control k \<and> um_connection m = CnConnected
     \<and> (\<exists>s. selected_session m = Some s \<and> sn_session_id s = fst asked \<and> sn_lifecycle s = LcReconciliationRequired
          \<and> reconciliation_effect_id m s = Some (snd asked))"

definition same_base :: "ui \<Rightarrow> ui \<Rightarrow> bool" where
  "same_base m m' \<longleftrightarrow> um_rendered m' = um_rendered m \<and> um_connection m' = um_connection m
     \<and> um_active m' = um_active m \<and> um_queued m' = um_queued m \<and> um_pending m' = um_pending m"

definition confirming_result :: "ui \<Rightarrow> key_event \<Rightarrow> ui_action list \<times> ui \<Rightarrow> bool" where
  "confirming_result m k = (\<lambda>(actions, m'). same_base m m'
     \<and> (actions = [] \<and> um_confirmation m' = None
       \<or> actions = [] \<and> (\<exists>asked. um_confirmation m' = Some asked \<and> review_key m k asked)
       \<or> (\<exists>sid effect. actions = [ActReconcileUnknown sid effect] \<and> um_confirmation m = Some (sid, effect)
            \<and> um_confirmation m' = None \<and> um_connection m = CnConnected \<and> answer_key k True)))"

lemma confirmation_result:
  assumes "um_confirmation m = Some (sid, effect)" and "\<not> ke_release k" and "r = reduce_confirmation_key sid effect k m"
  shows "quiet_result m r \<or> confirming_result m k r"
  using assms by (auto simp: reduce_confirmation_key_def confirming_result_def quiet_plain same_base_def
    answer_key_def authority_enabled_def)

lemma reconciliation_result:
  assumes "selected_session m = Some s" and "sn_lifecycle s = LcReconciliationRequired" and "\<not> ke_release k"
  shows "quiet_result m (reduce_reconciliation_key s k m) \<or> confirming_result m k (reduce_reconciliation_key s k m)"
  using assms by (auto simp: reduce_reconciliation_key_def confirming_result_def quiet_plain same_base_def
    review_key_def authority_enabled_def split: option.split)

definition key_result :: "ui \<Rightarrow> key_event \<Rightarrow> ui_action list \<times> ui \<Rightarrow> bool" where
  "key_result m k r \<longleftrightarrow> quiet_result m r \<or> submitting_result m r \<or> resolving_result m k r \<or> confirming_result m k r"

text \<open>The barrier of Ctrl+C is cleared first, and nothing reads it afterwards.\<close>

definition cleared :: "ui \<Rightarrow> ui" where
  "cleared m = m\<lparr>um_armed_until := None, um_observed_at := None\<rparr>"

lemma cleared_fields [simp]:
  "um_rendered (cleared m) = um_rendered m" "um_connection (cleared m) = um_connection m"
  "um_queued (cleared m) = um_queued m" "um_active (cleared m) = um_active m" "um_pending (cleared m) = um_pending m"
  "um_confirmation (cleared m) = um_confirmation m" "um_sessions (cleared m) = um_sessions m"
  "um_selected (cleared m) = um_selected m" "um_composer (cleared m) = um_composer m" "um_hint (cleared m) = um_hint m"
  "um_next_submission (cleared m) = um_next_submission m"
  by (simp_all add: cleared_def)

lemma cleared_selected [simp]: "selected_session (cleared m) = selected_session m"
  by (rule selected_cong) simp_all

lemma cleared_results:
  "quiet_result (cleared m) r = quiet_result m r" "submitting_result (cleared m) r = submitting_result m r"
  "confirming_result (cleared m) k r = confirming_result m k r"
  by (simp_all add: quiet_result_def submitting_result_def confirming_result_def same_base_def review_key_def
    reconciliation_effect_id_def)

lemma permission_result:
  assumes "selected_session m = Some s" and "sn_pending s = Some (PendPermission turn request reason description)"
    and "\<not> ke_release k"
  shows "key_result m k (reduce_permission_key s request k (cleared m))"
proof -
  have "visible_permission m = Some (sn_session_id s, request)" by (simp add: visible_permission_def assms(1,2))
  moreover have "quiet_result m ([], cleared m)" by (simp add: quiet_plain)
  ultimately show ?thesis
    using assms(3)
    by (auto simp: reduce_permission_key_def Let_def key_result_def resolving_result_def permission_was_rendered_def
      authority_enabled_def answer_key_def cleared_def [symmetric])
qed

lemma owned_key_result:
  assumes "um_queued m = None" and "\<not> ke_release k"
  shows "key_result m k (case selected_session m of
      None \<Rightarrow> reduce_free_key T k (cleared m)
    | Some s \<Rightarrow>
        if sn_lifecycle s = LcReconciliationRequired then reduce_reconciliation_key s k (cleared m)
        else case sn_pending s of
          Some (PendPermission _ request _ _) \<Rightarrow> reduce_permission_key s request k (cleared m)
        | Some (PendInput turn request _ _) \<Rightarrow> reduce_input_key T s turn request k (cleared m)
        | None \<Rightarrow> reduce_free_key T k (cleared m))"
proof -
  have free: "key_result m k (reduce_free_key T k (cleared m))"
    using free_key_result [of "cleared m" T k] assms(1) by (auto simp: key_result_def free_result_def cleared_results)
  show ?thesis
  proof (cases "selected_session m")
    case None
    then show ?thesis using free by simp
  next
    case (Some s)
    have "key_result m k (reduce_reconciliation_key s k (cleared m))" if "sn_lifecycle s = LcReconciliationRequired"
      using reconciliation_result [of "cleared m" s k] that Some assms(2) by (auto simp: key_result_def cleared_results)
    moreover have "key_result m k (reduce_input_key T s turn request k (cleared m))" for turn request
      using quiet_input [of "cleared m" T s turn request k] by (simp add: key_result_def cleared_results)
    moreover note permission_result [OF Some _ assms(2)]
    ultimately show ?thesis using free Some by (simp split: option.split session_pending_request.split)
  qed
qed

lemma reduce_key_result:
  assumes "um_queued m = None"
  shows "key_result m k (reduce_key_at T k m)"
proof -
  have confirm: "key_result m k (reduce_confirmation_key sid effect k (cleared m))"
    if "um_confirmation m = Some (sid, effect)" "\<not> ke_release k" for sid effect
    using confirmation_result [of "cleared m" sid effect k] that by (auto simp: key_result_def cleared_results)
  have "quiet_result m ([ActRefreshSnapshots], cleared m)" by (simp add: quiet_result_def)
  then have "key_result m k ([ActQuit], m)" "key_result m k ([], m)" "key_result m k ([ActRefreshSnapshots], cleared m)"
    "key_result m k (reduce_interrupt (ke_at k) m)"
    by (simp_all add: key_result_def quiet_keeps quiet_none quiet_interrupt)
  then show ?thesis using confirm owned_key_result [OF assms, of k T]
    by (simp add: reduce_key_at_def Let_def cleared_def [symmetric] split: option.split prod.split)
qed

end
