(* ===== verification/Terminal_Runs.thy ===== *)
theory Terminal_Runs
  imports Terminal_Steps
begin

text \<open>
  The other inputs of the reducer, runs of inputs, and where a rendered request and an open
  confirmation come from.
\<close>

subsection \<open>Inputs that are not keys\<close>

lemma adopt_fields [simp]:
  "um_pending (adopt_draft_session m) = um_pending m" "um_queued (adopt_draft_session m) = um_queued m"
  "um_rendered (adopt_draft_session m) = um_rendered m" "um_confirmation (adopt_draft_session m) = um_confirmation m"
  "um_sessions (adopt_draft_session m) = um_sessions m"
  by (simp_all add: adopt_draft_session_def split: option.split)

text \<open>A snapshot replaces the sessions and settles what is in flight; a stale confirmation is closed.\<close>

lemma reduce_snapshot_settles:
  obtains m1 where "um_pending m1 = um_pending m" and "um_queued m1 = um_queued m" and "um_rendered m1 = um_rendered m"
    and "um_confirmation m1 = um_confirmation m" and "um_sessions m1 = ss"
    and "reduce_snapshot T ss m = dispatch_queued (let m2 = settle_in_flight (tm_lib T) m1 in
      if confirmation_stale m2 then m2\<lparr>um_confirmation := None\<rparr> else m2)"
proof -
  let ?a = "adopt_draft_session (m\<lparr>um_sessions := ss\<rparr>)"
  let ?b = "?a\<lparr>um_selected := reselect (map_option sn_session_id (selected_session m)) ?a\<rparr>"
  let ?c = "?b\<lparr>um_navigation_index := min (um_navigation_index ?b) (length (action_keys T (selected_session ?b)) - 1),
    um_connection := CnConnected, um_progress := [], um_status := lit ''Transcript synchronized''\<rparr>"
  let ?d = "case selected_session ?c of None \<Rightarrow> ?c
    | Some s \<Rightarrow> if needs_attention s then ?c\<lparr>um_palette := False, um_help := False\<rparr> else ?c"
  define d where "d = ?d"
  have "um_pending d = um_pending m" "um_queued d = um_queued m" "um_rendered d = um_rendered m"
    "um_confirmation d = um_confirmation m" "um_sessions d = ss"
    by (simp_all add: d_def split: option.split)
  moreover have "reduce_snapshot T ss m = dispatch_queued (let m2 = settle_in_flight (tm_lib T) (d\<lparr>um_hint := hint_of_selection d\<rparr>)
      in if confirmation_stale m2 then m2\<lparr>um_confirmation := None\<rparr> else m2)"
    by (simp only: reduce_snapshot_def Let_def d_def)
  ultimately show ?thesis by (intro that [of "d\<lparr>um_hint := hint_of_selection d\<rparr>"]) simp_all
qed

text \<open>What such an input may do, when nothing is queued.\<close>

definition other_result :: "ui \<Rightarrow> ui_input \<Rightarrow> ui_action list \<times> ui \<Rightarrow> bool" where
  "other_result m i = (\<lambda>(actions, m').
     (\<forall>a \<in> set actions. \<not> decides a \<and> submits a = None) \<and> um_queued m' = None
     \<and> um_rendered m' = (if i = UiFrameRendered then visible_permission m else um_rendered m)
     \<and> (um_confirmation m' = um_confirmation m \<or> um_confirmation m' = None))"

lemma dispatch_nothing: "um_queued m = None \<Longrightarrow> dispatch_queued m = ([], m)"
  by (simp add: dispatch_queued_def)

lemma settle_fields:
  "um_rendered (settle_in_flight L m) = um_rendered m" "um_connection (settle_in_flight L m) = um_connection m"
  "um_active (settle_in_flight L m) = um_active m" "um_sessions (settle_in_flight L m) = um_sessions m"
  "um_confirmation (settle_in_flight L m) = um_confirmation m"
  "um_queued m = None \<Longrightarrow> um_queued (settle_in_flight L m) = None"
  using settle_frame [of m L] by (simp_all add: same_frame_def)

lemma snapshot_result:
  assumes "um_queued m = None"
  obtains m' where "reduce_snapshot T ss m = ([], m')" and "um_queued m' = None" and "um_rendered m' = um_rendered m"
    and "um_confirmation m' = um_confirmation m \<or> um_confirmation m' = None"
    and "\<And>p. um_pending m = Some p \<Longrightarrow> settled (tm_lib T) p m'"
proof -
  obtain m1 where m1: "um_pending m1 = um_pending m" "um_queued m1 = um_queued m" "um_rendered m1 = um_rendered m"
      "um_confirmation m1 = um_confirmation m"
    and r: "reduce_snapshot T ss m = dispatch_queued (let m2 = settle_in_flight (tm_lib T) m1 in
      if confirmation_stale m2 then m2\<lparr>um_confirmation := None\<rparr> else m2)"
    by (rule reduce_snapshot_settles)
  let ?m2 = "settle_in_flight (tm_lib T) m1"
  let ?m' = "if confirmation_stale ?m2 then ?m2\<lparr>um_confirmation := None\<rparr> else ?m2"
  have "um_queued ?m' = None" using m1(2) assms by (simp add: settle_fields)
  moreover have "settled (tm_lib T) p ?m'" if "um_pending m = Some p" for p
    using settle_settles [of m1 p "tm_lib T"] m1(1) that by (simp add: settled_cong [of "?m2\<lparr>um_confirmation := None\<rparr>" ?m2])
  ultimately show ?thesis
    using r m1 by (intro that [of ?m']) (simp_all add: Let_def dispatch_nothing settle_fields)
qed

lemma reconcile_fields:
  "um_rendered (reconcile_pending_submission L m) = um_rendered m" "um_confirmation (reconcile_pending_submission L m) = um_confirmation m"
  "um_connection (reconcile_pending_submission L m) = um_connection m" "um_active (reconcile_pending_submission L m) = um_active m"
  "um_queued m = None \<Longrightarrow> um_queued (reconcile_pending_submission L m) = None"
  using settling_frames(1) [of m L] by (simp_all add: same_frame_def)

lemma event_tail_fields:
  fixes L m
  defines "m' \<equiv> synchronize_input_target (reconcile_pending_input_submission L (reconcile_pending_submission L m))"
  shows "um_rendered m' = um_rendered m" and "um_confirmation m' = um_confirmation m"
    and "um_queued m = None \<Longrightarrow> um_queued m' = None" and "um_pending m = Some p \<Longrightarrow> settled L p m'"
proof -
  have "same_frame m m'" unfolding m'_def by (meson same_frame_trans ui_frame)
  then show "um_rendered m' = um_rendered m" "um_confirmation m' = um_confirmation m"
    "um_queued m = None \<Longrightarrow> um_queued m' = None" by (simp_all add: same_frame_def)
  show "um_pending m = Some p \<Longrightarrow> settled L p m'" by (simp add: m'_def settled_others reconcile_settled)
qed

lemma settled_pending: "um_pending m = Some p \<Longrightarrow> settled L p m"
  by (simp add: settled_def)

lemma event_result:
  assumes "um_queued m = None"
  shows "other_result m (UiEvent ev) (reduce_event L ev m)"
    and "um_pending m = Some p \<Longrightarrow> settled L p (snd (reduce_event L ev m))"
  using assms
  by (auto simp: reduce_event_def other_result_def Let_def event_tail_fields settled_pending
    split: option.split session_event.split)

text \<open>The submission after an input: only its assignment changes it.\<close>

fun assigned :: "ui_input \<Rightarrow> pending_submission \<Rightarrow> pending_submission" where
  "assigned (UiSubmissionAssigned n sid) p = (if ps_submission_id p = n then p\<lparr>ps_session_id := Some sid\<rparr> else p)"
| "assigned _ p = p"

lemma assigned_result:
  assumes "um_queued m = None"
  shows "other_result m (UiSubmissionAssigned n sid) ([], reduce_assigned L n sid m)"
    and "um_pending m = Some p \<Longrightarrow> settled L (assigned (UiSubmissionAssigned n sid) p) (reduce_assigned L n sid m)"
proof -
  show "other_result m (UiSubmissionAssigned n sid) ([], reduce_assigned L n sid m)"
    using assms by (simp add: reduce_assigned_def other_result_def Let_def reconcile_fields split: option.split)
  show "um_pending m = Some p \<Longrightarrow> settled L (assigned (UiSubmissionAssigned n sid) p) (reduce_assigned L n sid m)"
    by (auto simp: reduce_assigned_def Let_def settled_pending intro!: reconcile_settled split: option.split)
qed

lemma opened_result:
  assumes "um_queued m = None"
  shows "other_result m (UiSessionOpened s) ([], reduce_opened L s m)"
    and "um_pending m = Some p \<Longrightarrow> settled L p (reduce_opened L s m)"
  using assms by (simp_all add: reduce_opened_def other_result_def Let_def settle_fields settle_settles)

lemma paste_result:
  assumes "um_queued m = None"
  shows "other_result m (UiPaste x) ([], reduce_paste x m)" and "um_pending (reduce_paste x m) = um_pending m"
  using assms by (simp_all add: reduce_paste_def other_result_def Let_def composer_edited_def)

lemma catalog_result:
  assumes "um_queued m = None"
  shows "other_result m (UiSessionCatalogReady ss query) (reduce_catalog_ready L ss query m)"
    and "um_pending (snd (reduce_catalog_ready L ss query m)) = um_pending m"
  using assms
  by (simp_all add: reduce_catalog_ready_def other_result_def Let_def split: option.split list.split)

lemma reduce_other:
  assumes "um_queued m = None" and "\<And>k. i \<noteq> UiKey k"
  shows "other_result m i (reduce T m i)"
proof (cases i)
  case (UiSnapshot ss)
  obtain m' where "reduce_snapshot T ss m = ([], m')" "um_queued m' = None" "um_rendered m' = um_rendered m"
    "um_confirmation m' = um_confirmation m \<or> um_confirmation m' = None"
    by (rule snapshot_result [OF assms(1)])
  then show ?thesis by (simp add: UiSnapshot other_result_def)
next
  case (UiKey k)
  then show ?thesis using assms(2) by blast
qed (use assms(1) event_result [OF assms(1)] assigned_result [OF assms(1)] opened_result [OF assms(1)]
    paste_result [OF assms(1)] catalog_result [OF assms(1)] in
    \<open>simp_all add: no_actions_def other_result_def mark_selected_permission_rendered_def record_progress_def
      reduce_mouse_def split: mouse_kind.split\<close>)

lemma other_settles:
  assumes "um_queued m = None" and "\<And>k. i \<noteq> UiKey k" and "um_pending m = Some p"
  shows "settled (tm_lib T) (assigned i p) (snd (reduce T m i))"
proof (cases i)
  case (UiSnapshot ss)
  obtain m' where "reduce_snapshot T ss m = ([], m')" "\<And>q. um_pending m = Some q \<Longrightarrow> settled (tm_lib T) q m'"
    by (rule snapshot_result [OF assms(1)]) blast
  then show ?thesis using assms(3) by (simp add: UiSnapshot)
next
  case (UiKey k)
  then show ?thesis using assms(2) by blast
qed (use assms(3) event_result(2) [OF assms(1)] assigned_result(2) [OF assms(1)] opened_result(2) [OF assms(1)]
    paste_result(2) [OF assms(1)] catalog_result(2) [OF assms(1)] in
    \<open>simp_all add: no_actions_def settled_pending mark_selected_permission_rendered_def record_progress_def
      reduce_mouse_def split: mouse_kind.split\<close>)

lemma key_settles:
  assumes "key_result m k r" and "um_pending m = Some p"
  shows "settled L p (snd r)"
proof -
  have "um_pending (snd r) = Some p"
    using assms by (auto simp: key_result_def quiet_result_def submitting_result_def resolving_result_def
      confirming_result_def same_base_def)
  then show ?thesis by (rule settled_pending)
qed

lemma reduce_settles:
  assumes "um_queued m = None" and "um_pending m = Some p"
  shows "settled (tm_lib T) (assigned i p) (snd (reduce T m i))"
proof (cases "\<exists>k. i = UiKey k")
  case True
  then show ?thesis using key_settles [OF reduce_key_result [OF assms(1)] assms(2)] by auto
next
  case False
  then show ?thesis using other_settles [OF assms(1) _ assms(2)] by blast
qed

subsection \<open>Runs\<close>

definition ui_run :: "terminal_lib \<Rightarrow> ui \<Rightarrow> ui_input list \<Rightarrow> ui" where
  "ui_run T m us = foldl (\<lambda>m i. snd (reduce T m i)) m us"

lemma ui_run_simps [simp]:
  "ui_run T m [] = m" "ui_run T m (us @ [i]) = snd (reduce T (ui_run T m us) i)"
  by (simp_all add: ui_run_def)

lemma key_fields:
  assumes "key_result m k r" and "um_queued m = None"
  shows "um_queued (snd r) = None" and "um_rendered (snd r) = um_rendered m"
    and "um_confirmation (snd r) = um_confirmation m \<or> um_confirmation (snd r) = None
      \<or> (\<exists>asked. um_confirmation (snd r) = Some asked \<and> review_key m k asked)"
  using assms by (auto simp: key_result_def quiet_result_def submitting_result_def resolving_result_def
    confirming_result_def same_base_def)

lemma reduce_fields:
  assumes "um_queued m = None"
  shows "um_queued (snd (reduce T m i)) = None"
    and "um_rendered (snd (reduce T m i)) = (if i = UiFrameRendered then visible_permission m else um_rendered m)"
    and "um_confirmation (snd (reduce T m i)) = um_confirmation m \<or> um_confirmation (snd (reduce T m i)) = None
      \<or> (\<exists>asked k. i = UiKey k \<and> um_confirmation (snd (reduce T m i)) = Some asked \<and> review_key m k asked)"
proof -
  have "um_queued (snd (reduce T m i)) = None
    \<and> um_rendered (snd (reduce T m i)) = (if i = UiFrameRendered then visible_permission m else um_rendered m)
    \<and> (um_confirmation (snd (reduce T m i)) = um_confirmation m \<or> um_confirmation (snd (reduce T m i)) = None
       \<or> (\<exists>asked k. i = UiKey k \<and> um_confirmation (snd (reduce T m i)) = Some asked \<and> review_key m k asked))"
  proof (cases "\<exists>k. i = UiKey k")
    case True
    then obtain k where k: "i = UiKey k" ..
    show ?thesis using key_fields [OF reduce_key_result [OF assms, of k T] assms] by (auto simp: k)
  next
    case False
    then have "other_result m i (reduce T m i)" by (intro reduce_other assms) blast
    then show ?thesis by (cases "reduce T m i") (auto simp: other_result_def)
  qed
  then show "um_queued (snd (reduce T m i)) = None"
    and "um_rendered (snd (reduce T m i)) = (if i = UiFrameRendered then visible_permission m else um_rendered m)"
    and "um_confirmation (snd (reduce T m i)) = um_confirmation m \<or> um_confirmation (snd (reduce T m i)) = None
      \<or> (\<exists>asked k. i = UiKey k \<and> um_confirmation (snd (reduce T m i)) = Some asked \<and> review_key m k asked)"
    by simp_all
qed

lemma run_queued:
  assumes "um_queued m = None"
  shows "um_queued (ui_run T m us) = None"
  by (induction us rule: rev_induct) (simp_all add: assms reduce_fields(1))

text \<open>The last frame shows the request that is held as rendered.\<close>

lemma rendered_origin:
  assumes "um_queued m = None" and "um_rendered m = None" and "um_rendered (ui_run T m us) = Some x"
  shows "\<exists>before after. us = before @ UiFrameRendered # after \<and> visible_permission (ui_run T m before) = Some x
    \<and> UiFrameRendered \<notin> set after"
  using assms(3)
proof (induction us rule: rev_induct)
  case Nil
  then show ?case using assms(2) by simp
next
  case (snoc i us)
  note step = reduce_fields(2) [where i = i and T = T, OF run_queued [where T = T and us = us, OF assms(1)]]
  show ?case
  proof (cases "i = UiFrameRendered")
    case True
    then show ?thesis using snoc.prems step by (intro exI [of _ us] exI [of _ "[]"]) simp
  next
    case False
    then have "um_rendered (ui_run T m us) = Some x" using snoc.prems step by simp
    then obtain before after where "us = before @ UiFrameRendered # after"
      "visible_permission (ui_run T m before) = Some x" "UiFrameRendered \<notin> set after"
      using snoc.IH by blast
    then show ?thesis using False by (intro exI [of _ before] exI [of _ "after @ [i]"]) simp
  qed
qed

lemma confirmation_origin:
  assumes "um_queued m = None" and "um_confirmation m = None" and "um_confirmation (ui_run T m us) = Some asked"
  shows "\<exists>before k after. us = before @ UiKey k # after \<and> review_key (ui_run T m before) k asked"
  using assms(3)
proof (induction us rule: rev_induct)
  case Nil
  then show ?case using assms(2) by simp
next
  case (snoc i us)
  note step = reduce_fields(3) [where i = i and T = T, OF run_queued [where T = T and us = us, OF assms(1)]]
  show ?case
  proof (cases "um_confirmation (ui_run T m us) = Some asked")
    case True
    then obtain before k after where "us = before @ UiKey k # after" "review_key (ui_run T m before) k asked"
      using snoc.IH by blast
    then show ?thesis by (intro exI [of _ before] exI [of _ k] exI [of _ "after @ [i]"]) simp
  next
    case False
    then obtain k where "i = UiKey k" "review_key (ui_run T m us) k asked" using snoc.prems step by auto
    then show ?thesis by (intro exI [of _ us] exI [of _ k] exI [of _ "[]"]) simp
  qed
qed

subsection \<open>Who emits what\<close>

lemma key_resolves:
  assumes "key_result m k r" and "ActResolvePermission sid request allow \<in> set (fst r)"
  shows "um_rendered m = Some (sid, request) \<and> um_connection m = CnConnected \<and> answer_key k allow
    \<and> visible_permission m = Some (sid, request)"
proof -
  have "\<not> quiet_result m r" "\<not> submitting_result m r"
    using assms(2) by (cases r; force simp: quiet_result_def submitting_result_def)+
  then show ?thesis
    using assms by (cases r) (auto simp: key_result_def resolving_result_def confirming_result_def)
qed

lemma key_reconciles:
  assumes "key_result m k r" and "ActReconcileUnknown sid effect \<in> set (fst r)"
  shows "um_confirmation m = Some (sid, effect) \<and> um_connection m = CnConnected \<and> answer_key k True"
proof -
  have "\<not> quiet_result m r" "\<not> submitting_result m r"
    using assms(2) by (cases r; force simp: quiet_result_def submitting_result_def)+
  then show ?thesis
    using assms by (cases r) (auto simp: key_result_def resolving_result_def confirming_result_def)
qed

lemma key_submits:
  assumes "key_result m k (actions, m')" and "a \<in> set actions" and "submits a = Some (n, prompt)"
  shows "actions = [a] \<and> um_connection m = CnConnected \<and> um_pending m = None \<and> um_composer m = prompt
    \<and> um_next_submission m = n \<and> (\<exists>p. um_pending m' = Some p \<and> ps_submission_id p = n \<and> ps_prompt p = prompt)"
proof -
  have "\<not> quiet_result m (actions, m')" "\<not> resolving_result m k (actions, m')" "\<not> confirming_result m k (actions, m')"
    using assms(2,3) by (force simp: quiet_result_def resolving_result_def confirming_result_def)+
  then have "submitting_result m (actions, m')" using assms(1) by (simp add: key_result_def)
  then show ?thesis using assms(2,3) by (auto simp: submitting_result_def)
qed

lemma only_keys_act:
  assumes "um_queued m = None" and "a \<in> set (fst (reduce T m i))" and "decides a \<or> submits a \<noteq> None"
  shows "\<exists>k. i = UiKey k"
proof (rule ccontr)
  assume "\<nexists>k. i = UiKey k"
  then have "other_result m i (reduce T m i)" by (intro reduce_other assms(1)) blast
  then show False using assms(2,3) by (cases "reduce T m i") (auto simp: other_result_def)
qed

end
