(* ===== verification/Terminal_Disabled.thy ===== *)
theory Terminal_Disabled
  imports Terminal_Runs
begin

text \<open>
  The terminal loop: carrying out actions settles, and a terminal whose authority was taken
  away after an event gap or a closed stream does not get it back.
\<close>

subsection \<open>Actions settle\<close>

text \<open>The actions that carrying out another action may leave, and those that leave none.\<close>

definition last_action :: "ui_action \<Rightarrow> bool" where
  "last_action a \<longleftrightarrow> (\<exists>sid. a = ActOpenSession sid) \<or> (\<exists>n sid revision prompt. a = ActFollowUp n sid revision prompt)"

lemma fed: "fst (feed T i w) = fst (reduce T (tt_ui w) i)" "snd (feed T i w) = w\<lparr>tt_ui := snd (reduce T (tt_ui w) i)\<rparr>"
  by (simp_all add: feed_def split: prod.split)

lemma opened_emits_nothing: "fst (reduce_session_opened T P s w) = []"
  by (simp add: reduce_session_opened_def feed_def no_actions_def split: sum.split)

lemma open_emits_nothing: "fst (open_session T P sid w) = []"
  by (simp add: open_session_def opened_emits_nothing split: sum.split)

lemma dispatch_queued_last: "list_all last_action (fst (dispatch_queued m))"
  by (simp add: dispatch_queued_def last_action_def split: option.split)

lemma snapshot_last: "list_all last_action (fst (reduce_snapshot T ss m))"
proof -
  obtain m1 where "reduce_snapshot T ss m = dispatch_queued m1"
    by (rule reduce_snapshot_settles [of m ss T]) (auto simp: Let_def)
  then show ?thesis by (simp add: dispatch_queued_last)
qed

lemma catalog_last: "list_all last_action (fst (reduce_catalog_ready L ss query m))"
  by (simp add: reduce_catalog_ready_def last_action_def Let_def split: option.split list.split)

lemma with_result_last:
  "(\<And>x w. list_all last_action (fst (f x w))) \<Longrightarrow> with_result r f w = (Inr emitted, w') \<Longrightarrow> list_all last_action emitted"
  by (auto simp: with_result_def split: sum.splits prod.splits) (metis fst_conv)

lemma with_result_nothing:
  "(\<And>x w. fst (f x w) = []) \<Longrightarrow> with_result r f w = (Inr emitted, w') \<Longrightarrow> emitted = []"
  by (auto simp: with_result_def split: sum.splits prod.splits) (metis fst_conv)

lemma show_catalog_last: "show_catalog T r query w = (Inr emitted, w') \<Longrightarrow> list_all last_action emitted"
  unfolding show_catalog_def
  by (erule with_result_last [rotated]) (simp add: fed catalog_last)

lemma perform_last: "perform T P action w = (Inr emitted, w') \<Longrightarrow> list_all last_action emitted"
proof -
  have refresh: "refresh T P w = (Inr emitted, w') \<Longrightarrow> list_all last_action emitted" for w emitted w'
    by (auto simp: refresh_def fed opened_emits_nothing no_actions_def snapshot_last
      elim!: with_result_last [rotated] split: option.splits active_conversation.splits if_splits)
  have shown: "show_sessions T P query w = (Inr emitted, w') \<Longrightarrow> list_all last_action emitted" for query w emitted w'
    by (auto simp: show_sessions_def opened_emits_nothing elim!: show_catalog_last with_result_last [rotated]
      split: option.splits prod.splits sum.splits)
  show "perform T P action w = (Inr emitted, w') \<Longrightarrow> list_all last_action emitted"
    by (cases action) (auto simp: perform_def open_emits_nothing
      elim!: refresh shown show_catalog_last with_result_last [rotated])
qed

lemma perform_nothing: "last_action action \<Longrightarrow> perform T P action w = (Inr emitted, w') \<Longrightarrow> emitted = []"
  by (auto simp: last_action_def perform_def open_emits_nothing elim!: with_result_nothing [rotated])

lemma settle_at_once:
  "list_all last_action actions \<Longrightarrow> apply_session_actions T P n actions w = apply_session_actions T P 0 actions w
     \<and> fst (apply_session_actions T P 0 actions w) \<noteq> None"
proof (induction actions arbitrary: w)
  case (Cons a actions)
  obtain r w' where r: "perform T P a w = (r, w')" by fastforce
  have "a \<noteq> ActQuit" using Cons.prems by (auto simp: last_action_def)
  moreover have "r = Inr emitted \<Longrightarrow> emitted = []" for emitted
    using perform_nothing [of a T P w emitted w'] Cons.prems r by simp
  ultimately show ?case using Cons r by (cases r) auto
qed simp

lemma actions_settle_once:
  "apply_session_actions T P (Suc n) actions w = apply_session_actions T P 1 actions w
     \<and> fst (apply_session_actions T P 1 actions w) \<noteq> None"
proof (induction actions arbitrary: w)
  case (Cons a actions)
  obtain r w' where r: "perform T P a w = (r, w')" by fastforce
  show ?case
  proof (cases r)
    case (Inr emitted)
    then have last: "list_all last_action emitted" using r perform_last by blast
    show ?thesis
      using Cons.IH settle_at_once [OF last, of T P n w'] settle_at_once [OF last, of T P 0 w'] r Inr
      by (cases "apply_session_actions T P 0 emitted w'")
        (auto split: option.split sum.split bool.split prod.split)
  qed (simp add: r)
qed simp

lemma carry_out_settles: "carry_out T P start \<noteq> Inl LoopStuck"
proof -
  obtain actions w where start: "start = (actions, w)" by fastforce
  obtain r w' where r: "apply_session_actions T P 1 actions w = (Some r, w')"
    using actions_settle_once [THEN conjunct2, of T P actions w] by (metis not_None_eq prod.collapse)
  then show ?thesis by (simp add: carry_out_def start split: sum.split bool.split)
qed

subsection \<open>Authority is not given back\<close>

text \<open>Cut off, with a conversation open or a draft with nothing in flight.\<close>

definition disabled :: "ui \<Rightarrow> bool" where
  "disabled m \<longleftrightarrow> um_connection m \<noteq> CnConnected \<and> um_queued m = None
     \<and> ((\<exists>sid. um_active m = Some (OpenConversation sid)) \<or> um_active m = Some NewSessionDraft \<and> um_pending m = None)"

definition harmless :: "ui_action \<Rightarrow> bool" where
  "harmless a \<longleftrightarrow> \<not> decides a \<and> submits a = None"

text \<open>The inputs that the loop makes without a whole snapshot; it never makes the first two.\<close>

fun loop_input :: "ui_input \<Rightarrow> bool" where
  "loop_input UiConnected = False"
| "loop_input (UiEvent _) = False"
| "loop_input (UiSnapshot _) = False"
| "loop_input _ = True"

lemma disabled_same:
  "disabled m \<Longrightarrow> um_connection m' = um_connection m \<Longrightarrow> um_queued m' = None
     \<Longrightarrow> um_active m' = um_active m \<or> um_active m' = Some NewSessionDraft \<and> um_pending m = None
     \<Longrightarrow> um_pending m' = um_pending m \<Longrightarrow> disabled m'"
  by (auto simp: disabled_def)

lemma key_disabled:
  assumes "disabled m" and "key_result m k r"
  shows "disabled (snd r) \<and> list_all harmless (fst r)"
proof -
  have q: "um_queued m = None" "um_connection m \<noteq> CnConnected" using assms(1) by (simp_all add: disabled_def)
  consider "quiet_result m r" | "confirming_result m k r"
    using assms(2) q(2) by (auto simp: key_result_def submitting_result_def resolving_result_def)
  then show ?thesis
  proof cases
    case 1
    then show ?thesis using q disabled_same [OF assms(1), of "snd r"]
      by (cases r) (auto simp: quiet_result_def harmless_def list_all_iff)
  next
    case 2
    then show ?thesis using q disabled_same [OF assms(1), of "snd r"]
      by (cases r) (auto simp: confirming_result_def same_base_def)
  qed
qed

lemma catalog_frame:
  "um_connection (snd (reduce_catalog_ready L ss query m)) = um_connection m"
  "um_active (snd (reduce_catalog_ready L ss query m)) = um_active m"
  by (simp_all add: reduce_catalog_ready_def Let_def split: option.split list.split)

lemma opened_disabled: "disabled m \<Longrightarrow> disabled (reduce_opened L s m)"
  by (simp add: disabled_def reduce_opened_def Let_def settle_fields)

lemma assigned_disabled: "disabled m \<Longrightarrow> disabled (reduce_assigned L n sid m)"
  by (auto simp: disabled_def reduce_assigned_def Let_def reconcile_fields
    split: option.splits active_conversation.splits)

text \<open>The inputs that leave the connection, the conversation and the submission as they are.\<close>

fun plain_input :: "ui_input \<Rightarrow> bool" where
  "plain_input (UiKey _) = False"
| "plain_input UiLagged = False"
| "plain_input UiDisconnected = False"
| "plain_input (UiSessionOpened _) = False"
| "plain_input (UiSubmissionAssigned _ _) = False"
| "plain_input i = loop_input i"

lemma plain_frame:
  assumes "plain_input i" and "um_queued m = None"
  shows "um_connection (snd (reduce T m i)) = um_connection m \<and> um_active (snd (reduce T m i)) = um_active m
     \<and> um_pending (snd (reduce T m i)) = um_pending m"
proof (cases i)
  case (UiPaste x)
  then show ?thesis by (simp add: no_actions_def reduce_paste_def composer_edited_def Let_def)
next
  case (UiSessionCatalogReady ss query)
  then show ?thesis by (simp add: catalog_frame catalog_result(2) [OF assms(2)])
next
  case (UiMouse k)
  then show ?thesis by (cases k) (simp_all add: no_actions_def reduce_mouse_def)
qed (use assms(1) in \<open>simp_all add: no_actions_def mark_selected_permission_rendered_def record_progress_def\<close>)

lemma other_disabled:
  assumes "disabled m" and "loop_input i" and "\<And>k. i \<noteq> UiKey k"
  shows "disabled (snd (reduce T m i))"
proof (cases "plain_input i")
  case True
  have q: "um_queued m = None" using assms(1) by (simp add: disabled_def)
  show ?thesis using plain_frame [OF True q, of T] disabled_same [OF assms(1) _ reduce_fields(1) [OF q]] by blast
next
  case False
  then consider "i = UiLagged" | "i = UiDisconnected" | s where "i = UiSessionOpened s"
    | n sid where "i = UiSubmissionAssigned n sid"
    using assms(2,3) by (cases i) auto
  then show ?thesis
    using assms(1) by cases (simp_all add: no_actions_def opened_disabled assigned_disabled, simp_all add: disabled_def)
qed

lemma reduce_disabled:
  assumes "disabled m" and "loop_input i"
  shows "disabled (snd (reduce T m i)) \<and> list_all harmless (fst (reduce T m i))"
proof (cases "\<exists>k. i = UiKey k")
  case True
  then obtain k where k: "i = UiKey k" ..
  have "um_queued m = None" using assms(1) by (simp add: disabled_def)
  then show ?thesis using key_disabled [OF assms(1) reduce_key_result] by (simp add: k)
next
  case False
  then have i: "\<And>k. i \<noteq> UiKey k" by blast
  have "um_queued m = None" using assms(1) by (simp add: disabled_def)
  then have "other_result m i (reduce T m i)" using i by (rule reduce_other)
  then show ?thesis using other_disabled [OF assms i, of T]
    by (cases "reduce T m i") (auto simp: other_result_def harmless_def list_all_iff)
qed

subsection \<open>The loop\<close>

text \<open>Cut off now, and nothing but harmless actions were sent since \<open>w\<close>.\<close>

definition stays_disabled :: "terminal \<Rightarrow> terminal \<Rightarrow> bool" where
  "stays_disabled w w' \<longleftrightarrow> disabled (tt_ui w') \<and> (\<exists>sent. tt_sent w' = tt_sent w @ sent \<and> list_all harmless sent)"

lemma stays_refl: "disabled (tt_ui w) \<Longrightarrow> stays_disabled w w"
  by (simp add: stays_disabled_def)

lemma stays_trans [trans]: "stays_disabled w w' \<Longrightarrow> stays_disabled w' w'' \<Longrightarrow> stays_disabled w w''"
  by (auto simp: stays_disabled_def)

lemma stays_disabledD: "stays_disabled w w' \<Longrightarrow> disabled (tt_ui w')"
  by (simp add: stays_disabled_def)

lemma stays_called: "stays_disabled w (called w') = stays_disabled w w'"
  by (simp add: stays_disabled_def called_def)

lemma feed_stays:
  assumes "disabled (tt_ui w)" and "loop_input i"
  shows "stays_disabled w (snd (feed T i w)) \<and> list_all harmless (fst (feed T i w))"
  using reduce_disabled [OF assms] by (simp add: fed stays_disabled_def)

definition result_stays :: "terminal \<Rightarrow> ui_action list \<times> terminal \<Rightarrow> bool" where
  "result_stays w r \<longleftrightarrow> stays_disabled w (snd r) \<and> list_all harmless (fst r)"

lemma feed_result: "stays_disabled w0 w \<Longrightarrow> loop_input i \<Longrightarrow> result_stays w0 (feed T i w)"
  using feed_stays [of w i T] by (auto simp: result_stays_def dest: stays_disabledD intro: stays_trans)

lemma opened_stays: "stays_disabled w0 w \<Longrightarrow> result_stays w0 (reduce_session_opened T P s w)"
proof -
  assume w: "stays_disabled w0 w"
  have opened: "stays_disabled w0 (snd (feed T (UiSessionOpened s) w))" and none: "fst (feed T (UiSessionOpened s) w) = []"
    using feed_result [OF w, of "UiSessionOpened s" T] by (simp_all add: result_stays_def fed no_actions_def)
  then have "stays_disabled w0 (called (snd (feed T (UiSessionOpened s) w)))" by (simp add: stays_called)
  then have "result_stays w0 (feed T (UiContextUsage sid usage) (called (snd (feed T (UiSessionOpened s) w))))" for sid usage
    by (rule feed_result) simp
  then show ?thesis using opened none
    by (cases "feed T (UiSessionOpened s) w")
      (auto simp: reduce_session_opened_def result_stays_def stays_called split: sum.split)
qed

lemma with_result_stays:
  assumes "stays_disabled w0 w" and "\<And>x. result_stays w0 (f x w)" and "with_result r f w = (out, w')"
  shows "stays_disabled w0 w' \<and> (\<forall>emitted. out = Inr emitted \<longrightarrow> list_all harmless emitted)"
proof (cases r)
  case (Inl e)
  then show ?thesis using assms(1,3) by (auto simp: with_result_def)
next
  case (Inr x)
  then show ?thesis using assms(2) [of x] assms(3)
    by (cases "f x w") (auto simp: with_result_def result_stays_def)
qed

lemma open_stays: "stays_disabled w0 w \<Longrightarrow> result_stays w0 (open_session T P sid w)"
  using opened_stays [of w0 "called w" T P] feed_result [of w0 "called w" "UiCommandError e" T for e]
  by (auto simp: open_session_def stays_called result_stays_def split: sum.split)

lemma show_catalog_stays:
  assumes "stays_disabled w0 w" and "show_catalog T r query w = (out, w')"
  shows "stays_disabled w0 w' \<and> (\<forall>emitted. out = Inr emitted \<longrightarrow> list_all harmless emitted)"
  by (rule with_result_stays [OF assms(1) _ assms(2) [unfolded show_catalog_def]]) (simp add: feed_result assms(1))

lemma exact_session_stays: "exact_session P query w = (r, w') \<Longrightarrow> stays_disabled w0 w \<Longrightarrow> stays_disabled w0 w'"
  by (auto simp: exact_session_def stays_called split: sum.splits list.splits)

lemma show_sessions_stays:
  assumes "stays_disabled w0 w" and "show_sessions T P query w = (out, w')"
  shows "stays_disabled w0 w' \<and> (\<forall>emitted. out = Inr emitted \<longrightarrow> list_all harmless emitted)"
proof (cases query)
  case None
  then show ?thesis using show_catalog_stays [of w0 "called w"] assms by (simp add: show_sessions_def stays_called)
next
  case (Some q)
  obtain r w1 where r: "exact_session P q w = (r, w1)" by fastforce
  then have w1: "stays_disabled w0 w1" using exact_session_stays assms(1) by blast
  have "stays_disabled w0 w' \<and> (\<forall>emitted. out = Inr emitted \<longrightarrow> list_all harmless emitted)"
    if "with_result (Inr s) (reduce_session_opened T P) w1 = (out, w')" for s
    by (rule with_result_stays [OF w1 _ that]) (rule opened_stays [OF w1])
  then show ?thesis
    using assms(2) Some r w1 show_catalog_stays [of w0 "called w1"]
    by (auto simp: show_sessions_def stays_called split: sum.splits option.splits)
qed

lemma refresh_stays:
  assumes "stays_disabled w0 w" and "refresh T P w = (out, w')"
  shows "stays_disabled w0 w' \<and> (\<forall>emitted. out = Inr emitted \<longrightarrow> list_all harmless emitted)"
proof -
  have w: "stays_disabled w0 (called w)" using assms(1) by (simp add: stays_called)
  have "disabled (tt_ui w)" using assms(1) by (rule stays_disabledD)
  then consider sid where "um_active (tt_ui w) = Some (OpenConversation sid)"
    | "um_active (tt_ui w) = Some NewSessionDraft" "um_pending (tt_ui w) = None" by (auto simp: disabled_def)
  then show ?thesis
  proof cases
    case 1
    then have "with_result (pj_session P (tt_calls w) sid) (reduce_session_opened T P) (called w) = (out, w')"
      using assms(2) by (simp add: refresh_def)
    then show ?thesis by (rule with_result_stays [OF w, rotated]) (rule opened_stays [OF w])
  next
    case 2
    then have "with_result (pj_catalog P (tt_calls w)) (\<lambda>sessions. feed T (UiSessionCatalog sessions)) (called w) = (out, w')"
      using assms(2) by (simp add: refresh_def)
    then show ?thesis by (rule with_result_stays [OF w, rotated]) (simp add: feed_result w)
  qed
qed

lemma perform_stays:
  assumes "stays_disabled w0 w" and "harmless action" and "perform T P action w = (out, w')"
  shows "stays_disabled w0 w' \<and> (\<forall>emitted. out = Inr emitted \<longrightarrow> list_all harmless emitted)"
proof -
  let ?sent = "(called w)\<lparr>tt_sent := tt_sent w @ [action]\<rparr>"
  have sent: "stays_disabled w0 ?sent"
    using assms(1,2) by (auto simp: stays_disabled_def called_def)
  have sink: "stays_disabled w0 w' \<and> (\<forall>emitted. out = Inr emitted \<longrightarrow> list_all harmless emitted)"
    if "with_result (pj_sink P (tt_calls w) action) (\<lambda>_ w. ([], w)) ?sent = (out, w')"
    by (rule with_result_stays [OF sent _ that]) (simp add: result_stays_def sent)
  have shown: "stays_disabled w0 w' \<and> (\<forall>emitted. out = Inr emitted \<longrightarrow> list_all harmless emitted)"
    if "with_result (Inr sid) (open_session T P) w = (out, w')" for sid
    by (rule with_result_stays [OF assms(1) _ that]) (rule open_stays [OF assms(1)])
  note searching = show_catalog_stays [of w0 "called w", unfolded stays_called, OF assms(1)]
  show ?thesis
    using assms(3) sink shown searching show_sessions_stays [OF assms(1)] refresh_stays [OF assms(1)]
    unfolding perform_def by (cases action) (simp_all only: ui_action.case, blast+)
qed

lemma apply_stays_step:
  assumes deeper: "\<And>k emitted w r w'. n = Suc k \<Longrightarrow> stays_disabled w0 w \<Longrightarrow> list_all harmless emitted
      \<Longrightarrow> apply_session_actions T P k emitted w = (r, w') \<Longrightarrow> stays_disabled w0 w'"
  shows "stays_disabled w0 w \<Longrightarrow> list_all harmless actions \<Longrightarrow> apply_session_actions T P n actions w = (r, w')
     \<Longrightarrow> stays_disabled w0 w'"
proof (induction actions arbitrary: w)
  case (Cons action actions)
  obtain out w1 where out: "perform T P action w = (out, w1)" by fastforce
  have harmless: "harmless action" "list_all harmless actions" using Cons.prems(2) by simp_all
  note stays = perform_stays [OF Cons.prems(1) harmless(1) out]
  note rest = Cons.IH [OF _ harmless(2)]
  show ?case
  proof (cases "action = ActQuit \<or> (\<exists>e. out = Inl e) \<or> out = Inr []")
    case True
    then show ?thesis using Cons.prems out stays rest by (auto split: if_splits)
  next
    case False
    then obtain emitted where e: "out = Inr emitted" "emitted \<noteq> []" "action \<noteq> ActQuit" by (cases out) auto
    show ?thesis
    proof (cases n)
      case 0
      then show ?thesis using Cons.prems(3) out stays e by simp
    next
      case (Suc k)
      obtain r2 w2 where r2: "apply_session_actions T P k emitted w1 = (r2, w2)" by fastforce
      then have w2: "stays_disabled w0 w2" using deeper [OF Suc] stays e(1) by blast
      show ?thesis
      proof (cases "r2 = Some (Inr False)")
        case True
        then show ?thesis using Cons.prems(3) out e r2 Suc rest [OF w2] by simp
      next
        case False
        then have "apply_session_actions T P n (action # actions) w = (r2, w2)"
          using out e r2 Suc by (simp split: option.split sum.split bool.split)
        then show ?thesis using Cons.prems(3) w2 by simp
      qed
    qed
  qed
qed simp

lemma apply_stays:
  "stays_disabled w0 w \<Longrightarrow> list_all harmless actions \<Longrightarrow> apply_session_actions T P n actions w = (r, w')
     \<Longrightarrow> stays_disabled w0 w'"
proof (induction n arbitrary: actions w r w')
  case 0
  then show ?case using apply_stays_step [of 0 w0 T P w actions r w'] by simp
next
  case (Suc n)
  show ?case by (rule apply_stays_step [OF _ Suc.prems]) (metis Suc.IH nat.inject)
qed

text \<open>A result of a part of the loop.\<close>

definition loop_stays :: "terminal \<Rightarrow> loop_exit + terminal \<times> bool \<Rightarrow> bool" where
  "loop_stays w0 r \<longleftrightarrow> (case r of Inl _ \<Rightarrow> True | Inr (w, _) \<Rightarrow> stays_disabled w0 w)"

lemma loop_stays_simps [simp]:
  "loop_stays w0 (Inr (w, b)) = stays_disabled w0 w" "loop_stays w0 (Inl e)"
  by (simp_all add: loop_stays_def)

lemma loop_stays_bind:
  "loop_stays w0 r \<Longrightarrow> (\<And>w b. stays_disabled w0 w \<Longrightarrow> loop_stays w0 (f (w, b))) \<Longrightarrow> loop_stays w0 (bindE r f)"
  by (cases r) auto

lemma carry_out_stays:
  assumes "result_stays w0 start" and "carry_out T P start = Inr w'"
  shows "stays_disabled w0 w'"
proof -
  obtain r w1 where r: "apply_session_actions T P 1 (fst start) (snd start) = (r, w1)" by fastforce
  have "w1 = w'" using assms(2) r
    by (cases start) (auto simp: carry_out_def split: option.splits sum.splits bool.splits)
  then show ?thesis using apply_stays [OF _ _ r] assms(1) by (simp add: result_stays_def)
qed

lemma carry_on_stays:
  assumes "result_stays w0 start" and "\<And>w. stays_disabled w0 w \<Longrightarrow> loop_stays w0 (f w)"
  shows "loop_stays w0 (bindE (carry_out T P start) f)"
  using carry_out_stays [OF assms(1)] assms(2) by (cases "carry_out T P start") auto

lemma fed_stays: "stays_disabled w0 w \<Longrightarrow> loop_input i \<Longrightarrow> stays_disabled w0 (snd (feed T i w))"
  using feed_result by (simp add: result_stays_def)

lemma draw_frame_stays: "stays_disabled w0 w \<Longrightarrow> stays_disabled w0 (draw_frame T now (w, redraw))"
proof -
  assume w: "stays_disabled w0 w"
  then have "stays_disabled w0 (w\<lparr>tt_ui := (tt_ui w)\<lparr>um_armed_until := None\<rparr>\<rparr>)"
    by (simp add: stays_disabled_def disabled_def)
  then show ?thesis using w by (simp add: draw_frame_def Let_def fed_stays)
qed

lemma take_poll_stays: "stays_disabled w0 w \<Longrightarrow> loop_stays w0 (take_poll T P p w)"
  by (cases p) (auto simp: take_poll_def fed_stays feed_result result_stays_def [of w0 "([ActRefreshSnapshots], w)"] harmless_def
    intro!: carry_on_stays)

lemma take_event_stays: "stays_disabled w0 w \<Longrightarrow> loop_stays w0 (take_event T P ev w)"
  by (cases ev) (auto simp: take_event_def fed_stays feed_result intro!: carry_on_stays)

lemma feed_eq_stays:
  "feed T i w = (actions, w') \<Longrightarrow> stays_disabled w0 w \<Longrightarrow> loop_input i \<Longrightarrow> stays_disabled w0 w' \<and> list_all harmless actions"
  using feed_result [of w0 w i T] by (simp add: result_stays_def)

lemma feedback_stays: "stays_disabled w0 w \<Longrightarrow> result_stays w0 (take_feedback T f w)"
proof (induction T f w rule: take_feedback.induct)
  case (11 T message w)
  then show ?case
    using feed_eq_stays [of T "UiCommandCompleted message" w _ _ w0]
    by (cases "feed T (UiCommandCompleted message) w") (auto simp: result_stays_def harmless_def)
qed (simp_all add: feed_result, simp add: result_stays_def harmless_def)

lemma drain_stays:
  assumes "stays_disabled w0 w" and "drain_runtime_updates T feedback progress w = (changed, actions, w')"
  shows "result_stays w0 (actions, w')"
proof -
  let ?step = "\<lambda>(actions, w) f. case take_feedback T f w of (emitted, w) \<Rightarrow> (actions @ emitted, w)"
  have progress: "stays_disabled w0 v \<Longrightarrow> stays_disabled w0 (foldl (\<lambda>w p. snd (feed T (UiProgress p) w)) v ps)" for v ps
    by (induction ps arbitrary: v) (simp_all add: fed_stays)
  have "result_stays w0 (as, v) \<Longrightarrow> result_stays w0 (foldl ?step (as, v) fs)" for as v fs
  proof (induction fs arbitrary: as v)
    case (Cons f fs)
    obtain emitted v' where v': "take_feedback T f v = (emitted, v')" by fastforce
    have "result_stays w0 (as @ emitted, v')"
      using feedback_stays [of w0 v T f] Cons.prems by (simp add: result_stays_def v')
    then show ?case using Cons.IH by (simp add: v')
  qed simp
  then have fed: "result_stays w0 (foldl ?step ([], w) feedback)" using assms(1) by (simp add: result_stays_def)
  obtain as v where v: "foldl ?step ([], w) feedback = (as, v)" by fastforce
  have "actions = as" "w' = foldl (\<lambda>w p. snd (feed T (UiProgress p) w)) v progress"
    using assms(2) v by (simp_all add: drain_runtime_updates_def)
  then show ?thesis using fed v progress [of v progress] by (simp add: result_stays_def)
qed

lemma iteration_stays:
  assumes "stays_disabled w0 w"
  shows "loop_stays w0 (loop_iteration T P i (w, redraw))"
proof -
  let ?w = "draw_frame T (it_now i) (w, redraw)"
  have w: "stays_disabled w0 ?w" by (rule draw_frame_stays [OF assms])
  have start: "loop_stays w0 (if it_interrupted i
      then bindE (carry_out T P (feed T (UiKey (control_c (it_now i))) ?w)) (\<lambda>w. Inr (w, True)) else Inr (?w, False))"
    by (auto simp: w intro!: carry_on_stays feed_result)
  have event: "loop_stays w0 (case it_event i of None \<Rightarrow> Inr (v, False) | Some ev \<Rightarrow> take_event T P ev v)"
    if "stays_disabled w0 v" for v
    using take_event_stays [OF that] that by (simp split: option.split)
  have rest: "loop_stays w0 (case drain_runtime_updates T (it_feedback i) (it_progress i) v of (changed, actions, w) \<Rightarrow>
     bindE (carry_out T P (actions, w)) (\<lambda>w.
     bindE (case it_event i of None \<Rightarrow> Inr (w, False) | Some ev \<Rightarrow> take_event T P ev w) (\<lambda>(w, redraw3).
     Inr (w, b1 \<or> b2 \<or> changed \<or> redraw3))))" if "stays_disabled w0 v" for v b1 b2
    using drain_stays [OF that]
    by (auto split: prod.split intro!: carry_on_stays loop_stays_bind event)
  show ?thesis
    unfolding loop_iteration_def Let_def
    by (intro loop_stays_bind start) (auto intro!: loop_stays_bind take_poll_stays rest)
qed

lemma run_stays: "stays_disabled w0 w \<Longrightarrow> loop_stays w0 (run_loop T P is (w, redraw))"
proof (induction "is" arbitrary: w redraw)
  case (Cons i "is")
  then show ?case using iteration_stays [OF Cons.prems, of T P i redraw] by (auto intro!: loop_stays_bind)
qed simp

end
