(* ===== verification/Terminal_Layout.thy ===== *)
theory Terminal_Layout
  imports Terminal_Model
begin

text \<open>
  Where the terminal puts things, \<open>latte-tui/src/session.rs\<close>: rows of text in display columns,
  the state that decides the layout, and the three regions of the viewport. \<open>u16\<close> values are
  naturals below \<open>2 ^ 16\<close>.
\<close>

subsection \<open>Rows of text\<close>

definition grapheme_width_at :: "terminal_lib \<Rightarrow> rstr \<Rightarrow> nat \<Rightarrow> nat" where
  "grapheme_width_at T g column = (if g = [9] then 4 - column mod 4 else tm_width T g)"

text \<open>The rows so far, the row being filled and its columns.\<close>

definition wrap_grapheme :: "terminal_lib \<Rightarrow> nat \<Rightarrow> rstr list \<times> rstr \<times> nat \<Rightarrow> rstr \<Rightarrow> rstr list \<times> rstr \<times> nat" where
  "wrap_grapheme T width = (\<lambda>(rows, row, column) g.
     let (rows, row, column) = (if column > 0 \<and> column + grapheme_width_at T g column > width
             then (rows @ [row], [], 0) else (rows, row, column));
         w = grapheme_width_at T g column;
         (row, column) = (if g = [9] then (row @ replicate (min w width) 32, column + min w width)
             else (row @ g, column + w))
     in if column \<ge> width then (rows @ [row], [], 0) else (rows, row, column))"

definition wrap_line :: "terminal_lib \<Rightarrow> nat \<Rightarrow> rstr list \<Rightarrow> rstr \<Rightarrow> rstr list" where
  "wrap_line T width rows source =
     (if source = [] then rows @ [[]]
      else case foldl (wrap_grapheme T width) (rows, [], 0) (tm_graphemes T source) of
        (rows, row, column) \<Rightarrow> if row \<noteq> [] \<or> column = 0 \<and> rows = [] then rows @ [row] else rows)"

definition wrap_text :: "terminal_lib \<Rightarrow> rstr \<Rightarrow> nat \<Rightarrow> rstr list" where
  "wrap_text T text width =
     (let rows = foldl (wrap_line T (max width 1)) [] (split_on 10 text)
      in if rows = [] then [[]] else rows)"

definition wrapped_line_count :: "terminal_lib \<Rightarrow> rstr \<Rightarrow> nat \<Rightarrow> nat" where
  "wrapped_line_count T text width = max 1 (length (wrap_text T text width))"

record text_layout =
  tx_rows :: "rstr list"
  tx_caret_row :: nat
  tx_caret_column :: nat

definition compose_grapheme :: "terminal_lib \<Rightarrow> nat \<Rightarrow> rstr list \<times> rstr \<times> nat \<Rightarrow> rstr \<Rightarrow> rstr list \<times> rstr \<times> nat" where
  "compose_grapheme T width = (\<lambda>(rows, row, column) g.
     if g = [10] then (rows @ [row], [], 0)
     else let (rows, row, column) = (if column > 0 \<and> column + grapheme_width_at T g column > width
                then (rows @ [row], [], 0) else (rows, row, column));
              w = grapheme_width_at T g column
          in if g = [9] then (rows, row @ replicate (min w width) 32, column + min w width)
             else (rows, row @ g, column + w))"

text \<open>A full last row leaves the caret at the start of a new one.\<close>

definition composer_text_layout :: "terminal_lib \<Rightarrow> rstr \<Rightarrow> nat \<Rightarrow> text_layout" where
  "composer_text_layout T text width =
     (case foldl (compose_grapheme T (max width 1)) ([], [], 0) (tm_graphemes T text) of
        (rows, row, column) \<Rightarrow>
          let rows = rows @ [row] in
          if column \<ge> max width 1
          then \<lparr>tx_rows = rows @ [[]], tx_caret_row = length rows, tx_caret_column = 0\<rparr>
          else \<lparr>tx_rows = rows, tx_caret_row = length rows - 1, tx_caret_column = column\<rparr>)"

fun clip_graphemes :: "terminal_lib \<Rightarrow> nat \<Rightarrow> rstr \<Rightarrow> nat \<Rightarrow> rstr list \<Rightarrow> rstr \<times> nat" where
  "clip_graphemes T width out column [] = (out, column)"
| "clip_graphemes T width out column (g # gs) =
     (if g = [10] then (out, column)
      else let w = grapheme_width_at T g column in
        if column + w > width then (out, column)
        else clip_graphemes T width (out @ (if g = [9] then replicate w 32 else g)) (column + w) gs)"

definition clip_to_width :: "terminal_lib \<Rightarrow> rstr \<Rightarrow> nat \<Rightarrow> rstr" where
  "clip_to_width T text width =
     (if width = 0 then [] else fst (clip_graphemes T width [] 0 (tm_graphemes T text)))"

definition display_width :: "terminal_lib \<Rightarrow> rstr \<Rightarrow> nat" where
  "display_width T text =
     foldl (\<lambda>column g. if g = [10] then 0 else column + grapheme_width_at T g column) 0 (tm_graphemes T text)"

subsection \<open>The state that is shown\<close>

datatype visual_state = VsIdle | VsActive | VsPermission | VsReconciliation | VsComplete

definition latest_turn_completed :: "session_snapshot \<Rightarrow> bool" where
  "latest_turn_completed s =
     (case sn_latest_turn_id s of
        None \<Rightarrow> False
      | Some t \<Rightarrow> (case find (\<lambda>x. sm_turn_id x = t) (sn_turns s) of
          None \<Rightarrow> False | Some x \<Rightarrow> sm_status x = StCompleted))"

definition ends_in_completion :: "session_snapshot \<Rightarrow> bool" where
  "ends_in_completion s =
     (case find (\<lambda>e. te_kind e \<noteq> TkSystem) (rev (tp_entries (sn_transcript s))) of
        None \<Rightarrow> False | Some e \<Rightarrow> te_kind e = TkCompletion)"

definition visual_state_of :: "ui \<Rightarrow> visual_state" where
  "visual_state_of m =
     (case selected_session m of
        None \<Rightarrow> if um_pending m \<noteq> None then VsActive else VsIdle
      | Some s \<Rightarrow>
          if sn_lifecycle s = LcReconciliationRequired then VsReconciliation
          else if sn_lifecycle s = LcWaitingPermission \<or> permission_request_id (sn_pending s) \<noteq> None then VsPermission
          else if sn_lifecycle s = LcReady \<and> (latest_turn_completed s \<or> ends_in_completion s) then VsComplete
          else VsActive)"

definition editor_text :: "ui \<Rightarrow> rstr" where
  "editor_text m =
     (if (case selected_session m of None \<Rightarrow> False | Some s \<Rightarrow> pending_input_id (sn_pending s) \<noteq> None)
      then um_input m else um_composer m)"

definition dotted :: "rstr list \<Rightarrow> rstr" where
  "dotted parts = join_with ([32, 183, 32]) parts"

definition no_session_meta :: "lib \<Rightarrow> ui \<Rightarrow> rstr \<times> rstr" where
  "no_session_meta L m =
     (let unset = (case um_startup m of None \<Rightarrow> False | Some s \<Rightarrow> su_default_model s = []) in
      if selected_provider_model m = None \<and> unset
      then (lit ''Provider setup required'',
            dotted [lit ''Configure ~/.latte/latte-code.jsonc'', lit ''restart Latte Code''])
      else if um_submission_error m \<noteq> None
      then (dotted [lit ''Submission failed'', lit ''prompt restored''],
            dotted [lit ''Enter retry'', lit ''Shift+Enter newline'', lit ''Ctrl+P commands''])
      else
        ((case um_startup m of
            None \<Rightarrow> []
          | Some s \<Rightarrow>
              let selected = (case selected_provider_model m of
                    None \<Rightarrow> if su_default_model s = [] then lit ''Not configured'' else su_default_model s
                  | Some (_, model) \<Rightarrow> model)
              in dotted [lit ''Build'', presentation_text L selected 80, lit ''Ask'']),
         dotted [lit ''Ctrl+Enter send'', lit ''Ctrl+P commands'']))"

definition session_hint :: "ui \<Rightarrow> session_snapshot \<Rightarrow> visual_state \<Rightarrow> nat \<Rightarrow> rstr" where
  "session_hint m s state now =
     (if (case um_armed_until m of None \<Rightarrow> False | Some deadline \<Rightarrow> now \<le> deadline) then lit ''Ctrl+C again to exit''
      else if um_connection m \<noteq> CnConnected then lit ''Ctrl+R refresh''
      else if state = VsReconciliation then
        (if um_confirmation m \<noteq> None
         then dotted [lit ''Ctrl+A confirm failed'', lit ''d/Esc cancel'', lit ''Enter does nothing'']
         else dotted [lit ''Ctrl+R review'', lit ''Enter does nothing''])
      else if state = VsPermission
      then dotted [lit ''d deny'', lit ''Ctrl+A allow once'', lit ''Enter does nothing'']
      else if pending_input_id (sn_pending s) \<noteq> None then dotted [lit ''Enter send'', lit ''Shift+Enter newline'']
      else if um_focus m = FocusNavigation
      then dotted [lit ''j/k select'', lit ''Enter expand'', lit ''Esc composer'']
      else dotted [lit ''Enter send'', lit ''Shift+Enter newline'', lit ''Ctrl+P commands''])"

text \<open>The two labels of the composer at the time \<open>now\<close>; a selected session is never shown as idle.\<close>

definition composer_meta :: "lib \<Rightarrow> ui \<Rightarrow> visual_state \<Rightarrow> nat \<Rightarrow> rstr \<times> rstr" where
  "composer_meta L m state now =
     (if um_pending m \<noteq> None
      then (lit ''Submitting'', dotted [lit ''Compose next prompt'', lit ''Shift+Enter newline''])
      else case selected_session m of
        None \<Rightarrow> no_session_meta L m
      | Some s \<Rightarrow>
          let model = presentation_text L (pb_model (sn_binding s)) 80 in
          (dotted [case state of
               VsPermission \<Rightarrow> lit ''Attention'' | VsReconciliation \<Rightarrow> lit ''Reconciliation''
             | VsComplete \<Rightarrow> lit ''Ready for follow-up''
             | _ \<Rightarrow> lifecycle_label (sn_lifecycle s), model],
           session_hint m s state now))"

subsection \<open>The viewport\<close>

record rect =
  rc_x :: nat
  rc_y :: nat
  rc_width :: nat
  rc_height :: nat

datatype viewport_tier = TierWide | TierMedium | TierNarrow

datatype idle_composition = IdleExpanded | IdleWide | IdleStacked | IdleCompact

definition tier_for_width :: "nat \<Rightarrow> viewport_tier" where
  "tier_for_width width = (if width \<ge> 110 then TierWide else if width \<ge> 78 then TierMedium else TierNarrow)"

fun compact_inset :: "viewport_tier \<Rightarrow> nat" where
  "compact_inset TierWide = 3" | "compact_inset TierMedium = 3" | "compact_inset TierNarrow = 2"

fun transcript_inset :: "viewport_tier \<Rightarrow> nat" where
  "transcript_inset TierWide = 4" | "transcript_inset TierMedium = 4" | "transcript_inset TierNarrow = 2"

fun idle_inset :: "viewport_tier \<Rightarrow> nat" where
  "idle_inset TierWide = 7" | "idle_inset TierMedium = 4" | "idle_inset TierNarrow = 2"

fun idle_composer_inset :: "viewport_tier \<Rightarrow> nat" where
  "idle_composer_inset TierWide = 6" | "idle_composer_inset TierMedium = 4" | "idle_composer_inset TierNarrow = 2"

definition idle_for_area :: "nat \<Rightarrow> viewport_tier \<Rightarrow> idle_composition" where
  "idle_for_area height tier =
     (case tier of TierWide \<Rightarrow> if height \<ge> 52 then IdleExpanded else IdleWide
      | TierMedium \<Rightarrow> IdleStacked | TierNarrow \<Rightarrow> IdleCompact)"

fun idle_header_height :: "idle_composition \<Rightarrow> nat" where
  "idle_header_height IdleExpanded = 20"
| "idle_header_height IdleWide = 12"
| "idle_header_height IdleCompact = 12"
| "idle_header_height IdleStacked = 15"

definition app_rect :: "rect \<Rightarrow> rect" where
  "app_rect area =
     (let width = min (rc_width area) 160
      in area\<lparr>rc_x := rc_x area + (rc_width area - width) div 2, rc_width := width\<rparr>)"

definition bounded_inset :: "nat \<Rightarrow> nat \<Rightarrow> nat" where
  "bounded_inset width desired = min desired ((width - 1) div 2)"

record viewport_layout =
  vl_app :: rect
  vl_tier :: viewport_tier
  vl_header :: rect
  vl_transcript :: rect
  vl_composer :: rect
  vl_transcript_inset :: nat
  vl_composer_inset :: nat
  vl_idle_composition :: idle_composition

definition base_composer_height :: "rect \<Rightarrow> visual_state \<Rightarrow> viewport_tier \<Rightarrow> idle_composition \<Rightarrow> nat" where
  "base_composer_height area state tier idle =
     (if state \<in> {VsPermission, VsReconciliation} \<and> rc_height area < 18 then 3
      else if state = VsIdle \<and> idle = IdleExpanded \<or> tier = TierNarrow then 5 else 4)"

definition desired_header_height :: "rect \<Rightarrow> visual_state \<Rightarrow> viewport_tier \<Rightarrow> idle_composition \<Rightarrow> nat \<Rightarrow> nat" where
  "desired_header_height area state tier idle composer_height =
     (let desired = (if state = VsIdle then idle_header_height idle else if tier = TierNarrow then 2 else 3);
          height = rc_height area
      in if state = VsIdle \<and> (rc_width area < 40 \<or> height < desired + composer_height + 1)
         then (if height \<le> 2 then 0 else if height \<le> 5 then 1 else if height \<le> 9 then 2 else 5)
         else desired)"

text \<open>The heights of the header and the composer; the transcript gets the rest.\<close>

definition region_heights :: "nat \<Rightarrow> nat \<Rightarrow> nat \<Rightarrow> nat \<times> nat" where
  "region_heights height desired_header desired_composer =
     (let minimum = min height 2;
          header = min desired_header (height - minimum);
          reserve = (if height \<ge> header + minimum + 1 then 1 else 0)
      in (header, min desired_composer (height - header - reserve)))"

definition composer_inset :: "nat \<Rightarrow> visual_state \<Rightarrow> viewport_tier \<Rightarrow> nat" where
  "composer_inset width state tier =
     bounded_inset width (if state = VsIdle then idle_composer_inset tier else compact_inset tier)"

definition desired_composer_height :: "terminal_lib \<Rightarrow> rect \<Rightarrow> visual_state \<Rightarrow> ui \<Rightarrow> nat" where
  "desired_composer_height T area state m =
     (let tier = tier_for_width (rc_width area);
          width = max 1 (rc_width area - (composer_inset (rc_width area) state tier * 2 + 2))
      in base_composer_height area state tier (idle_for_area (rc_height area) tier)
         + min 4 (length (tx_rows (composer_text_layout T (editor_text m) width)) - 1))"

definition layout_viewport :: "terminal_lib \<Rightarrow> rect \<Rightarrow> visual_state \<Rightarrow> ui \<Rightarrow> viewport_layout" where
  "layout_viewport T area state m =
     (let tier = tier_for_width (rc_width area);
          idle = idle_for_area (rc_height area) tier;
          wanted = desired_composer_height T area state m;
          (header, composer) = region_heights (rc_height area) (desired_header_height area state tier idle wanted) wanted
      in \<lparr>vl_app = area, vl_tier = tier, vl_header = area\<lparr>rc_height := header\<rparr>,
          vl_transcript = area\<lparr>rc_y := rc_y area + header, rc_height := rc_height area - header - composer\<rparr>,
          vl_composer = area\<lparr>rc_y := rc_y area + rc_height area - composer, rc_height := composer\<rparr>,
          vl_transcript_inset = bounded_inset (rc_width area) (transcript_inset tier),
          vl_composer_inset = composer_inset (rc_width area) state tier, vl_idle_composition = idle\<rparr>)"

subsection \<open>Nothing overlaps and nothing is too wide\<close>

lemma clip_column: "column \<le> width \<Longrightarrow> snd (clip_graphemes T width out column gs) \<le> width"
  by (induction T width out column gs rule: clip_graphemes.induct) (auto simp: Let_def)

lemma region_sums:
  assumes "region_heights height h c = (header, composer)" and "3 \<le> c"
  shows "header + (height - header - composer) + composer = height"
    and "2 \<le> height \<Longrightarrow> 2 \<le> composer"
  using assms by (auto simp: region_heights_def Let_def min_def split: if_splits)

lemma desired_composer_height_ge: "3 \<le> desired_composer_height T area state m"
  by (simp add: desired_composer_height_def base_composer_height_def Let_def)

text \<open>
  A header, a transcript and a composer share the viewport from top to bottom, and the
  composer keeps two rows where there are two.
\<close>

lemma viewport_regions:
  fixes T area state m
  defines "v \<equiv> layout_viewport T area state m"
  shows "rc_y (vl_header v) = rc_y area \<and> rc_y (vl_transcript v) = rc_y area + rc_height (vl_header v)
     \<and> rc_y (vl_composer v) = rc_y (vl_transcript v) + rc_height (vl_transcript v)
     \<and> rc_height (vl_header v) + rc_height (vl_transcript v) + rc_height (vl_composer v) = rc_height area
     \<and> (2 \<le> rc_height area \<longrightarrow> 2 \<le> rc_height (vl_composer v))"
proof -
  let ?wanted = "desired_composer_height T area state m"
  obtain header composer where r: "region_heights (rc_height area) (desired_header_height area state
      (tier_for_width (rc_width area)) (idle_for_area (rc_height area) (tier_for_width (rc_width area))) ?wanted) ?wanted
      = (header, composer)" by fastforce
  note sums = region_sums [OF r desired_composer_height_ge]
  show ?thesis using sums r by (auto simp: v_def layout_viewport_def Let_def)
qed

text \<open>The caret of the composer is inside its rows and its width.\<close>

lemma composer_caret:
  "tx_caret_row (composer_text_layout T text width) < length (tx_rows (composer_text_layout T text width))
   \<and> tx_caret_column (composer_text_layout T text width) < max width 1"
  by (auto simp: composer_text_layout_def Let_def split: prod.split)

end
