(* ===== verification/Terminal_Properties.thy ===== *)
theory Terminal_Properties
  imports Terminal_Disabled Terminal_Layout
begin

text \<open>
  The properties of the terminal, each with a run on a small terminal.
\<close>

subsection \<open>A small terminal\<close>

definition plain_terminal :: terminal_lib where
  "plain_terminal =
     \<lparr>tm_lib = \<lparr>scrub_secrets = (\<lambda>s. s), uuid_text = (\<lambda>_. []), uuid_parse = (\<lambda>_. None), uuid_error = (\<lambda>s. s),
        json_parse = (\<lambda>_. None), json_error = (\<lambda>s. s), json_text = (\<lambda>_. []), dedup_result_error = [],
        json_sha256 = (\<lambda>_. []), descriptor_parse = (\<lambda>_. None), verification_parse = (\<lambda>_. None)\<rparr>,
      tm_graphemes = map (\<lambda>c. [c]), tm_width = length, tm_handoff = (\<lambda>_. None)\<rparr>"

definition plain_startup :: startup_presentation where
  "plain_startup = \<lparr>su_default_provider = [112], su_default_model = [109], su_model_catalog = [], su_workspace_display = []\<rparr>"

definition plain_session :: "session_lifecycle \<Rightarrow> session_pending_request option \<Rightarrow> transcript_entry list \<Rightarrow> session_snapshot" where
  "plain_session lifecycle pending entries =
     \<lparr>sn_session_id = 7, sn_revision = 1, sn_sequence = 1, sn_lifecycle = lifecycle,
      sn_binding = \<lparr>pb_version = 1, pb_provider_name = [112], pb_provider_type = [], pb_protocol = [], pb_model = [109],
        pb_config_fingerprint = [], pb_tools_fingerprint = [], pb_aliases = [],
        pb_credential_ref_id = [], pb_data_scope_id = [], pb_credential_generation = 0\<rparr>,
      sn_latest_turn_id = None, sn_active_turn_id = None, sn_pending = pending, sn_turns = [],
      sn_transcript = \<lparr>tp_entries = entries, tp_next_after = None, tp_has_more = False\<rparr>, sn_focus = None\<rparr>"

definition press :: "key_code \<Rightarrow> bool \<Rightarrow> ui_input" where
  "press code control = UiKey \<lparr>ke_code = code, ke_shift = False, ke_control = control, ke_other_modifier = False,
     ke_release = False, ke_at = 0\<rparr>"

lemmas terminal_eval = ui_run_def plain_terminal_def plain_startup_def plain_session_def press_def no_actions_def
  with_startup_def default_model_of_def ui_default_def selected_session_def authority_enabled_def
  reduce_opened_def hint_of_selection_def settle_in_flight_def reconcile_pending_submission_def
  reconcile_pending_input_submission_def reconcile_pending_model_switch_def finalize_failed_submissions_after_snapshot_def
  restore_stranded_follow_up_def synchronize_input_target_def reconciliation_effect_from_snapshot_def
  reconciliation_effect_id_def first_of_def unknown_effect_def saturating_add_def U64_MAX_def
  reduce_key_at_def reduce_confirmation_key_def reduce_reconciliation_key_def only_control_def no_modifiers_def
  is_submit_def is_newline_def reduce_free_key_def reduce_slash_popup_key_def slash_popup_suggestions_def
  slash_suggestions_def reduce_composer_key_def composer_edited_def EDITOR_CAP_def len_utf8_def
  submit_composer_def submit_slash_candidate_def resolve_slash_def submit_prompt_def send_submission_def
  start_action_def selected_provider_model_def lit_def Let_def

lemma start_fields:
  "um_queued (with_startup s) = None" "um_rendered (with_startup s) = None" "um_confirmation (with_startup s) = None"
  by (simp_all add: with_startup_def ui_default_def)

subsection \<open>Permission\<close>

text \<open>
  C21 From the start of the terminal on, an answer to a permission request is emitted only
  for the pending request of the selected session, on its key, while connected, and when the
  last frame that was drawn showed that request of that session.
\<close>

theorem permissions_need_a_rendered_frame:
  assumes "ActResolvePermission sid request allow \<in> set (fst (reduce T (ui_run T (with_startup startup) inputs) i))"
  shows "um_connection (ui_run T (with_startup startup) inputs) = CnConnected
    \<and> (\<exists>k. i = UiKey k \<and> answer_key k allow)
    \<and> visible_permission (ui_run T (with_startup startup) inputs) = Some (sid, request)
    \<and> (\<exists>before after. inputs = before @ UiFrameRendered # after \<and> UiFrameRendered \<notin> set after
         \<and> visible_permission (ui_run T (with_startup startup) before) = Some (sid, request))"
proof -
  let ?m = "ui_run T (with_startup startup) inputs"
  have q: "um_queued ?m = None" by (rule run_queued) (simp add: start_fields)
  obtain k where i: "i = UiKey k"
    using only_keys_act [OF q assms] by auto
  have "um_rendered ?m = Some (sid, request) \<and> um_connection ?m = CnConnected \<and> answer_key k allow
      \<and> visible_permission ?m = Some (sid, request)"
    using key_resolves [OF reduce_key_result [OF q, of k T]] assms by (simp add: i)
  then show ?thesis
    using rendered_origin [of "with_startup startup" T inputs "(sid, request)"] i by (auto simp: start_fields)
qed

definition ask_inputs :: "ui_input list" where
  "ask_inputs = [UiSessionOpened (plain_session LcWaitingPermission (Some (PendPermission 3 [101] [] 0)) []), UiFrameRendered]"

lemma permissions_need_a_rendered_frame_witness:
  "visible_permission (ui_run plain_terminal (with_startup plain_startup) ask_inputs) = Some (7, [101])"
proof -
  have "ActResolvePermission 7 [101] True
      \<in> set (fst (reduce plain_terminal (ui_run plain_terminal (with_startup plain_startup) ask_inputs) (press (KcChar 97) True)))"
    by code_simp
  from permissions_need_a_rendered_frame [OF this] show ?thesis by blast
qed

subsection \<open>Reconciliation\<close>

text \<open>
  C24 An unknown effect is acknowledged only by Ctrl+A while connected, and only after Ctrl+R
  was pressed on the same session when it needed reconciliation of the same effect.
\<close>

theorem reconciliation_needs_a_review:
  assumes "ActReconcileUnknown sid effect \<in> set (fst (reduce T (ui_run T (with_startup startup) inputs) i))"
  shows "um_connection (ui_run T (with_startup startup) inputs) = CnConnected
    \<and> (\<exists>k. i = UiKey k \<and> answer_key k True)
    \<and> (\<exists>before k after. inputs = before @ UiKey k # after
         \<and> review_key (ui_run T (with_startup startup) before) k (sid, effect))"
proof -
  let ?m = "ui_run T (with_startup startup) inputs"
  have q: "um_queued ?m = None" by (rule run_queued) (simp add: start_fields)
  obtain k where i: "i = UiKey k"
    using only_keys_act [OF q assms] by auto
  have "um_confirmation ?m = Some (sid, effect) \<and> um_connection ?m = CnConnected \<and> answer_key k True"
    using key_reconciles [OF reduce_key_result [OF q, of k T]] assms by (simp add: i)
  then show ?thesis
    using confirmation_origin [of "with_startup startup" T inputs "(sid, effect)"] i by (auto simp: start_fields)
qed

definition unknown_card :: transcript_entry where
  "unknown_card = \<lparr>te_entry_id = 4, te_sequence = 1, te_turn_id = None, te_kind = TkFailure, te_text = [],
     te_payload = Some (JObj [(lit ''status'', JStr (lit ''unknown'')), (lit ''effect_id'', JStr [101])]),
     te_source_key = [], te_created_at_ms = 0\<rparr>"

definition review_inputs :: "ui_input list" where
  "review_inputs = [UiSessionOpened (plain_session LcReconciliationRequired None [unknown_card]), press (KcChar 114) True]"

lemma reconciliation_needs_a_review_witness:
  "\<exists>before k after. review_inputs = before @ UiKey k # after
     \<and> review_key (ui_run plain_terminal (with_startup plain_startup) before) k (7, [101])"
proof -
  have "ActReconcileUnknown 7 [101]
      \<in> set (fst (reduce plain_terminal (ui_run plain_terminal (with_startup plain_startup) review_inputs) (press (KcChar 97) True)))"
    by code_simp
  from reconciliation_needs_a_review [OF this] show ?thesis by blast
qed

subsection \<open>Submissions\<close>

text \<open>
  C22 One prompt is in flight at a time and none is lost: a submission is emitted alone, while
  connected, with nothing in flight, and is the text of the composer under the next identifier;
  and a prompt in flight is after any input still in flight, or a card of its session, or back
  in the composer with an error.
\<close>

theorem prompts_are_kept:
  assumes "m = ui_run T (with_startup startup) inputs" and "reduce T m i = (actions, m')"
  shows "(\<forall>a \<in> set actions. \<forall>n prompt. submits a = Some (n, prompt) \<longrightarrow>
       actions = [a] \<and> um_connection m = CnConnected \<and> um_pending m = None \<and> um_composer m = prompt
       \<and> um_next_submission m = n \<and> (\<exists>p. um_pending m' = Some p \<and> ps_submission_id p = n \<and> ps_prompt p = prompt))
    \<and> (\<forall>p. um_pending m = Some p \<longrightarrow> settled (tm_lib T) (assigned i p) m')"
proof -
  have q: "um_queued m = None" unfolding assms(1) by (rule run_queued) (simp add: start_fields)
  have "actions = [a] \<and> um_connection m = CnConnected \<and> um_pending m = None \<and> um_composer m = prompt
       \<and> um_next_submission m = n \<and> (\<exists>p. um_pending m' = Some p \<and> ps_submission_id p = n \<and> ps_prompt p = prompt)"
    if sub: "a \<in> set actions" "submits a = Some (n, prompt)" for a n prompt
  proof -
    obtain k where "i = UiKey k" using only_keys_act [OF q, of a T i] sub assms(2) by auto
    then show ?thesis using key_submits [OF _ sub] reduce_key_result [OF q, of k T] assms(2) by simp
  qed
  moreover have "settled (tm_lib T) (assigned i p) m'" if "um_pending m = Some p" for p
    using reduce_settles [OF q that, of T i] assms(2) by simp
  ultimately show ?thesis by blast
qed

lemma prompts_are_kept_witness:
  "\<exists>p. um_pending (snd (reduce plain_terminal (ui_run plain_terminal (with_startup plain_startup) [press (KcChar 104) False])
     (press KcEnter False))) = Some p \<and> ps_prompt p = [104]"
proof -
  let ?r = "reduce plain_terminal (ui_run plain_terminal (with_startup plain_startup) [press (KcChar 104) False]) (press KcEnter False)"
  have "strip_prefix [47] [104 :: nat] = None" by code_simp
  then have "fst ?r = [ActStart 1 [104]]"
    by (simp add: terminal_eval trim_def is_white_def only_shift_def)
  then obtain m' where r: "?r = ([ActStart 1 [104]], m')" by (metis prod.collapse)
  show ?thesis using conjunct1 [OF prompts_are_kept [OF refl r]] r by auto
qed

subsection \<open>The loop\<close>

definition loop_settles :: "loop_exit + 'a \<Rightarrow> bool" where
  "loop_settles r \<longleftrightarrow> r \<noteq> Inl LoopStuck"

lemma settles_bind: "loop_settles r \<Longrightarrow> (\<And>x. loop_settles (f x)) \<Longrightarrow> loop_settles (bindE r f)"
  by (cases r) (auto simp: loop_settles_def)

lemma settles_Inr [simp]: "loop_settles (Inr x)"
  by (simp add: loop_settles_def)

lemma settles_carry_out: "loop_settles (carry_out T P start)"
  by (simp add: loop_settles_def carry_out_settles)

lemma take_poll_settles: "loop_settles (take_poll T P p w)"
  by (cases p) (auto simp: take_poll_def intro!: settles_bind settles_carry_out)

lemma take_event_settles: "loop_settles (take_event T P ev w)"
  by (cases ev) (auto simp: take_event_def intro!: settles_bind settles_carry_out)

lemma iteration_settles: "loop_settles (loop_iteration T P i start)"
proof -
  have event: "loop_settles (case it_event i of None \<Rightarrow> Inr (w, False) | Some ev \<Rightarrow> take_event T P ev w)" for w
    by (simp add: take_event_settles split: option.split)
  have rest: "loop_settles (case drain_runtime_updates T (it_feedback i) (it_progress i) v of (changed, actions, w) \<Rightarrow>
     bindE (carry_out T P (actions, w)) (\<lambda>w.
     bindE (case it_event i of None \<Rightarrow> Inr (w, False) | Some ev \<Rightarrow> take_event T P ev w) (\<lambda>(w, redraw3).
     Inr (w, b1 \<or> b2 \<or> changed \<or> redraw3))))" for v b1 b2
    by (auto split: prod.split intro!: settles_bind settles_carry_out event)
  have start: "loop_settles (if it_interrupted i then bindE (carry_out T P (feed T k w)) (\<lambda>w. Inr (w, True)) else Inr (w, False))" for k w
    by (auto intro!: settles_bind settles_carry_out)
  show ?thesis
    unfolding loop_iteration_def Let_def
    by (intro settles_bind start) (auto intro!: settles_bind take_poll_settles rest)
qed

text \<open>
  C25 Carrying out actions ends: an action that the reducer emits while another is carried out
  emits none itself, so one level of nesting is always enough, and neither the start of the
  terminal nor any run of its loop runs out of it.
\<close>

theorem actions_settle:
  "apply_session_actions T P (Suc n) actions w = apply_session_actions T P 1 actions w
   \<and> fst (apply_session_actions T P 1 actions w) \<noteq> None
   \<and> start_terminal T P startup \<noteq> Inl LoopStuck \<and> run_loop T P us start \<noteq> Inl LoopStuck"
proof -
  have "loop_settles (run_loop T P us start)"
    by (induction us arbitrary: start) (simp_all add: settles_bind iteration_settles)
  moreover have "loop_settles (map_err LoopFailed (pj_catalog P 0))"
    by (simp add: loop_settles_def map_err_def split: sum.split)
  then have "loop_settles (start_terminal T P startup)"
    unfolding start_terminal_def by (intro settles_bind settles_carry_out settles_Inr)
  ultimately show ?thesis unfolding loop_settles_def using actions_settle_once [of T P n actions w] by blast
qed

text \<open>
  C23 After an event gap or a closed stream with a conversation open, the terminal never gets
  its authority back: whatever the projection answers and the user does, Ctrl+R included, it
  stays cut off and sends no prompt and no decision any more.
\<close>

theorem disabled_terminals_stay_disabled:
  assumes "um_active (tt_ui w) = Some (OpenConversation sid)" and "um_queued (tt_ui w) = None"
    and "p = PollLagged lost \<or> p = PollClosed" and "take_poll T P p w = Inr (w1, redraw1)"
    and "run_loop T P us (w1, redraw) = Inr (w2, redraw2)"
  shows "um_connection (tt_ui w2) \<noteq> CnConnected
    \<and> (\<exists>sent. tt_sent w2 = tt_sent w1 @ sent \<and> (\<forall>a \<in> set sent. \<not> decides a \<and> submits a = None))"
proof -
  have "disabled (tt_ui w1)"
    using assms(3)
  proof
    assume p: "p = PollClosed"
    show ?thesis using assms(1,2,4) by (auto simp: p take_poll_def fed no_actions_def disabled_def split: if_splits)
  next
    assume p: "p = PollLagged lost"
    let ?w = "snd (feed T UiLagged w)"
    have w: "disabled (tt_ui ?w)" using assms(1,2) by (simp add: fed disabled_def)
    have "result_stays ?w (feed T UiLagged w)"
      using stays_refl [OF w] by (simp add: result_stays_def) (simp add: fed harmless_def)
    then have "loop_stays ?w (take_poll T P p w)" by (auto simp: p take_poll_def intro!: carry_on_stays)
    then show ?thesis using assms(4) by (simp add: stays_disabledD)
  qed
  then have "loop_stays w1 (run_loop T P us (w1, redraw))" by (intro run_stays stays_refl)
  then show ?thesis using assms(5) by (auto simp: stays_disabled_def disabled_def harmless_def list_all_iff)
qed

definition plain_projection :: projection where
  "plain_projection =
     \<lparr>pj_snapshots = (\<lambda>_. Inr [plain_session LcReady None []]), pj_catalog = (\<lambda>_. Inr []),
      pj_session = (\<lambda>_ _. Inr (plain_session LcReady None [])), pj_exact_catalog = (\<lambda>_ _. Inr []),
      pj_search_catalog = (\<lambda>_ _. Inr []), pj_context_usage = (\<lambda>_ _. Inl []), pj_sink = (\<lambda>_ _. Inr ())\<rparr>"

definition plain_start :: terminal where
  "plain_start = snd (feed plain_terminal (UiSessionOpened (plain_session LcReady None []))
     \<lparr>tt_ui = with_startup plain_startup, tt_calls = 0, tt_sent = []\<rparr>)"

definition refresh_round :: iteration where
  "refresh_round = \<lparr>it_now = 0, it_interrupted = False, it_poll = PollEvent, it_feedback = [], it_progress = [],
     it_event = Some (EvKey \<lparr>ke_code = KcChar 114, ke_shift = False, ke_control = True, ke_other_modifier = False,
       ke_release = False, ke_at = 0\<rparr>)\<rparr>"

lemma disabled_terminals_stay_disabled_witness:
  "\<exists>w1 b1 w2 b2. take_poll plain_terminal plain_projection (PollLagged 1) plain_start = Inr (w1, b1)
     \<and> run_loop plain_terminal plain_projection [refresh_round] (w1, True) = Inr (w2, b2)
     \<and> um_connection (tt_ui w2) \<noteq> CnConnected"
proof -
  have "case take_poll plain_terminal plain_projection (PollLagged 1) plain_start of Inl _ \<Rightarrow> False
    | Inr (w1, _) \<Rightarrow> (case run_loop plain_terminal plain_projection [refresh_round] (w1, True) of Inl _ \<Rightarrow> False | Inr _ \<Rightarrow> True)"
    by code_simp
  then obtain w1 b1 w2 b2 where w1: "take_poll plain_terminal plain_projection (PollLagged 1) plain_start = Inr (w1, b1)"
    and w2: "run_loop plain_terminal plain_projection [refresh_round] (w1, True) = Inr (w2, b2)"
    by (auto split: sum.splits)
  have "um_active (tt_ui plain_start) = Some (OpenConversation 7) \<and> um_queued (tt_ui plain_start) = None" by code_simp
  then show ?thesis
    using disabled_terminals_stay_disabled [OF _ _ _ w1 w2, of 7 1] w1 w2 by blast
qed

end
