(* ===== verification/Spec2Isabelle.thy ===== *)
theory Spec2Isabelle
  imports Store_Properties Core_Properties Service_Properties List_Properties History_Properties
    Conversation_Properties Registry_Properties Tool_Properties Effect_Properties Cancellation
    Context_Properties Agent_Properties Agent_History Terminal_Properties
begin

text \<open>
  Latte Code: a verification library of its durable core and of its agent runtime.

  \<^bold>\<open>The program.\<close> Latte runs coding agents as durable sessions. A session is a conversation
  with a model provider; each prompt runs as a turn (a child of the session) that may ask
  for permissions, start external effects and complete with a handoff. Everything a crash
  must not lose is in one SQLite database behind \<open>src/crates/latte-engine/src/storage.rs\<close>:
  many processes (a terminal client, a server, a headless runner) open the same file, and
  the engine coordinates them by leases with fencing tokens, compare-and-swap revisions,
  and replay records of accepted commands. The pure part below it is \<open>latte-core\<close> (the turn
  state machine, the protocol data, redaction, the context budget of a harness profile);
  \<open>latte-engine/src/lib.rs\<close> puts guards in front of the store. The headless runtime
  (\<open>latte-headless\<close>) turns the durable transcript into provider requests within a byte
  budget, compacts it when it does not fit, and decodes what the provider answers.

  \<^bold>\<open>Theories and what they model.\<close>
  \<^item> \<^theory_text>\<open>Prelude\<close>: results as sums (\<open>bindE\<close> is the question mark operator), the bounds of
    \<open>u64\<close> and of SQLite's \<open>i64\<close> columns, tables as lists of rows with the statements issued
    on them, and the locales \<open>keyed_table\<close>, \<open>guarded_machine\<close> and \<open>monotone_machine\<close>.
  \<^item> \<^theory_text>\<open>Rust_Text\<close>, \<^theory_text>\<open>Protocol\<close>, \<^theory_text>\<open>Turn_State\<close>, \<^theory_text>\<open>Harness_Profile\<close>: \<open>latte-core\<close>. Strings are lists
    of code points with their UTF-8 length; \<open>redact_session_text\<close> and
    \<open>redact_session_value\<close>; \<open>TurnState::transition\<close>; context policies, budgets and prompts.
  \<^item> \<^theory_text>\<open>Store_Schema\<close>: errors, requests, rows of the schema at version 15, validators.
    \<^theory_text>\<open>Command_Digest\<close>: what the digests of commands cover. \<^theory_text>\<open>Store_Leases\<close>: acquisition and
    renewal, with the locale \<open>lease_service\<close>. \<^theory_text>\<open>Store_Snapshot\<close>: snapshots and the two
    transcript projections. \<^theory_text>\<open>Session_Lists\<close>: the catalogue of sessions, its cursors and
    pages, with the locale \<open>keyset\<close>. \<^theory_text>\<open>Store_Writes\<close>: the shared insertions and
    \<open>append_linked_turn_transition\<close>.
  \<^item> \<^theory_text>\<open>Store_Commit\<close>: \<open>commit_session_turn_update\<close>, one definition per arm of its match.
    \<^theory_text>\<open>Store_Create\<close>: creation, follow-up, model switch, fork, rename. \<^theory_text>\<open>Store_Recovery\<close>:
    release and recovery. \<^theory_text>\<open>Store_Runs\<close>: runs outside a session, permissions, effects,
    evidence, and the engine's guards.
  \<^item> \<^theory_text>\<open>Commit_Ledger\<close>, \<^theory_text>\<open>Commit_Drafts\<close>, \<^theory_text>\<open>Commit_Effects\<close>, \<^theory_text>\<open>Session_Store\<close>: what a commit does,
    abstractly. The arms touch the effect ledger only and move it along \<open>effect_edge\<close>
    (\<open>ledger_move\<close>); the draft they leave agrees with the lifecycle (\<open>draft_ok\<close>); the writes
    after them are summarised as \<open>committed_tables\<close> and its companions. \<open>store_ok\<close> is the
    invariant of the store.
  \<^item> \<^theory_text>\<open>Store_Change\<close>, \<^theory_text>\<open>Commit_Keeps\<close>, \<^theory_text>\<open>Create_Keeps\<close>, \<^theory_text>\<open>Run_Keeps\<close>, \<^theory_text>\<open>Recover_Keeps\<close>: every
    operation keeps \<open>store_ok\<close> and moves the store along \<open>store_grows\<close> (\<open>store_le\<close>, and the
    transcript outbox only loses a prefix that was acknowledged). \<^theory_text>\<open>Store_Machine\<close> puts the
    operations together as \<open>store_step\<close> and interprets \<open>monotone_machine\<close> on it, from which
    the properties about arbitrary runs follow.
  \<^item> \<^theory_text>\<open>Conversation_Log\<close>: \<open>latte-engine/src/conversation.rs\<close>, the JSONL file of a session as bytes
    in a file system with symbolic links, its repair, reading and appending, and the sync
    and page operations of the engine. \<^theory_text>\<open>Conversation_Sync\<close>: well-formed files and what a sync
    writes. \<^theory_text>\<open>Conversation_Service\<close>: the store and the files as one machine with crashes, its
    invariant \<open>conv_ok\<close> and the history of a session.
  \<^item> \<^theory_text>\<open>Workspace_Config\<close>: \<open>latte-code/src/lib.rs\<close>, the layers of the application configuration,
    their merge and the trust gate on endpoints a workspace names. \<^theory_text>\<open>Provider_Registry\<close> and
    \<^theory_text>\<open>Provider_Binding\<close>: \<open>latte-headless/src/registry.rs\<close>, validation, the model catalogue, the
    wire names of tools, fingerprints, bindings and the aliased provider. \<^theory_text>\<open>Registry_Facts\<close>:
    the lemmas on wire tables and resolution.
  \<^item> \<^theory_text>\<open>Headless_Profile\<close>: \<open>latte-headless/src/profile.rs\<close>, from a binding to the budget, prompts
    and compaction policy. \<^theory_text>\<open>Provider_Types\<close> and \<^theory_text>\<open>Provider_Stream\<close>: \<open>provider.rs\<close>, the message
    grammar, decoding, errors, the request loop, and the SSE parser over chunks of bytes.
  \<^item> \<^theory_text>\<open>Headless_History\<close>: \<open>session.rs\<close> of the same crate, the segments rebuilt from transcript
    cards and the elision of tool results; \<open>segment_ok\<close> is their invariant.
    \<^theory_text>\<open>Volatile_Frames\<close>: the framed tail. \<^theory_text>\<open>Request_Fit\<close>: the two-phase fit and the assembly of
    requests. \<^theory_text>\<open>History_Planner\<close>: \<open>prepare_history\<close> with its tiers; \<open>sendable\<close> is what every
    prepared request satisfies.
  \<^item> \<^theory_text>\<open>Utf8_Text\<close>: the UTF-8 encoding and lossy decoding of strings. \<^theory_text>\<open>Workspace_Files\<close>:
    \<open>latte-engine/src/workspace.rs\<close>, confined paths over a tree of directories, files and
    links, and the atomic replacement of a file. \<^theory_text>\<open>Tool_Descriptors\<close> and \<^theory_text>\<open>Tools\<close>: \<open>tools.rs\<close> and
    \<open>policy.rs\<close>, the schemas of the tools, the preparation of a call, its class and its
    digest, and the execution of every tool. \<^theory_text>\<open>Tool_Properties\<close>: what a prepared call
    binds, what an edit does and that no tool leaves the workspace.
  \<^item> \<^theory_text>\<open>Process_Policy\<close>: \<open>process.rs\<close>, process requests, their classification, and the
    supervision of a process group: capture of its output, deadline, grace period and kill.
    \<^theory_text>\<open>Cancellation\<close>: the token of a run as a step relation. \<^theory_text>\<open>Process_Properties\<close>: what the
    policy lets through, what is captured, and how many answers a shutdown needs.
  \<^item> \<^theory_text>\<open>Engine_Commit\<close>: \<open>latte-engine/src/lib.rs\<close>, the commit entry point with its completion
    guard, the sampling of the workspace and verified completion. \<^theory_text>\<open>Engine_Effects\<close>: the
    protocol of an effect from its preparation to its reconciliation, over the store, the
    tools and the processes. \<^theory_text>\<open>Effect_Properties\<close>: an effect that runs was prepared,
    recorded and authorised as the operation that runs.
  \<^item> \<^theory_text>\<open>Repository_Context\<close>: \<open>latte-headless/src/context.rs\<close>, the guidance and manifest files of a
    request. \<^theory_text>\<open>Context_Properties\<close>: they lie in the workspace and their text is bounded.
  \<^item> \<^theory_text>\<open>Agent_Runtime\<close>, \<^theory_text>\<open>Agent_Turn\<close>, \<^theory_text>\<open>Agent_Session\<close>: the session runtime of
    \<open>latte-headless/src/session.rs\<close>. Its state is the record \<open>agent\<close> (the engine with its store,
    files and tools, the mailboxes, breakers, reminders and the sessions at work); an operation
    is a value of type \<open>act\<close>, a function from that state to a result and a new state, composed
    by \<open>bindA\<close>. \<open>Agent_Runtime\<close> has the calls into the engine, the mailboxes, the lease guard and
    the summary of a history; \<open>Agent_Turn\<close> the loop of a turn: its requests, the handling of an
    answer, tool rounds, effects, verification and the compaction between two rounds;
    \<open>Agent_Session\<close> the operations a client calls, from \<open>start_session\<close> to \<open>compact_session\<close>.
  \<^item> \<^theory_text>\<open>Agent_Moves\<close>: everything the runtime does to the engine is a sequence of five kinds of move,
    \<open>engine_move\<close>; the locale \<open>engine_order\<close> derives from the laws of a preorder on engine
    worlds that each operation stays in it. \<^theory_text>\<open>Agent_Requests\<close>: a logic of results for actions
    and what the loop sends. \<^theory_text>\<open>Agent_History\<close>: a loaded session has its whole transcript. \<^theory_text>\<open>Agent_Properties\<close>: the runtime as a machine over its
    operations, and what it guarantees of the store, the files and the provider.
  \<^item> \<^theory_text>\<open>Terminal_Commands\<close>: \<open>latte-tui/src/command.rs\<close>. \<^theory_text>\<open>Terminal_Projection\<close>, \<^theory_text>\<open>Terminal_Model\<close>,
    \<^theory_text>\<open>Terminal_Reducer\<close>, \<^theory_text>\<open>Terminal_Loop\<close>, \<^theory_text>\<open>Terminal_Layout\<close>: \<open>latte-tui/src/session.rs\<close>. The state
    is the record \<open>ui\<close>; \<open>reduce\<close> takes an input to actions and a new state, one definition per
    surface that owns the keys; \<open>loop_iteration\<close> polls, drains completions, reads one event and
    carries the actions out. \<^theory_text>\<open>Terminal_Steps\<close>, \<^theory_text>\<open>Terminal_Runs\<close>: what each input
    leaves alone and what it can emit; \<^theory_text>\<open>Terminal_Disabled\<close> lifts this to the loop, and
    \<^theory_text>\<open>Terminal_Properties\<close> states it.
  \<^item> \<^theory_text>\<open>Session_Commits\<close>, \<^theory_text>\<open>Session_Effects\<close>, \<^theory_text>\<open>Store_Properties\<close>, \<^theory_text>\<open>Service_Properties\<close>,
    \<^theory_text>\<open>List_Properties\<close>, \<^theory_text>\<open>Core_Properties\<close>, \<^theory_text>\<open>History_Properties\<close>,
    \<^theory_text>\<open>Conversation_Properties\<close>, \<^theory_text>\<open>Registry_Properties\<close>: the properties, each with a witness at a concrete
    store of \<^theory_text>\<open>Store_Example\<close> or of its own.

  \<^bold>\<open>How the model corresponds to the code.\<close>
  \<^item> A transaction is a function from the database to an error or a new database. An error
    rolls back: the caller keeps the old value, which \<open>run_steps\<close> makes explicit. The
    \<open>BEGIN IMMEDIATE\<close> transactions of all processes are serialised by SQLite, so a run of
    the store is a list of operations.
  \<^item> A table is the list of its rows in \<open>rowid\<close> order; primary keys and unique constraints
    are the clashes of \<open>sql_insert\<close>; foreign keys are part of the invariant. JSON columns
    hold the typed value that was serialised into them, identifier columns the identifier;
    statuses and lifecycles stay text, as the statements compare them.
  \<^item> \<open>u64\<close> values are naturals with the checked operations written out; \<open>to_i64\<close> is applied
    where the code applies it, except a second time to a value already converted. Values
    read back are not negative, so \<open>from_i64\<close> does not appear.
  \<^item> Each \<open>Uuid::now_v7()\<close> is one index of the argument \<open>ids\<close>; the clock is the argument
    \<open>now\<close>. Foreign crates are the fields of the record \<open>lib\<close>: the scrubbing regular
    expressions, \<open>uuid\<close> text and parsing, \<open>serde_json\<close> parsing, printing and error texts
    (\<open>json_error\<close> stands for every \<open>from_str\<close> error), and SHA-256 over a JSON value.
  \<^item> \<open>StaleTurnRevision\<close> is \<open>StorageError::StaleRevision\<close>. The operation \<open>OpCreateTurn\<close>
    refuses an identifier already linked to a session, which the primary key of \<open>turns\<close>
    refuses in the database.

  \<^bold>\<open>Bounds and fuel.\<close> All recursions are structural or measured; \<open>read_paged\<close> takes one
  more step than there are sessions, and \<open>search_pages_are_the_search\<close> shows that this is
  enough; \<open>load_pages\<close> asks for as many pages as the session has sequences, and
  \<open>full_loads_are_the_history\<close> shows that this is enough; \<open>request_loop\<close> reads one observation per attempt, and \<open>request_loop_settles\<close> shows
  that as many as the configured attempts settle it. Supervision reads its process group
    from a finite list of answers; \<open>shutdown_needs_bounded_answers\<close> bounds how many a shutdown
    consumes. \<open>turn_loop\<close> takes the number of requests a turn may make, which the code bounds by
    the policy of the session, and \<open>drain_queue\<close> the number of queued prompts; a theorem about the
    runtime holds for every value of them. \<open>apply_session_actions\<close> takes the nesting of actions that
    emit actions, and \<open>actions_settle\<close> shows that one level is enough. Completion samples the workspace at most six times in three attempts, as the
    constants of the code say.

  \<^bold>\<open>Not modelled.\<close> Schema migrations and the legacy import (DDL and row copies inside SQLite);
  the asynchronous engine around the store (tasks, channels, heartbeats); the HTTP client of
  the provider adapter (its attempts are given by what the transport reported), the JSON5
  parser and the derived deserializers (arguments of the definitions that use them); the
  regular expressions, globs, ignore-aware walk and Git invocations of the tools
  (parameters); the drawing of the terminal with \<open>ratatui\<close>; code under \<open>#[cfg(test)]\<close>. The manifest lists the
  parts with their reasons.
\<close>

end
